(* ===== verification/Prelude.thy ===== *)
theory Prelude
  imports Complex_Main "HOL-Library.Sublist"
begin

text \<open>
  What every theory of this development shares: the collections of facts that carry the
  proofs, Go's 64-bit integers and durations, the parts of the packages \<open>strings\<close>,
  \<open>strconv\<close> and \<open>fmt\<close> the code uses, and lists kept by key (the
  "find the entry with this name, replace it, otherwise append" loops that the controllers
  repeat for resource statuses, repository states and conditions).
\<close>

named_theorems go_ints "facts about 64-bit integers and durations"
named_theorems go_strings "facts about string operations"
named_theorems keyed "facts about lists kept by key"
named_theorems handler_defs "definitions of handlers and of what they call"
named_theorems frame "what a handler leaves unchanged"

section \<open>Go integers\<close>

text \<open>
  Values of the types \<open>int\<close>, \<open>int64\<close> and \<open>time.Duration\<close> are integers;
  \<open>wrap64\<close> is the two's complement value that a 64-bit operation keeps of an exact
  result. It is written wherever an operation of the code can leave the 64-bit range.
\<close>

type_synonym duration = int \<comment> \<open>nanoseconds, \<open>time.Duration\<close>\<close>
type_synonym instant = int \<comment> \<open>nanoseconds since the epoch, \<open>metav1.Time\<close>\<close>

definition wrap64 :: "int \<Rightarrow> int" where
  "wrap64 x = (x + 2 ^ 63) mod 2 ^ 64 - 2 ^ 63"

definition in_int64 :: "int \<Rightarrow> bool" where
  "in_int64 x \<longleftrightarrow> - (2 ^ 63) \<le> x \<and> x < 2 ^ 63"

lemma wrap64_id [go_ints]: "in_int64 x \<Longrightarrow> wrap64 x = x"
  by (simp add: wrap64_def in_int64_def)

lemma wrap64_in_int64 [go_ints, simp]: "in_int64 (wrap64 x)"
  using pos_mod_bound [of "2 ^ 64" "x + 2 ^ 63"] pos_mod_sign [of "2 ^ 64" "x + 2 ^ 63"]
  by (simp add: wrap64_def in_int64_def)

lemma wrap64_small [simp]:
  "- 9223372036854775808 \<le> x \<Longrightarrow> x < 9223372036854775808 \<Longrightarrow> wrap64 x = x"
  by (rule wrap64_id) (simp add: in_int64_def)

text \<open>Go's integer division truncates towards zero.\<close>

definition go_div :: "int \<Rightarrow> int \<Rightarrow> int" where
  "go_div a b = sgn a * sgn b * (\<bar>a\<bar> div \<bar>b\<bar>)"

lemma go_div_nonneg [go_ints, simp]: "0 \<le> a \<Longrightarrow> 0 \<le> b \<Longrightarrow> go_div a b = a div b"
  by (cases "a = 0"; cases "b = 0") (auto simp: go_div_def)

definition nanosecond :: duration where "nanosecond = 1"
definition millisecond :: duration where "millisecond = 1000000"
definition second :: duration where "second = 1000000000"
definition minute :: duration where "minute = 60 * second"
definition hour :: duration where "hour = 60 * minute"

lemmas duration_defs = nanosecond_def millisecond_def second_def minute_def hour_def

section \<open>Strings\<close>

text \<open>
  A Go string is its bytes, a \<open>char list\<close>. Letters change case in the ASCII range:
  the code applies \<open>strings.ToLower\<close> to names and error texts, and the only characters
  outside that range whose lower case falls into it (the Kelvin sign and the dotted capital I)
  are not modelled.
\<close>

definition between :: "char \<Rightarrow> char \<Rightarrow> char \<Rightarrow> bool" where
  "between lo hi c \<longleftrightarrow> (of_char lo :: nat) \<le> of_char c \<and> (of_char c :: nat) \<le> of_char hi"

definition is_upper :: "char \<Rightarrow> bool" where "is_upper = between CHR ''A'' CHR ''Z''"
definition is_lower :: "char \<Rightarrow> bool" where "is_lower = between CHR ''a'' CHR ''z''"
definition is_digit :: "char \<Rightarrow> bool" where "is_digit = between CHR ''0'' CHR ''9''"

definition lower_char :: "char \<Rightarrow> char" where
  "lower_char c = (if is_upper c then char_of (of_char c + (32 :: nat)) else c)"

definition to_lower :: "string \<Rightarrow> string" where
  "to_lower = map lower_char"

definition to_upper_char :: "char \<Rightarrow> char" where
  "to_upper_char c = (if is_lower c then char_of (of_char c - (32 :: nat)) else c)"

lemma lower_char_id: "is_lower c \<or> is_digit c \<Longrightarrow> lower_char c = c"
  by (auto simp: lower_char_def is_upper_def is_lower_def is_digit_def between_def)

lemma lower_char_dash [simp]:
  "lower_char CHR ''-'' = CHR ''-''" "lower_char CHR ''.'' = CHR ''.''"
  by (simp_all add: lower_char_def is_upper_def between_def)

lemma of_char_lower: "is_upper c \<Longrightarrow> (of_char (lower_char c) :: nat) = of_char c + 32"
  by (simp add: lower_char_def is_upper_def between_def)

lemma lower_char_not_upper: "\<not> is_upper (lower_char c)"
proof (cases "is_upper c")
  case True
  then have "(of_char (lower_char c) :: nat) = of_char c + 32" and "(65 :: nat) \<le> of_char c"
    by (rule of_char_lower) (use True in \<open>simp add: is_upper_def between_def\<close>)
  then show ?thesis by (simp add: is_upper_def between_def)
qed (simp add: lower_char_def)

lemma lower_char_idem [simp]: "lower_char (lower_char c) = lower_char c"
  using lower_char_not_upper [of c] by (simp add: lower_char_def)

lemma to_lower_idem [simp]: "to_lower (to_lower s) = to_lower s"
  by (simp add: to_lower_def comp_def)

text \<open>\<open>strings.Contains\<close>, \<open>strings.HasPrefix\<close>, \<open>strings.HasSuffix\<close>.\<close>

abbreviation contains_str :: "string \<Rightarrow> string \<Rightarrow> bool" where
  "contains_str s sub \<equiv> sublist sub s"

abbreviation has_prefix :: "string \<Rightarrow> string \<Rightarrow> bool" where
  "has_prefix s p \<equiv> prefix p s"

abbreviation has_suffix :: "string \<Rightarrow> string \<Rightarrow> bool" where
  "has_suffix s p \<equiv> suffix p s"

text \<open>\<open>strings.TrimPrefix\<close> and \<open>strings.TrimSuffix\<close>.\<close>

definition trim_prefix :: "string \<Rightarrow> string \<Rightarrow> string" where
  "trim_prefix s p = (if has_prefix s p then drop (length p) s else s)"

definition trim_suffix :: "string \<Rightarrow> string \<Rightarrow> string" where
  "trim_suffix s p = (if has_suffix s p then take (length s - length p) s else s)"

lemma prefix_split: "has_prefix s p \<Longrightarrow> s = p @ trim_prefix s p"
  by (auto simp: trim_prefix_def prefix_def)

lemma suffix_split: "has_suffix s p \<Longrightarrow> s = trim_suffix s p @ p"
  by (auto simp: trim_suffix_def suffix_def)

text \<open>\<open>strings.Trim\<close> with a cutset, here given as a predicate.\<close>

definition trim :: "('a \<Rightarrow> bool) \<Rightarrow> 'a list \<Rightarrow> 'a list" where
  "trim p s = rev (dropWhile p (rev (dropWhile p s)))"

text \<open>The characters \<open>strings.TrimSpace\<close> removes.\<close>

definition is_space :: "char \<Rightarrow> bool" where
  "is_space c \<longleftrightarrow> c = CHR '' '' \<or> between CHR 0x09 CHR 0x0D c"

text \<open>What follows the first occurrence of a separator, \<open>strings.SplitN(s, sep, 2)[1]\<close>.\<close>

fun after_first :: "string \<Rightarrow> string \<Rightarrow> string option" where
  "after_first sep [] = (if sep = [] then Some [] else None)"
| "after_first sep (c # cs) =
     (if has_prefix (c # cs) sep then Some (drop (length sep) (c # cs)) else after_first sep cs)"

abbreviation newline :: char where "newline \<equiv> CHR 0x0A"

text \<open>\<open>strings.Join\<close>.\<close>

fun join :: "'a list \<Rightarrow> 'a list list \<Rightarrow> 'a list" where
  "join sep [] = []"
| "join sep [x] = x"
| "join sep (x # y # xs) = x @ sep @ join sep (y # xs)"

text \<open>\<open>strings.FieldsFunc\<close>: the maximal runs of characters that are not separators.\<close>

function fields_func :: "('a \<Rightarrow> bool) \<Rightarrow> 'a list \<Rightarrow> 'a list list" where
  "fields_func p [] = []"
| "fields_func p (c # cs) =
     (if p c then fields_func p cs
      else (c # takeWhile (\<lambda>x. \<not> p x) cs) # fields_func p (dropWhile (\<lambda>x. \<not> p x) cs))"
  by pat_completeness auto
termination
  by (relation "measure (\<lambda>(p, s). length s)") (auto simp: le_imp_less_Suc length_dropWhile_le)

text \<open>\<open>strings.Split\<close> at a one-character separator.\<close>

fun split_on :: "'a \<Rightarrow> 'a list \<Rightarrow> 'a list list" where
  "split_on sep [] = [[]]"
| "split_on sep (c # cs) =
     (if c = sep then [] # split_on sep cs
      else (case split_on sep cs of [] \<Rightarrow> [[c]] | w # ws \<Rightarrow> (c # w) # ws))"

text \<open>The decimal form that \<open>%d\<close> prints.\<close>

fun digits_of :: "nat \<Rightarrow> string" where
  "digits_of n = (if n < 10 then [char_of (48 + n)] else digits_of (n div 10) @ [char_of (48 + n mod 10)])"

declare digits_of.simps [simp del]

definition fmt_d :: "int \<Rightarrow> string" where
  "fmt_d i = (if i < 0 then ''-'' @ digits_of (nat (- i)) else digits_of (nat i))"

lemma digits_of_nonempty [simp]: "digits_of n \<noteq> []"
  by (subst digits_of.simps) simp

lemma fmt_d_nonempty [simp]: "fmt_d i \<noteq> []"
  by (simp add: fmt_d_def)

text \<open>What \<open>%v\<close> prints for a duration (\<open>time.Duration.String\<close>), as in \<open>1h0m2.5s\<close>.\<close>

definition fraction_of :: "nat \<Rightarrow> nat \<Rightarrow> string" where
  "fraction_of u prec =
     (let ds = digits_of (u mod 10 ^ prec);
          padded = replicate (prec - length ds) CHR ''0'' @ ds;
          frac = rev (dropWhile (\<lambda>c. c = CHR ''0'') (rev padded))
      in if frac = [] then [] else CHR ''.'' # frac)"

definition fmt_duration :: "duration \<Rightarrow> string" where
  "fmt_duration d =
     (let u = nat \<bar>d\<bar>; secs = u div 1000000000; mins = secs div 60; hours = mins div 60;
          text = (if u = 0 then ''0s''
                  else if u < 1000 then digits_of u @ ''ns''
                  else if u < 1000000 then digits_of (u div 1000) @ fraction_of u 3 @ [CHR 0xC2, CHR 0xB5] @ ''s''
                  else if u < 1000000000 then digits_of (u div 1000000) @ fraction_of u 6 @ ''ms''
                  else (if hours > 0 then digits_of hours @ ''h'' else [])
                       @ (if mins > 0 then digits_of (mins mod 60) @ ''m'' else [])
                       @ digits_of (secs mod 60) @ fraction_of u 9 @ ''s'')
      in if d < 0 then CHR ''-'' # text else text)"

subsection \<open>Facts about the string operations\<close>

lemma trim_subset [go_strings]: "set (trim p s) \<subseteq> set s"
proof -
  have "set (dropWhile p t) \<subseteq> set t" for t :: "'a list"
    by (rule set_mono_suffix) (rule suffix_dropWhile)
  then show ?thesis unfolding trim_def by (metis order_trans set_rev)
qed

lemma dropWhile_hd: "dropWhile p s \<noteq> [] \<Longrightarrow> \<not> p (hd (dropWhile p s))"
  by (rule hd_dropWhile)

lemma trim_last [go_strings]:
  assumes "trim p s \<noteq> []" shows "\<not> p (last (trim p s))"
proof -
  have "dropWhile p (rev (dropWhile p s)) \<noteq> []" using assms by (simp add: trim_def)
  from hd_dropWhile [OF this] show ?thesis using assms by (simp add: trim_def last_rev)
qed

lemma trim_hd [go_strings]:
  assumes "trim p s \<noteq> []" shows "\<not> p (hd (trim p s))"
proof -
  let ?d = "dropWhile p s"
  have ne: "?d \<noteq> []" using assms by (metis dropWhile.simps(1) rev.simps(1) trim_def)
  obtain pre where pre: "?d = trim p s @ pre"
    by (metis rev_rev_ident rev_append takeWhile_dropWhile_id trim_def)
  then have "hd (trim p s) = hd ?d" using assms by simp
  with hd_dropWhile [OF ne] show ?thesis by simp
qed

lemma trim_id [go_strings]:
  assumes "s \<noteq> [] \<Longrightarrow> \<not> p (hd s)" and "s \<noteq> [] \<Longrightarrow> \<not> p (last s)"
  shows "trim p s = s"
proof (cases "s = []")
  case False
  then have "dropWhile p s = s" using assms(1) by (cases s) auto
  moreover have "dropWhile p (rev s) = rev s"
    using False assms(2) by (cases "rev s") (auto simp: hd_rev [symmetric])
  ultimately show ?thesis by (simp add: trim_def)
qed (simp add: trim_def)

lemma set_join: "set (join sep xs) \<subseteq> set sep \<union> \<Union> (set ` set xs)"
  by (induction sep xs rule: join.induct) auto

lemma fields_func_set: "w \<in> set (fields_func p s) \<Longrightarrow> w \<noteq> [] \<and> set w \<subseteq> {c \<in> set s. \<not> p c}"
proof (induction p s rule: fields_func.induct)
  case (2 p c cs)
  have "set (dropWhile (\<lambda>x. \<not> p x) cs) \<subseteq> set cs"
    by (rule set_mono_suffix) (rule suffix_dropWhile)
  with 2 show ?case
    by (auto split: if_splits dest: set_takeWhileD)
qed simp

section \<open>Maps of strings, and lists in pieces\<close>

type_synonym string_map = "(string \<times> string) list"

text \<open>The pieces of at most \<open>n\<close> elements that a loop over a long list works on.\<close>

function chunks :: "nat \<Rightarrow> 'a list \<Rightarrow> 'a list list" where
  "chunks n xs = (if xs = [] then [] else if n = 0 then [xs] else take n xs # chunks n (drop n xs))"
  by pat_completeness auto
termination by (relation "measure (\<lambda>(n, xs). length xs)") auto

declare chunks.simps [simp del]

lemma concat_chunks [simp]: "concat (chunks n xs) = xs"
  by (induction n xs rule: chunks.induct) (subst chunks.simps, simp)

lemma chunks_length: "ys \<in> set (chunks n xs) \<Longrightarrow> 0 < n \<Longrightarrow> length ys \<le> n"
  by (induction n xs rule: chunks.induct) (subst (asm) (2) chunks.simps, auto split: if_splits)

section \<open>Lists kept by key\<close>

text \<open>The first index whose element has a property, and the first element with a key.\<close>

fun find_index :: "('a \<Rightarrow> bool) \<Rightarrow> 'a list \<Rightarrow> nat option" where
  "find_index P [] = None"
| "find_index P (x # xs) = (if P x then Some 0 else map_option Suc (find_index P xs))"

text \<open>Replace the first element with a property, or append: the loops with \<open>found\<close>.\<close>

fun replace_first :: "('a \<Rightarrow> bool) \<Rightarrow> 'a \<Rightarrow> 'a list \<Rightarrow> 'a list" where
  "replace_first P y [] = [y]"
| "replace_first P y (x # xs) = (if P x then y # xs else x # replace_first P y xs)"

text \<open>Change the first element with a property, if there is one: the loops with \<open>break\<close>.\<close>

fun map_first :: "('a \<Rightarrow> bool) \<Rightarrow> ('a \<Rightarrow> 'a) \<Rightarrow> 'a list \<Rightarrow> 'a list" where
  "map_first P f [] = []"
| "map_first P f (x # xs) = (if P x then f x # xs else x # map_first P f xs)"

lemma find_index_Some [keyed]:
  "find_index P xs = Some i \<Longrightarrow> i < length xs \<and> P (xs ! i) \<and> (\<forall>j < i. \<not> P (xs ! j))"
proof (induction xs arbitrary: i)
  case (Cons x xs)
  then show ?case by (auto split: if_splits simp: nth_Cons split: nat.splits)
qed simp

lemma find_index_None [keyed]: "find_index P xs = None \<longleftrightarrow> (\<forall>x \<in> set xs. \<not> P x)"
  by (induction xs) auto

lemma find_mem [keyed]: "find P xs = Some x \<Longrightarrow> x \<in> set xs \<and> P x"
  by (auto simp: find_Some_iff)

lemma find_index_find: "find P xs = map_option ((!) xs) (find_index P xs)"
  by (induction xs) (auto simp: option.map_comp comp_def)

lemma length_map_first [simp]: "length (map_first P f xs) = length xs"
  by (induction xs) auto

lemma map_map_first [keyed]:
  "(\<And>x. P x \<Longrightarrow> g (f x) = g x) \<Longrightarrow> map g (map_first P f xs) = map g xs"
  by (induction xs) auto

lemma map_first_update:
  "map_first P f xs = (case find_index P xs of None \<Rightarrow> xs | Some i \<Rightarrow> xs[i := f (xs ! i)])"
  by (induction xs) (auto split: option.splits)

lemma replace_first_update:
  "replace_first P y xs = (case find_index P xs of None \<Rightarrow> xs @ [y] | Some i \<Rightarrow> xs[i := y])"
  by (induction xs) (auto split: option.splits)

lemma find_replace_first [keyed]:
  "find (\<lambda>x. k x = a) (replace_first (\<lambda>x. k x = k y) y xs)
   = (if k y = a then Some y else find (\<lambda>x. k x = a) xs)"
  by (induction xs) auto

lemma keys_replace_first [keyed]:
  "map k (replace_first (\<lambda>x. k x = k y) y xs)
   = (if k y \<in> set (map k xs) then map k xs else map k xs @ [k y])"
  by (induction xs) auto

lemma distinct_replace_first [keyed]:
  "distinct (map k xs) \<Longrightarrow> distinct (map k (replace_first (\<lambda>x. k x = k y) y xs))"
  by (simp add: keys_replace_first)

text \<open>Counting the elements with a property, before and after one replacement.\<close>

abbreviation count_if :: "('a \<Rightarrow> bool) \<Rightarrow> 'a list \<Rightarrow> nat" where
  "count_if P xs \<equiv> length (filter P xs)"

lemma count_if_update:
  "i < length xs \<Longrightarrow>
   count_if P (xs[i := y]) + (if P (xs ! i) then 1 else 0) = count_if P xs + (if P y then 1 else 0)"
proof (induction xs arbitrary: i)
  case (Cons x xs)
  show ?case
  proof (cases i)
    case (Suc j)
    with Cons.prems have "j < length xs" by simp
    from Cons.IH [OF this] Suc show ?thesis by auto
  qed auto
qed simp

lemma count_if_le: "count_if P xs \<le> length xs"
  by (rule length_filter_le)

section \<open>Stores\<close>

text \<open>
  The contract of everything the code looks up by key: a lookup returns what was last put
  under its key, and a put under another key does not change it. The controllers' lists of
  resource statuses and repository states, the conditions of a status, and the caches
  promise it.
\<close>

locale keyed_store =
  fixes look :: "'s \<Rightarrow> 'k \<Rightarrow> 'v option"
    and put :: "'v \<Rightarrow> 's \<Rightarrow> 's"
    and key :: "'v \<Rightarrow> 'k"
    and wf :: "'s \<Rightarrow> bool"
  assumes look_put: "wf s \<Longrightarrow> look (put v s) a = (if key v = a then Some v else look s a)"
    and wf_put: "wf s \<Longrightarrow> wf (put v s)"
begin

lemma wf_puts: "wf s \<Longrightarrow> wf (fold put vs s)"
  by (induction vs arbitrary: s) (auto intro: wf_put)

lemma look_puts:
  "wf s \<Longrightarrow> look (fold put vs s) a
     = (case find (\<lambda>v. key v = a) (rev vs) of None \<Rightarrow> look s a | Some v \<Rightarrow> Some v)"
proof (induction vs rule: rev_induct)
  case (snoc v vs)
  then show ?case by (simp add: look_put wf_puts)
qed simp

lemma look_untouched: "wf s \<Longrightarrow> a \<notin> key ` set vs \<Longrightarrow> look (fold put vs s) a = look s a"
  by (induction vs arbitrary: s) (auto simp: look_put wf_put)

lemma look_last: "wf s \<Longrightarrow> look (put v (fold put vs s)) (key v) = Some v"
  by (simp add: look_put wf_puts)

lemma present_puts:
  "wf s \<Longrightarrow> (look (fold put vs s) a \<noteq> None) = (look s a \<noteq> None \<or> a \<in> key ` set vs)"
  by (induction vs arbitrary: s) (auto simp: look_put wf_put)

end

end
