(* ===== verification/Types.thy ===== *)
theory Types
  imports Prelude
begin

text \<open>
  The resource types of \<open>api/v1\<close> that the controllers read and write
  (\<open>shared_types.go\<close> and \<open>adotogitmigration_types.go\<close>). A struct is a record with the
  struct's fields in the struct's order, a pointer field is an option, a slice is a list, a
  \<open>map[string]string\<close> is a map, and an enumeration of string constants is a datatype.
  The empty string, which is the zero value of a phase, is a constructor of its own.
\<close>

section \<open>Enumerations\<close>

datatype migration_phase =
    PhaseUnset
  | PhasePending | PhaseValidating | PhaseRunning | PhaseCompleted
  | PhaseFailed | PhaseCancelled | PhasePaused | PhaseSyncing

datatype resource_status =
    StatusPending | StatusValidating | StatusRunning | StatusCompleted
  | StatusFailed | StatusSkipped | StatusPaused

datatype repository_state = RepoNotExists | RepoEmpty | RepoNonEmpty | RepoCreated

datatype migration_type = TypeUnset | TypeProduct | TypePlatform | TypeShared

definition repository_state_name :: "repository_state \<Rightarrow> string" where
  "repository_state_name s = (case s of
     RepoNotExists \<Rightarrow> ''NotExists'' | RepoEmpty \<Rightarrow> ''Empty''
   | RepoNonEmpty \<Rightarrow> ''NonEmpty'' | RepoCreated \<Rightarrow> ''Created'')"

definition migration_phase_name :: "migration_phase \<Rightarrow> string" where
  "migration_phase_name p = (case p of
     PhaseUnset \<Rightarrow> [] | PhasePending \<Rightarrow> ''Pending'' | PhaseValidating \<Rightarrow> ''Validating''
   | PhaseRunning \<Rightarrow> ''Running'' | PhaseCompleted \<Rightarrow> ''Completed'' | PhaseFailed \<Rightarrow> ''Failed''
   | PhaseCancelled \<Rightarrow> ''Cancelled'' | PhasePaused \<Rightarrow> ''Paused'' | PhaseSyncing \<Rightarrow> ''Syncing'')"

section \<open>Specification types\<close>

record secret_ref =
  sr_name :: string
  sr_key :: string
  sr_namespace :: string

record service_principal_config =
  sp_clientIDRef :: secret_ref
  sp_clientSecretRef :: secret_ref
  sp_tenantIDRef :: secret_ref

record pat_config =
  pat_tokenRef :: secret_ref

record ado_auth_config =
  ado_servicePrincipal :: "service_principal_config option"
  ado_pat :: "pat_config option"

record github_app_auth_config =
  app_appIdRef :: secret_ref
  app_installationIdRef :: secret_ref
  app_privateKeyRef :: secret_ref

record github_auth_config =
  gh_tokenRef :: "secret_ref option"
  gh_appAuth :: "github_app_auth_config option"
  gh_token :: string

record ado_source_config =
  src_organization :: string
  src_project :: string
  src_repository :: string
  src_businessUnit :: string
  src_productName :: string
  src_migrationType :: migration_type
  src_isProductRepo :: bool
  src_auth :: ado_auth_config
  src_apiURL :: string

record github_repo_settings =
  grs_visibility :: string
  grs_autoInit :: bool
  grs_licenseTemplate :: string
  grs_gitignoreTemplate :: string

record github_target_config =
  tgt_owner :: string
  tgt_repository :: string
  tgt_autoGenerateName :: bool
  tgt_visibility :: string
  tgt_auth :: github_auth_config
  tgt_apiURL :: string
  tgt_defaultBranch :: string
  tgt_defaultRepoSettings :: "github_repo_settings option"

record repository_settings =
  rp_includeBranches :: "string list"
  rp_excludeBranches :: "string list"
  rp_branchMapping :: "string \<rightharpoonup> string"
  rp_visibility :: string
  rp_createIfNotExists :: bool

record work_item_settings =
  wi_typeMapping :: "string \<rightharpoonup> string"
  wi_stateMapping :: "string \<rightharpoonup> string"
  wi_fieldMapping :: "string \<rightharpoonup> string"

record pipeline_settings =
  pl_convertToActions :: bool
  pl_workflowTemplate :: string

record resource_settings =
  rset_repository :: "repository_settings option"
  rset_workItem :: "work_item_settings option"
  rset_pipeline :: "pipeline_settings option"

record rate_limit_settings =
  rl_adoRequestsPerMinute :: int
  rl_gitHubRequestsPerMinute :: int

record sync_settings =
  sync_enabled :: bool
  sync_intervalMinutes :: int
  sync_branchFilter :: "string list"
  sync_syncTags :: bool
  sync_forcePush :: bool

record migration_settings =
  set_maxHistoryDays :: int
  set_maxCommitCount :: int
  set_batchDelayMinutes :: int
  set_includeWorkItems :: bool
  set_includeBuilds :: bool
  set_includePullRequests :: bool
  set_includeTags :: bool
  set_handleLFS :: bool
  set_batchSize :: int
  set_retryAttempts :: int
  set_parallelWorkers :: int
  set_cloneDepth :: int
  set_repository :: "repository_settings option"
  set_rateLimit :: "rate_limit_settings option"
  set_sync :: "sync_settings option"

record migration_resource =
  res_type :: string
  res_sourceID :: string
  res_sourceName :: string
  res_targetName :: string
  res_config :: "string \<rightharpoonup> string"
  res_settings :: "resource_settings option"

record validation_rules =
  vr_skipValidation :: bool
  vr_requiredPermissions :: "string list"
  vr_preMigrationChecks :: "string list"

section \<open>Status types\<close>

record migration_progress =
  pr_total :: int
  pr_completed :: int
  pr_failed :: int
  pr_processing :: int
  pr_skipped :: int
  pr_percentage :: int
  pr_currentStep :: string
  pr_estimatedCompletion :: "instant option"
  pr_processingRate :: string
  pr_currentItem :: int
  pr_progressSummary :: string

record sub_resource_status =
  sub_name :: string
  sub_type :: string
  sub_status :: resource_status
  sub_progress :: int
  sub_errorMessage :: string

record resource_migration_details =
  det_itemsProcessed :: int
  det_totalItems :: int
  det_bytesTransferred :: int
  det_currentOperation :: string
  det_subResources :: "sub_resource_status list"

record resource_migration_status =
  rs_resourceID :: string
  rs_type :: string
  rs_sourceName :: string
  rs_targetName :: string
  rs_status :: resource_status
  rs_progress :: int
  rs_startTime :: "instant option"
  rs_completionTime :: "instant option"
  rs_errorMessage :: string
  rs_gitHubURL :: string
  rs_details :: "resource_migration_details option"
  rs_name :: string
  rs_error :: string
  rs_repositoryURL :: string

record validation_error =
  ve_code :: string
  ve_message :: string
  ve_field :: string
  ve_resource :: string
  ve_severity :: string
  ve_resolution :: string

record validation_warning =
  vw_code :: string
  vw_message :: string
  vw_field :: string
  vw_resource :: string
  vw_suggestion :: string

record validation_results =
  val_valid :: bool
  val_errors :: "validation_error list"
  val_warnings :: "validation_warning list"
  val_timestamp :: instant

record migration_statistics =
  st_duration :: duration
  st_commitsMigrated :: int
  st_branchesMigrated :: int
  st_tagsMigrated :: int
  st_workItemsMigrated :: int
  st_pullRequestsMigrated :: int
  st_pipelinesMigrated :: int
  st_repositoriesCreated :: int
  st_dataTransferred :: int
  st_apiCalls :: "string \<rightharpoonup> int"

record default_branch_info =
  db_sourceDefaultBranch :: string
  db_targetDefaultBranch :: string
  db_autoDetected :: bool
  db_detectedAt :: "instant option"

record repository_state_info =
  ri_repositoryName :: string
  ri_state :: repository_state
  ri_gitHubURL :: string
  ri_createdDuringMigration :: bool
  ri_checkedAt :: "instant option"
  ri_details :: string

record sync_status =
  ss_enabled :: bool
  ss_lastSyncTime :: "instant option"
  ss_lastSyncError :: string
  ss_syncCount :: int
  ss_failedSyncCount :: int
  ss_branchesSynced :: "string list"
  ss_tagsSynced :: "string list"
  ss_nextSyncTime :: "instant option"

section \<open>Zero values\<close>

text \<open>
  A Go composite literal leaves the fields it does not name at their zero values; the
  handlers build statuses and statistics this way.
\<close>

definition zero_progress :: migration_progress where
  "zero_progress = \<lparr>pr_total = 0, pr_completed = 0, pr_failed = 0, pr_processing = 0,
     pr_skipped = 0, pr_percentage = 0, pr_currentStep = [], pr_estimatedCompletion = None,
     pr_processingRate = [], pr_currentItem = 0, pr_progressSummary = []\<rparr>"

definition zero_resource_status :: resource_migration_status where
  "zero_resource_status = \<lparr>rs_resourceID = [], rs_type = [], rs_sourceName = [],
     rs_targetName = [], rs_status = StatusPending, rs_progress = 0, rs_startTime = None,
     rs_completionTime = None, rs_errorMessage = [], rs_gitHubURL = [], rs_details = None,
     rs_name = [], rs_error = [], rs_repositoryURL = []\<rparr>"

definition zero_statistics :: migration_statistics where
  "zero_statistics = \<lparr>st_duration = 0, st_commitsMigrated = 0, st_branchesMigrated = 0,
     st_tagsMigrated = 0, st_workItemsMigrated = 0, st_pullRequestsMigrated = 0,
     st_pipelinesMigrated = 0, st_repositoriesCreated = 0, st_dataTransferred = 0,
     st_apiCalls = Map.empty\<rparr>"

definition zero_settings :: migration_settings where
  "zero_settings = \<lparr>set_maxHistoryDays = 0, set_maxCommitCount = 0, set_batchDelayMinutes = 0,
     set_includeWorkItems = False, set_includeBuilds = False, set_includePullRequests = False,
     set_includeTags = False, set_handleLFS = False, set_batchSize = 0, set_retryAttempts = 0,
     set_parallelWorkers = 0, set_cloneDepth = 0, set_repository = None, set_rateLimit = None,
     set_sync = None\<rparr>"

definition zero_source :: ado_source_config where
  "zero_source = \<lparr>src_organization = [], src_project = [], src_repository = [],
     src_businessUnit = [], src_productName = [], src_migrationType = TypeUnset,
     src_isProductRepo = False, src_auth = \<lparr>ado_servicePrincipal = None, ado_pat = None\<rparr>,
     src_apiURL = []\<rparr>"

definition zero_target :: github_target_config where
  "zero_target = \<lparr>tgt_owner = [], tgt_repository = [], tgt_autoGenerateName = False,
     tgt_visibility = [], tgt_auth = \<lparr>gh_tokenRef = None, gh_appAuth = None, gh_token = []\<rparr>,
     tgt_apiURL = [], tgt_defaultBranch = [], tgt_defaultRepoSettings = None\<rparr>"

lemmas zero_defs = zero_progress_def zero_resource_status_def zero_statistics_def
  zero_settings_def zero_source_def zero_target_def

section \<open>AdoToGitMigration\<close>

text \<open>
  The metadata that the controllers look at, and a condition (\<open>metav1.Condition\<close>).
  A missing annotation map and an empty one are the same map.
\<close>

record object_meta =
  om_name :: string
  om_namespace :: string
  om_generation :: int
  om_resourceVersion :: string
  om_deletionTimestamp :: "instant option"
  om_finalizers :: "string list"
  om_annotations :: "string \<rightharpoonup> string"

datatype condition_status = ConditionTrue | ConditionFalse | ConditionUnknown

record condition =
  cond_type :: string
  cond_status :: condition_status
  cond_observedGeneration :: int
  cond_lastTransitionTime :: instant
  cond_reason :: string
  cond_message :: string

record ado_migration_spec =
  ms_source :: ado_source_config
  ms_target :: github_target_config
  ms_settings :: migration_settings
  ms_resources :: "migration_resource list"
  ms_type :: string
  ms_validationRules :: "validation_rules option"

record ado_migration_status =
  mst_phase :: migration_phase
  mst_conditions :: "condition list"
  mst_startTime :: "instant option"
  mst_completionTime :: "instant option"
  mst_progress :: migration_progress
  mst_resourceStatuses :: "resource_migration_status list"
  mst_validationResults :: "validation_results option"
  mst_errorMessage :: string
  mst_warnings :: "string list"
  mst_statistics :: "migration_statistics option"
  mst_lastReconcileTime :: "instant option"
  mst_observedGeneration :: int
  mst_defaultBranchInfo :: "default_branch_info option"
  mst_repositoryStates :: "repository_state_info list"
  mst_syncStatus :: "sync_status option"

record ado_migration =
  mg_meta :: object_meta
  mg_spec :: ado_migration_spec
  mg_status :: ado_migration_status

definition zero_meta :: object_meta where
  "zero_meta = \<lparr>om_name = [], om_namespace = [], om_generation = 0, om_resourceVersion = [],
     om_deletionTimestamp = None, om_finalizers = [], om_annotations = Map.empty\<rparr>"

definition zero_migration_status :: ado_migration_status where
  "zero_migration_status = \<lparr>mst_phase = PhaseUnset, mst_conditions = [], mst_startTime = None,
     mst_completionTime = None, mst_progress = zero_progress, mst_resourceStatuses = [],
     mst_validationResults = None, mst_errorMessage = [], mst_warnings = [],
     mst_statistics = None, mst_lastReconcileTime = None, mst_observedGeneration = 0,
     mst_defaultBranchInfo = None, mst_repositoryStates = [], mst_syncStatus = None\<rparr>"

definition zero_migration :: ado_migration where
  "zero_migration = \<lparr>mg_meta = zero_meta,
     mg_spec = \<lparr>ms_source = zero_source, ms_target = zero_target, ms_settings = zero_settings,
       ms_resources = [], ms_type = [], ms_validationRules = None\<rparr>,
     mg_status = zero_migration_status\<rparr>"

text \<open>Assignments to nested fields, \<open>migration.Status.F = v\<close> and \<open>migration.Status.Progress.F = v\<close>.\<close>

definition on_status :: "(ado_migration_status \<Rightarrow> ado_migration_status) \<Rightarrow> ado_migration \<Rightarrow> ado_migration" where
  "on_status f m = m\<lparr>mg_status := f (mg_status m)\<rparr>"

definition on_progress :: "(migration_progress \<Rightarrow> migration_progress) \<Rightarrow> ado_migration \<Rightarrow> ado_migration" where
  "on_progress f = on_status (\<lambda>st. st\<lparr>mst_progress := f (mst_progress st)\<rparr>)"

lemma on_status_simps [simp]:
  "mg_status (on_status f m) = f (mg_status m)" "mg_spec (on_status f m) = mg_spec m"
  "mg_meta (on_status f m) = mg_meta m"
  by (simp_all add: on_status_def)

lemma on_progress_simps [simp]:
  "mg_status (on_progress f m) = (mg_status m)\<lparr>mst_progress := f (mst_progress (mg_status m))\<rparr>"
  "mg_spec (on_progress f m) = mg_spec m" "mg_meta (on_progress f m) = mg_meta m"
  by (simp_all add: on_progress_def)

end
