(* ===== verification/Naming.thy ===== *)
theory Naming
  imports Types
begin

text \<open>
  Repository names: \<open>internal/services/naming.go\<close> (names by migration type) and
  \<open>internal/controller/naming.go\<close> (names from the resource's source and target). Both
  normalise what the user wrote into a slug: lower-case letters, digits and single hyphens,
  none at either end. The lemmas show that for every input, that normalising is idempotent,
  that the collapsing loop of the controller ends and computes the same as one pass, and
  which generated names GitHub accepts.
\<close>

section \<open>Normalisation\<close>

abbreviation dash :: char where "dash \<equiv> CHR ''-''"

definition slug_char :: "char \<Rightarrow> bool" where
  "slug_char c \<longleftrightarrow> is_lower c \<or> is_digit c \<or> c = dash"

text \<open>
  \<open>regexp.MustCompile("[...]+").ReplaceAllString(s, r)\<close>: every maximal run of characters
  of the class becomes \<open>r\<close>.
\<close>

function replace_runs :: "(char \<Rightarrow> bool) \<Rightarrow> string \<Rightarrow> string \<Rightarrow> string" where
  "replace_runs p r [] = []"
| "replace_runs p r (c # cs) =
     (if p c then r @ replace_runs p r (dropWhile p cs) else c # replace_runs p r cs)"
  by pat_completeness auto
termination
  by (relation "measure (\<lambda>(p, r, s). length s)") (auto simp: le_imp_less_Suc length_dropWhile_le)

definition normalizeRepoName :: "string \<Rightarrow> string" where
  "normalizeRepoName name =
     (let normalized = to_lower (trim is_space name);
          normalized = replace_runs (\<lambda>c. \<not> slug_char c) [dash] normalized;
          normalized = trim (\<lambda>c. c = dash) normalized
      in replace_runs (\<lambda>c. c = dash) [dash] normalized)"

text \<open>
  The controller's version removes invalid characters instead, keeps dots, and collapses
  hyphens with \<open>strings.ReplaceAll\<close> in a loop.
\<close>

fun replace_double_dash :: "string \<Rightarrow> string" where
  "replace_double_dash (a # b # cs) =
     (if a = dash \<and> b = dash then dash # replace_double_dash cs
      else a # replace_double_dash (b # cs))"
| "replace_double_dash cs = cs"

lemma length_replace_double_dash: "length (replace_double_dash s) \<le> length s"
  by (induction s rule: replace_double_dash.induct) auto

lemma length_replace_double_dash_less:
  "sublist [dash, dash] s \<Longrightarrow> length (replace_double_dash s) < length s"
proof (induction s rule: replace_double_dash.induct)
  case (1 a b cs)
  then show ?case
    using length_replace_double_dash [of cs] by (auto simp: sublist_Cons_right split: if_splits)
qed (auto simp: sublist_Cons_right)

function collapse_dashes :: "string \<Rightarrow> string" where
  "collapse_dashes s =
     (if contains_str s [dash, dash] then collapse_dashes (replace_double_dash s) else s)"
  by pat_completeness auto
termination
  by (relation "measure length") (auto intro: length_replace_double_dash_less)

declare collapse_dashes.simps [simp del]

definition normalizeRepositoryName :: "string \<Rightarrow> string" where
  "normalizeRepositoryName name =
     (let normalized = to_lower name;
          normalized = map (\<lambda>c. if c = CHR '' '' then dash else c) normalized;
          normalized = map (\<lambda>c. if c = CHR ''_'' then dash else c) normalized;
          normalized = filter (\<lambda>c. slug_char c \<or> c = CHR ''.'') normalized;
          normalized = collapse_dashes normalized
      in trim (\<lambda>c. c = dash) normalized)"

subsection \<open>What normalising gives\<close>

definition single_dashes :: "string \<Rightarrow> bool" where
  "single_dashes = successively (\<lambda>a b. \<not> (a = dash \<and> b = dash))"

definition bare_ends :: "string \<Rightarrow> bool" where
  "bare_ends s \<longleftrightarrow> (s \<noteq> [] \<longrightarrow> hd s \<noteq> dash \<and> last s \<noteq> dash)"

definition slug :: "string \<Rightarrow> bool" where
  "slug s \<longleftrightarrow> list_all slug_char s \<and> bare_ends s \<and> single_dashes s"

lemma single_dashes_Cons2: "single_dashes (a # b # cs) \<longleftrightarrow> \<not> (a = dash \<and> b = dash) \<and> single_dashes (b # cs)"
  by (simp add: single_dashes_def)

lemma single_dashes_iff: "single_dashes s \<longleftrightarrow> \<not> contains_str s [dash, dash]"
proof (induction s rule: induct_list012)
  case (3 a b cs)
  then show ?case
    using single_dashes_Cons2 [of a b cs] sublist_Cons_right [of "[dash, dash]" a "b # cs"] by auto
qed (auto simp: single_dashes_def sublist_Cons_right)

lemma hd_replace_runs:
  "s \<noteq> [] \<Longrightarrow> hd (replace_runs p [r] s) = (if p (hd s) then r else hd s)"
  by (cases s) auto

lemma replace_runs_empty [simp]: "replace_runs p [r] s = [] \<longleftrightarrow> s = []"
  by (cases s) auto

lemma set_replace_runs: "set (replace_runs p [r] s) \<subseteq> {c \<in> set s. \<not> p c} \<union> {r}"
proof (induction s rule: length_induct)
  case (1 s)
  show ?case
  proof (cases s)
    case (Cons c cs)
    have sub: "set (dropWhile p cs) \<subseteq> set cs"
      by (rule set_mono_suffix) (rule suffix_dropWhile)
    have "set (replace_runs p [r] cs) \<subseteq> {c \<in> set cs. \<not> p c} \<union> {r}"
      "set (replace_runs p [r] (dropWhile p cs)) \<subseteq> {c \<in> set (dropWhile p cs). \<not> p c} \<union> {r}"
      using 1 Cons by (auto simp: le_imp_less_Suc length_dropWhile_le)
    with sub Cons show ?thesis by auto
  qed simp
qed

text \<open>Collapsing runs of hyphens: what the second expression of the code does.\<close>

abbreviation collapse :: "string \<Rightarrow> string" where
  "collapse \<equiv> replace_runs (\<lambda>c. c = dash) [dash]"

lemma collapse_simps [simp]:
  "collapse [] = []" "collapse [a] = [a]"
  "collapse (a # b # cs) = (if a = dash \<and> b = dash then collapse (b # cs) else a # collapse (b # cs))"
  by auto

declare replace_runs.simps [simp del]

lemma hd_collapse: "s \<noteq> [] \<Longrightarrow> hd (collapse s) = hd s"
  by (simp add: hd_replace_runs)

lemma collapse_Cons_obtain:
  obtains t where "collapse (b # cs) = b # t"
proof -
  have "hd (collapse (b # cs)) = b" using hd_collapse [of "b # cs"] by simp
  with that show ?thesis by (cases "collapse (b # cs)") auto
qed

lemma single_dashes_collapse: "single_dashes (collapse s)"
proof (induction s rule: induct_list012)
  case (3 a b cs)
  obtain t where t: "collapse (b # cs) = b # t" by (rule collapse_Cons_obtain)
  then show ?case using "3.IH"(2) by (auto simp: single_dashes_Cons2)
qed (auto simp: single_dashes_def)

lemma last_collapse: "s \<noteq> [] \<Longrightarrow> last (collapse s) = last s"
  by (induction s rule: induct_list012) auto

lemma collapse_id: "single_dashes s \<Longrightarrow> collapse s = s"
  by (induction s rule: induct_list012) (auto simp: single_dashes_Cons2)

lemma set_collapse: "set (collapse s) \<subseteq> set s"
  by (induction s rule: induct_list012) auto

text \<open>The controller's loop computes the same, in however many rounds it needs.\<close>

lemma collapse_Cons:
  "collapse (a # s) = (if a = dash \<and> s \<noteq> [] \<and> hd s = dash then collapse s else a # collapse s)"
  by (cases s) auto

lemma replace_double_dash_empty [simp]: "replace_double_dash s = [] \<longleftrightarrow> s = []"
  by (cases s rule: replace_double_dash.cases) auto

lemma hd_replace_double_dash: "hd (replace_double_dash s) = hd s"
  by (cases s rule: replace_double_dash.cases) auto

lemma collapse_replace_double_dash: "collapse (replace_double_dash s) = collapse s"
proof (induction s rule: replace_double_dash.induct)
  case (1 a b cs)
  then show ?case
    using hd_replace_double_dash [of cs] hd_replace_double_dash [of "b # cs"]
    by (cases "a = dash \<and> b = dash") (auto simp: collapse_Cons)
qed auto

lemma collapse_dashes_eq: "collapse_dashes s = collapse s"
proof (induction s rule: collapse_dashes.induct)
  case (1 s)
  show ?case
  proof (cases "contains_str s [dash, dash]")
    case True
    with 1 show ?thesis
      by (subst collapse_dashes.simps) (simp add: collapse_replace_double_dash)
  next
    case False
    then show ?thesis
      by (subst collapse_dashes.simps) (simp add: collapse_id single_dashes_iff)
  qed
qed

text \<open>A string whose ends are bare stays so when it is collapsed; trimming keeps single hyphens.\<close>

lemma bare_ends_collapse: "bare_ends s \<Longrightarrow> bare_ends (collapse s)"
  by (auto simp: bare_ends_def hd_collapse last_collapse)

lemma bare_ends_trim: "bare_ends (trim (\<lambda>c. c = dash) s)"
  using trim_hd [of "\<lambda>c. c = dash" s] trim_last [of "\<lambda>c. c = dash" s] by (auto simp: bare_ends_def)

lemma trim_bare: "bare_ends s \<Longrightarrow> trim (\<lambda>c. c = dash) s = s"
  by (rule trim_id) (auto simp: bare_ends_def)

lemma sublist_trim: "sublist (trim p s) s"
proof -
  have "sublist (dropWhile p t) t" for t :: "'a list"
    by (rule suffix_imp_sublist) (rule suffix_dropWhile)
  then have "sublist (dropWhile p (rev (dropWhile p s))) (rev (dropWhile p s))"
    and "sublist (dropWhile p s) s" by blast+
  then show ?thesis
    unfolding trim_def by (metis sublist_order.order_trans sublist_rev rev_rev_ident)
qed

lemma single_dashes_trim: "single_dashes s \<Longrightarrow> single_dashes (trim p s)"
  using sublist_trim [of p s] by (auto simp: single_dashes_iff dest: sublist_order.order_trans)

lemma slug_normalizeRepoName: "slug (normalizeRepoName name)"
proof -
  let ?r = "replace_runs (\<lambda>c. \<not> slug_char c) [dash] (to_lower (trim is_space name))"
  let ?t = "trim (\<lambda>c. c = dash) ?r"
  have "set ?r \<subseteq> {c. slug_char c}"
    using set_replace_runs [of "\<lambda>c. \<not> slug_char c" dash "to_lower (trim is_space name)"]
    by (auto simp: slug_char_def)
  then have "set (collapse ?t) \<subseteq> {c. slug_char c}"
    using set_collapse [of ?t] trim_subset [of "\<lambda>c. c = dash" ?r] by blast
  then show ?thesis
    using bare_ends_collapse [OF bare_ends_trim, of ?r] single_dashes_collapse [of ?t]
    by (auto simp: slug_def normalizeRepoName_def Let_def list_all_iff)
qed

lemma slug_lower_id: "slug s \<Longrightarrow> to_lower s = s"
  by (auto simp: slug_def to_lower_def list_all_iff slug_char_def lower_char_id intro!: map_idI)

lemma slug_char_not_space: "slug_char c \<Longrightarrow> \<not> is_space c"
  by (auto simp: slug_char_def is_space_def is_lower_def is_digit_def between_def)

lemma replace_runs_id: "(\<And>c. c \<in> set s \<Longrightarrow> \<not> p c) \<Longrightarrow> replace_runs p r s = s"
  by (induction s) (auto simp: replace_runs.simps)

lemma normalizeRepoName_slug: "slug s \<Longrightarrow> normalizeRepoName s = s"
proof -
  assume s: "slug s"
  then have chars: "\<And>c. c \<in> set s \<Longrightarrow> slug_char c" and ends: "bare_ends s" and single: "single_dashes s"
    by (auto simp: slug_def list_all_iff)
  have "trim is_space s = s"
    using chars slug_char_not_space by (intro trim_id) (meson hd_in_set last_in_set)+
  moreover have "replace_runs (\<lambda>c. \<not> slug_char c) [dash] s = s"
    by (rule replace_runs_id) (simp add: chars)
  ultimately show ?thesis
    using s by (simp add: normalizeRepoName_def Let_def slug_lower_id trim_bare ends collapse_id single)
qed

section \<open>Names by migration type\<close>

definition stripDuplicateName :: "string \<Rightarrow> string \<Rightarrow> string" where
  "stripDuplicateName repoName productName =
     (let normalizedRepo = normalizeRepoName repoName;
          normalizedProduct = normalizeRepoName productName;
          prefixPattern = normalizedProduct @ [dash];
          suffixPattern = dash # normalizedProduct
      in if normalizedProduct = [] then normalizedRepo
         else if has_prefix normalizedRepo prefixPattern
                 \<and> trim_prefix normalizedRepo prefixPattern \<noteq> []
              then trim_prefix normalizedRepo prefixPattern
         else if has_suffix normalizedRepo suffixPattern
                 \<and> trim_suffix normalizedRepo suffixPattern \<noteq> []
              then trim_suffix normalizedRepo suffixPattern
         else normalizedRepo)"

definition GenerateGitHubRepoName ::
  "string \<Rightarrow> string \<Rightarrow> string \<Rightarrow> migration_type \<Rightarrow> string" where
  "GenerateGitHubRepoName adoRepoName businessUnit productName migrationType =
     (let cleanedRepo = normalizeRepoName adoRepoName;
          cleanedRepo = (if productName \<noteq> [] then stripDuplicateName cleanedRepo productName
                         else cleanedRepo);
          bu = (if businessUnit \<noteq> [] then [normalizeRepoName businessUnit] else []);
          product = (if productName \<noteq> [] then [normalizeRepoName productName] else []);
          repo = (if cleanedRepo \<noteq> [] then [cleanedRepo] else [])
      in case migrationType of
           TypeProduct \<Rightarrow> join [dash] ([''product''] @ bu @ product @ repo)
         | TypePlatform \<Rightarrow> join [dash] ([''platform''] @ bu @ repo)
         | TypeShared \<Rightarrow> join [dash] ([''shared''] @ repo)
         | TypeUnset \<Rightarrow> cleanedRepo)"

definition github_char :: "char \<Rightarrow> bool" where
  "github_char c \<longleftrightarrow> is_upper c \<or> is_lower c \<or> is_digit c \<or> c \<in> {CHR ''.'', CHR ''_'', dash}"

definition ValidateGitHubRepoName :: "string \<Rightarrow> bool" where
  "ValidateGitHubRepoName name =
     (if name = [] \<or> length name > 100 then False
      else if has_prefix name [dash] \<or> has_prefix name ''_''
              \<or> has_suffix name [dash] \<or> has_suffix name ''_'' then False
      else list_all github_char name)"

section \<open>Names from source and target\<close>

definition containsWord :: "string \<Rightarrow> string \<Rightarrow> bool" where
  "containsWord name word \<longleftrightarrow>
     list_ex (\<lambda>part. to_lower part = to_lower word)
       (fields_func (\<lambda>r. r = dash \<or> r = CHR ''_'' \<or> r = CHR '' '' \<or> r = CHR ''.'') name)"

definition generateNameWithPrefix :: "ado_source_config \<Rightarrow> string \<Rightarrow> string" where
  "generateNameWithPrefix source repoName =
     (if src_isProductRepo source then
        (if containsWord repoName ''product'' then repoName else ''product-'' @ repoName)
      else if src_businessUnit source = [] then repoName
      else (let buName = normalizeRepositoryName (src_businessUnit source) in
            if containsWord repoName buName then repoName else buName @ [dash] @ repoName))"

fun first_repository_name :: "migration_resource list \<Rightarrow> string" where
  "first_repository_name [] = []"
| "first_repository_name (res # rest) =
     (if res_type res = ''repository'' then res_sourceName res else first_repository_name rest)"

definition source_repo_name :: "ado_source_config \<Rightarrow> migration_resource list \<Rightarrow> string" where
  "source_repo_name source resources =
     (if src_repository source = [] then first_repository_name resources else src_repository source)"

definition GenerateGitHubRepositoryName ::
  "ado_source_config \<Rightarrow> github_target_config \<Rightarrow> migration_resource list \<Rightarrow> string + string" where
  "GenerateGitHubRepositoryName source target resources =
     (let sourceRepoName = source_repo_name source resources in
      if sourceRepoName = []
      then Inl ''source repository name not specified in source.repository or resources''
      else let normalizedName = normalizeRepositoryName sourceRepoName in
        if tgt_repository target \<noteq> [] \<and> \<not> tgt_autoGenerateName target
        then Inr (normalizeRepositoryName (tgt_repository target))
        else if tgt_autoGenerateName target \<or> tgt_repository target = []
        then Inr (generateNameWithPrefix source normalizedName)
        else if tgt_repository target \<noteq> []
        then Inr (normalizeRepositoryName (tgt_repository target))
        else Inr normalizedName)"

definition ValidateRepositoryNaming ::
  "ado_source_config \<Rightarrow> github_target_config \<Rightarrow> migration_resource list \<Rightarrow> string option" where
  "ValidateRepositoryNaming source target resources =
     (if tgt_autoGenerateName target \<and> \<not> src_isProductRepo source \<and> src_businessUnit source = []
      then Some ''businessUnit must be specified when autoGenerateName is true and isProductRepo is false''
      else if src_repository source = [] \<and> tgt_repository target = [] \<and> resources = []
      then Some ''repository name must be specified in source, target, or resources''
      else if src_repository source = [] \<and> tgt_repository target = []
              \<and> \<not> list_ex (\<lambda>res. res_type res = ''repository'') resources
      then Some ''no repository resource found in resources''
      else if tgt_repository target \<noteq> [] \<and> \<not> tgt_autoGenerateName target
              \<and> normalizeRepositoryName (tgt_repository target) = []
      then Some (''custom repository name '' @ [CHR 0x27] @ tgt_repository target
                 @ [CHR 0x27] @ '' is invalid after normalization'')
      else None)"

definition IsCustomRepositoryName :: "github_target_config \<Rightarrow> bool" where
  "IsCustomRepositoryName target \<longleftrightarrow>
     tgt_repository target \<noteq> [] \<and> \<not> tgt_autoGenerateName target"

section \<open>What the generated names look like\<close>

lemma slug_append_dash: "slug (u @ dash # v) \<Longrightarrow> u \<noteq> [] \<Longrightarrow> v \<noteq> [] \<Longrightarrow> slug u \<and> slug v"
  by (auto simp: slug_def bare_ends_def single_dashes_def successively_append_iff successively_Cons)

lemma slug_dash_append: "slug u \<Longrightarrow> slug v \<Longrightarrow> u \<noteq> [] \<Longrightarrow> v \<noteq> [] \<Longrightarrow> slug (u @ dash # v)"
  by (auto simp: slug_def bare_ends_def single_dashes_def successively_append_iff successively_Cons
      slug_char_def)

lemma slug_no_bare_dash: "slug (u @ [dash]) \<Longrightarrow> False" "slug (dash # u) \<Longrightarrow> False"
  by (auto simp: slug_def bare_ends_def)

lemma slug_Nil [simp]: "slug []"
  by (simp add: slug_def bare_ends_def single_dashes_def)

lemma slug_join: "list_all (\<lambda>x. slug x \<and> x \<noteq> []) xs \<Longrightarrow> slug (join [dash] xs)"
proof (induction "[dash]" xs rule: join.induct)
  case (3 x y xs)
  then have "join [dash] (y # xs) \<noteq> []" by (cases xs) auto
  with 3 show ?case by (auto intro: slug_dash_append)
qed auto

lemma stripDuplicateName_slug:
  "slug (stripDuplicateName r p)" "stripDuplicateName r p = [] \<longleftrightarrow> normalizeRepoName r = []"
proof -
  let ?r = "normalizeRepoName r" and ?p = "normalizeRepoName p"
  have r: "slug ?r" by (rule slug_normalizeRepoName)
  consider (pre) v where "?p \<noteq> []" "?r = ?p @ dash # v" "v \<noteq> []" "stripDuplicateName r p = v"
    | (suf) u where "?p \<noteq> []" "?r = u @ dash # ?p" "u \<noteq> []" "stripDuplicateName r p = u"
    | (same) "stripDuplicateName r p = ?r"
    using prefix_split [of "?p @ [dash]" ?r] suffix_split [of "dash # ?p" ?r]
    unfolding stripDuplicateName_def Let_def by (metis append.assoc append_Cons append_Nil)
  then have "slug (stripDuplicateName r p) \<and> (stripDuplicateName r p = [] \<longleftrightarrow> ?r = [])"
  proof cases
    case (pre v)
    then show ?thesis using r slug_append_dash [of ?p v] by simp
  next
    case (suf u)
    then show ?thesis using r slug_append_dash [of u ?p] by simp
  qed (use r in simp)
  then show "slug (stripDuplicateName r p)" "stripDuplicateName r p = [] \<longleftrightarrow> ?r = []" by simp_all
qed

lemma slug_fixed_words [simp]: "slug ''product''" "slug ''platform''" "slug ''shared''"
  by code_simp+

lemma slug_GenerateGitHubRepoName:
  assumes bu: "bu = [] \<or> normalizeRepoName bu \<noteq> []"
    and product: "product = [] \<or> normalizeRepoName product \<noteq> []"
  shows "slug (GenerateGitHubRepoName repo bu product t)"
proof (cases t)
  case TypeUnset
  then show ?thesis
    by (simp add: GenerateGitHubRepoName_def Let_def stripDuplicateName_slug slug_normalizeRepoName)
qed (use assms in \<open>auto simp: GenerateGitHubRepoName_def Let_def stripDuplicateName_slug
       slug_normalizeRepoName simp del: join.simps intro!: slug_join\<close>)

lemma prefix_singleton_hd: "has_prefix s [c] \<longleftrightarrow> s \<noteq> [] \<and> hd s = c"
  by (cases s) auto

lemma suffix_singleton_last: "has_suffix s [c] \<longleftrightarrow> s \<noteq> [] \<and> last s = c"
  by (cases s rule: rev_cases) (auto simp: suffix_def)

lemma slug_underscore: "slug s \<Longrightarrow> CHR ''_'' \<notin> set s"
  by (auto simp: slug_def list_all_iff slug_char_def is_lower_def is_digit_def between_def)

lemma not_in_ends: "c \<notin> set s \<Longrightarrow> s \<noteq> [] \<Longrightarrow> hd s \<noteq> c \<and> last s \<noteq> c"
  using hd_in_set last_in_set by metis

lemma slug_valid: "slug s \<Longrightarrow> s \<noteq> [] \<Longrightarrow> length s \<le> 100 \<Longrightarrow> ValidateGitHubRepoName s"
  using not_in_ends [OF slug_underscore, of s]
  by (auto simp: ValidateGitHubRepoName_def prefix_singleton_hd suffix_singleton_last slug_def
      bare_ends_def list_all_iff github_char_def slug_char_def)

lemma join_nonempty: "list_ex (\<lambda>x. x \<noteq> []) xs \<Longrightarrow> join sep xs \<noteq> []"
  by (induction sep xs rule: join.induct) auto

text \<open>Which joined names the validator accepts: those whose last part is not empty.\<close>

lemma last_join:
  "last (join [dash] (x # y # ys)) = (if last (y # ys) = [] then dash else last (last (y # ys)))"
proof (induction ys arbitrary: x y)
  case (Cons z zs)
  have "join [dash] (y # z # zs) \<noteq> []" by simp
  then show ?case using Cons [of y z] by simp
qed simp

lemma slug_chars_join: "list_all slug xs \<Longrightarrow> list_all slug_char (join [dash] xs)"
  by (induction "[dash]" xs rule: join.induct) (auto simp: slug_def slug_char_def)

lemma slug_chars_valid:
  assumes "list_all slug_char s" and "s \<noteq> []" and "hd s \<noteq> dash"
  shows "ValidateGitHubRepoName s \<longleftrightarrow> length s \<le> 100 \<and> last s \<noteq> dash"
proof -
  have "CHR ''_'' \<notin> set s"
    using assms(1) by (auto simp: list_all_iff slug_char_def is_lower_def is_digit_def between_def)
  from not_in_ends [OF this assms(2)] assms show ?thesis
    by (auto simp: ValidateGitHubRepoName_def prefix_singleton_hd suffix_singleton_last
        list_all_iff github_char_def slug_char_def)
qed

lemma ValidateGitHubRepoName_length: "ValidateGitHubRepoName s \<Longrightarrow> s \<noteq> [] \<and> length s \<le> 100"
  by (auto simp: ValidateGitHubRepoName_def split: if_splits)

lemma join_valid:
  assumes "list_all slug (x # xs)" and "x \<noteq> []"
  shows "ValidateGitHubRepoName (join [dash] (x # xs))
    \<longleftrightarrow> length (join [dash] (x # xs)) \<le> 100 \<and> last (x # xs) \<noteq> []"
proof -
  have hd: "hd x \<noteq> dash" "join [dash] (x # xs) \<noteq> []" "hd (join [dash] (x # xs)) = hd x"
    using assms by (cases xs; auto simp: slug_def bare_ends_def)+
  have ends: "last z \<noteq> dash" if "z \<in> set (x # xs)" "z \<noteq> []" for z
    using assms(1) that by (auto simp: list_all_iff slug_def bare_ends_def)
  have "last (join [dash] (x # xs)) \<noteq> dash \<longleftrightarrow> last (x # xs) \<noteq> []"
  proof (cases xs)
    case Nil
    then show ?thesis using ends [of x] assms(2) by simp
  next
    case (Cons y ys)
    then show ?thesis using ends [of "last (y # ys)"] last_in_set [of "y # ys"]
      by (simp only: last_join) (auto simp del: join.simps)
  qed
  with slug_chars_valid [OF slug_chars_join [OF assms(1)] hd(2)] hd show ?thesis by metis
qed

lemma cleaned_empty:
  "(if product \<noteq> [] then stripDuplicateName (normalizeRepoName repo) product else normalizeRepoName repo) = []
   \<longleftrightarrow> normalizeRepoName repo = []"
  by (simp add: stripDuplicateName_slug normalizeRepoName_slug [OF slug_normalizeRepoName])

text \<open>
  C27. Exactly which generated names pass the validator that guards GitHub names: those of at most 100
  characters whose last part is not empty. If the repository's name contains a letter or digit,
  that is no condition. Otherwise the last part is the product, if one is given and the
  repository belongs to a product, or else the business unit, if one is given and
  the repository is not shared, and it must contain a letter or digit: the product \<open>!!\<close> gives
  \<open>product-\<close>, which is refused. Without a type the name is the repository's alone.
\<close>

theorem GenerateGitHubRepoName_valid:
  "ValidateGitHubRepoName (GenerateGitHubRepoName repo bu product t)
   \<longleftrightarrow> length (GenerateGitHubRepoName repo bu product t) \<le> 100
     \<and> (normalizeRepoName repo = [] \<longrightarrow>
          t \<noteq> TypeUnset
          \<and> (if t = TypeProduct \<and> product \<noteq> [] then normalizeRepoName product \<noteq> []
             else if t \<noteq> TypeShared \<and> bu \<noteq> [] then normalizeRepoName bu \<noteq> []
             else True))"
proof -
  define cleaned where "cleaned = (if product \<noteq> [] then stripDuplicateName (normalizeRepoName repo) product
    else normalizeRepoName repo)"
  define bus where "bus = (if bu \<noteq> [] then [normalizeRepoName bu] else [])"
  define products where "products = (if product \<noteq> [] then [normalizeRepoName product] else [])"
  define repos where "repos = (if cleaned \<noteq> [] then [cleaned] else [])"
  have cleaned: "slug cleaned" "cleaned = [] \<longleftrightarrow> normalizeRepoName repo = []"
    using cleaned_empty [of product repo]
    by (auto simp: cleaned_def stripDuplicateName_slug slug_normalizeRepoName)
  have parts: "list_all slug bus" "list_all slug products" "list_all slug repos"
    by (simp_all add: bus_def products_def repos_def slug_normalizeRepoName cleaned)
  define g where "g = GenerateGitHubRepoName repo bu product t"
  have name: "g = (case t of
       TypeProduct \<Rightarrow> join [dash] (''product'' # bus @ products @ repos)
     | TypePlatform \<Rightarrow> join [dash] (''platform'' # bus @ repos)
     | TypeShared \<Rightarrow> join [dash] (''shared'' # repos)
     | TypeUnset \<Rightarrow> cleaned)"
    unfolding g_def GenerateGitHubRepoName_def Let_def
      cleaned_def [symmetric] bus_def [symmetric] products_def [symmetric] repos_def [symmetric] append_Cons append_Nil ..
  have "ValidateGitHubRepoName g \<longleftrightarrow> length g \<le> 100
     \<and> (normalizeRepoName repo = [] \<longrightarrow>
          t \<noteq> TypeUnset
          \<and> (if t = TypeProduct \<and> product \<noteq> [] then normalizeRepoName product \<noteq> []
             else if t \<noteq> TypeShared \<and> bu \<noteq> [] then normalizeRepoName bu \<noteq> []
             else True))"
  proof (cases t)
    case TypeUnset
    have "ValidateGitHubRepoName cleaned \<longleftrightarrow> length cleaned \<le> 100 \<and> cleaned \<noteq> []"
      using slug_valid [OF cleaned(1)] ValidateGitHubRepoName_length [of cleaned] by blast
    with TypeUnset cleaned(2) show ?thesis by (simp add: name)
  next
    case TypeProduct
    have "list_all slug (''product'' # bus @ products @ repos)" using parts by simp
    from join_valid [OF this] TypeProduct cleaned(2) show ?thesis
      by (simp add: name bus_def products_def repos_def del: join.simps)
  next
    case TypePlatform
    have "list_all slug (''platform'' # bus @ repos)" using parts by simp
    from join_valid [OF this] TypePlatform cleaned(2) show ?thesis
      by (simp add: name bus_def repos_def del: join.simps)
  next
    case TypeShared
    have "list_all slug (''shared'' # repos)" using parts by simp
    from join_valid [OF this] TypeShared cleaned(2) show ?thesis
      by (simp add: name repos_def del: join.simps)
  qed
  then show ?thesis by (simp only: g_def)
qed

theorem GenerateGitHubRepoName_valid_witness:
  "ValidateGitHubRepoName (GenerateGitHubRepoName ''Altitude API'' ''lg'' ''altitude'' TypeProduct)
   \<and> GenerateGitHubRepoName ''Altitude API'' ''lg'' ''altitude'' TypeProduct = ''product-lg-altitude-api''
   \<and> \<not> ValidateGitHubRepoName (GenerateGitHubRepoName ''--'' ''lg'' ''!!'' TypeProduct)"
proof (intro conjI)
  have eval: "GenerateGitHubRepoName ''Altitude API'' ''lg'' ''altitude'' TypeProduct
    = ''product-lg-altitude-api''" by code_simp
  show "GenerateGitHubRepoName ''Altitude API'' ''lg'' ''altitude'' TypeProduct
    = ''product-lg-altitude-api''" by (rule eval)
  show "ValidateGitHubRepoName (GenerateGitHubRepoName ''Altitude API'' ''lg'' ''altitude'' TypeProduct)"
    unfolding GenerateGitHubRepoName_valid unfolding eval by code_simp
  have "normalizeRepoName ''--'' = []" "normalizeRepoName ''!!'' = []" by code_simp+
  then show "\<not> ValidateGitHubRepoName (GenerateGitHubRepoName ''--'' ''lg'' ''!!'' TypeProduct)"
    unfolding GenerateGitHubRepoName_valid by simp
qed

lemma controller_chars: "set (normalizeRepositoryName name) \<subseteq> {c. slug_char c \<or> c = CHR ''.''}"
proof -
  have "set (trim (\<lambda>c. c = dash) (collapse (filter (\<lambda>c. slug_char c \<or> c = CHR ''.'') t)))
    \<subseteq> {c. slug_char c \<or> c = CHR ''.''}" for t
    using trim_subset [of "\<lambda>c. c = dash"] set_collapse [of "filter (\<lambda>c. slug_char c \<or> c = CHR ''.'') t"]
    by fastforce
  then show ?thesis by (simp add: normalizeRepositoryName_def Let_def collapse_dashes_eq)
qed

lemma controller_shape:
  "bare_ends (normalizeRepositoryName name)" "single_dashes (normalizeRepositoryName name)"
  by (simp_all add: normalizeRepositoryName_def Let_def collapse_dashes_eq bare_ends_trim
      single_dashes_trim single_dashes_collapse)

lemma controller_fixed:
  assumes chars: "set s \<subseteq> {c. slug_char c \<or> c = CHR ''.''}"
    and "bare_ends s" and "single_dashes s"
  shows "normalizeRepositoryName s = s"
proof -
  have other: "c \<noteq> CHR '' '' \<and> c \<noteq> CHR ''_'' \<and> lower_char c = c" if "c \<in> set s" for c
    using chars that by (auto simp: slug_char_def is_lower_def is_digit_def between_def
        lower_char_def is_upper_def)
  then have "to_lower s = s" by (simp add: to_lower_def map_idI)
  moreover have "map (\<lambda>c. if c = CHR '' '' then dash else c) s = s"
    and "map (\<lambda>c. if c = CHR ''_'' then dash else c) s = s"
    using other by (auto intro: map_idI)
  moreover have "filter (\<lambda>c. slug_char c \<or> c = CHR ''.'') s = s"
    using chars by (auto simp: filter_id_conv)
  ultimately show ?thesis
    using assms
    by (simp add: normalizeRepositoryName_def Let_def collapse_dashes_eq collapse_id trim_bare
        del: map_map)
qed

text \<open>
  Normalising gives a slug for every input, and normalising again changes nothing; the
  controller's loop over double hyphens ends and does what one pass over the runs does.
\<close>

theorem normalize_idempotent:
  "slug (normalizeRepoName name)
   \<and> normalizeRepoName (normalizeRepoName name) = normalizeRepoName name
   \<and> normalizeRepositoryName (normalizeRepositoryName name) = normalizeRepositoryName name
   \<and> collapse_dashes name = replace_runs (\<lambda>c. c = dash) [dash] name"
  by (simp add: slug_normalizeRepoName normalizeRepoName_slug collapse_dashes_eq
      controller_fixed [OF controller_chars controller_shape])

section \<open>What validation promises\<close>

lemma GenerateGitHubRepositoryName_cases:
  "GenerateGitHubRepositoryName source target resources =
     (if source_repo_name source resources = []
      then Inl ''source repository name not specified in source.repository or resources''
      else if IsCustomRepositoryName target
      then Inr (normalizeRepositoryName (tgt_repository target))
      else Inr (generateNameWithPrefix source
             (normalizeRepositoryName (source_repo_name source resources))))"
  by (auto simp: GenerateGitHubRepositoryName_def IsCustomRepositoryName_def Let_def)

text \<open>
  Where a source name can be found, a configuration that passes validation gets a name:
  the custom name, which is then not empty, if one is given and automatic naming is off, and
  otherwise the source name with its prefix; automatic naming of a repository that is not a
  product then has a business unit to use.
\<close>

theorem validated_naming_succeeds:
  assumes "ValidateRepositoryNaming source target resources = None"
    and "source_repo_name source resources \<noteq> []"
  shows "\<exists>name. GenerateGitHubRepositoryName source target resources = Inr name
    \<and> (IsCustomRepositoryName target \<longrightarrow> name = normalizeRepositoryName (tgt_repository target) \<and> name \<noteq> [])
    \<and> (tgt_autoGenerateName target \<longrightarrow> src_isProductRepo source \<or> src_businessUnit source \<noteq> [])"
  using assms
  by (auto simp: GenerateGitHubRepositoryName_cases ValidateRepositoryNaming_def
      IsCustomRepositoryName_def split: if_splits)

definition example_source :: "string \<Rightarrow> ado_source_config" where
  "example_source name = zero_source\<lparr>src_repository := name, src_businessUnit := ''Platform''\<rparr>"

theorem validated_naming_succeeds_witness:
  "GenerateGitHubRepositoryName (example_source ''My Repo'') zero_target []
     = Inr ''platform-my-repo''
   \<and> (\<exists>name. GenerateGitHubRepositoryName (example_source ''My Repo'') zero_target [] = Inr name)"
proof
  show "GenerateGitHubRepositoryName (example_source ''My Repo'') zero_target [] = Inr ''platform-my-repo''"
    by code_simp
  have "ValidateRepositoryNaming (example_source ''My Repo'') zero_target [] = None"
    and "source_repo_name (example_source ''My Repo'') [] \<noteq> []" by code_simp+
  from validated_naming_succeeds [OF this]
  show "\<exists>name. GenerateGitHubRepositoryName (example_source ''My Repo'') zero_target [] = Inr name"
    by blast
qed

text \<open>
  Validation does not look for a source name when a target name is given, but the
  generator does, and before it looks at the target: a configuration with only a custom
  target name passes validation and then gets no name.
\<close>

theorem validated_naming_can_fail:
  "ValidateRepositoryNaming zero_source (zero_target\<lparr>tgt_repository := ''my-repo''\<rparr>) [] = None
   \<and> GenerateGitHubRepositoryName zero_source (zero_target\<lparr>tgt_repository := ''my-repo''\<rparr>) []
     = Inl ''source repository name not specified in source.repository or resources''"
  by (rule conjI; code_simp)

end
