(* ===== verification/Actions.thy ===== *)
theory Actions
  imports Prelude
begin

text \<open>
  What the services under \<^verbatim>\<open>internal/services\<close> do on the operator's machine and through git: the elements of
  the traces of RepoMigration and MonoService, and of the effects of the controllers that call those services.
\<close>

datatype path =
    JoinPath "string list"
  | ParentDir path
  | PathText string \<comment> \<open>built with \<open>fmt.Sprintf\<close> or \<open>+\<close>\<close>

datatype git_arg =
    Text string
  | At path

datatype io_action =
    MkDir path
  | RemoveAll path
  | Git "git_arg list"
  | CreateRemote string
  | SetDefault string string string \<comment> \<open>owner, repository, branch\<close>

end
