(* ===== verification/Kube.thy ===== *)
theory Kube
  imports Types Actions
begin

text \<open>
  What the controllers share: error values, the result of a reconciliation, the view a
  controller has of the Kubernetes API server and of the clock, and the contract of a
  controller that moves an object from phase to phase.

  The API server is not part of the repository. It is a parameter, the record \<open>kube\<close>:
  the n-th write is answered by what the record says for \<open>n\<close>, with any error at any
  time, and the n-th reading of the clock returns any instant. A status write that is not
  refused stores the object as sent; a metadata write answers with the object the server
  now holds, computed from the one it held and the one that was sent (the server ignores
  the status in such a write, which a hypothesis states where it matters). A reconciliation works on its own copy of the object (\<open>obj\<close>); what counts
  for the next one is the object the server holds (\<open>stored\<close>).
\<close>

section \<open>Errors and results\<close>

datatype error_type = ErrorRetryable | ErrorTerminal | ErrorValidation

text \<open>
  A Go error value: a text, an error of the API server that the code recognises with
  \<open>errors.IsNotFound\<close> or \<open>errors.IsConflict\<close>, or the repository's own
  \<open>*ClassifiedError\<close>.
\<close>

datatype go_error =
    PlainError string
  | NotFoundError string
  | ConflictError string
  | ClassifiedError error_type "go_error option" string duration

definition error_type_name :: "error_type \<Rightarrow> string" where
  "error_type_name t = (case t of ErrorRetryable \<Rightarrow> ''Retryable''
     | ErrorTerminal \<Rightarrow> ''Terminal'' | ErrorValidation \<Rightarrow> ''Validation'')"

fun err_text :: "go_error \<Rightarrow> string" where
  "err_text (PlainError m) = m"
| "err_text (NotFoundError m) = m"
| "err_text (ConflictError m) = m"
| "err_text (ClassifiedError t e m d) =
     (if m \<noteq> [] then ''['' @ error_type_name t @ ''] '' @ m @ '': ''
      else ''['' @ error_type_name t @ ''] '')
     @ (case e of None \<Rightarrow> ''<nil>'' | Some e' \<Rightarrow> err_text e')"

definition is_not_found :: "go_error \<Rightarrow> bool" where
  "is_not_found e = (case e of NotFoundError _ \<Rightarrow> True | _ \<Rightarrow> False)"

definition is_conflict :: "go_error \<Rightarrow> bool" where
  "is_conflict e = (case e of ConflictError _ \<Rightarrow> True | _ \<Rightarrow> False)"

text \<open>\<open>fmt.Errorf("...: %w", err)\<close>.\<close>

definition wrap_err :: "string \<Rightarrow> go_error \<Rightarrow> go_error" where
  "wrap_err m e = PlainError (m @ '': '' @ err_text e)"

text \<open>
  \<open>x, err := step(...); if err != nil { return err }\<close> on a state that the step changes, and
  the same with the error wrapped.
\<close>

definition and_then :: "('e + 'a) \<times> 's \<Rightarrow> ('a \<Rightarrow> 's \<Rightarrow> ('e + 'b) \<times> 's) \<Rightarrow> ('e + 'b) \<times> 's" where
  "and_then r f = (case r of (Inl e, s) \<Rightarrow> (Inl e, s) | (Inr x, s) \<Rightarrow> f x s)"

definition wrapped :: "string \<Rightarrow> (go_error + 'a) \<times> 's \<Rightarrow> (go_error + 'a) \<times> 's" where
  "wrapped m r = map_prod (map_sum (wrap_err m) id) id r"

lemma and_then_simps [simp]:
  "and_then (Inl e, s) f = (Inl e, s)" "and_then (Inr x, s) f = f x s"
  by (simp_all add: and_then_def)

lemma wrapped_simps [simp]:
  "wrapped m (Inl e, s) = (Inl (wrap_err m e), s)" "wrapped m (Inr x, s) = (Inr x, s)"
  by (simp_all add: wrapped_def)

record ctrl_result =
  requeue :: bool
  requeue_after :: duration

definition no_requeue :: ctrl_result where
  "no_requeue = \<lparr>requeue = False, requeue_after = 0\<rparr>"

definition requeue_now :: ctrl_result where
  "requeue_now = \<lparr>requeue = True, requeue_after = 0\<rparr>"

definition after :: "duration \<Rightarrow> ctrl_result" where
  "after d = \<lparr>requeue = False, requeue_after = d\<rparr>"

type_synonym outcome = "ctrl_result \<times> go_error option"

section \<open>The API server and the clock\<close>

datatype event_type = EventNormal | EventWarning

datatype effect =
    Event event_type string string \<comment> \<open>\<open>Recorder.Event\<close>: type, reason, message\<close>
  | Broadcast string \<comment> \<open>\<open>sendWebSocketUpdate\<close>: message\<close>
  | ApiWrite "string list" \<comment> \<open>a call that changes something at GitHub: its name and arguments\<close>
  | Performed io_action \<comment> \<open>what a service that the handler called did\<close>

record 'o kube =
  k_clock :: "nat \<Rightarrow> instant"
  k_status :: "nat \<Rightarrow> 'o \<Rightarrow> go_error option"
  k_update :: "nat \<Rightarrow> 'o \<Rightarrow> 'o \<Rightarrow> go_error + 'o"
  k_secret :: "string \<Rightarrow> string \<Rightarrow> go_error + (string \<rightharpoonup> string)"

record 'o rstate =
  obj :: 'o
  stored :: 'o
  ticks :: nat
  calls :: nat
  effects :: "effect list"

definition fetched :: "'o \<Rightarrow> 'o rstate" where
  "fetched x = \<lparr>obj = x, stored = x, ticks = 0, calls = 0, effects = []\<rparr>"

definition read_clock :: "('o, 'k) kube_scheme \<Rightarrow> ('o, 'x) rstate_scheme \<Rightarrow> instant \<times> ('o, 'x) rstate_scheme" where
  "read_clock k s = (k_clock k (ticks s), s\<lparr>ticks := Suc (ticks s)\<rparr>)"

definition emit :: "effect \<Rightarrow> ('o, 'x) rstate_scheme \<Rightarrow> ('o, 'x) rstate_scheme" where
  "emit e s = s\<lparr>effects := effects s @ [e]\<rparr>"

definition performed :: "io_action list \<Rightarrow> ('o, 'x) rstate_scheme \<Rightarrow> ('o, 'x) rstate_scheme" where
  "performed acts s = s\<lparr>effects := effects s @ map Performed acts\<rparr>"

definition modify :: "('o \<Rightarrow> 'o) \<Rightarrow> ('o, 'x) rstate_scheme \<Rightarrow> ('o, 'x) rstate_scheme" where
  "modify f s = s\<lparr>obj := f (obj s)\<rparr>"

text \<open>\<open>r.Status().Update(ctx, obj)\<close>.\<close>

definition status_update ::
  "('o, 'k) kube_scheme \<Rightarrow> ('o, 'x) rstate_scheme \<Rightarrow> go_error option \<times> ('o, 'x) rstate_scheme" where
  "status_update k s =
     (let e = k_status k (calls s) (obj s) in
      (e, s\<lparr>calls := Suc (calls s), stored := (if e = None then obj s else stored s)\<rparr>))"

text \<open>\<open>r.Update(ctx, obj)\<close>: on success the client decodes the server's answer into \<open>obj\<close>.\<close>

definition object_update ::
  "('o, 'k) kube_scheme \<Rightarrow> ('o, 'x) rstate_scheme \<Rightarrow> go_error option \<times> ('o, 'x) rstate_scheme" where
  "object_update k s =
     (case k_update k (calls s) (stored s) (obj s) of
        Inl e \<Rightarrow> (Some e, s\<lparr>calls := Suc (calls s)\<rparr>)
      | Inr x \<Rightarrow> (None, s\<lparr>calls := Suc (calls s), obj := x, stored := x\<rparr>))"

text \<open>
  The common end of a handler: write the status; on an error return it with one result,
  otherwise return another result.
\<close>

definition update_then ::
  "('o, 'k) kube_scheme \<Rightarrow> ctrl_result \<Rightarrow> ctrl_result \<Rightarrow> ('o, 'x) rstate_scheme \<Rightarrow> outcome \<times> ('o, 'x) rstate_scheme" where
  "update_then k on_err on_ok s =
     (case status_update k s of
        (Some e, s') \<Rightarrow> ((on_err, Some e), s')
      | (None, s') \<Rightarrow> ((on_ok, None), s'))"

lemma read_clock_simps [simp]:
  "obj (snd (read_clock k s)) = obj s" "stored (snd (read_clock k s)) = stored s"
  "calls (snd (read_clock k s)) = calls s" "effects (snd (read_clock k s)) = effects s"
  "fst (read_clock k s) = k_clock k (ticks s)"
  by (simp_all add: read_clock_def)

lemma emit_simps [simp]:
  "obj (emit e s) = obj s" "stored (emit e s) = stored s" "calls (emit e s) = calls s"
  "ticks (emit e s) = ticks s" "effects (emit e s) = effects s @ [e]"
  by (simp_all add: emit_def)

lemma performed_simps [simp]:
  "obj (performed acts s) = obj s" "stored (performed acts s) = stored s" "calls (performed acts s) = calls s"
  "ticks (performed acts s) = ticks s" "effects (performed acts s) = effects s @ map Performed acts"
  by (simp_all add: performed_def)

lemma modify_simps [simp]:
  "obj (modify f s) = f (obj s)" "stored (modify f s) = stored s" "calls (modify f s) = calls s"
  "ticks (modify f s) = ticks s" "effects (modify f s) = effects s"
  by (simp_all add: modify_def)

lemma fetched_simps [simp]:
  "obj (fetched x) = x" "stored (fetched x) = x" "calls (fetched x) = 0"
  "ticks (fetched x) = 0" "effects (fetched x) = []"
  by (simp_all add: fetched_def)

lemma status_update_simps [simp]:
  "fst (status_update k s) = k_status k (calls s) (obj s)"
  "obj (snd (status_update k s)) = obj s"
  "calls (snd (status_update k s)) = Suc (calls s)"
  "ticks (snd (status_update k s)) = ticks s"
  "effects (snd (status_update k s)) = effects s"
  "stored (snd (status_update k s))
   = (if k_status k (calls s) (obj s) = None then obj s else stored s)"
  by (simp_all add: status_update_def Let_def)

lemma update_then_simps [simp]:
  "obj (snd (update_then k a b s)) = obj s"
  "effects (snd (update_then k a b s)) = effects s"
  "stored (snd (update_then k a b s))
   = (if k_status k (calls s) (obj s) = None then obj s else stored s)"
  "fst (update_then k a b s)
   = (case k_status k (calls s) (obj s) of Some e \<Rightarrow> (a, Some e) | None \<Rightarrow> (b, None))"
  by (simp_all add: update_then_def status_update_def Let_def split: option.splits)

text \<open>
  \<open>if err := r.Status().Update(ctx, obj); err != nil { return ..., err }\<close> in the middle of a
  handler, and the rule for what is stored afterwards.
\<close>

definition status_update_or ::
  "('o, 'k) kube_scheme \<Rightarrow> (go_error \<Rightarrow> 'r) \<Rightarrow> (('o, 'x) rstate_scheme \<Rightarrow> 'r \<times> ('o, 'x) rstate_scheme) \<Rightarrow> ('o, 'x) rstate_scheme \<Rightarrow> 'r \<times> ('o, 'x) rstate_scheme" where
  "status_update_or k on_err continue s =
     (case status_update k s of (Some e, s') \<Rightarrow> (on_err e, s') | (None, s') \<Rightarrow> continue s')"

lemma status_update_or_stored:
  assumes "P (stored s)" and "P (obj s)"
    and "\<And>t. obj t = obj s \<Longrightarrow> P (stored t) \<Longrightarrow> P (stored (snd (f t)))"
  shows "P (stored (snd (status_update_or k r f s)))"
  using assms by (simp add: status_update_or_def status_update_def Let_def split: option.splits)

text \<open>A handler that cannot dereference a nil pointer, where its caller can.\<close>

abbreviation returned :: "outcome \<times> 's \<Rightarrow> outcome option \<times> 's" where
  "returned \<equiv> map_prod Some id"

lemma returned_not_None [simp]: "returned r \<noteq> (None, s)"
  by (cases r) simp

section \<open>Controllers that move an object through phases\<close>

text \<open>
  A controller reads the stored object, reconciles it in some environment (the answers of
  the API server, the readings of the clock, the outcomes of the work) and leaves a stored
  object. Its contract: an invariant of the stored object and the edges along which one
  reconciliation may move the phase. What follows holds for any number of reconciliations
  in any environments.
\<close>

locale phase_machine =
  fixes phase :: "'s \<Rightarrow> 'p"
    and step :: "'e \<Rightarrow> 's \<Rightarrow> 's"
    and allowed :: "'e \<Rightarrow> bool"
    and inv :: "'s \<Rightarrow> bool"
    and edge :: "'p \<Rightarrow> 'p \<Rightarrow> bool"
  assumes inv_step: "allowed e \<Longrightarrow> inv s \<Longrightarrow> inv (step e s)"
    and edge_step: "allowed e \<Longrightarrow> inv s \<Longrightarrow>
      phase (step e s) = phase s \<or> edge (phase s) (phase (step e s))"
begin

lemma inv_run: "\<forall>e \<in> set es. allowed e \<Longrightarrow> inv s \<Longrightarrow> inv (fold step es s)"
  by (induction es arbitrary: s) (auto intro: inv_step)

lemma path_run:
  "\<forall>e \<in> set es. allowed e \<Longrightarrow> inv s \<Longrightarrow> edge\<^sup>*\<^sup>* (phase s) (phase (fold step es s))"
proof (induction es arbitrary: s)
  case (Cons e es)
  then have e: "allowed e" "\<forall>e \<in> set es. allowed e" by simp_all
  have "edge\<^sup>*\<^sup>* (phase s) (phase (step e s))"
    using edge_step [OF e(1) Cons.prems(2)] by (metis r_into_rtranclp rtranclp.rtrancl_refl)
  moreover have "edge\<^sup>*\<^sup>* (phase (step e s)) (phase (fold step es (step e s)))"
    by (rule Cons.IH [OF e(2)]) (rule inv_step [OF e(1) Cons.prems(2)])
  ultimately show ?case by simp
qed simp

text \<open>Every single step of a run leaves the phase alone or follows one edge.\<close>

lemma edges_run:
  assumes "\<forall>e \<in> set es. allowed e" and "inv s" and "i < length es"
  shows "phase (fold step (take (Suc i) es) s) = phase (fold step (take i es) s)
    \<or> edge (phase (fold step (take i es) s)) (phase (fold step (take (Suc i) es) s))"
proof -
  have "inv (fold step (take i es) s)" by (rule inv_run) (use assms in \<open>auto dest: in_set_takeD\<close>)
  then show ?thesis using edge_step assms(1) nth_mem [OF assms(3)] by (simp add: take_Suc_conv_app_nth [OF assms(3)])
qed

lemma final_run:
  assumes "\<forall>e \<in> set es. allowed e" and "inv s" and final: "\<And>q. \<not> edge (phase s) q"
  shows "phase (fold step es s) = phase s"
  using path_run [OF assms(1,2)] final by (metis converse_rtranclpE)

lemma closed_run:
  assumes "\<forall>e \<in> set es. allowed e" and "inv s" and "phase s \<in> P"
    and closed: "\<And>p q. p \<in> P \<Longrightarrow> edge p q \<Longrightarrow> q \<in> P"
  shows "phase (fold step es s) \<in> P"
  using path_run [OF assms(1,2)]
  by (induction rule: rtranclp_induct) (use assms(3) closed in auto)

end

end
