(* ===== verification/Errors.thy ===== *)
theory Errors
  imports Kube
begin

text \<open>
  \<open>internal/controller/errors.go\<close>: classified errors, what a reconciler does with an
  error, exponential backoff, and the results of a reconciliation.

  \<open>float64\<close> arithmetic is a parameter: \<open>rnd\<close> is the rounding of a product to a
  float, \<open>conv\<close> the conversion of a float to \<open>int64\<close>. What the code relies on is
  \<open>float_model\<close>: rounding is monotone and exact on the integers up to \<open>2 ^ 53\<close>, and
  the conversion truncates values in range (outside the range the Go specification leaves it
  to the implementation).
\<close>

section \<open>Classified errors\<close>

definition NewRetryableError :: "go_error option \<Rightarrow> string \<Rightarrow> go_error" where
  "NewRetryableError err message = ClassifiedError ErrorRetryable err message 0"

definition NewTerminalError :: "go_error option \<Rightarrow> string \<Rightarrow> go_error" where
  "NewTerminalError err message = ClassifiedError ErrorTerminal err message 0"

definition NewValidationError :: "go_error option \<Rightarrow> string \<Rightarrow> go_error" where
  "NewValidationError err message = ClassifiedError ErrorValidation err message 0"

definition IsRetryable :: "go_error option \<Rightarrow> bool" where
  "IsRetryable err = (case err of
     None \<Rightarrow> False
   | Some (ClassifiedError t _ _ _) \<Rightarrow> t = ErrorRetryable
   | Some _ \<Rightarrow> True)"

definition IsTerminal :: "go_error option \<Rightarrow> bool" where
  "IsTerminal err = (case err of
     None \<Rightarrow> False
   | Some (ClassifiedError t _ _ _) \<Rightarrow> t = ErrorTerminal \<or> t = ErrorValidation
   | Some _ \<Rightarrow> False)"

definition HandleReconcileError :: "go_error option \<Rightarrow> outcome" where
  "HandleReconcileError err = (case err of
     None \<Rightarrow> (no_requeue, None)
   | Some (ClassifiedError t _ _ _) \<Rightarrow>
       (case t of ErrorRetryable \<Rightarrow> (no_requeue, err)
                | ErrorTerminal \<Rightarrow> (no_requeue, None)
                | ErrorValidation \<Rightarrow> (no_requeue, None))
   | Some _ \<Rightarrow> (no_requeue, err))"

definition classifyErrorType :: "go_error \<Rightarrow> string" where
  "classifyErrorType err = (case err of
     ClassifiedError t _ _ _ \<Rightarrow> error_type_name t | _ \<Rightarrow> ''Unknown'')"

text \<open>
  Every error that is not nil is either retryable or terminal and never both, and the
  reconciler asks for a retry (returns the error) exactly for the retryable ones.
\<close>

theorem retry_decision:
  "(IsRetryable (Some e) \<longleftrightarrow> \<not> IsTerminal (Some e))
   \<and> (snd (HandleReconcileError err) \<noteq> None \<longleftrightarrow> IsRetryable err)
   \<and> snd (HandleReconcileError err) \<in> {None, err}
   \<and> fst (HandleReconcileError err) = no_requeue"
proof -
  have "t \<noteq> ErrorRetryable \<longleftrightarrow> t = ErrorTerminal \<or> t = ErrorValidation" for t
    by (cases t) auto
  then show ?thesis
    by (auto simp: IsRetryable_def IsTerminal_def HandleReconcileError_def
        split: option.splits go_error.splits error_type.splits)
qed

section \<open>Backoff\<close>

record retry_config =
  rc_maxAttempts :: int
  rc_initialInterval :: duration
  rc_maxInterval :: duration
  rc_multiplier :: rat

definition DefaultRetryConfig :: retry_config where
  "DefaultRetryConfig = \<lparr>rc_maxAttempts = 5, rc_initialInterval = 5 * second,
     rc_maxInterval = 5 * minute, rc_multiplier = 2\<rparr>"

fun multiply_times :: "(rat \<Rightarrow> rat) \<Rightarrow> rat \<Rightarrow> nat \<Rightarrow> rat \<Rightarrow> rat" where
  "multiply_times rnd m 0 x = x"
| "multiply_times rnd m (Suc n) x = multiply_times rnd m n (rnd (x * m))"

definition CalculateBackoff ::
  "(rat \<Rightarrow> rat) \<Rightarrow> (rat \<Rightarrow> int) \<Rightarrow> int \<Rightarrow> retry_config \<Rightarrow> duration" where
  "CalculateBackoff rnd conv attempt config =
     (if attempt \<le> 0 then rc_initialInterval config
      else let interval = multiply_times rnd (rc_multiplier config)
                            (nat (min attempt (rc_maxAttempts config)))
                            (rnd (of_int (rc_initialInterval config)));
               result = conv interval
           in if result > rc_maxInterval config then rc_maxInterval config else result)"

definition float_model :: "(rat \<Rightarrow> rat) \<Rightarrow> (rat \<Rightarrow> int) \<Rightarrow> bool" where
  "float_model rnd conv \<longleftrightarrow>
     (\<forall>x y. x \<le> y \<longrightarrow> rnd x \<le> rnd y)
     \<and> (\<forall>n :: int. \<bar>n\<bar> \<le> 2 ^ 53 \<longrightarrow> rnd (of_int n) = of_int n)
     \<and> (\<forall>x. 0 \<le> x \<longrightarrow> x < 2 ^ 63 \<longrightarrow> conv x = \<lfloor>x\<rfloor>)"

lemma float_model_exact: "float_model id floor"
  by (simp add: float_model_def)

lemma rnd_int: "float_model rnd conv \<Longrightarrow> \<bar>n\<bar> \<le> 9007199254740992 \<Longrightarrow> rnd (of_int n) = of_int n"
  by (simp add: float_model_def)

lemma conv_int: "float_model rnd conv \<Longrightarrow> 0 \<le> n \<Longrightarrow> n < 9223372036854775808 \<Longrightarrow> conv (of_int n) = n"
proof -
  assume "float_model rnd conv" and n: "0 \<le> n" "n < 9223372036854775808"
  then have "(0 :: rat) \<le> of_int n \<longrightarrow> (of_int n :: rat) < 2 ^ 63 \<longrightarrow> conv (of_int n) = \<lfloor>of_int n :: rat\<rfloor>"
    by (simp add: float_model_def)
  moreover have "(of_int n :: rat) < of_int (2 ^ 63)" by (subst of_int_less_iff) (use n in simp)
  ultimately show ?thesis using n by simp
qed

lemma multiply_by_two:
  assumes fm: "float_model rnd conv" and "0 \<le> n" and "n * 2 ^ k \<le> 9007199254740992"
  shows "multiply_times rnd 2 k (of_int n) = of_int (n * 2 ^ k)"
  using assms(2,3)
proof (induction k arbitrary: n)
  case (Suc k)
  have le: "n * 2 \<le> n * 2 ^ Suc k" using Suc.prems(1) by (intro mult_left_mono) simp_all
  then have "rnd (of_int n * 2) = of_int (n * 2)"
    using rnd_int [OF fm, of "n * 2"] Suc.prems by simp
  with Suc.IH [of "n * 2"] Suc.prems show ?case by (simp add: mult.assoc)
qed simp

text \<open>
  With the default configuration the retry intervals double from five seconds and stay
  at 160 seconds from the fifth attempt on: the cap of five minutes is never what stops them.
\<close>

theorem default_backoff:
  assumes fm: "float_model rnd conv" and "0 \<le> attempt"
  shows "CalculateBackoff rnd conv attempt DefaultRetryConfig = 5 * second * 2 ^ nat (min attempt 5)
    \<and> CalculateBackoff rnd conv attempt DefaultRetryConfig < rc_maxInterval DefaultRetryConfig"
proof -
  let ?k = "nat (min attempt 5)"
  have "(2 :: int) ^ ?k \<le> 2 ^ 5" by (rule power_increasing) auto
  from mult_left_mono [OF this, of 5000000000]
  have pow: "5000000000 * 2 ^ ?k \<le> (160000000000 :: int)" by simp
  have init: "rnd (of_int 5000000000) = of_int 5000000000" by (rule rnd_int [OF fm]) simp
  have "multiply_times rnd 2 ?k (of_int 5000000000) = of_int (5000000000 * 2 ^ ?k)"
    by (rule multiply_by_two [OF fm]) (use pow in simp_all)
  moreover have "conv (of_int (5000000000 * 2 ^ ?k)) = 5000000000 * 2 ^ ?k"
    by (rule conv_int [OF fm]) (use pow in simp_all)
  ultimately show ?thesis
    using assms(2) pow init
    by (auto simp: CalculateBackoff_def DefaultRetryConfig_def duration_defs Let_def)
qed


section \<open>Results of a reconciliation\<close>

definition ShouldSkipReconcile :: "int \<Rightarrow> int \<Rightarrow> bool" where
  "ShouldSkipReconcile generation observedGeneration \<longleftrightarrow>
     generation > 0 \<and> generation = observedGeneration"

record reconcile_result =
  rr_requeue :: bool
  rr_requeueAfter :: duration
  rr_updateStatus :: bool

definition ResultSuccess :: reconcile_result where
  "ResultSuccess = \<lparr>rr_requeue = False, rr_requeueAfter = 0, rr_updateStatus = False\<rparr>"

definition ResultSuccessWithStatusUpdate :: reconcile_result where
  "ResultSuccessWithStatusUpdate =
     \<lparr>rr_requeue = False, rr_requeueAfter = 0, rr_updateStatus = True\<rparr>"

definition ResultRequeue :: reconcile_result where
  "ResultRequeue = \<lparr>rr_requeue = True, rr_requeueAfter = 0, rr_updateStatus = False\<rparr>"

definition ResultRequeueAfter :: "duration \<Rightarrow> reconcile_result" where
  "ResultRequeueAfter d = \<lparr>rr_requeue = True, rr_requeueAfter = d, rr_updateStatus = False\<rparr>"

definition ResultRequeueWithStatus :: "duration \<Rightarrow> reconcile_result" where
  "ResultRequeueWithStatus d = \<lparr>rr_requeue = True, rr_requeueAfter = d, rr_updateStatus = True\<rparr>"

definition ToControllerResult :: "reconcile_result \<Rightarrow> ctrl_result" where
  "ToControllerResult r = \<lparr>requeue = rr_requeue r, requeue_after = rr_requeueAfter r\<rparr>"

lemma ToControllerResult_simps [simp]:
  "ToControllerResult ResultSuccess = no_requeue"
  "ToControllerResult ResultRequeue = requeue_now"
  by (simp_all add: ToControllerResult_def ResultSuccess_def ResultRequeue_def no_requeue_def
      requeue_now_def)

end
