(* ===== verification/BatchController.thy ===== *)
theory BatchController
  imports Errors
begin

text \<open>
  \<open>internal/controller/batchmigration_controller.go\<close> with the types of
  \<open>api/v1/batchmigration_types.go\<close>: workers claim batches of resources under a lease,
  process them, and retry failed or stale batches with exponential backoff.

  Parameters (\<open>batch_env\<close>): the API server and the clock (\<open>Kube\<close>), the worker's
  identity, the outcome of migrating one repository
  (\<open>MigrationService.MigrateRepository\<close>, which may depend on everything that happened
  before), the random number of the jitter, and \<open>float64\<close> arithmetic. The first component
  of a handler's result is \<open>None\<close> where the code dereferences a nil pointer. The contents
  of log messages are not modelled.
\<close>

section \<open>Types\<close>

record namespaced_name =
  nn_namespace :: string
  nn_name :: string

record retry_policy =
  rpol_maxRetries :: int
  rpol_initialDelaySeconds :: int
  rpol_backoffMultiplier :: int
  rpol_maxDelaySeconds :: int

record batch_spec =
  bsp_migrationJobRef :: namespaced_name
  bsp_batchNumber :: int
  bsp_priority :: int
  bsp_resources :: "migration_resource list"
  bsp_source :: ado_source_config
  bsp_target :: github_target_config
  bsp_settings :: migration_settings
  bsp_retryPolicy :: "retry_policy option"
  bsp_timeoutMinutes :: int

datatype batch_phase =
    BatchUnset
  | BatchPending | BatchClaimed | BatchProcessing
  | BatchCompleted | BatchFailed | BatchRetrying | BatchStale

record batch_progress =
  bp_total :: int
  bp_completed :: int
  bp_failed :: int
  bp_processing :: int
  bp_skipped :: int
  bp_percentage :: int
  bp_currentStep :: string

record batch_statistics =
  bst_duration :: duration
  bst_itemsMigrated :: "string \<rightharpoonup> int"
  bst_apiCalls :: "string \<rightharpoonup> int"
  bst_dataTransferred :: int
  bst_avgResourceProcessingTimeSeconds :: int

record batch_status =
  bs_phase :: batch_phase
  bs_claimedBy :: string
  bs_claimedAt :: "instant option"
  bs_leaseExpiresAt :: "instant option"
  bs_progress :: batch_progress
  bs_retryCount :: int
  bs_startTime :: "instant option"
  bs_completionTime :: "instant option"
  bs_resourceStatuses :: "resource_migration_status list"
  bs_errorMessage :: string
  bs_lastReconcileTime :: "instant option"
  bs_nextRetryTime :: "instant option"
  bs_statistics :: "batch_statistics option"

record batch =
  ba_meta :: object_meta
  ba_spec :: batch_spec
  ba_status :: batch_status

record batch_env = "batch kube" +
  be_workerID :: string
  be_migrate :: "batch rstate \<Rightarrow> migration_resource \<Rightarrow> string \<Rightarrow> string \<Rightarrow> go_error option"
  be_rand :: "nat \<Rightarrow> rat"
  be_rnd :: "rat \<Rightarrow> rat"
  be_conv :: "rat \<Rightarrow> int"
  be_pow :: "int \<Rightarrow> int \<Rightarrow> rat"

definition zero_batch_progress :: batch_progress where
  "zero_batch_progress = \<lparr>bp_total = 0, bp_completed = 0, bp_failed = 0, bp_processing = 0,
     bp_skipped = 0, bp_percentage = 0, bp_currentStep = []\<rparr>"

definition zero_batch_statistics :: batch_statistics where
  "zero_batch_statistics = \<lparr>bst_duration = 0, bst_itemsMigrated = Map.empty,
     bst_apiCalls = Map.empty, bst_dataTransferred = 0,
     bst_avgResourceProcessingTimeSeconds = 0\<rparr>"

definition on_batch :: "(batch_status \<Rightarrow> batch_status) \<Rightarrow> batch \<Rightarrow> batch" where
  "on_batch f b = b\<lparr>ba_status := f (ba_status b)\<rparr>"

definition on_batch_progress :: "(batch_progress \<Rightarrow> batch_progress) \<Rightarrow> batch \<Rightarrow> batch" where
  "on_batch_progress f = on_batch (\<lambda>st. st\<lparr>bs_progress := f (bs_progress st)\<rparr>)"

lemma on_batch_simps [simp]:
  "ba_status (on_batch f b) = f (ba_status b)" "ba_spec (on_batch f b) = ba_spec b"
  "ba_status (on_batch_progress g b) = (ba_status b)\<lparr>bs_progress := g (bs_progress (ba_status b))\<rparr>"
  "ba_spec (on_batch_progress g b) = ba_spec b"
  by (simp_all add: on_batch_def on_batch_progress_def)

section \<open>Constants\<close>

definition workerLeaseDuration :: duration where "workerLeaseDuration = 10 * minute"
definition leaseRenewalInterval :: duration where "leaseRenewalInterval = 2 * minute"
definition defaultMaxRetries :: int where "defaultMaxRetries = 3"
definition defaultInitialDelaySeconds :: int where "defaultInitialDelaySeconds = 30"
definition defaultBackoffMultiplier :: int where "defaultBackoffMultiplier = 2"
definition defaultMaxDelaySeconds :: int where "defaultMaxDelaySeconds = 600"
definition batchPendingRequeue :: duration where "batchPendingRequeue = 5 * second"
definition batchProcessingRequeue :: duration where "batchProcessingRequeue = 30 * second"
definition batchRetryingRequeue :: duration where "batchRetryingRequeue = 10 * second"

section \<open>Claiming and leases\<close>

definition initializeStatus :: "batch_env \<Rightarrow> batch rstate \<Rightarrow> outcome \<times> batch rstate" where
  "initializeStatus k s =
     (let s = modify (\<lambda>b. on_batch (\<lambda>st. st\<lparr>bs_phase := BatchPending,
                bs_progress := zero_batch_progress
                  \<lparr>bp_total := int (length (bsp_resources (ba_spec b)))\<rparr>,
                bs_retryCount := 0\<rparr>) b) s;
          s = emit (Event EventNormal ''Initialized'' ''Batch migration initialized'') s
      in update_then k (after batchPendingRequeue) (after batchPendingRequeue) s)"

definition claimBatch :: "batch_env \<Rightarrow> batch rstate \<Rightarrow> (bool \<times> go_error option) \<times> batch rstate" where
  "claimBatch k s =
     (case read_clock k s of (now, s) \<Rightarrow>
      let s = modify (on_batch (\<lambda>st. st\<lparr>bs_phase := BatchClaimed, bs_claimedBy := be_workerID k,
                bs_claimedAt := Some now,
                bs_leaseExpiresAt := Some (now + workerLeaseDuration)\<rparr>)) s
      in case status_update k s of
           (Some e, s) \<Rightarrow> ((False, Some e), s)
         | (None, s) \<Rightarrow> ((True, None),
             emit (Event EventNormal ''BatchClaimed'' (''Batch claimed by worker '' @ be_workerID k)) s))"

definition processPending :: "batch_env \<Rightarrow> batch rstate \<Rightarrow> outcome \<times> batch rstate" where
  "processPending k s =
     (case claimBatch k s of
        ((success, Some e), s) \<Rightarrow> ((after batchPendingRequeue, Some e), s)
      | ((success, None), s) \<Rightarrow>
          if \<not> success then ((after batchPendingRequeue, None), s)
          else ((after batchProcessingRequeue, None), s))"

definition isLeaseExpired :: "batch_env \<Rightarrow> batch rstate \<Rightarrow> bool \<times> batch rstate" where
  "isLeaseExpired k s =
     (case bs_leaseExpiresAt (ba_status (obj s)) of
        None \<Rightarrow> (True, s)
      | Some t \<Rightarrow> (case read_clock k s of (now, s) \<Rightarrow> (now > t, s)))"

definition shouldRenewLease :: "batch_env \<Rightarrow> batch rstate \<Rightarrow> bool \<times> batch rstate" where
  "shouldRenewLease k s =
     (case bs_leaseExpiresAt (ba_status (obj s)) of
        None \<Rightarrow> (True, s)
      | Some t \<Rightarrow> (case read_clock k s of (now, s) \<Rightarrow> (t - now < leaseRenewalInterval, s)))"

definition renewLease :: "batch_env \<Rightarrow> batch rstate \<Rightarrow> go_error option \<times> batch rstate" where
  "renewLease k s =
     (case read_clock k s of (now, s) \<Rightarrow>
      let s = modify (on_batch (\<lambda>st. st\<lparr>bs_leaseExpiresAt := Some (now + workerLeaseDuration)\<rparr>)) s
      in status_update k s)"

section \<open>Retries\<close>

definition getRetryPolicy :: "batch \<Rightarrow> retry_policy" where
  "getRetryPolicy b =
     (case bsp_retryPolicy (ba_spec b) of
        Some p \<Rightarrow> p
      | None \<Rightarrow> \<lparr>rpol_maxRetries = defaultMaxRetries,
                  rpol_initialDelaySeconds = defaultInitialDelaySeconds,
                  rpol_backoffMultiplier = defaultBackoffMultiplier,
                  rpol_maxDelaySeconds = defaultMaxDelaySeconds\<rparr>)"

text \<open>The random number is drawn once per call; \<open>n\<close> numbers the draws.\<close>

definition calculateRetryDelay :: "batch_env \<Rightarrow> nat \<Rightarrow> int \<Rightarrow> retry_policy \<Rightarrow> duration" where
  "calculateRetryDelay k n retryCount policy =
     (let baseDelay = wrap64 (rpol_initialDelaySeconds policy * second);
          maxDelay = wrap64 (rpol_maxDelaySeconds policy * second);
          delay = be_rnd k (be_rnd k (of_int baseDelay)
                    * be_pow k (rpol_backoffMultiplier policy) retryCount);
          delay = (if be_conv k delay > maxDelay then be_rnd k (of_int maxDelay) else delay);
          jitter = be_rnd k (be_rnd k (be_rand k n * delay) * (1 / 4))
      in be_conv k (be_rnd k (delay + jitter)))"

definition failBatch :: "batch_env \<Rightarrow> string \<Rightarrow> batch rstate \<Rightarrow> outcome \<times> batch rstate" where
  "failBatch k message s =
     (case read_clock k s of (now, s) \<Rightarrow>
      let s = modify (on_batch (\<lambda>st. st\<lparr>bs_phase := BatchFailed, bs_errorMessage := message,
                bs_progress := (bs_progress st)\<lparr>bp_currentStep := ''Batch failed''\<rparr>,
                bs_completionTime := Some now\<rparr>)) s;
          s = emit (Event EventWarning ''BatchFailed'' (''Batch failed: '' @ message)) s
      in update_then k no_requeue no_requeue s)"

definition retryBatch :: "batch_env \<Rightarrow> batch rstate \<Rightarrow> outcome \<times> batch rstate" where
  "retryBatch k s =
     (let retryPolicy = getRetryPolicy (obj s) in
      if bs_retryCount (ba_status (obj s)) \<ge> rpol_maxRetries retryPolicy
      then failBatch k ''Maximum retry attempts exceeded'' s
      else let delay = calculateRetryDelay k (ticks s) (bs_retryCount (ba_status (obj s))) retryPolicy in
        case read_clock k s of (now, s) \<Rightarrow>
        let s = modify (on_batch (\<lambda>st. st\<lparr>bs_phase := BatchRetrying,
                  bs_retryCount := bs_retryCount st + 1,
                  bs_nextRetryTime := Some (now + delay),
                  bs_claimedBy := [], bs_claimedAt := None, bs_leaseExpiresAt := None\<rparr>)) s;
            s = emit (Event EventNormal ''BatchScheduledForRetry''
                (''Batch scheduled for retry in '' @ fmt_duration delay)) s
        in update_then k no_requeue (after delay) s)"

definition markStale :: "batch_env \<Rightarrow> batch rstate \<Rightarrow> outcome \<times> batch rstate" where
  "markStale k s =
     (let s = modify (on_batch (\<lambda>st. st\<lparr>bs_phase := BatchStale,
                bs_progress := (bs_progress st)
                  \<lparr>bp_currentStep := ''Batch marked as stale, worker lease expired''\<rparr>\<rparr>)) s;
          s = emit (Event EventWarning ''LeaseExpired''
                (''Worker '' @ bs_claimedBy (ba_status (obj s)) @ '' lease expired, batch marked as stale'')) s
      in status_update_or k (\<lambda>e. (no_requeue, Some e)) (retryBatch k) s)"

definition processStale :: "batch_env \<Rightarrow> batch rstate \<Rightarrow> outcome \<times> batch rstate" where
  "processStale k s = retryBatch k s"

definition retry_now :: "batch_env \<Rightarrow> batch rstate \<Rightarrow> outcome \<times> batch rstate" where
  "retry_now k s =
     (let attempt = fmt_d (bs_retryCount (ba_status (obj s)) + 1);
          s = modify (on_batch (\<lambda>st. st\<lparr>bs_phase := BatchPending, bs_claimedBy := [],
                bs_claimedAt := None, bs_leaseExpiresAt := None,
                bs_progress := (bs_progress st)
                  \<lparr>bp_currentStep := ''Retrying batch (attempt '' @ attempt @ '')''\<rparr>\<rparr>)) s;
          s = emit (Event EventNormal ''BatchRetrying'' (''Retrying batch (attempt '' @ attempt @ '')'')) s
      in update_then k (after batchRetryingRequeue) (after batchPendingRequeue) s)"

definition processRetrying :: "batch_env \<Rightarrow> batch rstate \<Rightarrow> outcome \<times> batch rstate" where
  "processRetrying k s =
     (case bs_nextRetryTime (ba_status (obj s)) of
        None \<Rightarrow> retry_now k s
      | Some t \<Rightarrow>
          (case read_clock k s of (now, s) \<Rightarrow>
           if now < t
           then (case read_clock k s of (now', s) \<Rightarrow> ((after (t - now'), None), s))
           else retry_now k s))"

section \<open>Resource statuses and progress\<close>

definition isResourceProcessed :: "batch \<Rightarrow> migration_resource \<Rightarrow> bool" where
  "isResourceProcessed b resource =
     (case find (\<lambda>st. rs_sourceName st = res_sourceName resource) (bs_resourceStatuses (ba_status b)) of
        Some st \<Rightarrow> rs_status st = StatusCompleted \<or> rs_status st = StatusFailed
      | None \<Rightarrow> False)"

definition put_status :: "resource_migration_status \<Rightarrow> batch_status \<Rightarrow> batch_status" where
  "put_status new st = st\<lparr>bs_resourceStatuses :=
     replace_first (\<lambda>s. rs_sourceName s = rs_sourceName new) new (bs_resourceStatuses st)\<rparr>"

definition failed_status :: "migration_resource \<Rightarrow> go_error \<Rightarrow> instant \<Rightarrow> resource_migration_status" where
  "failed_status resource err now = zero_resource_status
     \<lparr>rs_resourceID := res_sourceID resource, rs_type := res_type resource,
      rs_sourceName := res_sourceName resource, rs_targetName := res_targetName resource,
      rs_status := StatusFailed, rs_errorMessage := err_text err, rs_completionTime := Some now\<rparr>"

definition completed_status :: "migration_resource \<Rightarrow> instant \<Rightarrow> resource_migration_status" where
  "completed_status resource now = zero_resource_status
     \<lparr>rs_resourceID := res_sourceID resource, rs_type := res_type resource,
      rs_sourceName := res_sourceName resource, rs_targetName := res_targetName resource,
      rs_status := StatusCompleted, rs_completionTime := Some now, rs_progress := 100\<rparr>"

lemma new_status_simps [simp]:
  "rs_sourceName (failed_status r e t) = res_sourceName r" "rs_status (failed_status r e t) = StatusFailed"
  "rs_sourceName (completed_status r t) = res_sourceName r" "rs_status (completed_status r t) = StatusCompleted"
  by (simp_all add: failed_status_def completed_status_def)

definition markResourceFailed ::
  "batch_env \<Rightarrow> migration_resource \<Rightarrow> go_error \<Rightarrow> batch rstate \<Rightarrow> batch rstate" where
  "markResourceFailed k resource err s =
     (case read_clock k s of (now, s) \<Rightarrow>
      let s = modify (on_batch (put_status (failed_status resource err now))) s
      in modify (on_batch_progress (\<lambda>p. p\<lparr>bp_failed := bp_failed p + 1\<rparr>)) s)"

definition markResourceCompleted ::
  "batch_env \<Rightarrow> migration_resource \<Rightarrow> batch rstate \<Rightarrow> batch rstate" where
  "markResourceCompleted k resource s =
     (case read_clock k s of (now, s) \<Rightarrow>
      let s = modify (on_batch (put_status (completed_status resource now))) s
      in modify (on_batch_progress (\<lambda>p. p\<lparr>bp_completed := bp_completed p + 1\<rparr>)) s)"

definition updateProgress :: "batch_progress \<Rightarrow> batch_progress" where
  "updateProgress p =
     (if bp_total p > 0
      then p\<lparr>bp_percentage := go_div ((bp_completed p + bp_failed p) * 100) (bp_total p)\<rparr>
      else p)"

section \<open>Processing\<close>

definition getSecretValue :: "batch_env \<Rightarrow> string \<Rightarrow> secret_ref option \<Rightarrow> go_error + string" where
  "getSecretValue k namespace ref = (case ref of
     None \<Rightarrow> Inl (PlainError ''secret reference is nil'')
   | Some ref \<Rightarrow>
       (let secretNamespace = (if sr_namespace ref \<noteq> [] then sr_namespace ref else namespace) in
        case k_secret k secretNamespace (sr_name ref) of
          Inl err \<Rightarrow> Inl (wrap_err (''failed to get secret '' @ sr_name ref) err)
        | Inr secret_data \<Rightarrow>
            (case secret_data (sr_key ref) of
               None \<Rightarrow> Inl (PlainError (''key '' @ sr_key ref @ '' not found in secret '' @ sr_name ref))
             | Some v \<Rightarrow> Inr v)))"

definition getAzureDevOpsToken :: "batch_env \<Rightarrow> batch \<Rightarrow> go_error + string" where
  "getAzureDevOpsToken k b =
     (let auth = src_auth (bsp_source (ba_spec b)) in
      case ado_pat auth of
        Some pat \<Rightarrow> getSecretValue k (om_namespace (ba_meta b)) (Some (pat_tokenRef pat))
      | None \<Rightarrow>
          if ado_servicePrincipal auth \<noteq> None
          then Inl (PlainError ''service principal authentication not yet implemented in batch controller'')
          else Inl (PlainError ''no Azure DevOps authentication configured''))"

definition getGitHubToken :: "batch_env \<Rightarrow> batch \<Rightarrow> go_error + string" where
  "getGitHubToken k b =
     (let auth = tgt_auth (bsp_target (ba_spec b)) in
      case gh_tokenRef auth of
        Some ref \<Rightarrow> getSecretValue k (om_namespace (ba_meta b)) (Some ref)
      | None \<Rightarrow>
          if gh_appAuth auth \<noteq> None
          then Inl (PlainError ''GitHub App authentication not yet implemented in batch controller'')
          else Inl (PlainError ''no GitHub authentication configured''))"

definition processRepositoryResource ::
  "batch_env \<Rightarrow> migration_resource \<Rightarrow> string \<Rightarrow> string \<Rightarrow> batch rstate \<Rightarrow> go_error option" where
  "processRepositoryResource k resource adoToken githubToken s =
     map_option (wrap_err ''repository migration failed'') (be_migrate k s resource adoToken githubToken)"

definition processResource ::
  "batch_env \<Rightarrow> migration_resource \<Rightarrow> batch rstate \<Rightarrow> go_error option" where
  "processResource k resource s =
     (case getAzureDevOpsToken k (obj s) of
        Inl err \<Rightarrow> Some (wrap_err ''failed to get ADO token'' err)
      | Inr adoToken \<Rightarrow>
          (case getGitHubToken k (obj s) of
             Inl err \<Rightarrow> Some (wrap_err ''failed to get GitHub token'' err)
           | Inr githubToken \<Rightarrow>
               if res_type resource = ''repository''
               then processRepositoryResource k resource adoToken githubToken s
               else if res_type resource = ''work-item''
               then Some (PlainError ''work item migration not yet implemented'')
               else if res_type resource = ''pipeline''
               then Some (PlainError ''pipeline migration not yet implemented'')
               else Some (PlainError (''unsupported resource type: '' @ res_type resource))))"

text \<open>The body of the loop of \<open>processProcessing\<close> and the loop.\<close>

definition process_one :: "batch_env \<Rightarrow> migration_resource \<Rightarrow> batch rstate \<Rightarrow> batch rstate" where
  "process_one k resource s =
     (if isResourceProcessed (obj s) resource then s
      else let s = (case processResource k resource s of
                      Some err \<Rightarrow> markResourceFailed k resource err s
                    | None \<Rightarrow> markResourceCompleted k resource s);
               s = modify (on_batch_progress updateProgress) s
           in snd (status_update k s))"

fun process_all :: "batch_env \<Rightarrow> migration_resource list \<Rightarrow> batch rstate \<Rightarrow> batch rstate" where
  "process_all k [] s = s"
| "process_all k (resource # rest) s = process_all k rest (process_one k resource s)"

definition record_duration :: "instant \<Rightarrow> batch_status \<Rightarrow> batch_status" where
  "record_duration now st = (case bs_startTime st of
     None \<Rightarrow> st
   | Some t \<Rightarrow>
       (let stats = (case bs_statistics st of None \<Rightarrow> zero_batch_statistics | Some x \<Rightarrow> x)
        in st\<lparr>bs_statistics := Some (stats\<lparr>bst_duration := now - t\<rparr>)\<rparr>))"

definition completeBatch :: "batch_env \<Rightarrow> batch rstate \<Rightarrow> outcome option \<times> batch rstate" where
  "completeBatch k s =
     (case read_clock k s of (now, s) \<Rightarrow>
      let s = modify (on_batch (\<lambda>st. record_duration now (st\<lparr>bs_completionTime := Some now\<rparr>))) s in
      if bp_failed (bs_progress (ba_status (obj s))) > 0
      then (if bs_retryCount (ba_status (obj s)) < rpol_maxRetries (getRetryPolicy (obj s))
            then returned (retryBatch k s)
            else returned (failBatch k
              (fmt_d (bp_failed (bs_progress (ba_status (obj s)))) @ '' resources failed'') s))
      else
        let s = modify (on_batch (\<lambda>st. st\<lparr>bs_phase := BatchCompleted,
                  bs_progress := (bs_progress st)
                    \<lparr>bp_currentStep := ''Batch completed successfully'', bp_percentage := 100\<rparr>\<rparr>)) s
        in if bs_statistics (ba_status (obj s)) = None then (None, s)
           else let s = emit (Event EventNormal ''BatchCompleted''
                  (''Batch completed successfully ('' @ fmt_d (bp_completed (bs_progress (ba_status (obj s))))
                   @ '' resources)'')) s
                in returned (update_then k no_requeue no_requeue s))"

definition processClaimed :: "batch_env \<Rightarrow> batch rstate \<Rightarrow> outcome \<times> batch rstate" where
  "processClaimed k s =
     (if bs_claimedBy (ba_status (obj s)) \<noteq> be_workerID k then ((no_requeue, None), s)
      else case isLeaseExpired k s of (expired, s) \<Rightarrow>
        if expired then markStale k s
        else case read_clock k s of (now, s) \<Rightarrow>
          let s = modify (on_batch (\<lambda>st. st\<lparr>bs_phase := BatchProcessing, bs_startTime := Some now,
                    bs_progress := (bs_progress st)\<lparr>bp_currentStep := ''Starting batch processing''\<rparr>\<rparr>)) s;
              s = emit (Event EventNormal ''ProcessingStarted'' ''Batch processing started'') s
          in update_then k (after batchProcessingRequeue) (after batchProcessingRequeue) s)"

definition processProcessing :: "batch_env \<Rightarrow> batch rstate \<Rightarrow> outcome option \<times> batch rstate" where
  "processProcessing k s =
     (if bs_claimedBy (ba_status (obj s)) \<noteq> be_workerID k then (Some (no_requeue, None), s)
      else case isLeaseExpired k s of (expired, s) \<Rightarrow>
        if expired then returned (markStale k s)
        else case shouldRenewLease k s of (renew, s) \<Rightarrow>
          let s = (if renew then snd (renewLease k s) else s);
              s = process_all k (bsp_resources (ba_spec (obj s))) s
          in completeBatch k s)"

section \<open>Dispatch\<close>

definition processPhase :: "batch_env \<Rightarrow> batch rstate \<Rightarrow> outcome option \<times> batch rstate" where
  "processPhase k s = (case bs_phase (ba_status (obj s)) of
     BatchPending \<Rightarrow> returned (processPending k s)
   | BatchClaimed \<Rightarrow> returned (processClaimed k s)
   | BatchProcessing \<Rightarrow> processProcessing k s
   | BatchStale \<Rightarrow> returned (processStale k s)
   | BatchRetrying \<Rightarrow> returned (processRetrying k s)
   | BatchCompleted \<Rightarrow> (Some (no_requeue, None), s)
   | BatchFailed \<Rightarrow> (Some (no_requeue, None), s)
   | BatchUnset \<Rightarrow> (Some (no_requeue, None), s))"

definition reconcile_batch :: "batch_env \<Rightarrow> batch rstate \<Rightarrow> outcome option \<times> batch rstate" where
  "reconcile_batch k s =
     (case read_clock k s of (now, s) \<Rightarrow>
      let s = modify (on_batch (\<lambda>st. st\<lparr>bs_lastReconcileTime := Some now\<rparr>)) s in
      if bs_phase (ba_status (obj s)) = BatchUnset then returned (initializeStatus k s)
      else processPhase k s)"

text \<open>\<open>Reconcile\<close> with the answer of \<open>r.Get\<close>; nothing is stored when that fails.\<close>

definition Reconcile :: "batch_env \<Rightarrow> go_error + batch \<Rightarrow> outcome option \<times> batch rstate option" where
  "Reconcile k got = (case got of
     Inl err \<Rightarrow> (Some (no_requeue, if is_not_found err then None else Some err), None)
   | Inr b \<Rightarrow> map_prod id Some (reconcile_batch k (fetched b)))"

text \<open>One reconciliation as a step from stored object to stored object.\<close>

definition batch_step :: "batch_env \<Rightarrow> batch \<Rightarrow> batch" where
  "batch_step k b = stored (snd (reconcile_batch k (fetched b)))"

section \<open>The invariant\<close>

text \<open>
  The phases a reconciliation can move a batch to, and what holds of a stored batch: its
  counters count its resource statuses, every status names a resource of the batch, no two
  the same one, and the retry count stays within the policy.
\<close>

definition batch_edge :: "batch_phase \<Rightarrow> batch_phase \<Rightarrow> bool" where
  "batch_edge p q = (case p of
     BatchUnset \<Rightarrow> q = BatchPending
   | BatchPending \<Rightarrow> q = BatchClaimed
   | BatchClaimed \<Rightarrow> q \<in> {BatchProcessing, BatchStale, BatchRetrying, BatchFailed}
   | BatchProcessing \<Rightarrow> q \<in> {BatchStale, BatchRetrying, BatchFailed, BatchCompleted}
   | BatchStale \<Rightarrow> q \<in> {BatchRetrying, BatchFailed}
   | BatchRetrying \<Rightarrow> q = BatchPending
   | BatchCompleted \<Rightarrow> False
   | BatchFailed \<Rightarrow> False)"

definition retries_ok :: "batch \<Rightarrow> bool" where
  "retries_ok b \<longleftrightarrow> 0 \<le> bs_retryCount (ba_status b)
     \<and> bs_retryCount (ba_status b) \<le> max 0 (rpol_maxRetries (getRetryPolicy b))"

definition statuses_ok :: "batch \<Rightarrow> bool" where
  "statuses_ok b \<longleftrightarrow>
     (let sts = bs_resourceStatuses (ba_status b) in
      (\<forall>st \<in> set sts. rs_status st = StatusCompleted \<or> rs_status st = StatusFailed)
      \<and> distinct (map rs_sourceName sts)
      \<and> rs_sourceName ` set sts \<subseteq> res_sourceName ` set (bsp_resources (ba_spec b)))"

definition counters_ok :: "batch \<Rightarrow> bool" where
  "counters_ok b \<longleftrightarrow>
     (let sts = bs_resourceStatuses (ba_status b); p = bs_progress (ba_status b) in
      bp_total p = int (length (bsp_resources (ba_spec b)))
      \<and> bp_completed p = int (count_if (\<lambda>st. rs_status st = StatusCompleted) sts)
      \<and> bp_failed p = int (count_if (\<lambda>st. rs_status st = StatusFailed) sts)
      \<and> 0 \<le> bp_percentage p \<and> bp_percentage p \<le> 100)"

definition all_done :: "batch \<Rightarrow> bool" where
  "all_done b \<longleftrightarrow> (\<forall>r \<in> set (bsp_resources (ba_spec b)).
     res_sourceName r \<in> rs_sourceName ` set (bs_resourceStatuses (ba_status b)))"

definition batch_ok :: "batch \<Rightarrow> bool" where
  "batch_ok b \<longleftrightarrow>
     (if bs_phase (ba_status b) = BatchUnset then bs_resourceStatuses (ba_status b) = []
      else retries_ok b \<and> statuses_ok b \<and> counters_ok b
        \<and> (bs_phase (ba_status b) = BatchProcessing \<longrightarrow> bs_startTime (ba_status b) \<noteq> None)
        \<and> (bs_phase (ba_status b) = BatchCompleted
            \<longrightarrow> all_done b \<and> bp_failed (bs_progress (ba_status b)) = 0))"

definition batch_body_ok :: "batch \<Rightarrow> bool" where
  "batch_body_ok b \<longleftrightarrow> retries_ok b \<and> statuses_ok b \<and> counters_ok b"

text \<open>What one reconciliation may make of the object that was stored as \<open>b\<close>.\<close>

definition follows :: "batch \<Rightarrow> batch \<Rightarrow> bool" where
  "follows b b' \<longleftrightarrow> ba_spec b' = ba_spec b \<and> batch_ok b'
     \<and> (bs_phase (ba_status b') = bs_phase (ba_status b)
        \<or> batch_edge (bs_phase (ba_status b)) (bs_phase (ba_status b')))
     \<and> (bs_phase (ba_status b) \<noteq> BatchUnset \<longrightarrow>
          (\<forall>st \<in> set (bs_resourceStatuses (ba_status b)). st \<in> set (bs_resourceStatuses (ba_status b'))))"

lemma body_ok_cong:
  "bs_retryCount (ba_status b') = bs_retryCount (ba_status b) \<Longrightarrow>
   bs_resourceStatuses (ba_status b') = bs_resourceStatuses (ba_status b) \<Longrightarrow>
   bp_total (bs_progress (ba_status b')) = bp_total (bs_progress (ba_status b)) \<Longrightarrow>
   bp_completed (bs_progress (ba_status b')) = bp_completed (bs_progress (ba_status b)) \<Longrightarrow>
   bp_failed (bs_progress (ba_status b')) = bp_failed (bs_progress (ba_status b)) \<Longrightarrow>
   bp_percentage (bs_progress (ba_status b')) = bp_percentage (bs_progress (ba_status b)) \<Longrightarrow>
   ba_spec b' = ba_spec b \<Longrightarrow> batch_body_ok b \<Longrightarrow> batch_body_ok b'"
  by (simp add: batch_body_ok_def retries_ok_def statuses_ok_def counters_ok_def getRetryPolicy_def Let_def)

definition grows :: "batch \<Rightarrow> batch \<Rightarrow> bool" where
  "grows b x \<longleftrightarrow> ba_spec x = ba_spec b \<and> batch_body_ok x
     \<and> set (bs_resourceStatuses (ba_status b)) \<subseteq> set (bs_resourceStatuses (ba_status x))"

lemma grows_refl: "batch_ok b \<Longrightarrow> bs_phase (ba_status b) \<noteq> BatchUnset \<Longrightarrow> grows b b"
  by (simp add: grows_def batch_ok_def batch_body_ok_def)

lemma follows_refl: "batch_ok b \<Longrightarrow> follows b b"
  by (simp add: follows_def)

lemma followsI:
  assumes "grows b x" and "bs_phase (ba_status x) \<noteq> BatchUnset"
    and "bs_phase (ba_status x) = bs_phase (ba_status b)
         \<or> batch_edge (bs_phase (ba_status b)) (bs_phase (ba_status x))"
    and "bs_phase (ba_status x) = BatchProcessing \<Longrightarrow> bs_startTime (ba_status x) \<noteq> None"
    and "bs_phase (ba_status x) = BatchCompleted \<Longrightarrow>
         all_done x \<and> bp_failed (bs_progress (ba_status x)) = 0"
  shows "follows b x"
  using assms by (auto simp: follows_def grows_def batch_ok_def batch_body_ok_def)

lemma follows_update_then:
  "follows b (stored s) \<Longrightarrow> follows b (obj s) \<Longrightarrow> follows b (stored (snd (update_then k r1 r2 s)))"
  by simp

lemma follows_status_update:
  "follows b (stored s) \<Longrightarrow> follows b (obj s) \<Longrightarrow> follows b (stored (snd (status_update k s)))"
  by simp

lemma grows_cong:
  "grows b x \<Longrightarrow> ba_spec y = ba_spec x \<Longrightarrow>
   bs_retryCount (ba_status y) = bs_retryCount (ba_status x) \<Longrightarrow>
   bs_resourceStatuses (ba_status y) = bs_resourceStatuses (ba_status x) \<Longrightarrow>
   bp_total (bs_progress (ba_status y)) = bp_total (bs_progress (ba_status x)) \<Longrightarrow>
   bp_completed (bs_progress (ba_status y)) = bp_completed (bs_progress (ba_status x)) \<Longrightarrow>
   bp_failed (bs_progress (ba_status y)) = bp_failed (bs_progress (ba_status x)) \<Longrightarrow>
   bp_percentage (bs_progress (ba_status y)) = bp_percentage (bs_progress (ba_status x)) \<Longrightarrow>
   grows b y"
  unfolding grows_def using body_ok_cong [of y x] by auto

lemma failBatch_follows:
  assumes "follows b (stored s)" and "grows b (obj s)"
    and "batch_edge (bs_phase (ba_status b)) BatchFailed"
  shows "follows b (stored (snd (failBatch k m s)))"
  unfolding failBatch_def read_clock_def Let_def prod.case
  by (rule follows_update_then)
    (use assms in \<open>auto intro!: followsI elim!: grows_cong\<close>)

lemma retryBatch_follows:
  assumes "follows b (stored s)" and g: "grows b (obj s)"
    and "batch_edge (bs_phase (ba_status b)) BatchFailed"
    and "batch_edge (bs_phase (ba_status b)) BatchRetrying"
  shows "follows b (stored (snd (retryBatch k s)))"
proof (cases "rpol_maxRetries (getRetryPolicy (obj s)) \<le> bs_retryCount (ba_status (obj s))")
  case True
  then show ?thesis using failBatch_follows [OF assms(1-3)] by (simp add: retryBatch_def)
next
  case False
  then have "retries_ok (obj s) \<Longrightarrow> 0 \<le> bs_retryCount (ba_status (obj s)) + 1
      \<and> bs_retryCount (ba_status (obj s)) + 1 \<le> max 0 (rpol_maxRetries (getRetryPolicy (obj s)))"
    by (auto simp: retries_ok_def)
  with False show ?thesis
    unfolding retryBatch_def read_clock_def Let_def prod.case
    using assms
    by (auto intro!: followsI simp: grows_def batch_body_ok_def retries_ok_def statuses_ok_def
        counters_ok_def getRetryPolicy_def Let_def)
qed

lemma markStale_follows:
  assumes "follows b (stored s)" and "grows b (obj s)"
    and "batch_edge (bs_phase (ba_status b)) BatchStale"
    and "batch_edge (bs_phase (ba_status b)) BatchFailed"
    and "batch_edge (bs_phase (ba_status b)) BatchRetrying"
  shows "follows b (stored (snd (markStale k s)))"
  unfolding markStale_def Let_def
  by (rule status_update_or_stored; (rule retryBatch_follows)?)
    (use assms in \<open>auto intro!: followsI elim!: grows_cong\<close>)

subsection \<open>The loop over the resources\<close>

lemma not_processed_new:
  assumes "statuses_ok b" and "\<not> isResourceProcessed b r"
  shows "res_sourceName r \<notin> rs_sourceName ` set (bs_resourceStatuses (ba_status b))"
proof
  assume "res_sourceName r \<in> rs_sourceName ` set (bs_resourceStatuses (ba_status b))"
  then obtain st where "find (\<lambda>st. rs_sourceName st = res_sourceName r)
      (bs_resourceStatuses (ba_status b)) = Some st"
    by (force simp: find_None_iff dest!: not_None_eq [THEN iffD1, rotated])
  with assms show False
    by (auto simp: isResourceProcessed_def statuses_ok_def Let_def find_Some_iff)
qed

lemma replace_first_append: "\<forall>x \<in> set xs. \<not> P x \<Longrightarrow> replace_first P y xs = xs @ [y]"
  by (induction xs) auto

lemma count_two:
  "\<forall>x \<in> set xs. P x \<or> Q x \<Longrightarrow> \<forall>x. \<not> (P x \<and> Q x) \<Longrightarrow> count_if P xs + count_if Q xs = length xs"
  by (induction xs) auto

lemma statuses_bound:
  assumes "statuses_ok b"
  shows "length (bs_resourceStatuses (ba_status b)) \<le> length (bsp_resources (ba_spec b))"
proof -
  let ?sts = "bs_resourceStatuses (ba_status b)" and ?rs = "bsp_resources (ba_spec b)"
  have "length ?sts = card (set (map rs_sourceName ?sts))"
    using assms distinct_card [of "map rs_sourceName ?sts"] by (simp add: statuses_ok_def Let_def)
  also have "\<dots> \<le> card (set (map res_sourceName ?rs))"
    by (rule card_mono) (use assms in \<open>auto simp: statuses_ok_def Let_def\<close>)
  also have "\<dots> \<le> length ?rs" by (metis card_length length_map)
  finally show ?thesis .
qed

lemma counters_bound:
  assumes "statuses_ok b" and "counters_ok b"
  shows "bp_completed (bs_progress (ba_status b)) + bp_failed (bs_progress (ba_status b))
    \<le> bp_total (bs_progress (ba_status b))"
proof -
  have "count_if (\<lambda>st. rs_status st = StatusCompleted) (bs_resourceStatuses (ba_status b))
      + count_if (\<lambda>st. rs_status st = StatusFailed) (bs_resourceStatuses (ba_status b))
      = length (bs_resourceStatuses (ba_status b))"
    by (rule count_two) (use assms(1) in \<open>auto simp: statuses_ok_def Let_def\<close>)
  with statuses_bound [OF assms(1)] assms(2) show ?thesis
    by (auto simp: counters_ok_def Let_def simp flip: of_nat_add)
qed

lemma updateProgress_simps [simp]:
  "bp_total (updateProgress p) = bp_total p" "bp_completed (updateProgress p) = bp_completed p"
  "bp_failed (updateProgress p) = bp_failed p"
  "bp_percentage (updateProgress p) =
    (if bp_total p > 0 then go_div ((bp_completed p + bp_failed p) * 100) (bp_total p)
     else bp_percentage p)"
  by (simp_all add: updateProgress_def)

definition add_status :: "resource_migration_status \<Rightarrow> batch \<Rightarrow> batch" where
  "add_status new b = on_batch_progress updateProgress (on_batch_progress
     (\<lambda>p. if rs_status new = StatusFailed then p\<lparr>bp_failed := bp_failed p + 1\<rparr>
          else p\<lparr>bp_completed := bp_completed p + 1\<rparr>) (on_batch (put_status new) b))"

lemma add_status_simps:
  assumes "statuses_ok b" and "\<not> isResourceProcessed b r" and "rs_sourceName new = res_sourceName r"
  shows "bs_resourceStatuses (ba_status (add_status new b)) = bs_resourceStatuses (ba_status b) @ [new]"
proof -
  have "\<forall>x \<in> set (bs_resourceStatuses (ba_status b)). rs_sourceName x \<noteq> rs_sourceName new"
    using not_processed_new [OF assms(1,2)] assms(3) by (metis imageI)
  from replace_first_append [OF this] show ?thesis by (simp add: add_status_def put_status_def)
qed

lemma add_status_frame [simp]:
  "ba_spec (add_status new b) = ba_spec b"
  "bs_phase (ba_status (add_status new b)) = bs_phase (ba_status b)"
  "bs_startTime (ba_status (add_status new b)) = bs_startTime (ba_status b)"
  "bs_retryCount (ba_status (add_status new b)) = bs_retryCount (ba_status b)"
  "bs_claimedBy (ba_status (add_status new b)) = bs_claimedBy (ba_status b)"
  by (simp_all add: add_status_def put_status_def)

lemma add_status_grows:
  assumes g: "grows b x" and new: "\<not> isResourceProcessed x r" "rs_sourceName new = res_sourceName r"
    and st: "rs_status new = StatusCompleted \<or> rs_status new = StatusFailed"
    and r: "r \<in> set (bsp_resources (ba_spec x))"
  shows "grows b (add_status new x)"
proof -
  let ?y = "add_status new x"
  from g have ok: "statuses_ok x" "counters_ok x" "retries_ok x"
    by (simp_all add: grows_def batch_body_ok_def)
  note sts = add_status_simps [OF ok(1) new]
  have sok: "statuses_ok ?y"
    using ok(1) not_processed_new [OF ok(1) new(1)] st r new(2)
    by (auto simp: statuses_ok_def Let_def sts)
  let ?p = "bs_progress (ba_status ?y)"
  have cnt: "bp_total ?p = int (length (bsp_resources (ba_spec ?y)))
      \<and> bp_completed ?p = int (count_if (\<lambda>st. rs_status st = StatusCompleted)
           (bs_resourceStatuses (ba_status ?y)))
      \<and> bp_failed ?p = int (count_if (\<lambda>st. rs_status st = StatusFailed)
           (bs_resourceStatuses (ba_status ?y)))"
    using ok(2) st unfolding sts by (auto simp: counters_ok_def Let_def add_status_def put_status_def)
  have tot: "0 < bp_total ?p" using cnt r by (cases "bsp_resources (ba_spec x)") auto
  have pct: "bp_percentage ?p = (bp_completed ?p + bp_failed ?p) * 100 div bp_total ?p"
    using tot cnt by (simp add: add_status_def put_status_def)
  have "bp_completed ?p + bp_failed ?p \<le> bp_total ?p"
  proof -
    have "count_if (\<lambda>st. rs_status st = StatusCompleted) (bs_resourceStatuses (ba_status ?y))
        + count_if (\<lambda>st. rs_status st = StatusFailed) (bs_resourceStatuses (ba_status ?y))
        = length (bs_resourceStatuses (ba_status ?y))"
      by (rule count_two) (use sok in \<open>auto simp: statuses_ok_def Let_def\<close>)
    with statuses_bound [OF sok] cnt show ?thesis by (simp flip: of_nat_add)
  qed
  then have "bp_percentage ?p \<le> 100"
    unfolding pct using tot zdiv_mono1 [of "(bp_completed ?p + bp_failed ?p) * 100" "bp_total ?p * 100" "bp_total ?p"]
    by simp
  moreover have "0 \<le> bp_percentage ?p"
    unfolding pct using tot cnt by (simp add: pos_imp_zdiv_nonneg_iff)
  ultimately have "counters_ok ?y" using cnt by (simp add: counters_ok_def Let_def)
  with sok ok(3) g sts show ?thesis
    by (auto simp: grows_def batch_body_ok_def retries_ok_def getRetryPolicy_def)
qed

lemma process_one_obj:
  assumes "\<not> isResourceProcessed (obj s) r"
  obtains new where "obj (process_one k r s) = add_status new (obj s)"
    and "rs_sourceName new = res_sourceName r"
    and "rs_status new = (if processResource k r s = None then StatusCompleted else StatusFailed)"
    and "stored (process_one k r s) \<in> {stored s, obj (process_one k r s)}"
proof (cases "processResource k r s")
  case None
  with assms show ?thesis
    by (intro that [of "completed_status r (k_clock k (ticks s))"])
      (auto simp: process_one_def markResourceCompleted_def read_clock_def Let_def add_status_def)
next
  case (Some e)
  with assms show ?thesis
    by (intro that [of "failed_status r e (k_clock k (ticks s))"])
      (auto simp: process_one_def markResourceFailed_def read_clock_def Let_def add_status_def)
qed

definition listed :: "batch \<Rightarrow> string \<Rightarrow> bool" where
  "listed b n \<longleftrightarrow> n \<in> rs_sourceName ` set (bs_resourceStatuses (ba_status b))"

text \<open>One round of the loop, and all of them, on a batch in phase Processing.\<close>

definition busy :: "batch \<Rightarrow> batch rstate \<Rightarrow> bool" where
  "busy b s \<longleftrightarrow> follows b (stored s) \<and> grows b (obj s)
     \<and> bs_phase (ba_status (obj s)) = bs_phase (ba_status b)
     \<and> bs_phase (ba_status b) = BatchProcessing
     \<and> bs_startTime (ba_status (obj s)) \<noteq> None"

lemma processed_listed: "isResourceProcessed b r \<Longrightarrow> listed b (res_sourceName r)"
  by (auto simp: isResourceProcessed_def listed_def dest!: find_mem split: option.splits
      intro!: image_eqI [OF sym])

lemma process_one_busy:
  assumes busy: "busy b s" and r: "r \<in> set (bsp_resources (ba_spec (obj s)))"
  shows "busy b (process_one k r s) \<and> ba_spec (obj (process_one k r s)) = ba_spec (obj s)
    \<and> (\<forall>n. listed (obj s) n \<or> n = res_sourceName r \<longrightarrow> listed (obj (process_one k r s)) n)"
proof (cases "isResourceProcessed (obj s) r")
  case True
  then show ?thesis using busy processed_listed by (auto simp: process_one_def)
next
  case False
  then obtain new where new: "obj (process_one k r s) = add_status new (obj s)"
      "rs_sourceName new = res_sourceName r"
      "rs_status new = StatusCompleted \<or> rs_status new = StatusFailed"
      and stored: "stored (process_one k r s) \<in> {stored s, obj (process_one k r s)}"
    by (elim process_one_obj [of s r k]) auto
  from busy have g: "grows b (obj s)" and ok: "statuses_ok (obj s)"
    by (auto simp: busy_def grows_def batch_body_ok_def)
  have g': "grows b (obj (process_one k r s))"
    unfolding new(1) by (rule add_status_grows [OF g False new(2,3) r])
  have f': "follows b (obj (process_one k r s))"
    by (rule followsI [OF g']) (use busy new(1) in \<open>auto simp: busy_def\<close>)
  show ?thesis
    using busy g' f' stored add_status_simps [OF ok False new(2)] new(2)
    by (auto simp: busy_def new(1) listed_def)
qed

lemma process_all_busy:
  assumes "busy b s" and "set rs \<subseteq> set (bsp_resources (ba_spec (obj s)))"
  shows "busy b (process_all k rs s) \<and> ba_spec (obj (process_all k rs s)) = ba_spec (obj s)
    \<and> (\<forall>n. listed (obj s) n \<or> n \<in> res_sourceName ` set rs \<longrightarrow> listed (obj (process_all k rs s)) n)"
  using assms
proof (induction rs arbitrary: s)
  case (Cons r rs)
  from Cons.prems process_one_busy [of b s r k] have
    one: "busy b (process_one k r s)" "ba_spec (obj (process_one k r s)) = ba_spec (obj s)"
      "\<forall>n. listed (obj s) n \<or> n = res_sourceName r \<longrightarrow> listed (obj (process_one k r s)) n"
    by auto
  from Cons.IH [of "process_one k r s"] Cons.prems one show ?case by auto
qed simp

subsection \<open>The handlers\<close>

lemma record_duration_simps [simp]:
  "bs_phase (record_duration t st) = bs_phase st"
  "bs_progress (record_duration t st) = bs_progress st"
  "bs_retryCount (record_duration t st) = bs_retryCount st"
  "bs_startTime (record_duration t st) = bs_startTime st"
  "bs_resourceStatuses (record_duration t st) = bs_resourceStatuses st"
  by (simp_all add: record_duration_def Let_def split: option.splits)

lemma record_duration_statistics:
  "bs_startTime st \<noteq> None \<Longrightarrow> bs_statistics (record_duration t st) \<noteq> None"
  by (auto simp: record_duration_def)

lemma grows_complete:
  assumes "grows b x" and "ba_spec y = ba_spec x"
    and "bs_retryCount (ba_status y) = bs_retryCount (ba_status x)"
    and "bs_resourceStatuses (ba_status y) = bs_resourceStatuses (ba_status x)"
    and "bp_total (bs_progress (ba_status y)) = bp_total (bs_progress (ba_status x))"
    and "bp_completed (bs_progress (ba_status y)) = bp_completed (bs_progress (ba_status x))"
    and "bp_failed (bs_progress (ba_status y)) = bp_failed (bs_progress (ba_status x))"
    and "bp_percentage (bs_progress (ba_status y)) = 100"
  shows "grows b y"
proof -
  have "counters_ok x" using assms(1) by (simp add: grows_def batch_body_ok_def)
  then have "counters_ok y"
    unfolding counters_ok_def Let_def assms(2,4-8) by simp
  with assms(1-4) show ?thesis
    by (auto simp: grows_def batch_body_ok_def retries_ok_def statuses_ok_def getRetryPolicy_def Let_def)
qed

lemma completeBatch_busy:
  assumes busy: "busy b s" and every: "all_done (obj s)"
  shows "follows b (stored (snd (completeBatch k s))) \<and> fst (completeBatch k s) \<noteq> None"
proof -
  let ?now = "k_clock k (ticks s)"
  let ?s = "modify (on_batch (\<lambda>st. record_duration ?now (st\<lparr>bs_completionTime := Some ?now\<rparr>)))
              (s\<lparr>ticks := Suc (ticks s)\<rparr>)"
  have g: "grows b (obj ?s)" and f: "follows b (stored ?s)"
    and stat: "bs_statistics (ba_status (obj ?s)) \<noteq> None"
    using busy
    by (auto simp: busy_def record_duration_def elim!: grows_cong split: option.splits)
  have e: "batch_edge (bs_phase (ba_status b)) BatchFailed"
    "batch_edge (bs_phase (ba_status b)) BatchRetrying"
    "batch_edge (bs_phase (ba_status b)) BatchCompleted"
    using busy by (simp_all add: busy_def batch_edge_def)
  let ?c = "modify (on_batch (\<lambda>st. st\<lparr>bs_phase := BatchCompleted,
      bs_progress := (bs_progress st)\<lparr>bp_currentStep := ''Batch completed successfully'',
        bp_percentage := 100\<rparr>\<rparr>)) ?s"
  have c: "follows b (obj ?c)" if "\<not> 0 < bp_failed (bs_progress (ba_status (obj s)))"
  proof (rule followsI)
    show "grows b (obj ?c)" by (rule grows_complete [OF g]) simp_all
    have "0 \<le> bp_failed (bs_progress (ba_status (obj s)))"
      using busy by (auto simp: busy_def grows_def batch_body_ok_def counters_ok_def Let_def)
    with that every show "all_done (obj ?c) \<and> bp_failed (bs_progress (ba_status (obj ?c))) = 0"
      by (auto simp: all_done_def)
  qed (use e in auto)
  show ?thesis
    using retryBatch_follows [OF f g e(1,2), of k] failBatch_follows [OF f g e(1), of k] c f stat
    by (auto simp: completeBatch_def read_clock_def Let_def)
qed

lemma isLeaseExpired_frame [simp]:
  "obj (snd (isLeaseExpired k s)) = obj s" "stored (snd (isLeaseExpired k s)) = stored s"
  by (simp_all add: isLeaseExpired_def read_clock_def split: option.splits)

lemma shouldRenewLease_frame [simp]:
  "obj (snd (shouldRenewLease k s)) = obj s" "stored (snd (shouldRenewLease k s)) = stored s"
  by (simp_all add: shouldRenewLease_def read_clock_def split: option.splits)

lemma renewLease_busy: "busy b s \<Longrightarrow> busy b (snd (renewLease k s))"
  by (auto simp: busy_def renewLease_def read_clock_def Let_def intro!: followsI elim!: grows_cong)

lemma renewLease_spec [simp]: "ba_spec (obj (snd (renewLease k s))) = ba_spec (obj s)"
  by (simp add: renewLease_def read_clock_def Let_def)

lemma processProcessing_follows:
  assumes busy: "busy b s"
  shows "follows b (stored (snd (processProcessing k s))) \<and> fst (processProcessing k s) \<noteq> None"
proof -
  obtain x s1 where l: "isLeaseExpired k s = (x, s1)" by fastforce
  then have s1: "obj s1 = obj s" "stored s1 = stored s"
    using isLeaseExpired_frame [of k s] by simp_all
  obtain w s2 where w: "shouldRenewLease k s1 = (w, s2)" by fastforce
  then have s2: "obj s2 = obj s" "stored s2 = stored s"
    using shouldRenewLease_frame [of k s1] s1 by simp_all
  let ?s3 = "if w then snd (renewLease k s2) else s2"
  have b3: "busy b ?s3" using busy s2 renewLease_busy [of b s2 k] by (auto simp: busy_def)
  let ?s4 = "process_all k (bsp_resources (ba_spec (obj ?s3))) ?s3"
  from process_all_busy [OF b3 order_refl, of k]
  have b4: "busy b ?s4" and "all_done (obj ?s4)"
    by (auto simp: all_done_def listed_def)
  note c = completeBatch_busy [OF this, of k]
  have "follows b (stored (snd (markStale k s1)))"
    by (rule markStale_follows) (use busy s1 in \<open>auto simp: busy_def batch_edge_def\<close>)
  moreover have "follows b (stored s)" using busy by (simp add: busy_def)
  ultimately show ?thesis using c by (auto simp: processProcessing_def l w Let_def)
qed

lemma processClaimed_follows:
  assumes f: "follows b (stored s)" and g: "grows b (obj s)"
    and p: "bs_phase (ba_status b) = BatchClaimed"
  shows "follows b (stored (snd (processClaimed k s)))"
proof -
  obtain x s1 where l: "isLeaseExpired k s = (x, s1)" by fastforce
  then have s1: "obj s1 = obj s" "stored s1 = stored s"
    using isLeaseExpired_frame [of k s] by simp_all
  have "follows b (stored (snd (markStale k s1)))"
    by (rule markStale_follows) (use f g p s1 in \<open>auto simp: batch_edge_def\<close>)
  then show ?thesis
    using f g s1 p
    by (auto simp: processClaimed_def l read_clock_def Let_def batch_edge_def
        intro!: followsI elim!: grows_cong)
qed

lemma processPending_follows:
  assumes "follows b (stored s)" and "grows b (obj s)"
    and "bs_phase (ba_status b) = BatchPending"
  shows "follows b (stored (snd (processPending k s)))"
  using assms
  by (auto simp: processPending_def claimBatch_def read_clock_def status_update_def Let_def
      batch_edge_def intro!: followsI elim!: grows_cong split: option.splits)

lemma processRetrying_follows:
  assumes "follows b (stored s)" and "grows b (obj s)"
    and "bs_phase (ba_status b) = BatchRetrying"
  shows "follows b (stored (snd (processRetrying k s)))"
  using assms
  by (auto simp: processRetrying_def retry_now_def read_clock_def Let_def batch_edge_def
      intro!: followsI elim!: grows_cong split: option.splits)

lemma initializeStatus_follows:
  assumes "follows b (stored s)" and "ba_spec (obj s) = ba_spec b"
    and "bs_resourceStatuses (ba_status (obj s)) = []"
    and "bs_phase (ba_status b) = BatchUnset"
  shows "follows b (stored (snd (initializeStatus k s)))"
  unfolding initializeStatus_def Let_def
proof (rule follows_update_then, goal_cases)
  case 1
  show ?case using assms(1) by simp
next
  case 2
  show ?case
    using assms(2-4)
    by (simp add: follows_def batch_edge_def batch_ok_def retries_ok_def statuses_ok_def
        counters_ok_def zero_batch_progress_def Let_def)
qed

lemma reconcile_batch_ok:
  assumes ok: "batch_ok b"
  shows "follows b (stored (snd (reconcile_batch k (fetched b))))
    \<and> fst (reconcile_batch k (fetched b)) \<noteq> None"
proof -
  let ?s = "modify (on_batch (\<lambda>st. st\<lparr>bs_lastReconcileTime := Some (k_clock k 0)\<rparr>))
              (fetched b\<lparr>ticks := 1\<rparr>)"
  have r: "reconcile_batch k (fetched b) =
      (if bs_phase (ba_status b) = BatchUnset then returned (initializeStatus k ?s)
       else processPhase k ?s)"
    by (simp add: reconcile_batch_def read_clock_def Let_def fetched_def)
  have f: "follows b (stored ?s)" using ok by (simp add: follows_refl)
  show ?thesis
  proof (cases "bs_phase (ba_status b) = BatchUnset")
    case True
    with ok have "bs_resourceStatuses (ba_status (obj ?s)) = []" by (simp add: batch_ok_def)
    with initializeStatus_follows [OF f _ this True] r True show ?thesis by simp
  next
    case False
    have g: "grows b (obj ?s)" using grows_refl [OF ok False] by (auto elim: grows_cong)
    have "busy b ?s" if "bs_phase (ba_status b) = BatchProcessing"
      using that f g ok by (simp add: busy_def batch_ok_def)
    note p = processProcessing_follows [OF this, of k]
    have "follows b (stored (snd (processStale k ?s)))" if "bs_phase (ba_status b) = BatchStale"
      unfolding processStale_def
      by (rule retryBatch_follows [OF f g]) (simp_all add: that batch_edge_def)
    with p f g False r show ?thesis
      using processPending_follows [OF f g] processClaimed_follows [OF f g]
        processRetrying_follows [OF f g]
      by (cases "bs_phase (ba_status b)") (auto simp: processPhase_def)
  qed
qed

lemma follows_step: "batch_ok b \<Longrightarrow> follows b (batch_step k b)"
  using reconcile_batch_ok [of b k] by (simp add: batch_step_def)

lemma follows_ok: "follows b b' \<Longrightarrow> batch_ok b'"
  by (simp add: follows_def)

interpretation bm: phase_machine "\<lambda>b. bs_phase (ba_status b)" batch_step "\<lambda>_. True" batch_ok batch_edge
  by unfold_locales (use follows_step in \<open>auto simp: follows_def\<close>)

lemma spec_run: "batch_ok b \<Longrightarrow> ba_spec (fold batch_step es b) = ba_spec b"
proof (induction es arbitrary: b)
  case (Cons e es)
  from follows_step [OF Cons.prems, of e] Cons.IH [of "batch_step e b"] show ?case
    by (simp add: follows_def)
qed simp

lemmas batch_inv_run = bm.inv_run [simplified]
lemmas batch_path_run = bm.path_run [simplified]

section \<open>Properties\<close>

subsection \<open>A concrete batch\<close>

definition sample_env :: "string \<Rightarrow> batch_env" where
  "sample_env w = \<lparr>k_clock = (\<lambda>n. int n), k_status = (\<lambda>n x. None), k_update = (\<lambda>n old x. Inr x),
     k_secret = (\<lambda>ns n. Inr (Map.empty(''token'' \<mapsto> ''secret''))), be_workerID = w,
     be_migrate = (\<lambda>s r a g. if res_sourceName r = ''bad'' then Some (PlainError ''clone failed'') else None),
     be_rand = (\<lambda>n. 1 / 2), be_rnd = id, be_conv = floor, be_pow = (\<lambda>m n. of_int (m ^ nat n))\<rparr>"

definition sample_resource :: "string \<Rightarrow> migration_resource" where
  "sample_resource n = \<lparr>res_type = ''repository'', res_sourceID = n, res_sourceName = n,
     res_targetName = n, res_config = Map.empty, res_settings = None\<rparr>"

definition sample_batch :: "string list \<Rightarrow> batch" where
  "sample_batch names = \<lparr>ba_meta = zero_meta,
     ba_spec = \<lparr>bsp_migrationJobRef = \<lparr>nn_namespace = [], nn_name = ''job''\<rparr>, bsp_batchNumber = 1,
       bsp_priority = 50, bsp_resources = map sample_resource names,
       bsp_source = zero_source\<lparr>src_auth := \<lparr>ado_servicePrincipal = None,
          ado_pat = Some \<lparr>pat_tokenRef = \<lparr>sr_name = ''ado'', sr_key = ''token'', sr_namespace = []\<rparr>\<rparr>\<rparr>\<rparr>,
       bsp_target = zero_target\<lparr>tgt_auth := \<lparr>gh_tokenRef = Some
          \<lparr>sr_name = ''github'', sr_key = ''token'', sr_namespace = []\<rparr>, gh_appAuth = None, gh_token = []\<rparr>\<rparr>,
       bsp_settings = zero_settings, bsp_retryPolicy = None, bsp_timeoutMinutes = 60\<rparr>,
     ba_status = \<lparr>bs_phase = BatchUnset, bs_claimedBy = [], bs_claimedAt = None,
       bs_leaseExpiresAt = None, bs_progress = zero_batch_progress, bs_retryCount = 0,
       bs_startTime = None, bs_completionTime = None, bs_resourceStatuses = [],
       bs_errorMessage = [], bs_lastReconcileTime = None, bs_nextRetryTime = None,
       bs_statistics = None\<rparr>\<rparr>"

lemma sample_batch_ok: "batch_ok (sample_batch names)"
  by (simp add: batch_ok_def sample_batch_def)

lemma batch_step_other:
  assumes "bs_phase (ba_status b) \<in> {BatchClaimed, BatchProcessing}"
    and "be_workerID k \<noteq> bs_claimedBy (ba_status b)"
  shows "batch_step k b = b"
  using assms by (auto simp: batch_step_def reconcile_batch_def processPhase_def
      processClaimed_def processProcessing_def read_clock_def Let_def)

lemma reconcile_other:
  assumes "bs_phase (ba_status b) \<in> {BatchClaimed, BatchProcessing}"
    and "be_workerID k \<noteq> bs_claimedBy (ba_status b)"
  shows "fst (reconcile_batch k (fetched b)) = Some (no_requeue, None)
    \<and> effects (snd (reconcile_batch k (fetched b))) = []"
  using assms by (auto simp: reconcile_batch_def processPhase_def
      processClaimed_def processProcessing_def read_clock_def Let_def)

lemma claim_names_worker:
  assumes "bs_phase (ba_status b) = BatchPending"
  shows "batch_step k b = b \<or> bs_claimedBy (ba_status (batch_step k b)) = be_workerID k"
  using assms by (auto simp: batch_step_def reconcile_batch_def processPhase_def
      processPending_def claimBatch_def read_clock_def status_update_def Let_def split: option.splits)

text \<open>A claimed batch names its worker for as long as it is claimed or processed.\<close>

definition held_by :: "string \<Rightarrow> batch \<Rightarrow> bool" where
  "held_by w b \<longleftrightarrow> (bs_phase (ba_status b) \<in> {BatchClaimed, BatchProcessing} \<longrightarrow>
     bs_claimedBy (ba_status b) = w)"

lemma failBatch_held: "held_by w (stored s) \<Longrightarrow> held_by w (stored (snd (failBatch k m s)))"
  by (auto simp: failBatch_def read_clock_def Let_def held_by_def)

lemma retryBatch_held: "held_by w (stored s) \<Longrightarrow> held_by w (stored (snd (retryBatch k s)))"
  using failBatch_held [of w s k]
  by (auto simp: retryBatch_def read_clock_def Let_def held_by_def)

lemma markStale_held: "held_by w (stored s) \<Longrightarrow> held_by w (stored (snd (markStale k s)))"
  unfolding markStale_def Let_def
  by (rule status_update_or_stored; (rule retryBatch_held)?) (simp_all add: held_by_def)

lemma completeBatch_held:
  "held_by w (stored s) \<Longrightarrow> held_by w (stored (snd (completeBatch k s)))"
  by (auto simp: completeBatch_def read_clock_def Let_def held_by_def
      intro!: retryBatch_held [unfolded held_by_def, rule_format]
        failBatch_held [unfolded held_by_def, rule_format])

definition held :: "string \<Rightarrow> batch rstate \<Rightarrow> bool" where
  "held w s \<longleftrightarrow> held_by w (stored s) \<and> bs_claimedBy (ba_status (obj s)) = w"

lemma process_one_held: "held w s \<Longrightarrow> held w (process_one k r s)"
proof (cases "isResourceProcessed (obj s) r")
  case False
  assume h: "held w s"
  from False obtain new where "obj (process_one k r s) = add_status new (obj s)"
      "stored (process_one k r s) \<in> {stored s, obj (process_one k r s)}"
    by (elim process_one_obj [of s r k]) auto
  with h show ?thesis by (auto simp: held_def held_by_def add_status_def put_status_def)
qed (simp add: process_one_def)

lemma process_all_held: "held w s \<Longrightarrow> held w (process_all k rs s)"
  by (induction rs arbitrary: s) (simp_all add: process_one_held)

lemma renewLease_held: "held w s \<Longrightarrow> held w (snd (renewLease k s))"
  by (auto simp: held_def held_by_def renewLease_def read_clock_def Let_def)

lemma processProcessing_held:
  assumes "held w s" shows "held_by w (stored (snd (processProcessing k s)))"
proof -
  obtain x s1 where l: "isLeaseExpired k s = (x, s1)" by fastforce
  obtain y s2 where y: "shouldRenewLease k s1 = (y, s2)" by fastforce
  from assms have 1: "held w s1" and 2: "held w s2"
    using isLeaseExpired_frame [of k s] shouldRenewLease_frame [of k s1] l y
    by (simp_all add: held_def)
  from 2 have "held w (if y then snd (renewLease k s2) else s2)" by (simp add: renewLease_held)
  then have "held w (process_all k rs (if y then snd (renewLease k s2) else s2))" for rs
    by (rule process_all_held)
  with 1 assms show ?thesis
    by (auto simp: processProcessing_def l y Let_def held_def
        intro: markStale_held completeBatch_held)
qed

lemma processClaimed_held:
  assumes "held w s" shows "held_by w (stored (snd (processClaimed k s)))"
proof -
  obtain x s1 where l: "isLeaseExpired k s = (x, s1)" by fastforce
  from assms have 1: "held_by w (stored s1)" "bs_claimedBy (ba_status (obj s1)) = w"
    using isLeaseExpired_frame [of k s] l by (simp_all add: held_def)
  with assms markStale_held [OF 1(1)] show ?thesis
    by (auto simp: processClaimed_def l read_clock_def Let_def held_def held_by_def)
qed

lemma claim_kept:
  assumes "bs_phase (ba_status b) \<in> {BatchClaimed, BatchProcessing}"
  shows "held_by (bs_claimedBy (ba_status b)) (batch_step k b)"
proof -
  let ?w = "bs_claimedBy (ba_status b)"
  define s where "s = modify (on_batch (\<lambda>st. st\<lparr>bs_lastReconcileTime := Some (k_clock k 0)\<rparr>))
    (fetched b\<lparr>ticks := 1\<rparr>)"
  have r: "batch_step k b = stored (snd (processPhase k s))"
    using assms
    by (auto simp: batch_step_def reconcile_batch_def read_clock_def Let_def fetched_def s_def)
  have h: "held ?w s" and p: "bs_phase (ba_status (obj s)) = bs_phase (ba_status b)"
    by (simp_all add: s_def held_def held_by_def)
  from assms processClaimed_held [OF h] processProcessing_held [OF h] show ?thesis
    by (auto simp: r processPhase_def p)
qed

subsection \<open>Any number of reconciliations by any workers\<close>

text \<open>
  C1. However many times the batch is reconciled, by whatever workers and with whatever
  answers of the API server, the stored batch keeps its invariant, its completed and failed
  counts never exceed its total, its percentage stays between 0 and 100, its retry count
  stays within the policy, and its phase moves only along the edges of the state machine.
\<close>

theorem batch_run_invariant:
  assumes "batch_ok b"
  shows "let b' = fold batch_step es b; p = bs_progress (ba_status b') in
    batch_ok b' \<and> batch_edge\<^sup>*\<^sup>* (bs_phase (ba_status b)) (bs_phase (ba_status b'))
    \<and> (bs_phase (ba_status b') = BatchUnset
       \<or> bp_completed p + bp_failed p \<le> bp_total p \<and> bp_percentage p \<in> {0..100}
         \<and> bs_retryCount (ba_status b') \<le> max 0 (rpol_maxRetries (getRetryPolicy b')))"
proof -
  have ok: "batch_ok (fold batch_step es b)" by (rule batch_inv_run [OF assms])
  have "bs_phase (ba_status (fold batch_step es b)) = BatchUnset
    \<or> (let b' = fold batch_step es b; p = bs_progress (ba_status b') in
       bp_completed p + bp_failed p \<le> bp_total p \<and> bp_percentage p \<in> {0..100}
       \<and> bs_retryCount (ba_status b') \<le> max 0 (rpol_maxRetries (getRetryPolicy b')))"
    using ok counters_bound [of "fold batch_step es b"]
    by (auto simp: batch_ok_def counters_ok_def retries_ok_def Let_def split: if_splits)
  with ok batch_path_run [OF assms, of es] show ?thesis by (auto simp: Let_def)
qed

theorem batch_run_invariant_witness:
  "batch_ok (fold batch_step (replicate 4 (sample_env ''w'')) (sample_batch [''a'', ''bad'']))"
  using batch_run_invariant [OF sample_batch_ok [of "[''a'', ''bad'']"],
      of "replicate 4 (sample_env ''w'')"]
  unfolding Let_def by (rule conjunct1)

text \<open>
  C2. A claim is exclusive. Whatever workers reconcile the batch, in whatever order and with
  whatever answers of the API server: while it is Claimed or Processing, a reconciliation by
  a worker other than the one named in its status returns without storing or emitting
  anything and without being called again; the name does not change until the batch leaves
  these phases; and the batch becomes Claimed only from Pending, by the worker that is then
  named in it.
\<close>

theorem claim_is_exclusive:
  assumes "batch_ok b" and "i < length es"
  shows "let x = fold batch_step (take i es) b; y = fold batch_step (take (Suc i) es) b;
             k = es ! i; r = reconcile_batch k (fetched x) in
    (bs_phase (ba_status x) \<in> {BatchClaimed, BatchProcessing}
       \<and> be_workerID k \<noteq> bs_claimedBy (ba_status x) \<longrightarrow>
     y = x \<and> fst r = Some (no_requeue, None) \<and> effects (snd r) = [])
    \<and> (bs_phase (ba_status x) \<in> {BatchClaimed, BatchProcessing}
       \<and> bs_phase (ba_status y) \<in> {BatchClaimed, BatchProcessing} \<longrightarrow>
       bs_claimedBy (ba_status y) = bs_claimedBy (ba_status x))
    \<and> (bs_phase (ba_status x) \<noteq> BatchClaimed \<and> bs_phase (ba_status y) = BatchClaimed \<longrightarrow>
       bs_phase (ba_status x) = BatchPending \<and> bs_claimedBy (ba_status y) = be_workerID k)"
proof -
  define x where "x = fold batch_step (take i es) b"
  define k where "k = es ! i"
  have y: "fold batch_step (take (Suc i) es) b = batch_step k x"
    using assms(2) by (simp add: take_Suc_conv_app_nth x_def k_def)
  have "batch_ok x" unfolding x_def by (rule batch_inv_run [OF assms(1)])
  from follows_step [OF this, of k] have
    "bs_phase (ba_status x) = BatchPending"
    if "bs_phase (ba_status x) \<noteq> BatchClaimed" "bs_phase (ba_status (batch_step k x)) = BatchClaimed"
    using that by (auto simp: follows_def batch_edge_def split: batch_phase.splits)
  moreover have "bs_claimedBy (ba_status (batch_step k x)) = be_workerID k"
    if "bs_phase (ba_status x) = BatchPending" "bs_phase (ba_status (batch_step k x)) = BatchClaimed"
    using claim_names_worker [OF that(1), of k] that by auto
  moreover note claim_kept [of x k, unfolded held_by_def] batch_step_other [of x k]
    reconcile_other [of x k]
  ultimately show ?thesis
    unfolding Let_def y x_def [symmetric] k_def [symmetric] by blast
qed

theorem claim_is_exclusive_witness:
  "let es = map sample_env [''v'', ''w'', ''v'', ''w'', ''v''];
       x = fold batch_step (take 2 es) (sample_batch [''a'']);
       y = fold batch_step (take 3 es) (sample_batch [''a'']) in
   bs_claimedBy (ba_status x) = ''w'' \<and> y = x
   \<and> effects (snd (reconcile_batch (sample_env ''v'') (fetched x))) = []"
proof -
  let ?es = "map sample_env [''v'', ''w'', ''v'', ''w'', ''v'']"
  let ?x = "fold batch_step (take 2 ?es) (sample_batch [''a''])"
  have x: "bs_phase (ba_status ?x) = BatchClaimed" "bs_claimedBy (ba_status ?x) = ''w''"
    by code_simp+
  have k: "?es ! 2 = sample_env ''v''" "be_workerID (sample_env ''v'') = ''v''" "Suc 2 = (3 :: nat)"
    by (simp_all add: sample_env_def)
  have "2 < length ?es" by simp
  from claim_is_exclusive [OF sample_batch_ok this, of "[''a'']", unfolded Let_def k x, THEN conjunct1]
  show ?thesis unfolding Let_def x by simp
qed

text \<open>
  No reconciliation dereferences a nil pointer: the handlers of a batch that started from
  a fresh object always return, in particular \<open>completeBatch\<close>, which reads
  \<open>Status.Statistics\<close> without checking it.
\<close>

theorem batch_never_panics:
  assumes "batch_ok b"
  shows "fst (reconcile_batch k (fetched (fold batch_step es b))) \<noteq> None"
  using reconcile_batch_ok [OF batch_inv_run [OF assms, of es], of k] by simp

theorem batch_never_panics_witness:
  "fst (reconcile_batch (sample_env ''w'') (fetched (fold batch_step (replicate 3 (sample_env ''w''))
     (sample_batch [''a''])))) \<noteq> None"
  by (rule batch_never_panics [OF sample_batch_ok])

text \<open>The invariant is needed: without a start time the last step would panic.\<close>

lemma completeBatch_can_panic:
  "fst (completeBatch (sample_env ''w'') (fetched (sample_batch []))) = None"
  by code_simp

text \<open>
  A batch is Completed only when every one of its resources has been migrated: each has
  a status, the status is Completed, and no reconciliation changes the batch any more. A
  Failed batch does not change any more either.
\<close>

theorem batch_completed_means_done:
  assumes ok: "batch_ok b" and phase: "bs_phase (ba_status b) \<in> {BatchCompleted, BatchFailed}"
  shows "fold batch_step es b = b
    \<and> (bs_phase (ba_status b) = BatchFailed
       \<or> (\<forall>r \<in> set (bsp_resources (ba_spec b)). \<exists>st \<in> set (bs_resourceStatuses (ba_status b)).
            rs_sourceName st = res_sourceName r \<and> rs_status st = StatusCompleted))"
proof
  have "batch_step k b = b" for k
    using phase by (auto simp: batch_step_def reconcile_batch_def processPhase_def
        read_clock_def Let_def split: batch_phase.splits)
  then show "fold batch_step es b = b" by (induction es) simp_all
  show "bs_phase (ba_status b) = BatchFailed
       \<or> (\<forall>r \<in> set (bsp_resources (ba_spec b)). \<exists>st \<in> set (bs_resourceStatuses (ba_status b)).
            rs_sourceName st = res_sourceName r \<and> rs_status st = StatusCompleted)"
  proof (cases "bs_phase (ba_status b) = BatchFailed")
    case False
    with phase ok have ok': "all_done b" "statuses_ok b"
        "count_if (\<lambda>st. rs_status st = StatusFailed) (bs_resourceStatuses (ba_status b)) = 0"
      by (auto simp: batch_ok_def counters_ok_def Let_def)
    then have "\<forall>st \<in> set (bs_resourceStatuses (ba_status b)). rs_status st = StatusCompleted"
      by (auto simp: statuses_ok_def Let_def filter_empty_conv)
    with ok'(1) show ?thesis by (fastforce simp: all_done_def)
  qed simp
qed

lemma sample_completed: "bs_phase (ba_status (fold batch_step (replicate 4 (sample_env ''w''))
    (sample_batch [''a'', ''b'']))) = BatchCompleted"
  by code_simp

theorem batch_completed_means_done_witness:
  "\<exists>st \<in> set (bs_resourceStatuses (ba_status (fold batch_step (replicate 4 (sample_env ''w''))
      (sample_batch [''a'', ''b''])))).
     rs_sourceName st = ''b'' \<and> rs_status st = StatusCompleted"
proof -
  let ?b = "fold batch_step (replicate 4 (sample_env ''w'')) (sample_batch [''a'', ''b''])"
  have "batch_ok ?b" by (rule batch_inv_run [OF sample_batch_ok])
  moreover have "sample_resource ''b'' \<in> set (bsp_resources (ba_spec ?b))"
    unfolding spec_run [OF sample_batch_ok] by (simp add: sample_batch_def)
  ultimately have "\<exists>st \<in> set (bs_resourceStatuses (ba_status ?b)).
      rs_sourceName st = res_sourceName (sample_resource ''b'') \<and> rs_status st = StatusCompleted"
    using batch_completed_means_done [of ?b "[]"] sample_completed by simp
  then show ?thesis by (simp only: sample_resource_def migration_resource.simps)
qed

text \<open>
  A retry never migrates a failed resource again: once a stored batch has a Failed
  status, that very status is still there after any number of further reconciliations, and
  the batch never becomes Completed, although its retry policy is used up first.
\<close>

theorem batch_failed_resource_is_final:
  assumes ok: "batch_ok b" and phase: "bs_phase (ba_status b) \<noteq> BatchUnset"
    and st: "st \<in> set (bs_resourceStatuses (ba_status b))" "rs_status st = StatusFailed"
  shows "st \<in> set (bs_resourceStatuses (ba_status (fold batch_step es b)))
    \<and> bs_phase (ba_status (fold batch_step es b)) \<noteq> BatchCompleted"
proof -
  let ?I = "\<lambda>b. batch_ok b \<and> bs_phase (ba_status b) \<noteq> BatchUnset
      \<and> st \<in> set (bs_resourceStatuses (ba_status b))"
  have "?I (batch_step k b)" if "?I b" for k b
  proof -
    have "bs_phase (ba_status (batch_step k b)) \<noteq> BatchUnset"
      using follows_step [of b k] that by (auto simp: follows_def batch_edge_def split: batch_phase.splits)
    with follows_step [of b k] that show ?thesis by (auto simp: follows_def)
  qed
  then have I: "?I (fold batch_step es b)"
    by (induction es rule: rev_induct) (use assms in auto)
  have "bs_phase (ba_status (fold batch_step es b)) \<noteq> BatchCompleted"
  proof
    assume "bs_phase (ba_status (fold batch_step es b)) = BatchCompleted"
    with I have "count_if (\<lambda>st. rs_status st = StatusFailed)
        (bs_resourceStatuses (ba_status (fold batch_step es b))) = 0"
      by (auto simp: batch_ok_def counters_ok_def Let_def)
    with I st(2) show False by (auto simp: filter_empty_conv)
  qed
  with I show ?thesis by simp
qed

definition sample_retrying :: batch where
  "sample_retrying = on_batch (\<lambda>st. st\<lparr>bs_phase := BatchRetrying, bs_retryCount := 1,
     bs_progress := zero_batch_progress\<lparr>bp_total := 2, bp_completed := 1, bp_failed := 1,
       bp_percentage := 100\<rparr>,
     bs_nextRetryTime := Some 100,
     bs_resourceStatuses := [completed_status (sample_resource ''a'') 7,
       failed_status (sample_resource ''bad'') (PlainError ''clone failed'') 9]\<rparr>)
     (sample_batch [''a'', ''bad''])"

lemma sample_retrying_ok: "batch_ok sample_retrying"
  by (simp add: sample_retrying_def batch_ok_def retries_ok_def statuses_ok_def counters_ok_def
      sample_batch_def sample_resource_def zero_batch_progress_def getRetryPolicy_def
      defaultMaxRetries_def)

theorem batch_failed_resource_is_final_witness:
  "bs_phase (ba_status (fold batch_step [sample_env ''v'', sample_env ''w''] sample_retrying))
   \<noteq> BatchCompleted"
  using batch_failed_resource_is_final [OF sample_retrying_ok,
      of "failed_status (sample_resource ''bad'') (PlainError ''clone failed'') 9"
         "[sample_env ''v'', sample_env ''w'']"]
  by (simp add: sample_retrying_def)

text \<open>
  A worker leaves a batch that another worker has claimed exactly as it is stored, whatever
  the clock says: an expired lease is only noticed by the worker that holds it. A batch
  whose worker is gone therefore never changes again, although its lease has run out.
\<close>

theorem batch_of_other_worker_untouched:
  assumes "bs_phase (ba_status b) \<in> {BatchClaimed, BatchProcessing}"
    and "\<forall>k \<in> set es. be_workerID k \<noteq> bs_claimedBy (ba_status b)"
  shows "fold batch_step es b = b"
  using assms(2) by (induction es) (simp_all add: batch_step_other [OF assms(1)])

theorem batch_of_other_worker_untouched_witness:
  "let b = fold batch_step (replicate 2 (sample_env ''dead'')) (sample_batch [''a''])
   in bs_phase (ba_status b) = BatchClaimed
      \<and> fold batch_step (replicate 9 (sample_env ''alive''\<lparr>k_clock := (\<lambda>n. 10 ^ 30)\<rparr>)) b = b"
proof -
  let ?b = "fold batch_step (replicate 2 (sample_env ''dead'')) (sample_batch [''a''])"
  have "bs_phase (ba_status ?b) = BatchClaimed" "bs_claimedBy (ba_status ?b) = ''dead''"
    by code_simp+
  with batch_of_other_worker_untouched [of ?b
      "replicate 9 (sample_env ''alive''\<lparr>k_clock := (\<lambda>n. 10 ^ 30)\<rparr>)"]
  show ?thesis by (simp add: Let_def sample_env_def)
qed

subsection \<open>Retry delays\<close>

text \<open>
  Within the limits the CRD sets on a retry policy, and as long as the undelayed backoff
  stays below \<open>2 ^ 53\<close> nanoseconds (104 days), the delay lies between the capped backoff
  \<open>min (initial * multiplier ^ retries) max\<close> and that plus a quarter of it.
\<close>

theorem retry_delay_bounds:
  assumes fm: "float_model (be_rnd k) (be_conv k)"
    and pow: "be_pow k (rpol_backoffMultiplier p) c = of_int (rpol_backoffMultiplier p ^ nat c)"
    and rand: "0 \<le> be_rand k n" "be_rand k n < 1"
    and crd: "1 \<le> rpol_initialDelaySeconds p" "rpol_initialDelaySeconds p \<le> 3600"
      "1 \<le> rpol_backoffMultiplier p" "1 \<le> rpol_maxDelaySeconds p" "rpol_maxDelaySeconds p \<le> 7200"
    and fits: "rpol_initialDelaySeconds p * second * rpol_backoffMultiplier p ^ nat c \<le> 2 ^ 53"
  shows "let d = min (rpol_initialDelaySeconds p * second * rpol_backoffMultiplier p ^ nat c)
               (rpol_maxDelaySeconds p * second)
    in d \<le> calculateRetryDelay k n c p \<and> 4 * calculateRetryDelay k n c p \<le> 5 * d"
proof -
  let ?b = "rpol_initialDelaySeconds p * second" and ?m = "rpol_backoffMultiplier p ^ nat c"
    and ?x = "rpol_maxDelaySeconds p * second" and ?rnd = "be_rnd k" and ?conv = "be_conv k"
  define d where "d = min (?b * ?m) ?x"
  have m1: "1 \<le> ?m" using crd(3) by (simp add: one_le_power)
  have b: "0 \<le> ?b" "?b \<le> 3600000000000" "0 \<le> ?x" "?x \<le> 7200000000000"
    using crd by (simp_all add: second_def)
  have bm: "0 \<le> ?b * ?m" "?b * ?m \<le> 9007199254740992" using b m1 fits by simp_all
  have p1: "?rnd (of_int ?b) = of_int ?b" by (rule rnd_int [OF fm]) (use b in simp)
  have p2: "?rnd (of_int ?b * of_int ?m) = of_int (?b * ?m)"
    using rnd_int [OF fm, of "?b * ?m"] bm by simp
  have p3: "?conv (of_int (?b * ?m)) = ?b * ?m" by (rule conv_int [OF fm]) (use bm in simp_all)
  have p4: "?rnd (of_int ?x) = of_int ?x" by (rule rnd_int [OF fm]) (use b in simp)
  have d: "0 \<le> d" "d \<le> 7200000000000" using bm b by (auto simp: d_def)
  define q where "q = d div 4"
  have "4 dvd second" by (simp add: second_def)
  then have "4 dvd ?b * ?m" "4 dvd ?x" by simp_all
  then have q: "d = 4 * q" unfolding q_def d_def by (auto simp: min_def)
  define j where "j = ?rnd (?rnd (be_rand k n * of_int d) * (1 / 4))"
  have mono: "?rnd x \<le> ?rnd y" if "x \<le> y" for x y
    using fm that by (simp add: float_model_def)
  have ex: "?rnd (of_int i) = of_int i" if "0 \<le> i" "i \<le> 9007199254740992" for i
    by (rule rnd_int [OF fm]) (use that in simp)
  have "be_rand k n * of_int d \<le> of_int d" "0 \<le> be_rand k n * of_int d"
    using rand d by (simp_all add: mult_left_le_one_le)
  then have r1: "?rnd (be_rand k n * of_int d) \<le> of_int d" "0 \<le> ?rnd (be_rand k n * of_int d)"
    using mono [of "be_rand k n * of_int d" "of_int d"] mono [of 0 "be_rand k n * of_int d"]
      ex [of d] ex [of 0] d by simp_all
  then have j: "0 \<le> j" "j \<le> of_int q"
    using mono [of "?rnd (be_rand k n * of_int d) * (1 / 4)" "of_int q"]
      mono [of 0 "?rnd (be_rand k n * of_int d) * (1 / 4)"] ex [of q] ex [of 0] d q
    by (simp_all add: j_def)
  let ?t = "?rnd (of_int d + j)"
  have t: "of_int d \<le> ?t" "?t \<le> of_int (d + q)"
    using mono [of "of_int d" "of_int d + j"] mono [of "of_int d + j" "of_int (d + q)"]
      ex [of d] ex [of "d + q"] d q j by simp_all
  have "calculateRetryDelay k n c p = ?conv ?t"
    using b p1 p2 p3 p4 bm pow
    by (auto simp: calculateRetryDelay_def Let_def j_def d_def min_def)
  moreover have "?conv ?t = \<lfloor>?t\<rfloor>"
    using fm t d q by (simp add: float_model_def)
  moreover have "d \<le> \<lfloor>?t\<rfloor>" "\<lfloor>?t\<rfloor> \<le> d + q"
    using t by (simp_all add: le_floor_iff floor_le_iff)
  ultimately show ?thesis using q d_def by (simp add: Let_def)
qed

theorem retry_delay_bounds_witness:
  "let p = \<lparr>rpol_maxRetries = 3, rpol_initialDelaySeconds = 30, rpol_backoffMultiplier = 2,
            rpol_maxDelaySeconds = 600\<rparr>
   in 120 * second \<le> calculateRetryDelay (sample_env ''w'') 0 2 p
      \<and> calculateRetryDelay (sample_env ''w'') 0 2 p \<le> 150 * second"
  using retry_delay_bounds [of "sample_env ''w''" "\<lparr>rpol_maxRetries = 3,
      rpol_initialDelaySeconds = 30, rpol_backoffMultiplier = 2, rpol_maxDelaySeconds = 600\<rparr>" 2 0]
    float_model_exact
  by (simp add: sample_env_def second_def)

text \<open>
  Outside that range the conversion of the backoff to \<open>time.Duration\<close> overflows: with
  the conversion of amd64, which yields the least integer for every value out of range, a
  policy that the CRD accepts gives a negative delay, so that the cap is not applied and
  the batch is retried at once.
\<close>

theorem retry_delay_overflow:
  "let amd64 = (\<lambda>x :: rat. if - (2 ^ 63) \<le> x \<and> x < 2 ^ 63 then (if 0 \<le> x then \<lfloor>x\<rfloor> else \<lceil>x\<rceil>) else - (2 ^ 63));
       k = (sample_env ''w'')\<lparr>be_conv := amd64\<rparr>;
       p = \<lparr>rpol_maxRetries = 10, rpol_initialDelaySeconds = 3600, rpol_backoffMultiplier = 10,
            rpol_maxDelaySeconds = 7200\<rparr>
   in calculateRetryDelay k n 6 p = 8100 * second \<comment> \<open>two hours and half of a quarter of that\<close>
      \<and> calculateRetryDelay k n 7 p = - (2 ^ 63)"
  by (simp add: calculateRetryDelay_def sample_env_def second_def Let_def)

text \<open>
  \<open>processRetrying\<close> reads the clock twice. When the retry time passes between the two
  readings it returns a requeue time that is not positive, stores nothing and reports no
  error: the controller runtime then has no reason to reconcile the batch again.
\<close>

theorem retry_requeue_can_be_lost:
  assumes "bs_phase (ba_status b) = BatchRetrying" and "bs_nextRetryTime (ba_status b) = Some t"
    and "k_clock k 1 < t" and "t \<le> k_clock k 2"
  shows "fst (reconcile_batch k (fetched b)) = Some (after (t - k_clock k 2), None)
    \<and> t - k_clock k 2 \<le> 0 \<and> batch_step k b = b"
  using assms
  by (auto simp: reconcile_batch_def processPhase_def processRetrying_def read_clock_def Let_def
      fetched_def modify_def batch_step_def numeral_2_eq_2)

theorem retry_requeue_can_be_lost_witness:
  "fst (reconcile_batch (sample_env ''w'')
      (fetched (on_batch (\<lambda>st. st\<lparr>bs_nextRetryTime := Some 2\<rparr>) sample_retrying))) = Some (after 0, None)"
  using retry_requeue_can_be_lost [of "on_batch (\<lambda>st. st\<lparr>bs_nextRetryTime := Some 2\<rparr>) sample_retrying"
      2 "sample_env ''w''"]
  by (auto simp: sample_retrying_def sample_env_def)

subsection \<open>The resource statuses as a store\<close>

definition look_status :: "batch_status \<Rightarrow> string \<Rightarrow> resource_migration_status option" where
  "look_status st n = find (\<lambda>s. rs_sourceName s = n) (bs_resourceStatuses st)"

interpretation batch_statuses: keyed_store look_status put_status rs_sourceName
    "\<lambda>st. distinct (map rs_sourceName (bs_resourceStatuses st))"
  by unfold_locales (simp_all add: look_status_def put_status_def find_replace_first distinct_replace_first)

text \<open>
  Whatever statuses are written for the resources of a batch, in any order and any
  number of times, the lookup of \<open>isResourceProcessed\<close> finds the last one written under a
  resource's name, no name ever has two statuses, and other names are not affected.
\<close>

theorem last_status_wins:
  assumes "distinct (map rs_sourceName (bs_resourceStatuses st))"
  shows "look_status (fold put_status news st) n
      = (case find (\<lambda>s. rs_sourceName s = n) (rev news) of None \<Rightarrow> look_status st n | Some s \<Rightarrow> Some s)
    \<and> distinct (map rs_sourceName (bs_resourceStatuses (fold put_status news st)))"
  using batch_statuses.look_puts [OF assms] batch_statuses.wf_puts [OF assms] by blast

theorem last_status_wins_witness:
  "look_status (fold put_status [completed_status (sample_resource ''a'') 1,
      failed_status (sample_resource ''b'') (PlainError ''x'') 2, completed_status (sample_resource ''b'') 3]
      (ba_status (sample_batch []))) ''b'' = Some (completed_status (sample_resource ''b'') 3)"
proof -
  have "distinct (map rs_sourceName (bs_resourceStatuses (ba_status (sample_batch []))))"
    by (simp add: sample_batch_def)
  from last_status_wins [OF this, THEN conjunct1, of "[completed_status (sample_resource ''a'') 1,
      failed_status (sample_resource ''b'') (PlainError ''x'') 2, completed_status (sample_resource ''b'') 3]" "''b''"]
  show ?thesis by (simp only:) (simp add: sample_resource_def)
qed

end
