(* ===== verification/Branches.thy ===== *)
theory Branches
  imports Kube
begin

text \<open>
  Branch patterns and branch filtering of \<open>internal/services/migration.go\<close>
  (\<open>matchBranchPattern\<close>, \<open>matchesAnyPattern\<close>, \<open>FilterBranches\<close>), with the part of Go's
  \<open>filepath.Match\<close> they fall back to.

  \<open>filepath.Match\<close> is modelled on bytes, as documented: \<open>*\<close> matches any sequence
  without a slash, \<open>?\<close> one character that is not a slash, \<open>[...]\<close> a class of characters,
  a backslash escapes. Characters of more than one byte are not modelled. A malformed
  pattern is an error, which the code treats as no match.
\<close>

section \<open>filepath.Match\<close>

datatype glob_item =
    GlobStar
  | GlobAny
  | GlobClass bool "(char \<times> char) list" \<comment> \<open>negated, ranges\<close>
  | GlobChar char

abbreviation backslash :: char where "backslash \<equiv> CHR 0x5C"

text \<open>One character inside a class (\<open>getEsc\<close>); the class must go on after it.\<close>

definition glob_char :: "string \<Rightarrow> (char \<times> string) option" where
  "glob_char s = (case s of
     [] \<Rightarrow> None
   | c # cs \<Rightarrow>
       if c = CHR ''-'' \<or> c = CHR '']'' then None
       else if c = backslash
       then (case cs of [] \<Rightarrow> None | d # ds \<Rightarrow> if ds = [] then None else Some (d, ds))
       else if cs = [] then None else Some (c, cs))"

lemma glob_char_shorter: "glob_char s = Some (c, t) \<Longrightarrow> length t < length s"
  by (auto simp: glob_char_def split: list.splits if_splits)

function glob_ranges :: "string \<Rightarrow> ((char \<times> char) list \<times> string) option" where
  "glob_ranges s = (case glob_char s of
     None \<Rightarrow> None
   | Some (lo, t) \<Rightarrow>
       (case (if hd t = CHR ''-'' then glob_char (tl t) else Some (lo, t)) of
          None \<Rightarrow> None
        | Some (hi, u) \<Rightarrow>
            if hd u = CHR '']'' then Some ([(lo, hi)], tl u)
            else (case glob_ranges u of None \<Rightarrow> None | Some (rs, v) \<Rightarrow> Some ((lo, hi) # rs, v))))"
  by pat_completeness auto
termination
proof (relation "measure length", goal_cases)
  case (2 s lo_t lo t hi_u hi u)
  then have t: "length t < length s" by (auto dest: glob_char_shorter)
  have "length u \<le> length t"
  proof (cases "hd t = CHR ''-''")
    case True
    with 2 have "glob_char (tl t) = Some (hi, u)" by auto
    from glob_char_shorter [OF this] show ?thesis by simp
  qed (use 2 in auto)
  with t show ?case by simp
qed simp

declare glob_ranges.simps [simp del]

lemma glob_ranges_shorter: "glob_ranges s = Some (rs, v) \<Longrightarrow> length v < length s"
proof (induction s arbitrary: rs v rule: glob_ranges.induct)
  case (1 s)
  then obtain lo t where t: "glob_char s = Some (lo, t)"
    by (auto simp: glob_ranges.simps [of s] split: option.splits)
  with 1(2) obtain hi u where
    u: "(if hd t = CHR ''-'' then glob_char (tl t) else Some (lo, t)) = Some (hi, u)"
    by (auto simp: glob_ranges.simps [of s] split: option.splits)
  have "length u \<le> length t"
  proof (cases "hd t = CHR ''-''")
    case True
    with u have "glob_char (tl t) = Some (hi, u)" by simp
    from glob_char_shorter [OF this] show ?thesis by simp
  qed (use u in simp)
  with glob_char_shorter [OF t] have *: "length u < length s" by simp
  show ?case
  proof (cases "hd u = CHR '']''")
    case True
    with 1(2) t u * show ?thesis by (auto simp: glob_ranges.simps [of s])
  next
    case False
    with 1(2) t u obtain rs' where "glob_ranges u = Some (rs', v)"
      by (auto simp: glob_ranges.simps [of s] split: option.splits)
    from 1(1) [OF t refl u refl False this] * show ?thesis by simp
  qed
qed

function parse_glob :: "string \<Rightarrow> glob_item list option" where
  "parse_glob [] = Some []"
| "parse_glob (c # cs) =
     (if c = CHR ''*'' then map_option ((#) GlobStar) (parse_glob cs)
      else if c = CHR ''?'' then map_option ((#) GlobAny) (parse_glob cs)
      else if c = backslash
      then (case cs of [] \<Rightarrow> None | d # ds \<Rightarrow> map_option ((#) (GlobChar d)) (parse_glob ds))
      else if c = CHR ''[''
      then (let neg = (cs \<noteq> [] \<and> hd cs = CHR 0x5E) in
            case glob_ranges (if neg then tl cs else cs) of
              None \<Rightarrow> None
            | Some (rs, rest) \<Rightarrow> map_option ((#) (GlobClass neg rs)) (parse_glob rest))
      else map_option ((#) (GlobChar c)) (parse_glob cs))"
  by pat_completeness auto
termination
  by (relation "measure length") (auto dest!: glob_ranges_shorter split: if_splits)

definition in_class :: "bool \<Rightarrow> (char \<times> char) list \<Rightarrow> char \<Rightarrow> bool" where
  "in_class neg rs c \<longleftrightarrow> (list_ex (\<lambda>(lo, hi). between lo hi c) rs \<noteq> neg)"

abbreviation slash :: char where "slash \<equiv> CHR ''/''"

function glob_match :: "glob_item list \<Rightarrow> string \<Rightarrow> bool" where
  "glob_match [] s \<longleftrightarrow> s = []"
| "glob_match (GlobStar # is) s \<longleftrightarrow>
     glob_match is s
     \<or> (case s of [] \<Rightarrow> False | d # ds \<Rightarrow> if d = slash then False else glob_match (GlobStar # is) ds)"
| "glob_match (GlobAny # is) s \<longleftrightarrow>
     (case s of [] \<Rightarrow> False | d # ds \<Rightarrow> if d = slash then False else glob_match is ds)"
| "glob_match (GlobClass neg rs # is) s \<longleftrightarrow>
     (case s of [] \<Rightarrow> False | d # ds \<Rightarrow> if in_class neg rs d then glob_match is ds else False)"
| "glob_match (GlobChar c # is) s \<longleftrightarrow>
     (case s of [] \<Rightarrow> False | d # ds \<Rightarrow> if d = c then glob_match is ds else False)"
  by pat_completeness auto
termination
  by (relation "measure (\<lambda>(is, s). length is + length s)") auto

declare glob_match.simps [simp del]

definition filepath_match :: "string \<Rightarrow> string \<Rightarrow> bool option" where
  "filepath_match pattern name = map_option (\<lambda>is. glob_match is name) (parse_glob pattern)"

section \<open>Branch patterns\<close>

definition matchBranchPattern :: "string \<Rightarrow> string \<Rightarrow> bool" where
  "matchBranchPattern branch pattern =
     (if branch = pattern then True
      else if has_suffix pattern ''/*''
      then (let pre = trim_suffix pattern ''/*'' in
            if has_prefix branch (pre @ ''/'') then True
            else if has_prefix branch (pre @ ''-'') then True
            else False)
      else if pattern = ''*'' then True
      else filepath_match pattern branch = Some True)"

fun matchesAnyPattern :: "string \<Rightarrow> string list \<Rightarrow> bool" where
  "matchesAnyPattern branch [] = False"
| "matchesAnyPattern branch (pattern # patterns) =
     (if matchBranchPattern branch pattern then True else matchesAnyPattern branch patterns)"

text \<open>The loop of \<open>FilterBranches\<close>, one round per branch.\<close>

definition keep_branch :: "string list \<Rightarrow> string list \<Rightarrow> string \<Rightarrow> string \<Rightarrow> bool" where
  "keep_branch includes excludes defaultBranch branch =
     (if includes \<noteq> [] \<and> \<not> matchesAnyPattern branch includes \<and> branch \<noteq> defaultBranch then False
      else if excludes \<noteq> [] \<and> matchesAnyPattern branch excludes \<and> branch \<noteq> defaultBranch then False
      else True)"

definition FilterBranches :: "string list \<Rightarrow> string list \<Rightarrow> string list \<Rightarrow> string \<Rightarrow> string list" where
  "FilterBranches branches includes excludes defaultBranch =
     (if branches = [] \<or> (includes = [] \<and> excludes = []) then branches
      else filter (keep_branch includes excludes defaultBranch) branches)"

section \<open>Properties\<close>

lemma matchesAny_ex: "matchesAnyPattern b ps \<longleftrightarrow> (\<exists>p \<in> set ps. matchBranchPattern b p)"
  by (induction ps) auto

lemma parse_glob_plain:
  "\<forall>c \<in> set s. c \<notin> {CHR ''*'', CHR ''?'', CHR ''['', backslash} \<Longrightarrow> parse_glob s = Some (map GlobChar s)"
  by (induction s) auto

lemma glob_match_chars: "glob_match (map GlobChar p) s \<longleftrightarrow> s = p"
  by (induction p arbitrary: s) (auto simp: glob_match.simps split: list.splits)

text \<open>
  A pattern without wildcards matches exactly itself; \<open>pre/*\<close> matches what begins with
  \<open>pre\<close> and a slash or a hyphen, and itself; \<open>*\<close> matches every branch.
\<close>

theorem branch_pattern_meaning:
  assumes plain: "\<forall>c \<in> set p. c \<notin> {CHR ''*'', CHR ''?'', CHR ''['', backslash}"
  shows "(matchBranchPattern b p \<longleftrightarrow> b = p)
    \<and> (matchBranchPattern b (p @ ''/*'') \<longleftrightarrow>
        b = p @ ''/*'' \<or> (\<exists>rest. b = p @ ''/'' @ rest) \<or> (\<exists>rest. b = p @ ''-'' @ rest))
    \<and> matchBranchPattern b ''*''"
proof (intro conjI)
  have "CHR ''*'' \<notin> set p" using plain by blast
  moreover have "CHR ''*'' \<in> set p" if "has_suffix p ''/*''"
    using set_mono_suffix [OF that] by simp
  ultimately have "\<not> has_suffix p ''/*''" "p \<noteq> ''*''" by auto
  then show "matchBranchPattern b p \<longleftrightarrow> b = p"
    by (auto simp: matchBranchPattern_def filepath_match_def parse_glob_plain [OF plain] glob_match_chars)
  have suf: "has_suffix (p @ ''/*'') ''/*''" by (rule suffixI [OF refl])
  then have "trim_suffix (p @ ''/*'') ''/*'' = p" by (simp add: trim_suffix_def)
  with suf show "matchBranchPattern b (p @ ''/*'') \<longleftrightarrow>
        b = p @ ''/*'' \<or> (\<exists>rest. b = p @ ''/'' @ rest) \<or> (\<exists>rest. b = p @ ''-'' @ rest)"
    by (auto simp: matchBranchPattern_def Let_def prefix_def)
  show "matchBranchPattern b ''*''"
    by (simp add: matchBranchPattern_def suffix_def filepath_match_def glob_match.simps)
qed


text \<open>
  Filtering keeps exactly the branches that are wanted, in their order and multiplicity:
  the default branch always, and every other branch that matches an include pattern (if
  there are any) and no exclude pattern. Filtering twice is filtering once.
\<close>

theorem FilterBranches_correct:
  "FilterBranches branches includes excludes d =
     filter (\<lambda>b. b = d \<or> ((includes = [] \<or> (\<exists>p \<in> set includes. matchBranchPattern b p))
                     \<and> \<not> (\<exists>p \<in> set excludes. matchBranchPattern b p))) branches
   \<and> FilterBranches (FilterBranches branches includes excludes d) includes excludes d
     = FilterBranches branches includes excludes d"
proof -
  have "keep_branch includes excludes d b \<longleftrightarrow> b = d \<or> ((includes = [] \<or> matchesAnyPattern b includes)
      \<and> \<not> matchesAnyPattern b excludes)" for b
    by (cases "excludes = []") (auto simp: keep_branch_def)
  then have eq: "FilterBranches bs includes excludes d = filter (\<lambda>b. b = d \<or>
      ((includes = [] \<or> (\<exists>p \<in> set includes. matchBranchPattern b p))
       \<and> \<not> (\<exists>p \<in> set excludes. matchBranchPattern b p))) bs" for bs
    by (auto simp: FilterBranches_def matchesAny_ex intro!: filter_cong [symmetric])
  show ?thesis unfolding eq by simp
qed

end
