(* ===== verification/RepoMigration.thy ===== *)
theory RepoMigration
  imports Branches
begin

text \<open>
  \<open>internal/services/migration.go\<close>: migrating one repository (clone from Azure DevOps,
  prepare, push to GitHub, set the default branch, clean up) and the continuous
  synchronisation.

  The programs and services it drives are parameters (\<open>git_env\<close>): the \<open>git\<close> command line,
  the go-git library, the file system and the GitHub API answer with anything, and may take
  into account everything that was done before (the \<open>io_action\<close>s recorded so far). Paths are
  kept as the expressions the code builds them with (\<open>filepath.Join\<close>, \<open>filepath.Dir\<close>).
  \<open>verifyMigration\<close> only reads, and its result is only logged; it is left out, as are log
  messages, the numbers \<open>analyzeRepository\<close> computes only for the log, waiting between the
  attempts of \<open>SetDefaultBranch\<close>, and cancellation.
\<close>

section \<open>The outside\<close>

record rep_progress =
  rmp_phase :: string
  rmp_description :: string
  rmp_percentage :: int
  rmp_error :: string

record io_state =
  io_trace :: "io_action list"
  io_progress :: "rep_progress list"

record git_env =
  ge_workDir :: string
  ge_mkdir :: "io_action list \<Rightarrow> path \<Rightarrow> go_error option"
  ge_git :: "io_action list \<Rightarrow> git_arg list \<Rightarrow> string \<times> go_error option"
  ge_open :: "io_action list \<Rightarrow> path \<Rightarrow> go_error option"
  ge_refs :: "io_action list \<Rightarrow> path \<Rightarrow> (bool \<times> string) list option"
  ge_head :: "io_action list \<Rightarrow> path \<Rightarrow> go_error + string"
  ge_has_ref :: "io_action list \<Rightarrow> path \<Rightarrow> string \<Rightarrow> bool"
  ge_create_remote :: "io_action list \<Rightarrow> string \<Rightarrow> go_error option"
  ge_remote_urls :: "io_action list \<Rightarrow> path \<Rightarrow> go_error + string list"
  ge_set_default :: "io_action list \<Rightarrow> string \<Rightarrow> string \<Rightarrow> string \<Rightarrow> string \<Rightarrow> go_error option"
  ge_workspace :: "io_action list \<Rightarrow> path \<Rightarrow> bool"
  ge_list_branches :: "io_action list \<Rightarrow> path \<Rightarrow> string list option"
  ge_list_tags :: "io_action list \<Rightarrow> path \<Rightarrow> string list option"

definition act :: "io_action \<Rightarrow> io_state \<Rightarrow> io_state" where
  "act a s = s\<lparr>io_trace := io_trace s @ [a]\<rparr>"

definition check_err :: "go_error option \<Rightarrow> 's \<Rightarrow> (go_error + unit) \<times> 's" where
  "check_err e s = (case e of Some err \<Rightarrow> (Inl err, s) | None \<Rightarrow> (Inr (), s))"

definition make_dir :: "git_env \<Rightarrow> path \<Rightarrow> io_state \<Rightarrow> (go_error + unit) \<times> io_state" where
  "make_dir ge dir s = check_err (ge_mkdir ge (io_trace s) dir) (act (MkDir dir) s)"

definition run_git :: "git_env \<Rightarrow> git_arg list \<Rightarrow> io_state \<Rightarrow> (string \<times> go_error option) \<times> io_state" where
  "run_git ge args s = (ge_git ge (io_trace s) args, act (Git args) s)"

definition report :: "string \<Rightarrow> string \<Rightarrow> int \<Rightarrow> string \<Rightarrow> io_state \<Rightarrow> io_state" where
  "report phase description percentage err s = s\<lparr>io_progress := io_progress s
     @ [\<lparr>rmp_phase = phase, rmp_description = description, rmp_percentage = percentage, rmp_error = err\<rparr>]\<rparr>"

lemma act_simps [simp]:
  "io_trace (act a s) = io_trace s @ [a]" "io_progress (act a s) = io_progress s"
  by (simp_all add: act_def)

lemma report_simps [simp]:
  "io_trace (report p d n e s) = io_trace s"
  "map rmp_percentage (io_progress (report p d n e s)) = map rmp_percentage (io_progress s) @ [n]"
  by (simp_all add: report_def)

lemma make_dir_simps [simp]:
  "io_progress (snd (make_dir ge dir s)) = io_progress s"
  "io_trace (snd (make_dir ge dir s)) = io_trace s @ [MkDir dir]"
  by (simp_all add: make_dir_def check_err_def split: option.splits)

section \<open>URLs\<close>

definition buildAdoRepoURL :: "ado_source_config \<Rightarrow> migration_resource \<Rightarrow> string" where
  "buildAdoRepoURL source resource =
     ''https://dev.azure.com/'' @ src_organization source @ ''/'' @ src_project source
     @ ''/_git/'' @ res_sourceName resource"

definition buildGitHubRepoURL :: "github_target_config \<Rightarrow> migration_resource \<Rightarrow> string" where
  "buildGitHubRepoURL target resource =
     ''https://github.com/'' @ tgt_owner target @ ''/'' @ res_targetName resource @ ''.git''"

definition with_credentials :: "string \<Rightarrow> string \<Rightarrow> string \<Rightarrow> string" where
  "with_credentials host url token =
     (if contains_str url host
      then (case after_first ''://'' url of
              Some rest \<Rightarrow> ''https://x-access-token:'' @ token @ ''@'' @ rest
            | None \<Rightarrow> url)
      else url)"

definition extractOwnerAndRepo :: "string \<Rightarrow> go_error + (string \<times> string)" where
  "extractOwnerAndRepo githubURL =
     (let parts = split_on CHR ''/'' (trim_suffix githubURL ''.git'') in
      if length parts < 2 then Inl (PlainError (''invalid GitHub URL format: '' @ githubURL))
      else Inr (parts ! (length parts - 2), parts ! (length parts - 1)))"

section \<open>Clone\<close>

definition BuildCloneArgs :: "int \<Rightarrow> string \<Rightarrow> path \<Rightarrow> git_arg list" where
  "BuildCloneArgs depth url targetDir =
     (if depth > 0
      then map Text [''clone'', ''--bare'', ''--depth'', fmt_d depth, ''--no-single-branch'', url] @ [At targetDir]
      else map Text [''clone'', ''--mirror'', url] @ [At targetDir])"

definition cloneRepository ::
  "git_env \<Rightarrow> string \<Rightarrow> path \<Rightarrow> string \<Rightarrow> int \<Rightarrow> io_state \<Rightarrow> (go_error + unit) \<times> io_state" where
  "cloneRepository ge sourceURL targetDir token depth s =
     and_then (wrapped ''failed to create parent directory'' (make_dir ge (ParentDir targetDir) s))
       (\<lambda>_ s. let authenticatedURL = with_credentials ''dev.azure.com'' sourceURL token in
          case run_git ge (BuildCloneArgs depth authenticatedURL targetDir) s of
            ((output, Some err), s) \<Rightarrow>
              (Inl (PlainError (''git clone failed: '' @ err_text err @ '' (output: '' @ output @ '')'')), s)
          | ((output, None), s) \<Rightarrow>
              (Inr (), if depth > 0
                       then snd (run_git ge ([Text ''-C'', At targetDir]
                              @ map Text [''fetch'', ''origin'', ''--tags'', ''--depth'', fmt_d depth]) s)
                       else s))"

section \<open>Analyse and prepare\<close>

text \<open>The branches \<open>analyzeRepository\<close> collects; an error while listing leaves none.\<close>

definition analyzed_branches :: "git_env \<Rightarrow> path \<Rightarrow> io_state \<Rightarrow> string list" where
  "analyzed_branches ge dir s = (case ge_refs ge (io_trace s) dir of
     None \<Rightarrow> []
   | Some refs \<Rightarrow> map snd (filter (\<lambda>(is_branch, n). is_branch \<and> \<not> contains_str n ''HEAD'') refs))"

definition analyzeRepository :: "git_env \<Rightarrow> path \<Rightarrow> io_state \<Rightarrow> go_error + string list" where
  "analyzeRepository ge dir s = (case ge_open ge (io_trace s) dir of
     Some err \<Rightarrow> Inl (wrap_err ''failed to open repository'' err)
   | None \<Rightarrow> Inr (analyzed_branches ge dir s))"

definition detectDefaultBranch :: "git_env \<Rightarrow> path \<Rightarrow> io_state \<Rightarrow> go_error + string" where
  "detectDefaultBranch ge dir s = (case ge_head ge (io_trace s) dir of
     Inl err \<Rightarrow> Inl (wrap_err ''failed to read HEAD file'' err)
   | Inr content \<Rightarrow>
       (let headContent = trim is_space content in
        if \<not> has_prefix headContent ''ref: refs/heads/''
        then (case find (ge_has_ref ge (io_trace s) dir) [''main'', ''master'', ''develop'', ''development''] of
                Some branch \<Rightarrow> Inr branch
              | None \<Rightarrow> Inl (PlainError ''could not determine default branch from HEAD''))
        else Inr (trim_prefix headContent ''ref: refs/heads/'')))"

definition prepareForGitHub ::
  "git_env \<Rightarrow> path \<Rightarrow> string \<Rightarrow> io_state \<Rightarrow> (go_error + unit) \<times> io_state" where
  "prepareForGitHub ge dir githubURL s = (case ge_open ge (io_trace s) dir of
     Some err \<Rightarrow> (Inl (wrap_err ''failed to open repository'' err), s)
   | None \<Rightarrow> wrapped ''failed to add GitHub remote''
       (check_err (ge_create_remote ge (io_trace s) githubURL) (act (CreateRemote githubURL) s)))"

section \<open>Push\<close>

definition push_blocked :: "string \<Rightarrow> bool" where
  "push_blocked output \<longleftrightarrow> contains_str output ''repository rule violations''
     \<or> contains_str output ''push declined'' \<or> contains_str output ''protected branch''"

abbreviation cross_mark :: string where
  "cross_mark \<equiv> [CHR 0xE2, CHR 0x9D, CHR 0x8C]"

definition rulesets_error :: "string \<Rightarrow> string \<Rightarrow> go_error \<Rightarrow> go_error" where
  "rulesets_error owner repoName err = PlainError (cross_mark
     @ '' Push blocked by GitHub repository rulesets'' @ [newline, newline]
     @ ''The repository '' @ [CHR 0x27] @ ''https://github.com/'' @ owner @ ''/'' @ repoName @ [CHR 0x27]
     @ '' has organization-level rulesets that cannot be bypassed automatically.'' @ [newline, newline]
     @ ''Please:'' @ [newline] @ ''1. Go to https://github.com/organizations/'' @ owner @ ''/settings/rules''
     @ [newline] @ ''2. Add your GitHub App to the '' @ [CHR 0x27] @ ''Bypass list'' @ [CHR 0x27]
     @ '' for the ruleset'' @ [newline] @ ''3. Retry the migration'' @ [newline, newline]
     @ ''Error: '' @ err_text err)"

definition push_error :: "string \<Rightarrow> go_error \<Rightarrow> string \<Rightarrow> go_error" where
  "push_error what err output =
     PlainError (what @ '' failed: '' @ err_text err @ [newline, newline] @ ''Output: '' @ output)"

definition branch_push :: "path \<Rightarrow> string \<Rightarrow> string \<Rightarrow> git_arg list" where
  "branch_push dir url branch = [Text ''-C'', At dir, Text ''push'', Text url,
     Text (''refs/heads/'' @ branch @ '':refs/heads/'' @ branch)]"

text \<open>The loop over the filtered branches.\<close>

fun push_each ::
  "git_env \<Rightarrow> path \<Rightarrow> string \<Rightarrow> string \<Rightarrow> string \<Rightarrow> string list \<Rightarrow> io_state \<Rightarrow> (go_error + unit) \<times> io_state" where
  "push_each ge dir url owner repoName [] s = (Inr (), s)"
| "push_each ge dir url owner repoName (branch # rest) s =
     (case run_git ge (branch_push dir url branch) s of
        ((output, Some err), s) \<Rightarrow>
          (Inl (if push_blocked output then rulesets_error owner repoName err
                else push_error (''git push branch '' @ branch) err output), s)
      | ((output, None), s) \<Rightarrow> push_each ge dir url owner repoName rest s)"

definition push_all ::
  "git_env \<Rightarrow> path \<Rightarrow> string \<Rightarrow> string \<Rightarrow> string \<Rightarrow> io_state \<Rightarrow> (go_error + unit) \<times> io_state" where
  "push_all ge dir url owner repoName s =
     (case run_git ge [Text ''-C'', At dir, Text ''push'', Text ''--all'', Text url] s of
        ((output, Some err), s) \<Rightarrow>
          (Inl (if push_blocked output then rulesets_error owner repoName err
                else push_error ''git push branches'' err output), s)
      | ((output, None), s) \<Rightarrow> (Inr (), s))"

definition push_tags :: "git_env \<Rightarrow> path \<Rightarrow> string \<Rightarrow> io_state \<Rightarrow> (go_error + unit) \<times> io_state" where
  "push_tags ge dir url s =
     (case run_git ge [Text ''-C'', At dir, Text ''push'', Text ''--tags'', Text url] s of
        ((output, Some err), s) \<Rightarrow> (Inl (push_error ''git push tags'' err output), s)
      | ((output, None), s) \<Rightarrow> (Inr (), s))"

definition default_or_main :: "go_error + string \<Rightarrow> string" where
  "default_or_main r = (case r of Inl _ \<Rightarrow> ''main'' | Inr b \<Rightarrow> if b = [] then ''main'' else b)"

definition push_filtered ::
  "git_env \<Rightarrow> path \<Rightarrow> string \<Rightarrow> string \<Rightarrow> string \<Rightarrow> string list \<Rightarrow> string list \<Rightarrow> io_state
   \<Rightarrow> (go_error + unit) \<times> io_state" where
  "push_filtered ge dir url owner repoName includes excludes s = (case analyzeRepository ge dir s of
     Inl err \<Rightarrow> (Inl (wrap_err ''failed to analyze repository for branch filtering'' err), s)
   | Inr branches \<Rightarrow>
       push_each ge dir url owner repoName
         (FilterBranches branches includes excludes (default_or_main (detectDefaultBranch ge dir s))) s)"

definition pushToGitHub ::
  "git_env \<Rightarrow> path \<Rightarrow> string \<Rightarrow> string list \<Rightarrow> string list \<Rightarrow> io_state \<Rightarrow> (go_error + unit) \<times> io_state" where
  "pushToGitHub ge dir token includes excludes s = (case ge_open ge (io_trace s) dir of
     Some err \<Rightarrow> (Inl (wrap_err ''failed to open repository'' err), s)
   | None \<Rightarrow> (case ge_remote_urls ge (io_trace s) dir of
       Inl err \<Rightarrow> (Inl (wrap_err ''failed to get origin remote'' err), s)
     | Inr [] \<Rightarrow> (Inl (PlainError ''no URLs configured for origin remote''), s)
     | Inr (githubURL # _) \<Rightarrow> (case extractOwnerAndRepo githubURL of
         Inl err \<Rightarrow> (Inl (wrap_err ''failed to extract owner/repo from URL'' err), s)
       | Inr (owner, repoName) \<Rightarrow>
           (let url = with_credentials ''github.com'' githubURL token in
            and_then (if includes \<noteq> [] \<or> excludes \<noteq> []
                      then push_filtered ge dir url owner repoName includes excludes s
                      else push_all ge dir url owner repoName s)
              (\<lambda>_ s. push_tags ge dir url s)))))"

section \<open>MigrateRepository\<close>

definition clone_stage ::
  "git_env \<Rightarrow> path \<Rightarrow> ado_migration \<Rightarrow> migration_resource \<Rightarrow> string \<Rightarrow> io_state \<Rightarrow> (go_error + unit) \<times> io_state" where
  "clone_stage ge dir m resource adoToken s =
     (let s = report ''cloning'' ''Cloning repository from Azure DevOps'' 10 [] s;
          url = buildAdoRepoURL (ms_source (mg_spec m)) resource in
      case cloneRepository ge url dir adoToken (set_cloneDepth (ms_settings (mg_spec m))) s of
        (Inl err, s) \<Rightarrow> (Inl (wrap_err ''failed to clone from Azure DevOps'' err),
          report ''cloning'' ''Failed to clone from Azure DevOps'' 10 (err_text err) s)
      | (Inr _, s) \<Rightarrow> (Inr (), report ''cloning'' ''Successfully cloned from Azure DevOps'' 30 [] s))"

definition prepare_stage ::
  "git_env \<Rightarrow> path \<Rightarrow> ado_migration \<Rightarrow> migration_resource \<Rightarrow> io_state \<Rightarrow> (go_error + unit) \<times> io_state" where
  "prepare_stage ge dir m resource s =
     (let s = report ''preparing'' ''Preparing repository for GitHub'' 50 [] s in
      case prepareForGitHub ge dir (buildGitHubRepoURL (ms_target (mg_spec m)) resource) s of
        (Inl err, s) \<Rightarrow> (Inl (wrap_err ''failed to prepare for GitHub'' err),
          report ''preparing'' ''Failed to prepare for GitHub'' 50 (err_text err) s)
      | (Inr _, s) \<Rightarrow> (Inr (), report ''preparing'' ''Repository prepared for GitHub'' 60 [] s))"

definition branch_filters :: "ado_migration \<Rightarrow> string list \<times> string list" where
  "branch_filters m = (case set_repository (ms_settings (mg_spec m)) of
     None \<Rightarrow> ([], [])
   | Some r \<Rightarrow> (rp_includeBranches r, rp_excludeBranches r))"

definition push_stage ::
  "git_env \<Rightarrow> path \<Rightarrow> ado_migration \<Rightarrow> string \<Rightarrow> io_state \<Rightarrow> (go_error + unit) \<times> io_state" where
  "push_stage ge dir m githubToken s =
     (let s = report ''pushing'' ''Pushing repository to GitHub'' 70 [] s in
      case pushToGitHub ge dir githubToken (fst (branch_filters m)) (snd (branch_filters m)) s of
        (Inl err, s) \<Rightarrow> (Inl (wrap_err ''failed to push to GitHub'' err),
          report ''pushing'' ''Failed to push to GitHub'' 70 (err_text err) s)
      | (Inr _, s) \<Rightarrow> (Inr (), report ''pushing'' ''Successfully pushed to GitHub'' 90 [] s))"

text \<open>The retry loop around \<open>SetDefaultBranch\<close>; the first argument counts the attempts left.\<close>

fun set_default_loop ::
  "nat \<Rightarrow> git_env \<Rightarrow> string \<Rightarrow> string \<Rightarrow> string \<Rightarrow> string \<Rightarrow> go_error option \<Rightarrow> io_state
   \<Rightarrow> go_error option \<times> io_state" where
  "set_default_loop 0 ge token owner repo branch e s = (e, s)"
| "set_default_loop (Suc n) ge token owner repo branch e s =
     (case ge_set_default ge (io_trace s) token owner repo branch of
        None \<Rightarrow> (None, act (SetDefault owner repo branch) s)
      | Some err \<Rightarrow> set_default_loop n ge token owner repo branch (Some err)
                      (act (SetDefault owner repo branch) s))"

definition default_branch_stage ::
  "git_env \<Rightarrow> ado_migration \<Rightarrow> migration_resource \<Rightarrow> string \<Rightarrow> string \<Rightarrow> io_state \<Rightarrow> (go_error + unit) \<times> io_state" where
  "default_branch_stage ge m resource githubToken defaultBranch s =
     (case set_default_loop 3 ge githubToken (tgt_owner (ms_target (mg_spec m)))
             (res_targetName resource) defaultBranch None s of
        (Some err, s) \<Rightarrow> (Inl (wrap_err (''failed to set default branch to '' @ [CHR 0x27]
                             @ defaultBranch @ [CHR 0x27]) err), s)
      | (None, s) \<Rightarrow> (Inr (), s))"

definition migrate_in ::
  "git_env \<Rightarrow> path \<Rightarrow> ado_migration \<Rightarrow> migration_resource \<Rightarrow> string \<Rightarrow> string \<Rightarrow> io_state
   \<Rightarrow> (go_error + unit) \<times> io_state" where
  "migrate_in ge dir m resource adoToken githubToken s =
     and_then (clone_stage ge dir m resource adoToken s) (\<lambda>_ s.
       let s = report ''analyzing'' ''Analyzing repository structure'' 40 [] s;
           defaultBranch = (case detectDefaultBranch ge dir s of Inl _ \<Rightarrow> ''main'' | Inr b \<Rightarrow> b) in
       and_then (prepare_stage ge dir m resource s) (\<lambda>_ s.
       and_then (push_stage ge dir m githubToken s) (\<lambda>_ s.
       and_then (default_branch_stage ge m resource githubToken defaultBranch s) (\<lambda>_ s.
       (Inr (), report ''completed'' ''Repository migration completed successfully'' 100 []
                 (report ''verifying'' ''Verifying migration completion'' 95 [] s))))))"

definition MigrateRepository ::
  "git_env \<Rightarrow> ado_migration \<Rightarrow> migration_resource \<Rightarrow> string \<Rightarrow> string \<Rightarrow> io_state
   \<Rightarrow> (go_error + unit) \<times> io_state" where
  "MigrateRepository ge m resource adoToken githubToken s =
     (let dir = JoinPath [ge_workDir ge, om_name (mg_meta m), res_sourceName resource] in
      and_then (wrapped ''failed to create migration directory'' (make_dir ge dir s)) (\<lambda>_ s.
        case migrate_in ge dir m resource adoToken githubToken s of
          (r, s) \<Rightarrow> (r, act (RemoveAll dir) s)))"

section \<open>SyncRepository\<close>

record sync_result =
  sy_branches :: "string list"
  sy_tags :: "string list"

definition sync_blocked_error :: "string \<Rightarrow> string \<Rightarrow> string \<Rightarrow> go_error \<Rightarrow> go_error" where
  "sync_blocked_error githubURL owner repo err = PlainError (cross_mark
     @ '' Sync push blocked by GitHub protection rules'' @ [newline, newline]
     @ ''The repository '' @ [CHR 0x27] @ githubURL @ [CHR 0x27]
     @ '' has branch protection that blocks sync.'' @ [newline, newline] @ ''Please:'' @ [newline]
     @ ''1. Go to https://github.com/'' @ owner @ ''/'' @ repo @ ''/settings/branches'' @ [newline]
     @ ''2. Temporarily disable protection OR add GitHub App to bypass list'' @ [newline]
     @ ''3. Retry sync'' @ [newline, newline] @ ''Error: '' @ err_text err)"

definition sync_clone ::
  "git_env \<Rightarrow> path \<Rightarrow> ado_migration \<Rightarrow> migration_resource \<Rightarrow> string \<Rightarrow> io_state \<Rightarrow> (go_error + unit) \<times> io_state" where
  "sync_clone ge syncDir m resource adoToken s =
     (if ge_workspace ge (io_trace s) syncDir then (Inr (), s)
      else and_then (wrapped ''failed to create sync directory'' (make_dir ge (ParentDir syncDir) s)) (\<lambda>_ s.
        wrapped ''failed to clone repository for sync''
          (cloneRepository ge (buildAdoRepoURL (ms_source (mg_spec m)) resource) syncDir adoToken 0 s)))"

definition sync_refs :: "git_env \<Rightarrow> path \<Rightarrow> ado_migration \<Rightarrow> io_state \<Rightarrow> sync_result" where
  "sync_refs ge syncDir m s =
     \<lparr>sy_branches = (case ge_list_branches ge (io_trace s) syncDir of None \<Rightarrow> [] | Some bs \<Rightarrow> bs),
      sy_tags = (if (case set_sync (ms_settings (mg_spec m)) of None \<Rightarrow> False | Some c \<Rightarrow> sync_syncTags c)
                 then (case ge_list_tags ge (io_trace s) syncDir of None \<Rightarrow> [] | Some ts \<Rightarrow> ts)
                 else [])\<rparr>"

definition sync_push ::
  "git_env \<Rightarrow> path \<Rightarrow> ado_migration \<Rightarrow> migration_resource \<Rightarrow> string \<Rightarrow> sync_result \<Rightarrow> io_state
   \<Rightarrow> (go_error + sync_result) \<times> io_state" where
  "sync_push ge syncDir m resource githubToken result s =
     (let owner = tgt_owner (ms_target (mg_spec m)); repo = res_targetName resource;
          githubURL = ''https://github.com/'' @ owner @ ''/'' @ repo @ ''.git'';
          authenticatedURL = ''https://x-access-token:'' @ githubToken @ ''@github.com/'' @ owner @ ''/''
            @ repo @ ''.git'';
          force = (case set_sync (ms_settings (mg_spec m)) of None \<Rightarrow> False | Some c \<Rightarrow> sync_forcePush c)
      in case run_git ge ([Text ''-C'', At syncDir, Text ''push''] @ (if force then [Text ''--force''] else [])
                @ [Text ''--mirror'', Text authenticatedURL]) s of
           ((output, Some err), s) \<Rightarrow>
             (Inl (if push_blocked output then sync_blocked_error githubURL owner repo err
                   else PlainError (''git push failed during sync: '' @ err_text err @ [newline]
                          @ ''Output: '' @ output)), s)
         | ((output, None), s) \<Rightarrow> (Inr result, s))"

definition SyncRepository ::
  "git_env \<Rightarrow> ado_migration \<Rightarrow> migration_resource \<Rightarrow> string \<Rightarrow> string \<Rightarrow> io_state
   \<Rightarrow> (go_error + sync_result) \<times> io_state" where
  "SyncRepository ge m resource adoToken githubToken s =
     (let syncDir = JoinPath [ge_workDir ge, ''sync'', om_name (mg_meta m), res_sourceName resource] in
      and_then (sync_clone ge syncDir m resource adoToken s) (\<lambda>_ s.
        case run_git ge ([Text ''-C'', At syncDir] @ map Text [''fetch'', ''--all'', ''--prune'', ''--tags'']) s of
          ((output, Some err), s) \<Rightarrow> (Inl (wrap_err ''git fetch failed'' err), s)
        | ((output, None), s) \<Rightarrow>
            (case ge_open ge (io_trace s) syncDir of
               Some err \<Rightarrow> (Inl (wrap_err ''failed to open repository'' err), s)
             | None \<Rightarrow> sync_push ge syncDir m resource githubToken (sync_refs ge syncDir m s) s)))"

section \<open>Facts about the stages\<close>

named_theorems io_frame "a step only adds to the record of what was done"

lemma run_git_simps [simp]:
  "snd (run_git ge args s) = act (Git args) s"
  by (simp add: run_git_def)

lemma prefix_act [io_frame]: "prefix t (io_trace s) \<Longrightarrow> prefix t (io_trace (act a s))"
  by (simp add: prefix_append)

lemma and_then_prefix:
  assumes "prefix t (io_trace (snd r))"
    and "\<And>x s. prefix t (io_trace s) \<Longrightarrow> prefix t (io_trace (snd (f x s)))"
  shows "prefix t (io_trace (snd (and_then r f)))"
  using assms by (cases r) (auto simp: and_then_def split: sum.splits)

lemma wrapped_snd [simp]: "snd (wrapped m r) = snd r"
  by (simp add: wrapped_def)

lemma check_err_snd [simp]: "snd (check_err e s) = s"
  by (simp add: check_err_def split: option.splits)

lemma cloneRepository_frame [io_frame]:
  "prefix t (io_trace s) \<Longrightarrow> prefix t (io_trace (snd (cloneRepository ge u d tok n s)))"
  unfolding cloneRepository_def
  by (rule and_then_prefix)
    (auto simp: run_git_def Let_def prefix_append make_dir_def check_err_def split: option.splits prod.splits)

lemma prepareForGitHub_frame [io_frame]:
  "prefix t (io_trace s) \<Longrightarrow> prefix t (io_trace (snd (prepareForGitHub ge d u s)))"
  by (auto simp: prepareForGitHub_def prefix_append split: option.splits)

lemma push_each_trace:
  "\<exists>n \<le> length bs. io_trace (snd (push_each ge dir url ow rn bs s))
      = io_trace s @ map (\<lambda>b. Git (branch_push dir url b)) (take n bs)
    \<and> (fst (push_each ge dir url ow rn bs s) = Inr () \<longrightarrow> n = length bs)"
proof (induction bs arbitrary: s)
  case (Cons b bs)
  show ?case
  proof (cases "snd (ge_git ge (io_trace s) (branch_push dir url b))")
    case None
    then have eq: "push_each ge dir url ow rn (b # bs) s
        = push_each ge dir url ow rn bs (act (Git (branch_push dir url b)) s)"
      by (auto simp: run_git_def split: prod.splits)
    from Cons.IH [of "act (Git (branch_push dir url b)) s"] obtain n where
      "n \<le> length bs" "io_trace (snd (push_each ge dir url ow rn (b # bs) s))
        = io_trace s @ map (\<lambda>b. Git (branch_push dir url b)) (take (Suc n) (b # bs))"
      "fst (push_each ge dir url ow rn (b # bs) s) = Inr () \<longrightarrow> n = length bs"
      unfolding eq by auto
    then show ?thesis by (intro exI [of _ "Suc n"]) auto
  next
    case (Some e)
    then show ?thesis
      by (intro exI [of _ "Suc 0"]) (auto simp: run_git_def split: prod.splits)
  qed
qed simp

lemma push_filtered_frame [io_frame]:
  "prefix t (io_trace s) \<Longrightarrow> prefix t (io_trace (snd (push_filtered ge d u ow rn i e s)))"
  using push_each_trace [of "FilterBranches (analyzed_branches ge d s) i e
      (default_or_main (detectDefaultBranch ge d s))" ge d u ow rn s]
  by (auto simp: push_filtered_def analyzeRepository_def prefix_append split: option.splits)

lemma push_all_snd [simp]:
  "snd (push_all ge d u ow rn s) = act (Git [Text ''-C'', At d, Text ''push'', Text ''--all'', Text u]) s"
  by (auto simp: push_all_def run_git_def split: prod.splits option.splits)

lemma push_tags_snd [simp]:
  "snd (push_tags ge d u s) = act (Git [Text ''-C'', At d, Text ''push'', Text ''--tags'', Text u]) s"
  by (auto simp: push_tags_def run_git_def split: prod.splits option.splits)

lemma pushToGitHub_frame [io_frame]:
  "prefix t (io_trace s) \<Longrightarrow> prefix t (io_trace (snd (pushToGitHub ge d tok i e s)))"
  by (auto simp: pushToGitHub_def Let_def prefix_append
      split: option.splits sum.splits list.splits
      intro!: and_then_prefix push_filtered_frame)

lemma set_default_loop_frame [io_frame]:
  "prefix t (io_trace s) \<Longrightarrow> prefix t (io_trace (snd (set_default_loop n ge tok ow rp b e s)))"
  by (induction n arbitrary: e s) (auto simp: prefix_append split: option.splits)

lemma stage_result:
  "prefix t (io_trace (snd r)) \<Longrightarrow>
   prefix t (io_trace (snd (case r of (Inl err, s) \<Rightarrow> (Inl (f err), report p1 d1 n1 (err_text err) s)
                                    | (Inr _, s) \<Rightarrow> (Inr (), report p2 d2 n2 e2 s))))"
  by (cases r) (auto split: sum.splits)

lemma stage_frames [io_frame]:
  assumes "prefix t (io_trace s)"
  shows "prefix t (io_trace (snd (clone_stage ge dir m r tok s)))"
    and "prefix t (io_trace (snd (prepare_stage ge dir m r s)))"
    and "prefix t (io_trace (snd (push_stage ge dir m tok s)))"
    and "prefix t (io_trace (snd (default_branch_stage ge m r tok b s)))"
proof -
  show "prefix t (io_trace (snd (clone_stage ge dir m r tok s)))"
    unfolding clone_stage_def Let_def
    by (rule stage_result) (rule cloneRepository_frame, simp add: assms)
  show "prefix t (io_trace (snd (prepare_stage ge dir m r s)))"
    unfolding prepare_stage_def Let_def
    by (rule stage_result) (rule prepareForGitHub_frame, simp add: assms)
  show "prefix t (io_trace (snd (push_stage ge dir m tok s)))"
    unfolding push_stage_def Let_def
    by (rule stage_result) (rule pushToGitHub_frame, simp add: assms)
  have "prefix t (io_trace (snd (set_default_loop 3 ge tok (tgt_owner (ms_target (mg_spec m)))
      (res_targetName r) b None s)))"
    by (rule set_default_loop_frame [OF assms])
  then show "prefix t (io_trace (snd (default_branch_stage ge m r tok b s)))"
    by (auto simp: default_branch_stage_def split: prod.splits option.splits)
qed

lemma migrate_in_frame [io_frame]:
  "prefix t (io_trace s) \<Longrightarrow> prefix t (io_trace (snd (migrate_in ge dir m r a g s)))"
  unfolding migrate_in_def Let_def
  by (intro and_then_prefix stage_frames) simp_all

section \<open>Properties\<close>

text \<open>
  Whatever fails, the workspace of a repository migration is removed last if it could be
  created; otherwise nothing else is done at all.
\<close>

theorem workspace_removed:
  "let dir = JoinPath [ge_workDir ge, om_name (mg_meta m), res_sourceName r];
       t = io_trace (snd (MigrateRepository ge m r adoToken githubToken s)) in
   if ge_mkdir ge (io_trace s) dir = None
   then \<exists>acts. t = io_trace s @ [MkDir dir] @ acts @ [RemoveAll dir]
   else t = io_trace s @ [MkDir dir]"
proof -
  let ?dir = "JoinPath [ge_workDir ge, om_name (mg_meta m), res_sourceName r]"
  have "prefix (io_trace s @ [MkDir ?dir])
      (io_trace (snd (migrate_in ge ?dir m r adoToken githubToken (act (MkDir ?dir) s))))"
    by (rule migrate_in_frame) simp
  then show ?thesis
    by (auto simp: MigrateRepository_def make_dir_def check_err_def Let_def prefix_def
        split: option.splits prod.splits)
qed

text \<open>
  When the clone fails nothing is pushed, no remote and no default branch is set on
  GitHub: after the clone the workspace is removed and its error is returned.
\<close>

theorem failed_clone_stops:
  assumes "ge_mkdir ge (io_trace s) dir = None"
    and "dir = JoinPath [ge_workDir ge, om_name (mg_meta m), res_sourceName r]"
    and "cloneRepository ge (buildAdoRepoURL (ms_source (mg_spec m)) r) dir adoToken
           (set_cloneDepth (ms_settings (mg_spec m)))
           (report ''cloning'' ''Cloning repository from Azure DevOps'' 10 [] (act (MkDir dir) s)) = (Inl e, s1)"
  shows "fst (MigrateRepository ge m r adoToken githubToken s)
      = Inl (wrap_err ''failed to clone from Azure DevOps'' e)
    \<and> io_trace (snd (MigrateRepository ge m r adoToken githubToken s)) = io_trace s1 @ [RemoveAll dir]"
  using assms
  by (simp add: MigrateRepository_def make_dir_def check_err_def migrate_in_def clone_stage_def Let_def)

definition sample_git :: git_env where
  "sample_git = \<lparr>ge_workDir = ''/w'', ge_mkdir = (\<lambda>t d. None), ge_git = (\<lambda>t a. ([], None)),
     ge_open = (\<lambda>t d. None), ge_refs = (\<lambda>t d. Some [(True, ''main''), (True, ''feature/x''), (True, ''fix-HEADER'')]),
     ge_head = (\<lambda>t d. Inr ''ref: refs/heads/main''), ge_has_ref = (\<lambda>t d b. False),
     ge_create_remote = (\<lambda>t u. None), ge_remote_urls = (\<lambda>t d. Inr [''https://github.com/o/r.git'']),
     ge_set_default = (\<lambda>t tok ow rp b. None), ge_workspace = (\<lambda>t d. False),
     ge_list_branches = (\<lambda>t d. Some [''main'']), ge_list_tags = (\<lambda>t d. Some [''v1''])\<rparr>"

definition sample_repo :: migration_resource where
  "sample_repo = \<lparr>res_type = ''repository'', res_sourceID = ''1'', res_sourceName = ''a'',
     res_targetName = ''a'', res_config = Map.empty, res_settings = None\<rparr>"

definition no_io :: io_state where
  "no_io = \<lparr>io_trace = [], io_progress = []\<rparr>"

lemma clone_stage_progress:
  "map rmp_percentage (io_progress (snd (clone_stage ge dir m r tok s)))
   = map rmp_percentage (io_progress s) @ (case fst (clone_stage ge dir m r tok s) of Inl _ \<Rightarrow> [10, 10] | Inr _ \<Rightarrow> [10, 30])"
proof -
  have p: "io_progress (snd (cloneRepository ge u d t n s)) = io_progress s" for u d t n s
    unfolding cloneRepository_def
    by (auto simp: and_then_def run_git_def make_dir_def check_err_def wrapped_def Let_def
        split: option.splits prod.splits sum.splits)
  show ?thesis
    using p [of "buildAdoRepoURL (ms_source (mg_spec m)) r" dir tok "set_cloneDepth (ms_settings (mg_spec m))"
        "report ''cloning'' ''Cloning repository from Azure DevOps'' 10 [] s"]
    by (auto simp: clone_stage_def Let_def split: prod.splits sum.splits)
qed

lemma prepare_stage_progress:
  "map rmp_percentage (io_progress (snd (prepare_stage ge dir m r s)))
   = map rmp_percentage (io_progress s) @ (case fst (prepare_stage ge dir m r s) of Inl _ \<Rightarrow> [50, 50] | Inr _ \<Rightarrow> [50, 60])"
proof -
  have p: "io_progress (snd (prepareForGitHub ge d u s)) = io_progress s" for d u s
    by (auto simp: prepareForGitHub_def split: option.splits)
  show ?thesis
    using p [of dir "buildGitHubRepoURL (ms_target (mg_spec m)) r"
        "report ''preparing'' ''Preparing repository for GitHub'' 50 [] s"]
    by (auto simp: prepare_stage_def Let_def split: prod.splits sum.splits)
qed

lemma push_each_progress [simp]:
  "io_progress (snd (push_each ge dir u ow rn bs s)) = io_progress s"
  by (induction bs arbitrary: s) (auto simp: run_git_def split: prod.splits option.splits)

lemma and_then_push_tags [simp]:
  "io_progress (snd (and_then r (\<lambda>_. push_tags ge d u))) = io_progress (snd r)"
  by (cases r) (auto simp: and_then_def split: sum.splits)

lemma push_filtered_progress [simp]:
  "io_progress (snd (push_filtered ge d u ow rn i e s)) = io_progress s"
  by (auto simp: push_filtered_def split: sum.splits)

lemma push_stage_progress:
  "map rmp_percentage (io_progress (snd (push_stage ge dir m tok s)))
   = map rmp_percentage (io_progress s) @ (case fst (push_stage ge dir m tok s) of Inl _ \<Rightarrow> [70, 70] | Inr _ \<Rightarrow> [70, 90])"
proof -
  have p: "io_progress (snd (pushToGitHub ge d t i e s)) = io_progress s" for d t i e s
    by (auto simp: pushToGitHub_def Let_def split: option.splits sum.splits list.splits)
  show ?thesis
    using p [of dir tok "fst (branch_filters m)" "snd (branch_filters m)"
        "report ''pushing'' ''Pushing repository to GitHub'' 70 [] s"]
    by (auto simp: push_stage_def Let_def split: prod.splits sum.splits)
qed

lemma default_branch_stage_progress:
  "io_progress (snd (default_branch_stage ge m r tok b s)) = io_progress s"
proof -
  have "io_progress (snd (set_default_loop n ge tok ow rp b e s)) = io_progress s" for n ow rp e s
    by (induction n arbitrary: e s) (auto split: option.splits)
  from this [of 3 "tgt_owner (ms_target (mg_spec m))" "res_targetName r" None s] show ?thesis
    by (auto simp: default_branch_stage_def split: prod.splits option.splits)
qed

text \<open>
  The percentages reported while a repository is migrated never go down, stay between 10
  and 100, and 100 is reported exactly when the migration succeeds.
\<close>

theorem migration_progress:
  "\<exists>ps. map rmp_percentage (io_progress (snd (MigrateRepository ge m r adoToken githubToken s)))
           = map rmp_percentage (io_progress s) @ ps
    \<and> sorted ps \<and> set ps \<subseteq> {10..100}
    \<and> (fst (MigrateRepository ge m r adoToken githubToken s) = Inr () \<longleftrightarrow> 100 \<in> set ps)"
proof -
  let ?dir = "JoinPath [ge_workDir ge, om_name (mg_meta m), res_sourceName r]"
  let ?s0 = "act (MkDir ?dir) s"
  let ?pc = "\<lambda>s. map rmp_percentage (io_progress s)"
  have "\<exists>ps. ?pc (snd (migrate_in ge ?dir m r adoToken githubToken ?s0)) = ?pc s @ ps
    \<and> ps \<in> {[10, 10], [10, 30, 40, 50, 50], [10, 30, 40, 50, 60, 70, 70],
            [10, 30, 40, 50, 60, 70, 90], [10, 30, 40, 50, 60, 70, 90, 95, 100]}
    \<and> (fst (migrate_in ge ?dir m r adoToken githubToken ?s0) = Inr () \<longleftrightarrow> 100 \<in> set ps)"
  proof -
    obtain r1 s1 where c: "clone_stage ge ?dir m r adoToken ?s0 = (r1, s1)" by fastforce
    note c' = clone_stage_progress [of ge ?dir m r adoToken ?s0, unfolded c, simplified]
    show ?thesis
    proof (cases r1)
      case (Inl e)
      with c c' show ?thesis by (simp add: migrate_in_def)
    next
      case r1: (Inr u)
      let ?s1 = "report ''analyzing'' ''Analyzing repository structure'' 40 [] s1"
      obtain r2 s2 where p: "prepare_stage ge ?dir m r ?s1 = (r2, s2)" by fastforce
      note p' = prepare_stage_progress [of ge ?dir m r ?s1, unfolded p, simplified]
      show ?thesis
      proof (cases r2)
        case (Inl e)
        with c c' r1 p p' show ?thesis by (simp add: migrate_in_def Let_def)
      next
        case r2: (Inr v)
        obtain r3 s3 where q: "push_stage ge ?dir m githubToken s2 = (r3, s3)" by fastforce
        note q' = push_stage_progress [of ge ?dir m githubToken s2, unfolded q, simplified]
        let ?b = "case detectDefaultBranch ge ?dir ?s1 of Inl _ \<Rightarrow> ''main'' | Inr b \<Rightarrow> b"
        obtain r4 s4 where d: "default_branch_stage ge m r githubToken ?b s3 = (r4, s4)" by fastforce
        note d' = default_branch_stage_progress [of ge m r githubToken ?b s3, unfolded d, simplified]
        show ?thesis
          using c c' r1 p p' r2 q q' d d'
          by (cases r3; cases r4) (simp_all add: migrate_in_def Let_def)
      qed
    qed
  qed
  then obtain ps where ps: "?pc (snd (migrate_in ge ?dir m r adoToken githubToken ?s0)) = ?pc s @ ps"
    "ps \<in> {[10, 10], [10, 30, 40, 50, 50], [10, 30, 40, 50, 60, 70, 70],
            [10, 30, 40, 50, 60, 70, 90], [10, 30, 40, 50, 60, 70, 90, 95, 100]}"
    "fst (migrate_in ge ?dir m r adoToken githubToken ?s0) = Inr () \<longleftrightarrow> 100 \<in> set ps" by blast
  then have "sorted ps \<and> set ps \<subseteq> {10..100}" by auto
  with ps show ?thesis
    by (cases "ge_mkdir ge (io_trace s) ?dir")
      (auto simp: MigrateRepository_def make_dir_def check_err_def Let_def
        split: prod.splits intro: exI [of _ "[]"])
qed

lemma filtered_push_lemma:
  assumes filters: "includes \<noteq> [] \<or> excludes \<noteq> []"
    and push: "pushToGitHub ge dir token includes excludes s = (r, s')"
  shows "\<exists>url n. let bs = FilterBranches (analyzed_branches ge dir s) includes excludes
                 (default_or_main (detectDefaultBranch ge dir s));
               tags = Git [Text ''-C'', At dir, Text ''push'', Text ''--tags'', Text url] in
    io_trace s' \<in> {io_trace s @ map (\<lambda>b. Git (branch_push dir url b)) (take n bs),
                  io_trace s @ map (\<lambda>b. Git (branch_push dir url b)) bs @ [tags]}
    \<and> (r = Inr () \<longrightarrow> io_trace s' = io_trace s @ map (\<lambda>b. Git (branch_push dir url b)) bs @ [tags])"
proof -
  let ?bs = "FilterBranches (analyzed_branches ge dir s) includes excludes
                 (default_or_main (detectDefaultBranch ge dir s))"
  have "io_trace s' = io_trace s \<and> r \<noteq> Inr () \<or> (\<exists>u ow rn.
      and_then (push_each ge dir u ow rn ?bs s) (\<lambda>_ s. push_tags ge dir u s) = (r, s'))"
    using push filters
    by (auto simp: pushToGitHub_def push_filtered_def analyzeRepository_def Let_def
        split: option.splits sum.splits list.splits)
  then consider (early) "io_trace s' = io_trace s" "r \<noteq> Inr ()"
    | (pushed) u ow rn where
      "(r, s') = and_then (push_each ge dir u ow rn ?bs s) (\<lambda>_ s. push_tags ge dir u s)"
    by metis
  then show ?thesis
  proof cases
    case early
    then show ?thesis by (intro exI [of _ "[]"] exI [of _ 0]) simp
  next
    case pushed
    obtain r1 s1 where e: "push_each ge dir u ow rn ?bs s = (r1, s1)" by fastforce
    from push_each_trace [of ?bs ge dir u ow rn s] obtain n where
      "io_trace s1 = io_trace s @ map (\<lambda>b. Git (branch_push dir u b)) (take n ?bs)"
      "r1 = Inr () \<longrightarrow> n = length ?bs" unfolding e by auto
    moreover have "s' = act (Git [Text ''-C'', At dir, Text ''push'', Text ''--tags'', Text u]) s1"
      if "r1 = Inr ()"
      using pushed push_tags_snd [of ge dir u s1] that unfolding e by (metis and_then_simps(2) snd_conv)
    moreover have "s' = s1 \<and> r \<noteq> Inr ()" if "r1 = Inl err" for err
      using pushed that unfolding e by simp
    ultimately show ?thesis
      by (intro exI [of _ u] exI [of _ n]) (cases r1; auto simp: Let_def)
  qed
qed

text \<open>
  C26. With branch filters, a push pushes the filtered branches one by one, in order, and
  nothing else but the tags: the branches pushed are a beginning of the filtered list, and
  all of it when the push succeeds.
\<close>

theorem filtered_push:
  assumes filters: "includes \<noteq> [] \<or> excludes \<noteq> []"
    and push: "pushToGitHub ge dir token includes excludes s = (r, s')"
  shows "\<exists>url n. let bs = FilterBranches (analyzed_branches ge dir s) includes excludes
                 (default_or_main (detectDefaultBranch ge dir s));
               tags = Git [Text ''-C'', At dir, Text ''push'', Text ''--tags'', Text url] in
    io_trace s' \<in> {io_trace s @ map (\<lambda>b. Git (branch_push dir url b)) (take n bs),
                  io_trace s @ map (\<lambda>b. Git (branch_push dir url b)) bs @ [tags]}
    \<and> (r = Inr () \<longrightarrow> io_trace s' = io_trace s @ map (\<lambda>b. Git (branch_push dir url b)) bs @ [tags])"
  using filtered_push_lemma [OF assms] .

theorem filtered_push_witness:
  "\<exists>url. Git (branch_push (JoinPath []) url ''main'')
      \<in> set (io_trace (snd (pushToGitHub sample_git (JoinPath []) ''t'' [''main''] [] no_io)))"
proof -
  let ?r = "pushToGitHub sample_git (JoinPath []) ''t'' [''main''] [] no_io"
  have ok: "fst ?r = Inr ()" by code_simp
  have bs: "FilterBranches (analyzed_branches sample_git (JoinPath []) no_io) [''main''] []
      (default_or_main (detectDefaultBranch sample_git (JoinPath []) no_io)) = [''main'']"
    by code_simp
  have "?r = (fst ?r, snd ?r)" by simp
  from filtered_push [OF _ this] obtain url where
    "io_trace (snd ?r) = [Git (branch_push (JoinPath []) url ''main''),
        Git [Text ''-C'', At (JoinPath []), Text ''push'', Text ''--tags'', Text url]]"
    unfolding bs ok by (auto simp: Let_def no_io_def)
  then have "Git (branch_push (JoinPath []) url ''main'') \<in> set (io_trace (snd ?r))" by simp
  then show ?thesis by blast
qed

lemma refspec_inj:
  assumes "''refs/heads/'' @ b @ '':refs/heads/'' @ b = ''refs/heads/'' @ c @ '':refs/heads/'' @ c"
  shows "b = c"
proof -
  from assms have eq: "b @ '':refs/heads/'' @ b = c @ '':refs/heads/'' @ c" by simp
  from arg_cong [OF eq, of length] have "length b = length c" by simp
  with eq show ?thesis by simp
qed

text \<open>
  With branch filters, a branch whose name contains \<open>HEAD\<close> is never pushed, whatever the
  filters say and even if it is the default branch.
\<close>

theorem HEAD_branches_not_pushed:
  assumes "includes \<noteq> [] \<or> excludes \<noteq> []" and head: "contains_str b ''HEAD''"
    and "io_trace s = []" and url: "url \<noteq> ''--tags''"
  shows "Git (branch_push dir url b)
    \<notin> set (io_trace (snd (pushToGitHub ge dir token includes excludes s)))"
proof
  let ?r = "pushToGitHub ge dir token includes excludes s"
    and ?bs = "FilterBranches (analyzed_branches ge dir s) includes excludes
      (default_or_main (detectDefaultBranch ge dir s))"
  assume "Git (branch_push dir url b) \<in> set (io_trace (snd ?r))"
  moreover obtain u n where "io_trace (snd ?r) \<in> {map (\<lambda>b. Git (branch_push dir u b)) (take n ?bs),
      map (\<lambda>b. Git (branch_push dir u b)) ?bs
        @ [Git [Text ''-C'', At dir, Text ''push'', Text ''--tags'', Text u]]}"
    using filtered_push_lemma [OF assms(1), of ge dir token s "fst ?r" "snd ?r"] assms(3)
    by (auto simp: Let_def)
  moreover have "branch_push dir url b \<noteq> [Text ''-C'', At dir, Text ''push'', Text ''--tags'', Text u]"
    using url by (simp add: branch_push_def)
  ultimately have "Git (branch_push dir url b) \<in> (\<lambda>b. Git (branch_push dir u b)) ` set ?bs"
    by (fastforce dest: in_set_takeD)
  then obtain c where "c \<in> set ?bs" "branch_push dir url b = branch_push dir u c" by blast
  then have "b \<in> set ?bs" using refspec_inj [of b c] by (simp add: branch_push_def)
  then have "b \<in> set (analyzed_branches ge dir s)"
    by (auto simp: FilterBranches_def split: if_splits)
  with head show False by (auto simp: analyzed_branches_def split: option.splits)
qed

theorem HEAD_branches_not_pushed_witness:
  "Git (branch_push (JoinPath []) ''https://x'' ''fix-HEADER'')
   \<notin> set (io_trace (snd (pushToGitHub sample_git (JoinPath []) ''t'' [''fix-HEADER''] [] no_io)))"
proof -
  have "contains_str ''fix-HEADER'' ''HEAD''" by code_simp
  then show ?thesis by (intro HEAD_branches_not_pushed) (simp_all add: no_io_def)
qed

definition with_branch_filter :: "string list \<Rightarrow> ado_migration \<Rightarrow> ado_migration" where
  "with_branch_filter f m = m\<lparr>mg_spec := (mg_spec m)\<lparr>ms_settings := (ms_settings (mg_spec m))
     \<lparr>set_sync := map_option (sync_branchFilter_update (\<lambda>_. f)) (set_sync (ms_settings (mg_spec m)))\<rparr>\<rparr>\<rparr>"

text \<open>
  The branch filter of the synchronisation settings is not read: a synchronisation does
  the same with any filter. It always ends with \<open>git push --mirror\<close> when it succeeds.
\<close>

theorem sync_ignores_branch_filter:
  "SyncRepository ge (with_branch_filter f m) r adoToken githubToken s
     = SyncRepository ge m r adoToken githubToken s
   \<and> (case fst (SyncRepository ge m r adoToken githubToken s) of Inl _ \<Rightarrow> True | Inr _ \<Rightarrow>
        (\<exists>args. last (io_trace (snd (SyncRepository ge m r adoToken githubToken s))) = Git args
           \<and> Text ''push'' \<in> set args \<and> Text ''--mirror'' \<in> set args))"
proof
  have simps: "mg_meta (with_branch_filter f m) = mg_meta m"
    "ms_source (mg_spec (with_branch_filter f m)) = ms_source (mg_spec m)"
    "ms_target (mg_spec (with_branch_filter f m)) = ms_target (mg_spec m)"
    by (simp_all add: with_branch_filter_def)
  have sync: "(case set_sync (ms_settings (mg_spec (with_branch_filter f m))) of None \<Rightarrow> False | Some c \<Rightarrow> p c)
      = (case set_sync (ms_settings (mg_spec m)) of None \<Rightarrow> False | Some c \<Rightarrow> p c)"
    if "\<And>c. p (c\<lparr>sync_branchFilter := f\<rparr>) = p c" for p
    using that by (cases "set_sync (ms_settings (mg_spec m))") (simp_all add: with_branch_filter_def)
  have same: "sync_clone ge d (with_branch_filter f m) r a s = sync_clone ge d m r a s" for d a s
    by (simp add: sync_clone_def simps)
  have refs: "sync_refs ge d (with_branch_filter f m) s = sync_refs ge d m s" for d s
    using sync [of sync_syncTags] by (simp add: sync_refs_def)
  have pushes: "sync_push ge d (with_branch_filter f m) r g x s = sync_push ge d m r g x s" for d g x s
    using sync [of sync_forcePush] by (simp add: sync_push_def simps)
  show "SyncRepository ge (with_branch_filter f m) r adoToken githubToken s
     = SyncRepository ge m r adoToken githubToken s"
    unfolding SyncRepository_def simps same refs pushes ..
  have push: "\<exists>args. last (io_trace s') = Git args \<and> Text ''push'' \<in> set args \<and> Text ''--mirror'' \<in> set args"
    if "fst (sync_push ge d m r g x s1) = Inr y" "s' = snd (sync_push ge d m r g x s1)" for d g x s1 y s'
    using that by (auto simp: sync_push_def run_git_def Let_def split: prod.splits option.splits)
  show "case fst (SyncRepository ge m r adoToken githubToken s) of Inl _ \<Rightarrow> True | Inr _ \<Rightarrow>
        (\<exists>args. last (io_trace (snd (SyncRepository ge m r adoToken githubToken s))) = Git args
           \<and> Text ''push'' \<in> set args \<and> Text ''--mirror'' \<in> set args)"
    by (auto simp: SyncRepository_def and_then_def run_git_def Let_def
        split: sum.splits prod.splits option.splits dest: push)
qed

lemma split_on_append:
  "sep \<notin> set xs \<Longrightarrow> split_on sep (xs @ sep # ys) = xs # split_on sep ys"
  by (induction xs) auto

lemma split_on_single: "sep \<notin> set xs \<Longrightarrow> split_on sep xs = [xs]"
  by (induction xs) auto

text \<open>
  C29. The owner and the repository can be read back from the URL that is built for a GitHub
  repository, as long as neither contains a slash.
\<close>

theorem github_url_roundtrip:
  assumes owner: "CHR ''/'' \<notin> set (tgt_owner t)" and repo: "CHR ''/'' \<notin> set (res_targetName r)"
  shows "extractOwnerAndRepo (buildGitHubRepoURL t r) = Inr (tgt_owner t, res_targetName r)"
proof -
  have "trim_suffix (buildGitHubRepoURL t r) ''.git''
      = ''https:'' @ CHR ''/'' # [] @ CHR ''/'' # ''github.com'' @ CHR ''/'' # tgt_owner t
        @ CHR ''/'' # res_targetName r"
    using suffixI [of "buildGitHubRepoURL t r" "''https://github.com/'' @ tgt_owner t @ ''/'' @ res_targetName r" "''.git''"]
    by (simp add: trim_suffix_def buildGitHubRepoURL_def)
  then have "split_on CHR ''/'' (trim_suffix (buildGitHubRepoURL t r) ''.git'')
      = [''https:'', [], ''github.com'', tgt_owner t, res_targetName r]"
    by (simp only: split_on_append split_on_single owner repo) (simp add: split_on_append split_on_single owner repo)
  then show ?thesis by (simp add: extractOwnerAndRepo_def Let_def)
qed

theorem github_url_roundtrip_witness:
  "extractOwnerAndRepo (buildGitHubRepoURL (zero_target\<lparr>tgt_owner := ''tesserix''\<rparr>) sample_repo)
   = Inr (''tesserix'', ''a'')"
  using github_url_roundtrip [of "zero_target\<lparr>tgt_owner := ''tesserix''\<rparr>" sample_repo]
  by (simp add: sample_repo_def)

end
