(* ===== verification/AdoStatus.thy ===== *)
theory AdoStatus
  imports RepoMigration Errors
begin

text \<open>
  \<open>internal/controller/adotogitmigration_controller.go\<close>, first part: the environment of the
  AdoToGitMigration controller, the conditions and counters in the status, and the
  comparison of the specification with the recorded resources when a migration is restarted.

  Parameters (\<open>ado_env\<close>): the API server and the clock (\<open>Kube\<close>), the git world
  (\<open>RepoMigration\<close>), and the calls to GitHub and Azure DevOps, each of which may depend on
  everything that happened before. Prometheus metrics and log messages are not modelled. An
  update is broadcast when a WebSocket manager is configured. The map of active migrations is
  only ever deleted from, and is not modelled.
\<close>

type_synonym ado_state = "ado_migration rstate"

record ado_env = "ado_migration kube" +
  ae_git :: "ado_state \<Rightarrow> git_env"
  ae_exists :: "ado_state \<Rightarrow> string \<Rightarrow> string \<Rightarrow> string \<Rightarrow> go_error + bool"
  ae_repo :: "ado_state \<Rightarrow> string \<Rightarrow> string \<Rightarrow> string \<Rightarrow> go_error + string"
  ae_empty :: "ado_state \<Rightarrow> string \<Rightarrow> string \<Rightarrow> string \<Rightarrow> go_error + bool"
  ae_create :: "ado_state \<Rightarrow> string \<Rightarrow> string \<Rightarrow> string \<Rightarrow> string \<Rightarrow> go_error + string"
  ae_set_default :: "ado_state \<Rightarrow> string \<Rightarrow> string \<Rightarrow> string \<Rightarrow> string \<Rightarrow> go_error option"
  ae_ado_branch :: "ado_state \<Rightarrow> string \<Rightarrow> string \<Rightarrow> string \<Rightarrow> string \<Rightarrow> go_error + string"
  ae_sp_token :: "ado_state \<Rightarrow> string \<Rightarrow> string \<Rightarrow> string \<Rightarrow> go_error + string"
  ae_app_cached :: "ado_state \<Rightarrow> nat \<Rightarrow> int \<Rightarrow> int \<Rightarrow> bool"
  ae_app_client :: "ado_state \<Rightarrow> int \<Rightarrow> int \<Rightarrow> string \<Rightarrow> go_error option"
  ae_app_token :: "ado_state \<Rightarrow> int \<Rightarrow> int \<Rightarrow> go_error + string"
  ae_org :: "ado_state \<Rightarrow> string \<Rightarrow> go_error + int"
  ae_probe :: "ado_state \<Rightarrow> string \<Rightarrow> string \<Rightarrow> int option \<times> go_error option \<times> bool"

section \<open>Constants\<close>

definition finalizerName :: string where
  "finalizerName = ''migration.ado-to-git-migration.io/finalizer''"
definition pauseAnnotation :: string where
  "pauseAnnotation = ''migration.ado-to-git-migration.io/pause''"
definition cancelAnnotation :: string where
  "cancelAnnotation = ''migration.ado-to-git-migration.io/cancel''"
definition reconcileTriggerAnnotation :: string where
  "reconcileTriggerAnnotation = ''migration.ado-to-git-migration.io/reconcile-trigger''"

definition ConditionTypeReady :: string where "ConditionTypeReady = ''Ready''"
definition ConditionTypeReconciling :: string where "ConditionTypeReconciling = ''Reconciling''"
definition ConditionTypeSpecChanged :: string where "ConditionTypeSpecChanged = ''SpecChanged''"
definition ConditionTypeMigrationActive :: string where "ConditionTypeMigrationActive = ''MigrationActive''"
definition ConditionTypeValidated :: string where "ConditionTypeValidated = ''Validated''"

definition ReasonNoResourceChanges :: string where "ReasonNoResourceChanges = ''NoResourceChanges''"
definition ReasonResourcesChanged :: string where "ReasonResourcesChanged = ''ResourcesChanged''"
definition ReasonValidationPassed :: string where "ReasonValidationPassed = ''ValidationPassed''"
definition ReasonValidationFailed :: string where "ReasonValidationFailed = ''ValidationFailed''"
definition ReasonMigrationRunning :: string where "ReasonMigrationRunning = ''MigrationRunning''"
definition ReasonMigrationCompleted :: string where "ReasonMigrationCompleted = ''MigrationCompleted''"
definition ReasonMigrationFailed :: string where "ReasonMigrationFailed = ''MigrationFailed''"
definition ReasonMigrationCancelled :: string where "ReasonMigrationCancelled = ''MigrationCancelled''"
definition ReasonMigrationPaused :: string where "ReasonMigrationPaused = ''MigrationPaused''"
definition ReasonAnnotationTriggered :: string where "ReasonAnnotationTriggered = ''AnnotationTriggered''"

definition pendingRequeueInterval :: duration where "pendingRequeueInterval = 5 * second"
definition runningRequeueInterval :: duration where "runningRequeueInterval = 10 * second"
definition pausedRequeueInterval :: duration where "pausedRequeueInterval = 60 * second"

definition terminal_phase :: "migration_phase \<Rightarrow> bool" where
  "terminal_phase p \<longleftrightarrow> p = PhaseCompleted \<or> p = PhaseFailed \<or> p = PhaseCancelled"

section \<open>Conditions\<close>

definition put_condition ::
  "int \<Rightarrow> instant \<Rightarrow> string \<Rightarrow> condition_status \<Rightarrow> string \<Rightarrow> string \<Rightarrow> condition list \<Rightarrow> condition list" where
  "put_condition generation now ctype status reason message conds =
     (let new = \<lparr>cond_type = ctype, cond_status = status, cond_observedGeneration = generation,
            cond_lastTransitionTime = now, cond_reason = reason, cond_message = message\<rparr> in
      case find_index (\<lambda>c. cond_type c = ctype) conds of
        None \<Rightarrow> conds @ [new]
      | Some i \<Rightarrow>
          (let c = conds ! i in
           if cond_status c \<noteq> status \<or> cond_reason c \<noteq> reason \<or> cond_message c \<noteq> message
              \<or> cond_observedGeneration c \<noteq> generation
           then conds[i := (if cond_status c = status
                            then new\<lparr>cond_lastTransitionTime := cond_lastTransitionTime c\<rparr> else new)]
           else conds))"

definition setCondition ::
  "('k) ado_env_scheme \<Rightarrow> string \<Rightarrow> condition_status \<Rightarrow> string \<Rightarrow> string \<Rightarrow> ado_state \<Rightarrow> ado_state" where
  "setCondition k ctype status reason message s =
     (case read_clock k s of (now, s) \<Rightarrow>
      modify (\<lambda>m. on_status (\<lambda>st. st\<lparr>mst_conditions :=
        put_condition (om_generation (mg_meta m)) now ctype status reason message (mst_conditions st)\<rparr>) m) s)"

definition removeCondition :: "string \<Rightarrow> ado_migration_status \<Rightarrow> ado_migration_status" where
  "removeCondition ctype st = st\<lparr>mst_conditions := filter (\<lambda>c. cond_type c \<noteq> ctype) (mst_conditions st)\<rparr>"

definition condition_of :: "ado_migration_status \<Rightarrow> string \<Rightarrow> condition option" where
  "condition_of st ctype = find (\<lambda>c. cond_type c = ctype) (mst_conditions st)"

lemma setCondition_simps [simp]:
  "stored (setCondition k t cs r msg s) = stored s"
  "calls (setCondition k t cs r msg s) = calls s"
  "effects (setCondition k t cs r msg s) = effects s"
  "mg_spec (obj (setCondition k t cs r msg s)) = mg_spec (obj s)"
  "mg_meta (obj (setCondition k t cs r msg s)) = mg_meta (obj s)"
  "mst_phase (mg_status (obj (setCondition k t cs r msg s))) = mst_phase (mg_status (obj s))"
  "mst_progress (mg_status (obj (setCondition k t cs r msg s))) = mst_progress (mg_status (obj s))"
  "mst_startTime (mg_status (obj (setCondition k t cs r msg s))) = mst_startTime (mg_status (obj s))"
  "mst_statistics (mg_status (obj (setCondition k t cs r msg s))) = mst_statistics (mg_status (obj s))"
  "mst_resourceStatuses (mg_status (obj (setCondition k t cs r msg s)))
   = mst_resourceStatuses (mg_status (obj s))"
  "mst_observedGeneration (mg_status (obj (setCondition k t cs r msg s)))
   = mst_observedGeneration (mg_status (obj s))"
  by (simp_all add: setCondition_def read_clock_def)

section \<open>Counters\<close>

definition updateProgressPercentage :: "migration_progress \<Rightarrow> migration_progress" where
  "updateProgressPercentage p =
     (if pr_total p > 0
      then p\<lparr>pr_percentage := go_div ((pr_completed p + pr_failed p) * 100) (pr_total p)\<rparr>
      else p)"

definition updateStatistics ::
  "go_error option \<Rightarrow> migration_resource \<Rightarrow> ado_migration_status \<Rightarrow> ado_migration_status" where
  "updateStatistics processingErr resource st =
     (let stats = (case mst_statistics st of None \<Rightarrow> zero_statistics | Some x \<Rightarrow> x) in
      st\<lparr>mst_statistics := Some (if processingErr = None \<and> res_type resource = ''repository''
           then stats\<lparr>st_repositoriesCreated := st_repositoriesCreated stats + 1\<rparr> else stats)\<rparr>)"

definition checkResourceStatus :: "ado_migration \<Rightarrow> migration_resource \<Rightarrow> nat option \<times> bool" where
  "checkResourceStatus m resource =
     (case find_index (\<lambda>st. rs_sourceName st = res_sourceName resource) (mst_resourceStatuses (mg_status m)) of
        Some j \<Rightarrow>
          (let st = mst_resourceStatuses (mg_status m) ! j in
           if rs_status st = StatusCompleted \<or> rs_status st = StatusFailed then (Some j, True)
           else (Some j, False))
      | None \<Rightarrow> (None, False))"

definition updateObservedGeneration :: "ado_env \<Rightarrow> ado_state \<Rightarrow> ado_state" where
  "updateObservedGeneration k s =
     (if mst_observedGeneration (mg_status (obj s)) \<noteq> om_generation (mg_meta (obj s))
      then case read_clock k s of (now, s) \<Rightarrow>
        modify (\<lambda>m. on_status (\<lambda>st. st\<lparr>mst_observedGeneration := om_generation (mg_meta m),
          mst_lastReconcileTime := Some now\<rparr>) m) s
      else s)"

section \<open>What changed in the specification\<close>

text \<open>The map from resource IDs to statuses keeps the last status of an ID.\<close>

definition existing_status :: "ado_migration \<Rightarrow> string \<Rightarrow> resource_migration_status option" where
  "existing_status m rid = find (\<lambda>st. rs_resourceID st = rid) (rev (mst_resourceStatuses (mg_status m)))"

definition is_modified :: "ado_migration \<Rightarrow> migration_resource \<Rightarrow> bool" where
  "is_modified m r = (case existing_status m (res_sourceID r) of
     None \<Rightarrow> False
   | Some st \<Rightarrow> rs_targetName st \<noteq> res_targetName r \<or> rs_sourceName st \<noteq> res_sourceName r
             \<or> rs_type st \<noteq> res_type r)"

definition newResources :: "ado_migration \<Rightarrow> migration_resource list" where
  "newResources m = filter (\<lambda>r. existing_status m (res_sourceID r) = None) (ms_resources (mg_spec m))"

definition modifiedResources :: "ado_migration \<Rightarrow> migration_resource list" where
  "modifiedResources m = filter (is_modified m) (ms_resources (mg_spec m))"

definition removedResourceIDs :: "ado_migration \<Rightarrow> string list" where
  "removedResourceIDs m = filter (\<lambda>rid. rid \<notin> set (map res_sourceID (ms_resources (mg_spec m))))
     (remdups (map rs_resourceID (mst_resourceStatuses (mg_status m))))"

definition uncount :: "resource_status \<Rightarrow> migration_progress \<Rightarrow> migration_progress" where
  "uncount oldStatus p =
     (if oldStatus = StatusCompleted then p\<lparr>pr_completed := pr_completed p - 1\<rparr>
      else if oldStatus = StatusFailed then p\<lparr>pr_failed := pr_failed p - 1\<rparr>
      else p)"

definition skip_removed :: "string \<Rightarrow> ado_migration_status \<Rightarrow> ado_migration_status" where
  "skip_removed rid st =
     (case find_index (\<lambda>x. rs_resourceID x = rid) (mst_resourceStatuses st) of
        None \<Rightarrow> st
      | Some i \<Rightarrow>
          (let old = mst_resourceStatuses st ! i; p = uncount (rs_status old) (mst_progress st) in
           st\<lparr>mst_resourceStatuses := (mst_resourceStatuses st)[i := old\<lparr>rs_status := StatusSkipped,
                rs_errorMessage := ''Resource removed from spec''\<rparr>],
              mst_progress := p\<lparr>pr_skipped := pr_skipped p + 1\<rparr>\<rparr>))"

definition reset_modified :: "migration_resource \<Rightarrow> ado_migration_status \<Rightarrow> ado_migration_status" where
  "reset_modified r st =
     (case find_index (\<lambda>x. rs_resourceID x = res_sourceID r) (mst_resourceStatuses st) of
        None \<Rightarrow> st
      | Some i \<Rightarrow>
          (let old = mst_resourceStatuses st ! i in
           st\<lparr>mst_resourceStatuses := (mst_resourceStatuses st)[i := old\<lparr>rs_status := StatusPending,
                rs_targetName := res_targetName r, rs_sourceName := res_sourceName r,
                rs_type := res_type r, rs_progress := 0,
                rs_errorMessage := ''Resource modified - queued for re-migration'',
                rs_gitHubURL := [], rs_repositoryURL := []\<rparr>],
              mst_progress := uncount (rs_status old) (mst_progress st)\<rparr>))"

definition pending_status :: "migration_resource \<Rightarrow> resource_migration_status" where
  "pending_status r = zero_resource_status\<lparr>rs_resourceID := res_sourceID r, rs_type := res_type r,
     rs_sourceName := res_sourceName r, rs_targetName := res_targetName r,
     rs_status := StatusPending, rs_progress := 0\<rparr>"

text \<open>All changes to the statuses and counters, in the order of the code.\<close>

definition apply_changes :: "ado_migration \<Rightarrow> ado_migration_status \<Rightarrow> ado_migration_status" where
  "apply_changes m st =
     (let st = fold skip_removed (removedResourceIDs m) st;
          st = fold reset_modified (modifiedResources m) st;
          st = st\<lparr>mst_progress := (mst_progress st)\<lparr>pr_total := int (length (ms_resources (mg_spec m)))\<rparr>\<rparr>;
          st = st\<lparr>mst_resourceStatuses := mst_resourceStatuses st @ map pending_status (newResources m)\<rparr>
      in st\<lparr>mst_progress := updateProgressPercentage (mst_progress st)\<rparr>)"

section \<open>The counters count the statuses\<close>

abbreviation count_status :: "resource_status \<Rightarrow> ado_migration_status \<Rightarrow> int" where
  "count_status q st \<equiv> int (count_if (\<lambda>x. rs_status x = q) (mst_resourceStatuses st))"

definition tally_ok :: "ado_migration_status \<Rightarrow> bool" where
  "tally_ok st \<longleftrightarrow> pr_completed (mst_progress st) = count_status StatusCompleted st
     \<and> pr_failed (mst_progress st) = count_status StatusFailed st"

lemma tally_update:
  assumes i: "i < length (mst_resourceStatuses st)" and tally: "tally_ok st"
    and new: "mst_resourceStatuses st' = (mst_resourceStatuses st)[i := x]"
    and old: "old = rs_status (mst_resourceStatuses st ! i)"
    and counts: "pr_completed (mst_progress st') = pr_completed (mst_progress st)
        + (if rs_status x = StatusCompleted then 1 else 0) - (if old = StatusCompleted then 1 else 0)"
      "pr_failed (mst_progress st') = pr_failed (mst_progress st)
        + (if rs_status x = StatusFailed then 1 else 0) - (if old = StatusFailed then 1 else 0)"
  shows "tally_ok st'"
  using count_if_update [OF i, of "\<lambda>x. rs_status x = StatusCompleted" x]
    count_if_update [OF i, of "\<lambda>x. rs_status x = StatusFailed" x] tally counts
  unfolding tally_ok_def new old by (auto split: if_splits)

lemma uncount_simps [simp]:
  "pr_completed (uncount q p) = pr_completed p - (if q = StatusCompleted then 1 else 0)"
  "pr_failed (uncount q p) = pr_failed p - (if q = StatusFailed then 1 else 0)"
  "pr_total (uncount q p) = pr_total p" "pr_skipped (uncount q p) = pr_skipped p"
  by (simp_all add: uncount_def)

lemma skip_removed_tally: "tally_ok st \<Longrightarrow> tally_ok (skip_removed rid st)"
  by (auto simp: skip_removed_def Let_def dest!: find_index_Some split: option.splits
      intro!: tally_update [of _ st])

lemma reset_modified_tally: "tally_ok st \<Longrightarrow> tally_ok (reset_modified r st)"
  by (auto simp: reset_modified_def Let_def dest!: find_index_Some split: option.splits
      intro!: tally_update [of _ st])

lemma updateProgressPercentage_simps [simp]:
  "pr_completed (updateProgressPercentage p) = pr_completed p"
  "pr_failed (updateProgressPercentage p) = pr_failed p"
  "pr_total (updateProgressPercentage p) = pr_total p"
  "pr_skipped (updateProgressPercentage p) = pr_skipped p"
  by (simp_all add: updateProgressPercentage_def)

lemma fold_keeps: "P s \<Longrightarrow> (\<And>x s. P s \<Longrightarrow> P (f x s)) \<Longrightarrow> P (fold f xs s)"
  by (induction xs arbitrary: s) auto

lemma pending_status_simps [simp]:
  "rs_status (pending_status r) = StatusPending" "rs_resourceID (pending_status r) = res_sourceID r"
  "rs_sourceName (pending_status r) = res_sourceName r" "rs_targetName (pending_status r) = res_targetName r"
  "rs_type (pending_status r) = res_type r"
  by (simp_all add: pending_status_def)

lemma apply_changes_tally: "tally_ok st \<Longrightarrow> tally_ok (apply_changes m st)"
proof -
  assume "tally_ok st"
  then have "tally_ok (fold skip_removed (removedResourceIDs m) st)"
    by (rule fold_keeps) (rule skip_removed_tally)
  then have "tally_ok (fold reset_modified (modifiedResources m) (fold skip_removed (removedResourceIDs m) st))"
    by (rule fold_keeps) (rule reset_modified_tally)
  then show ?thesis by (simp add: apply_changes_def tally_ok_def Let_def filter_map comp_def)
qed

lemma skip_removed_frame [simp]:
  "mst_phase (skip_removed rid st) = mst_phase st" "mst_startTime (skip_removed rid st) = mst_startTime st"
  "mst_statistics (skip_removed rid st) = mst_statistics st"
  "length (mst_resourceStatuses (skip_removed rid st)) = length (mst_resourceStatuses st)"
  by (simp_all add: skip_removed_def Let_def split: option.splits)

lemma reset_modified_frame [simp]:
  "mst_phase (reset_modified r st) = mst_phase st" "mst_startTime (reset_modified r st) = mst_startTime st"
  "mst_statistics (reset_modified r st) = mst_statistics st"
  "length (mst_resourceStatuses (reset_modified r st)) = length (mst_resourceStatuses st)"
  by (simp_all add: reset_modified_def Let_def split: option.splits)

lemma fold_frame: "(\<And>x s. g (f x s) = g s) \<Longrightarrow> g (fold f xs s) = g s"
  by (induction xs arbitrary: s) auto

lemma apply_changes_frame [simp]:
  "mst_phase (apply_changes m st) = mst_phase st" "mst_startTime (apply_changes m st) = mst_startTime st"
  "mst_statistics (apply_changes m st) = mst_statistics st"
  by (simp_all add: apply_changes_def Let_def fold_frame [of mst_phase] fold_frame [of mst_startTime]
      fold_frame [of mst_statistics])

lemma find_append: "find P (xs @ ys) = (case find P xs of None \<Rightarrow> find P ys | Some x \<Rightarrow> Some x)"
  by (induction xs) auto

section \<open>Conditions as a store\<close>

lemma find_key_update:
  assumes "find_index (\<lambda>c. key c = t) xs = Some i" and "key x = t"
  shows "find (\<lambda>c. key c = a) (xs[i := x]) = (if a = t then Some x else find (\<lambda>c. key c = a) xs)"
  using assms
proof (induction xs arbitrary: i)
  case (Cons c xs)
  then show ?case by (cases i) (auto split: if_splits)
qed simp

text \<open>
  After \<open>setCondition\<close> the condition of the given type says what was set, for the current
  generation; the conditions of other types are as before, and its transition time changes
  only when its status does.
\<close>

lemma setCondition_sets:
  "(case condition_of (mg_status (obj (setCondition k t cs r msg s))) t of None \<Rightarrow> False | Some c \<Rightarrow>
      cond_status c = cs \<and> cond_reason c = r \<and> cond_message c = msg
      \<and> cond_observedGeneration c = om_generation (mg_meta (obj s))
      \<and> (case condition_of (mg_status (obj s)) t of
           Some old \<Rightarrow> if cond_status old = cs
                       then cond_lastTransitionTime c = cond_lastTransitionTime old
                       else cond_lastTransitionTime c = k_clock k (ticks s)
         | None \<Rightarrow> cond_lastTransitionTime c = k_clock k (ticks s)))
   \<and> (t' \<noteq> t \<longrightarrow> condition_of (mg_status (obj (setCondition k t cs r msg s))) t'
        = condition_of (mg_status (obj s)) t')"
proof (cases "find_index (\<lambda>c. cond_type c = t) (mst_conditions (mg_status (obj s)))")
  case None
  then have "find (\<lambda>c. cond_type c = t) (mst_conditions (mg_status (obj s))) = None"
    by (simp add: find_index_find)
  with None show ?thesis
    by (auto simp: setCondition_def read_clock_def put_condition_def condition_of_def Let_def find_append
        split: option.splits)
next
  case (Some i)
  then have "find (\<lambda>c. cond_type c = t) (mst_conditions (mg_status (obj s)))
      = Some (mst_conditions (mg_status (obj s)) ! i)" by (simp add: find_index_find)
  with Some show ?thesis
    by (auto simp: setCondition_def read_clock_def put_condition_def condition_of_def Let_def
        find_key_update [OF Some])
qed

end
