(* ===== verification/AdoAuth.thy ===== *)
theory AdoAuth
  imports AdoStatus
begin

text \<open>
  \<open>internal/controller/adotogitmigration_controller.go\<close>, second part: which secrets and which
  authentication method the controller uses for GitHub and Azure DevOps
  (\<open>getSecretValue\<close>, \<open>getGitHubToken\<close>, \<open>getGitHubClient\<close>, \<open>getGitHubTokenUnified\<close>,
  \<open>getAzureDevOpsToken\<close> and what they call). They only read; the secrets of the cluster are
  the parameter \<open>k_secret\<close>, the tokens that GitHub and Azure issue are parameters too. A
  GitHub client is represented by nothing: what the code does with it is a parameter
  where it is used.
\<close>

section \<open>Secrets\<close>

definition in_namespace :: "string \<Rightarrow> secret_ref \<Rightarrow> string" where
  "in_namespace defaultNamespace ref = (if sr_namespace ref \<noteq> [] then sr_namespace ref else defaultNamespace)"

text \<open>Fetch a secret and take a key from it, with the two error texts of the caller.\<close>

definition secret_key ::
  "('o, 'k) kube_scheme \<Rightarrow> string \<Rightarrow> string \<Rightarrow> string \<Rightarrow> string \<Rightarrow> string \<Rightarrow> go_error + string" where
  "secret_key k namespace secret key get_failed key_missing = (case k_secret k namespace secret of
     Inl err \<Rightarrow> Inl (wrap_err get_failed err)
   | Inr entries \<Rightarrow> (case entries key of None \<Rightarrow> Inl (PlainError key_missing) | Some v \<Rightarrow> Inr v))"

definition ado_getSecretValue :: "ado_env \<Rightarrow> string \<Rightarrow> secret_ref option \<Rightarrow> go_error + string" where
  "ado_getSecretValue k defaultNamespace ref = (case ref of
     None \<Rightarrow> Inl (PlainError ''secret reference is nil'')
   | Some ref \<Rightarrow>
       (let secretNamespace = in_namespace defaultNamespace ref in
        secret_key k secretNamespace (sr_name ref) (sr_key ref)
          (''failed to get secret '' @ sr_name ref @ '' in namespace '' @ secretNamespace)
          (''key '' @ sr_key ref @ '' not found in secret '' @ sr_name ref)))"

section \<open>GitHub\<close>

definition ado_getGitHubToken :: "ado_env \<Rightarrow> ado_migration \<Rightarrow> go_error + string" where
  "ado_getGitHubToken k m =
     (let auth = tgt_auth (ms_target (mg_spec m)) in
      if gh_appAuth auth \<noteq> None
      then Inl (PlainError ''use getGitHubClient for GitHub App authentication'')
      else (case gh_tokenRef auth of
        None \<Rightarrow> Inl (PlainError ''no GitHub authentication configured'')
      | Some ref \<Rightarrow>
          (let secretNamespace = in_namespace (om_namespace (mg_meta m)) ref in
           secret_key k secretNamespace (sr_name ref) (sr_key ref)
             (''failed to get secret '' @ sr_name ref @ '' in namespace '' @ secretNamespace)
             (''key '' @ sr_key ref @ '' not found in secret '' @ sr_name ref))))"

text \<open>
  \<open>strconv.ParseInt(s, 10, 64)\<close>: an optional sign and decimal digits, in the range of
  \<open>int64\<close>. The quoting of unusual characters in the error text is not modelled.
\<close>

definition digit_value :: "char \<Rightarrow> int" where
  "digit_value c = of_char c - 48"

definition decimal_value :: "string \<Rightarrow> int" where
  "decimal_value s = foldl (\<lambda>n c. 10 * n + digit_value c) 0 s"

definition parse_int64 :: "string \<Rightarrow> go_error + int" where
  "parse_int64 s =
     (let neg = (s \<noteq> [] \<and> hd s = CHR ''-'');
          ds = (if s \<noteq> [] \<and> (hd s = CHR ''-'' \<or> hd s = CHR ''+'') then tl s else s);
          n = (if neg then - decimal_value ds else decimal_value ds);
          failed = (\<lambda>m. PlainError (''strconv.ParseInt: parsing '' @ [CHR 0x22] @ s @ [CHR 0x22] @ '': '' @ m))
      in if ds = [] \<or> \<not> list_all is_digit ds then Inl (failed ''invalid syntax'')
         else if \<not> in_int64 n then Inl (failed ''value out of range'')
         else Inr n)"

text \<open>
  \<open>fmt.Sscanf(s, "%d", &n)\<close> into an \<open>int64\<close>: spaces but not newlines, a sign, digits; what follows is
  ignored. The text of the error is a parameter.
\<close>

definition sscanf_int64 :: "(string \<Rightarrow> go_error) \<Rightarrow> string \<Rightarrow> go_error + int" where
  "sscanf_int64 failed s =
     (let t = dropWhile (\<lambda>c. is_space c \<and> c \<noteq> newline) s;
          sign = takeWhile (\<lambda>c. c = CHR ''-'' \<or> c = CHR ''+'') (take 1 t);
          ds = takeWhile is_digit (drop (length sign) t)
      in case (if ds = [] then Inl (PlainError []) else parse_int64 (sign @ ds)) of
           Inl _ \<Rightarrow> Inl (failed s)
         | Inr n \<Rightarrow> Inr n)"

definition parse_id :: "string \<Rightarrow> string \<Rightarrow> go_error + int" where
  "parse_id what s = map_sum (wrap_err (''invalid GitHub '' @ what @ '' '' @ [CHR 0x27] @ s @ [CHR 0x27])) id
     (parse_int64 s)"

definition sum_bind :: "'e + 'a \<Rightarrow> ('a \<Rightarrow> 'e + 'b) \<Rightarrow> 'e + 'b" where
  "sum_bind r f = (case r of Inl e \<Rightarrow> Inl e | Inr x \<Rightarrow> f x)"

lemma sum_bind_simps [simp]: "sum_bind (Inl e) f = Inl e" "sum_bind (Inr x) f = f x"
  by (simp_all add: sum_bind_def)

definition app_secret :: "ado_env \<Rightarrow> ado_migration \<Rightarrow> string \<Rightarrow> secret_ref \<Rightarrow> go_error + string" where
  "app_secret k m what ref = map_sum (wrap_err (''failed to get GitHub '' @ what)) id
     (ado_getSecretValue k (om_namespace (mg_meta m)) (Some ref))"

definition getGitHubClient :: "ado_env \<Rightarrow> ado_migration \<Rightarrow> ado_state \<Rightarrow> go_error + unit" where
  "getGitHubClient k m s =
     (let auth = tgt_auth (ms_target (mg_spec m));
          authMethodCount = (if gh_tokenRef auth \<noteq> None then 1 else 0 :: nat)
            + (if gh_appAuth auth \<noteq> None then 1 else 0) + (if gh_token auth \<noteq> [] then 1 else 0)
      in
      if authMethodCount > 1
      then Inl (PlainError ''multiple GitHub authentication methods specified - please use only one (token, tokenRef, or appAuth)'')
      else if authMethodCount = 0
      then Inl (PlainError ''no GitHub authentication method configured (token, tokenRef, or appAuth required)'')
      else if gh_token auth \<noteq> [] then Inr ()
      else (case gh_appAuth auth of
        Some app \<Rightarrow>
          sum_bind (app_secret k m ''App ID'' (app_appIdRef app)) (\<lambda>appIDStr.
          sum_bind (app_secret k m ''Installation ID'' (app_installationIdRef app)) (\<lambda>installationIDStr.
          sum_bind (app_secret k m ''App private key'' (app_privateKeyRef app)) (\<lambda>privateKey.
          sum_bind (parse_id ''App ID'' appIDStr) (\<lambda>appID.
          sum_bind (parse_id ''Installation ID'' installationIDStr) (\<lambda>installationID.
          (case ae_app_client k s appID installationID privateKey of
             Some err \<Rightarrow> Inl (wrap_err ''failed to create GitHub App client'' err)
           | None \<Rightarrow> Inr ()))))))
      | None \<Rightarrow> (case gh_tokenRef auth of
          Some ref \<Rightarrow> (case ado_getSecretValue k (om_namespace (mg_meta m)) (Some ref) of
              Inl err \<Rightarrow> Inl (wrap_err ''failed to get GitHub PAT'' err)
            | Inr token \<Rightarrow> Inr ())
        | None \<Rightarrow> Inl (PlainError ''no GitHub authentication method configured''))))"

definition app_token_from_cache :: "ado_env \<Rightarrow> ado_migration \<Rightarrow> int \<Rightarrow> int \<Rightarrow> ado_state \<Rightarrow> go_error + string" where
  "app_token_from_cache k m appID installationID s =
     (let token = map_sum (wrap_err ''failed to get token from GitHub App'') id (ae_app_token k s appID installationID) in
      if ae_app_cached k s 0 appID installationID then token
      else (case getGitHubClient k m s of
        Inl err \<Rightarrow> Inl (wrap_err ''failed to initialize GitHub App client'' err)
      | Inr _ \<Rightarrow>
          if ae_app_cached k s 1 appID installationID then token
          else Inl (PlainError ''failed to retrieve GitHub App client from cache'')))"

definition getGitHubTokenUnified :: "ado_env \<Rightarrow> ado_migration \<Rightarrow> ado_state \<Rightarrow> go_error + string" where
  "getGitHubTokenUnified k m s =
     (let auth = tgt_auth (ms_target (mg_spec m)) in
      if gh_tokenRef auth \<noteq> None \<and> gh_appAuth auth \<noteq> None
      then Inl (PlainError ''both tokenRef and appAuth are specified - please use only one authentication method'')
      else if gh_tokenRef auth = None \<and> gh_appAuth auth = None
      then Inl (PlainError ''no GitHub authentication method configured (tokenRef or appAuth required)'')
      else (case gh_appAuth auth of
        Some app \<Rightarrow>
          sum_bind (app_secret k m ''App ID'' (app_appIdRef app)) (\<lambda>appIDStr.
          sum_bind (app_secret k m ''Installation ID'' (app_installationIdRef app)) (\<lambda>installationIDStr.
          sum_bind (parse_id ''App ID'' appIDStr) (\<lambda>appID.
          sum_bind (parse_id ''Installation ID'' installationIDStr) (\<lambda>installationID.
          app_token_from_cache k m appID installationID s))))
      | None \<Rightarrow> ado_getGitHubToken k m))"

section \<open>Azure DevOps\<close>

definition getAzureDevOpsPATToken :: "ado_env \<Rightarrow> ado_migration \<Rightarrow> pat_config \<Rightarrow> go_error + string" where
  "getAzureDevOpsPATToken k m pat =
     (let ref = pat_tokenRef pat; secretNamespace = in_namespace (om_namespace (mg_meta m)) ref in
      secret_key k secretNamespace (sr_name ref) (sr_key ref)
        (''failed to get Azure DevOps PAT secret '' @ sr_name ref @ '' in namespace '' @ secretNamespace)
        (''key '' @ sr_key ref @ '' not found in Azure DevOps PAT secret '' @ sr_name ref))"

definition sp_secret :: "ado_env \<Rightarrow> ado_migration \<Rightarrow> string \<Rightarrow> secret_ref \<Rightarrow> go_error + string" where
  "sp_secret k m what ref =
     (let secretNamespace = in_namespace (om_namespace (mg_meta m)) ref in
      secret_key k secretNamespace (sr_name ref) (sr_key ref)
        (''failed to get Service Principal '' @ what @ '' secret '' @ sr_name ref @ '' in namespace '' @ secretNamespace)
        (''key '' @ sr_key ref @ '' not found in Service Principal '' @ what @ '' secret '' @ sr_name ref))"

definition getAzureDevOpsServicePrincipalToken ::
  "ado_env \<Rightarrow> ado_migration \<Rightarrow> service_principal_config \<Rightarrow> ado_state \<Rightarrow> go_error + string" where
  "getAzureDevOpsServicePrincipalToken k m sp s =
     sum_bind (sp_secret k m ''Client ID'' (sp_clientIDRef sp)) (\<lambda>clientID.
     sum_bind (sp_secret k m ''Client Secret'' (sp_clientSecretRef sp)) (\<lambda>clientSecret.
     sum_bind (sp_secret k m ''Tenant ID'' (sp_tenantIDRef sp)) (\<lambda>tenantID.
     map_sum (wrap_err ''failed to get Azure DevOps token from Service Principal'') id
       (ae_sp_token k s clientID clientSecret tenantID))))"

definition ado_getAzureDevOpsToken :: "ado_env \<Rightarrow> ado_migration \<Rightarrow> ado_state \<Rightarrow> go_error + string" where
  "ado_getAzureDevOpsToken k m s =
     (let auth = src_auth (ms_source (mg_spec m)) in
      case ado_pat auth of
        Some pat \<Rightarrow> getAzureDevOpsPATToken k m pat
      | None \<Rightarrow> (case ado_servicePrincipal auth of
          Some sp \<Rightarrow> getAzureDevOpsServicePrincipalToken k m sp s
        | None \<Rightarrow> Inl (PlainError ''no Azure DevOps authentication configured (PAT or Service Principal required)'')))"

section \<open>Properties\<close>

definition auth_methods :: "github_auth_config \<Rightarrow> bool \<times> bool \<times> bool" where
  "auth_methods auth = (gh_tokenRef auth \<noteq> None, gh_appAuth auth \<noteq> None, gh_token auth \<noteq> [])"

text \<open>
  A GitHub client is only made when exactly one authentication method is configured. With
  a token secret the token used for running exists then, and is the secret's value; with
  an inline token the client is made, but running never gets a token.
\<close>

theorem client_and_token_agree:
  assumes client: "getGitHubClient k m s = Inr ()"
  shows "auth_methods (tgt_auth (ms_target (mg_spec m))) \<in> {(True, False, False), (False, True, False), (False, False, True)}
    \<and> (\<forall>ref. gh_tokenRef (tgt_auth (ms_target (mg_spec m))) = Some ref \<longrightarrow>
         (\<exists>v. getGitHubTokenUnified k m s = Inr v
            \<and> ado_getSecretValue k (om_namespace (mg_meta m)) (Some ref) = Inr v))
    \<and> (gh_token (tgt_auth (ms_target (mg_spec m))) \<noteq> [] \<longrightarrow> (\<exists>e. getGitHubTokenUnified k m s = Inl e))"
proof -
  let ?auth = "tgt_auth (ms_target (mg_spec m))"
  have "auth_methods ?auth \<in> {(True, False, False), (False, True, False), (False, False, True)}"
    using client
    by (auto simp: getGitHubClient_def auth_methods_def Let_def split: if_splits)
  moreover from this client have "\<exists>v. getGitHubTokenUnified k m s = Inr v
      \<and> ado_getSecretValue k (om_namespace (mg_meta m)) (Some ref) = Inr v" if "gh_tokenRef ?auth = Some ref" for ref
    using that
    by (auto simp: getGitHubClient_def getGitHubTokenUnified_def ado_getGitHubToken_def ado_getSecretValue_def
        auth_methods_def Let_def split: sum.splits)
  moreover from calculation(1) have "\<exists>e. getGitHubTokenUnified k m s = Inl e" if "gh_token ?auth \<noteq> []"
    using that by (auto simp: getGitHubTokenUnified_def auth_methods_def Let_def)
  ultimately show ?thesis by blast
qed

definition sample_ado :: ado_env where
  "sample_ado = \<lparr>k_clock = (\<lambda>n. int n), k_status = (\<lambda>n x. None), k_update = (\<lambda>n old x. Inr (x\<lparr>mg_status := mg_status old\<rparr>)),
     k_secret = (\<lambda>ns n. Inr (Map.empty(''token'' \<mapsto> ''secret'', ''id'' \<mapsto> ''42''))),
     ae_git = (\<lambda>s. sample_git), ae_exists = (\<lambda>s t ow n. Inr False), ae_repo = (\<lambda>s t ow n. Inr ''https://github.com/o/r''),
     ae_empty = (\<lambda>s t ow n. Inr True), ae_create = (\<lambda>s t ow n v. Inr ''https://github.com/o/r''),
     ae_set_default = (\<lambda>s t ow n b. None), ae_ado_branch = (\<lambda>s t ow p n. Inr ''main''),
     ae_sp_token = (\<lambda>s c d t. Inr ''sp''), ae_app_cached = (\<lambda>s n i j. True),
     ae_app_client = (\<lambda>s i j key. None), ae_app_token = (\<lambda>s i j. Inr ''app''),
     ae_org = (\<lambda>s ow. Inr 5000), ae_probe = (\<lambda>s ow n. (Some 404, Some (PlainError ''404''), False))\<rparr>"

definition with_auth :: "github_auth_config \<Rightarrow> ado_migration \<Rightarrow> ado_migration" where
  "with_auth auth m = m\<lparr>mg_spec := (mg_spec m)\<lparr>ms_target := (ms_target (mg_spec m))\<lparr>tgt_auth := auth\<rparr>\<rparr>\<rparr>"

definition inline_token :: github_auth_config where
  "inline_token = \<lparr>gh_tokenRef = None, gh_appAuth = None, gh_token = ''gho_x''\<rparr>"

definition secret_token :: github_auth_config where
  "secret_token = \<lparr>gh_tokenRef = Some \<lparr>sr_name = ''github'', sr_key = ''token'', sr_namespace = []\<rparr>,
     gh_appAuth = None, gh_token = []\<rparr>"

definition id_ref :: secret_ref where
  "id_ref = \<lparr>sr_name = ''app'', sr_key = ''id'', sr_namespace = []\<rparr>"

definition app_auth :: github_auth_config where
  "app_auth = \<lparr>gh_tokenRef = None, gh_appAuth = Some \<lparr>app_appIdRef = id_ref,
     app_installationIdRef = id_ref, app_privateKeyRef = id_ref\<rparr>, gh_token = []\<rparr>"

theorem client_and_token_agree_witness:
  "\<exists>e. getGitHubTokenUnified sample_ado (with_auth inline_token zero_migration) (fetched zero_migration) = Inl e"
  using client_and_token_agree [of sample_ado "with_auth inline_token zero_migration" "fetched zero_migration"]
  by (simp add: getGitHubClient_def with_auth_def inline_token_def Let_def)

text \<open>
  With GitHub App authentication \<open>getGitHubToken\<close>, which the synchronisation uses, always
  fails, whatever the secrets hold; \<open>getGitHubTokenUnified\<close> succeeds as soon as the App's
  identifiers are readable numbers, its client is cached and GitHub issues a token.
\<close>

lemma app_auth_has_no_pat:
  assumes "gh_appAuth (tgt_auth (ms_target (mg_spec m))) = Some app"
    and "gh_tokenRef (tgt_auth (ms_target (mg_spec m))) = None"
    and "app_secret k m ''App ID'' (app_appIdRef app) = Inr a" and "parse_int64 a = Inr i"
    and "app_secret k m ''Installation ID'' (app_installationIdRef app) = Inr b" and "parse_int64 b = Inr j"
    and "ae_app_cached k s 0 i j" and "ae_app_token k s i j = Inr tok"
  shows "(\<exists>e. ado_getGitHubToken k m = Inl e) \<and> getGitHubTokenUnified k m s = Inr tok"
  using assms by (simp add: ado_getGitHubToken_def getGitHubTokenUnified_def parse_id_def
      app_token_from_cache_def Let_def)

end
