(* ===== verification/AdoController.thy ===== *)
theory AdoController
  imports AdoAuth
begin

text \<open>
  \<open>internal/controller/adotogitmigration_controller.go\<close>, third part: the handlers of the
  AdoToGitMigration controller. Finalizer and deletion, annotations (reconcile-trigger,
  pause, cancel), restart after a change of the specification, initialisation, validation,
  running (one resource per reconciliation), completion and continuous synchronisation.

  The first component of a handler's result is \<open>None\<close> where the code dereferences a nil
  pointer (\<open>completeMigration\<close> writes to \<open>Status.Statistics\<close> without a check).
\<close>

section \<open>Starting, pausing, cancelling\<close>

definition ado_initializeStatus :: "ado_env \<Rightarrow> ado_state \<Rightarrow> outcome \<times> ado_state" where
  "ado_initializeStatus k s =
     (case read_clock k s of (now, s) \<Rightarrow>
      let s = modify (\<lambda>m. on_status (\<lambda>st. st\<lparr>mst_phase := PhasePending,
                mst_progress := zero_progress\<lparr>pr_total := int (length (ms_resources (mg_spec m)))\<rparr>,
                mst_startTime := Some now, mst_observedGeneration := om_generation (mg_meta m),
                mst_lastReconcileTime := Some now, mst_statistics := Some zero_statistics\<rparr>) m) s;
          s = emit (Broadcast ''Migration initialized'') s;
          s = emit (Event EventNormal ''Initialized'' ''Migration initialized'') s
      in update_then k (after pendingRequeueInterval) (after pendingRequeueInterval) s)"

definition pauseMigration :: "ado_env \<Rightarrow> ado_state \<Rightarrow> outcome \<times> ado_state" where
  "pauseMigration k s =
     (let s = modify (on_status (\<lambda>st. st\<lparr>mst_phase := PhasePaused,
                mst_progress := (mst_progress st)\<lparr>pr_currentStep := ''Migration paused by user''\<rparr>\<rparr>)) s;
          s = setCondition k ConditionTypeMigrationActive ConditionFalse ReasonMigrationPaused
                ''Migration paused by user'' s;
          s = emit (Broadcast ''Migration paused'') s;
          s = emit (Event EventNormal ''MigrationPaused'' ''Migration paused by user'') s
      in update_then k (after pausedRequeueInterval) (after pausedRequeueInterval) s)"

definition cancelMigration :: "ado_env \<Rightarrow> ado_state \<Rightarrow> outcome \<times> ado_state" where
  "cancelMigration k s =
     (let s = modify (on_status (\<lambda>st. st\<lparr>mst_phase := PhaseCancelled,
                mst_progress := (mst_progress st)\<lparr>pr_currentStep := ''Migration cancelled by user''\<rparr>\<rparr>)) s
      in case read_clock k s of (now, s) \<Rightarrow>
      let s = modify (on_status (\<lambda>st. st\<lparr>mst_completionTime := Some now\<rparr>)) s;
          s = setCondition k ConditionTypeReady ConditionFalse ReasonMigrationCancelled
                ''Migration cancelled by user'' s;
          s = setCondition k ConditionTypeMigrationActive ConditionFalse ReasonMigrationCancelled
                ''Migration cancelled'' s;
          s = emit (Broadcast ''Migration cancelled'') s;
          s = emit (Event EventWarning ''MigrationCancelled'' ''Migration cancelled by user'') s
      in update_then k no_requeue no_requeue s)"

section \<open>Restart after a change of the specification\<close>

abbreviation arrow :: string where
  "arrow \<equiv> [CHR 0xE2, CHR 0x86, CHR 0x92]"

definition change_counts :: "ado_migration \<Rightarrow> string" where
  "change_counts m = fmt_d (int (length (newResources m))) @ '' new, ''
     @ fmt_d (int (length (modifiedResources m))) @ '' modified, ''
     @ fmt_d (int (length (removedResourceIDs m))) @ '' removed''"

definition no_resource_changes :: "ado_migration \<Rightarrow> bool" where
  "no_resource_changes m \<longleftrightarrow>
     length (newResources m) + length (modifiedResources m) + length (removedResourceIDs m) = 0"

definition keep_resources :: "ado_env \<Rightarrow> ado_state \<Rightarrow> outcome \<times> ado_state" where
  "keep_resources k s =
     (let s = modify (\<lambda>m. on_status (\<lambda>st. st\<lparr>mst_observedGeneration := om_generation (mg_meta m)\<rparr>) m) s in
      case read_clock k s of (now, s) \<Rightarrow>
      let s = modify (on_status (\<lambda>st. st\<lparr>mst_lastReconcileTime := Some now\<rparr>)) s;
          s = setCondition k ConditionTypeSpecChanged ConditionTrue ReasonNoResourceChanges
                ''Spec updated but no resource changes detected'' s
      in update_then k no_requeue no_requeue s)"

definition restartMigrationForSpecChange :: "ado_env \<Rightarrow> ado_state \<Rightarrow> outcome \<times> ado_state" where
  "restartMigrationForSpecChange k s =
     (let m = obj s in
      if no_resource_changes m then keep_resources k s
      else
        let counts = change_counts m;
            oldTotal = pr_total (mst_progress (mg_status m));
            s = modify (on_status (apply_changes m)) s;
            s = modify (on_status (\<lambda>st. st\<lparr>mst_phase := PhaseRunning,
                  mst_progress := (mst_progress st)\<lparr>pr_currentStep := ''Processing spec changes: '' @ counts\<rparr>,
                  mst_completionTime := None, mst_observedGeneration := om_generation (mg_meta m)\<rparr>)) s
        in case read_clock k s of (now, s) \<Rightarrow>
        let s = modify (on_status (\<lambda>st. st\<lparr>mst_lastReconcileTime := Some now\<rparr>)) s;
            totals = '' (total: '' @ fmt_d oldTotal @ '' '' @ arrow @ '' ''
              @ fmt_d (pr_total (mst_progress (mg_status (obj s)))) @ '')'';
            s = setCondition k ConditionTypeSpecChanged ConditionTrue ReasonResourcesChanged
                  (''Detected '' @ counts @ '' resources'' @ totals) s;
            s = setCondition k ConditionTypeMigrationActive ConditionTrue ReasonMigrationRunning
                  ''Migration restarted due to spec changes'' s;
            s = emit (Broadcast (''Resuming migration with changes: '' @ counts @ '' resources'')) s;
            s = emit (Event EventNormal ''MigrationResumed''
                  (''Migration resumed: '' @ counts @ '' resources'' @ totals)) s
        in update_then k no_requeue (after runningRequeueInterval) s)"

section \<open>Finalizer, deletion, annotations\<close>

text \<open>
  These handlers return a result or let the reconciliation go on: \<open>None\<close> is the code's nil.
\<close>

definition on_meta :: "(object_meta \<Rightarrow> object_meta) \<Rightarrow> ado_migration \<Rightarrow> ado_migration" where
  "on_meta f m = m\<lparr>mg_meta := f (mg_meta m)\<rparr>"

definition addFinalizer :: "ado_env \<Rightarrow> ado_state \<Rightarrow> outcome \<times> ado_state" where
  "addFinalizer k s =
     (let s = modify (on_meta (\<lambda>om. om\<lparr>om_finalizers := om_finalizers om @ [finalizerName]\<rparr>)) s in
      case object_update k s of
        (Some err, s) \<Rightarrow> ((no_requeue, Some err), s)
      | (None, s) \<Rightarrow> ((requeue_now, None), s))"

definition ado_cleanup :: "ado_migration \<Rightarrow> go_error option" where
  "ado_cleanup m = None"

definition handleDeletion :: "ado_env \<Rightarrow> ado_state \<Rightarrow> outcome \<times> ado_state" where
  "handleDeletion k s =
     (case ado_cleanup (obj s) of
        Some err \<Rightarrow> ((no_requeue, Some err), s)
      | None \<Rightarrow>
          (let s = modify (on_meta (\<lambda>om. om\<lparr>om_finalizers := removeAll finalizerName (om_finalizers om)\<rparr>)) s in
           case object_update k s of
             (Some err, s) \<Rightarrow> ((no_requeue, if is_not_found err then None else Some err), s)
           | (None, s) \<Rightarrow> ((no_requeue, None), s)))"

definition handleFinalizerAndDeletion :: "ado_env \<Rightarrow> ado_state \<Rightarrow> outcome option \<times> ado_state" where
  "handleFinalizerAndDeletion k s =
     (let has_finalizer = finalizerName \<in> set (om_finalizers (mg_meta (obj s))) in
      if om_deletionTimestamp (mg_meta (obj s)) = None
      then (if \<not> has_finalizer then map_prod Some id (addFinalizer k s) else (None, s))
      else (if has_finalizer then map_prod Some id (handleDeletion k s)
            else (Some (no_requeue, None), s)))"

definition drop_annotation :: "string \<Rightarrow> ado_migration \<Rightarrow> ado_migration" where
  "drop_annotation key = on_meta (\<lambda>om. om\<lparr>om_annotations := (om_annotations om)(key := None)\<rparr>)"

definition handle_trigger :: "ado_env \<Rightarrow> string \<Rightarrow> ado_state \<Rightarrow> outcome \<times> ado_state" where
  "handle_trigger k triggerValue s =
     (let s = setCondition k ConditionTypeReconciling ConditionTrue ReasonAnnotationTriggered
                (''Reconciliation triggered by annotation at '' @ triggerValue) s;
          phase = migration_phase_name (mst_phase (mg_status (obj s)));
          terminal = terminal_phase (mst_phase (mg_status (obj s)));
          s = emit (Event EventNormal ''ReconcileTriggered''
                (if terminal
                 then ''Reconciliation triggered by annotation for '' @ phase @ '' migration''
                 else ''Reconciliation triggered by annotation for active migration in '' @ phase @ '' phase'')) s;
          s = modify (drop_annotation reconcileTriggerAnnotation) s
      in case object_update k s of
           (Some err, s) \<Rightarrow> ((no_requeue, Some err), s)
         | (None, s) \<Rightarrow>
             if terminal then restartMigrationForSpecChange k s else ((requeue_now, None), s))"

definition handleAnnotations :: "ado_env \<Rightarrow> ado_state \<Rightarrow> outcome option \<times> ado_state" where
  "handleAnnotations k s =
     (let annotations = om_annotations (mg_meta (obj s)); phase = mst_phase (mg_status (obj s)) in
      case annotations reconcileTriggerAnnotation of
        Some triggerValue \<Rightarrow> map_prod Some id (handle_trigger k triggerValue s)
      | None \<Rightarrow>
          if annotations pauseAnnotation \<noteq> None
          then (if phase \<noteq> PhasePaused then map_prod Some id (pauseMigration k s)
                else (Some (after pausedRequeueInterval, None), s))
          else if annotations cancelAnnotation \<noteq> None \<and> phase \<noteq> PhaseCancelled
          then map_prod Some id (cancelMigration k s)
          else (None, s))"

section \<open>Validation\<close>

definition ado_processPending :: "ado_env \<Rightarrow> ado_state \<Rightarrow> outcome \<times> ado_state" where
  "ado_processPending k s =
     (let s = modify (on_status (\<lambda>st. st\<lparr>mst_phase := PhaseValidating,
                mst_progress := (mst_progress st)\<lparr>pr_currentStep := ''Validating configuration''\<rparr>\<rparr>)) s;
          s = emit (Broadcast ''Starting validation'') s;
          s = emit (Event EventNormal ''ValidationStarted'' ''Migration validation started'') s
      in update_then k (after pendingRequeueInterval) (after pendingRequeueInterval) s)"

definition skipValidation :: "ado_env \<Rightarrow> ado_state \<Rightarrow> outcome \<times> ado_state" where
  "skipValidation k s =
     (let s = modify (on_status (\<lambda>st. st\<lparr>mst_phase := PhaseRunning,
                mst_progress := (mst_progress st)\<lparr>pr_currentStep := ''Starting migration (validation skipped)''\<rparr>\<rparr>)) s;
          s = emit (Broadcast ''Validation skipped, starting migration'') s;
          s = emit (Event EventNormal ''ValidationSkipped'' ''Validation skipped as requested'') s
      in update_then k (after pendingRequeueInterval) (after runningRequeueInterval) s)"

definition add_warning :: "validation_warning \<Rightarrow> validation_results \<Rightarrow> validation_results" where
  "add_warning w v = v\<lparr>val_warnings := val_warnings v @ [w]\<rparr>"

definition add_error :: "validation_error \<Rightarrow> validation_results \<Rightarrow> validation_results" where
  "add_error e v = v\<lparr>val_valid := False, val_errors := val_errors v @ [e]\<rparr>"

definition validateGitHubCredentialsWithClient ::
  "ado_env \<Rightarrow> ado_state \<Rightarrow> validation_results \<Rightarrow> validation_results" where
  "validateGitHubCredentialsWithClient k s v =
     (let owner = tgt_owner (ms_target (mg_spec (obj s))) in
      case ae_org k s owner of
        Inl err \<Rightarrow> add_error \<lparr>ve_code = ''GITHUB_ORG_ACCESS_FAILED'',
            ve_message = ''Cannot access organization '' @ [CHR 0x27] @ owner @ [CHR 0x27] @ '': '' @ err_text err,
            ve_field = ''target.owner'', ve_resource = [], ve_severity = ''error'',
            ve_resolution = ''Ensure GitHub App is installed on the organization or PAT has access''\<rparr> v
      | Inr remaining \<Rightarrow>
          if remaining < 100
          then add_warning \<lparr>vw_code = ''LOW_RATE_LIMIT'',
            vw_message = ''GitHub API rate limit is low ('' @ fmt_d remaining @ '' remaining)'',
            vw_field = ''target.auth'', vw_resource = [],
            vw_suggestion = ''Consider waiting or using a different authentication method''\<rparr> v
          else v)"

definition handleExistingRepository ::
  "ado_migration \<Rightarrow> migration_resource \<Rightarrow> validation_results \<Rightarrow> validation_results" where
  "handleExistingRepository m resource v =
     (let allowExistingRepo = True in
      if \<not> allowExistingRepo
      then add_error \<lparr>ve_code = ''REPO_EXISTS'',
          ve_message = ''Repository '' @ tgt_owner (ms_target (mg_spec m)) @ ''/'' @ res_targetName resource
            @ '' already exists and createIfNotExists is not enabled'',
          ve_field = ''resources'', ve_resource = res_sourceName resource, ve_severity = ''error'',
          ve_resolution = ''Choose a different name, enable createIfNotExists, or delete the existing repository''\<rparr> v
      else add_warning \<lparr>vw_code = ''REPO_WILL_USE_EXISTING'',
          vw_message = ''Repository '' @ tgt_owner (ms_target (mg_spec m)) @ ''/'' @ res_targetName resource
            @ '' already exists and will be used for migration'',
          vw_field = ''resources'', vw_resource = res_sourceName resource,
          vw_suggestion = ''Ensure this is intended - existing content may be overwritten''\<rparr> v)"

text \<open>\<open>ae_probe\<close> answers with the status code (if there is a response), the error, and whether a repository came back.\<close>

definition validateRepositoryWithClient ::
  "ado_env \<Rightarrow> ado_state \<Rightarrow> migration_resource \<Rightarrow> validation_results \<Rightarrow> validation_results" where
  "validateRepositoryWithClient k s resource v =
     (case ae_probe k s (tgt_owner (ms_target (mg_spec (obj s)))) (res_targetName resource) of
        (status, err, repo) \<Rightarrow>
          if status = Some 404 then v
          else (case err of
            Some e \<Rightarrow> add_warning \<lparr>vw_code = ''REPO_CHECK_FAILED'',
                vw_message = ''Could not check if repository '' @ res_targetName resource @ '' exists: '' @ err_text e,
                vw_field = ''resources'', vw_resource = res_sourceName resource,
                vw_suggestion = ''Verify repository name and permissions''\<rparr> v
          | None \<Rightarrow> if repo then handleExistingRepository (obj s) resource v else v))"

definition validateResourcesWithClient ::
  "ado_env \<Rightarrow> ado_state \<Rightarrow> validation_results \<Rightarrow> validation_results" where
  "validateResourcesWithClient k s v =
     fold (\<lambda>r v. if res_type r = ''repository'' then validateRepositoryWithClient k s r v else v)
       (ms_resources (mg_spec (obj s))) v"

definition performValidationWithClient :: "ado_env \<Rightarrow> ado_state \<Rightarrow> validation_results \<times> ado_state" where
  "performValidationWithClient k s =
     (case read_clock k s of (now, s) \<Rightarrow>
      (validateResourcesWithClient k s (validateGitHubCredentialsWithClient k s
         \<lparr>val_valid = True, val_errors = [], val_warnings = [], val_timestamp = now\<rparr>), s))"

definition failValidation :: "ado_env \<Rightarrow> ado_state \<Rightarrow> outcome \<times> ado_state" where
  "failValidation k s =
     (let s = modify (on_status (\<lambda>st. st\<lparr>mst_phase := PhaseFailed,
                mst_errorMessage := ''Validation failed - see validation results for details'',
                mst_progress := (mst_progress st)\<lparr>pr_currentStep := ''Validation failed''\<rparr>\<rparr>)) s
      in case read_clock k s of (now, s) \<Rightarrow>
      let s = modify (on_status (\<lambda>st. st\<lparr>mst_completionTime := Some now\<rparr>)) s;
          s = setCondition k ConditionTypeValidated ConditionFalse ReasonValidationFailed
                ''Validation failed - see validation results for details'' s;
          s = setCondition k ConditionTypeReady ConditionFalse ReasonValidationFailed
                ''Migration cannot proceed due to validation failures'' s;
          s = emit (Broadcast ''Validation failed'') s;
          s = emit (Event EventWarning ''ValidationFailed'' ''Migration validation failed'') s
      in update_then k no_requeue no_requeue s)"

definition passValidation :: "ado_env \<Rightarrow> ado_state \<Rightarrow> outcome \<times> ado_state" where
  "passValidation k s =
     (let s = modify (on_status (\<lambda>st. st\<lparr>mst_phase := PhaseRunning,
                mst_progress := (mst_progress st)\<lparr>pr_currentStep := ''Starting migration''\<rparr>\<rparr>)) s;
          s = setCondition k ConditionTypeValidated ConditionTrue ReasonValidationPassed
                ''All validation checks passed'' s;
          s = setCondition k ConditionTypeMigrationActive ConditionTrue ReasonMigrationRunning
                ''Migration is now running'' s;
          s = emit (Broadcast ''Validation passed, starting migration'') s;
          s = emit (Event EventNormal ''ValidationPassed'' ''Migration validation passed'') s
      in update_then k (after pendingRequeueInterval) (after runningRequeueInterval) s)"

definition handleValidationResults :: "ado_env \<Rightarrow> validation_results \<Rightarrow> ado_state \<Rightarrow> outcome \<times> ado_state" where
  "handleValidationResults k v s = (if \<not> val_valid v then failValidation k s else passValidation k s)"

definition failMigration :: "ado_env \<Rightarrow> string \<Rightarrow> ado_state \<Rightarrow> outcome \<times> ado_state" where
  "failMigration k message s =
     (let s = modify (on_status (\<lambda>st. st\<lparr>mst_phase := PhaseFailed, mst_errorMessage := message,
                mst_progress := (mst_progress st)\<lparr>pr_processing := 0, pr_currentStep := ''Migration failed''\<rparr>\<rparr>)) s
      in case read_clock k s of (now, s) \<Rightarrow>
      let s = modify (on_status (\<lambda>st. st\<lparr>mst_completionTime := Some now\<rparr>)) s;
          s = setCondition k ConditionTypeReady ConditionFalse ReasonMigrationFailed message s;
          s = setCondition k ConditionTypeMigrationActive ConditionFalse ReasonMigrationFailed ''Migration failed'' s;
          s = emit (Broadcast (''Migration failed: '' @ message)) s;
          s = emit (Event EventWarning ''MigrationFailed'' message) s
      in update_then k no_requeue no_requeue s)"

definition processValidating :: "ado_env \<Rightarrow> ado_state \<Rightarrow> outcome \<times> ado_state" where
  "processValidating k s =
     (if (case ms_validationRules (mg_spec (obj s)) of None \<Rightarrow> False | Some rules \<Rightarrow> vr_skipValidation rules)
      then skipValidation k s
      else case getGitHubClient k (obj s) s of
        Inl err \<Rightarrow> failMigration k (''Failed to get GitHub client: '' @ err_text err) s
      | Inr _ \<Rightarrow>
          (case (if gh_tokenRef (tgt_auth (ms_target (mg_spec (obj s)))) \<noteq> None
                 then ado_getGitHubToken k (obj s) else Inr []) of
             Inl err \<Rightarrow> failMigration k (''Failed to get GitHub token: '' @ err_text err) s
           | Inr token \<Rightarrow>
               (case performValidationWithClient k s of (v, s) \<Rightarrow>
                handleValidationResults k v (modify (on_status (\<lambda>st. st\<lparr>mst_validationResults := Some v\<rparr>)) s))))"

section \<open>Migrating one resource\<close>

definition createResourceStatus :: "ado_env \<Rightarrow> migration_resource \<Rightarrow> ado_state \<Rightarrow> resource_migration_status \<times> ado_state" where
  "createResourceStatus k resource s =
     (case read_clock k s of (now, s) \<Rightarrow>
      (zero_resource_status\<lparr>rs_resourceID := res_sourceID resource, rs_type := res_type resource,
         rs_sourceName := res_sourceName resource, rs_targetName := res_targetName resource,
         rs_status := StatusRunning, rs_progress := 0, rs_startTime := Some now,
         rs_name := res_sourceName resource\<rparr>, s))"

definition updateProcessingStatus :: "migration_resource \<Rightarrow> ado_state \<Rightarrow> ado_state" where
  "updateProcessingStatus resource s =
     (let step = ''Processing '' @ res_type resource @ '': '' @ res_targetName resource;
          s = modify (on_progress (\<lambda>p. p\<lparr>pr_processing := 1, pr_currentStep := step\<rparr>)) s
      in emit (Broadcast step) s)"

definition branch_info :: "ado_migration_status \<Rightarrow> default_branch_info" where
  "branch_info st = (case mst_defaultBranchInfo st of
     None \<Rightarrow> \<lparr>db_sourceDefaultBranch = [], db_targetDefaultBranch = [], db_autoDetected = False, db_detectedAt = None\<rparr>
   | Some d \<Rightarrow> d)"

definition set_branch_info :: "(default_branch_info \<Rightarrow> default_branch_info) \<Rightarrow> ado_state \<Rightarrow> ado_state" where
  "set_branch_info f = modify (on_status (\<lambda>st. st\<lparr>mst_defaultBranchInfo := Some (f (branch_info st))\<rparr>))"

text \<open>\<open>handleDefaultBranchSetup\<close> always returns nil.\<close>

definition handleDefaultBranchSetup :: "ado_env \<Rightarrow> migration_resource \<Rightarrow> ado_state \<Rightarrow> ado_state" where
  "handleDefaultBranchSetup k resource s =
     (let s = set_branch_info id s; configured = tgt_defaultBranch (ms_target (mg_spec (obj s)));
          fall_back = set_branch_info (\<lambda>d. d\<lparr>db_targetDefaultBranch := ''main'', db_autoDetected := True\<rparr>) in
      if configured \<noteq> []
      then set_branch_info (\<lambda>d. d\<lparr>db_targetDefaultBranch := configured, db_autoDetected := False\<rparr>) s
      else if db_sourceDefaultBranch (branch_info (mg_status (obj s))) = []
      then (case ado_getAzureDevOpsToken k (obj s) s of
          Inl err \<Rightarrow> fall_back s
        | Inr adoToken \<Rightarrow>
            (case ae_ado_branch k s adoToken (src_organization (ms_source (mg_spec (obj s))))
                    (src_project (ms_source (mg_spec (obj s)))) (res_sourceName resource) of
               Inl err \<Rightarrow> fall_back s
             | Inr b \<Rightarrow>
                 (case read_clock k s of (now, s) \<Rightarrow>
                  set_branch_info (\<lambda>d. d\<lparr>db_sourceDefaultBranch := b, db_targetDefaultBranch := b,
                    db_autoDetected := True, db_detectedAt := Some now\<rparr>) s)))
      else s)"

text \<open>The state of the target repository and its URL, if there is one.\<close>

definition validateRepositoryState ::
  "ado_env \<Rightarrow> migration_resource \<Rightarrow> string \<Rightarrow> ado_state \<Rightarrow> go_error + (repository_state \<times> string option)" where
  "validateRepositoryState k resource token s =
     (let owner = tgt_owner (ms_target (mg_spec (obj s))); n = res_targetName resource in
      case ae_exists k s token owner n of
        Inl err \<Rightarrow> Inl (wrap_err ''failed to check repository existence'' err)
      | Inr there \<Rightarrow>
          if \<not> there then Inr (RepoNotExists, None)
          else (case ae_repo k s token owner n of
            Inl err \<Rightarrow> Inl (wrap_err ''failed to get repository information'' err)
          | Inr url \<Rightarrow>
              (case ae_empty k s token owner n of
                Inl err \<Rightarrow> Inl (wrap_err ''failed to check if repository is empty'' err)
              | Inr isEmpty \<Rightarrow> Inr (if isEmpty then RepoEmpty else RepoNonEmpty, Some url))))"

definition new_state_info :: "string \<Rightarrow> repository_state_info" where
  "new_state_info repoName = \<lparr>ri_repositoryName = repoName, ri_state = RepoNotExists, ri_gitHubURL = [],
     ri_createdDuringMigration = False, ri_checkedAt = None, ri_details = []\<rparr>"

definition update_state_info ::
  "instant \<Rightarrow> repository_state \<Rightarrow> string option \<Rightarrow> repository_state_info \<Rightarrow> repository_state_info" where
  "update_state_info now state url info =
     (let info = info\<lparr>ri_state := state, ri_checkedAt := Some now\<rparr>;
          info = (case url of None \<Rightarrow> info | Some u \<Rightarrow> info\<lparr>ri_gitHubURL := u\<rparr>)
      in if state = RepoCreated
         then info\<lparr>ri_createdDuringMigration := True, ri_details := ''Repository created during migration''\<rparr>
         else info\<lparr>ri_createdDuringMigration := False,
                ri_details := ''Repository state: '' @ repository_state_name state\<rparr>)"

definition look_repo_state :: "ado_migration_status \<Rightarrow> string \<Rightarrow> repository_state_info option" where
  "look_repo_state st repoName = find (\<lambda>i. ri_repositoryName i = repoName) (mst_repositoryStates st)"

definition updateRepositoryStateStatus ::
  "ado_env \<Rightarrow> string \<Rightarrow> repository_state \<Rightarrow> string option \<Rightarrow> ado_state \<Rightarrow> ado_state" where
  "updateRepositoryStateStatus k repoName state url s =
     (case read_clock k s of (now, s) \<Rightarrow>
      modify (on_status (\<lambda>st.
        let info = (case look_repo_state st repoName of None \<Rightarrow> new_state_info repoName | Some i \<Rightarrow> i) in
        st\<lparr>mst_repositoryStates := replace_first (\<lambda>i. ri_repositoryName i = repoName)
             (update_state_info now state url info) (mst_repositoryStates st)\<rparr>)) s)"

definition repo_visibility :: "ado_migration \<Rightarrow> migration_resource \<Rightarrow> string" where
  "repo_visibility m resource =
     (let own = (case res_settings resource of None \<Rightarrow> []
            | Some rs \<Rightarrow> (case rset_repository rs of None \<Rightarrow> [] | Some r \<Rightarrow> rp_visibility r));
          default = (case tgt_defaultRepoSettings (ms_target (mg_spec m)) of None \<Rightarrow> [] | Some g \<Rightarrow> grs_visibility g)
      in if own \<noteq> [] then own else if default \<noteq> [] then default else ''private'')"

definition createRepository ::
  "ado_env \<Rightarrow> migration_resource \<Rightarrow> string \<Rightarrow> ado_state \<Rightarrow> (go_error + string) \<times> ado_state" where
  "createRepository k resource token s =
     (let owner = tgt_owner (ms_target (mg_spec (obj s))); visibility = repo_visibility (obj s) resource;
          result = ae_create k s token owner (res_targetName resource) visibility;
          s = emit (ApiWrite [''CreateRepository'', owner, res_targetName resource, visibility]) s in
      case result of
        Inl err \<Rightarrow> (Inl (wrap_err ''failed to create repository'' err), s)
      | Inr url \<Rightarrow> (Inr url, emit (Event EventNormal ''RepositoryCreated'' (''Created repository '' @ res_targetName resource))
                     (emit (Broadcast (''Created repository '' @ res_targetName resource)) s)))"

definition progress_message :: "string \<Rightarrow> rep_progress \<Rightarrow> string" where
  "progress_message target p = ''Repository '' @ target @ '' - '' @ rmp_phase p @ '': '' @ rmp_description p
     @ '' ('' @ fmt_d (rmp_percentage p) @ CHR 0x25 # '')''"

definition progress_event :: "string \<Rightarrow> rep_progress \<Rightarrow> ado_state \<Rightarrow> ado_state" where
  "progress_event target p s =
     (let s = emit (Broadcast (progress_message target p)) s in
      if rmp_percentage p mod 25 = 0 \<or> rmp_error p \<noteq> []
      then emit (if rmp_error p \<noteq> []
                 then Event EventWarning ''MigrationError''
                   (''Repository '' @ target @ '' - '' @ rmp_phase p @ '': '' @ rmp_error p)
                 else Event EventNormal ''MigrationProgress'' (progress_message target p)) s
      else s)"

text \<open>The callback also writes the percentage to the resource status it was given.\<close>

definition progressCallback ::
  "string \<Rightarrow> rep_progress \<Rightarrow> resource_migration_status \<times> ado_state \<Rightarrow> resource_migration_status \<times> ado_state" where
  "progressCallback target p = (\<lambda>(status, s). (status\<lparr>rs_progress := rmp_percentage p\<rparr>, progress_event target p s))"

text \<open>
  What \<open>MigrateRepository\<close> did is an effect; it stands before the messages about its progress, which
  came in between.
\<close>

definition performCodeMigration ::
  "ado_env \<Rightarrow> migration_resource \<Rightarrow> string \<Rightarrow> resource_migration_status \<times> ado_state
   \<Rightarrow> go_error option \<times> (resource_migration_status \<times> ado_state)" where
  "performCodeMigration k resource token = (\<lambda>(status, s).
     case ado_getAzureDevOpsToken k (obj s) s of
       Inl err \<Rightarrow> (None, (status, emit (Broadcast (''Repository '' @ res_targetName resource
                     @ '' created but code migration skipped (no ADO token)'')) s))
     | Inr adoToken \<Rightarrow>
         (case MigrateRepository (ae_git k s) (obj s) resource adoToken token no_io of
            (result, io) \<Rightarrow>
              let (status, s) = fold (progressCallback (res_targetName resource)) (io_progress io)
                (status, performed (io_trace io) s) in
              (case result of
                 Inl err \<Rightarrow> (Some (wrap_err ''code migration failed'' err),
                   progressCallback (res_targetName resource) \<lparr>rmp_phase = ''failed'',
                     rmp_description = ''Migration failed: '' @ err_text err, rmp_percentage = 0,
                     rmp_error = err_text err\<rparr> (status, s))
               | Inr _ \<Rightarrow> (None, (status,
                   emit (Event EventNormal ''CodeMigrationCompleted''
                     (''Code migration completed for repository '' @ res_targetName resource))
                   (emit (Broadcast (''Repository '' @ res_targetName resource
                     @ '': Code migration completed successfully'')) s))))))"

definition setDefaultBranch ::
  "ado_env \<Rightarrow> migration_resource \<Rightarrow> string \<Rightarrow> ado_state \<Rightarrow> go_error option \<times> ado_state" where
  "setDefaultBranch k resource token s =
     (case mst_defaultBranchInfo (mg_status (obj s)) of
        None \<Rightarrow> (Some (PlainError ''target default branch not configured''), s)
      | Some d \<Rightarrow>
          if db_targetDefaultBranch d = [] then (Some (PlainError ''target default branch not configured''), s)
          else
            let owner = tgt_owner (ms_target (mg_spec (obj s))); b = db_targetDefaultBranch d in
            (map_option (wrap_err ''failed to set default branch'')
               (ae_set_default k s token owner (res_targetName resource) b),
             emit (ApiWrite [''SetRepositoryDefaultBranch'', owner, res_targetName resource, b]) s))"

definition processRepository ::
  "ado_env \<Rightarrow> migration_resource \<Rightarrow> string \<Rightarrow> resource_migration_status \<times> ado_state
   \<Rightarrow> go_error option \<times> (resource_migration_status \<times> ado_state)" where
  "processRepository k resource token = (\<lambda>(status, s).
     let s = handleDefaultBranchSetup k resource s in
     case validateRepositoryState k resource token s of
       Inl err \<Rightarrow> (Some (wrap_err ''failed to validate repository state'' err), (status, s))
     | Inr (repoState, repo) \<Rightarrow>
         let s = updateRepositoryStateStatus k (res_targetName resource) repoState repo s in
         (case (if repoState = RepoNotExists
                then (case createRepository k resource token s of
                        (Inl err, s) \<Rightarrow> (Inl (wrap_err ''failed to create repository'' err), s)
                      | (Inr url, s) \<Rightarrow> (Inr (Some url),
                          updateRepositoryStateStatus k (res_targetName resource) RepoCreated (Some url) s))
                else (Inr repo, s)) of
            (Inl err, s) \<Rightarrow> (Some err, (status, s))
          | (Inr repo, s) \<Rightarrow>
              let url = (case repo of None \<Rightarrow> [] | Some u \<Rightarrow> u);
                  status = status\<lparr>rs_gitHubURL := url, rs_repositoryURL := url\<rparr> in
              (case (if src_organization (ms_source (mg_spec (obj s))) \<noteq> []
                        \<and> src_project (ms_source (mg_spec (obj s))) \<noteq> []
                     then performCodeMigration k resource token (status, s) else (None, (status, s))) of
                 (Some err, (status, s)) \<Rightarrow> (Some err, (status, s))
               | (None, (status, s)) \<Rightarrow>
                   let s = (if repoState = RepoNotExists \<or> repoState = RepoEmpty
                            then snd (setDefaultBranch k resource token s) else s) in
                   (None, (status, emit (Broadcast (''Repository '' @ res_targetName resource
                      @ '' setup completed successfully'')) s)))))"

definition processResourceByType ::
  "ado_env \<Rightarrow> migration_resource \<Rightarrow> string \<Rightarrow> resource_migration_status \<times> ado_state
   \<Rightarrow> go_error option \<times> (resource_migration_status \<times> ado_state)" where
  "processResourceByType k resource token x =
     (if res_type resource = ''repository'' then processRepository k resource token x
      else if res_type resource = ''work-item''
      then (Some (PlainError ''work item migration not yet implemented''), x)
      else if res_type resource = ''pipeline''
      then (Some (PlainError ''pipeline migration not yet implemented''), x)
      else (Some (PlainError (''unsupported resource type: '' @ res_type resource)), x))"

definition handleResourceFailure ::
  "migration_resource \<Rightarrow> go_error \<Rightarrow> resource_migration_status \<times> ado_state \<Rightarrow> resource_migration_status \<times> ado_state" where
  "handleResourceFailure resource err = (\<lambda>(status, s).
     let status = status\<lparr>rs_status := StatusFailed, rs_errorMessage := err_text err, rs_error := err_text err,
                    rs_progress := 0\<rparr>;
         s = modify (on_progress (\<lambda>p. p\<lparr>pr_failed := pr_failed p + 1, pr_processing := 0\<rparr>)) s;
         msg = ''Failed to process '' @ res_targetName resource @ '': '' @ err_text err
     in (status, emit (Event EventWarning ''ResourceProcessingFailed'' msg) (emit (Broadcast msg) s)))"

definition handleResourceSuccess ::
  "migration_resource \<Rightarrow> resource_migration_status \<times> ado_state \<Rightarrow> resource_migration_status \<times> ado_state" where
  "handleResourceSuccess resource = (\<lambda>(status, s).
     let status = status\<lparr>rs_status := StatusCompleted, rs_progress := 100\<rparr>;
         s = modify (on_progress (\<lambda>p. p\<lparr>pr_completed := pr_completed p + 1, pr_processing := 0\<rparr>)) s;
         msg = ''Successfully processed '' @ res_targetName resource
     in (status, emit (Event EventNormal ''ResourceProcessed'' msg) (emit (Broadcast msg) s)))"

definition set_resource_status :: "nat \<Rightarrow> resource_migration_status \<Rightarrow> ado_migration_status \<Rightarrow> ado_migration_status" where
  "set_resource_status i status st = st\<lparr>mst_resourceStatuses := (mst_resourceStatuses st)[i := status]\<rparr>"

definition updateResourceStatusAfterProcessing ::
  "ado_env \<Rightarrow> migration_resource \<Rightarrow> go_error option \<Rightarrow> nat \<Rightarrow> resource_migration_status \<times> ado_state \<Rightarrow> ado_state" where
  "updateResourceStatusAfterProcessing k resource processingErr i = (\<lambda>(status, s).
     case read_clock k s of (now, s) \<Rightarrow>
     let status = status\<lparr>rs_completionTime := Some now\<rparr>;
         (status, s) = (case processingErr of
            Some err \<Rightarrow> handleResourceFailure resource err (status, s)
          | None \<Rightarrow> handleResourceSuccess resource (status, s));
         s = modify (on_status (set_resource_status i status)) s;
         s = modify (on_progress updateProgressPercentage) s
     in modify (on_status (updateStatistics processingErr resource)) s)"

definition ado_processResource ::
  "ado_env \<Rightarrow> migration_resource \<Rightarrow> nat option \<Rightarrow> string \<Rightarrow> ado_state \<Rightarrow> go_error option \<times> ado_state" where
  "ado_processResource k resource resourceIndex token s =
     (let s = updateProcessingStatus resource s;
          s = snd (status_update k s) in
      case createResourceStatus k resource s of (status, s) \<Rightarrow>
      let s = modify (on_status (\<lambda>st. case resourceIndex of
                Some i \<Rightarrow> set_resource_status i status st
              | None \<Rightarrow> st\<lparr>mst_resourceStatuses := mst_resourceStatuses st @ [status]\<rparr>)) s;
          i = (case resourceIndex of Some i \<Rightarrow> i
               | None \<Rightarrow> length (mst_resourceStatuses (mg_status (obj s))) - 1)
      in case processResourceByType k resource token (status, s) of
           (processingErr, x) \<Rightarrow>
             (processingErr, updateResourceStatusAfterProcessing k resource processingErr i x))"

section \<open>Running and completing\<close>

definition handleResourceProcessingFailure ::
  "ado_env \<Rightarrow> migration_resource \<Rightarrow> go_error \<Rightarrow> ado_state \<Rightarrow> outcome \<times> ado_state" where
  "handleResourceProcessingFailure k resource err s =
     (let s = modify (on_status (\<lambda>st. st\<lparr>mst_phase := PhaseFailed,
                mst_errorMessage := ''Resource processing failed for '' @ res_targetName resource @ '': '' @ err_text err\<rparr>)) s
      in ((no_requeue, None), snd (status_update k s)))"

definition sync_settings_of :: "ado_migration \<Rightarrow> sync_settings option" where
  "sync_settings_of m = (case set_sync (ms_settings (mg_spec m)) of
     None \<Rightarrow> None | Some c \<Rightarrow> if sync_enabled c then Some c else None)"

definition sync_minutes :: "sync_settings \<Rightarrow> int" where
  "sync_minutes c = (if sync_intervalMinutes c = 0 then 5 else sync_intervalMinutes c)"

definition sync_interval :: "sync_settings \<Rightarrow> duration" where
  "sync_interval c = wrap64 (sync_minutes c * minute)"

definition full_progress :: "string \<Rightarrow> migration_progress \<Rightarrow> migration_progress" where
  "full_progress step p = p\<lparr>pr_currentStep := step, pr_percentage := 100, pr_processing := 0,
     pr_progressSummary := fmt_d (pr_total p) @ ''/'' @ fmt_d (pr_total p)\<rparr>"

definition enter_sync :: "ado_env \<Rightarrow> instant \<Rightarrow> sync_settings \<Rightarrow> ado_state \<Rightarrow> outcome \<times> ado_state" where
  "enter_sync k now c s =
     (let s = modify (on_status (\<lambda>st. st\<lparr>mst_phase := PhaseSyncing,
                mst_progress := full_progress ''Initial migration completed, entering sync mode'' (mst_progress st),
                mst_syncStatus := Some \<lparr>ss_enabled = True, ss_lastSyncTime = Some now, ss_lastSyncError = [],
                  ss_syncCount = 0, ss_failedSyncCount = 0, ss_branchesSynced = [], ss_tagsSynced = [],
                  ss_nextSyncTime = Some (now + sync_interval c)\<rparr>\<rparr>)) s;
          s = emit (Broadcast ''Migration completed, entering continuous sync mode'') s;
          s = emit (Event EventNormal ''SyncModeEnabled'' ''Migration completed, entering continuous sync mode'') s
      in update_then k no_requeue (after (sync_interval c)) s)"

definition mark_completed :: "ado_env \<Rightarrow> ado_state \<Rightarrow> outcome \<times> ado_state" where
  "mark_completed k s =
     (let s = modify (on_status (\<lambda>st. st\<lparr>mst_phase := PhaseCompleted,
                mst_progress := full_progress ''Migration completed successfully'' (mst_progress st)\<rparr>)) s;
          s = setCondition k ConditionTypeReady ConditionTrue ReasonMigrationCompleted
                ''Migration completed successfully'' s;
          s = setCondition k ConditionTypeMigrationActive ConditionFalse ReasonMigrationCompleted
                ''Migration finished'' s;
          s = emit (Broadcast ''Migration completed successfully'') s;
          s = emit (Event EventNormal ''MigrationCompleted'' ''Migration completed successfully'') s
      in update_then k no_requeue no_requeue s)"

text \<open>\<open>None\<close>: there is a start time but no statistics to write the duration to.\<close>

definition stamp_duration :: "instant \<Rightarrow> ado_migration_status \<Rightarrow> ado_migration_status option" where
  "stamp_duration now st = (case mst_startTime st of
     None \<Rightarrow> Some st
   | Some t \<Rightarrow> (case mst_statistics st of
       None \<Rightarrow> None
     | Some x \<Rightarrow> Some (st\<lparr>mst_statistics := Some (x\<lparr>st_duration := now - t\<rparr>)\<rparr>)))"

definition completeMigration :: "ado_env \<Rightarrow> ado_state \<Rightarrow> outcome option \<times> ado_state" where
  "completeMigration k s =
     (case read_clock k s of (now, s) \<Rightarrow>
      let s = modify (on_status (\<lambda>st. st\<lparr>mst_completionTime := Some now\<rparr>)) s in
      case stamp_duration now (mg_status (obj s)) of
        None \<Rightarrow> (None, s)
      | Some st \<Rightarrow>
          (let s = modify (on_status (\<lambda>_. st)) s in
           case sync_settings_of (obj s) of
             Some c \<Rightarrow> returned (enter_sync k now c s)
           | None \<Rightarrow> returned (mark_completed k s)))"

text \<open>
  The loop of \<open>processRunning\<close>: \<open>i\<close> is the index of the first resource of the rest, \<open>n\<close>
  the number of resources.
\<close>

fun run_resources ::
  "ado_env \<Rightarrow> string \<Rightarrow> int \<Rightarrow> int \<Rightarrow> migration_resource list \<Rightarrow> ado_state \<Rightarrow> outcome option \<times> ado_state" where
  "run_resources k token n i [] s = completeMigration k s"
| "run_resources k token n i (resource # rest) s =
     (case checkResourceStatus (obj s) resource of
        (resourceIndex, True) \<Rightarrow> run_resources k token n (i + 1) rest s
      | (resourceIndex, False) \<Rightarrow>
          (let s = modify (on_progress (\<lambda>p. p\<lparr>pr_currentItem := i + 1,
                     pr_progressSummary := fmt_d (i + 1) @ ''/'' @ fmt_d n\<rparr>)) s in
           case ado_processResource k resource resourceIndex token s of
             (Some err, s) \<Rightarrow> returned (handleResourceProcessingFailure k resource err s)
           | (None, s) \<Rightarrow>
               status_update_or k
                 (\<lambda>err. Some (after runningRequeueInterval,
                    Some (wrap_err ''failed to update status after processing resource'' err)))
                 (\<lambda>s. if i < n - 1 then (Some (after runningRequeueInterval, None), s)
                      else run_resources k token n (i + 1) rest s) s))"

definition processRunning :: "ado_env \<Rightarrow> ado_state \<Rightarrow> outcome option \<times> ado_state" where
  "processRunning k s = (case getGitHubTokenUnified k (obj s) s of
     Inl err \<Rightarrow> returned (failMigration k (''Failed to get GitHub token: '' @ err_text err) s)
   | Inr token \<Rightarrow>
       (let resources = ms_resources (mg_spec (obj s)) in
        run_resources k token (int (length resources)) 0 resources s))"

section \<open>Continuous synchronisation\<close>

definition sync_status_of :: "ado_migration_status \<Rightarrow> sync_status" where
  "sync_status_of st = (case mst_syncStatus st of
     None \<Rightarrow> \<lparr>ss_enabled = True, ss_lastSyncTime = None, ss_lastSyncError = [], ss_syncCount = 0,
       ss_failedSyncCount = 0, ss_branchesSynced = [], ss_tagsSynced = [], ss_nextSyncTime = None\<rparr>
   | Some x \<Rightarrow> x)"

definition set_sync_status :: "(sync_status \<Rightarrow> sync_status) \<Rightarrow> ado_state \<Rightarrow> ado_state" where
  "set_sync_status f = modify (on_status (\<lambda>st. st\<lparr>mst_syncStatus := Some (f (sync_status_of st))\<rparr>))"

definition handleSyncError :: "ado_env \<Rightarrow> go_error \<Rightarrow> sync_settings \<Rightarrow> ado_state \<Rightarrow> outcome \<times> ado_state" where
  "handleSyncError k err c s =
     (case read_clock k s of (now, s) \<Rightarrow>
      let s = set_sync_status (\<lambda>x. x\<lparr>ss_failedSyncCount := ss_failedSyncCount x + 1,
                ss_lastSyncError := err_text err, ss_nextSyncTime := Some (now + sync_interval c)\<rparr>) s
      in status_update_or k (\<lambda>e. (after (sync_interval c), Some e))
           (\<lambda>s. ((after (sync_interval c), None),
              emit (Event EventWarning ''SyncFailed'' (''Sync failed: '' @ err_text err @ ''. Retrying in ''
                @ fmt_d (sync_minutes c) @ '' minutes'')) s)) s)"

text \<open>
  The loop over the repositories: branches, tags and errors so far. What the git commands of
  one synchronisation did is kept for the next.
\<close>

definition sync_one ::
  "ado_env \<Rightarrow> ado_state \<Rightarrow> string \<Rightarrow> string \<Rightarrow> migration_resource
   \<Rightarrow> (string list \<times> string list \<times> string list) \<times> io_state \<Rightarrow> (string list \<times> string list \<times> string list) \<times> io_state" where
  "sync_one k s adoToken githubToken resource = (\<lambda>((branches, tags, errors), io).
     if res_type resource \<noteq> ''repository'' then ((branches, tags, errors), io)
     else (case SyncRepository (ae_git k s) (obj s) resource adoToken githubToken io of
        (Inl err, io) \<Rightarrow> ((branches, tags, errors @ [res_sourceName resource @ '': '' @ err_text err]), io)
      | (Inr result, io) \<Rightarrow> ((branches @ sy_branches result, tags @ sy_tags result, errors), io)))"

definition sync_all ::
  "ado_env \<Rightarrow> ado_state \<Rightarrow> string \<Rightarrow> string \<Rightarrow> (string list \<times> string list \<times> string list) \<times> io_state" where
  "sync_all k s adoToken githubToken =
     (fold (sync_one k s adoToken githubToken) (ms_resources (mg_spec (obj s))) (([], [], []), no_io))"

definition record_sync :: "instant \<Rightarrow> string list \<times> string list \<times> string list \<Rightarrow> ado_state \<Rightarrow> ado_state" where
  "record_sync now = (\<lambda>(branches, tags, errors) s.
     if errors \<noteq> []
     then emit (Event EventWarning ''SyncPartialFailure''
            (''Sync completed with '' @ fmt_d (int (length errors)) @ '' error(s)''))
          (set_sync_status (\<lambda>x. x\<lparr>ss_failedSyncCount := ss_failedSyncCount x + 1,
             ss_lastSyncError := join ''; '' errors\<rparr>) s)
     else
       let s = set_sync_status (\<lambda>x. x\<lparr>ss_syncCount := ss_syncCount x + 1, ss_lastSyncError := [],
                 ss_lastSyncTime := Some now, ss_branchesSynced := branches, ss_tagsSynced := tags\<rparr>) s
       in emit (Event EventNormal ''SyncCompleted''
            (''Sync #'' @ fmt_d (ss_syncCount (sync_status_of (mg_status (obj s)))) @ '' completed: ''
             @ fmt_d (int (length branches)) @ '' branches, '' @ fmt_d (int (length tags)) @ '' tags'')) s)"

definition run_sync :: "ado_env \<Rightarrow> instant \<Rightarrow> sync_settings \<Rightarrow> ado_state \<Rightarrow> outcome \<times> ado_state" where
  "run_sync k now c s = (case ado_getAzureDevOpsToken k (obj s) s of
     Inl err \<Rightarrow> handleSyncError k err c s
   | Inr adoToken \<Rightarrow> (case ado_getGitHubToken k (obj s) of
       Inl err \<Rightarrow> handleSyncError k err c s
     | Inr githubToken \<Rightarrow>
         (let (outcome, io) = sync_all k s adoToken githubToken;
              s = record_sync now outcome (performed (io_trace io) s);
              s = set_sync_status (\<lambda>x. x\<lparr>ss_nextSyncTime := Some (now + sync_interval c)\<rparr>) s
          in update_then k (after (sync_interval c)) (after (sync_interval c)) s)))"

definition processSyncing :: "ado_env \<Rightarrow> ado_state \<Rightarrow> outcome \<times> ado_state" where
  "processSyncing k s = (case sync_settings_of (obj s) of
     None \<Rightarrow> update_then k no_requeue no_requeue (modify (on_status (\<lambda>st. st\<lparr>mst_phase := PhaseCompleted\<rparr>)) s)
   | Some c \<Rightarrow>
       (case read_clock k s of (now, s) \<Rightarrow>
        (case (case mst_syncStatus (mg_status (obj s)) of None \<Rightarrow> None | Some x \<Rightarrow> ss_nextSyncTime x) of
           Some t \<Rightarrow> if now < t then ((after (t - now), None), s) else run_sync k now c s
         | None \<Rightarrow> run_sync k now c s)))"

section \<open>Dispatch\<close>

definition processPaused :: "ado_env \<Rightarrow> ado_state \<Rightarrow> outcome \<times> ado_state" where
  "processPaused k s = ((after pausedRequeueInterval, None), s)"

definition ado_processPhase :: "ado_env \<Rightarrow> ado_state \<Rightarrow> outcome option \<times> ado_state" where
  "ado_processPhase k s = (case mst_phase (mg_status (obj s)) of
     PhasePending \<Rightarrow> returned (ado_processPending k s)
   | PhaseValidating \<Rightarrow> returned (processValidating k s)
   | PhaseRunning \<Rightarrow> processRunning k s
   | PhasePaused \<Rightarrow> returned (processPaused k s)
   | PhaseSyncing \<Rightarrow> returned (processSyncing k s)
   | PhaseCompleted \<Rightarrow> (Some (no_requeue, None), s)
   | PhaseFailed \<Rightarrow> (Some (no_requeue, None), s)
   | PhaseCancelled \<Rightarrow> (Some (no_requeue, None), s)
   | PhaseUnset \<Rightarrow> (Some (no_requeue, None), s))"

definition spec_changed :: "ado_migration \<Rightarrow> bool" where
  "spec_changed m \<longleftrightarrow> mst_observedGeneration (mg_status m) \<noteq> 0
     \<and> mst_observedGeneration (mg_status m) \<noteq> om_generation (mg_meta m)"

definition reconcile_active :: "ado_env \<Rightarrow> ado_state \<Rightarrow> outcome option \<times> ado_state" where
  "reconcile_active k s =
     (let s = updateObservedGeneration k s in
      case handleFinalizerAndDeletion k s of
        (Some r, s) \<Rightarrow> (Some r, s)
      | (None, s) \<Rightarrow>
          (case handleAnnotations k s of
             (Some r, s) \<Rightarrow> (Some r, s)
           | (None, s) \<Rightarrow>
               if mst_phase (mg_status (obj s)) = PhaseUnset then returned (ado_initializeStatus k s)
               else ado_processPhase k s))"

definition reconcile_ado :: "ado_env \<Rightarrow> ado_state \<Rightarrow> outcome option \<times> ado_state" where
  "reconcile_ado k s =
     (if spec_changed (obj s)
      then (if terminal_phase (mst_phase (mg_status (obj s)))
            then returned (restartMigrationForSpecChange k s)
            else reconcile_active k (emit (Broadcast ''Migration spec updated during processing'') s))
      else reconcile_active k s)"

definition ado_Reconcile :: "ado_env \<Rightarrow> go_error + ado_migration \<Rightarrow> outcome option \<times> ado_state option" where
  "ado_Reconcile k got = (case got of
     Inl err \<Rightarrow> (Some (no_requeue, if is_not_found err then None else Some err), None)
   | Inr m \<Rightarrow> map_prod id Some (reconcile_ado k (fetched m)))"

text \<open>One reconciliation as a step from stored object to stored object.\<close>

definition ado_step :: "ado_env \<Rightarrow> ado_migration \<Rightarrow> ado_migration" where
  "ado_step k m = stored (snd (reconcile_ado k (fetched m)))"

end
