(* ===== verification/AdoInvariant.thy ===== *)
theory AdoInvariant
  imports AdoController
begin

text \<open>
  What every reconciliation of an AdoToGitMigration keeps: the invariant of the stored
  object, the edges along which its phase moves, and that no nil pointer is dereferenced.
  One lemma per handler, then the run of any number of reconciliations and user edits as
  an interpretation of \<open>phase_machine\<close>, and the properties of the controller that rest
  on them.
\<close>

section \<open>What a reconciliation keeps\<close>

text \<open>
  The invariant of a stored migration: the counters count the resource statuses, a start time
  comes with statistics, and a migration without a phase has no statuses yet. The edges
  are the moves of the phase that one reconciliation can make.
\<close>

definition status_sound :: "ado_migration_status \<Rightarrow> bool" where
  "status_sound st \<longleftrightarrow> tally_ok st \<and> (mst_startTime st \<noteq> None \<longrightarrow> mst_statistics st \<noteq> None)"

abbreviation sound :: "ado_migration \<Rightarrow> bool" where "sound m \<equiv> status_sound (mg_status m)"
abbreviation phase_of :: "ado_migration \<Rightarrow> migration_phase" where "phase_of m \<equiv> mst_phase (mg_status m)"

definition ado_ok :: "ado_migration \<Rightarrow> bool" where
  "ado_ok m \<longleftrightarrow> sound m \<and> (phase_of m = PhaseUnset \<longrightarrow> mst_resourceStatuses (mg_status m) = [])"

definition ado_edge :: "migration_phase \<Rightarrow> migration_phase \<Rightarrow> bool" where
  "ado_edge p q \<longleftrightarrow>
     q = PhasePaused \<and> p \<noteq> PhasePaused \<or> q = PhaseCancelled \<and> p \<noteq> PhaseCancelled
     \<or> terminal_phase p \<and> q = PhaseRunning
     \<or> p = PhaseUnset \<and> q = PhasePending \<or> p = PhasePending \<and> q = PhaseValidating
     \<or> p = PhaseValidating \<and> q \<in> {PhaseRunning, PhaseFailed}
     \<or> p = PhaseRunning \<and> q \<in> {PhaseFailed, PhaseCompleted, PhaseSyncing}
     \<or> p = PhaseSyncing \<and> q = PhaseCompleted"

definition advances :: "ado_migration \<Rightarrow> ado_migration \<Rightarrow> bool" where
  "advances m x \<longleftrightarrow> ado_ok x \<and> (phase_of x = phase_of m \<or> ado_edge (phase_of m) (phase_of x))"

text \<open>What the code relies on: a metadata write leaves the status as the server has it.\<close>

definition honest :: "ado_env \<Rightarrow> bool" where
  "honest k \<longleftrightarrow> (\<forall>n old x y. k_update k n old x = Inr y \<longrightarrow> mg_status y = mg_status old)"

lemma advances_refl: "ado_ok m \<Longrightarrow> advances m m"
  by (simp add: advances_def)

lemma advancesI:
  "sound x \<Longrightarrow> phase_of x \<noteq> PhaseUnset \<Longrightarrow> phase_of x = phase_of m \<or> ado_edge (phase_of m) (phase_of x)
   \<Longrightarrow> advances m x"
  by (simp add: advances_def ado_ok_def)

lemma sound_cong:
  "status_sound st \<Longrightarrow> mst_resourceStatuses st' = mst_resourceStatuses st \<Longrightarrow>
   pr_completed (mst_progress st') = pr_completed (mst_progress st) \<Longrightarrow>
   pr_failed (mst_progress st') = pr_failed (mst_progress st) \<Longrightarrow>
   mst_startTime st' = mst_startTime st \<Longrightarrow> mst_statistics st' = mst_statistics st \<Longrightarrow> status_sound st'"
  by (simp add: status_sound_def tally_ok_def)

lemma advances_update_then:
  "advances m (stored s) \<Longrightarrow> advances m (obj s) \<Longrightarrow> advances m (stored (snd (update_then k a b s)))"
  by simp

lemma advances_status_update:
  "advances m (stored s) \<Longrightarrow> advances m (obj s) \<Longrightarrow> advances m (stored (snd (status_update k s)))"
  by simp

text \<open>The handlers that end in one status update.\<close>

lemma pause_advances:
  assumes "advances m (stored s)" and "sound (obj s)" and "phase_of m \<noteq> PhasePaused"
  shows "advances m (stored (snd (pauseMigration k s)))"
  unfolding pauseMigration_def Let_def
  by (rule advances_update_then)
    (use assms in \<open>auto simp: ado_edge_def intro!: advancesI elim!: sound_cong\<close>)

lemma cancel_advances:
  assumes "advances m (stored s)" and "sound (obj s)" and "phase_of m \<noteq> PhaseCancelled"
  shows "advances m (stored (snd (cancelMigration k s)))"
  unfolding cancelMigration_def read_clock_def Let_def prod.case
  by (rule advances_update_then)
    (use assms in \<open>auto simp: ado_edge_def intro!: advancesI elim!: sound_cong\<close>)

lemma fail_advances:
  assumes "advances m (stored s)" and "sound (obj s)" and "ado_edge (phase_of m) PhaseFailed"
  shows "advances m (stored (snd (failMigration k msg s)))"
    and "advances m (stored (snd (failValidation k s)))"
  unfolding failMigration_def failValidation_def read_clock_def Let_def prod.case
  by (rule advances_update_then,
      (use assms in \<open>auto intro!: advancesI elim!: sound_cong\<close>)[2])+

lemma keep_advances:
  assumes "advances m (stored s)" and "sound (obj s)" and "phase_of (obj s) = phase_of m"
    and "phase_of m \<noteq> PhaseUnset"
  shows "advances m (stored (snd (keep_resources k s)))"
  unfolding keep_resources_def read_clock_def Let_def prod.case
  by (rule advances_update_then) (use assms in \<open>auto intro!: advancesI elim!: sound_cong\<close>)

lemma sound_apply_changes: "status_sound st \<Longrightarrow> status_sound (apply_changes m st)"
  by (simp add: status_sound_def apply_changes_tally)

lemma restart_advances:
  assumes "advances m (stored s)" and "sound (obj s)" and "phase_of (obj s) = phase_of m"
    and over: "terminal_phase (phase_of m)"
  shows "advances m (stored (snd (restartMigrationForSpecChange k s)))"
proof (cases "no_resource_changes (obj s)")
  case True
  moreover have "phase_of m \<noteq> PhaseUnset" using over by (auto simp: terminal_phase_def)
  ultimately show ?thesis using keep_advances [OF assms(1-3)] by (simp add: restartMigrationForSpecChange_def)
next
  case False
  note sound_apply_changes [OF assms(2), of "obj s"]
  then show ?thesis
    using assms(1) over False
    unfolding restartMigrationForSpecChange_def read_clock_def Let_def prod.case if_False if_not_P [OF False]
    by (intro advances_update_then)
      (auto simp: ado_edge_def intro!: advancesI elim!: sound_cong)
qed

lemma init_advances:
  assumes "advances m (stored s)" and "mst_resourceStatuses (mg_status (obj s)) = []"
    and "phase_of m = PhaseUnset"
  shows "advances m (stored (snd (ado_initializeStatus k s)))"
  unfolding ado_initializeStatus_def read_clock_def Let_def prod.case
  by (rule advances_update_then)
    (use assms in \<open>auto simp: ado_edge_def status_sound_def tally_ok_def zero_progress_def intro!: advancesI\<close>)

lemma pending_advances:
  assumes "advances m (stored s)" and "sound (obj s)" and "phase_of m = PhasePending"
  shows "advances m (stored (snd (ado_processPending k s)))"
  unfolding ado_processPending_def Let_def
  by (rule advances_update_then) (use assms in \<open>auto simp: ado_edge_def intro!: advancesI elim!: sound_cong\<close>)

lemma start_running_advances:
  assumes "advances m (stored s)" and "sound (obj s)" and "phase_of m = PhaseValidating"
  shows "advances m (stored (snd (skipValidation k s)))"
    and "advances m (stored (snd (passValidation k s)))"
  unfolding skipValidation_def passValidation_def Let_def
  by (rule advances_update_then,
      (use assms in \<open>auto simp: ado_edge_def intro!: advancesI elim!: sound_cong\<close>)[2])+

lemma validating_advances:
  assumes "advances m (stored s)" and "sound (obj s)" and "phase_of m = PhaseValidating"
  shows "advances m (stored (snd (processValidating k s)))"
proof -
  have e: "ado_edge (phase_of m) PhaseFailed" using assms(3) by (simp add: ado_edge_def)
  note f = fail_advances [OF assms(1,2) e, of k]
  note r = start_running_advances [OF assms, of k]
  have v: "advances m (stored (snd (handleValidationResults k v t)))"
    if "stored t = stored s" "sound (obj t)" for v t
    using fail_advances(2) [OF _ that(2) e, of k] start_running_advances(2) [OF _ that(2) assms(3), of k]
      that(1) assms(1) by (simp add: handleValidationResults_def)
  obtain w t where p: "performValidationWithClient k s = (w, t)" by fastforce
  then have "stored t = stored s" "obj t = obj s"
    by (auto simp: performValidationWithClient_def read_clock_def)
  then have "advances m (stored (snd (handleValidationResults k w
      (modify (on_status (\<lambda>st. st\<lparr>mst_validationResults := Some w\<rparr>)) t))))"
    using assms(2) by (intro v) (auto elim!: sound_cong)
  with f r p show ?thesis by (auto simp: processValidating_def split: sum.splits)
qed

subsection \<open>Running\<close>

text \<open>What migrating one resource leaves alone: everything but its own status and the details.\<close>

definition quiet :: "ado_state \<Rightarrow> ado_state \<Rightarrow> bool" where
  "quiet s t \<longleftrightarrow> stored t = stored s \<and> mg_spec (obj t) = mg_spec (obj s) \<and> mg_meta (obj t) = mg_meta (obj s)
     \<and> phase_of (obj t) = phase_of (obj s)
     \<and> mst_progress (mg_status (obj t)) = mst_progress (mg_status (obj s))
     \<and> mst_resourceStatuses (mg_status (obj t)) = mst_resourceStatuses (mg_status (obj s))
     \<and> mst_startTime (mg_status (obj t)) = mst_startTime (mg_status (obj s))
     \<and> mst_statistics (mg_status (obj t)) = mst_statistics (mg_status (obj s))"

lemma quiet_refl [simp]: "quiet s s" and quiet_trans: "quiet s t \<Longrightarrow> quiet t u \<Longrightarrow> quiet s u"
  by (simp_all add: quiet_def)

lemma quiet_emit: "quiet s t \<Longrightarrow> quiet s (emit e t)"
  by (simp add: quiet_def)

lemma quiet_branch_info: "quiet s t \<Longrightarrow> quiet s (set_branch_info f t)"
  by (simp add: quiet_def set_branch_info_def)

lemma quiet_clock: "quiet s t \<Longrightarrow> quiet s (t\<lparr>ticks := n\<rparr>)"
  by (simp add: quiet_def)

lemmas quiet_intros = quiet_emit quiet_branch_info quiet_clock

lemma quiet_default_branch: "quiet s t \<Longrightarrow> quiet s (handleDefaultBranchSetup k r t)"
  by (auto simp: handleDefaultBranchSetup_def read_clock_def Let_def intro!: quiet_intros split: sum.splits)

lemma quiet_repo_state: "quiet s t \<Longrightarrow> quiet s (updateRepositoryStateStatus k n q u t)"
  by (simp add: quiet_def updateRepositoryStateStatus_def read_clock_def Let_def)

lemma quiet_create: "quiet s t \<Longrightarrow> quiet s (snd (createRepository k r tok t))"
  by (auto simp: createRepository_def Let_def intro!: quiet_intros split: sum.splits)

lemma quiet_progress: "quiet s t \<Longrightarrow> quiet s (snd (fold (progressCallback n) ps (st, t)))"
proof (induction ps arbitrary: st t)
  case (Cons p ps)
  from Cons.prems have "quiet s (progress_event n p t)"
    by (auto simp: progress_event_def Let_def intro!: quiet_intros)
  from Cons.IH [OF this] show ?case by (simp add: progressCallback_def)
qed simp

lemma quiet_performed: "quiet s t \<Longrightarrow> quiet s (performed acts t)"
  by (simp add: quiet_def)

lemma quiet_code_migration: "quiet s t \<Longrightarrow> quiet s (snd (snd (performCodeMigration k r tok (st, t))))"
proof -
  assume q: "quiet s t"
  show ?thesis
  proof (cases "ado_getAzureDevOpsToken k (obj t) t")
    case (Inl e)
    with q show ?thesis by (simp add: performCodeMigration_def quiet_emit)
  next
    case (Inr tk)
    obtain res io where m: "MigrateRepository (ae_git k t) (obj t) r tk tok no_io = (res, io)" by fastforce
    obtain st2 t2 where f: "fold (progressCallback (res_targetName r)) (io_progress io) (st, performed (io_trace io) t) = (st2, t2)"
      by fastforce
    have "quiet s (performed (io_trace io) t)" by (rule quiet_performed [OF q])
    from quiet_progress [OF this, of "res_targetName r" "io_progress io" st] f have "quiet s t2" by simp
    moreover from this have "quiet s (progress_event n p t2)" for n p
      by (auto simp: progress_event_def Let_def intro!: quiet_intros)
    ultimately show ?thesis
      by (cases res) (simp_all add: performCodeMigration_def Inr m f progressCallback_def quiet_emit)
  qed
qed

lemma quiet_set_default: "quiet s t \<Longrightarrow> quiet s (snd (setDefaultBranch k r tok t))"
  by (auto simp: setDefaultBranch_def Let_def intro!: quiet_intros split: option.splits)

lemma quiet_processRepository:
  assumes q: "quiet s t"
  shows "quiet s (snd (snd (processRepository k r tok (st, t))))"
proof -
  let ?t = "handleDefaultBranchSetup k r t"
  have q1: "quiet s ?t" by (rule quiet_default_branch [OF q])
  show ?thesis
  proof (cases "validateRepositoryState k r tok ?t")
    case (Inl e)
    with q1 show ?thesis by (simp add: processRepository_def Let_def)
  next
    case (Inr x)
    obtain rst repo where x: "x = (rst, repo)" by (cases x)
    let ?u = "updateRepositoryStateStatus k (res_targetName r) rst repo ?t"
    define made where "made = (if rst = RepoNotExists
        then (case createRepository k r tok ?u of
                (Inl err, s) \<Rightarrow> (Inl (wrap_err ''failed to create repository'' err), s)
              | (Inr url, s) \<Rightarrow> (Inr (Some url),
                  updateRepositoryStateStatus k (res_targetName r) RepoCreated (Some url) s))
        else (Inr repo, ?u))"
    have q2: "quiet s ?u" by (rule quiet_repo_state [OF q1])
    have q3: "quiet s (snd made)"
      using quiet_create [OF q2, of k r tok] q2
      by (auto simp: made_def intro!: quiet_repo_state split: sum.splits prod.splits)
    obtain y v where y: "made = (y, v)" by (cases made)
    with q3 have q3: "quiet s v" by simp
    show ?thesis
    proof (cases y)
      case (Inl e)
      with y q3 \<open>validateRepositoryState k r tok ?t = Inr x\<close> show ?thesis
        by (simp add: processRepository_def Let_def x flip: made_def)
    next
      case (Inr repo')
      define coded where "coded = (if src_organization (ms_source (mg_spec (obj v))) \<noteq> []
          \<and> src_project (ms_source (mg_spec (obj v))) \<noteq> []
          then performCodeMigration k r tok (st\<lparr>rs_gitHubURL := (case repo' of None \<Rightarrow> [] | Some u \<Rightarrow> u),
                 rs_repositoryURL := (case repo' of None \<Rightarrow> [] | Some u \<Rightarrow> u)\<rparr>, v)
          else (None, (st\<lparr>rs_gitHubURL := (case repo' of None \<Rightarrow> [] | Some u \<Rightarrow> u),
                 rs_repositoryURL := (case repo' of None \<Rightarrow> [] | Some u \<Rightarrow> u)\<rparr>, v)))"
      have q4: "quiet s (snd (snd coded))"
        using quiet_code_migration [OF q3] q3 by (simp add: coded_def)
      obtain e st' w where c: "coded = (e, (st', w))" by (cases coded) auto
      with q4 have "quiet s w" by simp
      with quiet_set_default [OF this, of k r tok] show ?thesis
        using \<open>validateRepositoryState k r tok ?t = Inr x\<close> y Inr c
        by (cases e) (simp_all add: processRepository_def Let_def x quiet_emit flip: made_def coded_def)
    qed
  qed
qed

lemma quiet_processResourceByType:
  "quiet s t \<Longrightarrow> quiet s (snd (snd (processResourceByType k r tok (st, t))))"
  by (simp add: processResourceByType_def quiet_processRepository)

text \<open>Starting a resource: its status becomes Running, at its old place or at the end.\<close>

definition started ::
  "nat option \<Rightarrow> resource_migration_status \<Rightarrow> ado_migration_status \<Rightarrow> ado_migration_status" where
  "started j status st = (case j of Some i \<Rightarrow> set_resource_status i status st
     | None \<Rightarrow> st\<lparr>mst_resourceStatuses := mst_resourceStatuses st @ [status]\<rparr>)"

lemma set_resource_status_simps [simp]:
  "mst_resourceStatuses (set_resource_status i x st) = (mst_resourceStatuses st)[i := x]"
  "mst_progress (set_resource_status i x st) = mst_progress st" "mst_phase (set_resource_status i x st) = mst_phase st"
  "mst_startTime (set_resource_status i x st) = mst_startTime st"
  "mst_statistics (set_resource_status i x st) = mst_statistics st"
  by (simp_all add: set_resource_status_def)

lemma started_simps [simp]:
  "mst_progress (started j x st) = mst_progress st" "mst_phase (started j x st) = mst_phase st"
  "mst_startTime (started j x st) = mst_startTime st" "mst_statistics (started j x st) = mst_statistics st"
  by (simp_all add: started_def split: option.splits)

lemma check_unfinished:
  assumes "checkResourceStatus m r = (j, False)"
  shows "case j of None \<Rightarrow> True | Some i \<Rightarrow> i < length (mst_resourceStatuses (mg_status m))
    \<and> rs_status (mst_resourceStatuses (mg_status m) ! i) \<noteq> StatusCompleted
    \<and> rs_status (mst_resourceStatuses (mg_status m) ! i) \<noteq> StatusFailed"
proof (cases "find_index (\<lambda>st. rs_sourceName st = res_sourceName r) (mst_resourceStatuses (mg_status m))")
  case (Some i)
  then have "j = Some i" "rs_status (mst_resourceStatuses (mg_status m) ! i) \<noteq> StatusCompleted"
    "rs_status (mst_resourceStatuses (mg_status m) ! i) \<noteq> StatusFailed"
    using assms by (simp_all add: checkResourceStatus_def Let_def split: if_splits)
  with find_index_Some [OF Some] show ?thesis by simp
qed (use assms in \<open>simp add: checkResourceStatus_def\<close>)

lemma started_sound:
  assumes "status_sound st" and "rs_status x = StatusRunning"
    and "case j of None \<Rightarrow> True | Some i \<Rightarrow> i < length (mst_resourceStatuses st)
      \<and> rs_status (mst_resourceStatuses st ! i) \<noteq> StatusCompleted
      \<and> rs_status (mst_resourceStatuses st ! i) \<noteq> StatusFailed"
  shows "status_sound (started j x st)"
proof (cases j)
  case None
  with assms show ?thesis by (simp add: started_def status_sound_def tally_ok_def)
next
  case (Some i)
  have "tally_ok (started j x st)"
    by (rule tally_update [where i = i and st = st and x = x and old = "rs_status (mst_resourceStatuses st ! i)"])
      (use assms Some in \<open>simp_all add: started_def status_sound_def\<close>)
  with assms(1) show ?thesis by (simp add: status_sound_def)
qed

lemma started_at:
  assumes "case j of None \<Rightarrow> True | Some i \<Rightarrow> i < length (mst_resourceStatuses st)"
    and "i = (case j of Some i \<Rightarrow> i | None \<Rightarrow> length (mst_resourceStatuses (started j x st)) - 1)"
  shows "i < length (mst_resourceStatuses (started j x st))" "mst_resourceStatuses (started j x st) ! i = x"
  using assms by (auto simp: started_def split: option.splits)

lemma updateStatistics_simps [simp]:
  "mst_resourceStatuses (updateStatistics e r st) = mst_resourceStatuses st"
  "mst_progress (updateStatistics e r st) = mst_progress st" "mst_phase (updateStatistics e r st) = mst_phase st"
  "mst_statistics (updateStatistics e r st) \<noteq> None"
  by (simp_all add: updateStatistics_def Let_def)

text \<open>Recording the outcome: one more completed or failed resource, its status no longer Running.\<close>

lemma record_outcome:
  assumes sound: "sound (obj t)" and i: "i < length (mst_resourceStatuses (mg_status (obj t)))"
    and running: "rs_status (mst_resourceStatuses (mg_status (obj t)) ! i) = StatusRunning"
  shows "sound (obj (updateResourceStatusAfterProcessing k r e i (status, t)))"
    "phase_of (obj (updateResourceStatusAfterProcessing k r e i (status, t))) = phase_of (obj t)"
    "stored (updateResourceStatusAfterProcessing k r e i (status, t)) = stored t"
proof -
  let ?u = "updateResourceStatusAfterProcessing k r e i (status, t)"
  show "phase_of (obj ?u) = phase_of (obj t)" "stored ?u = stored t"
    by (simp_all add: updateResourceStatusAfterProcessing_def handleResourceFailure_def
        handleResourceSuccess_def read_clock_def Let_def split: option.splits)
  let ?w = "status\<lparr>rs_completionTime := Some (k_clock k (ticks t))\<rparr>"
  have "tally_ok (mg_status (obj ?u))"
    by (rule tally_update [OF i, where old = StatusRunning and x = "case e of
          Some err \<Rightarrow> fst (handleResourceFailure r err (?w, t)) | None \<Rightarrow> fst (handleResourceSuccess r (?w, t))"])
      (use sound running in \<open>auto simp: status_sound_def updateResourceStatusAfterProcessing_def
        handleResourceFailure_def handleResourceSuccess_def read_clock_def Let_def split: option.splits\<close>)
  moreover have "mst_statistics (mg_status (obj ?u)) \<noteq> None"
    by (simp add: updateResourceStatusAfterProcessing_def handleResourceFailure_def
        handleResourceSuccess_def read_clock_def Let_def del: not_None_eq split: option.splits)
  ultimately show "sound (obj ?u)" by (simp add: status_sound_def)
qed

text \<open>What holds throughout a reconciliation of a running migration.\<close>

definition working :: "ado_migration \<Rightarrow> ado_state \<Rightarrow> bool" where
  "working m s \<longleftrightarrow> phase_of m = PhaseRunning \<and> advances m (stored s) \<and> sound (obj s) \<and> phase_of (obj s) = PhaseRunning"

lemma working_obj: "working m s \<Longrightarrow> advances m (obj s)"
  by (auto simp: working_def intro: advancesI)

lemma sound_quiet: "quiet s t \<Longrightarrow> sound (obj s) \<Longrightarrow> sound (obj t)"
  by (auto simp: quiet_def elim!: sound_cong)

lemma working_processResource:
  assumes w: "working m s" and j: "checkResourceStatus (obj s) r = (j, False)"
  shows "working m (snd (ado_processResource k r j tok s))"
proof -
  define s1 where "s1 = snd (status_update k (updateProcessingStatus r s))"
  obtain x s2 where c: "createResourceStatus k r s1 = (x, s2)" by fastforce
  define s3 where "s3 = modify (on_status (started j x)) s2"
  define i where "i = (case j of Some i \<Rightarrow> i | None \<Rightarrow> length (mst_resourceStatuses (mg_status (obj s3))) - 1)"
  obtain e x' s4 where p: "processResourceByType k r tok (x, s3) = (e, x', s4)" by (metis prod.exhaust)
  have run: "snd (ado_processResource k r j tok s) = updateResourceStatusAfterProcessing k r e i (x', s4)"
    unfolding ado_processResource_def Let_def s1_def [symmetric] c prod.case started_def [symmetric, abs_def]
      s3_def [symmetric] i_def [symmetric] p by simp
  have o1: "sound (obj s1)" "phase_of (obj s1) = PhaseRunning"
    "mst_resourceStatuses (mg_status (obj s1)) = mst_resourceStatuses (mg_status (obj s))"
    and st1: "advances m (stored s1)"
    using w unfolding s1_def working_def updateProcessingStatus_def Let_def
    by (auto intro!: advances_status_update advancesI elim!: sound_cong)
  have x: "rs_status x = StatusRunning" and s2: "obj s2 = obj s1" "stored s2 = stored s1"
    using c by (auto simp: createResourceStatus_def read_clock_def)
  note j' = check_unfinished [OF j]
  have "sound (obj s3)"
    using started_sound [OF o1(1) x, of j] j' by (simp add: s3_def s2 o1(3) cong: option.case_cong)
  moreover have "case j of None \<Rightarrow> True | Some i \<Rightarrow> i < length (mst_resourceStatuses (mg_status (obj s1)))"
    using j' by (simp add: o1(3) split: option.splits)
  note at = started_at [OF this, of i x]
  have q: "quiet s3 s4" using quiet_processResourceByType [OF quiet_refl, of s3 k r tok x] p by simp
  ultimately have o4: "sound (obj s4)" "phase_of (obj s4) = PhaseRunning" "stored s4 = stored s1"
    "mst_resourceStatuses (mg_status (obj s4)) = mst_resourceStatuses (started j x (mg_status (obj s1)))"
    using sound_quiet [OF q] o1(2) by (auto simp: quiet_def s3_def s2)
  have i: "i = (case j of Some i \<Rightarrow> i | None \<Rightarrow> length (mst_resourceStatuses (started j x (mg_status (obj s1)))) - 1)"
    by (simp add: i_def s3_def s2 split: option.splits)
  show ?thesis
    unfolding working_def run
    using record_outcome [OF o4(1), of i k r e x'] at [OF i] x o4 st1 w by (simp add: working_def)
qed

lemma working_current: "working m s \<Longrightarrow> working m (modify (on_progress (\<lambda>p. p\<lparr>pr_currentItem := n, pr_progressSummary := t\<rparr>)) s)"
  by (auto simp: working_def elim!: sound_cong)

lemma checkResourceStatus_current [simp]:
  "checkResourceStatus (on_progress f m) r = checkResourceStatus m r"
  by (simp add: checkResourceStatus_def Let_def cong: option.case_cong)

text \<open>Completing: the statistics are there, and the phase becomes Syncing or Completed.\<close>

lemma stamp_duration_total:
  "status_sound st \<Longrightarrow> \<exists>st'. stamp_duration now st = Some st' \<and> status_sound st' \<and> mst_phase st' = mst_phase st"
  by (auto simp: stamp_duration_def status_sound_def tally_ok_def split: option.splits)

lemma complete_advances:
  assumes "working m s"
  shows "advances m (stored (snd (completeMigration k s))) \<and> fst (completeMigration k s) \<noteq> None"
proof -
  let ?now = "k_clock k (ticks s)"
  let ?st = "(mg_status (obj s))\<lparr>mst_completionTime := Some ?now\<rparr>"
  have "status_sound ?st" using assms by (auto simp: working_def elim!: sound_cong)
  then obtain st' where st': "stamp_duration ?now ?st = Some st'" "status_sound st'" "mst_phase st' = mst_phase ?st"
    using stamp_duration_total by blast
  let ?t = "modify (on_status (\<lambda>_. st')) (modify (on_status (\<lambda>st. st\<lparr>mst_completionTime := Some ?now\<rparr>)) (snd (read_clock k s)))"
  have t: "advances m (stored ?t)" "sound (obj ?t)" and m: "phase_of m = PhaseRunning"
    using assms st' by (simp_all add: working_def)
  have "advances m (stored (snd (enter_sync k ?now c ?t)))" for c
    unfolding enter_sync_def Let_def full_progress_def
    by (rule advances_update_then) (use t m in \<open>auto simp: ado_edge_def intro!: advancesI elim!: sound_cong\<close>)
  moreover have "advances m (stored (snd (mark_completed k ?t)))"
    unfolding mark_completed_def Let_def full_progress_def
    by (rule advances_update_then) (use t m in \<open>auto simp: ado_edge_def intro!: advancesI elim!: sound_cong\<close>)
  ultimately show ?thesis using st'(1)
    by (simp add: completeMigration_def read_clock_def Let_def split: option.splits)
qed

lemma resource_failure_advances:
  assumes "working m s"
  shows "advances m (stored (snd (handleResourceProcessingFailure k r e s)))"
  using assms unfolding handleResourceProcessingFailure_def working_def Let_def snd_conv
  by (intro advances_status_update) (auto simp: ado_edge_def intro!: advancesI elim!: sound_cong)

lemma run_resources_advances:
  "working m s \<Longrightarrow> advances m (stored (snd (run_resources k tok n i rs s))) \<and> fst (run_resources k tok n i rs s) \<noteq> None"
proof (induction rs arbitrary: i s)
  case Nil
  then show ?case using complete_advances by simp
next
  case (Cons r rs)
  obtain j fin where c: "checkResourceStatus (obj s) r = (j, fin)" by fastforce
  show ?case
  proof (cases fin)
    case True
    with c Cons show ?thesis by simp
  next
    case False
    let ?s = "modify (on_progress (\<lambda>p. p\<lparr>pr_currentItem := i + 1, pr_progressSummary := fmt_d (i + 1) @ ''/'' @ fmt_d n\<rparr>)) s"
    have w: "working m (snd (ado_processResource k r j tok ?s))"
      by (rule working_processResource) (use working_current [OF Cons.prems] c False in simp_all)
    obtain e t where p: "ado_processResource k r j tok ?s = (e, t)" by fastforce
    with w have w: "working m t" by simp
    show ?thesis
    proof (cases e)
      case (Some e')
      with c False p resource_failure_advances [OF w] show ?thesis by (simp add: Let_def)
    next
      case None
      obtain e1 t1 where u: "status_update k t = (e1, t1)" by fastforce
      have "stored t1 = (if e1 = None then obj t else stored t)" "obj t1 = obj t"
        using status_update_simps [of k t] u by simp_all
      with w have w1: "working m t1" using working_obj [OF w] by (simp add: working_def)
      show ?thesis
        using Cons.IH [OF w1] w1 u c False p None
        by (auto simp: Let_def status_update_or_def working_def split: option.splits)
    qed
  qed
qed

lemma running_advances:
  assumes "working m s"
  shows "advances m (stored (snd (processRunning k s))) \<and> fst (processRunning k s) \<noteq> None"
proof -
  have "ado_edge (phase_of m) PhaseFailed" using assms by (simp add: working_def ado_edge_def)
  note fail = fail_advances(1) [OF _ _ this]
  show ?thesis using run_resources_advances [OF assms] fail assms
    by (auto simp: processRunning_def Let_def working_def split: sum.splits)
qed

subsection \<open>Synchronising\<close>

lemma set_sync_status_simps [simp]:
  "stored (set_sync_status f s) = stored s" "phase_of (obj (set_sync_status f s)) = phase_of (obj s)"
  "sound (obj (set_sync_status f s)) = sound (obj s)"
  by (auto simp: set_sync_status_def elim!: sound_cong)

lemma record_sync_simps [simp]:
  "stored (record_sync now x s) = stored s" "phase_of (obj (record_sync now x s)) = phase_of (obj s)"
  "sound (obj (record_sync now x s)) = sound (obj s)"
  by (cases x; simp add: record_sync_def Let_def)+

lemma syncing_advances:
  assumes stored: "advances m (stored s)" and sound: "sound (obj s)"
    and phase: "phase_of (obj s) = phase_of m" "phase_of m = PhaseSyncing"
  shows "advances m (stored (snd (processSyncing k s)))"
proof -
  have failed: "advances m (stored (snd (handleSyncError k e c t)))"
    if "advances m (stored t)" "sound (obj t)" "phase_of (obj t) = PhaseSyncing" for e c t
    unfolding handleSyncError_def read_clock_def Let_def prod.case
    by (rule status_update_or_stored) (use that phase in \<open>auto intro!: advancesI\<close>)
  have run: "advances m (stored (snd (run_sync k now c t)))"
    if "advances m (stored t)" "sound (obj t)" "phase_of (obj t) = PhaseSyncing" for now c t
  proof (cases "ado_getAzureDevOpsToken k (obj t) t")
    case (Inr tok)
    show ?thesis
    proof (cases "ado_getGitHubToken k (obj t)")
      case (Inr tok')
      have "advances m (stored (snd (update_then k a b
          (set_sync_status f (record_sync now x (performed acts t))))))" for a b f x acts
        by (rule advances_update_then) (use that phase in \<open>auto intro!: advancesI\<close>)
      with Inr \<open>ado_getAzureDevOpsToken k (obj t) t = Inr tok\<close> show ?thesis by (simp add: run_sync_def Let_def case_prod_unfold)
    qed (use failed [OF that] Inr in \<open>simp add: run_sync_def\<close>)
  qed (use failed [OF that] in \<open>simp add: run_sync_def\<close>)
  have "advances m (stored (snd (update_then k a b (modify (on_status (\<lambda>st. st\<lparr>mst_phase := PhaseCompleted\<rparr>)) s))))" for a b
    by (rule advances_update_then)
      (use assms in \<open>auto simp: ado_edge_def intro!: advancesI elim!: sound_cong\<close>)
  then show ?thesis
    using run [of "snd (read_clock k s)"] assms
    by (auto simp: processSyncing_def read_clock_def split: option.splits if_splits)
qed

subsection \<open>The whole reconciliation\<close>

text \<open>The state in which handlers are entered: nothing written yet.\<close>

definition fresh :: "ado_migration \<Rightarrow> ado_state \<Rightarrow> bool" where
  "fresh m s \<longleftrightarrow> ado_ok m \<and> mg_status (stored s) = mg_status m \<and> sound (obj s) \<and> phase_of (obj s) = phase_of m
     \<and> mst_resourceStatuses (mg_status (obj s)) = mst_resourceStatuses (mg_status m)"

lemma fresh_stored: "fresh m s \<Longrightarrow> advances m (stored s)"
  by (simp add: fresh_def advances_def ado_ok_def)

lemma fresh_fetched: "ado_ok m \<Longrightarrow> fresh m (fetched m)"
  by (simp add: fresh_def ado_ok_def)

lemma advances_same_status: "advances m x \<Longrightarrow> mg_status y = mg_status x \<Longrightarrow> advances m y"
  by (simp add: advances_def ado_ok_def)

lemma object_update_fresh:
  assumes "honest k" and "mg_status (stored s) = mg_status m" and "ado_ok m"
  shows "advances m (stored (snd (object_update k s)))"
    and "object_update k s = (None, t) \<Longrightarrow> fresh m t"
  using assms
  by (auto simp: object_update_def honest_def fresh_def advances_def ado_ok_def split: sum.splits)

lemma finalizer_advances:
  assumes "fresh m s" and "honest k"
  shows "advances m (stored (snd (handleFinalizerAndDeletion k s)))"
    and "handleFinalizerAndDeletion k s = (None, t) \<Longrightarrow> t = s"
proof -
  have "advances m (stored (snd (object_update k (modify f s))))" for f
    by (rule object_update_fresh(1)) (use assms in \<open>simp_all add: fresh_def\<close>)
  then have stored: "advances m (stored t)" if "object_update k (modify f s) = (e, t)" for f e t
    using that by (metis snd_conv)
  show "advances m (stored (snd (handleFinalizerAndDeletion k s)))"
    using fresh_stored [OF assms(1)]
    by (auto simp: handleFinalizerAndDeletion_def addFinalizer_def handleDeletion_def ado_cleanup_def Let_def
        dest!: stored split: prod.splits option.splits)
  show "handleFinalizerAndDeletion k s = (None, t) \<Longrightarrow> t = s"
    by (auto simp: handleFinalizerAndDeletion_def Let_def split: if_splits)
qed

lemma handle_trigger_cases:
  obtains s1 e t where "stored s1 = stored s" "object_update k s1 = (e, t)"
    "handle_trigger k v s = (case e of Some err \<Rightarrow> ((no_requeue, Some err), t)
      | None \<Rightarrow> if terminal_phase (phase_of (obj s)) then restartMigrationForSpecChange k t
          else ((requeue_now, None), t))"
proof -
  let ?s0 = "setCondition k ConditionTypeReconciling ConditionTrue ReasonAnnotationTriggered
     (''Reconciliation triggered by annotation at '' @ v) s"
  define s1 where "s1 = modify (drop_annotation reconcileTriggerAnnotation) (emit (Event EventNormal ''ReconcileTriggered''
     (if terminal_phase (phase_of (obj ?s0))
      then ''Reconciliation triggered by annotation for '' @ migration_phase_name (phase_of (obj ?s0)) @ '' migration''
      else ''Reconciliation triggered by annotation for active migration in ''
        @ migration_phase_name (phase_of (obj ?s0)) @ '' phase'')) ?s0)"
  obtain e t where u: "object_update k s1 = (e, t)" by fastforce
  have "handle_trigger k v s = (case e of Some err \<Rightarrow> ((no_requeue, Some err), t)
      | None \<Rightarrow> if terminal_phase (phase_of (obj s)) then restartMigrationForSpecChange k t
          else ((requeue_now, None), t))"
    unfolding handle_trigger_def Let_def s1_def [symmetric] u prod.case
    by (simp split: option.splits)
  moreover have "stored s1 = stored s" by (simp add: s1_def)
  ultimately show thesis using that u by blast
qed

lemma trigger_advances:
  assumes f: "fresh m s" and h: "honest k"
  shows "advances m (stored (snd (handle_trigger k v s)))"
proof -
  obtain s1 e t where s1: "stored s1 = stored s" "object_update k s1 = (e, t)"
    and run: "handle_trigger k v s = (case e of Some err \<Rightarrow> ((no_requeue, Some err), t)
      | None \<Rightarrow> if terminal_phase (phase_of (obj s)) then restartMigrationForSpecChange k t
          else ((requeue_now, None), t))" by (rule handle_trigger_cases)
  have ok: "mg_status (stored s1) = mg_status m" "ado_ok m" using f s1(1) by (simp_all add: fresh_def)
  have t: "advances m (stored t)" using object_update_fresh(1) [OF h ok] s1(2) by simp
  have go: "fresh m t" if "e = None" using object_update_fresh(2) [OF h ok] s1(2) that by simp
  have "advances m (stored (snd (restartMigrationForSpecChange k t)))" if "e = None" "terminal_phase (phase_of m)"
    by (rule restart_advances [OF t]) (use go [OF that(1)] that in \<open>simp_all add: fresh_def\<close>)
  then show ?thesis using t f by (simp add: run fresh_def split: option.splits)
qed

lemma annotations_advances:
  assumes f: "fresh m s" and h: "honest k"
  shows "advances m (stored (snd (handleAnnotations k s)))"
    and "handleAnnotations k s = (None, t) \<Longrightarrow> t = s"
proof -
  have "sound (obj s)" "phase_of (obj s) = phase_of m" using f by (simp_all add: fresh_def)
  then show "advances m (stored (snd (handleAnnotations k s)))"
    using trigger_advances [OF f h] pause_advances [OF fresh_stored [OF f], of k]
      cancel_advances [OF fresh_stored [OF f], of k] fresh_stored [OF f]
    by (simp add: handleAnnotations_def Let_def split: option.splits)
  show "handleAnnotations k s = (None, t) \<Longrightarrow> t = s"
    by (auto simp: handleAnnotations_def Let_def split: option.splits if_splits)
qed

lemma fresh_observed: "fresh m s \<Longrightarrow> fresh m (updateObservedGeneration k s)"
  by (auto simp: updateObservedGeneration_def fresh_def read_clock_def elim!: sound_cong)

lemma phase_advances:
  assumes f: "fresh m s" and p: "phase_of m \<noteq> PhaseUnset"
  shows "advances m (stored (snd (ado_processPhase k s))) \<and> fst (ado_processPhase k s) \<noteq> None"
proof -
  note st = fresh_stored [OF f]
  have o: "sound (obj s)" "phase_of (obj s) = phase_of m" using f by (simp_all add: fresh_def)
  show ?thesis
  proof (cases "phase_of m")
    case PhaseRunning
    with o st have "working m s" by (simp add: working_def)
    from running_advances [OF this] show ?thesis using o PhaseRunning by (simp add: ado_processPhase_def)
  qed (use o st p pending_advances [OF st o(1)] validating_advances [OF st o(1)] syncing_advances [OF st o]
      in \<open>simp_all add: ado_processPhase_def processPaused_def\<close>)
qed

lemma reconcile_active_advances:
  assumes f: "fresh m s" and h: "honest k"
  shows "advances m (stored (snd (reconcile_active k s))) \<and> fst (reconcile_active k s) \<noteq> None"
proof -
  let ?s = "updateObservedGeneration k s"
  note f1 = fresh_observed [OF f, of k]
  obtain r t where d: "handleFinalizerAndDeletion k ?s = (r, t)" by fastforce
  note d' = finalizer_advances [OF f1 h]
  show ?thesis
  proof (cases r)
    case (Some x)
    with d d'(1) show ?thesis by (simp add: reconcile_active_def Let_def)
  next
    case None
    with d d'(2) have t: "t = ?s" by simp
    obtain r2 u where a: "handleAnnotations k ?s = (r2, u)" by fastforce
    note a' = annotations_advances [OF f1 h]
    show ?thesis
    proof (cases r2)
      case (Some x)
      with a a'(1) d None t show ?thesis by (simp add: reconcile_active_def Let_def)
    next
      case None2: None
      with a a'(2) have u: "u = ?s" by simp
      have "advances m (stored (snd (ado_initializeStatus k ?s)))" if "phase_of m = PhaseUnset"
        by (rule init_advances [OF fresh_stored [OF f1] _ that]) (use f1 that in \<open>simp add: fresh_def ado_ok_def\<close>)
      moreover have "phase_of (obj ?s) = phase_of m" using f1 by (simp add: fresh_def)
      ultimately show ?thesis
        using phase_advances [OF f1, of k] d a None None2 t u by (simp add: reconcile_active_def Let_def)
    qed
  qed
qed

lemma reconcile_advances:
  assumes ok: "ado_ok m" and h: "honest k"
  shows "advances m (ado_step k m) \<and> fst (reconcile_ado k (fetched m)) \<noteq> None"
proof -
  have f: "fresh m (fetched m)" by (rule fresh_fetched [OF ok])
  then have e: "fresh m (emit x (fetched m))" for x by (simp add: fresh_def)
  have "advances m (stored (snd (restartMigrationForSpecChange k (fetched m))))" if "terminal_phase (phase_of m)"
    by (rule restart_advances [OF fresh_stored [OF f] _ _ that]) (use f in \<open>simp_all add: fresh_def\<close>)
  then show ?thesis
    using reconcile_active_advances [OF f h] reconcile_active_advances [OF e h]
    by (simp add: ado_step_def reconcile_ado_def)
qed

end
