(* ===== verification/AdoProperties.thy ===== *)
theory AdoProperties
  imports AdoInvariant
begin

text \<open>
  The properties of the AdoToGitMigration controller
  (\<open>internal/controller/adotogitmigration_controller.go\<close>). A migration's life is a list of
  events: reconciliations, each in an environment of its own, and edits by users, who may
  write any metadata and any specification at any time but not the status, which is a
  subresource.
\<close>

section \<open>The life of a migration\<close>

datatype ado_event = Reconciled ado_env | Edited object_meta ado_migration_spec

fun ado_event_step :: "ado_event \<Rightarrow> ado_migration \<Rightarrow> ado_migration" where
  "ado_event_step (Reconciled k) m = ado_step k m"
| "ado_event_step (Edited meta spec) m = m\<lparr>mg_meta := meta, mg_spec := spec\<rparr>"

fun honest_event :: "ado_event \<Rightarrow> bool" where
  "honest_event (Reconciled k) \<longleftrightarrow> honest k"
| "honest_event (Edited meta spec) \<longleftrightarrow> True"

abbreviation ado_life :: "ado_event list \<Rightarrow> ado_migration \<Rightarrow> ado_migration" where
  "ado_life es m \<equiv> fold ado_event_step es m"





lemma honest_sample [simp]: "honest sample_ado"
  by (auto simp: honest_def sample_ado_def)


section \<open>Pausing\<close>

lemma updateObservedGeneration_frame [simp]:
  "mg_meta (obj (updateObservedGeneration k s)) = mg_meta (obj s)"
  "mg_spec (obj (updateObservedGeneration k s)) = mg_spec (obj s)"
  "phase_of (obj (updateObservedGeneration k s)) = phase_of (obj s)"
  "mst_resourceStatuses (mg_status (obj (updateObservedGeneration k s))) = mst_resourceStatuses (mg_status (obj s))"
  "stored (updateObservedGeneration k s) = stored s"
  by (simp_all add: updateObservedGeneration_def read_clock_def)

lemma object_update_status:
  assumes "honest k"
  shows "mg_status (stored (snd (object_update k s))) = mg_status (stored s)"
    and "object_update k s = (None, t) \<Longrightarrow> obj t = stored t \<and> mg_status (stored t) = mg_status (stored s)"
  using assms by (auto simp: object_update_def honest_def split: sum.splits)

lemma finalizer_status:
  assumes "honest k"
  shows "mg_status (stored (snd (handleFinalizerAndDeletion k s))) = mg_status (stored s)"
proof -
  have "mg_status (stored t) = mg_status (stored s)" if "object_update k (modify f s) = (e, t)" for f e t
    using object_update_status(1) [OF assms, of "modify f s"] that by simp
  then show ?thesis
    by (auto simp: handleFinalizerAndDeletion_def addFinalizer_def handleDeletion_def ado_cleanup_def Let_def
        split: prod.splits option.splits)
qed

lemma finalizer_passes:
  "handleFinalizerAndDeletion k s = (None, t) \<Longrightarrow> t = s"
  by (auto simp: handleFinalizerAndDeletion_def Let_def split: if_splits)

lemma trigger_of_active_migration:
  assumes "honest k" and "\<not> terminal_phase (phase_of (obj s))"
  shows "mg_status (stored (snd (handle_trigger k v s))) = mg_status (stored s)"
proof (rule handle_trigger_cases [of s k v])
  fix s1 e t
  assume "stored s1 = stored s" "object_update k s1 = (e, t)"
    "handle_trigger k v s = (case e of Some err \<Rightarrow> ((no_requeue, Some err), t)
      | None \<Rightarrow> if terminal_phase (phase_of (obj s)) then restartMigrationForSpecChange k t
          else ((requeue_now, None), t))"
  then show ?thesis using object_update_status(1) [OF assms(1), of s1] assms(2) by (simp split: option.splits)
qed

lemma paused_step:
  assumes h: "honest k" and paused: "phase_of m = PhasePaused"
    and no_cancel: "om_annotations (mg_meta m) cancelAnnotation = None"
  shows "mg_status (ado_step k m) = mg_status m"
proof -
  have active: "mg_status (stored (snd (reconcile_active k s))) = mg_status m"
    if "obj s = m" "stored s = m" for s
  proof -
    let ?s = "updateObservedGeneration k s"
    obtain r t where d: "handleFinalizerAndDeletion k ?s = (r, t)" by fastforce
    with finalizer_status [OF h, of ?s] that have t: "mg_status (stored t) = mg_status m" by simp
    show ?thesis
    proof (cases r)
      case (Some x)
      with d t show ?thesis by (simp add: reconcile_active_def Let_def)
    next
      case None
      with d have t_eq: "t = ?s" by (auto dest: finalizer_passes)
      have "mg_status (stored (snd (handle_trigger k v ?s))) = mg_status m" for v
        by (subst trigger_of_active_migration [OF h]) (use that paused in \<open>simp_all add: terminal_phase_def\<close>)
      then have "handleAnnotations k ?s = (Some a, u) \<Longrightarrow> mg_status (stored u) = mg_status m"
        and "handleAnnotations k ?s = (None, u) \<Longrightarrow> u = ?s" for a u
        using paused no_cancel that
        by (auto simp: handleAnnotations_def Let_def split: option.splits if_splits
            dest!: arg_cong [of _ _ "\<lambda>x. stored (snd x)"]) metis
      then show ?thesis
        using d None paused that
        by (auto simp: reconcile_active_def Let_def ado_processPhase_def processPaused_def t_eq split: prod.splits option.splits)
    qed
  qed
  show ?thesis
    unfolding ado_step_def reconcile_ado_def using paused by (simp add: active terminal_phase_def)
qed

lemma paused_life:
  assumes "phase_of m = PhasePaused" and "\<forall>e \<in> set es. honest_event e"
    and "\<forall>n < length es. om_annotations (mg_meta (ado_life (take n es) m)) cancelAnnotation = None"
  shows "mg_status (ado_life es m) = mg_status m"
  using assms
proof (induction es rule: rev_induct)
  case (snoc e es)
  have IH: "mg_status (ado_life es m) = mg_status m"
    by (rule snoc.IH) (use snoc.prems in \<open>force simp: nth_append\<close>)+
  have "om_annotations (mg_meta (ado_life es m)) cancelAnnotation = None"
    using snoc.prems(3) by (auto dest: spec [of _ "length es"])
  then show ?case
    using snoc.prems IH by (cases e) (simp_all add: paused_step)
qed simp

text \<open>
  C28. A paused migration whose cancel annotation is never set keeps its status for ever: no
  reconciliation and no edit, not even removing the pause annotation, asking for a
  reconciliation or changing the specification, makes it run again.
\<close>

theorem paused_for_ever:
  assumes "phase_of m = PhasePaused" and "\<forall>e \<in> set es. honest_event e"
    and "\<forall>n < length es. om_annotations (mg_meta (ado_life (take n es) m)) cancelAnnotation = None"
  shows "mg_status (ado_life es m) = mg_status m"
  using assms by (rule paused_life)

definition paused_migration :: ado_migration where
  "paused_migration = on_status (\<lambda>st. st\<lparr>mst_phase := PhasePaused\<rparr>) zero_migration"

theorem paused_for_ever_witness:
  "phase_of (ado_life [Edited (zero_meta\<lparr>om_generation := 7\<rparr>) (mg_spec zero_migration), Reconciled sample_ado]
     paused_migration) = PhasePaused"
  using paused_for_ever [of paused_migration
      "[Edited (zero_meta\<lparr>om_generation := 7\<rparr>) (mg_spec zero_migration), Reconciled sample_ado]"]
  by (simp add: paused_migration_def zero_migration_def zero_meta_def less_Suc_eq)

text \<open>
  What the annotation handlers see when nothing else is asked: the finalizer is there, the object
  is not being deleted.
\<close>

definition settled :: "ado_migration \<Rightarrow> bool" where
  "settled m \<longleftrightarrow> finalizerName \<in> set (om_finalizers (mg_meta m)) \<and> om_deletionTimestamp (mg_meta m) = None"

lemma settled_finalizer:
  "settled (obj s) \<Longrightarrow> handleFinalizerAndDeletion k s = (None, s)"
  by (simp add: handleFinalizerAndDeletion_def settled_def)

lemma settled_observed [simp]: "settled (obj (updateObservedGeneration k s)) = settled (obj s)"
  by (simp add: settled_def)

lemma case_returned [simp]:
  "(case returned x of (None, s) \<Rightarrow> g s | (Some r, s) \<Rightarrow> (Some r, s)) = returned x"
  by (cases x) simp

text \<open>
  The pause annotation takes effect in every phase, finished ones included (unless the
  migration is restarted for a changed specification in the same reconciliation): a
  Completed, Failed or Cancelled migration becomes Paused.
\<close>

theorem pause_takes_over:
  assumes "settled m" and "om_annotations (mg_meta m) reconcileTriggerAnnotation = None"
    and "om_annotations (mg_meta m) pauseAnnotation = Some v"
    and "\<not> (spec_changed m \<and> terminal_phase (phase_of m))"
    and "\<And>n x. k_status k n x = None"
  shows "phase_of (ado_step k m) = PhasePaused
    \<and> mst_resourceStatuses (mg_status (ado_step k m)) = mst_resourceStatuses (mg_status m)"
proof -
  have "phase_of (stored (snd (reconcile_active k s))) = PhasePaused
      \<and> mst_resourceStatuses (mg_status (stored (snd (reconcile_active k s)))) = mst_resourceStatuses (mg_status m)"
    if "obj s = m" "stored s = m" for s
    using assms(1,2,3,5) that
    by (simp add: reconcile_active_def Let_def settled_finalizer handleAnnotations_def pauseMigration_def
        status_update_def update_then_simps)
  then show ?thesis
    using assms(4) by (auto simp: ado_step_def reconcile_ado_def)
qed

definition finished_migration :: ado_migration where
  "finished_migration = (on_status (\<lambda>st. st\<lparr>mst_phase := PhaseCompleted\<rparr>) zero_migration)
     \<lparr>mg_meta := zero_meta\<lparr>om_finalizers := [finalizerName], om_annotations := [pauseAnnotation \<mapsto> ''true'']\<rparr>\<rparr>"

lemma annotation_names [simp]:
  "reconcileTriggerAnnotation \<noteq> pauseAnnotation" "cancelAnnotation \<noteq> pauseAnnotation"
  "pauseAnnotation \<noteq> reconcileTriggerAnnotation" "pauseAnnotation \<noteq> cancelAnnotation"
  "reconcileTriggerAnnotation \<noteq> cancelAnnotation" "cancelAnnotation \<noteq> reconcileTriggerAnnotation"
  by code_simp+

theorem pause_takes_over_witness:
  "phase_of (ado_step sample_ado finished_migration) = PhasePaused"
  using pause_takes_over [of finished_migration "''true''" sample_ado]
  by (simp add: finished_migration_def settled_def zero_meta_def spec_changed_def zero_migration_def
      zero_migration_status_def sample_ado_def)

section \<open>Restarting a finished migration\<close>

lemma keep_resources_frame:
  "phase_of (stored (snd (keep_resources k s))) \<in> {phase_of (stored s), phase_of (obj s)}
   \<and> mst_resourceStatuses (mg_status (stored (snd (keep_resources k s))))
     \<in> {mst_resourceStatuses (mg_status (stored s)), mst_resourceStatuses (mg_status (obj s))}"
  by (simp add: keep_resources_def read_clock_def Let_def)

text \<open>
  A finished migration whose resource list is unchanged stays as it is, whatever else of
  the specification changed (settings, credentials, target) and also when a
  reconciliation is requested with the trigger annotation: phase and resource statuses
  are kept, so failed resources are not tried again.
\<close>

theorem unchanged_resources_stay:
  assumes over: "terminal_phase (phase_of m)" and same: "no_resource_changes m" and h: "honest k"
    and spec: "\<And>n old x y. k_update k n old x = Inr y \<Longrightarrow> mg_spec y = mg_spec old"
    and no_pause: "om_annotations (mg_meta m) pauseAnnotation = None"
    and no_cancel: "om_annotations (mg_meta m) cancelAnnotation = None"
  shows "phase_of (ado_step k m) = phase_of m
    \<and> mst_resourceStatuses (mg_status (ado_step k m)) = mst_resourceStatuses (mg_status m)"
proof -
  have restart: "phase_of (stored (snd (restartMigrationForSpecChange k s))) = phase_of m
      \<and> mst_resourceStatuses (mg_status (stored (snd (restartMigrationForSpecChange k s))))
        = mst_resourceStatuses (mg_status m)"
    if "mg_status (obj s) = mg_status m" "mg_spec (obj s) = mg_spec m" "mg_status (stored s) = mg_status m" for s
  proof -
    have "no_resource_changes (obj s)"
      using same that
      by (simp add: no_resource_changes_def newResources_def modifiedResources_def removedResourceIDs_def
          existing_status_def is_modified_def [abs_def])
    then show ?thesis using keep_resources_frame [of k s] that by (simp add: restartMigrationForSpecChange_def)
  qed
  have trigger: "phase_of (stored (snd (handle_trigger k v s))) = phase_of m
      \<and> mst_resourceStatuses (mg_status (stored (snd (handle_trigger k v s)))) = mst_resourceStatuses (mg_status m)"
    if "phase_of (obj s) = phase_of m" "stored s = m" for v s
  proof (rule handle_trigger_cases [of s k v])
    fix s1 e t
    assume s1: "stored s1 = stored s" "object_update k s1 = (e, t)"
      and run: "handle_trigger k v s = (case e of Some err \<Rightarrow> ((no_requeue, Some err), t)
        | None \<Rightarrow> if terminal_phase (phase_of (obj s)) then restartMigrationForSpecChange k t
            else ((requeue_now, None), t))"
    have "mg_status (stored t) = mg_status m" using object_update_status(1) [OF h, of s1] s1 that by simp
    moreover have "mg_spec (obj t) = mg_spec m \<and> obj t = stored t" if "e = None"
      using s1 that \<open>stored s = m\<close> spec by (auto simp: object_update_def split: sum.splits)
    ultimately show ?thesis using restart [of t] run that over by (auto split: option.splits)
  qed
  have active: "phase_of (stored (snd (reconcile_active k s))) = phase_of m
      \<and> mst_resourceStatuses (mg_status (stored (snd (reconcile_active k s)))) = mst_resourceStatuses (mg_status m)"
    if "obj s = m" "stored s = m" for s
  proof -
    let ?s = "updateObservedGeneration k s"
    obtain r t where d: "handleFinalizerAndDeletion k ?s = (r, t)" by fastforce
    with finalizer_status [OF h, of ?s] that have t: "mg_status (stored t) = mg_status m" by simp
    note tr = trigger [of ?s]
    show ?thesis
    proof (cases r)
      case (Some x)
      with d t show ?thesis by (simp add: reconcile_active_def Let_def)
    next
      case None
      with d have t_eq: "t = ?s" by (auto dest: finalizer_passes)
      have p: "phase_of m \<noteq> PhaseUnset" "fst (ado_processPhase k ?s) \<noteq> None" "snd (ado_processPhase k ?s) = ?s"
        using over that by (auto simp: ado_processPhase_def terminal_phase_def)
      show ?thesis
      proof (cases "om_annotations (mg_meta m) reconcileTriggerAnnotation")
        case None
        then show ?thesis using d \<open>r = None\<close> t_eq p no_pause no_cancel that
          by (simp add: reconcile_active_def Let_def handleAnnotations_def)
      next
        case (Some v)
        then show ?thesis using d \<open>r = None\<close> t_eq that tr [of v]
          by (cases "handle_trigger k v ?s") (simp add: reconcile_active_def Let_def handleAnnotations_def)
      qed
    qed
  qed
  show ?thesis
    using restart [of "fetched m"] active [of "fetched m"] over by (simp add: ado_step_def reconcile_ado_def)
qed

definition failed_migration :: ado_migration where
  "failed_migration = (on_status (\<lambda>st. st\<lparr>mst_phase := PhaseFailed, mst_observedGeneration := 1\<rparr>) zero_migration)
     \<lparr>mg_meta := zero_meta\<lparr>om_finalizers := [finalizerName], om_generation := 2,
        om_annotations := [reconcileTriggerAnnotation \<mapsto> ''now'']\<rparr>\<rparr>"

theorem unchanged_resources_stay_witness:
  "phase_of (ado_step (sample_ado\<lparr>k_update := \<lambda>n old x. Inr old\<rparr>) failed_migration) = PhaseFailed"
proof -
  let ?k = "sample_ado\<lparr>k_update := \<lambda>n old x. Inr old\<rparr>"
  have "no_resource_changes failed_migration"
    by (simp add: failed_migration_def no_resource_changes_def newResources_def modifiedResources_def
        removedResourceIDs_def zero_migration_def zero_migration_status_def)
  moreover have "phase_of failed_migration = PhaseFailed" by (simp add: failed_migration_def)
  ultimately show ?thesis
    using unchanged_resources_stay [of failed_migration ?k, THEN conjunct1]
    by (auto simp: honest_def terminal_phase_def failed_migration_def)
qed

section \<open>One resource per reconciliation\<close>

text \<open>
  What the loop of \<open>processRunning\<close> amounts to: the first resource that is neither completed
  nor failed, its position and its status index, and what is done with it.
\<close>

fun next_unfinished ::
  "ado_migration \<Rightarrow> migration_resource list \<Rightarrow> int \<Rightarrow> (int \<times> migration_resource \<times> nat option) option" where
  "next_unfinished m [] i = None"
| "next_unfinished m (r # rs) i = (case checkResourceStatus m r of
     (j, True) \<Rightarrow> next_unfinished m rs (i + 1) | (j, False) \<Rightarrow> Some (i, r, j))"

definition work_on ::
  "ado_env \<Rightarrow> string \<Rightarrow> int \<Rightarrow> int \<times> migration_resource \<times> nat option \<Rightarrow> ado_state \<Rightarrow> outcome option \<times> ado_state" where
  "work_on k token n = (\<lambda>(i, r, j) s.
     case ado_processResource k r j token
            (modify (on_progress (\<lambda>p. p\<lparr>pr_currentItem := i + 1,
               pr_progressSummary := fmt_d (i + 1) @ ''/'' @ fmt_d n\<rparr>)) s) of
       (Some err, s) \<Rightarrow> returned (handleResourceProcessingFailure k r err s)
     | (None, s) \<Rightarrow> status_update_or k
         (\<lambda>err. Some (after runningRequeueInterval,
            Some (wrap_err ''failed to update status after processing resource'' err)))
         (\<lambda>s. if i < n - 1 then (Some (after runningRequeueInterval, None), s) else completeMigration k s) s)"

lemma run_resources_loop_free:
  "n = i + int (length rs) \<Longrightarrow> run_resources k tok n i rs s
   = (case next_unfinished (obj s) rs i of None \<Rightarrow> completeMigration k s | Some x \<Rightarrow> work_on k tok n x s)"
proof (induction rs arbitrary: i)
  case (Cons r rs)
  obtain j fin where c: "checkResourceStatus (obj s) r = (j, fin)" by fastforce
  have last: "run_resources k tok n (i + 1) rs = completeMigration k" if "\<not> i < n - 1"
  proof -
    have "rs = []" using that Cons.prems by simp
    then show ?thesis by (intro ext) simp
  qed
  have loop: "(\<lambda>s. if i < n - 1 then (Some (after runningRequeueInterval, None), s) else run_resources k tok n (i + 1) rs s)
      = (\<lambda>s. if i < n - 1 then (Some (after runningRequeueInterval, None), s) else completeMigration k s)"
    using last by auto
  show ?case
  proof (cases fin)
    case True
    with Cons.IH [of "i + 1"] Cons.prems c show ?thesis by simp
  next
    case False
    with c have c: "checkResourceStatus (obj s) r = (j, False)" by simp
    then have "run_resources k tok n i (r # rs) s = work_on k tok n (i, r, j) s"
      by (simp only: run_resources.simps c work_on_def Let_def loop prod.case bool.case)
    with c show ?thesis by simp
  qed
qed simp

text \<open>
  C24. A reconciliation of a running migration works on exactly one resource, the first of
  the specification that is neither completed nor failed (looked up by its source name), and
  completes the migration if there is none or it was the last of the list. The loop with
  its early returns is equivalent to this loop-free description.
\<close>

theorem one_resource_per_reconciliation:
  "processRunning k s = (case getGitHubTokenUnified k (obj s) s of
     Inl err \<Rightarrow> returned (failMigration k (''Failed to get GitHub token: '' @ err_text err) s)
   | Inr tok \<Rightarrow>
       (let rs = ms_resources (mg_spec (obj s)) in
        case next_unfinished (obj s) rs 0 of
          None \<Rightarrow> completeMigration k s
        | Some x \<Rightarrow> work_on k tok (int (length rs)) x s))"
  by (simp add: processRunning_def Let_def run_resources_loop_free split: sum.splits)

section \<open>Running ends\<close>

definition finished :: "resource_migration_status list \<Rightarrow> string \<Rightarrow> bool" where
  "finished xs a = (case find (\<lambda>st. rs_sourceName st = a) xs of None \<Rightarrow> False
     | Some st \<Rightarrow> rs_status st = StatusCompleted \<or> rs_status st = StatusFailed)"

definition unfinished :: "ado_migration \<Rightarrow> migration_resource list" where
  "unfinished m = filter (\<lambda>r. \<not> finished (mst_resourceStatuses (mg_status m)) (res_sourceName r)) (ms_resources (mg_spec m))"

lemma check_finished:
  "snd (checkResourceStatus m r) = finished (mst_resourceStatuses (mg_status m)) (res_sourceName r)"
proof (cases "find_index (\<lambda>st. rs_sourceName st = res_sourceName r) (mst_resourceStatuses (mg_status m))")
  case None
  then show ?thesis by (simp add: checkResourceStatus_def finished_def find_index_find)
next
  case (Some i)
  then show ?thesis by (simp add: checkResourceStatus_def finished_def find_index_find Let_def)
qed

lemma check_index:
  "fst (checkResourceStatus m r) = find_index (\<lambda>st. rs_sourceName st = res_sourceName r) (mst_resourceStatuses (mg_status m))"
  by (simp add: checkResourceStatus_def Let_def split: option.splits)

lemma next_unfinished_filter:
  "(next_unfinished m rs i = None \<longleftrightarrow>
      (\<forall>r \<in> set rs. finished (mst_resourceStatuses (mg_status m)) (res_sourceName r)))
   \<and> (next_unfinished m rs i = Some (p, r, j) \<longrightarrow> r \<in> set rs \<and> checkResourceStatus m r = (j, False))"
proof (induction rs arbitrary: i)
  case (Cons a rs)
  obtain j' fin where c: "checkResourceStatus m a = (j', fin)" by fastforce
  with check_finished [of m a] Cons.IH [of "i + 1"] show ?case by (cases fin) auto
qed simp

lemma finished_update:
  assumes "find_index (\<lambda>st. rs_sourceName st = n) xs = j" and "rs_sourceName x = n" and "rs_sourceName y = n"
    and "rs_status y = StatusCompleted \<or> rs_status y = StatusFailed"
  shows "finished (case j of Some i \<Rightarrow> xs[i := y] | None \<Rightarrow> xs @ [y]) a \<longleftrightarrow> a = n \<or> finished xs a"
proof (cases j)
  case None
  with assms(1) have "find (\<lambda>st. rs_sourceName st = n) xs = None" by (simp add: find_index_find)
  with None assms(3,4) show ?thesis
    by (auto simp: finished_def find_append split: option.splits)
next
  case (Some i)
  with find_key_update [of rs_sourceName n xs i y a] assms show ?thesis by (auto simp: finished_def)
qed

text \<open>The status of a resource keeps the resource's name while it is worked on.\<close>

lemma fold_progress_name:
  "fold (progressCallback n) ps (st, t) = (st', t') \<Longrightarrow> rs_sourceName st' = rs_sourceName st"
  by (induction ps arbitrary: st t) (auto simp: progressCallback_def)

lemma code_migration_name:
  "performCodeMigration k r tok (st, t) = (e, st', t') \<Longrightarrow> rs_sourceName st' = rs_sourceName st"
  by (auto simp: performCodeMigration_def Let_def progressCallback_def dest!: fold_progress_name
      split: sum.splits prod.splits)

lemma repository_name:
  "processRepository k r tok (st, t) = (e, st', t') \<Longrightarrow> rs_sourceName st' = rs_sourceName st"
  by (auto simp: processRepository_def Let_def dest!: code_migration_name
      split: sum.splits prod.splits option.splits if_splits)

lemma by_type_name:
  "processResourceByType k r tok (st, t) = (e, st', t') \<Longrightarrow> rs_sourceName st' = rs_sourceName st"
  by (auto simp: processResourceByType_def dest: repository_name split: if_splits)

lemma record_outcome_statuses:
  "\<exists>y. mst_resourceStatuses (mg_status (obj (updateResourceStatusAfterProcessing k r e i (st, t))))
        = (mst_resourceStatuses (mg_status (obj t)))[i := y]
     \<and> rs_sourceName y = rs_sourceName st \<and> (rs_status y = StatusCompleted \<or> rs_status y = StatusFailed)"
  "mg_spec (obj (updateResourceStatusAfterProcessing k r e i (st, t))) = mg_spec (obj t)"
  "mg_meta (obj (updateResourceStatusAfterProcessing k r e i (st, t))) = mg_meta (obj t)"
proof -
  let ?w = "st\<lparr>rs_completionTime := Some (k_clock k (ticks t))\<rparr>"
  let ?y = "case e of Some err \<Rightarrow> fst (handleResourceFailure r err (?w, t)) | None \<Rightarrow> fst (handleResourceSuccess r (?w, t))"
  have "mst_resourceStatuses (mg_status (obj (updateResourceStatusAfterProcessing k r e i (st, t))))
        = (mst_resourceStatuses (mg_status (obj t)))[i := ?y]
     \<and> rs_sourceName ?y = rs_sourceName st \<and> (rs_status ?y = StatusCompleted \<or> rs_status ?y = StatusFailed)"
    by (simp add: updateResourceStatusAfterProcessing_def handleResourceFailure_def handleResourceSuccess_def
        read_clock_def Let_def split: option.splits)
  then show "\<exists>y. mst_resourceStatuses (mg_status (obj (updateResourceStatusAfterProcessing k r e i (st, t))))
        = (mst_resourceStatuses (mg_status (obj t)))[i := y]
     \<and> rs_sourceName y = rs_sourceName st \<and> (rs_status y = StatusCompleted \<or> rs_status y = StatusFailed)" by blast
qed (simp_all add: updateResourceStatusAfterProcessing_def handleResourceFailure_def
    handleResourceSuccess_def read_clock_def Let_def split: option.splits)

lemma process_finishes:
  assumes j: "checkResourceStatus (obj s) r = (j, False)" and run: "ado_processResource k r j tok s = (e, t)"
  shows "finished (mst_resourceStatuses (mg_status (obj t))) a
     \<longleftrightarrow> a = res_sourceName r \<or> finished (mst_resourceStatuses (mg_status (obj s))) a"
    and "mg_spec (obj t) = mg_spec (obj s)" and "mg_meta (obj t) = mg_meta (obj s)"
proof -
  define s1 where "s1 = snd (status_update k (updateProcessingStatus r s))"
  obtain x s2 where c: "createResourceStatus k r s1 = (x, s2)" by fastforce
  define s3 where "s3 = modify (on_status (started j x)) s2"
  define i where "i = (case j of Some i \<Rightarrow> i | None \<Rightarrow> length (mst_resourceStatuses (mg_status (obj s3))) - 1)"
  obtain e' x' s4 where p: "processResourceByType k r tok (x, s3) = (e', x', s4)" by (metis prod.exhaust)
  have t: "t = updateResourceStatusAfterProcessing k r e' i (x', s4)"
    using run unfolding ado_processResource_def Let_def s1_def [symmetric] c prod.case
      started_def [symmetric, abs_def] s3_def [symmetric] i_def [symmetric] p by auto
  let ?xs = "mst_resourceStatuses (mg_status (obj s))"
  have s1: "mst_resourceStatuses (mg_status (obj s1)) = ?xs" "mg_spec (obj s1) = mg_spec (obj s)"
    "mg_meta (obj s1) = mg_meta (obj s)"
    by (simp_all add: s1_def updateProcessingStatus_def Let_def)
  have x: "rs_sourceName x = res_sourceName r" and s2: "obj s2 = obj s1"
    using c by (auto simp: createResourceStatus_def read_clock_def)
  have q: "quiet s3 s4" using quiet_processResourceByType [OF quiet_refl, of s3 k r tok x] p by simp
  obtain y where y: "mst_resourceStatuses (mg_status (obj t)) = (mst_resourceStatuses (mg_status (obj s4)))[i := y]"
    "rs_sourceName y = res_sourceName r" "rs_status y = StatusCompleted \<or> rs_status y = StatusFailed"
    using record_outcome_statuses(1) [of k r e' i x' s4] by_type_name [OF p] x t by metis
  have "find_index (\<lambda>st. rs_sourceName st = res_sourceName r) ?xs = j"
    using check_index [of "obj s" r] j by simp
  note f = finished_update [OF this x y(2,3), of a]
  have "mst_resourceStatuses (mg_status (obj s4)) = (case j of Some i \<Rightarrow> ?xs[i := x] | None \<Rightarrow> ?xs @ [x])"
    using q s1 s2 by (simp add: quiet_def s3_def started_def split: option.splits)
  then have "mst_resourceStatuses (mg_status (obj t)) = (case j of Some i \<Rightarrow> ?xs[i := y] | None \<Rightarrow> ?xs @ [y])"
    using y(1) s1 s2 by (simp add: i_def s3_def started_def split: option.splits)
  with f show "finished (mst_resourceStatuses (mg_status (obj t))) a \<longleftrightarrow> a = res_sourceName r \<or> finished ?xs a"
    by simp
  show "mg_spec (obj t) = mg_spec (obj s)" "mg_meta (obj t) = mg_meta (obj s)"
    using record_outcome_statuses(2,3) [of k r e' i x' s4] q s1 s2 by (simp_all add: t quiet_def s3_def)
qed

text \<open>An API server that accepts every status write; no annotation asks for anything.\<close>

definition accepting :: "('o, 'k) kube_scheme \<Rightarrow> bool" where
  "accepting k \<longleftrightarrow> (\<forall>n x. k_status k n x = None)"

definition calm :: "ado_migration \<Rightarrow> bool" where
  "calm m \<longleftrightarrow> settled m \<and> (\<forall>a \<in> {reconcileTriggerAnnotation, pauseAnnotation, cancelAnnotation}.
     om_annotations (mg_meta m) a = None)"

lemma complete_over:
  assumes "accepting k" and "sound (obj s)"
  shows "phase_of (stored (snd (completeMigration k s))) \<in> {PhaseCompleted, PhaseSyncing}"
proof -
  let ?st = "(mg_status (obj s))\<lparr>mst_completionTime := Some (k_clock k (ticks s))\<rparr>"
  have "status_sound ?st" using assms(2) by (auto elim!: sound_cong)
  then obtain st' where "stamp_duration (k_clock k (ticks s)) ?st = Some st'"
    using stamp_duration_total by blast
  then show ?thesis using assms(1)
    by (simp add: completeMigration_def read_clock_def Let_def enter_sync_def mark_completed_def accepting_def
        split: option.splits)
qed

lemma fail_over:
  "accepting k \<Longrightarrow> phase_of (stored (snd (failMigration k msg s))) = PhaseFailed"
  "accepting k \<Longrightarrow> phase_of (stored (snd (handleResourceProcessingFailure k r e s))) = PhaseFailed"
  by (simp_all add: failMigration_def handleResourceProcessingFailure_def read_clock_def Let_def accepting_def)

lemma unfinished_decreases:
  assumes "r \<in> set (unfinished m)" and "mg_spec m' = mg_spec m"
    and "\<And>a. finished (mst_resourceStatuses (mg_status m')) a
      \<longleftrightarrow> a = res_sourceName r \<or> finished (mst_resourceStatuses (mg_status m)) a"
  shows "length (unfinished m') < length (unfinished m)"
proof -
  have "unfinished m' = filter (\<lambda>x. res_sourceName x \<noteq> res_sourceName r) (unfinished m)"
    using assms(2,3) by (simp add: unfinished_def conj_commute)
  then show ?thesis using length_filter_less [OF assms(1)] by simp
qed

lemma work_on_progress:
  assumes k: "accepting k" and w: "working m s" and j: "checkResourceStatus (obj s) r = (j, False)"
    and same: "mst_resourceStatuses (mg_status (obj s)) = mst_resourceStatuses (mg_status m)"
      "mg_spec (obj s) = mg_spec m" "mg_meta (obj s) = mg_meta m"
    and r: "r \<in> set (ms_resources (mg_spec m))"
    and m': "m' = stored (snd (work_on k tok n (i, r, j) s))"
  shows "phase_of m' \<noteq> PhaseRunning \<or> length (unfinished m') < length (unfinished m) \<and> mg_meta m' = mg_meta m"
proof -
  let ?s = "modify (on_progress (\<lambda>p. p\<lparr>pr_currentItem := i + 1, pr_progressSummary := fmt_d (i + 1) @ ''/'' @ fmt_d n\<rparr>)) s"
  obtain e t where p: "ado_processResource k r j tok ?s = (e, t)" by fastforce
  have j': "checkResourceStatus (obj ?s) r = (j, False)" using j by simp
  have "working m t"
    using working_processResource [OF working_current [OF w] j', of k tok] p by simp
  then have t: "sound (obj t)" "phase_of (obj t) = PhaseRunning" by (simp_all add: working_def)
  show ?thesis
  proof (cases e)
    case (Some err)
    then have "m' = stored (snd (returned (handleResourceProcessingFailure k r err t)))"
      by (simp only: m' work_on_def prod.case p option.case)
    then show ?thesis using fail_over(2) [OF k] by simp
  next
    case None
    obtain u where u: "status_update k t = (None, u)" "obj u = obj t" "stored u = obj t"
      using k by (simp add: status_update_def accepting_def Let_def)
    have m'_eq: "m' = stored (snd (if i < n - 1 then (Some (after runningRequeueInterval, None), u) else completeMigration k u))"
      using None by (simp only: m' work_on_def prod.case p option.case status_update_or_def u(1))
    have "length (unfinished (obj t)) < length (unfinished m)"
    proof (rule unfinished_decreases)
      show "r \<in> set (unfinished m)" using r check_finished [of "obj s" r] j same by (simp add: unfinished_def)
    qed (use process_finishes [OF j' p] same in simp_all)
    moreover have "mg_meta (obj t) = mg_meta m" using process_finishes(3) [OF j' p] same by simp
    ultimately show ?thesis
      using complete_over [OF k, of u] t(1) u(2,3) by (auto simp: m'_eq)
  qed
qed

lemma running_step:
  assumes ok: "ado_ok m" and run: "phase_of m = PhaseRunning" and calm: "calm m" and k: "accepting k"
  shows "phase_of (ado_step k m) \<noteq> PhaseRunning
    \<or> length (unfinished (ado_step k m)) < length (unfinished m) \<and> calm (ado_step k m)"
proof -
  have active: "phase_of m' \<noteq> PhaseRunning \<or> length (unfinished m') < length (unfinished m) \<and> mg_meta m' = mg_meta m"
    if o: "obj s0 = m" "stored s0 = m" and m': "m' = stored (snd (reconcile_active k s0))" for s0 m'
  proof -
    define s where "s = updateObservedGeneration k s0"
    have w: "working m s"
      using ok run o by (auto simp: s_def working_def updateObservedGeneration_def read_clock_def ado_ok_def
          advances_refl elim!: sound_cong)
    have same: "mst_resourceStatuses (mg_status (obj s)) = mst_resourceStatuses (mg_status m)"
      "mg_spec (obj s) = mg_spec m" "mg_meta (obj s) = mg_meta m" using o by (simp_all add: s_def)
    have "handleAnnotations k s = (None, s)" "handleFinalizerAndDeletion k s = (None, s)"
      using calm same(3) by (simp_all add: calm_def handleAnnotations_def settled_finalizer settled_def Let_def)
    then have m'_eq: "m' = stored (snd (processRunning k s))"
      using w by (simp add: m' reconcile_active_def Let_def working_def ado_processPhase_def flip: s_def)
    show ?thesis
    proof (cases "getGitHubTokenUnified k (obj s) s")
      case (Inl e)
      then show ?thesis using fail_over(1) [OF k] by (simp add: m'_eq processRunning_def)
    next
      case (Inr tok)
      let ?rs = "ms_resources (mg_spec (obj s))"
      have loop: "m' = stored (snd (case next_unfinished (obj s) ?rs 0 of None \<Rightarrow> completeMigration k s
          | Some x \<Rightarrow> work_on k tok (int (length ?rs)) x s))"
        by (simp add: m'_eq processRunning_def Inr Let_def run_resources_loop_free)
      show ?thesis
      proof (cases "next_unfinished (obj s) ?rs 0")
        case None
        then show ?thesis using complete_over [OF k, of s] w by (auto simp: loop working_def)
      next
        case (Some x)
        obtain i r j where x: "x = (i, r, j)" by (cases x)
        have "r \<in> set ?rs" "checkResourceStatus (obj s) r = (j, False)"
          using next_unfinished_filter [of "obj s" ?rs 0 i r j] Some x by auto
        with work_on_progress [OF k w _ same _ refl, of r j tok "int (length ?rs)" i] same(2)
        have "phase_of (stored (snd (work_on k tok (int (length ?rs)) x s))) \<noteq> PhaseRunning
          \<or> length (unfinished (stored (snd (work_on k tok (int (length ?rs)) x s)))) < length (unfinished m)
            \<and> mg_meta (stored (snd (work_on k tok (int (length ?rs)) x s))) = mg_meta m"
          by (simp only: x)
        then show ?thesis by (simp only: loop Some option.case)
      qed
    qed
  qed
  have "\<not> terminal_phase (phase_of m)" using run by (simp add: terminal_phase_def)
  then have "phase_of (ado_step k m) \<noteq> PhaseRunning
    \<or> length (unfinished (ado_step k m)) < length (unfinished m) \<and> mg_meta (ado_step k m) = mg_meta m"
    unfolding ado_step_def reconcile_ado_def
    using active [of "fetched m"] active [of "emit (Broadcast ''Migration spec updated during processing'') (fetched m)"]
    by simp
  then show ?thesis using calm by (auto simp: calm_def settled_def)
qed

text \<open>
  C9. Running ends: when the API server accepts the status writes and nothing else is asked of
  it, a running migration leaves the phase Running after at most as many reconciliations as
  it has unfinished resources, and one more, whatever git, GitHub and Azure DevOps answer.
\<close>

theorem running_ends:
  assumes "ado_ok m" and "phase_of m = PhaseRunning" and "calm m"
    and "\<forall>k \<in> set ks. accepting k \<and> honest k" and "length ks = length (unfinished m) + 1"
  shows "\<exists>n \<le> length ks. phase_of (fold ado_step (take n ks) m) \<noteq> PhaseRunning"
  using assms
proof (induction ks arbitrary: m rule: length_induct)
  case (1 ks)
  then obtain k ks' where ks: "ks = k # ks'" by (cases ks) auto
  let ?m = "ado_step k m"
  note step = running_step [OF 1(2-4), of k]
  show ?case
  proof (cases "phase_of ?m = PhaseRunning")
    case False
    then show ?thesis by (intro exI [of _ 1]) (simp add: ks)
  next
    case True
    with step 1 ks have less: "length (unfinished ?m) < length (unfinished m)" "calm ?m" by auto
    have "ado_ok ?m" using reconcile_advances [OF 1(2), of k] 1 ks by (simp add: advances_def)
    let ?ks = "take (length (unfinished ?m) + 1) ks'"
    have len: "length ?ks = length (unfinished ?m) + 1" using 1(6) less(1) ks by simp
    have sub: "\<And>k. k \<in> set ?ks \<Longrightarrow> accepting k \<and> honest k" using 1(5) ks by (auto dest: in_set_takeD)
    have shorter: "length ?ks < length ks" using ks by simp
    obtain n where n: "n \<le> length ?ks" "phase_of (fold ado_step (take n ?ks) ?m) \<noteq> PhaseRunning"
      using 1(1) [rule_format, OF shorter \<open>ado_ok ?m\<close> True less(2) sub len] by blast
    have "take n ?ks = take n ks'" using n(1) len by (simp add: min_def)
    with n show ?thesis by (intro exI [of _ "Suc n"]) (use ks len less(1) 1(6) in simp)
  qed
qed

definition running_migration :: ado_migration where
  "running_migration = (on_status (\<lambda>st. st\<lparr>mst_phase := PhaseRunning\<rparr>) zero_migration)
     \<lparr>mg_meta := zero_meta\<lparr>om_finalizers := [finalizerName]\<rparr>,
      mg_spec := (mg_spec zero_migration)\<lparr>ms_resources := [sample_repo]\<rparr>\<rparr>"

lemma running_migration_ok: "ado_ok running_migration" "phase_of running_migration = PhaseRunning"
  "calm running_migration" "length (unfinished running_migration) = 1"
  by (simp_all add: running_migration_def ado_ok_def status_sound_def tally_ok_def zero_migration_def
      zero_migration_status_def zero_progress_def calm_def settled_def zero_meta_def unfinished_def finished_def)

lemma accepting_sample [simp]: "accepting sample_ado"
  by (simp add: accepting_def sample_ado_def)

theorem running_ends_witness:
  "\<exists>n \<le> Suc (Suc 0). phase_of (fold ado_step (take n [sample_ado, sample_ado]) running_migration) \<noteq> PhaseRunning"
  using running_ends [of running_migration "[sample_ado, sample_ado]"] running_migration_ok by simp

end
