(* ===== verification/AdoOutcomes.thy ===== *)
theory AdoOutcomes
  imports AdoProperties
begin

text \<open>
  More properties of \<open>internal/controller/adotogitmigration_controller.go\<close>: what a finished
  run says about its resources, what is written to GitHub, what a restart does to each
  resource status, and what continuous synchronisation can reach.
\<close>

section \<open>Completing with failed resources\<close>

lemma completed_keeps_counters:
  assumes k: "accepting k" and s: "sound (obj s)"
  shows "pr_failed (mst_progress (mg_status (stored (snd (completeMigration k s)))))
      = pr_failed (mst_progress (mg_status (obj s)))
    \<and> pr_percentage (mst_progress (mg_status (stored (snd (completeMigration k s))))) = 100"
proof -
  let ?st = "(mg_status (obj s))\<lparr>mst_completionTime := Some (k_clock k (ticks s))\<rparr>"
  have "status_sound ?st" using s by (auto elim!: sound_cong)
  then obtain st' where st': "stamp_duration (k_clock k (ticks s)) ?st = Some st'"
    using stamp_duration_total by blast
  then have "pr_failed (mst_progress st') = pr_failed (mst_progress (mg_status (obj s)))"
    by (auto simp: stamp_duration_def split: option.splits)
  then show ?thesis using k st'
    by (simp add: completeMigration_def read_clock_def Let_def enter_sync_def mark_completed_def accepting_def
        full_progress_def split: option.splits)
qed

text \<open>
  A resource that failed counts as done: when every resource of a running migration (as
  after a restart for other resources) is recorded as completed or failed, the next reconciliation
  completes it, at 100 percent and in the phase Completed or Syncing, with as many failed
  resources as before.
\<close>

theorem failed_resource_counts_as_done:
  assumes "unfinished (obj s) = []" and "getGitHubTokenUnified k (obj s) s = Inr tok"
    and "sound (obj s)" and "accepting k"
  shows "phase_of (stored (snd (processRunning k s))) \<in> {PhaseCompleted, PhaseSyncing}
    \<and> pr_failed (mst_progress (mg_status (stored (snd (processRunning k s))))) = count_status StatusFailed (mg_status (obj s))
    \<and> pr_percentage (mst_progress (mg_status (stored (snd (processRunning k s))))) = 100"
proof -
  let ?rs = "ms_resources (mg_spec (obj s))"
  have "\<forall>r \<in> set ?rs. finished (mst_resourceStatuses (mg_status (obj s))) (res_sourceName r)"
    using assms(1) by (simp add: unfinished_def filter_empty_conv)
  then have "next_unfinished (obj s) ?rs 0 = None" using next_unfinished_filter [of "obj s" ?rs 0] by simp
  then have "processRunning k s = completeMigration k s"
    using assms(2) run_resources_loop_free [of "int (length ?rs)" 0 ?rs k tok s]
    by (simp add: processRunning_def Let_def)
  then show ?thesis
    using complete_over [OF assms(4,3)] completed_keeps_counters [OF assms(4,3)] assms(3)
    by (simp add: status_sound_def tally_ok_def)
qed

definition failed_repo_status :: resource_migration_status where
  "failed_repo_status = zero_resource_status\<lparr>rs_resourceID := ''1'', rs_sourceName := ''a'', rs_status := StatusFailed\<rparr>"

definition with_failed_repo :: ado_migration where
  "with_failed_repo = with_auth secret_token (on_status (\<lambda>st. st\<lparr>mst_resourceStatuses := [failed_repo_status],
     mst_progress := zero_progress\<lparr>pr_failed := 1\<rparr>\<rparr>) running_migration)"

lemma sample_token: "getGitHubTokenUnified sample_ado (with_auth secret_token m) s = Inr ''secret''"
  by (simp add: getGitHubTokenUnified_def with_auth_def secret_token_def ado_getGitHubToken_def secret_key_def
      sample_ado_def Let_def)

theorem failed_resource_counts_as_done_witness:
  "phase_of (stored (snd (processRunning sample_ado (fetched with_failed_repo)))) \<in> {PhaseCompleted, PhaseSyncing}"
proof -
  have "unfinished with_failed_repo = []"
    by (simp add: with_failed_repo_def with_auth_def running_migration_def unfinished_def finished_def
        failed_repo_status_def zero_resource_status_def sample_repo_def)
  moreover have "sound with_failed_repo"
    by (simp add: with_failed_repo_def with_auth_def running_migration_def status_sound_def tally_ok_def
        failed_repo_status_def zero_resource_status_def zero_migration_def zero_migration_status_def zero_progress_def)
  ultimately show ?thesis
    using failed_resource_counts_as_done [of "fetched with_failed_repo" sample_ado "''secret''"]
      sample_token by (simp add: with_failed_repo_def)
qed

section \<open>What is written to GitHub\<close>

text \<open>The writing calls of the GitHub API that the controller makes itself and that \<open>MigrateRepository\<close> makes.\<close>

definition default_sets :: "io_action list \<Rightarrow> string list list" where
  "default_sets acts = concat (map (\<lambda>a. case a of SetDefault ow n b \<Rightarrow> [[''SetDefaultBranch'', ow, n, b]] | _ \<Rightarrow> []) acts)"

definition api_writes :: "effect list \<Rightarrow> string list list" where
  "api_writes es = concat (map (\<lambda>e. case e of ApiWrite w \<Rightarrow> [w] | Performed a \<Rightarrow> default_sets [a] | _ \<Rightarrow> []) es)"

lemma default_sets_simps [simp]:
  "default_sets [] = []" "default_sets (as @ bs) = default_sets as @ default_sets bs"
  "default_sets (MkDir d # as) = default_sets as" "default_sets (RemoveAll d # as) = default_sets as"
  "default_sets (Git args # as) = default_sets as" "default_sets (CreateRemote u # as) = default_sets as"
  "default_sets (SetDefault ow n b # as) = [''SetDefaultBranch'', ow, n, b] # default_sets as"
  "default_sets (map (\<lambda>x. Git (f x)) xs) = []"
  by (simp_all add: default_sets_def comp_def)

lemma api_writes_simps [simp]:
  "api_writes [] = []" "api_writes (es @ es') = api_writes es @ api_writes es'"
  "api_writes (Event t r m # es) = api_writes es" "api_writes (Broadcast m # es) = api_writes es"
  "api_writes (ApiWrite w # es) = w # api_writes es" "api_writes (map Performed acts) = default_sets acts"
  by (simp_all add: api_writes_def default_sets_def comp_def)

text \<open>Of the stages of a repository migration only the last one calls the API.\<close>

abbreviation sets_of :: "io_state \<Rightarrow> string list list" where
  "sets_of s \<equiv> default_sets (io_trace s)"

lemma clone_sets [simp]: "sets_of (snd (cloneRepository ge u d tok n s)) = sets_of s"
  by (auto simp: cloneRepository_def and_then_def wrapped_def run_git_def Let_def make_dir_def check_err_def
      split: option.splits prod.splits sum.splits)

lemma prepare_sets [simp]: "sets_of (snd (prepareForGitHub ge d u s)) = sets_of s"
  by (auto simp: prepareForGitHub_def split: option.splits)

lemma push_each_sets [simp]: "sets_of (snd (push_each ge d u ow rn bs s)) = sets_of s"
  using push_each_trace [of bs ge d u ow rn s] by auto

lemma push_sets [simp]: "sets_of (snd (pushToGitHub ge d tok i e s)) = sets_of s"
proof -
  have "sets_of (snd (push_filtered ge d u ow rn i e s)) = sets_of s" for u ow rn
    by (simp add: push_filtered_def split: sum.split)
  moreover have "sets_of (snd (and_then r (\<lambda>_ s. push_tags ge d u s))) = sets_of (snd r)"
    for u and r :: "(go_error + unit) \<times> io_state"
    by (cases r) (auto simp: and_then_def split: sum.splits)
  ultimately show ?thesis
    by (auto simp: pushToGitHub_def Let_def split: option.splits sum.splits list.splits)
qed







lemma set_branch_info_frame [simp]:
  "effects (set_branch_info f s) = effects s" "mg_spec (obj (set_branch_info f s)) = mg_spec (obj s)"
  "mg_meta (obj (set_branch_info f s)) = mg_meta (obj s)"
  by (simp_all add: set_branch_info_def)

lemma default_branch_frame [simp]:
  "effects (handleDefaultBranchSetup k r s) = effects s"
  "mg_spec (obj (handleDefaultBranchSetup k r s)) = mg_spec (obj s)"
  "mg_meta (obj (handleDefaultBranchSetup k r s)) = mg_meta (obj s)"
  by (simp_all add: handleDefaultBranchSetup_def read_clock_def Let_def split: sum.splits)

lemma repo_state_frame [simp]:
  "effects (updateRepositoryStateStatus k n q u s) = effects s"
  "mg_spec (obj (updateRepositoryStateStatus k n q u s)) = mg_spec (obj s)"
  "mg_meta (obj (updateRepositoryStateStatus k n q u s)) = mg_meta (obj s)"
  by (simp_all add: updateRepositoryStateStatus_def read_clock_def Let_def)


lemma progress_event_frame [simp]:
  "api_writes (effects (progress_event n p s)) = api_writes (effects s)"
  "mg_spec (obj (progress_event n p s)) = mg_spec (obj s)"
  by (auto simp: progress_event_def Let_def)










section \<open>Synchronising with a GitHub App\<close>

lemma sync_status_simps [simp]:
  "mst_syncStatus (mg_status (obj (set_sync_status f s))) = Some (f (sync_status_of (mg_status (obj s))))"
  "effects (set_sync_status f s) = effects s"
  by (simp_all add: set_sync_status_def)

text \<open>
  A migration whose target authenticates as a GitHub App never synchronises anything: in
  the phase Syncing, with synchronisation enabled and due, every reconciliation fails
  before any git command, counts a failure, keeps the number of successful
  synchronisations and tries again after the interval.
\<close>

theorem sync_with_app_always_fails:
  assumes app: "gh_appAuth (tgt_auth (ms_target (mg_spec (obj s)))) \<noteq> None"
    and sync: "sync_settings_of (obj s) = Some c"
    and due: "case mst_syncStatus (mg_status (obj s)) of None \<Rightarrow> True | Some x \<Rightarrow>
      (case ss_nextSyncTime x of None \<Rightarrow> True | Some t \<Rightarrow> t \<le> k_clock k (ticks s))"
    and k: "accepting k"
  shows "requeue_after (fst (fst (processSyncing k s))) = sync_interval c
    \<and> (let old = sync_status_of (mg_status (obj s)); new = sync_status_of (mg_status (stored (snd (processSyncing k s)))) in
       ss_syncCount new = ss_syncCount old \<and> ss_failedSyncCount new = ss_failedSyncCount old + 1)"
proof -
  have t: "\<exists>e. ado_getGitHubToken k (obj u) = Inl e" if "obj u = obj s" for u
    using app that by (auto simp: ado_getGitHubToken_def Let_def)
  obtain e where run: "processSyncing k s = handleSyncError k e c (snd (read_clock k s))"
  proof -
    have "run_sync k (k_clock k (ticks s)) c (snd (read_clock k s))
        = handleSyncError k e c (snd (read_clock k s)) \<or>
        (\<exists>e. run_sync k (k_clock k (ticks s)) c (snd (read_clock k s)) = handleSyncError k e c (snd (read_clock k s)))" for e
      using t [of "snd (read_clock k s)"] by (auto simp: run_sync_def split: sum.splits)
    then obtain e where "run_sync k (k_clock k (ticks s)) c (snd (read_clock k s))
        = handleSyncError k e c (snd (read_clock k s))" by blast
    moreover have "processSyncing k s = run_sync k (k_clock k (ticks s)) c (snd (read_clock k s))"
      using sync due by (auto simp: processSyncing_def read_clock_def split: option.splits)
    ultimately show thesis using that by simp
  qed
  show ?thesis
    using k by (simp add: run handleSyncError_def status_update_or_def status_update_def read_clock_def
        accepting_def Let_def after_def sync_status_of_def [of "mg_status (obj (set_sync_status f s))" for f s])
qed

definition hourly_sync :: sync_settings where
  "hourly_sync = \<lparr>sync_enabled = True, sync_intervalMinutes = 60, sync_branchFilter = [],
     sync_syncTags = False, sync_forcePush = False\<rparr>"

definition syncing_migration :: ado_migration where
  "syncing_migration = (with_auth app_auth zero_migration)\<lparr>mg_spec := (mg_spec (with_auth app_auth zero_migration))
     \<lparr>ms_settings := zero_settings\<lparr>set_sync := Some hourly_sync\<rparr>\<rparr>\<rparr>"

theorem sync_with_app_always_fails_witness:
  "requeue_after (fst (fst (processSyncing sample_ado (fetched syncing_migration)))) = hour"
proof -
  have "sync_interval hourly_sync = hour" by code_simp
  then show ?thesis
    using sync_with_app_always_fails [of "fetched syncing_migration" hourly_sync sample_ado]
    by (simp add: syncing_migration_def with_auth_def app_auth_def sync_settings_of_def hourly_sync_def
        zero_migration_def zero_migration_status_def)
qed

section \<open>Restarting\<close>

text \<open>Changing the first entry with a key is changing every entry with it, when keys are distinct.\<close>

lemma update_first_map:
  "distinct (map key xs) \<Longrightarrow>
   (case find_index (\<lambda>x. key x = a) xs of None \<Rightarrow> xs | Some i \<Rightarrow> xs[i := f (xs ! i)])
   = map (\<lambda>x. if key x = a then f x else x) xs"
proof (induction xs)
  case (Cons x xs)
  show ?case
  proof (cases "key x = a")
    case True
    with Cons.prems have "a \<notin> key ` set xs" by auto
    then have "map (\<lambda>x. if key x = a then f x else x) xs = xs"
      by (induction xs) auto
    with True show ?thesis by simp
  next
    case False
    with Cons show ?thesis by (simp split: option.splits)
  qed
qed simp

lemma find_None_key: "a \<notin> key ` set xs \<Longrightarrow> find (\<lambda>x. key x = a) xs = None"
  by (induction xs) auto

lemma find_map_same_key:
  "(\<And>x. key (f x) = key x) \<Longrightarrow> find (\<lambda>x. key x = a) (map f xs) = map_option f (find (\<lambda>x. key x = a) xs)"
  by (induction xs) auto

definition skipped :: "resource_migration_status \<Rightarrow> resource_migration_status" where
  "skipped x = x\<lparr>rs_status := StatusSkipped, rs_errorMessage := ''Resource removed from spec''\<rparr>"

definition requeued :: "migration_resource \<Rightarrow> resource_migration_status \<Rightarrow> resource_migration_status" where
  "requeued r x = x\<lparr>rs_status := StatusPending, rs_targetName := res_targetName r, rs_sourceName := res_sourceName r,
     rs_type := res_type r, rs_progress := 0, rs_errorMessage := ''Resource modified - queued for re-migration'',
     rs_gitHubURL := [], rs_repositoryURL := []\<rparr>"

lemma changed_keys [simp]:
  "rs_resourceID (skipped x) = rs_resourceID x" "rs_resourceID (requeued r x) = rs_resourceID x"
  "rs_status (skipped x) = StatusSkipped" "rs_status (requeued r x) = StatusPending"
  "rs_sourceName (requeued r x) = res_sourceName r" "rs_targetName (requeued r x) = res_targetName r"
  "rs_type (requeued r x) = res_type r"
  by (simp_all add: skipped_def requeued_def)

definition status_ids :: "ado_migration_status \<Rightarrow> string list" where
  "status_ids st = map rs_resourceID (mst_resourceStatuses st)"

definition status_of :: "ado_migration_status \<Rightarrow> string \<Rightarrow> resource_migration_status option" where
  "status_of st rid = find (\<lambda>x. rs_resourceID x = rid) (mst_resourceStatuses st)"

lemma skip_removed_statuses:
  assumes "distinct (status_ids st)"
  shows "mst_resourceStatuses (skip_removed rid st)
    = map (\<lambda>x. if rs_resourceID x = rid then skipped x else x) (mst_resourceStatuses st)"
  using update_first_map [where key = rs_resourceID and xs = "mst_resourceStatuses st" and a = rid and f = skipped] assms
  by (simp add: skip_removed_def status_ids_def Let_def skipped_def split: option.splits)

lemma reset_modified_statuses:
  assumes "distinct (status_ids st)"
  shows "mst_resourceStatuses (reset_modified r st)
    = map (\<lambda>x. if rs_resourceID x = res_sourceID r then requeued r x else x) (mst_resourceStatuses st)"
  using update_first_map [where key = rs_resourceID and xs = "mst_resourceStatuses st" and a = "res_sourceID r" and f = "requeued r"] assms
  by (simp add: reset_modified_def status_ids_def Let_def requeued_def split: option.splits)

lemma map_same_ids:
  "(\<And>x. rs_resourceID (f x) = rs_resourceID x) \<Longrightarrow> mst_resourceStatuses st' = map f (mst_resourceStatuses st)
   \<Longrightarrow> status_ids st' = status_ids st \<and> status_of st' rid = map_option f (status_of st rid)"
  by (simp add: status_ids_def status_of_def find_map_same_key comp_def)

lemma find_key: "find (\<lambda>x. key x = a) xs = Some x \<Longrightarrow> key x = a"
  by (induction xs) (auto split: if_splits)

lemma skip_removed_look:
  assumes "distinct (status_ids st)"
  shows "status_ids (skip_removed rid st) = status_ids st"
    and "status_of (skip_removed rid st) a = map_option (\<lambda>x. if a = rid then skipped x else x) (status_of st a)"
  using map_same_ids [of "\<lambda>x. if rs_resourceID x = rid then skipped x else x", OF _ skip_removed_statuses [OF assms]]
  by (auto simp: status_of_def intro!: option.map_cong0 dest!: find_key split: option.splits)

lemma reset_modified_look:
  assumes "distinct (status_ids st)"
  shows "status_ids (reset_modified r st) = status_ids st"
    and "status_of (reset_modified r st) a = map_option (\<lambda>x. if a = res_sourceID r then requeued r x else x) (status_of st a)"
  using map_same_ids [of "\<lambda>x. if rs_resourceID x = res_sourceID r then requeued r x else x", OF _ reset_modified_statuses [OF assms]]
  by (auto simp: status_of_def intro!: option.map_cong0 dest!: find_key split: option.splits)

lemma skip_all_look:
  "distinct (status_ids st) \<Longrightarrow> status_ids (fold skip_removed rids st) = status_ids st
   \<and> status_of (fold skip_removed rids st) a = map_option (\<lambda>x. if a \<in> set rids then skipped x else x) (status_of st a)"
proof (induction rids arbitrary: st)
  case (Cons rid rids)
  have "skipped (skipped x) = skipped x" for x by (simp add: skipped_def)
  with Cons skip_removed_look [OF Cons.prems, of rid] show ?case
    by (auto simp: option.map_comp comp_def intro!: option.map_cong0)
qed (simp add: option.map_ident)

lemma reset_all_look:
  "distinct (status_ids st) \<Longrightarrow> distinct (map res_sourceID rs) \<Longrightarrow>
   status_ids (fold reset_modified rs st) = status_ids st
   \<and> status_of (fold reset_modified rs st) a = map_option (\<lambda>x. case find (\<lambda>r. res_sourceID r = a) rs of
        None \<Rightarrow> x | Some r \<Rightarrow> requeued r x) (status_of st a)"
proof (induction rs arbitrary: st)
  case (Cons r rs)
  have "find (\<lambda>x. res_sourceID x = res_sourceID r) rs = None" using Cons.prems(2) by (simp add: find_None_key)
  with Cons reset_modified_look [OF Cons.prems(1), of r] show ?case
    by (auto simp: option.map_comp comp_def intro!: option.map_cong0)
qed (simp add: option.map_ident)

lemma find_rev_distinct:
  "distinct (map key xs) \<Longrightarrow> find (\<lambda>x. key x = a) (rev xs) = find (\<lambda>x. key x = a) xs"
proof (induction xs)
  case (Cons x xs)
  then have "key x = a \<Longrightarrow> find (\<lambda>x. key x = a) xs = None" by (intro find_None_key) auto
  with Cons show ?case by (auto simp: find_append split: option.splits)
qed simp

lemma find_distinct_mem:
  "distinct (map key xs) \<Longrightarrow> x \<in> set xs \<Longrightarrow> find (\<lambda>y. key y = key x) xs = Some x"
  by (induction xs) force+

lemma find_filter_key:
  assumes "distinct (map key xs)" and "x \<in> set xs"
  shows "find (\<lambda>y. key y = key x) (filter P xs) = (if P x then Some x else None)"
proof (cases "P x")
  case True
  have "distinct (map key (filter P xs))" using assms(1) by (rule distinct_map_filter)
  with True assms(2) show ?thesis by (simp add: find_distinct_mem)
next
  case False
  with assms have "\<forall>y \<in> set (filter P xs). key y \<noteq> key x"
    by (auto simp: distinct_map dest: inj_onD)
  with False show ?thesis by (simp add: find_None_iff)
qed

lemma find_pending: "find (\<lambda>x. rs_resourceID x = a) (map pending_status rs)
  = map_option pending_status (find (\<lambda>r. res_sourceID r = a) rs)"
  by (induction rs) auto

text \<open>The status of an ID after a restart, as a function of the one before and the specification.\<close>

lemma apply_changes_look:
  assumes ids: "distinct (status_ids (mg_status m))" and srcs: "distinct (map res_sourceID (ms_resources (mg_spec m)))"
  shows "status_of (apply_changes m (mg_status m)) a =
    (case status_of (mg_status m) a of
       None \<Rightarrow> map_option pending_status (find (\<lambda>r. res_sourceID r = a) (newResources m))
     | Some x \<Rightarrow> Some (case find (\<lambda>r. res_sourceID r = a) (modifiedResources m) of
         Some r \<Rightarrow> requeued r (if a \<in> set (removedResourceIDs m) then skipped x else x)
       | None \<Rightarrow> if a \<in> set (removedResourceIDs m) then skipped x else x))"
proof -
  let ?st1 = "fold skip_removed (removedResourceIDs m) (mg_status m)"
  let ?st2 = "fold reset_modified (modifiedResources m) ?st1"
  have mods: "distinct (map res_sourceID (modifiedResources m))"
    using srcs by (simp add: modifiedResources_def distinct_map_filter)
  have d1: "distinct (status_ids ?st1)" using skip_all_look [OF ids] ids by simp
  have st2: "status_of ?st2 a = map_option (\<lambda>x. case find (\<lambda>r. res_sourceID r = a) (modifiedResources m) of
      None \<Rightarrow> x | Some r \<Rightarrow> requeued r x)
      (map_option (\<lambda>x. if a \<in> set (removedResourceIDs m) then skipped x else x) (status_of (mg_status m) a))"
    using reset_all_look [OF d1 mods, of a] skip_all_look [OF ids, of "removedResourceIDs m" a] by simp
  have "status_of (apply_changes m (mg_status m)) a
    = (case status_of ?st2 a of Some x \<Rightarrow> Some x | None \<Rightarrow> map_option pending_status (find (\<lambda>r. res_sourceID r = a) (newResources m)))"
    by (simp add: apply_changes_def Let_def status_of_def find_append find_pending split: option.splits)
  then show ?thesis unfolding st2 by (cases "status_of (mg_status m) a") (auto split: option.splits)
qed

text \<open>
  After a restart for a changed specification every resource of the specification has a
  status under its ID, with its names and type: Pending for a new or modified one, and the
  status it had for an unchanged one (so a failed resource stays failed). A recorded resource
  that is no longer in the specification is Skipped, and no other IDs appear. (IDs are distinct;
  the CRD does not enforce it.)
\<close>

theorem restart_resource_statuses:
  fixes m :: ado_migration
  defines "old \<equiv> status_of (mg_status m)" and "new \<equiv> status_of (apply_changes m (mg_status m))"
  assumes ids: "distinct (status_ids (mg_status m))" and srcs: "distinct (map res_sourceID (ms_resources (mg_spec m)))"
  shows "(\<forall>r \<in> set (ms_resources (mg_spec m)). \<exists>x. new (res_sourceID r) = Some x
      \<and> rs_sourceName x = res_sourceName r \<and> rs_targetName x = res_targetName r \<and> rs_type x = res_type r
      \<and> (if old (res_sourceID r) = None \<or> is_modified m r then rs_status x = StatusPending
         else old (res_sourceID r) = Some x))
    \<and> (\<forall>a. a \<notin> res_sourceID ` set (ms_resources (mg_spec m)) \<longrightarrow>
         map_option rs_status (new a) = map_option (\<lambda>x. StatusSkipped) (old a))"
proof (intro conjI ballI allI impI)
  let ?rs = "ms_resources (mg_spec m)"
  note look = apply_changes_look [OF ids srcs]
  have existing: "existing_status m a = old a" for a
    using find_rev_distinct [of rs_resourceID "mst_resourceStatuses (mg_status m)" a] ids
    by (simp add: existing_status_def old_def status_of_def status_ids_def)
  {
    fix r assume r: "r \<in> set ?rs"
    then have kept: "res_sourceID r \<notin> set (removedResourceIDs m)" by (auto simp: removedResourceIDs_def)
    have find_new: "find (\<lambda>x. res_sourceID x = res_sourceID r) (newResources m)
        = (if old (res_sourceID r) = None then Some r else None)"
      unfolding newResources_def existing using find_filter_key [OF srcs r] by simp
    have find_mod: "find (\<lambda>x. res_sourceID x = res_sourceID r) (modifiedResources m)
        = (if is_modified m r then Some r else None)"
      unfolding modifiedResources_def by (rule find_filter_key [OF srcs r])
    show "\<exists>x. new (res_sourceID r) = Some x
      \<and> rs_sourceName x = res_sourceName r \<and> rs_targetName x = res_targetName r \<and> rs_type x = res_type r
      \<and> (if old (res_sourceID r) = None \<or> is_modified m r then rs_status x = StatusPending
         else old (res_sourceID r) = Some x)"
    proof (cases "old (res_sourceID r)")
      case None
      then show ?thesis using look [of "res_sourceID r"] find_new by (simp add: new_def old_def)
    next
      case (Some x)
      then show ?thesis using look [of "res_sourceID r"] find_mod kept existing [of "res_sourceID r"]
        by (auto simp: new_def old_def is_modified_def)
    qed
  }
  fix a assume a: "a \<notin> res_sourceID ` set ?rs"
  then have "find (\<lambda>r. res_sourceID r = a) (newResources m) = None" "find (\<lambda>r. res_sourceID r = a) (modifiedResources m) = None"
    by (auto simp: newResources_def modifiedResources_def intro!: find_None_key)
  moreover have "old a \<noteq> None \<Longrightarrow> a \<in> set (removedResourceIDs m)"
    using a by (auto simp: removedResourceIDs_def old_def status_of_def find_Some_iff dest!: find_key intro!: rev_image_eqI)
  ultimately show "map_option rs_status (new a) = map_option (\<lambda>x. StatusSkipped) (old a)"
    using look [of a] by (auto simp: new_def old_def split: option.splits)
qed

theorem restart_resource_statuses_witness:
  "\<exists>x. status_of (apply_changes with_failed_repo (mg_status with_failed_repo)) ''1'' = Some x \<and> rs_status x = StatusPending"
proof -
  have "sample_repo \<in> set (ms_resources (mg_spec with_failed_repo))" "is_modified with_failed_repo sample_repo"
    "distinct (status_ids (mg_status with_failed_repo))" "distinct (map res_sourceID (ms_resources (mg_spec with_failed_repo)))"
    by (simp_all add: with_failed_repo_def with_auth_def running_migration_def is_modified_def existing_status_def
        failed_repo_status_def zero_resource_status_def status_ids_def sample_repo_def)
  then show ?thesis
    using restart_resource_statuses [of with_failed_repo] by (auto simp: sample_repo_def)
qed

end
