(* ===== verification/MonoService.thy ===== *)
theory MonoService
  imports RepoMigration Errors
begin

text \<open>
  \<open>api/v1/monorepomigration_types.go\<close> and \<open>internal/services/monorepo_migration.go\<close>: the types of
  a MonoRepoMigration, and the operations that clone a source repository, rewrite its history
  into a subdirectory, initialise the monorepo, merge a rewritten repository into it and push
  the result.

  The outside is \<open>git_env\<close> as for a single repository, with three additions (\<open>mono_git\<close>): whether a
  path exists, and the numbers of tags and commits and the size that \<open>analyzeRepository\<close> finds. A path
  that the code formats with \<open>Sprintf\<close> or \<open>+\<close> is kept as its text. Log messages are not modelled.
  \<open>MigrateMonoRepo\<close> (the whole migration in one call) and \<open>CheckDiskSpace\<close> are called by nothing and
  are left out.
\<close>

section \<open>Types\<close>

datatype mono_phase =
    MonoUnset | MonoPending | MonoValidating | MonoCloning | MonoRewriting | MonoMerging | MonoPushing
  | MonoCompleted | MonoFailed | MonoCancelled | MonoPaused

datatype mono_repo_phase =
    MrPending | MrCloning | MrRewriting | MrMerging | MrCompleted | MrFailed | MrSkipped

record mono_source_config =
  msc_organization :: string
  msc_project :: string
  msc_auth :: ado_auth_config
  msc_apiURL :: string

record mono_target_config =
  mtc_owner :: string
  mtc_repository :: string
  mtc_visibility :: string
  mtc_auth :: github_auth_config
  mtc_apiURL :: string
  mtc_defaultBranch :: string

record mono_source_repo =
  msr_name :: string
  msr_subdirectoryName :: string
  msr_includeBranches :: "string list"
  msr_excludeBranches :: "string list"
  msr_defaultBranch :: string
  msr_priority :: int

record mono_settings =
  mset_retryAttempts :: int
  mset_continueOnError :: "bool option"
  mset_cleanupBetweenRepos :: "bool option"
  mset_parallelClones :: int
  mset_cloneDepth :: int
  mset_diskSpaceLimitMB :: int
  mset_rateLimit :: "rate_limit_settings option"

definition GetContinueOnError :: "mono_settings \<Rightarrow> bool" where
  "GetContinueOnError s = (case mset_continueOnError s of None \<Rightarrow> True | Some b \<Rightarrow> b)"

definition GetCleanupBetweenRepos :: "mono_settings \<Rightarrow> bool" where
  "GetCleanupBetweenRepos s = (case mset_cleanupBetweenRepos s of None \<Rightarrow> True | Some b \<Rightarrow> b)"

definition GetParallelClones :: "mono_settings \<Rightarrow> int" where
  "GetParallelClones s =
     (if mset_parallelClones s \<le> 0 then 3 else if mset_parallelClones s > 10 then 10 else mset_parallelClones s)"

lemma GetParallelClones_range: "1 \<le> GetParallelClones s" "GetParallelClones s \<le> 10"
  by (simp_all add: GetParallelClones_def)

record mono_spec =
  mono_source :: mono_source_config
  mono_target :: mono_target_config
  mono_sourceRepos :: "mono_source_repo list"
  mono_settings :: mono_settings

record mono_repo_status =
  mrs_name :: string
  mrs_subdirectoryName :: string
  mrs_phase :: mono_repo_phase
  mrs_defaultBranch :: string
  mrs_branchesMigrated :: int
  mrs_tagsMigrated :: int
  mrs_commitCount :: int
  mrs_sizeMB :: int
  mrs_startTime :: "instant option"
  mrs_completionTime :: "instant option"
  mrs_errorMessage :: string

record mono_progress =
  mp_totalRepos :: int
  mp_completedRepos :: int
  mp_failedRepos :: int
  mp_skippedRepos :: int
  mp_percentage :: int
  mp_currentStep :: string
  mp_progressSummary :: string

record mono_statistics =
  mt_duration :: duration
  mt_totalCommits :: int
  mt_totalBranches :: int
  mt_totalTags :: int
  mt_totalSizeMB :: int

record mono_status =
  mns_phase :: mono_phase
  mns_conditions :: "condition list"
  mns_startTime :: "instant option"
  mns_completionTime :: "instant option"
  mns_repoStatuses :: "mono_repo_status list"
  mns_progress :: mono_progress
  mns_errorMessage :: string
  mns_warnings :: "string list"
  mns_statistics :: "mono_statistics option"
  mns_lastReconcileTime :: "instant option"
  mns_observedGeneration :: int
  mns_monoRepoURL :: string

record mono =
  mn_meta :: object_meta
  mn_spec :: mono_spec
  mn_status :: mono_status

section \<open>The outside\<close>

record mono_git = git_env +
  gm_exists :: "io_action list \<Rightarrow> path \<Rightarrow> bool"
  gm_info :: "io_action list \<Rightarrow> path \<Rightarrow> int \<times> int \<times> int" \<comment> \<open>tags, commits, size in MB\<close>

text \<open>The functions of \<open>RepoMigration\<close> take the part they know.\<close>

abbreviation plain_git :: "mono_git \<Rightarrow> git_env" where
  "plain_git \<equiv> git_env.truncate"

abbreviation mono_run_git :: "mono_git \<Rightarrow> git_arg list \<Rightarrow> io_state \<Rightarrow> (string \<times> go_error option) \<times> io_state" where
  "mono_run_git g \<equiv> run_git (plain_git g)"

definition in_repo :: "path \<Rightarrow> git_arg list" where
  "in_repo dir = [Text ''-C'', At dir]"

section \<open>Cloning a source repository\<close>

record clone_result =
  cr_defaultBranch :: string
  cr_branches :: int
  cr_tags :: int
  cr_commits :: int
  cr_sizeMB :: int

definition clone_dir :: "string \<Rightarrow> string \<Rightarrow> path" where
  "clone_dir workDir repoName = JoinPath [workDir, ''repos'', repoName]"

definition CloneMonoRepoSource ::
  "mono_git \<Rightarrow> string \<Rightarrow> string \<Rightarrow> string \<Rightarrow> string \<Rightarrow> string \<Rightarrow> int \<Rightarrow> io_state
   \<Rightarrow> (go_error + clone_result) \<times> io_state" where
  "CloneMonoRepoSource g sourceOrg sourceProject repoName adoToken workDir depth s =
     (let adoURL = ''https://dev.azure.com/'' @ sourceOrg @ ''/'' @ sourceProject @ ''/_git/'' @ repoName;
          cloneDir = clone_dir workDir repoName in
      and_then (wrapped (''failed to clone repo '' @ repoName)
                  (cloneRepository (plain_git g) adoURL cloneDir adoToken depth s))
        (\<lambda>_ s. let defaultBranch = (case detectDefaultBranch (plain_git g) cloneDir s of Inl _ \<Rightarrow> ''main'' | Inr b \<Rightarrow> b) in
           (Inr (case analyzeRepository (plain_git g) cloneDir s of
                   Inl _ \<Rightarrow> \<lparr>cr_defaultBranch = defaultBranch, cr_branches = 0, cr_tags = 0, cr_commits = 0, cr_sizeMB = 0\<rparr>
                 | Inr branches \<Rightarrow>
                     (case gm_info g (io_trace s) cloneDir of (tags, commits, sizeMB) \<Rightarrow>
                      \<lparr>cr_defaultBranch = defaultBranch, cr_branches = int (length branches), cr_tags = tags,
                       cr_commits = commits, cr_sizeMB = sizeMB\<rparr>)), s)))"

section \<open>Rewriting into a subdirectory\<close>

record rewrite_result =
  rw_branches :: "string list"
  rw_tags :: "string list"
  rw_commitCount :: int

definition output_lines :: "string \<Rightarrow> string list" where
  "output_lines output = split_on newline (trim is_space output)"

definition listed_branches :: "string \<Rightarrow> string list" where
  "listed_branches output =
     filter (\<lambda>b. b \<noteq> []) (map (\<lambda>line. trim is_space (trim_prefix line ''* '')) (output_lines output))"

definition listed_tags :: "string \<Rightarrow> string list" where
  "listed_tags output = filter (\<lambda>t. t \<noteq> []) (map (trim is_space) (output_lines output))"

text \<open>\<open>fmt.Sscanf(text, "%d", &n)\<close> on what \<open>git rev-list --count\<close> prints: the leading digits, or nothing.\<close>

definition leading_number :: "string \<Rightarrow> int" where
  "leading_number s = foldl (\<lambda>n c. 10 * n + (of_char c - 48)) 0 (takeWhile is_digit (trim is_space s))"

definition collect_refs :: "mono_git \<Rightarrow> path \<Rightarrow> io_state \<Rightarrow> (string list \<times> string list) \<times> io_state" where
  "collect_refs g dir s =
     (case mono_run_git g (in_repo dir @ map Text [''branch'', ''--list'', ''--no-color'']) s of ((out1, err1), s) \<Rightarrow>
      case mono_run_git g (in_repo dir @ map Text [''tag'', ''--list'']) s of ((out2, err2), s) \<Rightarrow>
        ((if err1 = None then listed_branches out1 else [], if err2 = None then listed_tags out2 else []), s))"

definition collect_stats :: "mono_git \<Rightarrow> path \<Rightarrow> io_state \<Rightarrow> rewrite_result \<times> io_state" where
  "collect_stats g dir s =
     (case collect_refs g dir s of ((branches, tags), s) \<Rightarrow>
      case mono_run_git g (in_repo dir @ map Text [''rev-list'', ''--count'', ''--all'']) s of ((out, err), s) \<Rightarrow>
        (\<lparr>rw_branches = branches, rw_tags = tags, rw_commitCount = (if err = None then leading_number out else 0)\<rparr>, s))"

definition failed_git :: "string \<Rightarrow> go_error \<Rightarrow> string \<Rightarrow> go_error" where
  "failed_git what err output = PlainError (what @ '': '' @ err_text err @ '' (output: '' @ output @ '')'')"

text \<open>The working copy: removed if it is a partial one, cloned, all branches fetched, filtered.\<close>

definition make_working_copy :: "mono_git \<Rightarrow> string \<Rightarrow> string \<Rightarrow> io_state \<Rightarrow> (go_error + unit) \<times> io_state" where
  "make_working_copy g bareCloneDir subdirName s =
     (let working = PathText (bareCloneDir @ ''-work'');
          s = (if gm_exists g (io_trace s) working then act (RemoveAll working) s else s) in
      case mono_run_git g [Text ''clone'', At (PathText bareCloneDir), At working] s of
        ((output, Some err), s) \<Rightarrow> (Inl (failed_git ''failed to create working copy'' err output), s)
      | ((output, None), s) \<Rightarrow>
          (let s = snd (mono_run_git g (in_repo working
                     @ map Text [''fetch'', ''origin'', ''+refs/heads/*:refs/heads/*'']) s) in
           case mono_run_git g (in_repo working
                  @ map Text [''filter-repo'', ''--to-subdirectory-filter'', subdirName @ ''/'', ''--force'']) s of
             ((output, Some err), s) \<Rightarrow> (Inl (failed_git (''git-filter-repo failed for '' @ subdirName) err output), s)
           | ((output, None), s) \<Rightarrow> (Inr (), s)))"

definition RewriteRepoToSubdirectory ::
  "mono_git \<Rightarrow> string \<Rightarrow> string \<Rightarrow> bool \<Rightarrow> io_state \<Rightarrow> (go_error + rewrite_result) \<times> io_state" where
  "RewriteRepoToSubdirectory g bareCloneDir subdirName cleanupBareClone s =
     (let workingDir = bareCloneDir @ ''-work'' in
      and_then (if gm_exists g (io_trace s) (JoinPath [workingDir, subdirName]) then (Inr (), s)
                else make_working_copy g bareCloneDir subdirName s)
        (\<lambda>_ s. case collect_stats g (PathText workingDir) s of (result, s) \<Rightarrow>
           (Inr result, if cleanupBareClone then act (RemoveAll (PathText bareCloneDir)) s else s)))"

section \<open>Assembling the monorepo\<close>

definition check_git :: "string \<Rightarrow> (string \<times> go_error option) \<times> io_state \<Rightarrow> (go_error + unit) \<times> io_state" where
  "check_git what r = (case r of
     ((output, Some err), s) \<Rightarrow> (Inl (failed_git what err output), s) | ((output, None), s) \<Rightarrow> (Inr (), s))"

definition mono_dir :: "string \<Rightarrow> path" where
  "mono_dir workDir = JoinPath [workDir, ''monorepo'']"

definition InitMonoRepo :: "mono_git \<Rightarrow> string \<Rightarrow> string \<Rightarrow> io_state \<Rightarrow> (go_error + unit) \<times> io_state" where
  "InitMonoRepo g workDir defaultBranch s =
     (let dir = mono_dir workDir; git = (\<lambda>args. mono_run_git g (in_repo dir @ map Text args)) in
      and_then (wrapped ''failed to create monorepo directory'' (make_dir (plain_git g) dir s)) (\<lambda>_ s.
      and_then (check_git ''git init failed'' (git [''init'', ''--initial-branch'', defaultBranch] s)) (\<lambda>_ s.
      and_then (check_git ''git config failed'' (git [''config'', ''user.email'', ''migration@ado-to-git-migration.io''] s)) (\<lambda>_ s.
      and_then (check_git ''git config failed'' (git [''config'', ''user.name'', ''ADO Migration Operator''] s)) (\<lambda>_ s.
        check_git ''initial commit failed'' (git [''commit'', ''--allow-empty'', ''-m'', ''Initialize monorepo''] s))))))"

text \<open>
  \<open>MergeRepoIntoMonoRepo(..., excludeBranches ...[]string)\<close>: only the first of the pattern lists is
  read. \<open>name\<close> is the name of the repository, of the remote, and the prefix.
\<close>

definition branches_to_merge :: "string list \<Rightarrow> string \<Rightarrow> string list list \<Rightarrow> string list" where
  "branches_to_merge branches defaultBranch excludeBranches = (case excludeBranches of
     [] \<Rightarrow> branches
   | patterns # _ \<Rightarrow> if patterns \<noteq> [] then FilterBranches branches [] patterns defaultBranch else branches)"

definition ref_commands :: "string \<Rightarrow> string \<Rightarrow> string list \<Rightarrow> string list \<Rightarrow> string list list" where
  "ref_commands name defaultBranch branches tags =
     map (\<lambda>b. [''branch'', name @ ''/'' @ b, name @ ''/'' @ b]) (filter (\<lambda>b. b \<noteq> defaultBranch) branches)
     @ map (\<lambda>t. [''tag'', name @ ''/'' @ t, name @ ''/'' @ t]) tags"

definition MergeRepoIntoMonoRepo ::
  "mono_git \<Rightarrow> path \<Rightarrow> path \<Rightarrow> string \<Rightarrow> string \<Rightarrow> string list \<times> string list \<Rightarrow> string list list \<Rightarrow> io_state
   \<Rightarrow> (go_error + unit) \<times> io_state" where
  "MergeRepoIntoMonoRepo g monoRepoDir rewrittenRepoDir repoName defaultBranch refs excludeBranches s =
     (let git = (\<lambda>args s. mono_run_git g (in_repo monoRepoDir @ args) s) in
      and_then (check_git (''failed to add remote '' @ repoName)
                  (git [Text ''remote'', Text ''add'', Text repoName, At rewrittenRepoDir] s)) (\<lambda>_ s.
      and_then (check_git (''failed to fetch from '' @ repoName) (git [Text ''fetch'', Text repoName] s)) (\<lambda>_ s.
      and_then (check_git (''failed to merge '' @ repoName)
                  (git (map Text [''merge'', ''--allow-unrelated-histories'', ''--no-edit'', ''-m'',
                     ''Merge '' @ repoName @ '' into monorepo'', repoName @ ''/'' @ defaultBranch]) s)) (\<lambda>_ s.
        let s = fold (\<lambda>args s. snd (git (map Text args) s))
                  (ref_commands repoName defaultBranch (branches_to_merge (fst refs) defaultBranch excludeBranches) (snd refs)) s
        in (Inr (), snd (git (map Text [''remote'', ''remove'', repoName]) s))))))"

definition push_error_of :: "string \<Rightarrow> string \<Rightarrow> go_error \<Rightarrow> string \<Rightarrow> go_error" where
  "push_error_of owner repo err output =
     (if push_blocked output
      then PlainError (''push blocked by GitHub repository rulesets for '' @ owner @ ''/'' @ repo @ '': ''
        @ err_text err @ newline # ''Output: '' @ output)
      else failed_git ''git push branches failed'' err output)"

definition PushMonoRepo ::
  "mono_git \<Rightarrow> path \<Rightarrow> string \<Rightarrow> string \<Rightarrow> string \<Rightarrow> string \<Rightarrow> io_state \<Rightarrow> (go_error + unit) \<times> io_state" where
  "PushMonoRepo g monoRepoDir githubToken owner repo defaultBranch s =
     (let url = ''https://x-access-token:'' @ githubToken @ ''@github.com/'' @ owner @ ''/'' @ repo @ ''.git'';
          git = (\<lambda>args. mono_run_git g (in_repo monoRepoDir @ map Text args)) in
      and_then (check_git ''failed to add origin remote'' (git [''remote'', ''add'', ''origin'', url] s)) (\<lambda>_ s.
        case git [''push'', ''--all'', ''origin''] s of
          ((output, Some err), s) \<Rightarrow> (Inl (push_error_of owner repo err output), s)
        | ((_, None), s) \<Rightarrow>
            and_then (check_git ''git push tags failed'' (git [''push'', ''--tags'', ''origin''] s))
              (\<lambda>_ s. (Inr (), act (SetDefault owner repo defaultBranch) s))))"

section \<open>Validation\<close>

record service_validation_error =
  sve_code :: string
  sve_message :: string
  sve_field :: string
  sve_resource :: string

record service_validation =
  sv_valid :: bool
  sv_errors :: "service_validation_error list"
  sv_warnings :: "service_validation_error list"

definition issue :: "string \<Rightarrow> string \<Rightarrow> string \<Rightarrow> string \<Rightarrow> service_validation_error" where
  "issue code message field resource =
     \<lparr>sve_code = code, sve_message = message, sve_field = field, sve_resource = resource\<rparr>"

definition subdir_of :: "mono_source_repo \<Rightarrow> string" where
  "subdir_of repo = (if msr_subdirectoryName repo = [] then msr_name repo else msr_subdirectoryName repo)"

definition quoted :: "string \<Rightarrow> string" where
  "quoted s = [CHR 0x27] @ s @ [CHR 0x27]"

text \<open>One source repository: the errors and the names of the subdirectories seen so far.\<close>

definition validate_repo ::
  "nat \<times> mono_source_repo \<Rightarrow> (string \<rightharpoonup> string) \<times> service_validation_error list
   \<Rightarrow> (string \<rightharpoonup> string) \<times> service_validation_error list" where
  "validate_repo = (\<lambda>(i, repo) (subdirNames, errors).
     if msr_name repo = []
     then (subdirNames, errors @ [issue ''MISSING_REPO_NAME'' ''Source repository name is required''
             (''spec.sourceRepos['' @ fmt_d (int i) @ ''].name'') (msr_name repo)])
     else let subdirName = subdir_of repo in
       (subdirNames(subdirName \<mapsto> msr_name repo),
        (case subdirNames subdirName of
           None \<Rightarrow> errors
         | Some existingRepo \<Rightarrow> errors @ [issue ''DUPLICATE_SUBDIR''
             (''Subdirectory name '' @ quoted subdirName @ '' is used by both '' @ quoted existingRepo @ '' and ''
                @ quoted (msr_name repo))
             (''spec.sourceRepos['' @ fmt_d (int i) @ ''].subdirectoryName'') (msr_name repo)])))"

text \<open>\<open>has_filter_repo\<close>: whether \<open>git-filter-repo\<close> is installed.\<close>

definition ValidateMonoRepoMigration :: "bool \<Rightarrow> mono \<Rightarrow> service_validation" where
  "ValidateMonoRepoMigration has_filter_repo m =
     (let spec = mn_spec m;
          required = (\<lambda>value code message field. if value = [] then [issue code message field []] else []);
          errors = required (msc_organization (mono_source spec)) ''MISSING_ORGANIZATION''
                     ''Source organization is required'' ''spec.source.organization''
            @ required (msc_project (mono_source spec)) ''MISSING_PROJECT''
                ''Source project is required'' ''spec.source.project''
            @ required (mtc_owner (mono_target spec)) ''MISSING_TARGET_OWNER''
                ''Target owner is required'' ''spec.target.owner''
            @ required (mtc_repository (mono_target spec)) ''MISSING_TARGET_REPO''
                ''Target repository name is required'' ''spec.target.repository''
            @ (if mono_sourceRepos spec = [] then [issue ''NO_SOURCE_REPOS''
                 ''At least one source repository is required'' ''spec.sourceRepos'' []] else []);
          errors = snd (fold validate_repo (enumerate 0 (mono_sourceRepos spec)) (Map.empty, errors));
          warnings = (if has_filter_repo then [] else [issue ''MISSING_FILTER_REPO''
            ''git-filter-repo is not installed - required for monorepo migration'' ''runtime'' []])
      in \<lparr>sv_valid = (errors = []), sv_errors = errors, sv_warnings = warnings\<rparr>)"

end
