(* ===== verification/MonoController.thy ===== *)
theory MonoController
  imports MonoService AdoAuth
begin

text \<open>
  \<open>internal/controller/monorepomigration_controller.go\<close>: the handlers of the MonoRepoMigration
  controller. A state carries, beside the object and the server's copy, what was done with git
  and the file system so far and the controller's in-memory map of workspaces, which outlive a
  reconciliation (\<open>mono_state\<close>).

  Parameters (\<open>mono_env\<close>): the API server and the clock, the git world, whether a path exists,
  the tokens and answers of GitHub and Azure, the order in which a sort that is not stable puts
  equal priorities, and the order in which parallel clones finish. The clones of a batch work in
  directories of their own; they are modelled one after the other in the order in which
  they finish. Metrics and log messages are not modelled.
\<close>

record mono_state = "mono rstate" +
  mn_io :: io_state
  mn_workspaces :: "string \<rightharpoonup> string"

record mono_env = "mono kube" +
  mo_git :: mono_git
  mo_sort :: "mono_source_repo list \<Rightarrow> mono_source_repo list"
  mo_finish :: "nat list \<Rightarrow> nat list"
  mo_filter_repo :: bool
  mo_exists :: "mono_state \<Rightarrow> string \<Rightarrow> string \<Rightarrow> string \<Rightarrow> go_error + bool"
  mo_create :: "mono_state \<Rightarrow> string \<Rightarrow> string \<Rightarrow> string \<Rightarrow> string \<Rightarrow> go_error option"
  mo_sp_token :: "mono_state \<Rightarrow> string \<Rightarrow> string \<Rightarrow> string \<Rightarrow> go_error + string"
  mo_app_cached :: "mono_state \<Rightarrow> nat \<Rightarrow> int \<Rightarrow> int \<Rightarrow> bool"
  mo_app_client :: "mono_state \<Rightarrow> int \<Rightarrow> int \<Rightarrow> string \<Rightarrow> go_error option"
  mo_app_token :: "mono_state \<Rightarrow> int \<Rightarrow> int \<Rightarrow> go_error + string"

section \<open>Constants and small helpers\<close>

definition monoRepoFinalizerName :: string where
  "monoRepoFinalizerName = ''migration.ado-to-git-migration.io/monorepo-finalizer''"
definition monoRepoRetryAnnotation :: string where
  "monoRepoRetryAnnotation = ''migration.ado-to-git-migration.io/retry''"
definition monoRepoPauseAnnotation :: string where
  "monoRepoPauseAnnotation = ''migration.ado-to-git-migration.io/pause''"
definition monoRepoCancelAnnotation :: string where
  "monoRepoCancelAnnotation = ''migration.ado-to-git-migration.io/cancel''"
definition monoRepoReconcileTriggerAnnotation :: string where
  "monoRepoReconcileTriggerAnnotation = ''migration.ado-to-git-migration.io/reconcile-trigger''"

definition monoRepoPendingRequeueInterval :: duration where "monoRepoPendingRequeueInterval = 5 * second"
definition monoRepoRunningRequeueInterval :: duration where "monoRepoRunningRequeueInterval = 10 * second"
definition monoRepoPausedRequeueInterval :: duration where "monoRepoPausedRequeueInterval = 60 * second"

definition on_mono :: "(mono_status \<Rightarrow> mono_status) \<Rightarrow> mono \<Rightarrow> mono" where
  "on_mono f m = m\<lparr>mn_status := f (mn_status m)\<rparr>"

definition on_mono_progress :: "(mono_progress \<Rightarrow> mono_progress) \<Rightarrow> mono \<Rightarrow> mono" where
  "on_mono_progress f = on_mono (\<lambda>st. st\<lparr>mns_progress := f (mns_progress st)\<rparr>)"

lemma on_mono_simps [simp]:
  "mn_status (on_mono f m) = f (mn_status m)" "mn_spec (on_mono f m) = mn_spec m" "mn_meta (on_mono f m) = mn_meta m"
  by (simp_all add: on_mono_def)

lemma on_mono_progress_simps [simp]:
  "mn_status (on_mono_progress f m) = (mn_status m)\<lparr>mns_progress := f (mns_progress (mn_status m))\<rparr>"
  "mn_spec (on_mono_progress f m) = mn_spec m" "mn_meta (on_mono_progress f m) = mn_meta m"
  by (simp_all add: on_mono_progress_def)

definition mono_terminal :: "mono_phase \<Rightarrow> bool" where
  "mono_terminal p \<longleftrightarrow> p = MonoCompleted \<or> p = MonoFailed \<or> p = MonoCancelled"

definition mono_step_to :: "mono_phase \<Rightarrow> string \<Rightarrow> mono_state \<Rightarrow> mono_state" where
  "mono_step_to p step = modify (on_mono (\<lambda>st. st\<lparr>mns_phase := p,
     mns_progress := (mns_progress st)\<lparr>mp_currentStep := step\<rparr>\<rparr>))"

definition set_repo :: "nat \<Rightarrow> (mono_repo_status \<Rightarrow> mono_repo_status) \<Rightarrow> mono_status \<Rightarrow> mono_status" where
  "set_repo i f st = st\<lparr>mns_repoStatuses := (mns_repoStatuses st)[i := f (mns_repoStatuses st ! i)]\<rparr>"

definition repo_at :: "mono_state \<Rightarrow> nat \<Rightarrow> mono_repo_status" where
  "repo_at s i = mns_repoStatuses (mn_status (obj s)) ! i"

definition with_io :: "(io_state \<Rightarrow> 'a \<times> io_state) \<Rightarrow> mono_state \<Rightarrow> 'a \<times> mono_state" where
  "with_io f s = (case f (mn_io s) of (x, io) \<Rightarrow> (x, s\<lparr>mn_io := io\<rparr>))"

section \<open>Workspaces\<close>

definition workspace_of :: "mono \<Rightarrow> string" where
  "workspace_of m = ''/tmp/migrations/monorepo-'' @ om_name (mn_meta m)"

definition getWorkspace :: "mono_state \<Rightarrow> string \<times> mono_state" where
  "getWorkspace s = (case mn_workspaces s (om_name (mn_meta (obj s))) of
     Some dir \<Rightarrow> (dir, s)
   | None \<Rightarrow> (workspace_of (obj s),
       s\<lparr>mn_workspaces := (mn_workspaces s)(om_name (mn_meta (obj s)) \<mapsto> workspace_of (obj s))\<rparr>))"

definition cleanupWorkspace :: "string \<Rightarrow> mono_state \<Rightarrow> mono_state" where
  "cleanupWorkspace migrationName s = (case mn_workspaces s migrationName of
     None \<Rightarrow> s
   | Some dir \<Rightarrow>
       (let s = s\<lparr>mn_workspaces := (mn_workspaces s)(migrationName := None)\<rparr> in
        if dir \<noteq> [] then s\<lparr>mn_io := act (RemoveAll (PathText dir)) (mn_io s)\<rparr> else s))"

section \<open>Progress, statistics, failure\<close>

definition count_phase :: "mono_repo_phase \<Rightarrow> mono_repo_status list \<Rightarrow> int" where
  "count_phase p rs = int (count_if (\<lambda>r. mrs_phase r = p) rs)"

definition mono_updateProgressSummary :: "mono_status \<Rightarrow> mono_status" where
  "mono_updateProgressSummary st =
     (let rs = mns_repoStatuses st;
          completed = count_phase MrCompleted rs; failed = count_phase MrFailed rs; skipped = count_phase MrSkipped rs;
          total = int (length rs);
          p = (mns_progress st)\<lparr>mp_completedRepos := completed, mp_failedRepos := failed, mp_skippedRepos := skipped,
                mp_progressSummary := fmt_d completed @ ''/'' @ fmt_d total @ '' repos''\<rparr>
      in st\<lparr>mns_progress := (if total > 0
              then p\<lparr>mp_percentage := go_div ((completed + failed + skipped) * 100) total\<rparr> else p)\<rparr>)"

definition zero_mono_statistics :: mono_statistics where
  "zero_mono_statistics = \<lparr>mt_duration = 0, mt_totalCommits = 0, mt_totalBranches = 0, mt_totalTags = 0, mt_totalSizeMB = 0\<rparr>"

text \<open>The clock is read only when there is a start time.\<close>

definition mono_updateStatistics :: "mono_env \<Rightarrow> mono_state \<Rightarrow> mono_state" where
  "mono_updateStatistics k s =
     (let s = modify (on_mono (\<lambda>st.
            let stats = (case mns_statistics st of None \<Rightarrow> zero_mono_statistics | Some x \<Rightarrow> x); rs = mns_repoStatuses st in
            st\<lparr>mns_statistics := Some (stats\<lparr>mt_totalCommits := sum_list (map mrs_commitCount rs),
                mt_totalBranches := sum_list (map mrs_branchesMigrated rs),
                mt_totalTags := sum_list (map mrs_tagsMigrated rs),
                mt_totalSizeMB := sum_list (map mrs_sizeMB rs)\<rparr>)\<rparr>)) s in
      case mns_startTime (mn_status (obj s)) of
        None \<Rightarrow> s
      | Some t \<Rightarrow>
          (case read_clock k s of (now, s) \<Rightarrow>
           modify (on_mono (\<lambda>st. st\<lparr>mns_statistics :=
             map_option (\<lambda>x. x\<lparr>mt_duration := now - t\<rparr>) (mns_statistics st)\<rparr>)) s))"

definition mono_failMigration :: "mono_env \<Rightarrow> string \<Rightarrow> mono_state \<Rightarrow> outcome \<times> mono_state" where
  "mono_failMigration k message s =
     (case read_clock k s of (now, s) \<Rightarrow>
      let s = modify (on_mono (\<lambda>st. st\<lparr>mns_phase := MonoFailed, mns_errorMessage := message,
                mns_completionTime := Some now,
                mns_progress := (mns_progress st)\<lparr>mp_currentStep := ''Migration failed''\<rparr>\<rparr>)) s;
          s = emit (Broadcast (''Migration failed: '' @ message)) s;
          s = emit (Event EventWarning ''MigrationFailed'' message) s
      in update_then k no_requeue no_requeue s)"

text \<open>The status of one repository after an error, and what \<open>handleRepoError\<close> does with the rest.\<close>

definition mark_repo_failed :: "mono_env \<Rightarrow> nat \<Rightarrow> go_error \<Rightarrow> mono_state \<Rightarrow> mono_state" where
  "mark_repo_failed k i err s =
     (case read_clock k s of (now, s) \<Rightarrow>
      modify (on_mono (\<lambda>st. (set_repo i (\<lambda>r. r\<lparr>mrs_phase := MrFailed, mrs_errorMessage := err_text err,
          mrs_completionTime := Some now\<rparr>) st)
        \<lparr>mns_progress := (mns_progress st)\<lparr>mp_failedRepos := mp_failedRepos (mns_progress st) + 1\<rparr>\<rparr>)) s)"

definition handleRepoError :: "mono_env \<Rightarrow> nat \<Rightarrow> go_error \<Rightarrow> mono_state \<Rightarrow> outcome \<times> mono_state" where
  "handleRepoError k i err s =
     (let repoName = mrs_name (repo_at s i);
          s = mark_repo_failed k i err s;
          s = emit (Event EventWarning ''RepoFailed'' (''Failed to process repo '' @ repoName @ '': '' @ err_text err)) s in
      if \<not> GetContinueOnError (mono_settings (mn_spec (obj s)))
      then mono_failMigration k (''Repo '' @ repoName @ '' failed: '' @ err_text err) s
      else
        let s = emit (Broadcast (''Repo '' @ repoName @ '' failed (continuing): '' @ err_text err)) s;
            s = modify (on_mono mono_updateProgressSummary) s
        in update_then k no_requeue (after monoRepoRunningRequeueInterval) s)"

section \<open>Secrets and tokens\<close>

definition mono_getSecretValue :: "mono_env \<Rightarrow> mono \<Rightarrow> secret_ref \<Rightarrow> go_error + string" where
  "mono_getSecretValue k m ref =
     (let ns = in_namespace (om_namespace (mn_meta m)) ref; secret = ns @ ''/'' @ sr_name ref in
      secret_key k ns (sr_name ref) (sr_key ref) (''failed to get secret '' @ secret)
        (''key '' @ sr_key ref @ '' not found in secret '' @ secret))"

definition mono_secret :: "mono_env \<Rightarrow> mono \<Rightarrow> string \<Rightarrow> secret_ref \<Rightarrow> go_error + string" where
  "mono_secret k m what ref = map_sum (wrap_err (''failed to get '' @ what)) id (mono_getSecretValue k m ref)"

definition mono_getAzureDevOpsToken :: "mono_env \<Rightarrow> mono_state \<Rightarrow> go_error + string" where
  "mono_getAzureDevOpsToken k s =
     (let m = obj s; auth = msc_auth (mono_source (mn_spec m)) in
      case ado_pat auth of
        Some pat \<Rightarrow> mono_getSecretValue k m (pat_tokenRef pat)
      | None \<Rightarrow> (case ado_servicePrincipal auth of
          Some sp \<Rightarrow>
            sum_bind (mono_secret k m ''SP client ID'' (sp_clientIDRef sp)) (\<lambda>clientID.
            sum_bind (mono_secret k m ''SP client secret'' (sp_clientSecretRef sp)) (\<lambda>clientSecret.
            sum_bind (mono_secret k m ''SP tenant ID'' (sp_tenantIDRef sp)) (\<lambda>tenantID.
              mo_sp_token k s clientID clientSecret tenantID)))
        | None \<Rightarrow> Inl (PlainError ''no Azure DevOps authentication configured'')))"

definition mono_parse_id :: "string \<Rightarrow> string \<Rightarrow> go_error + int" where
  "mono_parse_id what s = map_sum (wrap_err (''invalid GitHub '' @ what)) id (parse_int64 s)"

definition mono_getGitHubToken :: "mono_env \<Rightarrow> mono_state \<Rightarrow> go_error + string" where
  "mono_getGitHubToken k s =
     (let m = obj s; auth = mtc_auth (mono_target (mn_spec m)) in
      if gh_token auth \<noteq> [] then Inr (gh_token auth)
      else (case gh_tokenRef auth of
        Some ref \<Rightarrow> mono_getSecretValue k m ref
      | None \<Rightarrow> (case gh_appAuth auth of
          Some app \<Rightarrow>
            sum_bind (mono_secret k m ''GitHub App ID'' (app_appIdRef app)) (\<lambda>appIDStr.
            sum_bind (mono_secret k m ''GitHub Installation ID'' (app_installationIdRef app)) (\<lambda>installationIDStr.
            sum_bind (mono_parse_id ''App ID'' appIDStr) (\<lambda>appID.
            sum_bind (mono_parse_id ''Installation ID'' installationIDStr) (\<lambda>installationID.
              if mo_app_cached k s 0 appID installationID then mo_app_token k s appID installationID
              else
                sum_bind (mono_secret k m ''GitHub App private key'' (app_privateKeyRef app)) (\<lambda>privateKey.
                (case mo_app_client k s appID installationID privateKey of
                   Some err \<Rightarrow> Inl (wrap_err ''failed to initialize GitHub App client'' err)
                 | None \<Rightarrow>
                     if mo_app_cached k s 1 appID installationID then mo_app_token k s appID installationID
                     else Inl (PlainError ''failed to get GitHub App client after initialization'')))))))
        | None \<Rightarrow> Inl (PlainError ''no GitHub authentication configured''))))"

section \<open>Retry, annotations, initialisation\<close>

definition reset_repo :: "mono_repo_status \<Rightarrow> mono_repo_status" where
  "reset_repo r = (if mrs_phase r = MrFailed \<or> mrs_phase r = MrSkipped
     then r\<lparr>mrs_phase := MrPending, mrs_errorMessage := []\<rparr> else r)"

definition retryMigration :: "mono_env \<Rightarrow> mono_state \<Rightarrow> outcome \<times> mono_state" where
  "retryMigration k s =
     (let s = cleanupWorkspace (om_name (mn_meta (obj s))) s;
          s = modify (on_mono (\<lambda>st. st\<lparr>mns_phase := MonoPending, mns_errorMessage := [], mns_completionTime := None,
                mns_progress := (mns_progress st)\<lparr>mp_currentStep := ''Retrying migration''\<rparr>,
                mns_repoStatuses := map reset_repo (mns_repoStatuses st)\<rparr>)) s;
          s = emit (Event EventNormal ''MigrationRetry'' ''Migration retry initiated'') s
      in update_then k no_requeue requeue_now s)"

definition mono_on_meta :: "(object_meta \<Rightarrow> object_meta) \<Rightarrow> mono \<Rightarrow> mono" where
  "mono_on_meta f m = m\<lparr>mn_meta := f (mn_meta m)\<rparr>"

definition mono_drop_annotation :: "string \<Rightarrow> mono \<Rightarrow> mono" where
  "mono_drop_annotation key = mono_on_meta (\<lambda>om. om\<lparr>om_annotations := (om_annotations om)(key := None)\<rparr>)"

definition mono_pause :: "mono_env \<Rightarrow> mono_state \<Rightarrow> outcome \<times> mono_state" where
  "mono_pause k s =
     (if mns_phase (mn_status (obj s)) \<noteq> MonoPaused
      then (let s = mono_step_to MonoPaused ''Migration paused by user'' s;
                s = emit (Broadcast ''Migration paused'') s;
                s = emit (Event EventNormal ''MigrationPaused'' ''Migration paused by user'') s
            in update_then k no_requeue (after monoRepoPausedRequeueInterval) s)
      else ((after monoRepoPausedRequeueInterval, None), s))"

definition mono_cancel :: "mono_env \<Rightarrow> mono_state \<Rightarrow> outcome \<times> mono_state" where
  "mono_cancel k s =
     (if mns_phase (mn_status (obj s)) \<noteq> MonoCancelled
      then (let s = mono_step_to MonoCancelled ''Migration cancelled by user'' s in
            case read_clock k s of (now, s) \<Rightarrow>
            let s = modify (on_mono (\<lambda>st. st\<lparr>mns_completionTime := Some now\<rparr>)) s;
                s = emit (Broadcast ''Migration cancelled'') s;
                s = emit (Event EventWarning ''MigrationCancelled'' ''Migration cancelled by user'') s
            in update_then k no_requeue no_requeue s)
      else ((no_requeue, None), s))"

definition mono_handleAnnotations :: "mono_env \<Rightarrow> mono_state \<Rightarrow> outcome option \<times> mono_state" where
  "mono_handleAnnotations k s =
     (let annotations = om_annotations (mn_meta (obj s)) in
      if annotations monoRepoReconcileTriggerAnnotation \<noteq> None
      then (case object_update k (modify (mono_drop_annotation monoRepoReconcileTriggerAnnotation) s) of
              (Some err, s) \<Rightarrow> (Some (no_requeue, Some err), s)
            | (None, s) \<Rightarrow>
                if mono_terminal (mns_phase (mn_status (obj s))) then returned (retryMigration k s)
                else (Some (requeue_now, None), s))
      else if annotations monoRepoPauseAnnotation \<noteq> None then returned (mono_pause k s)
      else if annotations monoRepoCancelAnnotation \<noteq> None then returned (mono_cancel k s)
      else if annotations monoRepoRetryAnnotation \<noteq> None
      then (case object_update k (modify (mono_drop_annotation monoRepoRetryAnnotation) s) of
              (Some err, s) \<Rightarrow> (Some (no_requeue, Some err), s)
            | (None, s) \<Rightarrow>
                if mns_phase (mn_status (obj s)) = MonoFailed then returned (retryMigration k s) else (None, s))
      else (None, s))"

definition initial_repo_status :: "mono_source_repo \<Rightarrow> mono_repo_status" where
  "initial_repo_status repo = \<lparr>mrs_name = msr_name repo, mrs_subdirectoryName = subdir_of repo, mrs_phase = MrPending,
     mrs_defaultBranch = [], mrs_branchesMigrated = 0, mrs_tagsMigrated = 0, mrs_commitCount = 0, mrs_sizeMB = 0,
     mrs_startTime = None, mrs_completionTime = None, mrs_errorMessage = []\<rparr>"

definition mono_initializeStatus :: "mono_env \<Rightarrow> mono_state \<Rightarrow> outcome \<times> mono_state" where
  "mono_initializeStatus k s =
     (case read_clock k s of (now, s) \<Rightarrow>
      let repos = mo_sort k (mono_sourceRepos (mn_spec (obj s))); n = fmt_d (int (length repos));
          s = modify (\<lambda>m. on_mono (\<lambda>st. st\<lparr>mns_phase := MonoPending, mns_startTime := Some now,
                mns_observedGeneration := om_generation (mn_meta m), mns_lastReconcileTime := Some now,
                mns_repoStatuses := map initial_repo_status repos,
                mns_progress := \<lparr>mp_totalRepos = int (length repos), mp_completedRepos = 0, mp_failedRepos = 0,
                  mp_skippedRepos = 0, mp_percentage = 0, mp_currentStep = [], mp_progressSummary = ''0/'' @ n @ '' repos''\<rparr>,
                mns_statistics := Some zero_mono_statistics\<rparr>) m) s;
          s = emit (Broadcast ''MonoRepo migration initialized'') s;
          s = emit (Event EventNormal ''Initialized'' (''MonoRepo migration initialized with '' @ n @ '' source repos'')) s
      in update_then k (after monoRepoPendingRequeueInterval) (after monoRepoPendingRequeueInterval) s)"

section \<open>Pending and validating\<close>

definition mono_processPending :: "mono_env \<Rightarrow> mono_state \<Rightarrow> outcome \<times> mono_state" where
  "mono_processPending k s =
     (let s = mono_step_to MonoValidating ''Validating configuration'' s;
          s = emit (Broadcast ''Starting validation'') s;
          s = emit (Event EventNormal ''ValidationStarted'' ''Monorepo migration validation started'') s
      in update_then k (after monoRepoPendingRequeueInterval) (after monoRepoPendingRequeueInterval) s)"

definition mono_processValidating :: "mono_env \<Rightarrow> mono_state \<Rightarrow> outcome \<times> mono_state" where
  "mono_processValidating k s =
     (case mono_getAzureDevOpsToken k s of
        Inl err \<Rightarrow> mono_failMigration k (''Failed to resolve ADO token: '' @ err_text err) s
      | Inr _ \<Rightarrow> (case mono_getGitHubToken k s of
          Inl err \<Rightarrow> mono_failMigration k (''Failed to resolve GitHub token: '' @ err_text err) s
        | Inr _ \<Rightarrow>
            (let v = ValidateMonoRepoMigration (mo_filter_repo k) (obj s) in
             if \<not> sv_valid v
             then mono_failMigration k (''Validation failed: '' @ join ''; '' (map sve_message (sv_errors v))) s
             else
               let s = mono_step_to MonoCloning ''Validation passed, starting clone phase'' s;
                   s = emit (Broadcast ''Validation passed, starting cloning'') s;
                   s = emit (Event EventNormal ''ValidationPassed'' ''Monorepo migration validation passed'') s
               in update_then k no_requeue (after monoRepoRunningRequeueInterval) s)))"

section \<open>Cloning\<close>

definition repo_dir :: "string \<Rightarrow> string \<Rightarrow> string" where
  "repo_dir workDir repoName = workDir @ ''/repos/'' @ repoName"

text \<open>One goroutine: a stale clone is removed, then the repository is cloned.\<close>

definition clone_one ::
  "mono_env \<Rightarrow> mono \<Rightarrow> string \<Rightarrow> string \<Rightarrow> string \<Rightarrow> io_state \<Rightarrow> (go_error + clone_result) \<times> io_state" where
  "clone_one k m workDir adoToken repoName io =
     (let dir = PathText (repo_dir workDir repoName);
          io = (if gm_exists (mo_git k) (io_trace io) dir then act (RemoveAll dir) io else io)
      in CloneMonoRepoSource (mo_git k) (msc_organization (mono_source (mn_spec m)))
           (msc_project (mono_source (mn_spec m))) repoName adoToken workDir
           (mset_cloneDepth (mono_settings (mn_spec m))) io)"

text \<open>The goroutines of a batch, in the order in which they finish, with their results.\<close>

fun clone_batch ::
  "mono_env \<Rightarrow> mono \<Rightarrow> string \<Rightarrow> string \<Rightarrow> nat list \<Rightarrow> io_state \<Rightarrow> (nat \<times> (go_error + clone_result)) list \<times> io_state" where
  "clone_batch k m workDir adoToken [] io = ([], io)"
| "clone_batch k m workDir adoToken (i # is) io =
     (case clone_one k m workDir adoToken (mrs_name (mns_repoStatuses (mn_status m) ! i)) io of (r, io) \<Rightarrow>
      case clone_batch k m workDir adoToken is io of (rs, io) \<Rightarrow> ((i, r) # rs, io))"

definition set_start_time :: "mono_env \<Rightarrow> nat \<Rightarrow> mono_state \<Rightarrow> mono_state" where
  "set_start_time k i s =
     (if mrs_startTime (repo_at s i) = None
      then (case read_clock k s of (now, s) \<Rightarrow> modify (on_mono (set_repo i (\<lambda>r. r\<lparr>mrs_startTime := Some now\<rparr>))) s)
      else s)"

definition record_clone :: "nat \<Rightarrow> clone_result \<Rightarrow> mono_state \<Rightarrow> mono_state" where
  "record_clone i cr s =
     emit (Broadcast (''Cloned '' @ mrs_name (repo_at s i) @ '' successfully''))
       (modify (on_mono (set_repo i (\<lambda>r. r\<lparr>mrs_defaultBranch := cr_defaultBranch cr,
          mrs_branchesMigrated := cr_branches cr, mrs_tagsMigrated := cr_tags cr, mrs_commitCount := cr_commits cr,
          mrs_sizeMB := cr_sizeMB cr, mrs_phase := MrRewriting\<rparr>))) s)"

text \<open>The loop over the results; \<open>n\<close> is the size of the batch.\<close>

fun collect_clones ::
  "mono_env \<Rightarrow> int \<Rightarrow> (nat \<times> (go_error + clone_result)) list \<Rightarrow> mono_state \<Rightarrow> outcome \<times> mono_state" where
  "collect_clones k n [] s =
     (let s = modify (on_mono_progress (\<lambda>p. p\<lparr>mp_currentStep := ''Cloned '' @ fmt_d n @ '' repos''\<rparr>)) s;
          s = modify (on_mono mono_updateProgressSummary) s
      in update_then k no_requeue (after monoRepoRunningRequeueInterval) s)"
| "collect_clones k n ((i, r) # rest) s =
     (let repoName = mrs_name (repo_at s i); s = set_start_time k i s in
      case r of
        Inr cr \<Rightarrow> collect_clones k n rest (record_clone i cr s)
      | Inl err \<Rightarrow>
          (let s = mark_repo_failed k i err s;
               s = emit (Event EventWarning ''RepoFailed'' (''Failed to clone repo '' @ repoName @ '': '' @ err_text err)) s in
           if \<not> GetContinueOnError (mono_settings (mn_spec (obj s)))
           then mono_failMigration k (''Repo '' @ repoName @ '' clone failed: '' @ err_text err)
                  (modify (on_mono mono_updateProgressSummary) s)
           else collect_clones k n rest
                  (emit (Broadcast (''Repo '' @ repoName @ '' clone failed (continuing): '' @ err_text err)) s)))"

definition repos_in :: "mono_repo_phase set \<Rightarrow> mono_status \<Rightarrow> nat list" where
  "repos_in P st = filter (\<lambda>i. mrs_phase (mns_repoStatuses st ! i) \<in> P) [0..<length (mns_repoStatuses st)]"

text \<open>Handing over to the next phase when no repository is left in this one.\<close>

definition next_mono_phase :: "mono_env \<Rightarrow> mono_phase \<Rightarrow> string \<Rightarrow> string \<Rightarrow> mono_state \<Rightarrow> outcome \<times> mono_state" where
  "next_mono_phase k p step message s =
     update_then k no_requeue (after monoRepoRunningRequeueInterval) (emit (Broadcast message) (mono_step_to p step s))"

definition clean_if_all_pending :: "mono_env \<Rightarrow> string \<Rightarrow> mono_state \<Rightarrow> mono_state" where
  "clean_if_all_pending k workDir s =
     (if gm_exists (mo_git k) (io_trace (mn_io s)) (PathText workDir)
         \<and> list_all (\<lambda>r. mrs_phase r = MrPending) (mns_repoStatuses (mn_status (obj s)))
      then s\<lparr>mn_io := act (RemoveAll (PathText workDir)) (mn_io s)\<rparr> else s)"

definition processCloning :: "mono_env \<Rightarrow> mono_state \<Rightarrow> outcome \<times> mono_state" where
  "processCloning k s =
     (case getWorkspace s of (workDir, s) \<Rightarrow>
      let s = clean_if_all_pending k workDir s;
          pendingRepos = repos_in {MrPending, MrCloning} (mn_status (obj s)) in
      if pendingRepos = []
      then next_mono_phase k MonoRewriting ''All repos cloned, starting rewrite phase'' ''Starting rewrite phase'' s
      else
        let batch = take (nat (GetParallelClones (mono_settings (mn_spec (obj s))))) pendingRepos in
        (case mono_getAzureDevOpsToken k s of
           Inl err \<Rightarrow> mono_failMigration k (''Failed to get ADO token: '' @ err_text err) s
         | Inr adoToken \<Rightarrow>
             (case with_io (clone_batch k (obj s) workDir adoToken (mo_finish k batch)) s of (results, s) \<Rightarrow>
              collect_clones k (int (length batch)) results s)))"

section \<open>Rewriting and merging\<close>

definition findNextRepoInPhase :: "mono_status \<Rightarrow> mono_repo_phase \<Rightarrow> nat option" where
  "findNextRepoInPhase st p = find_index (\<lambda>r. mrs_phase r = p) (mns_repoStatuses st)"

definition processRewriting :: "mono_env \<Rightarrow> mono_state \<Rightarrow> outcome \<times> mono_state" where
  "processRewriting k s = (case findNextRepoInPhase (mn_status (obj s)) MrRewriting of
     None \<Rightarrow> next_mono_phase k MonoMerging ''All repos rewritten, starting merge phase'' ''Starting merge phase'' s
   | Some i \<Rightarrow>
       (let repoName = mrs_name (repo_at s i); subdirName = mrs_subdirectoryName (repo_at s i) in
        case getWorkspace s of (workDir, s) \<Rightarrow>
        case with_io (RewriteRepoToSubdirectory (mo_git k) (repo_dir workDir repoName) subdirName
               (GetCleanupBetweenRepos (mono_settings (mn_spec (obj s))))) s of
          (Inl err, s) \<Rightarrow> handleRepoError k i err s
        | (Inr result, s) \<Rightarrow>
            (let step = ''Rewritten '' @ repoName @ '' to '' @ subdirName @ ''/'';
                 s = modify (on_mono (set_repo i (\<lambda>r. r\<lparr>mrs_phase := MrMerging,
                       mrs_branchesMigrated := int (length (rw_branches result)),
                       mrs_tagsMigrated := int (length (rw_tags result)), mrs_commitCount := rw_commitCount result\<rparr>))) s;
                 s = modify (on_mono_progress (\<lambda>p. p\<lparr>mp_currentStep := step\<rparr>)) s;
                 s = modify (on_mono mono_updateProgressSummary) (emit (Broadcast step) s)
             in update_then k no_requeue (after monoRepoRunningRequeueInterval) s)))"

definition default_branch_or_main :: "string \<Rightarrow> string" where
  "default_branch_or_main b = (if b = [] then ''main'' else b)"

definition has_completed :: "mono_status \<Rightarrow> bool" where
  "has_completed st = list_ex (\<lambda>r. mrs_phase r = MrCompleted) (mns_repoStatuses st)"

text \<open>Default branch, excluded and included branches of a repository, from its status and specification.\<close>

definition merge_settings :: "mono_spec \<Rightarrow> mono_repo_status \<Rightarrow> string \<times> string list \<times> string list" where
  "merge_settings spec r =
     (let detected = default_branch_or_main (mrs_defaultBranch r) in
      case find (\<lambda>x. msr_name x = mrs_name r) (mono_sourceRepos spec) of
        None \<Rightarrow> (detected, [], [])
      | Some x \<Rightarrow> (if msr_defaultBranch x \<noteq> [] then msr_defaultBranch x else detected,
                   msr_excludeBranches x, msr_includeBranches x))"

definition count_migrated :: "string list \<Rightarrow> string list \<Rightarrow> string list \<Rightarrow> string \<Rightarrow> int" where
  "count_migrated branches excludes includes defaultBranch =
     (if excludes \<noteq> [] \<or> includes \<noteq> []
      then int (length (FilterBranches branches includes excludes defaultBranch)) else int (length branches))"

text \<open>
  \<open>execCommand\<close> splits its command at white space, the directory included, and runs the first word
  (here always \<open>git\<close>) with the others.
\<close>

definition command_words :: "string \<Rightarrow> git_arg list" where
  "command_words command = map Text (tl (fields_func is_space command))"

definition collectBranchesAndTags :: "mono_git \<Rightarrow> string \<Rightarrow> io_state \<Rightarrow> (string list \<times> string list) \<times> io_state" where
  "collectBranchesAndTags g repoDir s =
     (case mono_run_git g (command_words (''git -C '' @ repoDir @ '' branch --list --no-color'')) s of ((out1, err1), s) \<Rightarrow>
      case mono_run_git g (command_words (''git -C '' @ repoDir @ '' tag --list'')) s of ((out2, err2), s) \<Rightarrow>
        ((if err1 = None then listed_branches out1 else [], if err2 = None then listed_tags out2 else []), s))"

definition merge_one :: "mono_env \<Rightarrow> string \<Rightarrow> nat \<Rightarrow> mono_state \<Rightarrow> outcome \<times> mono_state" where
  "merge_one k workDir i s =
     (let repoName = mrs_name (repo_at s i); work = repo_dir workDir repoName @ ''-work''; rewrittenDir = PathText work in
      case merge_settings (mn_spec (obj s)) (repo_at s i) of (defaultBranch, excludes, includes) \<Rightarrow>
      case with_io (collectBranchesAndTags (mo_git k) work) s of (refs, s) \<Rightarrow>
      case with_io (MergeRepoIntoMonoRepo (mo_git k) (PathText (workDir @ ''/monorepo'')) rewrittenDir repoName
             defaultBranch refs [excludes, includes]) s of
        (Inl err, s) \<Rightarrow> handleRepoError k i err s
      | (Inr _, s) \<Rightarrow>
          (case read_clock k s of (now, s) \<Rightarrow>
           let step = ''Merged '' @ repoName @ '' into monorepo'';
               s = modify (on_mono (set_repo i (\<lambda>r. r\<lparr>mrs_phase := MrCompleted, mrs_completionTime := Some now,
                     mrs_branchesMigrated := count_migrated (fst refs) excludes includes defaultBranch,
                     mrs_tagsMigrated := int (length (snd refs))\<rparr>))) s;
               s = modify (on_mono_progress (\<lambda>p. p\<lparr>mp_completedRepos := mp_completedRepos p + 1, mp_currentStep := step\<rparr>)) s;
               s = modify (on_mono mono_updateProgressSummary) (emit (Broadcast step) s)
           in update_then k no_requeue (after monoRepoRunningRequeueInterval) (mono_updateStatistics k s)))"

definition processMerging :: "mono_env \<Rightarrow> mono_state \<Rightarrow> outcome \<times> mono_state" where
  "processMerging k s =
     (case getWorkspace s of (workDir, s) \<Rightarrow>
      case (if has_completed (mn_status (obj s)) then (Inr (), s)
            else with_io (InitMonoRepo (mo_git k) workDir
                   (default_branch_or_main (mtc_defaultBranch (mono_target (mn_spec (obj s)))))) s) of
        (Inl err, s) \<Rightarrow> mono_failMigration k (''Failed to initialize monorepo: '' @ err_text err) s
      | (Inr _, s) \<Rightarrow> (case findNextRepoInPhase (mn_status (obj s)) MrMerging of
          None \<Rightarrow> next_mono_phase k MonoPushing ''All repos merged, pushing to GitHub'' ''Starting push phase'' s
        | Some i \<Rightarrow> merge_one k workDir i s))"

section \<open>Pushing\<close>

definition finish_push :: "mono_env \<Rightarrow> mono_state \<Rightarrow> outcome \<times> mono_state" where
  "finish_push k s =
     (case read_clock k s of (now, s) \<Rightarrow>
      let owner = mtc_owner (mono_target (mn_spec (obj s))); repo = mtc_repository (mono_target (mn_spec (obj s)));
          url = ''https://github.com/'' @ owner @ ''/'' @ repo;
          s = modify (on_mono (\<lambda>st. st\<lparr>mns_phase := MonoCompleted, mns_completionTime := Some now, mns_monoRepoURL := url,
                mns_progress := (mns_progress st)\<lparr>mp_currentStep := ''MonoRepo migration completed successfully'',
                  mp_percentage := 100\<rparr>\<rparr>)) s;
          s = mono_updateStatistics k (modify (on_mono mono_updateProgressSummary) s);
          s = emit (Broadcast ''MonoRepo migration completed successfully'') s;
          s = emit (Event EventNormal ''MigrationCompleted'' (''MonoRepo migration completed: '' @ url)) s;
          s = cleanupWorkspace (om_name (mn_meta (obj s))) s
      in update_then k no_requeue no_requeue s)"

definition create_target :: "mono_env \<Rightarrow> string \<Rightarrow> mono_state \<Rightarrow> (go_error + unit) \<times> mono_state" where
  "create_target k githubToken s =
     (let t = mono_target (mn_spec (obj s)); owner = mtc_owner t; repo = mtc_repository t in
      case mo_exists k s githubToken owner repo of
        Inl err \<Rightarrow> (Inl (wrap_err ''Failed to check target repo'' err), s)
      | Inr there \<Rightarrow>
          if there then (Inr (), s)
          else (case mo_create k s githubToken owner repo (mtc_visibility t) of
            Some err \<Rightarrow> (Inl (wrap_err ''Failed to create GitHub repository'' err),
                emit (ApiWrite [''CreateRepository'', owner, repo, mtc_visibility t]) s)
          | None \<Rightarrow> (Inr (), emit (ApiWrite [''CreateRepository'', owner, repo, mtc_visibility t]) s)))"

definition processPushing :: "mono_env \<Rightarrow> mono_state \<Rightarrow> outcome \<times> mono_state" where
  "processPushing k s =
     (if \<not> has_completed (mn_status (obj s))
      then mono_failMigration k ''No repos were successfully merged into the monorepo, aborting push'' s
      else (case mono_getGitHubToken k s of
        Inl err \<Rightarrow> mono_failMigration k (''Failed to get GitHub token: '' @ err_text err) s
      | Inr githubToken \<Rightarrow>
          (let t = mono_target (mn_spec (obj s)) in
           case create_target k githubToken s of
             (Inl err, s) \<Rightarrow> mono_failMigration k (err_text err) s
           | (Inr _, s) \<Rightarrow>
               (case getWorkspace s of (workDir, s) \<Rightarrow>
                case with_io (PushMonoRepo (mo_git k) (PathText (workDir @ ''/monorepo'')) githubToken (mtc_owner t)
                       (mtc_repository t) (default_branch_or_main (mtc_defaultBranch t))) s of
                  (Inl err, s) \<Rightarrow> mono_failMigration k (''Failed to push monorepo: '' @ err_text err) s
                | (Inr _, s) \<Rightarrow> finish_push k s))))"

section \<open>Dispatch\<close>

definition mono_processPhase :: "mono_env \<Rightarrow> mono_state \<Rightarrow> outcome \<times> mono_state" where
  "mono_processPhase k s = (case mns_phase (mn_status (obj s)) of
     MonoPending \<Rightarrow> mono_processPending k s
   | MonoValidating \<Rightarrow> mono_processValidating k s
   | MonoCloning \<Rightarrow> processCloning k s
   | MonoRewriting \<Rightarrow> processRewriting k s
   | MonoMerging \<Rightarrow> processMerging k s
   | MonoPushing \<Rightarrow> processPushing k s
   | MonoPaused \<Rightarrow> ((after monoRepoPausedRequeueInterval, None), s)
   | MonoCompleted \<Rightarrow> ((no_requeue, None), s)
   | MonoFailed \<Rightarrow> ((no_requeue, None), s)
   | MonoCancelled \<Rightarrow> ((no_requeue, None), s)
   | MonoUnset \<Rightarrow> ((no_requeue, None), s))"

definition mono_update_finalizers ::
  "mono_env \<Rightarrow> (string list \<Rightarrow> string list) \<Rightarrow> ctrl_result \<Rightarrow> mono_state \<Rightarrow> outcome \<times> mono_state" where
  "mono_update_finalizers k f on_ok s =
     (case object_update k (modify (mono_on_meta (\<lambda>om. om\<lparr>om_finalizers := f (om_finalizers om)\<rparr>)) s) of
        (Some err, s) \<Rightarrow> ((no_requeue, Some err), s)
      | (None, s) \<Rightarrow> ((on_ok, None), s))"

definition reconcile_mono :: "mono_env \<Rightarrow> mono_state \<Rightarrow> outcome \<times> mono_state" where
  "reconcile_mono k s =
     (let meta = mn_meta (obj s); has_finalizer = monoRepoFinalizerName \<in> set (om_finalizers meta) in
      if om_deletionTimestamp meta = None \<and> \<not> has_finalizer
      then mono_update_finalizers k (\<lambda>fs. fs @ [monoRepoFinalizerName]) requeue_now s
      else if om_deletionTimestamp meta \<noteq> None
      then (if has_finalizer
            then mono_update_finalizers k (removeAll monoRepoFinalizerName) no_requeue (cleanupWorkspace (om_name meta) s)
            else ((no_requeue, None), s))
      else (case mono_handleAnnotations k s of
              (Some r, s) \<Rightarrow> (r, s)
            | (None, s) \<Rightarrow>
                if mns_phase (mn_status (obj s)) = MonoUnset then mono_initializeStatus k s
                else mono_processPhase k s))"

definition mono_Reconcile :: "mono_env \<Rightarrow> go_error + mono_state \<Rightarrow> outcome \<times> mono_state option" where
  "mono_Reconcile k got = (case got of
     Inl err \<Rightarrow> ((no_requeue, if is_not_found err then None else Some err), None)
   | Inr s \<Rightarrow> map_prod id Some (reconcile_mono k s))"

end
