(* ===== verification/MonoInvariant.thy ===== *)
theory MonoInvariant
  imports MonoController "HOL-Library.Multiset"
begin

text \<open>
  What every reconciliation of a MonoRepoMigration keeps: how far every repository has come in
  each phase of the migration, that the list of repositories is fixed once it is made and that
  a merged repository stays merged, and the edges along which the phase moves. One lemma
  per handler; the whole life of a migration is an interpretation of \<open>phase_machine\<close>.
\<close>

section \<open>The invariant\<close>

abbreviation mphase :: "mono \<Rightarrow> mono_phase" where "mphase m \<equiv> mns_phase (mn_status m)"
abbreviation mrepos :: "mono \<Rightarrow> mono_repo_status list" where "mrepos m \<equiv> mns_repoStatuses (mn_status m)"

text \<open>The repository phases that can occur in a phase of the migration.\<close>

definition allowed_in :: "mono_phase \<Rightarrow> mono_repo_phase \<Rightarrow> bool" where
  "allowed_in p q = (case p of
     MonoRewriting \<Rightarrow> q \<noteq> MrPending \<and> q \<noteq> MrCloning
   | MonoMerging \<Rightarrow> q \<noteq> MrPending \<and> q \<noteq> MrCloning \<and> q \<noteq> MrRewriting
   | MonoPushing \<Rightarrow> q = MrCompleted \<or> q = MrFailed \<or> q = MrSkipped
   | MonoCompleted \<Rightarrow> q = MrCompleted \<or> q = MrFailed \<or> q = MrSkipped
   | _ \<Rightarrow> True)"

definition pipeline :: "mono_phase \<Rightarrow> mono_repo_status list \<Rightarrow> bool" where
  "pipeline p rs \<longleftrightarrow> list_all (\<lambda>r. allowed_in p (mrs_phase r)) rs
     \<and> (p = MonoCompleted \<longrightarrow> list_ex (\<lambda>r. mrs_phase r = MrCompleted) rs)"

definition mono_ok :: "mono \<Rightarrow> bool" where
  "mono_ok m \<longleftrightarrow> pipeline (mphase m) (mrepos m)"

text \<open>From one status list to a later one: the same repositories, and what is merged stays merged.\<close>

definition same_repo :: "mono_repo_status \<Rightarrow> mono_repo_status \<Rightarrow> bool" where
  "same_repo r r' \<longleftrightarrow> mrs_name r' = mrs_name r \<and> mrs_subdirectoryName r' = mrs_subdirectoryName r
     \<and> (mrs_phase r = MrCompleted \<longrightarrow> mrs_phase r' = MrCompleted)"

abbreviation same_repos :: "mono_repo_status list \<Rightarrow> mono_repo_status list \<Rightarrow> bool" where
  "same_repos \<equiv> list_all2 same_repo"

lemma same_repo_refl [simp]: "same_repo r r"
  by (simp add: same_repo_def)

lemma same_repos_refl [simp]: "same_repos rs rs"
  by (simp add: list.rel_refl)

lemma same_repos_trans: "same_repos a b \<Longrightarrow> same_repos b c \<Longrightarrow> same_repos a c"
  by (rule list_all2_trans) (auto simp: same_repo_def)

lemma same_repos_names: "same_repos a b \<Longrightarrow> map mrs_name a = map mrs_name b"
  by (induction rule: list_all2_induct) (simp_all add: same_repo_def)

lemma same_repos_completed:
  "same_repos a b \<Longrightarrow> list_ex (\<lambda>r. mrs_phase r = MrCompleted) a \<Longrightarrow> list_ex (\<lambda>r. mrs_phase r = MrCompleted) b"
  by (induction rule: list_all2_induct) (auto simp: same_repo_def)

definition mono_edge :: "mono_phase \<Rightarrow> mono_phase \<Rightarrow> bool" where
  "mono_edge p q \<longleftrightarrow>
     q = MonoPaused \<and> p \<noteq> MonoPaused \<or> q = MonoCancelled \<and> p \<noteq> MonoCancelled
     \<or> mono_terminal p \<and> q = MonoPending
     \<or> p \<in> {MonoValidating, MonoCloning, MonoRewriting, MonoMerging, MonoPushing} \<and> q = MonoFailed
     \<or> (p, q) \<in> {(MonoUnset, MonoPending), (MonoPending, MonoValidating), (MonoValidating, MonoCloning),
         (MonoCloning, MonoRewriting), (MonoRewriting, MonoMerging), (MonoMerging, MonoPushing), (MonoPushing, MonoCompleted)}"

definition mono_advances :: "mono \<Rightarrow> mono \<Rightarrow> bool" where
  "mono_advances m x \<longleftrightarrow> mono_ok x \<and> (mphase x = mphase m \<or> mono_edge (mphase m) (mphase x))
     \<and> (mphase m \<noteq> MonoUnset \<longrightarrow> same_repos (mrepos m) (mrepos x))"

text \<open>
  What the controller relies on: a metadata write leaves the status as the server has it; the
  clones that finish are those that were started; sorting sorts.
\<close>

definition mono_env_ok :: "mono_env \<Rightarrow> bool" where
  "mono_env_ok k \<longleftrightarrow> (\<forall>n old x y. k_update k n old x = Inr y \<longrightarrow> mn_status y = mn_status old)
     \<and> (\<forall>b. mset (mo_finish k b) = mset b)
     \<and> (\<forall>rs. mset (mo_sort k rs) = mset rs \<and> sorted (map msr_priority (mo_sort k rs)))"

text \<open>Within a handler: the working copy is still in the phase, with the invariant.\<close>

definition at_work :: "mono \<Rightarrow> mono_state \<Rightarrow> bool" where
  "at_work m s \<longleftrightarrow> mphase m \<noteq> MonoUnset \<and> mono_advances m (stored s) \<and> mphase (obj s) = mphase m
     \<and> mono_ok (obj s) \<and> same_repos (mrepos m) (mrepos (obj s))"

lemma at_work_stored: "at_work m s \<Longrightarrow> mono_advances m (stored s)"
  by (simp add: at_work_def)

lemma at_work_pipeline: "at_work m s \<Longrightarrow> mphase m = p \<Longrightarrow> pipeline p (mrepos (obj s))"
  by (auto simp: at_work_def mono_ok_def)

lemma at_work_update:
  "at_work m s \<Longrightarrow> mono_advances m (stored (snd (update_then k a b s)))"
  by (simp add: at_work_def mono_advances_def)

lemma at_work_cong:
  "at_work m s \<Longrightarrow> stored t = stored s \<Longrightarrow> mphase (obj t) = mphase (obj s) \<Longrightarrow> mrepos (obj t) = mrepos (obj s)
   \<Longrightarrow> at_work m t"
  by (auto simp: at_work_def mono_ok_def)

text \<open>Moving to another phase.\<close>

lemma phase_update:
  assumes "at_work m s" and "stored t = stored s" and "mrepos (obj t) = mrepos (obj s)"
    and "mono_edge (mphase m) (mphase (obj t))" and "pipeline (mphase (obj t)) (mrepos (obj t))"
  shows "mono_advances m (stored (snd (update_then k a b t)))"
  using assms by (simp add: at_work_def mono_advances_def mono_ok_def)

lemma free_phases: "p \<in> {MonoUnset, MonoPending, MonoValidating, MonoCloning, MonoFailed, MonoCancelled, MonoPaused} \<Longrightarrow> pipeline p rs"
  by (auto simp: pipeline_def allowed_in_def list_all_iff split: mono_phase.splits)

lemma mono_step_to_simps [simp]:
  "stored (mono_step_to p t s) = stored s" "mphase (obj (mono_step_to p t s)) = p"
  "mrepos (obj (mono_step_to p t s)) = mrepos (obj s)" "mn_spec (obj (mono_step_to p t s)) = mn_spec (obj s)"
  "mn_meta (obj (mono_step_to p t s)) = mn_meta (obj s)"
  by (simp_all add: mono_step_to_def)

lemma summary_simps [simp]:
  "mns_phase (mono_updateProgressSummary st) = mns_phase st"
  "mns_repoStatuses (mono_updateProgressSummary st) = mns_repoStatuses st"
  by (simp_all add: mono_updateProgressSummary_def Let_def)

lemma statistics_simps [simp]:
  "stored (mono_updateStatistics k s) = stored s" "mphase (obj (mono_updateStatistics k s)) = mphase (obj s)"
  "mrepos (obj (mono_updateStatistics k s)) = mrepos (obj s)"
  "mn_meta (obj (mono_updateStatistics k s)) = mn_meta (obj s)"
  "mn_spec (obj (mono_updateStatistics k s)) = mn_spec (obj s)"
  by (simp_all add: mono_updateStatistics_def read_clock_def Let_def split: option.splits)

lemma workspace_simps [simp]:
  "obj (snd (getWorkspace s)) = obj s" "stored (snd (getWorkspace s)) = stored s"
  "obj (cleanupWorkspace n s) = obj s" "stored (cleanupWorkspace n s) = stored s"
  by (simp_all add: getWorkspace_def cleanupWorkspace_def Let_def split: option.splits)

lemma with_io_simps [simp]:
  "obj (snd (with_io f s)) = obj s" "stored (snd (with_io f s)) = stored s"
  by (simp_all add: with_io_def split: prod.splits)

lemma mono_fail_advances:
  assumes "at_work m s" and "mono_edge (mphase m) MonoFailed"
  shows "mono_advances m (stored (snd (mono_failMigration k msg s)))"
  unfolding mono_failMigration_def read_clock_def Let_def prod.case
  by (rule phase_update [OF assms(1)]) (use assms(2) in \<open>simp_all add: free_phases\<close>)

lemma next_phase_advances:
  assumes "at_work m s" and "mono_edge (mphase m) p" and "pipeline p (mrepos (obj s))"
  shows "mono_advances m (stored (snd (next_mono_phase k p t msg s)))"
  unfolding next_mono_phase_def by (rule phase_update [OF assms(1)]) (use assms(2,3) in simp_all)

text \<open>Changing the status of one repository.\<close>

lemma set_repo_simps [simp]:
  "mns_phase (set_repo i f st) = mns_phase st"
  "mns_repoStatuses (set_repo i f st) = (mns_repoStatuses st)[i := f (mns_repoStatuses st ! i)]"
  by (simp_all add: set_repo_def)

lemma at_work_set_repo:
  assumes w: "at_work m s" and i: "i < length (mrepos (obj s))"
    and t: "stored t = stored s" "mphase (obj t) = mphase (obj s)" "mrepos (obj t) = (mrepos (obj s))[i := r]"
    and r: "same_repo (mrepos (obj s) ! i) r" "allowed_in (mphase m) (mrs_phase r)" and p: "mphase m \<noteq> MonoCompleted"
  shows "at_work m t"
proof -
  have "same_repos (mrepos (obj s)) (mrepos (obj t))"
    using r(1) i by (auto simp: t(3) list_all2_conv_all_nth nth_list_update)
  moreover have "pipeline (mphase m) (mrepos (obj t))"
    using w p r(2) set_update_subset_insert [of "mrepos (obj s)" i r]
    by (auto simp: t(3) at_work_def mono_ok_def pipeline_def list_all_iff)
  ultimately show ?thesis using w t by (auto simp: at_work_def mono_ok_def intro: same_repos_trans)
qed

lemma mark_repo_failed_simps:
  "stored (mark_repo_failed k i e s) = stored s" "mphase (obj (mark_repo_failed k i e s)) = mphase (obj s)"
  "mn_spec (obj (mark_repo_failed k i e s)) = mn_spec (obj s)" "mn_meta (obj (mark_repo_failed k i e s)) = mn_meta (obj s)"
  "\<exists>r. mrepos (obj (mark_repo_failed k i e s)) = (mrepos (obj s))[i := r] \<and> mrs_phase r = MrFailed
     \<and> mrs_name r = mrs_name (mrepos (obj s) ! i) \<and> mrs_subdirectoryName r = mrs_subdirectoryName (mrepos (obj s) ! i)"
  by (simp_all add: mark_repo_failed_def read_clock_def) (auto intro!: exI)

lemma at_work_failed_repo:
  assumes "at_work m s" and "i < length (mrepos (obj s))" and "mrs_phase (mrepos (obj s) ! i) \<noteq> MrCompleted"
    and "mphase m \<in> {MonoCloning, MonoRewriting, MonoMerging}"
  shows "at_work m (mark_repo_failed k i e s)"
proof -
  obtain r where r: "mrepos (obj (mark_repo_failed k i e s)) = (mrepos (obj s))[i := r]" "mrs_phase r = MrFailed"
    "mrs_name r = mrs_name (mrepos (obj s) ! i)" "mrs_subdirectoryName r = mrs_subdirectoryName (mrepos (obj s) ! i)"
    using mark_repo_failed_simps(5) [of k i e s] by blast
  show ?thesis
    by (rule at_work_set_repo [OF assms(1,2) _ _ r(1)])
      (use assms(3,4) r in \<open>auto simp: mark_repo_failed_simps same_repo_def allowed_in_def\<close>)
qed

lemma repo_error_advances:
  assumes "at_work m s" and "i < length (mrepos (obj s))" and "mrs_phase (mrepos (obj s) ! i) \<noteq> MrCompleted"
    and p: "mphase m \<in> {MonoCloning, MonoRewriting, MonoMerging}"
  shows "mono_advances m (stored (snd (handleRepoError k i e s)))"
proof -
  have f: "at_work m (mark_repo_failed k i e s)" by (rule at_work_failed_repo [OF assms])
  have edge: "mono_edge (mphase m) MonoFailed" using p by (auto simp: mono_edge_def)
  have "mono_advances m (stored (snd (mono_failMigration k msg (emit x (mark_repo_failed k i e s)))))" for msg x
    by (rule mono_fail_advances [OF at_work_cong [OF f] edge]) simp_all
  moreover have "mono_advances m (stored (snd (update_then k a b (modify (on_mono mono_updateProgressSummary)
      (emit y (emit x (mark_repo_failed k i e s)))))))" for a b x y
    by (rule at_work_update [OF at_work_cong [OF f]]) simp_all
  ultimately show ?thesis unfolding handleRepoError_def Let_def by simp
qed

section \<open>The handlers\<close>

text \<open>A working copy with the status of the stored object, as the handlers of the phases get it.\<close>

definition mono_fresh :: "mono \<Rightarrow> mono_state \<Rightarrow> bool" where
  "mono_fresh m s \<longleftrightarrow> mn_status (obj s) = mn_status m \<and> mn_status (stored s) = mn_status m"

lemma fresh_at_work: "mono_fresh m s \<Longrightarrow> mono_ok m \<Longrightarrow> mphase m \<noteq> MonoUnset \<Longrightarrow> at_work m s"
  by (simp add: mono_fresh_def at_work_def mono_advances_def mono_ok_def)

lemma initialize_advances:
  assumes "mono_fresh m s" and "mono_ok m" and "mphase m = MonoUnset"
  shows "mono_advances m (stored (snd (mono_initializeStatus k s)))"
  using assms by (simp add: mono_initializeStatus_def read_clock_def Let_def mono_fresh_def mono_advances_def mono_ok_def
      free_phases mono_edge_def)

lemma mono_pending_advances:
  "at_work m s \<Longrightarrow> mphase m = MonoPending \<Longrightarrow> mono_advances m (stored (snd (mono_processPending k s)))"
  unfolding mono_processPending_def Let_def by (rule phase_update) (simp_all add: free_phases mono_edge_def)

lemma mono_validating_advances:
  assumes w: "at_work m s" and p: "mphase m = MonoValidating"
  shows "mono_advances m (stored (snd (mono_processValidating k s)))"
proof -
  have "mono_advances m (stored (snd (mono_failMigration k msg s)))" for msg
    by (rule mono_fail_advances [OF w]) (simp add: p mono_edge_def)
  moreover have "mono_advances m (stored (snd (update_then k a b (emit x (emit y (mono_step_to MonoCloning t s))))))" for a b x y t
    by (rule phase_update [OF w]) (simp_all add: p free_phases mono_edge_def)
  ultimately show ?thesis by (simp add: mono_processValidating_def Let_def split: sum.splits)
qed

lemma reset_repos_same: "same_repos rs (map reset_repo rs)"
  by (simp add: list_all2_map2 list.rel_refl reset_repo_def same_repo_def)

lemma retry_advances:
  assumes w: "at_work m s" and t: "mono_terminal (mphase m)"
  shows "mono_advances m (stored (snd (retryMigration k s)))"
proof -
  have "mono_edge (mphase m) MonoPending" using t by (simp add: mono_edge_def)
  moreover have "same_repos (mrepos m) (map reset_repo (mrepos (obj s)))"
    by (rule same_repos_trans [OF _ reset_repos_same]) (use w in \<open>simp add: at_work_def\<close>)
  ultimately show ?thesis
    using w by (simp add: retryMigration_def Let_def at_work_def mono_advances_def mono_ok_def free_phases)
qed

lemma mono_pause_advances:
  assumes w: "at_work m s"
  shows "mono_advances m (stored (snd (mono_pause k s)))"
proof (cases "mphase m = MonoPaused")
  case True
  then show ?thesis using w by (simp add: mono_pause_def at_work_def)
next
  case False
  then have "mono_edge (mphase m) MonoPaused" by (simp add: mono_edge_def)
  then have "mono_advances m (stored (snd (update_then k a b (emit x (emit y (mono_step_to MonoPaused t s))))))" for a b x y t
    by (intro phase_update [OF w]) (simp_all add: free_phases)
  then show ?thesis using w False by (simp add: mono_pause_def Let_def at_work_def)
qed

lemma mono_cancel_advances:
  assumes w: "at_work m s"
  shows "mono_advances m (stored (snd (mono_cancel k s)))"
proof (cases "mphase m = MonoCancelled")
  case True
  then show ?thesis using w by (simp add: mono_cancel_def at_work_def)
next
  case False
  have edge: "mono_edge (mphase m) MonoCancelled" using False by (simp add: mono_edge_def)
  have "mphase (obj s) \<noteq> MonoCancelled" using w False by (simp add: at_work_def)
  then show ?thesis unfolding mono_cancel_def Let_def read_clock_def
    by (simp only: if_True not_False_eq_True prod.case) (rule phase_update [OF w], simp_all add: free_phases edge)
qed

subsection \<open>Cloning\<close>

lemma clone_batch_indices: "map fst (fst (clone_batch k m dir tok is io)) = is"
  by (induction "is" arbitrary: io) (simp_all split: prod.splits, metis fst_conv)

definition unmerged :: "mono_state \<Rightarrow> nat \<Rightarrow> bool" where
  "unmerged s i \<longleftrightarrow> i < length (mrepos (obj s)) \<and> mrs_phase (mrepos (obj s) ! i) \<noteq> MrCompleted"

lemma unmerged_update:
  "mrepos (obj t) = (mrepos (obj s))[i := r] \<Longrightarrow> mrs_phase r \<noteq> MrCompleted \<Longrightarrow> unmerged s j \<Longrightarrow> unmerged t j"
  by (cases "i = j") (auto simp: unmerged_def)

lemma started:
  assumes w: "at_work m s" and p: "mphase m = MonoCloning" and i: "unmerged s i"
  shows "at_work m (set_start_time k i s) \<and> (\<forall>j. unmerged s j \<longrightarrow> unmerged (set_start_time k i s) j)"
proof (cases "mrs_startTime (repo_at s i) = None")
  case True
  let ?t = "set_start_time k i s" and ?r = "mrepos (obj s) ! i"
  obtain now where t: "stored ?t = stored s" "mphase (obj ?t) = mphase (obj s)"
    "mrepos (obj ?t) = (mrepos (obj s))[i := ?r\<lparr>mrs_startTime := Some now\<rparr>]"
    using True by (auto simp: set_start_time_def read_clock_def)
  have "at_work m ?t"
    by (rule at_work_set_repo [OF w _ t]) (use i p in \<open>auto simp: unmerged_def same_repo_def allowed_in_def\<close>)
  moreover have "unmerged s j \<Longrightarrow> unmerged ?t j" for j
    by (rule unmerged_update [OF t(3)]) (use i in \<open>simp_all add: unmerged_def\<close>)
  ultimately show ?thesis by blast
next
  case False
  then have "set_start_time k i s = s" by (simp only: set_start_time_def if_False)
  then show ?thesis using w by simp
qed

lemma recorded:
  assumes w: "at_work m s" and p: "mphase m = MonoCloning" and i: "unmerged s i"
  shows "at_work m (record_clone i cr s) \<and> (\<forall>j. unmerged s j \<longrightarrow> unmerged (record_clone i cr s) j)"
proof -
  let ?t = "record_clone i cr s"
  obtain r where t: "stored ?t = stored s" "mphase (obj ?t) = mphase (obj s)" "mrepos (obj ?t) = (mrepos (obj s))[i := r]"
    and r: "mrs_phase r = MrRewriting" "mrs_name r = mrs_name (mrepos (obj s) ! i)"
      "mrs_subdirectoryName r = mrs_subdirectoryName (mrepos (obj s) ! i)"
    by (simp add: record_clone_def)
  have "at_work m ?t"
    by (rule at_work_set_repo [OF w _ t]) (use i p r in \<open>auto simp: unmerged_def same_repo_def allowed_in_def\<close>)
  moreover have "unmerged s j \<Longrightarrow> unmerged ?t j" for j
    by (rule unmerged_update [OF t(3)]) (use r in simp_all)
  ultimately show ?thesis by blast
qed

lemma marked_failed:
  assumes "at_work m s" and "unmerged s i" and "mphase m \<in> {MonoCloning, MonoRewriting, MonoMerging}"
  shows "at_work m (mark_repo_failed k i e s) \<and> (\<forall>j. unmerged s j \<longrightarrow> unmerged (mark_repo_failed k i e s) j)"
proof -
  obtain r where t: "mrepos (obj (mark_repo_failed k i e s)) = (mrepos (obj s))[i := r]" "mrs_phase r = MrFailed"
    using mark_repo_failed_simps(5) [of k i e s] by blast
  have "unmerged s j \<Longrightarrow> unmerged (mark_repo_failed k i e s) j" for j
    by (rule unmerged_update [OF t(1)]) (simp_all add: t(2))
  then show ?thesis using at_work_failed_repo [of m s i k e] assms by (simp add: unmerged_def)
qed

lemma collect_advances:
  assumes "at_work m s" and p: "mphase m = MonoCloning" and "\<forall>i \<in> set (map fst rs). unmerged s i"
  shows "mono_advances m (stored (snd (collect_clones k n rs s)))"
  using assms(1,3)
proof (induction rs arbitrary: s)
  case Nil
  show ?case unfolding collect_clones.simps Let_def by (rule at_work_update [OF at_work_cong [OF Nil(1)]]) simp_all
next
  case (Cons x rs)
  obtain i r where x: "x = (i, r)" by fastforce
  let ?s = "set_start_time k i s"
  have i: "unmerged s i" using Cons.prems(2) x by simp
  note st = started [OF Cons.prems(1) p i, of k]
  then have w: "at_work m ?s" and u: "\<forall>j \<in> set (map fst rs). unmerged ?s j" "unmerged ?s i"
    using Cons.prems(2) x by auto
  show ?case
  proof (cases r)
    case (Inr cr)
    have "mono_advances m (stored (snd (collect_clones k n rs (record_clone i cr ?s))))"
      by (rule Cons.IH) (use recorded [OF w p u(2), of cr] u(1) in auto)
    then show ?thesis using x Inr by simp
  next
    case (Inl e)
    have f: "at_work m (mark_repo_failed k i e ?s)" "\<forall>j \<in> set (map fst rs). unmerged (mark_repo_failed k i e ?s) j"
      using marked_failed [OF w u(2), of k e] u(1) p by auto
    have edge: "mono_edge (mphase m) MonoFailed" by (simp add: p mono_edge_def)
    have "mono_advances m (stored (snd (mono_failMigration k msg
        (modify (on_mono mono_updateProgressSummary) (emit y (mark_repo_failed k i e ?s))))))" for msg y
      by (rule mono_fail_advances [OF at_work_cong [OF f(1)] edge]) simp_all
    moreover have "mono_advances m (stored (snd (collect_clones k n rs (emit z (emit y (mark_repo_failed k i e ?s))))))" for y z
      by (rule Cons.IH) (use at_work_cong [OF f(1)] f(2) in \<open>simp_all add: unmerged_def\<close>)
    ultimately show ?thesis using x Inl by (simp add: Let_def)
  qed
qed

lemma repos_in_mem: "i \<in> set (repos_in P st) \<longleftrightarrow> i < length (mns_repoStatuses st) \<and> mrs_phase (mns_repoStatuses st ! i) \<in> P"
  by (auto simp: repos_in_def)

lemma repos_in_empty: "repos_in P st = [] \<longleftrightarrow> list_all (\<lambda>r. mrs_phase r \<notin> P) (mns_repoStatuses st)"
  by (auto simp: repos_in_def filter_empty_conv list_all_length)

lemma clean_if_simps [simp]:
  "obj (clean_if_all_pending k dir s) = obj s" "stored (clean_if_all_pending k dir s) = stored s"
  by (simp_all add: clean_if_all_pending_def)

lemma getWorkspace_eq: "getWorkspace s = (dir, t) \<Longrightarrow> obj t = obj s \<and> stored t = stored s"
  using workspace_simps(1,2) [of s] by simp

lemma with_io_eq: "with_io f s = (x, t) \<Longrightarrow> obj t = obj s \<and> stored t = stored s"
  using with_io_simps [of f s] by simp

lemma finish_mem: "mono_env_ok k \<Longrightarrow> set (mo_finish k b) = set b"
  by (metis mono_env_ok_def set_mset_mset)

lemma cloning_advances:
  assumes w: "at_work m s" and p: "mphase m = MonoCloning" and k: "mono_env_ok k"
  shows "mono_advances m (stored (snd (processCloning k s)))"
proof -
  obtain dir s0 where g: "getWorkspace s = (dir, s0)" by fastforce
  define s1 where "s1 = clean_if_all_pending k dir s0"
  have s1: "obj s1 = obj s" "stored s1 = stored s" using getWorkspace_eq [OF g] by (simp_all add: s1_def)
  have w1: "at_work m s1" by (rule at_work_cong [OF w]) (simp_all add: s1)
  let ?todo = "repos_in {MrPending, MrCloning} (mn_status (obj s1))"
  show ?thesis
  proof (cases "?todo = []")
    case True
    then have "pipeline MonoRewriting (mrepos (obj s1))"
      by (auto simp: repos_in_empty pipeline_def allowed_in_def list_all_iff)
    then have "mono_advances m (stored (snd (next_mono_phase k MonoRewriting t msg s1)))" for t msg
      by (intro next_phase_advances [OF w1]) (simp_all add: p mono_edge_def)
    then show ?thesis unfolding processCloning_def g prod.case Let_def s1_def [symmetric] using True by simp
  next
    case False
    define batch where "batch = take (nat (GetParallelClones (mono_settings (mn_spec (obj s1))))) ?todo"
    have edge: "mono_edge (mphase m) MonoFailed" by (simp add: p mono_edge_def)
    have "mono_advances m (stored (snd (collect_clones k n rs t)))"
      if "with_io (clone_batch k (obj s1) dir tok (mo_finish k batch)) s1 = (rs, t)" for n rs t tok
    proof (rule collect_advances [OF _ p])
      from with_io_eq [OF that] have t: "obj t = obj s1" "stored t = stored s1" by simp_all
      show "at_work m t" by (rule at_work_cong [OF w1]) (simp_all add: t)
      have "rs = fst (clone_batch k (obj s1) dir tok (mo_finish k batch) (mn_io s1))"
        using that by (auto simp: with_io_def split: prod.splits)
      then have "map fst rs = mo_finish k batch" by (simp add: clone_batch_indices)
      then have "set (map fst rs) \<subseteq> set ?todo" using finish_mem [OF k, of batch] set_take_subset by (simp add: batch_def)
      then show "\<forall>i \<in> set (map fst rs). unmerged t i" by (auto simp: repos_in_mem unmerged_def t)
    qed
    then show ?thesis unfolding processCloning_def g prod.case Let_def s1_def [symmetric] batch_def [symmetric]
      using False mono_fail_advances [OF w1 edge] by (simp split: sum.splits prod.splits)
  qed
qed

subsection \<open>Rewriting and merging\<close>

lemma next_in_phase:
  "findNextRepoInPhase st p = Some i \<Longrightarrow> i < length (mns_repoStatuses st) \<and> mrs_phase (mns_repoStatuses st ! i) = p"
  by (auto simp: findNextRepoInPhase_def dest: find_index_Some)

lemma none_in_phase: "findNextRepoInPhase st p = None \<Longrightarrow> list_all (\<lambda>r. mrs_phase r \<noteq> p) (mns_repoStatuses st)"
  by (simp add: findNextRepoInPhase_def find_index_None list_all_iff)

text \<open>One repository done with its phase: its status, the progress, and the message.\<close>

lemma repo_done:
  assumes w: "at_work m s" and i: "i < length (mrepos (obj s))"
    and r: "\<And>r. same_repo (mrepos (obj s) ! i) (f (mrepos (obj s) ! i)) \<and> allowed_in (mphase m) (mrs_phase (f (mrepos (obj s) ! i)))"
    and p: "mphase m \<noteq> MonoCompleted"
  shows "at_work m (modify (on_mono mono_updateProgressSummary) (emit x
    (modify (on_mono_progress g) (modify (on_mono (set_repo i f)) s))))"
  by (rule at_work_set_repo [OF w i, where r = "f (mrepos (obj s) ! i)"]) (use r p in simp_all)

lemma rewriting_advances:
  assumes w: "at_work m s" and p: "mphase m = MonoRewriting"
  shows "mono_advances m (stored (snd (processRewriting k s)))"
proof (cases "findNextRepoInPhase (mn_status (obj s)) MrRewriting")
  case None
  note at_work_pipeline [OF w p]
  then have "pipeline MonoMerging (mrepos (obj s))"
    using none_in_phase [OF None] by (auto simp: pipeline_def allowed_in_def list_all_iff)
  then show ?thesis using None next_phase_advances [OF w, of MonoMerging] by (simp add: processRewriting_def p mono_edge_def)
next
  case (Some i)
  note i = next_in_phase [OF Some]
  obtain dir s0 where g: "getWorkspace s = (dir, s0)" by fastforce
  obtain r t where io: "with_io (RewriteRepoToSubdirectory (mo_git k) (repo_dir dir (mrs_name (repo_at s i)))
      (mrs_subdirectoryName (repo_at s i)) (GetCleanupBetweenRepos (mono_settings (mn_spec (obj s0))))) s0 = (r, t)" by fastforce
  have t: "obj t = obj s" "stored t = stored s" using getWorkspace_eq [OF g] with_io_eq [OF io] by simp_all
  have wt: "at_work m t" by (rule at_work_cong [OF w]) (simp_all add: t)
  show ?thesis
  proof (cases r)
    case (Inl e)
    then show ?thesis using Some g io i repo_error_advances [OF wt, of i k e] p by (simp add: processRewriting_def Let_def t)
  next
    case (Inr x)
    have "mono_advances m (stored (snd (update_then k a b (modify (on_mono mono_updateProgressSummary) (emit y
        (modify (on_mono_progress h) (modify (on_mono (set_repo i (\<lambda>r. r\<lparr>mrs_phase := MrMerging, mrs_branchesMigrated := n1,
           mrs_tagsMigrated := n2, mrs_commitCount := n3\<rparr>))) t)))))))" for a b y h n1 n2 n3
      by (rule at_work_update [OF repo_done [OF wt]]) (use i in \<open>simp_all add: t p same_repo_def allowed_in_def\<close>)
    then show ?thesis using Some g io Inr by (simp add: processRewriting_def Let_def)
  qed
qed

lemma merge_one_advances:
  assumes w: "at_work m s" and p: "mphase m = MonoMerging"
    and i: "i < length (mrepos (obj s))" "mrs_phase (mrepos (obj s) ! i) = MrMerging"
  shows "mono_advances m (stored (snd (merge_one k dir i s)))"
proof -
  let ?work = "repo_dir dir (mrs_name (repo_at s i)) @ ''-work''"
  obtain b ex inc where ms: "merge_settings (mn_spec (obj s)) (repo_at s i) = (b, ex, inc)" by (metis prod_cases3)
  obtain refs s0 where cb: "with_io (collectBranchesAndTags (mo_git k) ?work) s = (refs, s0)" by fastforce
  obtain r t where io: "with_io (MergeRepoIntoMonoRepo (mo_git k) (PathText (dir @ ''/monorepo'')) (PathText ?work)
      (mrs_name (repo_at s i)) b refs [ex, inc]) s0 = (r, t)" by fastforce
  have t: "obj t = obj s" "stored t = stored s" using with_io_eq [OF cb] with_io_eq [OF io] by simp_all
  have wt: "at_work m t" by (rule at_work_cong [OF w]) (simp_all add: t)
  show ?thesis
  proof (cases r)
    case (Inl e)
    have "mono_advances m (stored (snd (handleRepoError k i e t)))"
      by (rule repo_error_advances [OF wt]) (use i p in \<open>simp_all add: t\<close>)
    then show ?thesis using ms cb io Inl by (simp add: merge_one_def Let_def)
  next
    case (Inr x)
    obtain now u where c: "read_clock k t = (now, u)" by fastforce
    have u: "obj u = obj s" "stored u = stored s" using c t by (auto simp: read_clock_def)
    have wu: "at_work m u" by (rule at_work_cong [OF w]) (simp_all add: u)
    have "mono_advances m (stored (snd (update_then k a b (mono_updateStatistics k (modify (on_mono mono_updateProgressSummary) (emit y
        (modify (on_mono_progress h) (modify (on_mono (set_repo i (\<lambda>r. r\<lparr>mrs_phase := MrCompleted, mrs_completionTime := Some now,
           mrs_branchesMigrated := n1, mrs_tagsMigrated := n2\<rparr>))) u))))))))" for a b y h n1 n2
      by (rule at_work_update [OF at_work_cong [OF repo_done [OF wu, where i = i]]])
        (use i in \<open>simp_all add: u p same_repo_def allowed_in_def\<close>)
    then show ?thesis using ms cb io Inr c by (simp add: merge_one_def Let_def)
  qed
qed

lemma merging_advances:
  assumes w: "at_work m s" and p: "mphase m = MonoMerging"
  shows "mono_advances m (stored (snd (processMerging k s)))"
proof -
  obtain dir s0 where g: "getWorkspace s = (dir, s0)" by fastforce
  obtain r t where init: "(if has_completed (mn_status (obj s0)) then (Inr (), s0) else with_io (InitMonoRepo (mo_git k) dir
      (default_branch_or_main (mtc_defaultBranch (mono_target (mn_spec (obj s0)))))) s0) = (r, t)" by fastforce
  have t: "obj t = obj s" "stored t = stored s"
    using getWorkspace_eq [OF g] init by (auto split: if_splits dest: with_io_eq)
  have wt: "at_work m t" by (rule at_work_cong [OF w]) (simp_all add: t)
  show ?thesis
  proof (cases r)
    case (Inl e)
    have "mono_advances m (stored (snd (mono_failMigration k msg t)))" for msg
      by (rule mono_fail_advances [OF wt]) (simp add: p mono_edge_def)
    then show ?thesis using g init Inl by (simp add: processMerging_def)
  next
    case (Inr x)
    show ?thesis
    proof (cases "findNextRepoInPhase (mn_status (obj t)) MrMerging")
      case None
      note at_work_pipeline [OF wt p]
      moreover have "list_all (\<lambda>r. mrs_phase r \<noteq> MrMerging) (mrepos (obj t))" by (rule none_in_phase [OF None])
      ultimately have "pipeline MonoPushing (mrepos (obj t))"
        unfolding pipeline_def list_all_iff allowed_in_def by (simp, metis mono_repo_phase.exhaust)
      then have "mono_advances m (stored (snd (next_mono_phase k MonoPushing a b t)))" for a b
        by (intro next_phase_advances [OF wt]) (simp_all add: p mono_edge_def)
      then show ?thesis using g init Inr None by (simp add: processMerging_def)
    next
      case (Some i)
      have "mono_advances m (stored (snd (merge_one k dir i t)))"
        by (rule merge_one_advances [OF wt p]) (use next_in_phase [OF Some] in simp_all)
      then show ?thesis using g init Inr Some by (simp add: processMerging_def)
    qed
  qed
qed

subsection \<open>Pushing\<close>

lemma finish_push_advances:
  assumes w: "at_work m s" and p: "mphase m = MonoPushing" and some: "has_completed (mn_status (obj s))"
  shows "mono_advances m (stored (snd (finish_push k s)))"
proof -
  have "pipeline MonoCompleted (mrepos (obj s))"
    using at_work_pipeline [OF w p] some by (simp add: pipeline_def allowed_in_def has_completed_def)
  then show ?thesis unfolding finish_push_def read_clock_def Let_def prod.case
    by (intro phase_update [OF w]) (simp_all add: p mono_edge_def)
qed

lemma create_target_eq: "create_target k tok s = (x, t) \<Longrightarrow> obj t = obj s \<and> stored t = stored s"
  by (auto simp: create_target_def Let_def split: sum.splits if_splits option.splits)

lemma pushing_advances:
  assumes w: "at_work m s" and p: "mphase m = MonoPushing"
  shows "mono_advances m (stored (snd (processPushing k s)))"
proof -
  have fail: "mono_advances m (stored (snd (mono_failMigration k msg t)))" if "obj t = obj s" "stored t = stored s" for msg t
    by (rule mono_fail_advances [OF at_work_cong [OF w]]) (simp_all add: p mono_edge_def that)
  have finish: "mono_advances m (stored (snd (finish_push k t)))"
    if "obj t = obj s" "stored t = stored s" "has_completed (mn_status (obj s))" for t
    by (rule finish_push_advances [OF at_work_cong [OF w] p]) (simp_all add: that)
  show ?thesis
    unfolding processPushing_def Let_def using fail finish
    by (auto split: sum.splits prod.splits dest!: create_target_eq getWorkspace_eq with_io_eq)
qed

section \<open>A whole reconciliation\<close>

lemma process_advances:
  assumes w: "at_work m s" and k: "mono_env_ok k"
  shows "mono_advances m (stored (snd (mono_processPhase k s)))"
proof -
  have "mphase (obj s) = mphase m" using w by (simp add: at_work_def)
  then show ?thesis
    using w mono_pending_advances [OF w] mono_validating_advances [OF w] cloning_advances [OF w _ k] rewriting_advances [OF w]
      merging_advances [OF w] pushing_advances [OF w] at_work_stored [OF w]
    by (cases "mphase m") (simp_all add: mono_processPhase_def)
qed

lemma mono_object_update:
  assumes "mono_env_ok k" and "object_update k s = (e, t)"
  shows "mn_status (stored t) = mn_status (stored s)" and "e = None \<Longrightarrow> obj t = stored t"
  using assms by (auto simp: object_update_def mono_env_ok_def split: sum.splits)

lemma same_status_advances:
  "mono_ok m \<Longrightarrow> mn_status x = mn_status m \<Longrightarrow> mono_advances m x"
  by (simp add: mono_advances_def mono_ok_def)

lemma fresh_update:
  assumes "mono_fresh m s" and "mono_env_ok k" and "object_update k (modify f s) = (e, t)"
  shows "mn_status (stored t) = mn_status m" and "e = None \<Longrightarrow> mono_fresh m t"
  using mono_object_update [OF assms(2,3)] assms(1) by (simp_all add: mono_fresh_def)

lemma annotations_advance:
  assumes f: "mono_fresh m s" and ok: "mono_ok m" and k: "mono_env_ok k"
  shows "case mono_handleAnnotations k s of (r, t) \<Rightarrow> mono_advances m (stored t) \<and> (r = None \<longrightarrow> mono_fresh m t)"
proof -
  have same: "mono_advances m (stored t)" if "object_update k (modify g s) = (e, t)" for g e t
    by (rule same_status_advances [OF ok fresh_update(1) [OF f k that]])
  have retry: "mono_advances m (stored (snd (retryMigration k t)))"
    if "object_update k (modify g s) = (None, t)" "mono_terminal (mphase (obj t))" for g t
  proof -
    have t: "mono_fresh m t" by (rule fresh_update(2) [OF f k that(1)]) simp
    with that(2) have "mono_terminal (mphase m)" "mphase m \<noteq> MonoUnset" by (auto simp: mono_fresh_def mono_terminal_def)
    then show ?thesis using fresh_at_work [OF t ok] by (intro retry_advances)
  qed
  have pause: "mono_advances m (stored (snd (mono_pause k s)))" and cancel: "mono_advances m (stored (snd (mono_cancel k s)))"
  proof -
    have "mono_advances m (stored (snd (mono_pause k s))) \<and> mono_advances m (stored (snd (mono_cancel k s)))"
    proof (cases "mphase m = MonoUnset")
      case True
      with f show ?thesis
        by (simp add: mono_pause_def mono_cancel_def Let_def read_clock_def mono_fresh_def mono_advances_def mono_ok_def
            free_phases mono_edge_def ok [unfolded mono_ok_def])
    next
      case False
      show ?thesis using fresh_at_work [OF f ok False] mono_pause_advances mono_cancel_advances by blast
    qed
    then show "mono_advances m (stored (snd (mono_pause k s)))" "mono_advances m (stored (snd (mono_cancel k s)))" by simp_all
  qed
  have self: "mono_advances m (stored s)" using f ok by (intro same_status_advances) (simp_all add: mono_fresh_def)
  show ?thesis
  proof (cases "om_annotations (mn_meta (obj s)) monoRepoReconcileTriggerAnnotation = None")
    case False
    obtain e t where u: "object_update k (modify (mono_drop_annotation monoRepoReconcileTriggerAnnotation) s) = (e, t)" by fastforce
    show ?thesis using False u same [OF u] retry [of _ t] by (auto simp: mono_handleAnnotations_def Let_def case_prod_beta split: option.splits)
  next
    case True
    obtain e t where u: "object_update k (modify (mono_drop_annotation monoRepoRetryAnnotation) s) = (e, t)" by fastforce
    have t: "mono_terminal (mphase (obj t))" if "mphase (obj t) = MonoFailed" using that by (simp add: mono_terminal_def)
    show ?thesis using True f u same [OF u] retry [of _ t] t fresh_update(2) [OF f k u] pause cancel self
      by (auto simp: mono_handleAnnotations_def Let_def case_prod_beta split: option.splits)
  qed
qed

lemma reconcile_mono_advances:
  assumes f: "mono_fresh m s" and ok: "mono_ok m" and k: "mono_env_ok k"
  shows "mono_advances m (stored (snd (reconcile_mono k s)))"
proof -
  have clean: "mono_fresh m (cleanupWorkspace n s)" for n using f by (simp add: mono_fresh_def)
  have fin: "mono_advances m (stored (snd (mono_update_finalizers k g r u)))" if "mono_fresh m u" for g r u
    using fresh_update(1) [OF that k] same_status_advances [OF ok]
    by (auto simp: mono_update_finalizers_def split: prod.splits option.splits)
  have self: "mono_advances m (stored s)" using f ok by (intro same_status_advances) (simp_all add: mono_fresh_def)
  obtain r t where a: "mono_handleAnnotations k s = (r, t)" by fastforce
  then have t: "mono_advances m (stored t)" "r = None \<Longrightarrow> mono_fresh m t" using annotations_advance [OF f ok k] by simp_all
  have "mono_advances m (stored (snd (if mphase (obj t) = MonoUnset then mono_initializeStatus k t else mono_processPhase k t)))"
    if "r = None"
  proof -
    have ft: "mono_fresh m t" using t(2) that by simp
    then have "mphase (obj t) = mphase m" by (simp add: mono_fresh_def)
    then show ?thesis using initialize_advances [OF ft ok] process_advances [OF fresh_at_work [OF ft ok] k] by simp
  qed
  then show ?thesis using fin [OF f] fin [OF clean] self a t(1) by (auto simp: reconcile_mono_def Let_def split: option.splits)
qed

end
