(* ===== verification/MonoProperties.thy ===== *)
theory MonoProperties
  imports MonoInvariant
begin

text \<open>
  The properties of the MonoRepoMigration controller and its service
  (\<open>internal/controller/monorepomigration_controller.go\<close>,
  \<open>internal/services/monorepo_migration.go\<close>). The life of a migration is a list of events:
  reconciliations, each in an environment of its own, edits of the metadata and the specification
  by users, and restarts of the operator, which forget the workspaces it knows. Between them
  the stored object, what was done to the disk and to remote repositories, and the map
  of workspaces persist (\<open>mono_world\<close>).
\<close>

section \<open>The life of a migration\<close>

record mono_world =
  mw_object :: mono
  mw_io :: io_state
  mw_workspaces :: "string \<rightharpoonup> string"

datatype mono_event = MonoReconciled mono_env | MonoEdited object_meta mono_spec | OperatorRestarted

definition mono_fetched :: "mono_world \<Rightarrow> mono_state" where
  "mono_fetched w = \<lparr>obj = mw_object w, stored = mw_object w, ticks = 0, calls = 0, effects = [],
     mn_io = mw_io w, mn_workspaces = mw_workspaces w\<rparr>"

definition mono_left :: "mono_state \<Rightarrow> mono_world" where
  "mono_left s = \<lparr>mw_object = stored s, mw_io = mn_io s, mw_workspaces = mn_workspaces s\<rparr>"

fun mono_event_step :: "mono_event \<Rightarrow> mono_world \<Rightarrow> mono_world" where
  "mono_event_step (MonoReconciled k) w = mono_left (snd (reconcile_mono k (mono_fetched w)))"
| "mono_event_step (MonoEdited meta spec) w = w\<lparr>mw_object := mw_object w\<lparr>mn_meta := meta, mn_spec := spec\<rparr>\<rparr>"
| "mono_event_step OperatorRestarted w = w\<lparr>mw_workspaces := Map.empty\<rparr>"

fun honest_mono_event :: "mono_event \<Rightarrow> bool" where
  "honest_mono_event (MonoReconciled k) \<longleftrightarrow> mono_env_ok k"
| "honest_mono_event (MonoEdited meta spec) \<longleftrightarrow> True"
| "honest_mono_event OperatorRestarted \<longleftrightarrow> True"

abbreviation mono_life :: "mono_event list \<Rightarrow> mono_world \<Rightarrow> mono_world" where
  "mono_life es w \<equiv> fold mono_event_step es w"

lemma mono_fetched_simps [simp]:
  "obj (mono_fetched w) = mw_object w" "stored (mono_fetched w) = mw_object w" "mn_io (mono_fetched w) = mw_io w"
  "mn_workspaces (mono_fetched w) = mw_workspaces w"
  by (simp_all add: mono_fetched_def)

lemma mono_left_simps [simp]:
  "mw_object (mono_left s) = stored s" "mw_io (mono_left s) = mn_io s"
  by (simp_all add: mono_left_def)

lemma mono_event_advances:
  assumes "honest_mono_event e" and "mono_ok (mw_object w)"
  shows "mono_advances (mw_object w) (mw_object (mono_event_step e w))"
  using assms reconcile_mono_advances [of "mw_object w" "mono_fetched w"]
  by (cases e) (simp_all add: mono_fresh_def same_status_advances mono_advances_def mono_ok_def)

interpretation mm: phase_machine "\<lambda>w. mphase (mw_object w)" mono_event_step honest_mono_event "\<lambda>w. mono_ok (mw_object w)" mono_edge
  by unfold_locales (auto dest: mono_event_advances simp: mono_advances_def)

text \<open>
  C10. From its creation, through any reconciliations in any environments, edits and operator
  restarts, no repository of a migration is behind the phase the migration is in: none is
  left to clone when histories are rewritten, none to rewrite when they are merged, none to
  merge when the monorepo is pushed; a Completed migration has merged at least one
  repository; and each single event leaves the phase alone or follows one edge of \<open>mono_edge\<close>, so that
  no phase from Pending over Validating, Cloning, Rewriting, Merging and Pushing to Completed is jumped over.
\<close>

theorem mono_run_invariant:
  assumes "mphase (mw_object w) = MonoUnset" and "\<forall>e \<in> set es. honest_mono_event e"
  shows "pipeline (mphase (mw_object (mono_life es w))) (mrepos (mw_object (mono_life es w)))
    \<and> (\<forall>i < length es. let p = mphase (mw_object (mono_life (take i es) w)); q = mphase (mw_object (mono_life (take (Suc i) es) w))
         in q = p \<or> mono_edge p q)"
proof -
  have ok: "mono_ok (mw_object w)" using assms(1) by (simp add: mono_ok_def free_phases)
  show ?thesis using mm.inv_run [OF assms(2) ok] mm.edges_run [OF assms(2) ok] by (simp add: mono_ok_def Let_def)
qed

text \<open>
  Once a migration is initialised the list of its repositories is fixed, in order, name
  and subdirectory: no later edit of the specification adds, removes or moves one. A repository
  that is merged stays merged, through retries and restarts too.
\<close>

theorem mono_repositories_fixed:
  assumes "mphase (mw_object w) \<noteq> MonoUnset" and "mono_ok (mw_object w)" and "\<forall>e \<in> set es. honest_mono_event e"
  shows "same_repos (mrepos (mw_object w)) (mrepos (mw_object (mono_life es w)))"
  using assms
proof (induction es rule: rev_induct)
  case (snoc e es)
  let ?w = "mono_life es w"
  have es: "\<forall>e \<in> set es. honest_mono_event e" and e: "honest_mono_event e" using snoc.prems(3) by simp_all
  have "mphase (mw_object ?w) \<in> - {MonoUnset}"
    by (rule mm.closed_run [OF es snoc.prems(2)]) (use snoc.prems(1) in \<open>auto simp: mono_edge_def\<close>)
  then have "same_repos (mrepos (mw_object ?w)) (mrepos (mw_object (mono_event_step e ?w)))"
    using mono_event_advances [OF e mm.inv_run [OF es snoc.prems(2)]] by (simp add: mono_advances_def)
  then show ?case using snoc.IH [OF snoc.prems(1,2) es] by (auto intro: same_repos_trans)
qed simp

text \<open>A small migration of two repositories, in a world that answers every request.\<close>

definition sample_source_repo :: "string \<Rightarrow> int \<Rightarrow> mono_source_repo" where
  "sample_source_repo n p = \<lparr>msr_name = n, msr_subdirectoryName = [], msr_includeBranches = [], msr_excludeBranches = [],
     msr_defaultBranch = [], msr_priority = p\<rparr>"

definition sample_mono_spec :: mono_spec where
  "sample_mono_spec = \<lparr>mono_source = \<lparr>msc_organization = ''org'', msc_project = ''proj'',
       msc_auth = \<lparr>ado_servicePrincipal = None,
         ado_pat = Some \<lparr>pat_tokenRef = \<lparr>sr_name = ''s'', sr_key = ''k'', sr_namespace = []\<rparr>\<rparr>\<rparr>, msc_apiURL = []\<rparr>,
     mono_target = \<lparr>mtc_owner = ''o'', mtc_repository = ''r'', mtc_visibility = ''private'',
       mtc_auth = \<lparr>gh_tokenRef = None, gh_appAuth = None, gh_token = ''t''\<rparr>, mtc_apiURL = [], mtc_defaultBranch = []\<rparr>,
     mono_sourceRepos = [sample_source_repo ''b'' 2, sample_source_repo ''a'' 1],
     mono_settings = \<lparr>mset_retryAttempts = 3, mset_continueOnError = None, mset_cleanupBetweenRepos = None,
       mset_parallelClones = 0, mset_cloneDepth = 0, mset_diskSpaceLimitMB = 0, mset_rateLimit = None\<rparr>\<rparr>"

definition sample_mono_meta :: object_meta where
  "sample_mono_meta = \<lparr>om_name = ''m'', om_namespace = ''ns'', om_generation = 1, om_resourceVersion = ''1'',
     om_deletionTimestamp = None, om_finalizers = [monoRepoFinalizerName], om_annotations = Map.empty\<rparr>"

definition zero_mono_status :: mono_status where
  "zero_mono_status = \<lparr>mns_phase = MonoUnset, mns_conditions = [], mns_startTime = None, mns_completionTime = None,
     mns_repoStatuses = [], mns_progress = \<lparr>mp_totalRepos = 0, mp_completedRepos = 0, mp_failedRepos = 0,
       mp_skippedRepos = 0, mp_percentage = 0, mp_currentStep = [], mp_progressSummary = []\<rparr>, mns_errorMessage = [],
     mns_warnings = [], mns_statistics = None, mns_lastReconcileTime = None, mns_observedGeneration = 0, mns_monoRepoURL = []\<rparr>"

definition sample_world :: "mono_phase \<Rightarrow> mono_repo_phase \<Rightarrow> mono_world" where
  "sample_world p q = \<lparr>mw_object = \<lparr>mn_meta = sample_mono_meta, mn_spec = sample_mono_spec,
       mn_status = zero_mono_status\<lparr>mns_phase := p,
         mns_repoStatuses := map (\<lambda>r. (initial_repo_status r)\<lparr>mrs_phase := q\<rparr>) (mono_sourceRepos sample_mono_spec)\<rparr>\<rparr>,
     mw_io = no_io, mw_workspaces = Map.empty\<rparr>"

definition sample_mono_git :: mono_git where
  "sample_mono_git = git_env.extend sample_git (mono_git.fields (\<lambda>t d. True) (\<lambda>t d. (1, 2, 3)))"

definition sample_mono_env :: mono_env where
  "sample_mono_env = \<lparr>k_clock = int, k_status = (\<lambda>n x. None), k_update = (\<lambda>n old x. Inr (x\<lparr>mn_status := mn_status old\<rparr>)),
     k_secret = (\<lambda>ns n. Inr [''k'' \<mapsto> ''v'']), mo_git = sample_mono_git, mo_sort = sort_key msr_priority, mo_finish = rev,
     mo_filter_repo = True, mo_exists = (\<lambda>s t ow rp. Inr False), mo_create = (\<lambda>s t ow rp v. None),
     mo_sp_token = (\<lambda>s c x t. Inr ''tok''), mo_app_cached = (\<lambda>s n a i. False), mo_app_client = (\<lambda>s a i p. None),
     mo_app_token = (\<lambda>s a i. Inr ''tok'')\<rparr>"

lemma sample_mono_env_ok [simp]: "mono_env_ok sample_mono_env"
  by (auto simp: mono_env_ok_def sample_mono_env_def)

lemma sample_world_simps [simp]:
  "mphase (mw_object (sample_world p q)) = p" "map mrs_name (mrepos (mw_object (sample_world p q))) = [''b'', ''a'']"
  by (simp_all add: sample_world_def sample_mono_spec_def sample_source_repo_def initial_repo_status_def)

theorem mono_run_invariant_witness:
  "let w = sample_world MonoUnset MrPending; q = mphase (mw_object (mono_event_step (MonoReconciled sample_mono_env) w))
   in q = MonoUnset \<or> mono_edge MonoUnset q"
  using mono_run_invariant [of "sample_world MonoUnset MrPending"
    "[MonoReconciled sample_mono_env, OperatorRestarted, MonoReconciled sample_mono_env]"]
  by (auto simp: Let_def dest: spec [of _ 0])

theorem mono_repositories_fixed_witness:
  "map mrs_name (mrepos (mw_object (mono_life [MonoEdited sample_mono_meta (sample_mono_spec\<lparr>mono_sourceRepos := []\<rparr>),
     MonoReconciled sample_mono_env] (sample_world MonoPending MrPending)))) = [''b'', ''a'']"
proof -
  let ?w = "sample_world MonoPending MrPending"
  have "same_repos (mrepos (mw_object ?w)) (mrepos (mw_object (mono_life [MonoEdited sample_mono_meta
      (sample_mono_spec\<lparr>mono_sourceRepos := []\<rparr>), MonoReconciled sample_mono_env] ?w)))"
    by (rule mono_repositories_fixed) (simp_all add: mono_ok_def free_phases)
  then have "map mrs_name (mrepos (mw_object ?w)) = map mrs_name (mrepos (mw_object (mono_life [MonoEdited sample_mono_meta
      (sample_mono_spec\<lparr>mono_sourceRepos := []\<rparr>), MonoReconciled sample_mono_env] ?w)))"
    by (rule same_repos_names)
  then show ?thesis by (simp only: sample_world_simps)
qed

end
