(* ===== verification/MonoTermination.thy ===== *)
theory MonoTermination
  imports MonoProperties
begin

text \<open>
  A MonoRepoMigration that is left alone ends: every reconciliation that the API server accepts
  uses up part of a potential, the number of phases to go and of repositories still to be cloned,
  rewritten and merged.
\<close>

definition todo :: "mono_repo_phase set \<Rightarrow> mono_repo_status list \<Rightarrow> nat" where
  "todo P rs = count_if (\<lambda>r. mrs_phase r \<in> P) rs"

definition potential :: "mono \<Rightarrow> nat" where
  "potential m = (let rs = mrepos m; n = length rs in
     case mphase m of
       MonoUnset \<Rightarrow> 7 + 3 * length (mono_sourceRepos (mn_spec m))
     | MonoPending \<Rightarrow> 6 + 3 * n
     | MonoValidating \<Rightarrow> 5 + 3 * n
     | MonoCloning \<Rightarrow> 4 + 2 * n + todo {MrPending, MrCloning} rs
     | MonoRewriting \<Rightarrow> 3 + n + todo {MrRewriting} rs
     | MonoMerging \<Rightarrow> 2 + todo {MrMerging} rs
     | MonoPushing \<Rightarrow> 1
     | _ \<Rightarrow> 0)"

text \<open>No request to the controller is pending, and the API server accepts status updates.\<close>

definition mono_calm :: "mono \<Rightarrow> bool" where
  "mono_calm m \<longleftrightarrow> monoRepoFinalizerName \<in> set (om_finalizers (mn_meta m)) \<and> om_deletionTimestamp (mn_meta m) = None
     \<and> (\<forall>key \<in> {monoRepoReconcileTriggerAnnotation, monoRepoPauseAnnotation, monoRepoCancelAnnotation, monoRepoRetryAnnotation}.
          om_annotations (mn_meta m) key = None)"

definition mono_accepting :: "mono_env \<Rightarrow> bool" where
  "mono_accepting k \<longleftrightarrow> (\<forall>n x. k_status k n x = None)"

text \<open>What one reconciliation achieves: the potential shrinks; metadata and specification are kept.\<close>

definition progresses :: "mono \<Rightarrow> mono \<Rightarrow> bool" where
  "progresses m x \<longleftrightarrow> mn_meta x = mn_meta m \<and> mn_spec x = mn_spec m \<and> mphase x \<notin> {MonoPaused, MonoUnset, MonoCancelled}
     \<and> potential x < potential m"

lemma todo_le: "todo P rs \<le> length rs"
  by (simp add: todo_def)

lemma todo_update:
  assumes "i < length rs" and "mrs_phase r \<notin> P"
  shows "todo P (rs[i := r]) + (if mrs_phase (rs ! i) \<in> P then 1 else 0) = todo P rs"
  using count_if_update [OF assms(1), of "\<lambda>r. mrs_phase r \<in> P" r] assms(2) by (simp add: todo_def)

lemma updates_progress:
  assumes "mono_accepting k" and "mn_meta (obj t) = mn_meta m" and "mn_spec (obj t) = mn_spec m"
    and "mphase (obj t) \<notin> {MonoPaused, MonoUnset, MonoCancelled}" and "potential (obj t) < potential m"
  shows "progresses m (stored (snd (update_then k a b t)))"
  using assms by (simp add: mono_accepting_def progresses_def)

lemma fail_progresses:
  assumes "mono_accepting k" and "mn_meta (obj s) = mn_meta m" and "mn_spec (obj s) = mn_spec m" and "0 < potential m"
  shows "progresses m (stored (snd (mono_failMigration k msg s)))"
  unfolding mono_failMigration_def read_clock_def Let_def prod.case
  by (rule updates_progress [OF assms(1)]) (use assms(2-4) in \<open>simp_all add: potential_def\<close>)

lemma next_phase_progresses:
  assumes "mono_accepting k" and "mn_meta (obj s) = mn_meta m" and "mn_spec (obj s) = mn_spec m"
    and "p \<notin> {MonoPaused, MonoUnset, MonoCancelled}" and "potential (obj (mono_step_to p t s)) < potential m"
  shows "progresses m (stored (snd (next_mono_phase k p t msg s)))"
  unfolding next_mono_phase_def by (rule updates_progress [OF assms(1)]) (use assms(2-5) in simp_all)

lemma repo_error_progresses:
  assumes a: "mono_accepting k" and m: "mn_meta (obj s) = mn_meta m" "mn_spec (obj s) = mn_spec m"
    and p: "mphase (obj s) = mphase m" "mphase m \<notin> {MonoPaused, MonoUnset, MonoCancelled}" "0 < potential m"
    and less: "\<And>r. mrs_phase r = MrFailed \<Longrightarrow>
      potential (m\<lparr>mn_status := (mn_status (obj s))\<lparr>mns_repoStatuses := (mrepos (obj s))[i := r]\<rparr>\<rparr>) < potential m"
  shows "progresses m (stored (snd (handleRepoError k i e s)))"
proof -
  obtain r where r: "mrepos (obj (mark_repo_failed k i e s)) = (mrepos (obj s))[i := r]" "mrs_phase r = MrFailed"
    using mark_repo_failed_simps(5) [of k i e s] by blast
  have "progresses m (stored (snd (mono_failMigration k msg (emit x (mark_repo_failed k i e s)))))" for msg x
    by (rule fail_progresses [OF a]) (simp_all add: mark_repo_failed_simps m p)
  moreover have "potential (on_mono mono_updateProgressSummary (obj (mark_repo_failed k i e s))) < potential m"
  proof -
    have "potential (on_mono mono_updateProgressSummary (obj (mark_repo_failed k i e s)))
        = potential (m\<lparr>mn_status := (mn_status (obj s))\<lparr>mns_repoStatuses := (mrepos (obj s))[i := r]\<rparr>\<rparr>)"
      using p(3) by (cases "mphase m") (simp_all add: potential_def Let_def mark_repo_failed_simps m(2) p(1) r(1))
    then show ?thesis using less [OF r(2)] by simp
  qed
  then have "progresses m (stored (snd (update_then k a b (modify (on_mono mono_updateProgressSummary)
      (emit y (emit x (mark_repo_failed k i e s)))))))" for a b x y
    by (intro updates_progress [OF assms(1)]) (use p(2) in \<open>simp_all add: mark_repo_failed_simps m p(1)\<close>)
  ultimately show ?thesis unfolding handleRepoError_def Let_def by simp
qed

section \<open>The phases\<close>

lemma init_progresses:
  assumes "mono_accepting k" and "mono_env_ok k" and "mphase (obj s) = MonoUnset"
  shows "progresses (obj s) (stored (snd (mono_initializeStatus k s)))"
proof -
  have "length (mo_sort k rs) = length rs" for rs using assms(2) by (metis mono_env_ok_def size_mset)
  then show ?thesis using assms(1,3)
    by (simp add: mono_initializeStatus_def read_clock_def Let_def mono_accepting_def progresses_def potential_def)
qed

lemma pending_progresses:
  "mono_accepting k \<Longrightarrow> mphase (obj s) = MonoPending \<Longrightarrow> progresses (obj s) (stored (snd (mono_processPending k s)))"
  unfolding mono_processPending_def Let_def by (rule updates_progress) (simp_all add: potential_def)

lemma validating_progresses:
  assumes a: "mono_accepting k" and p: "mphase (obj s) = MonoValidating"
  shows "progresses (obj s) (stored (snd (mono_processValidating k s)))"
proof -
  have "progresses (obj s) (stored (snd (mono_failMigration k msg s)))" for msg
    by (rule fail_progresses [OF a]) (simp_all add: p potential_def)
  moreover have "progresses (obj s) (stored (snd (update_then k u v (emit x (emit y (mono_step_to MonoCloning t s))))))" for u v x y t
    by (rule updates_progress [OF a]) (use todo_le [of "{MrPending, MrCloning}" "mrepos (obj s)"] in \<open>simp_all add: p potential_def Let_def\<close>)
  ultimately show ?thesis by (simp add: mono_processValidating_def Let_def split: sum.splits)
qed

subsection \<open>Cloning\<close>

abbreviation unclosed :: "mono_state \<Rightarrow> nat" where
  "unclosed s \<equiv> todo {MrPending, MrCloning} (mrepos (obj s))"

text \<open>From one state of the loop over the clones to a later one.\<close>

definition in_batch :: "mono_state \<Rightarrow> mono_state \<Rightarrow> bool" where
  "in_batch s t \<longleftrightarrow> mn_meta (obj t) = mn_meta (obj s) \<and> mn_spec (obj t) = mn_spec (obj s)
     \<and> mphase (obj t) = mphase (obj s) \<and> length (mrepos (obj t)) = length (mrepos (obj s)) \<and> unclosed t \<le> unclosed s"

lemma in_batch_refl [simp]: "in_batch s s" and in_batch_trans: "in_batch s t \<Longrightarrow> in_batch t u \<Longrightarrow> in_batch s u"
  by (auto simp: in_batch_def)

lemma one_repo_in_batch:
  assumes "mrepos (obj t) = (mrepos (obj s))[i := r]" and "i < length (mrepos (obj s))" and "mrs_phase r \<notin> {MrPending, MrCloning}"
    and "mn_meta (obj t) = mn_meta (obj s)" "mn_spec (obj t) = mn_spec (obj s)" "mphase (obj t) = mphase (obj s)"
  shows "in_batch s t \<and> (mrs_phase (mrepos (obj s) ! i) \<in> {MrPending, MrCloning} \<longrightarrow> unclosed t < unclosed s)"
  using todo_update [OF assms(2,3)] assms(1,4-6) by (auto simp: in_batch_def split: if_splits)

lemma start_time_in_batch:
  "in_batch s (set_start_time k i s) \<and> map mrs_phase (mrepos (obj (set_start_time k i s))) = map mrs_phase (mrepos (obj s))"
proof -
  have "(map f xs)[i := f (xs ! i)] = map f xs" for f :: "mono_repo_status \<Rightarrow> mono_repo_phase" and xs
    by (cases "i < length xs") (simp_all add: list_update_beyond nth_map [symmetric] del: nth_map)
  then have phases: "map mrs_phase (mrepos (obj (set_start_time k i s))) = map mrs_phase (mrepos (obj s))"
    by (simp add: set_start_time_def read_clock_def map_update)
  have "todo P xs = count_if (\<lambda>p. p \<in> P) (map mrs_phase xs)" for P xs by (simp add: todo_def filter_map comp_def)
  then have "unclosed (set_start_time k i s) = unclosed s" by (simp only: phases)
  moreover have "length (mrepos (obj (set_start_time k i s))) = length (mrepos (obj s))" using phases by (metis length_map)
  ultimately show ?thesis using phases by (auto simp: in_batch_def set_start_time_def read_clock_def)
qed

lemma collect_progresses:
  assumes a: "mono_accepting k" and p: "mphase (obj s) = MonoCloning" and b: "in_batch s t"
    and r: "\<forall>i \<in> set (map fst rs). i < length (mrepos (obj t))"
    and todo: "unclosed t < unclosed s \<or> rs \<noteq> [] \<and> mrs_phase (mrepos (obj t) ! fst (hd rs)) \<in> {MrPending, MrCloning}"
  shows "progresses (obj s) (stored (snd (collect_clones k n rs t)))"
  using b r todo
proof (induction rs arbitrary: t)
  case Nil
  then show ?case unfolding collect_clones.simps Let_def
    by (intro updates_progress [OF a]) (simp_all add: in_batch_def p potential_def Let_def)
next
  case (Cons x rs)
  obtain i r where x: "x = (i, r)" by fastforce
  let ?t = "set_start_time k i t"
  have i: "i < length (mrepos (obj t))" using Cons.prems(2) x by simp
  have t: "in_batch t ?t" "map mrs_phase (mrepos (obj ?t)) = map mrs_phase (mrepos (obj t))"
    using start_time_in_batch [of t k i] by auto
  have len: "length (mrepos (obj ?t)) = length (mrepos (obj t))" using t(1) by (simp add: in_batch_def)
  have ph: "mrs_phase (mrepos (obj ?t) ! i) = mrs_phase (mrepos (obj t) ! i)" using t(2) i len by (metis nth_map)
  have closed: "in_batch s u \<and> (\<forall>i \<in> set (map fst rs). i < length (mrepos (obj u))) \<and> unclosed u < unclosed s"
    if "mrepos (obj u) = (mrepos (obj ?t))[i := q]" "mrs_phase q \<notin> {MrPending, MrCloning}"
      "mn_meta (obj u) = mn_meta (obj ?t)" "mn_spec (obj u) = mn_spec (obj ?t)" "mphase (obj u) = mphase (obj ?t)" for u q
  proof -
    have u: "in_batch ?t u \<and> (mrs_phase (mrepos (obj ?t) ! i) \<in> {MrPending, MrCloning} \<longrightarrow> unclosed u < unclosed ?t)"
      by (rule one_repo_in_batch [OF that(1) _ that(2-5)]) (use i len in simp)
    then have "unclosed u < unclosed s" using Cons.prems(1,3) x t(1) ph by (auto simp: in_batch_def)
    moreover have "in_batch s u" using Cons.prems(1) t(1) u in_batch_trans by blast
    ultimately show ?thesis using u t(1) Cons.prems(2) by (auto simp: in_batch_def)
  qed
  show ?case
  proof (cases r)
    case (Inr cr)
    have "progresses (obj s) (stored (snd (collect_clones k n rs (record_clone i cr ?t))))"
      by (rule Cons.IH) (use closed [of "record_clone i cr ?t"] in \<open>simp_all add: record_clone_def\<close>)
    then show ?thesis using x Inr by simp
  next
    case (Inl e)
    let ?u = "mark_repo_failed k i e ?t"
    obtain q where q: "mrepos (obj ?u) = (mrepos (obj ?t))[i := q]" "mrs_phase q = MrFailed"
      using mark_repo_failed_simps(5) [of k i e ?t] by blast
    have u: "in_batch s ?u" "\<forall>i \<in> set (map fst rs). i < length (mrepos (obj ?u))" "unclosed ?u < unclosed s"
      using closed [OF q(1)] q(2) by (simp_all add: mark_repo_failed_simps)
    have "progresses (obj s) (stored (snd (mono_failMigration k msg
        (modify (on_mono mono_updateProgressSummary) (emit y ?u)))))" for msg y
      by (rule fail_progresses [OF a]) (use u(1) p in \<open>simp_all add: in_batch_def potential_def Let_def\<close>)
    moreover have "progresses (obj s) (stored (snd (collect_clones k n rs (emit z (emit y ?u)))))" for y z
      by (rule Cons.IH) (use u in \<open>simp_all add: in_batch_def\<close>)
    ultimately show ?thesis using x Inl by (simp add: Let_def)
  qed
qed

lemma cloning_progresses:
  assumes a: "mono_accepting k" and k: "mono_env_ok k" and p: "mphase (obj s) = MonoCloning"
  shows "progresses (obj s) (stored (snd (processCloning k s)))"
proof -
  obtain dir s0 where g: "getWorkspace s = (dir, s0)" by fastforce
  define s1 where "s1 = clean_if_all_pending k dir s0"
  have s1: "obj s1 = obj s" using getWorkspace_eq [OF g] by (simp add: s1_def)
  let ?todo = "repos_in {MrPending, MrCloning} (mn_status (obj s1))"
  show ?thesis
  proof (cases "?todo = []")
    case True
    have "progresses (obj s) (stored (snd (next_mono_phase k MonoRewriting t msg s1)))" for t msg
      by (rule next_phase_progresses [OF a])
        (use todo_le [of "{MrRewriting}" "mrepos (obj s)"] in \<open>simp_all add: s1 p potential_def Let_def\<close>)
    then show ?thesis unfolding processCloning_def g prod.case Let_def s1_def [symmetric] using True by simp
  next
    case False
    define batch where "batch = take (nat (GetParallelClones (mono_settings (mn_spec (obj s1))))) ?todo"
    have ne: "batch \<noteq> []" using False GetParallelClones_range(1) [of "mono_settings (mn_spec (obj s1))"] by (simp add: batch_def)
    have "progresses (obj s) (stored (snd (collect_clones k n rs t)))"
      if "with_io (clone_batch k (obj s1) dir tok (mo_finish k batch)) s1 = (rs, t)" for n rs t tok
    proof (rule collect_progresses [OF a p])
      from with_io_eq [OF that] s1 have t: "obj t = obj s" by simp
      then show "in_batch s t" by (simp add: in_batch_def)
      have "rs = fst (clone_batch k (obj s1) dir tok (mo_finish k batch) (mn_io s1))"
        using that by (auto simp: with_io_def split: prod.splits)
      then have rs: "map fst rs = mo_finish k batch" by (simp add: clone_batch_indices)
      have "set (map fst rs) = set batch" using finish_mem [OF k] rs by simp
      moreover have "set batch \<subseteq> set ?todo" by (simp add: batch_def set_take_subset)
      ultimately have mem: "\<And>i. i \<in> set (map fst rs) \<Longrightarrow> i \<in> set ?todo" and "rs \<noteq> []" using ne by auto
      then have "fst (hd rs) \<in> set ?todo" by (metis hd_in_set list.map_disc_iff list.map_sel(1))
      with mem \<open>rs \<noteq> []\<close> show "\<forall>i \<in> set (map fst rs). i < length (mrepos (obj t))"
        and "unclosed t < unclosed s \<or> rs \<noteq> [] \<and> mrs_phase (mrepos (obj t) ! fst (hd rs)) \<in> {MrPending, MrCloning}"
        by (auto simp: repos_in_mem t s1)
    qed
    moreover have "progresses (obj s) (stored (snd (mono_failMigration k msg s1)))" for msg
      by (rule fail_progresses [OF a]) (simp_all add: s1 p potential_def Let_def)
    ultimately show ?thesis unfolding processCloning_def g prod.case Let_def s1_def [symmetric] batch_def [symmetric]
      using False by (simp split: sum.splits prod.splits)
  qed
qed

subsection \<open>Rewriting, merging, pushing\<close>

lemma rewriting_progresses:
  assumes a: "mono_accepting k" and p: "mphase (obj s) = MonoRewriting"
  shows "progresses (obj s) (stored (snd (processRewriting k s)))"
proof (cases "findNextRepoInPhase (mn_status (obj s)) MrRewriting")
  case None
  have "progresses (obj s) (stored (snd (next_mono_phase k MonoMerging t msg s)))" for t msg
    by (rule next_phase_progresses [OF a])
      (use todo_le [of "{MrMerging}" "mrepos (obj s)"] in \<open>simp_all add: p potential_def Let_def\<close>)
  then show ?thesis using None by (simp add: processRewriting_def)
next
  case (Some i)
  note i = next_in_phase [OF Some]
  have less: "todo {MrRewriting} ((mrepos (obj s))[i := r]) < todo {MrRewriting} (mrepos (obj s))" if "mrs_phase r \<noteq> MrRewriting" for r
    using todo_update [of i "mrepos (obj s)" r "{MrRewriting}"] i that by simp
  obtain dir s0 where g: "getWorkspace s = (dir, s0)" by fastforce
  obtain r t where io: "with_io (RewriteRepoToSubdirectory (mo_git k) (repo_dir dir (mrs_name (repo_at s i)))
      (mrs_subdirectoryName (repo_at s i)) (GetCleanupBetweenRepos (mono_settings (mn_spec (obj s0))))) s0 = (r, t)" by fastforce
  have t: "obj t = obj s" using getWorkspace_eq [OF g] with_io_eq [OF io] by simp
  show ?thesis
  proof (cases r)
    case (Inl e)
    have "progresses (obj s) (stored (snd (handleRepoError k i e t)))"
      by (rule repo_error_progresses [OF a]) (use less in \<open>simp_all add: t p potential_def Let_def\<close>)
    then show ?thesis using Some g io Inl by (simp add: processRewriting_def Let_def)
  next
    case (Inr x)
    have "progresses (obj s) (stored (snd (update_then k u v (modify (on_mono mono_updateProgressSummary) (emit y
        (modify (on_mono_progress h) (modify (on_mono (set_repo i (\<lambda>r. r\<lparr>mrs_phase := MrMerging, mrs_branchesMigrated := n1,
           mrs_tagsMigrated := n2, mrs_commitCount := n3\<rparr>))) t)))))))" for u v y h n1 n2 n3
      by (rule updates_progress [OF a]) (use less in \<open>simp_all add: t p potential_def Let_def\<close>)
    then show ?thesis using Some g io Inr by (simp add: processRewriting_def Let_def)
  qed
qed

lemma merge_one_progresses:
  assumes a: "mono_accepting k" and p: "mphase (obj s) = MonoMerging" and i: "findNextRepoInPhase (mn_status (obj s)) MrMerging = Some i"
  shows "progresses (obj s) (stored (snd (merge_one k dir i s)))"
proof -
  have less: "todo {MrMerging} ((mrepos (obj s))[i := r]) < todo {MrMerging} (mrepos (obj s))" if "mrs_phase r \<noteq> MrMerging" for r
    using todo_update [of i "mrepos (obj s)" r "{MrMerging}"] next_in_phase [OF i] that by simp
  let ?work = "repo_dir dir (mrs_name (repo_at s i)) @ ''-work''"
  obtain b ex inc where ms: "merge_settings (mn_spec (obj s)) (repo_at s i) = (b, ex, inc)" by (metis prod_cases3)
  obtain refs s0 where cb: "with_io (collectBranchesAndTags (mo_git k) ?work) s = (refs, s0)" by fastforce
  obtain r t where io: "with_io (MergeRepoIntoMonoRepo (mo_git k) (PathText (dir @ ''/monorepo'')) (PathText ?work)
      (mrs_name (repo_at s i)) b refs [ex, inc]) s0 = (r, t)" by fastforce
  have t: "obj t = obj s" using with_io_eq [OF cb] with_io_eq [OF io] by simp
  show ?thesis
  proof (cases r)
    case (Inl e)
    have "progresses (obj s) (stored (snd (handleRepoError k i e t)))"
      by (rule repo_error_progresses [OF a]) (use less in \<open>simp_all add: t p potential_def Let_def\<close>)
    then show ?thesis using ms cb io Inl by (simp add: merge_one_def Let_def)
  next
    case (Inr x)
    obtain now u where c: "read_clock k t = (now, u)" by fastforce
    have u: "obj u = obj s" using c t by (auto simp: read_clock_def)
    have "progresses (obj s) (stored (snd (update_then k v w (mono_updateStatistics k (modify (on_mono mono_updateProgressSummary) (emit y
        (modify (on_mono_progress h) (modify (on_mono (set_repo i (\<lambda>r. r\<lparr>mrs_phase := MrCompleted, mrs_completionTime := Some now,
           mrs_branchesMigrated := n1, mrs_tagsMigrated := n2\<rparr>))) u))))))))" for v w y h n1 n2
      by (rule updates_progress [OF a]) (use less in \<open>simp_all add: u p potential_def Let_def\<close>)
    then show ?thesis using ms cb io Inr c by (simp add: merge_one_def Let_def)
  qed
qed

lemma merging_progresses:
  assumes a: "mono_accepting k" and p: "mphase (obj s) = MonoMerging"
  shows "progresses (obj s) (stored (snd (processMerging k s)))"
proof -
  obtain dir s0 where g: "getWorkspace s = (dir, s0)" by fastforce
  obtain r t where init: "(if has_completed (mn_status (obj s0)) then (Inr (), s0) else with_io (InitMonoRepo (mo_git k) dir
      (default_branch_or_main (mtc_defaultBranch (mono_target (mn_spec (obj s0)))))) s0) = (r, t)" by fastforce
  have t: "obj t = obj s" using getWorkspace_eq [OF g] init by (auto split: if_splits dest: with_io_eq)
  have "progresses (obj s) (stored (snd (mono_failMigration k msg t)))" for msg
    by (rule fail_progresses [OF a]) (simp_all add: t p potential_def Let_def)
  moreover have "progresses (obj s) (stored (snd (next_mono_phase k MonoPushing x msg t)))" for x msg
    by (rule next_phase_progresses [OF a]) (simp_all add: t p potential_def Let_def)
  moreover have "progresses (obj s) (stored (snd (merge_one k dir i t)))"
    if "findNextRepoInPhase (mn_status (obj t)) MrMerging = Some i" for i
    using merge_one_progresses [OF a, of t i] that p by (simp add: t)
  ultimately show ?thesis using g init by (auto simp: processMerging_def split: sum.splits option.splits)
qed

lemma pushing_progresses:
  assumes a: "mono_accepting k" and p: "mphase (obj s) = MonoPushing"
  shows "progresses (obj s) (stored (snd (processPushing k s)))"
proof -
  have fail: "progresses (obj s) (stored (snd (mono_failMigration k msg t)))" if "obj t = obj s" for msg t
    by (rule fail_progresses [OF a]) (simp_all add: that p potential_def Let_def)
  have finish: "progresses (obj s) (stored (snd (finish_push k t)))" if "obj t = obj s" for t
    unfolding finish_push_def read_clock_def Let_def prod.case
    by (rule updates_progress [OF a]) (simp_all add: that p potential_def Let_def)
  show ?thesis
    unfolding processPushing_def Let_def using fail finish
    by (auto split: sum.splits prod.splits dest!: create_target_eq getWorkspace_eq with_io_eq)
qed

section \<open>Every migration that is left alone ends\<close>

lemma calm_reconcile:
  assumes "mono_calm (obj s)"
  shows "reconcile_mono k s = (if mphase (obj s) = MonoUnset then mono_initializeStatus k s else mono_processPhase k s)"
  using assms by (simp add: reconcile_mono_def Let_def mono_calm_def mono_handleAnnotations_def)

lemma reconcile_progresses:
  assumes "mono_calm (obj s)" and "mono_accepting k" and "mono_env_ok k" and "0 < potential (obj s)"
  shows "progresses (obj s) (stored (snd (reconcile_mono k s)))"
proof -
  have "mphase (obj s) \<in> {MonoUnset, MonoPending, MonoValidating, MonoCloning, MonoRewriting, MonoMerging, MonoPushing}"
    using assms(4) by (cases "mphase (obj s)") (simp_all add: potential_def Let_def)
  then show ?thesis
    using calm_reconcile [OF assms(1), of k] init_progresses [OF assms(2,3)] pending_progresses [OF assms(2)]
      validating_progresses [OF assms(2)] cloning_progresses [OF assms(2,3)] rewriting_progresses [OF assms(2)]
      merging_progresses [OF assms(2)] pushing_progresses [OF assms(2)]
    by (auto simp: mono_processPhase_def)
qed

lemma terminal_stays:
  assumes "mono_calm (obj s)" and "mono_terminal (mphase (obj s))"
  shows "stored (snd (reconcile_mono k s)) = stored s"
  using assms(2) calm_reconcile [OF assms(1), of k] by (auto simp: mono_terminal_def mono_processPhase_def)

text \<open>
  C23. A migration ends when it is left alone: with no annotation, no deletion and an API server that
  accepts status updates, every reconciliation makes progress, whatever git, GitHub, Azure
  DevOps, the secrets and the clock answer, so that after 7 reconciliations and 3 for each
  repository it is Completed or Failed and stays so.
\<close>

theorem mono_ends:
  assumes "mono_calm (mw_object w)" and "mphase (mw_object w) = MonoUnset"
    and "\<forall>k \<in> set ks. mono_accepting k \<and> mono_env_ok k"
    and "7 + 3 * length (mono_sourceRepos (mn_spec (mw_object w))) \<le> length ks"
  shows "mphase (mw_object (mono_life (map MonoReconciled ks) w)) \<in> {MonoCompleted, MonoFailed}"
proof -
  have ended: "mono_terminal (mphase (mw_object (mono_life (map MonoReconciled ks) w)))
      \<and> mphase (mw_object (mono_life (map MonoReconciled ks) w)) \<noteq> MonoCancelled"
    if "mono_calm (mw_object w)" "mphase (mw_object w) \<notin> {MonoPaused, MonoCancelled}" "potential (mw_object w) \<le> length ks"
      "\<forall>k \<in> set ks. mono_accepting k \<and> mono_env_ok k" for ks w
    using that
  proof (induction ks arbitrary: w)
    case Nil
    then show ?case by (cases "mphase (mw_object w)") (simp_all add: potential_def Let_def mono_terminal_def)
  next
    case (Cons k ks)
    let ?s = "mono_fetched w" and ?w = "mono_event_step (MonoReconciled k) w"
    have k: "mono_accepting k" "mono_env_ok k" and ks: "\<forall>k \<in> set ks. mono_accepting k \<and> mono_env_ok k"
      using Cons.prems(4) by simp_all
    have "mono_calm (mw_object ?w) \<and> mphase (mw_object ?w) \<notin> {MonoPaused, MonoCancelled} \<and> potential (mw_object ?w) \<le> length ks"
    proof (cases "0 < potential (mw_object w)")
      case True
      then have pr: "progresses (mw_object w) (mw_object ?w)"
        using reconcile_progresses [of ?s k] k Cons.prems(1) by simp
      then show ?thesis using Cons.prems(1,3) by (auto simp: progresses_def mono_calm_def)
    next
      case False
      then have "mono_terminal (mphase (mw_object w))"
        using Cons.prems(2) by (cases "mphase (mw_object w)") (simp_all add: potential_def Let_def mono_terminal_def)
      then have "mw_object ?w = mw_object w" using terminal_stays [of ?s k] Cons.prems(1) by simp
      then show ?thesis using Cons.prems(1,2) False by simp
    qed
    then show ?case using Cons.IH [of ?w] ks by simp
  qed
  have "potential (mw_object w) \<le> length ks" using assms(2,4) by (simp add: potential_def Let_def)
  then show ?thesis using ended [OF assms(1) _ _ assms(3)] assms(2) by (auto simp: mono_terminal_def)
qed

theorem mono_ends_witness:
  "mphase (mw_object (mono_life (map MonoReconciled (replicate 13 sample_mono_env)) (sample_world MonoUnset MrPending)))
     \<in> {MonoCompleted, MonoFailed}"
proof (rule mono_ends)
  show "mono_calm (mw_object (sample_world MonoUnset MrPending))"
    by (simp add: mono_calm_def sample_world_def sample_mono_meta_def)
  show "7 + 3 * length (mono_sourceRepos (mn_spec (mw_object (sample_world MonoUnset MrPending))))
      \<le> length (replicate 13 sample_mono_env)"
    by (simp add: sample_world_def sample_mono_spec_def)
qed (simp_all add: mono_accepting_def sample_mono_env_def [THEN arg_cong [of _ _ k_status]])

end
