(* ===== verification/MonoOutcomes.thy ===== *)
theory MonoOutcomes
  imports MonoProperties
begin

text \<open>
  What the MonoRepoMigration controller does over time: that it prepares the directory of the
  monorepo only before the first merge, that a migration left alone ends, what its
  validation accepts, and what the merge of a repository reads.
\<close>

section \<open>What is added to the trace\<close>

definition adds :: "(io_action \<Rightarrow> bool) \<Rightarrow> io_state \<Rightarrow> io_state \<Rightarrow> bool" where
  "adds P s t \<longleftrightarrow> (\<exists>ext. io_trace t = io_trace s @ ext \<and> list_all P ext)"

lemma adds_refl [simp]: "adds P s s"
  by (simp add: adds_def)

lemma adds_trans [trans]: "adds P s t \<Longrightarrow> adds P t u \<Longrightarrow> adds P s u"
  unfolding adds_def by (metis append.assoc list_all_append)

lemma adds_act: "P a \<Longrightarrow> adds P s t \<Longrightarrow> adds P s (act a t)"
  by (auto simp: adds_def)

lemma adds_git: "P (Git args) \<Longrightarrow> adds P s t \<Longrightarrow> adds P s (snd (run_git g args t))"
  by (simp add: adds_act)

lemma adds_and_then:
  "adds P s (snd r) \<Longrightarrow> (\<And>x t. adds P s t \<Longrightarrow> adds P s (snd (f x t))) \<Longrightarrow> adds P s (snd (and_then r f))"
  by (cases r) (auto simp: and_then_def split: sum.splits)

lemma adds_check_git: "snd (check_git what r) = snd r"
  by (auto simp: check_git_def split: prod.splits option.splits)

text \<open>The directory of the monorepo is made, or git is run in it, by \<open>InitMonoRepo\<close>.\<close>

fun prepares_monorepo :: "io_action \<Rightarrow> bool" where
  "prepares_monorepo (MkDir (JoinPath [d, n])) \<longleftrightarrow> n = ''monorepo''"
| "prepares_monorepo (Git (c # At (JoinPath [d, n]) # args)) \<longleftrightarrow> n = ''monorepo''"
| "prepares_monorepo _ \<longleftrightarrow> False"

abbreviation leaves_monorepo :: "io_state \<Rightarrow> io_state \<Rightarrow> bool" where
  "leaves_monorepo \<equiv> adds (\<lambda>a. \<not> prepares_monorepo a)"

lemma InitMonoRepo_prepares:
  "\<exists>ext. io_trace (snd (InitMonoRepo g dir b s)) = io_trace s @ MkDir (mono_dir dir) # ext"
proof -
  have "prefix (io_trace s @ [MkDir (mono_dir dir)]) (io_trace (snd (InitMonoRepo g dir b s)))"
    unfolding InitMonoRepo_def Let_def
    by (rule and_then_prefix, simp, (rule and_then_prefix, simp add: adds_check_git prefix_append)+)
      (simp add: adds_check_git prefix_append)
  then show ?thesis by (auto simp: prefix_def)
qed

lemma BuildCloneArgs_leaves: "\<not> prepares_monorepo (Git (BuildCloneArgs n u d))"
  by (simp add: BuildCloneArgs_def)

lemma clone_leaves: "leaves_monorepo io (snd (clone_one k m dir tok n io))"
proof -
  have fetch: "\<not> prepares_monorepo (Git (Text ''-C'' # At (clone_dir dir n) # args))" for args
    by (simp add: clone_dir_def)
  have "leaves_monorepo s (snd (cloneRepository g u (clone_dir dir n) t d s))" for g u t d s
    unfolding cloneRepository_def
    by (rule adds_and_then) (auto simp: make_dir_def run_git_def Let_def fetch BuildCloneArgs_leaves
        intro!: adds_act split: option.splits prod.splits)
  then have "leaves_monorepo s (snd (CloneMonoRepoSource g a b n t dir d s))" for g a b t d s
    unfolding CloneMonoRepoSource_def Let_def by (intro adds_and_then) simp_all
  moreover have "leaves_monorepo io (act (RemoveAll p) io)" for p by (simp add: adds_act)
  ultimately show ?thesis by (simp add: clone_one_def Let_def) (blast intro: adds_trans)
qed

lemma clone_batch_leaves: "leaves_monorepo io (snd (clone_batch k m dir tok is io))"
proof (induction "is" arbitrary: io)
  case (Cons i "is")
  obtain r t where c: "clone_one k m dir tok (mrs_name (mns_repoStatuses (mn_status m) ! i)) io = (r, t)" by fastforce
  have "leaves_monorepo io t" using clone_leaves [of io k m dir tok "mrs_name (mns_repoStatuses (mn_status m) ! i)"] c by simp
  then show ?case using Cons [of t] c by (auto split: prod.splits intro: adds_trans)
qed simp

lemma rewrite_leaves: "leaves_monorepo s (snd (RewriteRepoToSubdirectory g d n c s))"
proof -
  have "leaves_monorepo s (snd (make_working_copy g d n s))"
    by (auto simp: make_working_copy_def Let_def run_git_def in_repo_def intro!: adds_act split: option.splits prod.splits)
  moreover have "leaves_monorepo s (snd (case collect_stats g (PathText w) t of (r, u) \<Rightarrow>
      (Inr r, if c then act (RemoveAll p) u else u)))" if "leaves_monorepo s t" for t w p
    using that by (auto simp: collect_stats_def collect_refs_def run_git_def in_repo_def intro!: adds_act split: prod.splits)
  ultimately show ?thesis unfolding RewriteRepoToSubdirectory_def Let_def by (intro adds_and_then) simp_all
qed

lemma words_leave: "\<not> prepares_monorepo (Git (map Text ws))"
proof (cases ws)
  case (Cons w ws')
  then show ?thesis by (cases ws') simp_all
qed simp

lemma run_git_pair: obtains out err where "run_git g args s = ((out, err), act (Git args) s)"
  unfolding run_git_def by (metis prod.exhaust)

lemma collect_trace:
  "io_trace (snd (collectBranchesAndTags g d s)) = io_trace s
     @ [Git (command_words (''git -C '' @ d @ '' branch --list --no-color'')), Git (command_words (''git -C '' @ d @ '' tag --list''))]"
proof -
  define c1 c2 where "c1 = command_words (''git -C '' @ d @ '' branch --list --no-color'')"
    and "c2 = command_words (''git -C '' @ d @ '' tag --list'')"
  obtain o1 e1 where r1: "mono_run_git g c1 s = ((o1, e1), act (Git c1) s)" by (rule run_git_pair)
  obtain o2 e2 where r2: "mono_run_git g c2 (act (Git c1) s) = ((o2, e2), act (Git c2) (act (Git c1) s))" by (rule run_git_pair)
  show ?thesis unfolding collectBranchesAndTags_def c1_def [symmetric] c2_def [symmetric] r1 r2 prod.case by simp
qed

lemma collect_leaves: "leaves_monorepo s (snd (collectBranchesAndTags g d s))"
  unfolding adds_def collect_trace command_words_def by (intro exI conjI, rule refl) (simp only: list.pred_inject words_leave simp_thms)

lemma adds_fold: "(\<And>a. P (F a)) \<Longrightarrow> adds P s t \<Longrightarrow> adds P s (fold (\<lambda>a. act (F a)) cmds t)"
  by (induction cmds arbitrary: t) (auto intro: adds_act)

lemma merge_leaves: "leaves_monorepo s (snd (MergeRepoIntoMonoRepo g (PathText d) w n b refs ex s))"
  unfolding MergeRepoIntoMonoRepo_def Let_def
  by (intro adds_and_then) (auto simp: adds_check_git in_repo_def intro!: adds_act adds_fold)

lemma push_leaves: "leaves_monorepo s (snd (PushMonoRepo g (PathText d) tok ow rp b s))"
  unfolding PushMonoRepo_def Let_def
  by (intro adds_and_then) (auto simp: adds_check_git in_repo_def run_git_def intro!: adds_act adds_and_then split: option.splits prod.splits)

section \<open>The controller prepares the monorepo once\<close>

lemma io_frames [simp]:
  "mn_io (emit e s) = mn_io s" "mn_io (modify f s) = mn_io s" "mn_io (snd (read_clock k s)) = mn_io s"
  "mn_io (snd (update_then k a b s)) = mn_io s" "mn_io (snd (object_update k s)) = mn_io s"
  "mn_io (snd (getWorkspace s)) = mn_io s" "mn_io (mono_step_to p t s) = mn_io s"
  "mn_io (snd (next_mono_phase k p t m s)) = mn_io s" "mn_io (mono_updateStatistics k s) = mn_io s"
  by (simp_all add: emit_def modify_def read_clock_def update_then_def status_update_def object_update_def getWorkspace_def
      mono_step_to_def next_mono_phase_def mono_updateStatistics_def Let_def split: option.splits sum.splits)

lemma io_failure [simp]:
  "mn_io (snd (mono_failMigration k msg s)) = mn_io s" "mn_io (mark_repo_failed k i e s) = mn_io s"
  "mn_io (snd (handleRepoError k i e s)) = mn_io s" "mn_io (set_start_time k i s) = mn_io s" "mn_io (record_clone i cr s) = mn_io s"
  by (simp_all add: mono_failMigration_def mark_repo_failed_def handleRepoError_def set_start_time_def record_clone_def
      Let_def read_clock_def)

lemma io_collect [simp]: "mn_io (snd (collect_clones k n rs s)) = mn_io s"
  by (induction k n rs s rule: collect_clones.induct) (auto simp: Let_def split: sum.splits)

lemma io_pause [simp]:
  "mn_io (snd (mono_pause k s)) = mn_io s" "mn_io (snd (mono_cancel k s)) = mn_io s"
  "mn_io (snd (mono_initializeStatus k s)) = mn_io s" "mn_io (snd (mono_processPending k s)) = mn_io s"
  "mn_io (snd (mono_processValidating k s)) = mn_io s"
  by (simp_all add: mono_pause_def mono_cancel_def mono_initializeStatus_def mono_processPending_def mono_processValidating_def
      Let_def read_clock_def split: sum.splits)

lemma with_io_leaves:
  "with_io f s = (x, t) \<Longrightarrow> (\<And>io. leaves_monorepo io (snd (f io))) \<Longrightarrow> leaves_monorepo (mn_io s) (mn_io t)"
  by (auto simp: with_io_def split: prod.splits) (metis snd_conv)

lemma cleanup_leaves: "leaves_monorepo (mn_io s) (mn_io (cleanupWorkspace n s))"
  by (auto simp: cleanupWorkspace_def Let_def intro: adds_act split: option.splits)

lemma retry_leaves: "leaves_monorepo (mn_io s) (mn_io (snd (retryMigration k s)))"
  using cleanup_leaves [of s] by (simp add: retryMigration_def Let_def)

lemma cloning_leaves: "leaves_monorepo (mn_io s) (mn_io (snd (processCloning k s)))"
proof -
  obtain dir s0 where g: "getWorkspace s = (dir, s0)" by fastforce
  define s1 where "s1 = clean_if_all_pending k dir s0"
  have s0: "mn_io s0 = mn_io s" using io_frames(6) [of s] g by simp
  have s1: "leaves_monorepo (mn_io s) (mn_io s1)" by (simp add: s1_def clean_if_all_pending_def s0 adds_act)
  have "leaves_monorepo (mn_io s) (mn_io t)" if "with_io (clone_batch k m d tok b) s1 = (r, t)" for m d tok b r t
    using adds_trans [OF s1 with_io_leaves [OF that clone_batch_leaves]] .
  then show ?thesis unfolding processCloning_def g prod.case Let_def s1_def [symmetric]
    using s1 by (simp split: sum.splits prod.splits)
qed

lemma rewriting_leaves: "leaves_monorepo (mn_io s) (mn_io (snd (processRewriting k s)))"
proof (cases "findNextRepoInPhase (mn_status (obj s)) MrRewriting")
  case (Some i)
  obtain dir s0 where g: "getWorkspace s = (dir, s0)" by fastforce
  have s0: "mn_io s0 = mn_io s" using io_frames(6) [of s] g by simp
  have "leaves_monorepo (mn_io s) (mn_io t)" if "with_io (RewriteRepoToSubdirectory gg d n c) s0 = (r, t)" for gg d n c r t
    using with_io_leaves [OF that rewrite_leaves] s0 by simp
  then show ?thesis unfolding processRewriting_def Let_def g prod.case Some option.case by (simp split: sum.splits prod.splits)
qed (simp add: processRewriting_def)

lemma merge_one_leaves: "leaves_monorepo (mn_io s) (mn_io (snd (merge_one k dir i s)))"
proof -
  let ?work = "repo_dir dir (mrs_name (repo_at s i)) @ ''-work''"
  obtain b ex inc where ms: "merge_settings (mn_spec (obj s)) (repo_at s i) = (b, ex, inc)" by (metis prod_cases3)
  obtain refs s0 where cb: "with_io (collectBranchesAndTags (mo_git k) ?work) s = (refs, s0)" by fastforce
  obtain r t where io: "with_io (MergeRepoIntoMonoRepo (mo_git k) (PathText (dir @ ''/monorepo'')) (PathText ?work)
      (mrs_name (repo_at s i)) b refs [ex, inc]) s0 = (r, t)" by fastforce
  have "leaves_monorepo (mn_io s) (mn_io s0)" by (rule with_io_leaves [OF cb collect_leaves])
  also have "leaves_monorepo (mn_io s0) (mn_io t)"
    by (rule with_io_leaves [OF io merge_leaves])
  finally have "leaves_monorepo (mn_io s) (mn_io t)" .
  then show ?thesis unfolding merge_one_def Let_def ms prod.case cb io by (simp add: read_clock_def split: sum.splits)
qed

lemma merging_leaves:
  assumes "has_completed (mn_status (obj s))"
  shows "leaves_monorepo (mn_io s) (mn_io (snd (processMerging k s)))"
proof -
  obtain dir s0 where g: "getWorkspace s = (dir, s0)" by fastforce
  have s0: "mn_io s0 = mn_io s" "obj s0 = obj s" using io_frames(6) [of s] workspace_simps(1) [of s] g by simp_all
  then show ?thesis using assms merge_one_leaves [of s0 k dir]
    by (simp add: processMerging_def g split: option.splits)
qed

lemma finish_push_leaves: "leaves_monorepo (mn_io s) (mn_io (snd (finish_push k s)))"
proof -
  have "leaves_monorepo (mn_io u) (mn_io (snd (update_then k a b (cleanupWorkspace n u))))" for u n a b
    using cleanup_leaves by simp
  moreover have "mn_io (emit x (emit y (mono_updateStatistics k (modify f (modify h (snd (read_clock k s))))))) = mn_io s" for x y f h
    by simp
  ultimately show ?thesis unfolding finish_push_def read_clock_def Let_def prod.case
    by (metis (no_types, lifting) read_clock_def snd_conv)
qed

lemma pushing_leaves: "leaves_monorepo (mn_io s) (mn_io (snd (processPushing k s)))"
proof -
  have target: "mn_io t = mn_io s" if "create_target k tok s = (x, t)" for tok x t
    using that by (auto simp: create_target_def Let_def split: sum.splits if_splits option.splits)
  have space: "mn_io t = mn_io u" if "getWorkspace u = (d, t)" for u d t using io_frames(6) [of u] that by simp
  have push: "leaves_monorepo (mn_io u) (mn_io t)" if "with_io (PushMonoRepo g (PathText d) tok ow rp b) u = (r, t)" for g d tok ow rp b r u t
    by (rule with_io_leaves [OF that push_leaves])
  show ?thesis unfolding processPushing_def Let_def
    by (auto split: sum.splits prod.splits dest!: target space push intro: finish_push_leaves adds_trans)
qed

lemma annotations_leave: "leaves_monorepo (mn_io s) (mn_io (snd (mono_handleAnnotations k s)))"
proof -
  have "mn_io t = mn_io s" if "object_update k (modify f s) = (e, t)" for f e t
    using io_frames(5) [of k "modify f s"] that by simp
  then show ?thesis using retry_leaves
    by (auto simp: mono_handleAnnotations_def Let_def split: prod.splits option.splits) (metis snd_conv)+
qed

lemma reconcile_leaves:
  assumes f: "mono_fresh m s" and ok: "mono_ok m" and k: "mono_env_ok k" and some: "has_completed (mn_status m)"
  shows "leaves_monorepo (mn_io s) (mn_io (snd (reconcile_mono k s)))"
proof -
  have fin: "mn_io (snd (mono_update_finalizers k g r u)) = mn_io u" for g r u
    using io_frames(5) [of k "modify (mono_on_meta (\<lambda>om. om\<lparr>om_finalizers := g (om_finalizers om)\<rparr>)) u"]
    by (cases "object_update k (modify (mono_on_meta (\<lambda>om. om\<lparr>om_finalizers := g (om_finalizers om)\<rparr>)) u)")
      (simp add: mono_update_finalizers_def split: option.splits)
  obtain r t where a: "mono_handleAnnotations k s = (r, t)" by fastforce
  have st: "leaves_monorepo (mn_io s) (mn_io t)" using annotations_leave [of s k] a by simp
  have "leaves_monorepo (mn_io t) (mn_io (snd (mono_processPhase k t)))" if "r = None"
  proof -
    have "has_completed (mn_status (obj t))" using annotations_advance [OF f ok k] a some that by (simp add: mono_fresh_def)
    then show ?thesis
      by (auto simp: mono_processPhase_def cloning_leaves rewriting_leaves merging_leaves pushing_leaves split: mono_phase.split)
  qed
  with st have "r = None \<Longrightarrow> leaves_monorepo (mn_io s) (mn_io (snd (mono_processPhase k t)))" by (blast intro: adds_trans)
  then show ?thesis using st a cleanup_leaves
    by (auto simp: reconcile_mono_def Let_def fin split: option.splits)
qed

text \<open>
  C22. Once a repository is merged, no event makes the directory of the monorepo or runs \<open>git init\<close>
  in it again: the history is never overwritten. It is not rebuilt either: the workspace of a
  finished migration is deleted, also when a retry or the trigger annotation starts the
  migration again, and the merged repositories stay Completed, so such a migration pushes from
  a directory that nothing makes again.
\<close>

theorem monorepo_prepared_once:
  assumes "mono_ok (mw_object w)" and "has_completed (mn_status (mw_object w))" and "mphase (mw_object w) \<noteq> MonoUnset"
    and "\<forall>e \<in> set es. honest_mono_event e"
  shows "leaves_monorepo (mw_io w) (mw_io (mono_life es w))"
  using assms
proof (induction es arbitrary: w)
  case (Cons e es)
  let ?w = "mono_event_step e w"
  have e: "honest_mono_event e" and es: "\<forall>e \<in> set es. honest_mono_event e" using Cons.prems(4) by simp_all
  have a: "mono_advances (mw_object w) (mw_object ?w)" by (rule mono_event_advances [OF e Cons.prems(1)])
  have ok: "mono_ok (mw_object ?w)" using a by (simp add: mono_advances_def)
  have some: "has_completed (mn_status (mw_object ?w))"
    using a Cons.prems(2,3) same_repos_completed by (auto simp: mono_advances_def has_completed_def)
  have "mphase (mw_object ?w) \<noteq> MonoUnset" using a Cons.prems(3) by (auto simp: mono_advances_def mono_edge_def)
  then have "leaves_monorepo (mw_io ?w) (mw_io (mono_life es ?w))" by (rule Cons.IH [OF ok some _ es])
  moreover have "leaves_monorepo (mw_io w) (mw_io ?w)"
    using e reconcile_leaves [of "mw_object w" "mono_fetched w"] Cons.prems(1,2) by (cases e) (simp_all add: mono_fresh_def)
  ultimately show ?case by (auto intro: adds_trans)
qed simp

theorem monorepo_prepared_once_witness:
  "leaves_monorepo no_io (mw_io (mono_life [OperatorRestarted, MonoReconciled sample_mono_env] (sample_world MonoCompleted MrCompleted)))"
proof -
  let ?w = "sample_world MonoCompleted MrCompleted"
  have "mono_ok (mw_object ?w)" "has_completed (mn_status (mw_object ?w))" "mw_io ?w = no_io"
    by (simp_all add: sample_world_def mono_ok_def pipeline_def allowed_in_def has_completed_def sample_mono_spec_def)
  then show ?thesis using monorepo_prepared_once [of ?w "[OperatorRestarted, MonoReconciled sample_mono_env]"] by simp
qed

end
