(* ===== verification/MonoChecks.thy ===== *)
theory MonoChecks
  imports MonoTermination MonoOutcomes
begin

text \<open>
  The single steps of a MonoRepoMigration: what its validation accepts, how the results of a
  batch of clones are recorded, what the merge of a repository reads and runs, and what a
  Completed migration has pushed.
\<close>

section \<open>Validation\<close>

lemma validate_repo_errors:
  "snd (validate_repo (i, r) (d, es)) = []
   \<longleftrightarrow> es = [] \<and> msr_name r \<noteq> [] \<and> subdir_of r \<notin> dom d"
  "snd (validate_repo (i, r) (d, es)) = [] \<Longrightarrow> dom (fst (validate_repo (i, r) (d, es))) = insert (subdir_of r) (dom d)"
  by (auto simp: validate_repo_def Let_def split: option.splits if_splits)

lemma validate_repos_errors:
  "snd (fold validate_repo (enumerate n rs) (d, es)) = []
   \<longleftrightarrow> es = [] \<and> (\<forall>r \<in> set rs. msr_name r \<noteq> [] \<and> subdir_of r \<notin> dom d) \<and> distinct (map subdir_of rs)"
proof (induction rs arbitrary: n d es)
  case (Cons r rs)
  obtain d' es' where v: "validate_repo (n, r) (d, es) = (d', es')" by fastforce
  have es': "es' = [] \<longleftrightarrow> es = [] \<and> msr_name r \<noteq> [] \<and> subdir_of r \<notin> dom d"
    and d': "es' = [] \<Longrightarrow> dom d' = insert (subdir_of r) (dom d)"
    using validate_repo_errors [of n r d es] v by simp_all
  have fold_eq: "fold validate_repo (enumerate n (r # rs)) (d, es) = fold validate_repo (enumerate (Suc n) rs) (d', es')"
    by (simp add: v)
  show ?case
  proof (cases "es' = []")
    case True
    then show ?thesis unfolding fold_eq Cons using d' es' by (auto simp: image_iff)
  next
    case False
    then show ?thesis unfolding fold_eq Cons using es' by auto
  qed
qed simp

text \<open>
  The validation accepts exactly the migrations with an organisation, a project, a target
  owner and a target repository, with at least one source repository, each with a name, and no
  two in the same subdirectory; whether \<open>git-filter-repo\<close> is installed, which every rewrite
  needs, is a warning that the controller does not read.
\<close>

theorem monorepo_validation:
  "sv_valid (ValidateMonoRepoMigration has_filter_repo m) \<longleftrightarrow>
     msc_organization (mono_source (mn_spec m)) \<noteq> [] \<and> msc_project (mono_source (mn_spec m)) \<noteq> []
     \<and> mtc_owner (mono_target (mn_spec m)) \<noteq> [] \<and> mtc_repository (mono_target (mn_spec m)) \<noteq> []
     \<and> mono_sourceRepos (mn_spec m) \<noteq> [] \<and> [] \<notin> set (map msr_name (mono_sourceRepos (mn_spec m)))
     \<and> distinct (map subdir_of (mono_sourceRepos (mn_spec m)))"
  unfolding ValidateMonoRepoMigration_def Let_def service_validation.simps validate_repos_errors
  by (auto simp: issue_def image_iff)

section \<open>The initial list of repositories\<close>

text \<open>
  Initialisation records every repository of the specification once, as Pending and in
  ascending priority, whatever order the sort gives to equal priorities.
\<close>

theorem mono_initial_repositories:
  assumes "mono_env_ok k"
  shows "(\<exists>rs. mset rs = mset (mono_sourceRepos (mn_spec (obj s))) \<and> sorted (map msr_priority rs)
       \<and> mrepos (obj (snd (mono_initializeStatus k s))) = map initial_repo_status rs)
     \<and> mphase (obj (snd (mono_initializeStatus k s))) = MonoPending"
proof -
  let ?rs = "mo_sort k (mono_sourceRepos (mn_spec (obj s)))"
  have "mset ?rs = mset (mono_sourceRepos (mn_spec (obj s)))" "sorted (map msr_priority ?rs)"
    using assms by (auto simp: mono_env_ok_def)
  then show ?thesis by (auto simp: mono_initializeStatus_def read_clock_def Let_def intro!: exI [of _ ?rs])
qed

theorem mono_initial_repositories_witness:
  "map mrs_name (mrepos (obj (snd (mono_initializeStatus sample_mono_env (mono_fetched (sample_world MonoUnset MrPending)))))) = [''a'', ''b'']"
proof -
  obtain rs where rs: "mset rs = mset (mono_sourceRepos sample_mono_spec)" "sorted (map msr_priority rs)"
    and eq: "mrepos (obj (snd (mono_initializeStatus sample_mono_env (mono_fetched (sample_world MonoUnset MrPending))))) = map initial_repo_status rs"
    using mono_initial_repositories [OF sample_mono_env_ok, of "mono_fetched (sample_world MonoUnset MrPending)"]
    by (auto simp: sample_world_def)
  have "mset rs = {# sample_source_repo ''a'' 1, sample_source_repo ''b'' 2 #}"
    using rs(1) by (simp add: sample_mono_spec_def)
  then have "rs = [sample_source_repo ''a'' 1, sample_source_repo ''b'' 2] \<or> rs = [sample_source_repo ''b'' 2, sample_source_repo ''a'' 1]"
    by (cases rs; cases "tl rs") (auto simp: add_eq_conv_diff split: if_splits)
  then have "rs = sort_key msr_priority (mono_sourceRepos sample_mono_spec)"
    using rs(2) by (auto simp: sample_mono_spec_def sample_source_repo_def)
  then show ?thesis using eq by (simp add: sample_mono_spec_def sample_source_repo_def initial_repo_status_def)
qed

section \<open>The results of a batch of clones\<close>

definition clone_phase :: "go_error + clone_result \<Rightarrow> mono_repo_phase" where
  "clone_phase r = (case r of Inl _ \<Rightarrow> MrFailed | Inr _ \<Rightarrow> MrRewriting)"

lemma record_clone_phases:
  "map mrs_phase (mrepos (obj (record_clone i cr s))) = (map mrs_phase (mrepos (obj s)))[i := MrRewriting]"
  by (simp add: record_clone_def map_update)

lemma mark_failed_phases:
  "map mrs_phase (mrepos (obj (mark_repo_failed k i e s))) = (map mrs_phase (mrepos (obj s)))[i := MrFailed]"
  by (simp add: mark_repo_failed_def read_clock_def map_update)

lemma start_time_spec: "mn_spec (obj (set_start_time k i s)) = mn_spec (obj s)"
  using start_time_in_batch [of s k i] by (simp add: in_batch_def)

text \<open>
  With \<open>continueOnError\<close> (the default) the results of a batch of clones are all recorded, whatever
  the order in which they arrive: a cloned repository goes on to be rewritten, one that could
  not be cloned is Failed, the others keep their phase, and the migration goes on.
\<close>

theorem clone_results_recorded:
  assumes "GetContinueOnError (mono_settings (mn_spec (obj s)))"
  shows "map mrs_phase (mrepos (obj (snd (collect_clones k n rs s))))
       = fold (\<lambda>(i, r) ps. ps[i := clone_phase r]) rs (map mrs_phase (mrepos (obj s)))
     \<and> mphase (obj (snd (collect_clones k n rs s))) = mphase (obj s)"
  using assms
proof (induction rs arbitrary: s)
  case Nil
  then show ?case by (simp add: Let_def)
next
  case (Cons x rs)
  obtain i r where x: "x = (i, r)" by fastforce
  let ?s = "set_start_time k i s"
  have ph: "map mrs_phase (mrepos (obj ?s)) = map mrs_phase (mrepos (obj s))" "mphase (obj ?s) = mphase (obj s)"
    "mn_spec (obj ?s) = mn_spec (obj s)"
    using start_time_in_batch [of s k i] by (simp_all add: in_batch_def)
  show ?case
  proof (cases r)
    case (Inr cr)
    have "mn_spec (obj (record_clone i cr ?s)) = mn_spec (obj s)" "mphase (obj (record_clone i cr ?s)) = mphase (obj s)"
      using ph by (simp_all add: record_clone_def)
    with Cons.IH [of "record_clone i cr ?s"] Cons.prems show ?thesis
      by (simp add: x Inr clone_phase_def record_clone_phases ph)
  next
    case (Inl e)
    define t where "t = mark_repo_failed k i e ?s"
    have t: "mn_spec (obj t) = mn_spec (obj s)" "mphase (obj t) = mphase (obj s)"
      "map mrs_phase (mrepos (obj t)) = (map mrs_phase (mrepos (obj s)))[i := MrFailed]"
      using ph by (simp_all add: t_def mark_repo_failed_simps mark_failed_phases)
    with Cons.IH [of "emit b (emit a t)" for a b] Cons.prems show ?thesis
      by (simp add: x Inl clone_phase_def Let_def t_def [symmetric])
  qed
qed

theorem clone_results_recorded_witness:
  "map mrs_phase (mrepos (obj (snd (collect_clones sample_mono_env 2
     [(1, Inl (PlainError ''gone'')), (0, Inr \<lparr>cr_defaultBranch = ''main'', cr_branches = 1, cr_tags = 0, cr_commits = 1, cr_sizeMB = 1\<rparr>)]
     (mono_fetched (sample_world MonoCloning MrPending)))))) = [MrRewriting, MrFailed]"
proof -
  let ?s = "mono_fetched (sample_world MonoCloning MrPending)"
  have s: "GetContinueOnError (mono_settings (mn_spec (obj ?s)))" "map mrs_phase (mrepos (obj ?s)) = [MrPending, MrPending]"
    by (simp_all add: sample_world_def sample_mono_spec_def GetContinueOnError_def)
  show ?thesis by (subst clone_results_recorded [OF s(1), THEN conjunct1]) (simp only: s(2), simp add: clone_phase_def)
qed

section \<open>What the merge of a repository reads\<close>

lemma fields_func_words:
  "\<forall>w \<in> set ws. w \<noteq> [] \<and> (\<forall>c \<in> set w. \<not> p c) \<Longrightarrow> p sep \<Longrightarrow> fields_func p (join [sep] ws) = ws"
proof (induction "[sep]" ws rule: join.induct)
  case (2 w)
  then obtain c cs where "w = c # cs" by (auto simp: neq_Nil_conv)
  with 2 show ?case by (simp add: takeWhile_eq_all_conv [THEN iffD2] dropWhile_eq_Nil_conv [THEN iffD2])
next
  case (3 w w' ws)
  then obtain c cs where w: "w = c # cs" by (auto simp: neq_Nil_conv)
  have no: "\<And>x. x \<in> set cs \<Longrightarrow> \<not> p x" and IH: "fields_func p (join [sep] (w' # ws)) = w' # ws" using 3 w by auto
  have t: "takeWhile (\<lambda>x. \<not> p x) (cs @ sep # join [sep] (w' # ws)) = cs"
    and d: "dropWhile (\<lambda>x. \<not> p x) (cs @ sep # join [sep] (w' # ws)) = sep # join [sep] (w' # ws)"
    using no 3(3) by (simp_all add: takeWhile_append dropWhile_append)
  have "fields_func p (sep # join [sep] (w' # ws)) = w' # ws" using IH 3(3) by simp
  then show ?case using 3(2) w t d by simp
qed simp

text \<open>
  The branches and tags of a rewritten repository are listed by a command that is
  formatted as one text and split at its spaces again. It is the command that was meant, on
  the directory of the repository, exactly when the path has no white space in it; else
  the directory is never even named, and the answer is that of another command.
\<close>

theorem listing_command_words:
  assumes "dir \<noteq> []"
  shows "if \<exists>c \<in> set dir. is_space c
    then Text dir \<notin> set (command_words (''git -C '' @ dir @ '' branch --list --no-color''))
    else command_words (''git -C '' @ dir @ '' branch --list --no-color'')
      = map Text [''-C'', dir, ''branch'', ''--list'', ''--no-color'']"
proof (cases "\<exists>c \<in> set dir. is_space c")
  case True
  then have "dir \<notin> set (fields_func is_space s)" for s using fields_func_set by fastforce
  then have "dir \<notin> set (tl (fields_func is_space s))" for s by (metis list.sel(2) list.set_sel(2))
  then have "Text dir \<notin> set (command_words s)" for s unfolding command_words_def by auto
  then show ?thesis using True by simp
next
  case False
  let ?ws = "[''git'', ''-C'', dir, ''branch'', ''--list'', ''--no-color'']"
  have "fields_func is_space (join [CHR '' ''] ?ws) = ?ws"
    by (rule fields_func_words) (use False assms in \<open>auto simp: is_space_def between_def\<close>)
  moreover have "join [CHR '' ''] ?ws = ''git -C '' @ dir @ '' branch --list --no-color''" by simp
  ultimately have "command_words (''git -C '' @ dir @ '' branch --list --no-color'') = map Text (tl ?ws)"
    unfolding command_words_def by (simp only:)
  then show ?thesis using False by simp
qed

theorem listing_command_words_witness:
  "Text ''/w/repos/my repo-work'' \<notin> set (command_words (''git -C '' @ ''/w/repos/my repo-work'' @ '' branch --list --no-color''))"
proof -
  have "\<exists>c \<in> set ''/w/repos/my repo-work''. is_space c" by (simp add: is_space_def)
  with listing_command_words [of "''/w/repos/my repo-work''"] show ?thesis by simp
qed

text \<open>Two specifications that differ in the branches to include only.\<close>

definition drop_includes :: "mono_spec \<Rightarrow> mono_spec" where
  "drop_includes spec = spec\<lparr>mono_sourceRepos := map (\<lambda>r. r\<lparr>msr_includeBranches := []\<rparr>) (mono_sourceRepos spec)\<rparr>"

lemma find_drop_includes:
  "find (\<lambda>x. msr_name x = n) (map (\<lambda>r. r\<lparr>msr_includeBranches := []\<rparr>) xs)
   = map_option (\<lambda>r. r\<lparr>msr_includeBranches := []\<rparr>) (find (\<lambda>x. msr_name x = n) xs)"
  by (induction xs) auto

lemma merge_settings_drop_includes:
  "merge_settings (drop_includes spec) r = (case merge_settings spec r of (b, ex, inc) \<Rightarrow> (b, ex, []))"
  by (simp add: merge_settings_def drop_includes_def find_drop_includes Let_def split: option.splits)

lemma merge_ignores_second_list:
  "MergeRepoIntoMonoRepo g d w n b refs [ex, inc] = MergeRepoIntoMonoRepo g d w n b refs [ex, inc']"
  by (simp add: MergeRepoIntoMonoRepo_def branches_to_merge_def fun_eq_iff)

text \<open>
  The branches to include do not matter to what is merged: the git commands that merge a
  repository are the same when every list of them is emptied (only the number of migrated
  branches in the status takes them into account).
\<close>

theorem merge_ignores_includes:
  "mn_io (snd (merge_one k dir i s))
   = mn_io (snd (merge_one k dir i (modify (\<lambda>m. m\<lparr>mn_spec := drop_includes (mn_spec m)\<rparr>) s)))"
proof -
  let ?f = "modify (\<lambda>m. m\<lparr>mn_spec := drop_includes (mn_spec m)\<rparr>)"
  let ?name = "mrs_name (repo_at s i)" and ?work = "repo_dir dir (mrs_name (repo_at s i)) @ ''-work''"
  have io: "mn_io (snd (merge_one k dir i u)) = snd (MergeRepoIntoMonoRepo (mo_git k) (PathText (dir @ ''/monorepo''))
      (PathText (repo_dir dir (mrs_name (repo_at u i)) @ ''-work'')) (mrs_name (repo_at u i)) b
      (fst (collectBranchesAndTags (mo_git k) (repo_dir dir (mrs_name (repo_at u i)) @ ''-work'') (mn_io u))) [ex, inc]
      (snd (collectBranchesAndTags (mo_git k) (repo_dir dir (mrs_name (repo_at u i)) @ ''-work'') (mn_io u))))"
    if "merge_settings (mn_spec (obj u)) (repo_at u i) = (b, ex, inc)" for u b ex inc
    using that by (simp add: merge_one_def Let_def with_io_def read_clock_def split: prod.splits sum.splits)
  obtain b ex inc where ms: "merge_settings (mn_spec (obj s)) (repo_at s i) = (b, ex, inc)" by (metis prod_cases3)
  have f: "repo_at (?f s) i = repo_at s i" "mn_io (?f s) = mn_io s" by (simp_all add: repo_at_def modify_def)
  have "merge_settings (mn_spec (obj (?f s))) (repo_at (?f s) i) = (b, ex, [])"
    using ms by (simp add: f merge_settings_drop_includes)
  from io [OF this] io [OF ms] show ?thesis unfolding f by (simp only: merge_ignores_second_list [of _ _ _ _ _ _ ex inc "[]"])
qed

section \<open>What a Completed migration has pushed\<close>

definition push_commands :: "string \<Rightarrow> string \<Rightarrow> mono_target_config \<Rightarrow> git_arg list list" where
  "push_commands dir token t = map (\<lambda>args. in_repo (PathText (dir @ ''/monorepo'')) @ map Text args)
     [[''remote'', ''add'', ''origin'',
        ''https://x-access-token:'' @ token @ ''@github.com/'' @ mtc_owner t @ ''/'' @ mtc_repository t @ ''.git''],
      [''push'', ''--all'', ''origin''], [''push'', ''--tags'', ''origin'']]"

text \<open>Each of the commands succeeded when it ran, after those before it.\<close>

fun all_succeed :: "git_env \<Rightarrow> io_action list \<Rightarrow> git_arg list list \<Rightarrow> bool" where
  "all_succeed g tr [] \<longleftrightarrow> True"
| "all_succeed g tr (c # cs) \<longleftrightarrow> snd (ge_git g tr c) = None \<and> all_succeed g (tr @ [Git c]) cs"

lemma check_git_ok: "check_git what (run_git g args s) = (Inr (), t) \<longleftrightarrow> snd (ge_git g (io_trace s) args) = None \<and> t = act (Git args) s"
  by (auto simp: check_git_def run_git_def split: prod.splits option.splits)

lemma and_then_ok: "and_then r f = (Inr x, t) \<longleftrightarrow> (\<exists>y u. r = (Inr y, u) \<and> f y u = (Inr x, t))"
  by (auto simp: and_then_def split: prod.splits sum.splits)

lemma git_case_ok:
  "(case run_git g args s of ((output, Some err), t) \<Rightarrow> (Inl (f err output), t) | ((_, None), t) \<Rightarrow> h t) = (Inr x, u)
   \<longleftrightarrow> snd (ge_git g (io_trace s) args) = None \<and> h (act (Git args) s) = (Inr x, u)"
  by (cases "ge_git g (io_trace s) args") (auto simp: run_git_def split: option.splits)

lemma PushMonoRepo_ok:
  assumes "PushMonoRepo g (PathText (dir @ ''/monorepo'')) tok (mtc_owner t) (mtc_repository t) b s = (Inr (), u)"
  shows "all_succeed (plain_git g) (io_trace s) (push_commands dir tok t)
    \<and> io_trace u = io_trace s @ map Git (push_commands dir tok t) @ [SetDefault (mtc_owner t) (mtc_repository t) b]"
proof -
  define c1 c2 c3 where "c1 = push_commands dir tok t ! 0" and "c2 = push_commands dir tok t ! 1" and "c3 = push_commands dir tok t ! 2"
  have cs: "push_commands dir tok t = [c1, c2, c3]" by (simp add: c1_def c2_def c3_def push_commands_def)
  have e: "in_repo (PathText (dir @ ''/monorepo'')) @ map Text [''remote'', ''add'', ''origin'',
       ''https://x-access-token:'' @ tok @ ''@github.com/'' @ mtc_owner t @ ''/'' @ mtc_repository t @ ''.git''] = c1"
    "in_repo (PathText (dir @ ''/monorepo'')) @ map Text [''push'', ''--all'', ''origin''] = c2"
    "in_repo (PathText (dir @ ''/monorepo'')) @ map Text [''push'', ''--tags'', ''origin''] = c3"
    by (simp_all add: c1_def c2_def c3_def push_commands_def)
  show ?thesis using assms unfolding PushMonoRepo_def Let_def e cs
    by (auto simp: and_then_ok check_git_ok git_case_ok)
qed

lemma workspace_kept:
  assumes "getWorkspace s = (dir, t)"
  shows "mn_workspaces t (om_name (mn_meta (obj t))) = Some dir" and "obj t = obj s" and "mn_io t = mn_io s"
  using assms by (auto simp: getWorkspace_def split: option.splits)

lemma with_io_result:
  "with_io f s = (x, t) \<longleftrightarrow> (\<exists>io. f (mn_io s) = (x, io) \<and> t = s\<lparr>mn_io := io\<rparr>)"
  by (auto simp: with_io_def split: prod.splits)

lemma workspaces_frames [simp]:
  "mn_workspaces (emit e s) = mn_workspaces s" "mn_workspaces (modify f s) = mn_workspaces s"
  "mn_workspaces (snd (read_clock k s)) = mn_workspaces s" "mn_workspaces (mono_updateStatistics k s) = mn_workspaces s"
  by (simp_all add: emit_def modify_def read_clock_def mono_updateStatistics_def Let_def split: option.splits)

lemma finish_push_io:
  assumes "mn_workspaces s (om_name (mn_meta (obj s))) = Some dir"
  shows "io_trace (mn_io (snd (finish_push k s))) = io_trace (mn_io s) @ (if dir = [] then [] else [RemoveAll (PathText dir)])"
proof -
  obtain now u where c: "read_clock k s = (now, u)" by fastforce
  have u: "mn_io u = mn_io s" "obj u = obj s" "mn_workspaces u = mn_workspaces s"
    using c by (auto simp: read_clock_def)
  show ?thesis unfolding finish_push_def Let_def c prod.case using assms by (simp add: u cleanupWorkspace_def Let_def)
qed

lemma failed_not_completed:
  "mphase (stored s) \<noteq> MonoCompleted \<Longrightarrow> mphase (stored (snd (mono_failMigration k msg s))) \<noteq> MonoCompleted"
  by (simp add: mono_failMigration_def read_clock_def Let_def)

text \<open>
  A migration becomes Completed only with at least one merged repository and after
  \<open>git push --all\<close> and \<open>git push --tags\<close> of the monorepo to the target both succeeded; then the
  workspace is deleted, and nothing else is done to it in that reconciliation.
\<close>

theorem completed_means_pushed:
  assumes "mphase (stored s) \<noteq> MonoCompleted" and "mphase (stored (snd (processPushing k s))) = MonoCompleted"
  shows "has_completed (mn_status (obj s)) \<and> (\<exists>dir token.
    all_succeed (plain_git (mo_git k)) (io_trace (mn_io s)) (push_commands dir token (mono_target (mn_spec (obj s))))
    \<and> io_trace (mn_io (snd (processPushing k s))) = io_trace (mn_io s)
        @ map Git (push_commands dir token (mono_target (mn_spec (obj s))))
        @ [SetDefault (mtc_owner (mono_target (mn_spec (obj s)))) (mtc_repository (mono_target (mn_spec (obj s))))
             (default_branch_or_main (mtc_defaultBranch (mono_target (mn_spec (obj s)))))]
        @ (if dir = [] then [] else [RemoveAll (PathText dir)]))"
proof -
  have fail: "snd (processPushing k s) \<noteq> snd (mono_failMigration k msg t)" if "stored t = stored s" for msg t
    using failed_not_completed [of t k msg] assms that by auto
  have some: "has_completed (mn_status (obj s))"
  proof (rule ccontr)
    assume "\<not> has_completed (mn_status (obj s))"
    then show False using fail [of s "''No repos were successfully merged into the monorepo, aborting push''"]
      by (simp add: processPushing_def)
  qed
  obtain token where tok: "mono_getGitHubToken k s = Inr token"
  proof (cases "mono_getGitHubToken k s")
    case (Inl e)
    then show ?thesis using fail [of s "''Failed to get GitHub token: '' @ err_text e"] some by (simp add: processPushing_def)
  qed (rule that)
  obtain x s1 where ct: "create_target k token s = (x, s1)" by fastforce
  have s1: "obj s1 = obj s" "stored s1 = stored s" "mn_io s1 = mn_io s"
    using ct by (auto simp: create_target_def Let_def split: sum.splits if_splits option.splits)
  obtain dir s2 where ws: "getWorkspace s1 = (dir, s2)" by fastforce
  note s2 = workspace_kept [OF ws] getWorkspace_eq [OF ws]
  let ?t = "mono_target (mn_spec (obj s))"
  obtain r s3 where p: "with_io (PushMonoRepo (mo_git k) (PathText (dir @ ''/monorepo'')) token (mtc_owner ?t)
      (mtc_repository ?t) (default_branch_or_main (mtc_defaultBranch ?t))) s2 = (r, s3)" by fastforce
  have s3: "obj s3 = obj s" "stored s3 = stored s" using with_io_eq [OF p] s1 s2 by simp_all
  have x: "x = Inr ()"
  proof (cases x)
    case (Inl e)
    then show ?thesis using fail [OF s1(2), of "err_text e"] some tok ct by (simp add: processPushing_def Let_def)
  qed simp
  have r: "r = Inr ()"
  proof (cases r)
    case (Inl e)
    then have "processPushing k s = mono_failMigration k (''Failed to push monorepo: '' @ err_text e) s3"
      unfolding processPushing_def Let_def using some tok ct x ws p by simp
    then show ?thesis using fail [OF s3(2), of "''Failed to push monorepo: '' @ err_text e"] by simp
  qed simp
  have done': "processPushing k s = finish_push k s3"
    unfolding processPushing_def Let_def using some tok ct x ws p r by simp
  obtain io where io: "PushMonoRepo (mo_git k) (PathText (dir @ ''/monorepo'')) token (mtc_owner ?t) (mtc_repository ?t)
      (default_branch_or_main (mtc_defaultBranch ?t)) (mn_io s) = (Inr (), io)" and s3': "s3 = s2\<lparr>mn_io := io\<rparr>"
    using p r s1 s2 by (auto simp: with_io_result)
  have "mn_workspaces s3 (om_name (mn_meta (obj s3))) = Some dir" using s2 by (simp add: s3')
  from finish_push_io [OF this, of k] PushMonoRepo_ok [OF io] some show ?thesis
    unfolding done' by (intro conjI exI [of _ dir] exI [of _ token]) (simp_all add: s3')
qed

lemma sample_run [simp]: "mono_run_git (mo_git sample_mono_env) args s = (([], None), act (Git args) s)"
  by (simp add: sample_mono_env_def sample_mono_git_def sample_git_def run_git_def git_env.defs mono_git.defs)

lemma sample_push:
  "mphase (stored (snd (processPushing sample_mono_env (mono_fetched (sample_world MonoPushing MrCompleted))))) = MonoCompleted"
proof -
  let ?k = sample_mono_env and ?s = "mono_fetched (sample_world MonoPushing MrCompleted)"
  have some: "has_completed (mn_status (obj ?s))"
    by (simp add: sample_world_def has_completed_def sample_mono_spec_def)
  have tok: "mono_getGitHubToken ?k ?s = Inr ''t''"
    by (simp add: mono_getGitHubToken_def Let_def sample_world_def sample_mono_spec_def)
  obtain s1 where ct: "create_target ?k ''t'' ?s = (Inr (), s1)"
    by (simp add: create_target_def Let_def sample_mono_env_def)
  obtain dir s2 where ws: "getWorkspace s1 = (dir, s2)" by fastforce
  have push: "\<exists>t. with_io (PushMonoRepo (mo_git ?k) d tok ow rp b) s2 = (Inr (), t)" for d tok ow rp b
    by (simp add: with_io_result PushMonoRepo_def Let_def check_git_def)
  then obtain s3 where p: "with_io (PushMonoRepo (mo_git ?k) (PathText (dir @ ''/monorepo'')) ''t'' (mtc_owner (mono_target (mn_spec (obj ?s))))
      (mtc_repository (mono_target (mn_spec (obj ?s))))
      (default_branch_or_main (mtc_defaultBranch (mono_target (mn_spec (obj ?s)))))) s2 = (Inr (), s3)" by blast
  have "processPushing ?k ?s = finish_push ?k s3"
    unfolding processPushing_def Let_def using some tok ct ws p by simp
  moreover have "k_status ?k n x = None" for n x by (simp add: sample_mono_env_def)
  ultimately show ?thesis by (simp add: finish_push_def read_clock_def Let_def)
qed

theorem completed_means_pushed_witness:
  "\<exists>dir token. all_succeed (plain_git (mo_git sample_mono_env)) [] (push_commands dir token (mono_target sample_mono_spec))"
  using completed_means_pushed [of "mono_fetched (sample_world MonoPushing MrCompleted)" sample_mono_env] sample_push
  by (auto simp: sample_world_def no_io_def)

end
