(* ===== verification/ProjectTypes.thy ===== *)
theory ProjectTypes
  imports Kube
begin

text \<open>
  The GitHubProject resource (\<^verbatim>\<open>api/v1/githubproject_types.go\<close>), in the order of the source. A
  template is its text; the server accepts only the names that the enumeration lists. The labels
  of the object are kept beside its other metadata.
\<close>

datatype project_phase = ProjectUnset | ProjectPending | ProjectCreating | ProjectReady | ProjectFailed

definition project_phase_name :: "project_phase \<Rightarrow> string" where
  "project_phase_name p = (case p of ProjectUnset \<Rightarrow> [] | ProjectPending \<Rightarrow> ''Pending''
     | ProjectCreating \<Rightarrow> ''Creating'' | ProjectReady \<Rightarrow> ''Ready'' | ProjectFailed \<Rightarrow> ''Failed'')"

record status_option =
  sto_name :: string
  sto_description :: string
  sto_color :: string

record status_field_config =
  sfc_name :: string
  sfc_options :: "status_option list"

record project_spec =
  ghs_owner :: string
  ghs_projectName :: string
  ghs_description :: string
  ghs_template :: string
  ghs_public :: bool
  ghs_repository :: string
  ghs_auth :: github_auth_config
  ghs_autoLink :: bool
  ghs_statusField :: "status_field_config option"

record project_status =
  ght_phase :: project_phase
  ght_observedGeneration :: int
  ght_projectID :: string
  ght_projectNumber :: int
  ght_projectURL :: string
  ght_message :: string
  ght_errorMessage :: string
  ght_createdAt :: "instant option"
  ght_lastUpdatedAt :: "instant option"
  ght_conditions :: "condition list"

record github_project =
  ghp_meta :: object_meta
  ghp_labels :: string_map
  ghp_spec :: project_spec
  ghp_status :: project_status

definition zero_project_status :: project_status where
  "zero_project_status = \<lparr>ght_phase = ProjectUnset, ght_observedGeneration = 0, ght_projectID = [],
     ght_projectNumber = 0, ght_projectURL = [], ght_message = [], ght_errorMessage = [], ght_createdAt = None,
     ght_lastUpdatedAt = None, ght_conditions = []\<rparr>"

definition on_project :: "(project_status \<Rightarrow> project_status) \<Rightarrow> github_project \<Rightarrow> github_project" where
  "on_project f p = p\<lparr>ghp_status := f (ghp_status p)\<rparr>"

lemma on_project_simps [simp]:
  "ghp_meta (on_project f p) = ghp_meta p" "ghp_labels (on_project f p) = ghp_labels p"
  "ghp_spec (on_project f p) = ghp_spec p" "ghp_status (on_project f p) = f (ghp_status p)"
  by (simp_all add: on_project_def)

end
