(* ===== verification/ProjectService.thy ===== *)
theory ProjectService
  imports ProjectTypes
begin

text \<open>
  \<^verbatim>\<open>internal/services/githubproject.go\<close>: GitHub Projects through the GraphQL interface.

  A request is its token, the text of the query and its variables; what comes back is a
  parameter (\<open>gq_env\<close>): no connection, an unreadable or unparsable body, or the errors and
  the data of the answer as the code decodes them. Each answer may depend on everything that
  was sent before. Requests that change something are recorded as effects. Encoding a request
  (\<^verbatim>\<open>json.Marshal\<close> of maps and strings) and building the HTTP request for a constant address cannot
  fail. The pauses between requests are not modelled.
\<close>

section \<open>Requests and answers\<close>

datatype gq_value = GqText string | GqList "gq_value list" | GqObject "(string \<times> gq_value) list"

record gq_request =
  gq_token :: string
  gq_query :: string
  gq_variables :: "gq_value option"

datatype 'a gq_answer =
    GqUnsent go_error
  | GqUnread go_error
  | GqUnparsed go_error
  | GqAnswered "string list" 'a \<comment> \<open>the messages of the errors, and the data\<close>

record project_info =
  pin_id :: string
  pin_number :: int
  pin_url :: string
  pin_title :: string
  pin_shortDescription :: string
  pin_public :: bool

record project_field =
  pfi_id :: string
  pfi_name :: string
  pfi_options :: "(string \<times> string) list" \<comment> \<open>identifier and name\<close>

record gq_env =
  gq_organization :: "effect list \<Rightarrow> string \<Rightarrow> string \<Rightarrow> go_error + string"
  gq_user :: "effect list \<Rightarrow> string \<Rightarrow> string \<Rightarrow> go_error + string"
  gq_repository :: "effect list \<Rightarrow> string \<Rightarrow> string \<Rightarrow> string \<Rightarrow> go_error + string"
  gq_issue :: "effect list \<Rightarrow> string \<Rightarrow> string \<Rightarrow> string \<Rightarrow> int \<Rightarrow> go_error + string"
  gq_org_project :: "effect list \<Rightarrow> string \<Rightarrow> string \<Rightarrow> int \<Rightarrow> go_error + project_info"
  gq_user_project :: "effect list \<Rightarrow> string \<Rightarrow> string \<Rightarrow> int \<Rightarrow> go_error + project_info"
  gq_delete :: "effect list \<Rightarrow> string \<Rightarrow> string \<Rightarrow> go_error option"
  gq_project :: "effect list \<Rightarrow> gq_request \<Rightarrow> project_info gq_answer"
  gq_done :: "effect list \<Rightarrow> gq_request \<Rightarrow> unit gq_answer"
  gq_item :: "effect list \<Rightarrow> gq_request \<Rightarrow> string gq_answer"
  gq_items :: "effect list \<Rightarrow> gq_request \<Rightarrow> (string \<rightharpoonup> string) gq_answer"
  gq_fields :: "effect list \<Rightarrow> gq_request \<Rightarrow> project_field list gq_answer"

text \<open>\<open>%v\<close> of a slice of structs that hold one message each.\<close>

definition fmt_messages :: "string list \<Rightarrow> string" where
  "fmt_messages ms = ''['' @ join '' '' (map (\<lambda>m. ''{'' @ m @ ''}'') ms) @ '']''"

text \<open>The errors of a request; the two texts say which one it was.\<close>

definition gq_result :: "string \<Rightarrow> string \<Rightarrow> 'a gq_answer \<Rightarrow> go_error + 'a" where
  "gq_result which where_in a = (case a of
     GqUnsent err \<Rightarrow> Inl (wrap_err (''failed to send HTTP request'' @ which) err)
   | GqUnread err \<Rightarrow> Inl (wrap_err (''failed to read response body'' @ which) err)
   | GqUnparsed err \<Rightarrow> Inl (wrap_err (''failed to parse response'' @ which) err)
   | GqAnswered errors data \<Rightarrow>
       if errors \<noteq> [] then Inl (PlainError (''GraphQL errors'' @ where_in @ '': '' @ fmt_messages errors))
       else Inr data)"

fun gq_texts :: "gq_value \<Rightarrow> string list" where
  "gq_texts (GqText t) = [t]"
| "gq_texts (GqList vs) = concat (map gq_texts vs)"
| "gq_texts (GqObject fs) = concat (map (\<lambda>(f, v). f # gq_texts v) fs)"

definition gq_sent :: "gq_request \<Rightarrow> effect" where
  "gq_sent r = ApiWrite (gq_token r # gq_query r # (case gq_variables r of None \<Rightarrow> [] | Some v \<Rightarrow> gq_texts v))"

definition gq_mutate ::
  "(effect list \<Rightarrow> gq_request \<Rightarrow> 'a gq_answer) \<Rightarrow> string \<Rightarrow> string \<Rightarrow> gq_request
   \<Rightarrow> ('o, 'x) rstate_scheme \<Rightarrow> (go_error + 'a) \<times> ('o, 'x) rstate_scheme" where
  "gq_mutate answer which where_in r s =
     (gq_result which where_in (answer (effects s) r), emit (gq_sent r) s)"

definition with_input :: "string \<Rightarrow> string \<Rightarrow> (string \<times> gq_value) list \<Rightarrow> gq_request" where
  "with_input token query input = \<lparr>gq_token = token, gq_query = query,
     gq_variables = Some (GqObject [(''input'', GqObject input)])\<rparr>"

definition token_required :: go_error where
  "token_required = PlainError ''GitHub token is required''"

definition tabs :: "nat \<Rightarrow> string" where
  "tabs n = replicate n (CHR 0x09)"

section \<open>Creating a project\<close>

definition create_project_query :: string where
  "create_project_query = join [newline] [
     ''mutation($input: CreateProjectV2Input!) {'',
     tabs 2 @ ''createProjectV2(input: $input) {'',
     tabs 3 @ ''projectV2 {'',
     tabs 4 @ ''id'',
     tabs 4 @ ''number'',
     tabs 4 @ ''url'',
     tabs 4 @ ''title'',
     tabs 4 @ ''shortDescription'',
     tabs 4 @ ''public'',
     tabs 3 @ ''}'',
     tabs 2 @ ''}'',
     tabs 1 @ ''}'']"

definition getOwnerID :: "gq_env \<Rightarrow> string \<Rightarrow> string \<Rightarrow> effect list \<Rightarrow> go_error + string \<times> string" where
  "getOwnerID e token owner h = (case gq_organization e h token owner of
     Inr (c # cs) \<Rightarrow> Inr (c # cs, ''Organization'')
   | _ \<Rightarrow> (case gq_user e h token owner of
       Inl err \<Rightarrow> Inl (wrap_err (''owner '' @ [CHR 0x27] @ owner @ [CHR 0x27] @ '' not found as organization or user'') err)
     | Inr i \<Rightarrow> Inr (i, ''User'')))"

definition getRepositoryID :: "gq_env \<Rightarrow> string \<Rightarrow> string \<Rightarrow> effect list \<Rightarrow> go_error + string" where
  "getRepositoryID e token repository h = (case split_on CHR ''/'' repository of
     [owner, name] \<Rightarrow> map_sum (wrap_err ''failed to get repository ID'') id (gq_repository e h token owner name)
   | _ \<Rightarrow> Inl (PlainError (''invalid repository format, expected '' @ [CHR 0x27] @ ''owner/repo'' @ [CHR 0x27])))"

text \<open>Template, description and visibility of the request are not sent.\<close>

record create_project_request =
  cpq_owner :: string
  cpq_projectName :: string
  cpq_description :: string
  cpq_template :: string
  cpq_public :: bool
  cpq_repository :: string
  cpq_token :: string

definition repository_input :: "gq_env \<Rightarrow> create_project_request \<Rightarrow> effect list \<Rightarrow> (string \<times> gq_value) list" where
  "repository_input e q h =
     (if cpq_repository q = [] then []
      else (case getRepositoryID e (cpq_token q) (cpq_repository q) h of
          Inl _ \<Rightarrow> []
        | Inr repoID \<Rightarrow> [(''repositoryId'', GqText repoID)]))"

definition service_CreateProject ::
  "gq_env \<Rightarrow> create_project_request \<Rightarrow> ('o, 'x) rstate_scheme \<Rightarrow> (go_error + project_info) \<times> ('o, 'x) rstate_scheme" where
  "service_CreateProject e q s =
     (if cpq_token q = [] then (Inl token_required, s)
      else (case getOwnerID e (cpq_token q) (cpq_owner q) (effects s) of
          Inl err \<Rightarrow> (Inl (wrap_err ''failed to get owner ID'' err), s)
        | Inr (ownerID, _) \<Rightarrow>
            gq_mutate (gq_project e) [] [] (with_input (cpq_token q) create_project_query
              ([(''ownerId'', GqText ownerID), (''title'', GqText (cpq_projectName q))]
               @ repository_input e q (effects s))) s))"

section \<open>The status field\<close>

definition create_field_query :: string where
  "create_field_query = join [newline] [
     ''mutation($input: CreateProjectV2FieldInput!) {'',
     tabs 2 @ ''createProjectV2Field(input: $input) {'',
     tabs 3 @ ''projectV2Field {'',
     tabs 4 @ ''... on ProjectV2SingleSelectField {'',
     tabs 5 @ ''id'',
     tabs 5 @ ''name'',
     tabs 5 @ ''options {'',
     tabs 6 @ ''id'',
     tabs 6 @ ''name'',
     tabs 5 @ ''}'',
     tabs 4 @ ''}'',
     tabs 3 @ ''}'',
     tabs 2 @ ''}'',
     tabs 1 @ ''}'']"

definition field_option :: "status_option \<Rightarrow> gq_value" where
  "field_option opt = GqObject ([(''name'', GqText (sto_name opt))]
     @ (if sto_description opt \<noteq> [] then [(''description'', GqText (sto_description opt))] else [])
     @ (if sto_color opt \<noteq> [] then [(''color'', GqText (map to_upper_char (sto_color opt)))] else []))"

definition ConfigureStatusField ::
  "gq_env \<Rightarrow> string \<Rightarrow> string \<Rightarrow> string \<Rightarrow> status_option list \<Rightarrow> ('o, 'x) rstate_scheme \<Rightarrow> go_error option \<times> ('o, 'x) rstate_scheme" where
  "ConfigureStatusField e token projectID fieldName options s =
     (if token = [] then (Some token_required, s)
      else if options = [] then (Some (PlainError ''at least one status option is required''), s)
      else (case gq_mutate (gq_done e) [] [] (with_input token create_field_query
                [(''projectId'', GqText projectID), (''name'', GqText fieldName), (''dataType'', GqText ''SINGLE_SELECT''),
                 (''singleSelectOptions'', GqList (map field_option options))]) s of
          (Inl err, s) \<Rightarrow> (Some err, s)
        | (Inr _, s) \<Rightarrow> (None, s)))"

definition project_fields_query :: string where
  "project_fields_query = join [newline] [
     ''query($projectId: ID!) {'',
     tabs 2 @ ''node(id: $projectId) {'',
     tabs 3 @ ''... on ProjectV2 {'',
     tabs 4 @ ''fields(first: 20) {'',
     tabs 5 @ ''nodes {'',
     tabs 6 @ ''... on ProjectV2SingleSelectField {'',
     tabs 7 @ ''id'',
     tabs 7 @ ''name'',
     tabs 7 @ ''options {'',
     tabs 8 @ ''id'',
     tabs 8 @ ''name'',
     tabs 7 @ ''}'',
     tabs 6 @ ''}'',
     tabs 5 @ ''}'',
     tabs 4 @ ''}'',
     tabs 3 @ ''}'',
     tabs 2 @ ''}'',
     tabs 1 @ ''}'']"

text \<open>The identifier of the field of that name, and the identifiers of its options by name.\<close>

definition GetProjectFieldID ::
  "gq_env \<Rightarrow> string \<Rightarrow> string \<Rightarrow> string \<Rightarrow> effect list \<Rightarrow> go_error + string \<times> (string \<rightharpoonup> string)" where
  "GetProjectFieldID e token projectID fieldName h =
     (if token = [] then Inl token_required
      else (case gq_result [] [] (gq_fields e h \<lparr>gq_token = token, gq_query = project_fields_query,
                gq_variables = Some (GqObject [(''projectId'', GqText projectID)])\<rparr>) of
          Inl err \<Rightarrow> Inl err
        | Inr fs \<Rightarrow> (case find (\<lambda>f. pfi_name f = fieldName) fs of
            None \<Rightarrow> Inl (PlainError (''field '' @ [CHR 0x27] @ fieldName @ [CHR 0x27] @ '' not found in project''))
          | Some f \<Rightarrow> Inr (pfi_id f, fold (\<lambda>(i, n) m. m(n \<mapsto> i)) (pfi_options f) Map.empty))))"

section \<open>Adding issues to a project\<close>

definition add_item_query :: string where
  "add_item_query = join [newline] [
     ''mutation($input: AddProjectV2ItemByIdInput!) {'',
     tabs 2 @ ''addProjectV2ItemById(input: $input) {'',
     tabs 3 @ ''item {'',
     tabs 4 @ ''id'',
     tabs 3 @ ''}'',
     tabs 2 @ ''}'',
     tabs 1 @ ''}'']"

definition AddIssueToProject ::
  "gq_env \<Rightarrow> string \<Rightarrow> string \<Rightarrow> string \<Rightarrow> ('o, 'x) rstate_scheme \<Rightarrow> (go_error + string) \<times> ('o, 'x) rstate_scheme" where
  "AddIssueToProject e token projectID issueNodeID s =
     (if token = [] then (Inl token_required, s)
      else gq_mutate (gq_item e) [] [] (with_input token add_item_query
        [(''projectId'', GqText projectID), (''contentId'', GqText issueNodeID)]) s)"

definition quoted_text :: "string \<Rightarrow> string" where
  "quoted_text t = [CHR 0x22] @ t @ [CHR 0x22]"

definition add_part :: "string \<Rightarrow> nat \<times> string \<Rightarrow> string" where
  "add_part projectID = (\<lambda>(i, nodeID). join [newline] [[],
     tabs 4 @ ''add'' @ fmt_d (int i) @ '': addProjectV2ItemById(input: {projectId: '' @ quoted_text projectID
       @ '', contentId: '' @ quoted_text nodeID @ ''}) {'',
     tabs 5 @ ''item {'',
     tabs 6 @ ''id'',
     tabs 5 @ ''}'',
     tabs 4 @ ''}''])"

text \<open>One mutation from several parts; the token is not a variable of the query.\<close>

definition batch_request :: "string \<Rightarrow> string list \<Rightarrow> gq_request" where
  "batch_request token parts = \<lparr>gq_token = token,
     gq_query = ''mutation { '' @ join [newline] parts @ '' }'', gq_variables = None\<rparr>"

definition add_request :: "string \<Rightarrow> string \<Rightarrow> string list \<Rightarrow> gq_request" where
  "add_request token projectID chunk = batch_request token (map (add_part projectID) (List.enumerate 0 chunk))"

definition collect_item :: "(string \<rightharpoonup> string) \<Rightarrow> nat \<times> string \<Rightarrow> (string \<rightharpoonup> string) \<Rightarrow> (string \<rightharpoonup> string)" where
  "collect_item data = (\<lambda>(i, nodeID) results. case data (''add'' @ fmt_d (int i)) of
     Some itemID \<Rightarrow> results(nodeID \<mapsto> itemID) | None \<Rightarrow> results)"

definition collect_items :: "(string \<rightharpoonup> string) \<Rightarrow> string list \<Rightarrow> (string \<rightharpoonup> string) \<Rightarrow> (string \<rightharpoonup> string)" where
  "collect_items data chunk = fold (collect_item data) (List.enumerate 0 chunk)"

fun add_chunks ::
  "gq_env \<Rightarrow> string \<Rightarrow> string \<Rightarrow> nat \<Rightarrow> string list list \<Rightarrow> (string \<rightharpoonup> string) \<Rightarrow> ('o, 'x) rstate_scheme
   \<Rightarrow> ((string \<rightharpoonup> string) \<times> go_error option) \<times> ('o, 'x) rstate_scheme" where
  "add_chunks e token projectID chunkIndex [] results s = ((results, None), s)"
| "add_chunks e token projectID chunkIndex (chunk # rest) results s =
     (let n = fmt_d (int (chunkIndex + 1)) in
      case gq_mutate (gq_items e) ('' for chunk '' @ n) ('' in chunk '' @ n) (add_request token projectID chunk) s of
        (Inl err, s) \<Rightarrow> ((results, Some err), s)
      | (Inr data, s) \<Rightarrow> add_chunks e token projectID (chunkIndex + 1) rest (collect_items data chunk results) s)"

definition BatchAddIssuesToProject ::
  "gq_env \<Rightarrow> string \<Rightarrow> string \<Rightarrow> string list \<Rightarrow> ('o, 'x) rstate_scheme
   \<Rightarrow> ((string \<rightharpoonup> string) \<times> go_error option) \<times> ('o, 'x) rstate_scheme" where
  "BatchAddIssuesToProject e token projectID issueNodeIDs s =
     (if token = [] then ((Map.empty, Some token_required), s)
      else add_chunks e token projectID 0 (chunks 25 issueNodeIDs) Map.empty s)"

section \<open>Setting the status of items\<close>

definition set_value_query :: string where
  "set_value_query = join [newline] [
     ''mutation($input: UpdateProjectV2ItemFieldValueInput!) {'',
     tabs 2 @ ''updateProjectV2ItemFieldValue(input: $input) {'',
     tabs 3 @ ''projectV2Item {'',
     tabs 4 @ ''id'',
     tabs 3 @ ''}'',
     tabs 2 @ ''}'',
     tabs 1 @ ''}'']"

definition SetProjectItemStatus ::
  "gq_env \<Rightarrow> string \<Rightarrow> string \<Rightarrow> string \<Rightarrow> string \<Rightarrow> string \<Rightarrow> ('o, 'x) rstate_scheme \<Rightarrow> go_error option \<times> ('o, 'x) rstate_scheme" where
  "SetProjectItemStatus e token projectID itemID fieldID optionID s =
     (if token = [] then (Some token_required, s)
      else (case gq_mutate (gq_done e) [] [] (with_input token set_value_query
                [(''projectId'', GqText projectID), (''itemId'', GqText itemID), (''fieldId'', GqText fieldID),
                 (''value'', GqObject [(''singleSelectOptionId'', GqText optionID)])]) s of
          (Inl err, s) \<Rightarrow> (Some err, s)
        | (Inr _, s) \<Rightarrow> (None, s)))"

definition update_part :: "string \<Rightarrow> string \<Rightarrow> nat \<times> string \<times> string \<Rightarrow> string" where
  "update_part projectID fieldID = (\<lambda>(i, itemID, optionID). join [newline] [[],
     tabs 3 @ ''update'' @ fmt_d (int i) @ '': updateProjectV2ItemFieldValue(input: {'',
     tabs 4 @ ''projectId: '' @ quoted_text projectID @ '','',
     tabs 4 @ ''itemId: '' @ quoted_text itemID @ '','',
     tabs 4 @ ''fieldId: '' @ quoted_text fieldID @ '','',
     tabs 4 @ ''value: {singleSelectOptionId: '' @ quoted_text optionID @ ''}'',
     tabs 3 @ ''}) {'',
     tabs 4 @ ''projectV2Item {'',
     tabs 5 @ ''id'',
     tabs 4 @ ''}'',
     tabs 3 @ ''}''])"

text \<open>The items are a map, given in the order in which the loop runs over it.\<close>

definition BatchSetProjectItemStatus ::
  "gq_env \<Rightarrow> string \<Rightarrow> string \<Rightarrow> string \<Rightarrow> (string \<times> string) list \<Rightarrow> ('o, 'x) rstate_scheme \<Rightarrow> go_error option \<times> ('o, 'x) rstate_scheme" where
  "BatchSetProjectItemStatus e token projectID fieldID items s =
     (if token = [] then (Some token_required, s)
      else if items = [] then (None, s)
      else (case gq_mutate (gq_done e) [] [] (batch_request token (map (update_part projectID fieldID) (List.enumerate 0 items))) s of
          (Inl err, s) \<Rightarrow> (Some err, s)
        | (Inr _, s) \<Rightarrow> (None, s)))"

section \<open>Other requests\<close>

definition GetProjectByNumber :: "gq_env \<Rightarrow> string \<Rightarrow> string \<Rightarrow> int \<Rightarrow> effect list \<Rightarrow> go_error + project_info" where
  "GetProjectByNumber e token owner number h =
     (if token = [] then Inl token_required
      else (case getOwnerID e token owner h of
          Inl err \<Rightarrow> Inl (wrap_err ''failed to get owner type'' err)
        | Inr (_, ownerType) \<Rightarrow> map_sum (wrap_err ''failed to get project'') id
            (if ownerType = ''Organization'' then gq_org_project e h token owner number
             else gq_user_project e h token owner number)))"

definition ProjectExists :: "gq_env \<Rightarrow> string \<Rightarrow> string \<Rightarrow> int \<Rightarrow> effect list \<Rightarrow> go_error + bool" where
  "ProjectExists e token owner number h = (case GetProjectByNumber e token owner number h of
     Inl err \<Rightarrow> if contains_str (err_text err) ''not found'' then Inr False else Inl err
   | Inr _ \<Rightarrow> Inr True)"

definition GetIssueNodeID :: "gq_env \<Rightarrow> string \<Rightarrow> string \<Rightarrow> string \<Rightarrow> int \<Rightarrow> effect list \<Rightarrow> go_error + string" where
  "GetIssueNodeID e token owner repo issueNumber h =
     (if token = [] then Inl token_required
      else map_sum (wrap_err ''failed to get issue node ID'') id (gq_issue e h token owner repo issueNumber))"

definition DeleteProject :: "gq_env \<Rightarrow> string \<Rightarrow> string \<Rightarrow> ('o, 'x) rstate_scheme \<Rightarrow> go_error option \<times> ('o, 'x) rstate_scheme" where
  "DeleteProject e token projectID s =
     (if token = [] then (Some token_required, s)
      else (map_option (wrap_err ''failed to delete project'') (gq_delete e (effects s) token projectID),
        emit (ApiWrite [''deleteProjectV2'', token, projectID]) s))"

definition getTemplateID :: "string \<Rightarrow> string" where
  "getTemplateID template = (case map_of [
       (''team-planning'', ''Team planning''), (''kanban'', ''Kanban''), (''feature-release'', ''Feature release''),
       (''bug-tracker'', ''Bug tracker''), (''iterative-development'', ''Iterative development''),
       (''product-launch'', ''Product launch''), (''roadmap'', ''Roadmap''),
       (''team-retrospective'', ''Team retrospective''), (''board'', ''Board''), (''blank'', [])] template of
     Some name \<Rightarrow> name | None \<Rightarrow> [])"

section \<open>What is added to a project\<close>

lemma collect_item_other: "x \<noteq> snd p \<Longrightarrow> collect_item data p results x = results x"
  by (auto simp: collect_item_def split: prod.splits option.split)

lemma collect_item_same: "results x = None \<Longrightarrow> collect_item data (i, x) results x = data (''add'' @ fmt_d (int i))"
  by (simp add: collect_item_def split: option.split)

lemma collect_other:
  "x \<notin> set chunk \<Longrightarrow> fold (collect_item data) (List.enumerate k chunk) results x = results x"
  by (induction chunk arbitrary: k results) (auto simp: collect_item_other)

lemma collect_items_other: "x \<notin> set chunk \<Longrightarrow> collect_items data chunk results x = results x"
  unfolding collect_items_def by (rule collect_other)

lemma collect_nth:
  "distinct chunk \<Longrightarrow> q < length chunk \<Longrightarrow> results (chunk ! q) = None \<Longrightarrow>
   fold (collect_item data) (List.enumerate k chunk) results (chunk ! q) = data (''add'' @ fmt_d (int (k + q)))"
proof (induction chunk arbitrary: k q results)
  case (Cons x chunk)
  show ?case
  proof (cases q)
    case 0
    with Cons.prems show ?thesis using collect_item_same [of results x data k] by (simp add: collect_other)
  next
    case (Suc r)
    have "x \<noteq> chunk ! r" using Cons.prems Suc by auto
    then have "collect_item data (k, x) results (chunk ! r) = None" using Cons.prems(3) Suc by (simp add: collect_item_other)
    then show ?thesis using Cons.IH [of r "collect_item data (k, x) results" "Suc k"] Cons.prems Suc by simp
  qed
qed simp

lemma collect_items_nth:
  "distinct chunk \<Longrightarrow> q < length chunk \<Longrightarrow> results (chunk ! q) = None
   \<Longrightarrow> collect_items data chunk results (chunk ! q) = data (''add'' @ fmt_d (int q))"
  unfolding collect_items_def using collect_nth [of chunk q results data 0] by simp

lemma gq_result_Inr: "gq_result a b x = Inr d \<longleftrightarrow> x = GqAnswered [] d"
  by (auto simp: gq_result_def split: gq_answer.splits if_splits)

abbreviation add_sent :: "string \<Rightarrow> string \<Rightarrow> string list list \<Rightarrow> effect list" where
  "add_sent token projectID pieces \<equiv> map (\<lambda>chunk. gq_sent (add_request token projectID chunk)) pieces"

text \<open>The piece \<open>i\<close> is answered with \<open>data\<close>, when all before it have been sent.\<close>

definition added_by :: "gq_env \<Rightarrow> string \<Rightarrow> string \<Rightarrow> effect list \<Rightarrow> string list list \<Rightarrow> nat \<Rightarrow> (string \<rightharpoonup> string) \<Rightarrow> bool" where
  "added_by e token projectID h pieces i data \<longleftrightarrow>
     gq_items e (h @ add_sent token projectID (take i pieces)) (add_request token projectID (pieces ! i)) = GqAnswered [] data"

lemma add_chunks_results:
  assumes "add_chunks e token projectID c pieces results s = ((res, err), u)"
    and "distinct (concat pieces)" and "\<forall>x \<in> set (concat pieces). results x = None"
  shows "\<exists>n \<le> length pieces. (err = None \<longleftrightarrow> n = length pieces)
    \<and> effects u = effects s @ add_sent token projectID (take (Suc n) pieces)
    \<and> (\<forall>x. x \<notin> set (concat (take n pieces)) \<longrightarrow> res x = results x)
    \<and> (\<forall>i < n. \<exists>data. added_by e token projectID (effects s) pieces i data
        \<and> (\<forall>q < length (pieces ! i). res (pieces ! i ! q) = data (''add'' @ fmt_d (int q))))
    \<and> (n < length pieces \<longrightarrow> (\<nexists>data. added_by e token projectID (effects s) pieces n data))"
  using assms
proof (induction pieces arbitrary: c results s)
  case (Cons chunk pieces)
  let ?req = "add_request token projectID chunk"
  let ?t = "emit (gq_sent ?req) s"
  show ?case
  proof (cases "\<exists>data. gq_items e (effects s) ?req = GqAnswered [] data")
    case False
    then have "(res, err, u) = (results, err, ?t)" "err \<noteq> None"
      using Cons.prems(1) by (auto simp: gq_mutate_def Let_def gq_result_Inr split: sum.splits)
    then show ?thesis using False by (intro exI [of _ 0]) (simp add: added_by_def)
  next
    case True
    then obtain data where data: "gq_items e (effects s) ?req = GqAnswered [] data" by blast
    then have rest: "add_chunks e token projectID (c + 1) pieces (collect_items data chunk results) ?t = ((res, err), u)"
      using Cons.prems(1) by (simp add: gq_mutate_def Let_def gq_result_def)
    have apart: "set chunk \<inter> set (concat pieces) = {}" "distinct chunk" "distinct (concat pieces)"
      using Cons.prems(2) by auto
    have fresh: "\<forall>x \<in> set (concat pieces). collect_items data chunk results x = None"
    proof
      fix x assume "x \<in> set (concat pieces)"
      then have "x \<notin> set chunk" "results x = None" using apart(1) Cons.prems(3) by auto
      then show "collect_items data chunk results x = None" by (simp add: collect_items_other)
    qed
    from Cons.IH [OF rest apart(3) fresh] obtain n where n: "n \<le> length pieces" "err = None \<longleftrightarrow> n = length pieces"
      and sent: "effects u = effects ?t @ add_sent token projectID (take (Suc n) pieces)"
      and others: "\<And>x. x \<notin> set (concat (take n pieces)) \<Longrightarrow> res x = collect_items data chunk results x"
      and later: "\<And>i. i < n \<Longrightarrow> \<exists>data. added_by e token projectID (effects ?t) pieces i data
          \<and> (\<forall>q < length (pieces ! i). res (pieces ! i ! q) = data (''add'' @ fmt_d (int q)))"
      and refused: "n < length pieces \<longrightarrow> (\<nexists>data. added_by e token projectID (effects ?t) pieces n data)" by blast
    have shift: "added_by e token projectID (effects s) (chunk # pieces) (Suc j) d
        \<longleftrightarrow> added_by e token projectID (effects ?t) pieces j d" for j d
      by (simp add: added_by_def)
    have first: "res (chunk ! q) = data (''add'' @ fmt_d (int q))" if "q < length chunk" for q
    proof -
      have "chunk ! q \<in> set chunk" using that by simp
      then have "chunk ! q \<notin> set (concat pieces)" "results (chunk ! q) = None" using apart Cons.prems(3) by auto
      moreover from this(1) have "chunk ! q \<notin> set (concat (take n pieces))" by (auto dest: in_set_takeD)
      ultimately show ?thesis using others collect_items_nth [OF apart(2) that] by simp
    qed
    have answered: "\<exists>data. added_by e token projectID (effects s) (chunk # pieces) i data
        \<and> (\<forall>q < length ((chunk # pieces) ! i). res ((chunk # pieces) ! i ! q) = data (''add'' @ fmt_d (int q)))"
      if "i < Suc n" for i
    proof (cases i)
      case 0
      then show ?thesis using data first by (intro exI [of _ data]) (simp add: added_by_def)
    next
      case (Suc j)
      then show ?thesis using later [of j] that by (simp only: shift nth_Cons_Suc)
    qed
    have "res x = results x" if "x \<notin> set (concat (take (Suc n) (chunk # pieces)))" for x
      using others [of x] that collect_items_other [of x chunk data results] by simp
    then show ?thesis using n sent answered refused
      by (intro exI [of _ "Suc n"]) (simp add: shift)
  qed
qed simp

lemma concat_take_chunks: "concat (take n (chunks 25 xs)) = take (n * 25) xs"
proof (induction n arbitrary: xs)
  case (Suc n)
  show ?case
  proof (cases "xs = []")
    case True
    then show ?thesis by (simp add: chunks.simps)
  next
    case False
    then have "chunks 25 xs = take 25 xs # chunks 25 (drop 25 xs)" by (subst chunks.simps) simp
    then show ?thesis using Suc [of "drop 25 xs"] by (simp add: take_add)
  qed
qed simp

lemma length_chunks: "0 < n \<Longrightarrow> length (chunks n xs) * n < length xs + n"
proof (induction n xs rule: chunks.induct)
  case (1 n xs)
  show ?case
  proof (cases "xs = []")
    case False
    then have "length (chunks n (drop n xs)) * n < length (drop n xs) + n" using 1 by simp
    then show ?thesis using False 1(2) by (subst chunks.simps) (cases "length xs \<le> n"; simp add: chunks.simps)
  qed (use 1(2) in \<open>simp add: chunks.simps\<close>)
qed

lemma nth_chunks: "0 < n \<Longrightarrow> i * n < length xs \<Longrightarrow> i < length (chunks n xs) \<and> chunks n xs ! i = take n (drop (i * n) xs)"
proof (induction n xs arbitrary: i rule: chunks.induct)
  case (1 n xs)
  then have "xs \<noteq> []" by auto
  show ?case
  proof (cases i)
    case 0
    with \<open>xs \<noteq> []\<close> 1(2) show ?thesis by (subst (1 2) chunks.simps) simp
  next
    case (Suc j)
    have "j < length (chunks n (drop n xs)) \<and> chunks n (drop n xs) ! j = take n (drop (j * n) (drop n xs))"
      by (rule 1(1)) (use 1(2,3) Suc \<open>xs \<noteq> []\<close> in simp_all)
    with \<open>xs \<noteq> []\<close> Suc 1(2) show ?thesis by (subst (1 2) chunks.simps) (simp add: add.commute)
  qed
qed

text \<open>
  C31. Adding issues to a project, with a token and no issue given twice, asks for them 25 at a time
  and in order until an answer fails. Whatever happens, there is a number of pieces that were
  answered without errors: the error is empty exactly if these are all; otherwise the next piece
  was sent too, was not answered, and nothing was sent after it. What is returned, with an
  error or without, is for every issue of the answered pieces what the answer says
  under the name that the request gave to it, its position in its piece, and nothing for any other.
\<close>

theorem batch_add_exact:
  assumes "BatchAddIssuesToProject e token projectID ids s = ((res, err), u)" and "token \<noteq> []" and "distinct ids"
  shows "\<exists>n \<le> length (chunks 25 ids). (err = None \<longleftrightarrow> n = length (chunks 25 ids))
    \<and> effects u = effects s @ add_sent token projectID (take (Suc n) (chunks 25 ids))
    \<and> dom res \<subseteq> set (take (n * 25) ids)
    \<and> (\<forall>j < length ids. j < n * 25 \<longrightarrow> (\<exists>data. added_by e token projectID (effects s) (chunks 25 ids) (j div 25) data
        \<and> res (ids ! j) = data (''add'' @ fmt_d (int (j mod 25)))))
    \<and> (n < length (chunks 25 ids) \<longrightarrow> (\<nexists>data. added_by e token projectID (effects s) (chunks 25 ids) n data))"
proof -
  have "add_chunks e token projectID 0 (chunks 25 ids) Map.empty s = ((res, err), u)"
    using assms(1,2) by (simp add: BatchAddIssuesToProject_def)
  from add_chunks_results [OF this] assms(3) obtain n where n: "n \<le> length (chunks 25 ids)"
      "err = None \<longleftrightarrow> n = length (chunks 25 ids)"
    and sent: "effects u = effects s @ add_sent token projectID (take (Suc n) (chunks 25 ids))"
    and none: "\<And>x. x \<notin> set (take (n * 25) ids) \<Longrightarrow> res x = None"
    and pieces: "\<And>i. i < n \<Longrightarrow> \<exists>data. added_by e token projectID (effects s) (chunks 25 ids) i data
      \<and> (\<forall>q < length (chunks 25 ids ! i). res (chunks 25 ids ! i ! q) = data (''add'' @ fmt_d (int q)))"
    and refused: "n < length (chunks 25 ids) \<longrightarrow> (\<nexists>data. added_by e token projectID (effects s) (chunks 25 ids) n data)"
    by (auto simp: concat_take_chunks)
  have "\<exists>data. added_by e token projectID (effects s) (chunks 25 ids) (j div 25) data
      \<and> res (ids ! j) = data (''add'' @ fmt_d (int (j mod 25)))" if j: "j < length ids" "j < n * 25" for j
  proof -
    have split: "j = j div 25 * 25 + j mod 25" by simp
    then have "j div 25 * 25 < length ids" using j(1) by linarith
    have rest: "j mod 25 < length ids - j div 25 * 25" using j(1) split by linarith
    from nth_chunks [OF _ \<open>j div 25 * 25 < length ids\<close>] have
      c: "chunks 25 ids ! (j div 25) = take 25 (drop (j div 25 * 25) ids)" by simp
    have "j mod 25 < length (chunks 25 ids ! (j div 25))" "chunks 25 ids ! (j div 25) ! (j mod 25) = ids ! j"
      using rest split j by (simp_all add: c)
    moreover have "j div 25 < n" using j(2) by (simp add: less_mult_imp_div_less)
    ultimately show ?thesis using pieces by metis
  qed
  moreover have "dom res \<subseteq> set (take (n * 25) ids)" using none by (auto simp: dom_def) (metis option.distinct(1))
  ultimately show ?thesis using n sent refused by blast
qed

definition sample_gq :: gq_env where
  "sample_gq = \<lparr>gq_organization = (\<lambda>h tok l. Inr ''O_1''), gq_user = (\<lambda>h tok l. Inr ''U_1''),
     gq_repository = (\<lambda>h tok ow n. Inr ''R_1''), gq_issue = (\<lambda>h tok ow n i. Inr ''I_1''),
     gq_org_project = (\<lambda>h tok l n. Inl (PlainError ''not found'')), gq_user_project = (\<lambda>h tok l n. Inl (PlainError ''not found'')),
     gq_delete = (\<lambda>h tok p. None),
     gq_project = (\<lambda>h r. GqAnswered [] \<lparr>pin_id = ''PVT_1'', pin_number = 1, pin_url = ''https://github.com/orgs/o/projects/1'',
       pin_title = ''Items'', pin_shortDescription = [], pin_public = False\<rparr>),
     gq_done = (\<lambda>h r. GqAnswered [] ()), gq_item = (\<lambda>h r. GqAnswered [] ''PVTI_1''),
     gq_items = (\<lambda>h r. GqAnswered [] (\<lambda>name. Some (''PVTI_'' @ name))), gq_fields = (\<lambda>h r. GqAnswered [] [])\<rparr>"

text \<open>GitHub answers for the first piece and fails for the second.\<close>

definition failing_gq :: gq_env where
  "failing_gq = sample_gq\<lparr>gq_items := (\<lambda>h r. if h = [] then GqAnswered [] (\<lambda>name. Some (''PVTI_'' @ name))
     else GqUnsent (PlainError ''timeout''))\<rparr>"

definition sample_ids :: "string list" where
  "sample_ids = map (\<lambda>i. [char_of i]) [0 ..< 30 :: nat]"

lemma sample_failed:
  "(case BatchAddIssuesToProject failing_gq ''t'' ''PVT_1'' sample_ids (fetched (0 :: nat)) of
     ((res, err), u) \<Rightarrow> (map res [[char_of (24 :: nat)], [char_of (25 :: nat)]], err = None, length (effects u)))
   = ([Some ''PVTI_add24'', None], False, 2)"
  by code_simp

theorem batch_add_exact_witness:
  "\<exists>res err u. BatchAddIssuesToProject failing_gq ''t'' ''PVT_1'' sample_ids (fetched (0 :: nat)) = ((res, Some err), u)
    \<and> res [char_of (24 :: nat)] = Some ''PVTI_add24'' \<and> dom res \<subseteq> set (take 25 sample_ids)"
proof -
  obtain res err u where eq: "BatchAddIssuesToProject failing_gq ''t'' ''PVT_1'' sample_ids (fetched (0 :: nat)) = ((res, Some err), u)"
    and res: "res [char_of (24 :: nat)] = Some ''PVTI_add24''"
    using sample_failed
    by (cases "BatchAddIssuesToProject failing_gq ''t'' ''PVT_1'' sample_ids (fetched (0 :: nat))") auto
  have "distinct sample_ids" "length (chunks 25 sample_ids) = 2" by code_simp+
  with batch_add_exact [OF eq] obtain n where "n < 2" "dom res \<subseteq> set (take (n * 25) sample_ids)"
    by (auto simp: le_less)
  moreover from this(1) have "set (take (n * 25) sample_ids) \<subseteq> set (take 25 sample_ids)"
    by (intro set_take_subset_set_take) simp
  ultimately show ?thesis using eq res by blast
qed

end
