(* ===== verification/ProjectController.thy ===== *)
theory ProjectController
  imports ProjectService AdoAuth
begin

text \<open>
  \<^verbatim>\<open>internal/controller/githubproject_controller.go\<close>: the controller of GitHubProject, which creates
  a project at GitHub once and records its identity.

  Parameters, beside the API server, the clock and GraphQL: GitHub App tokens, and
  \<open>meta.SetStatusCondition\<close> of the Kubernetes library. An update of the object decodes the server's
  answer into it, so that changes to the status in memory are lost.
\<close>

type_synonym project_state = "github_project rstate"

record project_env = "github_project kube" +
  pj_gq :: gq_env
  pj_app_client :: "effect list \<Rightarrow> int \<Rightarrow> int \<Rightarrow> string \<Rightarrow> go_error option"
  pj_app_token :: "effect list \<Rightarrow> int \<Rightarrow> int \<Rightarrow> string \<Rightarrow> go_error + string"
  pj_set_condition :: "condition \<Rightarrow> condition list \<Rightarrow> condition list"

section \<open>Authentication\<close>

text \<open>A key that a secret does not have counts as empty.\<close>

definition secret_or_empty :: "project_env \<Rightarrow> string \<Rightarrow> string \<Rightarrow> secret_ref \<Rightarrow> go_error + string" where
  "secret_or_empty k namespace what ref =
     map_sum (wrap_err (''failed to get '' @ what @ '' secret'')) (\<lambda>entries. case entries (sr_key ref) of None \<Rightarrow> [] | Some v \<Rightarrow> v)
       (k_secret k namespace (sr_name ref))"

definition project_getGitHubAppToken :: "project_env \<Rightarrow> github_app_auth_config \<Rightarrow> project_state \<Rightarrow> go_error + string" where
  "project_getGitHubAppToken k app s = (let ns = om_namespace (ghp_meta (obj s)) in
     sum_bind (secret_or_empty k ns ''app ID'' (app_appIdRef app)) (\<lambda>appIDStr.
     sum_bind (map_sum (wrap_err ''failed to parse app ID'') id (parse_int64 appIDStr)) (\<lambda>appID.
     sum_bind (secret_or_empty k ns ''installation ID'' (app_installationIdRef app)) (\<lambda>installationIDStr.
     sum_bind (map_sum (wrap_err ''failed to parse installation ID'') id (parse_int64 installationIDStr)) (\<lambda>installationID.
     sum_bind (secret_or_empty k ns ''private key'' (app_privateKeyRef app)) (\<lambda>privateKey.
       case pj_app_client k (effects s) appID installationID privateKey of
         Some err \<Rightarrow> Inl (wrap_err ''failed to create GitHub App client'' err)
       | None \<Rightarrow> map_sum (wrap_err ''failed to get installation token'') id
           (pj_app_token k (effects s) appID installationID privateKey)))))))"

definition getGitHubPATToken :: "project_env \<Rightarrow> secret_ref \<Rightarrow> project_state \<Rightarrow> go_error + string" where
  "getGitHubPATToken k ref s =
     sum_bind (secret_or_empty k (om_namespace (ghp_meta (obj s))) ''GitHub token'' ref) (\<lambda>token.
       if token = [] then Inl (PlainError ''GitHub token is empty in secret'') else Inr token)"

definition project_getGitHubToken :: "project_env \<Rightarrow> project_state \<Rightarrow> go_error + string" where
  "project_getGitHubToken k s = (let auth = ghs_auth (ghp_spec (obj s)) in
     case gh_appAuth auth of
       Some app \<Rightarrow> project_getGitHubAppToken k app s
     | None \<Rightarrow> (case gh_tokenRef auth of
         Some ref \<Rightarrow> getGitHubPATToken k ref s
       | None \<Rightarrow> Inl (PlainError ''no GitHub authentication configured'')))"

section \<open>Creation\<close>

definition ready_condition :: "condition_status \<Rightarrow> string \<Rightarrow> string \<Rightarrow> instant \<Rightarrow> condition" where
  "ready_condition status reason message now = \<lparr>cond_type = ''Ready'', cond_status = status,
     cond_observedGeneration = 0, cond_lastTransitionTime = now, cond_reason = reason, cond_message = message\<rparr>"

definition set_ready :: "project_env \<Rightarrow> condition_status \<Rightarrow> string \<Rightarrow> string \<Rightarrow> project_state \<Rightarrow> project_state" where
  "set_ready k status reason message s = (case read_clock k s of (now, s) \<Rightarrow>
     modify (on_project (\<lambda>st. st\<lparr>ght_conditions :=
       pj_set_condition k (ready_condition status reason message now) (ght_conditions st)\<rparr>)) s)"

definition setFailedStatus :: "project_env \<Rightarrow> go_error \<Rightarrow> project_state \<Rightarrow> outcome \<times> project_state" where
  "setFailedStatus k err s =
     (let s = modify (on_project (\<lambda>st. st\<lparr>ght_phase := ProjectFailed, ght_errorMessage := err_text err,
                ght_message := ''GitHub Project creation failed''\<rparr>)) s
      in case read_clock k s of (now, s) \<Rightarrow>
      let s = modify (on_project (\<lambda>st. st\<lparr>ght_lastUpdatedAt := Some now\<rparr>)) s;
          s = set_ready k ConditionFalse ''CreationFailed'' (err_text err) s
      in status_update_or k (\<lambda>e. (no_requeue, Some e)) (\<lambda>s. ((no_requeue, None),
           emit (Event EventWarning ''CreationFailed'' (''GitHub Project creation failed: '' @ err_text err)) s)) s)"

definition configure_field :: "project_env \<Rightarrow> string \<Rightarrow> string \<Rightarrow> project_state \<Rightarrow> project_state" where
  "configure_field k token projectID s = (case ghs_statusField (ghp_spec (obj s)) of
     None \<Rightarrow> s
   | Some f \<Rightarrow>
       (let fieldName = (if sfc_name f = [] then ''Status'' else sfc_name f) in
        case ConfigureStatusField (pj_gq k) token projectID fieldName (sfc_options f) s of
          (Some err, s) \<Rightarrow> emit (Event EventWarning ''StatusFieldConfigFailed''
              (''Failed to configure status field: '' @ err_text err)) s
        | (None, s) \<Rightarrow> emit (Event EventNormal ''StatusFieldConfigured''
              (''Configured status field '' @ [CHR 0x27] @ fieldName @ [CHR 0x27] @ '' with ''
               @ fmt_d (int (length (sfc_options f))) @ '' options'')) s))"

definition create_request :: "project_spec \<Rightarrow> string \<Rightarrow> create_project_request" where
  "create_request sp token = \<lparr>cpq_owner = ghs_owner sp, cpq_projectName = ghs_projectName sp,
     cpq_description = ghs_description sp, cpq_template = ghs_template sp, cpq_public = ghs_public sp,
     cpq_repository = ghs_repository sp, cpq_token = token\<rparr>"

definition record_project :: "project_env \<Rightarrow> project_info \<Rightarrow> project_state \<Rightarrow> outcome \<times> project_state" where
  "record_project k p s = (case read_clock k s of (now, s) \<Rightarrow>
      let s = modify (on_project (\<lambda>st. st\<lparr>ght_phase := ProjectReady, ght_projectID := pin_id p,
                ght_projectNumber := pin_number p, ght_projectURL := pin_url p,
                ght_message := ''GitHub Project created successfully'', ght_errorMessage := [],
                ght_createdAt := Some now, ght_lastUpdatedAt := Some now\<rparr>)) s;
          s = set_ready k ConditionTrue ''ProjectCreated'' (''Project created successfully with ID '' @ pin_id p) s
      in status_update_or k (\<lambda>e. (no_requeue, Some e)) (\<lambda>s. ((no_requeue, None),
           emit (Event EventNormal ''Created'' (''GitHub Project created: '' @ pin_url p
             @ '' (Number: '' @ fmt_d (pin_number p) @ '')'')) s)) s)"

definition create_at_github :: "project_env \<Rightarrow> project_state \<Rightarrow> outcome \<times> project_state" where
  "create_at_github k s = (case project_getGitHubToken k s of
     Inl err \<Rightarrow> setFailedStatus k (wrap_err ''failed to get GitHub token'' err) s
   | Inr token \<Rightarrow> (case service_CreateProject (pj_gq k) (create_request (ghp_spec (obj s)) token) s of
       (Inl err, s) \<Rightarrow> setFailedStatus k (wrap_err ''failed to create project'' err) s
     | (Inr p, s) \<Rightarrow> record_project k p (configure_field k token (pin_id p) s)))"

definition processCreation :: "project_env \<Rightarrow> project_state \<Rightarrow> outcome \<times> project_state" where
  "processCreation k s =
     (let s = modify (on_project (\<lambda>st. st\<lparr>ght_phase := ProjectCreating, ght_message := ''Creating GitHub Project''\<rparr>)) s
      in case read_clock k s of (now, s) \<Rightarrow>
      let s = modify (on_project (\<lambda>st. st\<lparr>ght_lastUpdatedAt := Some now\<rparr>)) s;
          s = emit (Event EventNormal ''Creating'' ''Starting GitHub project creation'') s
      in status_update_or k (\<lambda>e. (no_requeue, Some e)) (create_at_github k) s)"

definition checkCreationStatus :: "project_state \<Rightarrow> outcome \<times> project_state" where
  "checkCreationStatus s = ((after (10 * second), None), s)"

section \<open>Reconciliation\<close>

definition handleSpecChangeForCompletedProject :: "project_env \<Rightarrow> project_state \<Rightarrow> outcome \<times> project_state" where
  "handleSpecChangeForCompletedProject k s =
     (let s = modify (\<lambda>p. on_project (\<lambda>st. st\<lparr>
                ght_message := ''Spec changed - manual deletion and recreation required. GitHub Projects cannot be automatically updated.'',
                ght_observedGeneration := om_generation (ghp_meta p)\<rparr>) p) s
      in case read_clock k s of (now, s) \<Rightarrow>
      let s = modify (on_project (\<lambda>st. st\<lparr>ght_lastUpdatedAt := Some now\<rparr>)) s;
          s = emit (Event EventWarning ''SpecChanged'' ''Spec changed for completed project - manual deletion and recreation required'') s
      in update_then k no_requeue no_requeue s)"

definition githubProjectFinalizerName :: string where
  "githubProjectFinalizerName = ''migration.ado-to-git-migration.io/githubproject-finalizer''"

definition project_update_finalizers :: "project_env \<Rightarrow> (string list \<Rightarrow> string list) \<Rightarrow> project_state \<Rightarrow> go_error option \<times> project_state" where
  "project_update_finalizers k f s =
     object_update k (modify (\<lambda>p. p\<lparr>ghp_meta := (ghp_meta p)\<lparr>om_finalizers := f (om_finalizers (ghp_meta p))\<rparr>\<rparr>) s)"

definition reconcileDelete :: "project_env \<Rightarrow> project_state \<Rightarrow> outcome \<times> project_state" where
  "reconcileDelete k s =
     (let s = emit (Event EventNormal ''Deleting'' ''GitHubProject CR deleted (GitHub project not deleted to prevent data loss)'') s
      in case project_update_finalizers k (removeAll githubProjectFinalizerName) s of
           (err, s) \<Rightarrow> ((no_requeue, err), s))"

definition project_processPhase :: "project_env \<Rightarrow> project_state \<Rightarrow> outcome \<times> project_state" where
  "project_processPhase k s = (case ght_phase (ghp_status (obj s)) of
     ProjectUnset \<Rightarrow> processCreation k s
   | ProjectPending \<Rightarrow> processCreation k s
   | ProjectCreating \<Rightarrow> checkCreationStatus s
   | ProjectReady \<Rightarrow> ((no_requeue, None), s)
   | ProjectFailed \<Rightarrow> ((no_requeue, None), s))"

definition project_spec_changed :: "github_project \<Rightarrow> bool" where
  "project_spec_changed p \<longleftrightarrow> (let st = ghp_status p in
     ght_observedGeneration st \<noteq> 0 \<and> ght_observedGeneration st \<noteq> om_generation (ghp_meta p)
     \<and> ght_phase st \<in> {ProjectReady, ProjectFailed})"

definition project_observe :: "project_env \<Rightarrow> project_state \<Rightarrow> project_state" where
  "project_observe k s =
     (if ght_observedGeneration (ghp_status (obj s)) = om_generation (ghp_meta (obj s)) then s
      else (case read_clock k s of (now, s) \<Rightarrow> modify (\<lambda>p. on_project (\<lambda>st. st\<lparr>
          ght_observedGeneration := om_generation (ghp_meta p), ght_lastUpdatedAt := Some now\<rparr>) p) s))"

definition add_project_finalizer :: "project_env \<Rightarrow> project_state \<Rightarrow> go_error option \<times> project_state" where
  "add_project_finalizer k s =
     (if githubProjectFinalizerName \<in> set (om_finalizers (ghp_meta (obj s))) then (None, s)
      else project_update_finalizers k (\<lambda>fs. fs @ [githubProjectFinalizerName]) s)"

definition reconcile_project :: "project_env \<Rightarrow> project_state \<Rightarrow> outcome \<times> project_state" where
  "reconcile_project k s =
     (if project_spec_changed (obj s) then handleSpecChangeForCompletedProject k s
      else (case add_project_finalizer k (project_observe k s) of
          (Some err, s) \<Rightarrow> ((no_requeue, Some err), s)
        | (None, s) \<Rightarrow>
            if om_deletionTimestamp (ghp_meta (obj s)) \<noteq> None then reconcileDelete k s
            else project_processPhase k s))"

definition project_Reconcile :: "project_env \<Rightarrow> go_error + project_state \<Rightarrow> outcome \<times> project_state option" where
  "project_Reconcile k got = (case got of
     Inl err \<Rightarrow> ((no_requeue, if is_not_found err then None else Some err), None)
   | Inr s \<Rightarrow> map_prod id Some (reconcile_project k s))"

end
