(* ===== verification/ProjectLives.thy ===== *)
theory ProjectLives
  imports ProjectController
begin

text \<open>
  What becomes of a GitHubProject through any sequence of reconciliations, in any environments,
  and edits: the contract of \<open>phase_machine\<close>, and how many projects are created at GitHub.
\<close>

section \<open>What a reconciliation writes\<close>

text \<open>The requests that create a project.\<close>

definition is_create :: "effect \<Rightarrow> bool" where
  "is_create x = (case x of ApiWrite (token # query # variables) \<Rightarrow> query = create_project_query | _ \<Rightarrow> False)"

abbreviation created :: "effect list \<Rightarrow> nat" where
  "created h \<equiv> length (filter is_create h)"

abbreviation pstatus :: "project_state \<Rightarrow> project_status" where
  "pstatus s \<equiv> ghp_status (stored s)"

abbreviation pphase :: "github_project \<Rightarrow> project_phase" where
  "pphase p \<equiv> ght_phase (ghp_status p)"

lemma queries_differ [simp]: "create_field_query \<noteq> create_project_query"
  by (simp add: create_field_query_def create_project_query_def)

lemma is_create_simps [simp]:
  "\<not> is_create (Event kind reason message)"
  "is_create (gq_sent (with_input token query input)) \<longleftrightarrow> query = create_project_query"
  by (simp_all add: is_create_def gq_sent_def with_input_def)

lemma set_ready_frame [simp]:
  "stored (set_ready k c r m s) = stored s" "effects (set_ready k c r m s) = effects s"
  "ghp_meta (obj (set_ready k c r m s)) = ghp_meta (obj s)" "ghp_spec (obj (set_ready k c r m s)) = ghp_spec (obj s)"
  "pphase (obj (set_ready k c r m s)) = pphase (obj s)"
  "ght_observedGeneration (ghp_status (obj (set_ready k c r m s))) = ght_observedGeneration (ghp_status (obj s))"
  "ght_projectID (ghp_status (obj (set_ready k c r m s))) = ght_projectID (ghp_status (obj s))"
  by (simp_all add: set_ready_def read_clock_def)

lemma status_update_or_eq:
  "status_update_or k f g s = (case k_status k (calls s) (obj s) of
     Some err \<Rightarrow> (f err, snd (status_update k s)) | None \<Rightarrow> g (snd (status_update k s)))"
  by (simp add: status_update_or_def status_update_def Let_def split: option.split)

text \<open>How a creation that has begun may end.\<close>

definition ended_as :: "project_phase \<Rightarrow> project_state \<Rightarrow> project_state \<Rightarrow> bool" where
  "ended_as ph s t \<longleftrightarrow> created (effects t) = created (effects s)
     \<and> (pstatus t = pstatus s
        \<or> pphase (stored t) = ph \<and> ght_observedGeneration (pstatus t) = ght_observedGeneration (ghp_status (obj s)))"

lemma setFailedStatus_end: "ended_as ProjectFailed s (snd (setFailedStatus k err s))"
  by (simp add: setFailedStatus_def Let_def read_clock_def status_update_or_eq ended_as_def split: option.split)

lemma record_project_end: "ended_as ProjectReady s (snd (record_project k p s))"
  by (simp add: record_project_def Let_def read_clock_def status_update_or_eq ended_as_def split: option.split)

lemma configure_field_frame [simp]:
  "obj (configure_field k token i s) = obj s" "stored (configure_field k token i s) = stored s"
  "created (effects (configure_field k token i s)) = created (effects s)"
  by (simp_all add: configure_field_def ConfigureStatusField_def gq_mutate_def Let_def
      split: option.split sum.split prod.split)

lemma service_CreateProject_frame:
  assumes "service_CreateProject e q s = (r, t)"
  shows "obj t = obj s" "stored t = stored s" "created (effects s) \<le> created (effects t)"
    "created (effects t) \<le> created (effects s) + 1" "r = Inr p \<Longrightarrow> created (effects t) = created (effects s) + 1"
  using assms by (auto simp: service_CreateProject_def gq_mutate_def split: if_splits sum.splits prod.splits)

lemma create_at_github_end:
  fixes k :: project_env and s :: project_state
  defines "t \<equiv> snd (create_at_github k s)"
  shows "created (effects s) \<le> created (effects t)" and "created (effects t) \<le> created (effects s) + 1"
    and "pstatus t = pstatus s \<or> pphase (stored t) \<in> {ProjectReady, ProjectFailed}
      \<and> ght_observedGeneration (pstatus t) = ght_observedGeneration (ghp_status (obj s))"
    and "pphase (stored s) \<noteq> ProjectReady \<Longrightarrow> pphase (stored t) = ProjectReady \<Longrightarrow> created (effects t) = created (effects s) + 1"
proof -
  have "created (effects s) \<le> created (effects t) \<and> created (effects t) \<le> created (effects s) + 1
    \<and> (pstatus t = pstatus s \<or> pphase (stored t) \<in> {ProjectReady, ProjectFailed}
        \<and> ght_observedGeneration (pstatus t) = ght_observedGeneration (ghp_status (obj s)))
    \<and> (pphase (stored s) \<noteq> ProjectReady \<longrightarrow> pphase (stored t) = ProjectReady \<longrightarrow> created (effects t) = created (effects s) + 1)"
  proof (cases "project_getGitHubToken k s")
    case (Inl err)
    then have "ended_as ProjectFailed s t" by (simp add: t_def create_at_github_def setFailedStatus_end)
    then show ?thesis by (auto simp: ended_as_def)
  next
    case (Inr token)
    obtain r u where c: "service_CreateProject (pj_gq k) (create_request (ghp_spec (obj s)) token) s = (r, u)" by fastforce
    note u = service_CreateProject_frame [OF c]
    show ?thesis
    proof (cases r)
      case (Inl err)
      then have "ended_as ProjectFailed u t" using Inr c by (simp add: t_def create_at_github_def setFailedStatus_end)
      then show ?thesis using u by (auto simp: ended_as_def)
    next
      case inr: (Inr p)
      let ?v = "configure_field k token (pin_id p) u"
      have "ended_as ProjectReady ?v t" using Inr inr c by (simp add: t_def create_at_github_def record_project_end)
      then show ?thesis using u(1-4) u(5) [OF inr] by (auto simp: ended_as_def)
    qed
  qed
  then show "created (effects s) \<le> created (effects t)" and "created (effects t) \<le> created (effects s) + 1"
    and "pstatus t = pstatus s \<or> pphase (stored t) \<in> {ProjectReady, ProjectFailed}
      \<and> ght_observedGeneration (pstatus t) = ght_observedGeneration (ghp_status (obj s))"
    and "pphase (stored s) \<noteq> ProjectReady \<Longrightarrow> pphase (stored t) = ProjectReady \<Longrightarrow> created (effects t) = created (effects s) + 1"
    by simp_all
qed

text \<open>An update of the object never changes the status at the server.\<close>

definition project_env_ok :: "project_env \<Rightarrow> bool" where
  "project_env_ok k \<longleftrightarrow> (\<forall>n old new x. k_update k n old new = Inr x \<longrightarrow> ghp_status x = ghp_status old \<and> ghp_spec x = ghp_spec new)"

abbreviation has_finalizer :: "github_project \<Rightarrow> bool" where
  "has_finalizer p \<equiv> githubProjectFinalizerName \<in> set (om_finalizers (ghp_meta p))"

lemma update_finalizers_frame:
  assumes "project_env_ok k" and "project_update_finalizers k f s = (r, t)"
  shows "pstatus t = pstatus s" "effects t = effects s" "r = None \<Longrightarrow> obj t = stored t"
    "ghp_spec (obj t) = ghp_spec (obj s)"
  using assms by (auto simp: project_update_finalizers_def object_update_def project_env_ok_def split: sum.splits)

lemma observe_frame [simp]:
  "stored (project_observe k s) = stored s" "effects (project_observe k s) = effects s"
  "ghp_meta (obj (project_observe k s)) = ghp_meta (obj s)" "ghp_spec (obj (project_observe k s)) = ghp_spec (obj s)"
  "pphase (obj (project_observe k s)) = pphase (obj s)"
  by (simp_all add: project_observe_def read_clock_def)

lemma add_finalizer_frame:
  assumes "project_env_ok k" and "add_project_finalizer k s = (r, t)"
  shows "pstatus t = pstatus s" "effects t = effects s" "ghp_spec (obj t) = ghp_spec (obj s)"
    "pphase (obj s) = pphase (stored s) \<Longrightarrow> r = None \<Longrightarrow> pphase (obj t) = pphase (stored s)"
    "\<not> has_finalizer (obj s) \<Longrightarrow> r = None \<Longrightarrow> ghp_status (obj t) = pstatus s"
  using update_finalizers_frame [OF assms(1), of "\<lambda>fs. fs @ [githubProjectFinalizerName]" s r t] assms(2)
  by (auto simp: add_project_finalizer_def split: if_splits)

text \<open>
  What a reconciliation does to the stored status: nothing, the note that the specification of a
  finished project changed, or a creation, which ends Creating (when its outcome could not be
  written), Ready or Failed.
\<close>

definition creation_of :: "project_state \<Rightarrow> project_state \<Rightarrow> bool" where
  "creation_of s t \<longleftrightarrow> pphase (stored s) \<in> {ProjectUnset, ProjectPending}
     \<and> pphase (stored t) \<in> {ProjectCreating, ProjectReady, ProjectFailed}
     \<and> created (effects t) \<le> created (effects s) + 1
     \<and> (pphase (stored t) = ProjectReady \<longrightarrow> created (effects t) = created (effects s) + 1)
     \<and> (\<not> has_finalizer (stored s) \<longrightarrow> ght_observedGeneration (pstatus t) = ght_observedGeneration (pstatus s))"

lemma processCreation_end:
  defines "t \<equiv> \<lambda>k s. snd (processCreation k s)"
  shows "pstatus (t k s) = pstatus s \<and> created (effects (t k s)) = created (effects s)
    \<or> pphase (stored (t k s)) \<in> {ProjectCreating, ProjectReady, ProjectFailed}
      \<and> created (effects (t k s)) \<le> created (effects s) + 1
      \<and> (pphase (stored (t k s)) = ProjectReady \<longrightarrow> created (effects (t k s)) = created (effects s) + 1)
      \<and> ght_observedGeneration (pstatus (t k s)) = ght_observedGeneration (ghp_status (obj s))"
proof -
  obtain u where start: "processCreation k s = status_update_or k (\<lambda>e. (no_requeue, Some e)) (create_at_github k) u"
      and u: "stored u = stored s" "created (effects u) = created (effects s)" "pphase (obj u) = ProjectCreating"
        "ght_observedGeneration (ghp_status (obj u)) = ght_observedGeneration (ghp_status (obj s))"
    by (simp add: processCreation_def Let_def read_clock_def)
  show ?thesis
  proof (cases "k_status k (calls u) (obj u)")
    case (Some err)
    then show ?thesis using u by (simp add: t_def start status_update_or_eq)
  next
    case None
    let ?v = "snd (status_update k u)"
    have "t k s = snd (create_at_github k ?v)" using None by (simp add: t_def start status_update_or_eq)
    with create_at_github_end [where k = k and s = ?v] u None show ?thesis by auto
  qed
qed

lemma reconcile_project_end:
  assumes k: "project_env_ok k" and s: "obj s = stored s"
  defines "t \<equiv> snd (reconcile_project k s)"
  shows "pstatus t = pstatus s \<and> created (effects t) = created (effects s)
    \<or> project_spec_changed (stored s) \<and> pphase (stored t) = pphase (stored s) \<and> created (effects t) = created (effects s)
    \<or> creation_of s t"
proof (cases "project_spec_changed (obj s)")
  case True
  then show ?thesis using s
    by (simp add: t_def reconcile_project_def handleSpecChangeForCompletedProject_def Let_def read_clock_def)
next
  case False
  let ?o = "project_observe k s"
  obtain r u where f: "add_project_finalizer k ?o = (r, u)" by fastforce
  note u = add_finalizer_frame [OF k f]
  show ?thesis
  proof (cases r)
    case (Some err)
    then show ?thesis using False f u by (simp add: t_def reconcile_project_def)
  next
    case None
    show ?thesis
    proof (cases "om_deletionTimestamp (ghp_meta (obj u)) = None")
      case False2: False
      let ?d = "emit (Event EventNormal ''Deleting'' ''GitHubProject CR deleted (GitHub project not deleted to prevent data loss)'') u"
      obtain r' v where d: "project_update_finalizers k (removeAll githubProjectFinalizerName) ?d = (r', v)" by fastforce
      then have "t = v" using False f None False2 by (simp add: t_def reconcile_project_def reconcileDelete_def Let_def)
      with update_finalizers_frame [OF k d] u show ?thesis by simp
    next
      case True
      then have t: "t = snd (project_processPhase k u)" using False f None by (simp add: t_def reconcile_project_def)
      have ph: "pphase (obj u) = pphase (stored s)" using u(4) None s by simp
      show ?thesis
      proof (cases "pphase (stored s) \<in> {ProjectUnset, ProjectPending}")
        case False
        then have "t = u" using ph by (cases "pphase (stored s)") (simp_all add: t project_processPhase_def checkCreationStatus_def)
        then show ?thesis using u by simp
      next
        case True
        then have "t = snd (processCreation k u)" using ph by (auto simp: t project_processPhase_def)
        moreover have "\<not> has_finalizer (stored s) \<Longrightarrow> ght_observedGeneration (ghp_status (obj u)) = ght_observedGeneration (pstatus s)"
          using u(5) None s by simp
        ultimately show ?thesis using processCreation_end [where k = k and s = u] u(1,2) True by (auto simp: creation_of_def)
      qed
    qed
  qed
qed

section \<open>The life of a project\<close>

record project_world =
  prw_object :: github_project
  prw_effects :: "effect list"

text \<open>
  A user edits metadata (the name of the finalizer included) and specification. That the status is
  reset, which the source suggests for a second attempt, is another event.
\<close>

datatype project_event =
    ProjectReconciled project_env
  | ProjectEdited object_meta project_spec
  | ProjectReset

definition project_step :: "project_env \<Rightarrow> project_world \<Rightarrow> project_world" where
  "project_step k w = (let s = snd (reconcile_project k (fetched (prw_object w))) in
     \<lparr>prw_object = stored s, prw_effects = prw_effects w @ effects s\<rparr>)"

fun project_event_step :: "project_event \<Rightarrow> project_world \<Rightarrow> project_world" where
  "project_event_step (ProjectReconciled k) w = project_step k w"
| "project_event_step (ProjectEdited meta sp) w = w\<lparr>prw_object := (prw_object w)\<lparr>ghp_meta := meta, ghp_spec := sp\<rparr>\<rparr>"
| "project_event_step ProjectReset w = w\<lparr>prw_object := on_project (\<lambda>st. st\<lparr>ght_phase := ProjectPending\<rparr>) (prw_object w)\<rparr>"

fun project_honest :: "project_event \<Rightarrow> bool" where
  "project_honest (ProjectReconciled k) = project_env_ok k"
| "project_honest (ProjectEdited meta sp) = True"
| "project_honest ProjectReset = False"

definition project_edge :: "project_phase \<Rightarrow> project_phase \<Rightarrow> bool" where
  "project_edge p q \<longleftrightarrow> p \<in> {ProjectUnset, ProjectPending} \<and> q \<in> {ProjectCreating, ProjectReady, ProjectFailed}"

definition project_ok :: "project_world \<Rightarrow> bool" where
  "project_ok w \<longleftrightarrow> (let n = created (prw_effects w); ph = pphase (prw_object w) in
     n \<le> 1 \<and> (ph \<in> {ProjectUnset, ProjectPending} \<longrightarrow> n = 0) \<and> (ph = ProjectReady \<longrightarrow> n = 1))"

lemma project_step_end:
  assumes "project_env_ok k"
  shows "ghp_status (prw_object (project_step k w)) = ghp_status (prw_object w)
      \<and> created (prw_effects (project_step k w)) = created (prw_effects w)
    \<or> project_spec_changed (prw_object w) \<and> pphase (prw_object (project_step k w)) = pphase (prw_object w)
      \<and> created (prw_effects (project_step k w)) = created (prw_effects w)
    \<or> (\<exists>t. creation_of (fetched (prw_object w)) t \<and> prw_object (project_step k w) = stored t
        \<and> created (prw_effects (project_step k w)) = created (prw_effects w) + created (effects t))"
  using reconcile_project_end [OF assms, of "fetched (prw_object w)"] by (auto simp: project_step_def Let_def)

lemma project_step_ok:
  assumes "project_honest e" and "project_ok w"
  shows "project_ok (project_event_step e w)
    \<and> (pphase (prw_object (project_event_step e w)) = pphase (prw_object w)
       \<or> project_edge (pphase (prw_object w)) (pphase (prw_object (project_event_step e w))))"
proof (cases e)
  case (ProjectReconciled k)
  then have k: "project_env_ok k" using assms(1) by simp
  let ?x = "prw_object w" and ?y = "prw_object (project_step k w)"
  from project_step_end [OF k, of w] consider
      (same) "pphase ?y = pphase ?x" "created (prw_effects (project_step k w)) = created (prw_effects w)"
    | (creation) t where "creation_of (fetched ?x) t" "?y = stored t"
        "created (prw_effects (project_step k w)) = created (prw_effects w) + created (effects t)" by auto
  then show ?thesis
  proof cases
    case same
    then show ?thesis using assms(2) ProjectReconciled by (simp add: project_ok_def Let_def)
  next
    case creation
    then have "project_edge (pphase ?x) (pphase ?y)" and n: "created (prw_effects w) = 0"
      using assms(2) by (auto simp: creation_of_def project_edge_def project_ok_def Let_def)
    moreover have "created (effects t) \<le> 1" "pphase ?y = ProjectReady \<longrightarrow> created (effects t) = 1"
      "pphase ?y \<notin> {ProjectUnset, ProjectPending}"
      using creation by (auto simp: creation_of_def)
    ultimately show ?thesis using creation(3) ProjectReconciled by (simp add: project_ok_def Let_def)
  qed
qed (use assms in \<open>simp_all add: project_ok_def\<close>)

interpretation prm: phase_machine "\<lambda>w. pphase (prw_object w)" project_event_step project_honest project_ok project_edge
  by unfold_locales (use project_step_ok in blast)+

abbreviation project_run :: "project_event list \<Rightarrow> project_world \<Rightarrow> project_world" where
  "project_run \<equiv> fold project_event_step"

end
