(* ===== verification/WorkItemService.thy ===== *)
theory WorkItemService
  imports AdoAuth
begin

text \<open>
  \<open>internal/services/workitem.go\<close> and \<open>internal/services/workitem_progress.go\<close>: migrating work items
  of Azure DevOps to GitHub issues. The run of \<open>MigrateWorkItemsWithProgress\<close> is a function on a
  trace: every call to GitHub, every record in the tracking database and every progress
  update is an action on it, and what the outside answers may depend on all of them (\<open>wi_env\<close>).

  Parameters: Azure DevOps, GitHub, the secrets of the cluster, the tracking database, the clock,
  the end of the context while waiting, and \<open>float64\<close> rounding. Not modelled: waiting, what is
  printed, \<open>updateRelationships\<close> (a stub that does nothing) and the map of issue numbers that only
  it reads. \<open>MigrateWorkItems\<close>, \<open>MigrateWorkItemsFromADO\<close> and the request validation are called by
  nothing and are left out.
\<close>

section \<open>Times\<close>

text \<open>A time with its zone, and the calendar date of a day since 1970-01-01.\<close>

record go_time =
  gt_instant :: instant
  gt_offset :: int
  gt_zone :: string

definition civil_date :: "int \<Rightarrow> int \<times> int \<times> int" where
  "civil_date days =
     (let z = days + 719468; era = z div 146097; doe = z - era * 146097;
          yoe = (doe - doe div 1460 + doe div 36524 - doe div 146096) div 365;
          doy = doe - (365 * yoe + yoe div 4 - yoe div 100); mp = (5 * doy + 2) div 153;
          m = (if mp < 10 then mp + 3 else mp - 9)
      in (yoe + era * 400 + (if m \<le> 2 then 1 else 0), m, doy - (153 * mp + 2) div 5 + 1))"

definition pad_int :: "nat \<Rightarrow> int \<Rightarrow> string" where
  "pad_int w n = (let ds = digits_of (nat \<bar>n\<bar>); padded = replicate (w - length ds) CHR ''0'' @ ds in
     if n < 0 then CHR ''-'' # padded else padded)"

definition local_seconds :: "go_time \<Rightarrow> int" where
  "local_seconds t = gt_instant t div second + gt_offset t"

definition go_year :: "go_time \<Rightarrow> int" where
  "go_year t = fst (civil_date (local_seconds t div 86400))"

text \<open>\<open>Format("2006-01-02")\<close> and \<open>Format("2006-01-02 15:04:05")\<close>.\<close>

definition format_date :: "go_time \<Rightarrow> string" where
  "format_date t = (case civil_date (local_seconds t div 86400) of (y, m, d) \<Rightarrow>
     pad_int 4 y @ ''-'' @ pad_int 2 m @ ''-'' @ pad_int 2 d)"

definition format_time :: "go_time \<Rightarrow> string" where
  "format_time t = (let s = local_seconds t mod 86400 in
     format_date t @ '' '' @ pad_int 2 (s div 3600) @ '':'' @ pad_int 2 (s div 60 mod 60) @ '':'' @ pad_int 2 (s mod 60))"

lemma civil_date_samples:
  "civil_date 0 = (1970, 1, 1)" "civil_date 19782 = (2024, 2, 29)" "civil_date (- 1) = (1969, 12, 31)"
  by code_simp+

section \<open>Types\<close>

record wi_settings =
  wis_typeMapping :: string_map
  wis_stateMapping :: string_map
  wis_includeHistory :: "bool option"
  wis_includeAttachments :: "bool option"
  wis_preserveRelationships :: "bool option"
  wis_includeTags :: "bool option"
  wis_combineComments :: "bool option"
  wis_batchSize :: int
  wis_batchDelaySeconds :: int
  wis_perItemDelayMs :: int
  wis_timeoutMinutes :: int
  wis_progressUpdateIntervalSeconds :: int
  wis_fieldMapping :: string_map

record wi_filters =
  wif_types :: "string list"
  wif_states :: "string list"
  wif_dateRange :: "(go_time option \<times> go_time option) option"
  wif_areaPaths :: "string list"
  wif_iterationPaths :: "string list"
  wif_tags :: "string list"
  wif_assignedTo :: "string list"
  wif_wiqlQuery :: string

text \<open>What the status of a WorkItemMigration keeps of a migrated item, and what the service returns.\<close>

record migrated_work_item =
  mwi_sourceID :: int
  mwi_sourceType :: string
  mwi_sourceTitle :: string
  mwi_targetIssueNumber :: int
  mwi_targetURL :: string
  mwi_migratedAt :: instant

record service_work_item = migrated_work_item +
  mwi_sourceState :: string

datatype field_value = FieldText string | FieldPointer "string option" | FieldOther string

record work_item =
  wi_id :: "int option"
  wi_fields :: "(string \<times> field_value) list option"
  wi_relations :: "(string option \<times> string option) list option" \<comment> \<open>kind and URL\<close>

record wi_comment =
  wc_text :: "string option"
  wc_createdBy :: "string option"
  wc_createdDate :: "go_time option"
  wc_modifiedBy :: "string option"
  wc_modifiedDate :: "go_time option"

datatype github_auth_service = PatAuth string | AppAuth int int string

record wi_request =
  wr_sourceOrganization :: string
  wr_sourceProject :: string
  wr_targetOwner :: string
  wr_targetRepository :: string
  wr_githubAuth :: github_auth_service
  wr_typeMapping :: string_map
  wr_stateMapping :: string_map
  wr_includeHistory :: bool
  wr_includeAttachments :: bool
  wr_preserveRelationships :: bool
  wr_includeTags :: bool
  wr_combineComments :: bool
  wr_batchSize :: int
  wr_adoToken :: string
  wr_githubToken :: string
  wr_filters :: wi_filters

record progress_update =
  pu_currentStep :: string
  pu_itemsDiscovered :: int
  pu_itemsMigrated :: int
  pu_itemsFailed :: int
  pu_itemsSkipped :: int
  pu_percentage :: int
  pu_currentBatch :: int
  pu_totalBatches :: int

section \<open>The outside\<close>

datatype wi_action =
    CreateIssue string string string string "string list" \<comment> \<open>owner, repository, title, body, labels\<close>
  | CloseIssue string string int
  | CreateComment string string int string
  | Progress progress_update
  | DbRateLimit string string string \<comment> \<open>\<open>RecordRateLimitEvent\<close>: migration, service, kind; the times are not kept\<close>
  | DbFailure string int string
  | DbSuccess string int string string int string
  | DbProgress string int int int
  | DbComplete string string string

record wi_env =
  we_secret :: "string \<Rightarrow> string \<Rightarrow> go_error + (string \<rightharpoonup> string)"
  we_app_client :: "wi_action list \<Rightarrow> int \<Rightarrow> int \<Rightarrow> string \<Rightarrow> go_error option"
  we_repo_exists :: "wi_action list \<Rightarrow> string \<Rightarrow> string \<Rightarrow> string \<Rightarrow> go_error + bool"
  we_ado_client :: "go_error option"
  we_wiql :: "string \<Rightarrow> string \<Rightarrow> go_error + int option list option"
  we_items :: "int list \<Rightarrow> go_error + work_item list"
  we_comments :: "wi_action list \<Rightarrow> int \<Rightarrow> go_error + wi_comment list"
  we_create_issue :: "wi_action list \<Rightarrow> wi_action \<Rightarrow> go_error + int \<times> string"
  we_db :: "string \<Rightarrow> int \<Rightarrow> string option" \<comment> \<open>name and total to the id of the tracked migration\<close>
  we_is_migrated :: "wi_action list \<Rightarrow> string \<Rightarrow> int \<Rightarrow> go_error + int option option"
  we_now :: "wi_action list \<Rightarrow> go_time"
  we_wait :: "wi_action list \<Rightarrow> go_error option" \<comment> \<open>the context ended during a wait\<close>
  we_rnd :: "rat \<Rightarrow> rat"

section \<open>Defaults and mappings\<close>

definition getDefaultTypeMapping :: string_map where
  "getDefaultTypeMapping = [(''Epic'', ''epic''), (''Feature'', ''feature''), (''User Story'', ''enhancement''),
     (''Task'', ''task''), (''Bug'', ''bug''), (''Issue'', ''issue''), (''Test Case'', ''test'')]"

definition getDefaultStateMapping :: string_map where
  "getDefaultStateMapping = [(''New'', ''open''), (''Active'', ''open''), (''Resolved'', ''closed''),
     (''Closed'', ''closed''), (''Removed'', ''closed'')]"

definition or_true :: "bool option \<Rightarrow> bool option" where
  "or_true b = (case b of None \<Rightarrow> Some True | Some x \<Rightarrow> Some x)"

definition applyDefaultsWithOverrides :: "wi_settings \<Rightarrow> wi_settings" where
  "applyDefaultsWithOverrides s = s\<lparr>
     wis_typeMapping := (if wis_typeMapping s = [] then getDefaultTypeMapping else wis_typeMapping s),
     wis_stateMapping := (if wis_stateMapping s = [] then getDefaultStateMapping else wis_stateMapping s),
     wis_batchSize := (if wis_batchSize s = 0 then 80 else wis_batchSize s),
     wis_batchDelaySeconds := (if wis_batchDelaySeconds s = 0 then 60 else wis_batchDelaySeconds s),
     wis_timeoutMinutes := (if wis_timeoutMinutes s = 0 then 360 else wis_timeoutMinutes s),
     wis_progressUpdateIntervalSeconds :=
       (if wis_progressUpdateIntervalSeconds s = 0 then 30 else wis_progressUpdateIntervalSeconds s),
     wis_includeHistory := or_true (wis_includeHistory s),
     wis_includeAttachments := or_true (wis_includeAttachments s),
     wis_preserveRelationships := or_true (wis_preserveRelationships s),
     wis_includeTags := or_true (wis_includeTags s),
     wis_combineComments := or_true (wis_combineComments s)\<rparr>"

definition getWorkItemField :: "work_item \<Rightarrow> string \<Rightarrow> string" where
  "getWorkItemField wi fieldName = (case wi_fields wi of
     None \<Rightarrow> []
   | Some fs \<Rightarrow> (case map_of fs fieldName of
       None \<Rightarrow> []
     | Some (FieldText v) \<Rightarrow> v
     | Some (FieldPointer v) \<Rightarrow> (case v of Some x \<Rightarrow> x | None \<Rightarrow> [])
     | Some (FieldOther v) \<Rightarrow> v))"

text \<open>A mapping that is not set is \<open>[]\<close>.\<close>

definition mapTypeToLabels :: "string \<Rightarrow> string_map \<Rightarrow> string list" where
  "mapTypeToLabels workItemType mapping =
     (let mapping = (if mapping = [] then getDefaultTypeMapping else mapping) in
      [case map_of mapping workItemType of Some label \<Rightarrow> label | None \<Rightarrow> ''user-story''])"

definition equal_fold :: "string \<Rightarrow> string \<Rightarrow> bool" where
  "equal_fold a b \<longleftrightarrow> to_lower a = to_lower b"

definition mapState :: "string \<Rightarrow> string_map \<Rightarrow> string" where
  "mapState adoState mapping =
     (let mapping = (if mapping = [] then getDefaultStateMapping else mapping) in
      case map_of mapping adoState of
        Some githubState \<Rightarrow> githubState
      | None \<Rightarrow>
          if equal_fold adoState ''Closed'' \<or> equal_fold adoState ''Resolved'' \<or> equal_fold adoState ''Removed''
          then ''closed'' else ''open'')"

text \<open>\<open>strings.Split(tags, ";")\<close>, trimmed, without empty ones.\<close>

definition tag_labels :: "string \<Rightarrow> string list" where
  "tag_labels tags = filter (\<lambda>t. t \<noteq> []) (map (trim is_space) (split_on CHR '';'' tags))"

definition issue_labels :: "wi_request \<Rightarrow> work_item \<Rightarrow> string list" where
  "issue_labels r wi =
     (let tags = getWorkItemField wi ''System.Tags'' in
      mapTypeToLabels (getWorkItemField wi ''System.WorkItemType'') (wr_typeMapping r)
      @ (if wr_includeTags r \<and> tags \<noteq> [] then tag_labels tags else []))"

section \<open>The query\<close>

definition quoted_in :: "string \<Rightarrow> string list \<Rightarrow> string" where
  "quoted_in field values = (if values = [] then []
     else '' AND ['' @ field @ ''] IN ('' @ join '', '' (map (\<lambda>v. [CHR 0x27] @ v @ [CHR 0x27]) values) @ '')'')"

definition date_filter :: "string \<Rightarrow> go_time option \<Rightarrow> string" where
  "date_filter op t = (case t of None \<Rightarrow> []
     | Some t \<Rightarrow> '' AND [System.CreatedDate] '' @ op @ '' '' @ [CHR 0x27] @ format_date t @ [CHR 0x27])"

definition buildWIQLQuery :: "wi_request \<Rightarrow> string" where
  "buildWIQLQuery r = (let f = wr_filters r in
     if wif_wiqlQuery f \<noteq> [] then wif_wiqlQuery f
     else ''SELECT [System.Id], [System.Title], [System.WorkItemType], [System.State], [System.AssignedTo], [System.Description], [System.Tags] FROM WorkItems WHERE [System.TeamProject] = @project''
       @ quoted_in ''System.WorkItemType'' (wif_types f)
       @ quoted_in ''System.State'' (wif_states f)
       @ quoted_in ''System.AreaPath'' (wif_areaPaths f)
       @ (case wif_dateRange f of None \<Rightarrow> []
          | Some (start, finish) \<Rightarrow> date_filter ''>='' start @ date_filter ''<='' finish)
       @ '' ORDER BY [System.Id]'')"

definition too_many :: "go_error \<Rightarrow> go_error" where
  "too_many err = PlainError (''query returned too many work items (Azure DevOps limit is 20,000). Please add filters to narrow down your query:'' @ newline #
     ''  - Filter by work item type (e.g., Epic, Feature, User Story, Bug)'' @ newline #
     ''  - Filter by state (e.g., Active, New, Resolved)'' @ newline #
     ''  - Filter by area path or iteration path'' @ newline #
     ''  - Filter by date range (e.g., items created in last year)'' @ newline #
     ''  - Filter by tags'' @ newline #
     ''Original error: '' @ err_text err)"

definition query_error :: "go_error \<Rightarrow> go_error" where
  "query_error err =
     (if contains_str (err_text err) ''VS402337'' \<or> contains_str (err_text err) ''size limit'' \<or> contains_str (err_text err) ''20000''
      then too_many err else wrap_err ''failed to execute WIQL query'' err)"

text \<open>The details of the items, fetched in batches of 195; \<open>i\<close> is the number already asked for.\<close>

fun fetch_items :: "wi_env \<Rightarrow> int \<Rightarrow> int list list \<Rightarrow> go_error + work_item list" where
  "fetch_items e i [] = Inr []"
| "fetch_items e i (ids # rest) = (case we_items e ids of
     Inl err \<Rightarrow> Inl (wrap_err (''failed to get work item details for batch '' @ fmt_d (i + 1) @ ''-'' @ fmt_d (i + int (length ids))) err)
   | Inr items \<Rightarrow> map_sum id (\<lambda>more. items @ more) (fetch_items e (i + int (length ids)) rest))"

definition queryWorkItems :: "wi_env \<Rightarrow> string \<Rightarrow> string \<Rightarrow> go_error + work_item list" where
  "queryWorkItems e project wiql = (case we_ado_client e of
     Some err \<Rightarrow> Inl (wrap_err ''failed to create work item tracking client'' err)
   | None \<Rightarrow> (case we_wiql e project wiql of
       Inl err \<Rightarrow> Inl (query_error err)
     | Inr refs \<Rightarrow> fetch_items e 0 (chunks 195 (case refs of None \<Rightarrow> [] | Some rs \<Rightarrow> List.map_filter id rs))))"

section \<open>One work item\<close>

definition detail_line :: "string \<Rightarrow> string \<Rightarrow> string" where
  "detail_line name value = (if value = [] then [] else ''- **'' @ name @ '':** '' @ value @ [newline])"

definition buildIssueBody :: "go_time \<Rightarrow> int \<Rightarrow> work_item \<Rightarrow> string" where
  "buildIssueBody now wid wi =
     (let description = getWorkItemField wi ''System.Description'' in
      ''**Migrated from Azure DevOps Work Item #'' @ fmt_d wid @ ''**'' @ [newline, newline]
      @ (if description \<noteq> [] then description @ [newline, newline] else [])
      @ ''---'' @ [newline, newline]
      @ ''**Original Work Item Details:**'' @ [newline]
      @ ''- **ID:** '' @ fmt_d wid @ [newline]
      @ ''- **Type:** '' @ getWorkItemField wi ''System.WorkItemType'' @ [newline]
      @ ''- **State:** '' @ getWorkItemField wi ''System.State'' @ [newline]
      @ detail_line ''Assigned To'' (getWorkItemField wi ''System.AssignedTo'')
      @ detail_line ''Area Path'' (getWorkItemField wi ''System.AreaPath'')
      @ detail_line ''Iteration'' (getWorkItemField wi ''System.IterationPath'')
      @ [newline] @ ''_Migrated on '' @ format_time now @ ''_'' @ [newline])"

definition extractCommentMetadata :: "wi_comment \<Rightarrow> string" where
  "extractCommentMetadata c =
     (let author = (case wc_createdBy c of None \<Rightarrow> [] | Some a \<Rightarrow> [''**Author:** '' @ a]);
          date = (case wc_createdDate c of None \<Rightarrow> []
             | Some t \<Rightarrow> if go_year t > 1 then [''**Date:** '' @ format_time t @ '' '' @ gt_zone t] else []);
          modified = (case (wc_modifiedBy c, wc_modifiedDate c) of
               (Some m, Some t) \<Rightarrow> if go_year t > 1 \<and> wc_createdBy c \<noteq> Some m
                 then [''**Modified by:** '' @ m @ '' on '' @ format_time t @ '' '' @ gt_zone t] else []
             | _ \<Rightarrow> []);
          metadata = author @ date @ modified
      in if metadata = [] then [] else ''_'' @ join '' | '' metadata @ ''_'')"

text \<open>One comment in the combined comment; \<open>i\<close> is its number.\<close>

definition comment_section :: "nat \<times> wi_comment \<Rightarrow> string" where
  "comment_section = (\<lambda>(i, c). case wc_text c of
     None \<Rightarrow> []
   | Some t \<Rightarrow>
       if t = [] then []
       else ''### Comment #'' @ fmt_d (int i) @ [newline, newline]
         @ (let metadata = extractCommentMetadata c in if metadata \<noteq> [] then metadata @ [newline, newline] else [])
         @ t @ [newline, newline] @ ''---'' @ [newline, newline])"

definition combined_body :: "wi_comment list \<Rightarrow> string" where
  "combined_body cs = ''## '' @ [CHR 0xF0, CHR 0x9F, CHR 0x92, CHR 0xAC] @ '' Comment History from Azure DevOps'' @ [newline, newline]
     @ ''**'' @ fmt_d (int (length cs)) @ '' comment(s)** migrated from the original work item:'' @ [newline, newline]
     @ ''---'' @ [newline, newline] @ concat (map comment_section (enumerate 1 cs))"

definition migrateComments :: "wi_env \<Rightarrow> wi_request \<Rightarrow> int \<Rightarrow> int \<Rightarrow> wi_action list \<Rightarrow> wi_action list" where
  "migrateComments e r wid issue tr = (case we_comments e tr wid of
     Inl err \<Rightarrow> tr
   | Inr cs \<Rightarrow>
       if cs = [] then tr
       else if wr_combineComments r
       then tr @ [CreateComment (wr_targetOwner r) (wr_targetRepository r) issue (combined_body cs)]
       else tr @ map (\<lambda>t. CreateComment (wr_targetOwner r) (wr_targetRepository r) issue
                  (''**Migrated from Azure DevOps**'' @ [newline, newline] @ t)) (List.map_filter wc_text cs))"

definition attachment_urls :: "work_item \<Rightarrow> string list" where
  "attachment_urls wi = (case wi_relations wi of None \<Rightarrow> []
     | Some rels \<Rightarrow> List.map_filter (\<lambda>(rel, url). if rel = Some ''AttachedFile'' then url else None) rels)"

definition migrateAttachments :: "wi_request \<Rightarrow> work_item \<Rightarrow> int \<Rightarrow> wi_action list \<Rightarrow> wi_action list" where
  "migrateAttachments r wi issue tr =
     (let urls = attachment_urls wi in
      if urls = [] then tr
      else tr @ [CreateComment (wr_targetOwner r) (wr_targetRepository r) issue
        (''**Attachments from Azure DevOps:**'' @ [newline, newline]
         @ concat (map (\<lambda>(i, url). fmt_d (int i) @ ''. '' @ url @ [newline]) (enumerate 1 urls)))])"

definition migrateWorkItem ::
  "wi_env \<Rightarrow> wi_request \<Rightarrow> int \<Rightarrow> work_item \<Rightarrow> wi_action list \<Rightarrow> (go_error + service_work_item) \<times> wi_action list" where
  "migrateWorkItem e r wid wi tr =
     (let title = getWorkItemField wi ''System.Title''; state = getWorkItemField wi ''System.State'';
          create = CreateIssue (wr_targetOwner r) (wr_targetRepository r) title (buildIssueBody (we_now e tr) wid wi)
            (issue_labels r wi);
          tr' = tr @ [create] in
      case we_create_issue e tr create of
        Inl err \<Rightarrow> (Inl (wrap_err ''failed to create GitHub issue'' err), tr')
      | Inr (number, url) \<Rightarrow>
          (let item = \<lparr>mwi_sourceID = wid, mwi_sourceType = getWorkItemField wi ''System.WorkItemType'',
                 mwi_sourceTitle = title, mwi_targetIssueNumber = number, mwi_targetURL = url,
                 mwi_migratedAt = gt_instant (we_now e tr'), mwi_sourceState = state\<rparr>;
               tr = (if mapState state (wr_stateMapping r) = ''closed''
                 then tr' @ [CloseIssue (wr_targetOwner r) (wr_targetRepository r) number] else tr');
               tr = (if wr_includeHistory r then migrateComments e r wid number tr else tr);
               tr = (if wr_includeAttachments r then migrateAttachments r wi number tr else tr)
           in (Inr item, tr)))"

section \<open>The run\<close>

definition isRateLimitError :: "go_error \<Rightarrow> bool" where
  "isRateLimitError err = (let s = to_lower (err_text err) in
     contains_str s ''403'' \<and> contains_str s ''rate limit'' \<or> contains_str s ''secondary rate limit''
     \<or> contains_str s ''you have exceeded'' \<or> contains_str s ''api rate limit exceeded'')"

record wi_run =
  wu_trace :: "wi_action list"
  wu_result :: "service_work_item list"
  wu_migrated :: int
  wu_failed :: int
  wu_skipped :: int

definition log_action :: "wi_action \<Rightarrow> wi_run \<Rightarrow> wi_run" where
  "log_action a s = s\<lparr>wu_trace := wu_trace s @ [a]\<rparr>"

definition in_db :: "string option \<Rightarrow> (string \<Rightarrow> wi_action list) \<Rightarrow> wi_run \<Rightarrow> wi_run" where
  "in_db db f s = (case db of None \<Rightarrow> s | Some m \<Rightarrow> s\<lparr>wu_trace := wu_trace s @ f m\<rparr>)"

definition try_item :: "wi_env \<Rightarrow> wi_request \<Rightarrow> int \<Rightarrow> work_item \<Rightarrow> wi_run \<Rightarrow> (go_error + service_work_item) \<times> wi_run" where
  "try_item e r wid wi s = (case migrateWorkItem e r wid wi (wu_trace s) of (x, tr) \<Rightarrow> (x, s\<lparr>wu_trace := tr\<rparr>))"

definition item_failed :: "string option \<Rightarrow> int \<Rightarrow> go_error \<Rightarrow> wi_run \<Rightarrow> wi_run" where
  "item_failed db wid err s =
     in_db db (\<lambda>m. [DbFailure m wid (err_text err)]) (s\<lparr>wu_failed := wu_failed s + 1\<rparr>)"

definition item_migrated :: "string option \<Rightarrow> int \<Rightarrow> service_work_item \<Rightarrow> wi_run \<Rightarrow> wi_run" where
  "item_migrated db wid item s =
     (let s = s\<lparr>wu_result := wu_result s @ [item], wu_migrated := wu_migrated s + 1\<rparr> in
      in_db db (\<lambda>m. [DbSuccess m wid (mwi_sourceType item) (mwi_sourceTitle item) (mwi_targetIssueNumber item) (mwi_targetURL item),
        DbProgress m (wu_migrated s) (wu_failed s) (wu_skipped s)]) s)"

text \<open>A rate-limited item is tried a second time after a wait.\<close>

definition work_on_item :: "wi_env \<Rightarrow> wi_request \<Rightarrow> string option \<Rightarrow> int \<Rightarrow> work_item \<Rightarrow> wi_run \<Rightarrow> wi_run" where
  "work_on_item e r db wid wi s = (case try_item e r wid wi s of
     (Inr item, s) \<Rightarrow> item_migrated db wid item s
   | (Inl err, s) \<Rightarrow>
       if isRateLimitError err
       then (case try_item e r wid wi (in_db db (\<lambda>m. [DbRateLimit m ''github'' ''secondary'']) s) of
           (Inr item, s) \<Rightarrow> item_migrated db wid item s
         | (Inl err, s) \<Rightarrow> item_failed db wid err s)
       else item_failed db wid err s)"

text \<open>
  One item of a batch; \<open>None\<close> where the code dereferences a nil pointer, on a row of the
  tracking database that records a success without an issue number.
\<close>

definition process_item :: "wi_env \<Rightarrow> wi_request \<Rightarrow> string option \<Rightarrow> work_item \<Rightarrow> wi_run \<Rightarrow> wi_run option" where
  "process_item e r db wi s = (case wi_id wi of
     None \<Rightarrow> Some s
   | Some wid \<Rightarrow> (case db of
       None \<Rightarrow> Some (work_on_item e r db wid wi s)
     | Some m \<Rightarrow> (case we_is_migrated e (wu_trace s) m wid of
         Inl err \<Rightarrow> Some (work_on_item e r db wid wi s)
       | Inr None \<Rightarrow> Some (work_on_item e r db wid wi s)
       | Inr (Some None) \<Rightarrow> None
       | Inr (Some (Some issue)) \<Rightarrow> Some (s\<lparr>wu_skipped := wu_skipped s + 1\<rparr>))))"

fun process_items :: "wi_env \<Rightarrow> wi_request \<Rightarrow> string option \<Rightarrow> work_item list \<Rightarrow> wi_run \<Rightarrow> wi_run option" where
  "process_items e r db [] s = Some s"
| "process_items e r db (wi # wis) s =
     (case process_item e r db wi s of None \<Rightarrow> None | Some s \<Rightarrow> process_items e r db wis s)"

definition getGitHubClient_items :: "wi_env \<Rightarrow> wi_request \<Rightarrow> wi_action list \<Rightarrow> go_error option" where
  "getGitHubClient_items e r tr = (case wr_githubAuth r of
     AppAuth appID installationID privateKey \<Rightarrow>
       if appID = 0 \<or> installationID = 0 \<or> privateKey = []
       then Some (PlainError ''GitHub App authentication incomplete: appID, installationID, and privateKey required'')
       else we_app_client e tr appID installationID privateKey
   | PatAuth _ \<Rightarrow>
       if wr_githubToken r = [] then Some (PlainError ''GitHub authentication is required (either App or PAT)'') else None)"

text \<open>\<open>15 + int(float64(i)/float64(n)*70)\<close>.\<close>

definition batch_percentage :: "wi_env \<Rightarrow> int \<Rightarrow> int \<Rightarrow> int" where
  "batch_percentage e i n = 15 + \<lfloor>we_rnd e (we_rnd e (of_int i / of_int n) * 70)\<rfloor>"

definition send_progress ::
  "string \<Rightarrow> int \<Rightarrow> int \<Rightarrow> int \<Rightarrow> int \<Rightarrow> wi_run \<Rightarrow> wi_run" where
  "send_progress step n percentage batch totalBatches s = log_action (Progress
     \<lparr>pu_currentStep = step, pu_itemsDiscovered = n, pu_itemsMigrated = wu_migrated s, pu_itemsFailed = wu_failed s,
      pu_itemsSkipped = wu_skipped s, pu_percentage = percentage, pu_currentBatch = batch, pu_totalBatches = totalBatches\<rparr>) s"

text \<open>Batch \<open>b\<close> of \<open>totalBatches\<close> begins after \<open>i\<close> items and ends after \<open>j\<close>, of \<open>n\<close> discovered ones.\<close>

definition start_batch :: "wi_env \<Rightarrow> int \<Rightarrow> int \<Rightarrow> int \<Rightarrow> int \<Rightarrow> wi_run \<Rightarrow> wi_run" where
  "start_batch e n totalBatches b i = send_progress (''Migrating Batch '' @ fmt_d b @ ''/'' @ fmt_d totalBatches)
     n (batch_percentage e i n) b totalBatches"

definition end_batch :: "wi_env \<Rightarrow> int \<Rightarrow> int \<Rightarrow> int \<Rightarrow> int \<Rightarrow> wi_run \<Rightarrow> wi_run" where
  "end_batch e n totalBatches b j = send_progress (''Completed Batch '' @ fmt_d b @ ''/'' @ fmt_d totalBatches)
     n (batch_percentage e j n) b totalBatches"

text \<open>The remaining batches; \<open>b\<close> are behind, with \<open>i\<close> items.\<close>

fun run_batches ::
  "wi_env \<Rightarrow> wi_request \<Rightarrow> string option \<Rightarrow> int \<Rightarrow> int \<Rightarrow> int \<Rightarrow> int \<Rightarrow> work_item list list \<Rightarrow> wi_run
   \<Rightarrow> (go_error option \<times> wi_run) option" where
  "run_batches e r db n totalBatches b i [] s = Some (None, s)"
| "run_batches e r db n totalBatches b i (batch # rest) s =
     (let s = start_batch e n totalBatches (b + 1) i s in
      case getGitHubClient_items e r (wu_trace s) of
        Some err \<Rightarrow> Some (Some (wrap_err (''failed to refresh GitHub client for batch '' @ fmt_d (b + 1)) err), s)
      | None \<Rightarrow> (case process_items e r db batch s of
          None \<Rightarrow> None
        | Some s \<Rightarrow>
            (let s = end_batch e n totalBatches (b + 1) (i + int (length batch)) s in
             if rest = [] then Some (None, s)
             else (case we_wait e (wu_trace s) of
               Some err \<Rightarrow> Some (Some err, s)
             | None \<Rightarrow> run_batches e r db n totalBatches (b + 1) (i + int (length batch)) rest s))))"

text \<open>What is left to do when the items of an earlier run are known.\<close>

definition remaining_items :: "migrated_work_item list \<Rightarrow> work_item list \<Rightarrow> work_item list" where
  "remaining_items alreadyMigrated wis =
     (if alreadyMigrated = [] then wis
      else filter (\<lambda>wi. case wi_id wi of None \<Rightarrow> False | Some i \<Rightarrow> i \<notin> mwi_sourceID ` set alreadyMigrated) wis)"

definition from_status :: "migrated_work_item \<Rightarrow> service_work_item" where
  "from_status m = migrated_work_item.extend m \<lparr>mwi_sourceState = []\<rparr>"

text \<open>Steps 11 to 13, after the batches.\<close>

definition final_status :: "int \<Rightarrow> int \<Rightarrow> int \<Rightarrow> string \<times> string" where
  "final_status n migrated failed =
     (if failed > 0 \<and> migrated = 0 then (''failed'', ''All '' @ fmt_d failed @ '' items failed to migrate'')
      else if failed > 0 then (''partial'', fmt_d failed @ '' out of '' @ fmt_d n @ '' items failed'')
      else (''completed'', []))"

definition finish_run :: "wi_request \<Rightarrow> string option \<Rightarrow> int \<Rightarrow> int \<Rightarrow> wi_run \<Rightarrow> wi_run" where
  "finish_run r db n totalBatches s =
     (let s = (if wr_preserveRelationships r \<and> wu_result s \<noteq> []
            then send_progress ''Updating Relationships'' n 90 totalBatches totalBatches s else s);
          (status, message) = final_status n (wu_migrated s) (wu_failed s);
          s = in_db db (\<lambda>m. [DbComplete m status message]) s
      in send_progress ''Migration Complete'' n 100 totalBatches totalBatches s)"

definition effective_batch_size :: "wi_request \<Rightarrow> int" where
  "effective_batch_size r = (if wr_batchSize r \<le> 0 then 10 else wr_batchSize r)"

definition tracking :: "wi_env \<Rightarrow> wi_request \<Rightarrow> int \<Rightarrow> string option" where
  "tracking e r n = (case we_db e (wr_sourceProject r @ ''-'' @ wr_targetRepository r) n of
     Some m \<Rightarrow> if m = [] then None else Some m
   | None \<Rightarrow> None)"

text \<open>Steps 9 to 13: \<open>n\<close> items were discovered, \<open>wis\<close> are left.\<close>

definition run_items ::
  "wi_env \<Rightarrow> wi_request \<Rightarrow> migrated_work_item list \<Rightarrow> int \<Rightarrow> work_item list \<Rightarrow> wi_action list
   \<Rightarrow> (go_error option \<times> wi_run) option" where
  "run_items e r alreadyMigrated n wis tr =
     (let db = tracking e r n;
          batchSize = effective_batch_size r;
          totalBatches = go_div (wrap64 (n + batchSize - 1)) batchSize;
          s = \<lparr>wu_trace = tr, wu_result = map from_status alreadyMigrated,
               wu_migrated = int (length alreadyMigrated), wu_failed = 0, wu_skipped = 0\<rparr>
      in case run_batches e r db n totalBatches 0 0 (chunks (nat batchSize) wis) s of
           None \<Rightarrow> None
         | Some (Some err, s) \<Rightarrow> Some (Some err, s)
         | Some (None, s) \<Rightarrow> Some (None, finish_run r db n totalBatches s))"

definition progress_of :: "string \<Rightarrow> int \<Rightarrow> int \<Rightarrow> int \<Rightarrow> wi_action" where
  "progress_of step n migrated percentage = Progress
     \<lparr>pu_currentStep = step, pu_itemsDiscovered = n, pu_itemsMigrated = migrated, pu_itemsFailed = 0,
      pu_itemsSkipped = 0, pu_percentage = percentage, pu_currentBatch = 0, pu_totalBatches = 0\<rparr>"

text \<open>
  The items returned, with an error or not, and the trace; \<open>None\<close> when the code panics. An
  error before the batches returns no items.
\<close>

type_synonym wi_outcome = "(go_error option \<times> service_work_item list \<times> wi_action list) option"

definition wi_stop :: "go_error \<Rightarrow> wi_action list \<Rightarrow> wi_outcome" where
  "wi_stop err tr = Some (Some err, [], tr)"

definition discover_and_run ::
  "wi_env \<Rightarrow> wi_request \<Rightarrow> migrated_work_item list \<Rightarrow> wi_action list \<Rightarrow> wi_outcome" where
  "discover_and_run e r alreadyMigrated tr =
     (let tr = tr @ [progress_of ''Discovering Work Items'' 0 0 10] in
      case queryWorkItems e (wr_sourceProject r) (buildWIQLQuery r) of
        Inl err \<Rightarrow> wi_stop (wrap_err ''failed to query work items'' err) tr
      | Inr wis \<Rightarrow>
          (let n = int (length wis);
               tr = tr @ [progress_of ''Work Items Discovered'' n (int (length alreadyMigrated)) 15]
           in if n = 0
              then Some (None, [], tr @ [progress_of ''Completed - No Items Found'' 0 0 100])
              else map_option (\<lambda>(err, s). (err, wu_result s, wu_trace s))
                     (run_items e r alreadyMigrated n (remaining_items alreadyMigrated wis) tr)))"

definition migrateWorkItemsWithProgressInternal ::
  "wi_env \<Rightarrow> wi_request \<Rightarrow> migrated_work_item list \<Rightarrow> wi_action list \<Rightarrow> wi_outcome" where
  "migrateWorkItemsWithProgressInternal e r alreadyMigrated tr =
     (let tr = tr @ [progress_of ''Connecting to Azure DevOps'' 0 0 0] in
      if wr_adoToken r = [] then wi_stop (PlainError ''Azure DevOps token is required'') tr
      else (let tr = tr @ [progress_of ''Connecting to GitHub'' 0 0 5] in
      case getGitHubClient_items e r tr of
        Some err \<Rightarrow> wi_stop (wrap_err ''failed to connect to GitHub'' err) tr
      | None \<Rightarrow>
          if wr_targetRepository r = [] then wi_stop (PlainError ''target repository is required'') tr
          else (case we_repo_exists e tr (wr_githubToken r) (wr_targetOwner r) (wr_targetRepository r) of
            Inl err \<Rightarrow> wi_stop (wrap_err ''failed to check repository'' err) tr
          | Inr found \<Rightarrow>
              if \<not> found
              then wi_stop (PlainError (''repository '' @ wr_targetOwner r @ ''/'' @ wr_targetRepository r @ '' does not exist'')) tr
              else discover_and_run e r alreadyMigrated tr)))"

section \<open>The request\<close>

definition wi_getSecretValue :: "wi_env \<Rightarrow> string \<Rightarrow> secret_ref \<Rightarrow> go_error + string" where
  "wi_getSecretValue e namespace ref = (case we_secret e namespace (sr_name ref) of
     Inl err \<Rightarrow> Inl (wrap_err (''failed to get secret '' @ sr_name ref) err)
   | Inr entries \<Rightarrow> (case entries (sr_key ref) of
       None \<Rightarrow> Inl (PlainError (''key '' @ sr_key ref @ '' not found in secret '' @ sr_name ref))
     | Some v \<Rightarrow> Inr v))"

definition service_auth ::
  "wi_env \<Rightarrow> string \<Rightarrow> string \<Rightarrow> github_auth_config \<Rightarrow> go_error + github_auth_service" where
  "service_auth e namespace githubToken auth = (case gh_appAuth auth of
     None \<Rightarrow> Inr (PatAuth githubToken)
   | Some app \<Rightarrow>
       sum_bind (map_sum (wrap_err ''failed to read GitHub App ID'') id (wi_getSecretValue e namespace (app_appIdRef app))) (\<lambda>a.
       sum_bind (map_sum (wrap_err ''failed to read GitHub Installation ID'') id (wi_getSecretValue e namespace (app_installationIdRef app))) (\<lambda>b.
       sum_bind (map_sum (wrap_err ''failed to read GitHub App private key'') id (wi_getSecretValue e namespace (app_privateKeyRef app))) (\<lambda>key.
       sum_bind (parse_id ''App ID'' a) (\<lambda>i.
       sum_bind (parse_id ''Installation ID'' b) (\<lambda>j.
       Inr (AppAuth i j key)))))))"

definition is_true :: "bool option \<Rightarrow> bool" where
  "is_true b \<longleftrightarrow> b = Some True"

text \<open>A team is turned into the project itself as the only area path.\<close>

definition team_filters :: "string \<Rightarrow> string \<Rightarrow> wi_filters \<Rightarrow> wi_filters" where
  "team_filters project team f =
     (if team \<noteq> [] \<and> wif_areaPaths f = [] then f\<lparr>wif_areaPaths := [project]\<rparr> else f)"

text \<open>The request that \<open>MigrateWorkItemsWithProgress\<close> builds.\<close>

definition wi_request_of ::
  "string \<Rightarrow> string \<Rightarrow> string \<Rightarrow> string \<Rightarrow> string \<Rightarrow> string \<Rightarrow> string \<Rightarrow> wi_settings \<Rightarrow> wi_filters
   \<Rightarrow> github_auth_service \<Rightarrow> wi_request" where
  "wi_request_of organization project team targetOwner targetRepo adoToken githubToken settings filters auth =
     (let settings = applyDefaultsWithOverrides settings in
          \<lparr>wr_sourceOrganization = organization, wr_sourceProject = project, wr_targetOwner = targetOwner,
           wr_targetRepository = targetRepo, wr_githubAuth = auth, wr_typeMapping = wis_typeMapping settings,
           wr_stateMapping = wis_stateMapping settings, wr_includeHistory = is_true (wis_includeHistory settings),
           wr_includeAttachments = is_true (wis_includeAttachments settings),
           wr_preserveRelationships = is_true (wis_preserveRelationships settings),
           wr_includeTags = is_true (wis_includeTags settings),
           wr_combineComments = (wis_combineComments settings = None \<or> is_true (wis_combineComments settings)),
           wr_batchSize = wis_batchSize settings, wr_adoToken = adoToken, wr_githubToken = githubToken,
           wr_filters = team_filters project team filters\<rparr>)"

definition MigrateWorkItemsWithProgress ::
  "wi_env \<Rightarrow> string \<Rightarrow> string \<Rightarrow> string \<Rightarrow> string \<Rightarrow> string \<Rightarrow> string \<Rightarrow> string \<Rightarrow> wi_settings \<Rightarrow> wi_filters
   \<Rightarrow> github_auth_config \<Rightarrow> string \<Rightarrow> migrated_work_item list \<Rightarrow> wi_action list \<Rightarrow> wi_outcome" where
  "MigrateWorkItemsWithProgress e organization project team targetOwner targetRepo adoToken githubToken
      settings filters githubAuth namespace alreadyMigrated tr =
     (case service_auth e namespace githubToken githubAuth of
        Inl err \<Rightarrow> wi_stop err tr
      | Inr auth \<Rightarrow> migrateWorkItemsWithProgressInternal e
          (wi_request_of organization project team targetOwner targetRepo adoToken githubToken settings filters auth)
          alreadyMigrated tr)"

end
