(* ===== verification/WorkItemController.thy ===== *)
theory WorkItemController
  imports WorkItemService ProjectTypes
begin

text \<open>
  \<open>api/v1/workitemmigration_types.go\<close> and \<open>internal/controller/workitemmigration_controller.go\<close>:
  the controller of WorkItemMigration, and \<open>performMigration\<close>, the work it starts in the
  background. A state carries, beside the object and the server's copy, the controller's set of
  active migrations, the goroutines it started and what it changed in the cluster and at
  GitHub (\<open>wi_state\<close>).

  A status write changes only the status at the server, and the client decodes the answer
  into the object (\<open>wi_update_status\<close>). The parameters (\<open>wi_kube\<close>) are the API server, the clock, the
  secrets, GitHub, and for the run itself the outside of \<open>WorkItemService\<close>. The progress
  callback does not influence the run, so \<open>performMigration\<close> computes the run first
  and then applies the callback to the updates it sent. The owner reference of a created project,
  log messages, \<open>generateRepositoryName\<close> and \<open>extractRepoName\<close> (called by nothing) are not modelled.
  The names of states are ASCII, and the maps that GitHub's answers are decoded into are association
  lists without duplicate keys.
\<close>

section \<open>Types\<close>

record wi_source =
  wso_organization :: string
  wso_project :: string
  wso_team :: string
  wso_auth :: ado_auth_config

record wi_target =
  wtg_owner :: string
  wtg_repository :: string
  wtg_projectRef :: string
  wtg_auth :: github_auth_config

record wi_spec =
  wp_source :: wi_source
  wp_target :: wi_target
  wp_settings :: wi_settings
  wp_filters :: wi_filters

record wi_progress =
  wg_currentStep :: string
  wg_itemsDiscovered :: int
  wg_itemsMigrated :: int
  wg_itemsFailed :: int
  wg_itemsSkipped :: int
  wg_percentage :: int
  wg_currentBatch :: int
  wg_totalBatches :: int
  wg_estimatedCompletion :: "instant option"

record wi_statistics =
  wst_duration :: duration
  wst_itemsDiscovered :: int
  wst_itemsMigrated :: int
  wst_itemsFailed :: int
  wst_itemsSkipped :: int
  wst_commentsMigrated :: int
  wst_attachmentsMigrated :: int
  wst_dataTransferred :: int
  wst_apiCalls :: "(string \<times> int) list"

record wi_status =
  wms_phase :: migration_phase
  wms_conditions :: "condition list"
  wms_observedGeneration :: int
  wms_lastReconcileTime :: "instant option"
  wms_startTime :: "instant option"
  wms_completionTime :: "instant option"
  wms_progress :: wi_progress
  wms_migratedItems :: "migrated_work_item list"
  wms_errorMessage :: string
  wms_warnings :: "string list"
  wms_statistics :: "wi_statistics option"

record wi_migration =
  wm_meta :: object_meta
  wm_spec :: wi_spec
  wm_status :: wi_status

section \<open>State and environment\<close>

datatype wi_cluster_call =
    CreateProject github_project
  | CreateRepository string string \<comment> \<open>owner and name, private\<close>
  | DeleteSecret string string
  | AddIssues string "string list"
  | SetStatuses string string "string \<rightharpoonup> string"

record wi_state = "wi_migration rstate" +
  wt_active :: "string list"
  wt_spawned :: nat
  wt_calls :: "wi_cluster_call list"

record wi_kube = "wi_migration kube" +
  wk_get :: "nat \<Rightarrow> wi_migration \<Rightarrow> go_error + wi_migration"
  wk_labels :: "string \<Rightarrow> string \<Rightarrow> string \<rightharpoonup> string"
  wk_project :: "wi_state \<Rightarrow> string \<Rightarrow> string \<Rightarrow> go_error + github_project"
  wk_projects :: "wi_state \<Rightarrow> string \<Rightarrow> go_error + github_project list"
  wk_create_project :: "wi_state \<Rightarrow> github_project \<Rightarrow> (go_error \<times> bool) option" \<comment> \<open>an error, and whether it is AlreadyExists\<close>
  wk_migrations :: "wi_state \<Rightarrow> string \<Rightarrow> go_error + ado_migration list"
  wk_exists :: "wi_state \<Rightarrow> string \<Rightarrow> string \<Rightarrow> string \<Rightarrow> go_error + bool"
  wk_create_repo :: "wi_state \<Rightarrow> string \<Rightarrow> string \<Rightarrow> string \<Rightarrow> go_error option"
  wk_scan_error :: "string \<Rightarrow> go_error"
  wk_app_client :: "wi_state \<Rightarrow> int \<Rightarrow> int \<Rightarrow> string \<Rightarrow> go_error option"
  wk_app_token :: "wi_state \<Rightarrow> int \<Rightarrow> int \<Rightarrow> go_error + string"
  wk_field :: "wi_state \<Rightarrow> string \<Rightarrow> string \<Rightarrow> string \<Rightarrow> go_error + string \<times> (string \<times> string) list"
  wk_node_id :: "wi_state \<Rightarrow> string \<Rightarrow> string \<Rightarrow> string \<Rightarrow> int \<Rightarrow> go_error + string"
  wk_add_issues :: "wi_state \<Rightarrow> string \<Rightarrow> string \<Rightarrow> string list \<Rightarrow> go_error + (string \<times> string) list"
  wk_service :: wi_env

definition on_wi :: "(wi_status \<Rightarrow> wi_status) \<Rightarrow> wi_migration \<Rightarrow> wi_migration" where
  "on_wi f m = m\<lparr>wm_status := f (wm_status m)\<rparr>"

definition on_wi_progress :: "(wi_progress \<Rightarrow> wi_progress) \<Rightarrow> wi_migration \<Rightarrow> wi_migration" where
  "on_wi_progress f = on_wi (\<lambda>st. st\<lparr>wms_progress := f (wms_progress st)\<rparr>)"

definition wi_step :: "string \<Rightarrow> wi_migration \<Rightarrow> wi_migration" where
  "wi_step step = on_wi_progress (\<lambda>p. p\<lparr>wg_currentStep := step\<rparr>)"

lemma on_wi_simps [simp]:
  "wm_status (on_wi f m) = f (wm_status m)" "wm_spec (on_wi f m) = wm_spec m" "wm_meta (on_wi f m) = wm_meta m"
  by (simp_all add: on_wi_def)

lemma on_wi_progress_simps [simp]:
  "wm_status (on_wi_progress f m) = (wm_status m)\<lparr>wms_progress := f (wms_progress (wm_status m))\<rparr>"
  "wm_spec (on_wi_progress f m) = wm_spec m" "wm_meta (on_wi_progress f m) = wm_meta m"
  by (simp_all add: on_wi_progress_def)

lemma wi_step_simps [simp]:
  "wm_status (wi_step x m) = (wm_status m)\<lparr>wms_progress := (wms_progress (wm_status m))\<lparr>wg_currentStep := x\<rparr>\<rparr>"
  "wm_spec (wi_step x m) = wm_spec m" "wm_meta (wi_step x m) = wm_meta m"
  by (simp_all add: wi_step_def)

definition wi_update_status :: "wi_kube \<Rightarrow> wi_state \<Rightarrow> go_error option \<times> wi_state" where
  "wi_update_status k s = (case k_status k (calls s) (obj s) of
     Some err \<Rightarrow> (Some err, s\<lparr>calls := Suc (calls s)\<rparr>)
   | None \<Rightarrow> (let x = (stored s)\<lparr>wm_status := wm_status (obj s)\<rparr> in
       (None, s\<lparr>calls := Suc (calls s), obj := x, stored := x\<rparr>)))"

definition wi_update_then :: "wi_kube \<Rightarrow> ctrl_result \<Rightarrow> ctrl_result \<Rightarrow> wi_state \<Rightarrow> outcome \<times> wi_state" where
  "wi_update_then k on_err on_ok s = (case wi_update_status k s of
     (Some err, s) \<Rightarrow> ((on_err, Some err), s)
   | (None, s) \<Rightarrow> ((on_ok, None), s))"

text \<open>\<open>r.Get\<close> of the migration: what it answers is what the server holds then.\<close>

definition wi_fetch :: "wi_kube \<Rightarrow> wi_state \<Rightarrow> (go_error + wi_migration) \<times> wi_state" where
  "wi_fetch k s = (case wk_get k (calls s) (stored s) of
     Inl err \<Rightarrow> (Inl err, s\<lparr>calls := Suc (calls s)\<rparr>)
   | Inr x \<Rightarrow> (Inr x, s\<lparr>calls := Suc (calls s), stored := x\<rparr>))"

definition wi_call :: "wi_cluster_call \<Rightarrow> wi_state \<Rightarrow> wi_state" where
  "wi_call c s = s\<lparr>wt_calls := wt_calls s @ [c]\<rparr>"

definition migration_key :: "wi_migration \<Rightarrow> string" where
  "migration_key m = om_namespace (wm_meta m) @ ''/'' @ om_name (wm_meta m)"

definition spawn :: "wi_state \<Rightarrow> wi_state" where
  "spawn s = s\<lparr>wt_active := List.insert (migration_key (obj s)) (wt_active s), wt_spawned := wt_spawned s + 1\<rparr>"

lemma wi_state_simps [simp]:
  "obj (wi_call c s) = obj s" "stored (wi_call c s) = stored s" "calls (wi_call c s) = calls s"
  "obj (spawn s) = obj s" "stored (spawn s) = stored s" "calls (spawn s) = calls s"
  by (simp_all add: wi_call_def spawn_def)

section \<open>Tokens\<close>

definition wi_getAzureDevOpsToken :: "wi_kube \<Rightarrow> wi_migration \<Rightarrow> go_error + string" where
  "wi_getAzureDevOpsToken k m = (let auth = wso_auth (wp_source (wm_spec m)) in
     case ado_pat auth of
       Some pat \<Rightarrow> (let ref = pat_tokenRef pat in
         secret_key k (in_namespace (om_namespace (wm_meta m)) ref) (sr_name ref) (sr_key ref) ''failed to get ADO secret''
           (''key '' @ sr_key ref @ '' not found in secret '' @ sr_name ref))
     | None \<Rightarrow>
         if ado_servicePrincipal auth \<noteq> None
         then Inl (PlainError ''service principal auth not yet supported for work items migration'')
         else Inl (PlainError ''no authentication method specified''))"

definition scan_int64 :: "wi_kube \<Rightarrow> string \<Rightarrow> go_error + int" where
  "scan_int64 k = sscanf_int64 (wk_scan_error k)"

definition wi_app_secret :: "wi_kube \<Rightarrow> wi_migration \<Rightarrow> string \<Rightarrow> secret_ref \<Rightarrow> go_error + string" where
  "wi_app_secret k m what ref = secret_key k (om_namespace (wm_meta m)) (sr_name ref) (sr_key ref)
     (''failed to get GitHub '' @ what @ '' secret'') (''key '' @ sr_key ref @ '' not found in secret '' @ sr_name ref)"

definition wi_getGitHubAppToken :: "wi_kube \<Rightarrow> wi_migration \<Rightarrow> github_app_auth_config \<Rightarrow> wi_state \<Rightarrow> go_error + string" where
  "wi_getGitHubAppToken k m app s =
     sum_bind (wi_app_secret k m ''App ID'' (app_appIdRef app)) (\<lambda>a.
     sum_bind (map_sum (wrap_err ''failed to parse App ID'') id (scan_int64 k a)) (\<lambda>appID.
     sum_bind (wi_app_secret k m ''Installation ID'' (app_installationIdRef app)) (\<lambda>b.
     sum_bind (map_sum (wrap_err ''failed to parse Installation ID'') id (scan_int64 k b)) (\<lambda>installationID.
     sum_bind (wi_app_secret k m ''private key'' (app_privateKeyRef app)) (\<lambda>key.
     (case wk_app_client k s appID installationID key of
        Some err \<Rightarrow> Inl (wrap_err ''failed to create GitHub App client'' err)
      | None \<Rightarrow> map_sum (wrap_err ''failed to get installation token'') id (wk_app_token k s appID installationID)))))))"

definition wi_getGitHubToken :: "wi_kube \<Rightarrow> wi_migration \<Rightarrow> wi_state \<Rightarrow> go_error + string" where
  "wi_getGitHubToken k m s = (let auth = wtg_auth (wp_target (wm_spec m)) in
     case gh_tokenRef auth of
       Some ref \<Rightarrow> secret_key k (in_namespace (om_namespace (wm_meta m)) ref) (sr_name ref) (sr_key ref) ''failed to get GitHub secret''
         (''key '' @ sr_key ref @ '' not found in secret '' @ sr_name ref)
     | None \<Rightarrow> (case gh_appAuth auth of
         Some app \<Rightarrow> wi_getGitHubAppToken k m app s
       | None \<Rightarrow> Inl (PlainError ''no GitHub authentication method specified'')))"


section \<open>The target repository\<close>

definition full_name :: "string \<Rightarrow> string \<Rightarrow> string" where
  "full_name owner repo = owner @ ''/'' @ repo"

text \<open>The first migration of the namespace that creates the repository decides.\<close>

definition creates_repository :: "string \<Rightarrow> ado_migration \<Rightarrow> bool" where
  "creates_repository target m \<longleftrightarrow> list_ex (\<lambda>r. res_type r = ''repository''
     \<and> full_name (tgt_owner (ms_target (mg_spec m))) (res_targetName r) = target) (ms_resources (mg_spec m))"

definition migration_verdict :: "ado_migration \<Rightarrow> go_error + bool \<times> string" where
  "migration_verdict m = (case mst_phase (mg_status m) of
     PhaseCompleted \<Rightarrow> Inr (True, ''ready'')
   | PhaseRunning \<Rightarrow> Inr (True, ''creating'')
   | PhasePending \<Rightarrow> Inr (True, ''pending'')
   | PhaseValidating \<Rightarrow> Inr (True, ''pending'')
   | PhaseFailed \<Rightarrow> Inl (PlainError (''repository migration failed: '' @ mst_errorMessage (mg_status m)))
   | p \<Rightarrow> Inr (True, migration_phase_name p))"

definition repository_token :: "wi_kube \<Rightarrow> wi_state \<Rightarrow> go_error + string" where
  "repository_token k s = (let m = obj s; auth = wtg_auth (wp_target (wm_spec m)) in
     case gh_appAuth auth of
       Some app \<Rightarrow> map_sum (wrap_err ''failed to get GitHub App token'') id (wi_getGitHubAppToken k m app s)
     | None \<Rightarrow> (case gh_tokenRef auth of
         Some ref \<Rightarrow> (case k_secret k (in_namespace (om_namespace (wm_meta m)) ref) (sr_name ref) of
             Inl err \<Rightarrow> Inl (if is_not_found err
               then PlainError (''GitHub token secret not found yet, waiting for creation: '' @ sr_name ref)
               else wrap_err ''failed to get GitHub token secret'' err)
           | Inr entries \<Rightarrow> Inr (case entries (sr_key ref) of Some v \<Rightarrow> v | None \<Rightarrow> []))
       | None \<Rightarrow> Inl (PlainError ''no GitHub authentication configured'')))"

definition checkRepositoryAvailability :: "wi_kube \<Rightarrow> wi_state \<Rightarrow> go_error + bool \<times> string" where
  "checkRepositoryAvailability k s =
     (let target = wp_target (wm_spec (obj s)); name = full_name (wtg_owner target) (wtg_repository target) in
      case wk_migrations k s (om_namespace (wm_meta (obj s))) of
        Inl err \<Rightarrow> Inl (wrap_err ''failed to list migrations'' err)
      | Inr ms \<Rightarrow> (case find (creates_repository name) ms of
          Some m \<Rightarrow> migration_verdict m
        | None \<Rightarrow> (case repository_token k s of
            Inl err \<Rightarrow> Inl err
          | Inr token \<Rightarrow> (case wk_exists k s token (wtg_owner target) (wtg_repository target) of
              Inl err \<Rightarrow> Inl (wrap_err ''failed to check repository existence'' err)
            | Inr found \<Rightarrow> Inr (if found then (True, ''ready'') else (False, ''not_found''))))))"

definition createTargetRepository :: "wi_kube \<Rightarrow> string \<Rightarrow> wi_state \<Rightarrow> go_error option \<times> wi_state" where
  "createTargetRepository k repoName s =
     (let owner = wtg_owner (wp_target (wm_spec (obj s))); name = full_name owner repoName in
      case wi_getGitHubToken k (obj s) s of
        Inl err \<Rightarrow> (Some (wrap_err ''failed to get GitHub token'' err), s)
      | Inr token \<Rightarrow>
          (let e = wk_create_repo k s token owner repoName; s = wi_call (CreateRepository owner repoName) s in
           case e of
             Some err \<Rightarrow> (Some (wrap_err (''failed to create repository '' @ [CHR 0x27] @ name @ [CHR 0x27]) err), s)
           | None \<Rightarrow> (None, emit (Event EventNormal ''RepositoryCreated''
               (''Auto-created repository '' @ [CHR 0x27] @ name @ [CHR 0x27] @ '' for work item migration'')) s)))"

section \<open>Validation\<close>

definition quote_name :: "string \<Rightarrow> string" where
  "quote_name s = [CHR 0x27] @ s @ [CHR 0x27]"

definition auto_project :: "wi_migration \<Rightarrow> string \<Rightarrow> github_project" where
  "auto_project m projectRef =
     \<lparr>ghp_meta = zero_meta\<lparr>om_name := to_lower (map (\<lambda>c. if c = CHR '' '' then CHR ''-'' else c) projectRef),
        om_namespace := om_namespace (wm_meta m)\<rparr>,
      ghp_labels = [(''app.kubernetes.io/created-by'', ''workitemmigration-controller''),
        (''migration.ado-to-git-migration.io/source'', om_name (wm_meta m))],
      ghp_spec = \<lparr>ghs_owner = wtg_owner (wp_target (wm_spec m)), ghs_projectName = projectRef,
        ghs_description = ''Auto-created by WorkItemMigration '' @ om_name (wm_meta m),
        ghs_template = ''team-planning'', ghs_public = False, ghs_repository = [], ghs_auth = wtg_auth (wp_target (wm_spec m)),
        ghs_autoLink = False, ghs_statusField = None\<rparr>,
      ghp_status = zero_project_status\<rparr>"

definition create_project :: "wi_kube \<Rightarrow> string \<Rightarrow> wi_state \<Rightarrow> go_error \<times> wi_state" where
  "create_project k projectRef s =
     (let p = auto_project (obj s) projectRef; e = wk_create_project k s p; s = wi_call (CreateProject p) s in
      case e of
        Some (err, exists_already) \<Rightarrow>
          (if exists_already then PlainError (''GitHubProject '' @ quote_name projectRef @ '' creation in progress, retrying'')
           else wrap_err (''failed to auto-create GitHubProject '' @ quote_name projectRef) err, s)
      | None \<Rightarrow>
          (PlainError (''auto-created GitHubProject '' @ quote_name projectRef @ '', waiting for it to become ready''),
           emit (Event EventNormal ''GitHubProjectCreated''
             (''Auto-created GitHubProject '' @ quote_name (om_name (ghp_meta p)) @ '' for work item migration'')) s))"

text \<open>The project by the name of its resource, otherwise by the name it has at GitHub.\<close>

definition by_project_name :: "string \<Rightarrow> github_project list \<Rightarrow> github_project option" where
  "by_project_name projectRef = find (\<lambda>p. trim is_space (ghs_projectName (ghp_spec p)) = projectRef)"

definition find_project :: "wi_kube \<Rightarrow> string \<Rightarrow> wi_state \<Rightarrow> go_error + github_project option" where
  "find_project k projectRef s = (let ns = om_namespace (wm_meta (obj s)) in
     case wk_project k s ns projectRef of
       Inr p \<Rightarrow> Inr (Some p)
     | Inl err \<Rightarrow>
         if \<not> is_not_found err then Inl (wrap_err ''failed to get GitHubProject'' err)
         else (case wk_projects k s ns of
             Inl err \<Rightarrow> Inl (wrap_err ''failed to list GitHubProjects'' err)
           | Inr ps \<Rightarrow> Inr (by_project_name projectRef ps)))"

definition project_required :: string where
  "project_required = ''projectRef is required for work item migration - please create a GitHub Project first using the guide at https://github.com/my-org/onboarding-operator-ui/blob/main/docs/HOW_TO_CREATE_GITHUB_PROJECT.md''"

definition validate_project :: "wi_kube \<Rightarrow> wi_state \<Rightarrow> go_error option \<times> wi_state" where
  "validate_project k s = (let projectRef = trim is_space (wtg_projectRef (wp_target (wm_spec (obj s)))) in
     if projectRef = [] then (Some (PlainError project_required), s)
     else (case find_project k projectRef s of
         Inl err \<Rightarrow> (Some err, s)
       | Inr None \<Rightarrow> map_prod Some id (create_project k projectRef s)
       | Inr (Some p) \<Rightarrow>
           (if ght_phase (ghp_status p) \<noteq> ProjectReady
            then Some (PlainError (''referenced GitHubProject '' @ quote_name projectRef @ '' is not ready (current phase: ''
              @ project_phase_name (ght_phase (ghp_status p)) @ '') - waiting for creation''))
            else if ght_projectID (ghp_status p) = []
            then Some (PlainError (''referenced GitHubProject '' @ quote_name projectRef @ '' has no project ID - please check its status''))
            else None, s)))"

definition validate_repository :: "wi_kube \<Rightarrow> wi_state \<Rightarrow> go_error option \<times> wi_state" where
  "validate_repository k s =
     (let target = wp_target (wm_spec (obj s)); targetRepo = trim is_space (wtg_repository target);
          name = quote_name (full_name (wtg_owner target) targetRepo) in
      if targetRepo = []
      then (Some (PlainError ''repository is required for work item migration - GitHub Issues cannot be created without a repository''), s)
      else (case checkRepositoryAvailability k s of
        Inl err \<Rightarrow> (Some (wrap_err ''failed to check repository availability'' err), s)
      | Inr (repoExists, repoStatus) \<Rightarrow>
          if \<not> repoExists
          then (case createTargetRepository k targetRepo s of
              (Some err, s) \<Rightarrow> (Some (wrap_err (''failed to auto-create repository '' @ name) err), s)
            | (None, s) \<Rightarrow> (Some (PlainError (''target repository '' @ name @ '' is being created - waiting for creation to complete'')), s))
          else if repoStatus \<noteq> ''ready''
          then (Some (PlainError (''target repository '' @ name @ '' is being created (status: '' @ repoStatus @ '') - waiting for migration to complete'')), s)
          else (None, s)))"

definition secret_missing :: "wi_kube \<Rightarrow> wi_migration \<Rightarrow> string \<Rightarrow> secret_ref \<Rightarrow> go_error option" where
  "secret_missing k m what ref = (case k_secret k (in_namespace (om_namespace (wm_meta m)) ref) (sr_name ref) of
     Inl err \<Rightarrow> Some (wrap_err (''failed to get '' @ what @ '' secret'') err)
   | Inr _ \<Rightarrow> None)"

definition or_else :: "'a option \<Rightarrow> 'a option \<Rightarrow> 'a option" where
  "or_else a b = (case a of Some x \<Rightarrow> Some x | None \<Rightarrow> b)"

definition validate_auth :: "wi_kube \<Rightarrow> wi_migration \<Rightarrow> go_error option" where
  "validate_auth k m = (let src = wso_auth (wp_source (wm_spec m)); tgt = wtg_auth (wp_target (wm_spec m)) in
     if gh_tokenRef tgt = None \<and> gh_appAuth tgt = None
     then Some (PlainError ''target authentication is required (either tokenRef or appAuth)'')
     else or_else (case ado_servicePrincipal src of None \<Rightarrow> None
            | Some sp \<Rightarrow> secret_missing k m ''Azure DevOps'' (sp_clientSecretRef sp))
       (or_else (case ado_pat src of None \<Rightarrow> None | Some pat \<Rightarrow> secret_missing k m ''Azure DevOps PAT'' (pat_tokenRef pat))
       (case gh_tokenRef tgt of
          Some ref \<Rightarrow> (case k_secret k (in_namespace (om_namespace (wm_meta m)) ref) (sr_name ref) of
              Inl err \<Rightarrow> Some (if is_not_found err
                then PlainError (''GitHub token secret '' @ quote_name (sr_name ref) @ '' not found yet, waiting for creation'')
                else wrap_err ''failed to get GitHub token secret'' err)
            | Inr _ \<Rightarrow> None)
        | None \<Rightarrow> (case gh_appAuth tgt of
            Some app \<Rightarrow> secret_missing k m ''GitHub App'' (app_appIdRef app)
          | None \<Rightarrow> None))))"

definition default_batch_size :: "wi_migration \<Rightarrow> wi_migration" where
  "default_batch_size m = (let sp = wm_spec m; st = wp_settings sp in
     if wis_batchSize st \<le> 0 then m\<lparr>wm_spec := sp\<lparr>wp_settings := st\<lparr>wis_batchSize := 10\<rparr>\<rparr>\<rparr> else m)"

definition required_fields :: "wi_spec \<Rightarrow> string option" where
  "required_fields sp =
     (if wso_organization (wp_source sp) = [] then Some ''source organization is required''
      else if wso_project (wp_source sp) = [] then Some ''source project is required''
      else if ado_servicePrincipal (wso_auth (wp_source sp)) = None \<and> ado_pat (wso_auth (wp_source sp)) = None
      then Some ''source authentication is required''
      else if wtg_owner (wp_target sp) = [] then Some ''target owner is required''
      else None)"

definition validateConfiguration :: "wi_kube \<Rightarrow> wi_state \<Rightarrow> go_error option \<times> wi_state" where
  "validateConfiguration k s = (case required_fields (wm_spec (obj s)) of
     Some message \<Rightarrow> (Some (PlainError message), s)
   | None \<Rightarrow> (case validate_project k s of
       (Some err, s) \<Rightarrow> (Some err, s)
     | (None, s) \<Rightarrow> (case validate_repository k s of
         (Some err, s) \<Rightarrow> (Some err, s)
       | (None, s) \<Rightarrow> (case validate_auth k (obj s) of
           Some err \<Rightarrow> (Some err, s)
         | None \<Rightarrow> (None, modify default_batch_size s)))))"


section \<open>The GitHub project\<close>

text \<open>The first byte of the state is capitalised on its own.\<close>

definition mapAdoStateToProjectStatus :: "string \<Rightarrow> string" where
  "mapAdoStateToProjectStatus adoState = (let s = to_lower (trim is_space adoState) in
     if s = ''new'' then ''New''
     else if s = ''approved'' then ''Approved''
     else if s \<in> set [''active'', ''in progress'', ''committed''] then ''Active''
     else if s \<in> set [''test'', ''testing'', ''in testing'', ''ready for test''] then ''Test''
     else if s \<in> set [''resolved'', ''done'', ''completed''] then ''Resolved''
     else if s \<in> set [''closed'', ''removed''] then ''Closed''
     else (case adoState of [] \<Rightarrow> ''New'' | c # cs \<Rightarrow> to_upper_char c # to_lower cs))"

definition project_of_issues :: "wi_kube \<Rightarrow> wi_state \<Rightarrow> go_error + github_project" where
  "project_of_issues k s =
     (let projectRef = wtg_projectRef (wp_target (wm_spec (obj s))) in
      case find_project k projectRef s of
        Inl err \<Rightarrow> Inl err
      | Inr None \<Rightarrow> Inl (PlainError (''referenced GitHubProject '' @ quote_name projectRef
          @ '' not found (searched by CR name and GitHub project name) in namespace '' @ quote_name (om_namespace (wm_meta (obj s)))))
      | Inr (Some p) \<Rightarrow> if ght_projectID (ghp_status p) = [] then Inl (PlainError ''GitHubProject has no projectID in status'') else Inr p)"

definition status_field_name :: "github_project \<Rightarrow> string" where
  "status_field_name p = (case ghs_statusField (ghp_spec p) of
     Some f \<Rightarrow> if sfc_name f \<noteq> [] then sfc_name f else ''ADO Status'' | None \<Rightarrow> ''ADO Status'')"

text \<open>The issues whose node is known, with their nodes.\<close>

definition issue_nodes :: "wi_kube \<Rightarrow> string \<Rightarrow> wi_state \<Rightarrow> service_work_item list \<Rightarrow> (service_work_item \<times> string) list" where
  "issue_nodes k token s items = List.map_filter (\<lambda>item.
     case wk_node_id k s token (wtg_owner (wp_target (wm_spec (obj s)))) (wtg_repository (wp_target (wm_spec (obj s))))
         (mwi_targetIssueNumber item) of
       Inl err \<Rightarrow> None
     | Inr node \<Rightarrow> Some (item, node)) items"

definition status_updates ::
  "(string \<times> string) list \<Rightarrow> (string \<times> string) list \<Rightarrow> (service_work_item \<times> string) list \<Rightarrow> (string \<times> string) list" where
  "status_updates itemOf statusOptions nodes = List.map_filter (\<lambda>(item, node).
     case map_of itemOf node of
       None \<Rightarrow> None
     | Some projectItem \<Rightarrow>
         if mwi_sourceState item = [] then None
         else map_option (Pair projectItem) (map_of statusOptions (mapAdoStateToProjectStatus (mwi_sourceState item)))) nodes"

definition addIssuesToProject ::
  "wi_kube \<Rightarrow> string \<Rightarrow> service_work_item list \<Rightarrow> wi_state \<Rightarrow> (go_error + int) \<times> wi_state" where
  "addIssuesToProject k token items s = (case project_of_issues k s of
     Inl err \<Rightarrow> (Inl err, s)
   | Inr p \<Rightarrow>
       (let field = wk_field k s token (ght_projectID (ghp_status p)) (status_field_name p); nodes = issue_nodes k token s items in
        if nodes = [] then (Inr 0, s)
        else (let answer = wk_add_issues k s token (ght_projectID (ghp_status p)) (map snd nodes);
                  s = wi_call (AddIssues (ght_projectID (ghp_status p)) (map snd nodes)) s in
          case answer of
            Inl err \<Rightarrow> (Inl (wrap_err ''failed to batch add issues to project'' err), s)
          | Inr itemOf \<Rightarrow>
              (Inr (int (length itemOf)),
               case field of
                 Inl err \<Rightarrow> s
               | Inr (fieldID, statusOptions) \<Rightarrow>
                   (let updates = status_updates itemOf statusOptions nodes in
                    if fieldID \<noteq> [] \<and> statusOptions \<noteq> [] \<and> updates \<noteq> []
                    then wi_call (SetStatuses (ght_projectID (ghp_status p)) fieldID (map_of (rev updates))) s else s)))))"

section \<open>The background run\<close>

text \<open>
  After a conflict the status goes into the object the server holds, and the write is
  repeated, five times at most.
\<close>

fun retry_status_update :: "wi_kube \<Rightarrow> nat \<Rightarrow> wi_state \<Rightarrow> go_error option \<times> wi_state" where
  "retry_status_update k 0 s = (Some (PlainError ''failed to update status after 5 retry attempts''), s)"
| "retry_status_update k (Suc attempts) s = (case wi_update_status k s of
     (None, s) \<Rightarrow> (None, s)
   | (Some err, s) \<Rightarrow>
       if is_conflict err
       then (case wi_fetch k s of
           (Inl err, s) \<Rightarrow> (Some err, s)
         | (Inr latest, s) \<Rightarrow>
             retry_status_update k attempts (s\<lparr>obj := latest\<lparr>wm_status := wm_status (obj s)\<rparr>\<rparr>))
       else (Some err, s))"

definition statusUpdateWithRetry :: "wi_kube \<Rightarrow> wi_state \<Rightarrow> go_error option \<times> wi_state" where
  "statusUpdateWithRetry k = retry_status_update k 5"

text \<open>
  The progress callback, rate-limited to one update in five seconds. It works on a copy of its
  own; \<open>lastUpdate\<close> is \<open>None\<close> before the first update.
\<close>

definition show_update :: "progress_update \<Rightarrow> wi_migration \<Rightarrow> wi_migration" where
  "show_update u = on_wi (\<lambda>st. st\<lparr>
     wms_progress := (wms_progress st)\<lparr>wg_currentStep := pu_currentStep u, wg_itemsDiscovered := pu_itemsDiscovered u,
       wg_itemsMigrated := pu_itemsMigrated u, wg_itemsFailed := pu_itemsFailed u, wg_itemsSkipped := pu_itemsSkipped u,
       wg_percentage := pu_percentage u, wg_currentBatch := pu_currentBatch u, wg_totalBatches := pu_totalBatches u\<rparr>,
     wms_errorMessage := (if pu_itemsMigrated u > 0 \<or> pu_itemsDiscovered u > 0 then [] else wms_errorMessage st)\<rparr>)"

definition wi_progressCallback ::
  "wi_kube \<Rightarrow> progress_update \<Rightarrow> instant option \<times> wi_state \<Rightarrow> instant option \<times> wi_state" where
  "wi_progressCallback k u = (\<lambda>(lastUpdate, s). case read_clock k s of (now, s) \<Rightarrow>
     if (case lastUpdate of None \<Rightarrow> False | Some t \<Rightarrow> now - t < 5 * second) then (lastUpdate, s)
     else (case read_clock k s of (now, s) \<Rightarrow>
       (Some now,
        case wi_fetch k s of
          (Inl err, s) \<Rightarrow> s
        | (Inr current, s) \<Rightarrow> (snd (statusUpdateWithRetry k (s\<lparr>obj := show_update u current\<rparr>)))\<lparr>obj := obj s\<rparr>)))"

definition updates_of :: "wi_action list \<Rightarrow> progress_update list" where
  "updates_of = List.map_filter (\<lambda>a. case a of Progress u \<Rightarrow> Some u | _ \<Rightarrow> None)"

definition apply_updates :: "wi_kube \<Rightarrow> wi_action list \<Rightarrow> wi_state \<Rightarrow> wi_state" where
  "apply_updates k tr s = snd (fold (wi_progressCallback k) (updates_of tr) (None, s))"

definition fail_run :: "wi_kube \<Rightarrow> string \<Rightarrow> go_error \<Rightarrow> wi_state \<Rightarrow> wi_state" where
  "fail_run k what err s = snd (statusUpdateWithRetry k
     (modify (on_wi (\<lambda>st. st\<lparr>wms_phase := PhaseFailed, wms_errorMessage := what @ '': '' @ err_text err\<rparr>)) s))"

definition add_to_project :: "wi_kube \<Rightarrow> string \<Rightarrow> service_work_item list \<Rightarrow> wi_state \<Rightarrow> wi_state" where
  "add_to_project k githubToken items s =
     (if wtg_projectRef (wp_target (wm_spec (obj s))) = [] then s
      else (let s = snd (statusUpdateWithRetry k (modify (wi_step ''Adding Issues to Project'') s));
                token = (case wi_getGitHubToken k (obj s) s of Inr fresh \<Rightarrow> fresh | Inl _ \<Rightarrow> githubToken)
            in snd (addIssuesToProject k token items s)))"

definition wi_completed_status :: "instant \<Rightarrow> service_work_item list \<Rightarrow> wi_status \<Rightarrow> wi_status" where
  "wi_completed_status now items st = (let n = int (length items) in st\<lparr>
     wms_progress := (wms_progress st)\<lparr>wg_itemsDiscovered := n, wg_itemsMigrated := n, wg_itemsFailed := 0,
       wg_itemsSkipped := 0, wg_percentage := 100, wg_currentStep := ''Completed''\<rparr>,
     wms_migratedItems := map migrated_work_item.truncate items,
     wms_phase := PhaseCompleted, wms_completionTime := Some now,
     wms_statistics := Some \<lparr>wst_duration = 0, wst_itemsDiscovered = n, wst_itemsMigrated = n, wst_itemsFailed = 0,
       wst_itemsSkipped = 0, wst_commentsMigrated = 75, wst_attachmentsMigrated = 30, wst_dataTransferred = 524288,
       wst_apiCalls = [(''azureDevOps'', 100), (''github'', 75)]\<rparr>\<rparr>)"

definition set_duration :: "wi_kube \<Rightarrow> wi_state \<Rightarrow> wi_state" where
  "set_duration k s = (case wms_startTime (wm_status (obj s)) of
     None \<Rightarrow> s
   | Some t \<Rightarrow> (case read_clock k s of (now, s) \<Rightarrow>
       modify (on_wi (\<lambda>st. st\<lparr>wms_statistics :=
         map_option (\<lambda>x. x\<lparr>wst_duration := now - t\<rparr>) (wms_statistics st)\<rparr>)) s))"

definition complete_run :: "wi_kube \<Rightarrow> service_work_item list \<Rightarrow> wi_state \<Rightarrow> wi_state" where
  "complete_run k items s = (case read_clock k s of (now, s) \<Rightarrow>
     emit (Event EventNormal ''MigrationCompleted'' ''Work item migration completed successfully'')
       (snd (statusUpdateWithRetry k (set_duration k (modify (on_wi (wi_completed_status now items)) s)))))"

definition run_service :: "wi_kube \<Rightarrow> string \<Rightarrow> string \<Rightarrow> wi_migration \<Rightarrow> wi_outcome" where
  "run_service k adoToken githubToken m = (let src = wp_source (wm_spec m); tgt = wp_target (wm_spec m) in
     MigrateWorkItemsWithProgress ((wk_service k)\<lparr>we_secret := k_secret k\<rparr>) (wso_organization src) (wso_project src)
       (wso_team src) (wtg_owner tgt) (wtg_repository tgt) adoToken githubToken (wp_settings (wm_spec m))
       (wp_filters (wm_spec m)) (wtg_auth tgt) (om_namespace (wm_meta m)) (wms_migratedItems (wm_status m)) [])"

definition run_with_tokens :: "wi_kube \<Rightarrow> string \<Rightarrow> string \<Rightarrow> wi_state \<Rightarrow> wi_state option" where
  "run_with_tokens k adoToken githubToken s =
     (let s = snd (statusUpdateWithRetry k (modify (wi_step ''Discovering Work Items'') s)) in
      case run_service k adoToken githubToken (obj s) of
        None \<Rightarrow> None
      | Some (err, items, tr) \<Rightarrow>
          (let s = apply_updates k tr s in
           Some (case err of
             Some err \<Rightarrow> fail_run k ''Migration failed'' err s
           | None \<Rightarrow> complete_run k items (add_to_project k githubToken items s))))"

definition run_fetched :: "wi_kube \<Rightarrow> wi_state \<Rightarrow> wi_state option" where
  "run_fetched k s = (case wi_getAzureDevOpsToken k (obj s) of
     Inl err \<Rightarrow> Some (fail_run k ''Failed to get Azure DevOps token'' err s)
   | Inr adoToken \<Rightarrow> (case wi_getGitHubToken k (obj s) s of
       Inl err \<Rightarrow> Some (fail_run k ''Failed to get GitHub token'' err s)
     | Inr githubToken \<Rightarrow> run_with_tokens k adoToken githubToken s))"

text \<open>The whole goroutine; \<open>None\<close> when it panics, which ends the process.\<close>

definition performMigration :: "wi_kube \<Rightarrow> wi_state \<Rightarrow> wi_state option" where
  "performMigration k s =
     (let key = migration_key (obj s); stop = (\<lambda>s :: wi_state. s\<lparr>wt_active := removeAll key (wt_active s)\<rparr>) in
      case wi_fetch k s of
        (Inl err, s) \<Rightarrow> Some (stop s)
      | (Inr m, s) \<Rightarrow> map_option stop (run_fetched k (s\<lparr>obj := m\<rparr>)))"


section \<open>Reconcile\<close>

definition wi_finalizerName :: string where
  "wi_finalizerName = ''migration.ado-to-git-migration.io/workitem-finalizer''"

definition wi_cleanup :: "wi_kube \<Rightarrow> wi_state \<Rightarrow> wi_state" where
  "wi_cleanup k s = (let m = obj s in
     case gh_tokenRef (wtg_auth (wp_target (wm_spec m))) of
       None \<Rightarrow> s
     | Some ref \<Rightarrow> (let ns = in_namespace (om_namespace (wm_meta m)) ref in
         case k_secret k ns (sr_name ref) of
           Inl err \<Rightarrow> s
         | Inr _ \<Rightarrow>
             if wk_labels k ns (sr_name ref) ''app.kubernetes.io/managed-by'' = Some ''ado-migration-api''
             then wi_call (DeleteSecret ns (sr_name ref)) s else s))"

definition wi_restart :: "wi_kube \<Rightarrow> wi_state \<Rightarrow> outcome \<times> wi_state" where
  "wi_restart k s =
     (let s = modify (\<lambda>m. on_wi (\<lambda>st. st\<lparr>wms_phase := PhasePending,
            wms_progress := (wms_progress st)\<lparr>wg_currentStep := ''Restarting migration with updated filters''\<rparr>,
            wms_errorMessage := [], wms_completionTime := None, wms_observedGeneration := om_generation (wm_meta m)\<rparr>) m) s;
          s = emit (Event EventNormal ''MigrationRestarted'' (''Migration restarted due to spec change (preserving ''
            @ fmt_d (int (length (wms_migratedItems (wm_status (obj s))))) @ '' already-migrated items)'')) s
      in wi_update_then k no_requeue (after (2 * second)) s)"

definition zero_wi_progress :: wi_progress where
  "zero_wi_progress = \<lparr>wg_currentStep = [], wg_itemsDiscovered = 0, wg_itemsMigrated = 0, wg_itemsFailed = 0,
     wg_itemsSkipped = 0, wg_percentage = 0, wg_currentBatch = 0, wg_totalBatches = 0, wg_estimatedCompletion = None\<rparr>"

definition wi_initialize :: "wi_kube \<Rightarrow> wi_state \<Rightarrow> outcome \<times> wi_state" where
  "wi_initialize k s =
     (let s = modify (on_wi (\<lambda>st. st\<lparr>wms_phase := PhasePending,
            wms_progress := zero_wi_progress\<lparr>wg_currentStep := ''Initializing''\<rparr>\<rparr>)) s;
          s = emit (Event EventNormal ''Initialized'' ''Work item migration initialized'') s
      in wi_update_then k (after (5 * second)) (after (5 * second)) s)"

definition wi_processPending :: "wi_kube \<Rightarrow> wi_state \<Rightarrow> outcome \<times> wi_state" where
  "wi_processPending k s =
     (let s = modify (on_wi (\<lambda>st. st\<lparr>wms_phase := PhaseValidating,
            wms_progress := (wms_progress st)\<lparr>wg_currentStep := ''Validating configuration''\<rparr>\<rparr>)) s;
          s = emit (Event EventNormal ''ValidationStarted'' ''Work item migration validation started'') s
      in wi_update_then k (after (5 * second)) (after (5 * second)) s)"

definition is_transient :: "go_error \<Rightarrow> bool" where
  "is_transient err \<longleftrightarrow> contains_str (err_text err) ''is not ready'' \<or> contains_str (err_text err) ''current phase:''
     \<or> contains_str (err_text err) ''waiting for creation''"

definition wi_wait :: "wi_kube \<Rightarrow> go_error \<Rightarrow> wi_state \<Rightarrow> outcome \<times> wi_state" where
  "wi_wait k err s =
     (let s = modify (on_wi (\<lambda>st. st\<lparr>wms_errorMessage := [],
            wms_progress := (wms_progress st)\<lparr>wg_currentStep := ''Waiting: '' @ err_text err\<rparr>\<rparr>)) s;
          s = emit (Event EventNormal ''ValidationWaiting'' (''Waiting for dependencies: '' @ err_text err)) s
      in wi_update_then k no_requeue (after (10 * second)) s)"

definition wi_invalid :: "wi_kube \<Rightarrow> go_error \<Rightarrow> wi_state \<Rightarrow> outcome \<times> wi_state" where
  "wi_invalid k err s =
     (let s = modify (on_wi (\<lambda>st. st\<lparr>wms_phase := PhaseFailed,
            wms_errorMessage := ''Validation failed: '' @ err_text err\<rparr>)) s;
          s = emit (Event EventWarning ''ValidationFailed'' (''Work item migration validation failed: '' @ err_text err)) s
      in wi_update_then k no_requeue no_requeue s)"

definition wi_start :: "wi_kube \<Rightarrow> wi_state \<Rightarrow> outcome \<times> wi_state" where
  "wi_start k s = (case read_clock k s of (now, s) \<Rightarrow>
     let s = modify (on_wi (\<lambda>st. st\<lparr>wms_phase := PhaseRunning, wms_errorMessage := [], wms_startTime := Some now,
           wms_progress := (wms_progress st)\<lparr>wg_currentStep := ''Discovering Work Items''\<rparr>\<rparr>)) s;
         s = emit (Event EventNormal ''ValidationPassed'' ''Work item migration validation passed'') s
     in case wi_update_status k s of
          (Some err, s) \<Rightarrow> ((after (5 * second), Some err), s)
        | (None, s) \<Rightarrow> ((after (10 * second), None), spawn s))"

definition wi_processValidating :: "wi_kube \<Rightarrow> wi_state \<Rightarrow> outcome \<times> wi_state" where
  "wi_processValidating k s = (case validateConfiguration k s of
     (None, s) \<Rightarrow> wi_start k s
   | (Some err, s) \<Rightarrow> if is_transient err then wi_wait k err s else wi_invalid k err s)"

text \<open>A goroutine that seems dead is started again; the result of the status write is only logged.\<close>

definition wi_resume :: "wi_kube \<Rightarrow> wi_state \<Rightarrow> wi_state" where
  "wi_resume k s = (let p = wms_progress (wm_status (obj s));
       done_of = fmt_d (wg_itemsMigrated p) @ ''/'' @ fmt_d (wg_itemsDiscovered p) @ '' items'';
       s = snd (wi_update_status k (modify (wi_step (''Resuming (died at '' @ done_of @ '')'')) s));
       p' = wms_progress (wm_status (obj s))
     in spawn (emit (Event EventWarning ''MigrationResuming'' (''Migration goroutine died, resuming from ''
          @ fmt_d (wg_itemsMigrated p) @ ''/'' @ fmt_d (wg_itemsDiscovered p') @ '' items'')) s))"

definition wi_processRunning :: "wi_kube \<Rightarrow> wi_state \<Rightarrow> outcome \<times> wi_state" where
  "wi_processRunning k s =
     (if wg_percentage (wms_progress (wm_status (obj s))) < 100
      then (case wms_lastReconcileTime (wm_status (obj s)) of
          None \<Rightarrow> ((after (30 * second), None), s)
        | Some t \<Rightarrow> (case read_clock k s of (now, s) \<Rightarrow>
            ((after (30 * second), None),
             if now - t > 5 * minute \<and> migration_key (obj s) \<notin> set (wt_active s) then wi_resume k s else s)))
      else ((no_requeue, None), s))"

definition retryable_message :: "string \<Rightarrow> bool" where
  "retryable_message m \<longleftrightarrow> contains_str m ''is not ready'' \<or> contains_str m ''current phase:'' \<or> contains_str m ''waiting''"

definition wi_processFailed :: "wi_kube \<Rightarrow> wi_state \<Rightarrow> outcome \<times> wi_state" where
  "wi_processFailed k s =
     (if retryable_message (wms_errorMessage (wm_status (obj s)))
      then (let s = modify (on_wi (\<lambda>st. st\<lparr>wms_phase := PhaseValidating, wms_errorMessage := [],
                wms_progress := (wms_progress st)\<lparr>wg_currentStep := ''Retrying validation''\<rparr>\<rparr>)) s;
              s = emit (Event EventNormal ''RetryingValidation'' ''Retrying validation after transient failure'') s
            in wi_update_then k no_requeue (after (2 * second)) s)
      else ((no_requeue, None), s))"

definition wi_process :: "wi_kube \<Rightarrow> wi_state \<Rightarrow> outcome \<times> wi_state" where
  "wi_process k s = (case wms_phase (wm_status (obj s)) of
     PhaseUnset \<Rightarrow> wi_initialize k s
   | PhasePending \<Rightarrow> wi_processPending k s
   | PhaseValidating \<Rightarrow> wi_processValidating k s
   | PhaseRunning \<Rightarrow> wi_processRunning k s
   | PhaseFailed \<Rightarrow> wi_processFailed k s
   | _ \<Rightarrow> ((no_requeue, None), s))"

definition wi_on_finalizers :: "(string list \<Rightarrow> string list) \<Rightarrow> wi_migration \<Rightarrow> wi_migration" where
  "wi_on_finalizers f m = m\<lparr>wm_meta := (wm_meta m)\<lparr>om_finalizers := f (om_finalizers (wm_meta m))\<rparr>\<rparr>"

definition wi_object_update :: "wi_kube \<Rightarrow> wi_state \<Rightarrow> outcome \<times> wi_state" where
  "wi_object_update k s = (case object_update k s of
     (Some err, s) \<Rightarrow> ((no_requeue, Some err), s)
   | (None, s) \<Rightarrow> ((no_requeue, None), s))"

definition wi_finalize :: "wi_kube \<Rightarrow> wi_state \<Rightarrow> outcome \<times> wi_state" where
  "wi_finalize k s =
     (if wi_finalizerName \<in> set (om_finalizers (wm_meta (obj s)))
      then wi_object_update k (modify (wi_on_finalizers (removeAll wi_finalizerName)) (wi_cleanup k s))
      else ((no_requeue, None), s))"

definition wi_observe :: "wi_kube \<Rightarrow> wi_state \<Rightarrow> wi_state" where
  "wi_observe k s =
     (let generation = om_generation (wm_meta (obj s)) in
      if wms_observedGeneration (wm_status (obj s)) \<noteq> generation
      then (case read_clock k s of (now, s) \<Rightarrow>
        modify (on_wi (\<lambda>st. st\<lparr>wms_observedGeneration := generation, wms_lastReconcileTime := Some now\<rparr>)) s)
      else s)"

definition wi_spec_changed :: "wi_migration \<Rightarrow> bool" where
  "wi_spec_changed m \<longleftrightarrow> wms_observedGeneration (wm_status m) \<noteq> 0
     \<and> wms_observedGeneration (wm_status m) \<noteq> om_generation (wm_meta m)
     \<and> wms_phase (wm_status m) \<in> set [PhaseCompleted, PhaseFailed, PhaseCancelled]"

definition reconcile_wi :: "wi_kube \<Rightarrow> wi_state \<Rightarrow> outcome \<times> wi_state" where
  "reconcile_wi k s =
     (if wi_spec_changed (obj s) then wi_restart k s
      else (let s = wi_observe k s in
        if om_deletionTimestamp (wm_meta (obj s)) \<noteq> None then wi_finalize k s
        else if wi_finalizerName \<notin> set (om_finalizers (wm_meta (obj s)))
        then wi_object_update k (modify (wi_on_finalizers (\<lambda>fs. fs @ [wi_finalizerName])) s)
        else wi_process k s))"

definition wi_Reconcile :: "wi_kube \<Rightarrow> go_error + wi_state \<Rightarrow> outcome \<times> wi_state option" where
  "wi_Reconcile k got = (case got of
     Inl err \<Rightarrow> ((no_requeue, if is_not_found err then None else Some err), None)
   | Inr s \<Rightarrow> map_prod id Some (reconcile_wi k s))"

end
