(* ===== verification/WorkItemRuns.thy ===== *)
theory WorkItemRuns
  imports WorkItemController Errors "HOL-Library.Sublist"
begin

text \<open>
  Properties of a run of the work item service (\<open>internal/services/workitem.go\<close>,
  \<open>internal/services/workitem_progress.go\<close>). Everything a run does is on its trace; which of the
  attempts on it created an issue is what GitHub answered (\<open>issues_created\<close>). The invariant
  \<open>run_ok\<close> relates the run's counters and its result to the trace and to the items worked on
  so far; every step of a run keeps it.
\<close>

section \<open>The issues on a trace\<close>

definition new_issue :: "wi_env \<Rightarrow> wi_action list \<Rightarrow> wi_action \<Rightarrow> (int \<times> string) list" where
  "new_issue e tr a = (case a of
     CreateIssue _ _ _ _ _ \<Rightarrow> (case we_create_issue e tr a of Inr x \<Rightarrow> [x] | Inl _ \<Rightarrow> [])
   | _ \<Rightarrow> [])"

fun issues_from :: "wi_env \<Rightarrow> wi_action list \<Rightarrow> wi_action list \<Rightarrow> (int \<times> string) list" where
  "issues_from e before [] = []"
| "issues_from e before (a # as) = new_issue e before a @ issues_from e (before @ [a]) as"

definition issues_created :: "wi_env \<Rightarrow> wi_action list \<Rightarrow> (int \<times> string) list" where
  "issues_created e tr = issues_from e [] tr"

definition attempts :: "wi_action list \<Rightarrow> nat" where
  "attempts tr = length (filter (\<lambda>a. case a of CreateIssue _ _ _ _ _ \<Rightarrow> True | _ \<Rightarrow> False) tr)"

definition silent :: "wi_action \<Rightarrow> bool" where
  "silent a = (case a of CreateIssue _ _ _ _ _ \<Rightarrow> False | _ \<Rightarrow> True)"

lemma issues_from_append:
  "issues_from e before (as @ bs) = issues_from e before as @ issues_from e (before @ as) bs"
  by (induction as arbitrary: before) simp_all

lemma issues_created_Nil [simp]: "issues_created e [] = []"
  by (simp add: issues_created_def)

lemma issues_created_snoc [simp]: "issues_created e (tr @ [a]) = issues_created e tr @ new_issue e tr a"
  by (simp add: issues_created_def issues_from_append)

lemma silent_new_issue [simp]: "silent a \<Longrightarrow> new_issue e tr a = []"
  by (simp add: silent_def new_issue_def split: wi_action.splits)

lemma silent_from: "list_all silent as \<Longrightarrow> issues_from e before as = []"
  by (induction as arbitrary: before) simp_all

lemma issues_created_silent [simp]: "list_all silent as \<Longrightarrow> issues_created e (tr @ as) = issues_created e tr"
  by (simp add: issues_created_def issues_from_append silent_from)

lemma attempts_simps [simp]:
  "attempts [] = 0" "attempts (tr @ tr') = attempts tr + attempts tr'"
  "attempts [CreateIssue a b c d x] = 1" "list_all silent as \<Longrightarrow> attempts as = 0"
  by (simp_all add: attempts_def silent_def filter_empty_conv list_all_iff split: wi_action.splits)

lemma silent_simps [simp]:
  "silent (CloseIssue a b c)" "silent (CreateComment a b c d)" "silent (Progress u)" "silent (DbRateLimit x y z)"
  "silent (DbFailure x i m)" "silent (DbSuccess x i a b c d)" "silent (DbProgress x i j l)" "silent (DbComplete x y z)"
  "\<not> silent (CreateIssue p q r s t)"
  by (simp_all add: silent_def)

section \<open>One item\<close>

definition issue_of :: "('a) migrated_work_item_scheme \<Rightarrow> int \<times> string" where
  "issue_of m = (mwi_targetIssueNumber m, mwi_targetURL m)"

lemma comments_silent: "\<exists>as. migrateComments e r wid n tr = tr @ as \<and> list_all silent as"
  by (simp add: migrateComments_def list_all_iff split: sum.splits)

lemma attachments_silent: "\<exists>as. migrateAttachments r wi n tr = tr @ as \<and> list_all silent as"
  by (simp add: migrateAttachments_def Let_def)

lemma migrate_trace:
  obtains as where "snd (migrateWorkItem e r wid wi tr) = tr @ CreateIssue (wr_targetOwner r) (wr_targetRepository r)
      (getWorkItemField wi ''System.Title'') (buildIssueBody (we_now e tr) wid wi) (issue_labels r wi) # as"
    and "list_all silent as"
    and "case fst (migrateWorkItem e r wid wi tr) of
      Inl err \<Rightarrow> issues_created e (snd (migrateWorkItem e r wid wi tr)) = issues_created e tr
    | Inr item \<Rightarrow> issues_created e (snd (migrateWorkItem e r wid wi tr)) = issues_created e tr @ [issue_of item]
        \<and> mwi_sourceID item = wid"
proof -
  define create where "create = CreateIssue (wr_targetOwner r) (wr_targetRepository r)
      (getWorkItemField wi ''System.Title'') (buildIssueBody (we_now e tr) wid wi) (issue_labels r wi)"
  show thesis
  proof (cases "we_create_issue e tr create")
    case (Inl err)
    then have "migrateWorkItem e r wid wi tr = (Inl (wrap_err ''failed to create GitHub issue'' err), tr @ [create])"
      by (simp add: migrateWorkItem_def Let_def create_def)
    then show thesis using that [of "[]"] Inl by (simp add: create_def new_issue_def)
  next
    case (Inr x)
    obtain n url where x: "x = (n, url)" by fastforce
    define closed where "closed = (if mapState (getWorkItemField wi ''System.State'') (wr_stateMapping r) = ''closed''
      then [CloseIssue (wr_targetOwner r) (wr_targetRepository r) n] else [])"
    define with_comments where "with_comments = (if wr_includeHistory r
      then migrateComments e r wid n (tr @ create # closed) else tr @ create # closed)"
    define final where "final = (if wr_includeAttachments r
      then migrateAttachments r wi n with_comments else with_comments)"
    define item where "item = (\<lparr>mwi_sourceID = wid, mwi_sourceType = getWorkItemField wi ''System.WorkItemType'',
      mwi_sourceTitle = getWorkItemField wi ''System.Title'', mwi_targetIssueNumber = n, mwi_targetURL = url,
      mwi_migratedAt = gt_instant (we_now e (tr @ [create])), mwi_sourceState = getWorkItemField wi ''System.State''\<rparr>)"
    have eq: "migrateWorkItem e r wid wi tr = (Inr item, final)"
      using Inr unfolding x
      by (simp add: migrateWorkItem_def Let_def create_def [symmetric] final_def with_comments_def closed_def item_def)
    obtain cs where cs: "with_comments = tr @ create # closed @ cs" "list_all silent cs"
      using comments_silent [of e r wid n "tr @ create # closed"]
      unfolding with_comments_def by (cases "wr_includeHistory r") auto
    obtain as where as: "final = tr @ create # closed @ cs @ as" "list_all silent as"
      using attachments_silent [of r wi n with_comments] cs
      unfolding final_def by (cases "wr_includeAttachments r") auto
    have all: "list_all silent (closed @ cs @ as)" using cs as by (simp add: closed_def)
    have "issues_created e final = issues_created e (tr @ [create])"
      using issues_created_silent [OF all, of e "tr @ [create]"] as(1) by simp
    also have "\<dots> = issues_created e tr @ [(n, url)]" using Inr x by (simp add: new_issue_def create_def)
    finally show thesis using that [of "closed @ cs @ as"] all as(1)
      by (simp add: eq create_def item_def issue_of_def)
  qed
qed


section \<open>The invariant of a run\<close>

text \<open>
  \<open>wis\<close> are the items worked on so far, \<open>already\<close> the ones an earlier run migrated. While an
  item is worked on, one or two attempts have been made for it that created no issue; the invariant
  is then \<open>trying\<close>, with \<open>n\<close> attempts.
\<close>

definition ids_of :: "work_item list \<Rightarrow> int list" where
  "ids_of = List.map_filter wi_id"

definition trying :: "wi_env \<Rightarrow> migrated_work_item list \<Rightarrow> work_item list \<Rightarrow> nat \<Rightarrow> wi_run \<Rightarrow> bool" where
  "trying e already wis n s \<longleftrightarrow> (\<exists>new. wu_result s = map from_status already @ new
     \<and> issues_created e (wu_trace s) = map issue_of new
     \<and> wu_migrated s = int (length already + length new)
     \<and> subseq (map mwi_sourceID new) (ids_of wis)
     \<and> 0 \<le> wu_failed s \<and> 0 \<le> wu_skipped s
     \<and> wu_migrated s + wu_failed s + wu_skipped s = int (length already + length (ids_of wis))
     \<and> attempts (wu_trace s) \<le> 2 * length (ids_of wis) + n)"

definition run_ok :: "wi_env \<Rightarrow> migrated_work_item list \<Rightarrow> work_item list \<Rightarrow> wi_run \<Rightarrow> bool" where
  "run_ok e already wis s \<longleftrightarrow> trying e already wis 0 s"

lemma ids_of_simps [simp]:
  "ids_of [] = []" "ids_of (wis @ wis') = ids_of wis @ ids_of wis'"
  "ids_of (wi # wis) = (case wi_id wi of None \<Rightarrow> [] | Some i \<Rightarrow> [i]) @ ids_of wis"
  by (simp_all add: ids_of_def map_filter_def split: option.splits)

lemma run_okI:
  assumes "wu_result s = map from_status already @ new" and "issues_created e (wu_trace s) = map issue_of new"
    and "wu_migrated s = int (length already + length new)" and "subseq (map mwi_sourceID new) (ids_of wis)"
    and "0 \<le> wu_failed s" and "0 \<le> wu_skipped s"
    and "wu_migrated s + wu_failed s + wu_skipped s = int (length already + length (ids_of wis))"
    and "attempts (wu_trace s) \<le> 2 * length (ids_of wis)"
  shows "run_ok e already wis s"
  using assms unfolding run_ok_def trying_def by auto

text \<open>Actions that create no issue and leave the counters alone keep the invariant.\<close>

lemma run_ok_silent:
  assumes "run_ok e already wis s" and "wu_trace t = wu_trace s @ as" and "list_all silent as"
    and "wu_result t = wu_result s" and "wu_migrated t = wu_migrated s" and "wu_failed t = wu_failed s" and "wu_skipped t = wu_skipped s"
  shows "run_ok e already wis t"
  using assms unfolding run_ok_def trying_def by simp

lemma run_ok_log: "run_ok e already wis s \<Longrightarrow> silent a \<Longrightarrow> run_ok e already wis (log_action a s)"
  by (rule run_ok_silent [where as = "[a]"]) (simp_all add: log_action_def)

lemma run_ok_db: "run_ok e already wis s \<Longrightarrow> (\<And>m. list_all silent (f m)) \<Longrightarrow> run_ok e already wis (in_db db f s)"
  by (cases db) (auto simp: in_db_def intro: run_ok_silent)

lemma run_ok_progress: "run_ok e already wis s \<Longrightarrow> run_ok e already wis (send_progress step n p b m s)"
  unfolding send_progress_def by (rule run_ok_log) simp_all

lemma trying_silent:
  "trying e already wis n s \<Longrightarrow> list_all silent (f m) \<Longrightarrow> trying e already wis n (in_db (Some m) f s)"
  by (simp add: trying_def in_db_def)

lemma trying_db: "trying e already wis n s \<Longrightarrow> (\<And>m. list_all silent (f m)) \<Longrightarrow> trying e already wis n (in_db db f s)"
  by (cases db) (simp_all add: trying_silent, simp add: in_db_def)

lemma try_item_failed:
  assumes "try_item e r wid wi s = (Inl err, t)" and "trying e already wis n s"
  shows "trying e already wis (Suc n) t"
proof -
  obtain tr where m: "migrateWorkItem e r wid wi (wu_trace s) = (Inl err, tr)" and t: "t = s\<lparr>wu_trace := tr\<rparr>"
    using assms(1) by (auto simp: try_item_def split: prod.splits)
  obtain as where "tr = wu_trace s @ CreateIssue (wr_targetOwner r) (wr_targetRepository r)
      (getWorkItemField wi ''System.Title'') (buildIssueBody (we_now e (wu_trace s)) wid wi) (issue_labels r wi) # as"
    and "list_all silent as" and "issues_created e tr = issues_created e (wu_trace s)"
    using migrate_trace [of e r wid wi "wu_trace s"] unfolding m by auto
  then have "attempts tr = Suc (attempts (wu_trace s))" "issues_created e tr = issues_created e (wu_trace s)"
    using attempts_simps(2) [of "[_]" as] by simp_all
  then show ?thesis using assms(2) by (auto simp: trying_def t)
qed

lemma item_failed_ok:
  assumes "trying e already wis n s" and "n \<le> 2" and "wi_id wi = Some wid"
  shows "run_ok e already (wis @ [wi]) (item_failed db wid err s)"
proof -
  have "run_ok e already (wis @ [wi]) (s\<lparr>wu_failed := wu_failed s + 1\<rparr>)"
    using assms unfolding run_ok_def trying_def by (auto intro: subseq_append')
  then show ?thesis unfolding item_failed_def by (rule run_ok_db) simp
qed

lemma try_item_migrated:
  assumes "try_item e r wid wi s = (Inr item, t)" and "trying e already wis n s" and "n \<le> 1" and "wi_id wi = Some wid"
  shows "run_ok e already (wis @ [wi]) (item_migrated db wid item t)"
proof -
  obtain tr where m: "migrateWorkItem e r wid wi (wu_trace s) = (Inr item, tr)" and t: "t = s\<lparr>wu_trace := tr\<rparr>"
    using assms(1) by (auto simp: try_item_def split: prod.splits)
  obtain as where "tr = wu_trace s @ CreateIssue (wr_targetOwner r) (wr_targetRepository r)
      (getWorkItemField wi ''System.Title'') (buildIssueBody (we_now e (wu_trace s)) wid wi) (issue_labels r wi) # as"
    and "list_all silent as" and new: "issues_created e tr = issues_created e (wu_trace s) @ [issue_of item]" "mwi_sourceID item = wid"
    using migrate_trace [of e r wid wi "wu_trace s"] unfolding m by auto
  then have n: "attempts tr = Suc (attempts (wu_trace s))"
    using attempts_simps(2) [of "[_]" as] by simp
  have "run_ok e already (wis @ [wi]) (t\<lparr>wu_result := wu_result t @ [item], wu_migrated := wu_migrated t + 1\<rparr>)"
  proof -
    from assms(2) obtain old where old: "wu_result s = map from_status already @ old"
        "issues_created e (wu_trace s) = map issue_of old" "wu_migrated s = int (length already + length old)"
        "subseq (map mwi_sourceID old) (ids_of wis)" "0 \<le> wu_failed s" "0 \<le> wu_skipped s"
        "wu_migrated s + wu_failed s + wu_skipped s = int (length already + length (ids_of wis))"
        "attempts (wu_trace s) \<le> 2 * length (ids_of wis) + n"
      unfolding trying_def by blast
    show ?thesis
      by (rule run_okI [where new = "old @ [item]"]) (use old new n assms(3,4) in \<open>auto simp: t list_emb_append_mono\<close>)
  qed
  then show ?thesis unfolding item_migrated_def Let_def by (rule run_ok_db) simp
qed

lemma work_on_item_ok:
  assumes ok: "run_ok e already wis s" and wid: "wi_id wi = Some wid"
  shows "run_ok e already (wis @ [wi]) (work_on_item e r db wid wi s)"
proof -
  have 0: "trying e already wis 0 s" using ok by (simp add: run_ok_def)
  show ?thesis
  proof (cases "try_item e r wid wi s")
    case (Pair x t)
    show ?thesis
    proof (cases x)
      case (Inr item)
      with Pair have "try_item e r wid wi s = (Inr item, t)" by simp
      then show ?thesis using try_item_migrated [OF _ 0 _ wid] by (simp add: work_on_item_def)
    next
      case (Inl err)
      with Pair have failed: "try_item e r wid wi s = (Inl err, t)" by simp
      note 1 = try_item_failed [OF failed 0]
      show ?thesis
      proof (cases "isRateLimitError err")
        case False
        then show ?thesis using item_failed_ok [OF 1 _ wid] by (simp add: work_on_item_def failed)
      next
        case True
        define t' where "t' = in_db db (\<lambda>m. [DbRateLimit m ''github'' ''secondary'']) t"
        have 1: "trying e already wis (Suc 0) t'" unfolding t'_def by (rule trying_db [OF 1]) simp
        obtain y u where again: "try_item e r wid wi t' = (y, u)" by fastforce
        show ?thesis
        proof (cases y)
          case (Inr item)
          then show ?thesis using try_item_migrated [OF _ 1 _ wid] again True
            by (simp add: work_on_item_def failed t'_def [symmetric])
        next
          case (Inl err')
          then show ?thesis using item_failed_ok [OF try_item_failed [OF _ 1] _ wid] again True
            by (simp add: work_on_item_def failed t'_def [symmetric])
        qed
      qed
    qed
  qed
qed


section \<open>Batches and the whole run\<close>

lemma process_item_ok:
  assumes ok: "run_ok e already wis s" and "process_item e r db wi s = Some t"
  shows "run_ok e already (wis @ [wi]) t"
proof (cases "wi_id wi")
  case None
  then show ?thesis using assms by (simp add: process_item_def run_ok_def trying_def)
next
  case (Some wid)
  have "run_ok e already (wis @ [wi]) (s\<lparr>wu_skipped := wu_skipped s + 1\<rparr>)"
    using ok Some unfolding run_ok_def trying_def by (auto intro: subseq_append')
  then show ?thesis using assms(2) Some work_on_item_ok [OF ok Some]
    by (auto simp: process_item_def split: option.splits sum.splits)
qed

lemma process_items_ok:
  "run_ok e already wis s \<Longrightarrow> process_items e r db batch s = Some t \<Longrightarrow> run_ok e already (wis @ batch) t"
proof (induction batch arbitrary: wis s)
  case (Cons wi batch)
  from Cons.prems(2) obtain u where u: "process_item e r db wi s = Some u" "process_items e r db batch u = Some t"
    by (auto split: option.splits)
  show ?case using Cons.IH [OF process_item_ok [OF Cons.prems(1) u(1)] u(2)] by simp
qed simp

lemma run_batches_ok:
  assumes "run_ok e already wis s" and "run_batches e r db n m b i batches s = Some (err, t)"
  shows "\<exists>done_items left. concat batches = done_items @ left \<and> run_ok e already (wis @ done_items) t \<and> (err = None \<longrightarrow> left = [])"
  using assms
proof (induction batches arbitrary: wis s b i)
  case Nil
  then show ?case by (auto intro: exI [of _ "[]"])
next
  case (Cons batch batches)
  define s1 where "s1 = start_batch e n m (b + 1) i s"
  have ok1: "run_ok e already wis s1"
    unfolding s1_def start_batch_def by (rule run_ok_progress [OF Cons.prems(1)])
  show ?case
  proof (cases "getGitHubClient_items e r (wu_trace s1)")
    case (Some err')
    then have "t = s1" "err \<noteq> None" using Cons.prems(2) by (auto simp: Let_def s1_def)
    then show ?thesis using ok1 by (auto intro: exI [of _ "[]"])
  next
    case None
    then obtain u where u: "process_items e r db batch s1 = Some u"
      using Cons.prems(2) by (auto simp: Let_def s1_def split: option.splits)
    define s2 where "s2 = end_batch e n m (b + 1) (i + int (length batch)) u"
    have ok2: "run_ok e already (wis @ batch) s2"
      unfolding s2_def end_batch_def by (rule run_ok_progress [OF process_items_ok [OF ok1 u]])
    have eq: "(if batches = [] then Some (None, s2) else (case we_wait e (wu_trace s2) of
        Some err \<Rightarrow> Some (Some err, s2)
      | None \<Rightarrow> run_batches e r db n m (b + 1) (i + int (length batch)) batches s2)) = Some (err, t)"
      using Cons.prems(2) None u unfolding s2_def by (simp add: Let_def s1_def)
    show ?thesis
    proof (cases "batches \<noteq> [] \<and> we_wait e (wu_trace s2) = None")
      case True
      then have "run_batches e r db n m (b + 1) (i + int (length batch)) batches s2 = Some (err, t)" using eq by simp
      from Cons.IH [OF ok2 this] obtain d l where "concat batches = d @ l" "run_ok e already ((wis @ batch) @ d) t"
        "err = None \<longrightarrow> l = []" by blast
      then show ?thesis by (intro exI [of _ "batch @ d"] exI [of _ l]) simp
    next
      case False
      then have "t = s2" "err = None \<longrightarrow> batches = []"
        using eq by (cases "we_wait e (wu_trace s2)"; auto split: if_splits)+
      then show ?thesis using ok2 by (intro exI [of _ batch] exI [of _ "concat batches"]) simp
    qed
  qed
qed

lemma finish_run_ok: "run_ok e already wis s \<Longrightarrow> run_ok e already wis (finish_run r db n m s)"
  by (simp add: finish_run_def Let_def case_prod_unfold run_ok_progress run_ok_db)

text \<open>The last update that a run without an error sends.\<close>

definition last_update :: "int \<Rightarrow> wi_run \<Rightarrow> progress_update \<Rightarrow> bool" where
  "last_update n s u \<longleftrightarrow> pu_currentStep u = ''Migration Complete'' \<and> pu_percentage u = 100 \<and> pu_itemsDiscovered u = n
     \<and> pu_itemsMigrated u = wu_migrated s \<and> pu_itemsFailed u = wu_failed s \<and> pu_itemsSkipped u = wu_skipped s"

lemma updates_of_append [simp]: "updates_of (tr @ tr') = updates_of tr @ updates_of tr'"
  by (simp add: updates_of_def map_filter_def)

lemma finish_run_last: "\<exists>us u. updates_of (wu_trace (finish_run r db n m s)) = us @ [u] \<and> last_update n (finish_run r db n m s) u"
  by (cases db) (auto simp: finish_run_def Let_def case_prod_unfold send_progress_def log_action_def in_db_def
      last_update_def updates_of_def map_filter_def)

lemma run_items_ok:
  assumes "run_items e r already n wis tr = Some (err, t)" and "list_all silent tr"
  obtains left where "\<exists>done_items. wis = done_items @ left \<and> run_ok e already done_items t" 
    and "err = None \<longrightarrow> left = [] \<and> (\<exists>us u. updates_of (wu_trace t) = us @ [u] \<and> last_update n t u)"
proof -
  define bs where "bs = effective_batch_size r"
  define m where "m = go_div (wrap64 (n + bs - 1)) bs"
  define s where "s = \<lparr>wu_trace = tr, wu_result = map from_status already,
               wu_migrated = int (length already), wu_failed = 0, wu_skipped = 0\<rparr>"
  have ok: "run_ok e already [] s"
    using issues_created_silent [OF assms(2), of e "[]"] assms(2) by (simp add: run_ok_def trying_def s_def)
  obtain err' u where u: "run_batches e r (tracking e r n) n m 0 0 (chunks (nat bs) wis) s = Some (err', u)"
      "err = err'" "t = (if err = None then finish_run r (tracking e r n) n m u else u)"
    using assms(1) by (auto simp: run_items_def Let_def bs_def [symmetric] m_def [symmetric] s_def [symmetric] split: option.splits)
  from run_batches_ok [OF ok u(1)] obtain d l where d: "wis = d @ l" "run_ok e already d u" "err = None \<longrightarrow> l = []"
    using u(2) by auto
  then have "run_ok e already d t" using u(3) by (simp add: finish_run_ok)
  moreover have "err = None \<longrightarrow> l = [] \<and> (\<exists>us u. updates_of (wu_trace t) = us @ [u] \<and> last_update n t u)"
    using d(3) u(3) finish_run_last by auto
  ultimately show thesis using that d by blast
qed


text \<open>
  What a whole run returns: nothing, when it stops before the first batch or finds no item; or
  what \<open>run_ok\<close> says, for the items before \<open>left\<close>.
\<close>

definition accounted :: "wi_env \<Rightarrow> migrated_work_item list \<Rightarrow> service_work_item list \<Rightarrow> wi_action list \<Rightarrow> bool" where
  "accounted e already items tr \<longleftrightarrow>
     items = [] \<and> issues_created e tr = []
     \<or> (\<exists>new. items = map from_status already @ new \<and> map issue_of new = issues_created e tr)"

lemma progress_of_silent [simp]: "silent (progress_of step n m p)"
  by (simp add: progress_of_def)

lemma discover_and_run_cases:
  assumes "discover_and_run e r already tr = Some (err, items, tr')" and "list_all silent tr"
  obtains (stopped) "items = []" and "list_all silent tr'"
      and "err \<noteq> None \<or> queryWorkItems e (wr_sourceProject r) (buildWIQLQuery r) = Inr []"
  | (ran) wis s wis' left where "queryWorkItems e (wr_sourceProject r) (buildWIQLQuery r) = Inr wis"
      and "remaining_items already wis = wis' @ left" and "run_ok e already wis' s"
      and "err = None \<longrightarrow> left = [] \<and> (\<exists>us u. updates_of tr' = us @ [u] \<and> last_update (int (length wis)) s u)"
      and "items = wu_result s" and "tr' = wu_trace s" and "wis \<noteq> []"
proof (cases "queryWorkItems e (wr_sourceProject r) (buildWIQLQuery r)")
  case (Inl x)
  then show thesis using assms by (intro stopped) (auto simp: discover_and_run_def Let_def wi_stop_def)
next
  case (Inr wis)
  define tr1 where "tr1 = tr @ [progress_of ''Discovering Work Items'' 0 0 10,
    progress_of ''Work Items Discovered'' (int (length wis)) (int (length already)) 15]"
  have silent: "list_all silent tr1" using assms(2) by (simp add: tr1_def)
  show thesis
  proof (cases "wis = []")
    case True
    then show thesis using assms Inr by (intro stopped) (auto simp: discover_and_run_def Let_def)
  next
    case False
    then obtain s where s: "run_items e r already (int (length wis)) (remaining_items already wis) tr1 = Some (err, s)"
        "items = wu_result s" "tr' = wu_trace s"
      using assms(1) Inr by (auto simp: discover_and_run_def Let_def tr1_def)
    show thesis
    proof (rule run_items_ok [OF s(1) silent])
      fix left
      assume "\<exists>d. remaining_items already wis = d @ left \<and> run_ok e already d s"
        and last: "err = None \<longrightarrow> left = [] \<and> (\<exists>us u. updates_of (wu_trace s) = us @ [u] \<and> last_update (int (length wis)) s u)"
      then obtain d where d: "remaining_items already wis = d @ left" "run_ok e already d s" by blast
      show thesis by (rule ran [OF Inr d]) (use last False s in simp_all)
    qed
  qed
qed

lemma service_cases:
  assumes "migrateWorkItemsWithProgressInternal e r already [] = Some (err, items, tr')"
  obtains (stopped) "items = []" and "list_all silent tr'"
      and "err \<noteq> None \<or> queryWorkItems e (wr_sourceProject r) (buildWIQLQuery r) = Inr []"
  | (ran) wis s wis' left where "queryWorkItems e (wr_sourceProject r) (buildWIQLQuery r) = Inr wis"
      and "remaining_items already wis = wis' @ left" and "run_ok e already wis' s"
      and "err = None \<longrightarrow> left = [] \<and> (\<exists>us u. updates_of tr' = us @ [u] \<and> last_update (int (length wis)) s u)"
      and "items = wu_result s" and "tr' = wu_trace s" and "wis \<noteq> []"
proof -
  define tr where "tr = [progress_of ''Connecting to Azure DevOps'' 0 0 0, progress_of ''Connecting to GitHub'' 0 0 5]"
  have "err \<noteq> None \<and> items = [] \<and> list_all silent tr' \<or> discover_and_run e r already tr = Some (err, items, tr')"
    using assms
    by (auto simp: migrateWorkItemsWithProgressInternal_def Let_def wi_stop_def tr_def split: if_splits option.splits sum.splits)
  then show thesis
  proof
    assume "discover_and_run e r already tr = Some (err, items, tr')"
    then show thesis by (rule discover_and_run_cases) (auto simp: tr_def intro: stopped ran)
  qed (use stopped in auto)
qed

lemma service_accounted:
  assumes "migrateWorkItemsWithProgressInternal e r already [] = Some (err, items, tr')"
  shows "accounted e already items tr'"
  using assms
proof (cases rule: service_cases)
  case stopped
  then show ?thesis using issues_created_silent [of tr' e "[]"] by (simp add: accounted_def)
next
  case (ran wis s wis' left)
  then obtain new where "wu_result s = map from_status already @ new" "issues_created e (wu_trace s) = map issue_of new"
    unfolding run_ok_def trying_def by blast
  then show ?thesis unfolding accounted_def ran by (intro disjI2 exI [of _ new]) simp
qed


section \<open>The query\<close>

lemma fetch_items_answered:
  assumes "\<And>ids. length ids \<le> 195 \<Longrightarrow> we_items e ids = Inr (map f ids)"
    and "\<forall>ids \<in> set batches. length ids \<le> 195"
  shows "fetch_items e i batches = Inr (map f (concat batches))"
  using assms(2)
proof (induction batches arbitrary: i)
  case (Cons ids batches)
  then show ?case using assms(1) [of ids] by simp
qed simp

lemma query_is_complete_lemma:
  assumes "we_ado_client e = None" and "we_wiql e project wiql = Inr refs"
    and "\<And>ids. length ids \<le> 195 \<Longrightarrow> we_items e ids = Inr (map f ids)"
  shows "queryWorkItems e project wiql = Inr (map f (case refs of None \<Rightarrow> [] | Some rs \<Rightarrow> List.map_filter id rs))"
proof -
  let ?ids = "case refs of None \<Rightarrow> [] | Some rs \<Rightarrow> List.map_filter id rs"
  have "\<forall>ids \<in> set (chunks 195 ?ids). length ids \<le> 195" using chunks_length by fastforce
  from fetch_items_answered [OF assms(3) this] show ?thesis using assms(1,2) by (simp add: queryWorkItems_def)
qed

text \<open>
  The query misses nothing: when Azure DevOps answers requests for at most 195 items, the
  service gets the details of every item of the query's answer, in order, however many there are
  (references without an identifier aside), and never asks for more than 195 at once.
\<close>

theorem query_is_complete:
  assumes "we_ado_client e = None" and "we_wiql e project wiql = Inr refs"
    and "\<And>ids. length ids \<le> 195 \<Longrightarrow> we_items e ids = Inr (map f ids)"
  shows "queryWorkItems e project wiql = Inr (map f (case refs of None \<Rightarrow> [] | Some rs \<Rightarrow> List.map_filter id rs))"
  by (rule query_is_complete_lemma [OF assms])

text \<open>A run in which Azure DevOps answers with the items asked for, once each.\<close>

definition honest_query :: "wi_env \<Rightarrow> bool" where
  "honest_query e \<longleftrightarrow> (\<forall>project wiql refs. we_wiql e project wiql = Inr (Some refs) \<longrightarrow> distinct (List.map_filter id refs))
     \<and> (\<forall>ids items. we_items e ids = Inr items \<longrightarrow> map wi_id items = map Some ids)"

lemma ids_of_map: "map wi_id items = map Some ids \<Longrightarrow> ids_of items = ids"
  by (induction items arbitrary: ids) (auto simp: map_eq_Cons_conv Cons_eq_map_conv)

lemma fetch_items_ids:
  assumes "honest_query e" and "fetch_items e i batches = Inr items"
  shows "ids_of items = concat batches"
  using assms(2)
proof (induction batches arbitrary: i items)
  case (Cons ids batches)
  then obtain some_items more where "we_items e ids = Inr some_items"
      "fetch_items e (i + int (length ids)) batches = Inr more" "items = some_items @ more"
    by (cases "we_items e ids"; cases "fetch_items e (i + int (length ids)) batches") auto
  moreover have "ids_of some_items = ids"
    by (rule ids_of_map) (use calculation(1) assms(1) in \<open>simp add: honest_query_def\<close>)
  ultimately show ?case using Cons.IH by simp
qed simp

lemma query_distinct:
  assumes "honest_query e" and "queryWorkItems e project wiql = Inr wis"
  shows "distinct (ids_of wis)"
proof -
  obtain refs where refs: "we_wiql e project wiql = Inr refs"
      "fetch_items e 0 (chunks 195 (case refs of None \<Rightarrow> [] | Some rs \<Rightarrow> List.map_filter id rs)) = Inr wis"
    using assms(2) by (auto simp: queryWorkItems_def split: option.splits sum.splits)
  then show ?thesis using fetch_items_ids [OF assms(1) refs(2)] assms(1)
    by (auto simp: honest_query_def split: option.splits)
qed

text \<open>Three of the filters of a migration never reach the query, nor anything else.\<close>

theorem some_filters_ignored:
  "buildWIQLQuery (r\<lparr>wr_filters := f\<lparr>wif_iterationPaths := a, wif_tags := b, wif_assignedTo := c\<rparr>\<rparr>)
   = buildWIQLQuery (r\<lparr>wr_filters := f\<rparr>)"
  by (simp add: buildWIQLQuery_def Let_def)

section \<open>What a run leaves behind\<close>

lemma remaining_ids: "ids_of (remaining_items already wis) = filter (\<lambda>i. i \<notin> mwi_sourceID ` set already) (ids_of wis)"
proof (cases "already = []")
  case False
  show ?thesis
    by (induction wis) (auto simp: remaining_items_def False split: option.splits)
qed (simp add: remaining_items_def)

text \<open>
  C20. Every issue is accounted for. When a run of the service that was told of the items
  \<open>already\<close> of earlier runs returns, with an error or without, one of two things has happened.
  Either it discovered items, and then it returns the earlier items followed by exactly one new
  item for each issue that it created at GitHub, in that order, for discovered items in the order of
  discovery. Or it created no issue and returns no items at all, not even the earlier ones; that
  happens only when it stopped early with an error or when the query found nothing. (A run
  that panics, on an issue without a number, does not return.)
\<close>

theorem every_issue_accounted:
  assumes "MigrateWorkItemsWithProgress e organization project team owner repo adoToken githubToken settings filters auth ns already []
    = Some (err, items, tr)"
  defines "answer \<equiv> queryWorkItems e project
    (buildWIQLQuery (wi_request_of organization project team owner repo adoToken githubToken settings filters (PatAuth githubToken)))"
  shows "(\<exists>wis new. answer = Inr wis \<and> wis \<noteq> [] \<and> items = map from_status already @ new
      \<and> map issue_of new = issues_created e tr \<and> subseq (map mwi_sourceID new) (ids_of wis))
    \<or> (items = [] \<and> issues_created e tr = [] \<and> (err \<noteq> None \<or> answer = Inr []))"
proof (cases "service_auth e ns githubToken auth")
  case (Inr a)
  let ?r = "wi_request_of organization project team owner repo adoToken githubToken settings filters a"
  have run: "migrateWorkItemsWithProgressInternal e ?r already [] = Some (err, items, tr)"
    using assms(1) Inr by (simp add: MigrateWorkItemsWithProgress_def)
  have answer: "answer = queryWorkItems e (wr_sourceProject ?r) (buildWIQLQuery ?r)"
    by (simp add: answer_def wi_request_of_def buildWIQLQuery_def Let_def)
  from run show ?thesis
  proof (cases rule: service_cases)
    case stopped
    then show ?thesis using issues_created_silent [of tr e "[]"] answer by auto
  next
    case (ran wis s wis' left)
    then obtain new where new: "wu_result s = map from_status already @ new"
        "issues_created e (wu_trace s) = map issue_of new" "subseq (map mwi_sourceID new) (ids_of wis')"
      unfolding run_ok_def trying_def by blast
    have "subseq (map mwi_sourceID new) (ids_of (remaining_items already wis))"
      using new(3) ran(2) by (simp add: list_emb_prefix)
    also have "subseq \<dots> (ids_of wis)" unfolding remaining_ids by (rule subseq_filter_left)
    finally show ?thesis using new ran answer by auto
  qed
qed (use assms(1) in \<open>auto simp: MigrateWorkItemsWithProgress_def wi_stop_def\<close>)

lemma subseq_distinct: "subseq xs ys \<Longrightarrow> distinct ys \<Longrightarrow> distinct xs"
  by (auto simp: subseq_conv_nths)

lemma subseq_set: "subseq xs ys \<Longrightarrow> set xs \<subseteq> set ys"
  by (auto simp: subseq_conv_nths dest: in_set_nthsD)

text \<open>
  In one run no work item becomes two issues, and none that an earlier run recorded becomes another;
  no item is tried more than twice.
\<close>

theorem no_item_migrated_twice:
  assumes "honest_query e" and "migrateWorkItemsWithProgressInternal e r already [] = Some (err, items, tr)"
  shows "\<exists>new. (items = [] \<or> items = map from_status already @ new) \<and> length new = length (issues_created e tr)
    \<and> distinct (map mwi_sourceID new) \<and> (\<forall>m \<in> set new. mwi_sourceID m \<notin> mwi_sourceID ` set already)
    \<and> (\<exists>wis. queryWorkItems e (wr_sourceProject r) (buildWIQLQuery r) = Inr wis \<and> attempts tr \<le> 2 * length wis \<or> attempts tr = 0)"
  using assms(2)
proof (cases rule: service_cases)
  case stopped
  then show ?thesis using issues_created_silent [of tr e "[]"] by (intro exI [of _ "[]"]) simp
next
  case (ran wis s wis' left)
  from ran(3) obtain new where new: "wu_result s = map from_status already @ new"
      "issues_created e (wu_trace s) = map issue_of new" "subseq (map mwi_sourceID new) (ids_of wis')"
      "attempts (wu_trace s) \<le> 2 * length (ids_of wis')"
    unfolding run_ok_def trying_def by auto
  have all: "ids_of wis' @ ids_of left = filter (\<lambda>i. i \<notin> mwi_sourceID ` set already) (ids_of wis)"
    using remaining_ids [of already wis] by (simp add: ran(2))
  have "distinct (ids_of wis' @ ids_of left)" unfolding all using query_distinct [OF assms(1) ran(1)] by simp
  moreover have "set (ids_of wis') \<subseteq> - mwi_sourceID ` set already"
    using arg_cong [OF all, of set] by auto
  moreover have "length (ids_of wis') \<le> length wis"
  proof -
    have "length (ids_of wis') \<le> length (ids_of wis)" using arg_cong [OF all, of length] length_filter_le
      by (metis add_leD1 length_append)
    also have "\<dots> \<le> length wis" by (simp add: ids_of_def map_filter_def)
    finally show ?thesis .
  qed
  ultimately show ?thesis using new ran subseq_distinct [OF new(3)] subseq_set [OF new(3)]
    by (intro exI [of _ new]) (fastforce simp: ran)
qed


text \<open>
  A run that ends without an error has dealt with every item: its last progress update says 100 percent
  and counts each discovered item, and each item of earlier runs, exactly once as migrated,
  failed or skipped (items without an identifier and those left out because an earlier run
  recorded them are not counted a second time).
\<close>

theorem finished_run_accounts:
  assumes "migrateWorkItemsWithProgressInternal e r already [] = Some (None, items, tr)"
    and "queryWorkItems e (wr_sourceProject r) (buildWIQLQuery r) = Inr wis" and "wis \<noteq> []"
  shows "\<exists>us u. updates_of tr = us @ [u] \<and> pu_percentage u = 100 \<and> pu_itemsDiscovered u = int (length wis)
    \<and> pu_itemsMigrated u = int (length already + length (issues_created e tr)) \<and> 0 \<le> pu_itemsFailed u \<and> 0 \<le> pu_itemsSkipped u
    \<and> pu_itemsMigrated u + pu_itemsFailed u + pu_itemsSkipped u = int (length already + length (ids_of (remaining_items already wis)))"
  using assms(1)
proof (cases rule: service_cases)
  case stopped
  then show ?thesis using assms(2,3) by simp
next
  case (ran wis2 s wis' left)
  then have eq: "wis2 = wis" using assms(2) by simp
  from ran(4) obtain us u where "updates_of tr = us @ [u]" "last_update (int (length wis)) s u" "left = []"
    unfolding eq by auto
  then show ?thesis using ran(2,3) unfolding eq ran run_ok_def trying_def last_update_def
    by (auto dest: arg_cong [of _ _ length])
qed


section \<open>Progress\<close>

text \<open>The percentages sent so far ascend up to at most \<open>p\<close>.\<close>

definition percentages :: "wi_action list \<Rightarrow> int list" where
  "percentages tr = map pu_percentage (updates_of tr)"

definition ascends_to :: "int \<Rightarrow> wi_action list \<Rightarrow> bool" where
  "ascends_to p tr \<longleftrightarrow> sorted (percentages tr) \<and> (\<forall>x \<in> set (percentages tr). 0 \<le> x \<and> x \<le> p)"

lemma percentages_simps [simp]:
  "percentages [] = []" "percentages (tr @ tr') = percentages tr @ percentages tr'"
  "percentages [Progress u] = [pu_percentage u]" "percentages [progress_of step n m p] = [p]"
  "percentages (progress_of step n m p # tr) = p # percentages tr"
  "(\<And>u. a \<noteq> Progress u) \<Longrightarrow> percentages (a # tr) = percentages tr"
  by (simp_all add: percentages_def updates_of_def map_filter_def progress_of_def split: wi_action.splits)

lemma ascends_send:
  "ascends_to p (wu_trace s) \<Longrightarrow> p \<le> q \<Longrightarrow> 0 \<le> q \<Longrightarrow> ascends_to q (wu_trace (send_progress step n q b m s))"
  by (auto simp: ascends_to_def send_progress_def log_action_def sorted_append)

lemma comments_percentages [simp]: "percentages (migrateComments e r wid n tr) = percentages tr"
proof -
  have "percentages (map (\<lambda>t. CreateComment x y n (g t)) ts) = []" for x y g ts by (induction ts) simp_all
  then show ?thesis by (auto simp: migrateComments_def split: sum.splits)
qed

lemma attachments_percentages [simp]: "percentages (migrateAttachments r wi n tr) = percentages tr"
  by (simp add: migrateAttachments_def Let_def)

lemma migrate_percentages [simp]: "percentages (snd (migrateWorkItem e r wid wi tr)) = percentages tr"
  by (simp add: migrateWorkItem_def Let_def split: sum.splits prod.splits)

lemma in_db_percentages:
  "(\<And>m. percentages (f m) = []) \<Longrightarrow> percentages (wu_trace (in_db db f s)) = percentages (wu_trace s)"
  by (cases db) (simp_all add: in_db_def)

lemma item_end_percentages [simp]:
  "percentages (wu_trace (item_failed db wid err s)) = percentages (wu_trace s)"
  "percentages (wu_trace (item_migrated db wid item s)) = percentages (wu_trace s)"
  by (simp_all add: item_failed_def item_migrated_def Let_def in_db_percentages)

lemma try_item_percentages: "try_item e r wid wi s = (x, t) \<Longrightarrow> percentages (wu_trace t) = percentages (wu_trace s)"
  by (cases "migrateWorkItem e r wid wi (wu_trace s)")
    (use migrate_percentages [of e r wid wi "wu_trace s"] in \<open>auto simp: try_item_def\<close>)

lemma work_on_item_percentages [simp]:
  "percentages (wu_trace (work_on_item e r db wid wi s)) = percentages (wu_trace s)"
proof -
  define again where "again = (\<lambda>t. in_db db (\<lambda>m. [DbRateLimit m ''github'' ''secondary'']) t)"
  have "percentages (wu_trace (again t)) = percentages (wu_trace t)" for t
    by (simp add: again_def in_db_percentages)
  then show ?thesis unfolding work_on_item_def again_def [symmetric]
    by (auto split: prod.splits sum.splits dest!: try_item_percentages)
qed

lemma process_items_percentages:
  "process_items e r db batch s = Some t \<Longrightarrow> percentages (wu_trace t) = percentages (wu_trace s)"
proof (induction batch arbitrary: s)
  case (Cons wi batch)
  then obtain u where u: "process_item e r db wi s = Some u" "process_items e r db batch u = Some t"
    by (auto split: option.splits)
  have "percentages (wu_trace u) = percentages (wu_trace s)"
    using u(1) by (auto simp: process_item_def split: option.splits sum.splits)
  then show ?case using Cons.IH [OF u(2)] by simp
qed simp

lemma batch_percentage_bounds:
  assumes fm: "float_model (we_rnd e) conv" and "0 \<le> i" and "i \<le> j" and "j \<le> n" and "0 < n"
  shows "15 \<le> batch_percentage e i n" and "batch_percentage e i n \<le> batch_percentage e j n"
    and "batch_percentage e j n \<le> 85"
proof -
  define q where "q = (\<lambda>i. we_rnd e (of_int i / of_int n))"
  have mono: "x \<le> y \<Longrightarrow> we_rnd e x \<le> we_rnd e y" for x y using fm by (simp add: float_model_def)
  have ends: "we_rnd e 0 = 0" "we_rnd e 1 = 1" "we_rnd e 70 = 70"
    using rnd_int [OF fm, of 0] rnd_int [OF fm, of 1] rnd_int [OF fm, of 70] by simp_all
  have q0: "0 \<le> q i" using mono [of 0 "of_int i / of_int n"] assms ends by (simp add: q_def)
  have qj: "q j \<le> 1" using mono [of "of_int j / of_int n" 1] assms ends by (simp add: q_def)
  have qij: "q i \<le> q j" unfolding q_def by (rule mono) (use assms in \<open>simp add: divide_right_mono\<close>)
  have "0 \<le> we_rnd e (q i * 70)" using mono [of 0 "q i * 70"] q0 ends by simp
  then show "15 \<le> batch_percentage e i n" by (simp add: batch_percentage_def q_def)
  have "we_rnd e (q i * 70) \<le> we_rnd e (q j * 70)" using mono qij by simp
  then show "batch_percentage e i n \<le> batch_percentage e j n"
    unfolding batch_percentage_def q_def by (simp add: floor_mono)
  have "we_rnd e (q j * 70) \<le> 70" using mono [of "q j * 70" 70] qj ends by simp
  then have "\<lfloor>we_rnd e (q j * 70)\<rfloor> \<le> 70" by linarith
  then show "batch_percentage e j n \<le> 85" by (simp add: batch_percentage_def q_def)
qed


lemma run_batches_percentages:
  assumes fm: "float_model (we_rnd e) conv" and "run_batches e r db n m b i batches s = Some (err, t)"
    and "0 \<le> i" and "i + int (length (concat batches)) \<le> n" and "0 < n"
    and "ascends_to p (wu_trace s)" and "p \<le> batch_percentage e i n"
  shows "\<exists>q \<le> max p 85. ascends_to q (wu_trace t)"
  using assms(2-4,6,7)
proof (induction batches arbitrary: s b i p)
  case Nil
  then show ?case by (auto intro: exI [of _ p])
next
  case (Cons batch batches)
  define j where "j = i + int (length batch)"
  have le: "i \<le> j" "j + int (length (concat batches)) \<le> n" "j \<le> n" "0 \<le> j"
    using Cons.prems(2,3) by (simp_all add: j_def)
  note bp = batch_percentage_bounds [OF fm Cons.prems(2) le(1,3) \<open>0 < n\<close>]
  define s1 where "s1 = start_batch e n m (b + 1) i s"
  have s1: "ascends_to (batch_percentage e i n) (wu_trace s1)"
    unfolding s1_def start_batch_def by (rule ascends_send [OF Cons.prems(4,5)]) (use bp in simp)
  show ?case
  proof (cases "getGitHubClient_items e r (wu_trace s1)")
    case (Some err')
    then have "t = s1" using Cons.prems(1) by (auto simp: Let_def s1_def)
    then show ?thesis using s1 bp by (intro exI [of _ "batch_percentage e i n"]) auto
  next
    case None
    then obtain u where u: "process_items e r db batch s1 = Some u"
      using Cons.prems(1) by (auto simp: Let_def s1_def split: option.splits)
    define s2 where "s2 = end_batch e n m (b + 1) j u"
    have "ascends_to (batch_percentage e i n) (wu_trace u)"
      using s1 process_items_percentages [OF u] by (simp add: ascends_to_def)
    then have s2: "ascends_to (batch_percentage e j n) (wu_trace s2)"
      unfolding s2_def end_batch_def by (rule ascends_send) (use bp in simp_all)
    have eq: "(if batches = [] then Some (None, s2) else (case we_wait e (wu_trace s2) of
        Some err \<Rightarrow> Some (Some err, s2)
      | None \<Rightarrow> run_batches e r db n m (b + 1) j batches s2)) = Some (err, t)"
      using Cons.prems(1) None u unfolding s2_def j_def by (simp add: Let_def s1_def)
    show ?thesis
    proof (cases "batches \<noteq> [] \<and> we_wait e (wu_trace s2) = None")
      case True
      then have "run_batches e r db n m (b + 1) j batches s2 = Some (err, t)" using eq by simp
      from Cons.IH [OF this le(4,2) s2 order_refl] obtain q where "q \<le> max (batch_percentage e j n) 85" "ascends_to q (wu_trace t)"
        by blast
      then show ?thesis using bp(3) by (intro exI [of _ q]) auto
    next
      case False
      then have "t = s2" using eq by (cases "we_wait e (wu_trace s2)"; auto split: if_splits)
      then show ?thesis using s2 bp(3) by (intro exI [of _ "batch_percentage e j n"]) auto
    qed
  qed
qed

lemma ascends_upto: "ascends_to p tr \<Longrightarrow> p \<le> q \<Longrightarrow> ascends_to q tr"
  by (fastforce simp: ascends_to_def)

lemma finish_run_ascends:
  assumes "ascends_to p (wu_trace s)" and "p \<le> 85"
  shows "ascends_to 100 (wu_trace (finish_run r db n m s))"
proof -
  define s1 where "s1 = (if wr_preserveRelationships r \<and> wu_result s \<noteq> []
            then send_progress ''Updating Relationships'' n 90 m m s else s)"
  define s2 where "s2 = in_db db (\<lambda>x. [DbComplete x (fst (final_status n (wu_migrated s1) (wu_failed s1)))
    (snd (final_status n (wu_migrated s1) (wu_failed s1)))]) s1"
  have "ascends_to 90 (wu_trace s1)"
    unfolding s1_def using ascends_send [OF assms(1), of 90] ascends_upto [OF assms(1), of 90] assms(2) by simp
  then have "ascends_to 90 (wu_trace s2)" by (simp add: ascends_to_def s2_def in_db_percentages)
  then have "ascends_to 100 (wu_trace (send_progress ''Migration Complete'' n 100 m m s2))"
    by (rule ascends_send) simp_all
  then show ?thesis by (simp add: finish_run_def Let_def case_prod_unfold s1_def s2_def)
qed

lemma run_items_percentages:
  assumes fm: "float_model (we_rnd e) conv" and "run_items e r already n wis tr = Some (err, t)"
    and "ascends_to 15 tr" and "int (length wis) \<le> n" and "0 < n"
  shows "ascends_to 100 (wu_trace t)"
proof -
  define bs where "bs = effective_batch_size r"
  define m where "m = go_div (wrap64 (n + bs - 1)) bs"
  define s where "s = \<lparr>wu_trace = tr, wu_result = map from_status already,
               wu_migrated = int (length already), wu_failed = 0, wu_skipped = 0\<rparr>"
  obtain u where u: "run_batches e r (tracking e r n) n m 0 0 (chunks (nat bs) wis) s = Some (err, u)"
      "t = (if err = None then finish_run r (tracking e r n) n m u else u)"
    using assms(2) by (auto simp: run_items_def Let_def bs_def [symmetric] m_def [symmetric] s_def [symmetric] split: option.splits)
  have "ascends_to 15 (wu_trace s)" using assms(3) by (simp add: s_def)
  moreover have "15 \<le> batch_percentage e 0 n"
    using batch_percentage_bounds(1) [OF fm, of 0 0 n] \<open>0 < n\<close> by simp
  ultimately obtain q where "q \<le> 85" "ascends_to q (wu_trace u)"
    using run_batches_percentages [OF fm u(1)] assms(4,5) by fastforce
  then show ?thesis using u(2) finish_run_ascends ascends_upto [of q _ 100] by simp
qed

text \<open>
  The percentage that users see never goes back and stays between 0 and 100, however the
  run ends (\<open>float64\<close> rounding is monotone and exact on small integers).
\<close>

theorem progress_is_monotone:
  assumes fm: "float_model (we_rnd e) conv"
    and "migrateWorkItemsWithProgressInternal e r already [] = Some (err, items, tr)"
  shows "sorted (percentages tr) \<and> set (percentages tr) \<subseteq> {0..100}"
proof -
  have discover: "ascends_to 100 tr" 
    if run: "discover_and_run e r already tr0 = Some (err, items, tr)" and start: "percentages tr0 = [0, 5]" for tr0
  proof (cases "queryWorkItems e (wr_sourceProject r) (buildWIQLQuery r)")
    case (Inl x)
    then have "tr = tr0 @ [progress_of ''Discovering Work Items'' 0 0 10]"
      using run by (simp add: discover_and_run_def Let_def wi_stop_def)
    then show ?thesis using start by (simp add: ascends_to_def)
  next
    case (Inr wis)
    define tr1 where "tr1 = tr0 @ [progress_of ''Discovering Work Items'' 0 0 10,
      progress_of ''Work Items Discovered'' (int (length wis)) (int (length already)) 15]"
    have 15: "ascends_to 15 tr1" using start by (simp add: ascends_to_def tr1_def)
    show ?thesis
    proof (cases "wis = []")
      case True
      then have "tr = tr1 @ [progress_of ''Completed - No Items Found'' 0 0 100]"
        using run Inr by (simp add: discover_and_run_def Let_def tr1_def)
      then show ?thesis using start by (simp add: ascends_to_def tr1_def)
    next
      case False
      then obtain s where s: "run_items e r already (int (length wis)) (remaining_items already wis) tr1 = Some (err, s)"
          "tr = wu_trace s"
        using run Inr by (auto simp: discover_and_run_def Let_def tr1_def)
      show ?thesis unfolding s(2)
        by (rule run_items_percentages [OF fm s(1) 15]) (use False in \<open>simp_all add: remaining_items_def\<close>)
    qed
  qed
  have "ascends_to 100 tr"
    using assms(2) discover [of "[progress_of ''Connecting to Azure DevOps'' 0 0 0, progress_of ''Connecting to GitHub'' 0 0 5]"]
    by (auto simp: migrateWorkItemsWithProgressInternal_def Let_def wi_stop_def ascends_to_def
        split: if_splits option.splits sum.splits)
  then show ?thesis by (auto simp: ascends_to_def)
qed


section \<open>Runs that end\<close>

definition rows_have_issues :: "wi_env \<Rightarrow> bool" where
  "rows_have_issues e \<longleftrightarrow> (\<forall>tr m i. we_is_migrated e tr m i \<noteq> Inr (Some None))"

lemma process_items_returns: "rows_have_issues e \<Longrightarrow> process_items e r db batch s \<noteq> None"
proof (induction batch arbitrary: s)
  case (Cons wi batch)
  have "process_item e r db wi s \<noteq> None"
    using Cons.prems by (auto simp: process_item_def rows_have_issues_def split: option.splits sum.splits)
  then show ?case using Cons by auto
qed simp

lemma run_batches_returns: "rows_have_issues e \<Longrightarrow> run_batches e r db n m b i batches s \<noteq> None"
proof (induction batches arbitrary: b i s)
  case (Cons batch batches)
  obtain u where "process_items e r db batch (start_batch e n m (b + 1) i s) = Some u"
    using process_items_returns [OF Cons.prems] by blast
  then show ?case using Cons by (auto simp: Let_def split: option.splits)
qed simp

lemma run_items_returns: "rows_have_issues e \<Longrightarrow> run_items e r already n wis tr \<noteq> None"
  using run_batches_returns [of e r "tracking e r n"] by (auto simp: run_items_def Let_def split: option.splits)

lemma internal_returns: "rows_have_issues e \<Longrightarrow> migrateWorkItemsWithProgressInternal e r already tr \<noteq> None"
  using run_items_returns [of e r already]
  by (auto simp: migrateWorkItemsWithProgressInternal_def discover_and_run_def Let_def wi_stop_def split: option.splits sum.splits)

lemma service_returns:
  "rows_have_issues e \<Longrightarrow> MigrateWorkItemsWithProgress e organization project team owner repo adoToken githubToken
     settings filters auth ns already tr \<noteq> None"
  using internal_returns [of e]
  by (auto simp: MigrateWorkItemsWithProgress_def wi_stop_def split: sum.splits)

lemma run_batches_no_error:
  assumes "\<And>tr. getGitHubClient_items e r tr = None" and "\<And>tr. we_wait e tr = None" and "rows_have_issues e"
  shows "\<exists>t. run_batches e r db n m b i batches s = Some (None, t)"
proof (induction batches arbitrary: b i s)
  case (Cons batch batches)
  obtain u where "process_items e r db batch (start_batch e n m (b + 1) i s) = Some u"
    using process_items_returns [OF assms(3)] by blast
  then show ?case using Cons.IH assms(1,2) by (simp add: Let_def)
qed simp

lemma run_items_no_error:
  assumes "\<And>tr. getGitHubClient_items e r tr = None" and "\<And>tr. we_wait e tr = None" and "rows_have_issues e"
  shows "\<exists>t. run_items e r already n wis tr = Some (None, t)"
proof -
  obtain t where "run_batches e r (tracking e r n) n (go_div (wrap64 (n + effective_batch_size r - 1)) (effective_batch_size r)) 0 0
      (chunks (nat (effective_batch_size r)) wis) \<lparr>wu_trace = tr, wu_result = map from_status already,
         wu_migrated = int (length already), wu_failed = 0, wu_skipped = 0\<rparr> = Some (None, t)"
    using run_batches_no_error [OF assms] by blast
  then show ?thesis by (simp add: run_items_def Let_def)
qed

lemma internal_no_error:
  assumes "wr_githubAuth r = PatAuth x" and "wr_githubToken r \<noteq> []" and "wr_adoToken r \<noteq> []" and "wr_targetRepository r \<noteq> []"
    and "\<And>tr. we_repo_exists e tr (wr_githubToken r) (wr_targetOwner r) (wr_targetRepository r) = Inr True"
    and "queryWorkItems e (wr_sourceProject r) (buildWIQLQuery r) = Inr wis"
    and "\<And>tr. we_wait e tr = None" and "rows_have_issues e"
  shows "\<exists>items tr. migrateWorkItemsWithProgressInternal e r already [] = Some (None, items, tr)"
proof -
  have client: "getGitHubClient_items e r tr = None" for tr
    using assms(1,2) by (simp add: getGitHubClient_items_def)
  define n where "n = int (length wis)"
  obtain t where "run_items e r already n (remaining_items already wis)
      [progress_of ''Connecting to Azure DevOps'' 0 0 0, progress_of ''Connecting to GitHub'' 0 0 5,
       progress_of ''Discovering Work Items'' 0 0 10,
       progress_of ''Work Items Discovered'' n (int (length already)) 15] = Some (None, t)"
    using run_items_no_error [OF client assms(7,8)] by blast
  then show ?thesis using assms client
    by (simp add: migrateWorkItemsWithProgressInternal_def discover_and_run_def Let_def n_def)
qed

text \<open>
  Nothing that happens to single items stops a run: with a token, an existing repository, an
  answered query and undisturbed waiting it ends without an error, whatever GitHub answers to
  the issues and comments and Azure DevOps to the requests for comments.
\<close>

theorem items_do_not_stop_a_run:
  assumes "wr_githubAuth r = PatAuth x" and "wr_githubToken r \<noteq> []" and "wr_adoToken r \<noteq> []" and "wr_targetRepository r \<noteq> []"
    and "\<And>tr. we_repo_exists e tr (wr_githubToken r) (wr_targetOwner r) (wr_targetRepository r) = Inr True"
    and "queryWorkItems e (wr_sourceProject r) (buildWIQLQuery r) = Inr wis"
    and "\<And>tr. we_wait e tr = None" and "rows_have_issues e"
  shows "\<exists>items tr. migrateWorkItemsWithProgressInternal e r already [] = Some (None, items, tr)"
  by (rule internal_no_error [OF assms])

section \<open>A sample run\<close>

definition sample_work_item :: "int \<Rightarrow> work_item" where
  "sample_work_item i = \<lparr>wi_id = Some i, wi_fields = Some [(''System.Title'', FieldText ''t''), (''System.State'', FieldText ''Done'')],
     wi_relations = None\<rparr>"

text \<open>Two items; GitHub creates an issue for every attempt but the first.\<close>

definition sample_items_env :: wi_env where
  "sample_items_env = \<lparr>we_secret = (\<lambda>ns n. Inr Map.empty), we_app_client = (\<lambda>tr i j key. None),
     we_repo_exists = (\<lambda>tr t ow n. Inr True), we_ado_client = None,
     we_wiql = (\<lambda>p q. Inr (Some [Some 7, None, Some 8])), we_items = (\<lambda>ids. Inr (map sample_work_item ids)),
     we_comments = (\<lambda>tr i. Inr []),
     we_create_issue = (\<lambda>tr a. if attempts tr = 0 then Inl (PlainError ''500'') else Inr (int (attempts tr), ''url'')),
     we_db = (\<lambda>name n. Some ''m''), we_is_migrated = (\<lambda>tr m i. Inr None),
     we_now = (\<lambda>tr. \<lparr>gt_instant = 0, gt_offset = 0, gt_zone = ''UTC''\<rparr>), we_wait = (\<lambda>tr. None), we_rnd = id\<rparr>"

definition no_filters :: wi_filters where
  "no_filters = \<lparr>wif_types = [], wif_states = [], wif_dateRange = None, wif_areaPaths = [], wif_iterationPaths = [],
     wif_tags = [], wif_assignedTo = [], wif_wiqlQuery = []\<rparr>"

definition sample_request :: wi_request where
  "sample_request = \<lparr>wr_sourceOrganization = ''org'', wr_sourceProject = ''p'', wr_targetOwner = ''o'', wr_targetRepository = ''r'',
     wr_githubAuth = PatAuth ''t'', wr_typeMapping = [], wr_stateMapping = [], wr_includeHistory = True,
     wr_includeAttachments = True, wr_preserveRelationships = True, wr_includeTags = True, wr_combineComments = True,
     wr_batchSize = 1, wr_adoToken = ''a'', wr_githubToken = ''t'', wr_filters = no_filters\<rparr>"

lemma sample_env_facts:
  "rows_have_issues sample_items_env" "getGitHubClient_items sample_items_env sample_request tr = None"
  "we_wait sample_items_env tr = None" "float_model (we_rnd sample_items_env) floor"
  by (simp_all add: rows_have_issues_def sample_items_env_def getGitHubClient_items_def sample_request_def float_model_exact
      del: id_apply)

lemma sample_query:
  "queryWorkItems sample_items_env project wiql = Inr [sample_work_item 7, sample_work_item 8]"
  using query_is_complete_lemma [of sample_items_env project wiql "Some [Some 7, None, Some 8]" sample_work_item]
  by (simp add: sample_items_env_def map_filter_def)

lemma sample_honest: "honest_query sample_items_env"
  by (auto simp: honest_query_def sample_items_env_def map_filter_def sample_work_item_def comp_def)

lemma sample_items_run: "\<exists>items tr. migrateWorkItemsWithProgressInternal sample_items_env sample_request [] [] = Some (None, items, tr)"
  by (rule internal_no_error [OF _ _ _ _ _ sample_query sample_env_facts(3,1)])
    (simp_all add: sample_request_def sample_items_env_def)

definition sample_settings :: wi_settings where
  "sample_settings = \<lparr>wis_typeMapping = [], wis_stateMapping = [], wis_includeHistory = None, wis_includeAttachments = None,
     wis_preserveRelationships = None, wis_includeTags = None, wis_combineComments = None, wis_batchSize = 1,
     wis_batchDelaySeconds = 0, wis_perItemDelayMs = 0, wis_timeoutMinutes = 0, wis_progressUpdateIntervalSeconds = 0,
     wis_fieldMapping = []\<rparr>"

definition sample_answer :: wi_outcome where
  "sample_answer = MigrateWorkItemsWithProgress sample_items_env ''org'' ''p'' [] ''o'' ''r'' ''a'' ''g'' sample_settings
     no_filters \<lparr>gh_tokenRef = None, gh_appAuth = None, gh_token = []\<rparr> ''ns'' [] []"

lemma sample_answered:
  "map_option (\<lambda>(err, items, tr). (err, map mwi_sourceID items, issues_created sample_items_env tr)) sample_answer
   = Some (None, [8], [(1, ''url'')])"
  by code_simp

section \<open>Witnesses\<close>

theorem every_issue_accounted_witness:
  "\<exists>items tr new. sample_answer = Some (None, items, tr) \<and> items = new
     \<and> map issue_of new = [(1, ''url'')] \<and> map mwi_sourceID new = [8]"
proof -
  obtain items tr where run: "sample_answer = Some (None, items, tr)" and ids: "map mwi_sourceID items = [8]"
    and issues: "issues_created sample_items_env tr = [(1, ''url'')]"
  proof (cases sample_answer)
    case (Some x)
    obtain err items tr where "x = (err, items, tr)" by (cases x) blast
    with Some sample_answered that show thesis by auto
  qed (use sample_answered in simp)
  note every_issue_accounted [OF run [unfolded sample_answer_def], unfolded sample_query issues]
  then have "\<exists>new. items = map from_status [] @ new \<and> map issue_of new = [(1, ''url'')]"
    by (elim disjE exE conjE) (intro exI conjI, assumption+, simp_all only: list.distinct)
  then obtain new where new: "items = map from_status [] @ new" "map issue_of new = [(1, ''url'')]" by (elim exE conjE)
  show ?thesis by (intro exI [of _ items] exI [of _ tr] exI [of _ new] conjI run new(2)) (use new ids in simp_all)
qed

theorem query_is_complete_witness:
  "queryWorkItems sample_items_env ''p'' ''q'' = Inr [sample_work_item 7, sample_work_item 8]"
  using query_is_complete [of sample_items_env "''p''" "''q''" "Some [Some 7, None, Some 8]" sample_work_item]
  by (simp add: sample_items_env_def map_filter_def)

theorem no_item_migrated_twice_witness:
  "\<exists>items tr new. migrateWorkItemsWithProgressInternal sample_items_env sample_request [] [] = Some (None, items, tr)
     \<and> (items = [] \<or> items = new) \<and> distinct (map mwi_sourceID (new :: service_work_item list))"
proof -
  obtain items tr where run: "migrateWorkItemsWithProgressInternal sample_items_env sample_request [] [] = Some (None, items, tr)"
    using sample_items_run by blast
  from no_item_migrated_twice [OF sample_honest run] show ?thesis using run by auto
qed

theorem finished_run_accounts_witness:
  "\<exists>items tr us u. migrateWorkItemsWithProgressInternal sample_items_env sample_request [] [] = Some (None, items, tr)
     \<and> updates_of tr = us @ [u] \<and> pu_itemsMigrated u + pu_itemsFailed u + pu_itemsSkipped u = 2"
proof -
  obtain items tr where run: "migrateWorkItemsWithProgressInternal sample_items_env sample_request [] [] = Some (None, items, tr)"
    using sample_items_run by blast
  have "length (ids_of (remaining_items [] [sample_work_item 7, sample_work_item 8])) = 2"
    by (simp add: remaining_items_def sample_work_item_def)
  with finished_run_accounts [OF run sample_query] show ?thesis using run by auto
qed

theorem progress_is_monotone_witness:
  "\<exists>items tr. migrateWorkItemsWithProgressInternal sample_items_env sample_request [] [] = Some (None, items, tr)
     \<and> sorted (percentages tr)"
proof -
  obtain items tr where run: "migrateWorkItemsWithProgressInternal sample_items_env sample_request [] [] = Some (None, items, tr)"
    using sample_items_run by blast
  from progress_is_monotone [OF sample_env_facts(4) run] show ?thesis using run by blast
qed

theorem items_do_not_stop_a_run_witness:
  "\<exists>items tr. migrateWorkItemsWithProgressInternal sample_items_env sample_request [] [] = Some (None, items, tr)"
  by (rule items_do_not_stop_a_run [OF _ _ _ _ _ sample_query sample_env_facts(3,1)])
    (simp_all add: sample_request_def sample_items_env_def)

end
