(* ===== verification/WorkItemLives.thy ===== *)
theory WorkItemLives
  imports WorkItemRuns
begin

text \<open>
  The life of a WorkItemMigration (\<open>internal/controller/workitemmigration_controller.go\<close>): the
  events of its world are reconciliations, each in an environment of its own, the end of a
  background run, edits by users and restarts of the operator, which kill the runs. A run is one
  event here; the reconciliations that happen meanwhile find the migration Running and leave it
  alone, which \<open>wi_ok\<close> includes.
\<close>

section \<open>Writing the status\<close>

abbreviation wi_st :: "wi_migration \<Rightarrow> wi_status" where "wi_st \<equiv> wm_status"
abbreviation wi_phase :: "wi_migration \<Rightarrow> migration_phase" where "wi_phase m \<equiv> wms_phase (wm_status m)"

text \<open>
  The server ignores the status in a write of the object, names never change, and no other
  client writes the status. Rows of the tracking database that record a success have an issue.
\<close>

definition wi_env_ok :: "wi_kube \<Rightarrow> bool" where
  "wi_env_ok k \<longleftrightarrow>
     (\<forall>n old new x. k_update k n old new = Inr x \<longrightarrow> wi_st x = wi_st old \<and> migration_key x = migration_key old)
     \<and> (\<forall>n x y. wk_get k n x = Inr y \<longrightarrow> wi_st y = wi_st x \<and> migration_key y = migration_key x)
     \<and> rows_have_issues (wk_service k)"

lemma migration_key_status [simp]:
  "migration_key (m\<lparr>wm_status := st\<rparr>) = migration_key m" "migration_key (on_wi f m) = migration_key m"
  "migration_key (wi_step x m) = migration_key m" "migration_key (on_wi_progress g m) = migration_key m"
  "migration_key (m\<lparr>wm_spec := sp\<rparr>) = migration_key m"
  by (simp_all add: migration_key_def on_wi_def wi_step_def on_wi_progress_def)

text \<open>Two states of which the second has the object's and the server's status, and the same goroutines.\<close>

definition same_runs :: "wi_state \<Rightarrow> wi_state \<Rightarrow> bool" where
  "same_runs s t \<longleftrightarrow> wt_active t = wt_active s \<and> wt_spawned t = wt_spawned s
     \<and> migration_key (obj t) = migration_key (obj s) \<and> migration_key (stored t) = migration_key (stored s)"

lemma same_runs_refl [simp]: "same_runs s s"
  by (simp add: same_runs_def)

lemma same_runs_trans: "same_runs s t \<Longrightarrow> same_runs t u \<Longrightarrow> same_runs s u"
  by (simp add: same_runs_def)

definition wrote :: "wi_state \<Rightarrow> wi_state \<Rightarrow> bool" where
  "wrote s t \<longleftrightarrow> same_runs s t \<and> wi_st (obj t) = wi_st (obj s) \<and> wi_st (stored t) \<in> {wi_st (stored s), wi_st (obj s)}"

lemma update_status_wrote:
  assumes "migration_key (obj s) = migration_key (stored s)"
  shows "wrote s (snd (wi_update_status k s))"
  using assms by (simp add: wi_update_status_def wrote_def same_runs_def Let_def split: option.splits)

lemma retry_wrote:
  assumes k: "wi_env_ok k" and key: "migration_key (obj s) = migration_key (stored s)"
  shows "wrote s (snd (retry_status_update k n s))"
  using key
proof (induction n arbitrary: s)
  case 0
  then show ?case by (simp add: wrote_def)
next
  case (Suc n)
  show ?case
  proof (cases "k_status k (calls s) (obj s)")
    case None
    then show ?thesis using Suc.prems by (simp add: wi_update_status_def wrote_def same_runs_def Let_def)
  next
    case (Some err)
    define s' where "s' = s\<lparr>calls := Suc (calls s)\<rparr>"
    have w: "wi_update_status k s = (Some err, s')" using Some by (simp add: wi_update_status_def s'_def)
    show ?thesis
    proof (cases "is_conflict err")
      case False
      then show ?thesis by (simp add: w) (simp add: s'_def wrote_def same_runs_def)
    next
      case True
      show ?thesis
      proof (cases "wk_get k (calls s') (stored s')")
        case (Inl err')
        then show ?thesis using True by (simp add: w wi_fetch_def) (simp add: s'_def wrote_def same_runs_def)
      next
        case (Inr x)
        define t where "t = s'\<lparr>calls := Suc (calls s'), stored := x, obj := x\<lparr>wm_status := wi_st (obj s)\<rparr>\<rparr>"
        have x: "wi_st x = wi_st (stored s)" "migration_key x = migration_key (stored s)"
          using Inr k by (auto simp: wi_env_ok_def s'_def)
        have "snd (retry_status_update k (Suc n) s) = snd (retry_status_update k n t)"
          using True Inr by (simp add: w wi_fetch_def) (simp add: t_def s'_def)
        moreover have "wrote t (snd (retry_status_update k n t))" by (rule Suc.IH) (simp add: t_def)
        ultimately show ?thesis using x Suc.prems
          by (auto simp: wrote_def same_runs_def t_def s'_def)
      qed
    qed
  qed
qed

lemma retry_wrote5: "wi_env_ok k \<Longrightarrow> migration_key (obj s) = migration_key (stored s) \<Longrightarrow> wrote s (snd (statusUpdateWithRetry k s))"
  unfolding statusUpdateWithRetry_def by (rule retry_wrote)

section \<open>A background run\<close>

text \<open>During a run of a migration with items \<open>ms\<close> on record.\<close>

definition in_run :: "migrated_work_item list \<Rightarrow> wi_state \<Rightarrow> bool" where
  "in_run ms s \<longleftrightarrow> migration_key (obj s) = migration_key (stored s)
     \<and> wi_phase (obj s) = PhaseRunning \<and> wi_phase (stored s) = PhaseRunning
     \<and> wms_migratedItems (wi_st (obj s)) = ms \<and> wms_migratedItems (wi_st (stored s)) = ms"

lemma in_run_wrote: "in_run ms s \<Longrightarrow> wrote s t \<Longrightarrow> in_run ms t \<and> same_runs s t"
  by (auto simp: in_run_def wrote_def same_runs_def)

lemma read_clock_rest [simp]:
  "wt_active (snd (read_clock k s)) = wt_active s" "wt_spawned (snd (read_clock k s)) = wt_spawned s"
  "wt_calls (snd (read_clock k s)) = wt_calls s"
  by (simp_all add: read_clock_def)

lemma emit_rest [simp]:
  "wt_active (emit x s) = wt_active s" "wt_spawned (emit x s) = wt_spawned s" "wt_calls (emit x s) = wt_calls s"
  by (simp_all add: emit_def)

lemma modify_rest [simp]:
  "wt_active (modify f s) = wt_active s" "wt_spawned (modify f s) = wt_spawned s" "wt_calls (modify f s) = wt_calls s"
  by (simp_all add: modify_def)

lemma in_run_step:
  assumes "wi_env_ok k" and "in_run ms s"
  shows "in_run ms (snd (statusUpdateWithRetry k (modify (wi_step x) s))) \<and> same_runs s (snd (statusUpdateWithRetry k (modify (wi_step x) s)))"
proof -
  have "in_run ms (modify (wi_step x) s)" "same_runs s (modify (wi_step x) s)"
    using assms(2) by (simp_all add: in_run_def same_runs_def)
  with in_run_wrote [OF this(1) retry_wrote5 [OF assms(1)]] show ?thesis
    by (simp add: in_run_def) (metis same_runs_trans)
qed

lemma callback_in_run:
  assumes k: "wi_env_ok k" and run: "in_run ms s" and eq: "wi_progressCallback k u (t0, s) = (t1, t)"
  shows "in_run ms t \<and> same_runs s t"
proof -
  define s1 where "s1 = snd (read_clock k s)"
  define s2 where "s2 = snd (read_clock k s1)"
  have clocks: "in_run ms s1" "in_run ms s2" "same_runs s s1" "same_runs s s2"
    using run by (simp_all add: in_run_def same_runs_def s1_def s2_def)
  have "t = s1 \<or> t = snd (case wi_fetch k s2 of (Inl err, s) \<Rightarrow> ((), s)
      | (Inr current, s) \<Rightarrow> ((), (snd (statusUpdateWithRetry k (s\<lparr>obj := show_update u current\<rparr>)))\<lparr>obj := obj s\<rparr>))"
    using eq by (auto simp: wi_progressCallback_def case_prod_unfold s1_def s2_def split: if_splits option.splits sum.splits)
  then show ?thesis
  proof
    assume t: "t = snd (case wi_fetch k s2 of (Inl err, s) \<Rightarrow> ((), s)
      | (Inr current, s) \<Rightarrow> ((), (snd (statusUpdateWithRetry k (s\<lparr>obj := show_update u current\<rparr>)))\<lparr>obj := obj s\<rparr>))"
    show ?thesis
    proof (cases "wk_get k (calls s2) (stored s2)")
      case (Inl err)
      then have "t = s2\<lparr>calls := Suc (calls s2)\<rparr>" using t by (simp add: wi_fetch_def)
      then show ?thesis using clocks(2,4) by (auto simp: in_run_def same_runs_def)
    next
      case (Inr x)
      define v where "v = s2\<lparr>calls := Suc (calls s2), stored := x, obj := show_update u x\<rparr>"
      have x: "wi_st x = wi_st (stored s2)" "migration_key x = migration_key (stored s2)"
        using Inr k by (auto simp: wi_env_ok_def)
      have v: "in_run ms v" using clocks(2) x by (simp add: in_run_def v_def show_update_def)
      have "wrote v (snd (statusUpdateWithRetry k v))" by (rule retry_wrote5 [OF k]) (use v in \<open>simp add: in_run_def\<close>)
      from in_run_wrote [OF v this] have w: "in_run ms (snd (statusUpdateWithRetry k v))" "same_runs v (snd (statusUpdateWithRetry k v))"
        by simp_all
      have "t = (snd (statusUpdateWithRetry k v))\<lparr>obj := obj s2\<rparr>" using t Inr by (simp add: wi_fetch_def v_def)
      then show ?thesis using w clocks(2,4) x by (auto simp: in_run_def same_runs_def v_def)
    qed
  qed (use clocks in simp)
qed

lemma apply_updates_in_run:
  assumes k: "wi_env_ok k" and run: "in_run ms s"
  shows "in_run ms (apply_updates k tr s) \<and> same_runs s (apply_updates k tr s)"
proof -
  have "in_run ms (snd (fold (wi_progressCallback k) us (t0, v))) \<and> same_runs s (snd (fold (wi_progressCallback k) us (t0, v)))"
    if "in_run ms v" "same_runs s v" for us t0 v
    using that
  proof (induction us arbitrary: t0 v)
    case (Cons u us)
    obtain t1 w where cb: "wi_progressCallback k u (t0, v) = (t1, w)" by fastforce
    from callback_in_run [OF k Cons.prems(1) cb] Cons.IH [of w t1] Cons.prems(2) same_runs_trans show ?case by (simp add: cb)
  qed simp
  from this [OF run same_runs_refl] show ?thesis by (simp add: apply_updates_def)
qed


text \<open>What \<open>addIssuesToProject\<close> does leaves the migration alone.\<close>

lemma add_issues_frame:
  "obj (snd (addIssuesToProject k token items s)) = obj s" "stored (snd (addIssuesToProject k token items s)) = stored s"
  "same_runs s (snd (addIssuesToProject k token items s))"
  by (auto simp: addIssuesToProject_def Let_def wi_call_def same_runs_def split: sum.splits prod.splits)

lemma add_to_project_in_run:
  assumes k: "wi_env_ok k" and run: "in_run ms s"
  shows "in_run ms (add_to_project k token items s) \<and> same_runs s (add_to_project k token items s)"
proof (cases "wtg_projectRef (wp_target (wm_spec (obj s))) = []")
  case False
  define s1 where "s1 = snd (statusUpdateWithRetry k (modify (wi_step ''Adding Issues to Project'') s))"
  have s1: "in_run ms s1" "same_runs s s1" using in_run_step [OF k run] by (simp_all add: s1_def)
  obtain fresh where "add_to_project k token items s = snd (addIssuesToProject k fresh items s1)"
    using False by (simp add: add_to_project_def Let_def s1_def)
  then show ?thesis using s1 add_issues_frame same_runs_trans [OF s1(2)] by (simp add: in_run_def)
qed (simp add: add_to_project_def run)

text \<open>What a run leaves: still Running, Failed with a reason, or Completed with all its items on record.\<close>

definition finished_status :: "wi_status \<Rightarrow> bool" where
  "finished_status st \<longleftrightarrow> wg_percentage (wms_progress st) = 100 \<and> wg_itemsFailed (wms_progress st) = 0
     \<and> wg_itemsMigrated (wms_progress st) = int (length (wms_migratedItems st))
     \<and> wg_itemsDiscovered (wms_progress st) = int (length (wms_migratedItems st))
     \<and> wms_completionTime st \<noteq> None \<and> wms_statistics st \<noteq> None"

definition run_left :: "migrated_work_item list \<Rightarrow> wi_status \<Rightarrow> bool" where
  "run_left ms st \<longleftrightarrow>
     wms_phase st = PhaseRunning \<and> wms_migratedItems st = ms
     \<or> wms_phase st = PhaseFailed \<and> wms_migratedItems st = ms \<and> wms_errorMessage st \<noteq> []
     \<or> wms_phase st = PhaseCompleted \<and> finished_status st"

lemma fail_run_left:
  assumes k: "wi_env_ok k" and run: "in_run ms s" and "what \<noteq> []"
  shows "run_left ms (wi_st (stored (fail_run k what err s))) \<and> same_runs s (fail_run k what err s)"
proof -
  define t where "t = modify (on_wi (\<lambda>st. st\<lparr>wms_phase := PhaseFailed, wms_errorMessage := what @ '': '' @ err_text err\<rparr>)) s"
  have "wrote t (snd (statusUpdateWithRetry k t))"
    by (rule retry_wrote5 [OF k]) (use run in \<open>simp add: t_def in_run_def\<close>)
  then show ?thesis using run
    by (auto simp: fail_run_def t_def wrote_def run_left_def in_run_def same_runs_def)
qed

lemma complete_run_left:
  assumes k: "wi_env_ok k" and run: "in_run ms s"
  shows "run_left ms (wi_st (stored (complete_run k items s))) \<and> same_runs s (complete_run k items s)"
proof -
  define s1 where "s1 = snd (read_clock k s)"
  define s2 where "s2 = modify (on_wi (wi_completed_status (fst (read_clock k s)) items)) s1"
  define t where "t = set_duration k s2"
  have s2: "same_runs s s2" "stored s2 = stored s" "wi_phase (obj s2) = PhaseCompleted" "finished_status (wi_st (obj s2))"
    using run by (simp_all add: s2_def s1_def same_runs_def wi_completed_status_def finished_status_def Let_def)
  have t: "same_runs s2 t" "stored t = stored s2" "wi_phase (obj t) = wi_phase (obj s2)"
      "finished_status (wi_st (obj s2)) \<Longrightarrow> finished_status (wi_st (obj t))"
    by (auto simp: t_def set_duration_def same_runs_def finished_status_def case_prod_unfold split: option.splits)
  have "wrote t (snd (statusUpdateWithRetry k t))"
    by (rule retry_wrote5 [OF k]) (use run s2 t in \<open>simp add: in_run_def same_runs_def\<close>)
  moreover have "complete_run k items s = emit (Event EventNormal ''MigrationCompleted'' ''Work item migration completed successfully'')
      (snd (statusUpdateWithRetry k t))"
    by (simp add: complete_run_def case_prod_unfold t_def s2_def s1_def)
  ultimately show ?thesis using run s2 t
    by (auto simp: wrote_def run_left_def in_run_def same_runs_def)
qed

lemma run_with_tokens_left:
  assumes k: "wi_env_ok k" and run: "in_run ms s"
  shows "\<exists>t. run_with_tokens k adoToken githubToken s = Some t \<and> run_left ms (wi_st (stored t)) \<and> same_runs s t"
proof -
  define s1 where "s1 = snd (statusUpdateWithRetry k (modify (wi_step ''Discovering Work Items'') s))"
  have s1: "in_run ms s1" "same_runs s s1" using in_run_step [OF k run] by (simp_all add: s1_def)
  have "rows_have_issues ((wk_service k)\<lparr>we_secret := k_secret k\<rparr>)"
    using k by (simp add: wi_env_ok_def rows_have_issues_def)
  then obtain err items tr where o: "run_service k adoToken githubToken (obj s1) = Some (err, items, tr)"
    using service_returns unfolding run_service_def Let_def by (metis not_None_eq prod_cases3)
  define s2 where "s2 = apply_updates k tr s1"
  have s2: "in_run ms s2" "same_runs s1 s2" using apply_updates_in_run [OF k s1(1)] by (simp_all add: s2_def)
  show ?thesis
  proof (cases err)
    case (Some x)
    then have "run_with_tokens k adoToken githubToken s = Some (fail_run k ''Migration failed'' x s2)"
      using o by (simp add: run_with_tokens_def Let_def s1_def [symmetric] s2_def)
    moreover have "run_left ms (wi_st (stored (fail_run k ''Migration failed'' x s2)))" "same_runs s2 (fail_run k ''Migration failed'' x s2)"
      using fail_run_left [OF k s2(1), of "''Migration failed''" x] by simp_all
    ultimately show ?thesis using same_runs_trans [OF same_runs_trans [OF s1(2) s2(2)]] by blast
  next
    case None
    define s3 where "s3 = add_to_project k githubToken items s2"
    have s3: "in_run ms s3" "same_runs s2 s3" using add_to_project_in_run [OF k s2(1)] by (simp_all add: s3_def)
    have "run_with_tokens k adoToken githubToken s = Some (complete_run k items s3)"
      using o None by (simp add: run_with_tokens_def Let_def s1_def [symmetric] s2_def s3_def)
    moreover have "run_left ms (wi_st (stored (complete_run k items s3)))" "same_runs s3 (complete_run k items s3)"
      using complete_run_left [OF k s3(1)] by simp_all
    ultimately show ?thesis using same_runs_trans [OF same_runs_trans [OF same_runs_trans [OF s1(2) s2(2)] s3(2)]] by blast
  qed
qed

lemma performMigration_left:
  assumes k: "wi_env_ok k" and run: "in_run ms s"
  shows "\<exists>t. performMigration k s = Some t \<and> run_left ms (wi_st (stored t))
    \<and> migration_key (stored t) = migration_key (stored s) \<and> wt_spawned t = wt_spawned s
    \<and> wt_active t = removeAll (migration_key (stored s)) (wt_active s)"
proof -
  have key: "migration_key (obj s) = migration_key (stored s)" using run by (simp add: in_run_def)
  show ?thesis
  proof (cases "wk_get k (calls s) (stored s)")
    case (Inl err)
    then show ?thesis using run key by (simp add: performMigration_def wi_fetch_def run_left_def in_run_def)
  next
    case (Inr x)
    define v where "v = s\<lparr>calls := Suc (calls s), stored := x, obj := x\<rparr>"
    have x: "wi_st x = wi_st (stored s)" "migration_key x = migration_key (stored s)"
      using Inr k by (auto simp: wi_env_ok_def)
    then have v: "in_run ms v" using run by (simp add: in_run_def v_def)
    have p: "performMigration k s = map_option (\<lambda>s. s\<lparr>wt_active := removeAll (migration_key (stored v)) (wt_active s)\<rparr>) (run_fetched k v)"
      using Inr key x by (simp add: performMigration_def wi_fetch_def v_def Let_def)
    have "\<exists>t. run_fetched k v = Some t \<and> run_left ms (wi_st (stored t)) \<and> same_runs v t"
    proof (cases "wi_getAzureDevOpsToken k (obj v)")
      case (Inl err)
      then show ?thesis using fail_run_left [OF k v, of "''Failed to get Azure DevOps token''" err] by (simp add: run_fetched_def)
    next
      case (Inr adoToken)
      show ?thesis
      proof (cases "wi_getGitHubToken k (obj v) v")
        case (Inl err)
        then show ?thesis using Inr fail_run_left [OF k v, of "''Failed to get GitHub token''" err] by (simp add: run_fetched_def)
      next
        case (Inr githubToken)
        then show ?thesis using \<open>_ = Inr adoToken\<close> run_with_tokens_left [OF k v] by (simp add: run_fetched_def)
      qed
    qed
    then show ?thesis using p x by (auto simp: same_runs_def v_def)
  qed
qed


section \<open>Reconciliation\<close>

text \<open>The edges along which a reconciliation moves the phase, and those of a migration's life.\<close>

definition reconcile_edge :: "migration_phase \<Rightarrow> migration_phase \<Rightarrow> bool" where
  "reconcile_edge p q \<longleftrightarrow> (p, q) \<in> set [(PhaseUnset, PhasePending), (PhasePending, PhaseValidating),
     (PhaseValidating, PhaseRunning), (PhaseValidating, PhaseFailed), (PhaseFailed, PhaseValidating),
     (PhaseCompleted, PhasePending), (PhaseFailed, PhasePending), (PhaseCancelled, PhasePending)]"

definition wi_edge :: "migration_phase \<Rightarrow> migration_phase \<Rightarrow> bool" where
  "wi_edge p q \<longleftrightarrow> reconcile_edge p q \<or> p = PhaseRunning \<and> q \<in> set [PhaseCompleted, PhaseFailed]"

definition status_ok :: "wi_status \<Rightarrow> bool" where
  "status_ok st \<longleftrightarrow> (wms_phase st = PhaseCompleted \<longrightarrow> finished_status st)
     \<and> (wms_phase st = PhaseFailed \<longrightarrow> wms_errorMessage st \<noteq> [])"

text \<open>What a reconciliation may do to the stored status.\<close>

definition wi_moves :: "wi_status \<Rightarrow> wi_status \<Rightarrow> bool" where
  "wi_moves st st' \<longleftrightarrow> (wms_phase st' = wms_phase st \<or> reconcile_edge (wms_phase st) (wms_phase st'))
     \<and> (status_ok st \<longrightarrow> status_ok st') \<and> wms_migratedItems st' = wms_migratedItems st"

lemma wi_moves_refl [simp]: "wi_moves st st"
  by (simp add: wi_moves_def)

text \<open>Goroutines: none is started, or one for a migration that had none.\<close>

definition goroutines :: "wi_state \<Rightarrow> wi_state \<Rightarrow> bool" where
  "goroutines s t \<longleftrightarrow> wt_spawned t = wt_spawned s \<and> wt_active t = wt_active s
     \<or> wt_spawned t = Suc (wt_spawned s) \<and> wt_active t = List.insert (migration_key (stored s)) (wt_active s)
       \<and> wi_phase (stored t) = PhaseRunning
       \<and> (wi_phase (stored s) = PhaseValidating
          \<or> wi_phase (stored s) = PhaseRunning \<and> migration_key (stored s) \<notin> set (wt_active s))"

definition handled :: "wi_state \<Rightarrow> wi_state \<Rightarrow> bool" where
  "handled s t \<longleftrightarrow> wi_moves (wi_st (stored s)) (wi_st (stored t)) \<and> goroutines s t
     \<and> migration_key (stored t) = migration_key (stored s)"

lemma handled_refl [simp]: "handled s s"
  by (simp add: handled_def goroutines_def)

text \<open>The copy of a handler: the stored object but for the marks of the observation.\<close>

definition copy_ok :: "wi_state \<Rightarrow> bool" where
  "copy_ok s \<longleftrightarrow> migration_key (obj s) = migration_key (stored s)
     \<and> wi_phase (obj s) = wi_phase (stored s) \<and> wms_migratedItems (wi_st (obj s)) = wms_migratedItems (wi_st (stored s))
     \<and> wms_errorMessage (wi_st (obj s)) = wms_errorMessage (wi_st (stored s))
     \<and> wms_progress (wi_st (obj s)) = wms_progress (wi_st (stored s))
     \<and> wms_completionTime (wi_st (obj s)) = wms_completionTime (wi_st (stored s))
     \<and> wms_statistics (wi_st (obj s)) = wms_statistics (wi_st (stored s))"

lemma copy_moves: "copy_ok s \<Longrightarrow> wi_moves (wi_st (stored s)) (wi_st (obj s))"
  by (simp add: copy_ok_def wi_moves_def status_ok_def finished_status_def)

text \<open>Only the copy, the clock, the events and the calls are touched.\<close>

definition framed :: "wi_state \<Rightarrow> wi_state \<Rightarrow> bool" where
  "framed s t \<longleftrightarrow> stored t = stored s \<and> wt_active t = wt_active s \<and> wt_spawned t = wt_spawned s
     \<and> wi_st (obj t) = wi_st (obj s) \<and> migration_key (obj t) = migration_key (obj s)"

lemma framed_refl [simp]: "framed s s"
  by (simp add: framed_def)

lemma framed_trans: "framed s t \<Longrightarrow> framed t u \<Longrightarrow> framed s u"
  by (simp add: framed_def)

lemma framed_simps [simp]:
  "framed s (emit x t) = framed s t" "framed s (wi_call c t) = framed s t"
  by (simp_all add: framed_def emit_def wi_call_def)

lemma framed_copy: "framed s t \<Longrightarrow> copy_ok s \<Longrightarrow> copy_ok t"
  by (simp add: framed_def copy_ok_def)

lemma framed_handled: "framed s t \<Longrightarrow> handled t u \<Longrightarrow> handled s u"
  by (simp add: framed_def handled_def goroutines_def)

lemma update_then_handled:
  assumes "stored s' = stored s" and "wt_active s' = wt_active s" and "wt_spawned s' = wt_spawned s"
    and "wi_moves (wi_st (stored s)) (wi_st (obj s'))"
  shows "handled s (snd (wi_update_then k a b s'))"
  using assms by (simp add: wi_update_then_def wi_update_status_def handled_def goroutines_def Let_def split: option.splits)

lemma create_project_framed: "framed s (snd (create_project k p s))"
  unfolding create_project_def Let_def by (simp split: option.split prod.split)

lemma validate_project_framed: "framed s (snd (validate_project k s))"
  unfolding validate_project_def Let_def
  by (simp add: create_project_framed split: sum.split option.split)

lemma create_repository_framed: "framed s (snd (createTargetRepository k r s))"
  unfolding createTargetRepository_def Let_def by (simp split: sum.split option.split)

lemma validate_repository_framed: "framed s (snd (validate_repository k s))"
proof -
  obtain e t where r: "createTargetRepository k (trim is_space (wtg_repository (wp_target (wm_spec (obj s))))) s = (e, t)"
    by fastforce
  then have "framed s t" using create_repository_framed [of s k] by (metis snd_conv)
  then show ?thesis unfolding validate_repository_def Let_def r by (simp split: sum.split prod.split option.split)
qed

lemma validate_framed: "framed s (snd (validateConfiguration k s))"
proof -
  have 3: "framed s (modify default_batch_size s)" for s
    by (simp add: framed_def default_batch_size_def Let_def)
  obtain e1 s1 where p: "validate_project k s = (e1, s1)" by fastforce
  obtain e2 s2 where r: "validate_repository k s1 = (e2, s2)" by fastforce
  have s1: "framed s s1" using validate_project_framed [of s k] by (simp add: p)
  have "framed s1 s2" using validate_repository_framed [of s1 k] by (simp add: r)
  then have s2: "framed s s2" by (rule framed_trans [OF s1])
  from framed_trans [OF s2 3] have s3: "framed s (modify default_batch_size s2)" .
  show ?thesis unfolding validateConfiguration_def
    by (simp add: p r s1 s2 s3 split: option.split)
qed


section \<open>Handlers\<close>

lemma edges [simp]:
  "reconcile_edge PhaseUnset PhasePending" "reconcile_edge PhasePending PhaseValidating" "reconcile_edge PhaseValidating PhaseRunning"
  "reconcile_edge PhaseValidating PhaseFailed" "reconcile_edge PhaseFailed PhaseValidating" "reconcile_edge PhaseCompleted PhasePending"
  "reconcile_edge PhaseFailed PhasePending" "reconcile_edge PhaseCancelled PhasePending"
  by (simp_all add: reconcile_edge_def)

lemma initialize_handled:
  "copy_ok s \<Longrightarrow> wi_phase (obj s) = PhaseUnset \<Longrightarrow> handled s (snd (wi_initialize k s))"
  unfolding wi_initialize_def Let_def
  by (rule update_then_handled) (simp_all add: copy_ok_def wi_moves_def status_ok_def)

lemma pending_handled:
  "copy_ok s \<Longrightarrow> wi_phase (obj s) = PhasePending \<Longrightarrow> handled s (snd (wi_processPending k s))"
  unfolding wi_processPending_def Let_def
  by (rule update_then_handled) (simp_all add: copy_ok_def wi_moves_def status_ok_def)

lemma failed_handled:
  "copy_ok s \<Longrightarrow> wi_phase (obj s) = PhaseFailed \<Longrightarrow> handled s (snd (wi_processFailed k s))"
  unfolding wi_processFailed_def Let_def
  by (cases "retryable_message (wms_errorMessage (wi_st (obj s)))")
    (simp_all add: update_then_handled copy_ok_def wi_moves_def status_ok_def)

lemma restart_handled:
  "copy_ok s \<Longrightarrow> wi_spec_changed (obj s) \<Longrightarrow> handled s (snd (wi_restart k s))"
  unfolding wi_restart_def Let_def
  by (rule update_then_handled) (auto simp: copy_ok_def wi_moves_def status_ok_def wi_spec_changed_def)

lemma wait_handled:
  "copy_ok s \<Longrightarrow> wi_phase (obj s) = PhaseValidating \<Longrightarrow> handled s (snd (wi_wait k err s))"
  unfolding wi_wait_def Let_def
  by (rule update_then_handled) (simp_all add: copy_ok_def wi_moves_def status_ok_def)

lemma invalid_handled:
  "copy_ok s \<Longrightarrow> wi_phase (obj s) = PhaseValidating \<Longrightarrow> handled s (snd (wi_invalid k err s))"
  unfolding wi_invalid_def Let_def
  by (rule update_then_handled) (simp_all add: copy_ok_def wi_moves_def status_ok_def)

lemma start_handled:
  assumes "copy_ok s" and "wi_phase (obj s) = PhaseValidating"
  shows "handled s (snd (wi_start k s))"
proof -
  obtain now s0 where c: "read_clock k s = (now, s0)" by fastforce
  then have s0: "stored s0 = stored s" "obj s0 = obj s" "wt_active s0 = wt_active s" "wt_spawned s0 = wt_spawned s"
    by (auto simp: read_clock_def)
  define v where "v = emit (Event EventNormal ''ValidationPassed'' ''Work item migration validation passed'')
    (modify (on_wi (\<lambda>st. st\<lparr>wms_phase := PhaseRunning, wms_errorMessage := [], wms_startTime := Some now,
       wms_progress := (wms_progress st)\<lparr>wg_currentStep := ''Discovering Work Items''\<rparr>\<rparr>)) s0)"
  have v: "stored v = stored s" "wt_active v = wt_active s" "wt_spawned v = wt_spawned s"
      "wi_phase (obj v) = PhaseRunning" "wms_migratedItems (wi_st (obj v)) = wms_migratedItems (wi_st (obj s))"
    by (simp_all add: v_def s0)
  have "wi_start k s = (case wi_update_status k v of
      (Some err, s) \<Rightarrow> ((after (5 * second), Some err), s) | (None, s) \<Rightarrow> ((after (10 * second), None), spawn s))"
    by (simp add: wi_start_def c Let_def v_def)
  then show ?thesis using assms v
    by (simp add: wi_update_status_def handled_def goroutines_def Let_def spawn_def copy_ok_def wi_moves_def status_ok_def
        split: option.split)
qed

lemma validating_handled:
  assumes "copy_ok s" and "wi_phase (obj s) = PhaseValidating"
  shows "handled s (snd (wi_processValidating k s))"
proof -
  obtain e t where v: "validateConfiguration k s = (e, t)" by fastforce
  have f: "framed s t" using validate_framed [of s k] by (simp add: v)
  have t: "copy_ok t" "wi_phase (obj t) = PhaseValidating"
    using framed_copy [OF f assms(1)] f assms(2) by (simp_all add: framed_def)
  show ?thesis unfolding wi_processValidating_def v
    by (simp add: framed_handled [OF f] start_handled [OF t] wait_handled [OF t] invalid_handled [OF t] split: option.split)
qed

lemma resume_handled:
  assumes "copy_ok s" and "wi_phase (obj s) = PhaseRunning" and "migration_key (obj s) \<notin> set (wt_active s)"
  shows "handled s (wi_resume k s)"
  using assms
  by (simp add: wi_resume_def wi_update_status_def handled_def goroutines_def Let_def spawn_def copy_ok_def wi_moves_def
      status_ok_def split: option.split)

lemma running_handled:
  assumes "copy_ok s" and "wi_phase (obj s) = PhaseRunning"
  shows "handled s (snd (wi_processRunning k s))"
proof -
  have t: "framed s (snd (read_clock k s))" by (simp add: framed_def)
  have "handled s (wi_resume k (snd (read_clock k s)))" if "migration_key (obj s) \<notin> set (wt_active s)"
    by (rule framed_handled [OF t resume_handled]) (use assms that framed_copy [OF t] in simp_all)
  moreover have "handled s (snd (read_clock k s))" by (simp add: handled_def goroutines_def)
  ultimately show ?thesis
    by (simp add: wi_processRunning_def case_prod_unfold split: option.split)
qed

lemma process_handled: "copy_ok s \<Longrightarrow> handled s (snd (wi_process k s))"
  using initialize_handled pending_handled failed_handled validating_handled running_handled
  by (simp add: wi_process_def split: migration_phase.split)

lemma object_update_handled:
  assumes "wi_env_ok k" and "stored s' = stored s" and "wt_active s' = wt_active s" and "wt_spawned s' = wt_spawned s"
  shows "handled s (snd (wi_object_update k s'))"
  using assms
  by (auto simp: wi_object_update_def object_update_def handled_def goroutines_def wi_env_ok_def split: sum.split)

lemma observe_framed: "copy_ok s \<Longrightarrow> copy_ok (wi_observe k s) \<and> stored (wi_observe k s) = stored s
    \<and> wt_active (wi_observe k s) = wt_active s \<and> wt_spawned (wi_observe k s) = wt_spawned s"
  by (simp add: wi_observe_def Let_def case_prod_unfold copy_ok_def)

lemma reconcile_handled:
  assumes k: "wi_env_ok k" and "copy_ok s"
  shows "handled s (snd (reconcile_wi k s))"
proof (cases "wi_spec_changed (obj s)")
  case False
  define t where "t = wi_observe k s"
  have t: "copy_ok t" "stored t = stored s" "wt_active t = wt_active s" "wt_spawned t = wt_spawned s"
    using observe_framed [OF assms(2)] by (simp_all add: t_def)
  have weaken: "handled t u \<Longrightarrow> handled s u" for u using t by (simp add: handled_def goroutines_def)
  have "stored (wi_cleanup k t) = stored t" "wt_active (wi_cleanup k t) = wt_active t" "wt_spawned (wi_cleanup k t) = wt_spawned t"
    by (auto simp: wi_cleanup_def Let_def wi_call_def split: option.split sum.split)
  then have "handled s (snd (wi_finalize k t))"
    unfolding wi_finalize_def using object_update_handled [OF k] t by (auto simp: handled_def goroutines_def)
  moreover have "handled s (snd (wi_object_update k (modify (wi_on_finalizers f) t)))" for f
    by (rule object_update_handled [OF k]) (simp_all add: t)
  ultimately show ?thesis using False weaken [OF process_handled [OF t(1)]]
    by (simp add: reconcile_wi_def t_def [symmetric] Let_def)
qed (use restart_handled assms in \<open>simp add: reconcile_wi_def\<close>)


section \<open>The world of a migration\<close>

record wi_world =
  ww_object :: wi_migration
  ww_active :: "string list"
  ww_running :: nat \<comment> \<open>goroutines of this migration\<close>

datatype wi_event = WiReconciled wi_kube | WiRunEnds wi_kube | WiEdited object_meta wi_spec | WiOperatorRestarted

definition wi_fetched :: "wi_world \<Rightarrow> wi_state" where
  "wi_fetched w = \<lparr>obj = ww_object w, stored = ww_object w, ticks = 0, calls = 0, effects = [],
     wt_active = ww_active w, wt_spawned = 0, wt_calls = []\<rparr>"

text \<open>The name and the namespace of an object never change.\<close>

definition same_name :: "wi_migration \<Rightarrow> object_meta \<Rightarrow> object_meta" where
  "same_name m meta = meta\<lparr>om_name := om_name (wm_meta m), om_namespace := om_namespace (wm_meta m)\<rparr>"

fun wi_event_step :: "wi_event \<Rightarrow> wi_world \<Rightarrow> wi_world" where
  "wi_event_step (WiReconciled k) w = (let s = snd (reconcile_wi k (wi_fetched w)) in
     \<lparr>ww_object = stored s, ww_active = wt_active s, ww_running = ww_running w + wt_spawned s\<rparr>)"
| "wi_event_step (WiRunEnds k) w =
     (if ww_running w = 0 then w
      else (case performMigration k (wi_fetched w) of
          None \<Rightarrow> w\<lparr>ww_active := [], ww_running := 0\<rparr>
        | Some s \<Rightarrow> \<lparr>ww_object = stored s, ww_active = wt_active s, ww_running = ww_running w - 1\<rparr>))"
| "wi_event_step (WiEdited meta spec) w =
     w\<lparr>ww_object := (ww_object w)\<lparr>wm_meta := same_name (ww_object w) meta, wm_spec := spec\<rparr>\<rparr>"
| "wi_event_step WiOperatorRestarted w = w\<lparr>ww_active := [], ww_running := 0\<rparr>"

fun honest_wi_event :: "wi_event \<Rightarrow> bool" where
  "honest_wi_event (WiReconciled k) \<longleftrightarrow> wi_env_ok k"
| "honest_wi_event (WiRunEnds k) \<longleftrightarrow> wi_env_ok k"
| "honest_wi_event (WiEdited meta spec) \<longleftrightarrow> True"
| "honest_wi_event WiOperatorRestarted \<longleftrightarrow> True"

abbreviation wi_life :: "wi_event list \<Rightarrow> wi_world \<Rightarrow> wi_world" where
  "wi_life es w \<equiv> fold wi_event_step es w"

definition is_active :: "wi_world \<Rightarrow> bool" where
  "is_active w \<longleftrightarrow> migration_key (ww_object w) \<in> set (ww_active w)"

definition wi_ok :: "wi_world \<Rightarrow> bool" where
  "wi_ok w \<longleftrightarrow> ww_running w = (if is_active w then 1 else 0)
     \<and> (is_active w \<longrightarrow> wi_phase (ww_object w) = PhaseRunning)
     \<and> status_ok (wi_st (ww_object w))"

definition wi_created :: "wi_world \<Rightarrow> bool" where
  "wi_created w \<longleftrightarrow> wi_phase (ww_object w) = PhaseUnset \<and> ww_active w = [] \<and> ww_running w = 0"

lemma created_ok: "wi_created w \<Longrightarrow> wi_ok w"
  by (simp add: wi_created_def wi_ok_def is_active_def status_ok_def)

lemma wi_fetched_simps [simp]:
  "obj (wi_fetched w) = ww_object w" "stored (wi_fetched w) = ww_object w" "wt_active (wi_fetched w) = ww_active w"
  "wt_spawned (wi_fetched w) = 0" "wt_calls (wi_fetched w) = []" "calls (wi_fetched w) = 0"
  by (simp_all add: wi_fetched_def)

lemma fetched_copy [simp]: "copy_ok (wi_fetched w)"
  by (simp add: copy_ok_def)

lemma running_stays: "wi_moves st st' \<Longrightarrow> wms_phase st = PhaseRunning \<Longrightarrow> wms_phase st' = PhaseRunning"
  by (auto simp: wi_moves_def reconcile_edge_def)

lemma reconciled_ok:
  assumes k: "wi_env_ok k" and ok: "wi_ok w"
  shows "wi_ok (wi_event_step (WiReconciled k) w)"
    and "wi_moves (wi_st (ww_object w)) (wi_st (ww_object (wi_event_step (WiReconciled k) w)))"
proof -
  define t where "t = snd (reconcile_wi k (wi_fetched w))"
  have h: "handled (wi_fetched w) t" unfolding t_def by (rule reconcile_handled [OF k]) simp
  have key: "migration_key (stored t) = migration_key (ww_object w)" using h by (simp add: handled_def)
  have m: "wi_moves (wi_st (ww_object w)) (wi_st (stored t))" using h by (simp add: handled_def)
  then show "wi_moves (wi_st (ww_object w)) (wi_st (ww_object (wi_event_step (WiReconciled k) w)))"
    by (simp add: t_def Let_def)
  have w: "wi_event_step (WiReconciled k) w = \<lparr>ww_object = stored t, ww_active = wt_active t, ww_running = ww_running w + wt_spawned t\<rparr>"
    by (simp add: t_def Let_def)
  have st: "status_ok (wi_st (stored t))" using m ok by (simp add: wi_moves_def wi_ok_def)
  consider (none) "wt_spawned t = 0" "wt_active t = ww_active w"
    | (one) "wt_spawned t = 1" "wt_active t = List.insert (migration_key (ww_object w)) (ww_active w)"
        "wi_phase (stored t) = PhaseRunning" "\<not> is_active w"
    using h ok by (auto simp: handled_def goroutines_def wi_ok_def is_active_def)
  then show "wi_ok (wi_event_step (WiReconciled k) w)"
  proof cases
    case none
    then show ?thesis unfolding w using ok key st running_stays [OF m] by (auto simp: wi_ok_def is_active_def)
  next
    case one
    then show ?thesis unfolding w using ok key st by (simp add: wi_ok_def is_active_def)
  qed
qed

lemma run_ended:
  assumes k: "wi_env_ok k" and ok: "wi_ok w" and "ww_running w \<noteq> 0"
  obtains t where "wi_event_step (WiRunEnds k) w = \<lparr>ww_object = t, ww_active = removeAll (migration_key t) (ww_active w), ww_running = 0\<rparr>"
    and "run_left (wms_migratedItems (wi_st (ww_object w))) (wi_st t)" and "wi_phase (ww_object w) = PhaseRunning"
    and "migration_key t = migration_key (ww_object w)"
proof -
  have run: "ww_running w = 1" "wi_phase (ww_object w) = PhaseRunning"
    using ok assms(3) by (auto simp: wi_ok_def split: if_splits)
  then have "in_run (wms_migratedItems (wi_st (ww_object w))) (wi_fetched w)" by (simp add: in_run_def)
  from performMigration_left [OF k this] obtain t where "performMigration k (wi_fetched w) = Some t"
      "run_left (wms_migratedItems (wi_st (ww_object w))) (wi_st (stored t))" "migration_key (stored t) = migration_key (ww_object w)"
      "wt_active t = removeAll (migration_key (ww_object w)) (ww_active w)"
    by auto
  then show thesis using run by (intro that [of "stored t"]) simp_all
qed

lemma run_left_ok: "run_left ms st \<Longrightarrow> status_ok st"
  by (auto simp: run_left_def status_ok_def)

lemma wi_event_ok:
  assumes "honest_wi_event e" and ok: "wi_ok w"
  shows "wi_ok (wi_event_step e w)"
    and "wi_phase (ww_object (wi_event_step e w)) = wi_phase (ww_object w)
      \<or> wi_edge (wi_phase (ww_object w)) (wi_phase (ww_object (wi_event_step e w)))"
proof -
  have "wi_ok (wi_event_step e w) \<and> (wi_phase (ww_object (wi_event_step e w)) = wi_phase (ww_object w)
      \<or> wi_edge (wi_phase (ww_object w)) (wi_phase (ww_object (wi_event_step e w))))"
  proof (cases e)
    case (WiReconciled k)
    then show ?thesis using assms(1) reconciled_ok [OF _ ok, of k] by (auto simp: wi_moves_def wi_edge_def)
  next
    case (WiRunEnds k)
    show ?thesis
    proof (cases "ww_running w = 0")
      case True
      then show ?thesis using ok WiRunEnds by simp
    next
      case False
      have "wi_env_ok k" using assms(1) WiRunEnds by simp
      from run_ended [OF this ok False] obtain t where
        t: "wi_event_step (WiRunEnds k) w = \<lparr>ww_object = t, ww_active = removeAll (migration_key t) (ww_active w), ww_running = 0\<rparr>"
          "run_left (wms_migratedItems (wi_st (ww_object w))) (wi_st t)" "wi_phase (ww_object w) = PhaseRunning" by blast
      from run_left_ok [OF t(2)] show ?thesis unfolding WiRunEnds t(1) using t(2,3)
        by (auto simp: wi_ok_def is_active_def wi_edge_def run_left_def)
    qed
  next
    case (WiEdited meta spec)
    then show ?thesis using ok by (simp add: wi_ok_def is_active_def migration_key_def same_name_def)
  next
    case WiOperatorRestarted
    then show ?thesis using ok by (simp add: wi_ok_def is_active_def)
  qed
  then show "wi_ok (wi_event_step e w)" and "wi_phase (ww_object (wi_event_step e w)) = wi_phase (ww_object w)
      \<or> wi_edge (wi_phase (ww_object w)) (wi_phase (ww_object (wi_event_step e w)))" by simp_all
qed

interpretation wim: phase_machine "\<lambda>w. wi_phase (ww_object w)" wi_event_step honest_wi_event wi_ok wi_edge
  by unfold_locales (simp_all add: wi_event_ok)

end
