(* ===== verification/WorkItemProperties.thy ===== *)
theory WorkItemProperties
  imports WorkItemLives
begin

text \<open>
  The properties of the WorkItemMigration controller and its background runs
  (\<open>internal/controller/workitemmigration_controller.go\<close>), on the lives of \<open>WorkItemLives\<close>.
\<close>

section \<open>The life of a migration\<close>

lemma wi_ok_finished:
  "wi_ok w \<Longrightarrow> (wi_phase (ww_object w) = PhaseCompleted \<longrightarrow> finished_status (wi_st (ww_object w)))
     \<and> (wi_phase (ww_object w) = PhaseFailed \<longrightarrow> wms_errorMessage (wi_st (ww_object w)) \<noteq> [])"
  by (simp add: wi_ok_def status_ok_def)

text \<open>
  C11. From its creation, through any reconciliations in any environments, runs, edits and operator
  restarts, a work item migration never has two background runs; while it has one it is
  Running; Completed means that every item the run returned is on record, Failed that there
  is a message; and each single event leaves the phase alone or follows one edge of \<open>wi_edge\<close>: Running comes
  only after Validating, Validating only after Pending or Failed, Completed only after Running.
\<close>

theorem wi_run_invariant:
  assumes "wi_created w" and "\<forall>e \<in> set es. honest_wi_event e"
  shows "ww_running (wi_life es w) \<le> 1
    \<and> (0 < ww_running (wi_life es w) \<longrightarrow> wi_phase (ww_object (wi_life es w)) = PhaseRunning)
    \<and> (wi_phase (ww_object (wi_life es w)) = PhaseCompleted \<longrightarrow> finished_status (wi_st (ww_object (wi_life es w))))
    \<and> (wi_phase (ww_object (wi_life es w)) = PhaseFailed \<longrightarrow> wms_errorMessage (wi_st (ww_object (wi_life es w))) \<noteq> [])
    \<and> (\<forall>i < length es. let p = wi_phase (ww_object (wi_life (take i es) w)); q = wi_phase (ww_object (wi_life (take (Suc i) es) w))
         in q = p \<or> wi_edge p q)"
proof -
  have ok: "wi_ok w" by (rule created_ok [OF assms(1)])
  have inv: "wi_ok (wi_life es w)" by (rule wim.inv_run [OF assms(2) ok])
  have "\<forall>i < length es. let p = wi_phase (ww_object (wi_life (take i es) w)); q = wi_phase (ww_object (wi_life (take (Suc i) es) w))
         in q = p \<or> wi_edge p q"
    using wim.edges_run [OF assms(2) ok] by (simp add: Let_def)
  moreover have "ww_running (wi_life es w) \<le> 1
    \<and> (0 < ww_running (wi_life es w) \<longrightarrow> wi_phase (ww_object (wi_life es w)) = PhaseRunning)"
    using inv by (auto simp: wi_ok_def split: if_splits)
  ultimately show ?thesis using wi_ok_finished [OF inv] by blast
qed

section \<open>What is on record\<close>

text \<open>
  C21. The items a migration has migrated are put on record only when a run completes. A run
  that fails, is interrupted by a restart of the operator or cannot write its last status
  leaves the record as it was, whatever issues it created; so does everything else that
  happens to the migration.
\<close>

theorem items_recorded_only_on_completion:
  assumes "wi_ok w" and "honest_wi_event e"
    and "wms_migratedItems (wi_st (ww_object (wi_event_step e w))) \<noteq> wms_migratedItems (wi_st (ww_object w))"
  shows "(\<exists>k. e = WiRunEnds k) \<and> wi_phase (ww_object (wi_event_step e w)) = PhaseCompleted"
proof (cases e)
  case (WiReconciled k)
  then show ?thesis using assms reconciled_ok(2) [of k w] by (auto simp: wi_moves_def)
next
  case (WiRunEnds k)
  show ?thesis
  proof (cases "ww_running w = 0")
    case False
    have "wi_env_ok k" using assms(2) WiRunEnds by simp
    from run_ended [OF this assms(1) False] obtain t where
      t: "wi_event_step (WiRunEnds k) w = \<lparr>ww_object = t, ww_active = removeAll (migration_key t) (ww_active w), ww_running = 0\<rparr>"
        "run_left (wms_migratedItems (wi_st (ww_object w))) (wi_st t)" by blast
    then show ?thesis using assms(3) WiRunEnds by (auto simp: run_left_def)
  qed (use assms(3) WiRunEnds in simp)
qed (use assms(3) in simp_all)

section \<open>Runs that seem dead\<close>

definition due_for_resume :: "wi_kube \<Rightarrow> wi_migration \<Rightarrow> bool" where
  "due_for_resume k m \<longleftrightarrow> wg_percentage (wms_progress (wi_st m)) < 100
     \<and> om_deletionTimestamp (wm_meta m) = None \<and> wi_finalizerName \<in> set (om_finalizers (wm_meta m))
     \<and> wms_observedGeneration (wi_st m) = om_generation (wm_meta m)
     \<and> (case wms_lastReconcileTime (wi_st m) of None \<Rightarrow> False | Some t \<Rightarrow> k_clock k 0 - t > 5 * minute)"

lemma resume_spawns:
  assumes ph: "wi_phase (ww_object w) = PhaseRunning" and act: "\<not> is_active w" and due: "due_for_resume k (ww_object w)"
  shows "ww_running (wi_event_step (WiReconciled k) w) = Suc (ww_running w)"
proof -
  obtain t where t: "wms_lastReconcileTime (wi_st (ww_object w)) = Some t" "k_clock k 0 - t > 5 * minute"
    using due by (auto simp: due_for_resume_def split: option.splits)
  have "wt_spawned (wi_resume k s) = Suc (wt_spawned s)" for s
    by (simp add: wi_resume_def Let_def spawn_def wi_update_status_def emit_def modify_def split: option.split)
  moreover have "fst (read_clock k (wi_fetched w)) = k_clock k 0" by (simp add: wi_fetched_def)
  ultimately have "wt_spawned (snd (wi_processRunning k (wi_fetched w))) = Suc 0"
    using t due act by (simp add: wi_processRunning_def due_for_resume_def case_prod_unfold is_active_def)
  then have "wt_spawned (snd (reconcile_wi k (wi_fetched w))) = Suc 0"
    using ph due by (simp add: reconcile_wi_def wi_spec_changed_def wi_observe_def wi_process_def due_for_resume_def)
  then show ?thesis by (simp add: Let_def)
qed

text \<open>
  A run whose end cannot be written is done again from the beginning. The status writes of a run
  share its deadline, so that of a run that timed out are all refused: the migration stays Running,
  no issue it created is on record, and once its last observation is more than five
  minutes old the next reconciliation starts a new run with the same record.
\<close>

theorem unrecorded_run_starts_over:
  assumes "wi_ok w" and "wi_env_ok k" and "0 < ww_running w"
    and "wi_phase (ww_object (wi_event_step (WiRunEnds k) w)) = PhaseRunning"
    and "wi_env_ok k'" and "due_for_resume k' (ww_object (wi_event_step (WiRunEnds k) w))"
  shows "ww_running (wi_event_step (WiRunEnds k) w) = 0
    \<and> ww_running (wi_life [WiRunEnds k, WiReconciled k'] w) = 1
    \<and> wms_migratedItems (wi_st (ww_object (wi_life [WiRunEnds k, WiReconciled k'] w))) = wms_migratedItems (wi_st (ww_object w))"
proof -
  define w' where "w' = wi_event_step (WiRunEnds k) w"
  have "ww_running w \<noteq> 0" using assms(3) by simp
  from run_ended [OF assms(2,1) this] obtain t where
    t: "w' = \<lparr>ww_object = t, ww_active = removeAll (migration_key t) (ww_active w), ww_running = 0\<rparr>"
      "run_left (wms_migratedItems (wi_st (ww_object w))) (wi_st t)"
    unfolding w'_def by blast
  have w': "ww_running w' = 0" "\<not> is_active w'" "wms_migratedItems (wi_st (ww_object w')) = wms_migratedItems (wi_st (ww_object w))"
    using t assms(4) [folded w'_def] by (auto simp: is_active_def run_left_def)
  have "wi_ok w'" using wi_event_ok(1) [of "WiRunEnds k" w] assms(1,2) by (simp add: w'_def)
  from reconciled_ok(2) [OF assms(5) this] have "wms_migratedItems (wi_st (ww_object (wi_event_step (WiReconciled k') w')))
      = wms_migratedItems (wi_st (ww_object w'))" by (simp add: wi_moves_def)
  moreover have "ww_running (wi_event_step (WiReconciled k') w') = 1"
    using resume_spawns [OF assms(4) [folded w'_def] _ assms(6) [folded w'_def]] w' by simp
  ultimately show ?thesis unfolding fold.simps comp_apply id_apply w'_def [symmetric] using w' by simp
qed

section \<open>Runs that are stuck\<close>

definition stuck :: "wi_world \<Rightarrow> bool" where
  "stuck w \<longleftrightarrow> ww_running w = 0 \<and> \<not> is_active w \<and> wi_phase (ww_object w) = PhaseRunning
     \<and> 100 \<le> wg_percentage (wms_progress (wi_st (ww_object w)))"

lemma stuck_reconciled:
  assumes k: "wi_env_ok k" and st: "stuck w"
  shows "stuck (wi_event_step (WiReconciled k) w)"
proof -
  define t where "t = snd (reconcile_wi k (wi_fetched w))"
  define s where "s = wi_observe k (wi_fetched w)"
  have s: "stored s = ww_object w" "wt_active s = ww_active w" "wt_spawned s = 0"
      "wi_phase (obj s) = PhaseRunning" "wms_progress (wi_st (obj s)) = wms_progress (wi_st (ww_object w))"
    using observe_framed [of "wi_fetched w" k] st by (auto simp: s_def copy_ok_def stuck_def)
  have upd: "wi_st (stored (snd (wi_object_update k u))) = wi_st (stored u)
      \<and> migration_key (stored (snd (wi_object_update k u))) = migration_key (stored u)
      \<and> wt_active (snd (wi_object_update k u)) = wt_active u \<and> wt_spawned (snd (wi_object_update k u)) = wt_spawned u" for u
    using k by (auto simp: wi_object_update_def object_update_def wi_env_ok_def split: sum.split)
  have clean: "stored (wi_cleanup k s) = stored s" "wt_active (wi_cleanup k s) = wt_active s" "wt_spawned (wi_cleanup k s) = wt_spawned s"
    by (auto simp: wi_cleanup_def Let_def wi_call_def split: option.split sum.split)
  have "t = snd (if om_deletionTimestamp (wm_meta (obj s)) \<noteq> None then wi_finalize k s
        else if wi_finalizerName \<notin> set (om_finalizers (wm_meta (obj s)))
        then wi_object_update k (modify (wi_on_finalizers (\<lambda>fs. fs @ [wi_finalizerName])) s)
        else wi_process k s)"
    using st by (simp add: t_def s_def reconcile_wi_def wi_spec_changed_def stuck_def)
  moreover have "snd (wi_process k s) = s"
    using s st by (simp add: wi_process_def wi_processRunning_def stuck_def)
  ultimately have "wi_st (stored t) = wi_st (stored s) \<and> migration_key (stored t) = migration_key (stored s)
      \<and> wt_active t = wt_active s \<and> wt_spawned t = wt_spawned s"
    using upd clean by (simp add: wi_finalize_def)
  then show ?thesis using st s by (simp add: stuck_def is_active_def t_def Let_def)
qed

text \<open>
  A migration that is Running at 100 percent and has no run stays so for ever: no reconciliation,
  edit or restart of the operator ever moves it. It gets there when the last progress update of a run is
  written and its last status is not.
\<close>

theorem stuck_for_ever:
  assumes "stuck w" and "\<forall>e \<in> set es. honest_wi_event e"
  shows "stuck (wi_life es w)"
  using assms
proof (induction es arbitrary: w)
  case (Cons e es)
  have "stuck (wi_event_step e w)"
    using Cons.prems stuck_reconciled
    by (cases e) (simp_all add: stuck_def is_active_def migration_key_def same_name_def)
  then show ?case using Cons by simp
qed simp


section \<open>What a completed migration says\<close>

lemma accepted_writes:
  assumes "\<And>n x. k_status k n x = None"
  shows "wi_update_status k s = (None, s\<lparr>calls := Suc (calls s), obj := (stored s)\<lparr>wm_status := wi_st (obj s)\<rparr>,
    stored := (stored s)\<lparr>wm_status := wi_st (obj s)\<rparr>\<rparr>)"
    and "snd (statusUpdateWithRetry k s) = snd (wi_update_status k s)"
  using assms by (simp_all add: wi_update_status_def Let_def statusUpdateWithRetry_def numeral_eq_Suc)

lemma run_service_status:
  "wms_migratedItems st = wms_migratedItems (wi_st m) \<Longrightarrow> run_service k a g (m\<lparr>wm_status := st\<rparr>) = run_service k a g m"
  by (simp add: run_service_def Let_def)

lemma completed_run_lemma:
  assumes k: "wi_env_ok k" and run: "in_run ms s" and fresh: "obj s = stored s"
    and writes: "\<And>n x. k_status k n x = None"
    and service: "run_service k adoToken githubToken (obj s) = Some (None, items, tr)"
  shows "\<exists>t. run_with_tokens k adoToken githubToken s = Some t \<and> wi_phase (stored t) = PhaseCompleted
    \<and> wms_migratedItems (wi_st (stored t)) = map migrated_work_item.truncate items
    \<and> wg_itemsDiscovered (wms_progress (wi_st (stored t))) = int (length items)
    \<and> wg_itemsMigrated (wms_progress (wi_st (stored t))) = int (length items)
    \<and> wg_itemsFailed (wms_progress (wi_st (stored t))) = 0 \<and> wg_itemsSkipped (wms_progress (wi_st (stored t))) = 0"
proof -
  define s1 where "s1 = snd (statusUpdateWithRetry k (modify (wi_step ''Discovering Work Items'') s))"
  have "obj s1 = (obj s)\<lparr>wm_status := wi_st (wi_step ''Discovering Work Items'' (obj s))\<rparr>"
    using accepted_writes [OF writes, of "modify (wi_step ''Discovering Work Items'') s"] fresh by (simp add: s1_def)
  then have o: "run_service k adoToken githubToken (obj s1) = Some (None, items, tr)"
    using service run_service_status [of _ "obj s" k] by simp
  define s2 where "s2 = add_to_project k githubToken items (apply_updates k tr s1)"
  have eq: "run_with_tokens k adoToken githubToken s = Some (complete_run k items s2)"
    using o by (simp add: run_with_tokens_def Let_def s1_def s2_def)
  define v where "v = set_duration k (modify (on_wi (wi_completed_status (fst (read_clock k s2)) items)) (snd (read_clock k s2)))"
  have "wi_st (stored (complete_run k items s2)) = wi_st (obj v)"
    using accepted_writes [OF writes, of v] by (simp add: complete_run_def case_prod_unfold v_def)
  moreover have "wi_phase (obj v) = PhaseCompleted"
    "wms_migratedItems (wi_st (obj v)) = map migrated_work_item.truncate items"
    "wg_itemsDiscovered (wms_progress (wi_st (obj v))) = int (length items)"
    "wg_itemsMigrated (wms_progress (wi_st (obj v))) = int (length items)"
    "wg_itemsFailed (wms_progress (wi_st (obj v))) = 0" "wg_itemsSkipped (wms_progress (wi_st (obj v))) = 0"
    by (simp_all add: v_def set_duration_def wi_completed_status_def Let_def case_prod_unfold split: option.split)
  ultimately show ?thesis using eq by simp
qed

text \<open>
  A migration whose run ended without an error says that nothing failed. Its status counts as discovered
  and as migrated exactly the items the run returned, and no failed and no skipped one, although
  the run's own last progress update counted those too.
\<close>

theorem completed_run_reports_no_failures:
  assumes k: "wi_env_ok k" and run: "in_run ms s" and fresh: "obj s = stored s"
    and writes: "\<And>n x. k_status k n x = None"
    and service: "run_service k adoToken githubToken (obj s) = Some (None, items, tr)"
  shows "\<exists>t. run_with_tokens k adoToken githubToken s = Some t \<and> wi_phase (stored t) = PhaseCompleted
    \<and> wms_migratedItems (wi_st (stored t)) = map migrated_work_item.truncate items
    \<and> wg_itemsDiscovered (wms_progress (wi_st (stored t))) = int (length items)
    \<and> wg_itemsMigrated (wms_progress (wi_st (stored t))) = int (length items)
    \<and> wg_itemsFailed (wms_progress (wi_st (stored t))) = 0 \<and> wg_itemsSkipped (wms_progress (wi_st (stored t))) = 0"
  by (rule completed_run_lemma [OF assms])

section \<open>Dependencies\<close>

text \<open>
  Validation that created a project or a repository fails with an error that some later reconciliation answers by
  validating again: one that \<open>processValidating\<close> takes for transient, or one that makes the migration
  Failed with a message that its handler of Failed migrations retries.
\<close>

definition retried_later :: "go_error \<Rightarrow> bool" where
  "retried_later err \<longleftrightarrow> is_transient err \<or> retryable_message (''Validation failed: '' @ err_text err)"


lemma sublist_within: "sublist x (a @ x @ b)" "sublist x (x @ b)" "sublist x y \<Longrightarrow> sublist x (a @ y)" "sublist x y \<Longrightarrow> sublist x (y @ a)"
  by (auto simp: sublist_def) (metis append.assoc)+

lemma created_project_retried:
  assumes "wk_create_project k s (auto_project (obj s) p) = None"
  shows "retried_later (fst (create_project k p s))"
proof -
  have "err_text (fst (create_project k p s)) = ''auto-created GitHubProject '' @ quote_name p @ '', '' @ ''waiting'' @ '' for it to become ready''"
    using assms by (simp add: create_project_def Let_def)
  then have "sublist ''waiting'' (''Validation failed: '' @ err_text (fst (create_project k p s)))"
    using sublist_within by metis
  then show ?thesis by (simp only: retried_later_def retryable_message_def simp_thms)
qed

lemma created_repository_transient:
  assumes "trim is_space (wtg_repository (wp_target (wm_spec (obj s)))) \<noteq> []"
    and "checkRepositoryAvailability k s = Inr (False, x)"
    and "createTargetRepository k (trim is_space (wtg_repository (wp_target (wm_spec (obj s))))) s = (None, t)"
  shows "\<exists>err. validate_repository k s = (Some err, t) \<and> is_transient err"
proof -
  define name where "name = quote_name (full_name (wtg_owner (wp_target (wm_spec (obj s)))) (trim is_space (wtg_repository (wp_target (wm_spec (obj s))))))"
  define err where "err = PlainError (''target repository '' @ name @ '' is being created - waiting for creation to complete'')"
  have "validate_repository k s = (Some err, t)"
    unfolding validate_repository_def Let_def err_def name_def using assms by simp
  moreover have "err_text err = (''target repository '' @ name @ '' is being created - '') @ ''waiting for creation'' @ '' to complete''"
    by (simp add: err_def)
  then have "is_transient err" unfolding is_transient_def using sublist_within(1) by metis
  ultimately show ?thesis by blast
qed

text \<open>
  A migration waits for what it made: when validation created the project or the repository that
  was missing, its error is one that a later reconciliation answers by validating again.
\<close>

theorem created_dependencies_are_awaited:
  "(wk_create_project k s (auto_project (obj s) p) = None \<longrightarrow> retried_later (fst (create_project k p s)))
   \<and> (trim is_space (wtg_repository (wp_target (wm_spec (obj s)))) \<noteq> [] \<and> checkRepositoryAvailability k s = Inr (False, x)
      \<and> fst (createTargetRepository k (trim is_space (wtg_repository (wp_target (wm_spec (obj s))))) s) = None
      \<longrightarrow> (\<exists>err. fst (validate_repository k s) = Some err \<and> retried_later err))"
  using created_project_retried [of k s p]
    created_repository_transient [of s k x "snd (createTargetRepository k (trim is_space (wtg_repository (wp_target (wm_spec (obj s))))) s)"]
  by (metis fst_conv prod.collapse retried_later_def)

text \<open>
  A project that appears between the search for it and its creation makes the migration Failed for good, although the
  message says that the migration is retrying.
\<close>

theorem lost_race_is_not_retried:
  "\<not> retried_later (PlainError ''GitHubProject 'board' creation in progress, retrying'')"
  by code_simp

section \<open>Identifiers of a GitHub App\<close>

lemma digit_no_space: "is_digit c \<Longrightarrow> \<not> is_space c"
  by (auto simp: is_digit_def is_space_def between_def)

lemma takeWhile_digits: "list_all is_digit ds \<Longrightarrow> takeWhile is_digit ds = ds"
  by (simp add: list_all_iff takeWhile_eq_all_conv)

lemma scan_of_parsed:
  assumes "parse_int64 s = Inr n"
  shows "scan_int64 k s = Inr n"
proof (cases s)
  case Nil
  then show ?thesis using assms by (simp add: parse_int64_def)
next
  case (Cons c cs)
  show ?thesis
  proof (cases "c = CHR ''-'' \<or> c = CHR ''+''")
    case True
    have "cs \<noteq> []" "list_all is_digit cs"
      using assms True by (auto simp: parse_int64_def Cons Let_def split: if_splits)
    moreover have "\<not> is_space c" using True by (auto simp: is_space_def between_def)
    ultimately show ?thesis using assms True by (auto simp: scan_int64_def sscanf_int64_def Cons takeWhile_digits Let_def)
  next
    case False
    have "list_all is_digit (c # cs)"
      using assms False by (auto simp: parse_int64_def Cons Let_def split: if_splits)
    then show ?thesis using assms False digit_no_space [of c]
      by (simp add: scan_int64_def sscanf_int64_def Cons takeWhile_digits Let_def)
  qed
qed

text \<open>
  The validation reads the identifiers of a GitHub App with \<open>Sscanf\<close>, the run with
  \<open>ParseInt\<close>. What the run accepts the validation reads as the same number; the converse does
  not hold: an identifier that ends with a newline passes the validation and fails every run.
\<close>

theorem identifiers_read_twice:
  "(parse_int64 s = Inr n \<longrightarrow> scan_int64 k s = Inr n)
   \<and> scan_int64 k (''42'' @ [newline]) = Inr 42 \<and> (\<exists>err. parse_int64 (''42'' @ [newline]) = Inl err)"
proof -
  have "scan_int64 k (''42'' @ [newline]) = Inr 42"
    by (simp add: scan_int64_def sscanf_int64_def Let_def is_space_def is_digit_def between_def parse_int64_def decimal_value_def
        digit_value_def in_int64_def)
  moreover have "\<exists>err. parse_int64 (''42'' @ [newline]) = Inl err"
    by (simp add: Let_def is_digit_def between_def parse_int64_def)
  ultimately show ?thesis using scan_of_parsed by blast
qed


section \<open>Witnesses\<close>

text \<open>A migration with tokens in secrets, and an environment in which nothing fails but the first issue.\<close>

definition sample_wi_kube :: wi_kube where
  "sample_wi_kube = \<lparr>k_clock = (\<lambda>n. 10 * minute), k_status = (\<lambda>n x. None),
     k_update = (\<lambda>n old x. Inr (old\<lparr>wm_meta := (wm_meta old)\<lparr>om_finalizers := om_finalizers (wm_meta x)\<rparr>\<rparr>)),
     k_secret = (\<lambda>ns n. Inr (\<lambda>key. Some ''token'')), wk_get = (\<lambda>n x. Inr x), wk_labels = (\<lambda>ns n. Map.empty),
     wk_project = (\<lambda>s ns n. Inl (NotFoundError ''no'')), wk_projects = (\<lambda>s ns. Inr []), wk_create_project = (\<lambda>s p. None),
     wk_migrations = (\<lambda>s ns. Inr []), wk_exists = (\<lambda>s t ow n. Inr False), wk_create_repo = (\<lambda>s t ow n. None),
     wk_scan_error = (\<lambda>x. PlainError ''expected integer''), wk_app_client = (\<lambda>s i j key. None),
     wk_app_token = (\<lambda>s i j. Inr ''app''), wk_field = (\<lambda>s t p n. Inr (''f'', [])), wk_node_id = (\<lambda>s t ow r n. Inr ''node''),
     wk_add_issues = (\<lambda>s t p ids. Inr []), wk_service = sample_items_env\<rparr>"

text \<open>The same, with every status write refused and the record of the tracking database full.\<close>

definition refusing_wi_kube :: wi_kube where
  "refusing_wi_kube = sample_wi_kube\<lparr>k_status := (\<lambda>n x. Some (PlainError ''context deadline exceeded''))\<rparr>"

definition sample_settings :: wi_settings where
  "sample_settings = \<lparr>wis_typeMapping = [], wis_stateMapping = [], wis_includeHistory = None, wis_includeAttachments = None,
     wis_preserveRelationships = None, wis_includeTags = None, wis_combineComments = None, wis_batchSize = 0,
     wis_batchDelaySeconds = 0, wis_perItemDelayMs = 0, wis_timeoutMinutes = 0, wis_progressUpdateIntervalSeconds = 0,
     wis_fieldMapping = []\<rparr>"

definition sample_wi_status :: "migration_phase \<Rightarrow> int \<Rightarrow> wi_status" where
  "sample_wi_status ph percent = \<lparr>wms_phase = ph, wms_conditions = [], wms_observedGeneration = 1, wms_lastReconcileTime = Some 0,
     wms_startTime = None, wms_completionTime = None, wms_progress = zero_wi_progress\<lparr>wg_percentage := percent\<rparr>,
     wms_migratedItems = [], wms_errorMessage = [], wms_warnings = [], wms_statistics = None\<rparr>"

definition sample_wi_migration :: "migration_phase \<Rightarrow> int \<Rightarrow> wi_migration" where
  "sample_wi_migration ph percent = \<lparr>wm_meta = zero_meta\<lparr>om_name := ''m'', om_namespace := ''ns'', om_generation := 1,
       om_finalizers := [wi_finalizerName]\<rparr>,
     wm_spec = \<lparr>wp_source = \<lparr>wso_organization = ''org'', wso_project = ''p'', wso_team = [],
         wso_auth = \<lparr>ado_servicePrincipal = None, ado_pat = Some \<lparr>pat_tokenRef = id_ref\<rparr>\<rparr>\<rparr>,
       wp_target = \<lparr>wtg_owner = ''o'', wtg_repository = ''r'', wtg_projectRef = ''board'', wtg_auth = secret_token\<rparr>,
       wp_settings = sample_settings, wp_filters = no_filters\<rparr>,
     wm_status = sample_wi_status ph percent\<rparr>"

definition sample_wi_world :: "migration_phase \<Rightarrow> int \<Rightarrow> nat \<Rightarrow> wi_world" where
  "sample_wi_world ph percent n = \<lparr>ww_object = sample_wi_migration ph percent,
     ww_active = replicate n (migration_key (sample_wi_migration ph percent)), ww_running = n\<rparr>"

lemma sample_wi_env_ok: "wi_env_ok sample_wi_kube" "wi_env_ok refusing_wi_kube"
  using sample_env_facts(1)
  by (simp_all add: wi_env_ok_def sample_wi_kube_def refusing_wi_kube_def rows_have_issues_def migration_key_def)

lemma sample_wi_world_ok:
  "wi_ok (sample_wi_world PhaseRunning 0 1)" "wi_created (sample_wi_world PhaseUnset 0 0)" "stuck (sample_wi_world PhaseRunning 100 0)"
  by (simp_all add: wi_ok_def wi_created_def stuck_def is_active_def sample_wi_world_def sample_wi_migration_def
      sample_wi_status_def status_ok_def)

theorem wi_run_invariant_witness:
  "ww_running (wi_life [WiReconciled sample_wi_kube, WiReconciled sample_wi_kube] (sample_wi_world PhaseUnset 0 0)) \<le> 1"
  using wi_run_invariant [OF sample_wi_world_ok(2), of "[WiReconciled sample_wi_kube, WiReconciled sample_wi_kube]"] sample_wi_env_ok
  by simp

theorem stuck_for_ever_witness:
  "stuck (wi_life [WiReconciled sample_wi_kube, WiOperatorRestarted] (sample_wi_world PhaseRunning 100 0))"
  using stuck_for_ever [OF sample_wi_world_ok(3), of "[WiReconciled sample_wi_kube, WiOperatorRestarted]"] sample_wi_env_ok
  by simp

lemma sample_service:
  "\<exists>items tr. run_service sample_wi_kube ''a'' ''g'' (sample_wi_migration PhaseRunning 0) = Some (None, items, tr)"
proof -
  define e where "e = sample_items_env\<lparr>we_secret := k_secret sample_wi_kube\<rparr>"
  define r where "r = wi_request_of ''org'' ''p'' [] ''o'' ''r'' ''a'' ''g'' sample_settings no_filters (PatAuth ''g'')"
  have "queryWorkItems e (wr_sourceProject r) (buildWIQLQuery r) = Inr (map sample_work_item [7, 8])"
    using query_is_complete_lemma [of e "wr_sourceProject r" "buildWIQLQuery r" "Some [Some 7, None, Some 8]" sample_work_item]
    by (simp add: e_def sample_items_env_def map_filter_def)
  then have "\<exists>items tr. migrateWorkItemsWithProgressInternal e r [] [] = Some (None, items, tr)"
    by (rule internal_no_error [rotated 5])
      (simp_all add: e_def r_def wi_request_of_def Let_def sample_items_env_def rows_have_issues_def)
  then show ?thesis
    by (simp add: run_service_def MigrateWorkItemsWithProgress_def service_auth_def sample_wi_migration_def secret_token_def
        sample_wi_status_def Let_def) (simp add: e_def r_def sample_wi_kube_def)
qed

theorem completed_run_reports_no_failures_witness:
  "\<exists>items tr t. run_service sample_wi_kube ''a'' ''g'' (sample_wi_migration PhaseRunning 0) = Some (None, items, tr)
     \<and> run_with_tokens sample_wi_kube ''a'' ''g'' (wi_fetched (sample_wi_world PhaseRunning 0 1)) = Some t
     \<and> wi_phase (stored t) = PhaseCompleted \<and> wg_itemsFailed (wms_progress (wi_st (stored t))) = 0"
proof -
  obtain items tr where s: "run_service sample_wi_kube ''a'' ''g'' (sample_wi_migration PhaseRunning 0) = Some (None, items, tr)"
    using sample_service by blast
  have run: "in_run [] (wi_fetched (sample_wi_world PhaseRunning 0 1))"
    by (simp add: in_run_def sample_wi_world_def sample_wi_migration_def sample_wi_status_def)
  have writes: "k_status sample_wi_kube n x = None" for n x by (simp add: sample_wi_kube_def)
  from s have s': "run_service sample_wi_kube ''a'' ''g'' (obj (wi_fetched (sample_wi_world PhaseRunning 0 1))) = Some (None, items, tr)"
    by (simp add: sample_wi_world_def)
  from completed_run_reports_no_failures [OF sample_wi_env_ok(1) run _ writes s'] s show ?thesis by auto
qed


text \<open>When every status write is refused a run leaves the stored object alone.\<close>

definition refuses :: "wi_kube \<Rightarrow> bool" where
  "refuses k \<longleftrightarrow> (\<forall>n x. \<exists>err. k_status k n x = Some err \<and> \<not> is_conflict err) \<and> (\<forall>n x. wk_get k n x = Inr x)"

lemma refused_update:
  assumes "refuses k"
  shows "stored (snd (statusUpdateWithRetry k s)) = stored s"
proof -
  obtain err where "k_status k (calls s) (obj s) = Some err" "\<not> is_conflict err"
    using assms unfolding refuses_def by blast
  then show ?thesis by (simp add: statusUpdateWithRetry_def numeral_eq_Suc wi_update_status_def)
qed

lemma refused_callback: "refuses k \<Longrightarrow> stored (snd (wi_progressCallback k u x)) = stored (snd x)"
  by (cases x) (auto simp: wi_progressCallback_def case_prod_unfold wi_fetch_def refuses_def refused_update)

lemma refused_updates: "refuses k \<Longrightarrow> stored (apply_updates k tr s) = stored s"
proof -
  assume k: "refuses k"
  have "stored (snd (fold (wi_progressCallback k) us x)) = stored (snd x)" for us x
    by (induction us arbitrary: x) (simp_all add: refused_callback [OF k])
  then show ?thesis by (simp add: apply_updates_def)
qed

lemma refused_run:
  assumes k: "refuses k" and "performMigration k s = Some t"
  shows "stored t = stored s"
proof -
  note upd = refused_update [OF k] and ups = refused_updates [OF k]
  have fail: "stored (fail_run k what err v) = stored v" for what err v
    by (simp add: fail_run_def upd)
  have proj: "stored (add_to_project k g items v) = stored v" for g items v
    by (simp add: add_to_project_def Let_def upd add_issues_frame)
  have dur: "stored (set_duration k v) = stored v" for v
    by (simp add: set_duration_def case_prod_unfold split: option.split)
  have compl: "stored (complete_run k items v) = stored v" for items v
    by (simp add: complete_run_def case_prod_unfold upd dur)
  have "stored u = stored v" if "run_with_tokens k a g v = Some u" for a g u v
    using that by (auto simp: run_with_tokens_def Let_def upd ups fail proj compl split: option.splits)
  then have "stored u = stored v" if "run_fetched k v = Some u" for u v
    using that by (auto simp: run_fetched_def fail split: sum.splits)
  then show ?thesis using assms
    by (fastforce simp: performMigration_def wi_fetch_def refuses_def Let_def)
qed

lemma refusing_kube: "refuses refusing_wi_kube"
  by (simp add: refuses_def refusing_wi_kube_def sample_wi_kube_def is_conflict_def)

theorem unrecorded_run_starts_over_witness:
  "ww_running (wi_life [WiRunEnds refusing_wi_kube, WiReconciled sample_wi_kube] (sample_wi_world PhaseRunning 0 1)) = 1"
proof -
  let ?w = "sample_wi_world PhaseRunning 0 1"
  have w: "wi_ok ?w" "0 < ww_running ?w" by (rule sample_wi_world_ok, simp add: sample_wi_world_def)
  from w have "ww_running ?w \<noteq> 0" by simp
  from run_ended [OF sample_wi_env_ok(2) w(1) this] obtain t where
    t: "wi_event_step (WiRunEnds refusing_wi_kube) ?w = \<lparr>ww_object = t, ww_active = removeAll (migration_key t) (ww_active ?w), ww_running = 0\<rparr>"
    by blast
  have "t = ww_object ?w"
    using t w(2) refused_run [OF refusing_kube, of "wi_fetched ?w"]
    by (auto split: if_splits option.splits) (simp add: sample_wi_world_def)
  then have "ww_object (wi_event_step (WiRunEnds refusing_wi_kube) ?w) = sample_wi_migration PhaseRunning 0"
    unfolding t by (simp add: sample_wi_world_def)
  moreover have "due_for_resume sample_wi_kube (sample_wi_migration PhaseRunning 0)"
    by (simp add: due_for_resume_def sample_wi_migration_def sample_wi_status_def zero_wi_progress_def sample_wi_kube_def
        zero_meta_def minute_def second_def)
  moreover have "wi_phase (sample_wi_migration PhaseRunning 0) = PhaseRunning"
    by (simp add: sample_wi_migration_def sample_wi_status_def)
  ultimately show ?thesis
    using unrecorded_run_starts_over [OF w(1) sample_wi_env_ok(2) w(2) _ sample_wi_env_ok(1)] by (simp del: wi_event_step.simps)
qed


text \<open>A query that finds nothing gives an empty record, whatever was on it.\<close>

lemma empty_query_run:
  assumes "wr_githubAuth r = PatAuth x" and "wr_githubToken r \<noteq> []" and "wr_adoToken r \<noteq> []" and "wr_targetRepository r \<noteq> []"
    and "\<And>tr. we_repo_exists e tr (wr_githubToken r) (wr_targetOwner r) (wr_targetRepository r) = Inr True"
    and "queryWorkItems e (wr_sourceProject r) (buildWIQLQuery r) = Inr []"
  shows "\<exists>tr. migrateWorkItemsWithProgressInternal e r already [] = Some (None, [], tr)"
  using assms
  by (simp add: migrateWorkItemsWithProgressInternal_def discover_and_run_def Let_def getGitHubClient_items_def)

definition empty_wi_kube :: wi_kube where
  "empty_wi_kube = sample_wi_kube\<lparr>wk_service := sample_items_env\<lparr>we_wiql := (\<lambda>p q. Inr None)\<rparr>\<rparr>"

definition recorded_item :: migrated_work_item where
  "recorded_item = \<lparr>mwi_sourceID = 7, mwi_sourceType = ''Bug'', mwi_sourceTitle = ''t'', mwi_targetIssueNumber = 1,
     mwi_targetURL = ''u'', mwi_migratedAt = 0\<rparr>"

definition recorded_world :: wi_world where
  "recorded_world = (let w = sample_wi_world PhaseRunning 0 1 in
     w\<lparr>ww_object := on_wi (\<lambda>st. st\<lparr>wms_migratedItems := [recorded_item]\<rparr>) (ww_object w)\<rparr>)"

lemma empty_env_ok: "wi_env_ok empty_wi_kube"
  using sample_wi_env_ok(1) by (simp add: wi_env_ok_def empty_wi_kube_def sample_wi_kube_def rows_have_issues_def sample_items_env_def)

lemma empty_service:
  "\<exists>tr. run_service empty_wi_kube ''token'' ''token'' (ww_object recorded_world) = Some (None, [], tr)"
proof -
  define e where "e = sample_items_env\<lparr>we_wiql := (\<lambda>p q. Inr None), we_secret := k_secret sample_wi_kube\<rparr>"
  define r where "r = wi_request_of ''org'' ''p'' [] ''o'' ''r'' ''token'' ''token'' sample_settings no_filters (PatAuth ''token'')"
  have "queryWorkItems e (wr_sourceProject r) (buildWIQLQuery r) = Inr (map sample_work_item [])"
    using query_is_complete_lemma [of e "wr_sourceProject r" "buildWIQLQuery r" None sample_work_item]
    by (simp add: e_def sample_items_env_def)
  then have "\<exists>tr. migrateWorkItemsWithProgressInternal e r [recorded_item] [] = Some (None, [], tr)"
    by (intro empty_query_run) (simp_all add: e_def r_def wi_request_of_def Let_def sample_items_env_def)
  then show ?thesis
    by (simp add: run_service_def MigrateWorkItemsWithProgress_def service_auth_def sample_wi_migration_def secret_token_def
        sample_wi_status_def Let_def recorded_world_def sample_wi_world_def)
      (simp add: e_def r_def sample_wi_kube_def empty_wi_kube_def sample_items_env_def)
qed

lemma recorded_world_facts:
  "wi_ok recorded_world" "ww_running recorded_world = 1" "wi_phase (ww_object recorded_world) = PhaseRunning"
  "wms_migratedItems (wi_st (ww_object recorded_world)) = [recorded_item]"
  by (simp_all add: recorded_world_def Let_def sample_wi_world_def sample_wi_migration_def sample_wi_status_def wi_ok_def is_active_def
      status_ok_def)

lemma empty_run:
  "wms_migratedItems (wi_st (ww_object (wi_event_step (WiRunEnds empty_wi_kube) recorded_world))) = []"
proof -
  define s where "s = (wi_fetched recorded_world)\<lparr>calls := Suc 0\<rparr>"
  have run: "in_run [recorded_item] s" using recorded_world_facts by (simp add: in_run_def s_def)
  have writes: "k_status empty_wi_kube n x = None" for n x by (simp add: empty_wi_kube_def sample_wi_kube_def)
  obtain tr where "run_service empty_wi_kube ''token'' ''token'' (obj s) = Some (None, [], tr)"
    using empty_service by (auto simp: s_def)
  from completed_run_lemma [OF empty_env_ok run _ writes this] obtain t where
    t: "run_with_tokens empty_wi_kube ''token'' ''token'' s = Some t" "wms_migratedItems (wi_st (stored t)) = []"
    by (auto simp: s_def)
  have f: "wi_fetch empty_wi_kube (wi_fetched recorded_world) = (Inr (ww_object recorded_world), s)"
    by (simp add: wi_fetch_def empty_wi_kube_def sample_wi_kube_def s_def wi_fetched_def)
  have "s\<lparr>obj := ww_object recorded_world\<rparr> = s" by (simp add: s_def wi_fetched_def)
  moreover have "wi_getAzureDevOpsToken empty_wi_kube (obj s) = Inr ''token''" "wi_getGitHubToken empty_wi_kube (obj s) s = Inr ''token''"
    by (simp_all add: wi_getAzureDevOpsToken_def wi_getGitHubToken_def s_def recorded_world_def sample_wi_world_def
        sample_wi_migration_def secret_token_def id_ref_def empty_wi_kube_def sample_wi_kube_def secret_key_def Let_def)
  ultimately have "run_fetched empty_wi_kube (s\<lparr>obj := ww_object recorded_world\<rparr>) = Some t"
    using t(1) by (simp add: run_fetched_def)
  then have "performMigration empty_wi_kube (wi_fetched recorded_world)
      = Some (t\<lparr>wt_active := removeAll (migration_key (ww_object recorded_world)) (wt_active t)\<rparr>)"
    by (simp add: performMigration_def f Let_def)
  then show ?thesis using recorded_world_facts(2) t(2) by simp
qed

theorem items_recorded_only_on_completion_witness:
  "wi_phase (ww_object (wi_event_step (WiRunEnds empty_wi_kube) recorded_world)) = PhaseCompleted"
  using items_recorded_only_on_completion [OF recorded_world_facts(1), of "WiRunEnds empty_wi_kube"] empty_env_ok empty_run
    recorded_world_facts(4)
  by (simp del: wi_event_step.simps)


theorem created_dependencies_are_awaited_witness:
  "retried_later (fst (create_project sample_wi_kube ''board'' (wi_fetched (sample_wi_world PhaseValidating 0 0))))"
  using created_dependencies_are_awaited [of sample_wi_kube "wi_fetched (sample_wi_world PhaseValidating 0 0)" "''board''" "[]"]
  by (simp add: sample_wi_kube_def)

theorem identifiers_read_twice_witness:
  "parse_int64 ''42'' = Inr 42 \<and> scan_int64 sample_wi_kube ''42'' = Inr 42"
proof -
  have "parse_int64 ''42'' = Inr 42"
    by (simp add: Let_def is_digit_def between_def parse_int64_def decimal_value_def digit_value_def in_int64_def)
  with identifiers_read_twice [of "''42''" 42 sample_wi_kube] show ?thesis by blast
qed

end
