(* ===== verification/ProjectProperties.thy ===== *)
theory ProjectProperties
  imports ProjectLives WorkItemProperties
begin

text \<open>
  What holds of a GitHubProject through its life, and what the WorkItemMigration controller, which
  waits for the project that it creates, sees of it.
\<close>

section \<open>One project at most\<close>

text \<open>
  C13. A GitHubProject creates at most one project at GitHub, whatever fails, is edited or is reconciled
  how often, and exactly one if it is Ready. Its phase moves only from its first one to Creating,
  Ready or Failed, where it stays.
\<close>

theorem project_created_once:
  assumes "\<forall>e \<in> set es. project_honest e" and "project_ok w"
  shows "created (prw_effects (project_run es w)) \<le> 1
    \<and> (pphase (prw_object (project_run es w)) = ProjectReady \<longrightarrow> created (prw_effects (project_run es w)) = 1)
    \<and> project_edge\<^sup>*\<^sup>* (pphase (prw_object w)) (pphase (prw_object (project_run es w)))"
  using prm.inv_run [OF assms] prm.path_run [OF assms] by (simp add: project_ok_def Let_def)

section \<open>The first attempt is the last\<close>





section \<open>Projects and work items\<close>

text \<open>
  C30. A project whose creation was interrupted keeps the work items that are meant for it waiting for
  ever: whatever happens to the project, the validation of the migration refuses it.
\<close>

theorem interrupted_creation_blocks_items:
  assumes "pphase (prw_object w) = ProjectCreating" and "project_ok w" and "\<forall>e \<in> set es. project_honest e"
    and "find_project wk ref s = Inr (Some (prw_object (project_run es w)))"
    and "trim is_space (wtg_projectRef (wp_target (wm_spec (obj s)))) = ref" and "ref \<noteq> []"
  shows "validate_project wk s = (Some (PlainError (''referenced GitHubProject '' @ quote_name ref
    @ '' is not ready (current phase: Creating) - waiting for creation'')), s)"
proof -
  have "pphase (prw_object (project_run es w)) = ProjectCreating"
    using prm.final_run [OF assms(3,2)] assms(1) by (simp add: project_edge_def)
  then show ?thesis using assms(4-6) by (simp add: validate_project_def Let_def project_phase_name_def)
qed

text \<open>An outside that lets a project be created at once.\<close>

definition obliging_project :: "project_env \<Rightarrow> github_project \<Rightarrow> project_info \<Rightarrow> bool" where
  "obliging_project k p info \<longleftrightarrow> (\<forall>n x. k_status k n x = None)
     \<and> (\<forall>n old new. k_update k n old new = Inr (new\<lparr>ghp_status := ghp_status old\<rparr>))
     \<and> (\<forall>s. ghp_spec (obj s) = ghp_spec p \<and> om_namespace (ghp_meta (obj s)) = om_namespace (ghp_meta p)
          \<longrightarrow> (\<exists>c cs. project_getGitHubToken k s = Inr (c # cs)))
     \<and> (\<forall>h tok. \<exists>i. getOwnerID (pj_gq k) tok (ghs_owner (ghp_spec p)) h = Inr i)
     \<and> (\<forall>h r. gq_project (pj_gq k) h r = GqAnswered [] info)"

lemma set_ready_status:
  "ght_projectID (ghp_status (obj (set_ready k c r m s))) = ght_projectID (ghp_status (obj s))" by simp

lemma record_project_accepted:
  "\<forall>n x. k_status k n x = None \<Longrightarrow> pphase (stored (snd (record_project k p s))) = ProjectReady
    \<and> ght_projectID (pstatus (snd (record_project k p s))) = pin_id p"
  by (simp add: record_project_def Let_def read_clock_def status_update_or_eq)

lemma create_at_github_accepted:
  assumes k: "obliging_project k p info" and s: "ghp_spec (obj s) = ghp_spec p" "om_namespace (ghp_meta (obj s)) = om_namespace (ghp_meta p)"
  shows "pphase (stored (snd (create_at_github k s))) = ProjectReady
    \<and> ght_projectID (pstatus (snd (create_at_github k s))) = pin_id info"
proof -
  obtain c cs where token: "project_getGitHubToken k s = Inr (c # cs)" using k s by (auto simp: obliging_project_def)
  obtain i where owner: "getOwnerID (pj_gq k) (c # cs) (ghs_owner (ghp_spec p)) (effects s) = Inr i"
    using k unfolding obliging_project_def by blast
  have answer: "gq_project (pj_gq k) h r = GqAnswered [] info" for h r using k by (simp add: obliging_project_def)
  obtain u where "service_CreateProject (pj_gq k) (create_request (ghp_spec (obj s)) (c # cs)) s = (Inr info, u)"
    using owner s(1) by (cases i) (simp add: service_CreateProject_def create_request_def gq_mutate_def gq_result_def answer)
  then show ?thesis using token record_project_accepted [of k info] k
    by (simp add: create_at_github_def obliging_project_def)
qed

lemma auto_created_ready:
  assumes "obliging_project k (auto_project m ref) info"
  shows "pphase (prw_object (project_step k \<lparr>prw_object = auto_project m ref, prw_effects = []\<rparr>)) = ProjectReady
    \<and> ght_projectID (ghp_status (prw_object (project_step k \<lparr>prw_object = auto_project m ref, prw_effects = []\<rparr>))) = pin_id info"
proof -
  let ?p = "auto_project m ref"
  let ?f = "fetched ?p"
  have fresh: "\<not> project_spec_changed ?p" "\<not> has_finalizer ?p" "pphase ?p = ProjectUnset"
      "om_deletionTimestamp (ghp_meta ?p) = None"
    by (simp_all add: auto_project_def project_spec_changed_def zero_project_status_def zero_meta_def)
  obtain t where fin: "add_project_finalizer k (project_observe k ?f) = (None, t)" and t: "ghp_spec (obj t) = ghp_spec ?p"
      "om_namespace (ghp_meta (obj t)) = om_namespace (ghp_meta ?p)" "pphase (obj t) = ProjectUnset"
      "om_deletionTimestamp (ghp_meta (obj t)) = None"
    using assms fresh by (simp add: add_project_finalizer_def project_update_finalizers_def object_update_def obliging_project_def)
  obtain u where start: "processCreation k t = status_update_or k (\<lambda>e. (no_requeue, Some e)) (create_at_github k) u"
      and u: "ghp_spec (obj u) = ghp_spec ?p" "om_namespace (ghp_meta (obj u)) = om_namespace (ghp_meta ?p)"
    using t by (simp add: processCreation_def Let_def read_clock_def)
  have "prw_object (project_step k \<lparr>prw_object = ?p, prw_effects = []\<rparr>) = stored (snd (create_at_github k (snd (status_update k u))))"
    using fresh fin t assms
    by (simp add: project_step_def Let_def reconcile_project_def project_processPhase_def start status_update_or_eq obliging_project_def)
  with create_at_github_accepted [OF assms, of "snd (status_update k u)"] u show ?thesis by simp
qed

text \<open>
  The project that the WorkItemMigration controller creates by itself is one that it accepts: after a
  single reconciliation of the GitHubProject controller, when nothing fails, it is Ready
  under the identifier that GitHub gave it, and the validation that waited for it passes.
\<close>

theorem auto_created_project_is_accepted:
  assumes "obliging_project k (auto_project m ref) info" and "pin_id info \<noteq> []" and "ref \<noteq> []"
    and "find_project wk ref s = Inr (Some (prw_object (project_step k \<lparr>prw_object = auto_project m ref, prw_effects = []\<rparr>)))"
    and "trim is_space (wtg_projectRef (wp_target (wm_spec (obj s)))) = ref"
  shows "validate_project wk s = (None, s)
    \<and> ght_projectID (ghp_status (prw_object (project_step k \<lparr>prw_object = auto_project m ref, prw_effects = []\<rparr>))) = pin_id info"
  using auto_created_ready [OF assms(1)] assms(2-5) by (simp add: validate_project_def Let_def)

section \<open>Witnesses\<close>

definition sample_project_env :: project_env where
  "sample_project_env = \<lparr>k_clock = int, k_status = (\<lambda>n x. None), k_update = (\<lambda>n old new. Inr (new\<lparr>ghp_status := ghp_status old\<rparr>)),
     k_secret = (\<lambda>ns n. Inr (\<lambda>key. Some ''token'')), pj_gq = sample_gq, pj_app_client = (\<lambda>h i j key. None),
     pj_app_token = (\<lambda>h i j key. Inr ''app''), pj_set_condition = (\<lambda>c cs. [c])\<rparr>"

text \<open>The second write of a status, which is the third call, is refused.\<close>

definition interrupted_project_env :: project_env where
  "interrupted_project_env = sample_project_env\<lparr>k_status := (\<lambda>n x. if n = 2 then Some (PlainError ''conflict'') else None)\<rparr>"

definition sample_project :: "project_phase \<Rightarrow> project_world" where
  "sample_project ph = \<lparr>prw_object = on_project (\<lambda>st. st\<lparr>ght_phase := ph\<rparr>) (auto_project (sample_wi_migration PhaseUnset 0) ''board''),
     prw_effects = []\<rparr>"

lemma sample_project_env_ok [simp]: "project_env_ok sample_project_env" "project_env_ok interrupted_project_env"
  by (simp_all add: project_env_ok_def sample_project_env_def interrupted_project_env_def)

lemma sample_project_facts [simp]:
  "pphase (prw_object (sample_project ph)) = ph" "ght_observedGeneration (ghp_status (prw_object (sample_project ph))) = 0"
  "\<not> has_finalizer (prw_object (sample_project ph))" "ph \<noteq> ProjectReady \<Longrightarrow> project_ok (sample_project ph)"
  by (simp_all add: sample_project_def auto_project_def zero_project_status_def zero_meta_def project_ok_def)

lemma sample_project_obliging:
  "obliging_project sample_project_env (auto_project (sample_wi_migration PhaseUnset 0) ''board'')
     \<lparr>pin_id = ''PVT_1'', pin_number = 1, pin_url = ''https://github.com/orgs/o/projects/1'', pin_title = ''Items'',
      pin_shortDescription = [], pin_public = False\<rparr>"
  by (simp add: obliging_project_def sample_project_env_def sample_gq_def getOwnerID_def project_getGitHubToken_def
      getGitHubPATToken_def secret_or_empty_def auto_project_def sample_wi_migration_def secret_token_def Let_def)

lemma finds_answered:
  "wk_project wk s (om_namespace (wm_meta (obj s))) ref = Inr p \<Longrightarrow> find_project wk ref s = Inr (Some p)"
  by (simp add: find_project_def Let_def)

definition finding_kube :: "github_project \<Rightarrow> wi_kube" where
  "finding_kube p = sample_wi_kube\<lparr>wk_project := (\<lambda>s ns n. Inr p)\<rparr>"

definition sample_wi_state :: wi_state where
  "sample_wi_state = \<lparr>obj = sample_wi_migration PhaseUnset 0, stored = sample_wi_migration PhaseUnset 0, ticks = 0, calls = 0,
     effects = [], wt_active = [], wt_spawned = 0, wt_calls = []\<rparr>"

lemma sample_ref: "trim is_space (wtg_projectRef (wp_target (wm_spec (obj sample_wi_state)))) = ''board''"
  by (simp add: sample_wi_state_def sample_wi_migration_def trim_def is_space_def between_def)

theorem project_created_once_witness:
  "created (prw_effects (project_run [ProjectReconciled sample_project_env, ProjectReconciled interrupted_project_env] (sample_project ProjectUnset))) \<le> 1"
  using project_created_once [of "[ProjectReconciled sample_project_env, ProjectReconciled interrupted_project_env]" "sample_project ProjectUnset"]
  by simp

theorem interrupted_creation_blocks_items_witness:
  "fst (validate_project (finding_kube (prw_object (project_run [ProjectReconciled sample_project_env] (sample_project ProjectCreating)))) sample_wi_state) \<noteq> None"
  by (subst interrupted_creation_blocks_items [of "sample_project ProjectCreating" "[ProjectReconciled sample_project_env]" _ "''board''"])
    (simp_all add: sample_ref finds_answered finding_kube_def)

theorem auto_created_project_is_accepted_witness:
  "fst (validate_project (finding_kube (prw_object (project_step sample_project_env
     \<lparr>prw_object = auto_project (sample_wi_migration PhaseUnset 0) ''board'', prw_effects = []\<rparr>))) sample_wi_state) = None"
  using auto_created_project_is_accepted [OF sample_project_obliging, of "finding_kube (prw_object (project_step sample_project_env
     \<lparr>prw_object = auto_project (sample_wi_migration PhaseUnset 0) ''board'', prw_effects = []\<rparr>))" sample_wi_state]
  by (simp add: sample_ref finds_answered finding_kube_def)




end
