(* ===== verification/DiscoveryTypes.thy ===== *)
theory DiscoveryTypes
  imports Kube
begin

text \<open>
  The AdoDiscovery resource (\<^verbatim>\<open>api/v1/discovery_types.go\<close>), in the order of the source: what to discover, the
  progress, and the descriptions of what Azure DevOps holds. The controllers and services exchange some
  of the latter (\<^verbatim>\<open>Pipeline\<close>, \<^verbatim>\<open>Repository\<close>) outside of this resource too.
\<close>

section \<open>What to discover\<close>

datatype discovery_phase = DiscoveryUnset | DiscoveryPending | DiscoveryRunning | DiscoveryCompleted
  | DiscoveryFailed | DiscoveryCancelled

record discovery_scope =
  dsc_organizations :: bool
  dsc_projects :: bool
  dsc_repositories :: bool
  dsc_workItems :: bool
  dsc_pipelines :: bool
  dsc_builds :: bool
  dsc_releases :: bool
  dsc_teams :: bool
  dsc_users :: bool

record discovery_date_range =
  ddr_start :: "instant option"
  ddr_end :: "instant option"

record discovery_filters =
  dfi_projectPatterns :: "string list"
  dfi_repositoryPatterns :: "string list"
  dfi_workItemTypes :: "string list"
  dfi_pipelineTypes :: "string list"
  dfi_dateRange :: "discovery_date_range option"
  dfi_includeArchived :: bool
  dfi_includeDisabled :: bool

record discovery_settings =
  dst_maxItems :: int
  dst_parallelWorkers :: int
  dst_timeoutMinutes :: int
  dst_cacheResults :: bool
  dst_cacheDurationMinutes :: int

record discovery_spec =
  dsp_source :: ado_source_config
  dsp_scope :: discovery_scope
  dsp_filters :: "discovery_filters option"
  dsp_settings :: "discovery_settings option"

record discovery_progress =
  dpr_currentStep :: string
  dpr_stepsCompleted :: int
  dpr_totalSteps :: int
  dpr_percentage :: int
  dpr_itemsDiscovered :: int
  dpr_currentOperation :: string

section \<open>What Azure DevOps holds\<close>

record ado_organization =
  aor_id :: string
  aor_name :: string
  aor_url :: string
  aor_description :: string
  aor_region :: string
  aor_owner :: string
  aor_createdDate :: "instant option"
  aor_lastModifiedDate :: "instant option"

record version_control_capability =
  vcc_sourceControlType :: string
  vcc_gitEnabled :: bool
  vcc_tfvcEnabled :: bool

record process_template_capability =
  ptc_templateTypeId :: string
  ptc_templateName :: string
  ptc_isDefault :: bool

record project_capabilities =
  pca_versionControl :: "version_control_capability option"
  pca_processTemplate :: "process_template_capability option"

record ado_project =
  apr_id :: string
  apr_name :: string
  apr_description :: string
  apr_url :: string
  apr_state :: string
  apr_visibility :: string
  apr_revision :: int
  apr_lastUpdateTime :: "instant option"
  apr_capabilities :: "project_capabilities option"

record ado_commit =
  aco_id :: string
  aco_author :: string
  aco_committer :: string
  aco_comment :: string
  aco_date :: instant
  aco_url :: string

record ado_repository =
  are_id :: string
  are_name :: string
  are_url :: string
  are_defaultBranch :: string
  are_size :: int
  are_isEmpty :: bool
  are_isDisabled :: bool
  are_projectID :: string
  are_projectName :: string
  are_remoteURL :: string
  are_sshurl :: string
  are_webURL :: string
  are_lastCommit :: "ado_commit option"
  are_branchCount :: int
  are_tagCount :: int
  are_pullRequestCount :: int

record ado_work_item =
  awi_id :: int
  awi_type :: string
  awi_title :: string
  awi_state :: string
  awi_assignedTo :: string
  awi_createdDate :: instant
  awi_changedDate :: instant
  awi_areaPath :: string
  awi_iterationPath :: string
  awi_tags :: "string list"
  awi_priority :: string
  awi_severity :: string
  awi_url :: string
  awi_projectID :: string
  awi_projectName :: string

record pipeline_variable =
  pva_name :: string
  pva_value :: string
  pva_isSecret :: bool
  pva_allowOverride :: bool

record ado_pipeline =
  pip_id :: int
  pip_name :: string
  pip_folder :: string
  pip_type :: string
  pip_quality :: string
  pip_queueStatus :: string
  pip_revision :: int
  pip_createdDate :: instant
  pip_url :: string
  pip_projectID :: string
  pip_projectName :: string
  pip_repository :: "ado_repository option"
  pip_variables :: "pipeline_variable list"

record ado_build =
  abu_id :: int
  abu_buildNumber :: string
  abu_status :: string
  abu_result :: string
  abu_queueTime :: instant
  abu_startTime :: "instant option"
  abu_finishTime :: "instant option"
  abu_url :: string
  abu_projectID :: string
  abu_projectName :: string
  abu_pipelineID :: int
  abu_pipelineName :: string
  abu_sourceBranch :: string
  abu_sourceVersion :: string
  abu_requestedBy :: string
  abu_requestedFor :: string

record release_environment =
  ren_id :: int
  ren_name :: string
  ren_status :: string
  ren_rank :: int
  ren_createdOn :: "instant option"
  ren_modifiedOn :: "instant option"

record ado_release =
  arl_id :: int
  arl_name :: string
  arl_status :: string
  arl_createdOn :: instant
  arl_modifiedOn :: "instant option"
  arl_createdBy :: string
  arl_modifiedBy :: string
  arl_url :: string
  arl_projectID :: string
  arl_projectName :: string
  arl_releaseDefinitionID :: int
  arl_releaseDefinitionName :: string
  arl_description :: string
  arl_environments :: "release_environment list"

record ado_team =
  ate_id :: string
  ate_name :: string
  ate_description :: string
  ate_url :: string
  ate_projectID :: string
  ate_projectName :: string
  ate_identityURL :: string

record ado_user =
  aus_id :: string
  aus_displayName :: string
  aus_uniqueName :: string
  aus_url :: string
  aus_imageURL :: string
  aus_descriptor :: string

record discovered_resources =
  drs_organizations :: "ado_organization list"
  drs_projects :: "ado_project list"
  drs_repositories :: "ado_repository list"
  drs_workItems :: "ado_work_item list"
  drs_pipelines :: "ado_pipeline list"
  drs_builds :: "ado_build list"
  drs_releases :: "ado_release list"
  drs_teams :: "ado_team list"
  drs_users :: "ado_user list"

record cache_info =
  cin_hit :: bool
  cin_timestamp :: instant
  cin_expiry :: instant
  cin_key :: string

record discovery_status =
  dss_phase :: discovery_phase
  dss_conditions :: "condition list"
  dss_startTime :: "instant option"
  dss_completionTime :: "instant option"
  dss_progress :: discovery_progress
  dss_discoveredResources :: discovered_resources
  dss_errorMessage :: string
  dss_warnings :: "string list"
  dss_cacheInfo :: "cache_info option"

record ado_discovery =
  dis_meta :: object_meta
  dis_spec :: discovery_spec
  dis_status :: discovery_status

definition on_discovery :: "(discovery_status \<Rightarrow> discovery_status) \<Rightarrow> ado_discovery \<Rightarrow> ado_discovery" where
  "on_discovery f d = d\<lparr>dis_status := f (dis_status d)\<rparr>"

definition on_discovery_progress :: "(discovery_progress \<Rightarrow> discovery_progress) \<Rightarrow> ado_discovery \<Rightarrow> ado_discovery" where
  "on_discovery_progress f = on_discovery (\<lambda>st. st\<lparr>dss_progress := f (dss_progress st)\<rparr>)"

lemma on_discovery_simps [simp]:
  "dis_meta (on_discovery f d) = dis_meta d" "dis_spec (on_discovery f d) = dis_spec d"
  "dis_status (on_discovery f d) = f (dis_status d)"
  "dis_meta (on_discovery_progress g d) = dis_meta d" "dis_spec (on_discovery_progress g d) = dis_spec d"
  "dis_status (on_discovery_progress g d) = (dis_status d)\<lparr>dss_progress := g (dss_progress (dis_status d))\<rparr>"
  by (simp_all add: on_discovery_def on_discovery_progress_def)

end
