(* ===== verification/PipelineTypes.thy ===== *)
theory PipelineTypes
  imports Errors Naming DiscoveryTypes
begin

text \<open>
  \<open>api/v1/pipelinetoworkflow_types.go\<close>: the types of a PipelineToWorkflow, which converts
  pipelines of Azure DevOps to GitHub workflows, with the part of \<open>Pipeline\<close>
  (\<open>api/v1/discovery_types.go\<close>) that the conversion reads, and the view its controller has
  of the outside.
\<close>

section \<open>Enumerations\<close>

datatype conv_phase =
    ConvUnset | ConvPending | ConvAnalyzing | ConvConverting | ConvValidating
  | ConvCompleted | ConvFailed | ConvCancelled

datatype conv_status =
    CsPending | CsAnalyzing | CsConverting | CsValidating | CsCompleted | CsFailed | CsSkipped

section \<open>Specification types\<close>

record trigger_config =
  tc_branches :: "string list"
  tc_paths :: "string list"
  tc_tags :: "string list"
  tc_cron :: string
  tc_inputs :: "string \<rightharpoonup> string"

record workflow_trigger =
  wtr_type :: string
  wtr_config :: "trigger_config option"

record workflow_settings =
  wfs_triggers :: "workflow_trigger list"
  wfs_environmentVariables :: "string \<rightharpoonup> string"
  wfs_secretsMapping :: "string \<rightharpoonup> string"
  wfs_runnerLabels :: "string list"
  wfs_timeoutMinutes :: int

record workflows_repository_config =
  wrc_create :: bool
  wrc_name :: string
  wrc_description :: string
  wrc_private :: bool
  wrc_initializeWithReadme :: bool

record workflow_target_config =
  wft_owner :: string
  wft_repository :: string
  wft_auth :: github_auth_config
  wft_apiURL :: string
  wft_workflowDirectory :: string
  wft_defaultWorkflowSettings :: "workflow_settings option"
  wft_workflowsRepository :: "workflows_repository_config option"

record pipeline_source_config =
  pso_organization :: string
  pso_project :: string
  pso_auth :: ado_auth_config
  pso_apiURL :: string

record auto_discovery_config =
  au_enabled :: bool
  au_includeBuildPipelines :: bool
  au_includeReleasePipelines :: bool
  au_folderFilter :: string
  au_nameFilter :: string
  au_maxPipelines :: int

record task_mapping =
  tm_action :: string
  tm_version :: string
  tm_inputMappings :: "string \<rightharpoonup> string"
  tm_outputMappings :: "string \<rightharpoonup> string"
  tm_conditionMappings :: "string \<rightharpoonup> string"
  tm_customScript :: string

record conversion_templates =
  ctp_jobTemplate :: string
  ctp_stepTemplate :: string
  ctp_workflowTemplate :: string
  ctp_customTemplates :: "string \<rightharpoonup> string"

record conversion_settings =
  cs_convertVariables :: bool
  cs_convertVariableGroups :: bool
  cs_convertServiceConnections :: bool
  cs_convertArtifacts :: bool
  cs_convertApprovals :: bool
  cs_preserveComments :: bool
  cs_generateMatrix :: bool
  cs_useCompositeActions :: bool
  cs_taskMappings :: "string \<rightharpoonup> task_mapping"
  cs_templates :: "conversion_templates option"
  cs_parallelJobs :: int
  cs_retryAttempts :: int

record pipeline_resource_settings =
  prs_overrideTriggers :: "workflow_trigger list"
  prs_overrideRunnerLabels :: "string list"
  prs_overrideEnvironmentVariables :: "string \<rightharpoonup> string"
  prs_includeStages :: "string list"
  prs_excludeStages :: "string list"
  prs_stageMappings :: "string \<rightharpoonup> string"

record pipeline_resource =
  plr_id :: string
  plr_name :: string
  plr_type :: string
  plr_targetWorkflowName :: string
  plr_settings :: "pipeline_resource_settings option"
  plr_customMappings :: "string \<rightharpoonup> string"

record conversion_validation_rules =
  cvr_skipValidation :: bool
  cvr_validateSyntax :: bool
  cvr_validateActionsExist :: bool
  cvr_validateSecretsExist :: bool
  cvr_requiredGitHubFeatures :: "string list"

record pipeline_spec =
  pws_source :: pipeline_source_config
  pws_target :: workflow_target_config
  pws_settings :: conversion_settings
  pws_autoDiscovery :: "auto_discovery_config option"
  pws_pipelines :: "pipeline_resource list"
  pws_type :: string
  pws_validationRules :: "conversion_validation_rules option"

section \<open>Status types\<close>

record conversion_progress =
  cp_total :: int
  cp_completed :: int
  cp_failed :: int
  cp_processing :: int
  cp_skipped :: int
  cp_percentage :: int
  cp_currentStep :: string
  cp_currentPipeline :: string
  cp_estimatedCompletion :: "instant option"

record conversion_details =
  cd_originalDefinition :: string
  cd_convertedDefinition :: string
  cd_stagesConverted :: int
  cd_jobsConverted :: int
  cd_tasksConverted :: int
  cd_variablesConverted :: int
  cd_unsupportedFeatures :: "string list"
  cd_manualInterventionRequired :: "string list"
  cd_conversionNotes :: "string list"

record pipeline_conversion_status =
  pst_pipelineID :: string
  pst_pipelineName :: string
  pst_pipelineType :: string
  pst_targetWorkflowName :: string
  pst_status :: conv_status
  pst_progress :: int
  pst_startTime :: "instant option"
  pst_completionTime :: "instant option"
  pst_errorMessage :: string
  pst_workflowFilePath :: string
  pst_workflowURL :: string
  pst_details :: "conversion_details option"

record generated_workflow =
  gw_name :: string
  gw_filePath :: string
  gw_content :: string
  gw_sourcePipelineID :: string
  gw_sourcePipelineName :: string
  gw_gitHubURL :: string
  gw_validationStatus :: string
  gw_validationErrors :: "string list"

text \<open>\<open>ConversionValidationError\<close> and \<open>ConversionValidationWarning\<close> have the same fields.\<close>

record conversion_issue =
  cve_code :: string
  cve_message :: string
  cve_pipeline :: string
  cve_stage :: string
  cve_job :: string
  cve_task :: string
  cve_lineNumber :: int

record conversion_validation_results =
  cvs_valid :: bool
  cvs_errors :: "conversion_issue list"
  cvs_warnings :: "conversion_issue list"
  cvs_timestamp :: instant
  cvs_syntaxValidation :: "string \<rightharpoonup> bool"
  cvs_actionValidation :: "string \<rightharpoonup> bool"
  cvs_secretValidation :: "string \<rightharpoonup> bool"

record conversion_statistics =
  cst_duration :: duration
  cst_pipelinesAnalyzed :: int
  cst_workflowsGenerated :: int
  cst_stagesConverted :: int
  cst_jobsConverted :: int
  cst_tasksConverted :: int
  cst_variablesConverted :: int
  cst_successRate :: string
  cst_unsupportedFeatures :: "string \<rightharpoonup> int"
  cst_taskConversionStats :: "string \<rightharpoonup> int"
  cst_apiCalls :: "string \<rightharpoonup> int"

record pipeline_status =
  pwt_phase :: conv_phase
  pwt_conditions :: "condition list"
  pwt_observedGeneration :: int
  pwt_lastReconcileTime :: "instant option"
  pwt_startTime :: "instant option"
  pwt_completionTime :: "instant option"
  pwt_progress :: conversion_progress
  pwt_pipelineStatuses :: "pipeline_conversion_status list"
  pwt_validationResults :: "conversion_validation_results option"
  pwt_generatedWorkflows :: "generated_workflow list"
  pwt_errorMessage :: string
  pwt_warnings :: "string list"
  pwt_statistics :: "conversion_statistics option"

record pipeline_conversion =
  pc_meta :: object_meta
  pc_spec :: pipeline_spec
  pc_status :: pipeline_status

section \<open>Zero values and assignments\<close>

definition zero_conv_progress :: conversion_progress where
  "zero_conv_progress = \<lparr>cp_total = 0, cp_completed = 0, cp_failed = 0, cp_processing = 0, cp_skipped = 0,
     cp_percentage = 0, cp_currentStep = [], cp_currentPipeline = [], cp_estimatedCompletion = None\<rparr>"

definition zero_conv_status :: pipeline_status where
  "zero_conv_status = \<lparr>pwt_phase = ConvUnset, pwt_conditions = [], pwt_observedGeneration = 0,
     pwt_lastReconcileTime = None, pwt_startTime = None, pwt_completionTime = None,
     pwt_progress = zero_conv_progress, pwt_pipelineStatuses = [], pwt_validationResults = None,
     pwt_generatedWorkflows = [], pwt_errorMessage = [], pwt_warnings = [], pwt_statistics = None\<rparr>"

definition zero_conv_statistics :: conversion_statistics where
  "zero_conv_statistics = \<lparr>cst_duration = 0, cst_pipelinesAnalyzed = 0, cst_workflowsGenerated = 0,
     cst_stagesConverted = 0, cst_jobsConverted = 0, cst_tasksConverted = 0, cst_variablesConverted = 0,
     cst_successRate = [], cst_unsupportedFeatures = Map.empty, cst_taskConversionStats = Map.empty,
     cst_apiCalls = Map.empty\<rparr>"

text \<open>Assignments \<open>pipelineConversion.Status.F = v\<close> and \<open>pipelineConversion.Status.Progress.F = v\<close>.\<close>

definition on_conv :: "(pipeline_status \<Rightarrow> pipeline_status) \<Rightarrow> pipeline_conversion \<Rightarrow> pipeline_conversion" where
  "on_conv f m = m\<lparr>pc_status := f (pc_status m)\<rparr>"

definition on_conv_progress :: "(conversion_progress \<Rightarrow> conversion_progress) \<Rightarrow> pipeline_conversion \<Rightarrow> pipeline_conversion" where
  "on_conv_progress f = on_conv (\<lambda>st. st\<lparr>pwt_progress := f (pwt_progress st)\<rparr>)"

lemma on_conv_simps [simp]:
  "pc_status (on_conv f m) = f (pc_status m)" "pc_spec (on_conv f m) = pc_spec m" "pc_meta (on_conv f m) = pc_meta m"
  by (simp_all add: on_conv_def)

lemma on_conv_progress_simps [simp]:
  "pc_status (on_conv_progress f m) = (pc_status m)\<lparr>pwt_progress := f (pwt_progress (pc_status m))\<rparr>"
  "pc_spec (on_conv_progress f m) = pc_spec m" "pc_meta (on_conv_progress f m) = pc_meta m"
  by (simp_all add: on_conv_progress_def)

section \<open>The outside\<close>

type_synonym pw_state = "pipeline_conversion rstate"

text \<open>
  The outside of the controller, beside the API server and the clock: the pipelines that
  Azure DevOps lists (with a token, with a service principal), \<open>regexp.MatchString\<close>, \<open>float64\<close>
  arithmetic, the rate limiter of the validation, the error texts of \<open>fmt.Sscanf\<close>, GitHub App tokens, and GitHub. Each answer may
  depend on everything that happened in the reconciliation so far. A call that changes
  something at GitHub is recorded as an effect.
\<close>

record pw_env = "pipeline_conversion kube" +
  pe_pat_pipelines :: "pw_state \<Rightarrow> string \<Rightarrow> string \<Rightarrow> string \<Rightarrow> string \<Rightarrow> go_error + ado_pipeline list"
  pe_sp_pipelines :: "pw_state \<Rightarrow> string \<Rightarrow> string \<Rightarrow> string \<Rightarrow> string \<Rightarrow> string \<Rightarrow> string \<Rightarrow> go_error + ado_pipeline list"
  pe_match :: "string \<Rightarrow> string \<Rightarrow> go_error + bool"
  pe_rnd :: "rat \<Rightarrow> rat"
  pe_conv :: "rat \<Rightarrow> int"
  pe_wait :: "pw_state \<Rightarrow> go_error option"
  pe_scan_error :: "string \<Rightarrow> go_error"
  pe_app_client :: "pw_state \<Rightarrow> int \<Rightarrow> int \<Rightarrow> string \<Rightarrow> go_error option"
  pe_app_token :: "pw_state \<Rightarrow> int \<Rightarrow> int \<Rightarrow> string \<Rightarrow> go_error + string"
  pe_exists :: "pw_state \<Rightarrow> string \<Rightarrow> string \<Rightarrow> string \<Rightarrow> go_error + bool"
  pe_get_repo :: "pw_state \<Rightarrow> string \<Rightarrow> string \<Rightarrow> string \<Rightarrow> go_error + string \<times> string"
  pe_create_repo :: "pw_state \<Rightarrow> string \<Rightarrow> string \<Rightarrow> string \<Rightarrow> github_repo_settings \<Rightarrow> go_error + string \<times> string"
  pe_create_file :: "pw_state \<Rightarrow> string list \<Rightarrow> go_error option"
  pe_update_file :: "pw_state \<Rightarrow> string list \<Rightarrow> go_error option"
  pe_contents :: "pw_state \<Rightarrow> string list \<Rightarrow> int option \<times> go_error option"
  pe_sha :: "pw_state \<Rightarrow> string list \<Rightarrow> go_error + string option"

section \<open>A sample outside\<close>

definition sample_pw :: pw_env where
  "sample_pw = \<lparr>k_clock = (\<lambda>n. int n), k_status = (\<lambda>n x. None), k_update = (\<lambda>n old new. Inr (new\<lparr>pc_status := pc_status old\<rparr>)),
     k_secret = (\<lambda>ns n. Inr (Map.empty(''token'' \<mapsto> ''secret''))),
     pe_pat_pipelines = (\<lambda>s org project tok kind. Inr []), pe_sp_pipelines = (\<lambda>s org project c sec t kind. Inr []),
     pe_match = (\<lambda>p n. Inr True), pe_rnd = id, pe_conv = floor, pe_wait = (\<lambda>s. None), pe_scan_error = PlainError,
     pe_app_client = (\<lambda>s i j key. None), pe_app_token = (\<lambda>s i j key. Inr ''app''), pe_exists = (\<lambda>s tok ow n. Inr False),
     pe_get_repo = (\<lambda>s tok ow n. Inr (''https://github.com/o/w'', ''main'')),
     pe_create_repo = (\<lambda>s tok ow n st. Inr (''https://github.com/o/w'', ''main'')), pe_create_file = (\<lambda>s xs. None),
     pe_update_file = (\<lambda>s xs. None), pe_contents = (\<lambda>s xs. (Some 404, Some (PlainError ''404''))), pe_sha = (\<lambda>s xs. Inr (Some ''sha''))\<rparr>"

end
