(* ===== verification/PipelineConverter.thy ===== *)
theory PipelineConverter
  imports PipelineTypes
begin

text \<open>
  \<open>internal/services/workflow_converter.go\<close>: from a pipeline to the text of a GitHub workflow.
  The two templates are written out line by line; what varies in them is the pipeline's name
  and identifier, the triggers and the runner. The environment of a conversion is its
  specification only.
\<close>

section \<open>Triggers and runners\<close>

record converted_workflow =
  cw_name :: string
  cw_content :: string
  cw_filePath :: string
  cw_sourcePipelineID :: string
  cw_sourcePipelineName :: string
  cw_pipelineType :: string
  cw_conversionNotes :: "string list"
  cw_requiresManual :: "string list"

text \<open>The lines of one trigger; an unknown type and a schedule without a time give none.\<close>

definition branch_trigger :: "string \<Rightarrow> trigger_config option \<Rightarrow> string" where
  "branch_trigger kind config = (case config of
     Some c \<Rightarrow>
       if tc_branches c \<noteq> []
       then ''  '' @ kind @ '':'' @ [newline] @ ''    branches: ['' @ join '', '' (tc_branches c) @ '']''
       else ''  '' @ kind @ '':''
   | None \<Rightarrow> ''  '' @ kind @ '':'')"

definition trigger_lines :: "workflow_trigger \<Rightarrow> string option" where
  "trigger_lines t =
     (if wtr_type t = ''push'' then Some (branch_trigger ''push'' (wtr_config t))
      else if wtr_type t = ''pull_request'' then Some (branch_trigger ''pull_request'' (wtr_config t))
      else if wtr_type t = ''schedule''
      then (case wtr_config t of
          Some c \<Rightarrow>
            if tc_cron c \<noteq> []
            then Some (''  schedule:'' @ [newline] @ ''    - cron: '' @ [CHR 0x27] @ tc_cron c @ [CHR 0x27])
            else None
        | None \<Rightarrow> None)
      else if wtr_type t = ''workflow_dispatch'' then Some ''  workflow_dispatch:''
      else if wtr_type t = ''release'' then Some (''  release:'' @ [newline] @ ''    types: [published]'')
      else None)"

definition formatTriggers :: "workflow_trigger list \<Rightarrow> string" where
  "formatTriggers triggers =
     (let triggerLines = List.map_filter trigger_lines triggers in
      if triggerLines = [] then ''on: [push, pull_request]''
      else ''on:'' @ [newline] @ join [newline] triggerLines)"

definition release_triggers :: string where
  "release_triggers = join [newline] [
     ''on:'',
     ''  workflow_dispatch:  # Manual trigger'',
     ''  release:'',
     ''    types: [published]'',
     ''  workflow_run:'',
     ''    workflows: ['' @ [CHR 0x22] @ ''Build'' @ [CHR 0x22] @ '']'',
     ''    types: [completed]'',
     ''    branches: [main]'']"

definition build_triggers :: string where
  "build_triggers = join [newline] [
     ''on:'',
     ''  push:'',
     ''    branches: [main, develop]'',
     ''  pull_request:'',
     ''    branches: [main]'',
     ''  workflow_dispatch:  # Manual trigger'']"

text \<open>The setting of the pipeline, otherwise the conversion's default, if it is not empty.\<close>

definition own_or_default ::
  "(pipeline_resource_settings \<Rightarrow> 'a list) \<Rightarrow> (workflow_settings \<Rightarrow> 'a list) \<Rightarrow> pipeline_resource \<Rightarrow> pipeline_spec \<Rightarrow> 'a list option" where
  "own_or_default own dflt p sp =
     (let default = (case wft_defaultWorkflowSettings (pws_target sp) of
          Some w \<Rightarrow> if dflt w \<noteq> [] then Some (dflt w) else None
        | None \<Rightarrow> None)
      in case plr_settings p of
        Some st \<Rightarrow> if own st \<noteq> [] then Some (own st) else default
      | None \<Rightarrow> default)"

definition determineTriggers :: "pipeline_resource \<Rightarrow> pipeline_spec \<Rightarrow> string" where
  "determineTriggers p sp = (case own_or_default prs_overrideTriggers wfs_triggers p sp of
     Some ts \<Rightarrow> formatTriggers ts
   | None \<Rightarrow> if plr_type p = ''release'' then release_triggers else build_triggers)"

definition formatRunnerLabels :: "string list \<Rightarrow> string" where
  "formatRunnerLabels labels = (case labels of
     [label] \<Rightarrow> label
   | _ \<Rightarrow> ''['' @ join '', '' labels @ '']'')"

definition determineRunners :: "pipeline_resource \<Rightarrow> pipeline_spec \<Rightarrow> string" where
  "determineRunners p sp = (case own_or_default prs_overrideRunnerLabels wfs_runnerLabels p sp of
     Some ls \<Rightarrow> formatRunnerLabels ls
   | None \<Rightarrow> ''ubuntu-latest'')"

section \<open>The templates\<close>

definition build_workflow_text :: "string \<Rightarrow> string \<Rightarrow> string \<Rightarrow> string \<Rightarrow> string" where
  \<open>build_workflow_text name ident triggers runner = join [newline] [
     ''# Auto-generated from Azure DevOps Pipeline: '' @ name,
     ''# Source Pipeline ID: '' @ ident,
     ''# Migration Date: Auto-generated'',
     ''#'',
     ''# IMPORTANT: This is an initial conversion. Please review and test thoroughly.'',
     ''# Manual steps required:'',
     ''# - Configure repository secrets'',
     ''# - Update environment-specific variables'',
     ''# - Test workflow execution'',
     ''# - Review and adjust job dependencies'',
     [],
     ''name: '' @ name,
     [],
     ''# Trigger configuration'',
     triggers,
     [],
     ''env:'',
     ''  # Global environment variables'',
     ''  # TODO: Review and update these values'',
     ''  BUILD_CONFIGURATION: Release'',
     ''  AZURE_WEBAPP_NAME: my-app-name'',
     ''  DOTNET_VERSION: '8.0.x'' @ [CHR 0x27],
     ''  NODE_VERSION: '20.x'' @ [CHR 0x27],
     [],
     ''jobs:'',
     ''  build:'',
     ''    name: Build and Test'',
     ''    runs-on: '' @ runner,
     [],
     ''    # Optional: Set timeout to prevent hanging jobs'',
     ''    timeout-minutes: 60'',
     [],
     ''    steps:'',
     ''      - name: Checkout code'',
     ''        uses: actions/checkout@v4'',
     ''        with:'',
     ''          fetch-depth: 0  # Full history for better analysis'',
     [],
     ''      # Setup environments (adjust based on your stack)'',
     ''      - name: Setup .NET'',
     ''        uses: actions/setup-dotnet@v4'',
     ''        with:'',
     ''          dotnet-version: ${{ env.DOTNET_VERSION }}'',
     [],
     ''      - name: Setup Node.js'',
     ''        uses: actions/setup-node@v4'',
     ''        with:'',
     ''          node-version: ${{ env.NODE_VERSION }}'',
     ''          cache: 'npm'' @ [CHR 0x27],
     [],
     ''      # Restore dependencies'',
     ''      - name: Restore NuGet packages'',
     ''        run: dotnet restore'',
     [],
     ''      - name: Install npm dependencies'',
     ''        run: npm ci'',
     [],
     ''      # Build'',
     ''      - name: Build solution'',
     ''        run: dotnet build --configuration ${{ env.BUILD_CONFIGURATION }} --no-restore'',
     [],
     ''      # Run tests'',
     ''      - name: Run unit tests'',
     ''        run: dotnet test --configuration ${{ env.BUILD_CONFIGURATION }} --no-build --verbosity normal --collect:"XPlat Code Coverage"'',
     [],
     ''      # Upload test results'',
     ''      - name: Upload test results'',
     ''        if: always()'',
     ''        uses: actions/upload-artifact@v4'',
     ''        with:'',
     ''          name: test-results'',
     ''          path: '**/TestResults/**/*'' @ [CHR 0x27],
     [],
     ''      # Publish artifacts'',
     ''      - name: Publish build artifacts'',
     ''        run: dotnet publish --configuration ${{ env.BUILD_CONFIGURATION }} --no-build --output ${{ github.workspace }}/publish'',
     [],
     ''      - name: Upload build artifacts'',
     ''        uses: actions/upload-artifact@v4'',
     ''        with:'',
     ''          name: app-package'',
     ''          path: ${{ github.workspace }}/publish'',
     ''          retention-days: 30'',
     [],
     ''  # Code quality checks (optional but recommended)'',
     ''  code-quality:'',
     ''    name: Code Quality Analysis'',
     ''    runs-on: '' @ runner,
     ''    needs: build'',
     [],
     ''    steps:'',
     ''      - name: Checkout code'',
     ''        uses: actions/checkout@v4'',
     [],
     ''      # Add code quality tools here'',
     ''      - name: Run linting'',
     ''        run: |'',
     ''          echo "TODO: Add linting commands (e.g., eslint, dotnet format)"'',
     [],
     ''      - name: Security scanning'',
     ''        run: |'',
     ''          echo "TODO: Add security scanning (e.g., CodeQL, Snyk)"'',
     [],
     ''  # Deployment job (if applicable)'',
     ''  deploy-dev:'',
     ''    name: Deploy to Development'',
     ''    runs-on: '' @ runner,
     ''    needs: [build, code-quality]'',
     ''    if: github.ref == 'refs/heads/develop'' @ [CHR 0x27],
     ''    environment:'',
     ''      name: development'',
     ''      url: https://dev.example.com'',
     [],
     ''    steps:'',
     ''      - name: Download artifacts'',
     ''        uses: actions/download-artifact@v4'',
     ''        with:'',
     ''          name: app-package'',
     [],
     ''      - name: Deploy to Azure Web App'',
     ''        uses: azure/webapps-deploy@v2'',
     ''        with:'',
     ''          app-name: ${{ env.AZURE_WEBAPP_NAME }}-dev'',
     ''          publish-profile: ${{ secrets.AZURE_WEBAPP_PUBLISH_PROFILE_DEV }}'',
     ''          package: .'',
     [],
     ''      # Add health check'',
     ''      - name: Health check'',
     ''        run: |'',
     ''          echo "TODO: Add health check for deployed application"'',
     [],
     ''# Notes:'',
     ''# 1. Replace placeholder values with actual values from your ADO pipeline'',
     ''# 2. Configure GitHub secrets for sensitive data'',
     ''# 3. Adjust job dependencies based on your pipeline structure'',
     ''# 4. Add/remove jobs as needed for your workflow'',
     ''# 5. Consider using reusable workflows for common tasks'',
     ''# 6. Enable branch protection rules for production deployments'',
     []]\<close>

definition release_workflow_text :: "string \<Rightarrow> string \<Rightarrow> string \<Rightarrow> string \<Rightarrow> string" where
  \<open>release_workflow_text name ident triggers runner = join [newline] [
     ''# Auto-generated from Azure DevOps Release Pipeline: '' @ name,
     ''# Source Pipeline ID: '' @ ident,
     ''# Migration Date: Auto-generated'',
     ''#'',
     ''# IMPORTANT: This is a multi-stage deployment workflow.'',
     ''# Configure GitHub Environments with appropriate protection rules.'',
     [],
     ''name: '' @ name,
     [],
     ''# Trigger configuration'',
     triggers,
     [],
     ''env:'',
     ''  # Global environment variables'',
     ''  ARTIFACT_NAME: app-package'',
     ''  AZURE_WEBAPP_NAME: my-app'',
     [],
     ''jobs:'',
     ''  # Download or build artifacts'',
     ''  prepare-release:'',
     ''    name: Prepare Release Artifacts'',
     ''    runs-on: '' @ runner,
     [],
     ''    steps:'',
     ''      - name: Checkout code'',
     ''        uses: actions/checkout@v4'',
     [],
     ''      # Option 1: Download from a build workflow'',
     ''      - name: Download build artifacts'',
     ''        uses: dawidd6/action-download-artifact@v3'',
     ''        with:'',
     ''          workflow: build.yml'',
     ''          name: app-package'',
     ''          path: ./artifacts'',
     [],
     ''      # Option 2: Build here if not using separate build workflow'',
     ''      # - name: Build application'',
     ''      #   run: |'',
     ''      #     # Add build commands here'',
     [],
     ''      - name: Upload artifacts for deployment'',
     ''        uses: actions/upload-artifact@v4'',
     ''        with:'',
     ''          name: ${{ env.ARTIFACT_NAME }}'',
     ''          path: ./artifacts'',
     [],
     ''  # Deploy to Staging'',
     ''  deploy-staging:'',
     ''    name: Deploy to Staging'',
     ''    runs-on: '' @ runner,
     ''    needs: prepare-release'',
     ''    environment:'',
     ''      name: staging'',
     ''      url: https://staging.example.com'',
     [],
     ''    steps:'',
     ''      - name: Download artifacts'',
     ''        uses: actions/download-artifact@v4'',
     ''        with:'',
     ''          name: ${{ env.ARTIFACT_NAME }}'',
     [],
     ''      - name: Azure Login'',
     ''        uses: azure/login@v1'',
     ''        with:'',
     ''          creds: ${{ secrets.AZURE_CREDENTIALS_STAGING }}'',
     [],
     ''      - name: Deploy to Azure Web App (Staging)'',
     ''        uses: azure/webapps-deploy@v2'',
     ''        with:'',
     ''          app-name: ${{ env.AZURE_WEBAPP_NAME }}-staging'',
     ''          package: .'',
     [],
     ''      - name: Run smoke tests'',
     ''        run: |'',
     ''          # TODO: Add smoke test commands'',
     ''          echo "Running smoke tests against staging environment"'',
     [],
     ''      - name: Notify deployment success'',
     ''        if: success()'',
     ''        run: |'',
     ''          echo "Staging deployment successful"'',
     ''          # TODO: Add notification (Slack, Teams, Email)'',
     [],
     ''  # Deploy to Production'',
     ''  deploy-production:'',
     ''    name: Deploy to Production'',
     ''    runs-on: '' @ runner,
     ''    needs: deploy-staging'',
     ''    environment:'',
     ''      name: production'',
     ''      url: https://production.example.com'',
     [],
     ''    steps:'',
     ''      - name: Download artifacts'',
     ''        uses: actions/download-artifact@v4'',
     ''        with:'',
     ''          name: ${{ env.ARTIFACT_NAME }}'',
     [],
     ''      - name: Azure Login'',
     ''        uses: azure/login@v1'',
     ''        with:'',
     ''          creds: ${{ secrets.AZURE_CREDENTIALS_PRODUCTION }}'',
     [],
     ''      # Blue-Green deployment strategy (recommended)'',
     ''      - name: Deploy to Azure Web App (Production - Slot)'',
     ''        uses: azure/webapps-deploy@v2'',
     ''        with:'',
     ''          app-name: ${{ env.AZURE_WEBAPP_NAME }}'',
     ''          slot-name: staging  # Deploy to staging slot first'',
     ''          package: .'',
     [],
     ''      - name: Warm up staging slot'',
     ''        run: |'',
     ''          # TODO: Add warmup commands'',
     ''          echo "Warming up staging slot"'',
     [],
     ''      - name: Run production smoke tests'',
     ''        run: |'',
     ''          # TODO: Add smoke test commands against staging slot'',
     ''          echo "Running smoke tests"'',
     [],
     ''      - name: Swap slots'',
     ''        uses: azure/cli@v1'',
     ''        with:'',
     ''          inlineScript: |'',
     ''            az webapp deployment slot swap '' @ [CHR 0x5C],
     ''              --resource-group my-resource-group '' @ [CHR 0x5C],
     ''              --name ${{ env.AZURE_WEBAPP_NAME }} '' @ [CHR 0x5C],
     ''              --slot staging '' @ [CHR 0x5C],
     ''              --target-slot production'',
     [],
     ''      - name: Verify production deployment'',
     ''        run: |'',
     ''          # TODO: Add verification commands'',
     ''          echo "Verifying production deployment"'',
     [],
     ''      - name: Notify deployment success'',
     ''        if: success()'',
     ''        run: |'',
     ''          echo "Production deployment successful"'',
     ''          # TODO: Add notification (Slack, Teams, Email)'',
     [],
     ''      - name: Rollback on failure'',
     ''        if: failure()'',
     ''        uses: azure/cli@v1'',
     ''        with:'',
     ''          inlineScript: |'',
     ''            echo "Deployment failed, initiating rollback"'',
     ''            az webapp deployment slot swap '' @ [CHR 0x5C],
     ''              --resource-group my-resource-group '' @ [CHR 0x5C],
     ''              --name ${{ env.AZURE_WEBAPP_NAME }} '' @ [CHR 0x5C],
     ''              --slot production '' @ [CHR 0x5C],
     ''              --target-slot staging'',
     [],
     ''# Best Practices Implemented:'',
     ''# 1. Multi-stage deployment with approvals (via GitHub Environments)'',
     ''# 2. Blue-green deployment strategy for zero-downtime'',
     ''# 3. Smoke tests after each deployment'',
     ''# 4. Automatic rollback on failure'',
     ''# 5. Artifact caching between jobs'',
     ''# 6. Environment-specific secrets'',
     ''#'',
     ''# Manual Configuration Required:'',
     ''# 1. Create GitHub Environments: staging, production'',
     ''# 2. Set up environment protection rules'',
     ''# 3. Add required reviewers for production'',
     ''# 4. Configure deployment secrets per environment'',
     ''# 5. Update Azure resource names and URLs'',
     ''# 6. Implement smoke test and warmup logic'',
     ''# 7. Configure notification channels'',
     []]\<close>

section \<open>Converting a pipeline\<close>

definition generateBuildWorkflow :: "pipeline_resource \<Rightarrow> string \<Rightarrow> string \<Rightarrow> string \<times> string list \<times> string list" where
  "generateBuildWorkflow p triggers runnerLabels =
     (build_workflow_text (plr_name p) (plr_id p) triggers runnerLabels,
      [''Converted from Azure DevOps build pipeline'',
       ''Review and update environment variables as needed'',
       ''Configure secrets in GitHub repository settings''],
      [''Configure required secrets: AZURE_CREDENTIALS, NPM_TOKEN, etc.'',
       ''Set up GitHub Environments for deployment stages'',
       ''Review and update runner labels if using self-hosted runners''])"

definition generateReleaseWorkflow :: "pipeline_resource \<Rightarrow> string \<Rightarrow> string \<Rightarrow> string \<times> string list \<times> string list" where
  "generateReleaseWorkflow p triggers runnerLabels =
     (release_workflow_text (plr_name p) (plr_id p) triggers runnerLabels,
      [''Converted from Azure DevOps release pipeline'',
       ''Review deployment stages and approval requirements'',
       ''Configure GitHub Environments with protection rules''],
      [''Set up GitHub Environments: staging, production'',
       ''Configure environment protection rules and required reviewers'',
       ''Add deployment secrets to each environment'',
       ''Test deployment workflow in non-production environment first''])"

definition generateWorkflowContent :: "pipeline_resource \<Rightarrow> pipeline_spec \<Rightarrow> string \<times> string list \<times> string list" where
  "generateWorkflowContent p sp =
     (let triggers = determineTriggers p sp; runnerLabels = determineRunners p sp in
      if plr_type p = ''release'' then generateReleaseWorkflow p triggers runnerLabels
      else generateBuildWorkflow p triggers runnerLabels)"

text \<open>It never returns an error.\<close>

definition ConvertPipeline :: "pipeline_resource \<Rightarrow> pipeline_spec \<Rightarrow> go_error + converted_workflow" where
  "ConvertPipeline p sp =
     (let directory = (if plr_type p = ''release'' then ''releases'' else ''pipelines'') in
      case generateWorkflowContent p sp of (content, notes, manualSteps) \<Rightarrow>
        Inr \<lparr>cw_name = plr_targetWorkflowName p, cw_content = content,
          cw_filePath = directory @ ''/'' @ plr_targetWorkflowName p,
          cw_sourcePipelineID = plr_id p, cw_sourcePipelineName = plr_name p,
          cw_pipelineType = plr_type p, cw_conversionNotes = notes, cw_requiresManual = manualSteps\<rparr>)"

lemma ConvertPipeline_total: "\<exists>w. ConvertPipeline p sp = Inr w"
  by (simp add: ConvertPipeline_def Let_def split: prod.split)

end
