(* ===== verification/PipelineDiscovery.thy ===== *)
theory PipelineDiscovery
  imports PipelineTypes
begin

text \<open>
  \<open>internal/services/pipeline_discovery.go\<close>: finding the pipelines of an Azure DevOps project,
  filtering them, limiting their number, and naming the workflows they become. What Azure DevOps
  lists, regular expressions that users write and \<open>float64\<close> arithmetic are parameters (\<open>pw_env\<close>).
  A slice out of range panics: the outer \<open>None\<close> of \<open>DiscoverPipelines\<close>.
\<close>

record discovery_result =
  dr_buildPipelines :: "ado_pipeline list"
  dr_releasePipelines :: "ado_pipeline list"
  dr_totalCount :: int
  dr_filteredCount :: int

section \<open>Credentials\<close>

datatype ado_credentials = WithPAT string | WithServicePrincipal string string string

text \<open>
  A key that is missing from a secret of the service principal reads as the empty string.
\<close>

definition sp_value :: "pw_env \<Rightarrow> string \<Rightarrow> string \<Rightarrow> secret_ref \<Rightarrow> go_error + string" where
  "sp_value k namespace what ref =
     (if sr_name ref = [] then Inr []
      else (case k_secret k namespace (sr_name ref) of
        Inl err \<Rightarrow> Inl (wrap_err (''failed to get '' @ what) err)
      | Inr entries \<Rightarrow> Inr (case entries (sr_key ref) of None \<Rightarrow> [] | Some v \<Rightarrow> v)))"

definition sp_credentials :: "pw_env \<Rightarrow> string \<Rightarrow> service_principal_config \<Rightarrow> go_error + ado_credentials" where
  "sp_credentials k namespace sp = (case sp_value k namespace ''client ID secret'' (sp_clientIDRef sp) of
     Inl err \<Rightarrow> Inl err
   | Inr clientID \<Rightarrow> (case sp_value k namespace ''client secret'' (sp_clientSecretRef sp) of
       Inl err \<Rightarrow> Inl err
     | Inr clientSecret \<Rightarrow> (case sp_value k namespace ''tenant ID secret'' (sp_tenantIDRef sp) of
         Inl err \<Rightarrow> Inl err
       | Inr tenantID \<Rightarrow> Inr (WithServicePrincipal clientID clientSecret tenantID))))"

definition discovery_credentials :: "pw_env \<Rightarrow> pipeline_conversion \<Rightarrow> go_error + ado_credentials" where
  "discovery_credentials k m =
     (let auth = pso_auth (pws_source (pc_spec m));
          sp = (case ado_servicePrincipal auth of
             Some sp \<Rightarrow> sp_credentials k (om_namespace (pc_meta m)) sp
           | None \<Rightarrow> Inl (PlainError ''no authentication method configured (PAT or ServicePrincipal required)''))
      in case ado_pat auth of
        Some pat \<Rightarrow>
          (let ref = pat_tokenRef pat; namespace = (if sr_namespace ref = [] then om_namespace (pc_meta m) else sr_namespace ref) in
           if sr_name ref = [] then sp
           else (case k_secret k namespace (sr_name ref) of
             Inl err \<Rightarrow> Inl (wrap_err (''failed to get PAT secret '' @ namespace @ ''/'' @ sr_name ref) err)
           | Inr entries \<Rightarrow> (case entries (sr_key ref) of
               None \<Rightarrow> Inl (PlainError (''secret '' @ namespace @ ''/'' @ sr_name ref @ '' does not contain key '' @ sr_key ref))
             | Some v \<Rightarrow> Inr (if v \<noteq> [] then WithPAT v else WithServicePrincipal [] [] []))))
      | None \<Rightarrow> sp)"

section \<open>Filtering\<close>

definition matchesFolderFilter :: "string \<Rightarrow> string \<Rightarrow> bool" where
  "matchesFolderFilter folder flt =
     (if has_suffix flt ''/*'' then has_prefix folder (trim_suffix flt ''/*'') else folder = flt)"

definition keep_pipeline :: "pw_env \<Rightarrow> auto_discovery_config \<Rightarrow> ado_pipeline \<Rightarrow> bool" where
  "keep_pipeline k config p \<longleftrightarrow>
     (au_folderFilter config \<noteq> [] \<longrightarrow> matchesFolderFilter (pip_folder p) (au_folderFilter config))
     \<and> (au_nameFilter config \<noteq> [] \<longrightarrow> pe_match k (au_nameFilter config) (pip_name p) = Inr True)"

definition filterPipelines :: "pw_env \<Rightarrow> auto_discovery_config \<Rightarrow> ado_pipeline list \<Rightarrow> ado_pipeline list" where
  "filterPipelines k config = filter (keep_pipeline k config)"

section \<open>The limit\<close>

text \<open>
  \<open>xs[:n]\<close>. Up to the capacity of \<open>xs\<close> Go would extend the slice with zero values; here
  that counts as out of range too.
\<close>

definition slice_to :: "int \<Rightarrow> 'a list \<Rightarrow> 'a list option" where
  "slice_to n xs = (if 0 \<le> n \<and> n \<le> int (length xs) then Some (take (nat n) xs) else None)"

definition limits :: "pw_env \<Rightarrow> int \<Rightarrow> int \<Rightarrow> int \<Rightarrow> int \<times> int" where
  "limits k builds releases maxPipelines =
     (let buildRatio = pe_rnd k (pe_rnd k (of_int builds) / pe_rnd k (of_int (builds + releases)));
          buildLimit = pe_conv k (pe_rnd k (pe_rnd k (of_int maxPipelines) * buildRatio));
          releaseLimit = maxPipelines - buildLimit;
          (buildLimit, releaseLimit) =
            (if buildLimit > builds then (builds, maxPipelines - builds) else (buildLimit, releaseLimit))
      in if releaseLimit > releases then (maxPipelines - releases, releases) else (buildLimit, releaseLimit))"

definition applyMaxLimit ::
  "pw_env \<Rightarrow> ado_pipeline list \<Rightarrow> ado_pipeline list \<Rightarrow> int \<Rightarrow> (ado_pipeline list \<times> ado_pipeline list) option" where
  "applyMaxLimit k builds releases maxPipelines =
     (if int (length builds) + int (length releases) \<le> maxPipelines then Some (builds, releases)
      else (case limits k (int (length builds)) (int (length releases)) maxPipelines of (bl, rl) \<Rightarrow>
        Option.bind (slice_to bl builds) (\<lambda>bs. Option.bind (slice_to rl releases) (\<lambda>rs. Some (bs, rs)))))"

section \<open>Discovery\<close>

definition list_pipelines :: "pw_env \<Rightarrow> pw_state \<Rightarrow> pipeline_spec \<Rightarrow> ado_credentials \<Rightarrow> string \<Rightarrow> go_error + ado_pipeline list" where
  "list_pipelines k s sp cred kind =
     (let org = pso_organization (pws_source sp); project = pso_project (pws_source sp) in
      case cred of
        WithPAT token \<Rightarrow> pe_pat_pipelines k s org project token kind
      | WithServicePrincipal c sec t \<Rightarrow> pe_sp_pipelines k s org project c sec t kind)"

text \<open>One kind of pipelines, if it is asked for: all that were listed, and those that pass the filters.\<close>

definition discover_kind ::
  "pw_env \<Rightarrow> pw_state \<Rightarrow> pipeline_spec \<Rightarrow> ado_credentials \<Rightarrow> auto_discovery_config \<Rightarrow> bool \<Rightarrow> string
   \<Rightarrow> go_error + int \<times> ado_pipeline list" where
  "discover_kind k s sp cred config included kind =
     (if \<not> included then Inr (0, [])
      else (case list_pipelines k s sp cred kind of
        Inl err \<Rightarrow> Inl (wrap_err (''failed to discover '' @ kind @ '' pipelines'') err)
      | Inr ps \<Rightarrow> Inr (int (length ps), filterPipelines k config ps)))"

definition limit_result :: "pw_env \<Rightarrow> auto_discovery_config \<Rightarrow> discovery_result \<Rightarrow> discovery_result option" where
  "limit_result k config r =
     (if au_maxPipelines config > 0
      then map_option (\<lambda>(bs, rs). r\<lparr>dr_buildPipelines := bs, dr_releasePipelines := rs,
               dr_filteredCount := (let n = int (length bs) + int (length rs) in
                 if n < dr_filteredCount r then n else dr_filteredCount r)\<rparr>)
             (applyMaxLimit k (dr_buildPipelines r) (dr_releasePipelines r) (au_maxPipelines config))
      else Some r)"

definition DiscoverPipelines :: "pw_env \<Rightarrow> pw_state \<Rightarrow> (go_error + discovery_result) option" where
  "DiscoverPipelines k s =
     (let m = obj s; sp = pc_spec m in
      case pws_autoDiscovery sp of
        None \<Rightarrow> Some (Inl (PlainError ''auto-discovery is not enabled''))
      | Some config \<Rightarrow>
          if \<not> au_enabled config then Some (Inl (PlainError ''auto-discovery is not enabled''))
          else (case discovery_credentials k m of
            Inl err \<Rightarrow> Some (Inl err)
          | Inr cred \<Rightarrow> (case discover_kind k s sp cred config (au_includeBuildPipelines config) ''build'' of
              Inl err \<Rightarrow> Some (Inl err)
            | Inr (n, builds) \<Rightarrow> (case discover_kind k s sp cred config (au_includeReleasePipelines config) ''release'' of
                Inl err \<Rightarrow> Some (Inl err)
              | Inr (n', releases) \<Rightarrow>
                  map_option Inr (limit_result k config
                    \<lparr>dr_buildPipelines = builds, dr_releasePipelines = releases, dr_totalCount = n + n',
                     dr_filteredCount = int (length builds) + int (length releases)\<rparr>)))))"

section \<open>Workflow names\<close>

definition workflow_char :: "char \<Rightarrow> bool" where
  "workflow_char c \<longleftrightarrow> is_lower c \<or> is_upper c \<or> is_digit c \<or> c = dash \<or> c = CHR ''_''"

definition sanitizeWorkflowName :: "string \<Rightarrow> string" where
  "sanitizeWorkflowName name =
     to_lower (trim (\<lambda>c. c = dash) (replace_runs (\<lambda>c. \<not> workflow_char c) [dash] name))"

definition discovered_resource :: "string \<Rightarrow> ado_pipeline \<Rightarrow> pipeline_resource" where
  "discovered_resource kind p = \<lparr>plr_id = fmt_d (pip_id p), plr_name = pip_name p, plr_type = kind,
     plr_targetWorkflowName = sanitizeWorkflowName (pip_name p) @ ''.yml'', plr_settings = None,
     plr_customMappings = Map.empty\<rparr>"

definition ConvertDiscoveredPipelinesToResources :: "discovery_result \<Rightarrow> pipeline_resource list" where
  "ConvertDiscoveredPipelinesToResources d =
     map (discovered_resource ''build'') (dr_buildPipelines d) @ map (discovered_resource ''release'') (dr_releasePipelines d)"

section \<open>Properties\<close>

lemma limits_range:
  assumes fm: "float_model (pe_rnd k) (pe_conv k)" and BR: "0 \<le> B" "0 \<le> R" "B + R \<le> 9007199254740992" and M: "0 < M" "M < B + R"
    and bl: "limits k B R M = (b, r)"
  shows "0 \<le> b \<and> b \<le> B \<and> 0 \<le> r \<and> r \<le> R \<and> b + r = M"
proof -
  let ?rnd = "pe_rnd k"
  have mono: "x \<le> y \<Longrightarrow> ?rnd x \<le> ?rnd y" for x y using fm by (simp add: float_model_def)
  have exact: "?rnd (of_int n) = of_int n" if "0 \<le> n" "n \<le> B + R" for n
    using rnd_int [OF fm, of n] that BR by simp
  have zero: "?rnd 0 = 0" and one: "?rnd 1 = 1" using rnd_int [OF fm, of 0] rnd_int [OF fm, of 1] by simp_all
  define q where "q = ?rnd (?rnd (of_int B) / ?rnd (of_int (B + R)))"
  have "0 \<le> (of_int B :: rat) / of_int (B + R)" "(of_int B :: rat) / of_int (B + R) \<le> 1"
    using BR M by (simp_all add: divide_le_eq)
  then have q: "0 \<le> q" "q \<le> 1"
    using mono [of 0 "of_int B / of_int (B + R)"] mono [of "of_int B / of_int (B + R)" 1] zero one exact [of B] exact [of "B + R"] BR
    by (simp_all add: q_def)
  define p where "p = ?rnd (?rnd (of_int M) * q)"
  have MM: "?rnd (of_int M) = of_int M" by (rule exact) (use M in simp_all)
  have "0 \<le> of_int M * q" "of_int M * q \<le> of_int M" using q M by (simp_all add: mult_left_le)
  then have p: "0 \<le> p" "p \<le> of_int M" using mono [of 0 "of_int M * q"] mono [of "of_int M * q" "of_int M"] zero MM by (simp_all add: p_def)
  have "(of_int M :: rat) < of_int (2 ^ 63)" by (subst of_int_less_iff) (use M BR in simp)
  then have conv: "pe_conv k p = \<lfloor>p\<rfloor>" using fm p by (simp add: float_model_def)
  have c: "0 \<le> pe_conv k p" "pe_conv k p \<le> M" using p by (simp_all add: conv floor_le_iff)
  show ?thesis
    using bl c M BR unfolding limits_def Let_def q_def [symmetric] p_def [symmetric] by (auto split: if_splits)
qed

text \<open>
  Limiting the discovered pipelines never slices out of range: it keeps a first part of the build
  pipelines and a first part of the release pipelines, exactly as many together as the limit allows.
\<close>

theorem max_limit_exact:
  assumes "float_model (pe_rnd k) (pe_conv k)" and "int (length builds) + int (length releases) \<le> 2 ^ 53" and "0 < maxPipelines"
  shows "\<exists>b r. applyMaxLimit k builds releases maxPipelines = Some (take b builds, take r releases)
    \<and> b \<le> length builds \<and> r \<le> length releases \<and> int b + int r = min maxPipelines (int (length builds) + int (length releases))"
proof (cases "int (length builds) + int (length releases) \<le> maxPipelines")
  case True
  then show ?thesis by (intro exI [of _ "length builds"] exI [of _ "length releases"]) (simp add: applyMaxLimit_def)
next
  case False
  obtain bl rl where lim: "limits k (int (length builds)) (int (length releases)) maxPipelines = (bl, rl)" by fastforce
  have "0 \<le> bl \<and> bl \<le> int (length builds) \<and> 0 \<le> rl \<and> rl \<le> int (length releases) \<and> bl + rl = maxPipelines"
    by (rule limits_range [OF assms(1) _ _ _ assms(3) _ lim]) (use assms(2) False in simp_all)
  then show ?thesis using False
    by (intro exI [of _ "nat bl"] exI [of _ "nat rl"]) (auto simp: applyMaxLimit_def lim slice_to_def)
qed

definition nightly :: "int \<Rightarrow> ado_pipeline" where
  "nightly i = \<lparr>pip_id = i, pip_name = ''nightly'', pip_folder = [CHR ''/''], pip_type = ''build'',
     pip_quality = [], pip_queueStatus = ''enabled'', pip_revision = 1, pip_createdDate = 0, pip_url = [],
     pip_projectID = [], pip_projectName = [], pip_repository = None, pip_variables = []\<rparr>"

theorem max_limit_exact_witness:
  "\<exists>b r. applyMaxLimit sample_pw (replicate 3 (nightly 1)) (replicate 2 (nightly 2)) 4
      = Some (take b (replicate 3 (nightly 1)), take r (replicate 2 (nightly 2))) \<and> int b + int r = 4"
proof -
  have "float_model (pe_rnd sample_pw) (pe_conv sample_pw)" by (simp add: sample_pw_def float_model_exact)
  from max_limit_exact [OF this, of "replicate 3 (nightly 1)" "replicate 2 (nightly 2)" 4] show ?thesis by auto
qed

definition file_stem :: "string \<Rightarrow> bool" where
  "file_stem s \<longleftrightarrow> list_all (\<lambda>c. is_lower c \<or> is_digit c \<or> c = dash \<or> c = CHR ''_'') s \<and> bare_ends s"

lemma workflow_char_dash: "workflow_char dash"
  by (simp add: workflow_char_def)

lemma lower_workflow_char: "workflow_char c \<Longrightarrow> is_lower (lower_char c) \<or> is_digit (lower_char c) \<or> lower_char c = dash \<or> lower_char c = CHR ''_''"
  by (auto simp: workflow_char_def lower_char_def is_upper_def is_lower_def between_def)

lemma lower_char_is_dash: "lower_char c = dash \<longleftrightarrow> c = dash"
proof
  assume eq: "lower_char c = dash"
  show "c = dash"
  proof (cases "is_upper c")
    case True
    then have "(of_char (lower_char c) :: nat) = of_char c + 32" "(65 :: nat) \<le> of_char c"
      using of_char_lower by (auto simp: is_upper_def between_def)
    then show ?thesis using eq by simp
  qed (use eq in \<open>simp add: lower_char_def\<close>)
qed simp

lemma bare_ends_lower: "bare_ends s \<Longrightarrow> bare_ends (to_lower s)"
  by (cases "s = []") (simp_all add: bare_ends_def to_lower_def hd_map last_map lower_char_is_dash)

text \<open>
  The name of the workflow that a discovered pipeline becomes consists of lower-case letters,
  digits, hyphens and underscores, without a hyphen at either end, whatever the pipeline is called; a
  name that has this form already is kept.
\<close>

theorem sanitizeWorkflowName_stem:
  "file_stem (sanitizeWorkflowName name) \<and> (file_stem name \<longrightarrow> sanitizeWorkflowName name = name)"
proof -
  let ?r = "replace_runs (\<lambda>c. \<not> workflow_char c) [dash] name" and ?t = "\<lambda>s. trim (\<lambda>c. c = dash) s"
  have chars: "workflow_char c" if "c \<in> set (?t ?r)" for c
    using that set_replace_runs [of "\<lambda>c. \<not> workflow_char c" dash name] trim_subset [of "\<lambda>c. c = dash" ?r] workflow_char_dash by auto
  have "list_all (\<lambda>c. is_lower c \<or> is_digit c \<or> c = dash \<or> c = CHR ''_'') (sanitizeWorkflowName name)"
    using chars lower_workflow_char by (auto simp: sanitizeWorkflowName_def to_lower_def list_all_iff)
  then have "file_stem (sanitizeWorkflowName name)"
    using bare_ends_lower [OF bare_ends_trim] by (simp add: file_stem_def sanitizeWorkflowName_def)
  moreover have "sanitizeWorkflowName name = name" if stem: "file_stem name"
  proof -
    have "?r = name" by (rule replace_runs_id) (use stem in \<open>auto simp: file_stem_def list_all_iff workflow_char_def\<close>)
    moreover have "?t name = name" by (rule trim_bare) (use stem in \<open>simp add: file_stem_def\<close>)
    moreover have "lower_char c = c" if "c \<in> set name" for c
      using stem that lower_char_id [of c] by (auto simp: file_stem_def list_all_iff lower_char_def is_upper_def between_def)
    then have "to_lower name = name" by (simp add: to_lower_def map_idI)
    ultimately show ?thesis by (simp add: sanitizeWorkflowName_def)
  qed
  ultimately show ?thesis by blast
qed

theorem sanitizeWorkflowName_stem_witness:
  "sanitizeWorkflowName ''nightly-build_2'' = ''nightly-build_2''"
  using sanitizeWorkflowName_stem [of "''nightly-build_2''"]
  by (simp add: file_stem_def bare_ends_def is_lower_def is_digit_def between_def)

end
