(* ===== verification/WorkflowsRepository.thy ===== *)
theory WorkflowsRepository
  imports PipelineConverter PipelineDiscovery
begin

text \<open>
  \<open>internal/services/workflows_repository.go\<close>: the repository that collects the converted
  workflows, and \<open>ValidateConversion\<close> of \<open>internal/services/pipeline_conversion.go\<close>. GitHub is a
  parameter (\<open>pw_env\<close>); a call that changes something there is an effect with its arguments.
  \<open>PushMigrationSummary\<close>, the preview, the ZIP file, the analysis and the lists of templates and
  mappings are called by the HTTP API or by nothing and are left out.
\<close>

section \<open>Calls to GitHub\<close>

definition api_call :: "(pw_state \<Rightarrow> string list \<Rightarrow> 'r) \<Rightarrow> string \<Rightarrow> string list \<Rightarrow> pw_state \<Rightarrow> 'r \<times> pw_state" where
  "api_call answer name args s = (answer s args, emit (ApiWrite (name # args)) s)"

text \<open>\<open>CreateFile\<close>; that the file already exists is no error here.\<close>

definition create_readme :: "pw_env \<Rightarrow> string \<Rightarrow> string \<Rightarrow> string \<Rightarrow> string \<Rightarrow> string \<Rightarrow> string \<Rightarrow> pw_state \<Rightarrow> go_error option \<times> pw_state" where
  "create_readme k tok owner repo branch path content s =
     (case api_call (pe_create_file k) ''CreateFile'' [tok, owner, repo, path, content, branch] s of
        (Some err, s) \<Rightarrow> (if contains_str (err_text err) ''already exists'' then None
                          else Some (wrap_err (''failed to create '' @ path) err), s)
      | (None, s) \<Rightarrow> (None, s))"

definition pipelines_readme :: string where
  \<open>pipelines_readme = join [newline] [
     ''# Pipelines'',
     [],
     ''This directory contains GitHub workflows converted from Azure DevOps build pipelines.'',
     [],
     ''## Structure'',
     [],
     ''Each workflow file represents a converted Azure DevOps build pipeline. The file names are sanitized versions of the original pipeline names to ensure compatibility with Git.'',
     [],
     ''## Usage'',
     [],
     ''1. Review each workflow file thoroughly'',
     ''2. Update placeholder values and secrets'',
     ''3. Test workflows in a development environment'',
     ''4. Copy workflows to your target repository's .github/workflows directory'',
     [],
     ''## Notes'',
     [],
     ''- All workflows require configuration of GitHub secrets'',
     ''- Environment variables need to be reviewed and updated'',
     ''- Some Azure DevOps-specific features may require manual adaptation'',
     []]\<close>

definition releases_readme :: string where
  \<open>releases_readme = join [newline] [
     ''# Releases'',
     [],
     ''This directory contains GitHub workflows converted from Azure DevOps release pipelines.'',
     [],
     ''## Structure'',
     [],
     ''Each workflow file represents a converted Azure DevOps release pipeline with multi-stage deployment capabilities.'',
     [],
     ''## Usage'',
     [],
     ''1. Review deployment stages and approval requirements'',
     ''2. Configure GitHub Environments with protection rules'',
     ''3. Set up environment-specific secrets'',
     ''4. Test deployment workflows in non-production environments first'',
     [],
     ''## Best Practices'',
     [],
     ''- Use GitHub Environments for deployment stages (dev, staging, production)'',
     ''- Configure required reviewers for production deployments'',
     ''- Implement proper testing and smoke tests between stages'',
     ''- Consider blue-green deployment strategies for zero-downtime'',
     ''- Set up automatic rollback on deployment failures'',
     [],
     ''## Notes'',
     [],
     ''- Release workflows require GitHub Enterprise for advanced environment features'',
     ''- Some Azure-specific deployment targets may need alternative actions'',
     ''- Review and update all Azure resource names and configurations'',
     []]\<close>

definition main_readme :: string where
  \<open>main_readme = join [newline] [
     ''# ADO to GitHub Workflows Migration'',
     [],
     ''This repository contains GitHub Actions workflows converted from Azure DevOps pipelines.'',
     [],
     ''## Directory Structure'',
     [],
     ''- **pipelines/**: Build pipelines converted from Azure DevOps'',
     ''- **releases/**: Release pipelines converted from Azure DevOps'',
     [],
     ''## Getting Started'',
     [],
     ''### Prerequisites'',
     [],
     ''1. GitHub repository with Actions enabled'',
     ''2. Required secrets configured in GitHub repository settings'',
     ''3. GitHub Environments set up for deployment workflows'',
     [],
     ''### Migration Steps'',
     [],
     ''1. **Review Workflows**: Examine each workflow file for completeness and accuracy'',
     ''2. **Update Configuration**: Replace placeholder values with actual configuration'',
     ''3. **Configure Secrets**: Set up required secrets in GitHub repository settings'',
     ''4. **Set Up Environments**: Create GitHub Environments for deployment stages'',
     ''5. **Test**: Run workflows in a test environment before production use'',
     ''6. **Deploy**: Copy workflows to your target repository'',
     [],
     ''## Common Configuration Tasks'',
     [],
     ''### Secrets Configuration'',
     [],
     ''All workflows require secrets to be configured in GitHub:'',
     [],
     ''- AZURE_CREDENTIALS: Azure service principal credentials (JSON format)'',
     ''- NPM_TOKEN: NPM registry authentication token'',
     ''- NUGET_API_KEY: NuGet package repository API key'',
     ''- Additional secrets as noted in individual workflow files'',
     [],
     ''### Environment Variables'',
     [],
     ''Review and update environment variables in each workflow:'',
     [],
     ''- Azure resource names'',
     ''- Application names'',
     ''- Version numbers'',
     ''- Build configurations'',
     [],
     ''### GitHub Environments'',
     [],
     ''For deployment workflows, create the following environments:'',
     [],
     ''1. **development**: For dev deployments (automatic)'',
     ''2. **staging**: For staging deployments (automatic with checks)'',
     ''3. **production**: For production deployments (manual approval required)'',
     [],
     ''Configure environment protection rules:'',
     [],
     ''- Required reviewers for production'',
     ''- Deployment branches (limit to main/master)'',
     ''- Environment secrets specific to each environment'',
     [],
     ''## Best Practices'',
     [],
     ''1. **Start Small**: Migrate and test one workflow at a time'',
     ''2. **Use Reusable Workflows**: Extract common steps into reusable workflows'',
     ''3. **Implement Gates**: Use GitHub Environments for approval gates'',
     ''4. **Monitor**: Set up workflow notifications and monitoring'',
     ''5. **Document**: Keep this README updated with project-specific instructions'',
     [],
     ''## Troubleshooting'',
     [],
     ''### Common Issues'',
     [],
     ''1. **Authentication Failures**: Verify secrets are correctly configured'',
     ''2. **Runner Compatibility**: Ensure runner labels match available runners'',
     ''3. **Path Issues**: Check file paths are correct for your repository structure'',
     ''4. **Timeout**: Increase timeout-minutes if jobs are timing out'',
     [],
     ''### Getting Help'',
     [],
     ''- Review GitHub Actions documentation'',
     ''- Check workflow run logs for detailed error messages'',
     ''- Consult migration notes in individual workflow files'',
     [],
     ''## Migration Metadata'',
     [],
     ''- **Migration Tool**: ADO to Git Migration Operator'',
     ''- **Migration Date**: Auto-generated'',
     ''- **Source**: Azure DevOps'',
     ''- **Target**: GitHub Actions'',
     [],
     ''---'',
     [],
     ''**Note**: This is an automated migration. Manual review and testing are required before production use.'',
     []]\<close>

definition createDirectoryStructure :: "pw_env \<Rightarrow> string \<Rightarrow> string \<Rightarrow> string \<Rightarrow> string \<Rightarrow> pw_state \<Rightarrow> go_error option \<times> pw_state" where
  "createDirectoryStructure k tok owner repo branch s =
     (case create_readme k tok owner repo branch ''pipelines/README.md'' pipelines_readme s of
        (Some err, s) \<Rightarrow> (Some err, s)
      | (None, s) \<Rightarrow> (case create_readme k tok owner repo branch ''releases/README.md'' releases_readme s of
          (Some err, s) \<Rightarrow> (Some err, s)
        | (None, s) \<Rightarrow> create_readme k tok owner repo branch ''README.md'' main_readme s))"

section \<open>Setting up the repository\<close>

record workflows_repository_info =
  wri_name :: string
  wri_owner :: string
  wri_fullName :: string
  wri_url :: string
  wri_defaultBranch :: string
  wri_created :: bool

definition workflows_repo_name :: "workflows_repository_config \<Rightarrow> string" where
  "workflows_repo_name config = (if wrc_name config = [] then ''ado-to-git-migration-workflows'' else wrc_name config)"

definition workflows_repo_settings :: "workflows_repository_config \<Rightarrow> github_repo_settings" where
  "workflows_repo_settings config =
     \<lparr>grs_visibility = (if \<not> wrc_private config then ''public'' else ''private''),
      grs_autoInit = wrc_initializeWithReadme config, grs_licenseTemplate = [], grs_gitignoreTemplate = []\<rparr>"

text \<open>The repository's URL and default branch.\<close>

definition get_or_create ::
  "pw_env \<Rightarrow> string \<Rightarrow> string \<Rightarrow> string \<Rightarrow> workflows_repository_config \<Rightarrow> bool \<Rightarrow> pw_state
   \<Rightarrow> (go_error + string \<times> string) \<times> pw_state" where
  "get_or_create k tok owner repoName config exists s =
     (if exists then wrapped ''failed to get existing repository'' (pe_get_repo k s tok owner repoName, s)
      else (let settings = workflows_repo_settings config in
        wrapped ''failed to create workflows repository''
          (pe_create_repo k s tok owner repoName settings,
           emit (ApiWrite [''CreateRepository'', tok, owner, repoName, grs_visibility settings]) s)))"

definition SetupWorkflowsRepository ::
  "pw_env \<Rightarrow> string \<Rightarrow> pipeline_spec \<Rightarrow> pw_state \<Rightarrow> (go_error + workflows_repository_info) \<times> pw_state" where
  "SetupWorkflowsRepository k tok sp s = (case wft_workflowsRepository (pws_target sp) of
     None \<Rightarrow> (Inl (PlainError ''workflows repository creation is not enabled''), s)
   | Some config \<Rightarrow>
       if \<not> wrc_create config then (Inl (PlainError ''workflows repository creation is not enabled''), s)
       else (let owner = wft_owner (pws_target sp); repoName = workflows_repo_name config in
         case pe_exists k s tok owner repoName of
           Inl err \<Rightarrow> (Inl (wrap_err ''failed to check repository existence'' err), s)
         | Inr exists \<Rightarrow>
             and_then (get_or_create k tok owner repoName config exists s) (\<lambda>(url, branch) s.
               case createDirectoryStructure k tok owner repoName branch s of
                 (Some err, s) \<Rightarrow> (Inl (wrap_err ''failed to create directory structure'' err), s)
               | (None, s) \<Rightarrow> (Inr \<lparr>wri_name = repoName, wri_owner = owner, wri_fullName = owner @ ''/'' @ repoName,
                     wri_url = url, wri_defaultBranch = branch, wri_created = \<not> exists\<rparr>, s))))"

section \<open>Pushing a workflow\<close>

text \<open>
  The first component is \<open>None\<close> where the code dereferences the file that \<open>GetContents\<close> does not
  return for a directory. \<open>pe_contents\<close> is the HTTP status (none without an answer) and the error.
\<close>

definition PushWorkflow ::
  "pw_env \<Rightarrow> string \<Rightarrow> workflows_repository_info \<Rightarrow> converted_workflow \<Rightarrow> pw_state \<Rightarrow> go_error option option \<times> pw_state" where
  "PushWorkflow k tok repo w s =
     (let file = [tok, wri_owner repo, wri_name repo, cw_filePath w, wri_defaultBranch repo];
          origin = cw_name w @ '' (from ADO pipeline: '' @ cw_sourcePipelineName w @ '')''
      in case pe_contents k s file of (status, err) \<Rightarrow>
        if err \<noteq> None \<and> status \<noteq> None \<and> status \<noteq> Some 404
        then (Some (map_option (wrap_err ''failed to check if workflow exists'') err), s)
        else if err = None
        then (case pe_sha k s file of
            Inl err \<Rightarrow> (Some (Some (wrap_err ''failed to get existing file'' err)), s)
          | Inr None \<Rightarrow> (None, s)
          | Inr (Some sha) \<Rightarrow>
              map_prod (\<lambda>r. Some (map_option (wrap_err ''failed to update workflow file'') r)) id
                (api_call (pe_update_file k) ''UpdateFile'' (file @ [''Update workflow: '' @ origin, cw_content w, sha]) s))
        else map_prod (\<lambda>r. Some (map_option (wrap_err ''failed to create workflow file'') r)) id
          (api_call (pe_create_file k) ''CreateFile'' (file @ [''Add workflow: '' @ origin, cw_content w]) s))"

section \<open>Validating a conversion\<close>

definition validatePipeline :: "pipeline_resource \<Rightarrow> string option" where
  "validatePipeline p =
     (if plr_id p = [] then Some ''pipeline ID is required''
      else if plr_name p = [] then Some ''pipeline name is required''
      else if plr_targetWorkflowName p = [] then Some ''target workflow name is required''
      else None)"

definition validateConversionSettings :: "conversion_settings \<Rightarrow> string option" where
  "validateConversionSettings cs =
     (if cs_parallelJobs cs < 1 \<or> cs_parallelJobs cs > 20 then Some ''parallel jobs must be between 1 and 20''
      else if cs_retryAttempts cs < 0 \<or> cs_retryAttempts cs > 5 then Some ''retry attempts must be between 0 and 5''
      else None)"

definition conversion_error :: "string \<Rightarrow> string \<Rightarrow> string \<Rightarrow> conversion_issue" where
  "conversion_error code message pipeline = \<lparr>cve_code = code, cve_message = message, cve_pipeline = pipeline,
     cve_stage = [], cve_job = [], cve_task = [], cve_lineNumber = 0\<rparr>"

definition validate_one :: "pipeline_resource \<Rightarrow> conversion_validation_results \<Rightarrow> conversion_validation_results" where
  "validate_one p r = (case validatePipeline p of
     Some message \<Rightarrow> r\<lparr>cvs_valid := False,
       cvs_errors := cvs_errors r @ [conversion_error ''PIPELINE_VALIDATION_ERROR'' message (plr_name p)]\<rparr>
   | None \<Rightarrow> r\<lparr>cvs_syntaxValidation := (cvs_syntaxValidation r)(plr_name p \<mapsto> True)\<rparr>)"

definition ValidateConversion :: "pw_env \<Rightarrow> pw_state \<Rightarrow> (go_error + conversion_validation_results) \<times> pw_state" where
  "ValidateConversion k s = (case pe_wait k s of
     Some err \<Rightarrow> (Inl err, s)
   | None \<Rightarrow> (case read_clock k s of (now, s) \<Rightarrow>
       let sp = pc_spec (obj s);
           result = fold validate_one (pws_pipelines sp)
             \<lparr>cvs_valid = True, cvs_errors = [], cvs_warnings = [], cvs_timestamp = now,
              cvs_syntaxValidation = Map.empty, cvs_actionValidation = Map.empty, cvs_secretValidation = Map.empty\<rparr>
       in (Inr (case validateConversionSettings (pws_settings sp) of
            Some message \<Rightarrow> result\<lparr>cvs_valid := False,
              cvs_errors := cvs_errors result @ [conversion_error ''SETTINGS_VALIDATION_ERROR'' message []]\<rparr>
          | None \<Rightarrow> result), s)))"

section \<open>Visibility\<close>

text \<open>
  A workflows repository that does not exist is created public unless the specification says
  \<open>private: true\<close>; leaving the field out makes it public.
\<close>

lemma workflows_repository_public:
  assumes "wft_workflowsRepository (pws_target sp) = Some config" and "wrc_create config" and "\<not> wrc_private config"
    and "pe_exists k s tok (wft_owner (pws_target sp)) (workflows_repo_name config) = Inr False"
  shows "ApiWrite [''CreateRepository'', tok, wft_owner (pws_target sp), workflows_repo_name config, ''public'']
    \<in> set (effects (snd (SetupWorkflowsRepository k tok sp s)))"
proof -
  let ?c = "ApiWrite [''CreateRepository'', tok, wft_owner (pws_target sp), workflows_repo_name config, ''public'']"
  have keep: "?c \<in> set (effects (snd (create_readme k tok owner repo branch path content t)))" if "?c \<in> set (effects t)" for owner repo branch path content t
    using that by (auto simp: create_readme_def api_call_def split: option.split)
  have dir: "?c \<in> set (effects (snd (createDirectoryStructure k tok owner repo branch t)))" if "?c \<in> set (effects t)" for owner repo branch t
    using keep [OF that] keep by (auto simp: createDirectoryStructure_def split: prod.split option.split) (metis snd_conv)+
  have "?c \<in> set (effects (emit ?c s))" by simp
  from dir [OF this] show ?thesis
    using assms by (auto simp: SetupWorkflowsRepository_def get_or_create_def workflows_repo_settings_def Let_def wrapped_def and_then_def
        split: sum.split prod.split option.split) (metis snd_conv)+
qed

end
