(* ===== verification/PipelineController.thy ===== *)
theory PipelineController
  imports WorkflowsRepository AdoAuth
begin

text \<open>
  \<open>internal/controller/pipelinetoworkflow_controller.go\<close>: the controller of PipelineToWorkflow.
  A conversion is Pending, Analyzing, Converting, Validating and then Completed or Failed; every
  reconciliation works on one pipeline.

  A status write changes only the status at the server, and the client decodes the answer into
  the object (\<open>pw_update_status\<close>): the pipelines that discovery puts into the specification are
  forgotten. The first component of a result is \<open>None\<close> where the code panics. Updates are
  broadcast when a WebSocket manager is configured. Counters count list elements and are not
  wrapped. Log messages and \<open>generateWorkflowContent\<close>, which nothing calls, are not modelled.
\<close>

section \<open>Writing\<close>

definition pw_update_status :: "pw_env \<Rightarrow> pw_state \<Rightarrow> go_error option \<times> pw_state" where
  "pw_update_status k s = (case k_status k (calls s) (obj s) of
     Some err \<Rightarrow> (Some err, s\<lparr>calls := Suc (calls s)\<rparr>)
   | None \<Rightarrow> (let x = (stored s)\<lparr>pc_status := pc_status (obj s)\<rparr> in
       (None, s\<lparr>calls := Suc (calls s), obj := x, stored := x\<rparr>)))"

definition pw_update_then :: "pw_env \<Rightarrow> ctrl_result \<Rightarrow> ctrl_result \<Rightarrow> pw_state \<Rightarrow> outcome \<times> pw_state" where
  "pw_update_then k on_err on_ok s = (case pw_update_status k s of
     (Some err, s) \<Rightarrow> ((on_err, Some err), s)
   | (None, s) \<Rightarrow> ((on_ok, None), s))"

definition announce :: "string \<Rightarrow> event_type \<Rightarrow> string \<Rightarrow> string \<Rightarrow> pw_state \<Rightarrow> pw_state" where
  "announce broadcast kind reason message s = emit (Event kind reason message) (emit (Broadcast broadcast) s)"

definition conv_step :: "string \<Rightarrow> pipeline_conversion \<Rightarrow> pipeline_conversion" where
  "conv_step x = on_conv_progress (\<lambda>p. p\<lparr>cp_currentStep := x\<rparr>)"

definition conv_failed :: "string \<Rightarrow> pipeline_conversion \<Rightarrow> pipeline_conversion" where
  "conv_failed message = on_conv (\<lambda>st. st\<lparr>pwt_phase := ConvFailed, pwt_errorMessage := message\<rparr>)"

definition conv_to :: "conv_phase \<Rightarrow> string \<Rightarrow> pipeline_conversion \<Rightarrow> pipeline_conversion" where
  "conv_to ph x = on_conv (\<lambda>st. st\<lparr>pwt_phase := ph, pwt_progress := (pwt_progress st)\<lparr>cp_currentStep := x\<rparr>\<rparr>)"

section \<open>Pending\<close>

definition discovery_enabled :: "pipeline_spec \<Rightarrow> bool" where
  "discovery_enabled sp \<longleftrightarrow> (case pws_autoDiscovery sp of Some a \<Rightarrow> au_enabled a | None \<Rightarrow> False)"

definition pw_validateConfiguration :: "pipeline_spec \<Rightarrow> string option" where
  "pw_validateConfiguration sp =
     (if pso_organization (pws_source sp) = [] then Some ''source organization is required''
      else if pso_project (pws_source sp) = [] then Some ''source project is required''
      else if wft_owner (pws_target sp) = [] then Some ''target owner is required''
      else if wft_repository (pws_target sp) = [] then Some ''target repository is required''
      else if pws_pipelines sp = [] \<and> \<not> discovery_enabled sp
      then Some ''at least one pipeline is required when auto-discovery is disabled''
      else None)"

definition pw_processPending :: "pw_env \<Rightarrow> pw_state \<Rightarrow> outcome \<times> pw_state" where
  "pw_processPending k s = (case pw_validateConfiguration (pc_spec (obj s)) of
     Some message \<Rightarrow> pw_update_then k no_requeue no_requeue
       (announce ''Configuration validation failed'' EventWarning ''ValidationFailed''
          (''Configuration validation failed: '' @ message) (modify (conv_failed message) s))
   | None \<Rightarrow> pw_update_then k (after (5 * second)) (after (5 * second))
       (announce ''Starting pipeline analysis'' EventNormal ''AnalysisStarted'' ''Pipeline analysis started''
          (modify (conv_to ConvAnalyzing ''Analyzing pipelines'') s)))"

section \<open>Analyzing\<close>

definition initial_pipeline_status :: "pipeline_resource \<Rightarrow> pipeline_conversion_status" where
  "initial_pipeline_status p = \<lparr>pst_pipelineID = plr_id p, pst_pipelineName = plr_name p,
     pst_pipelineType = plr_type p, pst_targetWorkflowName = plr_targetWorkflowName p, pst_status = CsPending,
     pst_progress = 0, pst_startTime = None, pst_completionTime = None, pst_errorMessage = [],
     pst_workflowFilePath = [], pst_workflowURL = [], pst_details = None\<rparr>"

text \<open>With auto-discovery the discovered pipelines replace those of the specification, in memory.\<close>

definition discover :: "pw_env \<Rightarrow> pw_state \<Rightarrow> (string + unit) option \<times> pw_state" where
  "discover k s = (case DiscoverPipelines k s of
     None \<Rightarrow> (None, s)
   | Some (Inl err) \<Rightarrow> (Some (Inl (''Auto-discovery failed: '' @ err_text err)), s)
   | Some (Inr d) \<Rightarrow> (Some (Inr ()),
       announce (''Discovered '' @ fmt_d (dr_filteredCount d) @ '' pipelines'') EventNormal ''DiscoveryCompleted''
         (''Discovered '' @ fmt_d (dr_filteredCount d) @ '' pipelines from ADO'')
         (modify (\<lambda>m. m\<lparr>pc_spec := (pc_spec m)\<lparr>pws_pipelines := ConvertDiscoveredPipelinesToResources d\<rparr>\<rparr>) s)))"

definition init_statuses :: "pipeline_conversion \<Rightarrow> pipeline_conversion" where
  "init_statuses m = on_conv (\<lambda>st. st\<lparr>
     pwt_pipelineStatuses := pwt_pipelineStatuses st @ map initial_pipeline_status (pws_pipelines (pc_spec m)),
     pwt_progress := (pwt_progress st)\<lparr>cp_total := int (length (pws_pipelines (pc_spec m)))\<rparr>\<rparr>) m"

definition initialise_pipelines :: "pw_env \<Rightarrow> pw_state \<Rightarrow> outcome option \<times> pw_state" where
  "initialise_pipelines k s =
     (case (if discovery_enabled (pc_spec (obj s)) then discover k s else (Some (Inr ()), s)) of
        (None, s) \<Rightarrow> (None, s)
      | (Some (Inl message), s) \<Rightarrow> returned (pw_update_then k no_requeue no_requeue
          (announce ''Auto-discovery failed'' EventWarning ''DiscoveryFailed'' message (modify (conv_failed message) s)))
      | (Some (Inr _), s) \<Rightarrow> returned (pw_update_then k (after (5 * second)) (after (5 * second))
          (announce ''Initialized pipeline statuses'' EventNormal ''StatusesInitialized'' ''Pipeline statuses initialized''
             (modify init_statuses s))))"

definition simulated_details :: conversion_details where
  "simulated_details = \<lparr>cd_originalDefinition = [], cd_convertedDefinition = [], cd_stagesConverted = 3,
     cd_jobsConverted = 5, cd_tasksConverted = 15, cd_variablesConverted = 8,
     cd_unsupportedFeatures = [''Custom Azure DevOps extensions''], cd_manualInterventionRequired = [],
     cd_conversionNotes = [''Azure DevOps tasks mapped to GitHub Actions'',
       ''Variables converted to environment variables'']\<rparr>"

definition set_pipeline_status :: "nat \<Rightarrow> (pipeline_conversion_status \<Rightarrow> pipeline_conversion_status) \<Rightarrow> pipeline_conversion \<Rightarrow> pipeline_conversion" where
  "set_pipeline_status i f = on_conv (\<lambda>st. st\<lparr>pwt_pipelineStatuses :=
     (pwt_pipelineStatuses st)[i := f (pwt_pipelineStatuses st ! i)]\<rparr>)"

text \<open>Analyse the first pipeline that is Pending; the flag says whether there was one.\<close>

definition analyse_one :: "pw_env \<Rightarrow> pw_state \<Rightarrow> bool \<times> pw_state" where
  "analyse_one k s = (case find_index (\<lambda>st. pst_status st = CsPending) (pwt_pipelineStatuses (pc_status (obj s))) of
     None \<Rightarrow> (False, s)
   | Some i \<Rightarrow> (case read_clock k s of (now, s) \<Rightarrow>
       let s = modify (set_pipeline_status i (\<lambda>st. st\<lparr>pst_status := CsAnalyzing, pst_progress := 25,
                 pst_startTime := Some now, pst_details := Some simulated_details\<rparr>)) s;
           name = pst_pipelineName (pwt_pipelineStatuses (pc_status (obj s)) ! i)
       in (True, announce (''Analyzed pipeline: '' @ name) EventNormal ''PipelineAnalyzed'' (''Analyzed pipeline: '' @ name) s)))"

definition pw_processAnalyzing :: "pw_env \<Rightarrow> pw_state \<Rightarrow> outcome option \<times> pw_state" where
  "pw_processAnalyzing k s =
     (if pwt_pipelineStatuses (pc_status (obj s)) = [] then initialise_pipelines k s
      else (case analyse_one k s of (updated, s) \<Rightarrow>
        let allAnalyzed = (\<forall>st \<in> set (pwt_pipelineStatuses (pc_status (obj s))). pst_status st \<noteq> CsPending);
            s = (if allAnalyzed
                 then announce ''Analysis complete, starting conversion'' EventNormal ''AnalysisCompleted'' ''Pipeline analysis completed''
                   (modify (conv_to ConvConverting ''Converting pipelines'') s)
                 else s)
        in returned (if updated \<or> allAnalyzed
             then pw_update_then k (after (5 * second)) (after (10 * second)) s
             else ((after (10 * second), None), s))))"

section \<open>Tokens\<close>

definition pw_app_secret :: "pw_env \<Rightarrow> pipeline_conversion \<Rightarrow> string \<Rightarrow> secret_ref \<Rightarrow> go_error + string" where
  "pw_app_secret k m what ref = secret_key k (om_namespace (pc_meta m)) (sr_name ref) (sr_key ref)
     (''failed to get GitHub '' @ what @ '' secret'') (''key '' @ sr_key ref @ '' not found in secret '' @ sr_name ref)"

definition pw_app_token :: "pw_env \<Rightarrow> pipeline_conversion \<Rightarrow> github_app_auth_config \<Rightarrow> pw_state \<Rightarrow> go_error + string" where
  "pw_app_token k m app s =
     sum_bind (pw_app_secret k m ''App ID'' (app_appIdRef app)) (\<lambda>a.
     sum_bind (map_sum (wrap_err ''failed to parse App ID'') id (sscanf_int64 (pe_scan_error k) a)) (\<lambda>appID.
     sum_bind (pw_app_secret k m ''Installation ID'' (app_installationIdRef app)) (\<lambda>b.
     sum_bind (map_sum (wrap_err ''failed to parse Installation ID'') id (sscanf_int64 (pe_scan_error k) b)) (\<lambda>installationID.
     sum_bind (pw_app_secret k m ''private key'' (app_privateKeyRef app)) (\<lambda>key.
     (case pe_app_client k s appID installationID key of
        Some err \<Rightarrow> Inl (wrap_err ''failed to create GitHub App client'' err)
      | None \<Rightarrow> map_sum (wrap_err ''failed to get installation token'') id (pe_app_token k s appID installationID key)))))))"

definition pw_getGitHubToken :: "pw_env \<Rightarrow> pw_state \<Rightarrow> go_error + string" where
  "pw_getGitHubToken k s =
     (let m = obj s; auth = wft_auth (pws_target (pc_spec m));
          other = (case gh_appAuth auth of
             Some app \<Rightarrow> pw_app_token k m app s
           | None \<Rightarrow> Inl (PlainError ''no GitHub authentication configured (PAT or App required)''))
      in case gh_tokenRef auth of
        Some ref \<Rightarrow>
          (let namespace = in_namespace (om_namespace (pc_meta m)) ref in
           if sr_name ref \<noteq> []
           then secret_key k namespace (sr_name ref) (sr_key ref)
             (''failed to get GitHub PAT secret '' @ namespace @ ''/'' @ sr_name ref)
             (''secret '' @ namespace @ ''/'' @ sr_name ref @ '' does not contain key '' @ sr_key ref)
           else other)
      | None \<Rightarrow> other)"

section \<open>Converting\<close>

text \<open>
  The workflows repository, if one is asked for and the current step is not the one that says it
  was set up: the error of the token, otherwise the repository if its set-up succeeded.
\<close>

definition wants_repository :: "pipeline_conversion \<Rightarrow> bool" where
  "wants_repository m \<longleftrightarrow> (case wft_workflowsRepository (pws_target (pc_spec m)) of
     Some c \<Rightarrow> wrc_create c \<and> cp_currentStep (pwt_progress (pc_status m)) \<noteq> ''WorkflowsRepositorySetup'' | None \<Rightarrow> False)"

definition setup_repository :: "pw_env \<Rightarrow> pw_state \<Rightarrow> (string + workflows_repository_info option) \<times> pw_state" where
  "setup_repository k s =
     (if \<not> wants_repository (obj s) then (Inr None, s)
      else (case pw_getGitHubToken k s of
        Inl err \<Rightarrow> (Inl (''Failed to get GitHub token: '' @ err_text err), s)
      | Inr tok \<Rightarrow> (case SetupWorkflowsRepository k tok (pc_spec (obj s)) s of
          (Inl err, s) \<Rightarrow> (Inr None, emit (Broadcast ''Failed to setup workflows repository'') s)
        | (Inr repo, s) \<Rightarrow> (Inr (Some repo),
            modify (conv_step ''WorkflowsRepositorySetup'')
              (emit (Broadcast (''Workflows repository ready: '' @ wri_fullName repo)) s)))))"

text \<open>The pipeline of a status: the first one of the specification with its identifier.\<close>

definition resource_of :: "pipeline_spec \<Rightarrow> pipeline_conversion_status \<Rightarrow> pipeline_resource" where
  "resource_of sp st = (case find (\<lambda>p. plr_id p = pst_pipelineID st) (pws_pipelines sp) of
     Some p \<Rightarrow> p
   | None \<Rightarrow> \<lparr>plr_id = pst_pipelineID st, plr_name = pst_pipelineName st, plr_type = pst_pipelineType st,
       plr_targetWorkflowName = pst_targetWorkflowName st, plr_settings = None, plr_customMappings = Map.empty\<rparr>)"

definition start_converting :: "nat \<Rightarrow> pw_state \<Rightarrow> pw_state" where
  "start_converting i s =
     (let s = modify (on_conv_progress (\<lambda>p. p\<lparr>cp_processing := cp_processing p + 1\<rparr>))
                (modify (set_pipeline_status i (\<lambda>st. st\<lparr>pst_status := CsConverting, pst_progress := 50\<rparr>)) s);
          name = pst_pipelineName (pwt_pipelineStatuses (pc_status (obj s)) ! i)
      in announce (''Converting pipeline: '' @ name) EventNormal ''PipelineConverting'' (''Converting pipeline: '' @ name) s)"

definition generated_of :: "converted_workflow \<Rightarrow> generated_workflow" where
  "generated_of w = \<lparr>gw_name = cw_name w, gw_filePath = cw_filePath w, gw_content = cw_content w,
     gw_sourcePipelineID = cw_sourcePipelineID w, gw_sourcePipelineName = cw_sourcePipelineName w,
     gw_gitHubURL = [], gw_validationStatus = ''valid'', gw_validationErrors = []\<rparr>"

definition push_workflow :: "pw_env \<Rightarrow> workflows_repository_info option \<Rightarrow> converted_workflow \<Rightarrow> pw_state \<Rightarrow> unit option \<times> pw_state" where
  "push_workflow k repo w s = (case repo of
     None \<Rightarrow> (Some (), s)
   | Some info \<Rightarrow> map_prod (map_option (\<lambda>_. ())) id (PushWorkflow k ''placeholder-token'' info w s))"

definition finish_converting :: "pw_env \<Rightarrow> workflows_repository_info option \<Rightarrow> nat \<Rightarrow> converted_workflow \<Rightarrow> pw_state \<Rightarrow> pw_state" where
  "finish_converting k repo i w s = (case read_clock k s of (now, s) \<Rightarrow>
     let s = modify (set_pipeline_status i (\<lambda>st. st\<lparr>pst_status := CsCompleted, pst_progress := 100,
               pst_completionTime := Some now, pst_workflowFilePath := cw_filePath w,
               pst_workflowURL := (case repo of
                  Some info \<Rightarrow> wri_url info @ ''/blob/'' @ wri_defaultBranch info @ ''/'' @ cw_filePath w
                | None \<Rightarrow> pst_workflowURL st)\<rparr>)) s;
         s = modify (on_conv (\<lambda>st. st\<lparr>pwt_generatedWorkflows := pwt_generatedWorkflows st @ [generated_of w],
               pwt_progress := (pwt_progress st)\<lparr>cp_processing := cp_processing (pwt_progress st) - 1,
                 cp_completed := cp_completed (pwt_progress st) + 1\<rparr>\<rparr>)) s;
         name = pst_pipelineName (pwt_pipelineStatuses (pc_status (obj s)) ! i)
     in announce (''Completed converting: '' @ name) EventNormal ''PipelineConverted''
          (''Completed converting pipeline: '' @ name) s)"

definition conversion_failed :: "nat \<Rightarrow> go_error \<Rightarrow> pw_state \<Rightarrow> pw_state" where
  "conversion_failed i err s =
     modify (on_conv_progress (\<lambda>p. p\<lparr>cp_failed := cp_failed p + 1, cp_processing := cp_processing p - 1\<rparr>))
       (modify (set_pipeline_status i (\<lambda>st. st\<lparr>pst_status := CsFailed, pst_errorMessage := err_text err\<rparr>)) s)"

definition convert_current :: "pw_env \<Rightarrow> workflows_repository_info option \<Rightarrow> nat \<Rightarrow> pw_state \<Rightarrow> unit option \<times> pw_state" where
  "convert_current k repo i s =
     (let sp = pc_spec (obj s) in
      case ConvertPipeline (resource_of sp (pwt_pipelineStatuses (pc_status (obj s)) ! i)) sp of
        Inl err \<Rightarrow> (Some (), conversion_failed i err s)
      | Inr w \<Rightarrow> (case push_workflow k repo w (modify (set_pipeline_status i (\<lambda>st. st\<lparr>pst_progress := 90\<rparr>)) s) of
          (None, s) \<Rightarrow> (None, s)
        | (Some _, s) \<Rightarrow> (Some (), finish_converting k repo i w s)))"

text \<open>The loop stops at the first pipeline that is Analyzing or Converting.\<close>

definition convert_next :: "pw_env \<Rightarrow> workflows_repository_info option \<Rightarrow> pw_state \<Rightarrow> bool option \<times> pw_state" where
  "convert_next k repo s =
     (let sts = pwt_pipelineStatuses (pc_status (obj s)) in
      case find_index (\<lambda>st. pst_status st \<in> {CsAnalyzing, CsConverting}) sts of
        None \<Rightarrow> (Some False, s)
      | Some i \<Rightarrow>
          if pst_status (sts ! i) = CsAnalyzing then (Some True, start_converting i s)
          else map_prod (map_option (\<lambda>_. True)) id (convert_current k repo i s))"

definition conv_percentage :: "conversion_progress \<Rightarrow> conversion_progress" where
  "conv_percentage p = (if cp_total p > 0 then p\<lparr>cp_percentage := go_div (cp_completed p * 100) (cp_total p)\<rparr> else p)"

definition all_converted :: "pipeline_conversion \<Rightarrow> bool" where
  "all_converted m \<longleftrightarrow> (let p = pwt_progress (pc_status m) in cp_completed p + cp_failed p = cp_total p)"

definition pw_processConverting :: "pw_env \<Rightarrow> pw_state \<Rightarrow> outcome option \<times> pw_state" where
  "pw_processConverting k s = (case setup_repository k s of
     (Inl message, s) \<Rightarrow> returned (pw_update_then k no_requeue no_requeue (modify (conv_failed message) s))
   | (Inr repo, s) \<Rightarrow> (case convert_next k repo s of
       (None, s) \<Rightarrow> (None, s)
     | (Some updated, s) \<Rightarrow>
         (let s = modify (on_conv_progress conv_percentage) s; finished = all_converted (obj s);
              s = (if finished
                   then announce ''Conversion complete, starting validation'' EventNormal ''ConversionCompleted'' ''Pipeline conversion completed''
                     (modify (conv_to ConvValidating ''Validating workflows'') s)
                   else s)
          in returned (if updated \<or> repo \<noteq> None \<or> finished
               then pw_update_then k (after (5 * second)) (after (10 * second)) s
               else ((after (10 * second), None), s)))))"

section \<open>Validating\<close>

definition stored_issue :: "conversion_issue \<Rightarrow> conversion_issue" where
  "stored_issue e = e\<lparr>cve_lineNumber := 0\<rparr>"

definition stored_results :: "instant \<Rightarrow> conversion_validation_results \<Rightarrow> conversion_validation_results" where
  "stored_results now r = \<lparr>cvs_valid = cvs_valid r, cvs_errors = map stored_issue (cvs_errors r),
     cvs_warnings = map stored_issue (cvs_warnings r), cvs_timestamp = now,
     cvs_syntaxValidation = Map.empty, cvs_actionValidation = Map.empty, cvs_secretValidation = Map.empty\<rparr>"

definition conclude_conversion :: "bool \<Rightarrow> pw_state \<Rightarrow> pw_state" where
  "conclude_conversion valid s =
     (if valid
      then announce ''Pipeline conversion completed successfully'' EventNormal ''ConversionSucceeded'' ''Pipeline conversion completed successfully''
        (modify (\<lambda>m. on_conv_progress (\<lambda>p. p\<lparr>cp_percentage := 100\<rparr>)
           (conv_to ConvCompleted ''Conversion completed successfully'' m)) s)
      else announce ''Pipeline conversion failed validation'' EventWarning ''ValidationFailed'' ''Pipeline conversion failed validation''
        (modify (conv_failed ''Workflow validation failed'') s))"

definition conversion_statistics_of :: "pipeline_conversion \<Rightarrow> conversion_statistics" where
  "conversion_statistics_of m = zero_conv_statistics\<lparr>cst_pipelinesAnalyzed := int (length (pws_pipelines (pc_spec m))),
     cst_workflowsGenerated := int (length (pwt_generatedWorkflows (pc_status m))), cst_stagesConverted := 15,
     cst_jobsConverted := 25, cst_tasksConverted := 75, cst_variablesConverted := 40, cst_successRate := ''100.0''\<rparr>"

definition conv_duration :: "pw_env \<Rightarrow> pw_state \<Rightarrow> pw_state" where
  "conv_duration k s = (case pwt_startTime (pc_status (obj s)) of
     None \<Rightarrow> s
   | Some t \<Rightarrow> (case read_clock k s of (now, s) \<Rightarrow>
       modify (on_conv (\<lambda>st. st\<lparr>pwt_statistics := map_option (\<lambda>x. x\<lparr>cst_duration := now - t\<rparr>) (pwt_statistics st)\<rparr>)) s))"

definition pw_processValidating :: "pw_env \<Rightarrow> pw_state \<Rightarrow> outcome \<times> pw_state" where
  "pw_processValidating k s = (case ValidateConversion k s of
     (Inl err, s) \<Rightarrow> pw_update_then k no_requeue no_requeue
       (announce ''Validation failed'' EventWarning ''ValidationFailed'' (''Validation failed: '' @ err_text err)
          (modify (conv_failed (''Validation failed: '' @ err_text err)) s))
   | (Inr r, s) \<Rightarrow> (case read_clock k s of (now, s) \<Rightarrow>
       let s = modify (on_conv (\<lambda>st. st\<lparr>pwt_validationResults := Some (stored_results now r)\<rparr>)) s;
           s = conclude_conversion (cvs_valid r) s
       in case read_clock k s of (now, s) \<Rightarrow>
       let s = modify (on_conv (\<lambda>st. st\<lparr>pwt_completionTime := Some now\<rparr>)) s;
           s = modify (\<lambda>m. on_conv (\<lambda>st. st\<lparr>pwt_statistics := Some (conversion_statistics_of m)\<rparr>) m) s
       in pw_update_then k no_requeue no_requeue (conv_duration k s)))"

section \<open>A changed specification\<close>

definition new_pipelines :: "pipeline_conversion \<Rightarrow> pipeline_resource list" where
  "new_pipelines m = filter (\<lambda>p. plr_id p \<notin> pst_pipelineID ` set (pwt_pipelineStatuses (pc_status m))) (pws_pipelines (pc_spec m))"

definition pw_observed :: "pipeline_conversion \<Rightarrow> pipeline_conversion" where
  "pw_observed m = on_conv (\<lambda>st. st\<lparr>pwt_observedGeneration := om_generation (pc_meta m)\<rparr>) m"

definition full_restart :: "pipeline_status \<Rightarrow> pipeline_status" where
  "full_restart st = st\<lparr>pwt_phase := ConvPending,
     pwt_progress := zero_conv_progress\<lparr>cp_currentStep := ''Restarting conversion due to spec change''\<rparr>,
     pwt_pipelineStatuses := [], pwt_generatedWorkflows := [], pwt_validationResults := None,
     pwt_errorMessage := [], pwt_warnings := [], pwt_statistics := None, pwt_completionTime := None\<rparr>"

definition resume :: "pipeline_conversion \<Rightarrow> pipeline_conversion" where
  "resume m = on_conv (\<lambda>st. st\<lparr>pwt_phase := ConvAnalyzing, pwt_progress := (pwt_progress st)
       \<lparr>cp_currentStep := ''Analyzing '' @ fmt_d (int (length (new_pipelines m))) @ '' new pipelines'',
        cp_total := int (length (pws_pipelines (pc_spec m)))\<rparr>, pwt_completionTime := None\<rparr>) m"

definition restartConversionForSpecChange :: "pw_env \<Rightarrow> pw_state \<Rightarrow> outcome \<times> pw_state" where
  "restartConversionForSpecChange k s =
     (let n = fmt_d (int (length (new_pipelines (obj s)))) in
      if discovery_enabled (pc_spec (obj s))
      then pw_update_then k no_requeue (after (2 * second))
        (announce ''Conversion restarted due to spec change'' EventNormal ''ConversionRestarted''
           ''Conversion restarted due to spec change (auto-discovery enabled)''
           (modify (\<lambda>m. pw_observed (on_conv full_restart m)) s))
      else if new_pipelines (obj s) = []
      then pw_update_then k no_requeue no_requeue (modify pw_observed s)
      else pw_update_then k no_requeue (after (2 * second))
        (announce (''Resuming conversion with '' @ n @ '' new pipelines'') EventNormal ''ConversionResumed''
           (''Conversion resumed: '' @ n @ '' new pipelines added'') (modify (\<lambda>m. pw_observed (resume m)) s)))"

section \<open>Reconcile\<close>

definition conv_terminal :: "conv_phase \<Rightarrow> bool" where
  "conv_terminal p \<longleftrightarrow> p \<in> {ConvCompleted, ConvFailed, ConvCancelled}"

definition conv_spec_changed :: "pipeline_conversion \<Rightarrow> bool" where
  "conv_spec_changed m \<longleftrightarrow> pwt_observedGeneration (pc_status m) \<noteq> 0
     \<and> pwt_observedGeneration (pc_status m) \<noteq> om_generation (pc_meta m) \<and> conv_terminal (pwt_phase (pc_status m))"

definition pw_observe :: "pw_env \<Rightarrow> pw_state \<Rightarrow> pw_state" where
  "pw_observe k s =
     (if pwt_observedGeneration (pc_status (obj s)) = om_generation (pc_meta (obj s)) then s
      else (case read_clock k s of (now, s) \<Rightarrow>
        modify (\<lambda>m. on_conv (\<lambda>st. st\<lparr>pwt_lastReconcileTime := Some now\<rparr>) (pw_observed m)) s))"

definition pw_finalizerName :: string where
  "pw_finalizerName = ''migration.ado-to-git-migration.io/pipeline-finalizer''"

definition pw_update_finalizers :: "pw_env \<Rightarrow> (string list \<Rightarrow> string list) \<Rightarrow> pw_state \<Rightarrow> outcome \<times> pw_state" where
  "pw_update_finalizers k f s =
     (case object_update k (modify (\<lambda>m. m\<lparr>pc_meta := (pc_meta m)\<lparr>om_finalizers := f (om_finalizers (pc_meta m))\<rparr>\<rparr>) s) of
        (err, s) \<Rightarrow> ((no_requeue, err), s))"

definition pw_initialise :: "pw_env \<Rightarrow> pw_state \<Rightarrow> outcome \<times> pw_state" where
  "pw_initialise k s =
     (let s = modify (\<lambda>m. on_conv (\<lambda>st. st\<lparr>pwt_phase := ConvPending, pwt_progress := zero_conv_progress
                \<lparr>cp_total := int (length (pws_pipelines (pc_spec m))), cp_currentStep := ''Initializing conversion''\<rparr>\<rparr>) m) s
      in case read_clock k s of (now, s) \<Rightarrow>
        pw_update_then k (after (5 * second)) (after (5 * second))
          (announce ''Pipeline conversion initialized'' EventNormal ''Initialized'' ''Pipeline conversion initialized''
             (modify (on_conv (\<lambda>st. st\<lparr>pwt_startTime := Some now\<rparr>)) s)))"

definition pw_processPhase :: "pw_env \<Rightarrow> pw_state \<Rightarrow> outcome option \<times> pw_state" where
  "pw_processPhase k s = (case pwt_phase (pc_status (obj s)) of
     ConvUnset \<Rightarrow> returned (pw_initialise k s)
   | ConvPending \<Rightarrow> returned (pw_processPending k s)
   | ConvAnalyzing \<Rightarrow> pw_processAnalyzing k s
   | ConvConverting \<Rightarrow> pw_processConverting k s
   | ConvValidating \<Rightarrow> returned (pw_processValidating k s)
   | _ \<Rightarrow> returned ((no_requeue, None), s))"

definition reconcile_conversion :: "pw_env \<Rightarrow> pw_state \<Rightarrow> outcome option \<times> pw_state" where
  "reconcile_conversion k s =
     (if conv_spec_changed (obj s) then returned (restartConversionForSpecChange k s)
      else (let s = pw_observe k s; meta = pc_meta (obj s); has_finalizer = pw_finalizerName \<in> set (om_finalizers meta) in
        if om_deletionTimestamp meta = None
        then (if \<not> has_finalizer then returned (pw_update_finalizers k (\<lambda>fs. fs @ [pw_finalizerName]) s)
              else pw_processPhase k s)
        else returned (if has_finalizer then pw_update_finalizers k (removeAll pw_finalizerName) s
              else ((no_requeue, None), s))))"

definition pw_Reconcile :: "pw_env \<Rightarrow> go_error + pw_state \<Rightarrow> outcome option \<times> pw_state option" where
  "pw_Reconcile k got = (case got of
     Inl err \<Rightarrow> (Some (no_requeue, if is_not_found err then None else Some err), None)
   | Inr s \<Rightarrow> map_prod id Some (reconcile_conversion k s))"

end
