(* ===== verification/PipelineLives.thy ===== *)
theory PipelineLives
  imports PipelineController
begin

text \<open>
  The life of a PipelineToWorkflow (\<open>internal/controller/pipelinetoworkflow_controller.go\<close>): the events
  of its world are reconciliations, each in an environment of its own, and edits of the metadata
  and the specification by users. What is done at GitHub accumulates. One lemma per handler says
  what a reconciliation keeps; the whole life is an interpretation of \<open>phase_machine\<close>.
\<close>

section \<open>Calls to GitHub leave the object alone\<close>

definition conv_quiet :: "pw_state \<Rightarrow> pw_state \<Rightarrow> bool" where
  "conv_quiet s t \<longleftrightarrow> obj t = obj s \<and> stored t = stored s \<and> calls t = calls s \<and> ticks t = ticks s"

lemma conv_quiet_refl [simp]: "conv_quiet s s"
  by (simp add: conv_quiet_def)

lemma conv_quiet_trans [trans]: "conv_quiet s t \<Longrightarrow> conv_quiet t u \<Longrightarrow> conv_quiet s u"
  by (simp add: conv_quiet_def)

lemma conv_quiet_emit [simp]: "conv_quiet s (emit e t) = conv_quiet s t"
  by (simp add: conv_quiet_def)

lemma conv_quiet_api_call [simp]: "conv_quiet s (snd (api_call answer name args t)) = conv_quiet s t"
  by (simp add: api_call_def)

lemma conv_quiet_create_readme [simp]: "conv_quiet s (snd (create_readme k tok owner repo branch path content s))"
  by (simp add: create_readme_def api_call_def split: option.split)

lemma conv_quiet_create_readme_trans:
  "conv_quiet s t \<Longrightarrow> conv_quiet s (snd (create_readme k tok owner repo branch path content t))"
  using conv_quiet_create_readme conv_quiet_trans by blast

lemma conv_quiet_directory [simp]: "conv_quiet s (snd (createDirectoryStructure k tok owner repo branch s))"
proof -
  obtain e1 s1 where 1: "create_readme k tok owner repo branch ''pipelines/README.md'' pipelines_readme s = (e1, s1)" by fastforce
  obtain e2 s2 where 2: "create_readme k tok owner repo branch ''releases/README.md'' releases_readme s1 = (e2, s2)" by fastforce
  have "conv_quiet s s1" using conv_quiet_create_readme 1 by (metis snd_conv)
  moreover from this have "conv_quiet s s2" using conv_quiet_create_readme_trans 2 by (metis snd_conv)
  ultimately show ?thesis using conv_quiet_create_readme_trans [of s s2]
    by (auto simp: createDirectoryStructure_def 1 2 split: option.split)
qed

lemma conv_quiet_get_or_create [simp]: "conv_quiet s (snd (get_or_create k tok owner name config exists s))"
  by (simp add: get_or_create_def Let_def wrapped_def)

lemma conv_quiet_and_then:
  assumes "conv_quiet s (snd r)" and "\<And>x t. conv_quiet s t \<Longrightarrow> conv_quiet s (snd (f x t))"
  shows "conv_quiet s (snd (and_then r f))"
  using assms by (cases r) (auto simp: and_then_def split: sum.split)

lemma snd_case_option [simp]:
  "snd (case p of (None, s) \<Rightarrow> (c, s) | (Some e, s) \<Rightarrow> (f e, s)) = snd p"
  by (simp split: prod.split option.split)

lemma conv_quiet_setup [simp]: "conv_quiet s (snd (SetupWorkflowsRepository k tok sp s))"
  unfolding SetupWorkflowsRepository_def Let_def
  by (auto split: option.split sum.split intro!: conv_quiet_and_then elim: conv_quiet_trans [OF _ conv_quiet_directory])

lemma conv_quiet_push [simp]: "conv_quiet s (snd (PushWorkflow k tok repo w s))"
  by (simp add: PushWorkflow_def Let_def split: prod.split sum.split option.split)

lemma conv_quiet_announce [simp]: "conv_quiet s (announce b e r m t) = conv_quiet s t"
  by (simp add: announce_def)

lemma announce_simps [simp]:
  "obj (announce b e r m s) = obj s" "stored (announce b e r m s) = stored s" "calls (announce b e r m s) = calls s"
  "ticks (announce b e r m s) = ticks s" "effects (announce b e r m s) = effects s @ [Broadcast b, Event e r m]"
  by (simp_all add: announce_def)

section \<open>Writing the status\<close>

abbreviation cst_of :: "pipeline_conversion \<Rightarrow> pipeline_status" where "cst_of \<equiv> pc_status"
abbreviation cphase :: "pipeline_conversion \<Rightarrow> conv_phase" where "cphase m \<equiv> pwt_phase (pc_status m)"
abbreviation csts :: "pipeline_conversion \<Rightarrow> pipeline_conversion_status list" where "csts m \<equiv> pwt_pipelineStatuses (pc_status m)"
abbreviation cprog :: "pipeline_conversion \<Rightarrow> conversion_progress" where "cprog m \<equiv> pwt_progress (pc_status m)"

text \<open>
  In a write of the object the server ignores the status; a write from a copy that is not current is
  refused, so the specification is the one that was sent.
\<close>

definition pw_env_ok :: "pw_env \<Rightarrow> bool" where
  "pw_env_ok k \<longleftrightarrow> (\<forall>n old new x. k_update k n old new = Inr x \<longrightarrow> pc_status x = pc_status old \<and> pc_spec x = pc_spec new)"

lemma update_then_stored:
  "stored (snd (pw_update_then k a b s))
   = (if k_status k (calls s) (obj s) = None then (stored s)\<lparr>pc_status := pc_status (obj s)\<rparr> else stored s)"
  "effects (snd (pw_update_then k a b s)) = effects s"
  by (simp_all add: pw_update_then_def pw_update_status_def Let_def split: option.splits)

lemma update_finalizers_stored:
  "pw_env_ok k \<Longrightarrow> cst_of (stored (snd (pw_update_finalizers k f s))) = cst_of (stored s)"
  "effects (snd (pw_update_finalizers k f s)) = effects s"
  by (auto simp: pw_update_finalizers_def object_update_def pw_env_ok_def split: sum.split)

lemmas conv_modify_defs = on_conv_def on_conv_progress_def conv_to_def conv_failed_def conv_step_def pw_observed_def

section \<open>The invariant\<close>

text \<open>
  Pipelines are worked on in order, so the statuses descend from Completed over Converting and
  Analyzing to Pending. The counters count them, and every completed pipeline has its workflow.
\<close>

fun stage_of :: "conv_status \<Rightarrow> nat" where
  "stage_of CsCompleted = 0"
| "stage_of CsConverting = 1"
| "stage_of CsAnalyzing = 2"
| "stage_of CsPending = 3"
| "stage_of _ = 4"

definition stages :: "pipeline_status \<Rightarrow> nat list" where
  "stages st = map (stage_of \<circ> pst_status) (pwt_pipelineStatuses st)"

lemma stage_of_iff [simp]:
  "stage_of c = 0 \<longleftrightarrow> c = CsCompleted" "stage_of c = Suc 0 \<longleftrightarrow> c = CsConverting" "stage_of c = 2 \<longleftrightarrow> c = CsAnalyzing"
  "stage_of c = 3 \<longleftrightarrow> c = CsPending"
  by (cases c; simp)+

definition stages_ok :: "nat list \<Rightarrow> bool" where
  "stages_ok xs \<longleftrightarrow> sorted xs \<and> set xs \<subseteq> {0..3} \<and> count_list xs 1 \<le> 1"

definition conv_counted :: "pipeline_status \<Rightarrow> bool" where
  "conv_counted st \<longleftrightarrow> stages_ok (stages st)
     \<and> cp_completed (pwt_progress st) = int (count_list (stages st) 0) \<and> cp_failed (pwt_progress st) = 0
     \<and> cp_processing (pwt_progress st) = int (count_list (stages st) 1)
     \<and> length (pwt_generatedWorkflows st) = count_list (stages st) 0"

definition phase_fits :: "pipeline_status \<Rightarrow> bool" where
  "phase_fits st \<longleftrightarrow> (case pwt_phase st of
     ConvUnset \<Rightarrow> pwt_pipelineStatuses st = []
   | ConvPending \<Rightarrow> pwt_pipelineStatuses st = []
   | ConvAnalyzing \<Rightarrow> True
   | ConvConverting \<Rightarrow> 3 \<notin> set (stages st)
   | ConvValidating \<Rightarrow> 3 \<notin> set (stages st) \<and> cp_completed (pwt_progress st) = cp_total (pwt_progress st)
   | ConvCompleted \<Rightarrow> 3 \<notin> set (stages st) \<and> cp_completed (pwt_progress st) = cp_total (pwt_progress st)
       \<and> cp_percentage (pwt_progress st) = 100 \<and> pwt_completionTime st \<noteq> None
       \<and> (\<exists>r. pwt_validationResults st = Some r \<and> cvs_valid r)
   | ConvFailed \<Rightarrow> pwt_errorMessage st \<noteq> []
   | ConvCancelled \<Rightarrow> False)"

definition conv_ok :: "pipeline_conversion \<Rightarrow> bool" where
  "conv_ok m \<longleftrightarrow> conv_counted (pc_status m) \<and> phase_fits (pc_status m)"

definition conv_edge :: "conv_phase \<Rightarrow> conv_phase \<Rightarrow> bool" where
  "conv_edge p q \<longleftrightarrow> (p, q) \<in> {(ConvUnset, ConvPending), (ConvPending, ConvAnalyzing), (ConvPending, ConvFailed),
     (ConvAnalyzing, ConvConverting), (ConvAnalyzing, ConvFailed), (ConvConverting, ConvValidating),
     (ConvConverting, ConvFailed), (ConvValidating, ConvCompleted), (ConvValidating, ConvFailed),
     (ConvCompleted, ConvPending), (ConvCompleted, ConvAnalyzing), (ConvFailed, ConvPending), (ConvFailed, ConvAnalyzing)}"

text \<open>An object that a reconciliation may leave behind when it found one in phase \<open>ph\<close>.\<close>

definition moved :: "conv_phase \<Rightarrow> pipeline_conversion \<Rightarrow> bool" where
  "moved ph m \<longleftrightarrow> conv_ok m \<and> (cphase m = ph \<or> conv_edge ph (cphase m))"

lemma moved_status: "pc_status x = pc_status y \<Longrightarrow> moved ph x = moved ph y"
  by (simp add: moved_def conv_ok_def)

lemma update_moved:
  "moved ph (stored s) \<Longrightarrow> moved ph (obj s) \<Longrightarrow> moved ph (stored (snd (pw_update_then k a b s)))"
  by (simp add: update_then_stored moved_status [of "stored s\<lparr>pc_status := pc_status (obj s)\<rparr>" "obj s"])

subsection \<open>One status changes\<close>

lemma sorted_update:
  assumes "sorted xs" and "i < length xs" and "\<And>j. j < i \<Longrightarrow> xs ! j \<le> v" and "v \<le> xs ! i"
  shows "sorted (xs[i := v])"
proof (rule sorted_iff_nth_mono [THEN iffD2], intro allI impI)
  fix a b assume ab: "a \<le> b" "b < length (xs[i := v])"
  have mono: "a \<le> b \<Longrightarrow> b < length xs \<Longrightarrow> xs ! a \<le> xs ! b" for a b
    using assms(1) by (rule sorted_nth_mono)
  show "xs[i := v] ! a \<le> xs[i := v] ! b"
    using ab assms(2-4) mono [of a b] mono [of i b]
    by (cases "a = i"; cases "b = i") (auto simp: nth_list_update order.order_iff_strict intro: order_trans)
qed

lemma count_list_update:
  "i < length xs \<Longrightarrow> count_list (xs[i := v]) x + (if xs ! i = x then 1 else 0) = count_list xs x + (if v = x then 1 else 0)"
proof (induction xs arbitrary: i)
  case (Cons y ys)
  show ?case
  proof (cases i)
    case (Suc j)
    then show ?thesis using Cons.IH [of j] Cons.prems by (auto split: if_splits)
  qed simp
qed simp

text \<open>The first of the entries from stage \<open>r\<close> to \<open>Suc r\<close> moves one stage on.\<close>

lemma stages_ok_update:
  assumes ok: "stages_ok xs" and i: "i < length xs" "xs ! i = Suc v" and before: "\<And>j. j < i \<Longrightarrow> xs ! j \<le> v"
    and one: "v = 1 \<Longrightarrow> count_list xs 1 = 0"
  shows "stages_ok (xs[i := v])"
proof -
  have "set (xs[i := v]) \<subseteq> {0..3}"
    using ok i set_update_subset_insert [of xs i v] nth_mem [OF i(1)] by (fastforce simp: stages_ok_def)
  moreover have "count_list (xs[i := v]) 1 \<le> 1"
    using count_list_update [OF i(1), of v 1] ok one i(2) by (auto simp: stages_ok_def split: if_splits)
  ultimately show ?thesis using ok i before by (auto simp: stages_ok_def intro: sorted_update)
qed

lemma counted_cong:
  "pwt_pipelineStatuses st' = pwt_pipelineStatuses st \<Longrightarrow> pwt_generatedWorkflows st' = pwt_generatedWorkflows st
   \<Longrightarrow> cp_completed (pwt_progress st') = cp_completed (pwt_progress st) \<Longrightarrow> cp_failed (pwt_progress st') = cp_failed (pwt_progress st)
   \<Longrightarrow> cp_processing (pwt_progress st') = cp_processing (pwt_progress st) \<Longrightarrow> conv_counted st' = conv_counted st"
  by (simp add: conv_counted_def stages_def)

lemma counted_step:
  assumes ok: "conv_counted st" and i: "i < length (pwt_pipelineStatuses st)" "stages st ! i = Suc v"
    and before: "\<And>j. j < i \<Longrightarrow> stages st ! j \<le> v" and one: "v = 1 \<Longrightarrow> count_list (stages st) 1 = 0"
    and sts: "pwt_pipelineStatuses st' = (pwt_pipelineStatuses st)[i := x]" "stage_of (pst_status x) = v"
    and counters: "cp_completed (pwt_progress st') = cp_completed (pwt_progress st) + (if v = 0 then 1 else 0)"
      "cp_failed (pwt_progress st') = cp_failed (pwt_progress st)"
      "cp_processing (pwt_progress st') = cp_processing (pwt_progress st) + (if v = 1 then 1 else 0) - (if v = 0 then 1 else 0)"
    and gws: "length (pwt_generatedWorkflows st') = length (pwt_generatedWorkflows st) + (if v = 0 then 1 else 0)"
  shows "conv_counted st'"
proof -
  have st': "stages st' = (stages st)[i := v]" using sts by (simp add: stages_def map_update)
  have len: "i < length (stages st)" using i(1) by (simp add: stages_def)
  have "stages_ok (stages st')"
    unfolding st' using ok one by (intro stages_ok_update [OF _ len i(2) before]) (auto simp: conv_counted_def)
  moreover have "count_list (stages st') 0 = count_list (stages st) 0 + (if v = 0 then 1 else 0)"
    using count_list_update [OF len, of v 0] i(2) by (simp add: st')
  moreover have "count_list (stages st') 1 + (if v = 0 then 1 else 0) = count_list (stages st) 1 + (if v = 1 then 1 else 0)"
    using count_list_update [OF len, of v 1] i(2) by (simp add: st')
  ultimately show ?thesis using ok counters gws by (auto simp: conv_counted_def split: if_splits)
qed

lemma open_stage:
  assumes ok: "conv_counted st" and i: "find_index (\<lambda>st. pst_status st \<in> {CsAnalyzing, CsConverting}) (pwt_pipelineStatuses st) = Some i"
  shows "i < length (pwt_pipelineStatuses st)" and "stages st ! i \<in> {1, 2}" and "\<And>j. j < i \<Longrightarrow> stages st ! j = 0"
    and "stages st ! i = 2 \<Longrightarrow> count_list (stages st) 1 = 0"
proof -
  let ?sts = "pwt_pipelineStatuses st"
  from find_index_Some [OF i]
  have i': "i < length ?sts" "pst_status (?sts ! i) \<in> {CsAnalyzing, CsConverting}"
    and before: "\<And>j. j < i \<Longrightarrow> pst_status (?sts ! j) \<notin> {CsAnalyzing, CsConverting}" by auto
  show "i < length ?sts" by (rule i'(1))
  show st: "stages st ! i \<in> {1, 2}" using i' by (auto simp: stages_def)
  have srt: "sorted (stages st)" and le: "set (stages st) \<subseteq> {0..3}" using ok by (auto simp: conv_counted_def stages_ok_def)
  show zero: "stages st ! j = 0" if "j < i" for j
  proof -
    have "stages st ! j \<le> stages st ! i" using sorted_nth_mono [OF srt, of j i] that i'(1) by (simp add: stages_def)
    moreover have "stages st ! j \<noteq> 1" "stages st ! j \<noteq> 2" using before [OF that] that i'(1) by (auto simp: stages_def)
    ultimately show ?thesis using st by (auto simp: numeral_2_eq_2)
  qed
  show "count_list (stages st) 1 = 0" if two: "stages st ! i = 2"
  proof -
    have "stages st ! j \<noteq> 1" if "j < length (stages st)" for j
    proof (cases "j < i")
      case False
      then have "2 \<le> stages st ! j" using sorted_nth_mono [OF srt, of i j] that two by simp
      then show ?thesis by simp
    qed (simp add: zero)
    then have "1 \<notin> set (stages st)" by (metis in_set_conv_nth)
    then show ?thesis by (simp add: count_list_0_iff)
  qed
qed

lemma pending_stage:
  assumes ok: "conv_counted st" and i: "find_index (\<lambda>st. pst_status st = CsPending) (pwt_pipelineStatuses st) = Some i"
  shows "i < length (pwt_pipelineStatuses st)" and "stages st ! i = 3" and "\<And>j. j < i \<Longrightarrow> stages st ! j \<le> 2"
proof -
  let ?sts = "pwt_pipelineStatuses st"
  from find_index_Some [OF i] have i': "i < length ?sts" "pst_status (?sts ! i) = CsPending"
    and before: "\<And>j. j < i \<Longrightarrow> pst_status (?sts ! j) \<noteq> CsPending" by auto
  show "i < length ?sts" "stages st ! i = 3" using i' by (simp_all add: stages_def)
  show "stages st ! j \<le> 2" if "j < i" for j
  proof -
    have "stages st ! j \<in> set (stages st)" using that i'(1) by (simp add: stages_def)
    then have "stages st ! j \<le> 3" using ok by (auto simp: conv_counted_def stages_ok_def)
    moreover have "stages st ! j \<noteq> 3" using before [OF that] that i'(1) by (simp add: stages_def)
    ultimately show ?thesis by simp
  qed
qed

section \<open>The handlers\<close>

definition at_phase :: "conv_phase \<Rightarrow> pw_state \<Rightarrow> bool" where
  "at_phase ph s \<longleftrightarrow> conv_ok (obj s) \<and> cphase (obj s) = ph \<and> moved ph (stored s)"

lemma at_phase_quiet: "at_phase ph s \<Longrightarrow> conv_quiet s t \<Longrightarrow> at_phase ph t"
  by (simp add: at_phase_def conv_quiet_def)

lemma at_phase_stored: "at_phase ph s \<Longrightarrow> moved ph (stored s)"
  by (simp add: at_phase_def)

lemma at_phase_facts:
  assumes "at_phase ph s"
  shows "conv_counted (pc_status (obj s))" "cphase (obj s) = ph" "phase_fits (pc_status (obj s))"
  using assms by (simp_all add: at_phase_def conv_ok_def)

lemma conv_counted_empty:
  "pwt_pipelineStatuses st = [] \<Longrightarrow> conv_counted st \<longleftrightarrow> cp_completed (pwt_progress st) = 0
     \<and> cp_failed (pwt_progress st) = 0 \<and> cp_processing (pwt_progress st) = 0 \<and> pwt_generatedWorkflows st = []"
  by (simp add: conv_counted_def stages_def stages_ok_def)

lemma moved_same_count:
  assumes "conv_counted st" and "pwt_pipelineStatuses (pc_status m) = pwt_pipelineStatuses st"
    and "pwt_generatedWorkflows (pc_status m) = pwt_generatedWorkflows st"
    and "cp_completed (cprog m) = cp_completed (pwt_progress st)" and "cp_failed (cprog m) = cp_failed (pwt_progress st)"
    and "cp_processing (cprog m) = cp_processing (pwt_progress st)"
    and "phase_fits (pc_status m)" and "cphase m = ph \<or> conv_edge ph (cphase m)"
  shows "moved ph m"
  using assms counted_cong [of "pc_status m" st] by (simp add: moved_def conv_ok_def)

lemma phase_fits_simps [simp]:
  "pwt_phase st = ConvAnalyzing \<Longrightarrow> phase_fits st"
  "pwt_phase st = ConvFailed \<Longrightarrow> phase_fits st \<longleftrightarrow> pwt_errorMessage st \<noteq> []"
  "pwt_phase st = ConvPending \<Longrightarrow> phase_fits st \<longleftrightarrow> pwt_pipelineStatuses st = []"
  "pwt_phase st = ConvUnset \<Longrightarrow> phase_fits st \<longleftrightarrow> pwt_pipelineStatuses st = []"
  "pwt_phase st = ConvConverting \<Longrightarrow> phase_fits st \<longleftrightarrow> 3 \<notin> set (stages st)"
  by (simp_all add: phase_fits_def)

lemma conv_failed_moved:
  assumes "conv_counted (pc_status m)" and "message \<noteq> []" and "conv_edge ph ConvFailed"
  shows "moved ph (conv_failed message m)"
  by (rule moved_same_count [OF assms(1)]) (use assms in \<open>simp_all add: conv_failed_def\<close>)

lemma initialise_moved:
  assumes s: "at_phase ConvUnset s"
  shows "moved ConvUnset (stored (snd (pw_initialise k s)))"
  unfolding pw_initialise_def Let_def case_prod_unfold
proof (rule update_moved, goal_cases)
  case 1
  then show ?case using at_phase_stored [OF s] by simp
next
  case 2
  have "csts (obj s) = []" using at_phase_facts [OF s] by simp
  with at_phase_facts(1) [OF s] show ?case
    by (simp add: moved_def conv_ok_def conv_counted_empty zero_conv_progress_def conv_edge_def)
qed

lemma pw_validateConfiguration_text: "pw_validateConfiguration sp = Some message \<Longrightarrow> message \<noteq> []"
  by (auto simp: pw_validateConfiguration_def split: if_splits)

lemma pending_moved:
  assumes s: "at_phase ConvPending s"
  shows "moved ConvPending (stored (snd (pw_processPending k s)))"
proof -
  have "moved ConvPending (conv_to ConvAnalyzing x (obj s))" for x
    by (rule moved_same_count [OF at_phase_facts(1) [OF s]]) (simp_all add: conv_to_def conv_edge_def)
  then show ?thesis using at_phase_stored [OF s] pw_validateConfiguration_text conv_failed_moved [OF at_phase_facts(1) [OF s]]
    unfolding pw_processPending_def by (auto simp: conv_edge_def split: option.split intro!: update_moved)
qed

lemma initial_pipeline_status_simps [simp]:
  "pst_status (initial_pipeline_status p) = CsPending" "pst_pipelineID (initial_pipeline_status p) = plr_id p"
  by (simp_all add: initial_pipeline_status_def)

lemma count_list_constant: "count_list (map (\<lambda>x. c) xs) y = (if y = c then length xs else 0)"
  by (induction xs) auto

lemma sorted_constant: "sorted (map (\<lambda>x. c) xs)"
  by (induction xs) auto

text \<open>What discovery does to the state.\<close>

lemma discover_frame:
  assumes "discover k s = (r, t)"
  shows "pc_status (obj t) = pc_status (obj s)" "stored t = stored s" "calls t = calls s"
    "r = Some (Inl message) \<Longrightarrow> message \<noteq> []"
  using assms by (auto simp: discover_def split: option.splits sum.splits)

lemma empty_counted: "conv_counted st \<Longrightarrow> pwt_pipelineStatuses st = [] \<Longrightarrow>
    cp_completed (pwt_progress st) = 0 \<and> cp_failed (pwt_progress st) = 0 \<and> cp_processing (pwt_progress st) = 0 \<and> pwt_generatedWorkflows st = []"
  by (simp add: conv_counted_def stages_def)

lemma init_statuses_moved:
  assumes ok: "conv_ok m" "cphase m = ConvAnalyzing" and empty: "csts m = []"
  shows "moved ConvAnalyzing (init_statuses m)"
proof -
  let ?ps = "pws_pipelines (pc_spec m)"
  have st: "stages (pc_status (init_statuses m)) = map (\<lambda>p. 3) ?ps"
    using empty by (simp add: init_statuses_def stages_def)
  then have "stages_ok (stages (pc_status (init_statuses m)))"
    by (auto simp: stages_ok_def sorted_constant count_list_constant)
  moreover have "count_list (stages (pc_status (init_statuses m))) 0 = 0" "count_list (stages (pc_status (init_statuses m))) 1 = 0"
    unfolding st by (simp_all add: count_list_constant)
  moreover have "cp_completed (cprog m) = 0 \<and> cp_failed (cprog m) = 0 \<and> cp_processing (cprog m) = 0 \<and> pwt_generatedWorkflows (pc_status m) = []"
    by (rule empty_counted) (use ok(1) empty in \<open>simp_all add: conv_ok_def\<close>)
  ultimately have "conv_counted (pc_status (init_statuses m))" by (simp add: conv_counted_def) (simp add: init_statuses_def)
  then show ?thesis using ok(2) by (simp add: moved_def conv_ok_def phase_fits_def) (simp add: init_statuses_def)
qed

lemma initialise_pipelines_moved:
  assumes "at_phase ConvAnalyzing s" and "csts (obj s) = []"
  shows "moved ConvAnalyzing (stored (snd (initialise_pipelines k s)))"
proof -
  obtain r t where rt: "(if discovery_enabled (pc_spec (obj s)) then discover k s else (Some (Inr ()), s)) = (r, t)" by fastforce
  have fr: "pc_status (obj t) = pc_status (obj s)" "stored t = stored s" "\<And>message. r = Some (Inl message) \<Longrightarrow> message \<noteq> []"
    using rt discover_frame by (auto split: if_splits)
  have ok: "conv_ok (obj t)" "cphase (obj t) = ConvAnalyzing" "csts (obj t) = []" "moved ConvAnalyzing (stored t)"
    using assms fr by (simp_all add: at_phase_def conv_ok_def)
  have init: "moved ConvAnalyzing (init_statuses (obj t))" by (rule init_statuses_moved [OF ok(1-3)])
  have "moved ConvAnalyzing (conv_failed message (obj t))" if "message \<noteq> []" for message
    using ok(1) that by (intro conv_failed_moved) (simp_all add: conv_ok_def conv_edge_def)
  note failed = this
  consider "r = None" | message where "r = Some (Inl message)" | "r = Some (Inr ())" by (cases r) (auto, metis old.unit.exhaust sum.exhaust)
  then show ?thesis
  proof cases
    case 1
    then show ?thesis using ok(4) by (simp add: initialise_pipelines_def rt)
  next
    case (2 message)
    have "moved ConvAnalyzing (stored (snd (pw_update_then k no_requeue no_requeue
        (announce ''Auto-discovery failed'' EventWarning ''DiscoveryFailed'' message (modify (conv_failed message) t)))))"
      by (rule update_moved) (use ok(4) failed [OF fr(3) [OF 2]] in simp_all)
    with 2 show ?thesis by (simp add: initialise_pipelines_def rt)
  next
    case 3
    have "moved ConvAnalyzing (stored (snd (pw_update_then k a b
        (announce ''Initialized pipeline statuses'' EventNormal ''StatusesInitialized'' ''Pipeline statuses initialized'' (modify init_statuses t)))))" for a b
      by (rule update_moved) (use ok(4) init in simp_all)
    with 3 show ?thesis by (simp add: initialise_pipelines_def rt)
  qed
qed

subsection \<open>Analysing\<close>

lemma set_pipeline_status_simps [simp]:
  "pc_spec (set_pipeline_status i f m) = pc_spec m" "pc_meta (set_pipeline_status i f m) = pc_meta m"
  "pc_status (set_pipeline_status i f m) = (pc_status m)\<lparr>pwt_pipelineStatuses := (csts m)[i := f (csts m ! i)]\<rparr>"
  by (simp_all add: set_pipeline_status_def)

lemma analyse_one_frame:
  "pc_spec (obj (snd (analyse_one k s))) = pc_spec (obj s)" "stored (snd (analyse_one k s)) = stored s"
  "calls (snd (analyse_one k s)) = calls s" "cphase (obj (snd (analyse_one k s))) = cphase (obj s)"
  by (simp_all add: analyse_one_def Let_def case_prod_unfold split: option.split)

lemma analyse_one_counted:
  assumes ok: "conv_counted (pc_status (obj s))"
  shows "conv_counted (pc_status (obj (snd (analyse_one k s))))"
proof (cases "find_index (\<lambda>st. pst_status st = CsPending) (csts (obj s))")
  case (Some i)
  have "conv_counted (pc_status (set_pipeline_status i (\<lambda>st. st\<lparr>pst_status := CsAnalyzing, pst_progress := 25,
      pst_startTime := t, pst_details := d\<rparr>) (obj s)))" for t d
    by (rule counted_step [OF ok pending_stage(1) [OF ok Some], where v = 2 and x = "(csts (obj s) ! i)\<lparr>pst_status := CsAnalyzing,
        pst_progress := 25, pst_startTime := t, pst_details := d\<rparr>"]) (use pending_stage [OF ok Some] in simp_all)
  then show ?thesis by (simp add: analyse_one_def Some Let_def case_prod_unfold)
qed (use ok in \<open>simp add: analyse_one_def\<close>)

lemma not_pending: "3 \<notin> set (stages st) \<longleftrightarrow> (\<forall>x \<in> set (pwt_pipelineStatuses st). pst_status x \<noteq> CsPending)"
  by (force simp: stages_def)

lemma analyzing_moved:
  assumes s: "at_phase ConvAnalyzing s"
  shows "moved ConvAnalyzing (stored (snd (pw_processAnalyzing k s)))"
proof (cases "csts (obj s) = []")
  case True
  then show ?thesis using initialise_pipelines_moved [OF s] by (simp add: pw_processAnalyzing_def)
next
  case False
  define t where "t = snd (analyse_one k s)"
  have t: "conv_counted (pc_status (obj t))" "moved ConvAnalyzing (stored t)" "cphase (obj t) = ConvAnalyzing"
    using analyse_one_counted [OF at_phase_facts(1) [OF s]] at_phase_facts(2) [OF s] at_phase_stored [OF s]
    by (simp_all add: t_def analyse_one_frame)
  have next_phase: "moved ConvAnalyzing (conv_to ConvConverting x (obj t))"
    if "\<forall>st \<in> set (csts (obj t)). pst_status st \<noteq> CsPending" for x
    by (rule moved_same_count [OF t(1)]) (use that in \<open>simp_all add: conv_to_def conv_edge_def not_pending\<close>)
  have same: "moved ConvAnalyzing (obj t)"
    using t by (simp add: moved_def conv_ok_def)
  have done_all: "moved ConvAnalyzing (stored (snd (pw_update_then k a b (announce c e r msg (modify (conv_to ConvConverting x) t)))))"
    if "\<forall>st \<in> set (csts (obj t)). pst_status st \<noteq> CsPending" for a b c e r msg x
    by (rule update_moved) (use that next_phase t(2) in simp_all)
  have rest: "moved ConvAnalyzing (stored (snd (pw_update_then k a b t)))" for a b
    by (rule update_moved) (use same t(2) in simp_all)
  show ?thesis
    using False done_all rest t(2) unfolding pw_processAnalyzing_def Let_def case_prod_unfold t_def [symmetric] by auto
qed

subsection \<open>Converting\<close>

lemma setup_repository_frame:
  assumes "setup_repository k s = (r, t)"
  shows "stored t = stored s" "calls t = calls s" "pc_spec (obj t) = pc_spec (obj s)" "pc_meta (obj t) = pc_meta (obj s)"
    "obj t = (case r of Inr (Some repo) \<Rightarrow> conv_step ''WorkflowsRepositorySetup'' (obj s) | _ \<Rightarrow> obj s)"
    "r = Inl message \<Longrightarrow> message \<noteq> []"
proof -
  have q: "conv_quiet s (snd (SetupWorkflowsRepository k tok sp s))" for tok sp by simp
  have "conv_quiet s v" if "SetupWorkflowsRepository k tok sp s = (x, v)" for tok sp x v using q that by (metis snd_conv)
  then show "stored t = stored s" "calls t = calls s" "pc_spec (obj t) = pc_spec (obj s)" "pc_meta (obj t) = pc_meta (obj s)"
    "obj t = (case r of Inr (Some repo) \<Rightarrow> conv_step ''WorkflowsRepositorySetup'' (obj s) | _ \<Rightarrow> obj s)"
    "r = Inl message \<Longrightarrow> message \<noteq> []"
    using assms by (auto simp: setup_repository_def conv_quiet_def conv_step_def split: if_splits sum.splits prod.splits)
qed

definition workflow_of :: "pipeline_spec \<Rightarrow> pipeline_conversion_status \<Rightarrow> converted_workflow" where
  "workflow_of sp st = projr (ConvertPipeline (resource_of sp st) sp)"

lemma workflow_of: "ConvertPipeline (resource_of sp st) sp = Inr (workflow_of sp st)"
  unfolding workflow_of_def using ConvertPipeline_total [of "resource_of sp st" sp] by force

text \<open>The status after the pipeline \<open>i\<close> was converted.\<close>

definition converted_at :: "pipeline_spec \<Rightarrow> nat \<Rightarrow> instant \<Rightarrow> string \<Rightarrow> pipeline_status \<Rightarrow> pipeline_status" where
  "converted_at sp i now url st = (let x = pwt_pipelineStatuses st ! i; w = workflow_of sp x in st\<lparr>
     pwt_pipelineStatuses := (pwt_pipelineStatuses st)[i := x\<lparr>pst_status := CsCompleted, pst_progress := 100,
       pst_completionTime := Some now, pst_workflowFilePath := cw_filePath w, pst_workflowURL := url\<rparr>],
     pwt_generatedWorkflows := pwt_generatedWorkflows st @ [generated_of w],
     pwt_progress := (pwt_progress st)\<lparr>cp_processing := cp_processing (pwt_progress st) - 1,
       cp_completed := cp_completed (pwt_progress st) + 1\<rparr>\<rparr>)"

lemma push_workflow_quiet: "push_workflow k repo w s = (r, t) \<Longrightarrow> conv_quiet s t"
proof -
  assume eq: "push_workflow k repo w s = (r, t)"
  show "conv_quiet s t"
  proof (cases repo)
    case (Some info)
    then have "snd (push_workflow k repo w s) = snd (PushWorkflow k ''placeholder-token'' info w s)" by (simp add: push_workflow_def)
    then show ?thesis using eq by simp
  qed (use eq in \<open>simp add: push_workflow_def\<close>)
qed

lemma convert_current_frame:
  assumes eq: "convert_current k repo i s = (r, t)" and i: "i < length (csts (obj s))"
  shows "stored t = stored s" "pc_spec (obj t) = pc_spec (obj s)" "pc_meta (obj t) = pc_meta (obj s)" "calls t = calls s"
    "r \<noteq> None \<Longrightarrow> \<exists>now url. pc_status (obj t) = converted_at (pc_spec (obj s)) i now url (pc_status (obj s))"
proof -
  let ?w = "workflow_of (pc_spec (obj s)) (csts (obj s) ! i)"
  define s1 where "s1 = modify (set_pipeline_status i (\<lambda>st. st\<lparr>pst_progress := 90\<rparr>)) s"
  obtain r2 s2 where push: "push_workflow k repo ?w s1 = (r2, s2)" by fastforce
  have q: "obj s2 = obj s1" "stored s2 = stored s" "calls s2 = calls s" using push_workflow_quiet [OF push] by (simp_all add: conv_quiet_def s1_def)
  have eq': "(r, t) = (case r2 of None \<Rightarrow> (None, s2) | Some _ \<Rightarrow> (Some (), finish_converting k repo i ?w s2))"
    using eq by (simp add: convert_current_def workflow_of s1_def [symmetric] push split: option.splits)
  then show "stored t = stored s" "pc_spec (obj t) = pc_spec (obj s)" "pc_meta (obj t) = pc_meta (obj s)" "calls t = calls s"
    using q by (auto simp: finish_converting_def Let_def case_prod_unfold s1_def split: option.splits)
  show "\<exists>now url. pc_status (obj t) = converted_at (pc_spec (obj s)) i now url (pc_status (obj s))" if "r \<noteq> None"
  proof -
    have "t = finish_converting k repo i ?w s2" using eq' that by (auto split: option.splits)
    then show ?thesis
      using i q(1) by (auto simp: finish_converting_def converted_at_def Let_def case_prod_unfold s1_def)
  qed
qed

lemma converted_at_counted:
  assumes "conv_counted st" and i: "i < length (pwt_pipelineStatuses st)" "stages st ! i = 1" "\<And>j. j < i \<Longrightarrow> stages st ! j = 0"
  shows "conv_counted (converted_at sp i now url st)"
  by (rule counted_step [OF assms(1) i(1), where v = 0 and x = "(pwt_pipelineStatuses st ! i)\<lparr>pst_status := CsCompleted,
      pst_progress := 100, pst_completionTime := Some now,
      pst_workflowFilePath := cw_filePath (workflow_of sp (pwt_pipelineStatuses st ! i)), pst_workflowURL := url\<rparr>"])
    (use i in \<open>simp_all add: converted_at_def Let_def\<close>)

text \<open>What one round of the loop of \<open>processConverting\<close> does to the status.\<close>

definition conv_started_at :: "nat \<Rightarrow> pipeline_status \<Rightarrow> pipeline_status" where
  "conv_started_at i st = st\<lparr>pwt_pipelineStatuses := (pwt_pipelineStatuses st)[i := (pwt_pipelineStatuses st ! i)
       \<lparr>pst_status := CsConverting, pst_progress := 50\<rparr>],
     pwt_progress := (pwt_progress st)\<lparr>cp_processing := cp_processing (pwt_progress st) + 1\<rparr>\<rparr>"

lemma conv_started_at_counted:
  assumes "conv_counted st" and i: "i < length (pwt_pipelineStatuses st)" "stages st ! i = 2" "\<And>j. j < i \<Longrightarrow> stages st ! j = 0"
    and "count_list (stages st) 1 = 0"
  shows "conv_counted (conv_started_at i st)"
  by (rule counted_step [OF assms(1) i(1), where v = 1 and x = "(pwt_pipelineStatuses st ! i)\<lparr>pst_status := CsConverting, pst_progress := 50\<rparr>"])
    (use assms in \<open>simp_all add: conv_started_at_def\<close>)

lemma convert_next_frame:
  assumes eq: "convert_next k repo s = (r, t)" and ok: "conv_counted (pc_status (obj s))"
  shows "stored t = stored s" "pc_spec (obj t) = pc_spec (obj s)" "pc_meta (obj t) = pc_meta (obj s)" "calls t = calls s"
    "r \<noteq> None \<Longrightarrow> (case find_index (\<lambda>st. pst_status st \<in> {CsAnalyzing, CsConverting}) (csts (obj s)) of
       None \<Rightarrow> r = Some False \<and> t = s
     | Some i \<Rightarrow> r = Some True \<and> (if pst_status (csts (obj s) ! i) = CsAnalyzing then pc_status (obj t) = conv_started_at i (pc_status (obj s))
         else \<exists>now url. pc_status (obj t) = converted_at (pc_spec (obj s)) i now url (pc_status (obj s))))"
proof -
  have "stored t = stored s \<and> pc_spec (obj t) = pc_spec (obj s) \<and> pc_meta (obj t) = pc_meta (obj s) \<and> calls t = calls s
    \<and> (r \<noteq> None \<longrightarrow> (case find_index (\<lambda>st. pst_status st \<in> {CsAnalyzing, CsConverting}) (csts (obj s)) of
       None \<Rightarrow> r = Some False \<and> t = s
     | Some i \<Rightarrow> r = Some True \<and> (if pst_status (csts (obj s) ! i) = CsAnalyzing then pc_status (obj t) = conv_started_at i (pc_status (obj s))
         else \<exists>now url. pc_status (obj t) = converted_at (pc_spec (obj s)) i now url (pc_status (obj s)))))"
  proof (cases "find_index (\<lambda>st. pst_status st \<in> {CsAnalyzing, CsConverting}) (csts (obj s))")
    case None
    then show ?thesis using eq by (simp add: convert_next_def)
  next
    case (Some i)
    note i = open_stage(1) [OF ok Some]
    show ?thesis
    proof (cases "pst_status (csts (obj s) ! i) = CsAnalyzing")
      case True
      then show ?thesis using eq Some by (auto simp: convert_next_def Let_def start_converting_def conv_started_at_def)
    next
      case False
      obtain r' where cc: "convert_current k repo i s = (r', t)" and r: "r = map_option (\<lambda>_. True) r'"
        using eq Some False by (cases "convert_current k repo i s") (auto simp: convert_next_def Let_def)
      show ?thesis using convert_current_frame [OF cc i] r Some False by (cases r') simp_all
    qed
  qed
  then show "stored t = stored s" "pc_spec (obj t) = pc_spec (obj s)" "pc_meta (obj t) = pc_meta (obj s)" "calls t = calls s"
    "r \<noteq> None \<Longrightarrow> (case find_index (\<lambda>st. pst_status st \<in> {CsAnalyzing, CsConverting}) (csts (obj s)) of
       None \<Rightarrow> r = Some False \<and> t = s
     | Some i \<Rightarrow> r = Some True \<and> (if pst_status (csts (obj s) ! i) = CsAnalyzing then pc_status (obj t) = conv_started_at i (pc_status (obj s))
         else \<exists>now url. pc_status (obj t) = converted_at (pc_spec (obj s)) i now url (pc_status (obj s))))" by simp_all
qed

lemma stages_started: "stages (conv_started_at i st) = (stages st)[i := 1]"
  by (simp add: stages_def conv_started_at_def map_update)

lemma stages_converted: "stages (converted_at sp i now url st) = (stages st)[i := 0]"
  by (simp add: stages_def converted_at_def Let_def map_update)

lemma convert_next_counted:
  assumes eq: "convert_next k repo s = (Some b, t)" and ok: "conv_counted (pc_status (obj s))" and three: "3 \<notin> set (stages (pc_status (obj s)))"
  shows "conv_counted (pc_status (obj t)) \<and> 3 \<notin> set (stages (pc_status (obj t))) \<and> cphase (obj t) = cphase (obj s)"
proof (cases "find_index (\<lambda>st. pst_status st \<in> {CsAnalyzing, CsConverting}) (csts (obj s))")
  case None
  then show ?thesis using convert_next_frame(5) [OF eq ok] ok three by simp
next
  case (Some i)
  note stage = open_stage [OF ok Some]
  let ?st = "pc_status (obj s)"
  have ne: "3 \<notin> set ((stages ?st)[i := v])" if "v \<noteq> 3" for v
    using three set_update_subset_insert [of "stages ?st" i v] that by auto
  show ?thesis
  proof (cases "pst_status (csts (obj s) ! i) = CsAnalyzing")
    case True
    then have "pc_status (obj t) = conv_started_at i ?st" using convert_next_frame(5) [OF eq ok] Some by simp
    moreover have "stages ?st ! i = 2" using True stage(1) by (simp add: stages_def)
    ultimately show ?thesis
      using conv_started_at_counted [OF ok stage(1) _ stage(3)] stage(4) ne [of 1] by (simp add: stages_started) (simp add: conv_started_at_def)
  next
    case False
    then obtain now url where st: "pc_status (obj t) = converted_at (pc_spec (obj s)) i now url ?st"
      using convert_next_frame(5) [OF eq ok] Some by auto
    have "stages ?st ! i \<noteq> 2" using False stage(1) by (simp add: stages_def)
    then have "stages ?st ! i = 1" using stage(2) by simp
    then show ?thesis
      using converted_at_counted [OF ok stage(1) _ stage(3)] ne [of 0] by (simp add: st stages_converted) (simp add: converted_at_def Let_def)
  qed
qed

lemma conv_percentage_simps [simp]:
  "cp_completed (conv_percentage p) = cp_completed p" "cp_failed (conv_percentage p) = cp_failed p"
  "cp_processing (conv_percentage p) = cp_processing p" "cp_total (conv_percentage p) = cp_total p"
  "cp_currentStep (conv_percentage p) = cp_currentStep p"
  by (simp_all add: conv_percentage_def)

lemma converting_moved:
  assumes s: "at_phase ConvConverting s"
  shows "moved ConvConverting (stored (snd (pw_processConverting k s)))"
proof -
  obtain r t where prep: "setup_repository k s = (r, t)" by fastforce
  note fr = setup_repository_frame [OF prep]
  have st: "stored t = stored s" by (rule fr(1))
  have t: "conv_counted (pc_status (obj t))" "3 \<notin> set (stages (pc_status (obj t)))" "cphase (obj t) = ConvConverting"
    using at_phase_facts [OF s] fr(5)
    by (auto simp: conv_step_def stages_def conv_counted_def split: sum.splits option.splits)
  have stored: "moved ConvConverting (stored t)" using at_phase_stored [OF s] st by simp
  show ?thesis
  proof (cases r)
    case (Inl message)
    have "moved ConvConverting (stored (snd (pw_update_then k no_requeue no_requeue (modify (conv_failed message) t))))"
      by (rule update_moved) (use stored conv_failed_moved [OF t(1) fr(6) [OF Inl]] in \<open>simp_all add: conv_edge_def\<close>)
    then show ?thesis by (simp add: pw_processConverting_def prep Inl)
  next
    case (Inr repo)
    obtain b u where conv: "convert_next k repo t = (b, u)" by fastforce
    note cf = convert_next_frame [OF conv t(1)]
    have su: "moved ConvConverting (stored u)" using stored cf(1) by simp
    show ?thesis
    proof (cases b)
      case None
      then show ?thesis using su by (simp add: pw_processConverting_def prep Inr conv)
    next
      case (Some updated)
      have u: "conv_counted (pc_status (obj u))" "3 \<notin> set (stages (pc_status (obj u)))" "cphase (obj u) = ConvConverting"
        using convert_next_counted [OF conv [unfolded Some] t(1,2)] t(3) by simp_all
      define v where "v = modify (on_conv_progress conv_percentage) u"
      have v: "moved ConvConverting (obj v)" "moved ConvConverting (stored v)"
        using su by (auto simp: v_def u stages_def intro!: moved_same_count [OF u(1)])
          (use u(2) in \<open>simp add: stages_def\<close>)
      have fin: "moved ConvConverting (conv_to ConvValidating x (obj v))" if "all_converted (obj v)" for x
        by (rule moved_same_count [OF u(1)])
          (use that u in \<open>simp_all add: v_def conv_to_def conv_edge_def phase_fits_def all_converted_def stages_def conv_counted_def\<close>)
      have "moved ConvConverting (stored (snd (pw_update_then k x y v)))" for x y
        by (rule update_moved) (use v in simp_all)
      moreover have "moved ConvConverting (stored (snd (pw_update_then k x y (announce c e rs msg (modify (conv_to ConvValidating z) v)))))"
        if "all_converted (obj v)" for x y z c e rs msg
        by (rule update_moved) (use v fin [OF that] in simp_all)
      ultimately show ?thesis using v(2)
        by (auto simp: pw_processConverting_def prep Inr conv Some Let_def v_def [symmetric])
    qed
  qed
qed

subsection \<open>Validating, restarting, reconciling\<close>

lemma ValidateConversion_frame: "conv_quiet (s\<lparr>ticks := n\<rparr>) ((snd (ValidateConversion k s))\<lparr>ticks := n\<rparr>)"
  by (simp add: ValidateConversion_def conv_quiet_def case_prod_unfold Let_def split: option.split)

lemma ValidateConversion_obj [simp]:
  "obj (snd (ValidateConversion k s)) = obj s" "stored (snd (ValidateConversion k s)) = stored s"
  "effects (snd (ValidateConversion k s)) = effects s"
  by (simp_all add: ValidateConversion_def case_prod_unfold Let_def split: option.split)

lemma conv_duration_obj:
  "pc_status (obj (conv_duration k s)) = (pc_status (obj s))\<lparr>pwt_statistics := pwt_statistics (pc_status (obj (conv_duration k s)))\<rparr>"
  "stored (conv_duration k s) = stored s" "pc_spec (obj (conv_duration k s)) = pc_spec (obj s)"
  "effects (conv_duration k s) = effects s" "calls (conv_duration k s) = calls s"
  by (simp_all add: conv_duration_def case_prod_unfold split: option.split)

text \<open>The status at the end of a validation with results.\<close>

definition concluded :: "conversion_validation_results \<Rightarrow> instant \<Rightarrow> conversion_statistics option \<Rightarrow> pipeline_status \<Rightarrow> pipeline_status" where
  "concluded r now stats st = (if cvs_valid r
     then st\<lparr>pwt_phase := ConvCompleted, pwt_validationResults := Some r, pwt_completionTime := Some now, pwt_statistics := stats,
       pwt_progress := (pwt_progress st)\<lparr>cp_percentage := 100, cp_currentStep := ''Conversion completed successfully''\<rparr>\<rparr>
     else st\<lparr>pwt_phase := ConvFailed, pwt_validationResults := Some r, pwt_completionTime := Some now, pwt_statistics := stats,
       pwt_errorMessage := ''Workflow validation failed''\<rparr>)"

lemma processValidating_cases:
  shows "(\<exists>a b err v. ValidateConversion k s = (Inl err, v) \<and> pw_processValidating k s = pw_update_then k a b
       (announce ''Validation failed'' EventWarning ''ValidationFailed'' (''Validation failed: '' @ err_text err)
          (modify (conv_failed (''Validation failed: '' @ err_text err)) v)))
   \<or> (\<exists>r r' v now stats t. ValidateConversion k s = (Inr r, v) \<and> cvs_valid r' = cvs_valid r \<and> pw_processValidating k s = pw_update_then k no_requeue no_requeue t
        \<and> stored t = stored s \<and> calls t = calls v \<and> pc_spec (obj t) = pc_spec (obj s) \<and> pc_status (obj t) = concluded r' now stats (pc_status (obj s))
        \<and> (\<exists>ex. effects t = effects s @ ex \<and> (\<forall>c. ApiWrite c \<notin> set ex)))"
proof (cases "ValidateConversion k s")
  case (Pair r v)
  have v: "obj v = obj s" "stored v = stored s" "effects v = effects s"
    using ValidateConversion_obj [of k s] by (simp_all add: Pair)
  show ?thesis
  proof (cases r)
    case (Inl err)
    then show ?thesis by (simp add: pw_processValidating_def Pair) blast
  next
    case (Inr res)
    define now1 where "now1 = fst (read_clock k v)"
    define v1 where "v1 = snd (read_clock k v)"
    define v2 where "v2 = conclude_conversion (cvs_valid res)
      (modify (on_conv (\<lambda>st. st\<lparr>pwt_validationResults := Some (stored_results now1 res)\<rparr>)) v1)"
    define now2 where "now2 = fst (read_clock k v2)"
    define v3 where "v3 = modify (\<lambda>m. on_conv (\<lambda>st. st\<lparr>pwt_statistics := Some (conversion_statistics_of m)\<rparr>) m)
      (modify (on_conv (\<lambda>st. st\<lparr>pwt_completionTime := Some now2\<rparr>)) (snd (read_clock k v2)))"
    define t where "t = conv_duration k v3"
    have step: "pw_processValidating k s = pw_update_then k no_requeue no_requeue t"
      by (simp add: pw_processValidating_def Pair Inr Let_def case_prod_unfold t_def v3_def now2_def v2_def v1_def now1_def)
    have v2: "stored v2 = stored s" "calls v2 = calls v" "pc_spec (obj v2) = pc_spec (obj s)" "\<exists>ex. effects v2 = effects s @ ex \<and> (\<forall>c. ApiWrite c \<notin> set ex)"
      using v by (auto simp: v2_def v1_def conclude_conversion_def conv_to_def conv_failed_def)
    have "stored t = stored s" "calls t = calls v" "pc_spec (obj t) = pc_spec (obj s)" "\<exists>ex. effects t = effects s @ ex \<and> (\<forall>c. ApiWrite c \<notin> set ex)"
      using v2 by (simp_all add: t_def v3_def conv_duration_obj)
    moreover have "pc_status (obj t) = concluded (stored_results now1 res) now2 (pwt_statistics (pc_status (obj t))) (pc_status (obj s))"
      unfolding t_def
      by (rule trans [OF conv_duration_obj(1)])
        (simp add: v3_def v2_def v1_def v conclude_conversion_def concluded_def conv_to_def conv_failed_def stored_results_def)
    moreover have "cvs_valid (stored_results now1 res) = cvs_valid res" by (simp add: stored_results_def)
    ultimately show ?thesis using Pair Inr step by blast
  qed
qed

lemma concluded_moved:
  assumes ok: "conv_counted (pc_status m)" "cphase m = ConvValidating" "phase_fits (pc_status m)"
    and x: "pc_status x = concluded r now stats (pc_status m)"
  shows "moved ConvValidating x"
  by (rule moved_same_count [OF ok(1)])
    (use ok(2,3) in \<open>auto simp: x concluded_def conv_edge_def phase_fits_def stages_def\<close>)

lemma validating_moved:
  assumes s: "at_phase ConvValidating s"
  shows "moved ConvValidating (stored (snd (pw_processValidating k s)))"
  using processValidating_cases [of k s]
proof (elim disjE exE conjE)
  fix a b err v
  assume v: "ValidateConversion k s = (Inl err, v)" and eq: "pw_processValidating k s = pw_update_then k a b
       (announce ''Validation failed'' EventWarning ''ValidationFailed'' (''Validation failed: '' @ err_text err)
          (modify (conv_failed (''Validation failed: '' @ err_text err)) v))"
  have "obj v = obj s" "stored v = stored s" using ValidateConversion_obj [of k s] by (simp_all add: v)
  then show ?thesis unfolding eq
    by (intro update_moved) (use at_phase_stored [OF s] conv_failed_moved [OF at_phase_facts(1) [OF s]] in \<open>simp_all add: conv_edge_def\<close>)
next
  fix r r' v now stats t
  assume "pw_processValidating k s = pw_update_then k no_requeue no_requeue t" and "stored t = stored s"
    and "pc_status (obj t) = concluded r' now stats (pc_status (obj s))"
  then show ?thesis
    using at_phase_stored [OF s] concluded_moved [OF at_phase_facts [OF s], of "obj t"] by (auto intro!: update_moved)
qed

lemma restart_moved:
  assumes s: "at_phase ph s" and ph: "ph \<in> {ConvCompleted, ConvFailed}"
  shows "moved ph (stored (snd (restartConversionForSpecChange k s)))"
proof -
  note facts = at_phase_facts [OF s]
  have "moved ph (pw_observed (on_conv full_restart (obj s)))"
    using ph by (auto simp: moved_def conv_ok_def conv_counted_empty full_restart_def pw_observed_def zero_conv_progress_def conv_edge_def)
  moreover have "moved ph (pw_observed (obj s))"
    by (rule moved_same_count [OF facts(1)]) (use facts ph in \<open>auto simp: pw_observed_def phase_fits_def stages_def\<close>)
  moreover have "moved ph (pw_observed (resume (obj s)))"
    by (rule moved_same_count [OF facts(1)]) (use ph in \<open>auto simp: pw_observed_def resume_def conv_edge_def\<close>)
  ultimately show ?thesis using at_phase_stored [OF s]
    unfolding restartConversionForSpecChange_def Let_def by (auto intro!: update_moved)
qed

lemma observe_at_phase:
  assumes "at_phase ph s"
  shows "at_phase ph (pw_observe k s)"
proof -
  have "conv_ok (on_conv (\<lambda>st. st\<lparr>pwt_lastReconcileTime := t\<rparr>) (pw_observed m)) = conv_ok m" for t m
    by (simp add: conv_ok_def pw_observed_def conv_counted_def stages_def phase_fits_def split: conv_phase.split)
  then show ?thesis using assms
    by (auto simp: at_phase_def pw_observe_def case_prod_unfold pw_observed_def)
qed

lemma processPhase_moved:
  assumes s: "at_phase ph s"
  shows "moved ph (stored (snd (pw_processPhase k s)))"
  using at_phase_facts(2) [OF s] initialise_moved [of s k] pending_moved [of s k] analyzing_moved [of s k]
    converting_moved [of s k] validating_moved [of s k] at_phase_stored [OF s] s
  by (cases ph) (simp_all add: pw_processPhase_def)

lemma reconcile_moved:
  assumes k: "pw_env_ok k" and s: "at_phase ph s"
  shows "moved ph (stored (snd (reconcile_conversion k s)))"
proof (cases "conv_spec_changed (obj s)")
  case True
  then have "ph \<in> {ConvCompleted, ConvFailed}"
    using at_phase_facts [OF s] by (auto simp: conv_spec_changed_def conv_terminal_def phase_fits_def)
  then show ?thesis using restart_moved [OF s] True by (simp add: reconcile_conversion_def)
next
  case False
  define t where "t = pw_observe k s"
  have t: "at_phase ph t" using observe_at_phase [OF s] by (simp add: t_def)
  have "moved ph (stored (snd (pw_update_finalizers k f t)))" for f
    using at_phase_stored [OF t] moved_status [OF update_finalizers_stored(1) [OF k]] by blast
  then show ?thesis
    using False processPhase_moved [OF t] at_phase_stored [OF t] by (simp add: reconcile_conversion_def Let_def t_def)
qed

section \<open>The life of a conversion\<close>

text \<open>A reconciliation that does not write the metadata changes only the status.\<close>

definition status_only :: "pw_state \<Rightarrow> pw_state \<Rightarrow> bool" where
  "status_only s t \<longleftrightarrow> (\<exists>st. stored t = (stored s)\<lparr>pc_status := st\<rparr>)"

lemma status_only_same: "stored t = stored s \<Longrightarrow> status_only s t"
  unfolding status_only_def by (rule exI [of _ "pc_status (stored s)"]) simp

lemma status_only_update: "stored t = stored s \<Longrightarrow> status_only s (snd (pw_update_then k a b t))"
  by (cases "k_status k (calls t) (obj t) = None") (auto simp: update_then_stored status_only_same, simp add: status_only_def update_then_stored, blast)

lemma processAnalyzing_only: "status_only s (snd (pw_processAnalyzing k s))"
proof (cases "csts (obj s) = []")
  case True
  obtain r t where rt: "(if discovery_enabled (pc_spec (obj s)) then discover k s else (Some (Inr ()), s)) = (r, t)" by fastforce
  have st: "stored t = stored s" using rt discover_frame(2) by (auto split: if_splits)
  then show ?thesis using True
    by (auto simp: pw_processAnalyzing_def initialise_pipelines_def rt split: option.split sum.split simp: status_only_update status_only_same)
next
  case False
  then show ?thesis
    by (auto simp: pw_processAnalyzing_def Let_def case_prod_unfold analyse_one_frame simp: status_only_update status_only_same)
qed

lemma processConverting_only:
  assumes "conv_counted (pc_status (obj s))"
  shows "status_only s (snd (pw_processConverting k s))"
proof -
  obtain r t where prep: "setup_repository k s = (r, t)" by fastforce
  note fr = setup_repository_frame [OF prep]
  have t: "conv_counted (pc_status (obj t))" using assms fr(5)
    by (auto simp: conv_step_def conv_counted_def stages_def split: sum.splits option.splits)
  show ?thesis
  proof (cases r)
    case (Inl message)
    then show ?thesis using fr(1) by (simp add: pw_processConverting_def prep status_only_update)
  next
    case (Inr repo)
    obtain b u where conv: "convert_next k repo t = (b, u)" by fastforce
    show ?thesis using fr(1) convert_next_frame(1) [OF conv t]
      by (auto simp: pw_processConverting_def prep Inr conv Let_def split: option.split simp: status_only_update status_only_same)
  qed
qed

lemma processValidating_only: "status_only s (snd (pw_processValidating k s))"
  using processValidating_cases [of k s] ValidateConversion_obj(2) [of k s]
  by (elim disjE exE conjE) (auto simp: status_only_update)

lemma processPhase_only: "conv_counted (pc_status (obj s)) \<Longrightarrow> status_only s (snd (pw_processPhase k s))"
  using processAnalyzing_only processConverting_only processValidating_only
  by (auto simp: pw_processPhase_def pw_initialise_def pw_processPending_def Let_def case_prod_unfold split: conv_phase.split option.split
      simp: status_only_update status_only_same)

lemma restart_only: "status_only s (snd (restartConversionForSpecChange k s))"
  by (auto simp: restartConversionForSpecChange_def Let_def status_only_update)

lemma observe_stored [simp]: "stored (pw_observe k s) = stored s" "pc_spec (obj (pw_observe k s)) = pc_spec (obj s)"
  by (auto simp: pw_observe_def case_prod_unfold pw_observed_def)

lemma reconcile_spec:
  assumes k: "pw_env_ok k" and m: "conv_ok m"
  shows "pc_spec (stored (snd (reconcile_conversion k (fetched m)))) = pc_spec m"
proof -
  define t where "t = pw_observe k (fetched m)"
  have "conv_counted (pc_status (obj t))"
    using observe_at_phase [of "cphase m" "fetched m" k] m at_phase_facts(1) by (auto simp: t_def at_phase_def moved_def conv_ok_def)
  then have "status_only t (snd (pw_processPhase k t))" by (rule processPhase_only)
  moreover have "pc_spec (stored (snd (pw_update_finalizers k f t))) = pc_spec m" for f
    using k by (auto simp: pw_update_finalizers_def object_update_def pw_env_ok_def t_def split: sum.split)
  ultimately show ?thesis using restart_only [of "fetched m" k]
    by (auto simp: reconcile_conversion_def Let_def t_def [symmetric] status_only_def) (simp_all add: t_def)
qed

record pw_world =
  pww_object :: pipeline_conversion
  pww_effects :: "effect list"

datatype pw_event = ConvReconciled pw_env | ConvEdited object_meta pipeline_spec

definition conversion_step :: "pw_env \<Rightarrow> pw_world \<Rightarrow> pw_world" where
  "conversion_step k w = (let s = snd (reconcile_conversion k (fetched (pww_object w))) in
     w\<lparr>pww_object := stored s, pww_effects := pww_effects w @ effects s\<rparr>)"

fun pw_event_step :: "pw_event \<Rightarrow> pw_world \<Rightarrow> pw_world" where
  "pw_event_step (ConvReconciled k) w = conversion_step k w"
| "pw_event_step (ConvEdited meta spec) w = w\<lparr>pww_object := (pww_object w)\<lparr>pc_meta := meta, pc_spec := spec\<rparr>\<rparr>"

fun pw_honest :: "pw_event \<Rightarrow> bool" where
  "pw_honest (ConvReconciled k) = pw_env_ok k"
| "pw_honest (ConvEdited meta spec) = True"

lemma conversion_step_object: "pww_object (conversion_step k w) = stored (snd (reconcile_conversion k (fetched (pww_object w))))"
  by (simp add: conversion_step_def Let_def)

lemma event_moved:
  assumes "pw_honest e" and "conv_ok (pww_object w)"
  shows "moved (cphase (pww_object w)) (pww_object (pw_event_step e w))"
proof (cases e)
  case (ConvReconciled k)
  have "at_phase (cphase (pww_object w)) (fetched (pww_object w))"
    using assms(2) by (simp add: at_phase_def moved_def)
  with reconcile_moved show ?thesis using assms(1) ConvReconciled by (simp add: conversion_step_object)
qed (use assms in \<open>simp add: moved_def conv_ok_def\<close>)

interpretation pcm: phase_machine "\<lambda>w. cphase (pww_object w)" pw_event_step pw_honest "\<lambda>w. conv_ok (pww_object w)" conv_edge
  using event_moved by unfold_locales (auto simp: moved_def)

end
