(* ===== verification/PipelineSchedule.thy ===== *)
theory PipelineSchedule
  imports PipelineLives
begin

text \<open>
  An abstract specification of a PipelineToWorkflow that is left alone: a clock. At every tick the
  phase, the status of every pipeline and the workflows generated so far are fixed by the
  specification alone (\<open>schedule\<close>), and it ends \<open>3 n + 5\<close> ticks after its creation, for \<open>n\<close>
  pipelines. The lemmas show that every reconciliation which the API server accepts implements one
  tick (\<open>internal/controller/pipelinetoworkflow_controller.go\<close>).
\<close>

section \<open>The schedule\<close>

text \<open>A pipeline is converted as the first one of the specification with its identifier.\<close>

definition first_with_id :: "pipeline_spec \<Rightarrow> string \<Rightarrow> pipeline_resource" where
  "first_with_id sp i = the (find (\<lambda>p. plr_id p = i) (pws_pipelines sp))"

definition expected_workflow :: "pipeline_spec \<Rightarrow> pipeline_resource \<Rightarrow> generated_workflow" where
  "expected_workflow sp p = generated_of (projr (ConvertPipeline (first_with_id sp (plr_id p)) sp))"

definition expected_workflows :: "pipeline_spec \<Rightarrow> generated_workflow list" where
  "expected_workflows sp = map (expected_workflow sp) (pws_pipelines sp)"

definition spec_valid :: "pipeline_spec \<Rightarrow> bool" where
  "spec_valid sp \<longleftrightarrow> validateConversionSettings (pws_settings sp) = None \<and> list_all (\<lambda>p. validatePipeline p = None) (pws_pipelines sp)"

definition final_tick :: "pipeline_spec \<Rightarrow> nat" where
  "final_tick sp = 3 * length (pws_pipelines sp) + 5"

definition schedule :: "pipeline_spec \<Rightarrow> nat \<Rightarrow> conv_phase \<times> conv_status list \<times> generated_workflow list" where
  "schedule sp j = (let n = length (pws_pipelines sp); c = (j - (n + 4)) div 2 in
     if j \<le> 1 then (ConvUnset, [], [])
     else if j = 2 then (ConvPending, [], [])
     else if j = 3 then (ConvAnalyzing, [], [])
     else if j < n + 4 then (ConvAnalyzing, replicate (j - 4) CsAnalyzing @ replicate (n - (j - 4)) CsPending, [])
     else if j < 3 * n + 4
     then (ConvConverting,
        replicate c CsCompleted @ (if even (j - (n + 4)) then replicate (n - c) CsAnalyzing
          else CsConverting # replicate (n - c - 1) CsAnalyzing),
        take c (expected_workflows sp))
     else if j = 3 * n + 4 then (ConvValidating, replicate n CsCompleted, expected_workflows sp)
     else (if spec_valid sp then ConvCompleted else ConvFailed, replicate n CsCompleted, expected_workflows sp))"

definition conv_view :: "pipeline_conversion \<Rightarrow> conv_phase \<times> conv_status list \<times> generated_workflow list" where
  "conv_view m = (cphase m, map pst_status (csts m), pwt_generatedWorkflows (pc_status m))"

section \<open>A conversion on schedule\<close>

text \<open>
  The API server accepts every write and stores what it is sent, the rate limiter lets the
  validation pass, a token for the workflows repository can be had if one is asked for, and no
  workflow has the path of a directory.
\<close>

definition obliging :: "pipeline_spec \<Rightarrow> pw_env \<Rightarrow> bool" where
  "obliging sp k \<longleftrightarrow> (\<forall>n x. k_status k n x = None)
     \<and> (\<forall>n old new. \<exists>x. k_update k n old new = Inr x \<and> pc_status x = pc_status old \<and> pc_spec x = pc_spec new
          \<and> om_finalizers (pc_meta x) = om_finalizers (pc_meta new) \<and> om_deletionTimestamp (pc_meta x) = om_deletionTimestamp (pc_meta new))
     \<and> (\<forall>s. pe_wait k s = None) \<and> (\<forall>s file. pe_sha k s file \<noteq> Inr None)
     \<and> ((\<exists>c. wft_workflowsRepository (pws_target sp) = Some c \<and> wrc_create c)
          \<longrightarrow> (\<forall>s. pc_spec (obj s) = sp \<longrightarrow> (\<exists>tok. pw_getGitHubToken k s = Inr tok)))"

definition undisturbed :: "pipeline_spec \<Rightarrow> bool" where
  "undisturbed sp \<longleftrightarrow> \<not> discovery_enabled sp \<and> pw_validateConfiguration sp = None"

definition on_schedule :: "pipeline_spec \<Rightarrow> nat \<Rightarrow> pipeline_conversion \<Rightarrow> bool" where
  "on_schedule sp j m \<longleftrightarrow> conv_ok m \<and> pc_spec m = sp \<and> conv_view m = schedule sp j
     \<and> om_deletionTimestamp (pc_meta m) = None \<and> (pw_finalizerName \<in> set (om_finalizers (pc_meta m)) \<longleftrightarrow> 1 \<le> j)
     \<and> (2 \<le> j \<longrightarrow> pwt_observedGeneration (pc_status m) = om_generation (pc_meta m))
     \<and> (4 \<le> j \<longrightarrow> map pst_pipelineID (csts m) = map plr_id (pws_pipelines sp)
          \<and> cp_total (cprog m) = int (length (pws_pipelines sp)))"

definition brand_new :: "pipeline_conversion \<Rightarrow> bool" where
  "brand_new m \<longleftrightarrow> pc_status m = zero_conv_status \<and> om_deletionTimestamp (pc_meta m) = None
     \<and> pw_finalizerName \<notin> set (om_finalizers (pc_meta m))"

lemma brand_new_on_schedule: "brand_new m \<Longrightarrow> on_schedule (pc_spec m) 0 m"
  by (simp add: brand_new_def on_schedule_def conv_ok_def conv_counted_empty zero_conv_status_def zero_conv_progress_def
      conv_view_def schedule_def)

lemma undisturbed_pipelines: "undisturbed sp \<Longrightarrow> pws_pipelines sp \<noteq> []"
  by (auto simp: undisturbed_def pw_validateConfiguration_def split: if_splits)

lemma find_index_map: "find_index (\<lambda>x. P (f x)) xs = find_index P (map f xs)"
  by (induction xs) auto

lemma find_index_append:
  "find_index P (xs @ ys) = (case find_index P xs of Some i \<Rightarrow> Some i | None \<Rightarrow> map_option ((+) (length xs)) (find_index P ys))"
proof (induction xs)
  case Nil
  then show ?case by (cases "find_index P ys") simp_all
next
  case (Cons x xs)
  then show ?case by (cases "find_index P ys") (auto split: option.split)
qed

lemma find_index_replicate: "find_index P (replicate n x) = (if n \<noteq> 0 \<and> P x then Some 0 else None)"
  by (induction n) auto

text \<open>What an accepted reconciliation stores.\<close>

lemma accepted_stored:
  assumes "\<forall>n x. k_status k n x = None"
  shows "stored (snd (pw_update_then k a b s)) = (stored s)\<lparr>pc_status := pc_status (obj s)\<rparr>"
  using assms by (simp add: update_then_stored)

lemma observe_simps:
  "pc_spec (obj (pw_observe k s)) = pc_spec (obj s)" "pc_meta (obj (pw_observe k s)) = pc_meta (obj s)"
  "stored (pw_observe k s) = stored s" "calls (pw_observe k s) = calls s" "effects (pw_observe k s) = effects s"
  "conv_view (obj (pw_observe k s)) = conv_view (obj s)" "csts (obj (pw_observe k s)) = csts (obj s)"
  "cprog (obj (pw_observe k s)) = cprog (obj s)" "cphase (obj (pw_observe k s)) = cphase (obj s)"
  "pwt_generatedWorkflows (pc_status (obj (pw_observe k s))) = pwt_generatedWorkflows (pc_status (obj s))"
  "pwt_observedGeneration (pc_status (obj (pw_observe k s))) = om_generation (pc_meta (obj s))"
  by (auto simp: pw_observe_def pw_observed_def conv_view_def case_prod_unfold)

text \<open>
  After the first tick, a reconciliation runs the handler of the phase on a state \<open>s\<close> that differs from
  the object only in the observed generation.
\<close>

definition ticking :: "pipeline_spec \<Rightarrow> nat \<Rightarrow> pw_state \<Rightarrow> bool" where
  "ticking sp j s \<longleftrightarrow> pc_spec (obj s) = sp \<and> conv_view (obj s) = schedule sp j \<and> at_phase (cphase (obj s)) s
     \<and> pc_spec (stored s) = sp
     \<and> om_deletionTimestamp (pc_meta (stored s)) = None \<and> pw_finalizerName \<in> set (om_finalizers (pc_meta (stored s)))
     \<and> pwt_observedGeneration (pc_status (obj s)) = om_generation (pc_meta (stored s))
     \<and> (4 \<le> j \<longrightarrow> map pst_pipelineID (csts (obj s)) = map plr_id (pws_pipelines sp)
          \<and> cp_total (cprog (obj s)) = int (length (pws_pipelines sp)))"

lemma on_schedule_ticking:
  assumes "on_schedule sp j m" and "1 \<le> j"
  shows "ticking sp j (pw_observe k (fetched m))"
  using assms observe_at_phase [of "cphase m" "fetched m" k]
  by (auto simp: on_schedule_def ticking_def observe_simps at_phase_def moved_def conv_ok_def)

text \<open>The handler keeps to the schedule if what it writes does.\<close>

lemma tick_on_schedule:
  assumes "ticking sp j s" and "1 \<le> j"
    and stored: "stored (snd (pw_processPhase k s)) = (stored s)\<lparr>pc_status := st\<rparr>"
    and "(pwt_phase st, map pst_status (pwt_pipelineStatuses st), pwt_generatedWorkflows st) = schedule sp (Suc j)"
    and "pwt_observedGeneration st = pwt_observedGeneration (pc_status (obj s))"
    and "3 \<le> j \<Longrightarrow> map pst_pipelineID (pwt_pipelineStatuses st) = map plr_id (pws_pipelines sp)
      \<and> cp_total (pwt_progress st) = int (length (pws_pipelines sp))"
  shows "on_schedule sp (Suc j) (stored (snd (pw_processPhase k s)))"
proof -
  have "conv_ok (stored (snd (pw_processPhase k s)))"
    using processPhase_moved [of "cphase (obj s)" s k] assms(1) by (simp add: ticking_def moved_def)
  then show ?thesis using assms by (auto simp: on_schedule_def ticking_def conv_view_def)
qed

lemma on_schedule_not_changed: "on_schedule sp j m \<Longrightarrow> \<not> conv_spec_changed m"
  by (auto simp: on_schedule_def conv_spec_changed_def conv_terminal_def conv_view_def schedule_def split: if_splits)

lemma on_schedule_reconcile:
  assumes "on_schedule sp j m" and "1 \<le> j"
  shows "reconcile_conversion k (fetched m) = pw_processPhase k (pw_observe k (fetched m))"
  using assms on_schedule_not_changed [OF assms(1)]
  by (simp add: reconcile_conversion_def Let_def observe_simps on_schedule_def)

section \<open>The ticks\<close>

lemma tick_finalizer:
  assumes k: "obliging sp k" and m: "on_schedule sp 0 m"
  shows "on_schedule sp 1 (stored (snd (reconcile_conversion k (fetched m))))"
proof -
  define s where "s = modify (\<lambda>m. m\<lparr>pc_meta := (pc_meta m)\<lparr>om_finalizers := om_finalizers (pc_meta m) @ [pw_finalizerName]\<rparr>\<rparr>) (pw_observe k (fetched m))"
  obtain x where x: "k_update k 0 m (obj s) = Inr x" "pc_status x = pc_status m" "pc_spec x = pc_spec (obj s)"
      "om_finalizers (pc_meta x) = om_finalizers (pc_meta (obj s))" "om_deletionTimestamp (pc_meta x) = om_deletionTimestamp (pc_meta (obj s))"
    using k by (simp add: obliging_def) metis
  have "stored (snd (reconcile_conversion k (fetched m))) = x"
    using m on_schedule_not_changed [OF m] x(1)
    by (simp add: reconcile_conversion_def Let_def observe_simps on_schedule_def pw_update_finalizers_def object_update_def s_def)
  then show ?thesis
    using m x by (auto simp: on_schedule_def conv_ok_def conv_view_def schedule_def s_def observe_simps)
qed

lemma ticking_phase: "ticking sp j s \<Longrightarrow> (cphase (obj s), map pst_status (csts (obj s)), pwt_generatedWorkflows (pc_status (obj s))) = schedule sp j"
  by (simp add: ticking_def conv_view_def)

lemma obliging_status: "obliging sp k \<Longrightarrow> k_status k n x = None"
  by (simp add: obliging_def)

lemma tick_initialise:
  assumes k: "obliging sp k" and s: "ticking sp 1 s"
  shows "on_schedule sp 2 (stored (snd (pw_processPhase k s)))"
proof -
  have ph: "cphase (obj s) = ConvUnset" "csts (obj s) = []" "pwt_generatedWorkflows (pc_status (obj s)) = []"
    using ticking_phase [OF s] by (simp_all add: schedule_def)
  define t where "t = snd (pw_initialise k s)"
  have st: "stored t = (stored s)\<lparr>pc_status := pc_status (obj t)\<rparr>"
    "cphase (obj t) = ConvPending" "csts (obj t) = csts (obj s)"
    "pwt_generatedWorkflows (pc_status (obj t)) = pwt_generatedWorkflows (pc_status (obj s))"
    "pwt_observedGeneration (pc_status (obj t)) = pwt_observedGeneration (pc_status (obj s))"
    by (simp_all add: t_def pw_initialise_def Let_def case_prod_unfold pw_update_then_def pw_update_status_def obliging_status [OF k])
  have "on_schedule sp (Suc 1) (stored (snd (pw_processPhase k s)))"
    by (rule tick_on_schedule [OF s, where st = "pc_status (obj t)"])
      (use st ph in \<open>simp_all add: pw_processPhase_def schedule_def t_def [symmetric]\<close>)
  then show ?thesis by (simp add: numeral_2_eq_2)
qed

lemma update_then_obj:
  assumes "k_status k (calls s) (obj s) = None"
  shows "pc_status (obj (snd (pw_update_then k a b s))) = pc_status (obj s)"
    "stored (snd (pw_update_then k a b s)) = (stored s)\<lparr>pc_status := pc_status (obj s)\<rparr>"
  using assms by (simp_all add: pw_update_then_def pw_update_status_def Let_def)

lemma tick_pending:
  assumes k: "obliging sp k" and sp: "undisturbed sp" and s: "ticking sp 2 s"
  shows "on_schedule sp 3 (stored (snd (pw_processPhase k s)))"
proof -
  have ph: "cphase (obj s) = ConvPending" "csts (obj s) = []" "pwt_generatedWorkflows (pc_status (obj s)) = []"
    using ticking_phase [OF s] by (simp_all add: schedule_def)
  have valid: "pw_validateConfiguration (pc_spec (obj s)) = None" using s sp by (simp add: ticking_def undisturbed_def)
  have "on_schedule sp (Suc 2) (stored (snd (pw_processPhase k s)))"
    by (rule tick_on_schedule [OF s, where st = "pc_status (conv_to ConvAnalyzing ''Analyzing pipelines'' (obj s))"])
      (use ph in \<open>simp_all add: pw_processPhase_def pw_processPending_def valid update_then_obj obliging_status [OF k] conv_to_def schedule_def\<close>)
  then show ?thesis by simp
qed

lemma tick_statuses:
  assumes k: "obliging sp k" and sp: "undisturbed sp" and s: "ticking sp 3 s"
  shows "on_schedule sp 4 (stored (snd (pw_processPhase k s)))"
proof -
  have ph: "cphase (obj s) = ConvAnalyzing" "csts (obj s) = []" "pwt_generatedWorkflows (pc_status (obj s)) = []"
    using ticking_phase [OF s] by (simp_all add: schedule_def)
  have spec: "pc_spec (obj s) = sp" "\<not> discovery_enabled sp" using s sp by (simp_all add: ticking_def undisturbed_def)
  have stt: "stored (snd (pw_processPhase k s)) = (stored s)\<lparr>pc_status := pc_status (init_statuses (obj s))\<rparr>"
    using ph spec by (simp add: pw_processPhase_def pw_processAnalyzing_def initialise_pipelines_def update_then_obj obliging_status [OF k])
  have "on_schedule sp (Suc 3) (stored (snd (pw_processPhase k s)))"
    by (rule tick_on_schedule [OF s _ stt])
      (use ph spec undisturbed_pipelines [OF sp] in
        \<open>simp_all add: init_statuses_def schedule_def map_replicate_const initial_pipeline_status_def comp_def\<close>)
  then show ?thesis by simp
qed

lemma expected_replicate:
  "i < n \<Longrightarrow> (replicate i a @ replicate (n - i) b)[i := a] = replicate (Suc i) a @ replicate (n - Suc i) b"
proof -
  assume "i < n"
  define m where "m = n - Suc i"
  have "n - i = Suc m" using \<open>i < n\<close> by (simp add: m_def)
  moreover have "(replicate i a @ replicate (Suc m) b)[i := a] = replicate i a @ a # replicate m b"
    by (simp add: list_update_append)
  moreover have "replicate i a @ a # replicate m b = replicate (Suc i) a @ replicate m b"
    using replicate_app_Cons_same [of i a "replicate m b"] by simp
  ultimately show ?thesis by (simp only: m_def)
qed

lemma tick_analyse:
  assumes k: "obliging sp k" and s: "ticking sp j s" and j: "4 \<le> j" "j < length (pws_pipelines sp) + 4"
  shows "on_schedule sp (Suc j) (stored (snd (pw_processPhase k s)))"
proof -
  let ?n = "length (pws_pipelines sp)"
  define i where "i = j - 4"
  have i: "i < ?n" "j = i + 4" using j by (simp_all add: i_def)
  have ph: "cphase (obj s) = ConvAnalyzing" "pwt_generatedWorkflows (pc_status (obj s)) = []"
    and sts: "map pst_status (csts (obj s)) = replicate i CsAnalyzing @ replicate (?n - i) CsPending"
    using ticking_phase [OF s] i by (simp_all add: schedule_def)
  have len: "length (csts (obj s)) = ?n" using arg_cong [OF sts, of length] i by simp
  have idx: "find_index (\<lambda>st. pst_status st = CsPending) (csts (obj s)) = Some i"
    unfolding find_index_map [of "\<lambda>x. x = CsPending" pst_status] sts using i by (simp add: find_index_append find_index_replicate)
  define t where "t = snd (analyse_one k s)"
  have fst: "fst (analyse_one k s)" by (simp add: analyse_one_def idx Let_def case_prod_unfold)
  have t: "map pst_status (csts (obj t)) = replicate (Suc i) CsAnalyzing @ replicate (?n - Suc i) CsPending"
    "map pst_pipelineID (csts (obj t)) = map pst_pipelineID (csts (obj s))" "cprog (obj t) = cprog (obj s)"
    "pwt_generatedWorkflows (pc_status (obj t)) = []" "cphase (obj t) = ConvAnalyzing" "stored t = stored s"
    "pwt_observedGeneration (pc_status (obj t)) = pwt_observedGeneration (pc_status (obj s))"
    using ph i len by (simp_all add: t_def analyse_one_def idx Let_def case_prod_unfold map_update sts expected_replicate)
      (simp add: list_update_same_conv)
  define all where "all = (\<forall>st \<in> set (csts (obj t)). pst_status st \<noteq> CsPending)"
  have all: "all = (Suc i = ?n)"
  proof -
    have "all = (CsPending \<notin> set (map pst_status (csts (obj t))))" by (force simp: all_def)
    then show ?thesis unfolding t(1) using i by auto
  qed
  define m where "m = (if all then conv_to ConvConverting ''Converting pipelines'' (obj t) else obj t)"
  have "csts (obj s) \<noteq> []" using len i by auto
  then have stt: "stored (snd (pw_processPhase k s)) = (stored s)\<lparr>pc_status := pc_status m\<rparr>"
    using ph t(6) fst by (simp add: pw_processPhase_def pw_processAnalyzing_def Let_def case_prod_unfold t_def [symmetric]
        all_def [symmetric] m_def update_then_obj obliging_status [OF k])
  show ?thesis
    by (rule tick_on_schedule [OF s _ stt])
      (use s j i all t in \<open>auto simp: m_def schedule_def conv_to_def ticking_def\<close>)
qed

subsection \<open>Converting\<close>

lemma setup_obliging:
  assumes k: "obliging sp k" and sp: "pc_spec (obj s) = sp"
  obtains repo t where "setup_repository k s = (Inr repo, t)"
proof -
  have "\<exists>tok. pw_getGitHubToken k s = Inr tok" if "wants_repository (obj s)"
    using that k sp by (auto simp: wants_repository_def obliging_def split: option.splits)
  then have "\<exists>repo t. setup_repository k s = (Inr repo, t)"
    by (auto simp: setup_repository_def split: sum.split prod.split)
  then show ?thesis using that by blast
qed

lemma convert_next_obliging: "obliging sp k \<Longrightarrow> fst (convert_next k repo s) \<noteq> None"
proof -
  assume k: "obliging sp k"
  have sha: "pe_sha k s f \<noteq> Inr None" for s f using k by (simp add: obliging_def)
  have pw: "fst (PushWorkflow k tok info w s) \<noteq> None" for tok info w s
    unfolding PushWorkflow_def Let_def by (simp add: sha split: option.split prod.split sum.split)
  have push: "fst (push_workflow k repo w s) \<noteq> None" for w s
  proof (cases repo)
    case (Some info)
    have "fst (push_workflow k repo w s) = map_option (\<lambda>_. ()) (fst (PushWorkflow k ''placeholder-token'' info w s))"
      by (simp add: push_workflow_def Some)
    with pw show ?thesis by simp
  qed (simp add: push_workflow_def)
  have "fst (convert_current k repo i s) \<noteq> None" for i
  proof -
    obtain r t where rt: "push_workflow k repo (workflow_of (pc_spec (obj s)) (csts (obj s) ! i))
        (modify (set_pipeline_status i (\<lambda>st. st\<lparr>pst_progress := 90\<rparr>)) s) = (r, t)" by fastforce
    with push have "r \<noteq> None" by (metis fst_conv)
    with rt show ?thesis by (auto simp: convert_current_def workflow_of)
  qed
  then show ?thesis by (auto simp: convert_next_def Let_def split: option.split)
qed

text \<open>One reconciliation in Converting, when the pipeline \<open>i\<close> is the first that is not done.\<close>

lemma converting_obliging:
  assumes k: "obliging sp k" and s: "at_phase ConvConverting s" "pc_spec (obj s) = sp"
    and i: "find_index (\<lambda>st. pst_status st \<in> {CsAnalyzing, CsConverting}) (csts (obj s)) = Some i"
  obtains st now url st0 where "stored (snd (pw_processPhase k s)) = (stored s)\<lparr>pc_status := st\<rparr>"
    and "csts (obj s) = pwt_pipelineStatuses st0 \<and> pwt_generatedWorkflows (pc_status (obj s)) = pwt_generatedWorkflows st0"
    and "(pwt_pipelineStatuses st, pwt_generatedWorkflows st) =
      (let x = (if pst_status (csts (obj s) ! i) = CsAnalyzing then conv_started_at i st0 else converted_at sp i now url st0)
       in (pwt_pipelineStatuses x, pwt_generatedWorkflows x))"
    and "conv_counted st" and "cp_total (pwt_progress st) = cp_total (cprog (obj s))"
    and "pwt_observedGeneration st = pwt_observedGeneration (pc_status (obj s))"
    and "pwt_phase st = (if cp_completed (pwt_progress st) = cp_total (pwt_progress st) then ConvValidating else ConvConverting)"
proof -
  obtain repo t where prep: "setup_repository k s = (Inr repo, t)" using setup_obliging [OF k s(2)] by metis
  note fr = setup_repository_frame [OF prep]
  have t: "conv_counted (pc_status (obj t))" "3 \<notin> set (stages (pc_status (obj t)))" "cphase (obj t) = ConvConverting"
    "csts (obj t) = csts (obj s)" "pwt_generatedWorkflows (pc_status (obj t)) = pwt_generatedWorkflows (pc_status (obj s))"
    "cp_total (cprog (obj t)) = cp_total (cprog (obj s))" "pwt_observedGeneration (pc_status (obj t)) = pwt_observedGeneration (pc_status (obj s))"
    using at_phase_facts [OF s(1)] fr(5) by (auto simp: conv_step_def stages_def conv_counted_def split: option.splits)
  obtain b u where conv: "convert_next k repo t = (Some b, u)"
    using convert_next_obliging [OF k, of repo t] by (metis not_None_eq prod.collapse)
  note cf = convert_next_frame [OF conv t(1)]
  have u: "conv_counted (pc_status (obj u))" "cphase (obj u) = ConvConverting"
    using convert_next_counted [OF conv t(1,2)] t(3) by simp_all
  have step: "b \<and> (if pst_status (csts (obj s) ! i) = CsAnalyzing then pc_status (obj u) = conv_started_at i (pc_status (obj t))
      else \<exists>now url. pc_status (obj u) = converted_at sp i now url (pc_status (obj t)))"
    using cf(5) i t(4) by (auto simp: fr(3) s(2) split: if_splits)
  then obtain now url where pu: "pc_status (obj u) =
      (if pst_status (csts (obj s) ! i) = CsAnalyzing then conv_started_at i (pc_status (obj t)) else converted_at sp i now url (pc_status (obj t)))"
    by (auto split: if_splits)
  define v where "v = modify (on_conv_progress conv_percentage) u"
  define w where "w = (if all_converted (obj v)
    then announce ''Conversion complete, starting validation'' EventNormal ''ConversionCompleted'' ''Pipeline conversion completed''
       (modify (conv_to ConvValidating ''Validating workflows'') v) else v)"
  have stt: "stored (snd (pw_processPhase k s)) = (stored s)\<lparr>pc_status := pc_status (obj w)\<rparr>"
    using step at_phase_facts(2) [OF s(1)] cf(1) fr(1)
    by (auto simp: pw_processPhase_def pw_processConverting_def prep conv Let_def v_def [symmetric] w_def update_then_obj obliging_status [OF k])
      (auto simp: v_def)
  have w: "csts (obj w) = csts (obj u)" "pwt_generatedWorkflows (pc_status (obj w)) = pwt_generatedWorkflows (pc_status (obj u))"
    "conv_counted (pc_status (obj w))" "cp_total (cprog (obj w)) = cp_total (cprog (obj u))" "cp_completed (cprog (obj w)) = cp_completed (cprog (obj u))"
    "pwt_observedGeneration (pc_status (obj w)) = pwt_observedGeneration (pc_status (obj u))"
    using u by (auto simp: w_def v_def conv_to_def conv_counted_def stages_def)
  have ph: "cphase (obj w) = (if cp_completed (cprog (obj u)) = cp_total (cprog (obj u)) then ConvValidating else ConvConverting)"
    using u by (auto simp: w_def v_def conv_to_def all_converted_def conv_counted_def)
  have tot: "cp_total (cprog (obj u)) = cp_total (cprog (obj s))"
    "pwt_observedGeneration (pc_status (obj u)) = pwt_observedGeneration (pc_status (obj s))"
    using t(6,7) pu by (simp_all add: conv_started_at_def converted_at_def Let_def)
  show ?thesis
    by (rule that [OF stt, of "pc_status (obj t)" now url]) (use w ph tot t pu in \<open>simp_all add: Let_def\<close>)
qed

lemma stages_map: "stages st = map stage_of (map pst_status (pwt_pipelineStatuses st))"
  by (simp add: stages_def)

lemma count_list_replicate: "count_list (replicate n x) y = (if x = y then n else 0)"
  by (induction n) auto

lemma resource_of_scheduled:
  assumes ids: "map pst_pipelineID sts = map plr_id (pws_pipelines sp)" and i: "i < length sts"
  shows "generated_of (workflow_of sp (sts ! i)) = expected_workflows sp ! i"
proof -
  have len: "i < length (pws_pipelines sp)" using arg_cong [OF ids, of length] i by simp
  have "pst_pipelineID (sts ! i) = plr_id (pws_pipelines sp ! i)"
    using arg_cong [OF ids, of "\<lambda>xs. xs ! i"] i len by simp
  moreover have "find (\<lambda>p. plr_id p = plr_id (pws_pipelines sp ! i)) (pws_pipelines sp) \<noteq> None"
    unfolding find_None_iff using nth_mem [OF len] by blast
  ultimately have "resource_of sp (sts ! i) = first_with_id sp (plr_id (pws_pipelines sp ! i))"
    by (auto simp: resource_of_def first_with_id_def split: option.split)
  then show ?thesis using len by (simp add: workflow_of_def expected_workflows_def expected_workflow_def)
qed

lemma tick_convert:
  assumes k: "obliging sp k" and s: "ticking sp j s" and j: "length (pws_pipelines sp) + 4 \<le> j" "j < 3 * length (pws_pipelines sp) + 4"
  shows "on_schedule sp (Suc j) (stored (snd (pw_processPhase k s)))"
proof -
  let ?n = "length (pws_pipelines sp)"
  define c where "c = (j - (?n + 4)) div 2"
  have c: "c < ?n" using j by (simp add: c_def)
  let ?st = "pc_status (obj s)"
  have ph: "cphase (obj s) = ConvConverting" and gws: "pwt_generatedWorkflows ?st = take c (expected_workflows sp)"
    and sts: "map pst_status (csts (obj s)) = replicate c CsCompleted @ (if even (j - (?n + 4)) then replicate (?n - c) CsAnalyzing
        else CsConverting # replicate (?n - c - 1) CsAnalyzing)"
    using ticking_phase [OF s] j by (auto simp: schedule_def Let_def c_def)
  have ids: "map pst_pipelineID (csts (obj s)) = map plr_id (pws_pipelines sp)" and tot: "cp_total (cprog (obj s)) = int ?n"
    using s j by (simp_all add: ticking_def)
  have len: "length (csts (obj s)) = ?n" using arg_cong [OF ids, of length] by simp
  have idx: "find_index (\<lambda>st. pst_status st \<in> {CsAnalyzing, CsConverting}) (csts (obj s)) = Some c"
    unfolding find_index_map [of "\<lambda>x. x \<in> {CsAnalyzing, CsConverting}" pst_status] sts
    using c by (auto simp: find_index_append find_index_replicate)
  have at_c: "pst_status (csts (obj s) ! c) = (if even (j - (?n + 4)) then CsAnalyzing else CsConverting)"
    using arg_cong [OF sts, of "\<lambda>xs. xs ! c"] c len by (simp add: nth_append)
  have ap: "at_phase ConvConverting s" "pc_spec (obj s) = sp" using s ph by (simp_all add: ticking_def)
  obtain st now url st0 where stt: "stored (snd (pw_processPhase k s)) = (stored s)\<lparr>pc_status := st\<rparr>"
    and st0: "csts (obj s) = pwt_pipelineStatuses st0 \<and> pwt_generatedWorkflows ?st = pwt_generatedWorkflows st0"
    and work: "(pwt_pipelineStatuses st, pwt_generatedWorkflows st) =
      (let x = (if pst_status (csts (obj s) ! c) = CsAnalyzing then conv_started_at c st0 else converted_at sp c now url st0)
       in (pwt_pipelineStatuses x, pwt_generatedWorkflows x))"
    and conv_counted: "conv_counted st" and total: "cp_total (pwt_progress st) = cp_total (cprog (obj s))"
    and gen: "pwt_observedGeneration st = pwt_observedGeneration ?st"
    and phase: "pwt_phase st = (if cp_completed (pwt_progress st) = cp_total (pwt_progress st) then ConvValidating else ConvConverting)"
    by (rule converting_obliging [OF k ap idx]) blast
  define L where "L = map pst_status (pwt_pipelineStatuses st)"
  have comp: "cp_completed (pwt_progress st) = int (count_list (map stage_of L) 0)"
    using conv_counted by (simp add: conv_counted_def stages_map L_def)
  have same_ids: "map pst_pipelineID (pwt_pipelineStatuses st) = map pst_pipelineID (csts (obj s))"
    using work c len st0 by (auto simp: conv_started_at_def converted_at_def Let_def map_update list_update_same_conv split: if_splits)
  show ?thesis
  proof (cases "even (j - (?n + 4))")
    case True
    then have work': "pwt_pipelineStatuses st = pwt_pipelineStatuses (conv_started_at c st0)"
        "pwt_generatedWorkflows st = pwt_generatedWorkflows st0" using work at_c by (simp_all add: Let_def conv_started_at_def)
    have "L = (map pst_status (csts (obj s)))[c := CsConverting]"
      using st0 by (simp add: L_def work' conv_started_at_def map_update)
    also have "\<dots> = replicate c CsCompleted @ CsConverting # replicate (?n - c - 1) CsAnalyzing"
    proof -
      have "?n - c = Suc (?n - c - 1)" using c by simp
      then have "replicate (?n - c) CsAnalyzing = CsAnalyzing # replicate (?n - c - 1) CsAnalyzing" by (metis replicate_Suc)
      then show ?thesis using True by (simp add: sts list_update_append)
    qed
    finally have L: "L = replicate c CsCompleted @ CsConverting # replicate (?n - c - 1) CsAnalyzing" .
    have "cp_completed (pwt_progress st) = int c" unfolding comp L by (simp add: count_list_replicate)
    then have "pwt_phase st = ConvConverting" using phase total tot c by simp
    moreover have "j - (?n + 4) = 2 * c" using True by (simp add: c_def)
    then have "Suc j - (?n + 4) = Suc (2 * c)" "Suc j < 3 * ?n + 4" using j c by linarith+
    ultimately show ?thesis
      by (intro tick_on_schedule [OF s _ stt])
        (use j gen tot total same_ids ids gws st0 work' L in \<open>simp_all add: schedule_def Let_def L_def\<close>)
  next
    case False
    then have work': "pwt_pipelineStatuses st = pwt_pipelineStatuses (converted_at sp c now url st0)"
        "pwt_generatedWorkflows st = pwt_generatedWorkflows (converted_at sp c now url st0)" using work at_c by (simp_all add: Let_def)
    have "L = (map pst_status (csts (obj s)))[c := CsCompleted]"
      using st0 by (simp add: L_def work' converted_at_def Let_def map_update)
    also have "\<dots> = replicate (Suc c) CsCompleted @ replicate (?n - Suc c) CsAnalyzing"
      using False replicate_app_Cons_same [of c CsCompleted "replicate (?n - Suc c) CsAnalyzing"] by (simp add: sts list_update_append)
    finally have L: "L = replicate (Suc c) CsCompleted @ replicate (?n - Suc c) CsAnalyzing" .
    have "cp_completed (pwt_progress st) = int (Suc c)" unfolding comp L by (simp add: count_list_replicate)
    then have ph': "pwt_phase st = (if Suc c = ?n then ConvValidating else ConvConverting)" using phase total tot by simp
    have "pwt_generatedWorkflows st = pwt_generatedWorkflows st0 @ [generated_of (workflow_of sp (pwt_pipelineStatuses st0 ! c))]"
      by (simp add: work' converted_at_def Let_def)
    also have "\<dots> = take c (expected_workflows sp) @ [expected_workflows sp ! c]"
      using st0 gws resource_of_scheduled [OF ids, of c] c len by simp
    also have "\<dots> = take (Suc c) (expected_workflows sp)"
      using c by (simp add: take_Suc_conv_app_nth expected_workflows_def)
    finally have gws': "pwt_generatedWorkflows st = take (Suc c) (expected_workflows sp)" .
    have j': "j = ?n + 4 + Suc (2 * c)" using False j by (simp add: c_def) presburger
    show ?thesis
    proof (cases "Suc c = ?n")
      case True
      then have "Suc j = 3 * ?n + 4" using j' by simp
      then show ?thesis
        by (intro tick_on_schedule [OF s _ stt])
          (use j gen tot total same_ids ids gws' ph' True L in \<open>simp_all add: schedule_def Let_def L_def expected_workflows_def\<close>)
    next
      case less: False
      then have "Suc j - (?n + 4) = 2 * Suc c" "Suc j < 3 * ?n + 4" using j' c by simp_all
      then show ?thesis
        by (intro tick_on_schedule [OF s _ stt])
          (use j gen tot total same_ids ids gws' ph' less L in \<open>simp_all add: schedule_def Let_def L_def\<close>)
    qed
  qed
qed

subsection \<open>Validating, and the end\<close>

lemma validate_fold_valid:
  "cvs_valid (fold validate_one ps r) \<longleftrightarrow> cvs_valid r \<and> list_all (\<lambda>p. validatePipeline p = None) ps"
  by (induction ps arbitrary: r) (auto simp: validate_one_def split: option.splits)

lemma ValidateConversion_valid:
  "ValidateConversion k s = (Inr r, v) \<Longrightarrow> cvs_valid r \<longleftrightarrow> spec_valid (pc_spec (obj s))"
  by (auto simp: ValidateConversion_def case_prod_unfold Let_def validate_fold_valid spec_valid_def split: option.splits)

lemma ValidateConversion_waits: "ValidateConversion k s = (Inl err, v) \<Longrightarrow> pe_wait k s = Some err"
  by (auto simp: ValidateConversion_def case_prod_unfold Let_def split: option.splits)

lemma tick_validate:
  assumes k: "obliging sp k" and sp: "undisturbed sp" and s: "ticking sp (3 * length (pws_pipelines sp) + 4) s"
  shows "on_schedule sp (3 * length (pws_pipelines sp) + 5) (stored (snd (pw_processPhase k s)))"
proof -
  let ?n = "length (pws_pipelines sp)"
  have n: "?n \<noteq> 0" using undisturbed_pipelines [OF sp] by simp
  have ph: "cphase (obj s) = ConvValidating" "map pst_status (csts (obj s)) = replicate ?n CsCompleted"
    "pwt_generatedWorkflows (pc_status (obj s)) = expected_workflows sp"
    using ticking_phase [OF s] n by (simp_all add: schedule_def Let_def)
  have "pe_wait k s = None" using k by (simp add: obliging_def)
  then obtain r r' v now stats t where vc: "ValidateConversion k s = (Inr r, v)" "cvs_valid r' = cvs_valid r"
    and eq: "pw_processValidating k s = pw_update_then k no_requeue no_requeue t" and t: "stored t = stored s"
      "pc_status (obj t) = concluded r' now stats (pc_status (obj s))"
    using processValidating_cases [of k s] ValidateConversion_waits by (elim disjE exE conjE) (simp, blast)
  have "cvs_valid r' = spec_valid sp" using ValidateConversion_valid [OF vc(1)] vc(2) s by (simp add: ticking_def)
  moreover have stt: "stored (snd (pw_processPhase k s)) = (stored s)\<lparr>pc_status := concluded r' now stats (pc_status (obj s))\<rparr>"
    using ph t by (simp add: pw_processPhase_def eq update_then_obj obliging_status [OF k])
  ultimately have "on_schedule sp (Suc (3 * ?n + 4)) (stored (snd (pw_processPhase k s)))"
    by (intro tick_on_schedule [OF s _ stt])
      (use ph s n in \<open>simp_all add: schedule_def Let_def concluded_def ticking_def\<close>)
  then show ?thesis by (simp add: eval_nat_numeral)
qed

lemma reconcile_final:
  assumes "on_schedule sp j m" and "final_tick sp \<le> j"
  shows "stored (snd (reconcile_conversion k (fetched m))) = m \<and> on_schedule sp (Suc j) m"
proof -
  have "cphase m \<in> {ConvCompleted, ConvFailed}"
    using assms by (auto simp: on_schedule_def final_tick_def conv_view_def schedule_def Let_def)
  then have "stored (snd (pw_processPhase k (pw_observe k (fetched m)))) = m"
    by (auto simp: pw_processPhase_def observe_simps)
  moreover have "schedule sp (Suc j) = schedule sp j"
    using assms(2) by (simp add: schedule_def final_tick_def Let_def)
  ultimately show ?thesis
    using assms on_schedule_reconcile [OF assms(1)] by (simp add: on_schedule_def final_tick_def)
qed

text \<open>The refinement: one accepted reconciliation is one tick.\<close>

lemma tick:
  assumes k: "obliging sp k" and sp: "undisturbed sp" and m: "on_schedule sp j m"
  shows "on_schedule sp (Suc j) (stored (snd (reconcile_conversion k (fetched m))))"
proof -
  let ?n = "length (pws_pipelines sp)"
  have s: "ticking sp j (pw_observe k (fetched m))" if "1 \<le> j" by (rule on_schedule_ticking [OF m that])
  have rec: "reconcile_conversion k (fetched m) = pw_processPhase k (pw_observe k (fetched m))" if "1 \<le> j"
    by (rule on_schedule_reconcile [OF m that])
  consider "j = 0" | "j = 1" | "j = 2" | "j = 3" | "4 \<le> j" "j < ?n + 4" | "?n + 4 \<le> j" "j < 3 * ?n + 4"
    | "j = 3 * ?n + 4" | "final_tick sp \<le> j" unfolding final_tick_def by linarith
  then show ?thesis
  proof cases
    case 1
    then show ?thesis using tick_finalizer [OF k] m by simp
  next
    case 2
    then show ?thesis using tick_initialise [OF k] s rec by (simp add: numeral_2_eq_2)
  next
    case 3
    then show ?thesis using tick_pending [OF k sp] s rec by simp
  next
    case 4
    then show ?thesis using tick_statuses [OF k sp] s rec by simp
  next
    case 5
    then show ?thesis using tick_analyse [OF k] s rec by simp
  next
    case 6
    then show ?thesis using tick_convert [OF k] s rec by simp
  next
    case 7
    then show ?thesis using tick_validate [OF k sp] s rec by (simp add: eval_nat_numeral)
  next
    case 8
    then show ?thesis using reconcile_final [OF m] by simp
  qed
qed

lemma ticks:
  assumes "\<forall>k \<in> set ks. obliging sp k" and "undisturbed sp" and "on_schedule sp j (pww_object w)"
  shows "on_schedule sp (length ks + j) (pww_object (fold conversion_step ks w))"
  using assms
proof (induction ks arbitrary: j w)
  case (Cons k ks)
  from Cons.IH [of "Suc j" "conversion_step k w"] Cons.prems tick [of sp k j "pww_object w"]
  show ?case by (simp add: conversion_step_object)
qed simp

end
