(* ===== verification/PipelineProperties.thy ===== *)
theory PipelineProperties
  imports PipelineSchedule
begin

text \<open>
  The properties of the PipelineToWorkflow controller
  (\<open>internal/controller/pipelinetoworkflow_controller.go\<close>): what any life of a conversion keeps,
  how one that is left alone ends, what becomes of pipelines that are added later, and what reaches
  the workflows repository.
\<close>

section \<open>What a reconciliation adds\<close>

text \<open>
  The pipelines of the statuses stay, and every workflow that is added comes from one of them.
\<close>

definition extends :: "pipeline_status \<Rightarrow> pipeline_status \<Rightarrow> bool" where
  "extends st st' \<longleftrightarrow> map pst_pipelineID (pwt_pipelineStatuses st') = map pst_pipelineID (pwt_pipelineStatuses st)
     \<and> (\<exists>new. pwt_generatedWorkflows st' = pwt_generatedWorkflows st @ new
          \<and> gw_sourcePipelineID ` set new \<subseteq> pst_pipelineID ` set (pwt_pipelineStatuses st))"

lemma extends_same:
  "pwt_pipelineStatuses st' = pwt_pipelineStatuses st \<Longrightarrow> pwt_generatedWorkflows st' = pwt_generatedWorkflows st \<Longrightarrow> extends st st'"
  by (simp add: extends_def)

lemma extends_refl [simp]: "extends st st"
  by (simp add: extends_same)

lemma extends_ids: "extends st st' \<Longrightarrow> pst_pipelineID ` set (pwt_pipelineStatuses st') = pst_pipelineID ` set (pwt_pipelineStatuses st)"
  by (metis extends_def list.set_map)

lemma extends_trans: "extends st st' \<Longrightarrow> extends st' st'' \<Longrightarrow> extends st st''"
proof -
  assume a: "extends st st'" and b: "extends st' st''"
  obtain n1 where n1: "pwt_generatedWorkflows st' = pwt_generatedWorkflows st @ n1"
      "gw_sourcePipelineID ` set n1 \<subseteq> pst_pipelineID ` set (pwt_pipelineStatuses st)" using a by (auto simp: extends_def)
  obtain n2 where n2: "pwt_generatedWorkflows st'' = pwt_generatedWorkflows st' @ n2"
      "gw_sourcePipelineID ` set n2 \<subseteq> pst_pipelineID ` set (pwt_pipelineStatuses st')" using b by (auto simp: extends_def)
  have "pwt_generatedWorkflows st'' = pwt_generatedWorkflows st @ (n1 @ n2)" using n1 n2 by simp
  moreover have "gw_sourcePipelineID ` set (n1 @ n2) \<subseteq> pst_pipelineID ` set (pwt_pipelineStatuses st)"
    using n1(2) n2(2) extends_ids [OF a] by (simp add: image_Un)
  moreover have "map pst_pipelineID (pwt_pipelineStatuses st'') = map pst_pipelineID (pwt_pipelineStatuses st)"
    using a b by (simp add: extends_def)
  ultimately show ?thesis unfolding extends_def by blast
qed

lemma extends_update:
  "extends st (pc_status (stored s)) \<Longrightarrow> extends st (pc_status (obj s)) \<Longrightarrow> extends st (pc_status (stored (snd (pw_update_then k a b s))))"
  by (simp add: update_then_stored)

lemma ids_update: "pst_pipelineID x = pst_pipelineID (sts ! i) \<Longrightarrow> map pst_pipelineID (sts[i := x]) = map pst_pipelineID sts"
  by (cases "i < length sts") (simp_all add: map_update list_update_same_conv list_update_beyond)

lemma extends_started: "extends st (conv_started_at i st)"
  by (simp add: extends_def conv_started_at_def ids_update)

lemma workflow_source: "cw_sourcePipelineID (workflow_of sp x) = pst_pipelineID x"
proof -
  have "plr_id (resource_of sp x) = pst_pipelineID x"
    by (auto simp: resource_of_def find_Some_iff split: option.split)
  moreover have "cw_sourcePipelineID (projr (ConvertPipeline p sp)) = plr_id p" for p
    by (simp add: ConvertPipeline_def Let_def split: prod.split)
  ultimately show ?thesis by (simp add: workflow_of_def)
qed

lemma extends_converted: "i < length (pwt_pipelineStatuses st) \<Longrightarrow> extends st (converted_at sp i now url st)"
  by (simp add: extends_def converted_at_def Let_def ids_update generated_of_def workflow_source)

lemma convert_next_extends:
  assumes eq: "convert_next k repo s = (Some b, t)" and ok: "conv_counted (pc_status (obj s))"
  shows "extends (pc_status (obj s)) (pc_status (obj t))"
proof (cases "find_index (\<lambda>st. pst_status st \<in> {CsAnalyzing, CsConverting}) (csts (obj s))")
  case None
  then show ?thesis using convert_next_frame(5) [OF eq ok] by simp
next
  case (Some i)
  then show ?thesis
    using convert_next_frame(5) [OF eq ok] open_stage(1) [OF ok Some] extends_started extends_converted
    by (auto split: if_splits)
qed

lemma converting_extends:
  assumes s: "at_phase ConvConverting s" and st: "extends st (pc_status (stored s))" "extends st (pc_status (obj s))"
  shows "extends st (pc_status (stored (snd (pw_processConverting k s))))"
proof -
  obtain r t where prep: "setup_repository k s = (r, t)" by fastforce
  note fr = setup_repository_frame [OF prep]
  have t: "conv_counted (pc_status (obj t))" "extends st (pc_status (obj t))" "extends st (pc_status (stored t))"
    using at_phase_facts(1) [OF s] fr(1,5) st extends_trans [OF st(2)]
    by (auto simp: conv_step_def stages_def conv_counted_def extends_same split: sum.splits option.splits)
  show ?thesis
  proof (cases r)
    case (Inl message)
    have "extends st (pc_status (obj (modify (conv_failed message) t)))"
      using extends_trans [OF t(2) extends_same] by (simp add: conv_failed_def)
    then show ?thesis using t(3) extends_update [of st "modify (conv_failed message) t"]
      by (simp add: pw_processConverting_def prep Inl)
  next
    case (Inr repo)
    obtain b u where conv: "convert_next k repo t = (b, u)" by fastforce
    have su: "extends st (pc_status (stored u))" using t(3) convert_next_frame(1) [OF conv t(1)] by simp
    show ?thesis
    proof (cases b)
      case (Some updated)
      have u: "extends st (pc_status (obj u))"
        using extends_trans [OF t(2) convert_next_extends [OF conv [unfolded Some] t(1)]] .
      define v where "v = modify (on_conv_progress conv_percentage) u"
      have v: "extends st (pc_status (obj v))" "extends st (pc_status (stored v))"
        using su extends_trans [OF u extends_same] by (simp_all add: v_def)
      have "extends st (pc_status (obj (announce c e rs msg (modify (conv_to ConvValidating z) v))))" for z c e rs msg
        using extends_trans [OF v(1) extends_same] by (simp add: conv_to_def)
      then show ?thesis using v
        by (auto simp: pw_processConverting_def prep Inr conv Some Let_def v_def [symmetric] intro!: extends_update)
    qed (use su in \<open>simp add: pw_processConverting_def prep Inr conv\<close>)
  qed
qed

lemma analyse_extends: "extends (pc_status (obj s)) (pc_status (obj (snd (analyse_one k s))))"
proof (cases "find_index (\<lambda>st. pst_status st = CsPending) (csts (obj s))")
  case (Some i)
  then show ?thesis
    by (auto simp: analyse_one_def Let_def case_prod_unfold extends_def ids_update)
qed (simp add: analyse_one_def)

lemma analyzing_extends:
  assumes ne: "csts (obj s) \<noteq> []" and st: "extends st (pc_status (stored s))" "extends st (pc_status (obj s))"
  shows "extends st (pc_status (stored (snd (pw_processAnalyzing k s))))"
proof -
  define t where "t = snd (analyse_one k s)"
  have t: "extends st (pc_status (obj t))" "extends st (pc_status (stored t))"
    using extends_trans [OF st(2) analyse_extends] st(1) by (simp_all add: t_def analyse_one_frame)
  have "extends st (pc_status (conv_to ConvConverting z (obj t)))" for z
    using extends_trans [OF t(1) extends_same] by (simp add: conv_to_def)
  then show ?thesis using ne t
    unfolding pw_processAnalyzing_def Let_def case_prod_unfold t_def [symmetric]
    by (auto intro!: extends_update)
qed

lemma validating_extends:
  assumes st: "extends st (pc_status (stored s))" "extends st (pc_status (obj s))"
  shows "extends st (pc_status (stored (snd (pw_processValidating k s))))"
  using processValidating_cases [of k s]
proof (elim disjE exE conjE)
  fix a b err v
  assume v: "ValidateConversion k s = (Inl err, v)" and eq: "pw_processValidating k s = pw_update_then k a b
       (announce ''Validation failed'' EventWarning ''ValidationFailed'' (''Validation failed: '' @ err_text err)
          (modify (conv_failed (''Validation failed: '' @ err_text err)) v))"
  have "obj v = obj s" "stored v = stored s" using ValidateConversion_obj [of k s] by (simp_all add: v)
  then show ?thesis unfolding eq
    by (intro extends_update) (use st extends_trans [OF st(2) extends_same] in \<open>simp_all add: conv_failed_def\<close>)
next
  fix r r' v now stats t
  assume eq: "pw_processValidating k s = pw_update_then k no_requeue no_requeue t" and t: "stored t = stored s"
    "pc_status (obj t) = concluded r' now stats (pc_status (obj s))"
  show ?thesis unfolding eq
    by (intro extends_update) (use st t extends_trans [OF st(2) extends_same] in \<open>simp_all add: concluded_def\<close>)
qed

lemma restart_extends:
  assumes off: "\<not> discovery_enabled (pc_spec (obj s))" and st: "extends st (pc_status (stored s))" "extends st (pc_status (obj s))"
  shows "extends st (pc_status (stored (snd (restartConversionForSpecChange k s))))"
  unfolding restartConversionForSpecChange_def Let_def
  using off st extends_trans [OF st(2) extends_same, of "pc_status (pw_observed (obj s))"]
    extends_trans [OF st(2) extends_same, of "pc_status (pw_observed (resume (obj s)))"]
  by (auto simp: pw_observed_def resume_def intro!: extends_update)

lemma phase_with_statuses:
  "at_phase ph s \<Longrightarrow> csts (obj s) \<noteq> [] \<Longrightarrow> ph \<noteq> ConvUnset \<and> ph \<noteq> ConvPending"
  using at_phase_facts [of ph s] by auto

lemma processPhase_extends:
  assumes s: "at_phase ph s" and ne: "csts (obj s) \<noteq> []" and st: "extends st (pc_status (stored s))" "extends st (pc_status (obj s))"
  shows "extends st (pc_status (stored (snd (pw_processPhase k s))))"
  using phase_with_statuses [OF s ne] at_phase_facts(2) [OF s] analyzing_extends [OF ne st, of k]
    converting_extends [of s st k] validating_extends [OF st, of k] s st
  by (cases ph) (simp_all add: pw_processPhase_def)

lemma observe_extends: "extends (pc_status (obj s)) (pc_status (obj (pw_observe k s)))"
  by (simp add: extends_same observe_simps)

lemma reconcile_extends:
  assumes k: "pw_env_ok k" and ok: "conv_ok m" and ne: "csts m \<noteq> []" and off: "\<not> discovery_enabled (pc_spec m)"
  shows "extends (pc_status m) (pc_status (stored (snd (reconcile_conversion k (fetched m)))))"
proof (cases "conv_spec_changed m")
  case True
  then show ?thesis using restart_extends [of "fetched m" "pc_status m" k] off by (simp add: reconcile_conversion_def)
next
  case False
  define t where "t = pw_observe k (fetched m)"
  have t: "at_phase (cphase m) t" "csts (obj t) \<noteq> []" "extends (pc_status m) (pc_status (stored t))" "extends (pc_status m) (pc_status (obj t))"
    using observe_at_phase [of "cphase m" "fetched m" k] ok ne observe_extends [of "fetched m" k]
    by (simp_all add: t_def at_phase_def moved_def observe_simps)
  have "extends (pc_status m) (pc_status (stored (snd (pw_update_finalizers k f t))))" for f
    using update_finalizers_stored(1) [OF k, of f t] t(3) by simp
  then show ?thesis
    using False processPhase_extends [OF t] t(3) by (simp add: reconcile_conversion_def Let_def t_def)
qed

section \<open>Any life\<close>

text \<open>
  C12. Through any reconciliations in any environments and any edits of the specification, a
  conversion works on its pipelines in order and on at most one at a time: the statuses descend from
  Completed over one Converting and Analyzing to Pending. The counters count them, every completed
  pipeline has exactly one workflow, and no pipeline ever fails. Completed means that as many
  pipelines are completed as the total says, that the validation passed and the percentage is 100. Each
  single event leaves the phase alone or follows one edge of \<open>conv_edge\<close>, so that Analyzing, Converting and Validating
  are not jumped over, and a conversion is never Cancelled.
\<close>

theorem conversion_life:
  assumes "brand_new m" and "\<forall>e \<in> set es. pw_honest e"
    and x: "x = pww_object (fold pw_event_step es \<lparr>pww_object = m, pww_effects = []\<rparr>)"
  shows "conv_counted (pc_status x) \<and> phase_fits (pc_status x) \<and> cphase x \<noteq> ConvCancelled
    \<and> (\<forall>i < length es.
        let p = cphase (pww_object (fold pw_event_step (take i es) \<lparr>pww_object = m, pww_effects = []\<rparr>));
            q = cphase (pww_object (fold pw_event_step (take (Suc i) es) \<lparr>pww_object = m, pww_effects = []\<rparr>))
        in q = p \<or> conv_edge p q)"
proof -
  have ok: "conv_ok m" using brand_new_on_schedule [OF assms(1)] by (simp add: on_schedule_def)
  then have ok': "conv_ok x" using pcm.inv_run [OF assms(2)] by (simp add: x)
  then have "cphase x \<noteq> ConvCancelled" by (auto simp: conv_ok_def phase_fits_def)
  moreover have "\<forall>i < length es.
        let p = cphase (pww_object (fold pw_event_step (take i es) \<lparr>pww_object = m, pww_effects = []\<rparr>));
            q = cphase (pww_object (fold pw_event_step (take (Suc i) es) \<lparr>pww_object = m, pww_effects = []\<rparr>))
        in q = p \<or> conv_edge p q"
    using pcm.edges_run [OF assms(2), of "\<lparr>pww_object = m, pww_effects = []\<rparr>"] ok by (simp add: Let_def)
  ultimately show ?thesis using ok' by (simp add: conv_ok_def)
qed

section \<open>Left alone\<close>

text \<open>
  C18. A conversion of listed pipelines that is left alone implements its schedule: after any number
  of accepted reconciliations the phase, the status of every pipeline and the workflows generated so
  far are those of the abstract clock at that tick.
\<close>

theorem conversion_follows_schedule:
  assumes "brand_new m" and "undisturbed (pc_spec m)" and "\<forall>k \<in> set ks. obliging (pc_spec m) k"
  shows "conv_view (pww_object (fold conversion_step ks \<lparr>pww_object = m, pww_effects = []\<rparr>)) = schedule (pc_spec m) (length ks)"
  using ticks [OF assms(3,2), of 0 "\<lparr>pww_object = m, pww_effects = []\<rparr>"] brand_new_on_schedule [OF assms(1)]
  by (simp add: on_schedule_def)

lemma schedule_final:
  "pws_pipelines sp \<noteq> [] \<Longrightarrow> final_tick sp \<le> j \<Longrightarrow> schedule sp j = (if spec_valid sp then ConvCompleted else ConvFailed,
     replicate (length (pws_pipelines sp)) CsCompleted, expected_workflows sp)"
  by (simp add: schedule_def final_tick_def Let_def)

lemma left_alone_final:
  assumes "brand_new m" and sp: "undisturbed (pc_spec m)" and "\<forall>k \<in> set ks. obliging (pc_spec m) k" and "final_tick (pc_spec m) \<le> length ks"
  shows "conv_view (pww_object (fold conversion_step ks \<lparr>pww_object = m, pww_effects = []\<rparr>)) =
    (if spec_valid (pc_spec m) then ConvCompleted else ConvFailed, replicate (length (pws_pipelines (pc_spec m))) CsCompleted,
     expected_workflows (pc_spec m))"
  using ticks [OF assms(3,2), of 0 "\<lparr>pww_object = m, pww_effects = []\<rparr>"] brand_new_on_schedule [OF assms(1)]
    schedule_final [OF undisturbed_pipelines [OF sp] assms(4)]
  by (simp add: on_schedule_def)

lemma first_with_id_distinct:
  assumes "distinct (map plr_id (pws_pipelines sp))" and "p \<in> set (pws_pipelines sp)"
  shows "first_with_id sp (plr_id p) = p"
proof -
  have "find (\<lambda>q. plr_id q = plr_id p) (pws_pipelines sp) \<noteq> None"
    unfolding find_None_iff using assms(2) by blast
  then obtain q where "find (\<lambda>q. plr_id q = plr_id p) (pws_pipelines sp) = Some q" by blast
  with find_mem [OF this] have "q \<in> set (pws_pipelines sp)" "plr_id q = plr_id p" "first_with_id sp (plr_id p) = q"
    by (simp_all add: first_with_id_def)
  with assms show ?thesis by (metis distinct_map inj_onD)
qed

text \<open>
  C19. A conversion of listed pipelines with distinct identifiers that is left alone ends, within five
  reconciliations and three per pipeline: Completed if every pipeline has an identifier, a name and a
  workflow name and the settings are in range, otherwise Failed; every pipeline is Completed either way, and
  the generated workflows are the conversions of the pipelines, in their order.
\<close>

theorem conversion_left_alone:
  assumes "brand_new m" and "undisturbed (pc_spec m)" and "\<forall>k \<in> set ks. obliging (pc_spec m) k"
    and "distinct (map plr_id (pws_pipelines (pc_spec m)))" and "3 * length (pws_pipelines (pc_spec m)) + 5 \<le> length ks"
    and x: "x = pww_object (fold conversion_step ks \<lparr>pww_object = m, pww_effects = []\<rparr>)"
  shows "cphase x = (if spec_valid (pc_spec m) then ConvCompleted else ConvFailed)
    \<and> (\<forall>st \<in> set (csts x). pst_status st = CsCompleted)
    \<and> pwt_generatedWorkflows (pc_status x) = map (\<lambda>p. generated_of (projr (ConvertPipeline p (pc_spec m)))) (pws_pipelines (pc_spec m))"
proof -
  have v: "conv_view x = (if spec_valid (pc_spec m) then ConvCompleted else ConvFailed,
      replicate (length (pws_pipelines (pc_spec m))) CsCompleted, expected_workflows (pc_spec m))"
    unfolding x by (rule left_alone_final) (use assms in \<open>simp_all add: final_tick_def\<close>)
  have "expected_workflows (pc_spec m) = map (\<lambda>p. generated_of (projr (ConvertPipeline p (pc_spec m)))) (pws_pipelines (pc_spec m))"
    using first_with_id_distinct [OF assms(4)] by (simp add: expected_workflows_def expected_workflow_def)
  moreover have "set (map pst_status (csts x)) \<subseteq> {CsCompleted}" using v by (auto simp: conv_view_def)
  ultimately show ?thesis using v by (auto simp: conv_view_def)
qed

text \<open>
  Pipelines that share an identifier, as a build and a release pipeline of one project can, are all
  converted as the first of them: the others get its workflow, whatever their type.
\<close>

theorem shared_identifier:
  assumes "brand_new m" and "undisturbed (pc_spec m)" and "\<forall>k \<in> set ks. obliging (pc_spec m) k"
    and "final_tick (pc_spec m) \<le> length ks" and ij: "i < j" "j < length (pws_pipelines (pc_spec m))"
    and same: "plr_id (pws_pipelines (pc_spec m) ! j) = plr_id (pws_pipelines (pc_spec m) ! i)"
    and ws: "ws = pwt_generatedWorkflows (pc_status (pww_object (fold conversion_step ks \<lparr>pww_object = m, pww_effects = []\<rparr>)))"
  shows "ws ! j = ws ! i"
  using left_alone_final [OF assms(1-4)] ij same
  by (simp add: ws conv_view_def expected_workflows_def expected_workflow_def)

section \<open>Pipelines that are added later\<close>

fun without_discovery :: "pw_event \<Rightarrow> bool" where
  "without_discovery (ConvEdited meta spec) \<longleftrightarrow> \<not> discovery_enabled spec"
| "without_discovery (ConvReconciled k) \<longleftrightarrow> True"

text \<open>
  Once a conversion without auto-discovery has statuses, its pipelines are fixed: whatever is edited
  and however often it is restarted, the statuses keep their identifiers and every workflow that is
  generated later comes from one of them. A pipeline added to the specification is never converted.
\<close>

theorem later_pipelines_never_converted:
  assumes "conv_ok (pww_object w)" and "csts (pww_object w) \<noteq> []" and "\<not> discovery_enabled (pc_spec (pww_object w))"
    and "\<forall>e \<in> set es. pw_honest e \<and> without_discovery e"
  shows "extends (pc_status (pww_object w)) (pc_status (pww_object (fold pw_event_step es w)))"
  using assms
proof (induction es arbitrary: w)
  case (Cons e es)
  let ?w = "pw_event_step e w"
  have ok: "conv_ok (pww_object ?w)" using pcm.inv_step [of e w] Cons.prems by simp
  have ext: "extends (pc_status (pww_object w)) (pc_status (pww_object ?w))"
    using Cons.prems reconcile_extends by (cases e) (auto simp: conversion_step_object)
  then have ne: "csts (pww_object ?w) \<noteq> []" using Cons.prems(2) by (auto simp: extends_def)
  have off: "\<not> discovery_enabled (pc_spec (pww_object ?w))"
    using Cons.prems reconcile_spec by (cases e) (simp_all add: conversion_step_object)
  show ?case using extends_trans [OF ext Cons.IH [OF ok ne off]] Cons.prems(4) by simp
qed simp

section \<open>Restarts\<close>

definition all_pipelines_done :: "pipeline_conversion \<Rightarrow> bool" where
  "all_pipelines_done m \<longleftrightarrow> csts m \<noteq> [] \<and> (\<forall>st \<in> set (csts m). pst_status st = CsCompleted)"

definition no_repository :: "pipeline_spec \<Rightarrow> bool" where
  "no_repository sp \<longleftrightarrow> (\<forall>c. wft_workflowsRepository (pws_target sp) = Some c \<longrightarrow> \<not> wrc_create c)"

lemma all_pipelines_done_stages:
  assumes "all_pipelines_done m"
  shows "find_index (\<lambda>st. pst_status st = CsPending) (csts m) = None"
    and "find_index (\<lambda>st. pst_status st \<in> {CsAnalyzing, CsConverting}) (csts m) = None"
    and "stages (pc_status m) = replicate (length (csts m)) 0"
  using assms by (auto simp: all_pipelines_done_def find_index_None stages_def intro!: replicate_eqI)

lemma all_pipelines_done_counted: "all_pipelines_done m \<Longrightarrow> conv_counted (pc_status m) \<Longrightarrow> cp_completed (cprog m) = int (length (csts m)) \<and> cp_failed (cprog m) = 0"
  by (simp add: conv_counted_def all_pipelines_done_stages(3) count_list_replicate)

lemma no_repository_setup: "no_repository (pc_spec (obj s)) \<Longrightarrow> setup_repository k s = (Inr None, s)"
  by (auto simp: setup_repository_def wants_repository_def no_repository_def split: option.splits)

lemma all_pipelines_done_next: "all_pipelines_done (obj s) \<Longrightarrow> convert_next k repo s = (Some False, s)"
  using all_pipelines_done_stages(2) [of "obj s"] by (simp add: convert_next_def Let_def)

text \<open>With everything done, analysing only changes the phase, and converting compares the counters.\<close>

lemma analyzing_done:
  assumes "all_pipelines_done (obj s)"
  shows "stored (snd (pw_processAnalyzing k s)) =
    (if k_status k (calls s) (conv_to ConvConverting ''Converting pipelines'' (obj s)) = None
     then (stored s)\<lparr>pc_status := pc_status (conv_to ConvConverting ''Converting pipelines'' (obj s))\<rparr> else stored s)"
  using assms by (auto simp: pw_processAnalyzing_def analyse_one_def all_pipelines_done_stages(1) update_then_stored all_pipelines_done_def Let_def)

lemma converting_done:
  assumes "all_pipelines_done (obj s)" and "conv_counted (pc_status (obj s))" and "no_repository (pc_spec (obj s))"
  defines "m \<equiv> conv_to ConvValidating ''Validating workflows'' (on_conv_progress conv_percentage (obj s))"
  shows "stored (snd (pw_processConverting k s)) =
    (if cp_total (cprog (obj s)) = int (length (csts (obj s))) \<and> k_status k (calls s) m = None
     then (stored s)\<lparr>pc_status := pc_status m\<rparr> else stored s)"
  using all_pipelines_done_counted [OF assms(1,2)] assms(1)
  by (auto simp: pw_processConverting_def no_repository_setup [OF assms(3)] all_pipelines_done_next Let_def
      all_converted_def update_then_stored m_def)

text \<open>A resumed conversion that has nothing to do, with counters that never meet.\<close>

definition waits_for_ever :: "pipeline_conversion \<Rightarrow> bool" where
  "waits_for_ever m \<longleftrightarrow> conv_ok m \<and> all_pipelines_done m \<and> cphase m \<in> {ConvAnalyzing, ConvConverting}
     \<and> cp_total (cprog m) \<noteq> int (length (csts m)) \<and> no_repository (pc_spec m)"

lemma conv_ok_after: "pw_env_ok k \<Longrightarrow> conv_ok m \<Longrightarrow> conv_ok (stored (snd (reconcile_conversion k (fetched m))))"
  using reconcile_moved [of k "cphase m" "fetched m"] by (simp add: at_phase_def moved_def)

lemma update_finalizers_spec:
  "pw_env_ok k \<Longrightarrow> pc_spec (obj s) = pc_spec (stored s) \<Longrightarrow> pc_spec (stored (snd (pw_update_finalizers k f s))) = pc_spec (stored s)"
  by (auto simp: pw_update_finalizers_def object_update_def pw_env_ok_def split: sum.split)

lemma waits_step:
  assumes k: "pw_env_ok k" and m: "waits_for_ever m"
  shows "waits_for_ever (stored (snd (reconcile_conversion k (fetched m))))"
proof -
  define t where "t = pw_observe k (fetched m)"
  have t: "all_pipelines_done (obj t)" "conv_counted (pc_status (obj t))" "no_repository (pc_spec (obj t))" "stored t = m"
    "cphase (obj t) = cphase m" "csts (obj t) = csts m" "cp_total (cprog (obj t)) = cp_total (cprog m)"
    using m observe_at_phase [of "cphase m" "fetched m" k] at_phase_facts(1)
    by (auto simp: t_def waits_for_ever_def all_pipelines_done_def observe_simps at_phase_def moved_def)
  have "stored (snd (pw_processPhase k t)) = m \<or> stored (snd (pw_processPhase k t)) =
      m\<lparr>pc_status := pc_status (conv_to ConvConverting ''Converting pipelines'' (obj t))\<rparr>"
    using m t analyzing_done [OF t(1), of k] converting_done [OF t(1-3), of k]
    by (auto simp: pw_processPhase_def waits_for_ever_def split: if_splits)
  then have "all_pipelines_done x \<and> cphase x \<in> {ConvAnalyzing, ConvConverting} \<and> cp_total (cprog x) \<noteq> int (length (csts x))"
    if "x = stored (snd (pw_processPhase k t))" for x
    using that m t by (auto simp: waits_for_ever_def all_pipelines_done_def conv_to_def)
  moreover have "pc_status (stored (snd (pw_update_finalizers k f t))) = pc_status m" for f
    using update_finalizers_stored(1) [OF k, of f t] t(4) by simp
  moreover have "\<not> conv_spec_changed m" using m by (auto simp: waits_for_ever_def conv_spec_changed_def conv_terminal_def)
  ultimately have "all_pipelines_done x \<and> cphase x \<in> {ConvAnalyzing, ConvConverting} \<and> cp_total (cprog x) \<noteq> int (length (csts x))"
    if "x = stored (snd (reconcile_conversion k (fetched m)))" for x
    using that m t(4) by (auto simp: reconcile_conversion_def Let_def t_def [symmetric] waits_for_ever_def all_pipelines_done_def)
  then show ?thesis
    using conv_ok_after [OF k, of m] reconcile_spec [OF k, of m] m by (simp add: waits_for_ever_def)
qed

fun without_repository :: "pw_event \<Rightarrow> bool" where
  "without_repository (ConvEdited meta spec) \<longleftrightarrow> no_repository spec"
| "without_repository (ConvReconciled k) \<longleftrightarrow> True"

lemma waits_run:
  "\<forall>e \<in> set es. pw_honest e \<and> without_repository e \<Longrightarrow> waits_for_ever (pww_object w) \<Longrightarrow> waits_for_ever (pww_object (fold pw_event_step es w))"
proof (induction es arbitrary: w)
  case (Cons e es)
  have "waits_for_ever (pww_object (pw_event_step e w))"
    using Cons.prems waits_step by (cases e) (auto simp: conversion_step_object waits_for_ever_def all_pipelines_done_def conv_ok_def)
  with Cons show ?case by simp
qed simp

text \<open>The first reconciliation after the edit.\<close>

lemma restart_resumes:
  assumes "conv_spec_changed m" and "\<not> discovery_enabled (pc_spec m)" and "new_pipelines m \<noteq> []" and "\<forall>n x. k_status k n x = None"
  shows "stored (snd (reconcile_conversion k (fetched m))) = pw_observed (resume m)"
  using assms by (simp add: reconcile_conversion_def restartConversionForSpecChange_def Let_def update_then_stored)
    (simp add: pw_observed_def resume_def on_conv_def)

lemma resumed_counted: "conv_counted (pc_status m) \<Longrightarrow> conv_counted (pc_status (pw_observed (resume m)))"
  by (simp add: pw_observed_def resume_def conv_counted_def stages_def)

text \<open>
  A finished conversion whose specification now lists a new pipeline, but not as many pipelines as
  have been converted, is resumed and then never ends: it stays Analyzing or Converting for ever,
  whatever is edited and however often it is reconciled.
\<close>

theorem resumed_conversion_never_ends:
  assumes "conv_ok m" and "all_pipelines_done m" and "conv_spec_changed m" and "\<not> discovery_enabled (pc_spec m)" and "no_repository (pc_spec m)"
    and "new_pipelines m \<noteq> []" and "length (pws_pipelines (pc_spec m)) \<noteq> length (csts m)"
    and "pw_env_ok k" and "\<forall>n x. k_status k n x = None" and "\<forall>e \<in> set es. pw_honest e \<and> without_repository e"
  shows "cphase (pww_object (fold pw_event_step (ConvReconciled k # es) \<lparr>pww_object = m, pww_effects = []\<rparr>)) \<in> {ConvAnalyzing, ConvConverting}"
proof -
  let ?x = "pw_observed (resume m)"
  have x: "stored (snd (reconcile_conversion k (fetched m))) = ?x" by (rule restart_resumes [OF assms(3,4,6,9)])
  have "waits_for_ever ?x"
    using assms(2,5,7) conv_ok_after [OF assms(8,1)] x by (auto simp: waits_for_ever_def all_pipelines_done_def pw_observed_def resume_def)
  then have "waits_for_ever (pww_object (conversion_step k \<lparr>pww_object = m, pww_effects = []\<rparr>))"
    by (simp add: conversion_step_object x)
  from waits_run [OF assms(10) this] show ?thesis by (simp add: waits_for_ever_def)
qed

definition attended :: "pipeline_conversion \<Rightarrow> bool" where
  "attended m \<longleftrightarrow> om_deletionTimestamp (pc_meta m) = None \<and> pw_finalizerName \<in> set (om_finalizers (pc_meta m))"

lemma attended_reconcile:
  "attended m \<Longrightarrow> \<not> conv_spec_changed m \<Longrightarrow> reconcile_conversion k (fetched m) = pw_processPhase k (pw_observe k (fetched m))"
  by (simp add: attended_def reconcile_conversion_def Let_def observe_simps)

lemma conv_ok_observed: "conv_ok m \<Longrightarrow> conv_counted (pc_status (obj (pw_observe k (fetched m)))) \<and> phase_fits (pc_status (obj (pw_observe k (fetched m))))"
  using observe_at_phase [of "cphase m" "fetched m" k] at_phase_facts [of "cphase m" "pw_observe k (fetched m)"] by (simp add: at_phase_def moved_def)

text \<open>What every step of a resumed conversion with as many pipelines as before keeps.\<close>

definition resumed_from :: "pipeline_conversion \<Rightarrow> conv_phase \<Rightarrow> pipeline_conversion \<Rightarrow> bool" where
  "resumed_from m ph x \<longleftrightarrow> conv_ok x \<and> cphase x = ph \<and> csts x = csts m \<and> pc_meta x = pc_meta m \<and> pc_spec x = pc_spec m
     \<and> pwt_generatedWorkflows (pc_status x) = pwt_generatedWorkflows (pc_status m) \<and> cp_total (cprog x) = int (length (csts m))
     \<and> pwt_observedGeneration (pc_status x) = om_generation (pc_meta m)"

lemma resumed_next:
  assumes m: "all_pipelines_done m" "attended m" "no_repository (pc_spec m)" and ph: "(p, q) \<in> {(ConvAnalyzing, ConvConverting), (ConvConverting, ConvValidating)}"
    and x: "resumed_from m p x" and k: "pw_env_ok k" "\<forall>n x. k_status k n x = None"
  shows "resumed_from m q (stored (snd (reconcile_conversion k (fetched x))))"
proof -
  define t where "t = pw_observe k (fetched x)"
  have t: "all_pipelines_done (obj t)" "conv_counted (pc_status (obj t))" "no_repository (pc_spec (obj t))" "stored t = x" "cphase (obj t) = p"
    "csts (obj t) = csts m" "pwt_generatedWorkflows (pc_status (obj t)) = pwt_generatedWorkflows (pc_status m)"
    "cp_total (cprog (obj t)) = int (length (csts m))" "pwt_observedGeneration (pc_status (obj t)) = om_generation (pc_meta m)"
    using m x conv_ok_observed [of x k] by (simp_all add: t_def resumed_from_def all_pipelines_done_def observe_simps)
  have "reconcile_conversion k (fetched x) = pw_processPhase k t"
    unfolding t_def by (rule attended_reconcile) (use m(2) x ph in \<open>auto simp: attended_def resumed_from_def conv_spec_changed_def\<close>)
  then have "stored (snd (reconcile_conversion k (fetched x))) =
      x\<lparr>pc_status := pc_status (if p = ConvAnalyzing then conv_to ConvConverting ''Converting pipelines'' (obj t)
        else conv_to ConvValidating ''Validating workflows'' (on_conv_progress conv_percentage (obj t)))\<rparr>"
    using ph t analyzing_done [OF t(1), of k] converting_done [OF t(1-3), of k] k(2) by (auto simp: pw_processPhase_def)
  moreover have "conv_ok (stored (snd (reconcile_conversion k (fetched x))))" by (rule conv_ok_after [OF k(1)]) (use x in \<open>simp add: resumed_from_def\<close>)
  ultimately show ?thesis using ph t x by (auto simp: resumed_from_def conv_to_def)
qed

text \<open>
  A finished conversion in whose specification pipelines are replaced, so that their number stays the
  same, is Completed again four reconciliations later, with the workflows it had: none of the new
  pipelines was converted.
\<close>

theorem replaced_pipelines_reported_completed:
  assumes "conv_ok m" and "all_pipelines_done m" and "attended m" and "conv_spec_changed m" and "\<not> discovery_enabled (pc_spec m)" and "no_repository (pc_spec m)"
    and "new_pipelines m \<noteq> []" and len: "length (pws_pipelines (pc_spec m)) = length (csts m)" and "spec_valid (pc_spec m)"
    and ks: "\<forall>k \<in> {k1, k2, k3, k4}. pw_env_ok k \<and> (\<forall>n x. k_status k n x = None) \<and> (\<forall>s. pe_wait k s = None)"
    and x: "x = pww_object (fold conversion_step [k1, k2, k3, k4] \<lparr>pww_object = m, pww_effects = []\<rparr>)"
  shows "cphase x = ConvCompleted \<and> pwt_generatedWorkflows (pc_status x) = pwt_generatedWorkflows (pc_status m)
    \<and> (\<exists>p \<in> set (pws_pipelines (pc_spec x)). \<forall>st \<in> set (csts x). pst_pipelineID st \<noteq> plr_id p)"
proof -
  define m1 where "m1 = pw_observed (resume m)"
  have m1: "stored (snd (reconcile_conversion k1 (fetched m))) = m1"
    unfolding m1_def by (rule restart_resumes) (use assms in simp_all)
  have "conv_ok m1" using conv_ok_after [of k1 m] assms(1) ks m1 by simp
  then have r1: "resumed_from m ConvAnalyzing m1"
    using len by (simp add: resumed_from_def m1_def pw_observed_def resume_def)
  define m2 where "m2 = stored (snd (reconcile_conversion k2 (fetched m1)))"
  have r2: "resumed_from m ConvConverting m2"
    unfolding m2_def by (rule resumed_next [OF _ _ _ _ r1]) (use assms in auto)
  define m3 where "m3 = stored (snd (reconcile_conversion k3 (fetched m2)))"
  have r3: "resumed_from m ConvValidating m3"
    unfolding m3_def by (rule resumed_next [OF _ _ _ _ r2]) (use assms in auto)
  define t where "t = pw_observe k4 (fetched m3)"
  have t: "cphase (obj t) = ConvValidating" "pc_spec (obj t) = pc_spec m" "csts (obj t) = csts m" "stored t = m3"
    "pwt_generatedWorkflows (pc_status (obj t)) = pwt_generatedWorkflows (pc_status m)"
    using r3 by (simp_all add: t_def resumed_from_def observe_simps)
  have "pe_wait k4 t = None" using ks by simp
  then obtain r r' v now stats u where vc: "ValidateConversion k4 t = (Inr r, v)" "cvs_valid r' = cvs_valid r"
    and eq: "pw_processValidating k4 t = pw_update_then k4 no_requeue no_requeue u" and u: "stored u = stored t"
      "pc_status (obj u) = concluded r' now stats (pc_status (obj t))"
    using processValidating_cases [of k4 t] ValidateConversion_waits by (elim disjE exE conjE) (simp, blast)
  have "cvs_valid r'" using ValidateConversion_valid [OF vc(1)] vc(2) t(2) assms(9) by simp
  moreover have "reconcile_conversion k4 (fetched m3) = pw_processPhase k4 t"
    unfolding t_def by (rule attended_reconcile) (use assms(3) r3 in \<open>auto simp: attended_def resumed_from_def conv_spec_changed_def\<close>)
  then have "stored (snd (reconcile_conversion k4 (fetched m3))) = m3\<lparr>pc_status := concluded r' now stats (pc_status (obj t))\<rparr>"
    using t(1,4) ks u by (simp add: pw_processPhase_def eq update_then_stored)
  moreover have "x = stored (snd (reconcile_conversion k4 (fetched m3)))"
    by (simp add: x conversion_step_object m1 m2_def m3_def)
  moreover obtain p where "p \<in> set (pws_pipelines (pc_spec m))" "\<forall>st \<in> set (csts m). pst_pipelineID st \<noteq> plr_id p"
    using assms(7) by (simp add: new_pipelines_def filter_empty_conv) (metis imageI)
  ultimately show ?thesis using t r3 by (auto simp: concluded_def resumed_from_def)
qed

section \<open>A failure is not repeated\<close>

text \<open>Edits that list no pipeline without a status, and do not enable discovery.\<close>

fun adds_nothing_to :: "string set \<Rightarrow> pw_event \<Rightarrow> bool" where
  "adds_nothing_to I (ConvEdited meta spec) \<longleftrightarrow> \<not> discovery_enabled spec \<and> plr_id ` set (pws_pipelines spec) \<subseteq> I"
| "adds_nothing_to I (ConvReconciled k) \<longleftrightarrow> True"

definition settled_at :: "pipeline_conversion \<Rightarrow> pipeline_conversion \<Rightarrow> bool" where
  "settled_at m x \<longleftrightarrow> conv_ok x \<and> (\<exists>g. pc_status x = (pc_status m)\<lparr>pwt_observedGeneration := g\<rparr>) \<and> \<not> discovery_enabled (pc_spec x)
     \<and> plr_id ` set (pws_pipelines (pc_spec x)) \<subseteq> pst_pipelineID ` set (csts m)"

lemma settled_step:
  assumes k: "pw_env_ok k" and m: "cphase m \<in> {ConvCompleted, ConvFailed}" and x: "settled_at m x"
  shows "settled_at m (stored (snd (reconcile_conversion k (fetched x))))"
proof -
  have ph: "cphase x = cphase m" "csts x = csts m" using x by (auto simp: settled_at_def)
  have none: "new_pipelines x = []" using x ph by (auto simp: new_pipelines_def filter_empty_conv settled_at_def)
  define t where "t = pw_observe k (fetched x)"
  have "\<exists>g. pc_status (stored (snd (reconcile_conversion k (fetched x)))) = (pc_status m)\<lparr>pwt_observedGeneration := g\<rparr>"
  proof (cases "conv_spec_changed x")
    case True
    then show ?thesis using x none
      by (auto simp: reconcile_conversion_def restartConversionForSpecChange_def Let_def update_then_stored settled_at_def pw_observed_def)
  next
    case False
    have fin: "pc_status (stored (snd (pw_update_finalizers k f t))) = pc_status x" for f
      using update_finalizers_stored(1) [OF k, of f t] by (simp add: t_def)
    have "stored (snd (pw_processPhase k t)) = x"
      using m ph(1) by (auto simp: pw_processPhase_def t_def observe_simps)
    moreover have "stored t = x" by (simp add: t_def)
    ultimately have "pc_status (stored (snd (reconcile_conversion k (fetched x)))) = pc_status x"
      using False fin by (simp add: reconcile_conversion_def Let_def t_def [symmetric])
    then show ?thesis using x by (simp add: settled_at_def)
  qed
  then show ?thesis using conv_ok_after [OF k, of x] reconcile_spec [OF k, of x] x by (simp add: settled_at_def)
qed

text \<open>
  A finished conversion is never taken up again by an edit that adds no pipeline: one that Failed
  because of its settings stays Failed, with the same error, after they are corrected.
\<close>

theorem failure_is_final:
  assumes "conv_ok m" and "cphase m \<in> {ConvCompleted, ConvFailed}" and "\<not> discovery_enabled (pc_spec m)"
    and "plr_id ` set (pws_pipelines (pc_spec m)) \<subseteq> pst_pipelineID ` set (csts m)"
    and "\<forall>e \<in> set es. pw_honest e \<and> adds_nothing_to (pst_pipelineID ` set (csts m)) e"
  shows "\<exists>g. pc_status (pww_object (fold pw_event_step es \<lparr>pww_object = m, pww_effects = []\<rparr>)) = (pc_status m)\<lparr>pwt_observedGeneration := g\<rparr>"
proof -
  have "settled_at m (pww_object (fold pw_event_step es w))" if "settled_at m (pww_object w)" for w
    using that assms(5)
  proof (induction es arbitrary: w)
    case (Cons e es)
    have "settled_at m (pww_object (pw_event_step e w))"
      using Cons.prems settled_step [OF _ assms(2)] by (cases e) (auto simp: conversion_step_object settled_at_def conv_ok_def)
    with Cons show ?case by simp
  qed simp
  moreover have "settled_at m m" using assms(1,3,4)
    by (auto simp: settled_at_def intro!: exI [of _ "pwt_observedGeneration (pc_status m)"])
  ultimately show ?thesis by (simp add: settled_at_def)
qed

section \<open>What reaches the workflows repository\<close>

definition is_api :: "effect \<Rightarrow> bool" where
  "is_api e = (case e of ApiWrite _ \<Rightarrow> True | _ \<Rightarrow> False)"

definition calls_of :: "pw_state \<Rightarrow> effect list" where
  "calls_of s = filter is_api (effects s)"

lemma calls_simps [simp]:
  "calls_of (announce b e r msg s) = calls_of s" "calls_of (modify f s) = calls_of s" "calls_of (emit (Broadcast b) s) = calls_of s"
  "calls_of (snd (pw_update_then k x y s)) = calls_of s" "calls_of (snd (read_clock k s)) = calls_of s"
  "calls_of (fetched m) = []" "calls_of (pw_observe k s) = calls_of s"
  by (simp_all add: calls_of_def is_api_def update_then_stored observe_simps)

lemma no_api: "\<forall>c. ApiWrite c \<notin> set ex \<Longrightarrow> filter is_api ex = []"
  by (auto simp: filter_empty_conv is_api_def split: effect.splits)

lemma validating_calls: "calls_of (snd (pw_processValidating k s)) = calls_of s"
  using processValidating_cases [of k s]
proof (elim disjE exE conjE)
  fix a b err v
  assume v: "ValidateConversion k s = (Inl err, v)" and "pw_processValidating k s = pw_update_then k a b
       (announce ''Validation failed'' EventWarning ''ValidationFailed'' (''Validation failed: '' @ err_text err)
          (modify (conv_failed (''Validation failed: '' @ err_text err)) v))"
  moreover have "effects v = effects s" using ValidateConversion_obj(3) [of k s] by (simp add: v)
  ultimately show ?thesis by (simp add: calls_of_def update_then_stored is_api_def)
next
  fix r r' v now stats t ex
  assume "pw_processValidating k s = pw_update_then k no_requeue no_requeue t" "effects t = effects s @ ex" "\<forall>c. ApiWrite c \<notin> set ex"
  then show ?thesis using no_api by (simp add: calls_of_def update_then_stored)
qed

lemma start_converting_calls: "calls_of (start_converting i s) = calls_of s"
  by (simp add: start_converting_def Let_def)

lemma convert_none_calls: "calls_of (snd (convert_next k None s)) = calls_of s"
proof -
  have "calls_of (snd (convert_current k None i s)) = calls_of s" for i
    by (simp add: convert_current_def Let_def workflow_of push_workflow_def finish_converting_def case_prod_unfold)
  then show ?thesis by (simp add: convert_next_def Let_def start_converting_calls split: option.split)
qed

definition is_set_up :: "pipeline_conversion \<Rightarrow> bool" where
  "is_set_up m \<longleftrightarrow> cp_currentStep (cprog m) = ''WorkflowsRepositorySetup''"

lemma set_up_setup: "is_set_up (obj s) \<Longrightarrow> setup_repository k s = (Inr None, s)"
  by (auto simp: setup_repository_def wants_repository_def is_set_up_def split: option.split)

definition after_setup :: "pipeline_conversion \<Rightarrow> bool" where
  "after_setup m \<longleftrightarrow> conv_ok m \<and> attended m \<and> pwt_observedGeneration (pc_status m) = om_generation (pc_meta m)
     \<and> (cphase m \<in> {ConvValidating, ConvCompleted, ConvFailed} \<or> cphase m = ConvConverting \<and> is_set_up m)"

lemma convert_next_rest:
  assumes "convert_next k repo s = (Some b, t)" and "conv_counted (pc_status (obj s))"
  shows "pwt_observedGeneration (pc_status (obj t)) = pwt_observedGeneration (pc_status (obj s))"
    "cp_currentStep (cprog (obj t)) = cp_currentStep (cprog (obj s))" "cphase (obj t) = cphase (obj s)"
  using convert_next_frame(5) [OF assms]
  by (auto simp: conv_started_at_def converted_at_def Let_def split: option.splits if_splits)

lemma converting_set_up:
  assumes up: "is_set_up (obj s)" and ok: "conv_counted (pc_status (obj s))" "cphase (obj s) = ConvConverting" and obj: "pwt_observedGeneration (pc_status (obj s)) = g"
    and st: "pwt_observedGeneration (pc_status (stored s)) = g" "cphase (stored s) = ConvConverting" "is_set_up (stored s)"
    and x_def: "x = stored (snd (pw_processConverting k s))"
  shows "calls_of (snd (pw_processConverting k s)) = calls_of s" "pwt_observedGeneration (pc_status x) = g"
    "cphase x = ConvValidating \<or> cphase x = ConvConverting \<and> is_set_up x"
proof -
  obtain b t where conv: "convert_next k None s = (b, t)" by fastforce
  have calls: "calls_of t = calls_of s" using convert_none_calls [of k s] by (simp add: conv)
  have t: "stored t = stored s" by (rule convert_next_frame(1) [OF conv ok(1)])
  show "calls_of (snd (pw_processConverting k s)) = calls_of s"
    using calls by (auto simp: pw_processConverting_def set_up_setup [OF up] conv Let_def split: option.split)
  show "pwt_observedGeneration (pc_status x) = g" "cphase x = ConvValidating \<or> cphase x = ConvConverting \<and> is_set_up x"
    using t st obj up ok(2) convert_next_rest [of k None s _ t] conv ok(1)
    by (auto simp: x_def pw_processConverting_def set_up_setup [OF up] Let_def update_then_stored conv_to_def is_set_up_def split: option.split)
qed

lemma after_setup_step:
  assumes k: "pw_env_ok k" and m: "after_setup m"
  shows "after_setup (stored (snd (reconcile_conversion k (fetched m)))) \<and> calls_of (snd (reconcile_conversion k (fetched m))) = []"
proof -
  have same: "pw_observe k (fetched m) = fetched m" using m by (simp add: pw_observe_def after_setup_def)
  have rec: "reconcile_conversion k (fetched m) = pw_processPhase k (fetched m)"
    using attended_reconcile [of m k] m by (simp add: same after_setup_def conv_spec_changed_def)
  have ok: "conv_counted (pc_status m)" using m by (simp add: after_setup_def conv_ok_def)
  define x where "x = stored (snd (pw_processPhase k (fetched m)))"
  have "conv_ok x" using conv_ok_after [OF k, of m] m rec by (simp add: after_setup_def x_def)
  moreover have "pc_meta x = pc_meta m"
    using processPhase_only [of "fetched m" k] ok by (auto simp: x_def status_only_def)
  moreover have "calls_of (snd (pw_processPhase k (fetched m))) = [] \<and> pwt_observedGeneration (pc_status x) = om_generation (pc_meta m)
      \<and> (cphase x \<in> {ConvValidating, ConvCompleted, ConvFailed} \<or> cphase x = ConvConverting \<and> is_set_up x)"
  proof -
    consider "cphase m = ConvConverting" "is_set_up m" | "cphase m = ConvValidating" | "cphase m \<in> {ConvCompleted, ConvFailed}"
      using m by (auto simp: after_setup_def)
    then show ?thesis
    proof cases
      case 1
      have g: "pwt_observedGeneration (pc_status m) = om_generation (pc_meta m)" using m by (simp add: after_setup_def)
      have "calls_of (snd (pw_processConverting k (fetched m))) = calls_of (fetched m)"
        "pwt_observedGeneration (pc_status (stored (snd (pw_processConverting k (fetched m))))) = om_generation (pc_meta m)"
        "cphase (stored (snd (pw_processConverting k (fetched m)))) = ConvValidating
         \<or> cphase (stored (snd (pw_processConverting k (fetched m)))) = ConvConverting \<and> is_set_up (stored (snd (pw_processConverting k (fetched m))))"
        by (rule converting_set_up [OF _ _ _ _ _ _ _ refl]; use 1 g ok in simp)+
      with 1 show ?thesis by (auto simp: pw_processPhase_def x_def)
    next
      case 2
      have "pwt_observedGeneration (pc_status y) = om_generation (pc_meta m) \<and> cphase y \<in> {ConvValidating, ConvCompleted, ConvFailed}"
        if "y = stored (snd (pw_processValidating k (fetched m)))" for y
        using processValidating_cases [of k "fetched m"] ValidateConversion_obj(1,2) [of k "fetched m"] that 2 m
        by (elim disjE exE conjE) (auto simp: update_then_stored conv_failed_def concluded_def after_setup_def)
      with 2 show ?thesis using validating_calls [of k "fetched m"] by (auto simp: pw_processPhase_def x_def)
    next
      case 3
      then show ?thesis using m by (auto simp: pw_processPhase_def x_def after_setup_def)
    qed
  qed
  ultimately show ?thesis using m rec by (simp add: after_setup_def attended_def x_def)
qed

lemma after_setup_run:
  "\<forall>k \<in> set ks. pw_env_ok k \<Longrightarrow> after_setup (pww_object w) \<Longrightarrow>
     filter is_api (pww_effects (fold conversion_step ks w)) = filter is_api (pww_effects w)"
proof (induction ks arbitrary: w)
  case (Cons k ks)
  have "after_setup (pww_object (conversion_step k w))" "filter is_api (pww_effects (conversion_step k w)) = filter is_api (pww_effects w)"
    using after_setup_step [of k "pww_object w"] Cons.prems by (simp_all add: conversion_step_def Let_def calls_of_def)
  with Cons show ?case by simp
qed simp

text \<open>
  When the workflows repository is set up at the first attempt, which is when the first pipeline is
  taken up, no workflow is ever pushed to it: in this and all later reconciliations the only calls
  that change anything at GitHub are those that set the repository up.
\<close>

theorem workflows_not_pushed:
  assumes "conv_ok m" and "attended m" and "pwt_observedGeneration (pc_status m) = om_generation (pc_meta m)"
    and ph: "cphase m = ConvConverting" and first: "\<forall>st \<in> set (csts m). pst_status st = CsAnalyzing" and ne: "csts m \<noteq> []"
    and total: "cp_total (cprog m) \<noteq> 0"
    and wants: "wants_repository m" and tok: "pw_getGitHubToken k (fetched m) = Inr tok"
    and up: "SetupWorkflowsRepository k tok (pc_spec m) (fetched m) = (Inr repo, u)"
    and k: "pw_env_ok k" "\<forall>n x. k_status k n x = None" and ks: "\<forall>k \<in> set ks. pw_env_ok k"
  shows "filter is_api (pww_effects (fold conversion_step (k # ks) \<lparr>pww_object = m, pww_effects = []\<rparr>)) = filter is_api (effects u)"
proof -
  let ?s = "fetched m"
  define t where "t = modify (conv_step ''WorkflowsRepositorySetup'') (emit (Broadcast (''Workflows repository ready: '' @ wri_fullName repo)) u)"
  have q: "conv_quiet ?s u" using conv_quiet_setup [of ?s k tok "pc_spec m"] by (simp add: up)
  have prep: "setup_repository k ?s = (Inr (Some repo), t)"
    using wants tok up by (simp add: setup_repository_def t_def)
  have t: "csts (obj t) = csts m" "conv_counted (pc_status (obj t))" "stored t = m" "calls t = 0" "calls_of t = filter is_api (effects u)"
    "cp_completed (cprog (obj t)) = cp_completed (cprog m)" "cp_failed (cprog (obj t)) = cp_failed (cprog m)" "cp_total (cprog (obj t)) = cp_total (cprog m)"
    "pwt_observedGeneration (pc_status (obj t)) = pwt_observedGeneration (pc_status m)" "is_set_up (obj t)" "cphase (obj t) = ConvConverting"
    using q assms(1) ph by (simp_all add: conv_quiet_def t_def conv_step_def conv_ok_def conv_counted_def stages_def is_set_up_def)
      (simp add: calls_of_def is_api_def)
  have idx: "find_index (\<lambda>st. pst_status st \<in> {CsAnalyzing, CsConverting}) (csts m) = Some 0" "pst_status (csts m ! 0) = CsAnalyzing"
    using first ne by (cases "csts m"; simp)+
  have conv: "convert_next k (Some repo) t = (Some True, start_converting 0 t)"
    using idx t(1) by (simp add: convert_next_def Let_def)
  have zero: "cp_completed (cprog m) = 0" "cp_failed (cprog m) = 0"
  proof -
    have "stages (pc_status m) = replicate (length (csts m)) 2" using first by (auto simp: stages_def intro!: replicate_eqI)
    then show "cp_completed (cprog m) = 0" "cp_failed (cprog m) = 0"
      using assms(1) by (simp_all add: conv_ok_def conv_counted_def count_list_replicate)
  qed
  define v where "v = modify (on_conv_progress conv_percentage) (start_converting 0 t)"
  have v: "\<not> all_converted (obj v)" "stored v = m" "calls_of v = filter is_api (effects u)"
    "pwt_observedGeneration (pc_status (obj v)) = pwt_observedGeneration (pc_status m)" "is_set_up (obj v)" "cphase (obj v) = ConvConverting"
    using t zero total by (simp_all add: v_def start_converting_calls start_converting_def Let_def all_converted_def is_set_up_def)
  have same: "pw_observe k ?s = ?s" using assms(3) by (simp add: pw_observe_def)
  have rec: "reconcile_conversion k ?s = returned (pw_update_then k (after (5 * second)) (after (10 * second)) v)"
    using attended_reconcile [OF assms(2), of k] ph v(1)
    by (simp add: same conv_spec_changed_def conv_terminal_def pw_processPhase_def pw_processConverting_def prep conv Let_def v_def)
  define x where "x = stored (snd (reconcile_conversion k ?s))"
  have x: "x = m\<lparr>pc_status := pc_status (obj v)\<rparr>" using k(2) v(2) by (simp add: x_def rec update_then_stored)
  have "conv_ok x" unfolding x_def by (rule conv_ok_after [OF k(1) assms(1)])
  then have "after_setup x"
    using assms(2,3) v by (simp add: x after_setup_def attended_def is_set_up_def)
  moreover have "filter is_api (pww_effects (conversion_step k \<lparr>pww_object = m, pww_effects = []\<rparr>)) = filter is_api (effects u)"
    using v(3) by (simp add: conversion_step_def Let_def rec update_then_stored) (simp add: calls_of_def)
  ultimately show ?thesis
    using after_setup_run [OF ks, of "conversion_step k \<lparr>pww_object = m, pww_effects = []\<rparr>"] by (simp add: conversion_step_object x_def)
qed

section \<open>Discovery that finds nothing\<close>

definition finds_nothing :: "pw_env \<Rightarrow> pw_state \<Rightarrow> bool" where
  "finds_nothing k s \<longleftrightarrow> (case DiscoverPipelines k s of
     Some (Inr d) \<Rightarrow> dr_buildPipelines d = [] \<and> dr_releasePipelines d = [] | _ \<Rightarrow> False)"

definition searching :: "pipeline_conversion \<Rightarrow> bool" where
  "searching m \<longleftrightarrow> conv_ok m \<and> cphase m = ConvAnalyzing \<and> csts m = [] \<and> discovery_enabled (pc_spec m)"

lemma searching_step:
  assumes k: "pw_env_ok k" and m: "searching m" and finds: "\<And>s. pc_spec (obj s) = pc_spec m \<Longrightarrow> pc_meta (obj s) = pc_meta m \<Longrightarrow> finds_nothing k s"
  shows "searching (stored (snd (reconcile_conversion k (fetched m))))"
proof -
  define t where "t = pw_observe k (fetched m)"
  have t: "cphase (obj t) = ConvAnalyzing" "csts (obj t) = []" "discovery_enabled (pc_spec (obj t))" "stored t = m"
    using m by (simp_all add: t_def observe_simps searching_def)
  have "finds_nothing k t" using finds [of t] by (simp add: t_def observe_simps)
  then obtain d where d: "DiscoverPipelines k t = Some (Inr d)" "dr_buildPipelines d = []" "dr_releasePipelines d = []"
    by (auto simp: finds_nothing_def split: option.splits sum.splits)
  obtain u where u: "discover k t = (Some (Inr ()), u)" "pws_pipelines (pc_spec (obj u)) = []" "pc_status (obj u) = pc_status (obj t)" "stored u = m"
    using d t(4) by (simp add: discover_def ConvertDiscoveredPipelinesToResources_def)
  define x where "x = stored (snd (pw_processPhase k t))"
  have "cphase x = ConvAnalyzing \<and> csts x = []"
    using t u m by (simp add: x_def pw_processPhase_def pw_processAnalyzing_def initialise_pipelines_def update_then_stored searching_def)
      (simp add: init_statuses_def)
  moreover have "pc_status (stored (snd (pw_update_finalizers k f t))) = pc_status m" for f
    using update_finalizers_stored(1) [OF k, of f t] t(4) by simp
  moreover have "\<not> conv_spec_changed m" using m by (auto simp: searching_def conv_spec_changed_def conv_terminal_def)
  ultimately have "cphase y = ConvAnalyzing \<and> csts y = []" if "y = stored (snd (reconcile_conversion k (fetched m)))" for y
    using that m t(4) by (simp add: reconcile_conversion_def Let_def t_def [symmetric] x_def searching_def)
  then show ?thesis using conv_ok_after [OF k, of m] reconcile_spec [OF k, of m] m by (simp add: searching_def)
qed

text \<open>
  A conversion whose discovery finds no pipeline, for instance because neither kind of pipelines is
  included, stays Analyzing and is never Completed or Failed, as long as discovery finds none.
\<close>

theorem empty_discovery_never_ends:
  assumes "conv_ok m" and "cphase m = ConvAnalyzing" and "csts m = []" and "discovery_enabled (pc_spec m)"
    and "\<forall>k \<in> set ks. pw_env_ok k \<and> (\<forall>s. pc_spec (obj s) = pc_spec m \<longrightarrow> finds_nothing k s)"
  shows "cphase (pww_object (fold conversion_step ks \<lparr>pww_object = m, pww_effects = []\<rparr>)) = ConvAnalyzing"
proof -
  have "searching (pww_object (fold conversion_step ks w)) \<and> pc_spec (pww_object (fold conversion_step ks w)) = pc_spec m"
    if "searching (pww_object w)" "pc_spec (pww_object w) = pc_spec m" for w
    using that assms(5)
  proof (induction ks arbitrary: w)
    case (Cons k ks)
    have "searching (pww_object (conversion_step k w))"
      using searching_step [of k "pww_object w"] Cons.prems by (simp add: conversion_step_object)
    moreover have "pc_spec (pww_object (conversion_step k w)) = pc_spec m"
      using reconcile_spec [of k "pww_object w"] Cons.prems by (simp add: conversion_step_object searching_def)
    ultimately show ?case using Cons by simp
  qed simp
  moreover have "searching m" using assms(1-4) by (simp add: searching_def)
  ultimately show ?thesis by (simp add: searching_def)
qed

section \<open>Samples\<close>

definition sample_pipeline :: "string \<Rightarrow> string \<Rightarrow> pipeline_resource" where
  "sample_pipeline i kind = \<lparr>plr_id = i, plr_name = ''ci'', plr_type = kind, plr_targetWorkflowName = ''ci.yml'', plr_settings = None,
     plr_customMappings = Map.empty\<rparr>"

definition sample_pipelines_spec :: "pipeline_resource list \<Rightarrow> pipeline_spec" where
  "sample_pipelines_spec ps = \<lparr>
     pws_source = \<lparr>pso_organization = ''org'', pso_project = ''proj'', pso_auth = \<lparr>ado_servicePrincipal = None,
       ado_pat = Some \<lparr>pat_tokenRef = \<lparr>sr_name = ''ado'', sr_key = ''token'', sr_namespace = []\<rparr>\<rparr>\<rparr>, pso_apiURL = []\<rparr>,
     pws_target = \<lparr>wft_owner = ''o'', wft_repository = ''r'', wft_auth = secret_token, wft_apiURL = [], wft_workflowDirectory = [],
       wft_defaultWorkflowSettings = None, wft_workflowsRepository = None\<rparr>,
     pws_settings = \<lparr>cs_convertVariables = False, cs_convertVariableGroups = False, cs_convertServiceConnections = False,
       cs_convertArtifacts = False, cs_convertApprovals = False, cs_preserveComments = False, cs_generateMatrix = False,
       cs_useCompositeActions = False, cs_taskMappings = Map.empty, cs_templates = None, cs_parallelJobs = 3, cs_retryAttempts = 0\<rparr>,
     pws_autoDiscovery = None, pws_pipelines = ps, pws_type = ''all'', pws_validationRules = None\<rparr>"

definition sample_conversion :: "pipeline_resource list \<Rightarrow> pipeline_conversion" where
  "sample_conversion ps = \<lparr>pc_meta = zero_meta\<lparr>om_generation := 1\<rparr>, pc_spec = sample_pipelines_spec ps, pc_status = zero_conv_status\<rparr>"

lemma sample_pw_ok: "pw_env_ok sample_pw" "\<forall>n x. k_status sample_pw n x = None" "\<forall>s. pe_wait sample_pw s = None"
  by (auto simp: pw_env_ok_def sample_pw_def)

lemma sample_obliging: "obliging (sample_pipelines_spec ps) sample_pw"
  by (simp add: obliging_def sample_pw_def sample_pipelines_spec_def)

lemma sample_undisturbed: "ps \<noteq> [] \<Longrightarrow> undisturbed (sample_pipelines_spec ps)"
  by (simp add: undisturbed_def discovery_enabled_def sample_pipelines_spec_def pw_validateConfiguration_def)

lemma sample_brand_new: "brand_new (sample_conversion ps)"
  by (simp add: brand_new_def sample_conversion_def zero_meta_def)

lemma sample_spec [simp]: "pc_spec (sample_conversion ps) = sample_pipelines_spec ps" "pws_pipelines (sample_pipelines_spec ps) = ps"
  "\<not> discovery_enabled (sample_pipelines_spec ps)"
  "no_repository (sample_pipelines_spec ps)"
  by (simp_all add: sample_conversion_def sample_pipelines_spec_def discovery_enabled_def no_repository_def)

theorem conversion_life_witness:
  "cphase (pww_object (fold pw_event_step [ConvReconciled sample_pw, ConvEdited zero_meta (sample_pipelines_spec [])]
     \<lparr>pww_object = sample_conversion [sample_pipeline ''5'' ''build''], pww_effects = []\<rparr>)) \<noteq> ConvCancelled"
  using conversion_life [OF sample_brand_new, of "[ConvReconciled sample_pw, ConvEdited zero_meta (sample_pipelines_spec [])]"] sample_pw_ok(1)
  by simp

theorem conversion_follows_schedule_witness:
  "conv_view (pww_object (fold conversion_step (replicate 4 sample_pw)
     \<lparr>pww_object = sample_conversion [sample_pipeline ''5'' ''build'', sample_pipeline ''6'' ''release''], pww_effects = []\<rparr>))
   = (ConvAnalyzing, [CsPending, CsPending], [])"
  using conversion_follows_schedule [OF sample_brand_new, of "[sample_pipeline ''5'' ''build'', sample_pipeline ''6'' ''release'']" "replicate 4 sample_pw"]
    sample_obliging sample_undisturbed
  by (simp add: schedule_def numeral_2_eq_2)

lemma sample_valid: "list_all (\<lambda>p. validatePipeline p = None) ps \<Longrightarrow> spec_valid (sample_pipelines_spec ps)"
  by (simp add: spec_valid_def validateConversionSettings_def) (simp add: sample_pipelines_spec_def)

theorem conversion_left_alone_witness:
  "cphase (pww_object (fold conversion_step (replicate 11 sample_pw)
     \<lparr>pww_object = sample_conversion [sample_pipeline ''5'' ''build'', sample_pipeline ''6'' ''release''], pww_effects = []\<rparr>)) = ConvCompleted"
proof -
  let ?ps = "[sample_pipeline ''5'' ''build'', sample_pipeline ''6'' ''release'']"
  have "spec_valid (sample_pipelines_spec ?ps)" by (rule sample_valid) (simp add: sample_pipeline_def validatePipeline_def)
  moreover have "distinct (map plr_id ?ps)" by (simp add: sample_pipeline_def)
  ultimately show ?thesis
    using conversion_left_alone [OF sample_brand_new, of ?ps "replicate 11 sample_pw"] sample_obliging sample_undisturbed by simp
qed

theorem shared_identifier_witness:
  "(let ws = pwt_generatedWorkflows (pc_status (pww_object (fold conversion_step (replicate 11 sample_pw)
      \<lparr>pww_object = sample_conversion [sample_pipeline ''5'' ''build'', sample_pipeline ''5'' ''release''], pww_effects = []\<rparr>))) in ws ! 1 = ws ! 0)"
proof -
  let ?ps = "[sample_pipeline ''5'' ''build'', sample_pipeline ''5'' ''release'']"
  have "plr_id (?ps ! 1) = plr_id (?ps ! 0)" by (simp add: sample_pipeline_def)
  then show ?thesis
    using shared_identifier [OF sample_brand_new, of ?ps "replicate 11 sample_pw" 0 1] sample_obliging sample_undisturbed
    by (simp add: final_tick_def)
qed

text \<open>A finished conversion of the pipelines \<open>ds\<close>, whose specification now lists \<open>ps\<close>.\<close>

definition sample_workflow :: generated_workflow where
  "sample_workflow = \<lparr>gw_name = ''ci.yml'', gw_filePath = ''pipelines/ci.yml'', gw_content = [], gw_sourcePipelineID = ''5'',
     gw_sourcePipelineName = ''ci'', gw_gitHubURL = [], gw_validationStatus = ''valid'', gw_validationErrors = []\<rparr>"

definition sample_finished :: "pipeline_resource list \<Rightarrow> pipeline_resource list \<Rightarrow> conv_phase \<Rightarrow> pipeline_conversion" where
  "sample_finished ds ps ph = \<lparr>pc_meta = zero_meta\<lparr>om_generation := 2, om_finalizers := [pw_finalizerName]\<rparr>, pc_spec = sample_pipelines_spec ps,
     pc_status = zero_conv_status\<lparr>pwt_phase := ph, pwt_observedGeneration := 1, pwt_completionTime := Some 0,
       pwt_pipelineStatuses := map (\<lambda>p. (initial_pipeline_status p)\<lparr>pst_status := CsCompleted\<rparr>) ds,
       pwt_generatedWorkflows := map (\<lambda>p. sample_workflow) ds, pwt_errorMessage := ''Workflow validation failed'',
       pwt_validationResults := Some \<lparr>cvs_valid = True, cvs_errors = [], cvs_warnings = [], cvs_timestamp = 0,
         cvs_syntaxValidation = Map.empty, cvs_actionValidation = Map.empty, cvs_secretValidation = Map.empty\<rparr>,
       pwt_progress := zero_conv_progress\<lparr>cp_total := int (length ds), cp_completed := int (length ds), cp_percentage := 100\<rparr>\<rparr>\<rparr>"

lemma sample_finished_ok: "ph \<in> {ConvCompleted, ConvFailed} \<Longrightarrow> conv_ok (sample_finished ds ps ph)"
proof -
  assume ph: "ph \<in> {ConvCompleted, ConvFailed}"
  have st: "stages (pc_status (sample_finished ds ps ph)) = map (\<lambda>x. 0) ds"
    by (simp add: stages_def sample_finished_def)
  have "stages_ok (stages (pc_status (sample_finished ds ps ph)))"
    unfolding st by (auto simp: stages_ok_def sorted_constant count_list_constant)
  then have "conv_counted (pc_status (sample_finished ds ps ph))"
    unfolding conv_counted_def by (simp add: st count_list_constant) (simp add: sample_finished_def zero_conv_progress_def zero_conv_status_def)
  moreover have "phase_fits (pc_status (sample_finished ds ps ph))"
    unfolding phase_fits_def st using ph by (auto simp: sample_finished_def zero_conv_progress_def)
  ultimately show ?thesis by (simp add: conv_ok_def)
qed

lemma initial_status_id [simp]: "pst_pipelineID (initial_pipeline_status p) = plr_id p"
  by (simp add: initial_pipeline_status_def)

lemma sample_finished_simps [simp]:
  "pc_spec (sample_finished ds ps ph) = sample_pipelines_spec ps" "cphase (sample_finished ds ps ph) = ph"
  "map pst_pipelineID (csts (sample_finished ds ps ph)) = map plr_id ds" "length (csts (sample_finished ds ps ph)) = length ds"
  "pst_pipelineID ` set (csts (sample_finished ds ps ph)) = plr_id ` set ds" "csts (sample_finished ds ps ph) = [] \<longleftrightarrow> ds = []"
  "attended (sample_finished ds ps ph)" "ds \<noteq> [] \<Longrightarrow> all_pipelines_done (sample_finished ds ps ph)"
  by (simp_all add: sample_finished_def attended_def zero_meta_def all_pipelines_done_def comp_def image_image)

lemma sample_changed: "ph \<in> {ConvCompleted, ConvFailed} \<Longrightarrow> conv_spec_changed (sample_finished ds ps ph)"
  by (auto simp: sample_finished_def conv_spec_changed_def conv_terminal_def zero_meta_def)

lemma sample_new: "new_pipelines (sample_finished ds ps ph) = filter (\<lambda>p. plr_id p \<notin> plr_id ` set ds) ps"
  by (simp add: new_pipelines_def)

abbreviation pipe5 :: pipeline_resource where "pipe5 \<equiv> sample_pipeline ''5'' ''build''"
abbreviation pipe6 :: pipeline_resource where "pipe6 \<equiv> sample_pipeline ''6'' ''build''"

lemma sample_ids [simp]: "plr_id (sample_pipeline i kind) = i"
  by (simp add: sample_pipeline_def)

theorem later_pipelines_never_converted_witness:
  "map pst_pipelineID (csts (pww_object (fold pw_event_step [ConvReconciled sample_pw, ConvReconciled sample_pw]
     \<lparr>pww_object = sample_finished [pipe5] [pipe5, pipe6] ConvCompleted, pww_effects = []\<rparr>))) = [''5'']"
  using later_pipelines_never_converted [of "\<lparr>pww_object = sample_finished [pipe5] [pipe5, pipe6] ConvCompleted, pww_effects = []\<rparr>"
      "[ConvReconciled sample_pw, ConvReconciled sample_pw]"] sample_finished_ok [of ConvCompleted "[pipe5]" "[pipe5, pipe6]"] sample_pw_ok(1)
  by (simp add: extends_def)

theorem resumed_conversion_never_ends_witness:
  "cphase (pww_object (fold pw_event_step (ConvReconciled sample_pw # [ConvReconciled sample_pw, ConvReconciled sample_pw])
     \<lparr>pww_object = sample_finished [pipe5] [pipe5, pipe6] ConvCompleted, pww_effects = []\<rparr>)) \<in> {ConvAnalyzing, ConvConverting}"
  by (rule resumed_conversion_never_ends) (simp_all add: sample_finished_ok sample_changed sample_new sample_pw_ok)

theorem replaced_pipelines_reported_completed_witness:
  "cphase (pww_object (fold conversion_step [sample_pw, sample_pw, sample_pw, sample_pw]
     \<lparr>pww_object = sample_finished [pipe5] [pipe6] ConvCompleted, pww_effects = []\<rparr>)) = ConvCompleted"
  using replaced_pipelines_reported_completed [of "sample_finished [pipe5] [pipe6] ConvCompleted" sample_pw sample_pw sample_pw sample_pw, OF _ _ _ _ _ _ _ _ _ _ refl]
    sample_valid [of "[pipe6]"]
  by (simp add: sample_finished_ok sample_changed sample_new sample_pw_ok) (simp add: sample_pipeline_def validatePipeline_def)

theorem failure_is_final_witness:
  "cphase (pww_object (fold pw_event_step [ConvEdited (zero_meta\<lparr>om_generation := 3\<rparr>) (sample_pipelines_spec [pipe5]), ConvReconciled sample_pw]
     \<lparr>pww_object = sample_finished [pipe5] [pipe5] ConvFailed, pww_effects = []\<rparr>)) = ConvFailed"
proof -
  have "\<exists>g. pc_status (pww_object (fold pw_event_step [ConvEdited (zero_meta\<lparr>om_generation := 3\<rparr>) (sample_pipelines_spec [pipe5]), ConvReconciled sample_pw]
      \<lparr>pww_object = sample_finished [pipe5] [pipe5] ConvFailed, pww_effects = []\<rparr>)) = (pc_status (sample_finished [pipe5] [pipe5] ConvFailed))\<lparr>pwt_observedGeneration := g\<rparr>"
    by (rule failure_is_final) (simp_all add: sample_finished_ok sample_pw_ok)
  then show ?thesis by (elim exE) simp
qed

text \<open>A conversion about to take up its first pipeline, with a workflows repository.\<close>

definition sample_repository :: workflows_repository_config where
  "sample_repository = \<lparr>wrc_create = True, wrc_name = [], wrc_description = [], wrc_private = False, wrc_initializeWithReadme = False\<rparr>"

definition sample_converting :: pipeline_conversion where
  "sample_converting = \<lparr>pc_meta = zero_meta\<lparr>om_generation := 1, om_finalizers := [pw_finalizerName]\<rparr>,
     pc_spec = (let sp = sample_pipelines_spec [pipe5] in sp\<lparr>pws_target := (pws_target sp)\<lparr>wft_workflowsRepository := Some sample_repository\<rparr>\<rparr>),
     pc_status = zero_conv_status\<lparr>pwt_phase := ConvConverting, pwt_observedGeneration := 1,
       pwt_pipelineStatuses := [(initial_pipeline_status pipe5)\<lparr>pst_status := CsAnalyzing\<rparr>],
       pwt_progress := zero_conv_progress\<lparr>cp_total := 1\<rparr>\<rparr>\<rparr>"

lemma sample_directory: "\<exists>t. createDirectoryStructure sample_pw tok owner repo branch s = (None, t)"
proof -
  have "pe_create_file sample_pw u xs = None" for u xs
    by (simp add: sample_pw_def)
  then have "\<exists>t. create_readme sample_pw tok owner repo branch p c u = (None, t)" for p c u
    by (simp add: create_readme_def api_call_def)
  then obtain f where "\<And>p c u. create_readme sample_pw tok owner repo branch p c u = (None, f p c u)"
    by metis
  then show ?thesis by (simp add: createDirectoryStructure_def)
qed

lemma sample_setup: "\<exists>repo u. SetupWorkflowsRepository sample_pw tok (pc_spec sample_converting) s = (Inr repo, u)"
proof -
  obtain t where t: "createDirectoryStructure sample_pw tok ''o'' (workflows_repo_name sample_repository) ''main''
      (snd (get_or_create sample_pw tok ''o'' (workflows_repo_name sample_repository) sample_repository False s)) = (None, t)"
    using sample_directory by blast
  have "fst (get_or_create sample_pw tok ''o'' (workflows_repo_name sample_repository) sample_repository False s) = Inr (''https://github.com/o/w'', ''main'')"
    by (simp add: get_or_create_def Let_def) (simp add: sample_pw_def)
  then have goc: "get_or_create sample_pw tok ''o'' (workflows_repo_name sample_repository) sample_repository False s = (Inr (''https://github.com/o/w'', ''main''),
      snd (get_or_create sample_pw tok ''o'' (workflows_repo_name sample_repository) sample_repository False s))" by (metis prod.collapse)
  have sp: "wft_workflowsRepository (pws_target (pc_spec sample_converting)) = Some sample_repository" "wrc_create sample_repository"
    "wft_owner (pws_target (pc_spec sample_converting)) = ''o''" "pe_exists sample_pw s tok ''o'' n = Inr False" for n
    by (simp_all add: sample_converting_def sample_pipelines_spec_def sample_repository_def Let_def sample_pw_def)
  show ?thesis unfolding SetupWorkflowsRepository_def Let_def sp option.case sum.case
    by (subst goc) (simp add: sp t)
qed

theorem workflows_not_pushed_witness:
  "\<exists>repo u. SetupWorkflowsRepository sample_pw ''secret'' (pc_spec sample_converting) (fetched sample_converting) = (Inr repo, u)
    \<and> filter is_api (pww_effects (fold conversion_step (sample_pw # [sample_pw, sample_pw]) \<lparr>pww_object = sample_converting, pww_effects = []\<rparr>))
      = filter is_api (effects u)"
proof -
  obtain repo u where up: "SetupWorkflowsRepository sample_pw ''secret'' (pc_spec sample_converting) (fetched sample_converting) = (Inr repo, u)"
    using sample_setup by blast
  have "conv_ok sample_converting"
    by (simp add: sample_converting_def conv_ok_def conv_counted_def stages_def stages_ok_def zero_conv_progress_def zero_conv_status_def)
  moreover have "pw_getGitHubToken sample_pw (fetched sample_converting) = Inr ''secret''"
    by (simp add: pw_getGitHubToken_def sample_converting_def sample_pipelines_spec_def secret_token_def secret_key_def sample_pw_def Let_def)
  moreover have "wants_repository sample_converting"
    by (simp add: wants_repository_def sample_converting_def sample_repository_def zero_conv_progress_def Let_def)
  ultimately have "filter is_api (pww_effects (fold conversion_step (sample_pw # [sample_pw, sample_pw]) \<lparr>pww_object = sample_converting, pww_effects = []\<rparr>))
      = filter is_api (effects u)"
    by (intro workflows_not_pushed [OF _ _ _ _ _ _ _ _ _ up])
      (simp_all add: sample_pw_ok, simp_all add: sample_converting_def attended_def zero_meta_def)
  with up show ?thesis by blast
qed

definition sample_searching :: pipeline_conversion where
  "sample_searching = \<lparr>pc_meta = zero_meta, pc_spec = (sample_pipelines_spec [])\<lparr>pws_autoDiscovery := Some \<lparr>au_enabled = True,
       au_includeBuildPipelines = False, au_includeReleasePipelines = False, au_folderFilter = [], au_nameFilter = [], au_maxPipelines = 0\<rparr>\<rparr>,
     pc_status = zero_conv_status\<lparr>pwt_phase := ConvAnalyzing\<rparr>\<rparr>"

theorem empty_discovery_never_ends_witness:
  "cphase (pww_object (fold conversion_step [sample_pw, sample_pw] \<lparr>pww_object = sample_searching, pww_effects = []\<rparr>)) = ConvAnalyzing"
proof (rule empty_discovery_never_ends)
  show "conv_ok sample_searching"
    by (simp add: sample_searching_def conv_ok_def conv_counted_empty zero_conv_status_def zero_conv_progress_def)
  have "finds_nothing sample_pw s" if "pc_spec (obj s) = pc_spec sample_searching" for s
    using that by (simp add: finds_nothing_def DiscoverPipelines_def sample_searching_def sample_pipelines_spec_def Let_def
        discovery_credentials_def sample_pw_def discover_kind_def limit_result_def)
  then show "\<forall>k \<in> set [sample_pw, sample_pw]. pw_env_ok k \<and> (\<forall>s. pc_spec (obj s) = pc_spec sample_searching \<longrightarrow> finds_nothing k s)"
    using sample_pw_ok(1) by simp
qed (simp_all add: sample_searching_def zero_conv_status_def discovery_enabled_def)

end
