(* ===== verification/DiscoveryController.thy ===== *)
theory DiscoveryController
  imports DiscoveryTypes
begin

text \<open>
  \<^verbatim>\<open>internal/controller/adodiscovery_controller.go\<close>: the controller of AdoDiscovery, whose discovery is
  simulated: it counts steps. The API server and the clock are its only environment.
\<close>

type_synonym discovery_state = "ado_discovery rstate"
type_synonym discovery_env = "ado_discovery kube"

section \<open>Validation\<close>

definition no_authentication :: "ado_discovery \<Rightarrow> bool" where
  "no_authentication d \<longleftrightarrow> (let auth = src_auth (dsp_source (dis_spec d)) in
     ado_servicePrincipal auth = None \<and> ado_pat auth = None)"

definition discovery_validateConfiguration :: "ado_discovery \<Rightarrow> go_error option" where
  "discovery_validateConfiguration d =
     (if src_organization (dsp_source (dis_spec d)) = [] then Some (PlainError ''source organization is required'')
      else if no_authentication d
      then Some (PlainError ''authentication configuration is required (either Service Principal or PAT)'')
      else None)"

definition discovery_validateCredentials :: "ado_discovery \<Rightarrow> go_error option" where
  "discovery_validateCredentials d =
     (if no_authentication d then Some (PlainError ''no authentication configuration found'') else None)"

definition calculateTotalSteps :: "discovery_scope \<Rightarrow> int" where
  "calculateTotalSteps sc =
     (let steps = int (length (filter id [dsc_organizations sc, dsc_projects sc, dsc_repositories sc, dsc_workItems sc,
        dsc_pipelines sc, dsc_builds sc, dsc_releases sc, dsc_teams sc, dsc_users sc]))
      in if steps = 0 then 1 else steps)"

section \<open>The phases\<close>

definition dis_announce :: "string \<Rightarrow> event_type \<Rightarrow> string \<Rightarrow> string \<Rightarrow> discovery_state \<Rightarrow> discovery_state" where
  "dis_announce broadcast kind reason message s = emit (Event kind reason message) (emit (Broadcast broadcast) s)"

definition fail_discovery :: "discovery_env \<Rightarrow> string \<Rightarrow> string \<Rightarrow> string \<Rightarrow> string \<Rightarrow> discovery_state \<Rightarrow> outcome \<times> discovery_state" where
  "fail_discovery k text broadcast reason message s =
     (let s = modify (on_discovery (\<lambda>st. st\<lparr>dss_phase := DiscoveryFailed, dss_errorMessage := text\<rparr>)) s
      in update_then k no_requeue no_requeue (dis_announce broadcast EventWarning reason message s))"

definition initialise_discovery :: "discovery_env \<Rightarrow> discovery_state \<Rightarrow> outcome \<times> discovery_state" where
  "initialise_discovery k s =
     (let s = modify (\<lambda>d. on_discovery (\<lambda>st. st\<lparr>dss_phase := DiscoveryPending, dss_progress :=
                \<lparr>dpr_currentStep = ''Initializing discovery'', dpr_stepsCompleted = 0,
                 dpr_totalSteps = calculateTotalSteps (dsp_scope (dis_spec d)), dpr_percentage = 0,
                 dpr_itemsDiscovered = 0, dpr_currentOperation = []\<rparr>\<rparr>) d) s
      in case read_clock k s of (now, s) \<Rightarrow>
      let s = modify (on_discovery (\<lambda>st. st\<lparr>dss_startTime := Some now\<rparr>)) s
      in update_then k (after (5 * second)) (after (5 * second))
           (dis_announce ''Discovery initialized'' EventNormal ''Initialized'' ''Discovery initialized'' s))"

definition discovery_processPending :: "discovery_env \<Rightarrow> discovery_state \<Rightarrow> outcome \<times> discovery_state" where
  "discovery_processPending k s = (case discovery_validateConfiguration (obj s) of
     Some err \<Rightarrow> fail_discovery k (err_text err) ''Discovery validation failed'' ''ValidationFailed''
       (''Discovery validation failed: '' @ err_text err) s
   | None \<Rightarrow>
       (let s = modify (on_discovery (\<lambda>st. st\<lparr>dss_phase := DiscoveryRunning,
                  dss_progress := (dss_progress st)\<lparr>dpr_currentStep := ''Starting discovery''\<rparr>\<rparr>)) s
        in update_then k (after (5 * second)) (after (5 * second))
             (dis_announce ''Starting discovery'' EventNormal ''DiscoveryStarted'' ''Discovery started'' s)))"

text \<open>One step more: the simulated discovery.\<close>

definition count_step :: "discovery_progress \<Rightarrow> discovery_progress" where
  "count_step p = (let n = dpr_stepsCompleted p + 1; m = dpr_totalSteps p in
     p\<lparr>dpr_stepsCompleted := n, dpr_percentage := go_div (n * 100) m,
       dpr_currentStep := ''Discovering step '' @ fmt_d n @ '' of '' @ fmt_d m,
       dpr_itemsDiscovered := dpr_itemsDiscovered p + 10\<rparr>)"

definition dis_progress :: "discovery_state \<Rightarrow> discovery_progress" where
  "dis_progress s = dss_progress (dis_status (obj s))"

definition advance_discovery :: "discovery_state \<Rightarrow> bool \<times> discovery_state" where
  "advance_discovery s =
     (if dpr_stepsCompleted (dis_progress s) < dpr_totalSteps (dis_progress s)
      then (let s = modify (on_discovery_progress count_step) s;
                message = ''Discovery progress: '' @ fmt_d (dpr_percentage (dis_progress s)) @ ''%''
            in (True, dis_announce message EventNormal ''DiscoveryProgress'' message s))
      else (False, s))"

definition complete_discovery :: "discovery_env \<Rightarrow> discovery_state \<Rightarrow> bool \<times> discovery_state" where
  "complete_discovery k s =
     (if dpr_stepsCompleted (dis_progress s) \<ge> dpr_totalSteps (dis_progress s)
      then (let s = modify (on_discovery (\<lambda>st. st\<lparr>dss_phase := DiscoveryCompleted, dss_progress :=
                      (dss_progress st)\<lparr>dpr_currentStep := ''Discovery completed'', dpr_percentage := 100\<rparr>\<rparr>)) s
            in case read_clock k s of (now, s) \<Rightarrow>
            (True, dis_announce ''Discovery completed successfully'' EventNormal ''DiscoveryCompleted'' ''Discovery completed successfully''
               (modify (on_discovery (\<lambda>st. st\<lparr>dss_completionTime := Some now\<rparr>)) s)))
      else (False, s))"

definition discovery_processRunning :: "discovery_env \<Rightarrow> discovery_state \<Rightarrow> outcome \<times> discovery_state" where
  "discovery_processRunning k s = (case discovery_validateCredentials (obj s) of
     Some err \<Rightarrow> (let message = ''Failed to get credentials: '' @ err_text err in
       fail_discovery k message ''Failed to get credentials'' ''CredentialsError'' message s)
   | None \<Rightarrow> (case advance_discovery s of (stepped, s) \<Rightarrow> case complete_discovery k s of (completed, s) \<Rightarrow>
       let continue = (\<lambda>s. ((if dss_phase (dis_status (obj s)) = DiscoveryRunning then after (10 * second) else no_requeue, None), s)
                       :: outcome \<times> discovery_state)
       in if stepped \<or> completed then status_update_or k (\<lambda>err. (after (5 * second), Some err)) continue s
          else continue s))"

section \<open>Reconciliation\<close>

definition discovery_finalizerName :: string where
  "discovery_finalizerName = ''migration.ado-to-git-migration.io/discovery-finalizer''"

definition discovery_update_finalizers :: "discovery_env \<Rightarrow> (string list \<Rightarrow> string list) \<Rightarrow> discovery_state \<Rightarrow> outcome \<times> discovery_state" where
  "discovery_update_finalizers k f s =
     (case object_update k (modify (\<lambda>d. d\<lparr>dis_meta := (dis_meta d)\<lparr>om_finalizers := f (om_finalizers (dis_meta d))\<rparr>\<rparr>) s) of
        (err, s) \<Rightarrow> ((no_requeue, err), s))"

definition discovery_processPhase :: "discovery_env \<Rightarrow> discovery_state \<Rightarrow> outcome \<times> discovery_state" where
  "discovery_processPhase k s = (case dss_phase (dis_status (obj s)) of
     DiscoveryUnset \<Rightarrow> initialise_discovery k s
   | DiscoveryPending \<Rightarrow> discovery_processPending k s
   | DiscoveryRunning \<Rightarrow> discovery_processRunning k s
   | _ \<Rightarrow> ((no_requeue, None), s))"

definition reconcile_discovery :: "discovery_env \<Rightarrow> discovery_state \<Rightarrow> outcome \<times> discovery_state" where
  "reconcile_discovery k s =
     (let meta = dis_meta (obj s); has_finalizer = discovery_finalizerName \<in> set (om_finalizers meta) in
      if om_deletionTimestamp meta = None
      then (if \<not> has_finalizer then discovery_update_finalizers k (\<lambda>fs. fs @ [discovery_finalizerName]) s
            else discovery_processPhase k s)
      else (if has_finalizer then discovery_update_finalizers k (removeAll discovery_finalizerName) s
            else ((no_requeue, None), s)))"

definition discovery_Reconcile :: "discovery_env \<Rightarrow> go_error + discovery_state \<Rightarrow> outcome \<times> discovery_state option" where
  "discovery_Reconcile k got = (case got of
     Inl err \<Rightarrow> ((no_requeue, if is_not_found err then None else Some err), None)
   | Inr s \<Rightarrow> map_prod id Some (reconcile_discovery k s))"

end
