(* ===== verification/DiscoveryProperties.thy ===== *)
theory DiscoveryProperties
  imports DiscoveryController
begin

text \<open>
  What becomes of an AdoDiscovery: the counting of its steps, as a counter that every accepted write
  takes down by one, and what the discovery reports in the end.
\<close>

section \<open>One reconciliation\<close>

abbreviation dphase :: "ado_discovery \<Rightarrow> discovery_phase" where
  "dphase d \<equiv> dss_phase (dis_status d)"

abbreviation dprogress :: "ado_discovery \<Rightarrow> discovery_progress" where
  "dprogress d \<equiv> dss_progress (dis_status d)"

abbreviation marked :: "ado_discovery \<Rightarrow> bool" where
  "marked d \<equiv> discovery_finalizerName \<in> set (om_finalizers (dis_meta d))"

definition discovery_step :: "discovery_env \<Rightarrow> ado_discovery \<Rightarrow> ado_discovery" where
  "discovery_step k d = stored (snd (reconcile_discovery k (fetched d)))"

text \<open>
  The update of the metadata keeps the status at the server. It may answer with any metadata and any
  specification, which others may have written meanwhile.
\<close>

definition discovery_env_ok :: "discovery_env \<Rightarrow> bool" where
  "discovery_env_ok k \<longleftrightarrow> (\<forall>n old new x. k_update k n old new = Inr x \<longrightarrow> dis_status x = dis_status old)"

text \<open>The counts of the progress in each phase.\<close>

definition steps_counted :: "discovered_resources \<Rightarrow> ado_discovery \<Rightarrow> bool" where
  "steps_counted r d \<longleftrightarrow> dss_discoveredResources (dis_status d) = r \<and> (let p = dprogress d; n = dpr_stepsCompleted p; m = dpr_totalSteps p in
     case dphase d of
       DiscoveryPending \<Rightarrow> n = 0 \<and> 1 \<le> m \<and> dpr_itemsDiscovered p = 0 \<and> dpr_percentage p = 0
     | DiscoveryRunning \<Rightarrow> 0 \<le> n \<and> n < m \<and> dpr_itemsDiscovered p = 10 * n \<and> dpr_percentage p = n * 100 div m
     | DiscoveryCompleted \<Rightarrow> n = m \<and> 1 \<le> m \<and> dpr_itemsDiscovered p = 10 * m \<and> dpr_percentage p = 100
     | _ \<Rightarrow> True)"

lemma calculateTotalSteps_pos [simp]: "1 \<le> calculateTotalSteps sc" "0 < calculateTotalSteps sc"
proof -
  have "1 \<le> (let n = int (length xs) in if n = 0 then 1 else n)" for xs :: "bool list" by (cases xs) simp_all
  then show "1 \<le> calculateTotalSteps sc" unfolding calculateTotalSteps_def .
  then show "0 < calculateTotalSteps sc" by simp
qed

lemma dis_announce_simps [simp]:
  "obj (dis_announce b t r m s) = obj s" "stored (dis_announce b t r m s) = stored s"
  "calls (dis_announce b t r m s) = calls s"
  by (simp_all add: dis_announce_def)

lemma status_update_or_stored_eq:
  "(\<And>t. stored (snd (g t)) = stored t) \<Longrightarrow>
    stored (snd (status_update_or k f g s)) = (if k_status k (calls s) (obj s) = None then obj s else stored s)"
  by (simp add: status_update_or_def status_update_def Let_def split: option.split)

lemma fail_discovery_stored:
  "stored (snd (fail_discovery k a b c e (fetched d))) =
     (let x = on_discovery (\<lambda>st. st\<lparr>dss_phase := DiscoveryFailed, dss_errorMessage := a\<rparr>) d
      in if k_status k 0 x = None then x else d)"
  by (simp add: fail_discovery_def Let_def)

text \<open>The object that a reconciliation writes in a phase that goes on, where the clock shows \<open>now\<close>.\<close>

definition next_discovery :: "instant \<Rightarrow> ado_discovery \<Rightarrow> ado_discovery" where
  "next_discovery now d = (case dphase d of
     DiscoveryUnset \<Rightarrow> on_discovery (\<lambda>st. st\<lparr>dss_phase := DiscoveryPending, dss_progress :=
       \<lparr>dpr_currentStep = ''Initializing discovery'', dpr_stepsCompleted = 0,
        dpr_totalSteps = calculateTotalSteps (dsp_scope (dis_spec d)), dpr_percentage = 0,
        dpr_itemsDiscovered = 0, dpr_currentOperation = []\<rparr>, dss_startTime := Some now\<rparr>) d
   | DiscoveryPending \<Rightarrow> on_discovery (\<lambda>st. st\<lparr>dss_phase := DiscoveryRunning,
       dss_progress := (dss_progress st)\<lparr>dpr_currentStep := ''Starting discovery''\<rparr>\<rparr>) d
   | DiscoveryRunning \<Rightarrow> (let x = on_discovery_progress count_step d in
       if dpr_stepsCompleted (dprogress x) < dpr_totalSteps (dprogress x) then x
       else on_discovery (\<lambda>st. st\<lparr>dss_phase := DiscoveryCompleted, dss_progress :=
         (dss_progress st)\<lparr>dpr_currentStep := ''Discovery completed'', dpr_percentage := 100\<rparr>,
         dss_completionTime := Some now\<rparr>) x)
   | _ \<Rightarrow> d)"

definition refused_in :: "ado_discovery \<Rightarrow> bool" where
  "refused_in d \<longleftrightarrow> dphase d = DiscoveryPending \<and> discovery_validateConfiguration d \<noteq> None
     \<or> dphase d = DiscoveryRunning \<and> discovery_validateCredentials d \<noteq> None"

lemma advance_discovery_stepped:
  assumes "dpr_stepsCompleted (dis_progress s) < dpr_totalSteps (dis_progress s)"
  obtains t where "advance_discovery s = (True, t)" "obj t = on_discovery_progress count_step (obj s)"
    "stored t = stored s" "calls t = calls s" "ticks t = ticks s"
  using assms by (simp add: advance_discovery_def Let_def dis_announce_def)

lemma complete_discovery_completed:
  assumes "dpr_totalSteps (dis_progress s) \<le> dpr_stepsCompleted (dis_progress s)"
  obtains t where "complete_discovery k s = (True, t)" "stored t = stored s" "calls t = calls s"
    "obj t = on_discovery (\<lambda>st. st\<lparr>dss_phase := DiscoveryCompleted, dss_progress :=
       (dss_progress st)\<lparr>dpr_currentStep := ''Discovery completed'', dpr_percentage := 100\<rparr>,
       dss_completionTime := Some (k_clock k (ticks s))\<rparr>) (obj s)"
  using assms by (simp add: complete_discovery_def Let_def read_clock_def on_discovery_def modify_def)

lemma running_stored:
  assumes "dphase d = DiscoveryRunning" "discovery_validateCredentials d = None" "dpr_stepsCompleted (dprogress d) < dpr_totalSteps (dprogress d)"
  shows "stored (snd (discovery_processRunning k (fetched d))) =
    (let x = next_discovery (k_clock k 0) d in if k_status k 0 x = None then x else d)"
proof -
  let ?x = "on_discovery_progress count_step d"
  from advance_discovery_stepped [of "fetched d"] assms(3)
  obtain t where t: "advance_discovery (fetched d) = (True, t)" "obj t = ?x" "stored t = d" "calls t = 0" "ticks t = 0"
    by (auto simp: dis_progress_def)
  show ?thesis
  proof (cases "dpr_stepsCompleted (dprogress ?x) < dpr_totalSteps (dprogress ?x)")
    case True
    then have "complete_discovery k t = (False, t)" using t(2) by (simp add: complete_discovery_def dis_progress_def)
    then show ?thesis using assms(1,2) t True
      by (simp add: discovery_processRunning_def Let_def status_update_or_stored_eq next_discovery_def)
  next
    case False
    then have ge: "dpr_totalSteps (dis_progress t) \<le> dpr_stepsCompleted (dis_progress t)" using t(2) by (simp add: dis_progress_def)
    show ?thesis
      by (rule complete_discovery_completed [OF ge, of k])
         (use assms(1,2) t False in \<open>simp add: discovery_processRunning_def Let_def status_update_or_stored_eq next_discovery_def\<close>)
  qed
qed

lemma phase_stored:
  assumes "\<not> refused_in d" "steps_counted r d"
  shows "stored (snd (discovery_processPhase k (fetched d))) =
    (let x = next_discovery (k_clock k 0) d in if k_status k 0 x = None then x else d)"
proof (cases "dphase d")
  case DiscoveryRunning
  then show ?thesis using assms running_stored [of d k]
    by (simp add: discovery_processPhase_def refused_in_def steps_counted_def Let_def)
qed (use assms in \<open>simp_all add: discovery_processPhase_def initialise_discovery_def discovery_processPending_def Let_def
  refused_in_def next_discovery_def read_clock_def on_discovery_def modify_def\<close>)

text \<open>A reconciliation leaves the object as it is, changes its metadata only, fails it or takes it further.\<close>

lemma discovery_step_cases:
  assumes k: "discovery_env_ok k" and d: "steps_counted r d"
  obtains (same) "dis_status (discovery_step k d) = dis_status d"
  | (failed) message where "refused_in d" "discovery_step k d = on_discovery (\<lambda>st. st\<lparr>dss_phase := DiscoveryFailed, dss_errorMessage := message\<rparr>) d"
  | (further) now where "\<not> refused_in d" "discovery_step k d = next_discovery now d"
proof -
  have fin: "dis_status (stored (snd (discovery_update_finalizers k f (fetched d)))) = dis_status d" for f
    using k by (auto simp: discovery_update_finalizers_def object_update_def discovery_env_ok_def split: sum.split)
  show thesis
  proof (cases "om_deletionTimestamp (dis_meta d) = None \<and> marked d")
    case False
    then have "dis_status (discovery_step k d) = dis_status d"
      using fin by (auto simp: discovery_step_def reconcile_discovery_def Let_def)
    then show thesis by (rule same)
  next
    case True
    then have step: "discovery_step k d = stored (snd (discovery_processPhase k (fetched d)))"
      by (simp add: discovery_step_def reconcile_discovery_def Let_def)
    show thesis
    proof (cases "refused_in d")
      case False
      from phase_stored [OF False d] have
        "discovery_step k d = (let x = next_discovery (k_clock k 0) d in if k_status k 0 x = None then x else d)" using step by simp
      then show thesis using False same further by (auto simp: Let_def split: if_splits)
    next
      case True
      then obtain a b c e where "discovery_processPhase k (fetched d) = fail_discovery k a b c e (fetched d)"
        by (auto simp: refused_in_def discovery_processPhase_def discovery_processPending_def discovery_processRunning_def Let_def)
      then show thesis using True step same failed by (auto simp: fail_discovery_stored Let_def split: if_splits)
    qed
  qed
qed

lemma next_counted: "steps_counted r d \<Longrightarrow> steps_counted r (next_discovery now d)"
  by (cases "dphase d") (auto simp: steps_counted_def next_discovery_def count_step_def Let_def algebra_simps)

lemma next_edge: "dphase (next_discovery now d) = dphase d \<or> (dphase d, dphase (next_discovery now d)) \<in>
    {(DiscoveryUnset, DiscoveryPending), (DiscoveryPending, DiscoveryRunning), (DiscoveryRunning, DiscoveryCompleted)}"
  by (cases "dphase d") (simp_all add: next_discovery_def Let_def)

text \<open>A discovery of one step, as it is created.\<close>

definition sample_discovery :: ado_discovery where
  "sample_discovery = \<lparr>dis_meta = zero_meta,
     dis_spec = \<lparr>dsp_source = zero_source\<lparr>src_organization := ''contoso'',
         src_auth := \<lparr>ado_servicePrincipal = None, ado_pat = Some \<lparr>pat_tokenRef = \<lparr>sr_name = ''ado'', sr_key = ''token'', sr_namespace = []\<rparr>\<rparr>\<rparr>\<rparr>,
       dsp_scope = \<lparr>dsc_organizations = False, dsc_projects = True, dsc_repositories = False, dsc_workItems = False,
         dsc_pipelines = False, dsc_builds = False, dsc_releases = False, dsc_teams = False, dsc_users = False\<rparr>,
       dsp_filters = None, dsp_settings = None\<rparr>,
     dis_status = \<lparr>dss_phase = DiscoveryUnset, dss_conditions = [], dss_startTime = None, dss_completionTime = None,
       dss_progress = \<lparr>dpr_currentStep = [], dpr_stepsCompleted = 0, dpr_totalSteps = 0, dpr_percentage = 0,
         dpr_itemsDiscovered = 0, dpr_currentOperation = []\<rparr>,
       dss_discoveredResources = \<lparr>drs_organizations = [], drs_projects = [], drs_repositories = [], drs_workItems = [],
         drs_pipelines = [], drs_builds = [], drs_releases = [], drs_teams = [], drs_users = []\<rparr>,
       dss_errorMessage = [], dss_warnings = [], dss_cacheInfo = None\<rparr>\<rparr>"

text \<open>A server that takes every write, or none.\<close>

definition sample_server :: "bool \<Rightarrow> discovery_env" where
  "sample_server b = \<lparr>k_clock = int, k_status = \<lambda>n x. if b then None else Some (ConflictError ''conflict''),
     k_update = \<lambda>n old new. if b then Inr (new\<lparr>dis_status := dis_status old\<rparr>) else Inl (ConflictError ''conflict''),
     k_secret = \<lambda>ns name. Inl (NotFoundError ''no secret'')\<rparr>"

section \<open>The life of a discovery\<close>

datatype discovery_event =
    DiscoveryReconciled discovery_env
  | DiscoveryEdited object_meta discovery_spec

fun discovery_event_step :: "discovery_event \<Rightarrow> ado_discovery \<Rightarrow> ado_discovery" where
  "discovery_event_step (DiscoveryReconciled k) d = discovery_step k d"
| "discovery_event_step (DiscoveryEdited meta sp) d = d\<lparr>dis_meta := meta, dis_spec := sp\<rparr>"

fun discovery_honest :: "discovery_event \<Rightarrow> bool" where
  "discovery_honest (DiscoveryReconciled k) = discovery_env_ok k"
| "discovery_honest (DiscoveryEdited meta sp) = True"

definition discovery_edge :: "discovery_phase \<Rightarrow> discovery_phase \<Rightarrow> bool" where
  "discovery_edge p q \<longleftrightarrow> (p, q) \<in> {(DiscoveryUnset, DiscoveryPending), (DiscoveryPending, DiscoveryRunning),
     (DiscoveryPending, DiscoveryFailed), (DiscoveryRunning, DiscoveryFailed), (DiscoveryRunning, DiscoveryCompleted)}"

lemma discovery_step_counted:
  assumes "discovery_env_ok k" "steps_counted r d"
  shows "steps_counted r (discovery_step k d)
    \<and> (dphase (discovery_step k d) = dphase d \<or> discovery_edge (dphase d) (dphase (discovery_step k d)))"
  using assms
proof (cases rule: discovery_step_cases)
  case same
  then show ?thesis using assms(2) by (simp add: steps_counted_def)
next
  case failed
  then show ?thesis using assms(2) by (auto simp: steps_counted_def refused_in_def discovery_edge_def)
next
  case (further now)
  then show ?thesis using next_edge [of now d] next_counted [OF assms(2), of now] by (auto simp: discovery_edge_def)
qed

lemma discovery_event_counted:
  assumes "discovery_honest e" "steps_counted r d"
  shows "steps_counted r (discovery_event_step e d)
    \<and> (dphase (discovery_event_step e d) = dphase d \<or> discovery_edge (dphase d) (dphase (discovery_event_step e d)))"
  using assms discovery_step_counted by (cases e) (simp_all add: steps_counted_def)

interpretation drm: phase_machine dphase discovery_event_step discovery_honest "steps_counted r" discovery_edge for r
  by unfold_locales (use discovery_event_counted in blast)+

abbreviation discovery_run :: "discovery_event list \<Rightarrow> ado_discovery \<Rightarrow> ado_discovery" where
  "discovery_run \<equiv> fold discovery_event_step"

lemma unset_counted: "dphase d = DiscoveryUnset \<Longrightarrow> steps_counted (dss_discoveredResources (dis_status d)) d"
  by (simp add: steps_counted_def Let_def)

text \<open>
  A discovery discovers nothing: from its creation on, whatever is reconciled, fails or is edited, the
  list of discovered resources stays as it was, while a completed discovery reports 100 per cent and ten
  items for each of its steps. A phase that is final stays.
\<close>

theorem discovery_reports_without_discovering:
  assumes "dphase d = DiscoveryUnset" and "\<forall>e \<in> set es. discovery_honest e"
    and "dphase (discovery_run es d) = DiscoveryCompleted" and "\<forall>e \<in> set es'. discovery_honest e"
  shows "let d' = discovery_run (es @ es') d in
      dss_discoveredResources (dis_status d') = dss_discoveredResources (dis_status d)
      \<and> dphase d' = DiscoveryCompleted \<and> dpr_percentage (dprogress d') = 100
      \<and> dpr_itemsDiscovered (dprogress d') = 10 * dpr_totalSteps (dprogress d')"
proof -
  let ?r = "dss_discoveredResources (dis_status d)" and ?d = "discovery_run es d" and ?e = "discovery_run (es @ es') d"
  have all: "\<forall>e \<in> set (es @ es'). discovery_honest e" using assms(2,4) by auto
  have d: "steps_counted ?r ?d" by (rule drm.inv_run [OF assms(2) unset_counted [OF assms(1)]])
  have "dphase (discovery_run es' ?d) = dphase ?d"
    by (rule drm.final_run [OF assms(4) d]) (simp add: discovery_edge_def assms(3))
  then have "dphase ?e = DiscoveryCompleted" using assms(3) by simp
  moreover have "steps_counted ?r ?e" by (rule drm.inv_run [OF all unset_counted [OF assms(1)]])
  ultimately show ?thesis by (simp add: steps_counted_def Let_def)
qed

lemma sample_server_ok: "discovery_env_ok (sample_server b)"
  by (simp add: discovery_env_ok_def sample_server_def)

theorem discovery_reports_without_discovering_witness:
  "let d' = discovery_run (replicate 4 (DiscoveryReconciled (sample_server True)) @ [DiscoveryEdited zero_meta (dis_spec sample_discovery)]) sample_discovery in
      dss_discoveredResources (dis_status d') = dss_discoveredResources (dis_status sample_discovery)
      \<and> dphase d' = DiscoveryCompleted \<and> dpr_percentage (dprogress d') = 100
      \<and> dpr_itemsDiscovered (dprogress d') = 10 * dpr_totalSteps (dprogress d')"
proof (rule discovery_reports_without_discovering)
  show "dphase sample_discovery = DiscoveryUnset" by (simp add: sample_discovery_def)
  show "dphase (discovery_run (replicate 4 (DiscoveryReconciled (sample_server True))) sample_discovery) = DiscoveryCompleted" by code_simp
qed (auto simp: sample_server_ok)

section \<open>The countdown\<close>

text \<open>The writes that a discovery still needs.\<close>

definition work_left :: "ado_discovery \<Rightarrow> nat" where
  "work_left d = (if marked d then 0 else 1) + (case dphase d of
     DiscoveryUnset \<Rightarrow> nat (calculateTotalSteps (dsp_scope (dis_spec d))) + 2
   | DiscoveryPending \<Rightarrow> nat (dpr_totalSteps (dprogress d)) + 1
   | DiscoveryRunning \<Rightarrow> nat (dpr_totalSteps (dprogress d) - dpr_stepsCompleted (dprogress d))
   | _ \<Rightarrow> 0)"

text \<open>A server that takes the first write of a reconciliation, and one that refuses it with any error.\<close>

definition takes_writes :: "discovery_env \<Rightarrow> bool" where
  "takes_writes k \<longleftrightarrow> (\<forall>x. k_status k 0 x = None) \<and> (\<forall>old new. k_update k 0 old new = Inr (new\<lparr>dis_status := dis_status old\<rparr>))"

definition refuses_writes :: "discovery_env \<Rightarrow> bool" where
  "refuses_writes k \<longleftrightarrow> (\<forall>x. k_status k 0 x \<noteq> None) \<and> (\<forall>old new. \<exists>err. k_update k 0 old new = Inl err)"

definition sound_discovery :: "ado_discovery \<Rightarrow> bool" where
  "sound_discovery d \<longleftrightarrow> steps_counted (dss_discoveredResources (dis_status d)) d \<and> discovery_validateConfiguration d = None
     \<and> om_deletionTimestamp (dis_meta d) = None \<and> dphase d \<notin> {DiscoveryFailed, DiscoveryCancelled}"

lemma sound_not_refused: "sound_discovery d \<Longrightarrow> \<not> refused_in d"
  by (auto simp: sound_discovery_def refused_in_def discovery_validateConfiguration_def discovery_validateCredentials_def split: if_splits)

lemma marking_stored:
  "\<not> marked d \<Longrightarrow> om_deletionTimestamp (dis_meta d) = None \<Longrightarrow>
    discovery_step k d = (case k_update k 0 d (d\<lparr>dis_meta := (dis_meta d)\<lparr>om_finalizers := om_finalizers (dis_meta d) @ [discovery_finalizerName]\<rparr>\<rparr>) of
      Inl err \<Rightarrow> d | Inr x \<Rightarrow> x)"
  by (simp add: discovery_step_def reconcile_discovery_def discovery_update_finalizers_def object_update_def modify_def fetched_def
      Let_def split: sum.split)

lemma taking_stored:
  assumes "sound_discovery d" "marked d"
  shows "discovery_step k d = (let x = next_discovery (k_clock k 0) d in if k_status k 0 x = None then x else d)"
proof -
  have "steps_counted (dss_discoveredResources (dis_status d)) d" using assms(1) by (simp add: sound_discovery_def)
  from phase_stored [OF sound_not_refused [OF assms(1)] this, of k] show ?thesis using assms
    by (simp add: discovery_step_def reconcile_discovery_def sound_discovery_def Let_def)
qed

lemma next_resources [simp]:
  "dss_discoveredResources (dis_status (next_discovery now d)) = dss_discoveredResources (dis_status d)"
  "dis_spec (next_discovery now d) = dis_spec d" "dis_meta (next_discovery now d) = dis_meta d"
  by (cases "dphase d"; simp add: next_discovery_def Let_def)+

lemma validated_by_spec:
  "dis_spec d = dis_spec e \<Longrightarrow> discovery_validateConfiguration d = discovery_validateConfiguration e"
  by (simp add: discovery_validateConfiguration_def no_authentication_def Let_def)

lemma next_sound: "sound_discovery d \<Longrightarrow> sound_discovery (next_discovery now d)"
  using next_counted [of "dss_discoveredResources (dis_status d)" d now] next_edge [of now d]
    validated_by_spec [of "next_discovery now d" d] by (auto simp: sound_discovery_def)

lemma next_work_left: "sound_discovery d \<Longrightarrow> marked d \<Longrightarrow> work_left (next_discovery now d) = work_left d - 1"
  by (cases "dphase d") (auto simp: sound_discovery_def steps_counted_def work_left_def next_discovery_def count_step_def Let_def)

lemma sound_marked: "sound_discovery (d\<lparr>dis_meta := (dis_meta d)\<lparr>om_finalizers := fs\<rparr>\<rparr>) = sound_discovery d"
  by (simp add: sound_discovery_def steps_counted_def discovery_validateConfiguration_def no_authentication_def Let_def)

lemma accepted_countdown:
  assumes "takes_writes k" "sound_discovery d"
  shows "sound_discovery (discovery_step k d) \<and> work_left (discovery_step k d) = work_left d - 1"
proof (cases "marked d")
  case True
  then show ?thesis using assms taking_stored [of d k] next_sound next_work_left by (simp add: takes_writes_def Let_def)
next
  case False
  then have "discovery_step k d = d\<lparr>dis_meta := (dis_meta d)\<lparr>om_finalizers := om_finalizers (dis_meta d) @ [discovery_finalizerName]\<rparr>\<rparr>"
    using assms marking_stored [of d k] by (simp add: takes_writes_def sound_discovery_def)
  then show ?thesis using assms(2) False by (simp add: sound_marked work_left_def cong: discovery_phase.case_cong)
qed

lemma refused_countdown:
  assumes "refuses_writes k" "sound_discovery d"
  shows "discovery_step k d = d"
proof (cases "marked d")
  case True
  moreover have "k_status k 0 (next_discovery (k_clock k 0) d) \<noteq> None" using assms(1) unfolding refuses_writes_def by blast
  ultimately show ?thesis using assms(2) taking_stored [of d k] by (auto simp: Let_def)
next
  case False
  moreover obtain err where "k_update k 0 d (d\<lparr>dis_meta := (dis_meta d)\<lparr>om_finalizers := om_finalizers (dis_meta d) @ [discovery_finalizerName]\<rparr>\<rparr>) = Inl err"
    using assms(1) unfolding refuses_writes_def by blast
  ultimately show ?thesis using assms marking_stored [of d k] by (simp add: sound_discovery_def)
qed

lemma countdown_run:
  assumes "\<forall>k \<in> set ks. takes_writes k \<or> refuses_writes k" "sound_discovery d"
  shows "sound_discovery (fold discovery_step ks d) \<and> work_left (fold discovery_step ks d) = work_left d - length (filter takes_writes ks)"
  using assms
proof (induction ks arbitrary: d)
  case (Cons k ks)
  show ?case
  proof (cases "takes_writes k")
    case True
    then show ?thesis using Cons.IH [of "discovery_step k d"] Cons.prems accepted_countdown [of k d] by simp
  next
    case False
    then show ?thesis using Cons.IH [of d] Cons.prems refused_countdown [of k d] by simp
  qed
qed simp

text \<open>
  C15. A discovery is a countdown. With a source and an authentication in its specification, and not
  deleted, each reconciliation whose write the server takes brings it one step closer to its end, a
  refused write costs nothing, and when as many writes were taken as the work needs (the finalizer, the
  two phases before it runs and one for each of its steps) it has completed.
\<close>

theorem discovery_counts_down:
  assumes "\<forall>k \<in> set ks. takes_writes k \<or> refuses_writes k" and "sound_discovery d"
  shows "work_left (fold discovery_step ks d) = work_left d - length (filter takes_writes ks)
    \<and> (work_left d \<le> length (filter takes_writes ks) \<longrightarrow> dphase (fold discovery_step ks d) = DiscoveryCompleted)
    \<and> (dphase d = DiscoveryUnset \<and> \<not> marked d \<longrightarrow> work_left d = nat (calculateTotalSteps (dsp_scope (dis_spec d))) + 3)"
proof -
  note run = countdown_run [OF assms]
  have "dphase (fold discovery_step ks d) = DiscoveryCompleted" if "work_left d \<le> length (filter takes_writes ks)"
  proof -
    have "work_left (fold discovery_step ks d) = 0" "sound_discovery (fold discovery_step ks d)" using run that by simp_all
    then show ?thesis
      by (cases "dphase (fold discovery_step ks d)") (auto simp: work_left_def sound_discovery_def steps_counted_def Let_def)
  qed
  then show ?thesis using run by (simp add: work_left_def)
qed

theorem discovery_counts_down_witness:
  "let ks = [sample_server True, sample_server False, sample_server True, sample_server True, sample_server True] in
    work_left (fold discovery_step ks sample_discovery) = work_left sample_discovery - length (filter takes_writes ks)
    \<and> dphase (fold discovery_step ks sample_discovery) = DiscoveryCompleted \<and> work_left sample_discovery = 4"
proof -
  have a: "takes_writes (sample_server True)" "\<not> takes_writes (sample_server False)" "refuses_writes (sample_server False)"
    by (simp_all add: takes_writes_def refuses_writes_def sample_server_def)
  have s: "sound_discovery sample_discovery" "dphase sample_discovery = DiscoveryUnset" "\<not> marked sample_discovery"
      "nat (calculateTotalSteps (dsp_scope (dis_spec sample_discovery))) = 1"
    by (simp_all add: sound_discovery_def steps_counted_def sample_discovery_def discovery_validateConfiguration_def no_authentication_def
        zero_meta_def zero_source_def calculateTotalSteps_def)
  have ks: "\<forall>k \<in> set [sample_server True, sample_server False, sample_server True, sample_server True, sample_server True].
      takes_writes k \<or> refuses_writes k" using a by simp
  from discovery_counts_down [OF ks s(1)] show ?thesis using a s(2-4) by (simp add: Let_def)
qed

end
