(* ===== verification/SmartArtifacts.thy ===== *)
theory SmartArtifacts
  imports Kube
begin

text \<open>
  The first part of \<^verbatim>\<open>internal/smart/artifacts.go\<close>: the migration of packages from the feeds of Azure
  DevOps to GitHub Packages, and the cache of what was migrated.

  The two clients are empty shells in the source. Their operations, the rate limiter, the clock and the order in which
  concurrent work finishes are the record \<open>art_env\<close>, whose answers may depend on everything that was
  called before; \<open>placeholder_clients\<close> is the one that the source has. The packages of a feed that the
  code migrates concurrently are migrated one after the other here, in the order in which they
  finish, so two packages of one feed that share name and version are not seen to race.
\<close>

section \<open>Feeds and packages\<close>

record ado_feed =
  fed_id :: string
  fed_name :: string
  fed_feedType :: string

record ado_package =
  pkg_id :: string
  pkg_name :: string
  pkg_packageType :: string

record ado_package_version =
  pkv_version :: string
  pkv_sizeBytes :: int

record artifact_analysis =
  ara_totalArtifacts :: int
  ara_totalSizeBytes :: int
  ara_byType :: "string \<rightharpoonup> int"
  ara_byFeed :: "string \<rightharpoonup> int"

text \<open>A call of a client or of the rate limiter, and one that stores an artifact at GitHub with its outcome.\<close>

datatype art_action = ArtCalled string "string list" | ArtPut string "string list" "go_error option"

record art_env =
  ae_feeds :: "art_action list \<Rightarrow> string \<Rightarrow> go_error + ado_feed list"
  ae_packages :: "art_action list \<Rightarrow> string \<Rightarrow> string \<Rightarrow> go_error + ado_package list"
  ae_versions :: "art_action list \<Rightarrow> string \<Rightarrow> string \<Rightarrow> string \<Rightarrow> go_error + ado_package_version list"
  ae_download :: "art_action list \<Rightarrow> string \<Rightarrow> string list \<Rightarrow> go_error + string"
  ae_put :: "art_action list \<Rightarrow> string \<Rightarrow> string list \<Rightarrow> string \<Rightarrow> go_error option"
  ae_wait :: "art_action list \<Rightarrow> go_error option"
  ae_finish :: "art_action list \<Rightarrow> ado_package list \<Rightarrow> ado_package list"
  ae_clock :: "nat \<Rightarrow> instant"

record art_state =
  ats_cache :: "string \<rightharpoonup> instant"
  ats_ticks :: nat
  ats_log :: "art_action list"

definition art_log :: "art_action \<Rightarrow> 'x art_state_scheme \<Rightarrow> 'x art_state_scheme" where
  "art_log a s = s\<lparr>ats_log := ats_log s @ [a]\<rparr>"

text \<open>The clients of the source: nothing is listed, nothing fails.\<close>

definition placeholder_clients :: "art_env \<Rightarrow> art_env" where
  "placeholder_clients e = e\<lparr>ae_feeds := (\<lambda>h project. Inr []), ae_packages := (\<lambda>h project feed. Inr []),
     ae_versions := (\<lambda>h project feed package. Inr []), ae_put := (\<lambda>h api args content. None)\<rparr>"

section \<open>The cache\<close>

definition has_artifact :: "string \<Rightarrow> 'x art_state_scheme \<Rightarrow> bool" where
  "has_artifact key s \<longleftrightarrow> ats_cache s key \<noteq> None"

definition set_artifact :: "art_env \<Rightarrow> string \<Rightarrow> 'x art_state_scheme \<Rightarrow> 'x art_state_scheme" where
  "set_artifact e key s = s\<lparr>ats_cache := (ats_cache s)(key \<mapsto> ae_clock e (ats_ticks s)), ats_ticks := Suc (ats_ticks s)\<rparr>"

definition artifact_key :: "string \<Rightarrow> string \<Rightarrow> string \<Rightarrow> string" where
  "artifact_key kind name version = kind @ '':'' @ name @ '':'' @ version"

section \<open>Analysis\<close>

definition count_type :: "string \<Rightarrow> (string \<rightharpoonup> int) \<Rightarrow> string \<rightharpoonup> int" where
  "count_type t m = m(t \<mapsto> (case m t of None \<Rightarrow> 0 | Some n \<Rightarrow> n) + 1)"

fun add_sizes :: "ado_package_version list \<Rightarrow> int \<Rightarrow> int" where
  "add_sizes [] n = n"
| "add_sizes (v # vs) n = add_sizes vs (wrap64 (n + pkv_sizeBytes v))"

fun analyze_packages :: "art_env \<Rightarrow> string \<Rightarrow> string \<Rightarrow> ado_package list \<Rightarrow> artifact_analysis \<Rightarrow> 'x art_state_scheme
    \<Rightarrow> artifact_analysis \<times> 'x art_state_scheme" where
  "analyze_packages e project feed [] a s = (a, s)"
| "analyze_packages e project feed (p # ps) a s =
     (let a = a\<lparr>ara_byType := count_type (pkg_packageType p) (ara_byType a)\<rparr>;
          r = ae_versions e (ats_log s) project feed (pkg_id p);
          s = art_log (ArtCalled ''ListPackageVersions'' [project, feed, pkg_id p]) s
      in case r of Inl err \<Rightarrow> analyze_packages e project feed ps a s
       | Inr vs \<Rightarrow> analyze_packages e project feed ps (a\<lparr>ara_totalArtifacts := ara_totalArtifacts a + int (length vs),
           ara_totalSizeBytes := add_sizes vs (ara_totalSizeBytes a)\<rparr>) s)"

fun analyze_feeds :: "art_env \<Rightarrow> string \<Rightarrow> ado_feed list \<Rightarrow> artifact_analysis \<Rightarrow> 'x art_state_scheme
    \<Rightarrow> artifact_analysis \<times> 'x art_state_scheme" where
  "analyze_feeds e project [] a s = (a, s)"
| "analyze_feeds e project (f # fs) a s =
     (let r = ae_packages e (ats_log s) project (fed_name f);
          s = art_log (ArtCalled ''ListPackages'' [project, fed_name f]) s
      in case r of Inl err \<Rightarrow> analyze_feeds e project fs a s
       | Inr ps \<Rightarrow> (case analyze_packages e project (fed_name f) ps
             (a\<lparr>ara_byFeed := (ara_byFeed a)(fed_name f \<mapsto> int (length ps))\<rparr>) s of
           (a, s) \<Rightarrow> analyze_feeds e project fs a s))"

definition AnalyzeArtifacts :: "art_env \<Rightarrow> string \<Rightarrow> 'x art_state_scheme \<Rightarrow> (go_error + artifact_analysis) \<times> 'x art_state_scheme" where
  "AnalyzeArtifacts e projectOrRepo s =
     (let r = ae_feeds e (ats_log s) projectOrRepo; s = art_log (ArtCalled ''ListFeeds'' [projectOrRepo]) s
      in case r of Inl err \<Rightarrow> (Inl (wrap_err ''failed to list feeds'' err), s)
       | Inr feeds \<Rightarrow> map_prod Inr id (analyze_feeds e projectOrRepo feeds
           \<lparr>ara_totalArtifacts = 0, ara_totalSizeBytes = 0, ara_byType = Map.empty, ara_byFeed = Map.empty\<rparr> s))"

section \<open>One package\<close>

definition fetch_and_put :: "art_env \<Rightarrow> string \<Rightarrow> string list \<Rightarrow> string \<Rightarrow> string \<Rightarrow> string list \<Rightarrow> string \<Rightarrow> 'x art_state_scheme
    \<Rightarrow> go_error option \<times> 'x art_state_scheme" where
  "fetch_and_put e download args1 failure1 put args2 failure2 s =
     (let r = ae_download e (ats_log s) download args1; s = art_log (ArtCalled download args1) s
      in case r of Inl err \<Rightarrow> (Some (wrap_err failure1 err), s)
       | Inr content \<Rightarrow> (let err = ae_put e (ats_log s) put args2 content
           in (map_option (wrap_err failure2) err, art_log (ArtPut put args2 err) s)))"

fun migrate_versions :: "art_env \<Rightarrow> string \<Rightarrow> string \<Rightarrow> (string \<Rightarrow> 'x art_state_scheme \<Rightarrow> go_error option \<times> 'x art_state_scheme)
    \<Rightarrow> ado_package_version list \<Rightarrow> 'x art_state_scheme \<Rightarrow> go_error option \<times> 'x art_state_scheme" where
  "migrate_versions e kind name transfer [] s = (None, s)"
| "migrate_versions e kind name transfer (v # vs) s =
     (let key = artifact_key kind name (pkv_version v)
      in if has_artifact key s then migrate_versions e kind name transfer vs s
         else (case transfer (pkv_version v) s of
             (Some err, s) \<Rightarrow> (Some err, s)
           | (None, s) \<Rightarrow> migrate_versions e kind name transfer vs (set_artifact e key s)))"

definition migrate_package :: "art_env \<Rightarrow> string \<Rightarrow> (string \<Rightarrow> 'x art_state_scheme \<Rightarrow> go_error option \<times> 'x art_state_scheme)
    \<Rightarrow> string \<Rightarrow> string \<Rightarrow> ado_package \<Rightarrow> 'x art_state_scheme \<Rightarrow> go_error option \<times> 'x art_state_scheme" where
  "migrate_package e kind transfer project feed p s =
     (let r = ae_versions e (ats_log s) project feed (pkg_id p);
          s = art_log (ArtCalled ''ListPackageVersions'' [project, feed, pkg_id p]) s
      in case r of Inl err \<Rightarrow> (Some (wrap_err ''failed to list versions'' err), s)
       | Inr vs \<Rightarrow> migrate_versions e kind (pkg_name p) transfer vs s)"

definition nuget_transfer :: "art_env \<Rightarrow> string \<Rightarrow> string \<Rightarrow> string \<Rightarrow> ado_package \<Rightarrow> string \<Rightarrow> 'x art_state_scheme \<Rightarrow> go_error option \<times> 'x art_state_scheme" where
  "nuget_transfer e target project feed p v = fetch_and_put e
     ''DownloadNuGetPackage'' [project, feed, pkg_name p, v] ''failed to download package''
     ''UploadNuGetPackage'' [target, pkg_name p, v] ''failed to upload to GitHub''"

definition migrateNuGetPackage :: "art_env \<Rightarrow> string \<Rightarrow> string \<Rightarrow> string \<Rightarrow> ado_package \<Rightarrow> 'x art_state_scheme \<Rightarrow> go_error option \<times> 'x art_state_scheme" where
  "migrateNuGetPackage e target project feed p = migrate_package e ''nuget'' (nuget_transfer e target project feed p) project feed p"

definition npm_transfer :: "art_env \<Rightarrow> string \<Rightarrow> string \<Rightarrow> string \<Rightarrow> ado_package \<Rightarrow> string \<Rightarrow> 'x art_state_scheme \<Rightarrow> go_error option \<times> 'x art_state_scheme" where
  "npm_transfer e target project feed p v = fetch_and_put e
     ''DownloadNpmPackage'' [project, feed, pkg_name p, v] ''failed to download package''
     ''UploadNpmPackage'' [target, pkg_name p, v] ''failed to upload to GitHub''"

definition migrateNpmPackage :: "art_env \<Rightarrow> string \<Rightarrow> string \<Rightarrow> string \<Rightarrow> ado_package \<Rightarrow> 'x art_state_scheme \<Rightarrow> go_error option \<times> 'x art_state_scheme" where
  "migrateNpmPackage e target project feed p = migrate_package e ''npm'' (npm_transfer e target project feed p) project feed p"

definition maven_transfer :: "art_env \<Rightarrow> string \<Rightarrow> string \<Rightarrow> string \<Rightarrow> ado_package \<Rightarrow> string \<Rightarrow> 'x art_state_scheme \<Rightarrow> go_error option \<times> 'x art_state_scheme" where
  "maven_transfer e target project feed p v s =
     (let parts = split_on (CHR '':'') (pkg_name p)
     in if length parts < 2 then (Some (PlainError (''invalid Maven artifact name: '' @ pkg_name p)), s)
        else fetch_and_put e
          ''DownloadMavenArtifact'' [project, feed, parts ! 0, parts ! 1, v] ''failed to download artifact''
          ''UploadMavenArtifact'' [target, parts ! 0, parts ! 1, v] ''failed to upload to GitHub'' s)"

definition migrateMavenPackage :: "art_env \<Rightarrow> string \<Rightarrow> string \<Rightarrow> string \<Rightarrow> ado_package \<Rightarrow> 'x art_state_scheme \<Rightarrow> go_error option \<times> 'x art_state_scheme" where
  "migrateMavenPackage e target project feed p = migrate_package e ''maven'' (maven_transfer e target project feed p) project feed p"

definition python_transfer :: "art_env \<Rightarrow> string \<Rightarrow> string \<Rightarrow> string \<Rightarrow> ado_package \<Rightarrow> string \<Rightarrow> 'x art_state_scheme \<Rightarrow> go_error option \<times> 'x art_state_scheme" where
  "python_transfer e target project feed p v = fetch_and_put e
     ''DownloadPythonPackage'' [project, feed, pkg_name p, v] ''failed to download package''
     ''UploadPythonPackage'' [target, pkg_name p, v] ''failed to upload to GitHub''"

definition migratePythonPackage :: "art_env \<Rightarrow> string \<Rightarrow> string \<Rightarrow> string \<Rightarrow> ado_package \<Rightarrow> 'x art_state_scheme \<Rightarrow> go_error option \<times> 'x art_state_scheme" where
  "migratePythonPackage e target project feed p = migrate_package e ''python'' (python_transfer e target project feed p) project feed p"

definition universal_transfer :: "art_env \<Rightarrow> string \<Rightarrow> string \<Rightarrow> string \<Rightarrow> ado_package \<Rightarrow> string \<Rightarrow> 'x art_state_scheme \<Rightarrow> go_error option \<times> 'x art_state_scheme" where
  "universal_transfer e target project feed p v = fetch_and_put e
     ''DownloadUniversalPackage'' [project, feed, pkg_name p, v] ''failed to download package''
     ''CreateReleaseWithAsset'' [target, pkg_name p @ ''-v'' @ v, pkg_name p, pkg_name p @ ''-'' @ v @ ''.zip'']
     ''failed to create GitHub release''"

definition migrateUniversalPackage :: "art_env \<Rightarrow> string \<Rightarrow> string \<Rightarrow> string \<Rightarrow> ado_package \<Rightarrow> 'x art_state_scheme \<Rightarrow> go_error option \<times> 'x art_state_scheme" where
  "migrateUniversalPackage e target project feed p = migrate_package e ''universal'' (universal_transfer e target project feed p) project feed p"

section \<open>A feed and all feeds\<close>

text \<open>The numbers of migrated and of failed packages.\<close>

fun migrate_packages :: "art_env \<Rightarrow> (ado_package \<Rightarrow> 'x art_state_scheme \<Rightarrow> go_error option \<times> 'x art_state_scheme)
    \<Rightarrow> ado_package list \<Rightarrow> 'x art_state_scheme \<Rightarrow> (int \<times> int) \<times> 'x art_state_scheme" where
  "migrate_packages e migrate [] s = ((0, 0), s)"
| "migrate_packages e migrate (p # ps) s =
     (case (let limited = ae_wait e (ats_log s); s = art_log (ArtCalled ''Wait'' []) s
            in if limited = None then migrate p s else (limited, s)) of
        (err, s) \<Rightarrow> (case migrate_packages e migrate ps s of
           ((migrated, failed), s) \<Rightarrow> (if err = None then (migrated + 1, failed) else (migrated, failed + 1), s)))"

definition migrateNuGetPackages :: "art_env \<Rightarrow> string \<Rightarrow> string \<Rightarrow> string \<Rightarrow> ado_package list \<Rightarrow> 'x art_state_scheme \<Rightarrow> (int \<times> int) \<times> 'x art_state_scheme" where
  "migrateNuGetPackages e target project feed ps s = migrate_packages e (migrateNuGetPackage e target project feed) (ae_finish e (ats_log s) ps) s"

definition migrateNpmPackages :: "art_env \<Rightarrow> string \<Rightarrow> string \<Rightarrow> string \<Rightarrow> ado_package list \<Rightarrow> 'x art_state_scheme \<Rightarrow> (int \<times> int) \<times> 'x art_state_scheme" where
  "migrateNpmPackages e target project feed ps s = migrate_packages e (migrateNpmPackage e target project feed) (ae_finish e (ats_log s) ps) s"

definition migrateMavenPackages :: "art_env \<Rightarrow> string \<Rightarrow> string \<Rightarrow> string \<Rightarrow> ado_package list \<Rightarrow> 'x art_state_scheme \<Rightarrow> (int \<times> int) \<times> 'x art_state_scheme" where
  "migrateMavenPackages e target project feed ps s = migrate_packages e (migrateMavenPackage e target project feed) ps s"

definition migratePythonPackages :: "art_env \<Rightarrow> string \<Rightarrow> string \<Rightarrow> string \<Rightarrow> ado_package list \<Rightarrow> 'x art_state_scheme \<Rightarrow> (int \<times> int) \<times> 'x art_state_scheme" where
  "migratePythonPackages e target project feed ps s = migrate_packages e (migratePythonPackage e target project feed) ps s"

definition migrateUniversalPackages :: "art_env \<Rightarrow> string \<Rightarrow> string \<Rightarrow> string \<Rightarrow> ado_package list \<Rightarrow> 'x art_state_scheme \<Rightarrow> (int \<times> int) \<times> 'x art_state_scheme" where
  "migrateUniversalPackages e target project feed ps s = migrate_packages e (migrateUniversalPackage e target project feed) ps s"

definition migrateFeed :: "art_env \<Rightarrow> string \<Rightarrow> string \<Rightarrow> ado_feed \<Rightarrow> 'x art_state_scheme \<Rightarrow> (go_error option \<times> int \<times> int) \<times> 'x art_state_scheme" where
  "migrateFeed e target project f s =
     (let r = ae_packages e (ats_log s) project (fed_name f); s = art_log (ArtCalled ''ListPackages'' [project, fed_name f]) s
      in case r of Inl err \<Rightarrow> ((Some (wrap_err ''failed to list packages'' err), 0, 0), s)
       | Inr ps \<Rightarrow> map_prod (Pair None) id
          (if fed_feedType f = ''nuget'' then migrateNuGetPackages e target project (fed_name f) ps s
           else if fed_feedType f = ''npm'' then migrateNpmPackages e target project (fed_name f) ps s
           else if fed_feedType f = ''maven'' then migrateMavenPackages e target project (fed_name f) ps s
           else if fed_feedType f = ''python'' then migratePythonPackages e target project (fed_name f) ps s
           else if fed_feedType f = ''universal'' then migrateUniversalPackages e target project (fed_name f) ps s
           else ((0, 0), s)))"

fun migrate_feeds :: "art_env \<Rightarrow> string \<Rightarrow> string \<Rightarrow> ado_feed list \<Rightarrow> int \<Rightarrow> int \<Rightarrow> 'x art_state_scheme \<Rightarrow> (int \<times> int) \<times> 'x art_state_scheme" where
  "migrate_feeds e target project [] totalMigrated totalFailed s = ((totalMigrated, totalFailed), s)"
| "migrate_feeds e target project (f # fs) totalMigrated totalFailed s =
     (case migrateFeed e target project f s of ((err, migrated, failed), s) \<Rightarrow>
        migrate_feeds e target project fs (if err = None then totalMigrated + migrated else totalMigrated) (totalFailed + failed) s)"

definition MigrateArtifacts :: "art_env \<Rightarrow> string \<Rightarrow> string \<Rightarrow> 'x art_state_scheme \<Rightarrow> go_error option \<times> 'x art_state_scheme" where
  "MigrateArtifacts e project target s =
     (let r = ae_feeds e (ats_log s) project; s = art_log (ArtCalled ''ListFeeds'' [project]) s
      in case r of Inl err \<Rightarrow> (Some (wrap_err ''failed to list feeds'' err), s)
       | Inr feeds \<Rightarrow> (case migrate_feeds e target project feeds 0 0 s of ((migrated, failed), s) \<Rightarrow>
           (if failed > 0 then Some (PlainError (''artifact migration completed with '' @ fmt_d failed @ '' failures'')) else None, s)))"

end
