(* ===== verification/SmartPlan.thy ===== *)
theory SmartPlan
  imports SmartArtifacts "HOL-Library.AList"
begin

text \<open>
  How \<^verbatim>\<open>internal/smart/engine.go\<close> plans: the analysis of a migration, the dependency graph (the last part
  of \<^verbatim>\<open>artifacts.go\<close>), the order of execution and the groups that run in parallel. The analyses of repositories and
  of work items are constants in the source. The order in which the sorting of the graph visits a
  map is a parameter.
\<close>

section \<open>Types\<close>

record smart_request =
  smr_name :: string
  smr_sourceRepo :: string
  smr_targetRepo :: string
  smr_includeRepository :: bool
  smr_includeWorkItems :: bool
  smr_includeArtifacts :: bool
  smr_includePipelines :: bool
  smr_dependencies :: "string list"

record repository_analysis =
  rpa_sizeBytes :: int
  rpa_commitCount :: int
  rpa_branchCount :: int
  rpa_tagCount :: int
  rpa_hasLFS :: bool
  rpa_hasSubmodules :: bool
  rpa_languages :: "string \<rightharpoonup> int"

record work_item_analysis =
  wia_totalCount :: int
  wia_byType :: "string \<rightharpoonup> int"
  wia_byState :: "string \<rightharpoonup> int"
  wia_withComments :: int
  wia_withAttachments :: int

record planned_migration =
  plm_name :: string
  plm_sourceRepo :: string
  plm_targetRepo :: string
  plm_includeRepository :: bool
  plm_includeWorkItems :: bool
  plm_includeArtifacts :: bool
  plm_includePipelines :: bool
  plm_dependencies :: "string list"
  plm_repositoryAnalysis :: "repository_analysis option"
  plm_workItemAnalysis :: "work_item_analysis option"
  plm_artifactAnalysis :: "artifact_analysis option"
  plm_complexity :: int
  plm_estimatedDuration :: duration
  plm_estimatedSize :: int
  plm_optimalBatchSize :: int

record migration_plan =
  mpl_migrations :: "planned_migration list"
  mpl_executionOrder :: "string list"
  mpl_parallelGroups :: "planned_migration list list"
  mpl_estimatedDuration :: duration
  mpl_createdAt :: instant

text \<open>The engine: the cache of the artifact migrator, the dependency graph and the circuit breaker.\<close>

record engine = art_state +
  eng_nodes :: "(string \<times> string list) list"
  eng_failures :: int
  eng_successes :: int
  eng_isOpen :: bool
  eng_threshold :: int

record smart_env =
  sm_art :: art_env
  sm_order :: "nat \<Rightarrow> string list \<Rightarrow> string list"
  sm_finish :: "art_action list \<Rightarrow> planned_migration list \<Rightarrow> planned_migration list"
  sm_rnd :: "rat \<Rightarrow> rat"
  sm_conv :: "rat \<Rightarrow> int"
  sm_cancelled :: "art_action list \<Rightarrow> go_error option"

definition NewSmartMigrationEngine :: engine where
  "NewSmartMigrationEngine = \<lparr>ats_cache = Map.empty, ats_ticks = 0, ats_log = [], eng_nodes = [],
     eng_failures = 0, eng_successes = 0, eng_isOpen = False, eng_threshold = 5\<rparr>"

definition engine_now :: "smart_env \<Rightarrow> engine \<Rightarrow> instant \<times> engine" where
  "engine_now e s = (ae_clock (sm_art e) (ats_ticks s), s\<lparr>ats_ticks := Suc (ats_ticks s)\<rparr>)"

section \<open>Analysis\<close>

text \<open>\<open>tier\<close> gives the points of the first limit that is exceeded.\<close>

fun tier :: "(int \<times> int) list \<Rightarrow> int \<Rightarrow> int" where
  "tier [] n = 0"
| "tier ((limit, points) # ts) n = (if n > limit then points else tier ts n)"

definition repository_complexity :: "repository_analysis \<Rightarrow> int" where
  "repository_complexity ra =
     tier [(10 * 1024 * 1024 * 1024, 15), (1 * 1024 * 1024 * 1024, 10), (100 * 1024 * 1024, 5)] (rpa_sizeBytes ra)
     + tier [(10000, 10), (1000, 5), (100, 2)] (rpa_commitCount ra)
     + tier [(100, 10), (20, 5), (5, 2)] (rpa_branchCount ra)
     + (if rpa_hasLFS ra then 5 else 0)"

definition work_item_complexity :: "work_item_analysis \<Rightarrow> int" where
  "work_item_complexity wa = tier [(1000, 20), (500, 15), (100, 10), (10, 5)] (wia_totalCount wa)"

definition artifact_complexity :: "artifact_analysis \<Rightarrow> int" where
  "artifact_complexity aa = tier [(500, 20), (100, 15), (20, 10), (5, 5)] (ara_totalArtifacts aa)"

definition calculateComplexity :: "planned_migration \<Rightarrow> int" where
  "calculateComplexity pm =
     (case plm_repositoryAnalysis pm of None \<Rightarrow> 0 | Some ra \<Rightarrow> repository_complexity ra)
     + (case plm_workItemAnalysis pm of None \<Rightarrow> 0 | Some wa \<Rightarrow> work_item_complexity wa)
     + (case plm_artifactAnalysis pm of None \<Rightarrow> 0 | Some aa \<Rightarrow> artifact_complexity aa)
     + tier [(5, 10), (2, 5), (0, 2)] (int (length (plm_dependencies pm)))
     + (if plm_includePipelines pm then 10 else 0)"

text \<open>\<open>duration += n * unit\<close> on 64 bits.\<close>

definition add_time :: "int \<Rightarrow> duration \<Rightarrow> duration \<Rightarrow> duration" where
  "add_time n unit d = wrap64 (d + wrap64 (n * unit))"

definition repository_time :: "repository_analysis \<Rightarrow> duration \<Rightarrow> duration" where
  "repository_time ra d =
     (let d = add_time (go_div (go_div (rpa_sizeBytes ra) (1024 * 1024)) 100) minute d;
          d = add_time (go_div (rpa_commitCount ra) 100) second d;
          d = add_time (wrap64 (rpa_branchCount ra * 5)) second d
      in if rpa_hasLFS ra then add_time 5 minute d else d)"

definition work_item_time :: "work_item_analysis \<Rightarrow> duration \<Rightarrow> duration" where
  "work_item_time wa = add_time (wrap64 (wia_totalCount wa * 10)) second"

definition artifact_time :: "artifact_analysis \<Rightarrow> duration \<Rightarrow> duration" where
  "artifact_time aa d = add_time (go_div (go_div (ara_totalSizeBytes aa) (1024 * 1024)) 10) minute
     (add_time (wrap64 (ara_totalArtifacts aa * 5)) second d)"

definition estimateDuration :: "planned_migration \<Rightarrow> duration" where
  "estimateDuration pm =
     (let d = 30 * second;
          d = (case plm_repositoryAnalysis pm of None \<Rightarrow> d | Some ra \<Rightarrow> repository_time ra d);
          d = (case plm_workItemAnalysis pm of None \<Rightarrow> d | Some wa \<Rightarrow> work_item_time wa d);
          d = (case plm_artifactAnalysis pm of None \<Rightarrow> d | Some aa \<Rightarrow> artifact_time aa d)
      in if plm_includePipelines pm then add_time 10 minute d else d)"

definition smart_analyzeRepository :: repository_analysis where
  "smart_analyzeRepository = \<lparr>rpa_sizeBytes = 100 * 1024 * 1024, rpa_commitCount = 500, rpa_branchCount = 5,
     rpa_tagCount = 10, rpa_hasLFS = False, rpa_hasSubmodules = False, rpa_languages = Map.empty\<rparr>"

definition analyzeWorkItems :: work_item_analysis where
  "analyzeWorkItems = \<lparr>wia_totalCount = 100, wia_byType = [''Bug'' \<mapsto> 30, ''Task'' \<mapsto> 70], wia_byState = Map.empty,
     wia_withComments = 0, wia_withAttachments = 0\<rparr>"

definition planned_of :: "smart_request \<Rightarrow> planned_migration" where
  "planned_of req = \<lparr>plm_name = smr_name req, plm_sourceRepo = smr_sourceRepo req, plm_targetRepo = smr_targetRepo req,
     plm_includeRepository = smr_includeRepository req, plm_includeWorkItems = smr_includeWorkItems req,
     plm_includeArtifacts = smr_includeArtifacts req, plm_includePipelines = smr_includePipelines req,
     plm_dependencies = smr_dependencies req, plm_repositoryAnalysis = None, plm_workItemAnalysis = None,
     plm_artifactAnalysis = None, plm_complexity = 0, plm_estimatedDuration = 0, plm_estimatedSize = 0,
     plm_optimalBatchSize = 0\<rparr>"

definition with_repository :: "planned_migration \<Rightarrow> planned_migration" where
  "with_repository pm = pm\<lparr>plm_repositoryAnalysis := Some smart_analyzeRepository,
     plm_estimatedSize := wrap64 (plm_estimatedSize pm + rpa_sizeBytes smart_analyzeRepository)\<rparr>"

definition with_artifacts :: "artifact_analysis \<Rightarrow> planned_migration \<Rightarrow> planned_migration" where
  "with_artifacts aa pm = pm\<lparr>plm_artifactAnalysis := Some aa,
     plm_estimatedSize := wrap64 (plm_estimatedSize pm + ara_totalSizeBytes aa)\<rparr>"

definition with_estimates :: "planned_migration \<Rightarrow> planned_migration" where
  "with_estimates pm = (let pm = pm\<lparr>plm_complexity := calculateComplexity pm\<rparr>
     in pm\<lparr>plm_estimatedDuration := estimateDuration pm\<rparr>)"

definition analyzeMigration :: "smart_env \<Rightarrow> smart_request \<Rightarrow> engine \<Rightarrow> (go_error + planned_migration) \<times> engine" where
  "analyzeMigration e req s =
     (let pm = planned_of req;
          pm = (if smr_includeRepository req then with_repository pm else pm);
          pm = (if smr_includeWorkItems req then pm\<lparr>plm_workItemAnalysis := Some analyzeWorkItems\<rparr> else pm)
      in if smr_includeArtifacts req
         then (case AnalyzeArtifacts (sm_art e) (smr_sourceRepo req) s of
             (Inl err, s) \<Rightarrow> (Inl (wrap_err ''artifacts analysis failed'' err), s)
           | (Inr aa, s) \<Rightarrow> (Inr (with_estimates (with_artifacts aa pm)), s))
         else (Inr (with_estimates pm), s))"

fun analyze_all :: "smart_env \<Rightarrow> smart_request list \<Rightarrow> engine \<Rightarrow> (go_error + planned_migration list) \<times> engine" where
  "analyze_all e [] s = (Inr [], s)"
| "analyze_all e (req # reqs) s = and_then (wrapped (''failed to analyze migration '' @ smr_name req) (analyzeMigration e req s))
     (\<lambda>pm s. and_then (analyze_all e reqs s) (\<lambda>pms s. (Inr (pm # pms), s)))"

section \<open>The dependency graph\<close>

definition BuildFromMigrations :: "planned_migration list \<Rightarrow> engine \<Rightarrow> engine" where
  "BuildFromMigrations pms s = s\<lparr>eng_nodes := fold (\<lambda>pm. AList.update (plm_name pm) (plm_dependencies pm)) pms (eng_nodes s)\<rparr>"

definition DetectCircularDependencies :: "engine \<Rightarrow> string list" where
  "DetectCircularDependencies s = []"

definition TopologicalSort :: "smart_env \<Rightarrow> engine \<Rightarrow> string list" where
  "TopologicalSort e s = sm_order e (ats_ticks s) (map fst (eng_nodes s))"

definition CalculateOptimalBatchSize :: "planned_migration \<Rightarrow> int" where
  "CalculateOptimalBatchSize pm = (if plm_complexity pm > 70 then 5 else if plm_complexity pm > 40 then 10 else 20)"

section \<open>Parallel groups\<close>

definition deps_processed :: "string set \<Rightarrow> planned_migration \<Rightarrow> bool" where
  "deps_processed processed pm \<longleftrightarrow> list_all (\<lambda>d. d \<in> processed) (plm_dependencies pm)"

text \<open>The group that is being formed and the names that are processed.\<close>

type_synonym grouping = "planned_migration list \<times> string set"

definition take_up :: "planned_migration \<Rightarrow> grouping \<Rightarrow> grouping" where
  "take_up pm g = (case g of (members, processed) \<Rightarrow>
     if deps_processed processed pm then (members @ [pm], insert (plm_name pm) processed) else (members, processed))"

definition take_named :: "string \<Rightarrow> planned_migration \<Rightarrow> grouping \<Rightarrow> grouping" where
  "take_named name pm g = (if plm_name pm = name then take_up pm g else g)"

definition take_other :: "planned_migration \<Rightarrow> grouping \<Rightarrow> grouping" where
  "take_other pm g = (if plm_name pm \<in> snd g then g else take_up pm g)"

definition form_group :: "planned_migration list \<Rightarrow> string \<Rightarrow> string set \<Rightarrow> grouping" where
  "form_group pms name processed = fold take_other pms (fold (take_named name) pms ([], processed))"

fun form_groups :: "planned_migration list \<Rightarrow> string list \<Rightarrow> string set \<Rightarrow> planned_migration list list" where
  "form_groups pms [] processed = []"
| "form_groups pms (name # order) processed =
     (if name \<in> processed then form_groups pms order processed
      else (case form_group pms name processed of (members, processed) \<Rightarrow>
         if members = [] then form_groups pms order processed else members # form_groups pms order processed))"

definition identifyParallelGroups :: "migration_plan \<Rightarrow> planned_migration list list" where
  "identifyParallelGroups plan = form_groups (mpl_migrations plan) (mpl_executionOrder plan) {}"

definition longest :: "planned_migration list \<Rightarrow> duration" where
  "longest members = fold (\<lambda>pm m. if plm_estimatedDuration pm > m then plm_estimatedDuration pm else m) members 0"

definition estimateTotalDuration :: "migration_plan \<Rightarrow> duration" where
  "estimateTotalDuration plan =
     (if mpl_parallelGroups plan = [] then fold (\<lambda>pm t. wrap64 (t + plm_estimatedDuration pm)) (mpl_migrations plan) 0
      else fold (\<lambda>members t. wrap64 (t + longest members)) (mpl_parallelGroups plan) 0)"

definition AnalyzeAndPlan :: "smart_env \<Rightarrow> smart_request list \<Rightarrow> engine \<Rightarrow> (go_error + migration_plan) \<times> engine" where
  "AnalyzeAndPlan e requests s =
     (case engine_now e s of (now, s) \<Rightarrow>
      and_then (analyze_all e requests s) (\<lambda>pms s.
        let s = BuildFromMigrations pms s
        in if DetectCircularDependencies s \<noteq> []
           then (Inl (PlainError (''circular dependencies detected: ['' @ join '' '' (DetectCircularDependencies s) @ '']'')), s)
           else let order = TopologicalSort e s;
                    pms = map (\<lambda>pm. pm\<lparr>plm_optimalBatchSize := CalculateOptimalBatchSize pm\<rparr>) pms;
                    plan = \<lparr>mpl_migrations = pms, mpl_executionOrder = order, mpl_parallelGroups = [],
                            mpl_estimatedDuration = 0, mpl_createdAt = now\<rparr>;
                    plan = plan\<lparr>mpl_estimatedDuration := estimateTotalDuration plan\<rparr>
                in (Inr (plan\<lparr>mpl_parallelGroups := identifyParallelGroups plan\<rparr>), s)))"

end
