(* ===== verification/SmartEngine.thy ===== *)
theory SmartEngine
  imports SmartPlan
begin

text \<open>
  How \<^verbatim>\<open>internal/smart/engine.go\<close> executes a plan: the circuit breaker, retries, a migration, a group, and
  all groups of a plan. The migrations of a group, which run concurrently, run one after the other
  here, in the order in which they finish. The steps for repositories, work items and pipelines
  are empty in the source.
\<close>

section \<open>The circuit breaker\<close>

definition RecordSuccess :: "engine \<Rightarrow> engine" where
  "RecordSuccess s =
     (let s = s\<lparr>eng_successes := eng_successes s + 1, eng_failures := 0\<rparr>
      in if eng_isOpen s \<and> eng_successes s \<ge> 3 then s\<lparr>eng_isOpen := False\<rparr> else s)"

definition RecordFailure :: "engine \<Rightarrow> engine" where
  "RecordFailure s =
     (let s = s\<lparr>eng_failures := eng_failures s + 1, eng_successes := 0\<rparr>
      in if eng_failures s \<ge> eng_threshold s \<and> \<not> eng_isOpen s then s\<lparr>eng_isOpen := True\<rparr> else s)"

definition IsOpen :: "engine \<Rightarrow> bool" where
  "IsOpen s = eng_isOpen s"

section \<open>Retries\<close>

definition findSubstring :: "string \<Rightarrow> string \<Rightarrow> bool" where
  "findSubstring s sub \<longleftrightarrow> length sub \<le> length s
     \<and> list_ex (\<lambda>i. take (length sub) (drop i s) = sub) [0..<Suc (length s - length sub)]"

definition smart_contains :: "string \<Rightarrow> string \<Rightarrow> bool" where
  "smart_contains s sub \<longleftrightarrow>
     length s \<ge> length sub \<and> drop (length s - length sub) s = sub
     \<or> length s > length sub \<and> take (length sub) s = sub
     \<or> length s > length sub \<and> findSubstring s sub"

definition isRetryableError :: "go_error option \<Rightarrow> bool" where
  "isRetryableError err = (case err of None \<Rightarrow> False
     | Some err \<Rightarrow> list_ex (smart_contains (err_text err))
         [''timeout'', ''connection refused'', ''connection reset'', ''temporary failure'', ''rate limit'',
          ''429'', ''503'', ''502'', ''504''])"

text \<open>The pseudo-random number comes from the clock.\<close>

definition getRandomFloat :: "smart_env \<Rightarrow> instant \<Rightarrow> rat" where
  "getRandomFloat e now = sm_rnd e (of_int (now mod 1000) / 1000)"

definition calculateExponentialBackoff :: "smart_env \<Rightarrow> instant \<Rightarrow> nat \<Rightarrow> duration \<Rightarrow> duration \<Rightarrow> duration" where
  "calculateExponentialBackoff e now attempt baseDelay maxDelay =
     (let rnd = sm_rnd e;
          delay = wrap64 (baseDelay * wrap64 (2 ^ attempt));
          jitter = sm_conv e (rnd (rnd (rnd (of_int delay) * (1 / 4)) * rnd (rnd (2 * getRandomFloat e now) - 1)));
          delay = wrap64 (delay + jitter)
      in if delay > maxDelay then maxDelay else delay)"

text \<open>\<open>left\<close> attempts remain after \<open>attempt\<close> of them.\<close>

fun smart_retry :: "smart_env \<Rightarrow> (engine \<Rightarrow> go_error option \<times> engine) \<Rightarrow> nat \<Rightarrow> nat \<Rightarrow> engine \<Rightarrow> go_error option \<times> engine" where
  "smart_retry e operation attempt 0 s = (Some (PlainError ''operation failed after 5 retries''), s)"
| "smart_retry e operation attempt (Suc left) s =
     (if IsOpen s then (Some (PlainError ''circuit breaker is open, operation aborted''), s)
      else let limited = ae_wait (sm_art e) (ats_log s); s = art_log (ArtCalled ''Wait'' []) s
      in case limited of Some err \<Rightarrow> (Some (wrap_err ''rate limiter error'' err), s)
       | None \<Rightarrow> (case operation s of
           (None, s) \<Rightarrow> (None, s)
         | (Some err, s) \<Rightarrow>
             if \<not> isRetryableError (Some err) then (Some (wrap_err ''terminal error'' err), s)
             else if attempt \<ge> 5 then (Some (wrap_err ''max retries exceeded'' err), s)
             else (case engine_now e s of (now, s) \<Rightarrow>
               let delay = calculateExponentialBackoff e now attempt (1 * second) (2 * minute);
                   s = art_log (ArtCalled ''After'' [fmt_duration delay]) s
               in case sm_cancelled e (ats_log s) of
                  Some err \<Rightarrow> (Some err, s)
                | None \<Rightarrow> smart_retry e operation (Suc attempt) left s)))"

definition executeWithSmartRetry :: "smart_env \<Rightarrow> (engine \<Rightarrow> go_error option \<times> engine) \<Rightarrow> engine \<Rightarrow> go_error option \<times> engine" where
  "executeWithSmartRetry e operation s = smart_retry e operation 0 6 s"

section \<open>One migration\<close>

record individual_result =
  ind_success :: bool
  ind_error :: "go_error option"
  ind_duration :: duration

record smart_result =
  sre_startTime :: instant
  sre_endTime :: instant
  sre_duration :: duration
  sre_successCount :: int
  sre_failedCount :: int
  sre_results :: "string \<rightharpoonup> individual_result"
  sre_stopped :: bool

definition migrate_planned :: "smart_env \<Rightarrow> planned_migration \<Rightarrow> engine \<Rightarrow> go_error option \<times> engine" where
  "migrate_planned e pm s =
     (if plm_includeArtifacts pm
      then map_prod (map_option (wrap_err ''artifacts migration failed'')) id
             (MigrateArtifacts (sm_art e) (plm_sourceRepo pm) (plm_targetRepo pm) s)
      else (None, s))"

definition put_result :: "string \<Rightarrow> individual_result \<Rightarrow> smart_result \<Rightarrow> smart_result" where
  "put_result name ir r = r\<lparr>sre_results := (sre_results r)(name \<mapsto> ir)\<rparr>"

definition executeSingleMigration :: "smart_env \<Rightarrow> planned_migration \<Rightarrow> smart_result \<Rightarrow> engine \<Rightarrow> go_error option \<times> smart_result \<times> engine" where
  "executeSingleMigration e pm r s =
     (case engine_now e s of (start, s) \<Rightarrow>
      case executeWithSmartRetry e (migrate_planned e pm) s of (err, s) \<Rightarrow>
      case engine_now e s of (now, s) \<Rightarrow>
      (case err of
         Some _ \<Rightarrow> (err, (put_result (plm_name pm) \<lparr>ind_success = False, ind_error = err, ind_duration = now - start\<rparr> r)
             \<lparr>sre_failedCount := sre_failedCount r + 1\<rparr>, RecordFailure s)
       | None \<Rightarrow> (None, (put_result (plm_name pm) \<lparr>ind_success = True, ind_error = None, ind_duration = now - start\<rparr> r)
             \<lparr>sre_successCount := sre_successCount r + 1\<rparr>, RecordSuccess s)))"

section \<open>Groups and plans\<close>

fun execute_members :: "smart_env \<Rightarrow> planned_migration list \<Rightarrow> (string \<times> go_error option) list \<Rightarrow> smart_result \<Rightarrow> engine
    \<Rightarrow> (string \<times> go_error option) list \<times> smart_result \<times> engine" where
  "execute_members e [] errs r s = (errs, r, s)"
| "execute_members e (pm # pms) errs r s =
     (case executeSingleMigration e pm r s of (err, r, s) \<Rightarrow> execute_members e pms (AList.update (plm_name pm) err errs) r s)"

definition ExecuteGroup :: "smart_env \<Rightarrow> planned_migration list \<Rightarrow> smart_result \<Rightarrow> engine
    \<Rightarrow> (string \<times> go_error option) list \<times> smart_result \<times> engine" where
  "ExecuteGroup e members r s = execute_members e (sm_finish e (ats_log s) members) [] r s"

definition record_failed :: "string \<times> go_error option \<Rightarrow> smart_result \<Rightarrow> smart_result" where
  "record_failed x r = (case x of (name, err) \<Rightarrow>
     if err = None then r
     else (put_result name \<lparr>ind_success = False, ind_error = err, ind_duration = 0\<rparr> r)\<lparr>sre_failedCount := sre_failedCount r + 1\<rparr>)"

fun execute_groups :: "smart_env \<Rightarrow> planned_migration list list \<Rightarrow> smart_result \<Rightarrow> engine \<Rightarrow> smart_result \<times> engine" where
  "execute_groups e [] r s = (r, s)"
| "execute_groups e (members # groups) r s =
     (case ExecuteGroup e members r s of (errs, r, s) \<Rightarrow>
        let r = fold record_failed errs r
        in if IsOpen s then (r\<lparr>sre_stopped := True\<rparr>, s) else execute_groups e groups r s)"

definition ExecutePlan :: "smart_env \<Rightarrow> migration_plan \<Rightarrow> engine \<Rightarrow> smart_result \<times> engine" where
  "ExecutePlan e plan s =
     (case engine_now e s of (start, s) \<Rightarrow>
      case execute_groups e (mpl_parallelGroups plan) \<lparr>sre_startTime = start, sre_endTime = 0, sre_duration = 0, sre_successCount = 0,
          sre_failedCount = 0, sre_results = Map.empty, sre_stopped = False\<rparr> s of (r, s) \<Rightarrow>
      case engine_now e s of (now, s) \<Rightarrow>
      (r\<lparr>sre_endTime := now, sre_duration := now - start\<rparr>, s))"

end
