(* ===== verification/SmartPlanProperties.thy ===== *)
theory SmartPlanProperties
  imports SmartPlan
begin

text \<open>
  What a plan of the smart engine contains: its groups respect the dependencies, but the names are visited
  in the arbitrary order of a map, and a migration that is not ready when the visits are over is left out.
\<close>

section \<open>Groups\<close>

abbreviation plan_names :: "planned_migration list \<Rightarrow> string set" where
  "plan_names pms \<equiv> plm_name ` set pms"

text \<open>Each migration comes after all that it depends on.\<close>

fun respects_from :: "string set \<Rightarrow> planned_migration list \<Rightarrow> bool" where
  "respects_from P [] \<longleftrightarrow> True"
| "respects_from P (pm # pms) \<longleftrightarrow> set (plm_dependencies pm) \<subseteq> P \<and> respects_from (insert (plm_name pm) P) pms"

lemma respects_from_append [simp]:
  "respects_from P (xs @ ys) \<longleftrightarrow> respects_from P xs \<and> respects_from (P \<union> plan_names xs) ys"
  by (induction xs arbitrary: P) simp_all

lemma deps_processed_iff: "deps_processed P pm \<longleftrightarrow> set (plm_dependencies pm) \<subseteq> P"
  by (auto simp: deps_processed_def list_all_iff)

text \<open>A grouping that began with the names \<open>P\<close> processed.\<close>

definition grouped :: "planned_migration list \<Rightarrow> string set \<Rightarrow> grouping \<Rightarrow> bool" where
  "grouped pms P g \<longleftrightarrow> set (fst g) \<subseteq> set pms \<and> snd g = P \<union> plan_names (fst g) \<and> respects_from P (fst g)
     \<and> distinct (map plm_name (fst g)) \<and> plan_names (fst g) \<inter> P = {}"

lemma grouped_empty [simp]: "grouped pms P ([], P)"
  by (simp add: grouped_def)

lemma take_up_grouped: "grouped pms P g \<Longrightarrow> pm \<in> set pms \<Longrightarrow> plm_name pm \<notin> snd g \<Longrightarrow> grouped pms P (take_up pm g)"
  by (cases g) (auto simp: grouped_def take_up_def deps_processed_iff)

lemma take_named_other: "name \<notin> plan_names pms \<Longrightarrow> fold (take_named name) pms g = g"
  by (induction pms) (auto simp: take_named_def)

lemma take_named_once:
  "distinct (map plm_name pms) \<Longrightarrow> pm \<in> set pms \<Longrightarrow> fold (take_named (plm_name pm)) pms g = take_up pm g"
proof (induction pms arbitrary: g)
  case (Cons x xs)
  show ?case
  proof (cases "x = pm")
    case True
    then have "plm_name pm \<notin> plan_names xs" using Cons.prems(1) by (auto simp: image_iff)
    then show ?thesis using True by (simp add: take_named_other take_named_def [of _ pm])
  next
    case False
    then have "plm_name x \<noteq> plm_name pm" using Cons.prems by (auto simp: image_iff)
    then show ?thesis using Cons False by (simp add: take_named_def [of _ x])
  qed
qed simp

lemma take_others_grouped: "grouped pms P g \<Longrightarrow> set xs \<subseteq> set pms \<Longrightarrow> grouped pms P (fold take_other xs g)"
  by (induction xs arbitrary: g) (auto simp: take_other_def take_up_grouped)

lemma form_group_grouped:
  assumes "distinct (map plm_name pms)" and "name \<notin> P"
  shows "grouped pms P (form_group pms name P)"
proof -
  have "grouped pms P (fold (take_named name) pms ([], P))"
  proof (cases "name \<in> plan_names pms")
    case True
    then obtain pm where "pm \<in> set pms" "name = plm_name pm" by auto
    then show ?thesis using assms take_up_grouped [of pms P "([], P)" pm] by (simp add: take_named_once)
  qed (simp add: take_named_other)
  then show ?thesis unfolding form_group_def by (rule take_others_grouped) simp
qed

text \<open>What the groups contain, taken together.\<close>

definition scheduled_from :: "planned_migration list \<Rightarrow> string set \<Rightarrow> planned_migration list \<Rightarrow> bool" where
  "scheduled_from pms P xs \<longleftrightarrow> set xs \<subseteq> set pms \<and> respects_from P xs \<and> distinct (map plm_name xs) \<and> plan_names xs \<inter> P = {}"

lemma scheduled_after:
  assumes "grouped pms P (g, Q)" and "scheduled_from pms Q xs"
  shows "scheduled_from pms P (g @ xs)"
proof -
  have "plan_names g \<inter> plan_names xs = {}" "plan_names (g @ xs) \<inter> P = {}"
    using assms by (auto simp: scheduled_from_def grouped_def)
  then show ?thesis using assms by (simp add: scheduled_from_def grouped_def)
qed

lemma form_groups_scheduled:
  assumes "distinct (map plm_name pms)"
  shows "scheduled_from pms P (concat (form_groups pms order P))"
proof (induction order arbitrary: P)
  case (Cons name order)
  show ?case
  proof (cases "name \<in> P")
    case False
    obtain g Q where g: "form_group pms name P = (g, Q)" by fastforce
    have "grouped pms P (g, Q)" using form_group_grouped [OF assms False] g by simp
    moreover have "scheduled_from pms Q (concat (form_groups pms order Q))" by (rule Cons.IH)
    ultimately have "scheduled_from pms P (g @ concat (form_groups pms order Q))" by (rule scheduled_after)
    then show ?thesis using False g by (cases "g = []") simp_all
  qed (simp add: Cons.IH)
qed (simp add: scheduled_from_def)

section \<open>What the analysis keeps\<close>

lemma with_simps [simp]:
  "plm_name (with_estimates pm) = plm_name pm" "plm_dependencies (with_estimates pm) = plm_dependencies pm"
  "plm_name (with_repository pm) = plm_name pm" "plm_dependencies (with_repository pm) = plm_dependencies pm"
  "plm_name (with_artifacts aa pm) = plm_name pm" "plm_dependencies (with_artifacts aa pm) = plm_dependencies pm"
  "plm_name (planned_of req) = smr_name req" "plm_dependencies (planned_of req) = smr_dependencies req"
  by (simp_all add: with_estimates_def with_repository_def with_artifacts_def planned_of_def Let_def)

definition same_shape :: "smart_request \<Rightarrow> planned_migration \<Rightarrow> bool" where
  "same_shape req pm \<longleftrightarrow> plm_name pm = smr_name req \<and> plm_dependencies pm = smr_dependencies req"

lemma analyzeMigration_shape: "analyzeMigration e req s = (Inr pm, t) \<Longrightarrow> same_shape req pm"
  by (auto simp: analyzeMigration_def same_shape_def Let_def split: if_splits prod.splits sum.splits)

lemma analyze_all_shape: "analyze_all e reqs s = (Inr pms, t) \<Longrightarrow> list_all2 same_shape reqs pms"
proof (induction reqs arbitrary: s pms t)
  case (Cons req reqs)
  obtain r u where a: "analyzeMigration e req s = (r, u)" by fastforce
  with Cons.prems obtain pm where r: "r = Inr pm" by (cases r) (auto simp: and_then_def wrapped_def)
  with Cons.prems a obtain pms' where "analyze_all e reqs u = (Inr pms', t)" "pms = pm # pms'"
    by (auto simp: and_then_def wrapped_def split: prod.splits sum.splits)
  then show ?case using Cons.IH analyzeMigration_shape a r by auto
qed simp

lemma same_shape_names: "list_all2 same_shape reqs pms \<Longrightarrow> map plm_name pms = map smr_name reqs"
  by (induction rule: list_all2_induct) (simp_all add: same_shape_def)

lemma same_shape_mem: "list_all2 same_shape reqs pms \<Longrightarrow> pm \<in> set pms \<Longrightarrow> \<exists>req \<in> set reqs. same_shape req pm"
  by (induction rule: list_all2_induct) auto

lemma build_names: "set (map fst (eng_nodes (BuildFromMigrations pms s))) = set (map fst (eng_nodes s)) \<union> plan_names pms"
proof -
  have "fst ` set (fold (\<lambda>pm. AList.update (plm_name pm) (plm_dependencies pm)) pms ns) = fst ` set ns \<union> plan_names pms" for ns
    by (induction pms arbitrary: ns) (auto simp: AList.dom_update)
  then show ?thesis by (simp add: BuildFromMigrations_def)
qed

text \<open>A plan that was made.\<close>

lemma planned:
  assumes "AnalyzeAndPlan e reqs s = (Inr plan, t)"
  obtains n ns where "list_all2 same_shape reqs (mpl_migrations plan)" "mpl_executionOrder plan = sm_order e n ns"
    "mpl_parallelGroups plan = form_groups (mpl_migrations plan) (sm_order e n ns) {}" "set (map smr_name reqs) \<subseteq> set ns"
proof -
  obtain now u where u: "engine_now e s = (now, u)" by fastforce
  obtain r v where a: "analyze_all e reqs u = (r, v)" by fastforce
  with assms u obtain pms where r: "r = Inr pms" by (cases r) (auto simp: AnalyzeAndPlan_def and_then_def)
  let ?f = "\<lambda>pm. pm\<lparr>plm_optimalBatchSize := CalculateOptimalBatchSize pm\<rparr>"
  note shape = analyze_all_shape [OF a [unfolded r]]
  have "list_all2 same_shape reqs (map ?f pms)"
    using shape by (simp add: list_all2_conv_all_nth same_shape_def)
  moreover have "set (map smr_name reqs) \<subseteq> set (map fst (eng_nodes (BuildFromMigrations pms v)))"
    using build_names [of pms v] same_shape_names [OF shape] by (metis Un_upper2 image_set)
  ultimately show thesis using assms u a r
    by (intro that [of "ats_ticks (BuildFromMigrations pms v)" "map fst (eng_nodes (BuildFromMigrations pms v))"])
       (auto simp: AnalyzeAndPlan_def and_then_def Let_def DetectCircularDependencies_def identifyParallelGroups_def TopologicalSort_def)
qed

section \<open>Dependencies are respected\<close>

lemma plan_shape:
  assumes "AnalyzeAndPlan e reqs s = (Inr plan, t)" and "distinct (map smr_name reqs)"
  shows "let xs = concat (mpl_parallelGroups plan) in respects_from {} xs \<and> distinct (map plm_name xs)
    \<and> (\<forall>pm \<in> set xs. \<exists>req \<in> set reqs. same_shape req pm)"
proof -
  from planned [OF assms(1)] obtain n ns where shape: "list_all2 same_shape reqs (mpl_migrations plan)"
    and groups: "mpl_parallelGroups plan = form_groups (mpl_migrations plan) (sm_order e n ns) {}" by blast
  have "distinct (map plm_name (mpl_migrations plan))" using same_shape_names [OF shape] assms(2) by simp
  from form_groups_scheduled [OF this, of "{}" "sm_order e n ns"] show ?thesis
    using same_shape_mem [OF shape] groups by (auto simp: scheduled_from_def Let_def)
qed

lemma form_groups_nonempty: "[] \<notin> set (form_groups pms order P)"
  by (induction order arbitrary: P) (auto split: prod.splits)

lemma respects_groups:
  "respects_from P (concat gs) \<Longrightarrow> i < length gs \<Longrightarrow> pm \<in> set (gs ! i) \<Longrightarrow>
   set (plm_dependencies pm) \<subseteq> P \<union> plan_names (concat (take (Suc i) gs))"
proof (induction gs arbitrary: P i)
  case (Cons g gs)
  show ?case
  proof (cases i)
    case 0
    then obtain xs ys where "g = xs @ pm # ys" using Cons.prems(3) by (auto dest: split_list)
    with Cons.prems(1) 0 show ?thesis by auto
  next
    case (Suc j)
    with Cons.IH [of "P \<union> plan_names g" j] Cons.prems show ?thesis by auto
  qed
qed simp

text \<open>
  C16. For requests with distinct names, the groups of a plan respect the dependencies: all that a
  migration depends on is in an earlier group or in its own, never in a later one and never
  missing, and in its own group it is listed before the migration. No migration is in two groups
  or twice in one, no group is empty, and each member is an analysed request. That a dependency
  may share the group, whose members run concurrently, is how the code forms groups.
\<close>

theorem plan_respects_dependencies:
  assumes "AnalyzeAndPlan e reqs s = (Inr plan, t)" and "distinct (map smr_name reqs)"
  shows "let gs = mpl_parallelGroups plan in
    (\<forall>i < length gs. \<forall>pm \<in> set (gs ! i). \<forall>d \<in> set (plm_dependencies pm). \<exists>j \<le> i. d \<in> plan_names (gs ! j))
    \<and> respects_from {} (concat gs) \<and> distinct (map plm_name (concat gs)) \<and> [] \<notin> set gs
    \<and> (\<forall>pm \<in> set (concat gs). \<exists>req \<in> set reqs. same_shape req pm)"
proof -
  let ?gs = "mpl_parallelGroups plan"
  have shape: "respects_from {} (concat ?gs)" "distinct (map plm_name (concat ?gs))"
    "\<forall>pm \<in> set (concat ?gs). \<exists>req \<in> set reqs. same_shape req pm"
    using plan_shape [OF assms] unfolding Let_def by blast+
  have "[] \<notin> set ?gs" using planned [OF assms(1)] form_groups_nonempty by metis
  moreover have "\<exists>j \<le> i. d \<in> plan_names (?gs ! j)"
    if "i < length ?gs" "pm \<in> set (?gs ! i)" "d \<in> set (plm_dependencies pm)" for i pm d
  proof -
    have "d \<in> plan_names (concat (take (Suc i) ?gs))"
      using respects_groups [OF shape(1) that(1,2)] that(3) by auto
    then obtain x g where "plm_name x = d" "x \<in> set g" "g \<in> set (take (Suc i) ?gs)" by auto
    moreover from this(3) that(1) obtain j where "j \<le> i" "g = ?gs ! j"
      by (auto simp: in_set_conv_nth less_Suc_eq_le)
    ultimately show ?thesis by blast
  qed
  ultimately show ?thesis using shape unfolding Let_def by blast
qed

section \<open>What can never be scheduled\<close>

definition depends :: "smart_request list \<Rightarrow> (string \<times> string) set" where
  "depends reqs = {(d, smr_name req) | d req. req \<in> set reqs \<and> d \<in> set (smr_dependencies req)}"

lemma depends_mem: "req \<in> set reqs \<Longrightarrow> d \<in> set (smr_dependencies req) \<Longrightarrow> (d, smr_name req) \<in> depends reqs"
  by (auto simp: depends_def)

text \<open>The place of a name in what is scheduled.\<close>

lemma respects_place:
  assumes "respects_from P xs" and "i < length xs" and "d \<in> set (plm_dependencies (xs ! i))" and "d \<notin> P"
  obtains j where "j < i" "plm_name (xs ! j) = d"
proof -
  have xs: "xs = take i xs @ xs ! i # drop (Suc i) xs" by (rule id_take_nth_drop [OF assms(2)])
  have "set (plm_dependencies (xs ! i)) \<subseteq> P \<union> plan_names (take i xs)"
    using assms(1) by (subst (asm) xs) simp
  then have "d \<in> plan_names (take i xs)" using assms(3,4) by auto
  then show thesis using that by (auto simp: in_set_conv_nth)
qed

lemma scheduled_predecessor:
  assumes "respects_from {} xs" and shape: "\<forall>pm \<in> set xs. \<exists>req \<in> set reqs. same_shape req pm"
    and "distinct (map smr_name reqs)" and "(d, plm_name (xs ! i)) \<in> depends reqs" and i: "i < length xs"
  obtains j where "j < i" "plm_name (xs ! j) = d"
proof -
  obtain req where req: "req \<in> set reqs" "same_shape req (xs ! i)" using shape nth_mem [OF i] by blast
  from assms(4) obtain req' where req': "req' \<in> set reqs" "smr_name req' = plm_name (xs ! i)" "d \<in> set (smr_dependencies req')"
    by (auto simp: depends_def)
  have "req' = req" using assms(3) req req' by (metis distinct_map inj_on_contraD same_shape_def)
  then have "d \<in> set (plm_dependencies (xs ! i))" using req req' by (simp add: same_shape_def)
  from respects_place [OF assms(1) i this] show thesis using that by auto
qed

lemma scheduled_ancestor:
  assumes "respects_from {} xs" and "\<forall>pm \<in> set xs. \<exists>req \<in> set reqs. same_shape req pm" and "distinct (map smr_name reqs)"
    and "(d, c) \<in> (depends reqs)\<^sup>+" and "i < length xs" and "plm_name (xs ! i) = c"
  shows "\<exists>j < i. plm_name (xs ! j) = d"
  using assms(4-)
proof (induction arbitrary: i rule: trancl_induct)
  case (base y)
  then show ?case using scheduled_predecessor [OF assms(1-3), of d i] by metis
next
  case (step y z)
  obtain j where j: "j < i" "plm_name (xs ! j) = y" using scheduled_predecessor [OF assms(1-3), of y i] step by metis
  from step.IH [of j] j step.prems obtain k where "k < j" "plm_name (xs ! k) = d" by auto
  then show ?case using j by (intro exI [of _ k]) simp
qed

lemma planning_succeeds:
  assumes "\<forall>req \<in> set reqs. \<not> smr_includeArtifacts req"
  shows "\<exists>plan t. AnalyzeAndPlan e reqs s = (Inr plan, t)"
proof -
  have "\<exists>pms t. analyze_all e reqs u = (Inr pms, t)" for u
    using assms
  proof (induction reqs arbitrary: u)
    case (Cons req reqs)
    then obtain pms t where "analyze_all e reqs u = (Inr pms, t)" by fastforce
    with Cons.prems show ?case by (auto simp: analyzeMigration_def Let_def)
  qed simp
  moreover obtain now u where "engine_now e s = (now, u)" by fastforce
  moreover obtain pms t' where "analyze_all e reqs u = (Inr pms, t')" using calculation(1) by blast
  ultimately show "\<exists>plan t. AnalyzeAndPlan e reqs s = (Inr plan, t)"
    by (simp add: AnalyzeAndPlan_def DetectCircularDependencies_def Let_def)
qed

text \<open>
  C34. Planning never reports a circular dependency: requests without artifacts always get a plan, which
  silently leaves out every migration on a cycle, and every one that depends, directly or
  not, on a cycle or on a name that was not requested.
\<close>

theorem cycles_are_dropped:
  assumes "distinct (map smr_name reqs)" and "\<forall>req \<in> set reqs. \<not> smr_includeArtifacts req"
  shows "\<exists>plan t. AnalyzeAndPlan e reqs s = (Inr plan, t)
    \<and> (\<forall>c \<in> plan_names (concat (mpl_parallelGroups plan)). (c, c) \<notin> (depends reqs)\<^sup>+
        \<and> (\<forall>d. (d, c) \<in> (depends reqs)\<^sup>+ \<longrightarrow> (d, d) \<notin> (depends reqs)\<^sup>+ \<and> d \<in> smr_name ` set reqs))"
proof -
  obtain plan t where plan: "AnalyzeAndPlan e reqs s = (Inr plan, t)" using planning_succeeds [OF assms(2)] by blast
  let ?xs = "concat (mpl_parallelGroups plan)"
  have xs: "respects_from {} ?xs" "\<forall>pm \<in> set ?xs. \<exists>req \<in> set reqs. same_shape req pm" "distinct (map plm_name ?xs)"
    using plan_shape [OF plan assms(1)] by (simp_all add: Let_def)
  note above = scheduled_ancestor [OF xs(1,2) assms(1)]
  have acyclic: "(plm_name (?xs ! i), plm_name (?xs ! i)) \<notin> (depends reqs)\<^sup>+" if "i < length ?xs" for i
  proof
    assume "(plm_name (?xs ! i), plm_name (?xs ! i)) \<in> (depends reqs)\<^sup>+"
    from above [OF this that refl] obtain j where "j < i" "plm_name (?xs ! j) = plm_name (?xs ! i)" by blast
    then show False using nth_eq_iff_index_eq [OF xs(3), of j i] that by simp
  qed
  have "(c, c) \<notin> (depends reqs)\<^sup>+ \<and> (\<forall>d. (d, c) \<in> (depends reqs)\<^sup>+ \<longrightarrow> (d, d) \<notin> (depends reqs)\<^sup>+ \<and> d \<in> smr_name ` set reqs)"
    if "c \<in> plan_names ?xs" for c
  proof -
    from that obtain x where "x \<in> set ?xs" "plm_name x = c" by blast
    then obtain i where i: "i < length ?xs" "plm_name (?xs ! i) = c" by (metis in_set_conv_nth)
    have "(d, d) \<notin> (depends reqs)\<^sup>+ \<and> d \<in> smr_name ` set reqs" if before: "(d, c) \<in> (depends reqs)\<^sup>+" for d
    proof -
      obtain j where j: "j < length ?xs" "plm_name (?xs ! j) = d"
        using above [OF before i] i(1) less_trans by blast
      then have "\<exists>req \<in> set reqs. same_shape req (?xs ! j)" using xs(2) nth_mem by blast
      then show ?thesis using acyclic [of j] j by (auto simp: same_shape_def)
    qed
    then show ?thesis using acyclic [of i] i by blast
  qed
  with plan show ?thesis by blast
qed

section \<open>How much of a plan is scheduled\<close>

lemma take_other_mono: "snd g \<subseteq> snd (take_other pm g)"
  by (cases g) (auto simp: take_other_def take_up_def)

lemma take_others_mono: "snd g \<subseteq> snd (fold take_other xs g)"
proof (induction xs arbitrary: g)
  case (Cons x xs)
  then show ?case using take_other_mono [of g x] by (simp add: order_trans)
qed simp

text \<open>A group takes in every migration that is ready when it is begun.\<close>

lemma take_others_ready:
  "pm \<in> set xs \<Longrightarrow> set (plm_dependencies pm) \<subseteq> snd g \<Longrightarrow> plm_name pm \<in> snd (fold take_other xs g)"
proof (induction xs arbitrary: g)
  case (Cons x xs)
  show ?case
  proof (cases "x = pm")
    case True
    have "plm_name pm \<in> snd (take_other pm g)"
      using Cons.prems(2) by (cases g) (simp add: take_other_def take_up_def deps_processed_iff)
    then show ?thesis using True take_others_mono [of "take_other pm g" xs] by auto
  next
    case False
    then show ?thesis using Cons.IH [of "take_other x g"] Cons.prems take_other_mono [of g x] by auto
  qed
qed simp

lemma form_group_ready:
  assumes "pm \<in> set pms" and "set (plm_dependencies pm) \<subseteq> P"
  shows "plm_name pm \<in> snd (form_group pms name P)"
proof -
  have "P \<subseteq> snd (fold (take_named name) xs ([], P))" for xs
  proof -
    have "snd g \<subseteq> snd (fold (take_named name) xs g)" for g
    proof (induction xs arbitrary: g)
      case (Cons x xs)
      have "snd g \<subseteq> snd (take_named name x g)" by (cases g) (auto simp: take_named_def take_up_def)
      then show ?case using Cons.IH [of "take_named name x g"] by auto
    qed simp
    from this [of "([], P)"] show ?thesis by simp
  qed
  then show ?thesis unfolding form_group_def using assms by (intro take_others_ready) auto
qed

text \<open>Dependencies without a cycle, on names of the plan: they descend.\<close>

definition descending :: "(string \<Rightarrow> nat) \<Rightarrow> planned_migration list \<Rightarrow> bool" where
  "descending rank pms \<longleftrightarrow> (\<forall>pm \<in> set pms. \<forall>d \<in> set (plm_dependencies pm). d \<in> plan_names pms \<and> rank d < rank (plm_name pm))"

lemma some_ready:
  assumes "descending rank pms"
  shows "name \<in> plan_names pms \<Longrightarrow> name \<notin> P \<Longrightarrow>
    \<exists>pm \<in> set pms. plm_name pm \<notin> P \<and> set (plm_dependencies pm) \<subseteq> P"
proof (induction "rank name" arbitrary: name rule: less_induct)
  case less
  then obtain pm where pm: "pm \<in> set pms" "plm_name pm = name" by auto
  show ?case
  proof (cases "set (plm_dependencies pm) \<subseteq> P")
    case True
    then show ?thesis using less.prems pm by (intro bexI [of _ pm]) simp_all
  next
    case False
    then obtain d where "d \<in> set (plm_dependencies pm)" "d \<notin> P" by blast
    then show ?thesis using less.hyps [of d] assms pm by (auto simp: descending_def)
  qed
qed

lemma form_group_progress:
  assumes "distinct (map plm_name pms)" "descending rank pms" "name \<in> plan_names pms" "name \<notin> P"
  shows "fst (form_group pms name P) \<noteq> []"
proof
  assume "fst (form_group pms name P) = []"
  then have "snd (form_group pms name P) = P" using form_group_grouped [OF assms(1,4)] by (simp add: grouped_def)
  moreover obtain pm where "pm \<in> set pms" "plm_name pm \<notin> P" "set (plm_dependencies pm) \<subseteq> P"
    using some_ready [OF assms(2-4)] by blast
  ultimately show False using form_group_ready [of pm pms P name] by simp
qed

lemma half_scheduled:
  assumes "distinct (map plm_name pms)" and "descending rank pms"
  shows "card {n \<in> set order. n \<in> plan_names pms \<and> n \<notin> P} \<le> 2 * length (concat (form_groups pms order P))"
proof (induction order arbitrary: P)
  case (Cons name order)
  let ?U = "\<lambda>P. {n \<in> set order. n \<in> plan_names pms \<and> n \<notin> P}"
  show ?case
  proof (cases "name \<in> P")
    case True
    then have "{n \<in> set (name # order). n \<in> plan_names pms \<and> n \<notin> P} = ?U P" by auto
    then show ?thesis using Cons.IH [of P] True by simp
  next
    case False
    obtain g Q where g: "form_group pms name P = (g, Q)" by fastforce
    have Q: "Q = P \<union> plan_names g" using form_group_grouped [OF assms(1) False] g by (simp add: grouped_def)
    have fin: "finite (plan_names g \<union> ?U Q)" by simp
    have le: "card (plan_names g \<union> ?U Q) \<le> length g + 2 * length (concat (form_groups pms order Q))"
      using card_Un_le [of "plan_names g" "?U Q"] card_image_le [of "set g" plm_name] card_length [of g] Cons.IH [of Q] by simp
    show ?thesis
    proof (cases "name \<in> plan_names pms")
      case True
      have "{n \<in> set (name # order). n \<in> plan_names pms \<and> n \<notin> P} \<subseteq> insert name (plan_names g \<union> ?U Q)" using Q by auto
      then have "card {n \<in> set (name # order). n \<in> plan_names pms \<and> n \<notin> P} \<le> card (insert name (plan_names g \<union> ?U Q))"
        by (rule card_mono [rotated]) (simp add: fin)
      also have "\<dots> \<le> Suc (card (plan_names g \<union> ?U Q))" using fin by (simp only: card_insert_if split: if_splits) simp
      finally have "card {n \<in> set (name # order). n \<in> plan_names pms \<and> n \<notin> P} \<le> Suc (card (plan_names g \<union> ?U Q))" .
      moreover have "g \<noteq> []" using form_group_progress [OF assms True False] g by simp
      ultimately show ?thesis using le False g by (cases g) simp_all
    next
      case other: False
      have "{n \<in> set (name # order). n \<in> plan_names pms \<and> n \<notin> P} \<subseteq> plan_names g \<union> ?U Q" using Q other by auto
      then have "card {n \<in> set (name # order). n \<in> plan_names pms \<and> n \<notin> P} \<le> card (plan_names g \<union> ?U Q)"
        by (rule card_mono [OF fin])
      then show ?thesis using le False g by (cases "g = []") simp_all
    qed
  qed
qed simp

text \<open>An order of visits in which each migration comes after all that it depends on.\<close>

fun visits_sorted :: "planned_migration list \<Rightarrow> string set \<Rightarrow> string list \<Rightarrow> bool" where
  "visits_sorted pms V [] \<longleftrightarrow> True"
| "visits_sorted pms V (name # order) \<longleftrightarrow>
     (\<forall>pm \<in> set pms. plm_name pm = name \<longrightarrow> set (plm_dependencies pm) \<subseteq> V) \<and> visits_sorted pms (insert name V) order"

lemma sorted_scheduled:
  assumes "distinct (map plm_name pms)" and "descending rank pms"
  shows "visits_sorted pms V order \<Longrightarrow> V \<inter> plan_names pms \<subseteq> P \<Longrightarrow>
    set order \<inter> plan_names pms \<subseteq> P \<union> plan_names (concat (form_groups pms order P))"
proof (induction order arbitrary: V P)
  case (Cons name order)
  show ?case
  proof (cases "name \<in> P")
    case True
    then have "set order \<inter> plan_names pms \<subseteq> P \<union> plan_names (concat (form_groups pms order P))"
      using Cons.IH [of "insert name V" P] Cons.prems by auto
    then show ?thesis using True by auto
  next
    case False
    obtain g Q where g: "form_group pms name P = (g, Q)" by fastforce
    have Q: "Q = P \<union> plan_names g" using form_group_grouped [OF assms(1) False] g by (simp add: grouped_def)
    have name: "name \<in> plan_names pms \<longrightarrow> name \<in> Q"
    proof
      assume "name \<in> plan_names pms"
      then obtain pm where pm: "pm \<in> set pms" "plm_name pm = name" by auto
      then have "set (plm_dependencies pm) \<subseteq> V" using Cons.prems(1) by simp
      moreover have "set (plm_dependencies pm) \<subseteq> plan_names pms" using assms(2) pm(1) unfolding descending_def by blast
      ultimately have "set (plm_dependencies pm) \<subseteq> P" using Cons.prems(2) by blast
      from form_group_ready [OF pm(1) this, of name] show "name \<in> Q" using pm(2) g by simp
    qed
    then have "set order \<inter> plan_names pms \<subseteq> Q \<union> plan_names (concat (form_groups pms order Q))"
      using Cons.IH [of "insert name V" Q] Cons.prems Q by auto
    then have "set (name # order) \<inter> plan_names pms \<subseteq> P \<union> plan_names (g @ concat (form_groups pms order Q))"
      using name Q by auto
    then show ?thesis using False g by (cases "g = []") simp_all
  qed
qed simp

definition acyclic_requests :: "(string \<Rightarrow> nat) \<Rightarrow> smart_request list \<Rightarrow> bool" where
  "acyclic_requests rank reqs \<longleftrightarrow> distinct (map smr_name reqs)
     \<and> (\<forall>req \<in> set reqs. \<forall>d \<in> set (smr_dependencies req). d \<in> smr_name ` set reqs \<and> rank d < rank (smr_name req))"

lemma acyclic_descending:
  assumes "acyclic_requests rank reqs" and "list_all2 same_shape reqs pms"
  shows "distinct (map plm_name pms)" "descending rank pms"
proof -
  show "distinct (map plm_name pms)" using assms same_shape_names [OF assms(2)] by (simp add: acyclic_requests_def)
  have "plan_names pms = smr_name ` set reqs" using same_shape_names [OF assms(2)] by (metis image_set)
  then show "descending rank pms" unfolding descending_def
    using assms(1) same_shape_mem [OF assms(2)] by (fastforce simp: acyclic_requests_def same_shape_def)
qed

text \<open>
  C33. A plan for requests with distinct names whose dependencies are all requested names, without
  a cycle, contains at least half of them, in whatever order the map of the dependency graph
  is visited, and all of them if the visits happen to come in the order of the dependencies. The
  sorting of the graph does not sort, so less than all is what happens. A request that depends on a
  name that was not requested is never scheduled.
\<close>

theorem half_of_the_plan:
  assumes "acyclic_requests rank reqs" and "\<forall>n ns. set (sm_order e n ns) = set ns"
    and "AnalyzeAndPlan e reqs s = (Inr plan, t)"
  shows "length reqs \<le> 2 * length (concat (mpl_parallelGroups plan))
    \<and> (visits_sorted (mpl_migrations plan) {} (mpl_executionOrder plan) \<longrightarrow>
        plan_names (concat (mpl_parallelGroups plan)) = smr_name ` set reqs)"
proof -
  let ?pms = "mpl_migrations plan" and ?xs = "concat (mpl_parallelGroups plan)"
  from planned [OF assms(3)] obtain n ns where shape: "list_all2 same_shape reqs ?pms" and order: "mpl_executionOrder plan = sm_order e n ns"
    and groups: "mpl_parallelGroups plan = form_groups ?pms (sm_order e n ns) {}" and ns: "set (map smr_name reqs) \<subseteq> set ns" by blast
  note pms = acyclic_descending [OF assms(1) shape]
  have names: "plan_names ?pms = set (map smr_name reqs)" using same_shape_names [OF shape] by (metis image_set)
  then have all: "{m \<in> set (sm_order e n ns). m \<in> plan_names ?pms \<and> m \<notin> {}} = set (map smr_name reqs)"
    using ns assms(2) by auto
  have dist: "distinct (map smr_name reqs)" using assms(1) by (simp add: acyclic_requests_def)
  have "card (set (map smr_name reqs)) \<le> 2 * length ?xs"
    using half_scheduled [OF pms, of "sm_order e n ns" "{}"] groups by (simp only: all)
  moreover have "card (set (map smr_name reqs)) = length reqs" using distinct_card [OF dist] by simp
  moreover have "plan_names ?xs = smr_name ` set reqs" if "visits_sorted ?pms {} (mpl_executionOrder plan)"
  proof -
    have s: "scheduled_from ?pms {} ?xs" using form_groups_scheduled [OF pms(1)] groups by simp
    have "set (sm_order e n ns) \<inter> plan_names ?pms \<subseteq> plan_names ?xs"
      using sorted_scheduled [OF pms, of "{}" "sm_order e n ns" "{}"] that order groups by simp
    moreover have "set (map smr_name reqs) \<subseteq> set (sm_order e n ns) \<inter> plan_names ?pms" using all by blast
    ultimately have "set (map smr_name reqs) \<subseteq> plan_names ?xs" by (rule order_trans [rotated])
    moreover have "plan_names ?xs \<subseteq> plan_names ?pms" using s unfolding scheduled_from_def by (intro image_mono) simp
    ultimately show ?thesis using names by simp
  qed
  ultimately show ?thesis by simp
qed

section \<open>Dependencies in one group\<close>

definition requests_ordered :: "smart_request list \<Rightarrow> bool" where
  "requests_ordered reqs \<longleftrightarrow> (\<forall>i < length reqs. set (smr_dependencies (reqs ! i)) \<subseteq> smr_name ` set (take i reqs))"

lemma respects_from_nth:
  "(\<forall>i < length xs. set (plm_dependencies (xs ! i)) \<subseteq> P \<union> plan_names (take i xs)) \<Longrightarrow> respects_from P xs"
proof (induction xs arbitrary: P)
  case (Cons x xs)
  have "set (plm_dependencies x) \<subseteq> P" using Cons.prems by fastforce
  moreover have "\<forall>i < length xs. set (plm_dependencies (xs ! i)) \<subseteq> insert (plm_name x) P \<union> plan_names (take i xs)"
    using Cons.prems by fastforce
  ultimately show ?case using Cons.IH by simp
qed simp

lemma ordered_respected:
  assumes "requests_ordered reqs" and "list_all2 same_shape reqs pms"
  shows "respects_from {} pms"
proof (rule respects_from_nth, intro allI impI)
  fix i assume i: "i < length pms"
  then have "same_shape (reqs ! i) (pms ! i)" "i < length reqs" using assms(2) by (auto simp: list_all2_conv_all_nth)
  moreover have "list_all2 same_shape (take i reqs) (take i pms)" using assms(2) by simp
  then have "plan_names (take i pms) = smr_name ` set (take i reqs)" by (metis same_shape_names image_set)
  ultimately show "set (plm_dependencies (pms ! i)) \<subseteq> {} \<union> plan_names (take i pms)"
    using assms(1) by (auto simp: requests_ordered_def same_shape_def)
qed

text \<open>One round over migrations that are listed after their dependencies takes them all.\<close>

lemma take_others_all:
  "respects_from P xs \<Longrightarrow> P \<subseteq> snd g \<Longrightarrow> plan_names xs \<subseteq> snd (fold take_other xs g)"
proof (induction xs arbitrary: P g)
  case (Cons x xs)
  then have "plm_name x \<in> snd (take_other x g)"
    by (cases g) (auto simp: take_other_def take_up_def deps_processed_iff)
  moreover have "P \<subseteq> snd (take_other x g)" using Cons.prems(2) take_other_mono [of g x] by (rule order_trans)
  ultimately have "insert (plm_name x) P \<subseteq> snd (take_other x g)" by simp
  from Cons.IH [OF _ this] Cons.prems(1) take_others_mono [of "take_other x g" xs]
    \<open>plm_name x \<in> snd (take_other x g)\<close> show ?case by auto
qed simp

lemma all_taken_no_more:
  assumes "distinct (map plm_name pms)" and "plan_names pms \<subseteq> P"
  shows "form_groups pms order P = []"
proof (induction order)
  case (Cons name order)
  show ?case
  proof (cases "name \<in> P")
    case False
    obtain g Q where g: "form_group pms name P = (g, Q)" by fastforce
    then have "grouped pms P (g, Q)" using form_group_grouped [OF assms(1) False] by simp
    then have q: "set g \<subseteq> set pms" "Q = P \<union> plan_names g" "plan_names g \<inter> P = {}" by (simp_all add: grouped_def)
    have "plan_names g \<subseteq> P" using image_mono [OF q(1)] assms(2) by (rule order_trans)
    from Int_absorb2 [OF this] q(3) have "g = []" by simp
    with q(2) have "g = []" "Q = P" by simp_all
    then show ?thesis using False g Cons.IH by simp
  qed (use Cons.IH in simp)
qed simp

lemma one_group:
  assumes "distinct (map plm_name pms)" and "respects_from {} pms" and "pms \<noteq> []" and "order \<noteq> []"
  obtains g where "form_groups pms order {} = [g]" "plan_names g = plan_names pms" "distinct (map plm_name g)"
proof -
  obtain name rest where order: "order = name # rest" using assms(4) by (cases order) auto
  obtain g Q where g: "form_group pms name {} = (g, Q)" by fastforce
  have "grouped pms {} (g, Q)" using form_group_grouped [OF assms(1), of name "{}"] g by simp
  then have q: "Q = plan_names g" "set g \<subseteq> set pms" "distinct (map plm_name g)" by (simp_all add: grouped_def)
  have "plan_names pms \<subseteq> Q"
    using take_others_all [OF assms(2), of "fold (take_named name) pms ([], {})"] g by (simp add: form_group_def)
  then have "plan_names g = plan_names pms" "form_groups pms rest Q = []"
    using q all_taken_no_more [OF assms(1)] by auto
  moreover from this have "g \<noteq> []" using assms(3) by auto
  ultimately show thesis using q g by (intro that [of g]) (simp_all add: order)
qed

text \<open>
  C32. Requests with distinct names that are listed after all that they depend on are put into a
  single group, whatever dependencies they have and in whatever order the map of the graph
  is visited: the members of a group run concurrently, so a migration is started
  together with those that it is to wait for.
\<close>

theorem ordered_requests_run_together:
  assumes "AnalyzeAndPlan e reqs s = (Inr plan, t)" and "\<forall>n ns. set (sm_order e n ns) = set ns"
    and "distinct (map smr_name reqs)" and "requests_ordered reqs" and "reqs \<noteq> []"
  shows "\<exists>members. mpl_parallelGroups plan = [members] \<and> plan_names members = smr_name ` set reqs
    \<and> length members = length reqs"
proof -
  from planned [OF assms(1)] obtain n ns where shape: "list_all2 same_shape reqs (mpl_migrations plan)"
    and groups: "mpl_parallelGroups plan = form_groups (mpl_migrations plan) (sm_order e n ns) {}"
    and ns: "set (map smr_name reqs) \<subseteq> set ns" by blast
  have "set (sm_order e n ns) \<noteq> {}" using assms(2,5) ns by auto
  then have order: "sm_order e n ns \<noteq> []" by auto
  have dist: "distinct (map plm_name (mpl_migrations plan))" and ne: "mpl_migrations plan \<noteq> []"
    using same_shape_names [OF shape] assms(3,5) shape by auto
  from one_group [OF dist ordered_respected [OF assms(4) shape] ne order] obtain members where
    m: "mpl_parallelGroups plan = [members]" "plan_names members = plan_names (mpl_migrations plan)"
      "distinct (map plm_name members)" using groups by metis
  have names: "plan_names (mpl_migrations plan) = smr_name ` set reqs"
    using same_shape_names [OF shape] by (metis image_set)
  have "length members = card (plan_names members)" using distinct_card [OF m(3)] by simp
  also have "\<dots> = length reqs" using m(2) names distinct_card [OF assms(3)] by simp
  finally show ?thesis using m names by auto
qed

section \<open>A chain\<close>

text \<open>Four migrations, each but the last of which depends on the next one; the map is visited in this order.\<close>

definition sample_request_of :: "string \<Rightarrow> string list \<Rightarrow> smart_request" where
  "sample_request_of name deps = \<lparr>smr_name = name, smr_sourceRepo = name, smr_targetRepo = name, smr_includeRepository = True,
     smr_includeWorkItems = False, smr_includeArtifacts = False, smr_includePipelines = False, smr_dependencies = deps\<rparr>"

definition sample_chain :: "smart_request list" where
  "sample_chain = [sample_request_of ''d'' [''c''], sample_request_of ''c'' [''b''], sample_request_of ''b'' [''a''], sample_request_of ''a'' []]"

definition sample_clients :: art_env where
  "sample_clients = placeholder_clients \<lparr>ae_feeds = (\<lambda>h p. Inr []), ae_packages = (\<lambda>h p f. Inr []), ae_versions = (\<lambda>h p f q. Inr []),
     ae_download = (\<lambda>h d args. Inr []), ae_put = (\<lambda>h u args c. None), ae_wait = (\<lambda>h. None), ae_finish = (\<lambda>h ps. ps), ae_clock = int\<rparr>"

definition sample_smart :: smart_env where
  "sample_smart = \<lparr>sm_art = sample_clients, sm_order = (\<lambda>n ns. ns), sm_finish = (\<lambda>h ms. ms), sm_rnd = id, sm_conv = floor,
     sm_cancelled = (\<lambda>h. None)\<rparr>"

lemma sample_chain_plan:
  "\<exists>plan t. AnalyzeAndPlan sample_smart sample_chain NewSmartMigrationEngine = (Inr plan, t)
    \<and> map (map plm_name) (mpl_parallelGroups plan) = [[''a''], [''b'']]"
proof -
  obtain plan t where plan: "AnalyzeAndPlan sample_smart sample_chain NewSmartMigrationEngine = (Inr plan, t)"
    using planning_succeeds [of sample_chain sample_smart NewSmartMigrationEngine] by (auto simp: sample_chain_def sample_request_of_def)
  have "(case fst (AnalyzeAndPlan sample_smart sample_chain NewSmartMigrationEngine) of Inl _ \<Rightarrow> []
      | Inr plan \<Rightarrow> map (map plm_name) (mpl_parallelGroups plan)) = [[''a''], [''b'']]" by code_simp
  then show ?thesis using plan by simp
qed

lemma sample_chain_acyclic: "acyclic_requests (\<lambda>name. of_char (hd name)) sample_chain"
  by (simp add: acyclic_requests_def sample_chain_def sample_request_of_def)

theorem half_of_the_plan_witness:
  "\<exists>plan t. AnalyzeAndPlan sample_smart sample_chain NewSmartMigrationEngine = (Inr plan, t)
    \<and> length sample_chain \<le> 2 * length (concat (mpl_parallelGroups plan))
    \<and> map (map plm_name) (mpl_parallelGroups plan) = [[''a''], [''b'']]"
proof -
  have order: "\<forall>n ns. set (sm_order sample_smart n ns) = set ns" by (simp add: sample_smart_def)
  obtain plan t where plan: "AnalyzeAndPlan sample_smart sample_chain NewSmartMigrationEngine = (Inr plan, t)"
      "map (map plm_name) (mpl_parallelGroups plan) = [[''a''], [''b'']]" using sample_chain_plan by (elim exE conjE)
  from half_of_the_plan [OF sample_chain_acyclic order plan(1)] plan show ?thesis
    by (intro exI [of _ plan] exI [of _ t] conjI) simp_all
qed

theorem plan_respects_dependencies_witness:
  "\<exists>plan t. AnalyzeAndPlan sample_smart sample_chain NewSmartMigrationEngine = (Inr plan, t)
    \<and> respects_from {} (concat (mpl_parallelGroups plan)) \<and> map (map plm_name) (mpl_parallelGroups plan) = [[''a''], [''b'']]"
proof -
  obtain plan t where plan: "AnalyzeAndPlan sample_smart sample_chain NewSmartMigrationEngine = (Inr plan, t)"
      "map (map plm_name) (mpl_parallelGroups plan) = [[''a''], [''b'']]" using sample_chain_plan by (elim exE conjE)
  have "distinct (map smr_name sample_chain)" by (simp add: sample_chain_def sample_request_of_def)
  from plan_respects_dependencies [OF plan(1) this] plan show ?thesis
    by (intro exI [of _ plan] exI [of _ t] conjI) (simp_all add: Let_def)
qed

theorem ordered_requests_run_together_witness:
  "\<exists>plan t members. AnalyzeAndPlan sample_smart (rev sample_chain) NewSmartMigrationEngine = (Inr plan, t)
    \<and> mpl_parallelGroups plan = [members] \<and> plan_names members = {''a'', ''b'', ''c'', ''d''}"
proof -
  obtain plan t where plan: "AnalyzeAndPlan sample_smart (rev sample_chain) NewSmartMigrationEngine = (Inr plan, t)"
    using planning_succeeds [of "rev sample_chain" sample_smart NewSmartMigrationEngine]
    by (auto simp: sample_chain_def sample_request_of_def)
  have order: "\<forall>n ns. set (sm_order sample_smart n ns) = set ns" by (simp add: sample_smart_def)
  have "distinct (map smr_name (rev sample_chain))" "rev sample_chain \<noteq> []"
    "smr_name ` set (rev sample_chain) = {''a'', ''b'', ''c'', ''d''}"
    by (auto simp: sample_chain_def sample_request_of_def)
  moreover have "requests_ordered (rev sample_chain)"
    by (auto simp: requests_ordered_def sample_chain_def sample_request_of_def less_Suc_eq numeral_nat)
  ultimately show ?thesis using ordered_requests_run_together [OF plan order] plan by metis
qed

text \<open>Two migrations that wait for each other.\<close>

definition sample_cycle :: "smart_request list" where
  "sample_cycle = [sample_request_of ''a'' [''b''], sample_request_of ''b'' [''a'']]"

theorem cycles_are_dropped_witness:
  "\<exists>plan t. AnalyzeAndPlan sample_smart sample_cycle NewSmartMigrationEngine = (Inr plan, t)
    \<and> (\<forall>c \<in> plan_names (concat (mpl_parallelGroups plan)). (c, c) \<notin> (depends sample_cycle)\<^sup>+)
    \<and> (''a'', ''a'') \<in> (depends sample_cycle)\<^sup>+"
proof -
  have "distinct (map smr_name sample_cycle)" "\<forall>req \<in> set sample_cycle. \<not> smr_includeArtifacts req"
    by (simp_all add: sample_cycle_def sample_request_of_def)
  from cycles_are_dropped [OF this, of sample_smart NewSmartMigrationEngine]
  obtain plan t where "AnalyzeAndPlan sample_smart sample_cycle NewSmartMigrationEngine = (Inr plan, t)"
    "\<forall>c \<in> plan_names (concat (mpl_parallelGroups plan)). (c, c) \<notin> (depends sample_cycle)\<^sup>+" by blast
  moreover have "(''a'', ''b'') \<in> depends sample_cycle" "(''b'', ''a'') \<in> depends sample_cycle"
    using depends_mem [of "sample_request_of ''b'' [''a'']" sample_cycle "''a''"] depends_mem [of "sample_request_of ''a'' [''b'']" sample_cycle "''b''"]
    by (simp_all add: sample_cycle_def sample_request_of_def)
  then have "(''a'', ''a'') \<in> (depends sample_cycle)\<^sup>+" by (meson r_into_trancl trancl_trans)
  ultimately show ?thesis by blast
qed

end
