(* ===== verification/SmartProperties.thy ===== *)
theory SmartProperties
  imports SmartEngine SmartPlanProperties
begin

text \<open>
  What the execution of a plan does: the circuit breaker as a function of the outcomes, its effect on
  the engine, the counters of a result, and the search for texts in errors.
\<close>

section \<open>The circuit breaker\<close>

definition breaker_run :: "bool list \<Rightarrow> engine \<Rightarrow> engine" where
  "breaker_run outcomes = fold (\<lambda>success. if success then RecordSuccess else RecordFailure) outcomes"

text \<open>Five failures in a row that no three successes in a row have followed.\<close>

definition tripped :: "bool list \<Rightarrow> bool" where
  "tripped outcomes \<longleftrightarrow> (\<exists>a b. outcomes = a @ replicate 5 False @ b \<and> \<not> sublist (replicate 3 True) b)"

definition trailing :: "bool \<Rightarrow> bool list \<Rightarrow> nat" where
  "trailing x xs = length (takeWhile (\<lambda>y. y = x) (rev xs))"

lemma trailing_snoc [simp]: "trailing x (xs @ [y]) = (if y = x then Suc (trailing x xs) else 0)"
  by (simp add: trailing_def)

lemma trailing_ge: "n \<le> trailing x xs \<longleftrightarrow> suffix (replicate n x) xs"
proof (induction xs arbitrary: n rule: rev_induct)
  case Nil
  then show ?case by (cases n) (simp_all add: trailing_def)
next
  case (snoc y ys)
  have "replicate (Suc m) x = replicate m x @ [x]" for m by (simp add: replicate_append_same)
  then show ?case using snoc by (cases n) (auto simp del: replicate_Suc)
qed

lemma sublist_snoc: "sublist xs (ys @ [y]) \<longleftrightarrow> suffix xs (ys @ [y]) \<or> sublist xs ys"
proof -
  have "sublist (rev xs) (y # rev ys) \<longleftrightarrow> prefix (rev xs) (y # rev ys) \<or> sublist (rev xs) (rev ys)"
    by (rule sublist_Cons_right)
  then show ?thesis by (metis rev.simps(2) rev_rev_ident sublist_rev suffix_to_prefix rev_append)
qed

lemma trailing_after [simp]: "trailing True (a @ replicate 5 False @ b) = trailing True b"
proof -
  have "takeWhile (\<lambda>y. y = True) (rev b @ False # rest) = takeWhile (\<lambda>y. y = True) (rev b)" for rest
    by (rule takeWhile_tail) simp
  then show ?thesis by (simp add: trailing_def numeral_eq_Suc)
qed

lemma tripped_failure: "tripped (xs @ [False]) \<longleftrightarrow> tripped xs \<or> 4 \<le> trailing False xs"
proof
  assume "tripped (xs @ [False])"
  then obtain a b where ab: "xs @ [False] = a @ replicate 5 False @ b" "\<not> sublist (replicate 3 True) b"
    unfolding tripped_def by blast
  show "tripped xs \<or> 4 \<le> trailing False xs"
  proof (cases b rule: rev_cases)
    case Nil
    then have "suffix (replicate 5 False) (xs @ [False])" using ab(1) by (simp add: suffix_def)
    then show ?thesis using trailing_ge [of 5 False "xs @ [False]"] by simp
  next
    case (snoc b' y)
    then have "xs = a @ replicate 5 False @ b'" using ab(1) by simp
    moreover have "\<not> sublist (replicate 3 True) b'" using ab(2) snoc by (simp add: sublist_snoc)
    ultimately show ?thesis unfolding tripped_def by blast
  qed
next
  assume "tripped xs \<or> 4 \<le> trailing False xs"
  then show "tripped (xs @ [False])"
  proof
    assume "tripped xs"
    then obtain a b where "xs = a @ replicate 5 False @ b" "\<not> sublist (replicate 3 True) b" unfolding tripped_def by blast
    moreover from this(2) have "\<not> sublist (replicate 3 True) (b @ [False])"
      by (simp add: sublist_snoc numeral_eq_Suc del: suffix_snoc) (simp add: suffix_def)
    ultimately have "xs @ [False] = a @ replicate 5 False @ (b @ [False])" "\<not> sublist (replicate 3 True) (b @ [False])" by simp_all
    then show ?thesis unfolding tripped_def by blast
  next
    assume "4 \<le> trailing False xs"
    then obtain a where "xs = a @ replicate 4 False" by (auto simp: trailing_ge suffix_def)
    then have "xs @ [False] = a @ replicate 5 False @ []" by (simp add: numeral_eq_Suc)
    moreover have "\<not> sublist (replicate 3 True) []" by (simp add: numeral_eq_Suc)
    ultimately show ?thesis unfolding tripped_def by blast
  qed
qed

lemma tripped_success: "tripped (xs @ [True]) \<longleftrightarrow> tripped xs \<and> trailing True xs < 2"
proof
  assume "tripped (xs @ [True])"
  then obtain a b where ab: "xs @ [True] = a @ replicate 5 False @ b" "\<not> sublist (replicate 3 True) b"
    unfolding tripped_def by blast
  show "tripped xs \<and> trailing True xs < 2"
  proof (cases b rule: rev_cases)
    case Nil
    then show ?thesis using ab(1) by (simp add: numeral_eq_Suc)
  next
    case (snoc b' y)
    then have xs: "xs = a @ replicate 5 False @ b'" and y: "y" using ab(1) by simp_all
    have "\<not> sublist (replicate 3 True) b'" "\<not> 3 \<le> trailing True (b' @ [True])"
      using ab(2) snoc y by (simp_all only: sublist_snoc trailing_ge) auto
    then show ?thesis using xs unfolding tripped_def by auto
  qed
next
  assume *: "tripped xs \<and> trailing True xs < 2"
  then obtain a b where xs: "xs = a @ replicate 5 False @ b" "\<not> sublist (replicate 3 True) b" unfolding tripped_def by blast
  then have "\<not> 3 \<le> trailing True (b @ [True])" using * by simp
  then have "\<not> sublist (replicate 3 True) (b @ [True])" using xs(2) by (simp only: sublist_snoc trailing_ge) simp
  moreover have "xs @ [True] = a @ replicate 5 False @ (b @ [True])" using xs(1) by simp
  ultimately show "tripped (xs @ [True])" unfolding tripped_def by blast
qed

lemma breaker_state:
  "eng_failures (breaker_run xs NewSmartMigrationEngine) = int (trailing False xs)
    \<and> eng_successes (breaker_run xs NewSmartMigrationEngine) = int (trailing True xs)
    \<and> eng_threshold (breaker_run xs NewSmartMigrationEngine) = 5
    \<and> eng_isOpen (breaker_run xs NewSmartMigrationEngine) = tripped xs"
proof (induction xs rule: rev_induct)
  case Nil
  then show ?case by (simp add: breaker_run_def NewSmartMigrationEngine_def trailing_def tripped_def numeral_eq_Suc)
next
  case (snoc x xs)
  then show ?case
    by (cases x) (auto simp: breaker_run_def RecordSuccess_def RecordFailure_def Let_def tripped_failure tripped_success)
qed

text \<open>
  C17. The circuit breaker is open exactly if five migrations in a row failed and no three in a row have
  succeeded since.
\<close>

theorem breaker_opens_exactly:
  "IsOpen (breaker_run outcomes NewSmartMigrationEngine) \<longleftrightarrow> tripped outcomes"
  using breaker_state [of outcomes] by (simp add: IsOpen_def)

section \<open>An open breaker\<close>

lemma engine_now_simps [simp]:
  "eng_isOpen (snd (engine_now e s)) = eng_isOpen s" "ats_log (snd (engine_now e s)) = ats_log s"
  "ats_cache (snd (engine_now e s)) = ats_cache s"
  by (simp_all add: engine_now_def)

definition shut :: "engine \<Rightarrow> engine \<Rightarrow> bool" where
  "shut s t \<longleftrightarrow> eng_isOpen t \<and> ats_log t = ats_log s \<and> ats_cache t = ats_cache s"

lemma single_shut:
  assumes "eng_isOpen s" and "executeSingleMigration e pm r s = (err, r', t)"
  shows "err = Some (PlainError ''circuit breaker is open, operation aborted'')" "shut s t" "sre_successCount r' = sre_successCount r"
  using assms by (auto simp: executeSingleMigration_def executeWithSmartRetry_def IsOpen_def engine_now_def RecordFailure_def Let_def shut_def
      put_result_def numeral_eq_Suc split: prod.splits)

lemma members_shut:
  "eng_isOpen s \<Longrightarrow> execute_members e pms errs r s = (errs', r', t) \<Longrightarrow> shut s t \<and> sre_successCount r' = sre_successCount r"
proof (induction pms arbitrary: errs r s)
  case (Cons pm pms)
  obtain err r1 s1 where one: "executeSingleMigration e pm r s = (err, r1, s1)" by (metis prod_cases3)
  have s1: "shut s s1" "sre_successCount r1 = sre_successCount r" using single_shut [OF Cons.prems(1) one] by simp_all
  then have "shut s1 t \<and> sre_successCount r' = sre_successCount r1"
    using Cons.IH [of s1 _ r1] Cons.prems(2) one by (simp add: shut_def)
  then show ?case using s1 by (simp add: shut_def)
qed (simp add: shut_def)

lemma record_failed_successes [simp]: "sre_successCount (fold record_failed errs r) = sre_successCount r"
  by (induction errs arbitrary: r) (simp_all add: record_failed_def put_result_def split: prod.split)

lemma groups_shut:
  assumes "eng_isOpen u" and "execute_groups e gs r u = (r', t)"
  shows "shut u t" "sre_successCount r' = sre_successCount r"
proof -
  have "shut u t \<and> sre_successCount r' = sre_successCount r"
  proof (cases gs)
    case (Cons members groups)
    obtain errs r1 u1 where g: "ExecuteGroup e members r u = (errs, r1, u1)" by (metis prod_cases3)
    then have u1: "shut u u1 \<and> sre_successCount r1 = sre_successCount r"
      using members_shut [OF assms(1)] by (simp add: ExecuteGroup_def)
    then have "t = u1" "r' = (fold record_failed errs r1)\<lparr>sre_stopped := True\<rparr>"
      using assms(2) Cons g by (simp_all add: IsOpen_def shut_def Let_def)
    then show ?thesis using u1 by simp
  qed (use assms in \<open>simp add: shut_def\<close>)
  then show "shut u t" "sre_successCount r' = sre_successCount r" by simp_all
qed

lemma plan_shut:
  assumes "eng_isOpen s"
  shows "shut s (snd (ExecutePlan e plan s)) \<and> sre_successCount (fst (ExecutePlan e plan s)) = 0"
proof -
  let ?r = "\<lparr>sre_startTime = ae_clock (sm_art e) (ats_ticks s), sre_endTime = 0, sre_duration = 0, sre_successCount = 0,
          sre_failedCount = 0, sre_results = Map.empty, sre_stopped = False\<rparr>" and ?u = "s\<lparr>ats_ticks := Suc (ats_ticks s)\<rparr>"
  obtain r' t where g: "execute_groups e (mpl_parallelGroups plan) ?r ?u = (r', t)" by fastforce
  have "eng_isOpen ?u" using assms by simp
  from groups_shut [OF this g] g show ?thesis by (simp add: ExecutePlan_def engine_now_def shut_def)
qed

text \<open>
  C35. Once the circuit breaker is open, the engine is dead: whatever plans it is given, no migration
  succeeds, nothing is called, and the breaker stays open, because only a success could close it and
  every migration is refused while it is open.
\<close>

theorem open_breaker_stays_open:
  assumes "IsOpen s"
  shows "let t = fold (\<lambda>(e, plan) s. snd (ExecutePlan e plan s)) runs s in
    IsOpen t \<and> ats_log t = ats_log s \<and> ats_cache t = ats_cache s
    \<and> (\<forall>e plan. sre_successCount (fst (ExecutePlan e plan t)) = 0)"
proof -
  have "shut s (fold (\<lambda>(e, plan) s. snd (ExecutePlan e plan s)) runs s)"
    using assms
  proof (induction runs arbitrary: s)
    case (Cons run runs)
    obtain e plan where run: "run = (e, plan)" by fastforce
    let ?t = "snd (ExecutePlan e plan s)"
    have t: "shut s ?t" using plan_shut Cons.prems by (simp add: IsOpen_def)
    then have "shut ?t (fold (\<lambda>(e, plan) s. snd (ExecutePlan e plan s)) runs ?t)"
      using Cons.IH [of ?t] by (simp add: shut_def IsOpen_def)
    then show ?case using run t by (simp add: shut_def)
  qed (simp add: shut_def IsOpen_def)
  then show ?thesis using plan_shut by (simp add: shut_def IsOpen_def Let_def)
qed

definition sample_plan :: migration_plan where
  "sample_plan = \<lparr>mpl_migrations = [planned_of (sample_request_of ''a'' [])], mpl_executionOrder = [''a''],
     mpl_parallelGroups = [[planned_of (sample_request_of ''a'' [])]], mpl_estimatedDuration = 0, mpl_createdAt = 0\<rparr>"

definition sample_open :: engine where
  "sample_open = breaker_run (replicate 5 False) NewSmartMigrationEngine"

lemma sample_open_IsOpen: "IsOpen sample_open"
proof -
  have "replicate 5 False = [] @ replicate 5 False @ []" "\<not> sublist (replicate 3 True) []" by (simp_all add: numeral_eq_Suc)
  then have "tripped (replicate 5 False)" unfolding tripped_def by blast
  then show ?thesis using breaker_state [of "replicate 5 False"] by (simp add: sample_open_def IsOpen_def)
qed

theorem open_breaker_stays_open_witness:
  "IsOpen (snd (ExecutePlan sample_smart sample_plan sample_open))
    \<and> sre_successCount (fst (ExecutePlan sample_smart sample_plan (snd (ExecutePlan sample_smart sample_plan sample_open)))) = 0"
  using open_breaker_stays_open [OF sample_open_IsOpen, of "[(sample_smart, sample_plan)]"] by (simp add: Let_def)

section \<open>The counters of a result\<close>

definition succeeded :: "smart_result \<Rightarrow> string set" where
  "succeeded r = {n. \<exists>ir. sre_results r n = Some ir \<and> ind_success ir}"

definition failed_names :: "smart_result \<Rightarrow> string set" where
  "failed_names r = {n. \<exists>ir. sre_results r n = Some ir \<and> \<not> ind_success ir}"

lemma put_result_sets [simp]:
  "succeeded (put_result n ir r) = (if ind_success ir then insert n (succeeded r) else succeeded r - {n})"
  "failed_names (put_result n ir r) = (if ind_success ir then failed_names r - {n} else insert n (failed_names r))"
  "sre_successCount (put_result n ir r) = sre_successCount r" "sre_failedCount (put_result n ir r) = sre_failedCount r"
  by (auto simp: put_result_def succeeded_def failed_names_def)

lemma count_update_sets [simp]:
  "succeeded (r\<lparr>sre_failedCount := c\<rparr>) = succeeded r" "failed_names (r\<lparr>sre_failedCount := c\<rparr>) = failed_names r"
  "succeeded (r\<lparr>sre_successCount := c\<rparr>) = succeeded r" "failed_names (r\<lparr>sre_successCount := c\<rparr>) = failed_names r"
  "succeeded (r\<lparr>sre_stopped := b\<rparr>) = succeeded r" "failed_names (r\<lparr>sre_stopped := b\<rparr>) = failed_names r"
  "succeeded (r\<lparr>sre_endTime := t, sre_duration := d\<rparr>) = succeeded r" "failed_names (r\<lparr>sre_endTime := t, sre_duration := d\<rparr>) = failed_names r"
  by (simp_all add: succeeded_def failed_names_def)

text \<open>The counters while a group runs: the failures of the group will be counted a second time.\<close>

abbreviation failures_in :: "(string \<times> go_error option) list \<Rightarrow> nat" where
  "failures_in errs \<equiv> length (filter (\<lambda>x. snd x \<noteq> None) errs)"

definition tallied :: "string set \<Rightarrow> (string \<times> go_error option) list \<Rightarrow> smart_result \<Rightarrow> bool" where
  "tallied N errs r \<longleftrightarrow> finite (succeeded r) \<and> finite (failed_names r) \<and> succeeded r \<union> failed_names r \<subseteq> N
     \<and> sre_successCount r = int (card (succeeded r)) \<and> sre_failedCount r + int (failures_in errs) = 2 * int (card (failed_names r))
     \<and> fst ` set errs \<subseteq> N \<and> (\<forall>x \<in> set errs. snd x \<noteq> None \<longrightarrow> fst x \<in> failed_names r \<and> fst x \<notin> succeeded r)"

lemma update_fresh: "k \<notin> fst ` set xs \<Longrightarrow> AList.update k v xs = xs @ [(k, v)]"
  by (induction xs) auto

lemma single_tallied:
  assumes "tallied N errs r" and "plm_name pm \<notin> N" and "executeSingleMigration e pm r s = (err, r', t)"
  shows "tallied (insert (plm_name pm) N) (AList.update (plm_name pm) err errs) r'"
proof -
  let ?n = "plm_name pm"
  have fresh: "AList.update ?n err errs = errs @ [(?n, err)]" by (rule update_fresh) (use assms(1,2) in \<open>auto simp: tallied_def\<close>)
  have out: "?n \<notin> succeeded r" "?n \<notin> failed_names r" "\<forall>x \<in> set errs. fst x \<noteq> ?n" using assms(1,2) by (auto simp: tallied_def)
  obtain d where r': "r' = (case err of
      Some _ \<Rightarrow> (put_result ?n \<lparr>ind_success = False, ind_error = err, ind_duration = d\<rparr> r)\<lparr>sre_failedCount := sre_failedCount r + 1\<rparr>
    | None \<Rightarrow> (put_result ?n \<lparr>ind_success = True, ind_error = None, ind_duration = d\<rparr> r)\<lparr>sre_successCount := sre_successCount r + 1\<rparr>)"
    using assms(3) by (fastforce simp: executeSingleMigration_def split: prod.splits option.splits)
  show ?thesis
  proof (cases err)
    case None
    then show ?thesis using assms(1) out fresh r' by (auto simp: tallied_def)
  next
    case (Some x)
    then show ?thesis using assms(1) out fresh r' by (auto simp: tallied_def)
  qed
qed

lemma members_tallied:
  assumes "tallied N errs r" and "distinct (map plm_name pms)" and "plan_names pms \<inter> N = {}"
    and "execute_members e pms errs r s = (errs', r', t)"
  shows "tallied (N \<union> plan_names pms) errs' r'"
  using assms
proof (induction pms arbitrary: N errs r s)
  case (Cons pm pms)
  obtain err r1 s1 where one: "executeSingleMigration e pm r s = (err, r1, s1)" by (metis prod_cases3)
  have "tallied (insert (plm_name pm) N) (AList.update (plm_name pm) err errs) r1"
    by (rule single_tallied [OF Cons.prems(1) _ one]) (use Cons.prems(3) in auto)
  from Cons.IH [OF this] Cons.prems one have "tallied (insert (plm_name pm) N \<union> plan_names pms) errs' r'" by auto
  then show ?case by simp
qed simp

lemma record_failed_tallied: "tallied N errs r \<Longrightarrow> tallied N [] (fold record_failed errs r)"
proof (induction errs arbitrary: r)
  case (Cons x errs)
  obtain name err where x: "x = (name, err)" by fastforce
  have "tallied N errs (record_failed x r)"
  proof (cases err)
    case None
    then show ?thesis using Cons.prems x by (simp add: record_failed_def tallied_def)
  next
    case (Some y)
    then have "insert name (failed_names r) = failed_names r" "succeeded r - {name} = succeeded r"
      using Cons.prems x by (auto simp: tallied_def)
    then show ?thesis using Cons.prems x Some by (auto simp: record_failed_def tallied_def)
  qed
  then show ?case using Cons.IH by simp
qed simp

text \<open>The members of a group finish in some order.\<close>

definition finishes :: "smart_env \<Rightarrow> bool" where
  "finishes e \<longleftrightarrow> (\<forall>h ms. set (sm_finish e h ms) = set ms \<and> length (sm_finish e h ms) = length ms)"

lemma finish_distinct:
  assumes "finishes e" and "distinct (map plm_name ms)"
  shows "distinct (map plm_name (sm_finish e h ms))"
proof (rule card_distinct)
  have "card (set (map plm_name ms)) = length ms" using distinct_card [OF assms(2)] by simp
  then show "card (set (map plm_name (sm_finish e h ms))) = length (map plm_name (sm_finish e h ms))"
    using assms(1) by (simp add: finishes_def)
qed

lemma groups_tallied:
  assumes "finishes e"
  shows "tallied N [] r \<Longrightarrow> distinct (map plm_name (concat gs)) \<Longrightarrow> plan_names (concat gs) \<inter> N = {} \<Longrightarrow>
    execute_groups e gs r s = (r', t) \<Longrightarrow> tallied (N \<union> plan_names (concat gs)) [] r'"
proof (induction gs arbitrary: N r s)
  case (Cons ms gs)
  obtain errs r1 s1 where g: "ExecuteGroup e ms r s = (errs, r1, s1)" by (metis prod_cases3)
  have same: "plan_names (sm_finish e (ats_log s) ms) = plan_names ms" using assms by (simp add: finishes_def)
  have "tallied (N \<union> plan_names (sm_finish e (ats_log s) ms)) errs r1"
    by (rule members_tallied [OF Cons.prems(1) finish_distinct [OF assms]])
       (use Cons.prems(2,3) g same in \<open>auto simp: ExecuteGroup_def\<close>)
  then have r2: "tallied (N \<union> plan_names ms) [] (fold record_failed errs r1)" using record_failed_tallied same by simp
  show ?case
  proof (cases "IsOpen s1")
    case True
    then have "r' = (fold record_failed errs r1)\<lparr>sre_stopped := True\<rparr>" using Cons.prems(4) g by (simp add: Let_def)
    then show ?thesis using r2 by (auto simp: tallied_def)
  next
    case False
    have "tallied (N \<union> plan_names ms \<union> plan_names (concat gs)) [] r'"
      by (rule Cons.IH [OF r2]) (use Cons.prems False g in \<open>auto simp: Let_def\<close>)
    then show ?thesis by (simp add: Un_assoc image_Un)
  qed
qed simp

text \<open>
  The result of a plan counts each success once and each failure twice: once when the migration
  ends and once more when its group does.
\<close>

theorem failures_counted_twice:
  assumes "AnalyzeAndPlan e reqs u = (Inr plan, v)" and "distinct (map smr_name reqs)" and "finishes e"
    and "ExecutePlan e plan s = (r, t)"
  shows "sre_successCount r = int (card (succeeded r)) \<and> sre_failedCount r = 2 * int (card (failed_names r))
    \<and> succeeded r \<union> failed_names r \<subseteq> smr_name ` set reqs"
proof -
  let ?gs = "mpl_parallelGroups plan"
  let ?r = "\<lparr>sre_startTime = ae_clock (sm_art e) (ats_ticks s), sre_endTime = 0, sre_duration = 0, sre_successCount = 0,
          sre_failedCount = 0, sre_results = Map.empty, sre_stopped = False\<rparr>" and ?s = "s\<lparr>ats_ticks := Suc (ats_ticks s)\<rparr>"
  have xs: "distinct (map plm_name (concat ?gs))" "\<forall>pm \<in> set (concat ?gs). \<exists>req \<in> set reqs. same_shape req pm"
    using plan_shape [OF assms(1,2)] by (simp_all add: Let_def)
  obtain r' t' where g: "execute_groups e ?gs ?r ?s = (r', t')" by fastforce
  have "tallied {} [] ?r" by (simp add: tallied_def succeeded_def failed_names_def)
  from groups_tallied [OF assms(3) this xs(1) _ g] have r': "tallied (plan_names (concat ?gs)) [] r'" by simp
  have names: "plan_names (concat ?gs) \<subseteq> smr_name ` set reqs"
  proof
    fix n assume "n \<in> plan_names (concat ?gs)"
    then obtain pm where "pm \<in> set (concat ?gs)" "n = plm_name pm" by blast
    then show "n \<in> smr_name ` set reqs" using xs(2) by (metis image_eqI same_shape_def)
  qed
  obtain now d where "r = r'\<lparr>sre_endTime := now, sre_duration := d\<rparr>" using assms(4) g by (auto simp: ExecutePlan_def engine_now_def)
  then show ?thesis using r' names by (auto simp: tallied_def)
qed

theorem failures_counted_twice_witness:
  "\<exists>plan v r t. AnalyzeAndPlan sample_smart sample_chain NewSmartMigrationEngine = (Inr plan, v)
    \<and> ExecutePlan sample_smart plan sample_open = (r, t) \<and> sre_failedCount r = 2 * int (card (failed_names r))"
proof -
  have ok: "distinct (map smr_name sample_chain)" "finishes sample_smart"
    by (simp_all add: sample_chain_def sample_request_of_def finishes_def sample_smart_def)
  obtain plan v where plan: "AnalyzeAndPlan sample_smart sample_chain NewSmartMigrationEngine = (Inr plan, v)"
    using sample_chain_plan by (elim exE conjE)
  obtain r t where run: "ExecutePlan sample_smart plan sample_open = (r, t)" by fastforce
  from failures_counted_twice [OF plan ok run] plan run show ?thesis by blast
qed

section \<open>Texts in errors\<close>

text \<open>
  The search that decides whether an error is tried again finds a text exactly if it is
  somewhere in the error.
\<close>

theorem smart_contains_correct: "smart_contains s sub \<longleftrightarrow> sublist sub s"
proof
  assume "smart_contains s sub"
  then consider "drop (length s - length sub) s = sub" | "take (length sub) s = sub"
    | i where "take (length sub) (drop i s) = sub"
    by (auto simp: smart_contains_def findSubstring_def list_ex_iff)
  then show "sublist sub s"
  proof cases
    case 1
    then show ?thesis using sublist_drop [of "length s - length sub" s] by simp
  next
    case 2
    then show ?thesis using sublist_take [of "length sub" s] by simp
  next
    case 3
    then have "s = take i s @ sub @ drop (length sub) (drop i s)" by (metis append_take_drop_id)
    then show ?thesis unfolding sublist_def by blast
  qed
next
  assume "sublist sub s"
  then obtain a b where s: "s = a @ sub @ b" by (auto simp: sublist_def)
  show "smart_contains s sub"
  proof (cases "length s = length sub")
    case True
    then show ?thesis using s by (simp add: smart_contains_def)
  next
    case False
    then have "length sub < length s" using s by simp
    moreover have "take (length sub) (drop (length a) s) = sub" "length a \<in> set [0..<Suc (length s - length sub)]" using s by auto
    ultimately have "findSubstring s sub" unfolding findSubstring_def list_ex_iff by (intro conjI bexI [of _ "length a"]) simp_all
    then show ?thesis using \<open>length sub < length s\<close> by (simp add: smart_contains_def)
  qed
qed

end
