(* ===== verification/ArtifactProperties.thy ===== *)
theory ArtifactProperties
  imports SmartArtifacts
begin

text \<open>
  The cache of migrated artifacts: a successful migration leaves all artifacts of a project in it, and what is
  in it is not migrated again, whatever the target.
\<close>

section \<open>Versions and packages\<close>

definition is_put :: "art_action \<Rightarrow> bool" where
  "is_put a = (case a of ArtPut _ _ _ \<Rightarrow> True | ArtCalled _ _ \<Rightarrow> False)"

abbreviation puts :: "'x art_state_scheme \<Rightarrow> art_action list" where
  "puts s \<equiv> filter is_put (ats_log s)"

text \<open>The transfer of a version leaves the cache alone.\<close>

definition frames :: "(string \<Rightarrow> 'x art_state_scheme \<Rightarrow> go_error option \<times> 'x art_state_scheme) \<Rightarrow> bool" where
  "frames transfer \<longleftrightarrow> (\<forall>v s. ats_cache (snd (transfer v s)) = ats_cache s)"

definition grown :: "'x art_state_scheme \<Rightarrow> 'x art_state_scheme \<Rightarrow> bool" where
  "grown s t \<longleftrightarrow> (\<forall>k. has_artifact k s \<longrightarrow> has_artifact k t)"

lemma art_log_simps [simp]:
  "ats_cache (art_log a s) = ats_cache s" "has_artifact k (art_log a s) = has_artifact k s"
  "puts (art_log (ArtCalled n args) s) = puts s"
  by (simp_all add: art_log_def has_artifact_def is_put_def)

lemma set_artifact_has: "has_artifact k (set_artifact e j s) \<longleftrightarrow> k = j \<or> has_artifact k s"
  by (simp add: set_artifact_def has_artifact_def)

lemma versions_migrated:
  assumes "frames transfer"
  shows "migrate_versions e kind name transfer vs s = (r, t) \<Longrightarrow>
    grown s t \<and> (r = None \<longrightarrow> (\<forall>v \<in> set vs. has_artifact (artifact_key kind name (pkv_version v)) t))"
proof (induction vs arbitrary: s)
  case (Cons v vs)
  let ?key = "artifact_key kind name (pkv_version v)"
  show ?case
  proof (cases "has_artifact ?key s")
    case True
    then show ?thesis using Cons.IH [of s] Cons.prems by (simp add: grown_def)
  next
    case False
    obtain r1 s1 where tr: "transfer (pkv_version v) s = (r1, s1)" by fastforce
    have same: "has_artifact k s1 = has_artifact k s" for k
      using assms tr by (metis frames_def has_artifact_def snd_conv)
    show ?thesis
    proof (cases r1)
      case None
      with Cons.IH [of "set_artifact e ?key s1"] Cons.prems False tr show ?thesis
        by (auto simp: grown_def set_artifact_has same)
    next
      case (Some err)
      then have "r = Some err" "t = s1" using Cons.prems False tr by simp_all
      then show ?thesis using same by (simp add: grown_def)
    qed
  qed
qed (simp add: grown_def)

lemma versions_cached:
  "\<forall>v \<in> set vs. has_artifact (artifact_key kind name (pkv_version v)) s \<Longrightarrow> migrate_versions e kind name transfer vs s = (None, s)"
  by (induction vs) simp_all

text \<open>
  An outside whose lists do not change, where a list that fails keeps failing, without a limit to the rate.
\<close>

definition steady :: "art_env \<Rightarrow> bool" where
  "steady e \<longleftrightarrow> (\<forall>h p. ae_feeds e h p = ae_feeds e [] p) \<and> (\<forall>h p f. ae_packages e h p f = ae_packages e [] p f)
     \<and> (\<forall>h p f i. ae_versions e h p f i = ae_versions e [] p f i)
     \<and> (\<forall>h. ae_wait e h = None) \<and> (\<forall>h ps. set (ae_finish e h ps) = set ps)"

definition package_cached :: "art_env \<Rightarrow> string \<Rightarrow> string \<Rightarrow> string \<Rightarrow> ado_package \<Rightarrow> 'x art_state_scheme \<Rightarrow> bool" where
  "package_cached e kind project feed p s \<longleftrightarrow> (\<exists>vs. ae_versions e [] project feed (pkg_id p) = Inr vs
     \<and> (\<forall>v \<in> set vs. has_artifact (artifact_key kind (pkg_name p) (pkv_version v)) s))"

lemma package_cached_grown: "package_cached e kind project feed p s \<Longrightarrow> grown s t \<Longrightarrow> package_cached e kind project feed p t"
  by (auto simp: package_cached_def grown_def)

lemma steady_lists:
  assumes "steady e"
  shows "ae_feeds e h p = ae_feeds e [] p" "ae_packages e h p f = ae_packages e [] p f"
    "ae_versions e h p f i = ae_versions e [] p f i"
  using assms unfolding steady_def by blast+

lemma steady_calls: "steady e \<Longrightarrow> ae_wait e h = None" "steady e \<Longrightarrow> set (ae_finish e h ps) = set ps"
  unfolding steady_def by blast+

lemma package_migrated:
  assumes e: "steady e" and "frames transfer" and "migrate_package e kind transfer project feed p s = (r, t)"
  shows "grown s t \<and> (r = None \<longrightarrow> package_cached e kind project feed p t)"
proof (cases "ae_versions e [] project feed (pkg_id p)")
  case (Inl err)
  then show ?thesis using assms(3) steady_lists(3) [OF e, of "ats_log s"] by (auto simp: migrate_package_def Let_def grown_def)
next
  case (Inr vs)
  let ?s = "art_log (ArtCalled ''ListPackageVersions'' [project, feed, pkg_id p]) s"
  have "migrate_versions e kind (pkg_name p) transfer vs ?s = (r, t)"
    using assms(3) Inr steady_lists(3) [OF e, of "ats_log s"] by (simp add: migrate_package_def Let_def)
  from versions_migrated [OF assms(2) this] show ?thesis using Inr by (simp add: grown_def package_cached_def)
qed

lemma package_done:
  assumes "steady e" and "package_cached e kind project feed p s"
  shows "\<exists>t. migrate_package e kind transfer project feed p s = (None, t) \<and> puts t = puts s \<and> ats_cache t = ats_cache s"
proof -
  obtain vs where vs: "ae_versions e (ats_log s) project feed (pkg_id p) = Inr vs"
      "\<forall>v \<in> set vs. has_artifact (artifact_key kind (pkg_name p) (pkv_version v)) s"
    using assms(2) steady_lists(3) [OF assms(1), of "ats_log s"] by (auto simp: package_cached_def)
  then show ?thesis by (simp add: migrate_package_def Let_def versions_cached)
qed

lemma packages_migrated:
  assumes e: "steady e" and tr: "\<And>p. frames (transfer p)"
  shows "migrate_packages e (\<lambda>p. migrate_package e kind (transfer p) project feed p) ps s = ((m, n), t) \<Longrightarrow>
    grown s t \<and> 0 \<le> n \<and> (n = 0 \<longrightarrow> (\<forall>p \<in> set ps. package_cached e kind project feed p t))"
proof (induction ps arbitrary: s m n t)
  case (Cons p ps)
  let ?s = "art_log (ArtCalled ''Wait'' []) s"
  obtain r s1 where one: "migrate_package e kind (transfer p) project feed p ?s = (r, s1)" by fastforce
  obtain c t1 where c: "migrate_packages e (\<lambda>p. migrate_package e kind (transfer p) project feed p) ps s1 = (c, t1)" by fastforce
  obtain m1 n1 where "c = (m1, n1)" by fastforce
  note rest = c [unfolded this]
  note p = package_migrated [OF e tr one]
  note ps = Cons.IH [OF rest]
  have out: "t = t1" "n = (if r = None then n1 else n1 + 1)"
    using Cons.prems one rest by (auto simp: steady_calls(1) [OF e] Let_def split: if_splits)
  have "grown s t" using p ps out by (simp add: grown_def)
  moreover have "package_cached e kind project feed p t" if "r = None"
    using p ps that out package_cached_grown by blast
  ultimately show ?case using ps out by (auto split: if_splits)
qed (simp add: grown_def)

lemma packages_done:
  assumes e: "steady e"
  shows "\<forall>p \<in> set ps. package_cached e kind project feed p s \<Longrightarrow>
    \<exists>m t. migrate_packages e (\<lambda>p. migrate_package e kind (transfer p) project feed p) ps s = ((m, 0), t)
      \<and> puts t = puts s \<and> ats_cache t = ats_cache s"
proof (induction ps arbitrary: s)
  case (Cons p ps)
  let ?s = "art_log (ArtCalled ''Wait'' []) s"
  have same: "package_cached e kind project feed q u = package_cached e kind project feed q s" if "ats_cache u = ats_cache s" for q u
    using that by (simp add: package_cached_def has_artifact_def)
  obtain s1 where s1: "migrate_package e kind (transfer p) project feed p ?s = (None, s1)" "puts s1 = puts s" "ats_cache s1 = ats_cache s"
    using package_done [OF e, of kind project feed p ?s "transfer p"] Cons.prems same [of ?s p] by auto
  then obtain m t where "migrate_packages e (\<lambda>p. migrate_package e kind (transfer p) project feed p) ps s1 = ((m, 0), t)"
      "puts t = puts s1" "ats_cache t = ats_cache s1"
    using Cons.IH [of s1] Cons.prems same [of s1] by auto
  then show ?case using s1 by (simp add: steady_calls(1) [OF e] Let_def)
qed simp

section \<open>Feeds\<close>

definition artifact_kinds :: "string list" where
  "artifact_kinds = [''nuget'', ''npm'', ''maven'', ''python'', ''universal'']"

text \<open>The five kinds of feeds are migrated in the same way, up to the transfer of a version.\<close>

lemma frames_transfers:
  "frames (nuget_transfer e target project feed p)" "frames (npm_transfer e target project feed p)"
  "frames (maven_transfer e target project feed p)" "frames (python_transfer e target project feed p)"
  "frames (universal_transfer e target project feed p)"
  by (simp_all add: frames_def nuget_transfer_def npm_transfer_def maven_transfer_def python_transfer_def universal_transfer_def
      fetch_and_put_def Let_def split: sum.split)

lemma package_functions:
  "migrateNuGetPackage e target project feed = (\<lambda>p. migrate_package e ''nuget'' (nuget_transfer e target project feed p) project feed p)"
  "migrateNpmPackage e target project feed = (\<lambda>p. migrate_package e ''npm'' (npm_transfer e target project feed p) project feed p)"
  "migrateMavenPackage e target project feed = (\<lambda>p. migrate_package e ''maven'' (maven_transfer e target project feed p) project feed p)"
  "migratePythonPackage e target project feed = (\<lambda>p. migrate_package e ''python'' (python_transfer e target project feed p) project feed p)"
  "migrateUniversalPackage e target project feed = (\<lambda>p. migrate_package e ''universal'' (universal_transfer e target project feed p) project feed p)"
  by (rule ext, simp add: migrateNuGetPackage_def migrateNpmPackage_def migrateMavenPackage_def migratePythonPackage_def migrateUniversalPackage_def)+

lemmas feed_defs = migrateFeed_def migrateNuGetPackages_def migrateNpmPackages_def migrateMavenPackages_def
  migratePythonPackages_def migrateUniversalPackages_def package_functions

lemma migrateFeed_uniform:
  assumes "steady e" and "ae_packages e [] project (fed_name f) = Inr ps" and "fed_feedType f \<in> set artifact_kinds"
  obtains transfer ps' s' where "\<And>p. frames (transfer p)" "set ps' = set ps" "ats_cache s' = ats_cache s" "puts s' = puts s"
    "migrateFeed e target project f s
      = map_prod (Pair None) id (migrate_packages e (\<lambda>p. migrate_package e (fed_feedType f) (transfer p) project (fed_name f) p) ps' s')"
proof -
  have ps: "ae_packages e (ats_log s) project (fed_name f) = Inr ps" and finish: "\<And>h. set (ae_finish e h ps) = set ps"
    using assms(2) steady_lists(2) [OF assms(1), of "ats_log s"] steady_calls(2) [OF assms(1)] by simp_all
  let ?s = "art_log (ArtCalled ''ListPackages'' [project, fed_name f]) s"
  from assms(3) consider "fed_feedType f = ''nuget''" | "fed_feedType f = ''npm''" | "fed_feedType f = ''maven''"
    | "fed_feedType f = ''python''" | "fed_feedType f = ''universal''" by (auto simp: artifact_kinds_def)
  then show thesis
  proof cases
    case 1
    show thesis by (rule that [OF frames_transfers(1) finish [of "ats_log ?s"], where s' = ?s]) (use 1 ps in \<open>simp_all add: feed_defs Let_def\<close>)
  next
    case 2
    show thesis by (rule that [OF frames_transfers(2) finish [of "ats_log ?s"], where s' = ?s]) (use 2 ps in \<open>simp_all add: feed_defs Let_def\<close>)
  next
    case 3
    show thesis by (rule that [OF frames_transfers(3) refl, where s' = ?s]) (use 3 ps in \<open>simp_all add: feed_defs Let_def\<close>)
  next
    case 4
    show thesis by (rule that [OF frames_transfers(4) refl, where s' = ?s]) (use 4 ps in \<open>simp_all add: feed_defs Let_def\<close>)
  next
    case 5
    show thesis by (rule that [OF frames_transfers(5) refl, where s' = ?s]) (use 5 ps in \<open>simp_all add: feed_defs Let_def\<close>)
  qed
qed

definition feed_cached :: "art_env \<Rightarrow> string \<Rightarrow> ado_feed \<Rightarrow> 'x art_state_scheme \<Rightarrow> bool" where
  "feed_cached e project f s \<longleftrightarrow> (fed_feedType f \<in> set artifact_kinds \<longrightarrow>
     (\<forall>ps. ae_packages e [] project (fed_name f) = Inr ps \<longrightarrow> (\<forall>p \<in> set ps. package_cached e (fed_feedType f) project (fed_name f) p s)))"

lemma feed_cached_grown: "feed_cached e project f s \<Longrightarrow> grown s t \<Longrightarrow> feed_cached e project f t"
  unfolding feed_cached_def using package_cached_grown by blast

lemma feed_cached_same: "ats_cache t = ats_cache s \<Longrightarrow> feed_cached e project f t = feed_cached e project f s"
  by (simp add: feed_cached_def package_cached_def has_artifact_def)

lemma idle_feed:
  assumes "steady e" and "fed_feedType f \<notin> set artifact_kinds \<or> (\<nexists>ps. ae_packages e [] project (fed_name f) = Inr ps)"
  shows "\<exists>err. migrateFeed e target project f s = ((err, 0, 0), art_log (ArtCalled ''ListPackages'' [project, fed_name f]) s)"
  using assms(2) steady_lists(2) [OF assms(1), of "ats_log s" project "fed_name f"]
  by (cases "ae_packages e [] project (fed_name f)") (auto simp: feed_defs artifact_kinds_def Let_def)

lemma feed_migrated:
  assumes e: "steady e" and run: "migrateFeed e target project f s = ((err, m, n), t)"
  shows "grown s t \<and> 0 \<le> n \<and> (n = 0 \<longrightarrow> feed_cached e project f t)"
proof (cases "fed_feedType f \<in> set artifact_kinds \<and> (\<exists>ps. ae_packages e [] project (fed_name f) = Inr ps)")
  case True
  then obtain ps where kind: "fed_feedType f \<in> set artifact_kinds" and ps: "ae_packages e [] project (fed_name f) = Inr ps" by blast
  obtain transfer ps' s' where u: "\<And>p. frames (transfer p)" "set ps' = set ps" "ats_cache s' = ats_cache s" "puts s' = puts s"
    "migrateFeed e target project f s
      = map_prod (Pair None) id (migrate_packages e (\<lambda>p. migrate_package e (fed_feedType f) (transfer p) project (fed_name f) p) ps' s')"
    by (rule migrateFeed_uniform [OF e ps kind, where target = target and s = s]) (rule that)
  have "migrate_packages e (\<lambda>p. migrate_package e (fed_feedType f) (transfer p) project (fed_name f) p) ps' s' = ((m, n), t)"
    using run u(5) by (auto simp: map_prod_def split: prod.splits)
  from packages_migrated [OF e u(1) this] show ?thesis
    using u(2,3) ps by (auto simp: feed_cached_def grown_def has_artifact_def)
next
  case False
  then show ?thesis using run idle_feed [OF e, where target = target and project = project and f = f and s = s]
    by (auto simp: feed_cached_def grown_def)
qed

lemma feed_done:
  assumes e: "steady e" and cached: "feed_cached e project f s"
  shows "\<exists>err m t. migrateFeed e target project f s = ((err, m, 0), t) \<and> puts t = puts s \<and> ats_cache t = ats_cache s"
proof (cases "fed_feedType f \<in> set artifact_kinds \<and> (\<exists>ps. ae_packages e [] project (fed_name f) = Inr ps)")
  case True
  then obtain ps where kind: "fed_feedType f \<in> set artifact_kinds" and ps: "ae_packages e [] project (fed_name f) = Inr ps" by blast
  obtain transfer ps' s' where u: "\<And>p. frames (transfer p)" "set ps' = set ps" "ats_cache s' = ats_cache s" "puts s' = puts s"
    "migrateFeed e target project f s
      = map_prod (Pair None) id (migrate_packages e (\<lambda>p. migrate_package e (fed_feedType f) (transfer p) project (fed_name f) p) ps' s')"
    by (rule migrateFeed_uniform [OF e ps kind, where target = target and s = s]) (rule that)
  have "\<forall>p \<in> set ps'. package_cached e (fed_feedType f) project (fed_name f) p s'"
    using cached kind ps u(2,3) by (simp add: feed_cached_def package_cached_def has_artifact_def)
  from packages_done [OF e this, of transfer] obtain m t where
    "migrate_packages e (\<lambda>p. migrate_package e (fed_feedType f) (transfer p) project (fed_name f) p) ps' s' = ((m, 0), t)"
    "puts t = puts s'" "ats_cache t = ats_cache s'" by blast
  then show ?thesis using u(3-5) by simp
next
  case False
  then show ?thesis using idle_feed [OF e, where target = target and project = project and f = f and s = s] by auto
qed

lemma feeds_migrated:
  assumes e: "steady e"
  shows "migrate_feeds e target project fs a b s = ((m, n), t) \<Longrightarrow>
    grown s t \<and> b \<le> n \<and> (n = b \<longrightarrow> (\<forall>f \<in> set fs. feed_cached e project f t))"
proof (induction fs arbitrary: a b s)
  case (Cons f fs)
  obtain err m1 n1 s1 where one: "migrateFeed e target project f s = ((err, m1, n1), s1)"
    by (cases "migrateFeed e target project f s") (metis prod_cases3)
  note f = feed_migrated [OF e one]
  have "migrate_feeds e target project fs (if err = None then a + m1 else a) (b + n1) s1 = ((m, n), t)"
    using Cons.prems one by simp
  note fs = Cons.IH [OF this]
  have "feed_cached e project f t" if "n1 = 0" using that f fs feed_cached_grown by blast
  moreover have "grown s t" using f fs by (simp add: grown_def)
  ultimately show ?case using f fs by auto
qed (simp add: grown_def)

lemma feeds_done:
  assumes e: "steady e"
  shows "\<forall>f \<in> set fs. feed_cached e project f s \<Longrightarrow>
    \<exists>m t. migrate_feeds e target project fs a b s = ((m, b), t) \<and> puts t = puts s \<and> ats_cache t = ats_cache s"
proof (induction fs arbitrary: a s)
  case (Cons f fs)
  obtain err m1 s1 where one: "migrateFeed e target project f s = ((err, m1, 0), s1)" "puts s1 = puts s" "ats_cache s1 = ats_cache s"
    using feed_done [OF e, where project = project and f = f and s = s and target = target] Cons.prems by auto
  have "\<forall>f \<in> set fs. feed_cached e project f s1" using Cons.prems feed_cached_same [OF one(3)] by simp
  from Cons.IH [OF this, of "if err = None then a + m1 else a"] show ?case using one by simp
qed simp

section \<open>All artifacts\<close>

text \<open>
  C36. If Azure DevOps lists the same feeds, packages and versions in both runs and the rate
  limiter never refuses: after a run that reported success, migrating the artifacts again, to
  any repository, stores nothing and reports success, because the cache does not know for which target an
  artifact was migrated. Feeds whose packages cannot be listed may be among them, as long as
  that fails in both runs; such a feed is skipped and the run still reports success, so that a
  later run, in which the list succeeds, would store its packages for the first time.
\<close>

theorem artifacts_migrated_once:
  assumes e: "steady e" and run: "MigrateArtifacts e project target s = (None, t)"
  shows "\<exists>u. MigrateArtifacts e project target' t = (None, u) \<and> filter is_put (ats_log u) = filter is_put (ats_log t)"
proof (cases "ae_feeds e [] project")
  case (Inl err)
  then show ?thesis using run steady_lists(1) [OF e, of "ats_log s"] by (simp add: MigrateArtifacts_def Let_def)
next
  case (Inr fs)
  then obtain m n where fs: "migrate_feeds e target project fs 0 0 (art_log (ArtCalled ''ListFeeds'' [project]) s) = ((m, n), t)" "n \<le> 0"
    using run steady_lists(1) [OF e, of "ats_log s"] by (auto simp: MigrateArtifacts_def Let_def split: prod.splits if_splits)
  from feeds_migrated [OF e fs(1)] fs(2) have "\<forall>f \<in> set fs. feed_cached e project f t" by simp
  then have "\<forall>f \<in> set fs. feed_cached e project f (art_log (ArtCalled ''ListFeeds'' [project]) t)"
    using feed_cached_same [of "art_log (ArtCalled ''ListFeeds'' [project]) t" t] by simp
  from feeds_done [OF e this, of target' 0 0] obtain m u where
    "migrate_feeds e target' project fs 0 0 (art_log (ArtCalled ''ListFeeds'' [project]) t) = ((m, 0), u)" "puts u = puts t" by auto
  then show ?thesis using Inr steady_lists(1) [OF e, of "ats_log t"] by (simp add: MigrateArtifacts_def Let_def)
qed

text \<open>A feed with one package of one version, that two repositories should get.\<close>

definition sample_artifacts :: art_env where
  "sample_artifacts = \<lparr>ae_feeds = (\<lambda>h p. Inr [\<lparr>fed_id = ''1'', fed_name = ''main'', fed_feedType = ''npm''\<rparr>]),
     ae_packages = (\<lambda>h p f. Inr [\<lparr>pkg_id = ''7'', pkg_name = ''left-pad'', pkg_packageType = ''npm''\<rparr>]),
     ae_versions = (\<lambda>h p f q. Inr [\<lparr>pkv_version = ''1.0.0'', pkv_sizeBytes = 10\<rparr>]), ae_download = (\<lambda>h d args. Inr ''x''),
     ae_put = (\<lambda>h u args c. None), ae_wait = (\<lambda>h. None), ae_finish = (\<lambda>h ps. ps), ae_clock = int\<rparr>"

definition no_artifacts :: art_state where
  "no_artifacts = \<lparr>ats_cache = Map.empty, ats_ticks = 0, ats_log = []\<rparr>"

theorem artifacts_migrated_once_witness:
  "\<exists>u. MigrateArtifacts sample_artifacts ''p'' ''second'' (snd (MigrateArtifacts sample_artifacts ''p'' ''first'' no_artifacts)) = (None, u)
    \<and> filter is_put (ats_log u) = [ArtPut ''UploadNpmPackage'' [''first'', ''left-pad'', ''1.0.0''] None]"
proof -
  have e: "steady sample_artifacts" by (simp add: steady_def sample_artifacts_def)
  obtain r t where run: "MigrateArtifacts sample_artifacts ''p'' ''first'' no_artifacts = (r, t)" by fastforce
  have "fst (MigrateArtifacts sample_artifacts ''p'' ''first'' no_artifacts) = None"
    "filter is_put (ats_log (snd (MigrateArtifacts sample_artifacts ''p'' ''first'' no_artifacts)))
      = [ArtPut ''UploadNpmPackage'' [''first'', ''left-pad'', ''1.0.0''] None]" by code_simp+
  then have "r = None" "filter is_put (ats_log t) = [ArtPut ''UploadNpmPackage'' [''first'', ''left-pad'', ''1.0.0''] None]" using run by simp_all
  with artifacts_migrated_once [OF e run [unfolded this(1)], of "''second''"] run show ?thesis by simp
qed

end
