(* ===== verification/JobTypes.thy ===== *)
theory JobTypes
  imports Kube
begin

text \<open>
  The MigrationJob resource (\<^verbatim>\<open>api/v1/migrationjob_types.go\<close>) and the settings of its discovery
  (\<^verbatim>\<open>api/v1/discovery_config_types.go\<close>).
\<close>

datatype job_phase = JobUnset | JobPending | JobValidating | JobRunning | JobCompleted | JobFailed | JobCancelled | JobPaused

datatype resource_job_state = ResourceJobPending | ResourceJobValidating | ResourceJobRunning | ResourceJobCompleted
  | ResourceJobFailed | ResourceJobSkipped | ResourceJobPaused

record naming_convention =
  ncv_strategy :: string
  ncv_prefix :: string
  ncv_suffix :: string
  ncv_template :: string
  ncv_transform :: string

record repository_discovery_config =
  rdc_enabled :: bool
  rdc_mode :: string
  rdc_includePatterns :: "string list"
  rdc_excludePatterns :: "string list"
  rdc_namingConvention :: "naming_convention option"

record work_item_discovery_config =
  wdc_enabled :: bool
  wdc_query :: string
  wdc_areaPaths :: "string list"
  wdc_types :: "string list"
  wdc_states :: "string list"

record pipeline_discovery_config =
  pdc_enabled :: bool
  pdc_includePatterns :: "string list"
  pdc_excludePatterns :: "string list"
  pdc_onlyEnabled :: bool

record discovery_config =
  dcf_repositories :: "repository_discovery_config option"
  dcf_workItems :: "work_item_discovery_config option"
  dcf_pipelines :: "pipeline_discovery_config option"

record secret_job_reference =
  sjr_name :: string
  sjr_key :: string
  sjr_namespace :: string

record service_principal_job_config =
  spj_clientID :: string
  spj_clientSecretRef :: secret_job_reference
  spj_tenantID :: string

record azure_devops_config =
  azc_organization :: string
  azc_project :: string
  azc_servicePrincipal :: service_principal_job_config

record github_config =
  ghc_owner :: string
  ghc_tokenRef :: secret_job_reference
  ghc_apiurl :: string

record migration_job_settings =
  mjs_maxHistoryDays :: int
  mjs_maxCommitCount :: int
  mjs_includeWorkItems :: bool
  mjs_includeBuilds :: bool
  mjs_batchSize :: int
  mjs_retryAttempts :: int
  mjs_parallelWorkers :: int

record repository_job_settings =
  rjs_includeBranches :: "string list"
  rjs_excludeBranches :: "string list"
  rjs_branchMapping :: "string \<rightharpoonup> string"

record work_item_job_settings =
  wjs_typeMapping :: "string \<rightharpoonup> string"
  wjs_stateMapping :: "string \<rightharpoonup> string"
  wjs_fieldMapping :: "string \<rightharpoonup> string"

record pipeline_job_settings =
  pjs_convertToActions :: bool
  pjs_workflowTemplate :: string

record resource_job_settings =
  rsj_repository :: "repository_job_settings option"
  rsj_workItem :: "work_item_job_settings option"
  rsj_pipeline :: "pipeline_job_settings option"

record migration_job_resource =
  mjr_type :: string
  mjr_sourceID :: string
  mjr_sourceName :: string
  mjr_targetName :: string
  mjr_config :: "string \<rightharpoonup> string"
  mjr_settings :: "resource_job_settings option"

record migration_job_spec =
  mjp_azureDevOps :: azure_devops_config
  mjp_gitHub :: github_config
  mjp_settings :: migration_job_settings
  mjp_discovery :: "discovery_config option"
  mjp_resources :: "migration_job_resource list"

record migration_job_progress =
  mjg_total :: int
  mjg_completed :: int
  mjg_failed :: int
  mjg_processing :: int
  mjg_skipped :: int
  mjg_percentage :: int
  mjg_currentStep :: string
  mjg_estimatedCompletion :: "instant option"
  mjg_processingRate :: string

record sub_resource_job_status =
  srj_name :: string
  srj_type :: string
  srj_status :: resource_job_state
  srj_progress :: int
  srj_errorMessage :: string

record resource_migration_job_details =
  rmd_itemsProcessed :: int
  rmd_totalItems :: int
  rmd_bytesTransferred :: int
  rmd_currentOperation :: string
  rmd_subResources :: "sub_resource_job_status list"

record resource_migration_job_status =
  rms_resourceID :: string
  rms_type :: string
  rms_sourceName :: string
  rms_targetName :: string
  rms_status :: resource_job_state
  rms_progress :: int
  rms_startTime :: "instant option"
  rms_completionTime :: "instant option"
  rms_errorMessage :: string
  rms_gitHubURL :: string
  rms_details :: "resource_migration_job_details option"

record migration_job_statistics =
  mjx_duration :: duration
  mjx_commitsMigrated :: int
  mjx_branchesMigrated :: int
  mjx_tagsMigrated :: int
  mjx_workItemsMigrated :: int
  mjx_pullRequestsMigrated :: int
  mjx_pipelinesMigrated :: int
  mjx_dataTransferred :: int
  mjx_apiCalls :: "string \<rightharpoonup> int"

record migration_job_status =
  mjt_phase :: job_phase
  mjt_conditions :: "condition list"
  mjt_startTime :: "instant option"
  mjt_completionTime :: "instant option"
  mjt_progress :: migration_job_progress
  mjt_resourceStatuses :: "resource_migration_job_status list"
  mjt_errorMessage :: string
  mjt_warnings :: "string list"
  mjt_statistics :: "migration_job_statistics option"

record migration_job =
  mjb_meta :: object_meta
  mjb_spec :: migration_job_spec
  mjb_status :: migration_job_status

definition on_job :: "(migration_job_status \<Rightarrow> migration_job_status) \<Rightarrow> migration_job \<Rightarrow> migration_job" where
  "on_job f j = j\<lparr>mjb_status := f (mjb_status j)\<rparr>"

lemma on_job_simps [simp]:
  "mjb_meta (on_job f j) = mjb_meta j" "mjb_spec (on_job f j) = mjb_spec j" "mjb_status (on_job f j) = f (mjb_status j)"
  by (simp_all add: on_job_def)

end
