(* ===== verification/JobController.thy ===== *)
theory JobController
  imports JobTypes
begin

text \<open>
  \<^verbatim>\<open>internal/controller/migrationjob_controller.go\<close>: the controller of MigrationJob. That child migrations
  are created and looked at is not implemented in the source; the functions for it are modelled as they are.
\<close>

type_synonym job_state = "migration_job rstate"
type_synonym job_env = "migration_job kube"

section \<open>Validation\<close>

definition secret_there :: "job_env \<Rightarrow> string \<Rightarrow> secret_job_reference \<Rightarrow> string \<Rightarrow> go_error option" where
  "secret_there k ns ref what =
     (case k_secret k (if sjr_namespace ref \<noteq> [] then sjr_namespace ref else ns) (sjr_name ref) of
        Inl err \<Rightarrow> Some (wrap_err what err) | Inr _ \<Rightarrow> None)"

definition validateSecrets :: "job_env \<Rightarrow> migration_job \<Rightarrow> go_error option" where
  "validateSecrets k j =
     (let ns = om_namespace (mjb_meta j); sp = mjb_spec j in
      case secret_there k ns (spj_clientSecretRef (azc_servicePrincipal (mjp_azureDevOps sp))) ''failed to get Azure Service Principal secret'' of
        Some err \<Rightarrow> Some err
      | None \<Rightarrow> secret_there k ns (ghc_tokenRef (mjp_gitHub sp)) ''failed to get GitHub token secret'')"

definition job_validateConfiguration :: "job_env \<Rightarrow> migration_job \<Rightarrow> go_error option" where
  "job_validateConfiguration k j =
     (let az = mjp_azureDevOps (mjb_spec j); gh = mjp_gitHub (mjb_spec j) in
      if azc_organization az = [] then Some (PlainError ''azure DevOps organization is required'')
      else if azc_project az = [] then Some (PlainError ''azure DevOps project is required'')
      else if spj_clientID (azc_servicePrincipal az) = [] then Some (PlainError ''azure DevOps client ID is required'')
      else if spj_tenantID (azc_servicePrincipal az) = [] then Some (PlainError ''azure DevOps tenant ID is required'')
      else if sjr_name (spj_clientSecretRef (azc_servicePrincipal az)) = []
      then Some (PlainError ''azure DevOps client secret reference is required'')
      else if ghc_owner gh = [] then Some (PlainError ''github owner is required'')
      else if sjr_name (ghc_tokenRef gh) = [] then Some (PlainError ''github token reference is required'')
      else if mjp_resources (mjb_spec j) = [] then Some (PlainError ''at least one resource to migrate is required'')
      else map_option (wrap_err ''secret validation failed'') (validateSecrets k j))"

section \<open>The children\<close>

definition createChildMigrations :: "migration_job \<Rightarrow> go_error option" where
  "createChildMigrations j = None"

definition zero_job_progress :: "migration_job \<Rightarrow> migration_job_progress" where
  "zero_job_progress j = \<lparr>mjg_total = int (length (mjp_resources (mjb_spec j))), mjg_completed = 0, mjg_failed = 0, mjg_processing = 0,
     mjg_skipped = 0, mjg_percentage = 0, mjg_currentStep = [], mjg_estimatedCompletion = None, mjg_processingRate = []\<rparr>"

definition checkChildMigrationProgress :: "migration_job \<Rightarrow> go_error + migration_job_progress" where
  "checkChildMigrationProgress j = Inr (zero_job_progress j)"

definition job_calculateStatistics :: "job_env \<Rightarrow> job_state \<Rightarrow> migration_job_statistics \<times> job_state" where
  "job_calculateStatistics k s =
     (let st = mjb_status (obj s);
          stats = (\<lambda>d. \<lparr>mjx_duration = d, mjx_commitsMigrated = 0, mjx_branchesMigrated = 0, mjx_tagsMigrated = 0, mjx_workItemsMigrated = 0,
            mjx_pullRequestsMigrated = 0, mjx_pipelinesMigrated = 0, mjx_dataTransferred = 0, mjx_apiCalls = Map.empty\<rparr>)
      in case mjt_startTime st of None \<Rightarrow> (stats 0, s)
       | Some start \<Rightarrow> (case mjt_completionTime st of
           Some completion \<Rightarrow> (stats (completion - start), s)
         | None \<Rightarrow> (case read_clock k s of (now, s) \<Rightarrow> (stats (now - start), s))))"

section \<open>The phases\<close>

definition job_initialize :: "job_env \<Rightarrow> job_state \<Rightarrow> outcome \<times> job_state" where
  "job_initialize k s =
     (let s = modify (\<lambda>j. on_job (\<lambda>st. st\<lparr>mjt_phase := JobPending, mjt_progress := zero_job_progress j\<rparr>) j) s
      in case read_clock k s of (now, s) \<Rightarrow>
      let s = modify (on_job (\<lambda>st. st\<lparr>mjt_startTime := Some now\<rparr>)) s
      in update_then k (after (5 * second)) (after (5 * second)) (emit (Event EventNormal ''Initialized'' ''Migration job initialized'') s))"

definition on_job_step :: "string \<Rightarrow> migration_job_status \<Rightarrow> migration_job_status" where
  "on_job_step step st = st\<lparr>mjt_progress := (mjt_progress st)\<lparr>mjg_currentStep := step\<rparr>\<rparr>"

definition job_processPending :: "job_env \<Rightarrow> job_state \<Rightarrow> outcome \<times> job_state" where
  "job_processPending k s =
     (let s = modify (on_job (\<lambda>st. on_job_step ''Validating configuration'' (st\<lparr>mjt_phase := JobValidating\<rparr>))) s
      in update_then k (after (5 * second)) (after (5 * second))
           (emit (Event EventNormal ''ValidationStarted'' ''Migration job validation started'') s))"

definition fail_job :: "job_env \<Rightarrow> string \<Rightarrow> string \<Rightarrow> string \<Rightarrow> job_state \<Rightarrow> outcome \<times> job_state" where
  "fail_job k text reason message s =
     (let s = modify (on_job (\<lambda>st. st\<lparr>mjt_phase := JobFailed, mjt_errorMessage := text\<rparr>)) s
      in update_then k no_requeue no_requeue (emit (Event EventWarning reason message) s))"

definition start_children :: "job_env \<Rightarrow> job_state \<Rightarrow> outcome \<times> job_state" where
  "start_children k s = (case createChildMigrations (obj s) of
     Some err \<Rightarrow> (let message = ''Failed to create child migrations: '' @ err_text err in
       fail_job k message ''ChildMigrationCreationFailed'' message s)
   | None \<Rightarrow> ((after (30 * second), None), emit (Event EventNormal ''ChildMigrationsCreated'' ''Child migrations created successfully'') s))"

definition job_processValidating :: "job_env \<Rightarrow> job_state \<Rightarrow> outcome \<times> job_state" where
  "job_processValidating k s = (case job_validateConfiguration k (obj s) of
     Some err \<Rightarrow> fail_job k (err_text err) ''ValidationFailed'' (''Migration job validation failed: '' @ err_text err) s
   | None \<Rightarrow>
       (let s = modify (on_job (\<lambda>st. on_job_step ''Creating child migrations'' (st\<lparr>mjt_phase := JobRunning\<rparr>))) s;
            s = emit (Event EventNormal ''ValidationPassed'' ''Migration job validation passed'') s
        in status_update_or k (\<lambda>err. (after (5 * second), Some err)) (start_children k) s))"

definition finish_job :: "job_env \<Rightarrow> migration_job_progress \<Rightarrow> job_state \<Rightarrow> outcome \<times> job_state" where
  "finish_job k progress s =
     (let failed = mjg_failed progress;
          s = (if failed = 0
               then emit (Event EventNormal ''MigrationCompleted'' ''Migration job completed successfully'')
                 (modify (on_job (\<lambda>st. on_job_step ''Migration job completed successfully'' (st\<lparr>mjt_phase := JobCompleted\<rparr>))) s)
               else emit (Event EventWarning ''MigrationFailed'' (''Migration job completed with '' @ fmt_d failed @ '' failed resources''))
                 (modify (on_job (\<lambda>st. st\<lparr>mjt_phase := JobFailed, mjt_errorMessage := fmt_d failed @ '' resources failed to migrate''\<rparr>)) s))
      in case read_clock k s of (now, s) \<Rightarrow>
      case job_calculateStatistics k (modify (on_job (\<lambda>st. st\<lparr>mjt_completionTime := Some now\<rparr>)) s) of (stats, s) \<Rightarrow>
      update_then k no_requeue no_requeue (modify (on_job (\<lambda>st. st\<lparr>mjt_statistics := Some stats\<rparr>)) s))"

definition job_processRunning :: "job_env \<Rightarrow> job_state \<Rightarrow> outcome \<times> job_state" where
  "job_processRunning k s = (case checkChildMigrationProgress (obj s) of
     Inl err \<Rightarrow> ((after (30 * second), None), s)
   | Inr progress \<Rightarrow>
       (let step = ''Processing migrations ('' @ fmt_d (mjg_completed progress) @ ''/'' @ fmt_d (mjg_total progress) @ '' complete)'';
            s = modify (on_job (\<lambda>st. on_job_step step (st\<lparr>mjt_progress := progress\<rparr>))) s
        in if mjg_completed progress + mjg_failed progress + mjg_skipped progress = mjg_total progress then finish_job k progress s
           else update_then k (after (30 * second)) (after (30 * second)) s))"

section \<open>Reconciliation\<close>

definition job_finalizerName :: string where
  "job_finalizerName = ''migration.ado-to-git-migration.io/finalizer''"

definition job_cleanup :: "migration_job \<Rightarrow> go_error option" where
  "job_cleanup j = None"

definition job_update_finalizers :: "job_env \<Rightarrow> (string list \<Rightarrow> string list) \<Rightarrow> job_state \<Rightarrow> outcome \<times> job_state" where
  "job_update_finalizers k f s =
     (case object_update k (modify (\<lambda>j. j\<lparr>mjb_meta := (mjb_meta j)\<lparr>om_finalizers := f (om_finalizers (mjb_meta j))\<rparr>\<rparr>) s) of
        (err, s) \<Rightarrow> ((no_requeue, err), s))"

definition job_processPhase :: "job_env \<Rightarrow> job_state \<Rightarrow> outcome \<times> job_state" where
  "job_processPhase k s = (case mjt_phase (mjb_status (obj s)) of
     JobUnset \<Rightarrow> job_initialize k s
   | JobPending \<Rightarrow> job_processPending k s
   | JobValidating \<Rightarrow> job_processValidating k s
   | JobRunning \<Rightarrow> job_processRunning k s
   | _ \<Rightarrow> ((no_requeue, None), s))"

definition reconcile_job :: "job_env \<Rightarrow> job_state \<Rightarrow> outcome \<times> job_state" where
  "reconcile_job k s =
     (let meta = mjb_meta (obj s); has_finalizer = job_finalizerName \<in> set (om_finalizers meta) in
      if om_deletionTimestamp meta = None
      then (if \<not> has_finalizer then job_update_finalizers k (\<lambda>fs. fs @ [job_finalizerName]) s
            else job_processPhase k s)
      else (if has_finalizer
            then (case job_cleanup (obj s) of
                Some err \<Rightarrow> ((no_requeue, Some err), s)
              | None \<Rightarrow> job_update_finalizers k (removeAll job_finalizerName) s)
            else ((no_requeue, None), s)))"

definition job_Reconcile :: "job_env \<Rightarrow> go_error + job_state \<Rightarrow> outcome \<times> job_state option" where
  "job_Reconcile k got = (case got of
     Inl err \<Rightarrow> ((no_requeue, if is_not_found err then None else Some err), None)
   | Inr s \<Rightarrow> map_prod id Some (reconcile_job k s))"

section \<open>The life of a job\<close>

text \<open>An update of the metadata keeps the status and takes the specification that was sent.\<close>

definition job_env_ok :: "job_env \<Rightarrow> bool" where
  "job_env_ok k \<longleftrightarrow> (\<forall>n old new x. k_update k n old new = Inr x \<longrightarrow> mjb_status x = mjb_status old \<and> mjb_spec x = mjb_spec new)"

datatype job_event = JobReconciled job_env | JobEdited object_meta migration_job_spec

definition job_step :: "job_env \<Rightarrow> migration_job \<Rightarrow> migration_job" where
  "job_step k j = stored (snd (reconcile_job k (fetched j)))"

fun job_event_step :: "job_event \<Rightarrow> migration_job \<Rightarrow> migration_job" where
  "job_event_step (JobReconciled k) j = job_step k j"
| "job_event_step (JobEdited meta sp) j = j\<lparr>mjb_meta := meta, mjb_spec := sp\<rparr>"

text \<open>Users do not take all resources away.\<close>

fun job_honest :: "job_event \<Rightarrow> bool" where
  "job_honest (JobReconciled k) \<longleftrightarrow> job_env_ok k"
| "job_honest (JobEdited meta sp) \<longleftrightarrow> mjp_resources sp \<noteq> []"

abbreviation jphase :: "migration_job \<Rightarrow> job_phase" where
  "jphase j \<equiv> mjt_phase (mjb_status j)"

definition job_edge :: "job_phase \<Rightarrow> job_phase \<Rightarrow> bool" where
  "job_edge p q \<longleftrightarrow> (p, q) \<in> {(JobUnset, JobPending), (JobPending, JobValidating), (JobValidating, JobRunning), (JobValidating, JobFailed)}"

definition has_resources :: "migration_job \<Rightarrow> bool" where
  "has_resources j \<longleftrightarrow> mjp_resources (mjb_spec j) \<noteq> []"

lemma on_job_step_simps [simp]: "mjt_phase (on_job_step x st) = mjt_phase st"
  by (simp add: on_job_step_def)

lemma job_phase_step:
  assumes "has_resources j"
  shows "let x = stored (snd (job_processPhase k (fetched j))) in
    mjb_spec x = mjb_spec j \<and> (jphase x = jphase j \<or> job_edge (jphase j) (jphase x))"
proof (cases "jphase j")
  case JobUnset
  then show ?thesis
    by (auto simp: job_processPhase_def job_initialize_def Let_def read_clock_def job_edge_def)
next
  case JobPending
  then show ?thesis by (auto simp: job_processPhase_def job_processPending_def job_edge_def Let_def)
next
  case JobValidating
  then show ?thesis
    by (auto simp: job_processPhase_def job_processValidating_def fail_job_def start_children_def createChildMigrations_def
        status_update_or_def status_update_def job_edge_def Let_def split: option.splits)
next
  case JobRunning
  then show ?thesis using assms
    by (auto simp: job_processPhase_def job_processRunning_def checkChildMigrationProgress_def zero_job_progress_def has_resources_def Let_def)
qed (auto simp: job_processPhase_def Let_def)

lemma job_update_step:
  assumes "job_env_ok k"
  shows "mjb_spec (stored (snd (job_update_finalizers k f (fetched j)))) = mjb_spec j
    \<and> mjb_status (stored (snd (job_update_finalizers k f (fetched j)))) = mjb_status j"
  using assms by (auto simp: job_update_finalizers_def object_update_def job_env_ok_def split: sum.split)

lemma job_event_ok:
  assumes "job_honest e" and "has_resources j"
  shows "has_resources (job_event_step e j)
    \<and> (jphase (job_event_step e j) = jphase j \<or> job_edge (jphase j) (jphase (job_event_step e j)))"
proof (cases e)
  case (JobReconciled k)
  then show ?thesis using assms job_phase_step [OF assms(2), of k] job_update_step [of k _ j]
    by (simp add: job_step_def reconcile_job_def job_cleanup_def has_resources_def Let_def)
qed (use assms in \<open>simp add: has_resources_def\<close>)

interpretation jrm: phase_machine jphase job_event_step job_honest has_resources job_edge
  by unfold_locales (use job_event_ok in blast)+

text \<open>No assumption on what users do: the counters of the progress.\<close>

fun job_server_ok :: "job_event \<Rightarrow> bool" where
  "job_server_ok (JobReconciled k) \<longleftrightarrow> job_env_ok k"
| "job_server_ok (JobEdited meta sp) \<longleftrightarrow> True"

definition nothing_counted :: "migration_job \<Rightarrow> bool" where
  "nothing_counted j \<longleftrightarrow> (let p = mjt_progress (mjb_status j) in
     mjg_completed p = 0 \<and> mjg_failed p = 0 \<and> mjg_skipped p = 0 \<and> mjg_processing p = 0)"

definition completes_empty :: "migration_job \<Rightarrow> migration_job \<Rightarrow> bool" where
  "completes_empty x y \<longleftrightarrow> (jphase y = JobCompleted \<and> jphase x \<noteq> JobCompleted \<longrightarrow>
     jphase x = JobRunning \<and> mjp_resources (mjb_spec x) = [])"

lemma on_job_step_progress [simp]:
  "mjg_completed (mjt_progress (on_job_step x st)) = mjg_completed (mjt_progress st)"
  "mjg_failed (mjt_progress (on_job_step x st)) = mjg_failed (mjt_progress st)"
  "mjg_skipped (mjt_progress (on_job_step x st)) = mjg_skipped (mjt_progress st)"
  "mjg_processing (mjt_progress (on_job_step x st)) = mjg_processing (mjt_progress st)"
  by (simp_all add: on_job_step_def)

lemma job_statistics_frame [simp]: "obj (snd (job_calculateStatistics k s)) = obj s" "stored (snd (job_calculateStatistics k s)) = stored s"
  by (auto simp: job_calculateStatistics_def read_clock_def Let_def split: option.splits)

lemma job_any_phase:
  assumes "nothing_counted j"
  shows "let x = stored (snd (job_processPhase k (fetched j))) in nothing_counted x \<and> completes_empty j x"
proof (cases "jphase j")
  case JobUnset
  then show ?thesis using assms
    by (auto simp: job_processPhase_def job_initialize_def Let_def read_clock_def nothing_counted_def completes_empty_def zero_job_progress_def)
next
  case JobPending
  then show ?thesis using assms
    by (auto simp: job_processPhase_def job_processPending_def Let_def nothing_counted_def completes_empty_def)
next
  case JobValidating
  then show ?thesis using assms
    by (auto simp: job_processPhase_def job_processValidating_def fail_job_def start_children_def createChildMigrations_def
        status_update_or_def status_update_def Let_def nothing_counted_def completes_empty_def split: option.splits)
next
  case JobRunning
  then show ?thesis using assms
    by (auto simp: job_processPhase_def job_processRunning_def checkChildMigrationProgress_def zero_job_progress_def finish_job_def
        read_clock_def Let_def case_prod_beta nothing_counted_def completes_empty_def)
qed (use assms in \<open>auto simp: job_processPhase_def Let_def completes_empty_def\<close>)

lemma job_any_step:
  assumes "job_server_ok e" and "nothing_counted j"
  shows "nothing_counted (job_event_step e j) \<and> completes_empty j (job_event_step e j)"
proof (cases e)
  case (JobReconciled k)
  then show ?thesis using assms job_any_phase [OF assms(2), of k] job_update_step [of k _ j]
    by (simp add: job_step_def reconcile_job_def job_cleanup_def nothing_counted_def completes_empty_def Let_def)
qed (use assms in \<open>simp_all add: nothing_counted_def completes_empty_def\<close>)

lemma job_any_run:
  "\<forall>e \<in> set es. job_server_ok e \<Longrightarrow> nothing_counted j \<Longrightarrow> nothing_counted (fold job_event_step es j)"
  by (induction es arbitrary: j) (simp_all add: job_any_step)

text \<open>
  C37. A job counts nothing and completes only when there is nothing to do. From counters of 0, which a
  new job has, the numbers of completed, failed, skipped and processing resources stay 0, whatever is
  reconciled, fails or is edited. A job becomes Completed only in a reconciliation in which it is
  Running and its specification lists no resources, because then 0 of 0 are done. So as
  long as it lists resources, a job that has not completed does not complete, and one that is Running stays
  Running: the progress of its children is a constant, and no children are created.
\<close>

theorem jobs_never_complete:
  assumes "\<forall>e \<in> set es. job_server_ok e" and "nothing_counted j"
  shows "nothing_counted (fold job_event_step es j)
    \<and> (\<forall>i < length es. completes_empty (fold job_event_step (take i es) j) (fold job_event_step (take (Suc i) es) j))
    \<and> ((\<forall>e \<in> set es. job_honest e) \<and> has_resources j \<and> jphase j \<noteq> JobCompleted \<longrightarrow>
        jphase (fold job_event_step es j) \<noteq> JobCompleted
        \<and> (jphase j = JobRunning \<longrightarrow> jphase (fold job_event_step es j) = JobRunning))"
proof -
  have "completes_empty (fold job_event_step (take i es) j) (fold job_event_step (take (Suc i) es) j)" if i: "i < length es" for i
  proof -
    have "nothing_counted (fold job_event_step (take i es) j)"
      by (rule job_any_run [OF _ assms(2)]) (use assms(1) in \<open>auto dest: in_set_takeD\<close>)
    from job_any_step [OF _ this, of "es ! i"] show ?thesis
      using assms(1) i by (simp add: take_Suc_conv_app_nth)
  qed
  moreover have "jphase (fold job_event_step es j) \<noteq> JobCompleted
        \<and> (jphase j = JobRunning \<longrightarrow> jphase (fold job_event_step es j) = JobRunning)"
    if honest: "\<forall>e \<in> set es. job_honest e" "has_resources j" and "jphase j \<noteq> JobCompleted"
  proof -
    have "jphase (fold job_event_step es j) \<in> - {JobCompleted}"
      by (rule jrm.closed_run [OF honest]) (use that(3) in \<open>auto simp: job_edge_def\<close>)
    moreover have "jphase (fold job_event_step es j) = JobRunning" if "jphase j = JobRunning"
      using jrm.final_run [OF honest] that by (simp add: job_edge_def)
    ultimately show ?thesis by simp
  qed
  ultimately show ?thesis using job_any_run [OF assms] by blast
qed

text \<open>A job as it is created, with one resource, and a server that takes everything.\<close>

definition sample_job :: migration_job where
  "sample_job = (let ref = \<lparr>sjr_name = ''secret'', sjr_key = ''key'', sjr_namespace = []\<rparr> in
     \<lparr>mjb_meta = zero_meta,
      mjb_spec = \<lparr>mjp_azureDevOps = \<lparr>azc_organization = ''contoso'', azc_project = ''shop'',
          azc_servicePrincipal = \<lparr>spj_clientID = ''c'', spj_clientSecretRef = ref, spj_tenantID = ''t''\<rparr>\<rparr>,
        mjp_gitHub = \<lparr>ghc_owner = ''acme'', ghc_tokenRef = ref, ghc_apiurl = []\<rparr>,
        mjp_settings = \<lparr>mjs_maxHistoryDays = 0, mjs_maxCommitCount = 0, mjs_includeWorkItems = False, mjs_includeBuilds = False,
          mjs_batchSize = 0, mjs_retryAttempts = 0, mjs_parallelWorkers = 0\<rparr>,
        mjp_discovery = None,
        mjp_resources = [\<lparr>mjr_type = ''repository'', mjr_sourceID = ''1'', mjr_sourceName = ''web'', mjr_targetName = ''web'',
          mjr_config = Map.empty, mjr_settings = None\<rparr>]\<rparr>,
      mjb_status = \<lparr>mjt_phase = JobUnset, mjt_conditions = [], mjt_startTime = None, mjt_completionTime = None,
        mjt_progress = \<lparr>mjg_total = 0, mjg_completed = 0, mjg_failed = 0, mjg_processing = 0, mjg_skipped = 0, mjg_percentage = 0,
          mjg_currentStep = [], mjg_estimatedCompletion = None, mjg_processingRate = []\<rparr>,
        mjt_resourceStatuses = [], mjt_errorMessage = [], mjt_warnings = [], mjt_statistics = None\<rparr>\<rparr>)"

definition sample_job_server :: job_env where
  "sample_job_server = \<lparr>k_clock = int, k_status = \<lambda>n x. None,
     k_update = \<lambda>n old new. Inr (new\<lparr>mjb_status := mjb_status old\<rparr>), k_secret = \<lambda>ns name. Inr Map.empty\<rparr>"

definition sample_running_job :: migration_job where
  "sample_running_job = fold job_event_step (replicate 4 (JobReconciled sample_job_server)) sample_job"

theorem jobs_never_complete_witness:
  "jphase (fold job_event_step (replicate 10 (JobReconciled sample_job_server)) sample_running_job) = JobRunning
   \<and> nothing_counted (fold job_event_step (replicate 10 (JobReconciled sample_job_server)) sample_running_job)"
proof -
  have e: "\<forall>e \<in> set (replicate n (JobReconciled sample_job_server)). job_honest e \<and> job_server_ok e" for n
    by (simp add: job_env_ok_def sample_job_server_def)
  have j: "has_resources sample_job" by (simp add: sample_job_def has_resources_def Let_def)
  have r: "has_resources sample_running_job" unfolding sample_running_job_def by (rule jrm.inv_run [OF _ j]) (use e in blast)
  have p: "jphase sample_running_job = JobRunning" "nothing_counted sample_running_job" by code_simp+
  let ?es = "replicate 10 (JobReconciled sample_job_server)"
  have es: "\<forall>e \<in> set ?es. job_server_ok e" "\<forall>e \<in> set ?es. job_honest e" using e by blast+
  have q: "jphase sample_running_job \<noteq> JobCompleted" using p(1) by simp
  show ?thesis using jobs_never_complete [OF es(1) p(2)] es(2) r p(1) q by blast
qed

end
