(* ===== verification/ApiState.thy ===== *)
theory ApiState
  imports AdoController MonoController WorkItemController
begin

text \<open>
  The Kubernetes client of the HTTP API (\<^verbatim>\<open>internal/api\<close>) and what it reads and writes: the objects of three
  kinds and the secrets of the cluster, by namespace and name.

  The API server is not part of the repository. It may refuse any call (\<open>av_refuse\<close>), and decides what
  becomes of an object that is sent to it (\<open>av_ado\<close>, \<open>av_wi\<close>, \<open>av_mono\<close>: the number of the call, the object
  it holds, the object sent) and of one that is deleted while finalizers are left. The operations are
  the same for each kind; \<open>api_kind\<close> says how a kind is accessed, and the locale \<open>object_kind\<close> states what the
  access functions owe.
\<close>

type_synonym object_key = "string \<times> string"

record api_secret =
  sec_labels :: "string \<rightharpoonup> string"
  sec_data :: "string \<rightharpoonup> string"

record api_state =
  as_ado :: "object_key \<rightharpoonup> ado_migration"
  as_wi :: "object_key \<rightharpoonup> wi_migration"
  as_mono :: "object_key \<rightharpoonup> mono"
  as_secrets :: "object_key \<rightharpoonup> api_secret"
  as_calls :: nat

record api_server =
  av_refuse :: "nat \<Rightarrow> go_error option"
  av_ado :: "nat \<Rightarrow> ado_migration option \<Rightarrow> ado_migration \<Rightarrow> ado_migration"
  av_wi :: "nat \<Rightarrow> wi_migration option \<Rightarrow> wi_migration \<Rightarrow> wi_migration"
  av_mono :: "nat \<Rightarrow> mono option \<Rightarrow> mono \<Rightarrow> mono"
  av_now :: "nat \<Rightarrow> instant"

section \<open>The kinds\<close>

record 'o api_kind =
  kd_objects :: "api_state \<Rightarrow> object_key \<rightharpoonup> 'o"
  kd_store :: "object_key \<Rightarrow> 'o option \<Rightarrow> api_state \<Rightarrow> api_state"
  kd_meta :: "'o \<Rightarrow> object_meta"
  kd_on_meta :: "(object_meta \<Rightarrow> object_meta) \<Rightarrow> 'o \<Rightarrow> 'o"
  kd_admit :: "api_server \<Rightarrow> nat \<Rightarrow> 'o option \<Rightarrow> 'o \<Rightarrow> 'o"

definition ado_kind :: "ado_migration api_kind" where
  "ado_kind = \<lparr>kd_objects = as_ado, kd_store = (\<lambda>key x s. s\<lparr>as_ado := (as_ado s)(key := x)\<rparr>), kd_meta = mg_meta,
     kd_on_meta = on_meta, kd_admit = av_ado\<rparr>"

definition wi_kind :: "wi_migration api_kind" where
  "wi_kind = \<lparr>kd_objects = as_wi, kd_store = (\<lambda>key x s. s\<lparr>as_wi := (as_wi s)(key := x)\<rparr>), kd_meta = wm_meta,
     kd_on_meta = (\<lambda>f m. m\<lparr>wm_meta := f (wm_meta m)\<rparr>), kd_admit = av_wi\<rparr>"

definition mono_kind :: "mono api_kind" where
  "mono_kind = \<lparr>kd_objects = as_mono, kd_store = (\<lambda>key x s. s\<lparr>as_mono := (as_mono s)(key := x)\<rparr>), kd_meta = mn_meta,
     kd_on_meta = mono_on_meta, kd_admit = av_mono\<rparr>"

definition object_key_of :: "object_meta \<Rightarrow> object_key" where
  "object_key_of om = (om_namespace om, om_name om)"

section \<open>Operations\<close>

definition api_called :: "api_state \<Rightarrow> api_state" where
  "api_called s = s\<lparr>as_calls := Suc (as_calls s)\<rparr>"

definition kube_get :: "'o api_kind \<Rightarrow> api_server \<Rightarrow> object_key \<Rightarrow> api_state \<Rightarrow> (go_error + 'o) \<times> api_state" where
  "kube_get kd v key s =
     ((case av_refuse v (as_calls s) of Some err \<Rightarrow> Inl err
       | None \<Rightarrow> (case kd_objects kd s key of None \<Rightarrow> Inl (NotFoundError (snd key @ '' not found'')) | Some x \<Rightarrow> Inr x)),
      api_called s)"

definition kube_update :: "'o api_kind \<Rightarrow> api_server \<Rightarrow> 'o \<Rightarrow> api_state \<Rightarrow> (go_error + 'o) \<times> api_state" where
  "kube_update kd v x s =
     (let key = object_key_of (kd_meta kd x) in
      case av_refuse v (as_calls s) of Some err \<Rightarrow> (Inl err, api_called s)
      | None \<Rightarrow> (case kd_objects kd s key of
          None \<Rightarrow> (Inl (NotFoundError (snd key @ '' not found'')), api_called s)
        | Some held \<Rightarrow> (let y = kd_admit kd v (as_calls s) (Some held) x in (Inr y, kd_store kd key (Some y) (api_called s)))))"

definition kube_create :: "'o api_kind \<Rightarrow> api_server \<Rightarrow> 'o \<Rightarrow> api_state \<Rightarrow> (go_error + 'o) \<times> api_state" where
  "kube_create kd v x s =
     (let key = object_key_of (kd_meta kd x) in
      case av_refuse v (as_calls s) of Some err \<Rightarrow> (Inl err, api_called s)
      | None \<Rightarrow> (case kd_objects kd s key of
          Some held \<Rightarrow> (Inl (PlainError (snd key @ '' already exists'')), api_called s)
        | None \<Rightarrow> (let y = kd_admit kd v (as_calls s) None x in (Inr y, kd_store kd key (Some y) (api_called s)))))"

text \<open>An object that has finalizers is only marked.\<close>

definition kube_delete :: "'o api_kind \<Rightarrow> api_server \<Rightarrow> 'o \<Rightarrow> api_state \<Rightarrow> go_error option \<times> api_state" where
  "kube_delete kd v x s =
     (let key = object_key_of (kd_meta kd x) in
      case av_refuse v (as_calls s) of Some err \<Rightarrow> (Some err, api_called s)
      | None \<Rightarrow> (case kd_objects kd s key of
          None \<Rightarrow> (Some (NotFoundError (snd key @ '' not found'')), api_called s)
        | Some held \<Rightarrow> (None, kd_store kd key
            (if om_finalizers (kd_meta kd held) = [] then None
             else if om_deletionTimestamp (kd_meta kd held) \<noteq> None then Some held
             else Some (kd_on_meta kd (\<lambda>om. om\<lparr>om_deletionTimestamp := Some (av_now v (as_calls s))\<rparr>) held)) (api_called s))))"

text \<open>
  Secrets. The string data of a secret that is written is merged into the data that the server holds. The error of a
  creation tells whether the secret already exists.
\<close>

definition secret_create :: "api_server \<Rightarrow> object_key \<Rightarrow> api_secret \<Rightarrow> api_state \<Rightarrow> (bool \<times> go_error) option \<times> api_state" where
  "secret_create v key sec s =
     (case av_refuse v (as_calls s) of Some err \<Rightarrow> (Some (False, err), api_called s)
      | None \<Rightarrow> (case as_secrets s key of
          Some held \<Rightarrow> (Some (True, PlainError (snd key @ '' already exists'')), api_called s)
        | None \<Rightarrow> (None, (api_called s)\<lparr>as_secrets := (as_secrets s)(key \<mapsto> sec)\<rparr>)))"

definition secret_get :: "api_server \<Rightarrow> object_key \<Rightarrow> api_state \<Rightarrow> (go_error + api_secret) \<times> api_state" where
  "secret_get v key s =
     ((case av_refuse v (as_calls s) of Some err \<Rightarrow> Inl err
       | None \<Rightarrow> (case as_secrets s key of None \<Rightarrow> Inl (NotFoundError (snd key @ '' not found'')) | Some sec \<Rightarrow> Inr sec)),
      api_called s)"

definition secret_update :: "api_server \<Rightarrow> object_key \<Rightarrow> (string \<rightharpoonup> string) \<Rightarrow> api_state \<Rightarrow> go_error option \<times> api_state" where
  "secret_update v key stringData s =
     (case av_refuse v (as_calls s) of Some err \<Rightarrow> (Some err, api_called s)
      | None \<Rightarrow> (case as_secrets s key of
          None \<Rightarrow> (Some (NotFoundError (snd key @ '' not found'')), api_called s)
        | Some held \<Rightarrow> (None, (api_called s)\<lparr>as_secrets := (as_secrets s)(key \<mapsto> held\<lparr>sec_data := sec_data held ++ stringData\<rparr>)\<rparr>)))"

text \<open>What a controller sees of the secrets.\<close>

definition secrets_of :: "api_state \<Rightarrow> string \<Rightarrow> string \<Rightarrow> go_error + (string \<rightharpoonup> string)" where
  "secrets_of s namespace name = (case as_secrets s (namespace, name) of
     None \<Rightarrow> Inl (NotFoundError (name @ '' not found'')) | Some sec \<Rightarrow> Inr (sec_data sec))"

section \<open>What the kinds have in common\<close>

lemma api_call_simps [simp]:
  "as_ado (api_called s) = as_ado s" "as_wi (api_called s) = as_wi s" "as_mono (api_called s) = as_mono s"
  "as_secrets (api_called s) = as_secrets s" "as_calls (api_called s) = Suc (as_calls s)"
  by (simp_all add: api_called_def)

lemma secrets_of_api_call [simp]: "secrets_of (api_called s) = secrets_of s"
  by (simp add: secrets_of_def fun_eq_iff)

locale object_kind =
  fixes kd :: "'o api_kind"
  assumes stored_here [simp]: "kd_objects kd (kd_store kd key x s) = (kd_objects kd s)(key := x)"
    and stored_secrets [simp]: "as_secrets (kd_store kd key x s) = as_secrets s"
    and called_objects [simp]: "kd_objects kd (api_called s) = kd_objects kd s"
    and moved [simp]: "kd_meta kd (kd_on_meta kd f y) = f (kd_meta kd y)"
begin

lemma get_found:
  assumes "kube_get kd v key s = (Inr x, t)"
  shows "kd_objects kd s key = Some x \<and> t = api_called s"
  using assms by (auto simp: kube_get_def split: option.splits)

lemma get_keeps: "kube_get kd v key s = (r, t) \<Longrightarrow> t = api_called s"
  by (auto simp: kube_get_def)

lemma update_secrets: "kube_update kd v x s = (r, t) \<Longrightarrow> as_secrets t = as_secrets s"
  by (auto simp: kube_update_def Let_def split: option.splits)

lemma create_secrets: "kube_create kd v x s = (r, t) \<Longrightarrow> as_secrets t = as_secrets s"
  by (auto simp: kube_create_def Let_def split: option.splits)

text \<open>An object is only changed by the writes that name it, and only if they succeed.\<close>

lemma update_objects:
  assumes "kube_update kd v x s = (r, t)"
  shows "kd_objects kd t = (case r of Inl _ \<Rightarrow> kd_objects kd s | Inr y \<Rightarrow> (kd_objects kd s)(object_key_of (kd_meta kd x) \<mapsto> y))"
  using assms by (auto simp: kube_update_def Let_def split: option.splits)

lemma create_objects:
  assumes "kube_create kd v x s = (r, t)"
  shows "kd_objects kd t = (case r of Inl _ \<Rightarrow> kd_objects kd s | Inr y \<Rightarrow> (kd_objects kd s)(object_key_of (kd_meta kd x) \<mapsto> y))"
  using assms by (auto simp: kube_create_def Let_def split: option.splits)

lemma update_admits:
  assumes "kube_update kd v x s = (Inr y, t)"
  shows "\<exists>held. kd_objects kd s (object_key_of (kd_meta kd x)) = Some held \<and> y = kd_admit kd v (as_calls s) (Some held) x"
  using assms by (auto simp: kube_update_def Let_def split: option.splits)

end

interpretation adk: object_kind ado_kind
  by unfold_locales (auto simp: ado_kind_def api_called_def on_meta_def)

interpretation wik: object_kind wi_kind
  by unfold_locales (auto simp: wi_kind_def api_called_def)

interpretation mnk: object_kind mono_kind
  by unfold_locales (auto simp: mono_kind_def api_called_def mono_on_meta_def)

end
