(* ===== verification/ApiHandlers.thy ===== *)
theory ApiHandlers
  imports ApiState
begin

text \<open>
  \<^verbatim>\<open>internal/api/migration_handlers.go\<close> and \<^verbatim>\<open>internal/api/monorepo_handlers.go\<close>: the requests that create, read, change and
  delete migrations, and those that pause, resume, cancel and retry them. A handler turns a request and the cluster
  into an answer and the cluster that it leaves. Decoding a body is a parameter (the decoded value or the error);
  timestamps of error answers are left out. The lists of migrations and the logs are not here.
\<close>

section \<open>Requests and answers\<close>

record api_request =
  rq_id :: string
  rq_namespace :: string

datatype 'b api_body = ErrorBody string | ObjectBody 'b | StatusBody string | NoBody

type_synonym 'b answer = "int \<times> 'b api_body"

definition writeError :: "int \<Rightarrow> string \<Rightarrow> 'b answer" where
  "writeError status message = (status, ErrorBody message)"

definition request_key :: "api_request \<Rightarrow> object_key" where
  "request_key rq = ((if rq_namespace rq = [] then ''default'' else rq_namespace rq), rq_id rq)"

text \<open>
  The beginning of most handlers: fetch the object, answer 500 or 404 if that fails. The two texts are those of the
  two answers.
\<close>

definition with_found :: "'o api_kind \<Rightarrow> api_server \<Rightarrow> string \<Rightarrow> string \<Rightarrow> api_request
    \<Rightarrow> ('o \<Rightarrow> api_state \<Rightarrow> 'b answer \<times> api_state) \<Rightarrow> api_state \<Rightarrow> 'b answer \<times> api_state" where
  "with_found kd v failed missing rq f s = (case kube_get kd v (request_key rq) s of
     (Inl err, s) \<Rightarrow> (if \<not> is_not_found err then writeError 500 (failed @ err_text err) else writeError 404 missing, s)
   | (Inr x, s) \<Rightarrow> f x s)"

definition update_then_answer :: "'o api_kind \<Rightarrow> api_server \<Rightarrow> string \<Rightarrow> ('o \<Rightarrow> 'b answer) \<Rightarrow> 'o \<Rightarrow> api_state \<Rightarrow> 'b answer \<times> api_state" where
  "update_then_answer kd v failed ok x s = (case kube_update kd v x s of
     (Inl err, s) \<Rightarrow> (writeError 500 (failed @ err_text err), s)
   | (Inr y, s) \<Rightarrow> (ok y, s))"

abbreviation found_ado :: "api_server \<Rightarrow> api_request \<Rightarrow> (ado_migration \<Rightarrow> api_state \<Rightarrow> 'b answer \<times> api_state) \<Rightarrow> api_state \<Rightarrow> 'b answer \<times> api_state" where
  "found_ado v \<equiv> with_found ado_kind v ''Failed to get migration: '' ''Migration not found''"

abbreviation found_mono :: "api_server \<Rightarrow> api_request \<Rightarrow> (mono \<Rightarrow> api_state \<Rightarrow> 'b answer \<times> api_state) \<Rightarrow> api_state \<Rightarrow> 'b answer \<times> api_state" where
  "found_mono v \<equiv> with_found mono_kind v ''Failed to get monorepo migration: '' ''MonoRepo migration not found''"

definition set_annotation :: "string \<Rightarrow> string \<Rightarrow> object_meta \<Rightarrow> object_meta" where
  "set_annotation key value om = om\<lparr>om_annotations := (om_annotations om)(key \<mapsto> value)\<rparr>"

definition remove_annotation :: "string \<Rightarrow> object_meta \<Rightarrow> object_meta" where
  "remove_annotation key om = om\<lparr>om_annotations := (om_annotations om)(key := None)\<rparr>"

abbreviation status_word :: "string \<Rightarrow> 'o \<Rightarrow> 'b answer" where
  "status_word word \<equiv> (\<lambda>x. (200, StatusBody word))"

section \<open>Migrations of repositories\<close>

definition handleGetMigration :: "api_server \<Rightarrow> api_request \<Rightarrow> api_state \<Rightarrow> ado_migration answer \<times> api_state" where
  "handleGetMigration v rq = found_ado v rq (\<lambda>m s. ((200, ObjectBody m), s))"

definition handleUpdateMigration :: "api_server \<Rightarrow> api_request \<Rightarrow> go_error + ado_migration \<Rightarrow> api_state \<Rightarrow> ado_migration answer \<times> api_state" where
  "handleUpdateMigration v rq body = found_ado v rq (\<lambda>m s. case body of
     Inl err \<Rightarrow> (writeError 400 (''Invalid request body: '' @ err_text err), s)
   | Inr updateData \<Rightarrow> update_then_answer ado_kind v ''Failed to update migration: '' (\<lambda>m. (200, ObjectBody m))
       (m\<lparr>mg_spec := mg_spec updateData\<rparr>) s)"

definition handleDeleteMigration :: "api_server \<Rightarrow> api_request \<Rightarrow> api_state \<Rightarrow> ado_migration answer \<times> api_state" where
  "handleDeleteMigration v rq = found_ado v rq (\<lambda>m s. case kube_delete ado_kind v m s of
     (Some err, s) \<Rightarrow> (writeError 500 (''Failed to delete migration: '' @ err_text err), s)
   | (None, s) \<Rightarrow> ((204, NoBody), s))"

definition handleGetMigrationProgress :: "api_server \<Rightarrow> api_request \<Rightarrow> api_state
    \<Rightarrow> (migration_progress \<times> resource_migration_status list \<times> migration_phase \<times> migration_statistics option) answer \<times> api_state" where
  "handleGetMigrationProgress v rq = found_ado v rq (\<lambda>m s. let st = mg_status m
     in ((200, ObjectBody (mst_progress st, mst_resourceStatuses st, mst_phase st, mst_statistics st)), s))"

definition handlePauseMigration :: "api_server \<Rightarrow> api_request \<Rightarrow> api_state \<Rightarrow> ado_migration answer \<times> api_state" where
  "handlePauseMigration v rq = found_ado v rq (\<lambda>m s.
     if mst_phase (mg_status m) \<noteq> PhaseRunning then (writeError 400 ''Migration is not in running state'', s)
     else update_then_answer ado_kind v ''Failed to pause migration: '' (status_word ''paused'')
       (on_meta (set_annotation ''migration.ado-to-git-migration.io/pause'' ''true'') m) s)"

definition handleResumeMigration :: "api_server \<Rightarrow> api_request \<Rightarrow> api_state \<Rightarrow> ado_migration answer \<times> api_state" where
  "handleResumeMigration v rq = found_ado v rq (\<lambda>m s.
     if mst_phase (mg_status m) \<noteq> PhasePaused then (writeError 400 ''Migration is not in paused state'', s)
     else update_then_answer ado_kind v ''Failed to resume migration: '' (status_word ''resumed'')
       (on_meta (remove_annotation ''migration.ado-to-git-migration.io/pause'') m) s)"

definition handleCancelMigration :: "api_server \<Rightarrow> api_request \<Rightarrow> api_state \<Rightarrow> ado_migration answer \<times> api_state" where
  "handleCancelMigration v rq = found_ado v rq (\<lambda>m s.
     if mst_phase (mg_status m) = PhaseCompleted \<or> mst_phase (mg_status m) = PhaseFailed \<or> mst_phase (mg_status m) = PhaseCancelled
     then (writeError 400 ''Migration is already in terminal state'', s)
     else update_then_answer ado_kind v ''Failed to cancel migration: '' (status_word ''cancelled'')
       (on_meta (set_annotation ''migration.ado-to-git-migration.io/cancel'' ''true'') m) s)"

definition handleRetryMigration :: "api_server \<Rightarrow> api_request \<Rightarrow> api_state \<Rightarrow> ado_migration answer \<times> api_state" where
  "handleRetryMigration v rq = found_ado v rq (\<lambda>m s.
     if mst_phase (mg_status m) \<noteq> PhaseFailed then (writeError 400 ''Migration is not in failed state'', s)
     else update_then_answer ado_kind v ''Failed to retry migration: '' (status_word ''retrying'')
       (on_meta (set_annotation ''migration.ado-to-git-migration.io/retry'' ''true'') m) s)"

text \<open>The status of a migration of any kind; that of a migration of work items is copied field by field.\<close>

record wi_status_view =
  wsv_phase :: migration_phase
  wsv_conditions :: "condition list"
  wsv_startTime :: "instant option"
  wsv_completionTime :: "instant option"
  wsv_progress :: wi_progress
  wsv_errorMessage :: string
  wsv_warnings :: "string list"
  wsv_statistics :: "wi_statistics option"
  wsv_migratedItems :: "migrated_work_item list"

datatype any_status = AdoStatusBody ado_migration_status | WiStatusBody wi_status_view | MonoStatusBody mono_status

definition wi_view :: "wi_status \<Rightarrow> wi_status_view" where
  "wi_view st = \<lparr>wsv_phase = wms_phase st, wsv_conditions = wms_conditions st, wsv_startTime = wms_startTime st,
     wsv_completionTime = wms_completionTime st, wsv_progress = wms_progress st, wsv_errorMessage = wms_errorMessage st,
     wsv_warnings = wms_warnings st, wsv_statistics = wms_statistics st, wsv_migratedItems = wms_migratedItems st\<rparr>"

definition handleGetMigrationStatus :: "api_server \<Rightarrow> api_request \<Rightarrow> api_state \<Rightarrow> any_status answer \<times> api_state" where
  "handleGetMigrationStatus v rq s = (case kube_get ado_kind v (request_key rq) s of
     (Inr m, s) \<Rightarrow> ((200, ObjectBody (AdoStatusBody (mg_status m))), s)
   | (Inl _, s) \<Rightarrow> (case kube_get wi_kind v (request_key rq) s of
     (Inr m, s) \<Rightarrow> ((200, ObjectBody (WiStatusBody (wi_view (wm_status m)))), s)
   | (Inl _, s) \<Rightarrow> (case kube_get mono_kind v (request_key rq) s of
     (Inr m, s) \<Rightarrow> ((200, ObjectBody (MonoStatusBody (mn_status m))), s)
   | (Inl _, s) \<Rightarrow> (writeError 404 ''Migration not found'', s))))"

section \<open>Migrations into a monorepo\<close>

definition handleGetMonoRepoMigration :: "api_server \<Rightarrow> api_request \<Rightarrow> api_state \<Rightarrow> mono answer \<times> api_state" where
  "handleGetMonoRepoMigration v rq = found_mono v rq (\<lambda>m s. ((200, ObjectBody m), s))"

definition handleUpdateMonoRepoMigration :: "api_server \<Rightarrow> api_request \<Rightarrow> go_error + mono \<Rightarrow> api_state \<Rightarrow> mono answer \<times> api_state" where
  "handleUpdateMonoRepoMigration v rq body = found_mono v rq (\<lambda>m s. case body of
     Inl err \<Rightarrow> (writeError 400 (''Invalid request body: '' @ err_text err), s)
   | Inr updateData \<Rightarrow> update_then_answer mono_kind v ''Failed to update monorepo migration: '' (\<lambda>m. (200, ObjectBody m))
       (m\<lparr>mn_spec := mn_spec updateData\<rparr>) s)"

definition handleDeleteMonoRepoMigration :: "api_server \<Rightarrow> api_request \<Rightarrow> api_state \<Rightarrow> mono answer \<times> api_state" where
  "handleDeleteMonoRepoMigration v rq = found_mono v rq (\<lambda>m s. case kube_delete mono_kind v m s of
     (Some err, s) \<Rightarrow> (writeError 500 (''Failed to delete monorepo migration: '' @ err_text err), s)
   | (None, s) \<Rightarrow> ((204, NoBody), s))"

definition handleGetMonoRepoMigrationStatus :: "api_server \<Rightarrow> api_request \<Rightarrow> api_state \<Rightarrow> mono_status answer \<times> api_state" where
  "handleGetMonoRepoMigrationStatus v rq = found_mono v rq (\<lambda>m s. ((200, ObjectBody (mn_status m)), s))"

definition handleGetMonoRepoMigrationProgress :: "api_server \<Rightarrow> api_request \<Rightarrow> api_state
    \<Rightarrow> (mono_progress \<times> mono_repo_status list \<times> mono_phase \<times> mono_statistics option \<times> string) answer \<times> api_state" where
  "handleGetMonoRepoMigrationProgress v rq = found_mono v rq (\<lambda>m s. let st = mn_status m
     in ((200, ObjectBody (mns_progress st, mns_repoStatuses st, mns_phase st, mns_statistics st, mns_monoRepoURL st)), s))"

definition handlePauseMonoRepoMigration :: "api_server \<Rightarrow> api_request \<Rightarrow> api_state \<Rightarrow> mono answer \<times> api_state" where
  "handlePauseMonoRepoMigration v rq = found_mono v rq
     (\<lambda>m. update_then_answer mono_kind v ''Failed to pause monorepo migration: '' (status_word ''paused'')
       (mono_on_meta (set_annotation ''migration.ado-to-git-migration.io/pause'' ''true'') m))"

definition handleResumeMonoRepoMigration :: "api_server \<Rightarrow> api_request \<Rightarrow> api_state \<Rightarrow> mono answer \<times> api_state" where
  "handleResumeMonoRepoMigration v rq = found_mono v rq
     (\<lambda>m. update_then_answer mono_kind v ''Failed to resume monorepo migration: '' (status_word ''resumed'')
       (mono_on_meta (remove_annotation ''migration.ado-to-git-migration.io/pause'') m))"

definition handleCancelMonoRepoMigration :: "api_server \<Rightarrow> api_request \<Rightarrow> api_state \<Rightarrow> mono answer \<times> api_state" where
  "handleCancelMonoRepoMigration v rq = found_mono v rq
     (\<lambda>m. update_then_answer mono_kind v ''Failed to cancel monorepo migration: '' (status_word ''cancelled'')
       (mono_on_meta (set_annotation ''migration.ado-to-git-migration.io/cancel'' ''true'') m))"

definition handleRetryMonoRepoMigration :: "api_server \<Rightarrow> api_request \<Rightarrow> api_state \<Rightarrow> mono answer \<times> api_state" where
  "handleRetryMonoRepoMigration v rq = found_mono v rq (\<lambda>m s.
     if mns_phase (mn_status m) \<noteq> MonoFailed then (writeError 400 ''MonoRepo migration is not in failed state'', s)
     else update_then_answer mono_kind v ''Failed to retry monorepo migration: '' (status_word ''retrying'')
       (mono_on_meta (set_annotation ''migration.ado-to-git-migration.io/retry'' ''true'') m) s)"

section \<open>Creation\<close>

definition default_namespace :: "object_meta \<Rightarrow> object_meta" where
  "default_namespace om = (if om_namespace om = [] then om\<lparr>om_namespace := ''default''\<rparr> else om)"

definition token_secret :: "object_meta \<Rightarrow> string \<Rightarrow> api_secret" where
  "token_secret om token = \<lparr>sec_labels = [''app.kubernetes.io/managed-by'' \<mapsto> ''ado-migration-api'',
       ''migration.ado-to-git-migration.io/migration'' \<mapsto> om_name om,
       ''migration.ado-to-git-migration.io/type'' \<mapsto> ''github-oauth-token''],
     sec_data = [''token'' \<mapsto> token]\<rparr>"

definition token_secret_name :: "object_meta \<Rightarrow> string" where
  "token_secret_name om = om_name om @ ''-github-token''"

text \<open>
  Store an inline token as a secret. The error tells whether it came from the update of a secret
  that exists already; one from fetching that secret is dropped.
\<close>

definition store_token :: "api_server \<Rightarrow> object_meta \<Rightarrow> string \<Rightarrow> api_state \<Rightarrow> (bool \<times> go_error) option \<times> api_state" where
  "store_token v om token s =
     (let key = (om_namespace om, token_secret_name om); sec = token_secret om token in
      case secret_create v key sec s of
        (None, s) \<Rightarrow> (None, s)
      | (Some (exists, err), s) \<Rightarrow>
          if exists
          then (case secret_get v key s of
              (Inl getErr, s) \<Rightarrow> (None, s)
            | (Inr existing, s) \<Rightarrow> (case secret_update v key (sec_data sec) s of
                (Some err, s) \<Rightarrow> (Some (True, err), s)
              | (None, s) \<Rightarrow> (None, s)))
          else (Some (False, err), s))"

definition by_reference :: "object_meta \<Rightarrow> github_auth_config \<Rightarrow> github_auth_config" where
  "by_reference om auth = auth\<lparr>gh_tokenRef := Some \<lparr>sr_name = token_secret_name om, sr_key = ''token'', sr_namespace = []\<rparr>,
     gh_token := []\<rparr>"

text \<open>Create the object, or store the token of its authentication first if it has one; \<open>finish\<close> replaces the authentication and sets the defaults.\<close>

definition create_with_token :: "'o api_kind \<Rightarrow> api_server \<Rightarrow> (bool \<Rightarrow> string) \<Rightarrow> string \<Rightarrow> github_auth_config
    \<Rightarrow> (github_auth_config \<Rightarrow> 'o) \<Rightarrow> object_meta \<Rightarrow> api_state \<Rightarrow> 'o answer \<times> api_state" where
  "create_with_token kd v secret_failed failed auth finish om s =
     (let create = (\<lambda>auth s. case kube_create kd v (finish auth) s of
        (Inl err, s) \<Rightarrow> (writeError 500 (failed @ err_text err), s)
      | (Inr y, s) \<Rightarrow> ((201, ObjectBody y), s))
      in if gh_token auth \<noteq> []
         then (case store_token v om (gh_token auth) s of
             (Some (updating, err), s) \<Rightarrow> (writeError 500 (secret_failed updating @ err_text err), s)
           | (None, s) \<Rightarrow> create (by_reference om auth) s)
         else create auth s)"

definition token_failed :: "bool \<Rightarrow> string" where
  "token_failed updating = (if updating then ''Failed to update GitHub token secret: '' else ''Failed to create GitHub token secret: '')"

definition if_zero :: "int \<Rightarrow> int \<Rightarrow> int" where
  "if_zero d n = (if n = 0 then d else n)"

definition ado_defaults :: "migration_settings \<Rightarrow> migration_settings" where
  "ado_defaults x = x\<lparr>set_maxHistoryDays := if_zero 730 (set_maxHistoryDays x), set_maxCommitCount := if_zero 2000 (set_maxCommitCount x),
     set_batchSize := if_zero 10 (set_batchSize x), set_retryAttempts := if_zero 3 (set_retryAttempts x),
     set_parallelWorkers := if_zero 5 (set_parallelWorkers x)\<rparr>"

definition createAdoToGitMigration :: "api_server \<Rightarrow> go_error + ado_migration \<Rightarrow> api_state \<Rightarrow> ado_migration answer \<times> api_state" where
  "createAdoToGitMigration v body s = (case body of
     Inl err \<Rightarrow> (writeError 400 (''Invalid AdoToGitMigration body: '' @ err_text err), s)
   | Inr m \<Rightarrow> (let om = default_namespace (mg_meta m); sp = mg_spec m in
       create_with_token ado_kind v token_failed ''Failed to create migration: '' (tgt_auth (ms_target sp))
         (\<lambda>auth. m\<lparr>mg_meta := om, mg_spec := sp\<lparr>ms_target := (ms_target sp)\<lparr>tgt_auth := auth\<rparr>,
            ms_settings := ado_defaults (ms_settings sp)\<rparr>\<rparr>) om s))"

definition wi_defaults :: "wi_settings \<Rightarrow> wi_settings" where
  "wi_defaults x = x\<lparr>wis_batchSize := if_zero 50 (wis_batchSize x), wis_batchDelaySeconds := if_zero 60 (wis_batchDelaySeconds x),
     wis_timeoutMinutes := if_zero 360 (wis_timeoutMinutes x)\<rparr>"

definition createWorkItemMigration :: "api_server \<Rightarrow> go_error + wi_migration \<Rightarrow> api_state \<Rightarrow> wi_migration answer \<times> api_state" where
  "createWorkItemMigration v body s = (case body of
     Inl err \<Rightarrow> (writeError 400 (''Invalid WorkItemMigration body: '' @ err_text err), s)
   | Inr m \<Rightarrow> (let om = default_namespace (wm_meta m); sp = wm_spec m in
       create_with_token wi_kind v token_failed ''Failed to create WorkItemMigration: '' (wtg_auth (wp_target sp))
         (\<lambda>auth. m\<lparr>wm_meta := om, wm_spec := sp\<lparr>wp_target := (wp_target sp)\<lparr>wtg_auth := auth\<rparr>,
            wp_settings := wi_defaults (wp_settings sp)\<rparr>\<rparr>) om s))"

definition mono_defaults :: "mono_target_config \<Rightarrow> mono_target_config" where
  "mono_defaults x = x\<lparr>mtc_defaultBranch := (if mtc_defaultBranch x = [] then ''main'' else mtc_defaultBranch x),
     mtc_visibility := (if mtc_visibility x = [] then ''private'' else mtc_visibility x)\<rparr>"

definition create_mono :: "string \<Rightarrow> string \<Rightarrow> api_server \<Rightarrow> go_error + mono \<Rightarrow> api_state \<Rightarrow> mono answer \<times> api_state" where
  "create_mono invalid failed v body s = (case body of
     Inl err \<Rightarrow> (writeError 400 (invalid @ err_text err), s)
   | Inr m \<Rightarrow> (let om = default_namespace (mn_meta m); sp = mn_spec m in
       create_with_token mono_kind v (\<lambda>updating. ''Failed to create GitHub token secret: '') failed (mtc_auth (mono_target sp))
         (\<lambda>auth. m\<lparr>mn_meta := om, mn_spec := sp\<lparr>mono_target := mono_defaults ((mono_target sp)\<lparr>mtc_auth := auth\<rparr>)\<rparr>\<rparr>) om s))"

definition createMonoRepoMigrationFromRaw :: "api_server \<Rightarrow> go_error + mono \<Rightarrow> api_state \<Rightarrow> mono answer \<times> api_state" where
  "createMonoRepoMigrationFromRaw = create_mono ''Invalid MonoRepoMigration body: '' ''Failed to create MonoRepoMigration: ''"

definition handleCreateMonoRepoMigration :: "api_server \<Rightarrow> go_error + mono \<Rightarrow> api_state \<Rightarrow> mono answer \<times> api_state" where
  "handleCreateMonoRepoMigration = create_mono ''Invalid request body: '' ''Failed to create monorepo migration: ''"

text \<open>The body of a creation: its kind, and what it is as an object of each kind.\<close>

record raw_migration =
  raw_kind :: string
  raw_ado :: "go_error + ado_migration"
  raw_wi :: "go_error + wi_migration"
  raw_mono :: "go_error + mono"

datatype any_migration = AnAdo ado_migration | AWi wi_migration | AMono mono

definition map_body :: "('a \<Rightarrow> 'b) \<Rightarrow> 'a answer \<Rightarrow> 'b answer" where
  "map_body f = map_prod id (map_api_body f)"

definition handleCreateMigration :: "api_server \<Rightarrow> go_error + raw_migration \<Rightarrow> api_state \<Rightarrow> any_migration answer \<times> api_state" where
  "handleCreateMigration v body s = (case body of
     Inl err \<Rightarrow> (writeError 400 (''Invalid request body: '' @ err_text err), s)
   | Inr raw \<Rightarrow>
       if raw_kind raw = ''WorkItemMigration'' then map_prod (map_body AWi) id (createWorkItemMigration v (raw_wi raw) s)
       else if raw_kind raw = ''MonoRepoMigration'' then map_prod (map_body AMono) id (createMonoRepoMigrationFromRaw v (raw_mono raw) s)
       else map_prod (map_body AnAdo) id (createAdoToGitMigration v (raw_ado raw) s))"

end
