(* ===== verification/Predicates.thy ===== *)
theory Predicates
  imports Kube
begin

text \<open>
  \<^verbatim>\<open>internal/controller/predicates.go\<close>: the filters that decide which events of the watched objects lead to
  a reconciliation. The controllers of AdoToGitMigration and of MonoRepoMigration use
  \<^verbatim>\<open>GenerationChangedWithLogging\<close>. The objects are of any type that has metadata.
\<close>

datatype 'o watch_event = EvCreate 'o | EvUpdate 'o 'o | EvDelete 'o | EvGeneric 'o

text \<open>\<open>predicate.Funcs\<close>: a function that is not given lets every event pass.\<close>

record 'o predicate_funcs =
  pf_create :: "('o \<Rightarrow> bool) option"
  pf_update :: "('o \<Rightarrow> 'o \<Rightarrow> bool) option"
  pf_delete :: "('o \<Rightarrow> bool) option"
  pf_generic :: "('o \<Rightarrow> bool) option"

definition no_funcs :: "'o predicate_funcs" where
  "no_funcs = \<lparr>pf_create = None, pf_update = None, pf_delete = None, pf_generic = None\<rparr>"

fun passes :: "'o predicate_funcs \<Rightarrow> 'o watch_event \<Rightarrow> bool" where
  "passes p (EvCreate x) = (case pf_create p of None \<Rightarrow> True | Some f \<Rightarrow> f x)"
| "passes p (EvUpdate x y) = (case pf_update p of None \<Rightarrow> True | Some f \<Rightarrow> f x y)"
| "passes p (EvDelete x) = (case pf_delete p of None \<Rightarrow> True | Some f \<Rightarrow> f x)"
| "passes p (EvGeneric x) = (case pf_generic p of None \<Rightarrow> True | Some f \<Rightarrow> f x)"

definition generation_changed :: "object_meta \<Rightarrow> object_meta \<Rightarrow> bool" where
  "generation_changed old new \<longleftrightarrow> om_generation new \<noteq> om_generation old"

definition IgnoreStatusUpdatePredicate :: "('o \<Rightarrow> object_meta) \<Rightarrow> 'o predicate_funcs" where
  "IgnoreStatusUpdatePredicate meta = \<lparr>pf_create = Some (\<lambda>x. True),
     pf_update = Some (\<lambda>old new. generation_changed (meta old) (meta new)),
     pf_delete = Some (\<lambda>x. True), pf_generic = Some (\<lambda>x. True)\<rparr>"

definition IgnoreDeletePredicate :: "'o predicate_funcs" where
  "IgnoreDeletePredicate = no_funcs\<lparr>pf_delete := Some (\<lambda>x. False)\<rparr>"

definition IgnoreDeletionPredicate :: "('o \<Rightarrow> object_meta) \<Rightarrow> 'o predicate_funcs" where
  "IgnoreDeletionPredicate meta = no_funcs\<lparr>pf_create := Some (\<lambda>x. True),
     pf_update := Some (\<lambda>old new. om_deletionTimestamp (meta new) = None), pf_delete := Some (\<lambda>x. False)\<rparr>"

definition PhaseTransitionPredicate :: "('o \<Rightarrow> object_meta) \<Rightarrow> ('o \<Rightarrow> string) option \<Rightarrow> 'o predicate_funcs" where
  "PhaseTransitionPredicate meta getPhase = \<lparr>pf_create = Some (\<lambda>x. True),
     pf_update = Some (\<lambda>old new.
       if generation_changed (meta old) (meta new) then True
       else if om_deletionTimestamp (meta new) \<noteq> None then True
       else case getPhase of Some phase \<Rightarrow> phase old \<noteq> phase new | None \<Rightarrow> False),
     pf_delete = Some (\<lambda>x. True), pf_generic = Some (\<lambda>x. True)\<rparr>"

definition ResourceVersionChangedPredicate :: "('o \<Rightarrow> object_meta) \<Rightarrow> 'o predicate_funcs" where
  "ResourceVersionChangedPredicate meta = no_funcs\<lparr>pf_update := Some (\<lambda>old new.
     generation_changed (meta old) (meta new) \<or> om_deletionTimestamp (meta new) \<noteq> None)\<rparr>"

definition AnnotationChangedPredicate :: "('o \<Rightarrow> object_meta) \<Rightarrow> string \<Rightarrow> 'o predicate_funcs" where
  "AnnotationChangedPredicate meta annotationKey = \<lparr>pf_create = Some (\<lambda>x. True),
     pf_update = Some (\<lambda>old new.
       if generation_changed (meta old) (meta new) then True
       else om_annotations (meta old) annotationKey \<noteq> om_annotations (meta new) annotationKey),
     pf_delete = Some (\<lambda>x. True), pf_generic = Some (\<lambda>x. True)\<rparr>"

definition NamespacePredicate :: "('o \<Rightarrow> object_meta) \<Rightarrow> string \<Rightarrow> 'o predicate_funcs" where
  "NamespacePredicate meta namespace = (let here = (\<lambda>x. om_namespace (meta x) = namespace)
     in \<lparr>pf_create = Some here, pf_update = Some (\<lambda>old new. here new), pf_delete = Some here, pf_generic = Some here\<rparr>)"

definition AndPredicate :: "'o predicate_funcs list \<Rightarrow> 'o watch_event \<Rightarrow> bool" where
  "AndPredicate ps e \<longleftrightarrow> list_all (\<lambda>p. passes p e) ps"

definition OrPredicate :: "'o predicate_funcs list \<Rightarrow> 'o watch_event \<Rightarrow> bool" where
  "OrPredicate ps e \<longleftrightarrow> list_ex (\<lambda>p. passes p e) ps"

definition GenerationChangedWithLogging :: "('o \<Rightarrow> object_meta) \<Rightarrow> 'o predicate_funcs" where
  "GenerationChangedWithLogging meta = \<lparr>pf_create = Some (\<lambda>x. True),
     pf_update = Some (\<lambda>old new.
       let generationChanged = om_generation (meta old) \<noteq> om_generation (meta new);
           finalizersChanged = length (om_finalizers (meta old)) \<noteq> length (om_finalizers (meta new));
           deletionStarted = (om_deletionTimestamp (meta old) = None \<and> om_deletionTimestamp (meta new) \<noteq> None)
       in generationChanged \<or> finalizersChanged \<or> deletionStarted),
     pf_delete = Some (\<lambda>x. True), pf_generic = Some (\<lambda>x. True)\<rparr>"

text \<open>A change of annotations alone does not pass.\<close>

lemma annotations_filtered:
  assumes "om_generation (meta new) = om_generation (meta old)"
    and "om_finalizers (meta new) = om_finalizers (meta old)"
    and "om_deletionTimestamp (meta new) = om_deletionTimestamp (meta old)"
  shows "\<not> passes (GenerationChangedWithLogging meta) (EvUpdate old new)"
  using assms by (auto simp: GenerationChangedWithLogging_def)

end
