(* ===== verification/ApiProperties.thy ===== *)
theory ApiProperties
  imports ApiHandlers Predicates AdoProperties MonoProperties
begin

text \<open>
  What the requests of the HTTP API lead to: the API and the controllers together. The API
  changes objects and secrets; a controller reads them in its next reconciliation, if there is one.
\<close>

section \<open>What the API server owes\<close>

text \<open>
  An update takes the specification and the annotations that are sent, keeps the status, the names and the mark of
  deletion, and increments the generation exactly if the specification changes. A creation stores what is sent under its name.
\<close>

definition meta_admitted :: "bool \<Rightarrow> object_meta \<Rightarrow> object_meta \<Rightarrow> object_meta \<Rightarrow> bool" where
  "meta_admitted same held sent om \<longleftrightarrow> om_name om = om_name held \<and> om_namespace om = om_namespace held
     \<and> om_finalizers om = om_finalizers sent \<and> om_annotations om = om_annotations sent
     \<and> om_deletionTimestamp om = om_deletionTimestamp held
     \<and> om_generation om = om_generation held + (if same then 0 else 1)"

definition api_contract :: "api_server \<Rightarrow> bool" where
  "api_contract v \<longleftrightarrow>
     (\<forall>n held x. let y = av_ado v n (Some held) x in mg_status y = mg_status held \<and> mg_spec y = mg_spec x
        \<and> meta_admitted (mg_spec x = mg_spec held) (mg_meta held) (mg_meta x) (mg_meta y))
     \<and> (\<forall>n held x. let y = av_mono v n (Some held) x in mn_status y = mn_status held \<and> mn_spec y = mn_spec x
        \<and> meta_admitted (mn_spec x = mn_spec held) (mn_meta held) (mn_meta x) (mn_meta y))
     \<and> (\<forall>n x. let y = av_ado v n None x in mg_spec y = mg_spec x \<and> object_key_of (mg_meta y) = object_key_of (mg_meta x))"

lemma annotation_meta [simp]:
  "om_finalizers (set_annotation key value om) = om_finalizers om"
  "om_deletionTimestamp (set_annotation key value om) = om_deletionTimestamp om"
  "om_generation (set_annotation key value om) = om_generation om"
  "om_annotations (set_annotation key value om) = (om_annotations om)(key \<mapsto> value)"
  "object_key_of (set_annotation key value om) = object_key_of om"
  "om_finalizers (remove_annotation key om) = om_finalizers om"
  "om_deletionTimestamp (remove_annotation key om) = om_deletionTimestamp om"
  "om_generation (remove_annotation key om) = om_generation om"
  "om_annotations (remove_annotation key om) = (om_annotations om)(key := None)"
  "object_key_of (remove_annotation key om) = object_key_of om"
  by (simp_all add: set_annotation_def remove_annotation_def object_key_of_def)

text \<open>A request that is answered with success changed exactly the annotations of the object that it names.\<close>

context object_kind
begin

lemma annotated:
  assumes "with_found kd v failed missing rq (\<lambda>x s. if P x then (writeError 400 m, s)
      else update_then_answer kd v f2 (status_word w) (kd_on_meta kd g x) s) s = ((200, b), t)"
    and "kd_objects kd s (request_key rq) = Some x" and "object_key_of (g (kd_meta kd x)) = request_key rq"
  shows "\<not> P x \<and> b = StatusBody w
    \<and> kd_objects kd t = (kd_objects kd s)(request_key rq \<mapsto> kd_admit kd v (Suc (as_calls s)) (Some x) (kd_on_meta kd g x))"
  using assms
  by (auto simp: with_found_def writeError_def update_then_answer_def kube_get_def kube_update_def Let_def
      split: sum.splits option.splits if_splits prod.splits)

end

lemmas ado_handlers = handlePauseMigration_def handleResumeMigration_def handleCancelMigration_def handleRetryMigration_def

lemma ado_kind_simps [simp]:
  "kd_objects ado_kind = as_ado" "kd_meta ado_kind = mg_meta" "kd_on_meta ado_kind = on_meta" "kd_admit ado_kind = av_ado"
  by (simp_all add: ado_kind_def)

lemma mono_kind_simps [simp]:
  "kd_objects mono_kind = as_mono" "kd_meta mono_kind = mn_meta" "kd_on_meta mono_kind = mono_on_meta" "kd_admit mono_kind = av_mono"
  by (simp_all add: mono_kind_def)

text \<open>The object that an accepted change of annotations leaves.\<close>

lemma ado_admitted:
  assumes "api_contract v"
  shows "let y = av_ado v n (Some m) (on_meta g m) in mg_status y = mg_status m \<and> mg_spec y = mg_spec m
    \<and> meta_admitted True (mg_meta m) (g (mg_meta m)) (mg_meta y)"
proof -
  have "let y = av_ado v n (Some m) (on_meta g m) in mg_status y = mg_status m \<and> mg_spec y = mg_spec (on_meta g m)
      \<and> meta_admitted (mg_spec (on_meta g m) = mg_spec m) (mg_meta m) (mg_meta (on_meta g m)) (mg_meta y)"
    using assms unfolding api_contract_def by blast
  then show ?thesis by (simp add: on_meta_def)
qed

lemma mono_admitted:
  assumes "api_contract v"
  shows "let y = av_mono v n (Some m) (mono_on_meta g m) in mn_status y = mn_status m \<and> mn_spec y = mn_spec m
    \<and> meta_admitted True (mn_meta m) (g (mn_meta m)) (mn_meta y)"
proof -
  have "let y = av_mono v n (Some m) (mono_on_meta g m) in mn_status y = mn_status m \<and> mn_spec y = mn_spec (mono_on_meta g m)
      \<and> meta_admitted (mn_spec (mono_on_meta g m) = mn_spec m) (mn_meta m) (mn_meta (mono_on_meta g m)) (mn_meta y)"
    using assms unfolding api_contract_def by blast
  then show ?thesis by (simp add: mono_on_meta_def)
qed

section \<open>Pausing and cancelling\<close>

lemma cancel_takes_over:
  assumes "settled m" and "om_annotations (mg_meta m) reconcileTriggerAnnotation = None"
    and "om_annotations (mg_meta m) pauseAnnotation = None" and "om_annotations (mg_meta m) cancelAnnotation = Some x"
    and "\<not> terminal_phase (phase_of m)" and "\<And>n x. k_status k n x = None"
  shows "phase_of (ado_step k m) = PhaseCancelled"
proof -
  have "phase_of m \<noteq> PhaseCancelled" using assms(5) by (auto simp: terminal_phase_def)
  then have "phase_of (stored (snd (reconcile_active k s))) = PhaseCancelled" if "obj s = m" "stored s = m" for s
    using assms(1-4,6) that
    by (simp add: reconcile_active_def Let_def settled_finalizer handleAnnotations_def cancelMigration_def read_clock_def
        update_then_simps)
  then show ?thesis using assms(5) by (simp add: ado_step_def reconcile_ado_def)
qed

text \<open>The object that is left when a request for an annotation is answered with success.\<close>

lemma ado_annotated:
  assumes "found_ado v rq (\<lambda>x s. if P x then (writeError 400 e, s)
      else update_then_answer ado_kind v f (status_word w) (on_meta g x) s) s = ((200, b), t)"
    and "api_contract v" and "as_ado s (request_key rq) = Some m" and "object_key_of (g (mg_meta m)) = request_key rq"
  shows "\<exists>y. \<not> P m \<and> b = StatusBody w \<and> as_ado t (request_key rq) = Some y \<and> mg_status y = mg_status m \<and> mg_spec y = mg_spec m
    \<and> meta_admitted True (mg_meta m) (g (mg_meta m)) (mg_meta y)"
proof -
  note * = adk.annotated [where g = g, unfolded ado_kind_simps, OF assms(1,3,4)]
  from * ado_admitted [OF assms(2)] show ?thesis by (auto simp: Let_def)
qed

lemma mono_annotated:
  assumes "found_mono v rq (\<lambda>x s. if P x then (writeError 400 e, s)
      else update_then_answer mono_kind v f (status_word w) (mono_on_meta g x) s) s = ((200, b), t)"
    and "api_contract v" and "as_mono s (request_key rq) = Some m" and "object_key_of (g (mn_meta m)) = request_key rq"
  shows "\<exists>y. \<not> P m \<and> b = StatusBody w \<and> as_mono t (request_key rq) = Some y \<and> mn_status y = mn_status m \<and> mn_spec y = mn_spec m
    \<and> meta_admitted True (mn_meta m) (g (mn_meta m)) (mn_meta y)"
proof -
  note * = mnk.annotated [where g = g, unfolded mono_kind_simps, OF assms(1,3,4)]
  from * mono_admitted [OF assms(2)] show ?thesis by (auto simp: Let_def)
qed

text \<open>
  C38. What becomes of a migration that the API says it paused or cancelled. The migration has its
  finalizer, is not being deleted and has no trigger annotation; it is reconciled next as the API left it, with
  an accepted status write. One that the API answered to have paused is then Paused. One that the API
  answered to have cancelled is then Cancelled if it has no pause annotation, but Paused if it
  has one: after a pause over the API a cancellation over the API is without effect, because the
  controller looks at the pause annotation first and the cancellation does not remove it.
\<close>

theorem api_pause_and_cancel:
  assumes "api_contract v" and "as_ado s (request_key rq) = Some m" and "object_key_of (mg_meta m) = request_key rq"
    and "settled m" and "om_annotations (mg_meta m) reconcileTriggerAnnotation = None"
    and "\<And>n x. k_status k n x = None"
  shows "(handlePauseMigration v rq s = ((200, b), t) \<longrightarrow>
      (\<exists>y. b = StatusBody ''paused'' \<and> as_ado t (request_key rq) = Some y \<and> phase_of (ado_step k y) = PhasePaused))
    \<and> (handleCancelMigration v rq s = ((200, b), t) \<longrightarrow>
      (\<exists>y. b = StatusBody ''cancelled'' \<and> as_ado t (request_key rq) = Some y
        \<and> phase_of (ado_step k y) = (if om_annotations (mg_meta m) pauseAnnotation = None then PhaseCancelled else PhasePaused)))"
proof (intro conjI impI)
  assume "handlePauseMigration v rq s = ((200, b), t)"
  then obtain y where y: "phase_of m = PhaseRunning" "b = StatusBody ''paused''" "as_ado t (request_key rq) = Some y"
      "mg_status y = mg_status m" "meta_admitted True (mg_meta m) (set_annotation pauseAnnotation ''true'' (mg_meta m)) (mg_meta y)"
    unfolding handlePauseMigration_def
    using ado_annotated [OF _ assms(1,2)] assms(3) by (fastforce simp: pauseAnnotation_def)
  have "phase_of (ado_step k y) = PhasePaused"
    using pause_takes_over [of y "''true''" k] y assms(4-6)
    by (auto simp: meta_admitted_def settled_def terminal_phase_def)
  with y show "\<exists>y. b = StatusBody ''paused'' \<and> as_ado t (request_key rq) = Some y \<and> phase_of (ado_step k y) = PhasePaused"
    by blast
next
  assume "handleCancelMigration v rq s = ((200, b), t)"
  then obtain y where y: "\<not> terminal_phase (phase_of m)" "b = StatusBody ''cancelled''" "as_ado t (request_key rq) = Some y"
      "mg_status y = mg_status m" "meta_admitted True (mg_meta m) (set_annotation cancelAnnotation ''true'' (mg_meta m)) (mg_meta y)"
    unfolding handleCancelMigration_def
    using ado_annotated [OF _ assms(1,2)] assms(3) by (fastforce simp: cancelAnnotation_def terminal_phase_def)
  let ?result = "if om_annotations (mg_meta m) pauseAnnotation = None then PhaseCancelled else PhasePaused"
  have "phase_of (ado_step k y) = ?result"
  proof (cases "om_annotations (mg_meta m) pauseAnnotation")
    case None
    then show ?thesis using cancel_takes_over [of y "''true''" k] y assms(4-6)
      by (auto simp: meta_admitted_def settled_def)
  next
    case (Some x)
    then show ?thesis using pause_takes_over [of y x k] y assms(4-6)
      by (auto simp: meta_admitted_def settled_def)
  qed
  with y show "\<exists>y. b = StatusBody ''cancelled'' \<and> as_ado t (request_key rq) = Some y \<and> phase_of (ado_step k y) = ?result"
    by blast
qed

section \<open>Resuming and retrying\<close>

lemma failed_at_rest:
  assumes "settled m" and "phase_of m = PhaseFailed" and "\<not> spec_changed m"
    and "\<forall>key \<in> {reconcileTriggerAnnotation, pauseAnnotation, cancelAnnotation}. om_annotations (mg_meta m) key = None"
  shows "ado_step k m = m \<and> fst (reconcile_ado k (fetched m)) = Some (no_requeue, None)"
  using assms
  by (simp add: ado_step_def reconcile_ado_def reconcile_active_def Let_def settled_finalizer handleAnnotations_def
      ado_processPhase_def)

text \<open>
  C4. Asking the API to resume or to retry a migration does nothing. A migration that it says it resumed keeps
  its status for ever unless it is cancelled, and one that it says it retries is left alone: the change of its
  annotation is not an event that leads to a reconciliation, and a reconciliation would not look at it.
\<close>

theorem api_resume_and_retry_are_lost:
  assumes "api_contract v" and "as_ado s (request_key rq) = Some m" and "object_key_of (mg_meta m) = request_key rq"
  shows "(handleResumeMigration v rq s = ((200, b), t) \<longrightarrow>
      (\<exists>y. b = StatusBody ''resumed'' \<and> as_ado t (request_key rq) = Some y
        \<and> (\<forall>es. (\<forall>e \<in> set es. honest_event e)
              \<and> (\<forall>n < length es. om_annotations (mg_meta (ado_life (take n es) y)) cancelAnnotation = None)
            \<longrightarrow> mg_status (ado_life es y) = mg_status m)))
    \<and> (handleRetryMigration v rq s = ((200, b), t) \<longrightarrow>
      (\<exists>y. b = StatusBody ''retrying'' \<and> as_ado t (request_key rq) = Some y
        \<and> \<not> passes (GenerationChangedWithLogging mg_meta) (EvUpdate m y)
        \<and> (settled m \<and> \<not> spec_changed m
            \<and> (\<forall>key \<in> {reconcileTriggerAnnotation, pauseAnnotation, cancelAnnotation}. om_annotations (mg_meta m) key = None)
          \<longrightarrow> ado_step k y = y)))"
proof (intro conjI impI)
  assume "handleResumeMigration v rq s = ((200, b), t)"
  then obtain y where y: "phase_of m = PhasePaused" "b = StatusBody ''resumed''" "as_ado t (request_key rq) = Some y"
      "mg_status y = mg_status m"
    unfolding handleResumeMigration_def using ado_annotated [OF _ assms(1,2)] assms(3) by fastforce
  then show "\<exists>y. b = StatusBody ''resumed'' \<and> as_ado t (request_key rq) = Some y
      \<and> (\<forall>es. (\<forall>e \<in> set es. honest_event e)
              \<and> (\<forall>n < length es. om_annotations (mg_meta (ado_life (take n es) y)) cancelAnnotation = None)
            \<longrightarrow> mg_status (ado_life es y) = mg_status m)"
    using paused_life [of y] by metis
next
  assume "handleRetryMigration v rq s = ((200, b), t)"
  then obtain y where y: "phase_of m = PhaseFailed" "b = StatusBody ''retrying''" "as_ado t (request_key rq) = Some y"
      "mg_status y = mg_status m" "mg_spec y = mg_spec m"
      and meta: "meta_admitted True (mg_meta m) (set_annotation ''migration.ado-to-git-migration.io/retry'' ''true'' (mg_meta m)) (mg_meta y)"
    unfolding handleRetryMigration_def using ado_annotated [OF _ assms(1,2)] assms(3) by fastforce
  have filtered: "\<not> passes (GenerationChangedWithLogging mg_meta) (EvUpdate m y)"
    by (rule annotations_filtered) (use meta in \<open>simp_all add: meta_admitted_def\<close>)
  have "''migration.ado-to-git-migration.io/retry'' \<notin> {reconcileTriggerAnnotation, pauseAnnotation, cancelAnnotation}"
    by code_simp
  then have "ado_step k y = y" if "settled m" "\<not> spec_changed m"
      "\<forall>key \<in> {reconcileTriggerAnnotation, pauseAnnotation, cancelAnnotation}. om_annotations (mg_meta m) key = None"
    using failed_at_rest [of y k] that y meta by (auto simp: settled_def meta_admitted_def spec_changed_def)
  with filtered y show "\<exists>y. b = StatusBody ''retrying'' \<and> as_ado t (request_key rq) = Some y
        \<and> \<not> passes (GenerationChangedWithLogging mg_meta) (EvUpdate m y)
        \<and> (settled m \<and> \<not> spec_changed m
            \<and> (\<forall>key \<in> {reconcileTriggerAnnotation, pauseAnnotation, cancelAnnotation}. om_annotations (mg_meta m) key = None)
          \<longrightarrow> ado_step k y = y)"
    by (intro exI [of _ y] conjI impI) simp_all
qed

text \<open>
  C5. A failed migration into a monorepo that the API says it retries is not retried: its last reconciliation
  did not ask to be called again, and the annotation that the API sets is not an event that leads to another one. A
  reconciliation would start it again.
\<close>

theorem mono_retry_is_lost:
  assumes "api_contract v" and "as_mono s (request_key rq) = Some (mw_object w)"
    and "object_key_of (mn_meta (mw_object w)) = request_key rq"
    and "monoRepoFinalizerName \<in> set (om_finalizers (mn_meta (mw_object w)))"
    and "om_deletionTimestamp (mn_meta (mw_object w)) = None" and "om_annotations (mn_meta (mw_object w)) = Map.empty"
    and "\<And>n old x. k_update k n old x = Inr (x\<lparr>mn_status := mn_status old\<rparr>)" and "\<And>n x. k_status k n x = None"
    and "handleRetryMonoRepoMigration v rq s = ((200, b), t)"
  shows "b = StatusBody ''retrying'' \<and> fst (reconcile_mono k (mono_fetched w)) = (no_requeue, None)
    \<and> (\<exists>y. as_mono t (request_key rq) = Some y
        \<and> \<not> passes (GenerationChangedWithLogging mn_meta) (EvUpdate (mw_object w) y)
        \<and> mphase (mw_object (mono_event_step (MonoReconciled k) (w\<lparr>mw_object := y\<rparr>))) = MonoPending)"
proof -
  let ?m = "mw_object w"
  obtain y where y: "mphase ?m = MonoFailed" "b = StatusBody ''retrying''" "as_mono t (request_key rq) = Some y" "mn_status y = mn_status ?m"
      and meta: "meta_admitted True (mn_meta ?m) (set_annotation monoRepoRetryAnnotation ''true'' (mn_meta ?m)) (mn_meta y)"
    using assms(9) unfolding handleRetryMonoRepoMigration_def
    using mono_annotated [OF _ assms(1,2)] assms(3) by (fastforce simp: monoRepoRetryAnnotation_def)
  have filtered: "\<not> passes (GenerationChangedWithLogging mn_meta) (EvUpdate ?m y)"
    by (rule annotations_filtered) (use meta in \<open>simp_all add: meta_admitted_def\<close>)
  have rest: "fst (reconcile_mono k (mono_fetched w)) = (no_requeue, None)"
    using assms(4-6) y(1) by (simp add: reconcile_mono_def mono_handleAnnotations_def mono_processPhase_def Let_def)
  have names: "monoRepoRetryAnnotation \<noteq> monoRepoReconcileTriggerAnnotation"
      "monoRepoRetryAnnotation \<noteq> monoRepoPauseAnnotation" "monoRepoRetryAnnotation \<noteq> monoRepoCancelAnnotation"
    by code_simp+
  have returned: "(case returned r of (None, s) \<Rightarrow> g s | (Some x, s) \<Rightarrow> (x, s)) = r" for r :: "outcome \<times> mono_state" and g
    by (cases r) simp
  have "mphase (stored (snd (reconcile_mono k (mono_fetched (w\<lparr>mw_object := y\<rparr>))))) = MonoPending"
    using assms(4-8) y meta names names [symmetric]
    by (simp add: reconcile_mono_def mono_handleAnnotations_def Let_def meta_admitted_def object_update_def
        mono_drop_annotation_def mono_on_meta_def retryMigration_def returned on_mono_def)
  with y filtered rest show ?thesis by simp
qed

section \<open>Tokens\<close>

definition never_refuses :: "api_server \<Rightarrow> bool" where
  "never_refuses v \<longleftrightarrow> (\<forall>n. av_refuse v n = None)"

text \<open>A token that is stored is what the controllers read, whether or not the secret was there before.\<close>

lemma store_token_stores:
  assumes "never_refuses v"
  shows "\<exists>t entries. store_token v om token s = (None, t) \<and> as_ado t = as_ado s \<and> as_wi t = as_wi s
    \<and> secrets_of t (om_namespace om) (token_secret_name om) = Inr entries \<and> entries ''token'' = Some token"
  using assms
  by (cases "as_secrets s (om_namespace om, token_secret_name om)")
    (auto simp: store_token_def never_refuses_def secret_create_def secret_get_def secret_update_def secrets_of_def
      token_secret_def Let_def)

text \<open>What the controller takes for the token of a migration that refers to such a secret.\<close>

lemma token_by_reference:
  assumes "tgt_auth (ms_target (mg_spec y)) = by_reference om auth" and "gh_appAuth auth = None"
    and "om_namespace (mg_meta y) = om_namespace om" and "k_secret k = secrets_of t"
    and "secrets_of t (om_namespace om) (token_secret_name om) = Inr entries" and "entries ''token'' = Some token"
  shows "getGitHubTokenUnified k y c = Inr token"
  using assms
  by (simp add: getGitHubTokenUnified_def ado_getGitHubToken_def by_reference_def in_namespace_def secret_key_def Let_def)

lemma secrets_of_eq: "as_secrets t = as_secrets s \<Longrightarrow> secrets_of t = secrets_of s"
  by (simp add: secrets_of_def fun_eq_iff)

text \<open>
  C6. A token that is given inline when a migration is created through the API is the token that the
  controller works with: the API moves it into a secret and the migration refers to that secret.
\<close>

theorem api_token_reaches_controller:
  fixes m :: ado_migration
  defines "om \<equiv> default_namespace (mg_meta m)" and "auth \<equiv> tgt_auth (ms_target (mg_spec m))"
  assumes "api_contract v" and "never_refuses v"
    and "raw_kind raw \<notin> {''WorkItemMigration'', ''MonoRepoMigration''}" and "raw_ado raw = Inr m"
    and "gh_token auth \<noteq> []" and "gh_appAuth auth = None" and "as_ado s (object_key_of om) = None"
    and "handleCreateMigration v (Inr raw) s = (answer, t)" and "k_secret k = secrets_of t"
  shows "\<exists>y. answer = (201, ObjectBody (AnAdo y)) \<and> as_ado t (object_key_of om) = Some y
    \<and> gh_token (tgt_auth (ms_target (mg_spec y))) = [] \<and> getGitHubTokenUnified k y c = Inr (gh_token auth)"
proof -
  obtain s1 entries where s1: "store_token v om (gh_token auth) s = (None, s1)" "as_ado s1 = as_ado s"
      "secrets_of s1 (om_namespace om) (token_secret_name om) = Inr entries" "entries ''token'' = Some (gh_token auth)"
    using store_token_stores [OF assms(4)] by blast
  let ?x = "m\<lparr>mg_meta := om, mg_spec := (mg_spec m)\<lparr>ms_target := (ms_target (mg_spec m))\<lparr>tgt_auth := by_reference om auth\<rparr>,
            ms_settings := ado_defaults (ms_settings (mg_spec m))\<rparr>\<rparr>"
  obtain r u where c: "kube_create ado_kind v ?x s1 = (r, u)" by fastforce
  let ?y = "av_ado v (as_calls s1) None ?x"
  have r: "r = Inr ?y" using c assms(4,9) s1(2) by (auto simp: kube_create_def Let_def never_refuses_def)
  have y: "mg_spec ?y = mg_spec ?x" "object_key_of (mg_meta ?y) = object_key_of om"
    using assms(3) by (simp_all add: api_contract_def Let_def)
  have u: "as_ado u (object_key_of om) = Some ?y" "secrets_of u = secrets_of s1"
    using adk.create_objects [OF c] adk.create_secrets [OF c] r by (auto intro: secrets_of_eq)
  have t: "answer = (201, ObjectBody (AnAdo ?y))" "t = u"
    using assms(5-7,10) s1(1) c r
    by (auto simp: handleCreateMigration_def createAdoToGitMigration_def create_with_token_def map_body_def Let_def
        om_def [symmetric] auth_def [symmetric])
  have "getGitHubTokenUnified k ?y c = Inr (gh_token auth)"
    by (rule token_by_reference [where om = om and auth = auth and t = s1 and entries = entries])
      (use y s1 u t assms(8,11) in \<open>auto simp: object_key_of_def\<close>)
  with t u y show ?thesis by (auto simp: by_reference_def)
qed

text \<open>
  C7. Asking for a migration under a name that is taken is refused, and still replaces the token of the
  migration that has the name.
\<close>

theorem refused_creation_replaces_token:
  fixes m :: ado_migration
  defines "om \<equiv> default_namespace (mg_meta m)" and "auth \<equiv> tgt_auth (ms_target (mg_spec m))"
  assumes "never_refuses v" and "gh_token auth \<noteq> []" and "as_ado s (object_key_of om) = Some held"
    and "tgt_auth (ms_target (mg_spec held)) = by_reference om auth'" and "gh_appAuth auth' = None"
    and "object_key_of (mg_meta held) = object_key_of om"
    and "createAdoToGitMigration v (Inr m) s = (answer, t)" and "k_secret k = secrets_of t"
  shows "fst answer = 500 \<and> as_ado t = as_ado s \<and> getGitHubTokenUnified k held c = Inr (gh_token auth)"
proof -
  obtain s1 entries where s1: "store_token v om (gh_token auth) s = (None, s1)" "as_ado s1 = as_ado s"
      "secrets_of s1 (om_namespace om) (token_secret_name om) = Inr entries" "entries ''token'' = Some (gh_token auth)"
    using store_token_stores [OF assms(3)] by blast
  have "fst answer = 500 \<and> t = api_called s1"
    using assms(3-5,9) s1(1,2)
    by (auto simp: createAdoToGitMigration_def create_with_token_def kube_create_def writeError_def Let_def never_refuses_def
        om_def [symmetric] auth_def [symmetric])
  moreover have "getGitHubTokenUnified k held c = Inr (gh_token auth)" if "t = api_called s1"
    by (rule token_by_reference [where om = om and auth = auth' and t = s1 and entries = entries])
      (use s1 assms(6-8,10) that in \<open>auto simp: object_key_of_def\<close>)
  ultimately show ?thesis using s1(2) by simp
qed

section \<open>A small cluster\<close>

definition admit_meta :: "bool \<Rightarrow> object_meta \<Rightarrow> object_meta \<Rightarrow> object_meta" where
  "admit_meta same held sent = sent\<lparr>om_name := om_name held, om_namespace := om_namespace held,
     om_deletionTimestamp := om_deletionTimestamp held, om_generation := om_generation held + (if same then 0 else 1)\<rparr>"

definition sample_api_server :: api_server where
  "sample_api_server = \<lparr>av_refuse = (\<lambda>n. None),
     av_ado = (\<lambda>n held x. case held of None \<Rightarrow> x
       | Some h \<Rightarrow> x\<lparr>mg_status := mg_status h, mg_meta := admit_meta (mg_spec x = mg_spec h) (mg_meta h) (mg_meta x)\<rparr>),
     av_wi = (\<lambda>n held x. x),
     av_mono = (\<lambda>n held x. case held of None \<Rightarrow> x
       | Some h \<Rightarrow> x\<lparr>mn_status := mn_status h, mn_meta := admit_meta (mn_spec x = mn_spec h) (mn_meta h) (mn_meta x)\<rparr>),
     av_now = (\<lambda>n. 0)\<rparr>"

lemma sample_api_server_ok [simp]: "api_contract sample_api_server" "never_refuses sample_api_server"
  by (simp_all add: api_contract_def never_refuses_def sample_api_server_def meta_admitted_def admit_meta_def Let_def)

definition sample_ado_object :: "migration_phase \<Rightarrow> ado_migration" where
  "sample_ado_object ph = (on_status (\<lambda>st. st\<lparr>mst_phase := ph\<rparr>) zero_migration)
     \<lparr>mg_meta := zero_meta\<lparr>om_name := ''m'', om_namespace := ''default'', om_finalizers := [finalizerName]\<rparr>\<rparr>"

definition sample_api :: "migration_phase \<Rightarrow> api_state" where
  "sample_api ph = \<lparr>as_ado = [(''default'', ''m'') \<mapsto> sample_ado_object ph], as_wi = Map.empty,
     as_mono = [(''ns'', ''m'') \<mapsto> mw_object (sample_world MonoFailed MrFailed)], as_secrets = Map.empty, as_calls = 0\<rparr>"

abbreviation "sample_request_m \<equiv> \<lparr>rq_id = ''m'', rq_namespace = []\<rparr>"

lemma sample_object_simps [simp]:
  "mg_meta (sample_ado_object ph) = zero_meta\<lparr>om_name := ''m'', om_namespace := ''default'', om_finalizers := [finalizerName]\<rparr>"
  "phase_of (sample_ado_object ph) = ph" "settled (sample_ado_object ph)"
  "as_ado (sample_api ph) (request_key sample_request_m) = Some (sample_ado_object ph)"
  "request_key sample_request_m = (''default'', ''m'')"
  "as_ado (sample_api ph) (''default'', ''m'') = Some (sample_ado_object ph)"
  "object_key_of (zero_meta\<lparr>om_name := ''m'', om_namespace := ''default'', om_finalizers := [finalizerName]\<rparr>) = (''default'', ''m'')"
  "\<not> spec_changed (sample_ado_object ph)"
  "om_annotations zero_meta = Map.empty"
  by (simp_all add: sample_ado_object_def sample_api_def settled_def zero_meta_def request_key_def object_key_of_def
      spec_changed_def zero_migration_def zero_migration_status_def)

lemma sample_status_ok: "k_status sample_ado n x = None"
  by (simp add: sample_ado_def)

lemma sample_answers:
  "fst (handlePauseMigration sample_api_server sample_request_m (sample_api PhaseRunning)) = (200, StatusBody ''paused'')"
  "fst (handleCancelMigration sample_api_server sample_request_m (sample_api PhaseRunning)) = (200, StatusBody ''cancelled'')"
  "fst (handleResumeMigration sample_api_server sample_request_m (sample_api PhasePaused)) = (200, StatusBody ''resumed'')"
  "fst (handleRetryMigration sample_api_server sample_request_m (sample_api PhaseFailed)) = (200, StatusBody ''retrying'')"
  by (simp_all add: ado_handlers with_found_def kube_get_def kube_update_def update_then_answer_def Let_def
      sample_api_server_def sample_api_def sample_ado_object_def on_meta_def set_annotation_def remove_annotation_def
      request_key_def object_key_of_def zero_meta_def)

theorem api_pause_and_cancel_witness:
  "\<exists>y. as_ado (snd (handlePauseMigration sample_api_server sample_request_m (sample_api PhaseRunning))) (''default'', ''m'') = Some y
    \<and> phase_of (ado_step sample_ado y) = PhasePaused"
  using api_pause_and_cancel [of sample_api_server "sample_api PhaseRunning" sample_request_m "sample_ado_object PhaseRunning"
      sample_ado "StatusBody ''paused''" "snd (handlePauseMigration sample_api_server sample_request_m (sample_api PhaseRunning))",
      OF _ _ _ _ _ sample_status_ok]
    sample_answers(1)
  by (auto simp: prod_eq_iff)

theorem api_resume_and_retry_are_lost_witness:
  "\<exists>y. as_ado (snd (handleRetryMigration sample_api_server sample_request_m (sample_api PhaseFailed))) (''default'', ''m'') = Some y
    \<and> ado_step sample_ado y = y"
  using api_resume_and_retry_are_lost [of sample_api_server "sample_api PhaseFailed" sample_request_m "sample_ado_object PhaseFailed"
      "StatusBody ''retrying''" "snd (handleRetryMigration sample_api_server sample_request_m (sample_api PhaseFailed))" sample_ado]
    sample_answers(4)
  by (auto simp: prod_eq_iff)

lemma sample_mono_answer:
  "fst (handleRetryMonoRepoMigration sample_api_server \<lparr>rq_id = ''m'', rq_namespace = ''ns''\<rparr> (sample_api ph)) = (200, StatusBody ''retrying'')"
  "as_mono (sample_api ph) (request_key \<lparr>rq_id = ''m'', rq_namespace = ''ns''\<rparr>) = Some (mw_object (sample_world MonoFailed MrFailed))"
  by (simp_all add: handleRetryMonoRepoMigration_def with_found_def kube_get_def kube_update_def update_then_answer_def Let_def
      sample_api_server_def sample_api_def sample_world_def sample_mono_meta_def mono_on_meta_def set_annotation_def
      request_key_def object_key_of_def)

theorem mono_retry_is_lost_witness:
  "\<exists>y. as_mono (snd (handleRetryMonoRepoMigration sample_api_server \<lparr>rq_id = ''m'', rq_namespace = ''ns''\<rparr> (sample_api PhaseFailed)))
      (''ns'', ''m'') = Some y
    \<and> \<not> passes (GenerationChangedWithLogging mn_meta) (EvUpdate (mw_object (sample_world MonoFailed MrFailed)) y)"
proof -
  let ?rq = "\<lparr>rq_id = ''m'', rq_namespace = ''ns''\<rparr>" and ?w = "sample_world MonoFailed MrFailed"
  have "handleRetryMonoRepoMigration sample_api_server ?rq (sample_api PhaseFailed)
      = ((200, StatusBody ''retrying''), snd (handleRetryMonoRepoMigration sample_api_server ?rq (sample_api PhaseFailed)))"
    using sample_mono_answer(1) by (simp add: prod_eq_iff)
  from mono_retry_is_lost [where w = ?w and k = sample_mono_env, OF _ sample_mono_answer(2) _ _ _ _ _ _ this]
  show ?thesis
    by (auto simp: sample_world_def sample_mono_meta_def object_key_of_def request_key_def sample_mono_env_def)
qed

definition sample_new_migration :: ado_migration where
  "sample_new_migration = with_auth inline_token (zero_migration\<lparr>mg_meta := zero_meta\<lparr>om_name := ''n''\<rparr>\<rparr>)"

definition sample_raw :: raw_migration where
  "sample_raw = \<lparr>raw_kind = ''AdoToGitMigration'', raw_ado = Inr sample_new_migration, raw_wi = Inl (PlainError []), raw_mono = Inl (PlainError [])\<rparr>"

lemma sample_new_simps [simp]:
  "tgt_auth (ms_target (mg_spec sample_new_migration)) = inline_token" "gh_token inline_token = ''gho_x''" "gh_appAuth inline_token = None"
  "object_key_of (default_namespace (mg_meta sample_new_migration)) = (''default'', ''n'')"
  by (simp_all add: sample_new_migration_def with_auth_def inline_token_def object_key_of_def default_namespace_def zero_meta_def)

theorem api_token_reaches_controller_witness:
  "\<exists>y t. handleCreateMigration sample_api_server (Inr sample_raw) (sample_api PhaseRunning) = ((201, ObjectBody (AnAdo y)), t)
    \<and> getGitHubTokenUnified (sample_ado\<lparr>k_secret := secrets_of t\<rparr>) y (fetched zero_migration) = Inr ''gho_x''"
proof -
  obtain a t where h: "handleCreateMigration sample_api_server (Inr sample_raw) (sample_api PhaseRunning) = (a, t)" by fastforce
  have "\<exists>y. a = (201, ObjectBody (AnAdo y)) \<and> as_ado t (object_key_of (default_namespace (mg_meta sample_new_migration))) = Some y
      \<and> gh_token (tgt_auth (ms_target (mg_spec y))) = []
      \<and> getGitHubTokenUnified (sample_ado\<lparr>k_secret := secrets_of t\<rparr>) y (fetched zero_migration) = Inr (gh_token (tgt_auth (ms_target (mg_spec sample_new_migration))))"
    by (rule api_token_reaches_controller [OF _ _ _ _ _ _ _ h])
      (simp_all add: sample_raw_def sample_api_def)
  with h show ?thesis by auto
qed

definition sample_taken :: api_state where
  "sample_taken = (sample_api PhaseRunning)\<lparr>as_ado := [(''default'', ''n'') \<mapsto>
     with_auth (by_reference (default_namespace (mg_meta sample_new_migration)) inline_token)
       (zero_migration\<lparr>mg_meta := default_namespace (mg_meta sample_new_migration)\<rparr>)]\<rparr>"

theorem refused_creation_replaces_token_witness:
  "\<exists>answer t held. createAdoToGitMigration sample_api_server (Inr sample_new_migration) sample_taken = (answer, t) \<and> fst answer = 500
    \<and> as_ado t (''default'', ''n'') = Some held
    \<and> getGitHubTokenUnified (sample_ado\<lparr>k_secret := secrets_of t\<rparr>) held (fetched zero_migration) = Inr ''gho_x''"
proof -
  let ?om = "default_namespace (mg_meta sample_new_migration)"
  let ?held = "with_auth (by_reference ?om inline_token) (zero_migration\<lparr>mg_meta := ?om\<rparr>)"
  obtain a t where h: "createAdoToGitMigration sample_api_server (Inr sample_new_migration) sample_taken = (a, t)" by fastforce
  have held: "as_ado sample_taken (''default'', ''n'') = Some ?held" by (simp add: sample_taken_def)
  have "fst a = 500 \<and> as_ado t = as_ado sample_taken
      \<and> getGitHubTokenUnified (sample_ado\<lparr>k_secret := secrets_of t\<rparr>) ?held (fetched zero_migration) = Inr (gh_token (tgt_auth (ms_target (mg_spec sample_new_migration))))"
    by (rule refused_creation_replaces_token [OF _ _ _ _ _ _ h, where auth' = inline_token])
      (simp_all add: held with_auth_def)
  with h held show ?thesis by auto
qed

end
