(* ===== verification/MigrationCache.thy ===== *)
theory MigrationCache
  imports Kube "HOL-Library.AList"
begin

text \<open>
  \<^verbatim>\<open>internal/cache/migration_cache.go\<close>: the cache of migrations that the operator keeps in memory, with a bound on its
  size, a time that completed migrations are kept, and a goroutine that removes expired ones.

  The map of entries is an association list with distinct keys. Go visits a map in any order; where the order can
  matter it is an argument \<open>visit\<close> that permutes the entries. An entry is a value here: the pointers that the
  cache gives out are only read by its callers.
\<close>

section \<open>Entries\<close>

record cache_entry =
  ce_migrationID :: string
  ce_name :: string
  ce_namespace :: string
  ce_workspacePath :: string
  ce_phase :: string
  ce_startTime :: instant
  ce_completionTime :: "instant option"
  ce_clonePath :: string
  ce_sizeMB :: rat
  ce_cleanedUp :: bool
  ce_metadata :: "string \<rightharpoonup> string"

type_synonym cache_entries = "(string \<times> cache_entry) list"

record migration_cache =
  mc_entries :: cache_entries
  mc_retentionDuration :: duration
  mc_maxEntries :: int
  mc_cleanupInterval :: duration
  mc_running :: bool
  mc_stopped :: bool \<comment> \<open>the stop channel is closed\<close>

definition NewMigrationCache :: "int \<Rightarrow> int \<Rightarrow> int \<Rightarrow> migration_cache" where
  "NewMigrationCache retentionHours maxEntries cleanupIntervalMinutes = \<lparr>mc_entries = [],
     mc_retentionDuration = wrap64 (retentionHours * hour), mc_maxEntries = maxEntries,
     mc_cleanupInterval = wrap64 (cleanupIntervalMinutes * minute), mc_running = False, mc_stopped = False\<rparr>"

section \<open>Reading and changing\<close>

definition cache_Get :: "string \<Rightarrow> migration_cache \<Rightarrow> cache_entry option" where
  "cache_Get migrationID c = map_of (mc_entries c) migrationID"

definition cache_Delete :: "string \<Rightarrow> migration_cache \<Rightarrow> migration_cache" where
  "cache_Delete migrationID c = c\<lparr>mc_entries := AList.delete migrationID (mc_entries c)\<rparr>"

definition cache_List :: "(cache_entries \<Rightarrow> cache_entries) \<Rightarrow> migration_cache \<Rightarrow> cache_entry list" where
  "cache_List visit c = map snd (visit (mc_entries c))"

definition MarkCompleted :: "instant \<Rightarrow> string \<Rightarrow> string \<Rightarrow> migration_cache \<Rightarrow> migration_cache" where
  "MarkCompleted now migrationID phase c = c\<lparr>mc_entries :=
     AList.map_entry migrationID (\<lambda>e. e\<lparr>ce_completionTime := Some now, ce_phase := phase\<rparr>) (mc_entries c)\<rparr>"

definition MarkCleanedUp :: "string \<Rightarrow> migration_cache \<Rightarrow> migration_cache" where
  "MarkCleanedUp migrationID c = c\<lparr>mc_entries := AList.map_entry migrationID (\<lambda>e. e\<lparr>ce_cleanedUp := True\<rparr>) (mc_entries c)\<rparr>"

definition GetPendingCleanup :: "(cache_entries \<Rightarrow> cache_entries) \<Rightarrow> migration_cache \<Rightarrow> cache_entry list" where
  "GetPendingCleanup visit c = filter (\<lambda>e. ce_completionTime e \<noteq> None \<and> \<not> ce_cleanedUp e) (cache_List visit c)"

section \<open>Eviction\<close>

text \<open>The entry that is the oldest so far and its time; \<open>time\<close> tells which time counts.\<close>

definition older :: "(cache_entry \<Rightarrow> instant option) \<Rightarrow> string \<times> cache_entry \<Rightarrow> string \<times> instant option \<Rightarrow> string \<times> instant option" where
  "older time x best = (case time (snd x) of None \<Rightarrow> best
     | Some t \<Rightarrow> (if snd best = None \<or> t < the (snd best) then (fst x, Some t) else best))"

definition evictOldest :: "(cache_entries \<Rightarrow> cache_entries) \<Rightarrow> migration_cache \<Rightarrow> migration_cache" where
  "evictOldest visit c =
     (case fold (older ce_completionTime) (visit (mc_entries c)) ([], None) of (oldestID, oldestTime) \<Rightarrow>
        if oldestID \<noteq> [] then cache_Delete oldestID c
        else (case fold (older (Some \<circ> ce_startTime)) (visit (mc_entries c)) (oldestID, oldestTime) of (oldestID, oldestTime) \<Rightarrow>
           if oldestID \<noteq> [] then cache_Delete oldestID c else c))"

definition cache_Set :: "(cache_entries \<Rightarrow> cache_entries) \<Rightarrow> cache_entry \<Rightarrow> migration_cache \<Rightarrow> migration_cache" where
  "cache_Set visit entry c =
     (let c = (if int (length (mc_entries c)) \<ge> mc_maxEntries c \<and> cache_Get (ce_migrationID entry) c = None
               then evictOldest visit c else c)
      in c\<lparr>mc_entries := AList.update (ce_migrationID entry) entry (mc_entries c)\<rparr>)"

section \<open>Expiry\<close>

definition entry_expired :: "instant \<Rightarrow> duration \<Rightarrow> cache_entry \<Rightarrow> bool" where
  "entry_expired now retention e = (case ce_completionTime e of None \<Rightarrow> False | Some t \<Rightarrow> now > t + retention)"

definition cache_cleanup :: "instant \<Rightarrow> migration_cache \<Rightarrow> migration_cache" where
  "cache_cleanup now c = c\<lparr>mc_entries := filter (\<lambda>(migrationID, e). \<not> entry_expired now (mc_retentionDuration c) e) (mc_entries c)\<rparr>"

text \<open>
  Starting and stopping the goroutine. It is \<open>None\<close> if the program panics: the stop channel is closed a
  second time. A goroutine that is started while the channel is closed returns at once.
\<close>

definition cache_Start :: "migration_cache \<Rightarrow> migration_cache" where
  "cache_Start c = (if mc_running c then c else c\<lparr>mc_running := True\<rparr>)"

definition cache_Stop :: "migration_cache \<Rightarrow> migration_cache option" where
  "cache_Stop c = (if \<not> mc_running c then Some c
     else if mc_stopped c then None else Some (c\<lparr>mc_stopped := True, mc_running := False\<rparr>))"

definition cleanupLoop :: "instant \<Rightarrow> migration_cache \<Rightarrow> migration_cache" where
  "cleanupLoop now c = (if mc_running c \<and> \<not> mc_stopped c then cache_cleanup now c else c)"

section \<open>Statistics\<close>

record cache_stats =
  mcs_totalEntries :: int
  mcs_running :: int
  mcs_completed :: int
  mcs_pendingCleanup :: int
  mcs_maxEntries :: int

definition count_entry :: "string \<times> cache_entry \<Rightarrow> cache_stats \<Rightarrow> cache_stats" where
  "count_entry x st = (let e = snd x in
     if ce_completionTime e = None then st\<lparr>mcs_running := mcs_running st + 1\<rparr>
     else let st = st\<lparr>mcs_completed := mcs_completed st + 1\<rparr>
       in if \<not> ce_cleanedUp e then st\<lparr>mcs_pendingCleanup := mcs_pendingCleanup st + 1\<rparr> else st)"

definition cache_Stats :: "migration_cache \<Rightarrow> cache_stats" where
  "cache_Stats c = fold count_entry (mc_entries c) \<lparr>mcs_totalEntries = int (length (mc_entries c)), mcs_running = 0,
     mcs_completed = 0, mcs_pendingCleanup = 0, mcs_maxEntries = mc_maxEntries c\<rparr>"

section \<open>Eviction picks the oldest\<close>

definition picked :: "(cache_entry \<Rightarrow> instant option) \<Rightarrow> (string \<times> cache_entry) list \<Rightarrow> string \<times> instant option
    \<Rightarrow> string \<times> instant option \<Rightarrow> bool" where
  "picked time xs best r \<longleftrightarrow> (case snd r of
     None \<Rightarrow> r = best \<and> (\<forall>x \<in> set xs. time (snd x) = None)
   | Some w \<Rightarrow> (\<forall>x \<in> set xs. \<forall>u. time (snd x) = Some u \<longrightarrow> w \<le> u) \<and> (\<forall>v. snd best = Some v \<longrightarrow> w \<le> v)
       \<and> (r = best \<or> (\<exists>x \<in> set xs. fst x = fst r \<and> time (snd x) = Some w)))"

lemma older_cases:
  "older time x best = best \<and> (\<forall>u. time (snd x) = Some u \<longrightarrow> (\<exists>v. snd best = Some v \<and> v \<le> u))
   \<or> (\<exists>u. time (snd x) = Some u \<and> older time x best = (fst x, Some u) \<and> (\<forall>v. snd best = Some v \<longrightarrow> u < v))"
  by (cases "snd best") (auto simp: older_def split: option.splits)

lemma older_picks: "picked time xs best (fold (older time) xs best)"
proof (induction xs arbitrary: best)
  case (Cons x xs)
  let ?b = "older time x best"
  have IH: "picked time xs ?b (fold (older time) xs ?b)" by (rule Cons.IH)
  from older_cases [of time x best] show ?case
  proof
    assume same: "older time x best = best \<and> (\<forall>u. time (snd x) = Some u \<longrightarrow> (\<exists>v. snd best = Some v \<and> v \<le> u))"
    show ?thesis
    proof (cases "snd (fold (older time) xs best)")
      case None
      with IH same show ?thesis by (cases "time (snd x)") (auto simp: picked_def)
    next
      case (Some w)
      have "w \<le> u" if "time (snd x) = Some u" for u
        using same that IH Some by (fastforce simp: picked_def)
      with IH same Some show ?thesis by (auto simp: picked_def)
    qed
  next
    assume "\<exists>u. time (snd x) = Some u \<and> older time x best = (fst x, Some u) \<and> (\<forall>v. snd best = Some v \<longrightarrow> u < v)"
    then obtain u where u: "time (snd x) = Some u" "?b = (fst x, Some u)" "\<forall>v. snd best = Some v \<longrightarrow> u < v" by blast
    obtain w where w: "snd (fold (older time) xs ?b) = Some w"
      using IH u(2) by (cases "snd (fold (older time) xs ?b)") (auto simp: picked_def)
    have le: "w \<le> u" using IH w u(2) by (auto simp: picked_def)
    have "w \<le> v" if "snd best = Some v" for v using le u(3) that by force
    with IH u w le show ?thesis by (auto simp: picked_def)
  qed
qed (auto simp: picked_def split: option.splits)

text \<open>The contract of \<open>visit\<close>, and what every cache that is used as intended looks like.\<close>

definition permutes :: "(cache_entries \<Rightarrow> cache_entries) \<Rightarrow> bool" where
  "permutes visit \<longleftrightarrow> (\<forall>xs. set (visit xs) = set xs)"

definition cache_ok :: "migration_cache \<Rightarrow> bool" where
  "cache_ok c \<longleftrightarrow> distinct (map fst (mc_entries c)) \<and> int (length (mc_entries c)) \<le> max 1 (mc_maxEntries c)
     \<and> (\<forall>(k, e) \<in> set (mc_entries c). k = ce_migrationID e \<and> k \<noteq> [])"

text \<open>With completed entries the victim is the one that was completed first, otherwise the one that was started first.\<close>

lemma evict_victim:
  assumes p: "permutes visit" and ok: "cache_ok c" and ne: "mc_entries c \<noteq> []"
  shows "\<exists>(k, e) \<in> set (mc_entries c). evictOldest visit c = cache_Delete k c
    \<and> (if \<exists>(j, d) \<in> set (mc_entries c). ce_completionTime d \<noteq> None
       then \<exists>w. ce_completionTime e = Some w \<and> (\<forall>(j, d) \<in> set (mc_entries c). \<forall>u. ce_completionTime d = Some u \<longrightarrow> w \<le> u)
       else \<forall>(j, d) \<in> set (mc_entries c). ce_startTime e \<le> ce_startTime d)"
proof -
  have vs: "set (visit (mc_entries c)) = set (mc_entries c)" using p by (simp add: permutes_def)
  obtain k t where f: "fold (older ce_completionTime) (visit (mc_entries c)) ([], None) = (k, t)" by fastforce
  have pk: "picked ce_completionTime (visit (mc_entries c)) ([], None) (k, t)" using older_picks [of ce_completionTime _ "([], None)"] f by metis
  from pk consider
      (none) "k = []" "t = None" "\<forall>x \<in> set (mc_entries c). ce_completionTime (snd x) = None"
    | (found) x w where "x \<in> set (mc_entries c)" "fst x = k" "ce_completionTime (snd x) = Some w"
        "\<forall>y \<in> set (mc_entries c). \<forall>u. ce_completionTime (snd y) = Some u \<longrightarrow> w \<le> u"
    by (cases t) (auto simp: vs picked_def)
  then show ?thesis
  proof cases
    case none
    obtain j u where g: "fold (older (Some \<circ> ce_startTime)) (visit (mc_entries c)) (k, t) = (j, u)" by fastforce
    have pj: "picked (Some \<circ> ce_startTime) (visit (mc_entries c)) (k, t) (j, u)"
      using older_picks [of "Some \<circ> ce_startTime" _ "(k, t)"] g by metis
    obtain zk ze where z: "(zk, ze) \<in> set (mc_entries c)" using ne by (cases "mc_entries c") auto
    from pj none(2) z obtain x where
        x: "x \<in> set (mc_entries c)" "fst x = j" "\<forall>y \<in> set (mc_entries c). ce_startTime (snd x) \<le> ce_startTime (snd y)"
      by (cases u) (auto simp: vs picked_def)
    have "j \<noteq> []" using ok x by (auto simp: cache_ok_def)
    then have "evictOldest visit c = cache_Delete j c" using f g none(1) by (simp add: evictOldest_def)
    with x none(3) show ?thesis by (intro bexI [of _ x]) (auto simp: case_prod_beta)
  next
    case found
    have "k \<noteq> []" using ok found by (auto simp: cache_ok_def)
    then have "evictOldest visit c = cache_Delete k c" using f by (simp add: evictOldest_def)
    with found show ?thesis by (intro bexI [of _ x]) (auto simp: case_prod_beta)
  qed
qed

section \<open>The life of a cache\<close>

datatype cache_op =
    OpSet "cache_entries \<Rightarrow> cache_entries" cache_entry
  | OpDelete string
  | OpCompleted instant string string
  | OpCleanedUp string
  | OpStart
  | OpTick instant

fun cache_step :: "cache_op \<Rightarrow> migration_cache \<Rightarrow> migration_cache" where
  "cache_step (OpSet visit e) c = cache_Set visit e c"
| "cache_step (OpDelete k) c = cache_Delete k c"
| "cache_step (OpCompleted now k phase) c = MarkCompleted now k phase c"
| "cache_step (OpCleanedUp k) c = MarkCleanedUp k c"
| "cache_step OpStart c = cache_Start c"
| "cache_step (OpTick now) c = cleanupLoop now c"

fun cache_op_ok :: "cache_op \<Rightarrow> bool" where
  "cache_op_ok (OpSet visit e) \<longleftrightarrow> permutes visit \<and> ce_migrationID e \<noteq> []"
| "cache_op_ok _ \<longleftrightarrow> True"

lemma delete_entries: "set (AList.delete k xs) \<subseteq> set xs" "length (AList.delete k xs) \<le> length xs"
  by (auto simp: AList.delete_eq)

lemma cache_ok_shrink:
  assumes "cache_ok c" and "set (mc_entries d) \<subseteq> set (mc_entries c)" and "length (mc_entries d) \<le> length (mc_entries c)"
    and "distinct (map fst (mc_entries d))" and "mc_maxEntries d = mc_maxEntries c"
  shows "cache_ok d"
  using assms by (auto simp: cache_ok_def)

lemma cache_ok_delete: "cache_ok c \<Longrightarrow> cache_ok (cache_Delete k c)"
  by (rule cache_ok_shrink) (auto simp: cache_Delete_def delete_entries cache_ok_def distinct_delete dest: subsetD [OF delete_entries(1)])

lemma cache_ok_map_entry:
  assumes "cache_ok c" and "\<And>e. ce_migrationID (f e) = ce_migrationID e"
  shows "cache_ok (c\<lparr>mc_entries := AList.map_entry k f (mc_entries c)\<rparr>)"
proof -
  have "map fst (AList.map_entry k f xs) = map fst xs" for xs :: cache_entries by (induction xs) auto
  moreover have "length (AList.map_entry k f xs) = length xs" for xs :: cache_entries by (induction xs) auto
  moreover have "(j, e) \<in> set (AList.map_entry k f xs) \<Longrightarrow> \<exists>d. (j, d) \<in> set xs \<and> ce_migrationID e = ce_migrationID d"
    for j e and xs :: cache_entries by (induction xs) (auto simp: assms(2) split: if_splits)
  ultimately show ?thesis using assms(1) by (fastforce simp: cache_ok_def)
qed

lemma cache_ok_cleanup: "cache_ok c \<Longrightarrow> cache_ok (cache_cleanup now c)"
  by (rule cache_ok_shrink) (auto simp: cache_cleanup_def cache_ok_def intro: distinct_map_filter length_filter_le)

lemma evict_room:
  assumes "permutes visit" and "cache_ok c" and "mc_entries c \<noteq> []"
  shows "cache_ok (evictOldest visit c) \<and> mc_maxEntries (evictOldest visit c) = mc_maxEntries c
    \<and> length (mc_entries (evictOldest visit c)) < length (mc_entries c)"
proof -
  obtain k e where k: "(k, e) \<in> set (mc_entries c)" "evictOldest visit c = cache_Delete k c"
    using evict_victim [OF assms] by blast
  have "length (AList.delete k xs) < length xs" if "(k, e) \<in> set xs" for xs :: cache_entries
    using that by (force simp: AList.delete_eq intro!: length_filter_less)
  with k cache_ok_delete [OF assms(2), of k] show ?thesis by (simp add: cache_Delete_def)
qed

lemma cache_ok_set:
  assumes p: "permutes visit" and ok: "cache_ok c" and id: "ce_migrationID e \<noteq> []"
  shows "cache_ok (cache_Set visit e c)"
proof -
  let ?full = "int (length (mc_entries c)) \<ge> mc_maxEntries c \<and> cache_Get (ce_migrationID e) c = None"
  let ?d = "if ?full then evictOldest visit c else c"
  have empty: "evictOldest visit c = c" if "mc_entries c = []"
  proof -
    have "set (visit []) = {}" using p by (simp add: permutes_def)
    with that show ?thesis by (simp add: evictOldest_def)
  qed
  have d: "cache_ok ?d" "mc_maxEntries ?d = mc_maxEntries c"
    using evict_room [OF p ok] ok empty by (cases "mc_entries c = []"; auto)+
  have room: "cache_Get (ce_migrationID e) ?d \<noteq> None \<or> int (length (mc_entries ?d)) + 1 \<le> max 1 (mc_maxEntries c)"
    using evict_room [OF p ok] empty ok by (cases "mc_entries c = []") (auto simp: cache_ok_def)
  have len: "length (AList.update k v xs) = (if map_of xs k = None then Suc (length xs) else length xs)" for k v and xs :: cache_entries
    by (induction xs) auto
  have mem: "(j, x) \<in> set (AList.update k v xs) \<Longrightarrow> (j, x) = (k, v) \<or> (j, x) \<in> set xs" for j x k v and xs :: cache_entries
    by (induction xs) (auto split: if_splits)
  show ?thesis
    using d room id
    by (auto simp: cache_ok_def cache_Set_def Let_def len cache_Get_def distinct_update dest!: mem)
qed

lemma cache_step_ok: "cache_ok c \<Longrightarrow> cache_op_ok op \<Longrightarrow> cache_ok (cache_step op c) \<and> mc_maxEntries (cache_step op c) = mc_maxEntries c"
proof (cases op)
  case (OpSet visit e)
  assume "cache_ok c" "cache_op_ok op"
  moreover have "mc_maxEntries (cache_Set visit e c) = mc_maxEntries c"
    by (simp add: cache_Set_def evictOldest_def cache_Delete_def Let_def split: prod.split)
  ultimately show ?thesis using OpSet cache_ok_set by simp
qed (auto simp: cache_ok_delete MarkCompleted_def MarkCleanedUp_def cleanupLoop_def cache_ok_cleanup cache_Start_def
    cache_Delete_def cache_cleanup_def intro!: cache_ok_map_entry cache_ok_delete [unfolded cache_Delete_def]
    cache_ok_cleanup [unfolded cache_cleanup_def], auto simp: cache_ok_def)

text \<open>
  C8. The cache never outgrows its bound, whatever is set, deleted, completed, cleaned up or expired
  in any order and however the map is visited (a bound below one counts as one): no key
  occurs twice, every entry is found under its own identifier, and the statistics count every entry once.
\<close>

theorem cache_bounded:
  fixes ops :: "cache_op list" and retention bound interval :: int
  defines "c \<equiv> fold cache_step ops (NewMigrationCache retention bound interval)"
  assumes "\<forall>op \<in> set ops. cache_op_ok op"
  shows "int (length (mc_entries c)) \<le> max 1 bound \<and> distinct (map fst (mc_entries c))
    \<and> (\<forall>(k, e) \<in> set (mc_entries c). ce_migrationID e = k \<and> cache_Get k c = Some e)
    \<and> mcs_running (cache_Stats c) + mcs_completed (cache_Stats c) = int (length (mc_entries c))"
proof -
  have "cache_ok (fold cache_step ops d) \<and> mc_maxEntries (fold cache_step ops d) = mc_maxEntries d" if "cache_ok d" for d
    using assms(2) that by (induction ops arbitrary: d) (auto simp: cache_step_ok)
  moreover have "cache_ok (NewMigrationCache retention bound interval)" "mc_maxEntries (NewMigrationCache retention bound interval) = bound"
    by (simp_all add: cache_ok_def NewMigrationCache_def)
  ultimately have c: "cache_ok c" "mc_maxEntries c = bound" by (simp_all add: c_def)
  have "mcs_running (fold count_entry xs st) + mcs_completed (fold count_entry xs st)
      = mcs_running st + mcs_completed st + int (length xs)" for xs st
    by (induction xs arbitrary: st) (auto simp: count_entry_def Let_def)
  then have "mcs_running (cache_Stats c) + mcs_completed (cache_Stats c) = int (length (mc_entries c))"
    by (simp add: cache_Stats_def)
  with c show ?thesis by (auto simp: cache_ok_def cache_Get_def)
qed

text \<open>
  C39. The cache does not forget a running migration while it has room or has a completed one to give up: neither the
  entry of another migration nor expiry removes it; and what was set last is found.
\<close>

theorem running_evicted_last:
  assumes "permutes visit" and "cache_ok c" and "cache_Get j c = Some d" and "ce_completionTime d = None"
    and "(\<exists>(k, x) \<in> set (mc_entries c). ce_completionTime x \<noteq> None) \<or> int (length (mc_entries c)) < mc_maxEntries c"
  shows "cache_Get j (cache_Set visit e c) = Some (if j = ce_migrationID e then e else d)
    \<and> cache_Get (ce_migrationID e) (cache_Set visit e c) = Some e \<and> cache_Get j (cache_cleanup now c) = Some d"
proof (intro conjI)
  have "cache_Get j (evictOldest visit c) = Some d" if full: "\<not> int (length (mc_entries c)) < mc_maxEntries c"
  proof -
    have "mc_entries c \<noteq> []" using assms(3) by (auto simp: cache_Get_def)
    with evict_victim [OF assms(1,2)] assms(5) full obtain k x w
      where k: "(k, x) \<in> set (mc_entries c)" "evictOldest visit c = cache_Delete k c" "ce_completionTime x = Some w"
      by (auto split: if_splits)
    have "map_of (mc_entries c) k = Some x" using k(1) assms(2) by (simp add: cache_ok_def)
    then have "k \<noteq> j" using assms(3,4) k(3) by (auto simp: cache_Get_def)
    with assms(3) k(2) show ?thesis by (simp add: cache_Get_def cache_Delete_def delete_conv)
  qed
  then show "cache_Get j (cache_Set visit e c) = Some (if j = ce_migrationID e then e else d)"
    using assms(3) by (auto simp: cache_Set_def cache_Get_def Let_def update_conv not_le)
  show "cache_Get (ce_migrationID e) (cache_Set visit e c) = Some e"
    by (simp add: cache_Set_def cache_Get_def Let_def update_conv)
  have "map_of xs j = Some d \<Longrightarrow> map_of (filter (\<lambda>(k, e). \<not> entry_expired now r e) xs) j = Some d" for r xs
    using assms(4) by (induction xs) (auto simp: entry_expired_def split: if_splits)
  then show "cache_Get j (cache_cleanup now c) = Some d"
    using assms(3) by (simp add: cache_Get_def cache_cleanup_def)
qed

text \<open>
  A cache that was stopped cannot be used again: started once more it expires nothing, and stopping it again panics.
\<close>

lemma stopped_cache:
  assumes "mc_running c" and "\<not> mc_stopped c"
  shows "\<exists>d. cache_Stop c = Some d \<and> cleanupLoop now (cache_Start d) = cache_Start d \<and> cache_Stop (cache_Start d) = None"
  using assms by (simp add: cache_Stop_def cache_Start_def cleanupLoop_def)

definition sample_entry :: "string \<Rightarrow> instant \<Rightarrow> instant option \<Rightarrow> cache_entry" where
  "sample_entry k start completion = \<lparr>ce_migrationID = k, ce_name = k, ce_namespace = ''ns'', ce_workspacePath = [], ce_phase = ''Running'',
     ce_startTime = start, ce_completionTime = completion, ce_clonePath = [], ce_sizeMB = 0, ce_cleanedUp = False, ce_metadata = Map.empty\<rparr>"

lemma permutes_rev [simp]: "permutes rev"
  by (simp add: permutes_def)

theorem cache_bounded_witness:
  "int (length (mc_entries (fold cache_step [OpSet rev (sample_entry ''a'' 1 None), OpCompleted 5 ''a'' ''Completed'',
     OpSet rev (sample_entry ''b'' 2 None), OpSet rev (sample_entry ''c'' 3 None)] (NewMigrationCache 48 2 30)))) \<le> 2"
  using cache_bounded [of "[OpSet rev (sample_entry ''a'' 1 None), OpCompleted 5 ''a'' ''Completed'',
     OpSet rev (sample_entry ''b'' 2 None), OpSet rev (sample_entry ''c'' 3 None)]" 48 2 30]
  by (auto simp: sample_entry_def)

definition sample_cache :: migration_cache where
  "sample_cache = (NewMigrationCache 48 2 30)\<lparr>mc_entries := [(''a'', sample_entry ''a'' 1 (Some 5)), (''b'', sample_entry ''b'' 0 None)]\<rparr>"

theorem running_evicted_last_witness:
  "cache_Get ''b'' (cache_Set rev (sample_entry ''c'' 3 None) sample_cache) = Some (sample_entry ''b'' 0 None)"
  using running_evicted_last [of rev sample_cache "''b''" "sample_entry ''b'' 0 None" "sample_entry ''c'' 3 None"]
  by (simp add: sample_cache_def sample_entry_def cache_ok_def cache_Get_def NewMigrationCache_def)

end
