(* ===== verification/Statistics.thy ===== *)
theory Statistics
  imports ApiHandlers PipelineTypes
begin

text \<open>
  \<^verbatim>\<open>internal/api/statistics_handlers.go\<close>: the statistics that the API computes from the stored objects. An object
  comes with the time of its creation; listing objects, the clock, \<^verbatim>\<open>time.ParseDuration\<close>, floating point (see Errors) and the
  text of a percentage are parameters. A map of counters starts with the keys that the source gives.
\<close>

section \<open>The outside\<close>

record stats_env =
  se_ado :: "string \<Rightarrow> go_error + (instant \<times> ado_migration) list" \<comment> \<open>all namespaces if the text is empty\<close>
  se_wi :: "string \<Rightarrow> go_error + wi_migration list"
  se_pw :: "string \<Rightarrow> go_error + (instant \<times> pipeline_conversion) list"
  se_now :: instant
  se_parse :: "string \<Rightarrow> go_error + duration"
  se_rnd :: "rat \<Rightarrow> rat"
  se_percent :: "rat \<Rightarrow> string"
  se_today :: string

definition parseTimeRange :: "stats_env \<Rightarrow> string \<Rightarrow> go_error + duration" where
  "parseTimeRange e timeRange =
     (if timeRange = ''1h'' then Inr hour
      else if timeRange = ''24h'' then Inr (24 * hour)
      else if timeRange = ''7d'' then Inr (7 * 24 * hour)
      else if timeRange = ''30d'' then Inr (30 * 24 * hour)
      else if timeRange = ''all'' then Inr (365 * 24 * hour)
      else se_parse e timeRange)"

definition bump :: "string \<Rightarrow> int \<Rightarrow> (string \<rightharpoonup> int) \<Rightarrow> string \<rightharpoonup> int" where
  "bump k n m = m(k \<mapsto> (case m k of None \<Rightarrow> 0 | Some x \<Rightarrow> x) + n)"

text \<open>\<open>for service, count := range counts { total[service] += count }\<close>.\<close>

definition add_calls :: "(string \<rightharpoonup> int) \<Rightarrow> (string \<rightharpoonup> int) \<Rightarrow> string \<rightharpoonup> int" where
  "add_calls counts sum_of = (\<lambda>k. case counts k of None \<Rightarrow> sum_of k
     | Some n \<Rightarrow> Some ((case sum_of k of None \<Rightarrow> 0 | Some x \<Rightarrow> x) + n))"

definition success_rate :: "stats_env \<Rightarrow> int \<Rightarrow> int \<Rightarrow> rat" where
  "success_rate e completed failed = (let rnd = se_rnd e; totalCompleted = completed + failed in
     if totalCompleted > 0 then rnd (rnd (rnd (of_int completed) / rnd (of_int totalCompleted)) * 100) else 0)"

definition average_duration :: "duration \<Rightarrow> int \<Rightarrow> string" where
  "average_duration totalDuration completedCount =
     (if completedCount > 0 then fmt_duration (go_div totalDuration completedCount) else ''0s'')"

text \<open>The time that a finished object took (\<^verbatim>\<open>time.Time.Sub\<close> saturates), added on 64 bits.\<close>

definition time_sub :: "instant \<Rightarrow> instant \<Rightarrow> duration" where
  "time_sub b a = max (- (2 ^ 63)) (min (2 ^ 63 - 1) (b - a))"

definition add_duration :: "instant option \<Rightarrow> instant option \<Rightarrow> duration \<Rightarrow> duration" where
  "add_duration began completion sum_of =
     (case (began, completion) of (Some a, Some b) \<Rightarrow> wrap64 (sum_of + time_sub b a) | _ \<Rightarrow> sum_of)"

section \<open>Migrations of repositories\<close>

record migration_stats =
  mss_total :: int
  mss_completed :: int
  mss_failed :: int
  mss_running :: int
  mss_pending :: int
  mss_paused :: int
  mss_cancelled :: int
  mss_repositories :: int
  mss_workItems :: int
  mss_pipelines :: int
  mss_dataTransferred :: int
  mss_adoCalls :: int
  mss_githubCalls :: int
  mss_totalDuration :: duration \<comment> \<open>a local variable\<close>

definition zero_migration_stats :: migration_stats where
  "zero_migration_stats = \<lparr>mss_total = 0, mss_completed = 0, mss_failed = 0, mss_running = 0, mss_pending = 0, mss_paused = 0,
     mss_cancelled = 0, mss_repositories = 0, mss_workItems = 0, mss_pipelines = 0, mss_dataTransferred = 0, mss_adoCalls = 0,
     mss_githubCalls = 0, mss_totalDuration = 0\<rparr>"

definition count_status_phase :: "ado_migration_status \<Rightarrow> migration_stats \<Rightarrow> migration_stats" where
  "count_status_phase st s = (case mst_phase st of
     PhaseCompleted \<Rightarrow> s\<lparr>mss_completed := mss_completed s + 1,
       mss_totalDuration := add_duration (mst_startTime st) (mst_completionTime st) (mss_totalDuration s)\<rparr>
   | PhaseFailed \<Rightarrow> s\<lparr>mss_failed := mss_failed s + 1\<rparr>
   | PhaseRunning \<Rightarrow> s\<lparr>mss_running := mss_running s + 1\<rparr>
   | PhasePending \<Rightarrow> s\<lparr>mss_pending := mss_pending s + 1\<rparr>
   | PhasePaused \<Rightarrow> s\<lparr>mss_paused := mss_paused s + 1\<rparr>
   | PhaseCancelled \<Rightarrow> s\<lparr>mss_cancelled := mss_cancelled s + 1\<rparr>
   | _ \<Rightarrow> s)"

definition add_statistics :: "migration_statistics \<Rightarrow> migration_stats \<Rightarrow> migration_stats" where
  "add_statistics x s = s\<lparr>mss_repositories := mss_repositories s + st_commitsMigrated x,
     mss_workItems := mss_workItems s + st_workItemsMigrated x, mss_pipelines := mss_pipelines s + st_pipelinesMigrated x,
     mss_dataTransferred := wrap64 (mss_dataTransferred s + st_dataTransferred x),
     mss_adoCalls := mss_adoCalls s + (case st_apiCalls x ''azureDevOps'' of None \<Rightarrow> 0 | Some n \<Rightarrow> n),
     mss_githubCalls := mss_githubCalls s + (case st_apiCalls x ''github'' of None \<Rightarrow> 0 | Some n \<Rightarrow> n)\<rparr>"

definition count_migration :: "instant \<Rightarrow> instant \<times> ado_migration \<Rightarrow> migration_stats \<Rightarrow> migration_stats" where
  "count_migration cutoffTime x s = (case x of (created, m) \<Rightarrow>
     if created < cutoffTime then s
     else let s = count_status_phase (mg_status m) (s\<lparr>mss_total := mss_total s + 1\<rparr>)
       in case mst_statistics (mg_status m) of None \<Rightarrow> s | Some st \<Rightarrow> add_statistics st s)"

text \<open>The counters, the success rate, the average duration and the range of time.\<close>

definition calculateMigrationStatistics :: "stats_env \<Rightarrow> string \<Rightarrow> duration \<Rightarrow> go_error + migration_stats \<times> rat \<times> string \<times> string" where
  "calculateMigrationStatistics e namespace duration = (case se_ado e namespace of
     Inl err \<Rightarrow> Inl err
   | Inr items \<Rightarrow> (let s = fold (count_migration (se_now e - duration)) items zero_migration_stats
       in Inr (s, success_rate e (mss_completed s) (mss_failed s), average_duration (mss_totalDuration s) (mss_completed s),
            fmt_duration duration)))"

definition answer_statistics :: "string \<Rightarrow> go_error + 'b \<Rightarrow> 'b answer" where
  "answer_statistics failed r = (case r of Inl err \<Rightarrow> writeError 500 (failed @ err_text err) | Inr x \<Rightarrow> (200, ObjectBody x))"

definition with_time_range :: "stats_env \<Rightarrow> string \<Rightarrow> (duration \<Rightarrow> 'b answer) \<Rightarrow> 'b answer" where
  "with_time_range e timeRange f = (case parseTimeRange e (if timeRange = [] then ''24h'' else timeRange) of
     Inl err \<Rightarrow> writeError 400 (''Invalid time range: '' @ err_text err) | Inr d \<Rightarrow> f d)"

definition handleGetMigrationStatistics :: "stats_env \<Rightarrow> string \<Rightarrow> string \<Rightarrow> (migration_stats \<times> rat \<times> string \<times> string) answer" where
  "handleGetMigrationStatistics e namespace timeRange = with_time_range e timeRange
     (\<lambda>d. answer_statistics ''Failed to calculate migration statistics: '' (calculateMigrationStatistics e namespace d))"

section \<open>Conversions of pipelines\<close>

record pipeline_stats =
  pss_total :: int
  pss_completed :: int
  pss_failed :: int
  pss_running :: int
  pss_pending :: int
  pss_converted :: "string \<rightharpoonup> int"
  pss_workflows :: int
  pss_types :: "string \<rightharpoonup> int"
  pss_totalDuration :: duration \<comment> \<open>a local variable\<close>

definition zero_pipeline_stats :: pipeline_stats where
  "zero_pipeline_stats = \<lparr>pss_total = 0, pss_completed = 0, pss_failed = 0, pss_running = 0, pss_pending = 0,
     pss_converted = [''build'' \<mapsto> 0, ''release'' \<mapsto> 0], pss_workflows = 0,
     pss_types = [''build'' \<mapsto> 0, ''release'' \<mapsto> 0, ''yaml'' \<mapsto> 0, ''classic'' \<mapsto> 0], pss_totalDuration = 0\<rparr>"

definition count_conv_phase :: "pipeline_status \<Rightarrow> pipeline_stats \<Rightarrow> pipeline_stats" where
  "count_conv_phase st s = (case pwt_phase st of
     ConvCompleted \<Rightarrow> s\<lparr>pss_completed := pss_completed s + 1,
       pss_totalDuration := add_duration (pwt_startTime st) (pwt_completionTime st) (pss_totalDuration s)\<rparr>
   | ConvFailed \<Rightarrow> s\<lparr>pss_failed := pss_failed s + 1\<rparr>
   | ConvConverting \<Rightarrow> s\<lparr>pss_running := pss_running s + 1\<rparr>
   | ConvPending \<Rightarrow> s\<lparr>pss_pending := pss_pending s + 1\<rparr>
   | _ \<Rightarrow> s)"

definition count_conversion :: "instant \<Rightarrow> instant \<times> pipeline_conversion \<Rightarrow> pipeline_stats \<Rightarrow> pipeline_stats" where
  "count_conversion cutoffTime x s = (case x of (created, m) \<Rightarrow>
     if created < cutoffTime then s
     else let s = s\<lparr>pss_total := pss_total s + 1, pss_types := bump (pws_type (pc_spec m)) 1 (pss_types s)\<rparr>;
              s = count_conv_phase (pc_status m) s
       in case pwt_statistics (pc_status m) of None \<Rightarrow> s
          | Some st \<Rightarrow> s\<lparr>pss_workflows := pss_workflows s + cst_workflowsGenerated st,
              pss_converted := fold (\<lambda>p. bump (plr_type p) 1) (pws_pipelines (pc_spec m)) (pss_converted s)\<rparr>)"

definition calculatePipelineStatistics :: "stats_env \<Rightarrow> string \<Rightarrow> duration \<Rightarrow> go_error + pipeline_stats \<times> rat \<times> string \<times> string" where
  "calculatePipelineStatistics e namespace duration = (case se_pw e namespace of
     Inl err \<Rightarrow> Inl err
   | Inr items \<Rightarrow> (let s = fold (count_conversion (se_now e - duration)) items zero_pipeline_stats
       in Inr (s, success_rate e (pss_completed s) (pss_failed s), average_duration (pss_totalDuration s) (pss_completed s),
            fmt_duration duration)))"

definition handleGetPipelineStatistics :: "stats_env \<Rightarrow> string \<Rightarrow> string \<Rightarrow> (pipeline_stats \<times> rat \<times> string \<times> string) answer" where
  "handleGetPipelineStatistics e namespace timeRange = with_time_range e timeRange
     (\<lambda>d. answer_statistics ''Failed to calculate pipeline statistics: '' (calculatePipelineStatistics e namespace d))"

section \<open>The overview\<close>

definition conv_phase_name :: "conv_phase \<Rightarrow> string" where
  "conv_phase_name p = (case p of ConvUnset \<Rightarrow> [] | ConvPending \<Rightarrow> ''Pending'' | ConvAnalyzing \<Rightarrow> ''Analyzing''
     | ConvConverting \<Rightarrow> ''Converting'' | ConvValidating \<Rightarrow> ''Validating'' | ConvCompleted \<Rightarrow> ''Completed''
     | ConvFailed \<Rightarrow> ''Failed'' | ConvCancelled \<Rightarrow> ''Cancelled'')"

record overview_stats =
  ovs_totalMigrations :: int
  ovs_running :: int
  ovs_completed :: int
  ovs_failed :: int
  ovs_paused :: int
  ovs_cancelled :: int
  ovs_commits :: int
  ovs_branches :: int
  ovs_tags :: int
  ovs_workItems :: int
  ovs_pullRequests :: int
  ovs_pipelines :: int
  ovs_repositories :: int
  ovs_dataTransferred :: int
  ovs_apiCalls :: "string \<rightharpoonup> int"
  ovs_averageProcessingRate :: string
  ovs_pipelineConversionRate :: string
  ovs_byType :: "string \<rightharpoonup> int"
  ovs_byPhase :: "string \<rightharpoonup> int"
  ovs_lastUpdated :: string

definition zero_overview :: "string \<Rightarrow> overview_stats" where
  "zero_overview today = \<lparr>ovs_totalMigrations = 0, ovs_running = 0, ovs_completed = 0, ovs_failed = 0, ovs_paused = 0, ovs_cancelled = 0,
     ovs_commits = 0, ovs_branches = 0, ovs_tags = 0, ovs_workItems = 0, ovs_pullRequests = 0, ovs_pipelines = 0, ovs_repositories = 0,
     ovs_dataTransferred = 0, ovs_apiCalls = Map.empty, ovs_averageProcessingRate = ''N/A'', ovs_pipelineConversionRate = ''N/A'',
     ovs_byType = Map.empty, ovs_byPhase = Map.empty, ovs_lastUpdated = today\<rparr>"

definition in_phase :: "string \<Rightarrow> overview_stats \<Rightarrow> overview_stats" where
  "in_phase phase s = s\<lparr>ovs_byPhase := bump phase 1 (ovs_byPhase s)\<rparr>"

definition overview_phase :: "migration_phase \<Rightarrow> overview_stats \<Rightarrow> overview_stats" where
  "overview_phase p s = (case p of
     PhaseRunning \<Rightarrow> s\<lparr>ovs_running := ovs_running s + 1\<rparr>
   | PhaseCompleted \<Rightarrow> s\<lparr>ovs_completed := ovs_completed s + 1\<rparr>
   | PhaseFailed \<Rightarrow> s\<lparr>ovs_failed := ovs_failed s + 1\<rparr>
   | PhasePaused \<Rightarrow> s\<lparr>ovs_paused := ovs_paused s + 1\<rparr>
   | PhaseCancelled \<Rightarrow> s\<lparr>ovs_cancelled := ovs_cancelled s + 1\<rparr>
   | _ \<Rightarrow> s)"

definition overview_migration :: "ado_migration \<Rightarrow> overview_stats \<Rightarrow> overview_stats" where
  "overview_migration m s =
     (let st = mg_status m; s = s\<lparr>ovs_totalMigrations := ovs_totalMigrations s + 1\<rparr>;
          s = in_phase (migration_phase_name (mst_phase st)) s;
          s = overview_phase (mst_phase st) s;
          s = s\<lparr>ovs_byType := bump (ms_type (mg_spec m)) 1 (ovs_byType s)\<rparr>
      in case mst_statistics st of None \<Rightarrow> s
       | Some x \<Rightarrow> s\<lparr>ovs_commits := ovs_commits s + st_commitsMigrated x, ovs_branches := ovs_branches s + st_branchesMigrated x,
           ovs_tags := ovs_tags s + st_tagsMigrated x, ovs_workItems := ovs_workItems s + st_workItemsMigrated x,
           ovs_pullRequests := ovs_pullRequests s + st_pullRequestsMigrated x, ovs_pipelines := ovs_pipelines s + st_pipelinesMigrated x,
           ovs_repositories := ovs_repositories s + st_repositoriesCreated x,
           ovs_dataTransferred := wrap64 (ovs_dataTransferred s + st_dataTransferred x),
           ovs_apiCalls := add_calls (st_apiCalls x) (ovs_apiCalls s)\<rparr>)"

definition overview_work_items :: "wi_migration \<Rightarrow> overview_stats \<Rightarrow> overview_stats" where
  "overview_work_items m s =
     (let st = wm_status m; s = in_phase (migration_phase_name (wms_phase st)) s
      in case wms_statistics st of None \<Rightarrow> s
       | Some x \<Rightarrow> s\<lparr>ovs_workItems := ovs_workItems s + wst_itemsMigrated x,
           ovs_dataTransferred := wrap64 (ovs_dataTransferred s + wst_dataTransferred x),
           ovs_apiCalls := add_calls (map_of (wst_apiCalls x)) (ovs_apiCalls s)\<rparr>)"

text \<open>With the numbers of pipelines analysed and converted.\<close>

definition overview_conversion :: "pipeline_conversion \<Rightarrow> overview_stats \<times> int \<times> int \<Rightarrow> overview_stats \<times> int \<times> int" where
  "overview_conversion m acc = (case acc of (s, totalPipelines, successfulPipelines) \<Rightarrow>
     let st = pc_status m; s = in_phase (conv_phase_name (pwt_phase st)) s
     in case pwt_statistics st of None \<Rightarrow> (s, totalPipelines, successfulPipelines)
      | Some x \<Rightarrow> (s\<lparr>ovs_pipelines := ovs_pipelines s + cst_workflowsGenerated x, ovs_apiCalls := add_calls (cst_apiCalls x) (ovs_apiCalls s)\<rparr>,
          totalPipelines + cst_pipelinesAnalyzed x,
          if pwt_phase st = ConvCompleted then successfulPipelines + cp_completed (pwt_progress st) else successfulPipelines))"

definition calculateOverviewStatistics :: "stats_env \<Rightarrow> string \<Rightarrow> go_error + overview_stats" where
  "calculateOverviewStatistics e namespace = (case se_ado e namespace of Inl err \<Rightarrow> Inl err
   | Inr migrations \<Rightarrow> (let s = fold overview_migration (map snd migrations) (zero_overview (se_today e)) in
     case se_wi e namespace of Inl err \<Rightarrow> Inl err
   | Inr workItems \<Rightarrow> (let s = fold overview_work_items workItems s in
     case se_pw e namespace of Inl err \<Rightarrow> Inl err
   | Inr pipelines \<Rightarrow> (case fold overview_conversion (map snd pipelines) (s, 0, 0) of (s, totalPipelines, successfulPipelines) \<Rightarrow>
       let rnd = se_rnd e in
       Inr (if totalPipelines > 0
            then s\<lparr>ovs_pipelineConversionRate :=
              se_percent e (rnd (rnd (rnd (of_int successfulPipelines) / rnd (of_int totalPipelines)) * 100))\<rparr>
            else s)))))"

definition handleGetOverviewStatistics :: "stats_env \<Rightarrow> string \<Rightarrow> overview_stats answer" where
  "handleGetOverviewStatistics e namespace = answer_statistics ''Failed to calculate overview statistics: ''
     (calculateOverviewStatistics e (if namespace = [] then ''default'' else namespace))"

section \<open>The counters count\<close>

abbreviation migrations_in :: "migration_phase \<Rightarrow> ado_migration list \<Rightarrow> int" where
  "migrations_in p ms \<equiv> int (length (filter (\<lambda>m. mst_phase (mg_status m) = p) ms))"

definition recent :: "instant \<Rightarrow> (instant \<times> ado_migration) list \<Rightarrow> ado_migration list" where
  "recent cutoff items = map snd (filter (\<lambda>(created, m). \<not> created < cutoff) items)"

lemma count_migration_old: "created < cutoff \<Longrightarrow> count_migration cutoff (created, m) s = s"
  by (simp add: count_migration_def)

lemma count_migration_counts:
  "mss_total (fold (count_migration cutoff) items s) = mss_total s + int (length (recent cutoff items))
   \<and> mss_completed (fold (count_migration cutoff) items s) = mss_completed s + migrations_in PhaseCompleted (recent cutoff items)
   \<and> mss_failed (fold (count_migration cutoff) items s) = mss_failed s + migrations_in PhaseFailed (recent cutoff items)
   \<and> mss_running (fold (count_migration cutoff) items s) = mss_running s + migrations_in PhaseRunning (recent cutoff items)
   \<and> mss_pending (fold (count_migration cutoff) items s) = mss_pending s + migrations_in PhasePending (recent cutoff items)
   \<and> mss_paused (fold (count_migration cutoff) items s) = mss_paused s + migrations_in PhasePaused (recent cutoff items)
   \<and> mss_cancelled (fold (count_migration cutoff) items s) = mss_cancelled s + migrations_in PhaseCancelled (recent cutoff items)"
proof (induction items arbitrary: s)
  case (Cons x items)
  obtain created m where x: "x = (created, m)" by fastforce
  have "mss_total (count_migration cutoff x s) = mss_total s + (if created < cutoff then 0 else 1)
    \<and> (\<forall>p c. (p, c) \<in> {(PhaseCompleted, mss_completed), (PhaseFailed, mss_failed), (PhaseRunning, mss_running), (PhasePending, mss_pending),
          (PhasePaused, mss_paused), (PhaseCancelled, mss_cancelled)}
        \<longrightarrow> c (count_migration cutoff x s) = c s + (if \<not> created < cutoff \<and> mst_phase (mg_status m) = p then 1 else 0))"
    by (cases "mst_phase (mg_status m)"; cases "mst_statistics (mg_status m)")
      (auto simp: x count_migration_def count_status_phase_def add_statistics_def Let_def)
  with Cons.IH [of "count_migration cutoff x s"] show ?case
    by (simp add: x recent_def)
qed (simp add: recent_def)

lemma success_rate_range:
  assumes "float_model (se_rnd e) conv" "0 \<le> completed" "0 \<le> failed"
  shows "0 \<le> success_rate e completed failed \<and> success_rate e completed failed \<le> 100"
proof (cases "completed + failed > 0")
  case True
  let ?c = "se_rnd e (of_int completed)" and ?t = "se_rnd e (of_int (completed + failed))"
  have mono: "x \<le> y \<Longrightarrow> se_rnd e x \<le> se_rnd e y" for x y
    using assms(1) by (simp add: float_model_def)
  have exact: "se_rnd e 0 = 0" "se_rnd e 1 = 1" "se_rnd e 100 = 100"
    using rnd_int [OF assms(1), of 0] rnd_int [OF assms(1), of 1] rnd_int [OF assms(1), of 100] by simp_all
  have "0 \<le> ?c" "?c \<le> ?t" "1 \<le> ?t"
    using mono [of 0 "of_int completed"] mono [of "of_int completed" "of_int (completed + failed)"]
      mono [of 1 "of_int (completed + failed)"] assms(2,3) True exact by (simp_all del: of_int_add)
  then have "0 \<le> ?c / ?t" "?c / ?t \<le> 1" by simp_all
  then have "0 \<le> se_rnd e (?c / ?t)" "se_rnd e (?c / ?t) \<le> 1"
    using mono [of 0 "?c / ?t"] mono [of "?c / ?t" 1] unfolding exact by simp_all
  then have "0 \<le> se_rnd e (se_rnd e (?c / ?t) * 100)" "se_rnd e (se_rnd e (?c / ?t) * 100) \<le> 100"
    using mono [of 0 "se_rnd e (?c / ?t) * 100"] mono [of "se_rnd e (?c / ?t) * 100" 100] unfolding exact by simp_all
  with True show ?thesis by (simp add: success_rate_def Let_def)
qed (simp add: success_rate_def Let_def)

text \<open>
  C40. The migration statistics are exact: the counters are the numbers of migrations created since the cut-off, in all
  and per phase, whatever order the objects come in, and the success rate is a percentage, for every arithmetic that rounds
  monotonically.
\<close>

theorem statistics_exact:
  assumes "float_model (se_rnd e) conv" and "se_ado e namespace = Inr items"
  shows "\<exists>s rate. calculateMigrationStatistics e namespace duration
      = Inr (s, rate, average_duration (mss_totalDuration s) (mss_completed s), fmt_duration duration)
    \<and> mss_total s = int (length (recent (se_now e - duration) items))
    \<and> mss_completed s = migrations_in PhaseCompleted (recent (se_now e - duration) items)
    \<and> mss_failed s = migrations_in PhaseFailed (recent (se_now e - duration) items)
    \<and> mss_running s = migrations_in PhaseRunning (recent (se_now e - duration) items)
    \<and> mss_pending s = migrations_in PhasePending (recent (se_now e - duration) items)
    \<and> mss_paused s = migrations_in PhasePaused (recent (se_now e - duration) items)
    \<and> mss_cancelled s = migrations_in PhaseCancelled (recent (se_now e - duration) items)
    \<and> 0 \<le> rate \<and> rate \<le> 100"
proof -
  let ?s = "fold (count_migration (se_now e - duration)) items zero_migration_stats"
  note counts = count_migration_counts [of "se_now e - duration" items zero_migration_stats]
  have "0 \<le> success_rate e (mss_completed ?s) (mss_failed ?s) \<and> success_rate e (mss_completed ?s) (mss_failed ?s) \<le> 100"
    using success_rate_range [OF assms(1), of "mss_completed ?s" "mss_failed ?s"] counts by (simp add: zero_migration_stats_def)
  with counts show ?thesis
    by (intro exI [of _ ?s] exI [of _ "success_rate e (mss_completed ?s) (mss_failed ?s)"] conjI)
      (simp_all add: calculateMigrationStatistics_def assms(2) Let_def zero_migration_stats_def)
qed

definition sample_stats :: "stats_env" where
  "sample_stats = \<lparr>se_ado = (\<lambda>_. Inr [(9 * hour, zero_migration), (0, zero_migration)]), se_wi = (\<lambda>_. Inr []), se_pw = (\<lambda>_. Inr []),
     se_now = 10 * hour, se_parse = (\<lambda>_. Inl (PlainError ''time: invalid duration'')), se_rnd = id, se_percent = (\<lambda>_. []),
     se_today = ''2025''\<rparr>"

theorem statistics_exact_witness:
  "\<exists>s rate. calculateMigrationStatistics sample_stats [] (2 * hour)
      = Inr (s, rate, average_duration (mss_totalDuration s) (mss_completed s), fmt_duration (2 * hour))
    \<and> mss_total s = 1 \<and> 0 \<le> rate \<and> rate \<le> 100"
  using statistics_exact [of sample_stats floor "[]" "[(9 * hour, zero_migration), (0, zero_migration)]" "2 * hour"]
  by (auto simp: sample_stats_def float_model_exact recent_def hour_def minute_def second_def)

section \<open>The overview counts three kinds\<close>

definition counter_at :: "(string \<rightharpoonup> int) \<Rightarrow> string \<Rightarrow> int" where
  "counter_at m k = (case m k of None \<Rightarrow> 0 | Some x \<Rightarrow> x)"

lemma counter_at_bump: "counter_at (bump k n m) k' = counter_at m k' + (if k' = k then n else 0)"
  by (simp add: counter_at_def bump_def)

text \<open>A fold whose steps count what has a property counts what has it.\<close>

lemma fold_counts:
  assumes "\<And>x s. c (f x s) = c s + (if P x then 1 else (0 :: int))"
  shows "c (fold f xs s) = c s + int (length (filter P xs))"
  by (induction xs arbitrary: s) (simp_all add: assms)

lemma overview_migrations_count:
  "counter_at (ovs_byPhase (fold overview_migration ms s)) p
     = counter_at (ovs_byPhase s) p + int (length (filter (\<lambda>m. migration_phase_name (mst_phase (mg_status m)) = p) ms))"
  "ovs_completed (fold overview_migration ms s) = ovs_completed s + migrations_in PhaseCompleted ms"
  "ovs_totalMigrations (fold overview_migration ms s) = ovs_totalMigrations s + int (length ms)"
proof -
  have "counter_at (ovs_byPhase (overview_migration m s)) p
     = counter_at (ovs_byPhase s) p + (if migration_phase_name (mst_phase (mg_status m)) = p then 1 else 0)
   \<and> ovs_completed (overview_migration m s) = ovs_completed s + (if mst_phase (mg_status m) = PhaseCompleted then 1 else 0)
   \<and> ovs_totalMigrations (overview_migration m s) = ovs_totalMigrations s + (if True then 1 else 0)" for m s
    by (cases "mst_phase (mg_status m)"; cases "mst_statistics (mg_status m)")
      (simp_all add: overview_migration_def in_phase_def overview_phase_def counter_at_bump Let_def eq_commute [of _ p])
  note one = conjunct1 [OF this] conjunct1 [OF conjunct2 [OF this]] conjunct2 [OF conjunct2 [OF this]]
  show "counter_at (ovs_byPhase (fold overview_migration ms s)) p
     = counter_at (ovs_byPhase s) p + int (length (filter (\<lambda>m. migration_phase_name (mst_phase (mg_status m)) = p) ms))"
    by (rule fold_counts [of "\<lambda>s. counter_at (ovs_byPhase s) p" overview_migration, OF one(1)])
  show "ovs_completed (fold overview_migration ms s) = ovs_completed s + migrations_in PhaseCompleted ms"
    by (rule fold_counts [of ovs_completed overview_migration, OF one(2)])
  show "ovs_totalMigrations (fold overview_migration ms s) = ovs_totalMigrations s + int (length ms)"
    using fold_counts [of ovs_totalMigrations overview_migration, OF one(3)] by simp
qed

lemma overview_work_items_count:
  "counter_at (ovs_byPhase (fold overview_work_items ms s)) p
     = counter_at (ovs_byPhase s) p + int (length (filter (\<lambda>m. migration_phase_name (wms_phase (wm_status m)) = p) ms))"
  "ovs_completed (fold overview_work_items ms s) = ovs_completed s"
  "ovs_totalMigrations (fold overview_work_items ms s) = ovs_totalMigrations s"
proof -
  have one: "counter_at (ovs_byPhase (overview_work_items m s)) p
     = counter_at (ovs_byPhase s) p + (if migration_phase_name (wms_phase (wm_status m)) = p then 1 else 0)" for m s
    by (cases "wms_statistics (wm_status m)")
      (simp_all add: overview_work_items_def in_phase_def counter_at_bump Let_def eq_commute [of _ p])
  show "counter_at (ovs_byPhase (fold overview_work_items ms s)) p
     = counter_at (ovs_byPhase s) p + int (length (filter (\<lambda>m. migration_phase_name (wms_phase (wm_status m)) = p) ms))"
    by (rule fold_counts [of "\<lambda>s. counter_at (ovs_byPhase s) p" overview_work_items, OF one])
  have "ovs_completed (overview_work_items m s) = ovs_completed s" "ovs_totalMigrations (overview_work_items m s) = ovs_totalMigrations s"
    for m s by (simp_all add: overview_work_items_def in_phase_def Let_def split: option.splits)
  then show "ovs_completed (fold overview_work_items ms s) = ovs_completed s"
    "ovs_totalMigrations (fold overview_work_items ms s) = ovs_totalMigrations s"
    by (induction ms arbitrary: s) simp_all
qed

lemma overview_conversions_count:
  "counter_at (ovs_byPhase (fst (fold overview_conversion ms acc))) p
     = counter_at (ovs_byPhase (fst acc)) p + int (length (filter (\<lambda>m. conv_phase_name (pwt_phase (pc_status m)) = p) ms))"
  "ovs_completed (fst (fold overview_conversion ms acc)) = ovs_completed (fst acc)"
  "ovs_totalMigrations (fst (fold overview_conversion ms acc)) = ovs_totalMigrations (fst acc)"
proof -
  have one: "counter_at (ovs_byPhase (fst (overview_conversion m acc))) p
     = counter_at (ovs_byPhase (fst acc)) p + (if conv_phase_name (pwt_phase (pc_status m)) = p then 1 else 0)" for m acc
    by (cases acc; cases "pwt_statistics (pc_status m)")
      (simp_all add: overview_conversion_def in_phase_def counter_at_bump Let_def eq_commute [of _ p])
  show "counter_at (ovs_byPhase (fst (fold overview_conversion ms acc))) p
     = counter_at (ovs_byPhase (fst acc)) p + int (length (filter (\<lambda>m. conv_phase_name (pwt_phase (pc_status m)) = p) ms))"
    by (rule fold_counts [of "\<lambda>acc. counter_at (ovs_byPhase (fst acc)) p" overview_conversion, OF one])
  have "ovs_completed (fst (overview_conversion m acc)) = ovs_completed (fst acc)"
    "ovs_totalMigrations (fst (overview_conversion m acc)) = ovs_totalMigrations (fst acc)" for m acc
    by (simp_all add: overview_conversion_def in_phase_def Let_def split: option.splits prod.splits)
  then show "ovs_completed (fst (fold overview_conversion ms acc)) = ovs_completed (fst acc)"
    "ovs_totalMigrations (fst (fold overview_conversion ms acc)) = ovs_totalMigrations (fst acc)"
    by (induction ms arbitrary: acc) simp_all
qed

text \<open>The phases of all three kinds of object are counted together, the totals are those of repository migrations alone: a
  completed work-item migration or conversion is a completed one in one figure of the overview and none in the other.\<close>

lemma overview_counts_three_kinds:
  assumes "se_ado e namespace = Inr ms" "se_wi e namespace = Inr ws" "se_pw e namespace = Inr ps"
  shows "\<exists>s. calculateOverviewStatistics e namespace = Inr s
    \<and> ovs_totalMigrations s = int (length ms) \<and> ovs_completed s = migrations_in PhaseCompleted (map snd ms)
    \<and> counter_at (ovs_byPhase s) ''Completed'' = migrations_in PhaseCompleted (map snd ms)
        + int (length (filter (\<lambda>m. wms_phase (wm_status m) = PhaseCompleted) ws))
        + int (length (filter (\<lambda>m. pwt_phase (pc_status m) = ConvCompleted) (map snd ps)))"
proof -
  let ?s1 = "fold overview_migration (map snd ms) (zero_overview (se_today e))"
  let ?s2 = "fold overview_work_items ws ?s1"
  let ?r = "fold overview_conversion (map snd ps) (?s2, 0, 0)"
  have phases: "(migration_phase_name p = ''Completed'') = (p = PhaseCompleted)" for p
    by (cases p) (simp_all add: migration_phase_name_def)
  have conv: "(conv_phase_name q = ''Completed'') = (q = ConvCompleted)" for q
    by (cases q) (simp_all add: conv_phase_name_def)
  have start: "counter_at (ovs_byPhase (zero_overview t)) p = 0" "ovs_completed (zero_overview t) = 0"
    "ovs_totalMigrations (zero_overview t) = 0" for t p
    by (simp_all add: zero_overview_def counter_at_def)
  obtain s where "calculateOverviewStatistics e namespace = Inr s" "ovs_byPhase s = ovs_byPhase (fst ?r)"
    "ovs_completed s = ovs_completed (fst ?r)" "ovs_totalMigrations s = ovs_totalMigrations (fst ?r)"
    using assms by (cases ?r) (auto simp: calculateOverviewStatistics_def Let_def)
  then show ?thesis
    by (intro exI [of _ s])
      (simp add: overview_conversions_count overview_work_items_count overview_migrations_count phases conv
        start)
qed

end
